(* ===== verification/Nnrp_Prelude.thy ===== *)
theory Nnrp_Prelude
  imports Main "HOL-Library.Word"
begin

text \<open>
  Shared vocabulary of the development: the exceptions the Python code raises, the result
  type every fallible operation returns, byte strings, Python slices, and the semantics of
  calling an \<open>IntFlag\<close> class.  Nothing here is specific to one component.

  A Python call that may raise is a HOL function into \<open>exn + 'a\<close>: \<open>Inl\<close> carries the
  exception, \<open>Inr\<close> the returned value.  A Python \<open>int\<close> is an HOL \<open>int\<close>; a
  \<open>bytes\<close>, \<open>bytearray\<close> or \<open>memoryview\<close> is a list of 8-bit words.
\<close>

unbundle bit_operations_syntax

section \<open>Results and exceptions\<close>

text \<open>
  \<open>ValueError\<close> carries the fixed part of the message, so that two different checks of one
  function stay two different branches of the model.  \<open>StructError\<close> is \<open>struct.error\<close>.
\<close>

datatype exn = ValueError string | TypeError string | StructError | RuntimeError string
  | NotImplementedError string | KeyError

type_synonym 'a res = "exn + 'a"
type_synonym byte = "8 word"
type_synonym bytes = "byte list"

abbreviation ve :: "string \<Rightarrow> 'a res" where
  "ve msg \<equiv> Inl (ValueError msg)"

definition bind_res :: "'a res \<Rightarrow> ('a \<Rightarrow> 'b res) \<Rightarrow> 'b res" where
  "bind_res m k = (case m of Inl e \<Rightarrow> Inl e | Inr x \<Rightarrow> k x)"

text \<open>The comprehension \<open>tuple(f(x) for x in xs)\<close>: the first exception stops it.\<close>

fun map_res :: "('a \<Rightarrow> 'b res) \<Rightarrow> 'a list \<Rightarrow> 'b list res" where
  "map_res f [] = Inr []"
| "map_res f (x # xs) = bind_res (f x) (\<lambda>y. bind_res (map_res f xs) (\<lambda>ys. Inr (y # ys)))"

named_theorems res_simps \<open>equations that take a successful result apart\<close>
named_theorems codec_defs \<open>definitions of the fixed-width metadata codecs\<close>

lemma bind_res_simps [simp]:
  "bind_res (Inl e) k = Inl e"
  "bind_res (Inr x) k = k x"
  by (simp_all add: bind_res_def)

lemma bind_res_cong [fundef_cong]:
  "m = m' \<Longrightarrow> (\<And>x. m' = Inr x \<Longrightarrow> k x = k' x) \<Longrightarrow> bind_res m k = bind_res m' k'"
  by (auto simp: bind_res_def split: sum.splits)

lemma bind_res_Inr_iff [res_simps]:
  "bind_res m k = Inr y \<longleftrightarrow> (\<exists>x. m = Inr x \<and> k x = Inr y)"
  by (cases m) auto

lemma bind_res_Inl_iff:
  "bind_res m k = Inl e \<longleftrightarrow> m = Inl e \<or> (\<exists>x. m = Inr x \<and> k x = Inl e)"
  by (cases m) auto

lemma if_ve_Inr_iff [res_simps]:
  "(if c then Inl e else r) = Inr y \<longleftrightarrow> \<not> c \<and> r = Inr y"
  by simp

lemma bind_res_assoc: "bind_res (bind_res m f) g = bind_res m (\<lambda>x. bind_res (f x) g)"
  by (cases m) auto

lemma map_res_cong [fundef_cong]:
  "xs = ys \<Longrightarrow> (\<And>x. x \<in> set ys \<Longrightarrow> f x = g x) \<Longrightarrow> map_res f xs = map_res g ys"
  by (induction xs arbitrary: ys) (auto intro!: bind_res_cong)

lemma map_res_Inr_iff: "map_res f xs = Inr ys \<longleftrightarrow> list_all2 (\<lambda>x y. f x = Inr y) xs ys"
  by (induction xs arbitrary: ys) (auto simp: res_simps list_all2_Cons1)

lemma map_res_length: "map_res f xs = Inr ys \<Longrightarrow> length ys = length xs"
  by (simp add: map_res_Inr_iff list_all2_lengthD)

lemma map_res_total: "(\<And>x. x \<in> set xs \<Longrightarrow> f x = Inr (g x)) \<Longrightarrow> map_res f xs = Inr (map g xs)"
  by (induction xs) auto

lemma map_res_append:
  "map_res f (xs @ ys) = bind_res (map_res f xs) (\<lambda>as. bind_res (map_res f ys) (\<lambda>bs. Inr (as @ bs)))"
  by (induction xs) (auto simp: bind_res_def split: sum.splits)

lemma map_res_set:
  "map_res f xs = Inr ys \<Longrightarrow> y \<in> set ys \<Longrightarrow> \<exists>x \<in> set xs. f x = Inr y"
  "map_res f xs = Inr ys \<Longrightarrow> x \<in> set xs \<Longrightarrow> \<exists>y \<in> set ys. f x = Inr y"
  by (induction xs arbitrary: ys) (auto simp: res_simps)

section \<open>Optional values\<close>

text \<open>\<open>x is not None and P(x)\<close>\<close>

definition given_and :: "'a option \<Rightarrow> ('a \<Rightarrow> bool) \<Rightarrow> bool" where
  "given_and x P = (case x of None \<Rightarrow> False | Some y \<Rightarrow> P y)"

lemma given_and_iff [simp]: "given_and x P \<longleftrightarrow> (\<exists>y. x = Some y \<and> P y)"
  by (cases x) (simp_all add: given_and_def)

section \<open>Lengths and slices\<close>

text \<open>
  \<open>len(xs)\<close> as a Python integer, and \<open>xs[a:b]\<close>: a negative bound counts from the end,
  and bounds outside the sequence are clamped.
\<close>

abbreviation len :: "'a list \<Rightarrow> int" where
  "len xs \<equiv> int (length xs)"

definition clamp_index :: "int \<Rightarrow> int \<Rightarrow> int" where
  "clamp_index n i = (if i < 0 then max 0 (i + n) else min i n)"

definition py_slice :: "int \<Rightarrow> int \<Rightarrow> 'a list \<Rightarrow> 'a list" where
  "py_slice a b xs =
     (let i = clamp_index (len xs) a; j = clamp_index (len xs) b
      in take (nat (j - i)) (drop (nat i) xs))"

definition slice_from :: "int \<Rightarrow> 'a list \<Rightarrow> 'a list" where
  "slice_from a xs = drop (nat (clamp_index (len xs) a)) xs"

lemma py_slice_nonneg:
  assumes "0 \<le> a" "0 \<le> b"
  shows "py_slice a b xs = take (nat b - nat a) (drop (nat a) xs)"
proof -
  have b: "take (nat (b - a)) ys = take (nat b - nat a) ys" for ys :: "'a list"
    using assms by (simp add: nat_diff_distrib')
  show ?thesis
  proof (cases "a \<le> len xs")
    case True
    then show ?thesis
      using assms by (auto simp: py_slice_def clamp_index_def Let_def min_def b)
  next
    case False
    then show ?thesis
      using assms by (auto simp: py_slice_def clamp_index_def Let_def min_def)
  qed
qed

lemma slice_from_nonneg: "0 \<le> a \<Longrightarrow> slice_from a xs = drop (nat a) xs"
  by (auto simp: slice_from_def clamp_index_def min_def nat_le_iff)

lemma py_slice_nat [simp]: "py_slice (int a) (int b) xs = take (b - a) (drop a xs)"
  by (simp add: py_slice_nonneg)

lemma py_slice_0 [simp]: "0 \<le> b \<Longrightarrow> py_slice 0 b xs = take (nat b) xs"
  by (simp add: py_slice_nonneg)

lemma length_py_slice:
  "0 \<le> a \<Longrightarrow> a \<le> b \<Longrightarrow> b \<le> len xs \<Longrightarrow> len (py_slice a b xs) = b - a"
  by (simp add: py_slice_nonneg)

lemma py_slice_append_prefix:
  "a = 0 \<Longrightarrow> b = len xs \<Longrightarrow> py_slice a b (xs @ ys) = xs"
  by simp

lemma py_slice_append_mid:
  "a = len xs \<Longrightarrow> b = a + len ys \<Longrightarrow> py_slice a b (xs @ ys @ zs) = ys"
  by (simp add: py_slice_nonneg nat_add_distrib)

lemma drop_py_slice:
  assumes "0 \<le> a" "a \<le> b"
  shows "drop (nat a) xs = py_slice a b xs @ drop (nat b) xs"
proof -
  have "nat b = nat a + (nat b - nat a)"
    using assms by simp
  then have "drop (nat b) xs = drop (nat b - nat a) (drop (nat a) xs)"
    by (metis drop_drop add.commute)
  then show ?thesis
    using assms by (simp only: py_slice_nonneg order_trans append_take_drop_id)
qed

lemma py_slice_split:
  assumes "0 \<le> a" "a \<le> b" "b \<le> c"
  shows "py_slice a c xs = py_slice a b xs @ py_slice b c xs"
proof -
  have c: "nat c - nat a = (nat b - nat a) + (nat c - nat b)" "(nat b - nat a) + nat a = nat b"
    using assms by simp_all
  have "py_slice a c xs = take ((nat b - nat a) + (nat c - nat b)) (drop (nat a) xs)"
    using assms by (simp add: py_slice_nonneg flip: c(1))
  then show ?thesis
    using assms by (simp only: take_add drop_drop c(2) py_slice_nonneg order_trans [of a b c]
        order_trans [of 0 a b] order_trans [of 0 a c])
qed

lemma slice_from_append: "a = len xs \<Longrightarrow> slice_from a (xs @ ys) = ys"
  by (simp add: slice_from_nonneg)

text \<open>\<open>any(view)\<close> on bytes: some byte is not zero.\<close>

definition any_nonzero :: "bytes \<Rightarrow> bool" where
  "any_nonzero bs = list_ex (\<lambda>b. b \<noteq> 0) bs"

definition zeros :: "int \<Rightarrow> bytes" where
  "zeros n = replicate (nat n) 0"

lemma length_zeros [simp]: "length (zeros n) = nat n"
  by (simp add: zeros_def)

lemma any_nonzero_simps [simp]:
  "\<not> any_nonzero []" "\<not> any_nonzero (zeros n)"
  "any_nonzero (xs @ ys) \<longleftrightarrow> any_nonzero xs \<or> any_nonzero ys"
  by (auto simp: any_nonzero_def zeros_def list_ex_iff)

lemma not_any_nonzero_iff: "\<not> any_nonzero bs \<longleftrightarrow> bs = zeros (len bs)"
  by (induction bs) (auto simp: any_nonzero_def zeros_def nat_add_distrib)

section \<open>Sequences of operations\<close>

text \<open>
  A component whose operations all keep a predicate keeps it over any sequence of them.
\<close>

locale kept =
  fixes op :: "'op \<Rightarrow> 's \<Rightarrow> 's"
    and inv :: "'s \<Rightarrow> bool"
  assumes op: "inv s \<Longrightarrow> inv (op c s)"
begin

lemma run: "inv s \<Longrightarrow> inv (fold op cs s)"
  by (induction cs arbitrary: s) (auto intro: op)

end

section \<open>IntFlag calls and bit tests\<close>

text \<open>
  \<open>F(value)\<close> for an \<open>IntFlag\<close> class \<open>F\<close> (boundary \<open>KEEP\<close>, Python 3.11 and later):
  a non-negative value is kept as it is, unknown bits included; a negative value is read as
  a two's complement number over the known bits, or over its own bits when it is longer.
  \<open>all_bits\<close> is the mask of the class.
\<close>

fun bit_length :: "nat \<Rightarrow> nat" where
  "bit_length n = (if n = 0 then 0 else Suc (bit_length (n div 2)))"

declare bit_length.simps [simp del]

definition int_flag :: "int \<Rightarrow> int \<Rightarrow> int" where
  "int_flag all_bits v =
     (if 0 \<le> v then v
      else if - all_bits - 1 \<le> v then all_bits + 1 + v
      else max (all_bits + 1) (2 ^ bit_length (nat (- v))) + v)"

lemma int_flag_nonneg [simp]: "0 \<le> v \<Longrightarrow> int_flag m v = v"
  by (simp add: int_flag_def)

lemma bit_length_upper: "n < 2 ^ bit_length n"
proof (induction n rule: bit_length.induct)
  case (1 n)
  then show ?case by (subst bit_length.simps) auto
qed

lemma int_flag_ge_0: "0 \<le> int_flag m v"
proof (cases "0 \<le> v \<or> - m - 1 \<le> v")
  case True
  then show ?thesis by (auto simp: int_flag_def)
next
  case False
  have "nat (- v) < 2 ^ bit_length (nat (- v))"
    by (rule bit_length_upper)
  then have "int (nat (- v)) < 2 ^ bit_length (nat (- v))"
    by (metis of_nat_less_iff of_nat_numeral of_nat_power)
  with False show ?thesis by (simp add: int_flag_def max_def)
qed

text \<open>A Python integer used as a condition.\<close>

abbreviation truthy :: "int \<Rightarrow> bool" where
  "truthy v \<equiv> v \<noteq> 0"

lemma and_not_mask_zero_bounds:
  fixes v m :: int
  assumes "v AND NOT m = 0" "0 \<le> v" "0 \<le> m"
  shows "v \<le> m"
proof -
  have "v = v AND m"
    using assms(1) by (metis bit.conj_disj_distrib bit.disj_cancel_right bit.conj_one_right or.right_neutral)
  then show ?thesis
    using assms(2,3) by (metis AND_upper2)
qed

end
