(* ===== verification/Wire_Struct.thy ===== *)
theory Wire_Struct
  imports Nnrp_Prelude
begin

text \<open>
  The part of Python's \<open>struct\<close> module the wire code uses: little-endian formats
  (\<open>"<..."\<close>) of unsigned fields \<open>B\<close>, \<open>H\<close>, \<open>I\<close>, \<open>Q\<close> and the signed field \<open>h\<close>, without
  alignment.  Packing raises
  \<open>struct.error\<close> when a value does not fit its field or the number of values is wrong;
  unpacking raises it when the length is not \<open>calcsize\<close>.

  On top of it stand the shared \<open>unpack\<close> of \<open>_FixedWidthMetadata\<close>, the locales that state
  what a fixed-width codec promises, and what follows for every such codec: framing,
  injectivity and tables of consecutive records.
\<close>

section \<open>struct.Struct\<close>

datatype field = FB | FH | FI | FQ | Fh

fun field_size :: "field \<Rightarrow> nat" where
  "field_size FB = 1"
| "field_size FH = 2"
| "field_size FI = 4"
| "field_size FQ = 8"
| "field_size Fh = 2"

text \<open>The least value of a field.\<close>

fun field_low :: "field \<Rightarrow> int" where
  "field_low FB = 0"
| "field_low FH = 0"
| "field_low FI = 0"
| "field_low FQ = 0"
| "field_low Fh = - 32768"

definition calcsize :: "field list \<Rightarrow> nat" where
  "calcsize fmt = sum_list (map field_size fmt)"

fun le_bytes :: "nat \<Rightarrow> int \<Rightarrow> bytes" where
  "le_bytes 0 v = []"
| "le_bytes (Suc n) v = word_of_int v # le_bytes n (v div 256)"

fun le_int :: "bytes \<Rightarrow> int" where
  "le_int [] = 0"
| "le_int (b # bs) = uint b + 256 * le_int bs"

definition fits :: "field \<Rightarrow> int \<Rightarrow> bool" where
  "fits f v \<longleftrightarrow> field_low f \<le> v \<and> v < field_low f + 256 ^ field_size f"

text \<open>Two's complement: the bytes of a signed field above its greatest value stand for negatives.\<close>

definition field_int :: "field \<Rightarrow> bytes \<Rightarrow> int" where
  "field_int f bs =
     (if le_int bs < field_low f + 256 ^ field_size f then le_int bs
      else le_int bs - 256 ^ field_size f)"

fun struct_pack :: "field list \<Rightarrow> int list \<Rightarrow> bytes res" where
  "struct_pack [] [] = Inr []"
| "struct_pack (f # fs) (v # vs) =
     (if fits f v
      then bind_res (struct_pack fs vs) (\<lambda>bs. Inr (le_bytes (field_size f) v @ bs))
      else Inl StructError)"
| "struct_pack _ _ = Inl StructError"

fun unpack_fields :: "field list \<Rightarrow> bytes \<Rightarrow> int list" where
  "unpack_fields [] bs = []"
| "unpack_fields (f # fs) bs =
     field_int f (take (field_size f) bs) # unpack_fields fs (drop (field_size f) bs)"

definition struct_unpack :: "field list \<Rightarrow> bytes \<Rightarrow> int list res" where
  "struct_unpack fmt bs =
     (if length bs \<noteq> calcsize fmt then Inl StructError else Inr (unpack_fields fmt bs))"

subsection \<open>Little-endian integers\<close>

lemma length_le_bytes [simp]: "length (le_bytes n v) = n"
  by (induction n arbitrary: v) auto

lemma le_int_le_bytes: "0 \<le> v \<Longrightarrow> v < 256 ^ n \<Longrightarrow> le_int (le_bytes n v) = v"
proof (induction n arbitrary: v)
  case 0
  then show ?case by simp
next
  case (Suc n)
  have "v div 256 < 256 ^ n"
    using Suc.prems by (simp add: div_less_iff_less_mult mult.commute)
  then have "le_int (le_bytes n (v div 256)) = v div 256"
    using Suc by simp
  then show ?case
    by (simp add: uint_word_of_int)
qed

lemma le_int_bounds: "0 \<le> le_int bs \<and> le_int bs < 256 ^ length bs"
proof (induction bs)
  case Nil
  then show ?case by simp
next
  case (Cons b bs)
  have "uint b < 256"
    using uint_lt2p [of b] by simp
  with Cons show ?case by simp
qed

lemma le_bytes_le_int: "le_bytes (length bs) (le_int bs) = bs"
proof (induction bs)
  case Nil
  then show ?case by simp
next
  case (Cons b bs)
  have b: "0 \<le> uint b" "uint b < 256"
    using uint_lt2p [of b] by auto
  have "uint (word_of_int (uint b + 256 * le_int bs) :: byte) = uint b"
    using b by (simp only: uint_word_of_int) simp
  then have w: "word_of_int (uint b + 256 * le_int bs) = b"
    by (simp only: word_uint_eq_iff)
  have d: "(uint b + 256 * le_int bs) div 256 = le_int bs"
    using b by simp
  show ?case
    using Cons by (simp only: le_bytes.simps list.size le_int.simps w d add_Suc_right add_0_right)
qed

lemma le_bytes_mod: "le_bytes n (v - 256 ^ n) = le_bytes n v"
proof (induction n arbitrary: v)
  case (Suc n)
  have v: "v - 256 ^ Suc n = v + - (256 ^ n) * 256" by simp
  have "(v - 256 ^ Suc n) div 256 = v div 256 - 256 ^ n"
    unfolding v by (simp only: div_mult_self1)
  moreover have "(word_of_int (v - 256 ^ Suc n) :: byte) = word_of_int v"
    unfolding v word_of_int_eq_iff take_bit_eq_mod
    using mod_mult_self1 [of v "- (256 ^ n)" 256] by simp
  ultimately show ?case using Suc [of "v div 256"] by simp
qed simp

lemma field_low_cases: "field_low f = 0 \<or> 2 * field_low f = - (256 ^ field_size f)"
  by (cases f) simp_all

subsection \<open>pack and unpack are inverse to each other\<close>

lemma calcsize_simps [simp]:
  "calcsize [] = 0"
  "calcsize (f # fs) = field_size f + calcsize fs"
  by (simp_all add: calcsize_def)

lemma length_struct_pack: "struct_pack fmt vs = Inr bs \<Longrightarrow> length bs = calcsize fmt"
  by (induction fmt vs arbitrary: bs rule: struct_pack.induct)
    (auto simp: res_simps split: if_splits)

lemma struct_pack_length_values: "struct_pack fmt vs = Inr bs \<Longrightarrow> length vs = length fmt"
  by (induction fmt vs arbitrary: bs rule: struct_pack.induct)
    (auto simp: res_simps split: if_splits)

lemma struct_pack_iff: "(\<exists>bs. struct_pack fmt vs = Inr bs) \<longleftrightarrow> list_all2 fits fmt vs"
  by (induction fmt vs rule: struct_pack.induct) (auto simp: res_simps)

lemma struct_pack_fits: "struct_pack fmt vs = Inr bs \<Longrightarrow> list_all2 fits fmt vs"
  using struct_pack_iff by blast

lemma struct_pack_err: "struct_pack fmt vs = Inl e \<Longrightarrow> e = StructError"
  by (induction fmt vs rule: struct_pack.induct) (auto simp: bind_res_Inl_iff split: if_splits)

lemma field_int_le_bytes:
  assumes "fits f v"
  shows "field_int f (le_bytes (field_size f) v) = v"
proof (cases "0 \<le> v")
  case True
  then show ?thesis
    using assms field_low_cases [of f]
    by (auto simp: field_int_def fits_def le_int_le_bytes)
next
  case False
  let ?n = "field_size f"
  have "le_int (le_bytes ?n v) = v + 256 ^ ?n"
    using le_bytes_mod [of ?n "v + 256 ^ ?n"] False assms field_low_cases [of f]
      le_int_le_bytes [of "v + 256 ^ ?n" ?n] by (auto simp: fits_def)
  then show ?thesis using assms by (simp add: field_int_def fits_def)
qed

lemma field_int:
  assumes "length bs = field_size f"
  shows "fits f (field_int f bs)" "le_bytes (field_size f) (field_int f bs) = bs"
proof -
  show "fits f (field_int f bs)"
    using le_int_bounds [of bs] field_low_cases [of f] assms by (auto simp: field_int_def fits_def)
  show "le_bytes (field_size f) (field_int f bs) = bs"
    using le_bytes_le_int [of bs] assms le_bytes_mod [of "field_size f" "le_int bs"]
    by (simp add: field_int_def)
qed

lemma unpack_fields_pack: "struct_pack fmt vs = Inr bs \<Longrightarrow> unpack_fields fmt (bs @ rest) = vs"
proof (induction fmt vs arbitrary: bs rule: struct_pack.induct)
  case (2 f fs v vs)
  then obtain bs' where bs': "struct_pack fs vs = Inr bs'"
      "bs = le_bytes (field_size f) v @ bs'" and fit: "fits f v"
    by (auto simp: res_simps split: if_splits)
  with 2 show ?case
    by (simp add: field_int_le_bytes)
qed auto

lemma struct_unpack_pack: "struct_pack fmt vs = Inr bs \<Longrightarrow> struct_unpack fmt bs = Inr vs"
  using unpack_fields_pack [of fmt vs bs "[]"]
  by (simp add: struct_unpack_def length_struct_pack)

lemma pack_unpack_fields: "length bs = calcsize fmt \<Longrightarrow> struct_pack fmt (unpack_fields fmt bs) = Inr bs"
proof (induction fmt arbitrary: bs)
  case Nil
  then show ?case by simp
next
  case (Cons f fs)
  have len: "length (take (field_size f) bs) = field_size f"
    using Cons.prems by simp
  have rest: "struct_pack fs (unpack_fields fs (drop (field_size f) bs)) = Inr (drop (field_size f) bs)"
    using Cons by simp
  show ?case
    by (simp add: field_int [OF len] rest)
qed

lemma struct_pack_unpack: "struct_unpack fmt bs = Inr vs \<Longrightarrow> struct_pack fmt vs = Inr bs"
  by (auto simp: struct_unpack_def pack_unpack_fields split: if_splits)

text \<open>
  From here on \<open>struct_pack\<close> is used through the lemmas above, not by evaluation.
\<close>

declare struct_pack.simps [simp del]

lemma struct_unpack_iff_pack: "struct_unpack fmt bs = Inr vs \<longleftrightarrow> struct_pack fmt vs = Inr bs"
  using struct_pack_unpack struct_unpack_pack by blast

section \<open>Fixed-width metadata\<close>

text \<open>
  \<open>_FixedWidthMetadata.unpack\<close>, inherited by every metadata class: a length check, then
  \<open>_from_tuple\<close> on the unpacked values.  \<open>tuple_error\<close> is the \<open>ValueError\<close> of assigning a
  tuple to the wrong number of names; no format of the code can reach it.
\<close>

definition fixed_width_unpack :: "field list \<Rightarrow> (int list \<Rightarrow> 'a res) \<Rightarrow> bytes \<Rightarrow> 'a res" where
  "fixed_width_unpack fmt from_tuple payload =
     (if length payload \<noteq> calcsize fmt then ve ''expected STRUCT.size bytes''
      else bind_res (struct_unpack fmt payload) from_tuple)"

abbreviation tuple_error :: "'a res" where
  "tuple_error \<equiv> ve ''wrong number of values to unpack''"

lemma fixed_width_unpack_pack:
  "struct_pack fmt vs = Inr bs \<Longrightarrow> fixed_width_unpack fmt k bs = k vs"
  by (simp add: fixed_width_unpack_def length_struct_pack struct_unpack_pack)

lemma fixed_width_unpackE:
  assumes "fixed_width_unpack fmt k bs = Inr m"
  obtains vs where "struct_pack fmt vs = Inr bs" "k vs = Inr m" "list_all2 fits fmt vs"
  using assms
  by (auto simp: fixed_width_unpack_def res_simps struct_unpack_iff_pack dest: struct_pack_fits
      split: if_splits)

lemma fixed_width_unpack_size: "fixed_width_unpack fmt k bs = Inr m \<Longrightarrow> length bs = calcsize fmt"
  by (simp add: fixed_width_unpack_def split: if_splits)

lemma list_all2_fits_Cons:
  "list_all2 fits (f # fs) vs \<longleftrightarrow> (\<exists>v ws. vs = v # ws \<and> fits f v \<and> list_all2 fits fs ws)"
  by (auto simp: list_all2_Cons1)

section \<open>Tables of consecutive records\<close>

text \<open>
  \<open>b"".join(x.pack() for x in xs)\<close>, and the comprehension over
  \<open>range(0, len(view), L)\<close> behind a check that \<open>L\<close> divides \<open>len(view)\<close>.
\<close>

definition pack_table :: "('a \<Rightarrow> bytes res) \<Rightarrow> 'a list \<Rightarrow> bytes res" where
  "pack_table pack xs = bind_res (map_res pack xs) (\<lambda>cs. Inr (concat cs))"

definition unpack_table :: "nat \<Rightarrow> (bytes \<Rightarrow> 'a res) \<Rightarrow> bytes \<Rightarrow> 'a list res" where
  "unpack_table l unpack view =
     map_res (\<lambda>i. unpack (py_slice (int (i * l)) (int (i * l + l)) view)) [0 ..< length view div l]"

lemma pack_table_simps [simp]:
  "pack_table p [] = Inr []"
  "pack_table p (x # xs) =
     bind_res (p x) (\<lambda>b. bind_res (pack_table p xs) (\<lambda>bs. Inr (b @ bs)))"
  by (auto simp: pack_table_def bind_res_def split: sum.splits)

lemma map_res_map: "map_res f (map g xs) = map_res (\<lambda>x. f (g x)) xs"
  by (induction xs) auto

lemma unpack_table_Nil [simp]: "unpack_table l u [] = Inr []"
  by (simp add: unpack_table_def)

lemma unpack_table_append:
  assumes "length b = l" "0 < l"
  shows "unpack_table l u (b @ bs) =
    bind_res (u b) (\<lambda>x. bind_res (unpack_table l u bs) (\<lambda>xs. Inr (x # xs)))"
proof -
  have "length (b @ bs) div l = Suc (length bs div l)"
    using assms by (simp add: div_add_self1)
  then have n: "[0 ..< length (b @ bs) div l] = 0 # map Suc [0 ..< length bs div l]"
    by (simp add: upt_conv_Cons map_Suc_upt del: upt_Suc)
  have shift: "py_slice (int (Suc i * l)) (int (Suc i * l + l)) (b @ bs) =
      py_slice (int (i * l)) (int (i * l + l)) bs" for i
    using assms by (simp only: py_slice_nat) simp
  have head: "py_slice (int (0 * l)) (int (0 * l + l)) (b @ bs) = b"
    using assms by (simp only: py_slice_nat) simp
  show ?thesis
    by (simp only: unpack_table_def n map_res.simps map_res_map shift head)
qed

text \<open>
  What a wire format promises: \<open>unpack\<close> inverts \<open>pack\<close> on the values \<open>ok\<close> admits
  (\<open>wire_codec\<close>), the bytes are determined by the value (\<open>exact_codec\<close>), and every value
  takes \<open>sz\<close> bytes (\<open>fixed_codec\<close>, \<open>canonical_codec\<close>).
\<close>

locale wire_codec =
  fixes pack :: "'a \<Rightarrow> bytes res"
    and unpack :: "bytes \<Rightarrow> 'a res"
    and wf :: "'a \<Rightarrow> bool"
  assumes unpack_pack: "wf m \<Longrightarrow> pack m = Inr bs \<Longrightarrow> unpack bs = Inr m"
    and unpack_wf: "unpack bs = Inr m \<Longrightarrow> wf m"
begin

lemma pack_inject: "wf m \<Longrightarrow> wf m' \<Longrightarrow> pack m = Inr bs \<Longrightarrow> pack m' = Inr bs \<Longrightarrow> m = m'"
  by (metis unpack_pack sum.inject(2))

end

locale exact_codec = wire_codec +
  assumes pack_unpack: "unpack bs = Inr m \<Longrightarrow> pack m = Inr bs"
begin

lemma unpack_inject: "unpack bs = Inr m \<Longrightarrow> unpack bs' = Inr m \<Longrightarrow> bs = bs'"
  by (metis pack_unpack sum.inject(2))

lemma unpack_iff_pack: "unpack bs = Inr m \<longleftrightarrow> wf m \<and> pack m = Inr bs"
  using pack_unpack unpack_pack unpack_wf by blast

end

locale fixed_codec = wire_codec +
  fixes sz :: nat
  assumes pack_size: "pack m = Inr bs \<Longrightarrow> length bs = sz"
    and unpack_size: "unpack bs = Inr m \<Longrightarrow> length bs = sz"
    and sz_pos: "0 < sz"
begin

lemma unpack_framed: "wf m \<Longrightarrow> pack m = Inr bs \<Longrightarrow> unpack (take sz (bs @ rest)) = Inr m"
  using unpack_pack [of m bs] pack_size [of m bs] by simp

lemma pack_table_size: "pack_table pack ms = Inr bs \<Longrightarrow> length bs = sz * length ms"
  by (induction ms arbitrary: bs) (auto simp: res_simps dest: pack_size)

lemma unpack_table_pack:
  "list_all wf ms \<Longrightarrow> pack_table pack ms = Inr bs \<Longrightarrow> unpack_table sz unpack bs = Inr ms"
proof (induction ms arbitrary: bs)
  case Nil
  then show ?case by simp
next
  case (Cons m ms)
  then obtain b bs' where b: "pack m = Inr b" "pack_table pack ms = Inr bs'" "bs = b @ bs'"
    by (auto simp: res_simps)
  then have "unpack_table sz unpack bs' = Inr ms" "unpack b = Inr m" "length b = sz"
    using Cons by (auto intro: unpack_pack pack_size)
  with b(3) show ?case
    using sz_pos by (simp add: unpack_table_append)
qed

lemma unpack_table_wf: "unpack_table sz unpack bs = Inr ms \<Longrightarrow> list_all wf ms"
  by (auto simp: unpack_table_def map_res_Inr_iff list_all2_conv_all_nth list_all_length
      dest: unpack_wf)

end

locale canonical_codec = fixed_codec + exact_codec
begin

lemma pack_table_unpack:
  "length bs = sz * n \<Longrightarrow> unpack_table sz unpack bs = Inr ms \<Longrightarrow> pack_table pack ms = Inr bs"
proof (induction n arbitrary: bs ms)
  case 0
  then show ?case by (simp add: unpack_table_def)
next
  case (Suc n)
  then have split: "bs = take sz bs @ drop sz bs" "length (take sz bs) = sz"
    by simp_all
  have "unpack_table sz unpack (take sz bs @ drop sz bs) = Inr ms"
    using Suc.prems(2) by simp
  then obtain m ms' where m: "unpack (take sz bs) = Inr m" "ms = m # ms'"
    and ms': "unpack_table sz unpack (drop sz bs) = Inr ms'"
    by (auto simp only: unpack_table_append [OF split(2) sz_pos] res_simps sum.inject)
  have "length (drop sz bs) = sz * n"
    using Suc.prems(1) by simp
  then have "pack_table pack ms' = Inr (drop sz bs)"
    using ms' by (rule Suc.IH)
  with m show ?case
    by (simp add: pack_unpack)
qed

lemma pack_table_unpack_mod:
  "length bs mod sz = 0 \<Longrightarrow> unpack_table sz unpack bs = Inr ms \<Longrightarrow> pack_table pack ms = Inr bs"
  using pack_table_unpack [of bs "length bs div sz" ms] by (simp add: mod_0_imp_dvd)

end

section \<open>Metadata classes as codecs\<close>

text \<open>
  Every metadata class packs a tuple of values and rebuilds the object from one.  If the two
  are inverse to each other on objects that satisfy \<open>wf\<close>, the class is a codec; these are
  the two facts each class proves.  \<open>validate\<close> is the check \<open>pack\<close> makes first.
\<close>

definition fixed_width_pack ::
    "field list \<Rightarrow> ('a \<Rightarrow> unit res) \<Rightarrow> ('a \<Rightarrow> int list) \<Rightarrow> 'a \<Rightarrow> bytes res" where
  "fixed_width_pack fmt validate vals m =
     bind_res (validate m) (\<lambda>_. struct_pack fmt (vals m))"

definition no_check :: "'a \<Rightarrow> unit res" where
  "no_check m = Inr ()"

lemma no_check_simp [simp]: "no_check m = Inr ()"
  by (simp add: no_check_def)

lemma fixed_width_pack_Inr:
  "fixed_width_pack fmt v vals m = Inr bs \<longleftrightarrow> v m = Inr () \<and> struct_pack fmt (vals m) = Inr bs"
  by (auto simp: fixed_width_pack_def res_simps)

lemma fixed_codecI:
  assumes from_values: "\<And>m. ok m \<Longrightarrow> v m = Inr () \<Longrightarrow> list_all2 fits fmt (vals m) \<Longrightarrow>
      from_tuple (vals m) = Inr m"
    and wf_from: "\<And>vs m. list_all2 fits fmt vs \<Longrightarrow> from_tuple vs = Inr m \<Longrightarrow> ok m"
    and pos: "0 < calcsize fmt"
  shows "fixed_codec (fixed_width_pack fmt v vals) (fixed_width_unpack fmt from_tuple) ok (calcsize fmt)"
proof unfold_locales
  show "fixed_width_unpack fmt from_tuple bs = Inr m"
    if "ok m" "fixed_width_pack fmt v vals m = Inr bs" for m bs
  proof -
    from that(2) have "v m = Inr ()" and p: "struct_pack fmt (vals m) = Inr bs"
      by (simp_all add: fixed_width_pack_Inr)
    then show ?thesis
      using that(1) by (simp add: fixed_width_unpack_pack [OF p] from_values struct_pack_fits [OF p])
  qed
  show "length bs = calcsize fmt" if "fixed_width_pack fmt v vals m = Inr bs" for m bs
    using that by (auto simp: fixed_width_pack_Inr dest: length_struct_pack)
  show "length bs = calcsize fmt" if "fixed_width_unpack fmt from_tuple bs = Inr m" for m bs
    using that by (rule fixed_width_unpack_size)
  show "ok m" if "fixed_width_unpack fmt from_tuple bs = Inr m" for m bs
    using that by (elim fixed_width_unpackE) (rule wf_from)
qed (rule pos)

lemma canonical_codecI:
  assumes from_values: "\<And>m. ok m \<Longrightarrow> v m = Inr () \<Longrightarrow> list_all2 fits fmt (vals m) \<Longrightarrow>
      from_tuple (vals m) = Inr m"
    and values_from: "\<And>vs m. list_all2 fits fmt vs \<Longrightarrow> from_tuple vs = Inr m \<Longrightarrow>
      ok m \<and> v m = Inr () \<and> vals m = vs"
    and pos: "0 < calcsize fmt"
  shows "canonical_codec (fixed_width_pack fmt v vals) (fixed_width_unpack fmt from_tuple) ok (calcsize fmt)"
proof (intro canonical_codec.intro exact_codec.intro exact_codec_axioms.intro)
  show "fixed_codec (fixed_width_pack fmt v vals) (fixed_width_unpack fmt from_tuple) ok (calcsize fmt)"
    using assms by (intro fixed_codecI) blast+
  then show "wire_codec (fixed_width_pack fmt v vals) (fixed_width_unpack fmt from_tuple) ok"
    by (rule fixed_codec.axioms)
  show "fixed_width_pack fmt v vals m = Inr bs" if "fixed_width_unpack fmt from_tuple bs = Inr m" for m bs
    using that by (elim fixed_width_unpackE) (simp add: fixed_width_pack_Inr values_from)
qed

end
