(* ===== verification/Enums.thy ===== *)
theory Enums
  imports Wire_Struct
begin

text \<open>
  The enumerations of \<open>core/enums.py\<close>, \<open>core/messages/control.py\<close>,
  \<open>core/messages/data.py\<close> and \<open>schema.py\<close>.  Member names repeat between the classes, so a
  constructor carries a short prefix for its class.

  An \<open>IntEnum\<close> is a datatype with \<open>X_int\<close> (the member's integer) and \<open>X_of\<close> (the call
  \<open>X(value)\<close>, a \<open>ValueError\<close> when no member has the value).  The locale \<open>int_enum\<close> states
  what the codecs rely on; it is interpreted for every class.  An \<open>IntFlag\<close> value is an
  integer; \<open>X_call\<close> is the call \<open>X(value)\<close>, and the members are abbreviations.
\<close>

locale int_enum =
  fixes to_int :: "'a \<Rightarrow> int"
    and of_value :: "int \<Rightarrow> 'a res"
  assumes of_to: "of_value (to_int k) = Inr k"
    and to_of: "of_value v = Inr k \<Longrightarrow> to_int k = v"
begin

lemma of_to_simp [simp]: "of_value (to_int k) = Inr k"
  by (rule of_to)

lemma of_value_iff [res_simps]: "of_value v = Inr k \<longleftrightarrow> v = to_int k"
  using of_to to_of by auto

lemma to_int_inject [simp]: "to_int k = to_int k' \<longleftrightarrow> k = k'"
  by (metis of_to sum.inject(2))

lemma of_value_error: "(\<forall>k. to_int k \<noteq> v) \<longleftrightarrow> (\<exists>e. of_value v = Inl e)"
  using of_to to_of by (cases "of_value v") auto

end

section \<open>core/enums.py\<close>

definition PayloadKind_call :: "int \<Rightarrow> int" where
  "PayloadKind_call v = int_flag 127 v"

abbreviation (input) PK_NONE :: int where "PK_NONE \<equiv> 0"
abbreviation (input) PK_TENSOR :: int where "PK_TENSOR \<equiv> 1"
abbreviation (input) PK_TOKEN_CHUNK :: int where "PK_TOKEN_CHUNK \<equiv> 2"
abbreviation (input) PK_AUDIO_CHUNK :: int where "PK_AUDIO_CHUNK \<equiv> 4"
abbreviation (input) PK_VIDEO_CHUNK :: int where "PK_VIDEO_CHUNK \<equiv> 8"
abbreviation (input) PK_STRUCTURED_EVENT :: int where "PK_STRUCTURED_EVENT \<equiv> 16"
abbreviation (input) PK_TOOL_DELTA :: int where "PK_TOOL_DELTA \<equiv> 32"
abbreviation (input) PK_OPAQUE_BYTES :: int where "PK_OPAQUE_BYTES \<equiv> 64"

lemma PayloadKind_call_nonneg [simp]: "0 \<le> v \<Longrightarrow> PayloadKind_call v = v"
  by (simp add: PayloadKind_call_def)

datatype WireFormat = WF_CURRENT

fun WireFormat_int :: "WireFormat \<Rightarrow> int" where
  "WireFormat_int WF_CURRENT = 0"

definition WireFormat_of :: "int \<Rightarrow> WireFormat res" where
  "WireFormat_of v =
     (if v = 0 then Inr WF_CURRENT
     else ve ''not a valid WireFormat'')"

interpretation WF_enum: int_enum WireFormat_int WireFormat_of
proof
  show "WireFormat_of (WireFormat_int k) = Inr k" for k
    by (cases k) (simp_all add: WireFormat_of_def)
  show "WireFormat_of v = Inr k \<Longrightarrow> WireFormat_int k = v" for v k
    by (auto simp: WireFormat_of_def split: if_splits)
qed

datatype MessageType = MT_CLIENT_HELLO | MT_SERVER_HELLO_ACK | MT_SESSION_PATCH
    | MT_SESSION_PATCH_ACK | MT_CLOSE | MT_ERROR | MT_SESSION_OPEN | MT_SESSION_OPEN_ACK
    | MT_SESSION_CLOSE | MT_SESSION_CLOSE_ACK | MT_FLOW_UPDATE | MT_RESULT_HINT
    | MT_TRANSPORT_PROBE | MT_TRANSPORT_PROBE_ACK | MT_SESSION_MIGRATE | MT_SESSION_MIGRATE_ACK
    | MT_FRAME_SUBMIT | MT_FRAME_CANCEL | MT_RESULT_PUSH | MT_RESULT_DROP | MT_CACHE_PUT
    | MT_CACHE_ACK | MT_CACHE_INVALIDATE | MT_PING | MT_PONG | MT_CANCEL | MT_ABORT
    | MT_PRIORITY_UPDATE | MT_DEADLINE | MT_EXPIRE_AT | MT_SUPERSEDE | MT_BUDGET_UPDATE
    | MT_PROGRESS | MT_PARTIAL_RESULT | MT_BACKPRESSURE | MT_CREDIT_UPDATE
    | MT_CAPABILITY_NEGOTIATION | MT_DEGRADE_PROFILE | MT_ROUTE_HINT | MT_EXECUTION_HINT
    | MT_TRACE_CONTEXT | MT_RESULT_DROP_REASON | MT_OBJECT_DECLARE | MT_OBJECT_REF
    | MT_OBJECT_RELEASE | MT_OBJECT_PATCH | MT_OBJECT_DELTA | MT_CACHE_REFERENCE
    | MT_CACHE_MISS | MT_ERROR_RECOVERABLE | MT_RETRY_AFTER

fun MessageType_int :: "MessageType \<Rightarrow> int" where
  "MessageType_int MT_CLIENT_HELLO = 1"
| "MessageType_int MT_SERVER_HELLO_ACK = 2"
| "MessageType_int MT_SESSION_PATCH = 3"
| "MessageType_int MT_SESSION_PATCH_ACK = 4"
| "MessageType_int MT_CLOSE = 5"
| "MessageType_int MT_ERROR = 6"
| "MessageType_int MT_SESSION_OPEN = 7"
| "MessageType_int MT_SESSION_OPEN_ACK = 8"
| "MessageType_int MT_SESSION_CLOSE = 9"
| "MessageType_int MT_SESSION_CLOSE_ACK = 10"
| "MessageType_int MT_FLOW_UPDATE = 23"
| "MessageType_int MT_RESULT_HINT = 24"
| "MessageType_int MT_TRANSPORT_PROBE = 25"
| "MessageType_int MT_TRANSPORT_PROBE_ACK = 26"
| "MessageType_int MT_SESSION_MIGRATE = 27"
| "MessageType_int MT_SESSION_MIGRATE_ACK = 28"
| "MessageType_int MT_FRAME_SUBMIT = 16"
| "MessageType_int MT_FRAME_CANCEL = 17"
| "MessageType_int MT_RESULT_PUSH = 18"
| "MessageType_int MT_RESULT_DROP = 19"
| "MessageType_int MT_CACHE_PUT = 20"
| "MessageType_int MT_CACHE_ACK = 21"
| "MessageType_int MT_CACHE_INVALIDATE = 22"
| "MessageType_int MT_PING = 32"
| "MessageType_int MT_PONG = 33"
| "MessageType_int MT_CANCEL = 48"
| "MessageType_int MT_ABORT = 49"
| "MessageType_int MT_PRIORITY_UPDATE = 50"
| "MessageType_int MT_DEADLINE = 51"
| "MessageType_int MT_EXPIRE_AT = 52"
| "MessageType_int MT_SUPERSEDE = 53"
| "MessageType_int MT_BUDGET_UPDATE = 54"
| "MessageType_int MT_PROGRESS = 55"
| "MessageType_int MT_PARTIAL_RESULT = 56"
| "MessageType_int MT_BACKPRESSURE = 57"
| "MessageType_int MT_CREDIT_UPDATE = 58"
| "MessageType_int MT_CAPABILITY_NEGOTIATION = 59"
| "MessageType_int MT_DEGRADE_PROFILE = 60"
| "MessageType_int MT_ROUTE_HINT = 61"
| "MessageType_int MT_EXECUTION_HINT = 62"
| "MessageType_int MT_TRACE_CONTEXT = 63"
| "MessageType_int MT_RESULT_DROP_REASON = 64"
| "MessageType_int MT_OBJECT_DECLARE = 65"
| "MessageType_int MT_OBJECT_REF = 66"
| "MessageType_int MT_OBJECT_RELEASE = 67"
| "MessageType_int MT_OBJECT_PATCH = 68"
| "MessageType_int MT_OBJECT_DELTA = 69"
| "MessageType_int MT_CACHE_REFERENCE = 70"
| "MessageType_int MT_CACHE_MISS = 71"
| "MessageType_int MT_ERROR_RECOVERABLE = 72"
| "MessageType_int MT_RETRY_AFTER = 73"

definition MessageType_of :: "int \<Rightarrow> MessageType res" where
  "MessageType_of v =
     (if v = 1 then Inr MT_CLIENT_HELLO
     else if v = 2 then Inr MT_SERVER_HELLO_ACK
     else if v = 3 then Inr MT_SESSION_PATCH
     else if v = 4 then Inr MT_SESSION_PATCH_ACK
     else if v = 5 then Inr MT_CLOSE
     else if v = 6 then Inr MT_ERROR
     else if v = 7 then Inr MT_SESSION_OPEN
     else if v = 8 then Inr MT_SESSION_OPEN_ACK
     else if v = 9 then Inr MT_SESSION_CLOSE
     else if v = 10 then Inr MT_SESSION_CLOSE_ACK
     else if v = 23 then Inr MT_FLOW_UPDATE
     else if v = 24 then Inr MT_RESULT_HINT
     else if v = 25 then Inr MT_TRANSPORT_PROBE
     else if v = 26 then Inr MT_TRANSPORT_PROBE_ACK
     else if v = 27 then Inr MT_SESSION_MIGRATE
     else if v = 28 then Inr MT_SESSION_MIGRATE_ACK
     else if v = 16 then Inr MT_FRAME_SUBMIT
     else if v = 17 then Inr MT_FRAME_CANCEL
     else if v = 18 then Inr MT_RESULT_PUSH
     else if v = 19 then Inr MT_RESULT_DROP
     else if v = 20 then Inr MT_CACHE_PUT
     else if v = 21 then Inr MT_CACHE_ACK
     else if v = 22 then Inr MT_CACHE_INVALIDATE
     else if v = 32 then Inr MT_PING
     else if v = 33 then Inr MT_PONG
     else if v = 48 then Inr MT_CANCEL
     else if v = 49 then Inr MT_ABORT
     else if v = 50 then Inr MT_PRIORITY_UPDATE
     else if v = 51 then Inr MT_DEADLINE
     else if v = 52 then Inr MT_EXPIRE_AT
     else if v = 53 then Inr MT_SUPERSEDE
     else if v = 54 then Inr MT_BUDGET_UPDATE
     else if v = 55 then Inr MT_PROGRESS
     else if v = 56 then Inr MT_PARTIAL_RESULT
     else if v = 57 then Inr MT_BACKPRESSURE
     else if v = 58 then Inr MT_CREDIT_UPDATE
     else if v = 59 then Inr MT_CAPABILITY_NEGOTIATION
     else if v = 60 then Inr MT_DEGRADE_PROFILE
     else if v = 61 then Inr MT_ROUTE_HINT
     else if v = 62 then Inr MT_EXECUTION_HINT
     else if v = 63 then Inr MT_TRACE_CONTEXT
     else if v = 64 then Inr MT_RESULT_DROP_REASON
     else if v = 65 then Inr MT_OBJECT_DECLARE
     else if v = 66 then Inr MT_OBJECT_REF
     else if v = 67 then Inr MT_OBJECT_RELEASE
     else if v = 68 then Inr MT_OBJECT_PATCH
     else if v = 69 then Inr MT_OBJECT_DELTA
     else if v = 70 then Inr MT_CACHE_REFERENCE
     else if v = 71 then Inr MT_CACHE_MISS
     else if v = 72 then Inr MT_ERROR_RECOVERABLE
     else if v = 73 then Inr MT_RETRY_AFTER
     else ve ''not a valid MessageType'')"

interpretation MT_enum: int_enum MessageType_int MessageType_of
proof
  show "MessageType_of (MessageType_int k) = Inr k" for k
    by (cases k) (simp_all add: MessageType_of_def)
  show "MessageType_of v = Inr k \<Longrightarrow> MessageType_int k = v" for v k
    by (auto simp: MessageType_of_def split: if_splits)
qed

definition HeaderFlags_call :: "int \<Rightarrow> int" where
  "HeaderFlags_call v = int_flag 63 v"

abbreviation (input) HF_NONE :: int where "HF_NONE \<equiv> 0"
abbreviation (input) HF_ACK_REQUIRED :: int where "HF_ACK_REQUIRED \<equiv> 1"
abbreviation (input) HF_CAN_DROP :: int where "HF_CAN_DROP \<equiv> 2"
abbreviation (input) HF_STALE :: int where "HF_STALE \<equiv> 4"
abbreviation (input) HF_EOS :: int where "HF_EOS \<equiv> 8"
abbreviation (input) HF_RETRANSMIT :: int where "HF_RETRANSMIT \<equiv> 16"
abbreviation (input) HF_KEYFRAME :: int where "HF_KEYFRAME \<equiv> 32"

lemma HeaderFlags_call_nonneg [simp]: "0 \<le> v \<Longrightarrow> HeaderFlags_call v = v"
  by (simp add: HeaderFlags_call_def)

datatype FrameClass = FC_KEYFRAME | FC_DELTA | FC_RETRANSMIT | FC_DISCARDABLE

fun FrameClass_int :: "FrameClass \<Rightarrow> int" where
  "FrameClass_int FC_KEYFRAME = 0"
| "FrameClass_int FC_DELTA = 1"
| "FrameClass_int FC_RETRANSMIT = 2"
| "FrameClass_int FC_DISCARDABLE = 3"

definition FrameClass_of :: "int \<Rightarrow> FrameClass res" where
  "FrameClass_of v =
     (if v = 0 then Inr FC_KEYFRAME
     else if v = 1 then Inr FC_DELTA
     else if v = 2 then Inr FC_RETRANSMIT
     else if v = 3 then Inr FC_DISCARDABLE
     else ve ''not a valid FrameClass'')"

interpretation FC_enum: int_enum FrameClass_int FrameClass_of
proof
  show "FrameClass_of (FrameClass_int k) = Inr k" for k
    by (cases k) (simp_all add: FrameClass_of_def)
  show "FrameClass_of v = Inr k \<Longrightarrow> FrameClass_int k = v" for v k
    by (auto simp: FrameClass_of_def split: if_splits)
qed

datatype ErrorCode = EC_UNSUPPORTED_VERSION | EC_AUTH_FAILED | EC_INVALID_STATE
    | EC_MALFORMED_HEADER | EC_MALFORMED_BODY | EC_UNSUPPORTED_CAPABILITY | EC_LIMIT_EXCEEDED
    | EC_FRAME_EXPIRED | EC_FRAME_CANCELLED | EC_CACHE_MISS | EC_SERVER_BUSY
    | EC_INTERNAL_ERROR

fun ErrorCode_int :: "ErrorCode \<Rightarrow> int" where
  "ErrorCode_int EC_UNSUPPORTED_VERSION = 1"
| "ErrorCode_int EC_AUTH_FAILED = 2"
| "ErrorCode_int EC_INVALID_STATE = 3"
| "ErrorCode_int EC_MALFORMED_HEADER = 4"
| "ErrorCode_int EC_MALFORMED_BODY = 5"
| "ErrorCode_int EC_UNSUPPORTED_CAPABILITY = 6"
| "ErrorCode_int EC_LIMIT_EXCEEDED = 7"
| "ErrorCode_int EC_FRAME_EXPIRED = 8"
| "ErrorCode_int EC_FRAME_CANCELLED = 9"
| "ErrorCode_int EC_CACHE_MISS = 10"
| "ErrorCode_int EC_SERVER_BUSY = 11"
| "ErrorCode_int EC_INTERNAL_ERROR = 12"

definition ErrorCode_of :: "int \<Rightarrow> ErrorCode res" where
  "ErrorCode_of v =
     (if v = 1 then Inr EC_UNSUPPORTED_VERSION
     else if v = 2 then Inr EC_AUTH_FAILED
     else if v = 3 then Inr EC_INVALID_STATE
     else if v = 4 then Inr EC_MALFORMED_HEADER
     else if v = 5 then Inr EC_MALFORMED_BODY
     else if v = 6 then Inr EC_UNSUPPORTED_CAPABILITY
     else if v = 7 then Inr EC_LIMIT_EXCEEDED
     else if v = 8 then Inr EC_FRAME_EXPIRED
     else if v = 9 then Inr EC_FRAME_CANCELLED
     else if v = 10 then Inr EC_CACHE_MISS
     else if v = 11 then Inr EC_SERVER_BUSY
     else if v = 12 then Inr EC_INTERNAL_ERROR
     else ve ''not a valid ErrorCode'')"

interpretation EC_enum: int_enum ErrorCode_int ErrorCode_of
proof
  show "ErrorCode_of (ErrorCode_int k) = Inr k" for k
    by (cases k) (simp_all add: ErrorCode_of_def)
  show "ErrorCode_of v = Inr k \<Longrightarrow> ErrorCode_int k = v" for v k
    by (auto simp: ErrorCode_of_def split: if_splits)
qed

section \<open>core/messages/control.py\<close>

datatype ErrorScope = ES_CONNECTION | ES_SESSION | ES_FRAME

fun ErrorScope_int :: "ErrorScope \<Rightarrow> int" where
  "ErrorScope_int ES_CONNECTION = 0"
| "ErrorScope_int ES_SESSION = 1"
| "ErrorScope_int ES_FRAME = 2"

definition ErrorScope_of :: "int \<Rightarrow> ErrorScope res" where
  "ErrorScope_of v =
     (if v = 0 then Inr ES_CONNECTION
     else if v = 1 then Inr ES_SESSION
     else if v = 2 then Inr ES_FRAME
     else ve ''not a valid ErrorScope'')"

interpretation ES_enum: int_enum ErrorScope_int ErrorScope_of
proof
  show "ErrorScope_of (ErrorScope_int k) = Inr k" for k
    by (cases k) (simp_all add: ErrorScope_of_def)
  show "ErrorScope_of v = Inr k \<Longrightarrow> ErrorScope_int k = v" for v k
    by (auto simp: ErrorScope_of_def split: if_splits)
qed

datatype CacheObjectKind = COK_CAMERA_BLOCK | COK_TILE_INDEX_BLOCK | COK_TENSOR_SECTION_TABLE
    | COK_CODEC_TABLE | COK_REUSABLE_RESULT_OBJECT | COK_PAYLOAD_LAYOUT_TEMPLATE
    | COK_PROMPT_SEGMENT | COK_TOOL_SCHEMA | COK_STRUCTURED_EVENT_SCHEMA

fun CacheObjectKind_int :: "CacheObjectKind \<Rightarrow> int" where
  "CacheObjectKind_int COK_CAMERA_BLOCK = 1"
| "CacheObjectKind_int COK_TILE_INDEX_BLOCK = 2"
| "CacheObjectKind_int COK_TENSOR_SECTION_TABLE = 3"
| "CacheObjectKind_int COK_CODEC_TABLE = 4"
| "CacheObjectKind_int COK_REUSABLE_RESULT_OBJECT = 5"
| "CacheObjectKind_int COK_PAYLOAD_LAYOUT_TEMPLATE = 6"
| "CacheObjectKind_int COK_PROMPT_SEGMENT = 7"
| "CacheObjectKind_int COK_TOOL_SCHEMA = 8"
| "CacheObjectKind_int COK_STRUCTURED_EVENT_SCHEMA = 9"

definition CacheObjectKind_of :: "int \<Rightarrow> CacheObjectKind res" where
  "CacheObjectKind_of v =
     (if v = 1 then Inr COK_CAMERA_BLOCK
     else if v = 2 then Inr COK_TILE_INDEX_BLOCK
     else if v = 3 then Inr COK_TENSOR_SECTION_TABLE
     else if v = 4 then Inr COK_CODEC_TABLE
     else if v = 5 then Inr COK_REUSABLE_RESULT_OBJECT
     else if v = 6 then Inr COK_PAYLOAD_LAYOUT_TEMPLATE
     else if v = 7 then Inr COK_PROMPT_SEGMENT
     else if v = 8 then Inr COK_TOOL_SCHEMA
     else if v = 9 then Inr COK_STRUCTURED_EVENT_SCHEMA
     else ve ''not a valid CacheObjectKind'')"

interpretation COK_enum: int_enum CacheObjectKind_int CacheObjectKind_of
proof
  show "CacheObjectKind_of (CacheObjectKind_int k) = Inr k" for k
    by (cases k) (simp_all add: CacheObjectKind_of_def)
  show "CacheObjectKind_of v = Inr k \<Longrightarrow> CacheObjectKind_int k = v" for v k
    by (auto simp: CacheObjectKind_of_def split: if_splits)
qed

abbreviation (input) COK_TILE_INDEX_TEMPLATE :: CacheObjectKind where "COK_TILE_INDEX_TEMPLATE \<equiv> COK_TILE_INDEX_BLOCK"
abbreviation (input) COK_CODEC_AUX_BLOCK :: CacheObjectKind where "COK_CODEC_AUX_BLOCK \<equiv> COK_CODEC_TABLE"
abbreviation (input) COK_FALLBACK_RESOURCE :: CacheObjectKind where "COK_FALLBACK_RESOURCE \<equiv> COK_REUSABLE_RESULT_OBJECT"

datatype CacheAckStatus = CAS_ACCEPTED | CAS_REJECTED | CAS_REPLACED

fun CacheAckStatus_int :: "CacheAckStatus \<Rightarrow> int" where
  "CacheAckStatus_int CAS_ACCEPTED = 0"
| "CacheAckStatus_int CAS_REJECTED = 1"
| "CacheAckStatus_int CAS_REPLACED = 2"

definition CacheAckStatus_of :: "int \<Rightarrow> CacheAckStatus res" where
  "CacheAckStatus_of v =
     (if v = 0 then Inr CAS_ACCEPTED
     else if v = 1 then Inr CAS_REJECTED
     else if v = 2 then Inr CAS_REPLACED
     else ve ''not a valid CacheAckStatus'')"

interpretation CAS_enum: int_enum CacheAckStatus_int CacheAckStatus_of
proof
  show "CacheAckStatus_of (CacheAckStatus_int k) = Inr k" for k
    by (cases k) (simp_all add: CacheAckStatus_of_def)
  show "CacheAckStatus_of v = Inr k \<Longrightarrow> CacheAckStatus_int k = v" for v k
    by (auto simp: CacheAckStatus_of_def split: if_splits)
qed

datatype CacheInvalidateScope = CIS_WHOLE_SESSION | CIS_NAMESPACE | CIS_OBJECT_KIND
    | CIS_OBJECT_KEY

fun CacheInvalidateScope_int :: "CacheInvalidateScope \<Rightarrow> int" where
  "CacheInvalidateScope_int CIS_WHOLE_SESSION = 0"
| "CacheInvalidateScope_int CIS_NAMESPACE = 1"
| "CacheInvalidateScope_int CIS_OBJECT_KIND = 2"
| "CacheInvalidateScope_int CIS_OBJECT_KEY = 3"

definition CacheInvalidateScope_of :: "int \<Rightarrow> CacheInvalidateScope res" where
  "CacheInvalidateScope_of v =
     (if v = 0 then Inr CIS_WHOLE_SESSION
     else if v = 1 then Inr CIS_NAMESPACE
     else if v = 2 then Inr CIS_OBJECT_KIND
     else if v = 3 then Inr CIS_OBJECT_KEY
     else ve ''not a valid CacheInvalidateScope'')"

interpretation CIS_enum: int_enum CacheInvalidateScope_int CacheInvalidateScope_of
proof
  show "CacheInvalidateScope_of (CacheInvalidateScope_int k) = Inr k" for k
    by (cases k) (simp_all add: CacheInvalidateScope_of_def)
  show "CacheInvalidateScope_of v = Inr k \<Longrightarrow> CacheInvalidateScope_int k = v" for v k
    by (auto simp: CacheInvalidateScope_of_def split: if_splits)
qed

definition CachePutFlags_call :: "int \<Rightarrow> int" where
  "CachePutFlags_call v = int_flag 3 v"

abbreviation (input) CPF_NONE :: int where "CPF_NONE \<equiv> 0"
abbreviation (input) CPF_PINNED :: int where "CPF_PINNED \<equiv> 1"
abbreviation (input) CPF_REUSABLE :: int where "CPF_REUSABLE \<equiv> 2"

lemma CachePutFlags_call_nonneg [simp]: "0 \<le> v \<Longrightarrow> CachePutFlags_call v = v"
  by (simp add: CachePutFlags_call_def)

datatype SessionPriorityClass = SPC_INTERACTIVE | SPC_BALANCED | SPC_BACKGROUND

fun SessionPriorityClass_int :: "SessionPriorityClass \<Rightarrow> int" where
  "SessionPriorityClass_int SPC_INTERACTIVE = 0"
| "SessionPriorityClass_int SPC_BALANCED = 1"
| "SessionPriorityClass_int SPC_BACKGROUND = 2"

definition SessionPriorityClass_of :: "int \<Rightarrow> SessionPriorityClass res" where
  "SessionPriorityClass_of v =
     (if v = 0 then Inr SPC_INTERACTIVE
     else if v = 1 then Inr SPC_BALANCED
     else if v = 2 then Inr SPC_BACKGROUND
     else ve ''not a valid SessionPriorityClass'')"

interpretation SPC_enum: int_enum SessionPriorityClass_int SessionPriorityClass_of
proof
  show "SessionPriorityClass_of (SessionPriorityClass_int k) = Inr k" for k
    by (cases k) (simp_all add: SessionPriorityClass_of_def)
  show "SessionPriorityClass_of v = Inr k \<Longrightarrow> SessionPriorityClass_int k = v" for v k
    by (auto simp: SessionPriorityClass_of_def split: if_splits)
qed

definition SessionPatchField_call :: "int \<Rightarrow> int" where
  "SessionPatchField_call v = int_flag 127 v"

abbreviation (input) SPF_NONE :: int where "SPF_NONE \<equiv> 0"
abbreviation (input) SPF_TARGET_CADENCE :: int where "SPF_TARGET_CADENCE \<equiv> 1"
abbreviation (input) SPF_QUALITY_TIER :: int where "SPF_QUALITY_TIER \<equiv> 2"
abbreviation (input) SPF_DEGRADE_POLICY :: int where "SPF_DEGRADE_POLICY \<equiv> 4"
abbreviation (input) SPF_ACTIVE_LANE_MASK :: int where "SPF_ACTIVE_LANE_MASK \<equiv> 8"
abbreviation (input) SPF_PREFERRED_CODEC :: int where "SPF_PREFERRED_CODEC \<equiv> 16"
abbreviation (input) SPF_PREFERRED_COMPRESSION :: int where "SPF_PREFERRED_COMPRESSION \<equiv> 32"
abbreviation (input) SPF_PROFILE_PATCH :: int where "SPF_PROFILE_PATCH \<equiv> 64"
abbreviation (input) SPF_TARGET_FPS :: int where "SPF_TARGET_FPS \<equiv> SPF_TARGET_CADENCE"
abbreviation (input) SPF_ACTIVE_VIEW_MASK :: int where "SPF_ACTIVE_VIEW_MASK \<equiv> SPF_ACTIVE_LANE_MASK"

lemma SessionPatchField_call_nonneg [simp]: "0 \<le> v \<Longrightarrow> SessionPatchField_call v = v"
  by (simp add: SessionPatchField_call_def)

datatype SessionPatchAckStatus = SPA_ACCEPTED | SPA_PARTIALLY_APPLIED | SPA_REJECTED

fun SessionPatchAckStatus_int :: "SessionPatchAckStatus \<Rightarrow> int" where
  "SessionPatchAckStatus_int SPA_ACCEPTED = 0"
| "SessionPatchAckStatus_int SPA_PARTIALLY_APPLIED = 1"
| "SessionPatchAckStatus_int SPA_REJECTED = 2"

definition SessionPatchAckStatus_of :: "int \<Rightarrow> SessionPatchAckStatus res" where
  "SessionPatchAckStatus_of v =
     (if v = 0 then Inr SPA_ACCEPTED
     else if v = 1 then Inr SPA_PARTIALLY_APPLIED
     else if v = 2 then Inr SPA_REJECTED
     else ve ''not a valid SessionPatchAckStatus'')"

interpretation SPA_enum: int_enum SessionPatchAckStatus_int SessionPatchAckStatus_of
proof
  show "SessionPatchAckStatus_of (SessionPatchAckStatus_int k) = Inr k" for k
    by (cases k) (simp_all add: SessionPatchAckStatus_of_def)
  show "SessionPatchAckStatus_of v = Inr k \<Longrightarrow> SessionPatchAckStatus_int k = v" for v k
    by (auto simp: SessionPatchAckStatus_of_def split: if_splits)
qed

datatype SessionPatchRejectReason = SPR_NONE | SPR_UNSUPPORTED_FIELD | SPR_INVALID_RANGE
    | SPR_UNSUPPORTED_STRATEGY | SPR_INVALID_LANE_MASK | SPR_RATE_LIMITED

fun SessionPatchRejectReason_int :: "SessionPatchRejectReason \<Rightarrow> int" where
  "SessionPatchRejectReason_int SPR_NONE = 0"
| "SessionPatchRejectReason_int SPR_UNSUPPORTED_FIELD = 1"
| "SessionPatchRejectReason_int SPR_INVALID_RANGE = 2"
| "SessionPatchRejectReason_int SPR_UNSUPPORTED_STRATEGY = 3"
| "SessionPatchRejectReason_int SPR_INVALID_LANE_MASK = 4"
| "SessionPatchRejectReason_int SPR_RATE_LIMITED = 5"

definition SessionPatchRejectReason_of :: "int \<Rightarrow> SessionPatchRejectReason res" where
  "SessionPatchRejectReason_of v =
     (if v = 0 then Inr SPR_NONE
     else if v = 1 then Inr SPR_UNSUPPORTED_FIELD
     else if v = 2 then Inr SPR_INVALID_RANGE
     else if v = 3 then Inr SPR_UNSUPPORTED_STRATEGY
     else if v = 4 then Inr SPR_INVALID_LANE_MASK
     else if v = 5 then Inr SPR_RATE_LIMITED
     else ve ''not a valid SessionPatchRejectReason'')"

interpretation SPR_enum: int_enum SessionPatchRejectReason_int SessionPatchRejectReason_of
proof
  show "SessionPatchRejectReason_of (SessionPatchRejectReason_int k) = Inr k" for k
    by (cases k) (simp_all add: SessionPatchRejectReason_of_def)
  show "SessionPatchRejectReason_of v = Inr k \<Longrightarrow> SessionPatchRejectReason_int k = v" for v k
    by (auto simp: SessionPatchRejectReason_of_def split: if_splits)
qed

abbreviation (input) SPR_INVALID_VIEW_MASK :: SessionPatchRejectReason where "SPR_INVALID_VIEW_MASK \<equiv> SPR_INVALID_LANE_MASK"

datatype FlowUpdateScopeKind = FUS_CONNECTION | FUS_SESSION | FUS_OPERATION

fun FlowUpdateScopeKind_int :: "FlowUpdateScopeKind \<Rightarrow> int" where
  "FlowUpdateScopeKind_int FUS_CONNECTION = 0"
| "FlowUpdateScopeKind_int FUS_SESSION = 1"
| "FlowUpdateScopeKind_int FUS_OPERATION = 2"

definition FlowUpdateScopeKind_of :: "int \<Rightarrow> FlowUpdateScopeKind res" where
  "FlowUpdateScopeKind_of v =
     (if v = 0 then Inr FUS_CONNECTION
     else if v = 1 then Inr FUS_SESSION
     else if v = 2 then Inr FUS_OPERATION
     else ve ''not a valid FlowUpdateScopeKind'')"

interpretation FUS_enum: int_enum FlowUpdateScopeKind_int FlowUpdateScopeKind_of
proof
  show "FlowUpdateScopeKind_of (FlowUpdateScopeKind_int k) = Inr k" for k
    by (cases k) (simp_all add: FlowUpdateScopeKind_of_def)
  show "FlowUpdateScopeKind_of v = Inr k \<Longrightarrow> FlowUpdateScopeKind_int k = v" for v k
    by (auto simp: FlowUpdateScopeKind_of_def split: if_splits)
qed

datatype FlowUpdateReason = FUR_GRANT | FUR_REDUCE | FUR_PAUSE | FUR_RESUME | FUR_CONGESTION

fun FlowUpdateReason_int :: "FlowUpdateReason \<Rightarrow> int" where
  "FlowUpdateReason_int FUR_GRANT = 0"
| "FlowUpdateReason_int FUR_REDUCE = 1"
| "FlowUpdateReason_int FUR_PAUSE = 2"
| "FlowUpdateReason_int FUR_RESUME = 3"
| "FlowUpdateReason_int FUR_CONGESTION = 4"

definition FlowUpdateReason_of :: "int \<Rightarrow> FlowUpdateReason res" where
  "FlowUpdateReason_of v =
     (if v = 0 then Inr FUR_GRANT
     else if v = 1 then Inr FUR_REDUCE
     else if v = 2 then Inr FUR_PAUSE
     else if v = 3 then Inr FUR_RESUME
     else if v = 4 then Inr FUR_CONGESTION
     else ve ''not a valid FlowUpdateReason'')"

interpretation FUR_enum: int_enum FlowUpdateReason_int FlowUpdateReason_of
proof
  show "FlowUpdateReason_of (FlowUpdateReason_int k) = Inr k" for k
    by (cases k) (simp_all add: FlowUpdateReason_of_def)
  show "FlowUpdateReason_of v = Inr k \<Longrightarrow> FlowUpdateReason_int k = v" for v k
    by (auto simp: FlowUpdateReason_of_def split: if_splits)
qed

datatype FlowUpdateBackpressureLevel = FUB_NONE | FUB_SOFT | FUB_HARD

fun FlowUpdateBackpressureLevel_int :: "FlowUpdateBackpressureLevel \<Rightarrow> int" where
  "FlowUpdateBackpressureLevel_int FUB_NONE = 0"
| "FlowUpdateBackpressureLevel_int FUB_SOFT = 1"
| "FlowUpdateBackpressureLevel_int FUB_HARD = 2"

definition FlowUpdateBackpressureLevel_of :: "int \<Rightarrow> FlowUpdateBackpressureLevel res" where
  "FlowUpdateBackpressureLevel_of v =
     (if v = 0 then Inr FUB_NONE
     else if v = 1 then Inr FUB_SOFT
     else if v = 2 then Inr FUB_HARD
     else ve ''not a valid FlowUpdateBackpressureLevel'')"

interpretation FUB_enum: int_enum FlowUpdateBackpressureLevel_int FlowUpdateBackpressureLevel_of
proof
  show "FlowUpdateBackpressureLevel_of (FlowUpdateBackpressureLevel_int k) = Inr k" for k
    by (cases k) (simp_all add: FlowUpdateBackpressureLevel_of_def)
  show "FlowUpdateBackpressureLevel_of v = Inr k \<Longrightarrow> FlowUpdateBackpressureLevel_int k = v" for v k
    by (auto simp: FlowUpdateBackpressureLevel_of_def split: if_splits)
qed

definition FlowUpdateFlags_call :: "int \<Rightarrow> int" where
  "FlowUpdateFlags_call v = int_flag 15 v"

abbreviation (input) FUF_NONE :: int where "FUF_NONE \<equiv> 0"
abbreviation (input) FUF_CREDIT_VALID :: int where "FUF_CREDIT_VALID \<equiv> 1"
abbreviation (input) FUF_RETRY_AFTER_VALID :: int where "FUF_RETRY_AFTER_VALID \<equiv> 2"
abbreviation (input) FUF_BACKGROUND_ONLY :: int where "FUF_BACKGROUND_ONLY \<equiv> 4"
abbreviation (input) FUF_DRAIN_IN_FLIGHT_ONLY :: int where "FUF_DRAIN_IN_FLIGHT_ONLY \<equiv> 8"

lemma FlowUpdateFlags_call_nonneg [simp]: "0 \<le> v \<Longrightarrow> FlowUpdateFlags_call v = v"
  by (simp add: FlowUpdateFlags_call_def)

datatype ResultHintBudgetPolicy = RHB_NONE | RHB_FULL | RHB_PARTIAL | RHB_STALE_REUSE
    | RHB_DROP

fun ResultHintBudgetPolicy_int :: "ResultHintBudgetPolicy \<Rightarrow> int" where
  "ResultHintBudgetPolicy_int RHB_NONE = 0"
| "ResultHintBudgetPolicy_int RHB_FULL = 1"
| "ResultHintBudgetPolicy_int RHB_PARTIAL = 2"
| "ResultHintBudgetPolicy_int RHB_STALE_REUSE = 3"
| "ResultHintBudgetPolicy_int RHB_DROP = 4"

definition ResultHintBudgetPolicy_of :: "int \<Rightarrow> ResultHintBudgetPolicy res" where
  "ResultHintBudgetPolicy_of v =
     (if v = 0 then Inr RHB_NONE
     else if v = 1 then Inr RHB_FULL
     else if v = 2 then Inr RHB_PARTIAL
     else if v = 3 then Inr RHB_STALE_REUSE
     else if v = 4 then Inr RHB_DROP
     else ve ''not a valid ResultHintBudgetPolicy'')"

interpretation RHB_enum: int_enum ResultHintBudgetPolicy_int ResultHintBudgetPolicy_of
proof
  show "ResultHintBudgetPolicy_of (ResultHintBudgetPolicy_int k) = Inr k" for k
    by (cases k) (simp_all add: ResultHintBudgetPolicy_of_def)
  show "ResultHintBudgetPolicy_of v = Inr k \<Longrightarrow> ResultHintBudgetPolicy_int k = v" for v k
    by (auto simp: ResultHintBudgetPolicy_of_def split: if_splits)
qed

datatype ResultHintCongestionState = RHC_NONE | RHC_STEADY | RHC_ELEVATED | RHC_SATURATED

fun ResultHintCongestionState_int :: "ResultHintCongestionState \<Rightarrow> int" where
  "ResultHintCongestionState_int RHC_NONE = 0"
| "ResultHintCongestionState_int RHC_STEADY = 1"
| "ResultHintCongestionState_int RHC_ELEVATED = 2"
| "ResultHintCongestionState_int RHC_SATURATED = 3"

definition ResultHintCongestionState_of :: "int \<Rightarrow> ResultHintCongestionState res" where
  "ResultHintCongestionState_of v =
     (if v = 0 then Inr RHC_NONE
     else if v = 1 then Inr RHC_STEADY
     else if v = 2 then Inr RHC_ELEVATED
     else if v = 3 then Inr RHC_SATURATED
     else ve ''not a valid ResultHintCongestionState'')"

interpretation RHC_enum: int_enum ResultHintCongestionState_int ResultHintCongestionState_of
proof
  show "ResultHintCongestionState_of (ResultHintCongestionState_int k) = Inr k" for k
    by (cases k) (simp_all add: ResultHintCongestionState_of_def)
  show "ResultHintCongestionState_of v = Inr k \<Longrightarrow> ResultHintCongestionState_int k = v" for v k
    by (auto simp: ResultHintCongestionState_of_def split: if_splits)
qed

datatype ResultHintReason = RHR_NONE | RHR_QUEUE_FULL | RHR_SERVER_BUSY | RHR_BUDGET_EXCEEDED
    | RHR_SUPERSEDED

fun ResultHintReason_int :: "ResultHintReason \<Rightarrow> int" where
  "ResultHintReason_int RHR_NONE = 0"
| "ResultHintReason_int RHR_QUEUE_FULL = 1"
| "ResultHintReason_int RHR_SERVER_BUSY = 2"
| "ResultHintReason_int RHR_BUDGET_EXCEEDED = 3"
| "ResultHintReason_int RHR_SUPERSEDED = 4"

definition ResultHintReason_of :: "int \<Rightarrow> ResultHintReason res" where
  "ResultHintReason_of v =
     (if v = 0 then Inr RHR_NONE
     else if v = 1 then Inr RHR_QUEUE_FULL
     else if v = 2 then Inr RHR_SERVER_BUSY
     else if v = 3 then Inr RHR_BUDGET_EXCEEDED
     else if v = 4 then Inr RHR_SUPERSEDED
     else ve ''not a valid ResultHintReason'')"

interpretation RHR_enum: int_enum ResultHintReason_int ResultHintReason_of
proof
  show "ResultHintReason_of (ResultHintReason_int k) = Inr k" for k
    by (cases k) (simp_all add: ResultHintReason_of_def)
  show "ResultHintReason_of v = Inr k \<Longrightarrow> ResultHintReason_int k = v" for v k
    by (auto simp: ResultHintReason_of_def split: if_splits)
qed

definition ControlExtensionFlags_call :: "int \<Rightarrow> int" where
  "ControlExtensionFlags_call v = int_flag 1 v"

abbreviation (input) CEF_NONE :: int where "CEF_NONE \<equiv> 0"
abbreviation (input) CEF_CRITICAL :: int where "CEF_CRITICAL \<equiv> 1"

lemma ControlExtensionFlags_call_nonneg [simp]: "0 \<le> v \<Longrightarrow> ControlExtensionFlags_call v = v"
  by (simp add: ControlExtensionFlags_call_def)

datatype TransportPolicy = TP_AUTO | TP_PREFER_QUIC | TP_PREFER_TCP | TP_PREFER_IPC
    | TP_PREFER_WEBSOCKET | TP_FORCE_QUIC | TP_FORCE_TCP | TP_FORCE_IPC | TP_FORCE_WEBSOCKET

fun TransportPolicy_int :: "TransportPolicy \<Rightarrow> int" where
  "TransportPolicy_int TP_AUTO = 0"
| "TransportPolicy_int TP_PREFER_QUIC = 1"
| "TransportPolicy_int TP_PREFER_TCP = 2"
| "TransportPolicy_int TP_PREFER_IPC = 3"
| "TransportPolicy_int TP_PREFER_WEBSOCKET = 4"
| "TransportPolicy_int TP_FORCE_QUIC = 5"
| "TransportPolicy_int TP_FORCE_TCP = 6"
| "TransportPolicy_int TP_FORCE_IPC = 7"
| "TransportPolicy_int TP_FORCE_WEBSOCKET = 8"

definition TransportPolicy_of :: "int \<Rightarrow> TransportPolicy res" where
  "TransportPolicy_of v =
     (if v = 0 then Inr TP_AUTO
     else if v = 1 then Inr TP_PREFER_QUIC
     else if v = 2 then Inr TP_PREFER_TCP
     else if v = 3 then Inr TP_PREFER_IPC
     else if v = 4 then Inr TP_PREFER_WEBSOCKET
     else if v = 5 then Inr TP_FORCE_QUIC
     else if v = 6 then Inr TP_FORCE_TCP
     else if v = 7 then Inr TP_FORCE_IPC
     else if v = 8 then Inr TP_FORCE_WEBSOCKET
     else ve ''not a valid TransportPolicy'')"

interpretation TP_enum: int_enum TransportPolicy_int TransportPolicy_of
proof
  show "TransportPolicy_of (TransportPolicy_int k) = Inr k" for k
    by (cases k) (simp_all add: TransportPolicy_of_def)
  show "TransportPolicy_of v = Inr k \<Longrightarrow> TransportPolicy_int k = v" for v k
    by (auto simp: TransportPolicy_of_def split: if_splits)
qed

datatype TransportId = TI_UNSPECIFIED | TI_QUIC | TI_TCP | TI_IPC | TI_WEBSOCKET

fun TransportId_int :: "TransportId \<Rightarrow> int" where
  "TransportId_int TI_UNSPECIFIED = 0"
| "TransportId_int TI_QUIC = 1"
| "TransportId_int TI_TCP = 2"
| "TransportId_int TI_IPC = 3"
| "TransportId_int TI_WEBSOCKET = 4"

definition TransportId_of :: "int \<Rightarrow> TransportId res" where
  "TransportId_of v =
     (if v = 0 then Inr TI_UNSPECIFIED
     else if v = 1 then Inr TI_QUIC
     else if v = 2 then Inr TI_TCP
     else if v = 3 then Inr TI_IPC
     else if v = 4 then Inr TI_WEBSOCKET
     else ve ''not a valid TransportId'')"

interpretation TI_enum: int_enum TransportId_int TransportId_of
proof
  show "TransportId_of (TransportId_int k) = Inr k" for k
    by (cases k) (simp_all add: TransportId_of_def)
  show "TransportId_of v = Inr k \<Longrightarrow> TransportId_int k = v" for v k
    by (auto simp: TransportId_of_def split: if_splits)
qed

datatype LossTolerance = LT_STRICT | LT_BEST_EFFORT | LT_LOW_LATENCY | LT_FIRE_AND_FORGET

fun LossTolerance_int :: "LossTolerance \<Rightarrow> int" where
  "LossTolerance_int LT_STRICT = 0"
| "LossTolerance_int LT_BEST_EFFORT = 1"
| "LossTolerance_int LT_LOW_LATENCY = 2"
| "LossTolerance_int LT_FIRE_AND_FORGET = 3"

definition LossTolerance_of :: "int \<Rightarrow> LossTolerance res" where
  "LossTolerance_of v =
     (if v = 0 then Inr LT_STRICT
     else if v = 1 then Inr LT_BEST_EFFORT
     else if v = 2 then Inr LT_LOW_LATENCY
     else if v = 3 then Inr LT_FIRE_AND_FORGET
     else ve ''not a valid LossTolerance'')"

interpretation LT_enum: int_enum LossTolerance_int LossTolerance_of
proof
  show "LossTolerance_of (LossTolerance_int k) = Inr k" for k
    by (cases k) (simp_all add: LossTolerance_of_def)
  show "LossTolerance_of v = Inr k \<Longrightarrow> LossTolerance_int k = v" for v k
    by (auto simp: LossTolerance_of_def split: if_splits)
qed

section \<open>core/messages/data.py\<close>

datatype InputProfile = IP_UNSPECIFIED | IP_CHANGED_TILES_LUMA | IP_DENSE_LUMA_FRAME

fun InputProfile_int :: "InputProfile \<Rightarrow> int" where
  "InputProfile_int IP_UNSPECIFIED = 0"
| "InputProfile_int IP_CHANGED_TILES_LUMA = 1"
| "InputProfile_int IP_DENSE_LUMA_FRAME = 2"

definition InputProfile_of :: "int \<Rightarrow> InputProfile res" where
  "InputProfile_of v =
     (if v = 0 then Inr IP_UNSPECIFIED
     else if v = 1 then Inr IP_CHANGED_TILES_LUMA
     else if v = 2 then Inr IP_DENSE_LUMA_FRAME
     else ve ''not a valid InputProfile'')"

interpretation IP_enum: int_enum InputProfile_int InputProfile_of
proof
  show "InputProfile_of (InputProfile_int k) = Inr k" for k
    by (cases k) (simp_all add: InputProfile_of_def)
  show "InputProfile_of v = Inr k \<Longrightarrow> InputProfile_int k = v" for v k
    by (auto simp: InputProfile_of_def split: if_splits)
qed

datatype TileIndexMode = TIM_DENSE_RANGE | TIM_RAW_U16 | TIM_DELTA_U16 | TIM_BITSET

fun TileIndexMode_int :: "TileIndexMode \<Rightarrow> int" where
  "TileIndexMode_int TIM_DENSE_RANGE = 0"
| "TileIndexMode_int TIM_RAW_U16 = 1"
| "TileIndexMode_int TIM_DELTA_U16 = 2"
| "TileIndexMode_int TIM_BITSET = 3"

definition TileIndexMode_of :: "int \<Rightarrow> TileIndexMode res" where
  "TileIndexMode_of v =
     (if v = 0 then Inr TIM_DENSE_RANGE
     else if v = 1 then Inr TIM_RAW_U16
     else if v = 2 then Inr TIM_DELTA_U16
     else if v = 3 then Inr TIM_BITSET
     else ve ''not a valid TileIndexMode'')"

interpretation TIM_enum: int_enum TileIndexMode_int TileIndexMode_of
proof
  show "TileIndexMode_of (TileIndexMode_int k) = Inr k" for k
    by (cases k) (simp_all add: TileIndexMode_of_def)
  show "TileIndexMode_of v = Inr k \<Longrightarrow> TileIndexMode_int k = v" for v k
    by (auto simp: TileIndexMode_of_def split: if_splits)
qed

datatype TensorDType = TD_FP16 | TD_FP32 | TD_FP8_E4M3 | TD_FP8_E5M2 | TD_INT8 | TD_UINT8
    | TD_INT16 | TD_UINT16

fun TensorDType_int :: "TensorDType \<Rightarrow> int" where
  "TensorDType_int TD_FP16 = 0"
| "TensorDType_int TD_FP32 = 1"
| "TensorDType_int TD_FP8_E4M3 = 2"
| "TensorDType_int TD_FP8_E5M2 = 3"
| "TensorDType_int TD_INT8 = 4"
| "TensorDType_int TD_UINT8 = 5"
| "TensorDType_int TD_INT16 = 6"
| "TensorDType_int TD_UINT16 = 7"

definition TensorDType_of :: "int \<Rightarrow> TensorDType res" where
  "TensorDType_of v =
     (if v = 0 then Inr TD_FP16
     else if v = 1 then Inr TD_FP32
     else if v = 2 then Inr TD_FP8_E4M3
     else if v = 3 then Inr TD_FP8_E5M2
     else if v = 4 then Inr TD_INT8
     else if v = 5 then Inr TD_UINT8
     else if v = 6 then Inr TD_INT16
     else if v = 7 then Inr TD_UINT16
     else ve ''not a valid TensorDType'')"

interpretation TD_enum: int_enum TensorDType_int TensorDType_of
proof
  show "TensorDType_of (TensorDType_int k) = Inr k" for k
    by (cases k) (simp_all add: TensorDType_of_def)
  show "TensorDType_of v = Inr k \<Longrightarrow> TensorDType_int k = v" for v k
    by (auto simp: TensorDType_of_def split: if_splits)
qed

datatype TensorLayout = TL_NHWC | TL_NCHW

fun TensorLayout_int :: "TensorLayout \<Rightarrow> int" where
  "TensorLayout_int TL_NHWC = 0"
| "TensorLayout_int TL_NCHW = 1"

definition TensorLayout_of :: "int \<Rightarrow> TensorLayout res" where
  "TensorLayout_of v =
     (if v = 0 then Inr TL_NHWC
     else if v = 1 then Inr TL_NCHW
     else ve ''not a valid TensorLayout'')"

interpretation TL_enum: int_enum TensorLayout_int TensorLayout_of
proof
  show "TensorLayout_of (TensorLayout_int k) = Inr k" for k
    by (cases k) (simp_all add: TensorLayout_of_def)
  show "TensorLayout_of v = Inr k \<Longrightarrow> TensorLayout_int k = v" for v k
    by (auto simp: TensorLayout_of_def split: if_splits)
qed

datatype ScalePolicy = SP_NONE | SP_LINEAR | SP_ZERO_POINT

fun ScalePolicy_int :: "ScalePolicy \<Rightarrow> int" where
  "ScalePolicy_int SP_NONE = 0"
| "ScalePolicy_int SP_LINEAR = 1"
| "ScalePolicy_int SP_ZERO_POINT = 2"

definition ScalePolicy_of :: "int \<Rightarrow> ScalePolicy res" where
  "ScalePolicy_of v =
     (if v = 0 then Inr SP_NONE
     else if v = 1 then Inr SP_LINEAR
     else if v = 2 then Inr SP_ZERO_POINT
     else ve ''not a valid ScalePolicy'')"

interpretation SP_enum: int_enum ScalePolicy_int ScalePolicy_of
proof
  show "ScalePolicy_of (ScalePolicy_int k) = Inr k" for k
    by (cases k) (simp_all add: ScalePolicy_of_def)
  show "ScalePolicy_of v = Inr k \<Longrightarrow> ScalePolicy_int k = v" for v k
    by (auto simp: ScalePolicy_of_def split: if_splits)
qed

definition ResultFlags_call :: "int \<Rightarrow> int" where
  "ResultFlags_call v = int_flag 7 v"

abbreviation (input) RF_NONE :: int where "RF_NONE \<equiv> 0"
abbreviation (input) RF_STALE :: int where "RF_STALE \<equiv> 1"
abbreviation (input) RF_FALLBACK :: int where "RF_FALLBACK \<equiv> 2"
abbreviation (input) RF_PARTIAL :: int where "RF_PARTIAL \<equiv> 4"

lemma ResultFlags_call_nonneg [simp]: "0 \<le> v \<Longrightarrow> ResultFlags_call v = v"
  by (simp add: ResultFlags_call_def)

datatype SubmitMode = SM_INLINE | SM_REFERENCE | SM_MIXED

fun SubmitMode_int :: "SubmitMode \<Rightarrow> int" where
  "SubmitMode_int SM_INLINE = 0"
| "SubmitMode_int SM_REFERENCE = 1"
| "SubmitMode_int SM_MIXED = 2"

definition SubmitMode_of :: "int \<Rightarrow> SubmitMode res" where
  "SubmitMode_of v =
     (if v = 0 then Inr SM_INLINE
     else if v = 1 then Inr SM_REFERENCE
     else if v = 2 then Inr SM_MIXED
     else ve ''not a valid SubmitMode'')"

interpretation SM_enum: int_enum SubmitMode_int SubmitMode_of
proof
  show "SubmitMode_of (SubmitMode_int k) = Inr k" for k
    by (cases k) (simp_all add: SubmitMode_of_def)
  show "SubmitMode_of v = Inr k \<Longrightarrow> SubmitMode_int k = v" for v k
    by (auto simp: SubmitMode_of_def split: if_splits)
qed

definition BudgetPolicy_call :: "int \<Rightarrow> int" where
  "BudgetPolicy_call v = int_flag 15 v"

abbreviation (input) BP_NONE :: int where "BP_NONE \<equiv> 0"
abbreviation (input) BP_ALLOW_PARTIAL :: int where "BP_ALLOW_PARTIAL \<equiv> 1"
abbreviation (input) BP_ALLOW_STALE_REUSE :: int where "BP_ALLOW_STALE_REUSE \<equiv> 2"
abbreviation (input) BP_ALLOW_DEGRADED :: int where "BP_ALLOW_DEGRADED \<equiv> 4"
abbreviation (input) BP_ALLOW_DROP :: int where "BP_ALLOW_DROP \<equiv> 8"

lemma BudgetPolicy_call_nonneg [simp]: "0 \<le> v \<Longrightarrow> BudgetPolicy_call v = v"
  by (simp add: BudgetPolicy_call_def)

datatype ResultClass = RC_COMPLETE | RC_PARTIAL | RC_STALE_REUSE | RC_DEGRADED

fun ResultClass_int :: "ResultClass \<Rightarrow> int" where
  "ResultClass_int RC_COMPLETE = 0"
| "ResultClass_int RC_PARTIAL = 1"
| "ResultClass_int RC_STALE_REUSE = 2"
| "ResultClass_int RC_DEGRADED = 3"

definition ResultClass_of :: "int \<Rightarrow> ResultClass res" where
  "ResultClass_of v =
     (if v = 0 then Inr RC_COMPLETE
     else if v = 1 then Inr RC_PARTIAL
     else if v = 2 then Inr RC_STALE_REUSE
     else if v = 3 then Inr RC_DEGRADED
     else ve ''not a valid ResultClass'')"

interpretation RC_enum: int_enum ResultClass_int ResultClass_of
proof
  show "ResultClass_of (ResultClass_int k) = Inr k" for k
    by (cases k) (simp_all add: ResultClass_of_def)
  show "ResultClass_of v = Inr k \<Longrightarrow> ResultClass_int k = v" for v k
    by (auto simp: ResultClass_of_def split: if_splits)
qed

definition SectionFlags_call :: "int \<Rightarrow> int" where
  "SectionFlags_call v = int_flag 3 v"

abbreviation (input) SF_NONE :: int where "SF_NONE \<equiv> 0"
abbreviation (input) SF_MIXED_CODEC :: int where "SF_MIXED_CODEC \<equiv> 1"
abbreviation (input) SF_FIXED_STRIDE :: int where "SF_FIXED_STRIDE \<equiv> 2"

lemma SectionFlags_call_nonneg [simp]: "0 \<le> v \<Longrightarrow> SectionFlags_call v = v"
  by (simp add: SectionFlags_call_def)

definition ExtensionFrameFlags_call :: "int \<Rightarrow> int" where
  "ExtensionFrameFlags_call v = int_flag 1 v"

abbreviation (input) EFF_NONE :: int where "EFF_NONE \<equiv> 0"
abbreviation (input) EFF_CRITICAL :: int where "EFF_CRITICAL \<equiv> 1"

lemma ExtensionFrameFlags_call_nonneg [simp]: "0 \<le> v \<Longrightarrow> ExtensionFrameFlags_call v = v"
  by (simp add: ExtensionFrameFlags_call_def)

section \<open>schema.py\<close>

datatype StandardProfile = PROFILE_UNSPECIFIED | PROFILE_TENSOR | PROFILE_TOKEN

fun StandardProfile_int :: "StandardProfile \<Rightarrow> int" where
  "StandardProfile_int PROFILE_UNSPECIFIED = 0"
| "StandardProfile_int PROFILE_TENSOR = 1"
| "StandardProfile_int PROFILE_TOKEN = 2"

definition StandardProfile_of :: "int \<Rightarrow> StandardProfile res" where
  "StandardProfile_of v =
     (if v = 0 then Inr PROFILE_UNSPECIFIED
     else if v = 1 then Inr PROFILE_TENSOR
     else if v = 2 then Inr PROFILE_TOKEN
     else ve ''not a valid StandardProfile'')"

interpretation PROFILE_enum: int_enum StandardProfile_int StandardProfile_of
proof
  show "StandardProfile_of (StandardProfile_int k) = Inr k" for k
    by (cases k) (simp_all add: StandardProfile_of_def)
  show "StandardProfile_of v = Inr k \<Longrightarrow> StandardProfile_int k = v" for v k
    by (auto simp: StandardProfile_of_def split: if_splits)
qed

datatype StreamSemantics = STREAM_UNSPECIFIED | STREAM_SNAPSHOT | STREAM_APPEND

fun StreamSemantics_int :: "StreamSemantics \<Rightarrow> int" where
  "StreamSemantics_int STREAM_UNSPECIFIED = 0"
| "StreamSemantics_int STREAM_SNAPSHOT = 1"
| "StreamSemantics_int STREAM_APPEND = 2"

definition StreamSemantics_of :: "int \<Rightarrow> StreamSemantics res" where
  "StreamSemantics_of v =
     (if v = 0 then Inr STREAM_UNSPECIFIED
     else if v = 1 then Inr STREAM_SNAPSHOT
     else if v = 2 then Inr STREAM_APPEND
     else ve ''not a valid StreamSemantics'')"

interpretation STREAM_enum: int_enum StreamSemantics_int StreamSemantics_of
proof
  show "StreamSemantics_of (StreamSemantics_int k) = Inr k" for k
    by (cases k) (simp_all add: StreamSemantics_of_def)
  show "StreamSemantics_of v = Inr k \<Longrightarrow> StreamSemantics_int k = v" for v k
    by (auto simp: StreamSemantics_of_def split: if_splits)
qed

definition SchemaDescriptorFlags_call :: "int \<Rightarrow> int" where
  "SchemaDescriptorFlags_call v = int_flag 15 v"

abbreviation (input) SDF_NONE :: int where "SDF_NONE \<equiv> 0"
abbreviation (input) SDF_BREAKING_CHANGE :: int where "SDF_BREAKING_CHANGE \<equiv> 1"
abbreviation (input) SDF_COMPATIBLE_UPDATE :: int where "SDF_COMPATIBLE_UPDATE \<equiv> 2"
abbreviation (input) SDF_DEPENDENCY_BOUND :: int where "SDF_DEPENDENCY_BOUND \<equiv> 4"
abbreviation (input) SDF_BODY_SCHEMA_PRESENT :: int where "SDF_BODY_SCHEMA_PRESENT \<equiv> 8"

lemma SchemaDescriptorFlags_call_nonneg [simp]: "0 \<le> v \<Longrightarrow> SchemaDescriptorFlags_call v = v"
  by (simp add: SchemaDescriptorFlags_call_def)

definition TypedPayloadDescriptorFlags_call :: "int \<Rightarrow> int" where
  "TypedPayloadDescriptorFlags_call v = int_flag 15 v"

abbreviation (input) TPF_NONE :: int where "TPF_NONE \<equiv> 0"
abbreviation (input) TPF_TERMINAL :: int where "TPF_TERMINAL \<equiv> 1"
abbreviation (input) TPF_PARTIAL :: int where "TPF_PARTIAL \<equiv> 2"
abbreviation (input) TPF_SCHEMA_OVERRIDE :: int where "TPF_SCHEMA_OVERRIDE \<equiv> 4"
abbreviation (input) TPF_PROFILE_HINT_PRESENT :: int where "TPF_PROFILE_HINT_PRESENT \<equiv> 8"

lemma TypedPayloadDescriptorFlags_call_nonneg [simp]: "0 \<le> v \<Longrightarrow> TypedPayloadDescriptorFlags_call v = v"
  by (simp add: TypedPayloadDescriptorFlags_call_def)

datatype SchemaRegistryAction = SRA_INSTALLED | SRA_ALREADY_INSTALLED | SRA_UPDATED
    | SRA_INVALIDATED

fun SchemaRegistryAction_int :: "SchemaRegistryAction \<Rightarrow> int" where
  "SchemaRegistryAction_int SRA_INSTALLED = 1"
| "SchemaRegistryAction_int SRA_ALREADY_INSTALLED = 2"
| "SchemaRegistryAction_int SRA_UPDATED = 3"
| "SchemaRegistryAction_int SRA_INVALIDATED = 4"

definition SchemaRegistryAction_of :: "int \<Rightarrow> SchemaRegistryAction res" where
  "SchemaRegistryAction_of v =
     (if v = 1 then Inr SRA_INSTALLED
     else if v = 2 then Inr SRA_ALREADY_INSTALLED
     else if v = 3 then Inr SRA_UPDATED
     else if v = 4 then Inr SRA_INVALIDATED
     else ve ''not a valid SchemaRegistryAction'')"

interpretation SRA_enum: int_enum SchemaRegistryAction_int SchemaRegistryAction_of
proof
  show "SchemaRegistryAction_of (SchemaRegistryAction_int k) = Inr k" for k
    by (cases k) (simp_all add: SchemaRegistryAction_of_def)
  show "SchemaRegistryAction_of v = Inr k \<Longrightarrow> SchemaRegistryAction_int k = v" for v k
    by (auto simp: SchemaRegistryAction_of_def split: if_splits)
qed

datatype SchemaRegistryFailure = SRF_UNKNOWN | SRF_VERSION_UNKNOWN | SRF_HASH_CONFLICT
    | SRF_INCOMPATIBLE | SRF_UPDATE_REJECTED

fun SchemaRegistryFailure_int :: "SchemaRegistryFailure \<Rightarrow> int" where
  "SchemaRegistryFailure_int SRF_UNKNOWN = 1"
| "SchemaRegistryFailure_int SRF_VERSION_UNKNOWN = 2"
| "SchemaRegistryFailure_int SRF_HASH_CONFLICT = 3"
| "SchemaRegistryFailure_int SRF_INCOMPATIBLE = 4"
| "SchemaRegistryFailure_int SRF_UPDATE_REJECTED = 5"

definition SchemaRegistryFailure_of :: "int \<Rightarrow> SchemaRegistryFailure res" where
  "SchemaRegistryFailure_of v =
     (if v = 1 then Inr SRF_UNKNOWN
     else if v = 2 then Inr SRF_VERSION_UNKNOWN
     else if v = 3 then Inr SRF_HASH_CONFLICT
     else if v = 4 then Inr SRF_INCOMPATIBLE
     else if v = 5 then Inr SRF_UPDATE_REJECTED
     else ve ''not a valid SchemaRegistryFailure'')"

interpretation SRF_enum: int_enum SchemaRegistryFailure_int SchemaRegistryFailure_of
proof
  show "SchemaRegistryFailure_of (SchemaRegistryFailure_int k) = Inr k" for k
    by (cases k) (simp_all add: SchemaRegistryFailure_of_def)
  show "SchemaRegistryFailure_of v = Inr k \<Longrightarrow> SchemaRegistryFailure_int k = v" for v k
    by (auto simp: SchemaRegistryFailure_of_def split: if_splits)
qed

end
