(* ===== verification/Header.thy ===== *)
theory Header
  imports Enums
begin

text \<open>
  The fixed 40-byte packet header of \<open>core/header.py\<close>: \<open>NnrpHeader.pack\<close> and
  \<open>NnrpHeader.unpack\<close>, and the proof that they are inverse to each other.
\<close>

definition HEADER_MAGIC :: bytes where
  "HEADER_MAGIC = [78, 78, 82, 80]"  \<comment> \<open>\<open>b"NNRP"\<close>\<close>

text \<open>\<open>HEADER_STRUCT = "<4sBBBBIIIIIHHQ"\<close>: four magic bytes, then these integer fields.\<close>

definition HEADER_FIELDS :: "field list" where
  "HEADER_FIELDS = [FB, FB, FB, FB, FI, FI, FI, FI, FI, FH, FH, FQ]"

definition HEADER_LENGTH :: nat where
  "HEADER_LENGTH = 4 + calcsize HEADER_FIELDS"

lemma HEADER_LENGTH_eq [simp]: "HEADER_LENGTH = 40"
  by (simp add: HEADER_LENGTH_def HEADER_FIELDS_def)

lemma length_HEADER_MAGIC [simp]: "length HEADER_MAGIC = 4"
  by (simp add: HEADER_MAGIC_def)

record NnrpHeader =
  hdr_version_major :: int
  hdr_wire_format :: WireFormat
  hdr_msg_type :: MessageType
  hdr_flags :: int
  hdr_meta_len :: int
  hdr_body_len :: int
  hdr_session_id :: int
  hdr_frame_id :: int
  hdr_view_id :: int
  hdr_route_id :: int
  hdr_trace_id :: int
  hdr_header_len :: int

definition NnrpHeader_pack :: "NnrpHeader \<Rightarrow> bytes res" where
  "NnrpHeader_pack h =
     (if hdr_header_len h \<noteq> int HEADER_LENGTH then ve ''header_len must be HEADER_LENGTH''
      else bind_res
        (struct_pack HEADER_FIELDS
          [hdr_version_major h, WireFormat_int (hdr_wire_format h),
           MessageType_int (hdr_msg_type h), hdr_header_len h, hdr_flags h, hdr_meta_len h,
           hdr_body_len h, hdr_session_id h, hdr_frame_id h, hdr_view_id h, hdr_route_id h,
           hdr_trace_id h])
        (\<lambda>bs. Inr (HEADER_MAGIC @ bs)))"

definition NnrpHeader_from_fields :: "WireFormat option \<Rightarrow> int list \<Rightarrow> NnrpHeader res" where
  "NnrpHeader_from_fields expected_wire_format vals =
     (case vals of
        [version_major, wire_format, msg_type, header_len, flags, meta_len, body_len,
         session_id, frame_id, view_id, route_id, trace_id] \<Rightarrow>
          if header_len \<noteq> int HEADER_LENGTH then ve ''unexpected header_len'' else
          bind_res (WireFormat_of wire_format) (\<lambda>wf.
          bind_res (MessageType_of msg_type) (\<lambda>mt.
          if given_and expected_wire_format (\<lambda>w. wf \<noteq> w) then ve ''unexpected wire_format''
          else Inr \<lparr>hdr_version_major = version_major, hdr_wire_format = wf,
                    hdr_msg_type = mt, hdr_flags = HeaderFlags_call flags,
                    hdr_meta_len = meta_len, hdr_body_len = body_len,
                    hdr_session_id = session_id, hdr_frame_id = frame_id,
                    hdr_view_id = view_id, hdr_route_id = route_id,
                    hdr_trace_id = trace_id, hdr_header_len = header_len\<rparr>))
      | _ \<Rightarrow> tuple_error)"

definition NnrpHeader_unpack :: "WireFormat option \<Rightarrow> bytes \<Rightarrow> NnrpHeader res" where
  "NnrpHeader_unpack expected_wire_format payload =
     (if length payload \<noteq> HEADER_LENGTH then ve ''expected HEADER_LENGTH bytes''
      else bind_res (struct_unpack HEADER_FIELDS (drop 4 payload)) (\<lambda>vals.
        if take 4 payload \<noteq> HEADER_MAGIC then ve ''unexpected magic''
        else NnrpHeader_from_fields expected_wire_format vals))"

section \<open>Round trips\<close>

text \<open>
  A header that packs is read back as it was; a header that unpacks packs to the same 40
  bytes.  No further hypothesis is needed: \<open>pack\<close> itself rejects a wrong \<open>header_len\<close> and
  every value that does not fit its field.
\<close>

lemma NnrpHeader_pack_length: "NnrpHeader_pack h = Inr bs \<Longrightarrow> length bs = HEADER_LENGTH"
  by (auto simp: NnrpHeader_pack_def res_simps HEADER_FIELDS_def dest!: length_struct_pack)

lemma NnrpHeader_unpack_pack: "NnrpHeader_pack h = Inr bs \<Longrightarrow> NnrpHeader_unpack None bs = Inr h"
proof -
  assume "NnrpHeader_pack h = Inr bs"
  then obtain fs where fs: "struct_pack HEADER_FIELDS
          [hdr_version_major h, WireFormat_int (hdr_wire_format h),
           MessageType_int (hdr_msg_type h), hdr_header_len h, hdr_flags h, hdr_meta_len h,
           hdr_body_len h, hdr_session_id h, hdr_frame_id h, hdr_view_id h, hdr_route_id h,
           hdr_trace_id h] = Inr fs" and bs: "bs = HEADER_MAGIC @ fs" "hdr_header_len h = 40"
    by (auto simp: NnrpHeader_pack_def res_simps)
  have "length fs = 36"
    using length_struct_pack [OF fs] by (simp add: HEADER_FIELDS_def)
  moreover have "0 \<le> hdr_flags h"
    using struct_pack_fits [OF fs] by (simp add: HEADER_FIELDS_def fits_def)
  ultimately show ?thesis
    using bs by (simp add: NnrpHeader_unpack_def NnrpHeader_from_fields_def struct_unpack_pack [OF fs])
qed

lemma NnrpHeader_unpackE:
  assumes "NnrpHeader_unpack w bs = Inr h"
  obtains vals where "bs = HEADER_MAGIC @ drop 4 bs"
    "struct_pack HEADER_FIELDS vals = Inr (drop 4 bs)" "NnrpHeader_from_fields w vals = Inr h"
    "list_all2 fits HEADER_FIELDS vals"
  using assms
  by (simp add: NnrpHeader_unpack_def res_simps struct_unpack_iff_pack)
    (metis append_take_drop_id struct_pack_fits)

lemma NnrpHeader_pack_unpack: "NnrpHeader_unpack w bs = Inr h \<Longrightarrow> NnrpHeader_pack h = Inr bs"
proof -
  assume "NnrpHeader_unpack w bs = Inr h"
  then obtain vals where v: "bs = HEADER_MAGIC @ drop 4 bs"
      "struct_pack HEADER_FIELDS vals = Inr (drop 4 bs)" "NnrpHeader_from_fields w vals = Inr h"
      "list_all2 fits HEADER_FIELDS vals"
    by (rule NnrpHeader_unpackE)
  obtain v0 v1 v2 v3 v4 v5 v6 v7 v8 v9 v10 v11
    where vals: "vals = [v0, v1, v2, v3, v4, v5, v6, v7, v8, v9, v10, v11]" and flags: "fits FI v4"
    using v(4) unfolding HEADER_FIELDS_def list_all2_fits_Cons list_all2_Nil by blast
  have "NnrpHeader_pack h = bind_res (struct_pack HEADER_FIELDS vals) (\<lambda>bs. Inr (HEADER_MAGIC @ bs))"
    using v(3) flags
    by (auto simp: NnrpHeader_from_fields_def NnrpHeader_pack_def vals fits_def res_simps)
  then show ?thesis
    using v(1,2) by simp
qed

lemma NnrpHeader_unpack_length: "NnrpHeader_unpack w bs = Inr h \<Longrightarrow> length bs = HEADER_LENGTH"
  by (simp add: NnrpHeader_unpack_def split: if_splits)

text \<open>The header is a canonical fixed-width codec: the locale's laws hold for it.\<close>

interpretation hdr: canonical_codec NnrpHeader_pack "NnrpHeader_unpack None" "\<lambda>h. True" HEADER_LENGTH
  by unfold_locales
    (auto intro: NnrpHeader_unpack_pack NnrpHeader_pack_unpack
      dest: NnrpHeader_pack_length NnrpHeader_unpack_length)

text \<open>What the fields of a header that came off the wire can be.\<close>

lemma NnrpHeader_unpack_bounds:
  assumes "NnrpHeader_unpack w bs = Inr h"
  shows "0 \<le> hdr_meta_len h" "hdr_meta_len h < 2 ^ 32" "0 \<le> hdr_body_len h"
    "hdr_body_len h < 2 ^ 32" "hdr_header_len h = 40"
proof -
  obtain fs where "struct_pack HEADER_FIELDS
          [hdr_version_major h, WireFormat_int (hdr_wire_format h),
           MessageType_int (hdr_msg_type h), hdr_header_len h, hdr_flags h, hdr_meta_len h,
           hdr_body_len h, hdr_session_id h, hdr_frame_id h, hdr_view_id h, hdr_route_id h,
           hdr_trace_id h] = Inr fs" "hdr_header_len h = 40"
    using NnrpHeader_pack_unpack [OF assms] by (auto simp: NnrpHeader_pack_def res_simps)
  then show "0 \<le> hdr_meta_len h" "hdr_meta_len h < 2 ^ 32" "0 \<le> hdr_body_len h"
    "hdr_body_len h < 2 ^ 32" "hdr_header_len h = 40"
    by (auto simp: HEADER_FIELDS_def fits_def dest!: struct_pack_fits)
qed

lemma NnrpHeader_unpack_expected:
  "NnrpHeader_unpack (Some w) bs =
     bind_res (NnrpHeader_unpack None bs) (\<lambda>h.
       if hdr_wire_format h \<noteq> w then ve ''unexpected wire_format'' else Inr h)"
  by (auto simp: NnrpHeader_unpack_def NnrpHeader_from_fields_def bind_res_def
      split: sum.splits list.splits)

end
