(* ===== verification/Control_Messages.thy ===== *)
theory Control_Messages
  imports Enums
begin

text \<open>
  The fixed-width control-plane metadata of \<open>core/messages/control.py\<close>, in the order of the
  file.  The naming follows \<open>Data_Messages\<close>; a class with a \<open>_validate\<close> method has a
  definition \<open>X_validate\<close>, which \<open>pack\<close> and \<open>_from_tuple\<close> both call.

  \<open>FlowUpdateMetadata\<close> ignores its two reserved fields when it decodes, so it is only a
  \<open>fixed_codec\<close>; the other classes are \<open>canonical_codec\<close>s.
\<close>

section \<open>Cache object bitmaps\<close>

definition build_cache_object_bitmap :: "int list \<Rightarrow> int res" where
  "build_cache_object_bitmap object_kinds =
     fold (\<lambda>k acc. bind_res acc (\<lambda>bitmap. bind_res (CacheObjectKind_of k) (\<lambda>kind.
       Inr (bitmap OR push_bit (nat (CacheObjectKind_int kind - 1)) 1)))) object_kinds (Inr 0)"

definition TENSOR_PROFILE_CACHE_OBJECT_BITMAP :: int where
  "TENSOR_PROFILE_CACHE_OBJECT_BITMAP = 7"

lemma TENSOR_PROFILE_CACHE_OBJECT_BITMAP_built:
  "build_cache_object_bitmap (map CacheObjectKind_int
     [COK_CAMERA_BLOCK, COK_TILE_INDEX_BLOCK, COK_TENSOR_SECTION_TABLE])
   = Inr TENSOR_PROFILE_CACHE_OBJECT_BITMAP"
  by (simp add: build_cache_object_bitmap_def TENSOR_PROFILE_CACHE_OBJECT_BITMAP_def
      CacheObjectKind_of_def push_bit_eq_mult)

section \<open>SessionOpenMetadata\<close>

text \<open>A loop over field names that must fit in 32 bits: the first that does not is reported.\<close>

definition require_all_u32 :: "(string \<times> int) list \<Rightarrow> unit res" where
  "require_all_u32 fields =
     (case find (\<lambda>(n, v). \<not> (0 \<le> v \<and> v \<le> 0xFFFFFFFF)) fields of
        Some (n, v) \<Rightarrow> ve (n @ '' must fit in u32'')
      | None \<Rightarrow> Inr ())"

lemma require_all_u32_iff:
  "require_all_u32 fs = Inr () \<longleftrightarrow> (\<forall>(n, v) \<in> set fs. 0 \<le> v \<and> v < 2 ^ 32)"
  by (induction fs) (auto simp: require_all_u32_def split: option.splits)

definition SESSION_OPEN_STRUCT :: "field list" where
  "SESSION_OPEN_STRUCT =
     [FI, FH, FB, FB, FI, FI, FI, FH, FH, FI, FI, FI, FI, FQ]"

lemma SESSION_OPEN_STRUCT_size [simp]: "calcsize SESSION_OPEN_STRUCT = 48"
  by (simp add: SESSION_OPEN_STRUCT_def)

record SessionOpenMetadata =
  som_requested_session_id :: int
  som_profile_id :: int
  som_priority_class :: SessionPriorityClass
  som_session_flags :: int
  som_schema_id :: int
  som_schema_version :: int
  som_default_deadline_ms :: int
  som_max_in_flight_operations :: int
  som_lease_ttl_hint_ms :: int
  som_resume_token_bytes :: int
  som_auth_bytes :: int
  som_session_extension_bytes :: int
  som_client_session_tag :: int

definition SessionOpenMetadata_values :: "SessionOpenMetadata \<Rightarrow> int list" where
  "SessionOpenMetadata_values m =
     [som_requested_session_id m, som_profile_id m,
      SessionPriorityClass_int (som_priority_class m), som_session_flags m, som_schema_id m,
      som_schema_version m, som_default_deadline_ms m, som_max_in_flight_operations m, 0,
      som_lease_ttl_hint_ms m, som_resume_token_bytes m, som_auth_bytes m,
      som_session_extension_bytes m, som_client_session_tag m]"

definition SessionOpenMetadata_validate :: "SessionOpenMetadata \<Rightarrow> unit res" where
  "SessionOpenMetadata_validate m =
     (if \<not> (0 \<le> som_requested_session_id m \<and> som_requested_session_id m \<le> 0xFFFFFFFF)
      then ve ''requested_session_id must fit in u32''
      else if \<not> (0 \<le> som_profile_id m \<and> som_profile_id m \<le> 0xFFFF)
      then ve ''profile_id must fit in u16''
      else if som_session_flags m AND NOT 15 \<noteq> 0 then ve ''session_flags contains unknown bits''
      else bind_res (require_all_u32
        [(''schema_id'', som_schema_id m), (''schema_version'', som_schema_version m),
         (''default_deadline_ms'', som_default_deadline_ms m),
         (''lease_ttl_hint_ms'', som_lease_ttl_hint_ms m),
         (''resume_token_bytes'', som_resume_token_bytes m), (''auth_bytes'', som_auth_bytes m),
         (''session_extension_bytes'', som_session_extension_bytes m)]) (\<lambda>_.
        if \<not> (0 \<le> som_max_in_flight_operations m \<and> som_max_in_flight_operations m \<le> 0xFFFF)
        then ve ''max_in_flight_operations must fit in u16''
        else if \<not> (0 \<le> som_client_session_tag m \<and> som_client_session_tag m \<le> 0xFFFFFFFFFFFFFFFF)
        then ve ''client_session_tag must fit in u64''
        else Inr ()))"

definition SessionOpenMetadata_pack :: "SessionOpenMetadata \<Rightarrow> bytes res" where
  "SessionOpenMetadata_pack = fixed_width_pack SESSION_OPEN_STRUCT SessionOpenMetadata_validate SessionOpenMetadata_values"

definition SessionOpenMetadata_from_tuple :: "int list \<Rightarrow> SessionOpenMetadata res" where
  "SessionOpenMetadata_from_tuple vs =
     (case vs of
        [requested_session_id, profile_id, priority_class, session_flags, schema_id,
         schema_version, default_deadline_ms, max_in_flight_operations, reserved0,
         lease_ttl_hint_ms, resume_token_bytes, auth_bytes, session_extension_bytes,
         client_session_tag] \<Rightarrow>
          if reserved0 \<noteq> 0 then ve ''SESSION_OPEN reserved0 must be zero'' else
          bind_res (SessionPriorityClass_of priority_class) (\<lambda>priority_class.
          let metadata =
            \<lparr>som_requested_session_id = requested_session_id, som_profile_id = profile_id,
            som_priority_class = priority_class, som_session_flags = session_flags,
            som_schema_id = schema_id, som_schema_version = schema_version,
            som_default_deadline_ms = default_deadline_ms,
            som_max_in_flight_operations = max_in_flight_operations,
            som_lease_ttl_hint_ms = lease_ttl_hint_ms,
            som_resume_token_bytes = resume_token_bytes, som_auth_bytes = auth_bytes,
            som_session_extension_bytes = session_extension_bytes,
            som_client_session_tag = client_session_tag\<rparr>
          in bind_res (SessionOpenMetadata_validate metadata) (\<lambda>_. Inr metadata))
      | _ \<Rightarrow> tuple_error)"

definition SessionOpenMetadata_unpack :: "bytes \<Rightarrow> SessionOpenMetadata res" where
  "SessionOpenMetadata_unpack = fixed_width_unpack SESSION_OPEN_STRUCT SessionOpenMetadata_from_tuple"

lemma SessionOpenMetadata_from_values:
  assumes "SessionOpenMetadata_validate m = Inr ()" "list_all2 fits SESSION_OPEN_STRUCT (SessionOpenMetadata_values m)"
  shows "SessionOpenMetadata_from_tuple (SessionOpenMetadata_values m) = Inr m"
  using assms
  by (cases m)
    (simp add: SessionOpenMetadata_values_def SessionOpenMetadata_from_tuple_def)

lemma SessionOpenMetadata_values_from:
  assumes "list_all2 fits SESSION_OPEN_STRUCT vs" "SessionOpenMetadata_from_tuple vs = Inr m"
  shows "SessionOpenMetadata_validate m = Inr () \<and> SessionOpenMetadata_values m = vs"
  using assms unfolding SESSION_OPEN_STRUCT_def list_all2_fits_Cons list_all2_Nil
  by (elim exE conjE)
    (auto simp: SessionOpenMetadata_from_tuple_def SessionOpenMetadata_values_def
      Let_def res_simps)

interpretation som: canonical_codec
  SessionOpenMetadata_pack SessionOpenMetadata_unpack "(\<lambda>m. True)" "calcsize SESSION_OPEN_STRUCT"
  unfolding SessionOpenMetadata_pack_def SessionOpenMetadata_unpack_def
  by (rule canonical_codecI)
    (auto intro: SessionOpenMetadata_from_values dest: SessionOpenMetadata_values_from)

section \<open>FlowUpdateMetadata\<close>

definition FLOW_UPDATE_STRUCT :: "field list" where
  "FLOW_UPDATE_STRUCT =
     [FB, FB, FB, FB, FH, FH, FH, FH, FQ, FI, FI, FI]"

lemma FLOW_UPDATE_STRUCT_size [simp]: "calcsize FLOW_UPDATE_STRUCT = 32"
  by (simp add: FLOW_UPDATE_STRUCT_def)

record FlowUpdateMetadata =
  fum_scope_kind :: FlowUpdateScopeKind
  fum_update_reason :: FlowUpdateReason
  fum_backpressure_level :: FlowUpdateBackpressureLevel
  fum_connection_credit :: int
  fum_session_credit :: int
  fum_operation_credit :: int
  fum_operation_id :: int
  fum_retry_after_ms :: int
  fum_credit_epoch :: int
  fum_flags :: int

definition FlowUpdateMetadata_values :: "FlowUpdateMetadata \<Rightarrow> int list" where
  "FlowUpdateMetadata_values m =
     [FlowUpdateScopeKind_int (fum_scope_kind m), FlowUpdateReason_int (fum_update_reason m),
      FlowUpdateBackpressureLevel_int (fum_backpressure_level m), 0, fum_connection_credit m,
      fum_session_credit m, fum_operation_credit m, 0, fum_operation_id m,
      fum_retry_after_ms m, fum_credit_epoch m, fum_flags m]"

definition FlowUpdateMetadata_validate :: "FlowUpdateMetadata \<Rightarrow> unit res" where
  "FlowUpdateMetadata_validate m =
     (if fum_connection_credit m < 0 \<or> fum_connection_credit m > 0xFFFF
      then ve ''connection_credit must fit in u16''
      else if fum_session_credit m < 0 \<or> fum_session_credit m > 0xFFFF
      then ve ''session_credit must fit in u16''
      else if fum_operation_credit m < 0 \<or> fum_operation_credit m > 0xFFFF
      then ve ''operation_credit must fit in u16''
      else if fum_operation_id m < 0 \<or> fum_operation_id m > 0xFFFFFFFFFFFFFFFF
      then ve ''operation_id must fit in u64''
      else if fum_retry_after_ms m < 0 \<or> fum_retry_after_ms m > 0xFFFFFFFF
      then ve ''retry_after_ms must fit in u32''
      else if fum_credit_epoch m < 0 \<or> fum_credit_epoch m > 0xFFFFFFFF
      then ve ''credit_epoch must fit in u32''
      else if fum_flags m AND NOT 15 \<noteq> 0 then ve ''unknown FLOW_UPDATE flags''
      else if fum_retry_after_ms m \<noteq> 0 \<and> fum_flags m AND FUF_RETRY_AFTER_VALID = 0
      then ve ''retry_after_ms requires RETRY_AFTER_VALID''
      else (case fum_scope_kind m of
          FUS_CONNECTION \<Rightarrow>
            if fum_session_credit m \<noteq> 0 \<or> fum_operation_credit m \<noteq> 0 \<or> fum_operation_id m \<noteq> 0
            then ve ''connection-scope FLOW_UPDATE must not carry session_credit, operation_credit, or operation_id''
            else Inr ()
        | FUS_SESSION \<Rightarrow>
            if fum_connection_credit m \<noteq> 0 \<or> fum_operation_credit m \<noteq> 0 \<or> fum_operation_id m \<noteq> 0
            then ve ''session-scope FLOW_UPDATE must not carry connection_credit, operation_credit, or operation_id''
            else Inr ()
        | FUS_OPERATION \<Rightarrow>
            if fum_connection_credit m \<noteq> 0 \<or> fum_session_credit m \<noteq> 0
            then ve ''operation-scope FLOW_UPDATE must not carry connection_credit or session_credit''
            else if fum_operation_id m = 0
            then ve ''operation-scope FLOW_UPDATE requires a non-zero operation_id''
            else Inr ()))"

definition FlowUpdateMetadata_pack :: "FlowUpdateMetadata \<Rightarrow> bytes res" where
  "FlowUpdateMetadata_pack = fixed_width_pack FLOW_UPDATE_STRUCT FlowUpdateMetadata_validate FlowUpdateMetadata_values"

definition FlowUpdateMetadata_from_tuple :: "int list \<Rightarrow> FlowUpdateMetadata res" where
  "FlowUpdateMetadata_from_tuple vs =
     (case vs of
        [scope_kind, update_reason, backpressure_level, _, connection_credit, session_credit,
         operation_credit, _, operation_id, retry_after_ms, credit_epoch, flags] \<Rightarrow>
          bind_res (FlowUpdateScopeKind_of scope_kind) (\<lambda>scope_kind.
          bind_res (FlowUpdateReason_of update_reason) (\<lambda>update_reason.
          bind_res (FlowUpdateBackpressureLevel_of backpressure_level) (\<lambda>backpressure_level.
          let metadata =
            \<lparr>fum_scope_kind = scope_kind, fum_update_reason = update_reason,
            fum_backpressure_level = backpressure_level,
            fum_connection_credit = connection_credit, fum_session_credit = session_credit,
            fum_operation_credit = operation_credit, fum_operation_id = operation_id,
            fum_retry_after_ms = retry_after_ms, fum_credit_epoch = credit_epoch,
            fum_flags = FlowUpdateFlags_call flags\<rparr>
          in bind_res (FlowUpdateMetadata_validate metadata) (\<lambda>_. Inr metadata))))
      | _ \<Rightarrow> tuple_error)"

definition FlowUpdateMetadata_unpack :: "bytes \<Rightarrow> FlowUpdateMetadata res" where
  "FlowUpdateMetadata_unpack = fixed_width_unpack FLOW_UPDATE_STRUCT FlowUpdateMetadata_from_tuple"

lemma FlowUpdateMetadata_from_values:
  assumes "FlowUpdateMetadata_validate m = Inr ()" "list_all2 fits FLOW_UPDATE_STRUCT (FlowUpdateMetadata_values m)"
  shows "FlowUpdateMetadata_from_tuple (FlowUpdateMetadata_values m) = Inr m"
  using assms
  by (cases m)
    (simp add: FlowUpdateMetadata_values_def FlowUpdateMetadata_from_tuple_def FLOW_UPDATE_STRUCT_def fits_def)

lemma FlowUpdateMetadata_values_from:
  assumes "list_all2 fits FLOW_UPDATE_STRUCT vs" "FlowUpdateMetadata_from_tuple vs = Inr m"
  shows "FlowUpdateMetadata_validate m = Inr ()"
  using assms unfolding FLOW_UPDATE_STRUCT_def list_all2_fits_Cons list_all2_Nil
  by (elim exE conjE)
    (auto simp: FlowUpdateMetadata_from_tuple_def FlowUpdateMetadata_values_def
      fits_def Let_def res_simps)

interpretation fum: fixed_codec
  FlowUpdateMetadata_pack FlowUpdateMetadata_unpack "(\<lambda>m. True)" "calcsize FLOW_UPDATE_STRUCT"
  unfolding FlowUpdateMetadata_pack_def FlowUpdateMetadata_unpack_def
  by (rule fixed_codecI)
    (auto intro: FlowUpdateMetadata_from_values dest: FlowUpdateMetadata_values_from)

section \<open>ResultHintMetadata\<close>

definition RESULT_HINT_STRUCT :: "field list" where
  "RESULT_HINT_STRUCT =
     [FI, FI, FI, FI]"

lemma RESULT_HINT_STRUCT_size [simp]: "calcsize RESULT_HINT_STRUCT = 16"
  by (simp add: RESULT_HINT_STRUCT_def)

record ResultHintMetadata =
  rhm_applied_budget_policy :: ResultHintBudgetPolicy
  rhm_congestion_state :: ResultHintCongestionState
  rhm_reason :: ResultHintReason
  rhm_retry_after_ms :: int

definition ResultHintMetadata_values :: "ResultHintMetadata \<Rightarrow> int list" where
  "ResultHintMetadata_values m =
     [ResultHintBudgetPolicy_int (rhm_applied_budget_policy m),
      ResultHintCongestionState_int (rhm_congestion_state m),
      ResultHintReason_int (rhm_reason m), rhm_retry_after_ms m]"

definition ResultHintMetadata_validate :: "ResultHintMetadata \<Rightarrow> unit res" where
  "ResultHintMetadata_validate m =
     (if rhm_retry_after_ms m < 0 then ve ''retry_after_ms must be non-negative'' else Inr ())"

definition ResultHintMetadata_pack :: "ResultHintMetadata \<Rightarrow> bytes res" where
  "ResultHintMetadata_pack = fixed_width_pack RESULT_HINT_STRUCT ResultHintMetadata_validate ResultHintMetadata_values"

definition ResultHintMetadata_from_tuple :: "int list \<Rightarrow> ResultHintMetadata res" where
  "ResultHintMetadata_from_tuple vs =
     (case vs of
        [applied_budget_policy, congestion_state, reason, retry_after_ms] \<Rightarrow>
          bind_res (ResultHintBudgetPolicy_of applied_budget_policy) (\<lambda>applied_budget_policy.
          bind_res (ResultHintCongestionState_of congestion_state) (\<lambda>congestion_state.
          bind_res (ResultHintReason_of reason) (\<lambda>reason.
          let metadata =
            \<lparr>rhm_applied_budget_policy = applied_budget_policy,
            rhm_congestion_state = congestion_state, rhm_reason = reason,
            rhm_retry_after_ms = retry_after_ms\<rparr>
          in bind_res (ResultHintMetadata_validate metadata) (\<lambda>_. Inr metadata))))
      | _ \<Rightarrow> tuple_error)"

definition ResultHintMetadata_unpack :: "bytes \<Rightarrow> ResultHintMetadata res" where
  "ResultHintMetadata_unpack = fixed_width_unpack RESULT_HINT_STRUCT ResultHintMetadata_from_tuple"

lemma ResultHintMetadata_from_values:
  assumes "ResultHintMetadata_validate m = Inr ()" "list_all2 fits RESULT_HINT_STRUCT (ResultHintMetadata_values m)"
  shows "ResultHintMetadata_from_tuple (ResultHintMetadata_values m) = Inr m"
  using assms
  by (cases m)
    (simp add: ResultHintMetadata_values_def ResultHintMetadata_from_tuple_def)

lemma ResultHintMetadata_values_from:
  assumes "list_all2 fits RESULT_HINT_STRUCT vs" "ResultHintMetadata_from_tuple vs = Inr m"
  shows "ResultHintMetadata_validate m = Inr () \<and> ResultHintMetadata_values m = vs"
  using assms unfolding RESULT_HINT_STRUCT_def list_all2_fits_Cons list_all2_Nil
  by (elim exE conjE)
    (auto simp: ResultHintMetadata_from_tuple_def ResultHintMetadata_values_def
      Let_def res_simps)

interpretation rhm: canonical_codec
  ResultHintMetadata_pack ResultHintMetadata_unpack "(\<lambda>m. True)" "calcsize RESULT_HINT_STRUCT"
  unfolding ResultHintMetadata_pack_def ResultHintMetadata_unpack_def
  by (rule canonical_codecI)
    (auto intro: ResultHintMetadata_from_values dest: ResultHintMetadata_values_from)

section \<open>Transport probes\<close>

definition TRANSPORT_PROBE_STRUCT :: "field list" where
  "TRANSPORT_PROBE_STRUCT =
     [FI, FI, FQ]"

lemma TRANSPORT_PROBE_STRUCT_size [simp]: "calcsize TRANSPORT_PROBE_STRUCT = 16"
  by (simp add: TRANSPORT_PROBE_STRUCT_def)

record TransportProbeMetadata =
  tpm_probe_id :: int
  tpm_probe_payload_bytes :: int
  tpm_client_send_ts_us :: int

definition TransportProbeMetadata_values :: "TransportProbeMetadata \<Rightarrow> int list" where
  "TransportProbeMetadata_values m =
     [tpm_probe_id m, tpm_probe_payload_bytes m, tpm_client_send_ts_us m]"

definition TransportProbeMetadata_pack :: "TransportProbeMetadata \<Rightarrow> bytes res" where
  "TransportProbeMetadata_pack = fixed_width_pack TRANSPORT_PROBE_STRUCT no_check TransportProbeMetadata_values"

definition TransportProbeMetadata_from_tuple :: "int list \<Rightarrow> TransportProbeMetadata res" where
  "TransportProbeMetadata_from_tuple vs =
     (case vs of
        [probe_id, probe_payload_bytes, client_send_ts_us] \<Rightarrow>
          Inr
            \<lparr>tpm_probe_id = probe_id, tpm_probe_payload_bytes = probe_payload_bytes,
            tpm_client_send_ts_us = client_send_ts_us\<rparr>
      | _ \<Rightarrow> tuple_error)"

definition TransportProbeMetadata_unpack :: "bytes \<Rightarrow> TransportProbeMetadata res" where
  "TransportProbeMetadata_unpack = fixed_width_unpack TRANSPORT_PROBE_STRUCT TransportProbeMetadata_from_tuple"

lemma TransportProbeMetadata_from_values:
  assumes "list_all2 fits TRANSPORT_PROBE_STRUCT (TransportProbeMetadata_values m)"
  shows "TransportProbeMetadata_from_tuple (TransportProbeMetadata_values m) = Inr m"
  using assms
  by (cases m)
    (simp add: TransportProbeMetadata_values_def TransportProbeMetadata_from_tuple_def)

lemma TransportProbeMetadata_values_from:
  assumes "list_all2 fits TRANSPORT_PROBE_STRUCT vs" "TransportProbeMetadata_from_tuple vs = Inr m"
  shows "TransportProbeMetadata_values m = vs"
  using assms unfolding TRANSPORT_PROBE_STRUCT_def list_all2_fits_Cons list_all2_Nil
  by (elim exE conjE)
    (auto simp: TransportProbeMetadata_from_tuple_def TransportProbeMetadata_values_def
      Let_def res_simps)

interpretation tpm: canonical_codec
  TransportProbeMetadata_pack TransportProbeMetadata_unpack "(\<lambda>m. True)" "calcsize TRANSPORT_PROBE_STRUCT"
  unfolding TransportProbeMetadata_pack_def TransportProbeMetadata_unpack_def
  by (rule canonical_codecI)
    (auto intro: TransportProbeMetadata_from_values dest: TransportProbeMetadata_values_from)

definition TRANSPORT_PROBE_ACK_STRUCT :: "field list" where
  "TRANSPORT_PROBE_ACK_STRUCT =
     [FI, FI, FQ]"

lemma TRANSPORT_PROBE_ACK_STRUCT_size [simp]: "calcsize TRANSPORT_PROBE_ACK_STRUCT = 16"
  by (simp add: TRANSPORT_PROBE_ACK_STRUCT_def)

record TransportProbeAckMetadata =
  tpam_probe_id :: int
  tpam_reserved :: int
  tpam_server_recv_ts_us :: int

definition TransportProbeAckMetadata_values :: "TransportProbeAckMetadata \<Rightarrow> int list" where
  "TransportProbeAckMetadata_values m =
     [tpam_probe_id m, tpam_reserved m, tpam_server_recv_ts_us m]"

definition TransportProbeAckMetadata_pack :: "TransportProbeAckMetadata \<Rightarrow> bytes res" where
  "TransportProbeAckMetadata_pack = fixed_width_pack TRANSPORT_PROBE_ACK_STRUCT no_check TransportProbeAckMetadata_values"

definition TransportProbeAckMetadata_from_tuple :: "int list \<Rightarrow> TransportProbeAckMetadata res" where
  "TransportProbeAckMetadata_from_tuple vs =
     (case vs of
        [probe_id, reserved, server_recv_ts_us] \<Rightarrow>
          Inr
            \<lparr>tpam_probe_id = probe_id, tpam_reserved = reserved,
            tpam_server_recv_ts_us = server_recv_ts_us\<rparr>
      | _ \<Rightarrow> tuple_error)"

definition TransportProbeAckMetadata_unpack :: "bytes \<Rightarrow> TransportProbeAckMetadata res" where
  "TransportProbeAckMetadata_unpack = fixed_width_unpack TRANSPORT_PROBE_ACK_STRUCT TransportProbeAckMetadata_from_tuple"

lemma TransportProbeAckMetadata_from_values:
  assumes "list_all2 fits TRANSPORT_PROBE_ACK_STRUCT (TransportProbeAckMetadata_values m)"
  shows "TransportProbeAckMetadata_from_tuple (TransportProbeAckMetadata_values m) = Inr m"
  using assms
  by (cases m)
    (simp add: TransportProbeAckMetadata_values_def TransportProbeAckMetadata_from_tuple_def)

lemma TransportProbeAckMetadata_values_from:
  assumes "list_all2 fits TRANSPORT_PROBE_ACK_STRUCT vs" "TransportProbeAckMetadata_from_tuple vs = Inr m"
  shows "TransportProbeAckMetadata_values m = vs"
  using assms unfolding TRANSPORT_PROBE_ACK_STRUCT_def list_all2_fits_Cons list_all2_Nil
  by (elim exE conjE)
    (auto simp: TransportProbeAckMetadata_from_tuple_def TransportProbeAckMetadata_values_def
      Let_def res_simps)

interpretation tpam: canonical_codec
  TransportProbeAckMetadata_pack TransportProbeAckMetadata_unpack "(\<lambda>m. True)" "calcsize TRANSPORT_PROBE_ACK_STRUCT"
  unfolding TransportProbeAckMetadata_pack_def TransportProbeAckMetadata_unpack_def
  by (rule canonical_codecI)
    (auto intro: TransportProbeAckMetadata_from_values dest: TransportProbeAckMetadata_values_from)

section \<open>Session migration\<close>

definition coerce_transport_id :: "int \<Rightarrow> bool \<Rightarrow> TransportId res" where
  "coerce_transport_id value allow_unspecified =
     bind_res (TransportId_of value) (\<lambda>transport_id.
       if \<not> allow_unspecified \<and> transport_id = TI_UNSPECIFIED
       then ve ''transport id must not be unspecified''
       else Inr transport_id)"

lemma coerce_transport_id_iff [res_simps]:
  "coerce_transport_id v allow = Inr t \<longleftrightarrow>
     v = TransportId_int t \<and> (allow \<or> t \<noteq> TI_UNSPECIFIED)"
  by (auto simp: coerce_transport_id_def res_simps)

definition SESSION_MIGRATE_STRUCT :: "field list" where
  "SESSION_MIGRATE_STRUCT =
     [FI, FI, FQ, FQ]"

lemma SESSION_MIGRATE_STRUCT_size [simp]: "calcsize SESSION_MIGRATE_STRUCT = 24"
  by (simp add: SESSION_MIGRATE_STRUCT_def)

record SessionMigrateMetadata =
  smm_old_transport_id :: TransportId
  smm_new_transport_id :: TransportId
  smm_last_result_frame_id :: int
  smm_client_migrate_ts_us :: int

definition SessionMigrateMetadata_values :: "SessionMigrateMetadata \<Rightarrow> int list" where
  "SessionMigrateMetadata_values m =
     [TransportId_int (smm_old_transport_id m), TransportId_int (smm_new_transport_id m),
      smm_last_result_frame_id m, smm_client_migrate_ts_us m]"

definition SessionMigrateMetadata_validate :: "SessionMigrateMetadata \<Rightarrow> unit res" where
  "SessionMigrateMetadata_validate m =
     bind_res (coerce_transport_id (TransportId_int (smm_old_transport_id m)) False) (\<lambda>_.
     bind_res (coerce_transport_id (TransportId_int (smm_new_transport_id m)) False) (\<lambda>_.
     Inr ()))"

definition SessionMigrateMetadata_pack :: "SessionMigrateMetadata \<Rightarrow> bytes res" where
  "SessionMigrateMetadata_pack = fixed_width_pack SESSION_MIGRATE_STRUCT SessionMigrateMetadata_validate SessionMigrateMetadata_values"

definition SessionMigrateMetadata_from_tuple :: "int list \<Rightarrow> SessionMigrateMetadata res" where
  "SessionMigrateMetadata_from_tuple vs =
     (case vs of
        [old_transport_id, new_transport_id, last_result_frame_id, client_migrate_ts_us] \<Rightarrow>
          bind_res ((\<lambda>v. coerce_transport_id v False) old_transport_id) (\<lambda>old_transport_id.
          bind_res ((\<lambda>v. coerce_transport_id v False) new_transport_id) (\<lambda>new_transport_id.
          Inr
            \<lparr>smm_old_transport_id = old_transport_id, smm_new_transport_id = new_transport_id,
            smm_last_result_frame_id = last_result_frame_id,
            smm_client_migrate_ts_us = client_migrate_ts_us\<rparr>))
      | _ \<Rightarrow> tuple_error)"

definition SessionMigrateMetadata_unpack :: "bytes \<Rightarrow> SessionMigrateMetadata res" where
  "SessionMigrateMetadata_unpack = fixed_width_unpack SESSION_MIGRATE_STRUCT SessionMigrateMetadata_from_tuple"

lemma SessionMigrateMetadata_from_values:
  assumes "SessionMigrateMetadata_validate m = Inr ()" "list_all2 fits SESSION_MIGRATE_STRUCT (SessionMigrateMetadata_values m)"
  shows "SessionMigrateMetadata_from_tuple (SessionMigrateMetadata_values m) = Inr m"
  using assms
  by (cases m)
    (simp add: SessionMigrateMetadata_values_def SessionMigrateMetadata_from_tuple_def SessionMigrateMetadata_validate_def res_simps)

lemma SessionMigrateMetadata_values_from:
  assumes "list_all2 fits SESSION_MIGRATE_STRUCT vs" "SessionMigrateMetadata_from_tuple vs = Inr m"
  shows "SessionMigrateMetadata_validate m = Inr () \<and> SessionMigrateMetadata_values m = vs"
  using assms unfolding SESSION_MIGRATE_STRUCT_def list_all2_fits_Cons list_all2_Nil
  by (elim exE conjE)
    (auto simp: SessionMigrateMetadata_from_tuple_def SessionMigrateMetadata_values_def
      Let_def res_simps SessionMigrateMetadata_validate_def)

interpretation smm: canonical_codec
  SessionMigrateMetadata_pack SessionMigrateMetadata_unpack "(\<lambda>m. True)" "calcsize SESSION_MIGRATE_STRUCT"
  unfolding SessionMigrateMetadata_pack_def SessionMigrateMetadata_unpack_def
  by (rule canonical_codecI)
    (auto intro: SessionMigrateMetadata_from_values dest: SessionMigrateMetadata_values_from)

definition SESSION_MIGRATE_ACK_STRUCT :: "field list" where
  "SESSION_MIGRATE_ACK_STRUCT =
     [FI, FQ, FI, FQ]"

lemma SESSION_MIGRATE_ACK_STRUCT_size [simp]: "calcsize SESSION_MIGRATE_ACK_STRUCT = 24"
  by (simp add: SESSION_MIGRATE_ACK_STRUCT_def)

record SessionMigrateAckMetadata =
  smam_accept_code :: int
  smam_resume_from_frame_id :: int
  smam_grace_window_ms :: int
  smam_server_migrate_ts_us :: int

definition SessionMigrateAckMetadata_values :: "SessionMigrateAckMetadata \<Rightarrow> int list" where
  "SessionMigrateAckMetadata_values m =
     [smam_accept_code m, smam_resume_from_frame_id m, smam_grace_window_ms m,
      smam_server_migrate_ts_us m]"

definition SessionMigrateAckMetadata_pack :: "SessionMigrateAckMetadata \<Rightarrow> bytes res" where
  "SessionMigrateAckMetadata_pack = fixed_width_pack SESSION_MIGRATE_ACK_STRUCT no_check SessionMigrateAckMetadata_values"

definition SessionMigrateAckMetadata_from_tuple :: "int list \<Rightarrow> SessionMigrateAckMetadata res" where
  "SessionMigrateAckMetadata_from_tuple vs =
     (case vs of
        [accept_code, resume_from_frame_id, grace_window_ms, server_migrate_ts_us] \<Rightarrow>
          Inr
            \<lparr>smam_accept_code = accept_code, smam_resume_from_frame_id = resume_from_frame_id,
            smam_grace_window_ms = grace_window_ms,
            smam_server_migrate_ts_us = server_migrate_ts_us\<rparr>
      | _ \<Rightarrow> tuple_error)"

definition SessionMigrateAckMetadata_unpack :: "bytes \<Rightarrow> SessionMigrateAckMetadata res" where
  "SessionMigrateAckMetadata_unpack = fixed_width_unpack SESSION_MIGRATE_ACK_STRUCT SessionMigrateAckMetadata_from_tuple"

lemma SessionMigrateAckMetadata_from_values:
  assumes "list_all2 fits SESSION_MIGRATE_ACK_STRUCT (SessionMigrateAckMetadata_values m)"
  shows "SessionMigrateAckMetadata_from_tuple (SessionMigrateAckMetadata_values m) = Inr m"
  using assms
  by (cases m)
    (simp add: SessionMigrateAckMetadata_values_def SessionMigrateAckMetadata_from_tuple_def)

lemma SessionMigrateAckMetadata_values_from:
  assumes "list_all2 fits SESSION_MIGRATE_ACK_STRUCT vs" "SessionMigrateAckMetadata_from_tuple vs = Inr m"
  shows "SessionMigrateAckMetadata_values m = vs"
  using assms unfolding SESSION_MIGRATE_ACK_STRUCT_def list_all2_fits_Cons list_all2_Nil
  by (elim exE conjE)
    (auto simp: SessionMigrateAckMetadata_from_tuple_def SessionMigrateAckMetadata_values_def
      Let_def res_simps)

interpretation smam: canonical_codec
  SessionMigrateAckMetadata_pack SessionMigrateAckMetadata_unpack "(\<lambda>m. True)" "calcsize SESSION_MIGRATE_ACK_STRUCT"
  unfolding SessionMigrateAckMetadata_pack_def SessionMigrateAckMetadata_unpack_def
  by (rule canonical_codecI)
    (auto intro: SessionMigrateAckMetadata_from_values dest: SessionMigrateAckMetadata_values_from)

section \<open>Hello and session patch\<close>

definition CLIENT_HELLO_STRUCT :: "field list" where
  "CLIENT_HELLO_STRUCT =
     [FB, FB, FH, FI, FI, FI, FI, FI, FI, FH, FH, FH, FH, FI, FI, FH, FH, FH, FH, FI, FI, FI]"

lemma CLIENT_HELLO_STRUCT_size [simp]: "calcsize CLIENT_HELLO_STRUCT = 64"
  by (simp add: CLIENT_HELLO_STRUCT_def)

record ClientHelloMetadata =
  chm_min_version_major :: int
  chm_max_version_major :: int
  chm_supported_wire_format_bitmap :: int
  chm_supported_profile_bitmap :: int
  chm_supported_payload_kind_bitmap :: int
  chm_supported_codec_bitmap :: int
  chm_supported_compression_bitmap :: int
  chm_supported_dtype_bitmap :: int
  chm_supported_layout_bitmap :: int
  chm_cache_digest_bitmap :: int
  chm_cache_object_bitmap :: int
  chm_cache_namespace_count :: int
  chm_max_lane_count :: int
  chm_max_cache_entries :: int
  chm_max_cache_bytes :: int
  chm_target_cadence_x100 :: int
  chm_latency_budget_ms :: int
  chm_quality_tier :: int
  chm_degrade_policy :: int
  chm_requested_session_id :: int
  chm_auth_bytes :: int
  chm_control_extension_bytes :: int

definition ClientHelloMetadata_values :: "ClientHelloMetadata \<Rightarrow> int list" where
  "ClientHelloMetadata_values m =
     [chm_min_version_major m, chm_max_version_major m, chm_supported_wire_format_bitmap m,
      chm_supported_profile_bitmap m, chm_supported_payload_kind_bitmap m,
      chm_supported_codec_bitmap m, chm_supported_compression_bitmap m,
      chm_supported_dtype_bitmap m, chm_supported_layout_bitmap m, chm_cache_digest_bitmap m,
      chm_cache_object_bitmap m, chm_cache_namespace_count m, chm_max_lane_count m,
      chm_max_cache_entries m, chm_max_cache_bytes m, chm_target_cadence_x100 m,
      chm_latency_budget_ms m, chm_quality_tier m, chm_degrade_policy m,
      chm_requested_session_id m, chm_auth_bytes m, chm_control_extension_bytes m]"

definition ClientHelloMetadata_pack :: "ClientHelloMetadata \<Rightarrow> bytes res" where
  "ClientHelloMetadata_pack = fixed_width_pack CLIENT_HELLO_STRUCT no_check ClientHelloMetadata_values"

definition ClientHelloMetadata_from_tuple :: "int list \<Rightarrow> ClientHelloMetadata res" where
  "ClientHelloMetadata_from_tuple vs =
     (case vs of
        [min_version_major, max_version_major, supported_wire_format_bitmap,
         supported_profile_bitmap, supported_payload_kind_bitmap, supported_codec_bitmap,
         supported_compression_bitmap, supported_dtype_bitmap, supported_layout_bitmap,
         cache_digest_bitmap, cache_object_bitmap, cache_namespace_count, max_lane_count,
         max_cache_entries, max_cache_bytes, target_cadence_x100, latency_budget_ms,
         quality_tier, degrade_policy, requested_session_id, auth_bytes,
         control_extension_bytes] \<Rightarrow>
          Inr
            \<lparr>chm_min_version_major = min_version_major,
            chm_max_version_major = max_version_major,
            chm_supported_wire_format_bitmap = supported_wire_format_bitmap,
            chm_supported_profile_bitmap = supported_profile_bitmap,
            chm_supported_payload_kind_bitmap = supported_payload_kind_bitmap,
            chm_supported_codec_bitmap = supported_codec_bitmap,
            chm_supported_compression_bitmap = supported_compression_bitmap,
            chm_supported_dtype_bitmap = supported_dtype_bitmap,
            chm_supported_layout_bitmap = supported_layout_bitmap,
            chm_cache_digest_bitmap = cache_digest_bitmap,
            chm_cache_object_bitmap = cache_object_bitmap,
            chm_cache_namespace_count = cache_namespace_count,
            chm_max_lane_count = max_lane_count, chm_max_cache_entries = max_cache_entries,
            chm_max_cache_bytes = max_cache_bytes,
            chm_target_cadence_x100 = target_cadence_x100,
            chm_latency_budget_ms = latency_budget_ms, chm_quality_tier = quality_tier,
            chm_degrade_policy = degrade_policy,
            chm_requested_session_id = requested_session_id, chm_auth_bytes = auth_bytes,
            chm_control_extension_bytes = control_extension_bytes\<rparr>
      | _ \<Rightarrow> tuple_error)"

definition ClientHelloMetadata_unpack :: "bytes \<Rightarrow> ClientHelloMetadata res" where
  "ClientHelloMetadata_unpack = fixed_width_unpack CLIENT_HELLO_STRUCT ClientHelloMetadata_from_tuple"

lemma ClientHelloMetadata_from_values:
  assumes "list_all2 fits CLIENT_HELLO_STRUCT (ClientHelloMetadata_values m)"
  shows "ClientHelloMetadata_from_tuple (ClientHelloMetadata_values m) = Inr m"
  using assms
  by (cases m)
    (simp add: ClientHelloMetadata_values_def ClientHelloMetadata_from_tuple_def)

lemma ClientHelloMetadata_values_from:
  assumes "list_all2 fits CLIENT_HELLO_STRUCT vs" "ClientHelloMetadata_from_tuple vs = Inr m"
  shows "ClientHelloMetadata_values m = vs"
  using assms unfolding CLIENT_HELLO_STRUCT_def list_all2_fits_Cons list_all2_Nil
  by (elim exE conjE)
    (auto simp: ClientHelloMetadata_from_tuple_def ClientHelloMetadata_values_def
      Let_def res_simps)

interpretation chm: canonical_codec
  ClientHelloMetadata_pack ClientHelloMetadata_unpack "(\<lambda>m. True)" "calcsize CLIENT_HELLO_STRUCT"
  unfolding ClientHelloMetadata_pack_def ClientHelloMetadata_unpack_def
  by (rule canonical_codecI)
    (auto intro: ClientHelloMetadata_from_values dest: ClientHelloMetadata_values_from)

definition SERVER_HELLO_ACK_STRUCT :: "field list" where
  "SERVER_HELLO_ACK_STRUCT =
     [FB, FB, FB, FB, FI, FI, FI, FI, FI, FI, FI, FI, FI, FI, FI, FH, FH, FH, FH, FH, FH, FI,
     FI, FI, FI, FI]"

lemma SERVER_HELLO_ACK_STRUCT_size [simp]: "calcsize SERVER_HELLO_ACK_STRUCT = 80"
  by (simp add: SERVER_HELLO_ACK_STRUCT_def)

record ServerHelloAckMetadata =
  sham_selected_version_major :: int
  sham_selected_wire_format :: int
  sham_auth_status :: int
  sham_session_id :: int
  sham_accepted_profile_bitmap :: int
  sham_accepted_payload_kind_bitmap :: int
  sham_accepted_codec_bitmap :: int
  sham_accepted_compression_bitmap :: int
  sham_accepted_dtype_bitmap :: int
  sham_accepted_layout_bitmap :: int
  sham_cache_digest_bitmap :: int
  sham_cache_object_bitmap :: int
  sham_max_cache_entries :: int
  sham_max_cache_bytes :: int
  sham_max_lane_count :: int
  sham_max_concurrent_frames :: int
  sham_target_cadence_x100 :: int
  sham_latency_budget_ms :: int
  sham_quality_tier :: int
  sham_degrade_policy :: int
  sham_max_body_bytes :: int
  sham_token_ttl_ms :: int
  sham_retry_after_ms :: int
  sham_control_extension_bytes :: int
  sham_server_flags :: int
  sham_reserved0 :: int

definition ServerHelloAckMetadata_values :: "ServerHelloAckMetadata \<Rightarrow> int list" where
  "ServerHelloAckMetadata_values m =
     [sham_selected_version_major m, sham_selected_wire_format m, sham_auth_status m,
      sham_reserved0 m, sham_session_id m, sham_accepted_profile_bitmap m,
      sham_accepted_payload_kind_bitmap m, sham_accepted_codec_bitmap m,
      sham_accepted_compression_bitmap m, sham_accepted_dtype_bitmap m,
      sham_accepted_layout_bitmap m, sham_cache_digest_bitmap m, sham_cache_object_bitmap m,
      sham_max_cache_entries m, sham_max_cache_bytes m, sham_max_lane_count m,
      sham_max_concurrent_frames m, sham_target_cadence_x100 m, sham_latency_budget_ms m,
      sham_quality_tier m, sham_degrade_policy m, sham_max_body_bytes m, sham_token_ttl_ms m,
      sham_retry_after_ms m, sham_control_extension_bytes m, sham_server_flags m]"

definition ServerHelloAckMetadata_pack :: "ServerHelloAckMetadata \<Rightarrow> bytes res" where
  "ServerHelloAckMetadata_pack = fixed_width_pack SERVER_HELLO_ACK_STRUCT no_check ServerHelloAckMetadata_values"

definition ServerHelloAckMetadata_from_tuple :: "int list \<Rightarrow> ServerHelloAckMetadata res" where
  "ServerHelloAckMetadata_from_tuple vs =
     (case vs of
        [selected_version_major, selected_wire_format, auth_status, reserved0, session_id,
         accepted_profile_bitmap, accepted_payload_kind_bitmap, accepted_codec_bitmap,
         accepted_compression_bitmap, accepted_dtype_bitmap, accepted_layout_bitmap,
         cache_digest_bitmap, cache_object_bitmap, max_cache_entries, max_cache_bytes,
         max_lane_count, max_concurrent_frames, target_cadence_x100, latency_budget_ms,
         quality_tier, degrade_policy, max_body_bytes, token_ttl_ms, retry_after_ms,
         control_extension_bytes, server_flags] \<Rightarrow>
          Inr
            \<lparr>sham_selected_version_major = selected_version_major,
            sham_selected_wire_format = selected_wire_format, sham_auth_status = auth_status,
            sham_session_id = session_id,
            sham_accepted_profile_bitmap = accepted_profile_bitmap,
            sham_accepted_payload_kind_bitmap = accepted_payload_kind_bitmap,
            sham_accepted_codec_bitmap = accepted_codec_bitmap,
            sham_accepted_compression_bitmap = accepted_compression_bitmap,
            sham_accepted_dtype_bitmap = accepted_dtype_bitmap,
            sham_accepted_layout_bitmap = accepted_layout_bitmap,
            sham_cache_digest_bitmap = cache_digest_bitmap,
            sham_cache_object_bitmap = cache_object_bitmap,
            sham_max_cache_entries = max_cache_entries, sham_max_cache_bytes = max_cache_bytes,
            sham_max_lane_count = max_lane_count,
            sham_max_concurrent_frames = max_concurrent_frames,
            sham_target_cadence_x100 = target_cadence_x100,
            sham_latency_budget_ms = latency_budget_ms, sham_quality_tier = quality_tier,
            sham_degrade_policy = degrade_policy, sham_max_body_bytes = max_body_bytes,
            sham_token_ttl_ms = token_ttl_ms, sham_retry_after_ms = retry_after_ms,
            sham_control_extension_bytes = control_extension_bytes,
            sham_server_flags = server_flags, sham_reserved0 = reserved0\<rparr>
      | _ \<Rightarrow> tuple_error)"

definition ServerHelloAckMetadata_unpack :: "bytes \<Rightarrow> ServerHelloAckMetadata res" where
  "ServerHelloAckMetadata_unpack = fixed_width_unpack SERVER_HELLO_ACK_STRUCT ServerHelloAckMetadata_from_tuple"

lemma ServerHelloAckMetadata_from_values:
  assumes "list_all2 fits SERVER_HELLO_ACK_STRUCT (ServerHelloAckMetadata_values m)"
  shows "ServerHelloAckMetadata_from_tuple (ServerHelloAckMetadata_values m) = Inr m"
  using assms
  by (cases m)
    (simp add: ServerHelloAckMetadata_values_def ServerHelloAckMetadata_from_tuple_def)

lemma ServerHelloAckMetadata_values_from:
  assumes "list_all2 fits SERVER_HELLO_ACK_STRUCT vs" "ServerHelloAckMetadata_from_tuple vs = Inr m"
  shows "ServerHelloAckMetadata_values m = vs"
  using assms unfolding SERVER_HELLO_ACK_STRUCT_def list_all2_fits_Cons list_all2_Nil
  by (elim exE conjE)
    (auto simp: ServerHelloAckMetadata_from_tuple_def ServerHelloAckMetadata_values_def
      Let_def res_simps)

interpretation sham: canonical_codec
  ServerHelloAckMetadata_pack ServerHelloAckMetadata_unpack "(\<lambda>m. True)" "calcsize SERVER_HELLO_ACK_STRUCT"
  unfolding ServerHelloAckMetadata_pack_def ServerHelloAckMetadata_unpack_def
  by (rule canonical_codecI)
    (auto intro: ServerHelloAckMetadata_from_values dest: ServerHelloAckMetadata_values_from)

definition SESSION_PATCH_STRUCT :: "field list" where
  "SESSION_PATCH_STRUCT =
     [FH, FH, FI, FI, FH, FH, FQ, FI, FI, FI]"

lemma SESSION_PATCH_STRUCT_size [simp]: "calcsize SESSION_PATCH_STRUCT = 36"
  by (simp add: SESSION_PATCH_STRUCT_def)

record SessionPatchMetadata =
  spm_profile_id :: int
  spm_patch_mask :: int
  spm_target_cadence_x100 :: int
  spm_quality_tier :: int
  spm_degrade_policy :: int
  spm_active_lane_mask :: int
  spm_preferred_codec_bitmap :: int
  spm_preferred_compression_bitmap :: int
  spm_profile_patch_bytes :: int
  spm_reserved0 :: int

definition SessionPatchMetadata_values :: "SessionPatchMetadata \<Rightarrow> int list" where
  "SessionPatchMetadata_values m =
     [spm_profile_id m, spm_reserved0 m, spm_patch_mask m, spm_target_cadence_x100 m,
      spm_quality_tier m, spm_degrade_policy m, spm_active_lane_mask m,
      spm_preferred_codec_bitmap m, spm_preferred_compression_bitmap m,
      spm_profile_patch_bytes m]"

definition SessionPatchMetadata_pack :: "SessionPatchMetadata \<Rightarrow> bytes res" where
  "SessionPatchMetadata_pack = fixed_width_pack SESSION_PATCH_STRUCT no_check SessionPatchMetadata_values"

definition SessionPatchMetadata_from_tuple :: "int list \<Rightarrow> SessionPatchMetadata res" where
  "SessionPatchMetadata_from_tuple vs =
     (case vs of
        [profile_id, reserved0, patch_mask, target_cadence_x100, quality_tier, degrade_policy,
         active_lane_mask, preferred_codec_bitmap, preferred_compression_bitmap,
         profile_patch_bytes] \<Rightarrow>
          Inr
            \<lparr>spm_profile_id = profile_id, spm_patch_mask = SessionPatchField_call patch_mask,
            spm_target_cadence_x100 = target_cadence_x100, spm_quality_tier = quality_tier,
            spm_degrade_policy = degrade_policy, spm_active_lane_mask = active_lane_mask,
            spm_preferred_codec_bitmap = preferred_codec_bitmap,
            spm_preferred_compression_bitmap = preferred_compression_bitmap,
            spm_profile_patch_bytes = profile_patch_bytes, spm_reserved0 = reserved0\<rparr>
      | _ \<Rightarrow> tuple_error)"

definition SessionPatchMetadata_unpack :: "bytes \<Rightarrow> SessionPatchMetadata res" where
  "SessionPatchMetadata_unpack = fixed_width_unpack SESSION_PATCH_STRUCT SessionPatchMetadata_from_tuple"

lemma SessionPatchMetadata_from_values:
  assumes "list_all2 fits SESSION_PATCH_STRUCT (SessionPatchMetadata_values m)"
  shows "SessionPatchMetadata_from_tuple (SessionPatchMetadata_values m) = Inr m"
  using assms
  by (cases m)
    (simp add: SessionPatchMetadata_values_def SessionPatchMetadata_from_tuple_def SESSION_PATCH_STRUCT_def fits_def)

lemma SessionPatchMetadata_values_from:
  assumes "list_all2 fits SESSION_PATCH_STRUCT vs" "SessionPatchMetadata_from_tuple vs = Inr m"
  shows "SessionPatchMetadata_values m = vs"
  using assms unfolding SESSION_PATCH_STRUCT_def list_all2_fits_Cons list_all2_Nil
  by (elim exE conjE)
    (auto simp: SessionPatchMetadata_from_tuple_def SessionPatchMetadata_values_def
      fits_def Let_def res_simps)

interpretation spm: canonical_codec
  SessionPatchMetadata_pack SessionPatchMetadata_unpack "(\<lambda>m. True)" "calcsize SESSION_PATCH_STRUCT"
  unfolding SessionPatchMetadata_pack_def SessionPatchMetadata_unpack_def
  by (rule canonical_codecI)
    (auto intro: SessionPatchMetadata_from_values dest: SessionPatchMetadata_values_from)

definition SESSION_PATCH_ACK_STRUCT :: "field list" where
  "SESSION_PATCH_ACK_STRUCT =
     [FH, FH, FI, FI, FI, FH, FH, FI, FH, FH, FQ, FI, FI, FI]"

lemma SESSION_PATCH_ACK_STRUCT_size [simp]: "calcsize SESSION_PATCH_ACK_STRUCT = 48"
  by (simp add: SESSION_PATCH_ACK_STRUCT_def)

record SessionPatchAckMetadata =
  spam_ack_status :: SessionPatchAckStatus
  spam_reject_reason :: SessionPatchRejectReason
  spam_applied_patch_mask :: int
  spam_rejected_patch_mask :: int
  spam_retry_after_ms :: int
  spam_effective_profile_id :: int
  spam_effective_target_cadence_x100 :: int
  spam_effective_quality_tier :: int
  spam_effective_degrade_policy :: int
  spam_effective_lane_mask :: int
  spam_effective_codec_bitmap :: int
  spam_effective_compression_bitmap :: int
  spam_profile_patch_ack_bytes :: int
  spam_reserved0 :: int

definition SessionPatchAckMetadata_values :: "SessionPatchAckMetadata \<Rightarrow> int list" where
  "SessionPatchAckMetadata_values m =
     [SessionPatchAckStatus_int (spam_ack_status m),
      SessionPatchRejectReason_int (spam_reject_reason m), spam_applied_patch_mask m,
      spam_rejected_patch_mask m, spam_retry_after_ms m, spam_effective_profile_id m,
      spam_reserved0 m, spam_effective_target_cadence_x100 m, spam_effective_quality_tier m,
      spam_effective_degrade_policy m, spam_effective_lane_mask m,
      spam_effective_codec_bitmap m, spam_effective_compression_bitmap m,
      spam_profile_patch_ack_bytes m]"

definition SessionPatchAckMetadata_pack :: "SessionPatchAckMetadata \<Rightarrow> bytes res" where
  "SessionPatchAckMetadata_pack = fixed_width_pack SESSION_PATCH_ACK_STRUCT no_check SessionPatchAckMetadata_values"

definition SessionPatchAckMetadata_from_tuple :: "int list \<Rightarrow> SessionPatchAckMetadata res" where
  "SessionPatchAckMetadata_from_tuple vs =
     (case vs of
        [ack_status, reject_reason, applied_patch_mask, rejected_patch_mask, retry_after_ms,
         effective_profile_id, reserved0, effective_target_cadence_x100,
         effective_quality_tier, effective_degrade_policy, effective_lane_mask,
         effective_codec_bitmap, effective_compression_bitmap, profile_patch_ack_bytes] \<Rightarrow>
          bind_res (SessionPatchAckStatus_of ack_status) (\<lambda>ack_status.
          bind_res (SessionPatchRejectReason_of reject_reason) (\<lambda>reject_reason.
          Inr
            \<lparr>spam_ack_status = ack_status, spam_reject_reason = reject_reason,
            spam_applied_patch_mask = SessionPatchField_call applied_patch_mask,
            spam_rejected_patch_mask = SessionPatchField_call rejected_patch_mask,
            spam_retry_after_ms = retry_after_ms,
            spam_effective_profile_id = effective_profile_id,
            spam_effective_target_cadence_x100 = effective_target_cadence_x100,
            spam_effective_quality_tier = effective_quality_tier,
            spam_effective_degrade_policy = effective_degrade_policy,
            spam_effective_lane_mask = effective_lane_mask,
            spam_effective_codec_bitmap = effective_codec_bitmap,
            spam_effective_compression_bitmap = effective_compression_bitmap,
            spam_profile_patch_ack_bytes = profile_patch_ack_bytes, spam_reserved0 = reserved0\<rparr>))
      | _ \<Rightarrow> tuple_error)"

definition SessionPatchAckMetadata_unpack :: "bytes \<Rightarrow> SessionPatchAckMetadata res" where
  "SessionPatchAckMetadata_unpack = fixed_width_unpack SESSION_PATCH_ACK_STRUCT SessionPatchAckMetadata_from_tuple"

lemma SessionPatchAckMetadata_from_values:
  assumes "list_all2 fits SESSION_PATCH_ACK_STRUCT (SessionPatchAckMetadata_values m)"
  shows "SessionPatchAckMetadata_from_tuple (SessionPatchAckMetadata_values m) = Inr m"
  using assms
  by (cases m)
    (simp add: SessionPatchAckMetadata_values_def SessionPatchAckMetadata_from_tuple_def SESSION_PATCH_ACK_STRUCT_def fits_def)

lemma SessionPatchAckMetadata_values_from:
  assumes "list_all2 fits SESSION_PATCH_ACK_STRUCT vs" "SessionPatchAckMetadata_from_tuple vs = Inr m"
  shows "SessionPatchAckMetadata_values m = vs"
  using assms unfolding SESSION_PATCH_ACK_STRUCT_def list_all2_fits_Cons list_all2_Nil
  by (elim exE conjE)
    (auto simp: SessionPatchAckMetadata_from_tuple_def SessionPatchAckMetadata_values_def
      fits_def Let_def res_simps)

interpretation spam: canonical_codec
  SessionPatchAckMetadata_pack SessionPatchAckMetadata_unpack "(\<lambda>m. True)" "calcsize SESSION_PATCH_ACK_STRUCT"
  unfolding SessionPatchAckMetadata_pack_def SessionPatchAckMetadata_unpack_def
  by (rule canonical_codecI)
    (auto intro: SessionPatchAckMetadata_from_values dest: SessionPatchAckMetadata_values_from)

definition TENSOR_PROFILE_PATCH_BLOCK_STRUCT :: "field list" where
  "TENSOR_PROFILE_PATCH_BLOCK_STRUCT =
     [FI, FI, FI, FI]"

lemma TENSOR_PROFILE_PATCH_BLOCK_STRUCT_size [simp]: "calcsize TENSOR_PROFILE_PATCH_BLOCK_STRUCT = 16"
  by (simp add: TENSOR_PROFILE_PATCH_BLOCK_STRUCT_def)

record TensorProfilePatchBlock =
  tppb_min_width :: int
  tppb_min_height :: int
  tppb_max_width :: int
  tppb_max_height :: int

definition TensorProfilePatchBlock_values :: "TensorProfilePatchBlock \<Rightarrow> int list" where
  "TensorProfilePatchBlock_values m =
     [tppb_min_width m, tppb_min_height m, tppb_max_width m, tppb_max_height m]"

definition TensorProfilePatchBlock_pack :: "TensorProfilePatchBlock \<Rightarrow> bytes res" where
  "TensorProfilePatchBlock_pack = fixed_width_pack TENSOR_PROFILE_PATCH_BLOCK_STRUCT no_check TensorProfilePatchBlock_values"

definition TensorProfilePatchBlock_from_tuple :: "int list \<Rightarrow> TensorProfilePatchBlock res" where
  "TensorProfilePatchBlock_from_tuple vs =
     (case vs of
        [min_width, min_height, max_width, max_height] \<Rightarrow>
          Inr
            \<lparr>tppb_min_width = min_width, tppb_min_height = min_height,
            tppb_max_width = max_width, tppb_max_height = max_height\<rparr>
      | _ \<Rightarrow> tuple_error)"

definition TensorProfilePatchBlock_unpack :: "bytes \<Rightarrow> TensorProfilePatchBlock res" where
  "TensorProfilePatchBlock_unpack = fixed_width_unpack TENSOR_PROFILE_PATCH_BLOCK_STRUCT TensorProfilePatchBlock_from_tuple"

lemma TensorProfilePatchBlock_from_values:
  assumes "list_all2 fits TENSOR_PROFILE_PATCH_BLOCK_STRUCT (TensorProfilePatchBlock_values m)"
  shows "TensorProfilePatchBlock_from_tuple (TensorProfilePatchBlock_values m) = Inr m"
  using assms
  by (cases m)
    (simp add: TensorProfilePatchBlock_values_def TensorProfilePatchBlock_from_tuple_def)

lemma TensorProfilePatchBlock_values_from:
  assumes "list_all2 fits TENSOR_PROFILE_PATCH_BLOCK_STRUCT vs" "TensorProfilePatchBlock_from_tuple vs = Inr m"
  shows "TensorProfilePatchBlock_values m = vs"
  using assms unfolding TENSOR_PROFILE_PATCH_BLOCK_STRUCT_def list_all2_fits_Cons list_all2_Nil
  by (elim exE conjE)
    (auto simp: TensorProfilePatchBlock_from_tuple_def TensorProfilePatchBlock_values_def
      Let_def res_simps)

interpretation tppb: canonical_codec
  TensorProfilePatchBlock_pack TensorProfilePatchBlock_unpack "(\<lambda>m. True)" "calcsize TENSOR_PROFILE_PATCH_BLOCK_STRUCT"
  unfolding TensorProfilePatchBlock_pack_def TensorProfilePatchBlock_unpack_def
  by (rule canonical_codecI)
    (auto intro: TensorProfilePatchBlock_from_values dest: TensorProfilePatchBlock_values_from)

definition TENSOR_PROFILE_PATCH_ACK_BLOCK_STRUCT :: "field list" where
  "TENSOR_PROFILE_PATCH_ACK_BLOCK_STRUCT =
     [FI, FI, FI, FI]"

lemma TENSOR_PROFILE_PATCH_ACK_BLOCK_STRUCT_size [simp]: "calcsize TENSOR_PROFILE_PATCH_ACK_BLOCK_STRUCT = 16"
  by (simp add: TENSOR_PROFILE_PATCH_ACK_BLOCK_STRUCT_def)

record TensorProfilePatchAckBlock =
  tppab_min_width :: int
  tppab_min_height :: int
  tppab_max_width :: int
  tppab_max_height :: int

definition TensorProfilePatchAckBlock_values :: "TensorProfilePatchAckBlock \<Rightarrow> int list" where
  "TensorProfilePatchAckBlock_values m =
     [tppab_min_width m, tppab_min_height m, tppab_max_width m, tppab_max_height m]"

definition TensorProfilePatchAckBlock_pack :: "TensorProfilePatchAckBlock \<Rightarrow> bytes res" where
  "TensorProfilePatchAckBlock_pack = fixed_width_pack TENSOR_PROFILE_PATCH_ACK_BLOCK_STRUCT no_check TensorProfilePatchAckBlock_values"

definition TensorProfilePatchAckBlock_from_tuple :: "int list \<Rightarrow> TensorProfilePatchAckBlock res" where
  "TensorProfilePatchAckBlock_from_tuple vs =
     (case vs of
        [min_width, min_height, max_width, max_height] \<Rightarrow>
          Inr
            \<lparr>tppab_min_width = min_width, tppab_min_height = min_height,
            tppab_max_width = max_width, tppab_max_height = max_height\<rparr>
      | _ \<Rightarrow> tuple_error)"

definition TensorProfilePatchAckBlock_unpack :: "bytes \<Rightarrow> TensorProfilePatchAckBlock res" where
  "TensorProfilePatchAckBlock_unpack = fixed_width_unpack TENSOR_PROFILE_PATCH_ACK_BLOCK_STRUCT TensorProfilePatchAckBlock_from_tuple"

lemma TensorProfilePatchAckBlock_from_values:
  assumes "list_all2 fits TENSOR_PROFILE_PATCH_ACK_BLOCK_STRUCT (TensorProfilePatchAckBlock_values m)"
  shows "TensorProfilePatchAckBlock_from_tuple (TensorProfilePatchAckBlock_values m) = Inr m"
  using assms
  by (cases m)
    (simp add: TensorProfilePatchAckBlock_values_def TensorProfilePatchAckBlock_from_tuple_def)

lemma TensorProfilePatchAckBlock_values_from:
  assumes "list_all2 fits TENSOR_PROFILE_PATCH_ACK_BLOCK_STRUCT vs" "TensorProfilePatchAckBlock_from_tuple vs = Inr m"
  shows "TensorProfilePatchAckBlock_values m = vs"
  using assms unfolding TENSOR_PROFILE_PATCH_ACK_BLOCK_STRUCT_def list_all2_fits_Cons list_all2_Nil
  by (elim exE conjE)
    (auto simp: TensorProfilePatchAckBlock_from_tuple_def TensorProfilePatchAckBlock_values_def
      Let_def res_simps)

interpretation tppab: canonical_codec
  TensorProfilePatchAckBlock_pack TensorProfilePatchAckBlock_unpack "(\<lambda>m. True)" "calcsize TENSOR_PROFILE_PATCH_ACK_BLOCK_STRUCT"
  unfolding TensorProfilePatchAckBlock_pack_def TensorProfilePatchAckBlock_unpack_def
  by (rule canonical_codecI)
    (auto intro: TensorProfilePatchAckBlock_from_values dest: TensorProfilePatchAckBlock_values_from)

definition pack_session_patch_body :: "TensorProfilePatchBlock option \<Rightarrow> bytes res" where
  "pack_session_patch_body block =
     (case block of None \<Rightarrow> Inr [] | Some b \<Rightarrow> TensorProfilePatchBlock_pack b)"

definition unpack_session_patch_body :: "bytes \<Rightarrow> int \<Rightarrow> TensorProfilePatchBlock option res" where
  "unpack_session_patch_body body profile_patch_bytes =
     (if profile_patch_bytes = 0
      then if length body \<noteq> 0 then ve ''expected empty SESSION_PATCH body'' else Inr None
      else if profile_patch_bytes \<noteq> int (calcsize TENSOR_PROFILE_PATCH_BLOCK_STRUCT)
      then ve ''SESSION_PATCH profile_patch_bytes must be 0 or the block length''
      else if len body \<noteq> profile_patch_bytes then ve ''unexpected number of SESSION_PATCH body bytes''
      else bind_res (TensorProfilePatchBlock_unpack body) (\<lambda>b. Inr (Some b)))"

definition pack_session_patch_ack_body :: "TensorProfilePatchAckBlock option \<Rightarrow> bytes res" where
  "pack_session_patch_ack_body block =
     (case block of None \<Rightarrow> Inr [] | Some b \<Rightarrow> TensorProfilePatchAckBlock_pack b)"

definition unpack_session_patch_ack_body :: "bytes \<Rightarrow> int \<Rightarrow> TensorProfilePatchAckBlock option res" where
  "unpack_session_patch_ack_body body profile_patch_ack_bytes =
     (if profile_patch_ack_bytes = 0
      then if length body \<noteq> 0 then ve ''expected empty SESSION_PATCH_ACK body'' else Inr None
      else if profile_patch_ack_bytes \<noteq> int (calcsize TENSOR_PROFILE_PATCH_ACK_BLOCK_STRUCT)
      then ve ''SESSION_PATCH_ACK profile_patch_ack_bytes must be 0 or the block length''
      else if len body \<noteq> profile_patch_ack_bytes then ve ''unexpected number of SESSION_PATCH_ACK body bytes''
      else bind_res (TensorProfilePatchAckBlock_unpack body) (\<lambda>b. Inr (Some b)))"

section \<open>ErrorMetadata\<close>

definition ERROR_STRUCT :: "field list" where
  "ERROR_STRUCT =
     [FI, FI, FI, FI, FI, FI, FI, FI]"

lemma ERROR_STRUCT_size [simp]: "calcsize ERROR_STRUCT = 32"
  by (simp add: ERROR_STRUCT_def)

record ErrorMetadata =
  err_error_code :: int
  err_error_scope :: ErrorScope
  err_is_fatal :: int
  err_retry_after_ms :: int
  err_related_session_id :: int
  err_related_frame_id :: int
  err_related_view_id :: int
  err_diagnostic_bytes :: int

definition ErrorMetadata_values :: "ErrorMetadata \<Rightarrow> int list" where
  "ErrorMetadata_values m =
     [err_error_code m, ErrorScope_int (err_error_scope m), err_is_fatal m,
      err_retry_after_ms m, err_related_session_id m, err_related_frame_id m,
      err_related_view_id m, err_diagnostic_bytes m]"

definition ErrorMetadata_pack :: "ErrorMetadata \<Rightarrow> bytes res" where
  "ErrorMetadata_pack = fixed_width_pack ERROR_STRUCT no_check ErrorMetadata_values"

definition ErrorMetadata_from_tuple :: "int list \<Rightarrow> ErrorMetadata res" where
  "ErrorMetadata_from_tuple vs =
     (case vs of
        [error_code, error_scope, is_fatal, retry_after_ms, related_session_id,
         related_frame_id, related_view_id, diagnostic_bytes] \<Rightarrow>
          bind_res (ErrorScope_of error_scope) (\<lambda>error_scope.
          Inr
            \<lparr>err_error_code = error_code, err_error_scope = error_scope,
            err_is_fatal = is_fatal, err_retry_after_ms = retry_after_ms,
            err_related_session_id = related_session_id,
            err_related_frame_id = related_frame_id, err_related_view_id = related_view_id,
            err_diagnostic_bytes = diagnostic_bytes\<rparr>)
      | _ \<Rightarrow> tuple_error)"

definition ErrorMetadata_unpack :: "bytes \<Rightarrow> ErrorMetadata res" where
  "ErrorMetadata_unpack = fixed_width_unpack ERROR_STRUCT ErrorMetadata_from_tuple"

lemma ErrorMetadata_from_values:
  assumes "list_all2 fits ERROR_STRUCT (ErrorMetadata_values m)"
  shows "ErrorMetadata_from_tuple (ErrorMetadata_values m) = Inr m"
  using assms
  by (cases m)
    (simp add: ErrorMetadata_values_def ErrorMetadata_from_tuple_def)

lemma ErrorMetadata_values_from:
  assumes "list_all2 fits ERROR_STRUCT vs" "ErrorMetadata_from_tuple vs = Inr m"
  shows "ErrorMetadata_values m = vs"
  using assms unfolding ERROR_STRUCT_def list_all2_fits_Cons list_all2_Nil
  by (elim exE conjE)
    (auto simp: ErrorMetadata_from_tuple_def ErrorMetadata_values_def
      Let_def res_simps)

interpretation err: canonical_codec
  ErrorMetadata_pack ErrorMetadata_unpack "(\<lambda>m. True)" "calcsize ERROR_STRUCT"
  unfolding ErrorMetadata_pack_def ErrorMetadata_unpack_def
  by (rule canonical_codecI)
    (auto intro: ErrorMetadata_from_values dest: ErrorMetadata_values_from)

section \<open>Cache control\<close>

definition CACHE_PUT_STRUCT :: "field list" where
  "CACHE_PUT_STRUCT =
     [FI, FI, FQ, FQ, FI, FI, FI, FI]"

lemma CACHE_PUT_STRUCT_size [simp]: "calcsize CACHE_PUT_STRUCT = 40"
  by (simp add: CACHE_PUT_STRUCT_def)

record CachePutMetadata =
  cpm_cache_namespace :: int
  cpm_cache_key_hi :: int
  cpm_cache_key_lo :: int
  cpm_object_kind :: CacheObjectKind
  cpm_ttl_ms :: int
  cpm_object_bytes :: int
  cpm_codec_bitmap :: int
  cpm_flags :: int

definition CachePutMetadata_values :: "CachePutMetadata \<Rightarrow> int list" where
  "CachePutMetadata_values m =
     [cpm_cache_namespace m, CacheObjectKind_int (cpm_object_kind m), cpm_cache_key_hi m,
      cpm_cache_key_lo m, cpm_ttl_ms m, cpm_object_bytes m, cpm_codec_bitmap m, cpm_flags m]"

definition CachePutMetadata_post_init :: "CachePutMetadata \<Rightarrow> CachePutMetadata res" where
  "CachePutMetadata_post_init m =
     (let m' = m\<lparr>cpm_flags := CachePutFlags_call (cpm_flags m)\<rparr>
      in if cpm_flags m' AND NOT 3 \<noteq> 0 then ve ''cache_put.flags has reserved bits set'' else Inr m')"

lemma CachePutMetadata_post_init_id:
  "CachePutMetadata_post_init m = Inr m' \<Longrightarrow> 0 \<le> cpm_flags m \<Longrightarrow> m' = m"
  by (auto simp: CachePutMetadata_post_init_def Let_def split: if_splits)

definition CachePutMetadata_wf :: "CachePutMetadata \<Rightarrow> bool" where
  "CachePutMetadata_wf m \<longleftrightarrow> CachePutMetadata_post_init m = Inr m"

lemma CachePutMetadata_post_init_iff: "0 \<le> cpm_flags r \<Longrightarrow> CachePutMetadata_post_init r = Inr m \<longleftrightarrow> CachePutMetadata_wf r \<and> m = r"
  using CachePutMetadata_post_init_id [of r m] by (auto simp: CachePutMetadata_wf_def)

definition CachePutMetadata_pack :: "CachePutMetadata \<Rightarrow> bytes res" where
  "CachePutMetadata_pack = fixed_width_pack CACHE_PUT_STRUCT no_check CachePutMetadata_values"

definition CachePutMetadata_from_tuple :: "int list \<Rightarrow> CachePutMetadata res" where
  "CachePutMetadata_from_tuple vs =
     (case vs of
        [cache_namespace, object_kind, cache_key_hi, cache_key_lo, ttl_ms, object_bytes,
         codec_bitmap, flags] \<Rightarrow>
          bind_res (CacheObjectKind_of object_kind) (\<lambda>object_kind.
          CachePutMetadata_post_init
            \<lparr>cpm_cache_namespace = cache_namespace, cpm_cache_key_hi = cache_key_hi,
            cpm_cache_key_lo = cache_key_lo, cpm_object_kind = object_kind,
            cpm_ttl_ms = ttl_ms, cpm_object_bytes = object_bytes,
            cpm_codec_bitmap = codec_bitmap, cpm_flags = CachePutFlags_call flags\<rparr>)
      | _ \<Rightarrow> tuple_error)"

definition CachePutMetadata_unpack :: "bytes \<Rightarrow> CachePutMetadata res" where
  "CachePutMetadata_unpack = fixed_width_unpack CACHE_PUT_STRUCT CachePutMetadata_from_tuple"

lemma CachePutMetadata_from_values:
  assumes "CachePutMetadata_wf m" "list_all2 fits CACHE_PUT_STRUCT (CachePutMetadata_values m)"
  shows "CachePutMetadata_from_tuple (CachePutMetadata_values m) = Inr m"
  using assms
  by (cases m)
    (simp add: CachePutMetadata_values_def CachePutMetadata_from_tuple_def CACHE_PUT_STRUCT_def fits_def CachePutMetadata_post_init_iff)

lemma CachePutMetadata_values_from:
  assumes "list_all2 fits CACHE_PUT_STRUCT vs" "CachePutMetadata_from_tuple vs = Inr m"
  shows "CachePutMetadata_wf m \<and> CachePutMetadata_values m = vs"
  using assms unfolding CACHE_PUT_STRUCT_def list_all2_fits_Cons list_all2_Nil
  by (elim exE conjE)
    (auto simp: CachePutMetadata_from_tuple_def CachePutMetadata_values_def
      fits_def Let_def res_simps CachePutMetadata_post_init_iff)

interpretation cpm: canonical_codec
  CachePutMetadata_pack CachePutMetadata_unpack "CachePutMetadata_wf" "calcsize CACHE_PUT_STRUCT"
  unfolding CachePutMetadata_pack_def CachePutMetadata_unpack_def
  by (rule canonical_codecI)
    (auto intro: CachePutMetadata_from_values dest: CachePutMetadata_values_from)

definition CACHE_ACK_STRUCT :: "field list" where
  "CACHE_ACK_STRUCT =
     [FI, FI, FQ, FQ, FI, FI, FI, FI]"

lemma CACHE_ACK_STRUCT_size [simp]: "calcsize CACHE_ACK_STRUCT = 40"
  by (simp add: CACHE_ACK_STRUCT_def)

record CacheAckMetadata =
  cam_cache_namespace :: int
  cam_cache_key_hi :: int
  cam_cache_key_lo :: int
  cam_status :: CacheAckStatus
  cam_accepted_ttl_ms :: int
  cam_max_object_bytes :: int
  cam_detail_code :: int

definition CacheAckMetadata_values :: "CacheAckMetadata \<Rightarrow> int list" where
  "CacheAckMetadata_values m =
     [cam_cache_namespace m, CacheAckStatus_int (cam_status m), cam_cache_key_hi m,
      cam_cache_key_lo m, cam_accepted_ttl_ms m, cam_max_object_bytes m, cam_detail_code m, 0]"

definition CacheAckMetadata_pack :: "CacheAckMetadata \<Rightarrow> bytes res" where
  "CacheAckMetadata_pack = fixed_width_pack CACHE_ACK_STRUCT no_check CacheAckMetadata_values"

definition CacheAckMetadata_from_tuple :: "int list \<Rightarrow> CacheAckMetadata res" where
  "CacheAckMetadata_from_tuple vs =
     (case vs of
        [cache_namespace, status, cache_key_hi, cache_key_lo, accepted_ttl_ms,
         max_object_bytes, detail_code, reserved] \<Rightarrow>
          if reserved \<noteq> 0 then ve ''cache_ack.reserved must be zero'' else
          bind_res (CacheAckStatus_of status) (\<lambda>status.
          Inr
            \<lparr>cam_cache_namespace = cache_namespace, cam_cache_key_hi = cache_key_hi,
            cam_cache_key_lo = cache_key_lo, cam_status = status,
            cam_accepted_ttl_ms = accepted_ttl_ms, cam_max_object_bytes = max_object_bytes,
            cam_detail_code = detail_code\<rparr>)
      | _ \<Rightarrow> tuple_error)"

definition CacheAckMetadata_unpack :: "bytes \<Rightarrow> CacheAckMetadata res" where
  "CacheAckMetadata_unpack = fixed_width_unpack CACHE_ACK_STRUCT CacheAckMetadata_from_tuple"

lemma CacheAckMetadata_from_values:
  assumes "list_all2 fits CACHE_ACK_STRUCT (CacheAckMetadata_values m)"
  shows "CacheAckMetadata_from_tuple (CacheAckMetadata_values m) = Inr m"
  using assms
  by (cases m)
    (simp add: CacheAckMetadata_values_def CacheAckMetadata_from_tuple_def)

lemma CacheAckMetadata_values_from:
  assumes "list_all2 fits CACHE_ACK_STRUCT vs" "CacheAckMetadata_from_tuple vs = Inr m"
  shows "CacheAckMetadata_values m = vs"
  using assms unfolding CACHE_ACK_STRUCT_def list_all2_fits_Cons list_all2_Nil
  by (elim exE conjE)
    (auto simp: CacheAckMetadata_from_tuple_def CacheAckMetadata_values_def
      Let_def res_simps)

interpretation cam: canonical_codec
  CacheAckMetadata_pack CacheAckMetadata_unpack "(\<lambda>m. True)" "calcsize CACHE_ACK_STRUCT"
  unfolding CacheAckMetadata_pack_def CacheAckMetadata_unpack_def
  by (rule canonical_codecI)
    (auto intro: CacheAckMetadata_from_values dest: CacheAckMetadata_values_from)

definition CACHE_INVALIDATE_STRUCT :: "field list" where
  "CACHE_INVALIDATE_STRUCT =
     [FI, FI, FQ, FQ, FI, FI]"

lemma CACHE_INVALIDATE_STRUCT_size [simp]: "calcsize CACHE_INVALIDATE_STRUCT = 32"
  by (simp add: CACHE_INVALIDATE_STRUCT_def)

record CacheInvalidateMetadata =
  cim_invalidate_scope :: CacheInvalidateScope
  cim_cache_namespace :: int
  cim_cache_key_hi :: int
  cim_cache_key_lo :: int
  cim_reason_code :: int

definition CacheInvalidateMetadata_values :: "CacheInvalidateMetadata \<Rightarrow> int list" where
  "CacheInvalidateMetadata_values m =
     [CacheInvalidateScope_int (cim_invalidate_scope m), cim_cache_namespace m,
      cim_cache_key_hi m, cim_cache_key_lo m, cim_reason_code m, 0]"

definition CacheInvalidateMetadata_post_init ::
    "CacheInvalidateMetadata \<Rightarrow> CacheInvalidateMetadata res" where
  "CacheInvalidateMetadata_post_init m =
     (let valid =
        (case cim_invalidate_scope m of
           CIS_WHOLE_SESSION \<Rightarrow>
             cim_cache_namespace m = 0 \<and> cim_cache_key_hi m = 0 \<and> cim_cache_key_lo m = 0
         | CIS_NAMESPACE \<Rightarrow> cim_cache_key_hi m = 0 \<and> cim_cache_key_lo m = 0
         | CIS_OBJECT_KIND \<Rightarrow> cim_cache_key_hi m \<le> 0xFFFFFFFF \<and> cim_cache_key_lo m = 0
         | CIS_OBJECT_KEY \<Rightarrow> True)
      in if \<not> valid then ve ''cache invalidate identity fields must match invalidate_scope''
         else Inr m)"

lemma CacheInvalidateMetadata_post_init_id: "CacheInvalidateMetadata_post_init m = Inr m' \<Longrightarrow> m' = m"
  by (auto simp: CacheInvalidateMetadata_post_init_def Let_def split: if_splits)

definition CacheInvalidateMetadata_wf :: "CacheInvalidateMetadata \<Rightarrow> bool" where
  "CacheInvalidateMetadata_wf m \<longleftrightarrow> CacheInvalidateMetadata_post_init m = Inr m"

lemma CacheInvalidateMetadata_post_init_iff: "CacheInvalidateMetadata_post_init r = Inr m \<longleftrightarrow> CacheInvalidateMetadata_wf r \<and> m = r"
  using CacheInvalidateMetadata_post_init_id [of r m] by (auto simp: CacheInvalidateMetadata_wf_def)

definition CacheInvalidateMetadata_pack :: "CacheInvalidateMetadata \<Rightarrow> bytes res" where
  "CacheInvalidateMetadata_pack = fixed_width_pack CACHE_INVALIDATE_STRUCT no_check CacheInvalidateMetadata_values"

definition CacheInvalidateMetadata_from_tuple :: "int list \<Rightarrow> CacheInvalidateMetadata res" where
  "CacheInvalidateMetadata_from_tuple vs =
     (case vs of
        [invalidate_scope, cache_namespace, cache_key_hi, cache_key_lo, reason_code, reserved] \<Rightarrow>
          if reserved \<noteq> 0 then ve ''cache_invalidate.reserved must be zero'' else
          bind_res (CacheInvalidateScope_of invalidate_scope) (\<lambda>invalidate_scope.
          CacheInvalidateMetadata_post_init
            \<lparr>cim_invalidate_scope = invalidate_scope, cim_cache_namespace = cache_namespace,
            cim_cache_key_hi = cache_key_hi, cim_cache_key_lo = cache_key_lo,
            cim_reason_code = reason_code\<rparr>)
      | _ \<Rightarrow> tuple_error)"

definition CacheInvalidateMetadata_unpack :: "bytes \<Rightarrow> CacheInvalidateMetadata res" where
  "CacheInvalidateMetadata_unpack = fixed_width_unpack CACHE_INVALIDATE_STRUCT CacheInvalidateMetadata_from_tuple"

lemma CacheInvalidateMetadata_from_values:
  assumes "CacheInvalidateMetadata_wf m" "list_all2 fits CACHE_INVALIDATE_STRUCT (CacheInvalidateMetadata_values m)"
  shows "CacheInvalidateMetadata_from_tuple (CacheInvalidateMetadata_values m) = Inr m"
  using assms
  by (cases m)
    (simp add: CacheInvalidateMetadata_values_def CacheInvalidateMetadata_from_tuple_def CacheInvalidateMetadata_post_init_iff)

lemma CacheInvalidateMetadata_values_from:
  assumes "list_all2 fits CACHE_INVALIDATE_STRUCT vs" "CacheInvalidateMetadata_from_tuple vs = Inr m"
  shows "CacheInvalidateMetadata_wf m \<and> CacheInvalidateMetadata_values m = vs"
  using assms unfolding CACHE_INVALIDATE_STRUCT_def list_all2_fits_Cons list_all2_Nil
  by (elim exE conjE)
    (auto simp: CacheInvalidateMetadata_from_tuple_def CacheInvalidateMetadata_values_def
      Let_def res_simps CacheInvalidateMetadata_post_init_iff)

interpretation cim: canonical_codec
  CacheInvalidateMetadata_pack CacheInvalidateMetadata_unpack "CacheInvalidateMetadata_wf" "calcsize CACHE_INVALIDATE_STRUCT"
  unfolding CacheInvalidateMetadata_pack_def CacheInvalidateMetadata_unpack_def
  by (rule canonical_codecI)
    (auto intro: CacheInvalidateMetadata_from_values dest: CacheInvalidateMetadata_values_from)

end
