(* ===== verification/Packet.thy ===== *)
theory Packet
  imports Header Control_Messages
begin

text \<open>
  One complete packet of \<open>core/packet.py\<close> -- header, metadata, body -- with
  \<open>NnrpPacket.pack\<close>, \<open>build\<close> and \<open>unpack\<close>, and the builders of the control packets whose
  body is empty or opaque.
\<close>

record NnrpPacket =
  pkt_header :: NnrpHeader
  pkt_metadata :: bytes
  pkt_body :: bytes

definition NnrpPacket_pack :: "NnrpPacket \<Rightarrow> bytes res" where
  "NnrpPacket_pack p =
     (if len (pkt_metadata p) \<noteq> hdr_meta_len (pkt_header p) then ve ''metadata length mismatch''
      else if len (pkt_body p) \<noteq> hdr_body_len (pkt_header p) then ve ''body length mismatch''
      else bind_res (NnrpHeader_pack (pkt_header p)) (\<lambda>h.
        Inr (h @ pkt_metadata p @ pkt_body p)))"

definition NnrpPacket_unpack :: "bytes \<Rightarrow> NnrpPacket res" where
  "NnrpPacket_unpack payload =
     (if length payload < HEADER_LENGTH then ve ''expected at least HEADER_LENGTH bytes''
      else bind_res (NnrpHeader_unpack None (py_slice 0 (int HEADER_LENGTH) payload)) (\<lambda>header.
        let expected_length = int HEADER_LENGTH + hdr_meta_len header + hdr_body_len header
        in if len payload \<noteq> expected_length then ve ''expected expected_length bytes''
        else let metadata_start = int HEADER_LENGTH;
                 body_start = metadata_start + hdr_meta_len header
             in Inr \<lparr>pkt_header = header,
                     pkt_metadata = py_slice metadata_start body_start payload,
                     pkt_body = slice_from body_start payload\<rparr>))"

text \<open>
  The keyword arguments every packet builder hands through to the header.  The defaults are
  those of the Python signatures.
\<close>

record packet_route =
  pr_flags :: int
  pr_session_id :: int
  pr_frame_id :: int
  pr_view_id :: int
  pr_route_id :: int
  pr_trace_id :: int

definition no_route :: packet_route where
  "no_route = \<lparr>pr_flags = 0, pr_session_id = 0, pr_frame_id = 0, pr_view_id = 0, pr_route_id = 0,
     pr_trace_id = 0\<rparr>"

definition NnrpPacket_build ::
    "int \<Rightarrow> WireFormat \<Rightarrow> MessageType \<Rightarrow> packet_route \<Rightarrow> bytes \<Rightarrow> bytes \<Rightarrow> NnrpPacket" where
  "NnrpPacket_build version_major wire_format msg_type r metadata body =
     \<lparr>pkt_header =
        \<lparr>hdr_version_major = version_major, hdr_wire_format = wire_format,
         hdr_msg_type = msg_type, hdr_flags = pr_flags r, hdr_meta_len = len metadata,
         hdr_body_len = len body, hdr_session_id = pr_session_id r,
         hdr_frame_id = pr_frame_id r, hdr_view_id = pr_view_id r,
         hdr_route_id = pr_route_id r, hdr_trace_id = pr_trace_id r,
         hdr_header_len = int HEADER_LENGTH\<rparr>,
      pkt_metadata = metadata, pkt_body = body\<rparr>"

section \<open>Control packet builders\<close>

definition header_only_control_types :: "MessageType list" where
  "header_only_control_types = [MT_FRAME_CANCEL, MT_PING, MT_PONG]"

definition build_header_only_packet :: "MessageType \<Rightarrow> packet_route \<Rightarrow> NnrpPacket res" where
  "build_header_only_packet msg_type r =
     (if msg_type \<notin> set header_only_control_types
      then ve ''expected header-only control packet type''
      else Inr (NnrpPacket_build 1 WF_CURRENT msg_type r [] []))"

definition build_frame_cancel_packet :: "packet_route \<Rightarrow> NnrpPacket res" where
  "build_frame_cancel_packet r = build_header_only_packet MT_FRAME_CANCEL r"

definition build_ping_packet :: "packet_route \<Rightarrow> NnrpPacket res" where
  "build_ping_packet r =
     build_header_only_packet MT_PING (r\<lparr>pr_frame_id := 0, pr_view_id := 0\<rparr>)"

definition build_pong_packet :: "packet_route \<Rightarrow> NnrpPacket res" where
  "build_pong_packet r =
     build_header_only_packet MT_PONG (r\<lparr>pr_frame_id := 0, pr_view_id := 0\<rparr>)"

definition build_result_drop_packet :: "packet_route \<Rightarrow> NnrpPacket" where
  "build_result_drop_packet r = NnrpPacket_build 1 WF_CURRENT MT_RESULT_DROP r [] []"

definition build_flow_update_packet :: "FlowUpdateMetadata \<Rightarrow> packet_route \<Rightarrow> NnrpPacket res" where
  "build_flow_update_packet metadata r =
     (if fum_scope_kind metadata = FUS_CONNECTION \<and> pr_session_id r \<noteq> 0
      then ve ''connection-scope FLOW_UPDATE requires session_id=0''
      else if fum_scope_kind metadata \<in> {FUS_SESSION, FUS_OPERATION} \<and> pr_session_id r = 0
      then ve ''session-scope and operation-scope FLOW_UPDATE require non-zero session_id''
      else bind_res (FlowUpdateMetadata_pack metadata) (\<lambda>m.
        Inr (NnrpPacket_build 1 WF_CURRENT MT_FLOW_UPDATE
               (r\<lparr>pr_frame_id := 0, pr_view_id := 0\<rparr>) m [])))"

definition build_result_hint_packet :: "ResultHintMetadata \<Rightarrow> packet_route \<Rightarrow> NnrpPacket res" where
  "build_result_hint_packet metadata r =
     bind_res (ResultHintMetadata_pack metadata) (\<lambda>m.
       Inr (NnrpPacket_build 1 WF_CURRENT MT_RESULT_HINT (r\<lparr>pr_view_id := 0\<rparr>) m []))"

definition build_transport_probe_packet ::
    "TransportProbeMetadata \<Rightarrow> bytes \<Rightarrow> packet_route \<Rightarrow> NnrpPacket res" where
  "build_transport_probe_packet metadata body r =
     (if tpm_probe_payload_bytes metadata \<noteq> len body then ve ''probe payload length mismatch''
      else bind_res (TransportProbeMetadata_pack metadata) (\<lambda>m.
        Inr (NnrpPacket_build 1 WF_CURRENT MT_TRANSPORT_PROBE
               (r\<lparr>pr_frame_id := 0, pr_view_id := 0\<rparr>) m body)))"

definition build_transport_probe_ack_packet ::
    "TransportProbeAckMetadata \<Rightarrow> packet_route \<Rightarrow> NnrpPacket res" where
  "build_transport_probe_ack_packet metadata r =
     bind_res (TransportProbeAckMetadata_pack metadata) (\<lambda>m.
       Inr (NnrpPacket_build 1 WF_CURRENT MT_TRANSPORT_PROBE_ACK
              (r\<lparr>pr_frame_id := 0, pr_view_id := 0\<rparr>) m []))"

definition build_session_migrate_packet ::
    "SessionMigrateMetadata \<Rightarrow> bytes \<Rightarrow> packet_route \<Rightarrow> NnrpPacket res" where
  "build_session_migrate_packet metadata body r =
     bind_res (SessionMigrateMetadata_pack metadata) (\<lambda>m.
       Inr (NnrpPacket_build 1 WF_CURRENT MT_SESSION_MIGRATE
              (r\<lparr>pr_frame_id := 0, pr_view_id := 0\<rparr>) m body))"

definition build_session_migrate_ack_packet ::
    "SessionMigrateAckMetadata \<Rightarrow> bytes \<Rightarrow> packet_route \<Rightarrow> NnrpPacket res" where
  "build_session_migrate_ack_packet metadata body r =
     bind_res (SessionMigrateAckMetadata_pack metadata) (\<lambda>m.
       Inr (NnrpPacket_build 1 WF_CURRENT MT_SESSION_MIGRATE_ACK
              (r\<lparr>pr_frame_id := 0, pr_view_id := 0\<rparr>) m body))"

section \<open>Framing\<close>

text \<open>
  Packing and unpacking a packet are inverse to each other, in both directions and with no
  well-formedness condition: \<open>pack\<close> itself checks the two lengths.
\<close>

lemma NnrpPacket_packE:
  assumes "NnrpPacket_pack p = Inr bs"
  obtains h where "NnrpHeader_pack (pkt_header p) = Inr h"
    "bs = h @ pkt_metadata p @ pkt_body p" "length h = 40"
    "len (pkt_metadata p) = hdr_meta_len (pkt_header p)"
    "len (pkt_body p) = hdr_body_len (pkt_header p)"
  using assms
  by (fastforce simp: NnrpPacket_pack_def res_simps dest: NnrpHeader_pack_length split: if_splits)

lemma NnrpPacket_unpack_frame:
  assumes "length h = 40" "NnrpHeader_unpack None h = Inr header"
    "len m = hdr_meta_len header" "len b = hdr_body_len header"
  shows "NnrpPacket_unpack (h @ m @ b) = Inr \<lparr>pkt_header = header, pkt_metadata = m, pkt_body = b\<rparr>"
proof -
  have "py_slice 40 (40 + hdr_meta_len header) (h @ m @ b) = m"
    using assms by (intro py_slice_append_mid) auto
  moreover have "slice_from (40 + hdr_meta_len header) ((h @ m) @ b) = b"
    using assms by (intro slice_from_append) simp
  moreover have "len (h @ m @ b) = 40 + hdr_meta_len header + hdr_body_len header"
    using assms by simp
  ultimately show ?thesis
    using assms by (simp add: NnrpPacket_unpack_def Let_def)
qed

lemma NnrpPacket_unpackE:
  assumes "NnrpPacket_unpack bs = Inr p"
  obtains h where "bs = h @ pkt_metadata p @ pkt_body p" "length h = 40"
    "NnrpHeader_unpack None h = Inr (pkt_header p)"
    "len (pkt_metadata p) = hdr_meta_len (pkt_header p)"
    "len (pkt_body p) = hdr_body_len (pkt_header p)"
proof -
  from assms obtain header where long: "40 \<le> length bs"
    and header: "NnrpHeader_unpack None (take 40 bs) = Inr header"
    and total: "len bs = 40 + hdr_meta_len header + hdr_body_len header"
    and p: "p = \<lparr>pkt_header = header,
        pkt_metadata = py_slice 40 (40 + hdr_meta_len header) bs,
        pkt_body = slice_from (40 + hdr_meta_len header) bs\<rparr>"
    by (auto simp: NnrpPacket_unpack_def res_simps Let_def not_less split: if_splits)
  note bounds = NnrpHeader_unpack_bounds [OF header]
  define m where "m = nat (hdr_meta_len header)"
  have m: "hdr_meta_len header = int m"
    using bounds(1) by (simp add: m_def)
  have "py_slice 40 (40 + int m) bs = take m (drop 40 bs)"
    by (simp add: py_slice_nonneg nat_add_distrib)
  moreover have "slice_from (40 + int m) bs = drop (40 + m) bs"
    by (simp add: slice_from_nonneg nat_add_distrib)
  ultimately have pm: "pkt_metadata p = take m (drop 40 bs)" "pkt_body p = drop m (drop 40 bs)"
    by (simp_all add: p m drop_drop add.commute)
  have hp: "pkt_header p = header"
    by (simp add: p)
  show ?thesis
  proof (rule that)
    show "bs = take 40 bs @ pkt_metadata p @ pkt_body p"
      by (simp add: pm del: drop_drop)
    show "len (pkt_metadata p) = hdr_meta_len (pkt_header p)"
      "len (pkt_body p) = hdr_body_len (pkt_header p)"
      using total bounds(3) by (simp_all add: pm hp m)
  qed (use long header p in simp_all)
qed

lemma NnrpPacket_unpack_pack: "NnrpPacket_pack p = Inr bs \<Longrightarrow> NnrpPacket_unpack bs = Inr p"
  by (elim NnrpPacket_packE) (simp add: NnrpPacket_unpack_frame NnrpHeader_unpack_pack)

lemma NnrpPacket_pack_unpack: "NnrpPacket_unpack bs = Inr p \<Longrightarrow> NnrpPacket_pack p = Inr bs"
  by (elim NnrpPacket_unpackE) (simp add: NnrpPacket_pack_def NnrpHeader_pack_unpack)

interpretation pkt: exact_codec NnrpPacket_pack NnrpPacket_unpack "\<lambda>_. True"
  by unfold_locales (auto intro: NnrpPacket_unpack_pack NnrpPacket_pack_unpack)

text \<open>
  A built packet packs exactly when its header fields fit; the lengths are right by
  construction.
\<close>

lemma NnrpPacket_build_simps [simp]:
  "pkt_metadata (NnrpPacket_build v w t r m b) = m"
  "pkt_body (NnrpPacket_build v w t r m b) = b"
  "hdr_msg_type (pkt_header (NnrpPacket_build v w t r m b)) = t"
  "hdr_wire_format (pkt_header (NnrpPacket_build v w t r m b)) = w"
  "hdr_session_id (pkt_header (NnrpPacket_build v w t r m b)) = pr_session_id r"
  "hdr_frame_id (pkt_header (NnrpPacket_build v w t r m b)) = pr_frame_id r"
  by (simp_all add: NnrpPacket_build_def)

lemma NnrpPacket_pack_build:
  "NnrpPacket_pack (NnrpPacket_build v w t r m b) =
     bind_res (NnrpHeader_pack (pkt_header (NnrpPacket_build v w t r m b)))
       (\<lambda>h. Inr (h @ m @ b))"
  by (simp add: NnrpPacket_pack_def NnrpPacket_build_def)

definition route_fits :: "packet_route \<Rightarrow> bool" where
  "route_fits r \<longleftrightarrow> fits FI (pr_flags r) \<and> fits FI (pr_session_id r) \<and> fits FI (pr_frame_id r) \<and>
     fits FH (pr_view_id r) \<and> fits FH (pr_route_id r) \<and> fits FQ (pr_trace_id r)"

lemma fits_WireFormat: "fits FB (WireFormat_int w)"
  by (cases w) (simp_all add: fits_def)

lemma fits_MessageType: "fits FB (MessageType_int t)"
  by (cases t) (simp_all add: fits_def)

lemma NnrpPacket_build_packs:
  assumes "route_fits r" "fits FB v" "fits FI (len m)" "fits FI (len b)"
  shows "\<exists>bs. NnrpPacket_pack (NnrpPacket_build v w t r m b) = Inr bs"
proof -
  have "\<exists>bs. struct_pack HEADER_FIELDS [v, WireFormat_int w, MessageType_int t, 40, pr_flags r,
      len m, len b, pr_session_id r, pr_frame_id r, pr_view_id r, pr_route_id r, pr_trace_id r] = Inr bs"
    using assms
    by (simp add: struct_pack_iff HEADER_FIELDS_def route_fits_def fits_WireFormat fits_MessageType)
      (simp add: fits_def)
  then show ?thesis
    unfolding NnrpPacket_pack_build by (auto simp: NnrpHeader_pack_def NnrpPacket_build_def)
qed

end
