(* ===== verification/Alignment.thy ===== *)
theory Alignment
  imports Wire_Struct
begin

text \<open>
  The 8-byte alignment helpers of \<open>core/packet.py\<close> -- \<open>_align_up\<close>,
  \<open>_append_zero_padding\<close>, \<open>_validate_zero_padding\<close> -- shared by the inline object blocks and
  the tensor sections, and the split of an aligned block into content and padding.
\<close>

definition BLOCK_ALIGNMENT :: int where
  "BLOCK_ALIGNMENT = 8"

definition align_up :: "int \<Rightarrow> int \<Rightarrow> int res" where
  "align_up value alignment =
     (if alignment \<le> 0 then ve ''alignment must be positive''
      else Inr (((value + alignment - 1) div alignment) * alignment))"

definition append_zero_padding :: "bytes \<Rightarrow> int \<Rightarrow> bytes res" where
  "append_zero_padding buffer alignment =
     bind_res (align_up (len buffer) alignment) (\<lambda>padded_length.
       Inr (if padded_length > len buffer then buffer @ zeros (padded_length - len buffer) else buffer))"

definition validate_zero_padding :: "bytes \<Rightarrow> int \<Rightarrow> int \<Rightarrow> unit res" where
  "validate_zero_padding payload from_pos to_pos =
     (if to_pos \<le> from_pos then Inr ()
      else if any_nonzero (py_slice from_pos to_pos payload) then ve ''padding bytes must be zero''
      else Inr ())"

section \<open>The next multiple of eight\<close>

definition aligned :: "int \<Rightarrow> int" where
  "aligned v = ((v + 7) div 8) * 8"

lemma align_up_8 [simp]: "align_up v BLOCK_ALIGNMENT = Inr (aligned v)"
  by (simp add: align_up_def aligned_def BLOCK_ALIGNMENT_def)

lemma aligned_bounds: "v \<le> aligned v" "aligned v < v + 8" "aligned v mod 8 = 0"
  unfolding aligned_def by presburger+

lemma aligned_idem: "v mod 8 = 0 \<Longrightarrow> aligned v = v"
  unfolding aligned_def by presburger

lemma aligned_shift: "k mod 8 = 0 \<Longrightarrow> aligned (k + v) = k + aligned v"
  by (auto simp: aligned_def add.assoc elim!: dvdE dest!: mod_0_imp_dvd)

lemma aligned_nonneg: "0 \<le> v \<Longrightarrow> 0 \<le> aligned v"
  using aligned_bounds(1) [of v] by linarith

text \<open>The zero bytes that follow content of length \<open>n\<close>.\<close>

definition padding :: "int \<Rightarrow> bytes" where
  "padding n = zeros (aligned n - n)"

lemma length_padding [simp]: "len (padding n) = aligned n - n"
  using aligned_bounds(1) [of n] by (simp add: padding_def)

lemma padding_aligned [simp]: "v mod 8 = 0 \<Longrightarrow> padding v = []"
  by (simp add: padding_def aligned_idem zeros_def)

lemma append_zero_padding_8 [simp]:
  "append_zero_padding buffer BLOCK_ALIGNMENT = Inr (buffer @ padding (len buffer))"
  using aligned_bounds(1) [of "len buffer"]
  by (simp add: append_zero_padding_def padding_def zeros_def)

lemma validate_zero_padding_iff:
  assumes "0 \<le> from_pos" "0 \<le> to_pos" "to_pos \<le> len payload"
  shows "validate_zero_padding payload from_pos to_pos = Inr () \<longleftrightarrow>
    py_slice from_pos to_pos payload = zeros (to_pos - from_pos)"
proof (cases "to_pos \<le> from_pos")
  case True
  then show ?thesis
    using assms by (simp add: validate_zero_padding_def zeros_def py_slice_nonneg)
next
  case False
  then have "len (py_slice from_pos to_pos payload) = to_pos - from_pos"
    using assms by (intro length_py_slice) auto
  then show ?thesis
    using False not_any_nonzero_iff [of "py_slice from_pos to_pos payload"]
    by (auto simp: validate_zero_padding_def)
qed

end
