(* ===== verification/Data_Messages.thy ===== *)
theory Data_Messages
  imports Enums
begin

text \<open>
  The data-plane metadata of \<open>core/messages/data.py\<close>: the body prelude, inline object
  headers, object references, extension descriptors, \<open>FRAME_SUBMIT\<close> and \<open>RESULT_PUSH\<close>
  metadata and tensor section descriptors.

  For a class \<open>X\<close>: the record \<open>X\<close> holds the fields; \<open>X_values\<close> is the tuple \<open>pack\<close> gives to
  \<open>struct\<close>; \<open>X_post_init\<close> is \<open>__post_init__\<close>, so that \<open>X_post_init r\<close> is the constructor
  call with the fields of \<open>r\<close>, and \<open>X_wf\<close> says that an object is what the constructor
  returns; \<open>X_from_tuple\<close> and \<open>X_unpack\<close> are \<open>_from_tuple\<close> and \<open>unpack\<close>.  Each class is
  interpreted as a codec.
\<close>

section \<open>Coercions and shared checks\<close>

definition coerce_result_flags :: "int \<Rightarrow> int res" where
  "coerce_result_flags value =
     (if value < 0 then ve ''result_flags must be non-negative''
      else if value AND NOT 7 \<noteq> 0 then ve ''result_flags contains unknown bits''
      else Inr (ResultFlags_call value))"

definition coerce_budget_policy :: "int \<Rightarrow> int res" where
  "coerce_budget_policy value =
     (if value < 0 then ve ''budget_policy must be non-negative''
      else if value AND NOT 15 \<noteq> 0 then ve ''budget_policy contains unknown bits''
      else Inr (BudgetPolicy_call value))"

definition coerce_payload_kind_bitmap :: "int \<Rightarrow> int res" where
  "coerce_payload_kind_bitmap value =
     (if value < 0 then ve ''payload_kind_bitmap must be non-negative''
      else if value AND NOT 127 \<noteq> 0 then ve ''payload_kind_bitmap contains unknown bits''
      else Inr (PayloadKind_call value))"

definition coerce_single_payload_kind :: "int \<Rightarrow> int res" where
  "coerce_single_payload_kind value =
     bind_res (coerce_payload_kind_bitmap value) (\<lambda>raw_value.
       if raw_value = 0 \<or> raw_value AND (raw_value - 1) \<noteq> 0
       then ve ''payload_kind must contain exactly one current payload kind bit''
       else Inr (PayloadKind_call raw_value))"

definition coerce_extension_frame_flags :: "int \<Rightarrow> int res" where
  "coerce_extension_frame_flags value =
     (if value < 0 then ve ''extension_flags must be non-negative''
      else if value AND NOT 1 \<noteq> 0 then ve ''extension_flags contains unknown bits''
      else Inr (ExtensionFrameFlags_call value))"

definition coerce_loss_tolerance_policy :: "int \<Rightarrow> int res" where
  "coerce_loss_tolerance_policy value =
     (if value = 255 then Inr value
      else bind_res (LossTolerance_of value) (\<lambda>_. Inr value))"

text \<open>A coercion that succeeds returns its argument, and coercing it again changes nothing.\<close>

lemma coerce_result_flags_iff:
  "coerce_result_flags v = Inr r \<longleftrightarrow> r = v \<and> 0 \<le> v \<and> v AND NOT 7 = 0"
  by (auto simp: coerce_result_flags_def)

lemma coerce_budget_policy_iff:
  "coerce_budget_policy v = Inr r \<longleftrightarrow> r = v \<and> 0 \<le> v \<and> v AND NOT 15 = 0"
  by (auto simp: coerce_budget_policy_def)

lemma coerce_payload_kind_bitmap_iff:
  "coerce_payload_kind_bitmap v = Inr r \<longleftrightarrow> r = v \<and> 0 \<le> v \<and> v AND NOT 127 = 0"
  by (auto simp: coerce_payload_kind_bitmap_def)

lemma coerce_extension_frame_flags_iff:
  "coerce_extension_frame_flags v = Inr r \<longleftrightarrow> r = v \<and> 0 \<le> v \<and> v AND NOT 1 = 0"
  by (auto simp: coerce_extension_frame_flags_def)

definition loss_tolerance_ok :: "int \<Rightarrow> bool" where
  "loss_tolerance_ok v \<longleftrightarrow> v \<in> {0, 1, 2, 3, 255}"

lemma coerce_loss_tolerance_policy_iff:
  "coerce_loss_tolerance_policy v = Inr r \<longleftrightarrow> r = v \<and> loss_tolerance_ok v"
  by (auto simp: coerce_loss_tolerance_policy_def loss_tolerance_ok_def LossTolerance_of_def)

lemmas coerce_iff = coerce_result_flags_iff coerce_budget_policy_iff
  coerce_payload_kind_bitmap_iff coerce_extension_frame_flags_iff coerce_loss_tolerance_policy_iff

text \<open>
  A dictionary of fields that must be zero, checked in its order: the first field that is
  not is named in the error.
\<close>

definition require_all_zero :: "(string \<times> int) list \<Rightarrow> unit res" where
  "require_all_zero fields =
     (case find (\<lambda>(n, v). v \<noteq> 0) fields of
        Some (n, v) \<Rightarrow> ve (n @ '' must be 0 when payload_kind_bitmap has no tensor payload'')
      | None \<Rightarrow> Inr ())"

lemma require_all_zero_iff: "require_all_zero fs = Inr () \<longleftrightarrow> (\<forall>(n, v) \<in> set fs. v = 0)"
  by (induction fs) (auto simp: require_all_zero_def split: option.splits)

section \<open>BodyRegionPrelude\<close>

definition BODY_REGION_PRELUDE_STRUCT :: "field list" where
  "BODY_REGION_PRELUDE_STRUCT =
     [FI, FI, FI, FI, FI, FI, FI, FI]"

lemma BODY_REGION_PRELUDE_STRUCT_size [simp]: "calcsize BODY_REGION_PRELUDE_STRUCT = 32"
  by (simp add: BODY_REGION_PRELUDE_STRUCT_def)

record BodyRegionPrelude =
  brp_inline_object_bytes :: int
  brp_object_reference_bytes :: int
  brp_typed_payload_descriptor_bytes :: int
  brp_typed_payload_frame_bytes :: int
  brp_extension_descriptor_bytes :: int
  brp_extension_payload_bytes :: int
  brp_body_flags :: int
  brp_reserved :: int

definition BodyRegionPrelude_values :: "BodyRegionPrelude \<Rightarrow> int list" where
  "BodyRegionPrelude_values m =
     [brp_inline_object_bytes m, brp_object_reference_bytes m,
      brp_typed_payload_descriptor_bytes m, brp_typed_payload_frame_bytes m,
      brp_extension_descriptor_bytes m, brp_extension_payload_bytes m, brp_body_flags m,
      brp_reserved m]"

text \<open>The record lengths the prelude counts in: references, typed descriptors, extension descriptors.\<close>

definition OBJECT_REFERENCE_BLOCK_LENGTH :: nat where
  "OBJECT_REFERENCE_BLOCK_LENGTH = 24"

definition TYPED_PAYLOAD_DESCRIPTOR_LENGTH :: nat where
  "TYPED_PAYLOAD_DESCRIPTOR_LENGTH = 24"

definition EXTENSION_FRAME_DESCRIPTOR_LENGTH :: nat where
  "EXTENSION_FRAME_DESCRIPTOR_LENGTH = 16"

definition BodyRegionPrelude_post_init :: "BodyRegionPrelude \<Rightarrow> BodyRegionPrelude res" where
  "BodyRegionPrelude_post_init m =
     (if brp_body_flags m \<noteq> 0 then ve ''body_flags must be 0 in current''
      else if brp_reserved m \<noteq> 0 then ve ''reserved must be 0 in current body prelude''
      else if brp_object_reference_bytes m mod int OBJECT_REFERENCE_BLOCK_LENGTH \<noteq> 0
      then ve ''object_reference_bytes must be a multiple of OBJECT_REFERENCE_BLOCK_LENGTH''
      else if brp_typed_payload_descriptor_bytes m mod int TYPED_PAYLOAD_DESCRIPTOR_LENGTH \<noteq> 0
      then ve ''typed_payload_descriptor_bytes must be a multiple of TYPED_PAYLOAD_DESCRIPTOR_LENGTH''
      else if brp_extension_descriptor_bytes m mod int EXTENSION_FRAME_DESCRIPTOR_LENGTH \<noteq> 0
      then ve ''extension_descriptor_bytes must be a multiple of EXTENSION_FRAME_DESCRIPTOR_LENGTH''
      else Inr m)"

lemma BodyRegionPrelude_post_init_id: "BodyRegionPrelude_post_init m = Inr m' \<Longrightarrow> m' = m"
  by (simp add: BodyRegionPrelude_post_init_def split: if_splits)

definition BodyRegionPrelude_wf :: "BodyRegionPrelude \<Rightarrow> bool" where
  "BodyRegionPrelude_wf m \<longleftrightarrow> BodyRegionPrelude_post_init m = Inr m"

lemma BodyRegionPrelude_post_init_iff: "BodyRegionPrelude_post_init r = Inr m \<longleftrightarrow> BodyRegionPrelude_wf r \<and> m = r"
  using BodyRegionPrelude_post_init_id [of r m] by (auto simp: BodyRegionPrelude_wf_def)

definition BodyRegionPrelude_pack :: "BodyRegionPrelude \<Rightarrow> bytes res" where
  "BodyRegionPrelude_pack = fixed_width_pack BODY_REGION_PRELUDE_STRUCT no_check BodyRegionPrelude_values"

definition BodyRegionPrelude_from_tuple :: "int list \<Rightarrow> BodyRegionPrelude res" where
  "BodyRegionPrelude_from_tuple vs =
     (case vs of
        [inline_object_bytes, object_reference_bytes, typed_payload_descriptor_bytes,
         typed_payload_frame_bytes, extension_descriptor_bytes, extension_payload_bytes,
         body_flags, reserved] \<Rightarrow>
          BodyRegionPrelude_post_init
            \<lparr>brp_inline_object_bytes = inline_object_bytes,
            brp_object_reference_bytes = object_reference_bytes,
            brp_typed_payload_descriptor_bytes = typed_payload_descriptor_bytes,
            brp_typed_payload_frame_bytes = typed_payload_frame_bytes,
            brp_extension_descriptor_bytes = extension_descriptor_bytes,
            brp_extension_payload_bytes = extension_payload_bytes, brp_body_flags = body_flags,
            brp_reserved = reserved\<rparr>
      | _ \<Rightarrow> tuple_error)"

definition BodyRegionPrelude_unpack :: "bytes \<Rightarrow> BodyRegionPrelude res" where
  "BodyRegionPrelude_unpack = fixed_width_unpack BODY_REGION_PRELUDE_STRUCT BodyRegionPrelude_from_tuple"

lemma BodyRegionPrelude_from_values:
  assumes "BodyRegionPrelude_wf m" "list_all2 fits BODY_REGION_PRELUDE_STRUCT (BodyRegionPrelude_values m)"
  shows "BodyRegionPrelude_from_tuple (BodyRegionPrelude_values m) = Inr m"
  using assms
  by (cases m)
    (simp add: BodyRegionPrelude_values_def BodyRegionPrelude_from_tuple_def BodyRegionPrelude_post_init_iff)

lemma BodyRegionPrelude_values_from:
  assumes "list_all2 fits BODY_REGION_PRELUDE_STRUCT vs" "BodyRegionPrelude_from_tuple vs = Inr m"
  shows "BodyRegionPrelude_wf m \<and> BodyRegionPrelude_values m = vs"
  using assms unfolding BODY_REGION_PRELUDE_STRUCT_def list_all2_fits_Cons list_all2_Nil
  by (elim exE conjE)
    (auto simp: BodyRegionPrelude_from_tuple_def BodyRegionPrelude_values_def
      Let_def res_simps BodyRegionPrelude_post_init_iff)

interpretation brp: canonical_codec
  BodyRegionPrelude_pack BodyRegionPrelude_unpack "BodyRegionPrelude_wf" "calcsize BODY_REGION_PRELUDE_STRUCT"
  unfolding BodyRegionPrelude_pack_def BodyRegionPrelude_unpack_def
  by (rule canonical_codecI)
    (auto intro: BodyRegionPrelude_from_values dest: BodyRegionPrelude_values_from)

section \<open>InlineObjectBlockHeader\<close>

definition INLINE_OBJECT_BLOCK_HEADER_STRUCT :: "field list" where
  "INLINE_OBJECT_BLOCK_HEADER_STRUCT =
     [FH, FH, FH, FH, FI, FI]"

lemma INLINE_OBJECT_BLOCK_HEADER_STRUCT_size [simp]: "calcsize INLINE_OBJECT_BLOCK_HEADER_STRUCT = 16"
  by (simp add: INLINE_OBJECT_BLOCK_HEADER_STRUCT_def)

record InlineObjectBlockHeader =
  iob_object_kind :: CacheObjectKind
  iob_object_flags :: int
  iob_profile_id :: int
  iob_reserved0 :: int
  iob_object_bytes :: int
  iob_reserved1 :: int

definition InlineObjectBlockHeader_values :: "InlineObjectBlockHeader \<Rightarrow> int list" where
  "InlineObjectBlockHeader_values m =
     [CacheObjectKind_int (iob_object_kind m), iob_object_flags m, iob_profile_id m,
      iob_reserved0 m, iob_object_bytes m, iob_reserved1 m]"

definition InlineObjectBlockHeader_post_init ::
    "InlineObjectBlockHeader \<Rightarrow> InlineObjectBlockHeader res" where
  "InlineObjectBlockHeader_post_init m =
     (if iob_object_flags m \<noteq> 0 then ve ''object_flags must be 0 in current inline object blocks''
      else if iob_reserved0 m \<noteq> 0 then ve ''reserved0 must be 0 in current inline object blocks''
      else if iob_reserved1 m \<noteq> 0 then ve ''reserved1 must be 0 in current inline object blocks''
      else Inr m)"

lemma InlineObjectBlockHeader_post_init_id: "InlineObjectBlockHeader_post_init m = Inr m' \<Longrightarrow> m' = m"
  by (simp add: InlineObjectBlockHeader_post_init_def split: if_splits)

definition InlineObjectBlockHeader_wf :: "InlineObjectBlockHeader \<Rightarrow> bool" where
  "InlineObjectBlockHeader_wf m \<longleftrightarrow> InlineObjectBlockHeader_post_init m = Inr m"

lemma InlineObjectBlockHeader_post_init_iff: "InlineObjectBlockHeader_post_init r = Inr m \<longleftrightarrow> InlineObjectBlockHeader_wf r \<and> m = r"
  using InlineObjectBlockHeader_post_init_id [of r m] by (auto simp: InlineObjectBlockHeader_wf_def)

definition InlineObjectBlockHeader_pack :: "InlineObjectBlockHeader \<Rightarrow> bytes res" where
  "InlineObjectBlockHeader_pack = fixed_width_pack INLINE_OBJECT_BLOCK_HEADER_STRUCT no_check InlineObjectBlockHeader_values"

definition InlineObjectBlockHeader_from_tuple :: "int list \<Rightarrow> InlineObjectBlockHeader res" where
  "InlineObjectBlockHeader_from_tuple vs =
     (case vs of
        [object_kind, object_flags, profile_id, reserved0, object_bytes, reserved1] \<Rightarrow>
          bind_res (CacheObjectKind_of object_kind) (\<lambda>object_kind.
          InlineObjectBlockHeader_post_init
            \<lparr>iob_object_kind = object_kind, iob_object_flags = object_flags,
            iob_profile_id = profile_id, iob_reserved0 = reserved0,
            iob_object_bytes = object_bytes, iob_reserved1 = reserved1\<rparr>)
      | _ \<Rightarrow> tuple_error)"

definition InlineObjectBlockHeader_unpack :: "bytes \<Rightarrow> InlineObjectBlockHeader res" where
  "InlineObjectBlockHeader_unpack = fixed_width_unpack INLINE_OBJECT_BLOCK_HEADER_STRUCT InlineObjectBlockHeader_from_tuple"

lemma InlineObjectBlockHeader_from_values:
  assumes "InlineObjectBlockHeader_wf m" "list_all2 fits INLINE_OBJECT_BLOCK_HEADER_STRUCT (InlineObjectBlockHeader_values m)"
  shows "InlineObjectBlockHeader_from_tuple (InlineObjectBlockHeader_values m) = Inr m"
  using assms
  by (cases m)
    (simp add: InlineObjectBlockHeader_values_def InlineObjectBlockHeader_from_tuple_def InlineObjectBlockHeader_post_init_iff)

lemma InlineObjectBlockHeader_values_from:
  assumes "list_all2 fits INLINE_OBJECT_BLOCK_HEADER_STRUCT vs" "InlineObjectBlockHeader_from_tuple vs = Inr m"
  shows "InlineObjectBlockHeader_wf m \<and> InlineObjectBlockHeader_values m = vs"
  using assms unfolding INLINE_OBJECT_BLOCK_HEADER_STRUCT_def list_all2_fits_Cons list_all2_Nil
  by (elim exE conjE)
    (auto simp: InlineObjectBlockHeader_from_tuple_def InlineObjectBlockHeader_values_def
      Let_def res_simps InlineObjectBlockHeader_post_init_iff)

interpretation iob: canonical_codec
  InlineObjectBlockHeader_pack InlineObjectBlockHeader_unpack "InlineObjectBlockHeader_wf" "calcsize INLINE_OBJECT_BLOCK_HEADER_STRUCT"
  unfolding InlineObjectBlockHeader_pack_def InlineObjectBlockHeader_unpack_def
  by (rule canonical_codecI)
    (auto intro: InlineObjectBlockHeader_from_values dest: InlineObjectBlockHeader_values_from)

section \<open>ObjectReferenceBlock\<close>

definition OBJECT_REFERENCE_BLOCK_STRUCT :: "field list" where
  "OBJECT_REFERENCE_BLOCK_STRUCT =
     [FH, FH, FI, FQ, FQ]"

lemma OBJECT_REFERENCE_BLOCK_STRUCT_size [simp]: "calcsize OBJECT_REFERENCE_BLOCK_STRUCT = 24"
  by (simp add: OBJECT_REFERENCE_BLOCK_STRUCT_def)

record ObjectReferenceBlock =
  orb_object_kind :: CacheObjectKind
  orb_ref_flags :: int
  orb_cache_namespace :: int
  orb_cache_key_hi :: int
  orb_cache_key_lo :: int

definition ObjectReferenceBlock_values :: "ObjectReferenceBlock \<Rightarrow> int list" where
  "ObjectReferenceBlock_values m =
     [CacheObjectKind_int (orb_object_kind m), orb_ref_flags m, orb_cache_namespace m,
      orb_cache_key_hi m, orb_cache_key_lo m]"

definition ObjectReferenceBlock_post_init :: "ObjectReferenceBlock \<Rightarrow> ObjectReferenceBlock res" where
  "ObjectReferenceBlock_post_init m =
     (if orb_ref_flags m \<noteq> 0 then ve ''ref_flags must be 0 in current object reference blocks''
      else Inr m)"

lemma ObjectReferenceBlock_post_init_id: "ObjectReferenceBlock_post_init m = Inr m' \<Longrightarrow> m' = m"
  by (simp add: ObjectReferenceBlock_post_init_def split: if_splits)

definition ObjectReferenceBlock_wf :: "ObjectReferenceBlock \<Rightarrow> bool" where
  "ObjectReferenceBlock_wf m \<longleftrightarrow> ObjectReferenceBlock_post_init m = Inr m"

lemma ObjectReferenceBlock_post_init_iff: "ObjectReferenceBlock_post_init r = Inr m \<longleftrightarrow> ObjectReferenceBlock_wf r \<and> m = r"
  using ObjectReferenceBlock_post_init_id [of r m] by (auto simp: ObjectReferenceBlock_wf_def)

definition ObjectReferenceBlock_pack :: "ObjectReferenceBlock \<Rightarrow> bytes res" where
  "ObjectReferenceBlock_pack = fixed_width_pack OBJECT_REFERENCE_BLOCK_STRUCT no_check ObjectReferenceBlock_values"

definition ObjectReferenceBlock_from_tuple :: "int list \<Rightarrow> ObjectReferenceBlock res" where
  "ObjectReferenceBlock_from_tuple vs =
     (case vs of
        [object_kind, ref_flags, cache_namespace, cache_key_hi, cache_key_lo] \<Rightarrow>
          bind_res (CacheObjectKind_of object_kind) (\<lambda>object_kind.
          ObjectReferenceBlock_post_init
            \<lparr>orb_object_kind = object_kind, orb_ref_flags = ref_flags,
            orb_cache_namespace = cache_namespace, orb_cache_key_hi = cache_key_hi,
            orb_cache_key_lo = cache_key_lo\<rparr>)
      | _ \<Rightarrow> tuple_error)"

definition ObjectReferenceBlock_unpack :: "bytes \<Rightarrow> ObjectReferenceBlock res" where
  "ObjectReferenceBlock_unpack = fixed_width_unpack OBJECT_REFERENCE_BLOCK_STRUCT ObjectReferenceBlock_from_tuple"

lemma ObjectReferenceBlock_from_values:
  assumes "ObjectReferenceBlock_wf m" "list_all2 fits OBJECT_REFERENCE_BLOCK_STRUCT (ObjectReferenceBlock_values m)"
  shows "ObjectReferenceBlock_from_tuple (ObjectReferenceBlock_values m) = Inr m"
  using assms
  by (cases m)
    (simp add: ObjectReferenceBlock_values_def ObjectReferenceBlock_from_tuple_def ObjectReferenceBlock_post_init_iff)

lemma ObjectReferenceBlock_values_from:
  assumes "list_all2 fits OBJECT_REFERENCE_BLOCK_STRUCT vs" "ObjectReferenceBlock_from_tuple vs = Inr m"
  shows "ObjectReferenceBlock_wf m \<and> ObjectReferenceBlock_values m = vs"
  using assms unfolding OBJECT_REFERENCE_BLOCK_STRUCT_def list_all2_fits_Cons list_all2_Nil
  by (elim exE conjE)
    (auto simp: ObjectReferenceBlock_from_tuple_def ObjectReferenceBlock_values_def
      Let_def res_simps ObjectReferenceBlock_post_init_iff)

interpretation orb: canonical_codec
  ObjectReferenceBlock_pack ObjectReferenceBlock_unpack "ObjectReferenceBlock_wf" "calcsize OBJECT_REFERENCE_BLOCK_STRUCT"
  unfolding ObjectReferenceBlock_pack_def ObjectReferenceBlock_unpack_def
  by (rule canonical_codecI)
    (auto intro: ObjectReferenceBlock_from_values dest: ObjectReferenceBlock_values_from)

section \<open>ExtensionFrameDescriptor\<close>

definition EXTENSION_FRAME_DESCRIPTOR_STRUCT :: "field list" where
  "EXTENSION_FRAME_DESCRIPTOR_STRUCT =
     [FH, FH, FH, FH, FI, FI]"

lemma EXTENSION_FRAME_DESCRIPTOR_STRUCT_size [simp]: "calcsize EXTENSION_FRAME_DESCRIPTOR_STRUCT = 16"
  by (simp add: EXTENSION_FRAME_DESCRIPTOR_STRUCT_def)

record ExtensionFrameDescriptor =
  efd_extension_kind :: int
  efd_extension_flags :: int
  efd_profile_id :: int
  efd_reserved0 :: int
  efd_payload_offset :: int
  efd_payload_length :: int

definition ExtensionFrameDescriptor_values :: "ExtensionFrameDescriptor \<Rightarrow> int list" where
  "ExtensionFrameDescriptor_values m =
     [efd_extension_kind m, efd_extension_flags m, efd_profile_id m, efd_reserved0 m,
      efd_payload_offset m, efd_payload_length m]"

definition ExtensionFrameDescriptor_post_init ::
    "ExtensionFrameDescriptor \<Rightarrow> ExtensionFrameDescriptor res" where
  "ExtensionFrameDescriptor_post_init m =
     bind_res (coerce_extension_frame_flags (efd_extension_flags m)) (\<lambda>fl.
       if efd_reserved0 m \<noteq> 0 then ve ''reserved0 must be 0 in current extension frame descriptors''
       else Inr (m\<lparr>efd_extension_flags := fl\<rparr>))"

lemma ExtensionFrameDescriptor_post_init_id: "ExtensionFrameDescriptor_post_init m = Inr m' \<Longrightarrow> m' = m"
  by (auto simp: ExtensionFrameDescriptor_post_init_def coerce_iff res_simps)

definition ExtensionFrameDescriptor_wf :: "ExtensionFrameDescriptor \<Rightarrow> bool" where
  "ExtensionFrameDescriptor_wf m \<longleftrightarrow> ExtensionFrameDescriptor_post_init m = Inr m"

lemma ExtensionFrameDescriptor_post_init_iff: "ExtensionFrameDescriptor_post_init r = Inr m \<longleftrightarrow> ExtensionFrameDescriptor_wf r \<and> m = r"
  using ExtensionFrameDescriptor_post_init_id [of r m] by (auto simp: ExtensionFrameDescriptor_wf_def)

definition ExtensionFrameDescriptor_pack :: "ExtensionFrameDescriptor \<Rightarrow> bytes res" where
  "ExtensionFrameDescriptor_pack = fixed_width_pack EXTENSION_FRAME_DESCRIPTOR_STRUCT no_check ExtensionFrameDescriptor_values"

definition ExtensionFrameDescriptor_from_tuple :: "int list \<Rightarrow> ExtensionFrameDescriptor res" where
  "ExtensionFrameDescriptor_from_tuple vs =
     (case vs of
        [extension_kind, extension_flags, profile_id, reserved0, payload_offset, payload_length] \<Rightarrow>
          bind_res (coerce_extension_frame_flags extension_flags) (\<lambda>extension_flags.
          ExtensionFrameDescriptor_post_init
            \<lparr>efd_extension_kind = extension_kind, efd_extension_flags = extension_flags,
            efd_profile_id = profile_id, efd_reserved0 = reserved0,
            efd_payload_offset = payload_offset, efd_payload_length = payload_length\<rparr>)
      | _ \<Rightarrow> tuple_error)"

definition ExtensionFrameDescriptor_unpack :: "bytes \<Rightarrow> ExtensionFrameDescriptor res" where
  "ExtensionFrameDescriptor_unpack = fixed_width_unpack EXTENSION_FRAME_DESCRIPTOR_STRUCT ExtensionFrameDescriptor_from_tuple"

lemma ExtensionFrameDescriptor_wf_coerced:
  assumes "ExtensionFrameDescriptor_wf m"
  shows "coerce_extension_frame_flags (efd_extension_flags m) = Inr (efd_extension_flags m)"
  using assms
  by (auto simp: ExtensionFrameDescriptor_wf_def ExtensionFrameDescriptor_post_init_def res_simps coerce_iff Let_def)

lemma ExtensionFrameDescriptor_from_values:
  assumes "ExtensionFrameDescriptor_wf m" "list_all2 fits EXTENSION_FRAME_DESCRIPTOR_STRUCT (ExtensionFrameDescriptor_values m)"
  shows "ExtensionFrameDescriptor_from_tuple (ExtensionFrameDescriptor_values m) = Inr m"
  using assms ExtensionFrameDescriptor_wf_coerced [OF assms(1)]
  by (cases m)
    (simp add: ExtensionFrameDescriptor_values_def ExtensionFrameDescriptor_from_tuple_def ExtensionFrameDescriptor_post_init_iff)

lemma ExtensionFrameDescriptor_values_from:
  assumes "list_all2 fits EXTENSION_FRAME_DESCRIPTOR_STRUCT vs" "ExtensionFrameDescriptor_from_tuple vs = Inr m"
  shows "ExtensionFrameDescriptor_wf m \<and> ExtensionFrameDescriptor_values m = vs"
  using assms unfolding EXTENSION_FRAME_DESCRIPTOR_STRUCT_def list_all2_fits_Cons list_all2_Nil
  by (elim exE conjE)
    (auto simp: ExtensionFrameDescriptor_from_tuple_def ExtensionFrameDescriptor_values_def
      Let_def res_simps ExtensionFrameDescriptor_post_init_iff coerce_iff)

interpretation efd: canonical_codec
  ExtensionFrameDescriptor_pack ExtensionFrameDescriptor_unpack "ExtensionFrameDescriptor_wf" "calcsize EXTENSION_FRAME_DESCRIPTOR_STRUCT"
  unfolding ExtensionFrameDescriptor_pack_def ExtensionFrameDescriptor_unpack_def
  by (rule canonical_codecI)
    (auto intro: ExtensionFrameDescriptor_from_values dest: ExtensionFrameDescriptor_values_from)

section \<open>FrameSubmitMetadata\<close>

definition FRAME_SUBMIT_STRUCT :: "field list" where
  "FRAME_SUBMIT_STRUCT =
     [FH, FH, FH, FH, FH, FH, FB, FB, FB, FB, FH, FH, FI, FI, FI, FI, FI, FQ, FI, FB, FB, FB,
     FB, FI, FI, FI, FH, FH]"

lemma FRAME_SUBMIT_STRUCT_size [simp]: "calcsize FRAME_SUBMIT_STRUCT = 72"
  by (simp add: FRAME_SUBMIT_STRUCT_def)

record FrameSubmitMetadata =
  fsm_src_width :: int
  fsm_src_height :: int
  fsm_tile_width :: int
  fsm_tile_height :: int
  fsm_tile_count :: int
  fsm_section_count :: int
  fsm_frame_class :: int
  fsm_input_profile :: InputProfile
  fsm_tile_index_mode :: TileIndexMode
  fsm_reserved0 :: int
  fsm_latency_budget_ms :: int
  fsm_target_fps_x100 :: int
  fsm_retry_of_frame :: int
  fsm_tile_base_id :: int
  fsm_camera_bytes :: int
  fsm_tile_index_bytes :: int
  fsm_operation_id :: int
  fsm_submit_mode :: SubmitMode
  fsm_budget_policy :: int
  fsm_reserved1 :: int
  fsm_reserved2 :: int
  fsm_loss_tolerance_policy :: int
  fsm_reserved3 :: int
  fsm_object_ref_mask :: int
  fsm_dependency_frame_id :: int
  fsm_payload_kind_bitmap :: int
  fsm_payload_frame_count :: int
  fsm_reserved4 :: int

definition FrameSubmitMetadata_values :: "FrameSubmitMetadata \<Rightarrow> int list" where
  "FrameSubmitMetadata_values m =
     [fsm_src_width m, fsm_src_height m, fsm_tile_width m, fsm_tile_height m, fsm_tile_count m,
      fsm_section_count m, fsm_frame_class m, InputProfile_int (fsm_input_profile m),
      TileIndexMode_int (fsm_tile_index_mode m), fsm_reserved0 m, fsm_latency_budget_ms m,
      fsm_target_fps_x100 m, fsm_retry_of_frame m, fsm_tile_base_id m, fsm_camera_bytes m,
      fsm_tile_index_bytes m, fsm_reserved1 m, fsm_operation_id m, fsm_reserved2 m,
      SubmitMode_int (fsm_submit_mode m), fsm_budget_policy m, fsm_loss_tolerance_policy m,
      fsm_reserved3 m, fsm_object_ref_mask m, fsm_dependency_frame_id m,
      fsm_payload_kind_bitmap m, fsm_payload_frame_count m, fsm_reserved4 m]"

text \<open>\<open>_validate_non_tensor_submit_fields\<close>\<close>

definition validate_non_tensor_submit_fields :: "FrameSubmitMetadata \<Rightarrow> unit res" where
  "validate_non_tensor_submit_fields m =
     (if fsm_payload_kind_bitmap m AND PK_TENSOR \<noteq> 0 then Inr ()
      else bind_res (require_all_zero
        [(''src_width'', fsm_src_width m), (''src_height'', fsm_src_height m),
         (''tile_width'', fsm_tile_width m), (''tile_height'', fsm_tile_height m),
         (''tile_count'', fsm_tile_count m), (''section_count'', fsm_section_count m),
         (''tile_base_id'', fsm_tile_base_id m), (''camera_bytes'', fsm_camera_bytes m),
         (''tile_index_bytes'', fsm_tile_index_bytes m)]) (\<lambda>_.
        if fsm_input_profile m \<noteq> IP_UNSPECIFIED
        then ve ''input_profile must be UNSPECIFIED when payload_kind_bitmap has no tensor payload''
        else Inr ()))"

definition FrameSubmitMetadata_post_init :: "FrameSubmitMetadata \<Rightarrow> FrameSubmitMetadata res" where
  "FrameSubmitMetadata_post_init m =
     bind_res (coerce_budget_policy (fsm_budget_policy m)) (\<lambda>budget.
     bind_res (coerce_loss_tolerance_policy (fsm_loss_tolerance_policy m)) (\<lambda>loss.
     bind_res (coerce_payload_kind_bitmap (fsm_payload_kind_bitmap m)) (\<lambda>bitmap.
     let m' = m\<lparr>fsm_budget_policy := budget, fsm_loss_tolerance_policy := loss,
                fsm_payload_kind_bitmap := bitmap\<rparr>
     in if fsm_operation_id m' = 0 then ve ''frame_submit.operation_id must be non-zero''
        else bind_res (validate_non_tensor_submit_fields m') (\<lambda>_. Inr m'))))"

lemma FrameSubmitMetadata_post_init_id: "FrameSubmitMetadata_post_init m = Inr m' \<Longrightarrow> m' = m"
  by (auto simp: FrameSubmitMetadata_post_init_def coerce_iff res_simps Let_def)

definition FrameSubmitMetadata_wf :: "FrameSubmitMetadata \<Rightarrow> bool" where
  "FrameSubmitMetadata_wf m \<longleftrightarrow> FrameSubmitMetadata_post_init m = Inr m"

lemma FrameSubmitMetadata_post_init_iff: "FrameSubmitMetadata_post_init r = Inr m \<longleftrightarrow> FrameSubmitMetadata_wf r \<and> m = r"
  using FrameSubmitMetadata_post_init_id [of r m] by (auto simp: FrameSubmitMetadata_wf_def)

definition FrameSubmitMetadata_pack :: "FrameSubmitMetadata \<Rightarrow> bytes res" where
  "FrameSubmitMetadata_pack = fixed_width_pack FRAME_SUBMIT_STRUCT no_check FrameSubmitMetadata_values"

definition FrameSubmitMetadata_from_tuple :: "int list \<Rightarrow> FrameSubmitMetadata res" where
  "FrameSubmitMetadata_from_tuple vs =
     (case vs of
        [src_width, src_height, tile_width, tile_height, tile_count, section_count,
         frame_class, input_profile, tile_index_mode, reserved0, latency_budget_ms,
         target_fps_x100, retry_of_frame, tile_base_id, camera_bytes, tile_index_bytes,
         reserved1, operation_id, reserved2, submit_mode, budget_policy, loss_tolerance_policy,
         reserved3, object_ref_mask, dependency_frame_id, payload_kind_bitmap,
         payload_frame_count, reserved4] \<Rightarrow>
          bind_res (InputProfile_of input_profile) (\<lambda>input_profile.
          bind_res (TileIndexMode_of tile_index_mode) (\<lambda>tile_index_mode.
          bind_res (SubmitMode_of submit_mode) (\<lambda>submit_mode.
          bind_res (coerce_budget_policy budget_policy) (\<lambda>budget_policy.
          bind_res (coerce_loss_tolerance_policy loss_tolerance_policy) (\<lambda>loss_tolerance_policy.
          bind_res (coerce_payload_kind_bitmap payload_kind_bitmap) (\<lambda>payload_kind_bitmap.
          FrameSubmitMetadata_post_init
            \<lparr>fsm_src_width = src_width, fsm_src_height = src_height,
            fsm_tile_width = tile_width, fsm_tile_height = tile_height,
            fsm_tile_count = tile_count, fsm_section_count = section_count,
            fsm_frame_class = frame_class, fsm_input_profile = input_profile,
            fsm_tile_index_mode = tile_index_mode, fsm_reserved0 = reserved0,
            fsm_latency_budget_ms = latency_budget_ms, fsm_target_fps_x100 = target_fps_x100,
            fsm_retry_of_frame = retry_of_frame, fsm_tile_base_id = tile_base_id,
            fsm_camera_bytes = camera_bytes, fsm_tile_index_bytes = tile_index_bytes,
            fsm_operation_id = operation_id, fsm_submit_mode = submit_mode,
            fsm_budget_policy = budget_policy, fsm_reserved1 = reserved1,
            fsm_reserved2 = reserved2, fsm_loss_tolerance_policy = loss_tolerance_policy,
            fsm_reserved3 = reserved3, fsm_object_ref_mask = object_ref_mask,
            fsm_dependency_frame_id = dependency_frame_id,
            fsm_payload_kind_bitmap = payload_kind_bitmap,
            fsm_payload_frame_count = payload_frame_count, fsm_reserved4 = reserved4\<rparr>))))))
      | _ \<Rightarrow> tuple_error)"

definition FrameSubmitMetadata_unpack :: "bytes \<Rightarrow> FrameSubmitMetadata res" where
  "FrameSubmitMetadata_unpack = fixed_width_unpack FRAME_SUBMIT_STRUCT FrameSubmitMetadata_from_tuple"

lemma FrameSubmitMetadata_wf_coerced:
  assumes "FrameSubmitMetadata_wf m"
  shows "coerce_budget_policy (fsm_budget_policy m) = Inr (fsm_budget_policy m)"
    "coerce_loss_tolerance_policy (fsm_loss_tolerance_policy m) = Inr (fsm_loss_tolerance_policy m)"
    "coerce_payload_kind_bitmap (fsm_payload_kind_bitmap m) = Inr (fsm_payload_kind_bitmap m)"
  using assms
  by (auto simp: FrameSubmitMetadata_wf_def FrameSubmitMetadata_post_init_def res_simps coerce_iff Let_def)

lemma FrameSubmitMetadata_from_values:
  assumes "FrameSubmitMetadata_wf m" "list_all2 fits FRAME_SUBMIT_STRUCT (FrameSubmitMetadata_values m)"
  shows "FrameSubmitMetadata_from_tuple (FrameSubmitMetadata_values m) = Inr m"
  using assms FrameSubmitMetadata_wf_coerced [OF assms(1)]
  by (cases m)
    (simp add: FrameSubmitMetadata_values_def FrameSubmitMetadata_from_tuple_def FrameSubmitMetadata_post_init_iff)

lemma FrameSubmitMetadata_values_from:
  assumes "list_all2 fits FRAME_SUBMIT_STRUCT vs" "FrameSubmitMetadata_from_tuple vs = Inr m"
  shows "FrameSubmitMetadata_wf m \<and> FrameSubmitMetadata_values m = vs"
  using assms unfolding FRAME_SUBMIT_STRUCT_def list_all2_fits_Cons list_all2_Nil
  by (elim exE conjE)
    (auto simp: FrameSubmitMetadata_from_tuple_def FrameSubmitMetadata_values_def
      Let_def res_simps FrameSubmitMetadata_post_init_iff coerce_iff)

interpretation fsm: canonical_codec
  FrameSubmitMetadata_pack FrameSubmitMetadata_unpack "FrameSubmitMetadata_wf" "calcsize FRAME_SUBMIT_STRUCT"
  unfolding FrameSubmitMetadata_pack_def FrameSubmitMetadata_unpack_def
  by (rule canonical_codecI)
    (auto intro: FrameSubmitMetadata_from_values dest: FrameSubmitMetadata_values_from)

section \<open>TensorSectionDesc\<close>

definition TENSOR_SECTION_DESC_STRUCT :: "field list" where
  "TENSOR_SECTION_DESC_STRUCT =
     [FH, FB, FB, FB, FB, FH, FI, FI, FI, FI, FI, FI]"

lemma TENSOR_SECTION_DESC_STRUCT_size [simp]: "calcsize TENSOR_SECTION_DESC_STRUCT = 32"
  by (simp add: TENSOR_SECTION_DESC_STRUCT_def)

record TensorSectionDesc =
  tsd_role_id :: int
  tsd_codec_id :: int
  tsd_dtype_id :: TensorDType
  tsd_layout_id :: TensorLayout
  tsd_scale_policy :: ScalePolicy
  tsd_flags :: int
  tsd_element_count_per_tile :: int
  tsd_codec_table_bytes :: int
  tsd_length_table_bytes :: int
  tsd_payload_bytes :: int
  tsd_payload_stride_bytes :: int
  tsd_reserved :: int

definition TensorSectionDesc_values :: "TensorSectionDesc \<Rightarrow> int list" where
  "TensorSectionDesc_values m =
     [tsd_role_id m, tsd_codec_id m, TensorDType_int (tsd_dtype_id m),
      TensorLayout_int (tsd_layout_id m), ScalePolicy_int (tsd_scale_policy m), tsd_flags m,
      tsd_element_count_per_tile m, tsd_codec_table_bytes m, tsd_length_table_bytes m,
      tsd_payload_bytes m, tsd_payload_stride_bytes m, tsd_reserved m]"

definition TensorSectionDesc_pack :: "TensorSectionDesc \<Rightarrow> bytes res" where
  "TensorSectionDesc_pack = fixed_width_pack TENSOR_SECTION_DESC_STRUCT no_check TensorSectionDesc_values"

definition TensorSectionDesc_from_tuple :: "int list \<Rightarrow> TensorSectionDesc res" where
  "TensorSectionDesc_from_tuple vs =
     (case vs of
        [role_id, codec_id, dtype_id, layout_id, scale_policy, flags, element_count_per_tile,
         codec_table_bytes, length_table_bytes, payload_bytes, payload_stride_bytes, reserved] \<Rightarrow>
          bind_res (TensorDType_of dtype_id) (\<lambda>dtype_id.
          bind_res (TensorLayout_of layout_id) (\<lambda>layout_id.
          bind_res (ScalePolicy_of scale_policy) (\<lambda>scale_policy.
          Inr
            \<lparr>tsd_role_id = role_id, tsd_codec_id = codec_id, tsd_dtype_id = dtype_id,
            tsd_layout_id = layout_id, tsd_scale_policy = scale_policy,
            tsd_flags = SectionFlags_call flags,
            tsd_element_count_per_tile = element_count_per_tile,
            tsd_codec_table_bytes = codec_table_bytes,
            tsd_length_table_bytes = length_table_bytes, tsd_payload_bytes = payload_bytes,
            tsd_payload_stride_bytes = payload_stride_bytes, tsd_reserved = reserved\<rparr>)))
      | _ \<Rightarrow> tuple_error)"

definition TensorSectionDesc_unpack :: "bytes \<Rightarrow> TensorSectionDesc res" where
  "TensorSectionDesc_unpack = fixed_width_unpack TENSOR_SECTION_DESC_STRUCT TensorSectionDesc_from_tuple"

lemma TensorSectionDesc_from_values:
  assumes "list_all2 fits TENSOR_SECTION_DESC_STRUCT (TensorSectionDesc_values m)"
  shows "TensorSectionDesc_from_tuple (TensorSectionDesc_values m) = Inr m"
  using assms
  by (cases m)
    (simp add: TensorSectionDesc_values_def TensorSectionDesc_from_tuple_def TENSOR_SECTION_DESC_STRUCT_def fits_def)

lemma TensorSectionDesc_values_from:
  assumes "list_all2 fits TENSOR_SECTION_DESC_STRUCT vs" "TensorSectionDesc_from_tuple vs = Inr m"
  shows "TensorSectionDesc_values m = vs"
  using assms unfolding TENSOR_SECTION_DESC_STRUCT_def list_all2_fits_Cons list_all2_Nil
  by (elim exE conjE)
    (auto simp: TensorSectionDesc_from_tuple_def TensorSectionDesc_values_def
      fits_def Let_def res_simps)

interpretation tsd: canonical_codec
  TensorSectionDesc_pack TensorSectionDesc_unpack "(\<lambda>m. True)" "calcsize TENSOR_SECTION_DESC_STRUCT"
  unfolding TensorSectionDesc_pack_def TensorSectionDesc_unpack_def
  by (rule canonical_codecI)
    (auto intro: TensorSectionDesc_from_values dest: TensorSectionDesc_values_from)

section \<open>ResultPushMetadata\<close>

definition RESULT_PUSH_STRUCT :: "field list" where
  "RESULT_PUSH_STRUCT =
     [FH, FH, FH, FH, FH, FH, FH, FH, FH, FH, FI, FI, FQ, FQ, FB, FB, FH, FI, FH, FH, FI, FH, FH]"

lemma RESULT_PUSH_STRUCT_size [simp]: "calcsize RESULT_PUSH_STRUCT = 64"
  by (simp add: RESULT_PUSH_STRUCT_def)

record ResultPushMetadata =
  rpm_status_code :: int
  rpm_result_flags :: int
  rpm_section_count :: int
  rpm_tile_count :: int
  rpm_active_profile_id :: int
  rpm_reserved0 :: int
  rpm_inference_ms :: int
  rpm_queue_ms :: int
  rpm_server_total_ms :: int
  rpm_reserved1 :: int
  rpm_tile_base_id :: int
  rpm_tile_index_bytes :: int
  rpm_reserved2 :: int
  rpm_reserved3 :: int
  rpm_result_class :: ResultClass
  rpm_applied_budget_policy :: int
  rpm_reserved4 :: int
  rpm_reused_frame_id :: int
  rpm_covered_tile_count :: int
  rpm_dropped_tile_count :: int
  rpm_payload_kind_bitmap :: int
  rpm_payload_frame_count :: int
  rpm_reserved5 :: int

definition ResultPushMetadata_values :: "ResultPushMetadata \<Rightarrow> int list" where
  "ResultPushMetadata_values m =
     [rpm_status_code m, rpm_result_flags m, rpm_section_count m, rpm_tile_count m,
      rpm_active_profile_id m, rpm_reserved0 m, rpm_inference_ms m, rpm_queue_ms m,
      rpm_server_total_ms m, rpm_reserved1 m, rpm_tile_base_id m, rpm_tile_index_bytes m,
      rpm_reserved2 m, rpm_reserved3 m, ResultClass_int (rpm_result_class m),
      rpm_applied_budget_policy m, rpm_reserved4 m, rpm_reused_frame_id m,
      rpm_covered_tile_count m, rpm_dropped_tile_count m, rpm_payload_kind_bitmap m,
      rpm_payload_frame_count m, rpm_reserved5 m]"

text \<open>\<open>_validate_non_tensor_result_fields\<close> and \<open>_validate_result_push_contract\<close>\<close>

definition validate_non_tensor_result_fields :: "ResultPushMetadata \<Rightarrow> unit res" where
  "validate_non_tensor_result_fields m =
     (if rpm_payload_kind_bitmap m AND PK_TENSOR \<noteq> 0 then Inr ()
      else require_all_zero
        [(''section_count'', rpm_section_count m), (''tile_count'', rpm_tile_count m),
         (''tile_base_id'', rpm_tile_base_id m), (''tile_index_bytes'', rpm_tile_index_bytes m),
         (''covered_tile_count'', rpm_covered_tile_count m),
         (''dropped_tile_count'', rpm_dropped_tile_count m)])"

definition validate_result_push_contract :: "ResultPushMetadata \<Rightarrow> unit res" where
  "validate_result_push_contract m =
     (let stale = (rpm_result_class m = RC_STALE_REUSE \<or> rpm_result_flags m AND RF_STALE \<noteq> 0);
          partial = (rpm_result_class m = RC_PARTIAL \<or> rpm_result_flags m AND RF_PARTIAL \<noteq> 0)
      in if stale \<noteq> (rpm_reused_frame_id m \<noteq> 0)
         then ve ''RESULT_PUSH stale semantics and reused_frame_id must agree''
         else if rpm_payload_kind_bitmap m AND PK_TENSOR = 0 then Inr ()
         else if partial \<and> rpm_dropped_tile_count m = 0
         then ve ''partial RESULT_PUSH requires dropped_tile_count > 0''
         else if rpm_covered_tile_count m > rpm_tile_count m \<or> rpm_dropped_tile_count m > rpm_tile_count m
         then ve ''RESULT_PUSH coverage counts must not exceed tile_count''
         else if rpm_covered_tile_count m + rpm_dropped_tile_count m \<noteq> rpm_tile_count m
         then ve ''covered_tile_count + dropped_tile_count must equal tile_count''
         else Inr ())"

definition ResultPushMetadata_post_init :: "ResultPushMetadata \<Rightarrow> ResultPushMetadata res" where
  "ResultPushMetadata_post_init m =
     bind_res (coerce_result_flags (rpm_result_flags m)) (\<lambda>flags.
     bind_res (coerce_budget_policy (rpm_applied_budget_policy m)) (\<lambda>budget.
     bind_res (coerce_payload_kind_bitmap (rpm_payload_kind_bitmap m)) (\<lambda>bitmap.
     let m' = m\<lparr>rpm_result_flags := flags, rpm_applied_budget_policy := budget,
                rpm_payload_kind_bitmap := bitmap\<rparr>
     in bind_res (validate_non_tensor_result_fields m') (\<lambda>_.
        bind_res (validate_result_push_contract m') (\<lambda>_. Inr m')))))"

lemma ResultPushMetadata_post_init_id: "ResultPushMetadata_post_init m = Inr m' \<Longrightarrow> m' = m"
  by (auto simp: ResultPushMetadata_post_init_def coerce_iff res_simps Let_def)

definition ResultPushMetadata_wf :: "ResultPushMetadata \<Rightarrow> bool" where
  "ResultPushMetadata_wf m \<longleftrightarrow> ResultPushMetadata_post_init m = Inr m"

lemma ResultPushMetadata_post_init_iff: "ResultPushMetadata_post_init r = Inr m \<longleftrightarrow> ResultPushMetadata_wf r \<and> m = r"
  using ResultPushMetadata_post_init_id [of r m] by (auto simp: ResultPushMetadata_wf_def)

definition ResultPushMetadata_pack :: "ResultPushMetadata \<Rightarrow> bytes res" where
  "ResultPushMetadata_pack = fixed_width_pack RESULT_PUSH_STRUCT no_check ResultPushMetadata_values"

definition ResultPushMetadata_from_tuple :: "int list \<Rightarrow> ResultPushMetadata res" where
  "ResultPushMetadata_from_tuple vs =
     (case vs of
        [status_code, result_flags, section_count, tile_count, active_profile_id, reserved0,
         inference_ms, queue_ms, server_total_ms, reserved1, tile_base_id, tile_index_bytes,
         reserved2, reserved3, result_class, applied_budget_policy, reserved4, reused_frame_id,
         covered_tile_count, dropped_tile_count, payload_kind_bitmap, payload_frame_count,
         reserved5] \<Rightarrow>
          bind_res (coerce_result_flags result_flags) (\<lambda>result_flags.
          bind_res (ResultClass_of result_class) (\<lambda>result_class.
          bind_res (coerce_budget_policy applied_budget_policy) (\<lambda>applied_budget_policy.
          bind_res (coerce_payload_kind_bitmap payload_kind_bitmap) (\<lambda>payload_kind_bitmap.
          ResultPushMetadata_post_init
            \<lparr>rpm_status_code = status_code, rpm_result_flags = result_flags,
            rpm_section_count = section_count, rpm_tile_count = tile_count,
            rpm_active_profile_id = active_profile_id, rpm_reserved0 = reserved0,
            rpm_inference_ms = inference_ms, rpm_queue_ms = queue_ms,
            rpm_server_total_ms = server_total_ms, rpm_reserved1 = reserved1,
            rpm_tile_base_id = tile_base_id, rpm_tile_index_bytes = tile_index_bytes,
            rpm_reserved2 = reserved2, rpm_reserved3 = reserved3,
            rpm_result_class = result_class, rpm_applied_budget_policy = applied_budget_policy,
            rpm_reserved4 = reserved4, rpm_reused_frame_id = reused_frame_id,
            rpm_covered_tile_count = covered_tile_count,
            rpm_dropped_tile_count = dropped_tile_count,
            rpm_payload_kind_bitmap = payload_kind_bitmap,
            rpm_payload_frame_count = payload_frame_count, rpm_reserved5 = reserved5\<rparr>))))
      | _ \<Rightarrow> tuple_error)"

definition ResultPushMetadata_unpack :: "bytes \<Rightarrow> ResultPushMetadata res" where
  "ResultPushMetadata_unpack = fixed_width_unpack RESULT_PUSH_STRUCT ResultPushMetadata_from_tuple"

lemma ResultPushMetadata_wf_coerced:
  assumes "ResultPushMetadata_wf m"
  shows "coerce_result_flags (rpm_result_flags m) = Inr (rpm_result_flags m)"
    "coerce_budget_policy (rpm_applied_budget_policy m) = Inr (rpm_applied_budget_policy m)"
    "coerce_payload_kind_bitmap (rpm_payload_kind_bitmap m) = Inr (rpm_payload_kind_bitmap m)"
  using assms
  by (auto simp: ResultPushMetadata_wf_def ResultPushMetadata_post_init_def res_simps coerce_iff Let_def)

lemma ResultPushMetadata_from_values:
  assumes "ResultPushMetadata_wf m" "list_all2 fits RESULT_PUSH_STRUCT (ResultPushMetadata_values m)"
  shows "ResultPushMetadata_from_tuple (ResultPushMetadata_values m) = Inr m"
  using assms ResultPushMetadata_wf_coerced [OF assms(1)]
  by (cases m)
    (simp add: ResultPushMetadata_values_def ResultPushMetadata_from_tuple_def ResultPushMetadata_post_init_iff)

lemma ResultPushMetadata_values_from:
  assumes "list_all2 fits RESULT_PUSH_STRUCT vs" "ResultPushMetadata_from_tuple vs = Inr m"
  shows "ResultPushMetadata_wf m \<and> ResultPushMetadata_values m = vs"
  using assms unfolding RESULT_PUSH_STRUCT_def list_all2_fits_Cons list_all2_Nil
  by (elim exE conjE)
    (auto simp: ResultPushMetadata_from_tuple_def ResultPushMetadata_values_def
      Let_def res_simps ResultPushMetadata_post_init_iff coerce_iff)

interpretation rpm: canonical_codec
  ResultPushMetadata_pack ResultPushMetadata_unpack "ResultPushMetadata_wf" "calcsize RESULT_PUSH_STRUCT"
  unfolding ResultPushMetadata_pack_def ResultPushMetadata_unpack_def
  by (rule canonical_codecI)
    (auto intro: ResultPushMetadata_from_values dest: ResultPushMetadata_values_from)

end
