(* ===== verification/Tile_Index.thy ===== *)
theory Tile_Index
  imports Enums
begin

text \<open>
  The tile index block of \<open>core/packet.py\<close>: the tile ids of a frame in one of four encodings
  (\<open>pack_tile_index_block\<close>, \<open>unpack_tile_index_block\<close>), with the helpers \<open>_pack_u16\<close>,
  \<open>_validate_tile_ids\<close> and \<open>_validate_strictly_increasing_tile_ids\<close>.  Also the length entry
  (\<open>"<I"\<close>) that the tensor sections share.
\<close>

section \<open>Single-entry structs\<close>

text \<open>\<open>S.unpack_from(view, offset)[0]\<close> for a struct of one field, on the slice it reads.\<close>

definition unpack_entry :: "field \<Rightarrow> bytes \<Rightarrow> int res" where
  "unpack_entry f bs =
     bind_res (struct_unpack [f] bs) (\<lambda>vs. case vs of [v] \<Rightarrow> Inr v | _ \<Rightarrow> tuple_error)"

definition pack_entry :: "field \<Rightarrow> int \<Rightarrow> bytes res" where
  "pack_entry f v = struct_pack [f] [v]"

definition pack_u16 :: "int \<Rightarrow> bytes res" where
  "pack_u16 v = (if v < 0 \<or> v > 0xFFFF then ve ''value out of u16 range'' else pack_entry FH v)"

lemma field_size_pos: "0 < field_size f"
  by (cases f) simp_all

lemma unpack_entry_Inr_iff: "unpack_entry f bs = Inr v \<longleftrightarrow> struct_pack [f] [v] = Inr bs"
  unfolding unpack_entry_def struct_unpack_iff_pack [symmetric]
  by (auto simp: bind_res_Inr_iff struct_unpack_def)

lemma pack_entry_size: "pack_entry f v = Inr bs \<Longrightarrow> length bs = field_size f"
  by (auto simp: pack_entry_def dest: length_struct_pack)

interpretation entry: canonical_codec "pack_entry f" "unpack_entry f" "\<lambda>_. True" "field_size f" for f
  by unfold_locales
    (auto simp: unpack_entry_Inr_iff pack_entry_def field_size_pos dest: length_struct_pack)

lemma pack_entry_total: "fits f v \<Longrightarrow> \<exists>bs. pack_entry f v = Inr bs"
  by (simp add: pack_entry_def struct_pack_iff)

lemma pack_u16_iff: "pack_u16 v = Inr bs \<longleftrightarrow> pack_entry FH v = Inr bs"
  by (auto simp: pack_u16_def pack_entry_def fits_def dest!: struct_pack_fits)

interpretation u16: canonical_codec pack_u16 "unpack_entry FH" "\<lambda>_. True" 2
  by unfold_locales (auto simp: pack_u16_iff unpack_entry_Inr_iff pack_entry_def dest: length_struct_pack)

section \<open>The four encodings\<close>

definition validate_tile_ids :: "int list \<Rightarrow> unit res" where
  "validate_tile_ids tile_ids =
     (if list_ex (\<lambda>t. t < 0) tile_ids then ve ''tile ids must be non-negative''
      else if list_ex (\<lambda>t. t > 0xFFFF) tile_ids then ve ''tile ids must fit into u16''
      else Inr ())"

definition validate_strictly_increasing_tile_ids :: "int list \<Rightarrow> unit res" where
  "validate_strictly_increasing_tile_ids tile_ids =
     (if list_ex (\<lambda>(previous, current). current \<le> previous) (zip tile_ids (tl tile_ids))
      then ve ''tile ids must be strictly increasing for this tile index mode'' else Inr ())"

text \<open>The loop of the delta encoding; \<open>None\<close> before the first id.\<close>

fun pack_deltas :: "int option \<Rightarrow> int list \<Rightarrow> bytes res" where
  "pack_deltas previous [] = Inr []"
| "pack_deltas previous (tile_id # ids) =
     (let value = (case previous of None \<Rightarrow> tile_id | Some p \<Rightarrow> tile_id - p) in
      if value < 0 \<or> value > 0xFFFF then ve ''tile delta out of u16 range''
      else bind_res (pack_u16 value) (\<lambda>b.
           bind_res (pack_deltas (Some tile_id) ids) (\<lambda>bs. Inr (b @ bs))))"

text \<open>\<open>payload[tile_id // 8] |= 1 << (tile_id % 8)\<close>.\<close>

definition set_tile_bit :: "bytes \<Rightarrow> int \<Rightarrow> bytes" where
  "set_tile_bit payload tile_id =
     payload[nat (tile_id div 8) := payload ! nat (tile_id div 8) OR push_bit (nat (tile_id mod 8)) 1]"

definition pack_tile_index_block :: "int list \<Rightarrow> TileIndexMode \<Rightarrow> int \<Rightarrow> bytes res" where
  "pack_tile_index_block ordered_ids mode tile_base_id =
     bind_res (validate_tile_ids ordered_ids) (\<lambda>_.
     case mode of
       TIM_DENSE_RANGE \<Rightarrow>
         if ordered_ids \<noteq> map (\<lambda>i. tile_base_id + int i) [0 ..< length ordered_ids]
         then ve ''dense_range tile ids must be contiguous and start at tile_base_id''
         else Inr []
     | TIM_RAW_U16 \<Rightarrow> pack_table pack_u16 ordered_ids
     | TIM_DELTA_U16 \<Rightarrow>
         bind_res (validate_strictly_increasing_tile_ids ordered_ids) (\<lambda>_.
         if ordered_ids = [] then Inr [] else pack_deltas None ordered_ids)
     | TIM_BITSET \<Rightarrow>
         bind_res (validate_strictly_increasing_tile_ids ordered_ids) (\<lambda>_.
         if ordered_ids = [] then Inr []
         else Inr (foldl set_tile_bit (zeros (last ordered_ids div 8 + 1)) ordered_ids)))"

text \<open>The loop of the delta decoding; \<open>None\<close> while \<open>tile_ids\<close> is empty.\<close>

fun add_deltas :: "int option \<Rightarrow> int list \<Rightarrow> int list" where
  "add_deltas previous [] = []"
| "add_deltas previous (value # vs) =
     (let tile_id = (case previous of None \<Rightarrow> value | Some p \<Rightarrow> p + value)
      in tile_id # add_deltas (Some tile_id) vs)"

definition bitset_tile_ids :: "bytes \<Rightarrow> int list" where
  "bitset_tile_ids view =
     concat (map (\<lambda>(byte_index, value).
        map (\<lambda>bit_offset. int byte_index * 8 + int bit_offset)
          (filter (\<lambda>bit_offset. value AND push_bit bit_offset 1 \<noteq> 0) [0 ..< 8]))
       (enumerate 0 view))"

definition unpack_tile_index_block :: "bytes \<Rightarrow> TileIndexMode \<Rightarrow> int \<Rightarrow> int \<Rightarrow> int list res" where
  "unpack_tile_index_block view mode tile_count tile_base_id =
     (if tile_count < 0 then ve ''tile_count must be non-negative'' else
      case mode of
        TIM_DENSE_RANGE \<Rightarrow>
          if len view \<noteq> 0 then ve ''dense_range expects empty tile_index_block''
          else Inr (map (\<lambda>i. tile_base_id + int i) [0 ..< nat tile_count])
      | TIM_RAW_U16 \<Rightarrow>
          if len view \<noteq> tile_count * 2 then ve ''raw_u16 expects expected_bytes bytes''
          else unpack_table 2 (unpack_entry FH) view
      | TIM_DELTA_U16 \<Rightarrow>
          if len view \<noteq> tile_count * 2 then ve ''delta_u16 expects expected_bytes bytes''
          else if tile_count = 0 then Inr []
          else bind_res (unpack_table 2 (unpack_entry FH) view) (\<lambda>values. Inr (add_deltas None values))
      | TIM_BITSET \<Rightarrow>
          let tile_ids = bitset_tile_ids view
          in if len tile_ids \<noteq> tile_count then ve ''bitset decoded another number of tile ids''
             else Inr tile_ids)"

section \<open>What the checks accept\<close>

lemma validate_tile_ids_iff:
  "validate_tile_ids ids = Inr () \<longleftrightarrow> (\<forall>t \<in> set ids. 0 \<le> t \<and> t \<le> 0xFFFF)"
  by (auto simp: validate_tile_ids_def list_ex_iff not_le not_less)

lemma validate_strictly_increasing_iff:
  "validate_strictly_increasing_tile_ids ids = Inr () \<longleftrightarrow> sorted_wrt (<) ids"
proof -
  have "list_ex (\<lambda>(p, c). c \<le> p) (zip ids (tl ids)) \<longleftrightarrow> \<not> sorted_wrt (<) ids"
  proof (induction ids)
    case Nil
    then show ?case by simp
  next
    case (Cons x xs)
    then show ?case
      by (cases xs) (auto simp: not_le sorted_wrt1 sorted_wrt2 simp del: sorted_wrt.simps(2))
  qed
  then show ?thesis
    by (simp add: validate_strictly_increasing_tile_ids_def)
qed

lemma pack_tile_index_block_ids:
  assumes "pack_tile_index_block ids mode base = Inr bs"
  shows "\<forall>t \<in> set ids. 0 \<le> t \<and> t \<le> 0xFFFF"
    "mode \<in> {TIM_DELTA_U16, TIM_BITSET} \<Longrightarrow> sorted_wrt (<) ids"
  using assms
  by (auto simp: pack_tile_index_block_def res_simps validate_tile_ids_iff
      validate_strictly_increasing_iff)

section \<open>Deltas\<close>

lemma pack_deltas_values:
  "pack_deltas prev ids = Inr bs \<Longrightarrow>
     \<exists>vs. pack_table pack_u16 vs = Inr bs \<and> add_deltas prev vs = ids \<and> length vs = length ids"
proof (induction prev ids arbitrary: bs rule: pack_deltas.induct)
  case (1 prev)
  then show ?case by (intro exI [of _ "[]"]) simp
next
  case (2 prev t ids)
  define v where "v = (case prev of None \<Rightarrow> t | Some p \<Rightarrow> t - p)"
  from "2.prems" obtain b bs' where v: "\<not> (v < 0 \<or> v > 0xFFFF)" "pack_u16 v = Inr b"
    and bs': "pack_deltas (Some t) ids = Inr bs'" "bs = b @ bs'"
    by (auto simp: Let_def v_def [symmetric] res_simps split: if_splits)
  then obtain vs where vs: "pack_table pack_u16 vs = Inr bs'" "add_deltas (Some t) vs = ids"
      "length vs = length ids"
    using "2.IH" [OF v_def] by blast
  have "add_deltas prev (v # vs) = t # ids"
    using vs by (simp add: v_def split: option.splits)
  then show ?case
    using v bs' vs by (intro exI [of _ "v # vs"]) simp
qed

lemma length_add_deltas [simp]: "length (add_deltas prev vs) = length vs"
  by (induction prev vs rule: add_deltas.induct) (simp_all add: Let_def)

section \<open>Bit sets\<close>

lemma bitset_tile_ids_filter:
  "bitset_tile_ids view =
     map int (filter (\<lambda>k. bit (view ! (k div 8)) (k mod 8)) [0 ..< 8 * length view])"
proof (induction view rule: rev_induct)
  case Nil
  then show ?case by (simp add: bitset_tile_ids_def)
next
  case (snoc v view)
  let ?n = "length view"
  have upt: "[0 ..< 8 * length (view @ [v])] = [0 ..< 8 * ?n] @ map (\<lambda>j. 8 * ?n + j) [0 ..< 8]"
    using map_add_upt [of "8 * ?n" 8] upt_add_eq_append [of 0 "8 * ?n" 8]
    by (simp add: add.commute del: upt_Suc)
  have old: "filter (\<lambda>k. bit ((view @ [v]) ! (k div 8)) (k mod 8)) [0 ..< 8 * ?n] =
      filter (\<lambda>k. bit (view ! (k div 8)) (k mod 8)) [0 ..< 8 * ?n]"
    by (intro filter_cong) (auto simp: nth_append less_mult_imp_div_less mult.commute)
  have new: "filter (\<lambda>k. bit ((view @ [v]) ! (k div 8)) (k mod 8)) (map (\<lambda>j. 8 * ?n + j) [0 ..< 8]) =
      map (\<lambda>j. 8 * ?n + j) (filter (bit v) [0 ..< 8])"
    unfolding filter_map by (intro arg_cong [where f = "map _"] filter_cong) simp_all
  have bits: "filter (\<lambda>j. v AND push_bit j 1 \<noteq> 0) [0 ..< 8] = filter (bit v) [0 ..< 8]"
    by (intro filter_cong) (simp_all add: push_bit_eq_mult and_exp_eq_0_iff_not_bit)
  have "bitset_tile_ids (view @ [v]) = bitset_tile_ids view @
      map (\<lambda>j. int ?n * 8 + int j) (filter (bit v) [0 ..< 8])"
    by (simp add: bitset_tile_ids_def enumerate_append_eq bits del: upt_Suc push_bit_of_1)
  then show ?case
    unfolding upt filter_append old new map_append snoc.IH by (simp add: algebra_simps comp_def)
qed

lemma sorted_bitset_tile_ids: "sorted_wrt (<) (bitset_tile_ids view)"
  by (simp add: bitset_tile_ids_filter sorted_wrt_map sorted_wrt_filter)

lemma set_bitset_tile_ids:
  "set (bitset_tile_ids view) = {t. 0 \<le> t \<and> nat t < 8 * length view \<and> bit (view ! (nat t div 8)) (nat t mod 8)}"
proof (intro set_eqI iffI)
  fix t
  assume "t \<in> {t. 0 \<le> t \<and> nat t < 8 * length view \<and> bit (view ! (nat t div 8)) (nat t mod 8)}"
  then have "nat t \<in> set (filter (\<lambda>k. bit (view ! (k div 8)) (k mod 8)) [0 ..< 8 * length view])"
    "t = int (nat t)"
    by auto
  then show "t \<in> set (bitset_tile_ids view)"
    unfolding bitset_tile_ids_filter set_map by (rule image_eqI [rotated])
qed (auto simp: bitset_tile_ids_filter)

lemma length_set_tile_bit [simp]: "length (set_tile_bit p t) = length p"
  by (simp add: set_tile_bit_def)

lemma bit_set_tile_bit:
  assumes "0 \<le> t" "nat t div 8 < length p" "i < length p" "j < 8"
  shows "bit (set_tile_bit p t ! i) j \<longleftrightarrow> bit (p ! i) j \<or> 8 * i + j = nat t"
proof -
  have *: "nat (t div 8) = nat t div 8" "nat (t mod 8) = nat t mod 8"
    using assms by (simp_all add: nat_div_distrib nat_mod_distrib)
  have "8 * i + j = nat t \<longleftrightarrow> i = nat t div 8 \<and> j = nat t mod 8"
    using assms(4) by (metis (no_types) div_mult_self4 div_less add_0_right mod_mult_self4 mod_less
        mult_div_mod_eq zero_neq_numeral)
  then show ?thesis
    using assms by (auto simp: set_tile_bit_def * nth_list_update bit_or_iff bit_push_bit_iff bit_1_iff
        simp del: push_bit_of_1)
qed

lemma bit_foldl_set_tile_bit:
  assumes "\<forall>t \<in> set ids. 0 \<le> t \<and> nat t div 8 < length p" "i < length p" "j < 8"
  shows "bit (foldl set_tile_bit p ids ! i) j \<longleftrightarrow> bit (p ! i) j \<or> int (8 * i + j) \<in> set ids"
  using assms
proof (induction ids arbitrary: p)
  case Nil
  then show ?case by simp
next
  case (Cons t ids)
  then have "bit (set_tile_bit p t ! i) j \<longleftrightarrow> bit (p ! i) j \<or> int (8 * i + j) = t"
    by (subst bit_set_tile_bit) auto
  with Cons show ?case by auto
qed

lemma length_foldl_set_tile_bit [simp]: "length (foldl set_tile_bit p ids) = length p"
  by (induction ids arbitrary: p) simp_all

text \<open>The bit set of strictly increasing ids decodes to them.\<close>

lemma bitset_tile_ids_pack:
  assumes "sorted_wrt (<) ids" "\<forall>t \<in> set ids. 0 \<le> t" "ids \<noteq> []"
  shows "bitset_tile_ids (foldl set_tile_bit (zeros (last ids div 8 + 1)) ids) = ids"
proof -
  let ?p = "zeros (last ids div 8 + 1)"
  have le_last: "t \<le> last ids" if "t \<in> set ids" for t
    using assms(1,3) that by (induction ids) (auto simp: less_imp_le split: if_splits)
  have len: "length ?p = nat (last ids) div 8 + 1"
    using assms(2,3) by (simp add: nat_add_distrib nat_div_distrib pos_imp_zdiv_nonneg_iff)
  have inside: "\<forall>t \<in> set ids. 0 \<le> t \<and> nat t div 8 < length ?p"
  proof
    fix t
    assume "t \<in> set ids"
    then show "0 \<le> t \<and> nat t div 8 < length ?p"
      using assms(2) div_le_mono [OF nat_mono [OF le_last [of t]], of 8] unfolding len by auto
  qed
  have bits: "bit (foldl set_tile_bit ?p ids ! i) j \<longleftrightarrow> int (8 * i + j) \<in> set ids"
    if "i < length ?p" "j < 8" for i j
    using bit_foldl_set_tile_bit [OF inside that] that(1) by (simp add: zeros_def)
  have "set (bitset_tile_ids (foldl set_tile_bit ?p ids)) = set ids"
  proof (intro set_eqI)
    fix t
    have "t \<in> set ids \<Longrightarrow> nat t < 8 * length ?p"
      using inside by (auto simp: div_less_iff_less_mult mult.commute simp del: length_zeros)
    moreover have "nat t < 8 * length ?p \<Longrightarrow> nat t div 8 < length ?p"
      by (simp add: less_mult_imp_div_less mult.commute)
    ultimately show "t \<in> set (bitset_tile_ids (foldl set_tile_bit ?p ids)) \<longleftrightarrow> t \<in> set ids"
      using assms(2) bits [of "nat t div 8" "nat t mod 8"]
      by (auto simp: set_bitset_tile_ids simp del: length_zeros)
  qed
  then show ?thesis
    using assms(1) sorted_bitset_tile_ids by (metis strict_sorted_equal)
qed

section \<open>Round trip\<close>

text \<open>
  Whatever the mode, a block that packs is read back as the ids it was packed from, given
  their number and, for a dense range, the base id.
\<close>

lemma unpack_tile_index_block_pack:
  assumes "pack_tile_index_block ids mode base = Inr bs"
  shows "unpack_tile_index_block bs mode (len ids) base = Inr ids"
proof (cases mode)
  case TIM_DENSE_RANGE
  then show ?thesis
    using assms by (auto simp: pack_tile_index_block_def unpack_tile_index_block_def res_simps split: if_splits)
next
  case TIM_RAW_U16
  then have "pack_table pack_u16 ids = Inr bs"
    using assms by (auto simp: pack_tile_index_block_def res_simps)
  then show ?thesis
    using TIM_RAW_U16 u16.unpack_table_pack [of ids bs] u16.pack_table_size [of ids bs]
    by (simp add: unpack_tile_index_block_def list_all_iff)
next
  case TIM_DELTA_U16
  then have "if ids = [] then bs = [] else pack_deltas None ids = Inr bs"
    using assms by (auto simp: pack_tile_index_block_def res_simps)
  then show ?thesis
    using TIM_DELTA_U16 pack_deltas_values [of None ids bs] u16.unpack_table_pack [of _ bs] u16.pack_table_size [of _ bs]
    by (auto simp: unpack_tile_index_block_def list_all_iff split: if_splits)
next
  case TIM_BITSET
  note ids = pack_tile_index_block_ids [OF assms]
  have "if ids = [] then bs = [] else bs = foldl set_tile_bit (zeros (last ids div 8 + 1)) ids"
    using assms TIM_BITSET by (auto simp: pack_tile_index_block_def res_simps)
  then have "bitset_tile_ids bs = ids"
    using ids TIM_BITSET bitset_tile_ids_pack [of ids]
    by (auto simp: bitset_tile_ids_def split: if_splits)
  with TIM_BITSET show ?thesis
    by (simp add: unpack_tile_index_block_def)
qed

lemma length_unpack_table: "unpack_table l u bs = Inr xs \<Longrightarrow> length xs = length bs div l"
  by (auto simp: unpack_table_def dest: map_res_length)

lemma unpack_tile_index_block_count:
  "unpack_tile_index_block bs mode n base = Inr ids \<Longrightarrow> len ids = n"
  by (auto simp: unpack_tile_index_block_def res_simps Let_def dest!: length_unpack_table
      split: TileIndexMode.splits if_splits)

text \<open>Each mode is a codec for the lists of the given length.\<close>

interpretation tix: wire_codec
  "\<lambda>ids. pack_tile_index_block ids mode base" "\<lambda>bs. unpack_tile_index_block bs mode n base"
  "\<lambda>ids. len ids = n" for mode base n
  by unfold_locales (auto dest: unpack_tile_index_block_pack unpack_tile_index_block_count)

text \<open>The length of a block, per mode.\<close>

lemma pack_tile_index_block_length:
  assumes "pack_tile_index_block ids mode base = Inr bs"
  shows "len bs = (case mode of TIM_DENSE_RANGE \<Rightarrow> 0 | TIM_RAW_U16 \<Rightarrow> 2 * len ids
     | TIM_DELTA_U16 \<Rightarrow> 2 * len ids | TIM_BITSET \<Rightarrow> if ids = [] then 0 else last ids div 8 + 1)"
proof (cases mode)
  case TIM_BITSET
  then show ?thesis
    using assms pack_tile_index_block_ids(1) [OF assms]
    by (cases "ids = []")
      (auto simp: pack_tile_index_block_def res_simps pos_imp_zdiv_nonneg_iff dest!: bspec [OF _ last_in_set])
next
  case TIM_DELTA_U16
  then have "if ids = [] then bs = [] else pack_deltas None ids = Inr bs"
    using assms by (auto simp: pack_tile_index_block_def res_simps)
  then show ?thesis
    using TIM_DELTA_U16 pack_deltas_values [of None ids bs] u16.pack_table_size [of _ bs]
    by (auto split: if_splits)
qed (use assms in \<open>auto simp: pack_tile_index_block_def res_simps dest: u16.pack_table_size split: if_splits\<close>)

text \<open>Every list of u16 ids has a raw encoding, and a bit set when it is strictly increasing.\<close>

lemma pack_table_total: "\<forall>x \<in> set xs. \<exists>b. p x = Inr b \<Longrightarrow> \<exists>bs. pack_table p xs = Inr bs"
  by (induction xs) auto

lemma pack_tile_index_block_raw_total:
  assumes "\<forall>t \<in> set ids. 0 \<le> t \<and> t \<le> 0xFFFF"
  shows "\<exists>bs. pack_tile_index_block ids TIM_RAW_U16 base = Inr bs"
proof -
  have "\<exists>bs. pack_table pack_u16 ids = Inr bs"
    using assms by (intro pack_table_total) (auto simp: pack_u16_iff fits_def intro!: pack_entry_total)
  with assms show ?thesis
    by (simp add: pack_tile_index_block_def validate_tile_ids_iff [THEN iffD2])
qed

end
