(* ===== verification/Object_Blocks.thy ===== *)
theory Object_Blocks
  imports Alignment Data_Messages Tile_Index
begin

text \<open>
  Inline object blocks and object reference blocks of \<open>core/packet.py\<close>: one block, the region
  of consecutive blocks, and the builders and parsers of the standard kinds.
\<close>

abbreviation INLINE_OBJECT_BLOCK_HEADER_LENGTH :: int where
  "INLINE_OBJECT_BLOCK_HEADER_LENGTH \<equiv> 16"

record InlineObjectBlockView =
  iov_header :: InlineObjectBlockHeader
  iov_payload :: bytes

definition pack_inline_object_block :: "InlineObjectBlockHeader \<Rightarrow> bytes \<Rightarrow> bytes res" where
  "pack_inline_object_block header body =
     (if len body \<noteq> iob_object_bytes header then ve ''inline object payload length mismatch''
      else bind_res (InlineObjectBlockHeader_pack header) (\<lambda>buffer.
        append_zero_padding (buffer @ body) BLOCK_ALIGNMENT))"

definition unpack_inline_object_block :: "bytes \<Rightarrow> InlineObjectBlockView res" where
  "unpack_inline_object_block view =
     (if len view < INLINE_OBJECT_BLOCK_HEADER_LENGTH
      then ve ''expected at least INLINE_OBJECT_BLOCK_HEADER_LENGTH bytes for inline object block''
      else bind_res (InlineObjectBlockHeader_unpack (py_slice 0 INLINE_OBJECT_BLOCK_HEADER_LENGTH view))
        (\<lambda>header.
        let payload_end = INLINE_OBJECT_BLOCK_HEADER_LENGTH + iob_object_bytes header
        in if len view < payload_end then ve ''expected inline object payload to end at payload_end''
           else bind_res (align_up payload_end BLOCK_ALIGNMENT) (\<lambda>aligned_end.
             if len view \<noteq> aligned_end then ve ''expected aligned_end inline object block bytes''
             else bind_res (validate_zero_padding view payload_end aligned_end) (\<lambda>_.
               Inr \<lparr>iov_header = header,
                    iov_payload = py_slice INLINE_OBJECT_BLOCK_HEADER_LENGTH payload_end view\<rparr>))))"

lemma InlineObjectBlockHeader_unpack_bytes:
  "InlineObjectBlockHeader_unpack bs = Inr h \<Longrightarrow> 0 \<le> iob_object_bytes h"
  by (auto dest!: iob.pack_unpack struct_pack_fits
      simp: InlineObjectBlockHeader_pack_def fixed_width_pack_Inr INLINE_OBJECT_BLOCK_HEADER_STRUCT_def
        InlineObjectBlockHeader_values_def fits_def)

text \<open>
  The loop of \<open>_split_inline_object_region\<close>.  It ends because a header that unpacks has a
  non-negative \<open>object_bytes\<close>, so the cursor moves by at least the header.
\<close>

function split_inline_object_blocks :: "bytes \<Rightarrow> int \<Rightarrow> bytes list res" where
  "split_inline_object_blocks view cursor =
     (if cursor < len view then
        if len view - cursor < INLINE_OBJECT_BLOCK_HEADER_LENGTH
        then ve ''inline object region ends before a full block header''
        else bind_res (InlineObjectBlockHeader_unpack
               (py_slice cursor (cursor + INLINE_OBJECT_BLOCK_HEADER_LENGTH) view)) (\<lambda>header.
          bind_res (align_up (INLINE_OBJECT_BLOCK_HEADER_LENGTH + iob_object_bytes header) BLOCK_ALIGNMENT)
            (\<lambda>total_bytes.
            if cursor + total_bytes > len view
            then ve ''inline object region ends before declared block payload''
            else bind_res (split_inline_object_blocks view (cursor + total_bytes)) (\<lambda>blocks.
              Inr (py_slice cursor (cursor + total_bytes) view # blocks))))
      else Inr [])"
  by pat_completeness auto
termination
proof (relation "measure (\<lambda>(view, cursor). nat (len view - cursor))")
  fix view :: bytes and cursor total :: int and header
  assume "cursor < len view"
    and "InlineObjectBlockHeader_unpack (py_slice cursor (cursor + 16) view) = Inr header"
    and "align_up (16 + iob_object_bytes header) BLOCK_ALIGNMENT = Inr total"
  then have "16 \<le> total"
    using aligned_bounds(1) [of "16 + iob_object_bytes header"]
      InlineObjectBlockHeader_unpack_bytes [of "py_slice cursor (cursor + 16) view" header] by simp
  then show "((view, cursor + total), view, cursor) \<in> measure (\<lambda>(view, cursor). nat (len view - cursor))"
    using \<open>cursor < len view\<close> by simp
qed simp

declare split_inline_object_blocks.simps [simp del]

definition split_inline_object_region :: "bytes \<Rightarrow> bytes list res" where
  "split_inline_object_region payload = split_inline_object_blocks payload 0"

definition unpack_inline_object_blocks :: "bytes \<Rightarrow> InlineObjectBlockView list res" where
  "unpack_inline_object_blocks payload =
     bind_res (split_inline_object_region payload) (\<lambda>blocks. map_res unpack_inline_object_block blocks)"

section \<open>Standard inline blocks\<close>

definition build_standard_inline_object_block :: "CacheObjectKind \<Rightarrow> bytes \<Rightarrow> int \<Rightarrow> bytes res" where
  "build_standard_inline_object_block object_kind body profile_id =
     bind_res (InlineObjectBlockHeader_post_init
         \<lparr>iob_object_kind = object_kind, iob_object_flags = 0, iob_profile_id = profile_id,
          iob_reserved0 = 0, iob_object_bytes = len body, iob_reserved1 = 0\<rparr>)
       (\<lambda>header. pack_inline_object_block header body)"

definition build_camera_inline_object_block :: "bytes \<Rightarrow> int \<Rightarrow> bytes res" where
  "build_camera_inline_object_block payload profile_id =
     build_standard_inline_object_block COK_CAMERA_BLOCK payload profile_id"

definition build_tile_index_inline_object_block ::
    "int list \<Rightarrow> TileIndexMode \<Rightarrow> int \<Rightarrow> int \<Rightarrow> bytes res" where
  "build_tile_index_inline_object_block tile_ids mode tile_base_id profile_id =
     bind_res (pack_tile_index_block tile_ids mode tile_base_id) (\<lambda>payload.
       build_standard_inline_object_block COK_TILE_INDEX_BLOCK payload profile_id)"

definition build_tensor_section_table_inline_object_block :: "bytes \<Rightarrow> int \<Rightarrow> bytes res" where
  "build_tensor_section_table_inline_object_block payload profile_id =
     build_standard_inline_object_block COK_TENSOR_SECTION_TABLE payload profile_id"

definition parse_standard_inline_object_block ::
    "bytes \<Rightarrow> CacheObjectKind \<Rightarrow> InlineObjectBlockView res" where
  "parse_standard_inline_object_block payload expected_kind =
     bind_res (unpack_inline_object_block payload) (\<lambda>block.
       if iob_object_kind (iov_header block) \<noteq> expected_kind
       then ve ''expected another inline object block kind'' else Inr block)"

definition parse_camera_inline_object_block :: "bytes \<Rightarrow> InlineObjectBlockView res" where
  "parse_camera_inline_object_block payload =
     parse_standard_inline_object_block payload COK_CAMERA_BLOCK"

definition parse_tile_index_inline_object_block :: "bytes \<Rightarrow> InlineObjectBlockView res" where
  "parse_tile_index_inline_object_block payload =
     parse_standard_inline_object_block payload COK_TILE_INDEX_BLOCK"

definition parse_tensor_section_table_inline_object_block :: "bytes \<Rightarrow> InlineObjectBlockView res" where
  "parse_tensor_section_table_inline_object_block payload =
     parse_standard_inline_object_block payload COK_TENSOR_SECTION_TABLE"

section \<open>Object references\<close>

definition pack_object_reference_blocks :: "ObjectReferenceBlock list \<Rightarrow> bytes res" where
  "pack_object_reference_blocks blocks = pack_table ObjectReferenceBlock_pack blocks"

definition unpack_object_reference_blocks :: "bytes \<Rightarrow> ObjectReferenceBlock list res" where
  "unpack_object_reference_blocks view =
     (if length view mod OBJECT_REFERENCE_BLOCK_LENGTH \<noteq> 0
      then ve ''object reference block payload length must be a multiple of OBJECT_REFERENCE_BLOCK_LENGTH''
      else unpack_table OBJECT_REFERENCE_BLOCK_LENGTH ObjectReferenceBlock_unpack view)"

definition build_standard_object_reference_block ::
    "CacheObjectKind \<Rightarrow> int \<Rightarrow> int \<Rightarrow> int \<Rightarrow> ObjectReferenceBlock res" where
  "build_standard_object_reference_block object_kind cache_namespace cache_key_hi cache_key_lo =
     ObjectReferenceBlock_post_init
       \<lparr>orb_object_kind = object_kind, orb_ref_flags = 0, orb_cache_namespace = cache_namespace,
        orb_cache_key_hi = cache_key_hi, orb_cache_key_lo = cache_key_lo\<rparr>"

definition build_camera_reference_block :: "int \<Rightarrow> int \<Rightarrow> int \<Rightarrow> ObjectReferenceBlock res" where
  "build_camera_reference_block = build_standard_object_reference_block COK_CAMERA_BLOCK"

definition build_tile_index_reference_block :: "int \<Rightarrow> int \<Rightarrow> int \<Rightarrow> ObjectReferenceBlock res" where
  "build_tile_index_reference_block = build_standard_object_reference_block COK_TILE_INDEX_BLOCK"

definition build_tensor_section_table_reference_block ::
    "int \<Rightarrow> int \<Rightarrow> int \<Rightarrow> ObjectReferenceBlock res" where
  "build_tensor_section_table_reference_block =
     build_standard_object_reference_block COK_TENSOR_SECTION_TABLE"

text \<open>A reference argument is a block or the bytes of one.\<close>

datatype reference_arg = RefBlock ObjectReferenceBlock | RefBytes bytes

definition parse_standard_object_reference_block ::
    "reference_arg \<Rightarrow> CacheObjectKind \<Rightarrow> ObjectReferenceBlock res" where
  "parse_standard_object_reference_block payload expected_kind =
     bind_res (case payload of RefBlock b \<Rightarrow> Inr b | RefBytes bs \<Rightarrow> ObjectReferenceBlock_unpack bs)
       (\<lambda>block. if orb_object_kind block \<noteq> expected_kind
                then ve ''expected another reference block kind'' else Inr block)"

definition parse_camera_reference_block :: "reference_arg \<Rightarrow> ObjectReferenceBlock res" where
  "parse_camera_reference_block payload =
     parse_standard_object_reference_block payload COK_CAMERA_BLOCK"

definition parse_tile_index_reference_block :: "reference_arg \<Rightarrow> ObjectReferenceBlock res" where
  "parse_tile_index_reference_block payload =
     parse_standard_object_reference_block payload COK_TILE_INDEX_BLOCK"

definition parse_tensor_section_table_reference_block :: "reference_arg \<Rightarrow> ObjectReferenceBlock res" where
  "parse_tensor_section_table_reference_block payload =
     parse_standard_object_reference_block payload COK_TENSOR_SECTION_TABLE"

section \<open>One block\<close>

text \<open>The bytes of a block: its header, its payload, zeros up to a multiple of eight.\<close>

lemma pack_inline_object_block_iff:
  "pack_inline_object_block h p = Inr bs \<longleftrightarrow>
     len p = iob_object_bytes h \<and>
     (\<exists>hb. InlineObjectBlockHeader_pack h = Inr hb \<and> bs = hb @ p @ padding (16 + len p))"
proof (cases "InlineObjectBlockHeader_pack h")
  case (Inr hb)
  then have "length hb = 16"
    using iob.pack_size by simp
  with Inr show ?thesis
    by (auto simp: pack_inline_object_block_def)
qed (simp add: pack_inline_object_block_def)

lemma unpack_inline_object_block_frame:
  assumes "InlineObjectBlockHeader_unpack hb = Inr h" "len p = iob_object_bytes h"
  shows "unpack_inline_object_block (hb @ p @ padding (16 + len p)) =
    Inr \<lparr>iov_header = h, iov_payload = p\<rparr>"
proof -
  let ?view = "hb @ p @ padding (16 + len p)"
  have hb: "len hb = 16"
    using iob.unpack_size [OF assms(1)] by simp
  have total: "len ?view = aligned (16 + len p)"
    using hb by simp
  have p: "py_slice 16 (16 + len p) ?view = p"
    using hb by (intro py_slice_append_mid) simp_all
  have "py_slice (16 + len p) (aligned (16 + len p)) ((hb @ p) @ padding (16 + len p) @ []) = padding (16 + len p)"
    using hb by (intro py_slice_append_mid) simp_all
  then have "validate_zero_padding ?view (16 + len p) (aligned (16 + len p)) = Inr ()"
    using total aligned_nonneg [of "16 + len p"] by (subst validate_zero_padding_iff) (simp_all add: padding_def)
  then show ?thesis
    using assms hb total p aligned_bounds(1) [of "16 + len p"]
    by (simp add: unpack_inline_object_block_def Let_def del: length_append)
qed

lemma unpack_inline_object_blockE:
  assumes "unpack_inline_object_block bs = Inr v"
  obtains hb where "InlineObjectBlockHeader_unpack hb = Inr (iov_header v)" "len hb = 16"
    "len (iov_payload v) = iob_object_bytes (iov_header v)"
    "bs = hb @ iov_payload v @ padding (16 + len (iov_payload v))"
    "len bs = aligned (16 + iob_object_bytes (iov_header v))"
proof -
  from assms obtain h where h: "InlineObjectBlockHeader_unpack (take 16 bs) = Inr h"
    and bounds: "16 + iob_object_bytes h \<le> len bs" "len bs = aligned (16 + iob_object_bytes h)"
    and pad: "validate_zero_padding bs (16 + iob_object_bytes h) (len bs) = Inr ()"
    and v: "v = \<lparr>iov_header = h, iov_payload = py_slice 16 (16 + iob_object_bytes h) bs\<rparr>"
    by (auto simp: unpack_inline_object_block_def res_simps Let_def not_less split: if_splits)
  define n where "n = nat (iob_object_bytes h)"
  have n: "iob_object_bytes h = int n"
    using InlineObjectBlockHeader_unpack_bytes [OF h] by (simp add: n_def)
  have ends: "nat (16 + int n) = 16 + n" "nat (len bs) = length bs"
    by simp_all
  have p: "iov_payload v = take n (drop 16 bs)"
    by (simp add: v n py_slice_nonneg nat_add_distrib)
  have "py_slice (16 + int n) (len bs) bs = zeros (len bs - (16 + int n))"
    using pad bounds n by (subst (asm) validate_zero_padding_iff) auto
  then have "drop (16 + n) bs = padding (16 + int n)"
    using bounds by (simp add: n padding_def py_slice_nonneg nat_add_distrib)
  then have "bs = take 16 bs @ take n (drop 16 bs) @ padding (16 + int n)"
    by (metis append_take_drop_id drop_drop add.commute)
  moreover have "len (take n (drop 16 bs)) = int n"
    using bounds n by simp
  ultimately show ?thesis
    using h bounds v n p by (intro that [of "take 16 bs"]) simp_all
qed

lemma pack_inline_object_block_unpack:
  "unpack_inline_object_block bs = Inr v \<Longrightarrow>
     pack_inline_object_block (iov_header v) (iov_payload v) = Inr bs"
  by (elim unpack_inline_object_blockE)
    (auto simp: pack_inline_object_block_iff dest: iob.pack_unpack)

lemma unpack_inline_object_block_pack:
  "InlineObjectBlockHeader_wf (iov_header v) \<Longrightarrow>
     pack_inline_object_block (iov_header v) (iov_payload v) = Inr bs \<Longrightarrow>
     unpack_inline_object_block bs = Inr v"
  by (auto simp: pack_inline_object_block_iff dest: iob.unpack_pack
      dest!: unpack_inline_object_block_frame [OF iob.unpack_pack])

interpretation iov: exact_codec
  "\<lambda>v. pack_inline_object_block (iov_header v) (iov_payload v)" unpack_inline_object_block
  "\<lambda>v. InlineObjectBlockHeader_wf (iov_header v)"
proof unfold_locales
  show "InlineObjectBlockHeader_wf (iov_header v)" if "unpack_inline_object_block bs = Inr v" for bs v
    using that by (elim unpack_inline_object_blockE) (rule iob.unpack_wf)
qed (fact unpack_inline_object_block_pack pack_inline_object_block_unpack)+

section \<open>The region of blocks\<close>

lemma split_inline_object_blocks_step:
  assumes "unpack_inline_object_block b = Inr v"
  shows "split_inline_object_blocks (pre @ b @ rest) (len pre) =
    bind_res (split_inline_object_blocks ((pre @ b) @ rest) (len (pre @ b))) (\<lambda>bs. Inr (b # bs))"
proof -
  obtain hb where hb: "InlineObjectBlockHeader_unpack hb = Inr (iov_header v)" "len hb = 16"
    and b: "b = hb @ iov_payload v @ padding (16 + len (iov_payload v))"
    and total: "len b = aligned (16 + iob_object_bytes (iov_header v))"
    using assms by (rule unpack_inline_object_blockE)
  have "py_slice (len pre) (len pre + 16) (pre @ hb @ (drop 16 b @ rest)) = hb"
    using hb(2) by (intro py_slice_append_mid) simp_all
  then have header: "py_slice (len pre) (len pre + 16) (pre @ b @ rest) = hb"
    using b hb(2) by (simp del: py_slice_nat)
  have block: "py_slice (len pre) (len pre + len b) (pre @ b @ rest) = b"
    by (intro py_slice_append_mid) simp_all
  have "16 \<le> len b"
    using aligned_bounds(1) [of "16 + iob_object_bytes (iov_header v)"]
      InlineObjectBlockHeader_unpack_bytes [OF hb(1)] by (simp add: total)
  then show ?thesis
    using hb(1) header block by (subst split_inline_object_blocks.simps) (simp add: total)
qed

lemma split_inline_object_blocks_concat:
  "map_res unpack_inline_object_block blocks = Inr vs \<Longrightarrow>
     split_inline_object_blocks (pre @ concat blocks) (len pre) = Inr blocks"
proof (induction blocks arbitrary: vs pre)
  case Nil
  then show ?case by (simp add: split_inline_object_blocks.simps)
next
  case (Cons b blocks)
  then obtain v vs' where v: "unpack_inline_object_block b = Inr v"
    and vs': "map_res unpack_inline_object_block blocks = Inr vs'"
    by (auto simp: res_simps)
  have "split_inline_object_blocks ((pre @ b) @ concat blocks) (len (pre @ b)) = Inr blocks"
    using vs' by (rule Cons.IH)
  then show ?case
    using split_inline_object_blocks_step [OF v, of pre "concat blocks"] by simp
qed

lemma concat_split_inline_object_blocks:
  "split_inline_object_blocks view cursor = Inr blocks \<Longrightarrow> 0 \<le> cursor \<Longrightarrow> cursor \<le> len view \<Longrightarrow>
     concat blocks = drop (nat cursor) view"
proof (induction view cursor arbitrary: blocks rule: split_inline_object_blocks.induct)
  case (1 view cursor)
  show ?case
  proof (cases "cursor < len view")
    case False
    with 1 show ?thesis by (simp add: split_inline_object_blocks.simps)
  next
    case True
    with "1.prems"(1) obtain h rest where len: "\<not> len view - cursor < 16"
      and h: "InlineObjectBlockHeader_unpack (py_slice cursor (cursor + 16) view) = Inr h"
      and end_pos: "\<not> cursor + aligned (16 + iob_object_bytes h) > len view"
      and rest: "split_inline_object_blocks view (cursor + aligned (16 + iob_object_bytes h)) = Inr rest"
      and blocks: "blocks = py_slice cursor (cursor + aligned (16 + iob_object_bytes h)) view # rest"
      by (subst (asm) split_inline_object_blocks.simps) (auto simp: res_simps split: if_splits)
    let ?t = "aligned (16 + iob_object_bytes h)"
    have t: "0 \<le> ?t"
      using InlineObjectBlockHeader_unpack_bytes [OF h] by (intro aligned_nonneg) simp
    have "concat rest = drop (nat (cursor + ?t)) view"
      by (rule "1.IH" [OF True len h _ end_pos rest]) (use "1.prems" t end_pos in simp_all)
    then show ?thesis
      using "1.prems"(2) t by (simp add: blocks py_slice_nonneg nat_add_distrib)
        (metis append_take_drop_id drop_drop add.commute)
  qed
qed

lemma unpack_inline_object_blocks_concat:
  "map_res unpack_inline_object_block blocks = Inr vs \<Longrightarrow> unpack_inline_object_blocks (concat blocks) = Inr vs"
  using split_inline_object_blocks_concat [of blocks vs "[]"]
  by (simp add: unpack_inline_object_blocks_def split_inline_object_region_def)

lemma unpack_inline_object_blocksE:
  assumes "unpack_inline_object_blocks region = Inr vs"
  obtains blocks where "map_res unpack_inline_object_block blocks = Inr vs" "region = concat blocks"
  using assms concat_split_inline_object_blocks [of region 0]
  by (auto simp: unpack_inline_object_blocks_def split_inline_object_region_def res_simps)

definition pack_inline_object_blocks :: "InlineObjectBlockView list \<Rightarrow> bytes res" where
  "pack_inline_object_blocks =
     pack_table (\<lambda>v. pack_inline_object_block (iov_header v) (iov_payload v))"

text \<open>A region that unpacks is the concatenation of the blocks it unpacks to, and conversely.\<close>

interpretation iovs: exact_codec pack_inline_object_blocks unpack_inline_object_blocks
  "list_all (\<lambda>v. InlineObjectBlockHeader_wf (iov_header v))"
proof unfold_locales
  fix vs region
  show "list_all (\<lambda>v. InlineObjectBlockHeader_wf (iov_header v)) vs"
    if "unpack_inline_object_blocks region = Inr vs"
    using that by (elim unpack_inline_object_blocksE)
      (auto simp: map_res_Inr_iff list_all2_conv_all_nth list_all_length dest: iov.unpack_wf)
  show "pack_inline_object_blocks vs = Inr region" if "unpack_inline_object_blocks region = Inr vs"
  proof -
    from that obtain blocks where blocks: "map_res unpack_inline_object_block blocks = Inr vs"
      "region = concat blocks"
      by (rule unpack_inline_object_blocksE)
    from blocks(1) have "list_all2 (\<lambda>b v. unpack_inline_object_block b = Inr v) blocks vs"
      by (simp add: map_res_Inr_iff)
    then have "pack_inline_object_blocks vs = Inr (concat blocks)"
      by (induction rule: list_all2_induct)
        (auto simp: pack_inline_object_blocks_def dest: iov.pack_unpack)
    with blocks(2) show ?thesis by simp
  qed
  show "unpack_inline_object_blocks region = Inr vs"
    if "list_all (\<lambda>v. InlineObjectBlockHeader_wf (iov_header v)) vs"
      "pack_inline_object_blocks vs = Inr region"
  proof -
    from that(2) obtain blocks where
      blocks: "list_all2 (\<lambda>v b. pack_inline_object_block (iov_header v) (iov_payload v) = Inr b) vs blocks"
      "region = concat blocks"
      by (auto simp: pack_inline_object_blocks_def pack_table_def res_simps map_res_Inr_iff)
    then have "list_all2 (\<lambda>b v. unpack_inline_object_block b = Inr v) blocks vs"
      using that(1) by (auto simp: list_all2_conv_all_nth list_all_length intro: iov.unpack_pack)
    then show ?thesis
      using blocks(2) by (simp add: map_res_Inr_iff [symmetric] unpack_inline_object_blocks_concat)
  qed
qed

section \<open>The region of references\<close>

interpretation orbs: exact_codec pack_object_reference_blocks unpack_object_reference_blocks
  "list_all ObjectReferenceBlock_wf"
proof unfold_locales
  fix ms bs
  show "unpack_object_reference_blocks bs = Inr ms"
    if "list_all ObjectReferenceBlock_wf ms" "pack_object_reference_blocks ms = Inr bs"
    using that orb.unpack_table_pack [of ms bs] orb.pack_table_size [of ms bs]
    by (simp add: pack_object_reference_blocks_def unpack_object_reference_blocks_def
        OBJECT_REFERENCE_BLOCK_LENGTH_def)
  show "pack_object_reference_blocks ms = Inr bs" "list_all ObjectReferenceBlock_wf ms"
    if "unpack_object_reference_blocks bs = Inr ms"
    using that orb.pack_table_unpack_mod [of bs ms] orb.unpack_table_wf [of bs ms]
    by (simp_all add: pack_object_reference_blocks_def unpack_object_reference_blocks_def
        OBJECT_REFERENCE_BLOCK_LENGTH_def split: if_splits)
qed

section \<open>Standard blocks\<close>

lemma parse_build_standard_inline_object_block:
  assumes "build_standard_inline_object_block k body profile_id = Inr bs"
  shows "\<exists>v. parse_standard_inline_object_block bs k = Inr v \<and> iov_payload v = body
    \<and> iob_profile_id (iov_header v) = profile_id"
proof -
  from assms obtain h where h: "InlineObjectBlockHeader_wf h" "iob_object_kind h = k"
      "iob_profile_id h = profile_id" "pack_inline_object_block h body = Inr bs"
    by (auto simp: build_standard_inline_object_block_def res_simps InlineObjectBlockHeader_post_init_iff)
  then have "unpack_inline_object_block bs = Inr \<lparr>iov_header = h, iov_payload = body\<rparr>"
    by (intro iov.unpack_pack) simp_all
  with h show ?thesis
    by (simp add: parse_standard_inline_object_block_def)
qed

lemma parse_build_standard_object_reference_block:
  assumes "build_standard_object_reference_block k ns hi lo = Inr b"
  shows "parse_standard_object_reference_block (RefBlock b) k = Inr b"
    and "ObjectReferenceBlock_pack b = Inr bs \<Longrightarrow>
      parse_standard_object_reference_block (RefBytes bs) k = Inr b"
  using assms
  by (auto simp: build_standard_object_reference_block_def parse_standard_object_reference_block_def
      ObjectReferenceBlock_post_init_iff orb.unpack_pack)

end
