(* ===== verification/Schema_Descriptors.thy ===== *)
theory Schema_Descriptors
  imports Enums
begin

text \<open>
  The descriptors of \<open>schema.py\<close>: \<open>SchemaDescriptorHeader\<close> and \<open>TypedPayloadDescriptor\<close>,
  their validation and wire form, the ready-made descriptors and
  \<open>validate_typed_payload_binding\<close>.  The naming follows \<open>Data_Messages\<close>.  A \<open>SchemaCodec\<close>
  (the native runtime) is a parameter of the functions that may delegate to it.
\<close>

section \<open>Field validation\<close>

definition validate_mask :: "string \<Rightarrow> int \<Rightarrow> int \<Rightarrow> unit res" where
  "validate_mask name value known_mask =
     (if value < 0 then ve (name @ '' must be non-negative'')
      else if value AND NOT known_mask \<noteq> 0 then ve (name @ '' contains unknown bits'')
      else Inr ())"

definition validate_single_payload_kind :: "int \<Rightarrow> unit res" where
  "validate_single_payload_kind value =
     (let raw_value = PayloadKind_call value
      in if raw_value = 0 \<or> raw_value AND (raw_value - 1) \<noteq> 0
         then ve ''payload_kind must contain exactly one current payload kind bit''
         else Inr ())"

definition validate_u8 :: "string \<Rightarrow> int \<Rightarrow> unit res" where
  "validate_u8 name value =
     (if value < 0 \<or> value > 0xFF then ve (name @ '' must be a uint8 value'') else Inr ())"

definition validate_u16 :: "string \<Rightarrow> int \<Rightarrow> unit res" where
  "validate_u16 name value =
     (if value < 0 \<or> value > 0xFFFF then ve (name @ '' must be a uint16 value'') else Inr ())"

definition validate_u32 :: "string \<Rightarrow> int \<Rightarrow> unit res" where
  "validate_u32 name value =
     (if value < 0 \<or> value > 0xFFFFFFFF then ve (name @ '' must be a uint32 value'') else Inr ())"

definition validate_u64 :: "string \<Rightarrow> int \<Rightarrow> unit res" where
  "validate_u64 name value =
     (if value < 0 \<or> value > 0xFFFFFFFFFFFFFFFF then ve (name @ '' must be a uint64 value'')
      else Inr ())"

lemma validate_Inr_iff:
  "validate_u8 n v = Inr () \<longleftrightarrow> 0 \<le> v \<and> v < 2 ^ 8"
  "validate_u16 n v = Inr () \<longleftrightarrow> 0 \<le> v \<and> v < 2 ^ 16"
  "validate_u32 n v = Inr () \<longleftrightarrow> 0 \<le> v \<and> v < 2 ^ 32"
  "validate_u64 n v = Inr () \<longleftrightarrow> 0 \<le> v \<and> v < 2 ^ 64"
  "validate_mask n v m = Inr () \<longleftrightarrow> 0 \<le> v \<and> v AND NOT m = 0"
  by (auto simp: validate_u8_def validate_u16_def validate_u32_def validate_u64_def validate_mask_def)

section \<open>SchemaDescriptorHeader\<close>

definition SCHEMA_DESCRIPTOR_HEADER_STRUCT :: "field list" where
  "SCHEMA_DESCRIPTOR_HEADER_STRUCT =
     [FI, FI, FH, FH, FB, FB, FH, FI, FH, FH, FQ]"

lemma SCHEMA_DESCRIPTOR_HEADER_STRUCT_size [simp]: "calcsize SCHEMA_DESCRIPTOR_HEADER_STRUCT = 32"
  by (simp add: SCHEMA_DESCRIPTOR_HEADER_STRUCT_def)

record SchemaDescriptorHeader =
  sdh_schema_id :: int
  sdh_schema_version :: int
  sdh_profile_id :: int
  sdh_schema_flags :: int
  sdh_min_version_major :: int
  sdh_max_version_major :: int
  sdh_body_bytes :: int
  sdh_dependency_count :: int
  sdh_default_stream_semantics :: int
  sdh_schema_hash :: int

definition SchemaDescriptorHeader_values :: "SchemaDescriptorHeader \<Rightarrow> int list" where
  "SchemaDescriptorHeader_values m =
     [sdh_schema_id m, sdh_schema_version m, sdh_profile_id m, sdh_schema_flags m,
      sdh_min_version_major m, sdh_max_version_major m, 0, sdh_body_bytes m,
      sdh_dependency_count m, sdh_default_stream_semantics m, sdh_schema_hash m]"

definition SchemaDescriptorHeader_post_init :: "SchemaDescriptorHeader \<Rightarrow> SchemaDescriptorHeader res" where
  "SchemaDescriptorHeader_post_init m =
     bind_res (validate_u32 ''schema_id'' (sdh_schema_id m)) (\<lambda>_.
     bind_res (validate_u32 ''schema_version'' (sdh_schema_version m)) (\<lambda>_.
     bind_res (validate_u16 ''profile_id'' (sdh_profile_id m)) (\<lambda>_.
     bind_res (validate_mask ''schema_flags'' (sdh_schema_flags m) 0x000F) (\<lambda>_.
     bind_res (validate_u8 ''min_version_major'' (sdh_min_version_major m)) (\<lambda>_.
     bind_res (validate_u8 ''max_version_major'' (sdh_max_version_major m)) (\<lambda>_.
     bind_res (validate_u32 ''body_bytes'' (sdh_body_bytes m)) (\<lambda>_.
     bind_res (validate_u16 ''dependency_count'' (sdh_dependency_count m)) (\<lambda>_.
     bind_res (validate_u16 ''default_stream_semantics'' (sdh_default_stream_semantics m)) (\<lambda>_.
     bind_res (validate_u64 ''schema_hash'' (sdh_schema_hash m)) (\<lambda>_.
     Inr m))))))))))"

lemma SchemaDescriptorHeader_post_init_id: "SchemaDescriptorHeader_post_init m = Inr m' \<Longrightarrow> m' = m"
  by (auto simp: SchemaDescriptorHeader_post_init_def res_simps)

definition SchemaDescriptorHeader_wf :: "SchemaDescriptorHeader \<Rightarrow> bool" where
  "SchemaDescriptorHeader_wf m \<longleftrightarrow> SchemaDescriptorHeader_post_init m = Inr m"

lemma SchemaDescriptorHeader_post_init_iff: "SchemaDescriptorHeader_post_init r = Inr m \<longleftrightarrow> SchemaDescriptorHeader_wf r \<and> m = r"
  using SchemaDescriptorHeader_post_init_id [of r m] by (auto simp: SchemaDescriptorHeader_wf_def)

definition SchemaDescriptorHeader_pack :: "SchemaDescriptorHeader \<Rightarrow> bytes res" where
  "SchemaDescriptorHeader_pack = fixed_width_pack SCHEMA_DESCRIPTOR_HEADER_STRUCT no_check SchemaDescriptorHeader_values"

definition SchemaDescriptorHeader_from_tuple :: "int list \<Rightarrow> SchemaDescriptorHeader res" where
  "SchemaDescriptorHeader_from_tuple vs =
     (case vs of
        [schema_id, schema_version, profile_id, schema_flags, min_version_major,
         max_version_major, reserved0, body_bytes, dependency_count, default_stream_semantics,
         schema_hash] \<Rightarrow>
          if reserved0 \<noteq> 0 then ve ''schema descriptor reserved0 must be 0'' else
          SchemaDescriptorHeader_post_init
            \<lparr>sdh_schema_id = schema_id, sdh_schema_version = schema_version,
            sdh_profile_id = profile_id, sdh_schema_flags = schema_flags,
            sdh_min_version_major = min_version_major,
            sdh_max_version_major = max_version_major, sdh_body_bytes = body_bytes,
            sdh_dependency_count = dependency_count,
            sdh_default_stream_semantics = default_stream_semantics,
            sdh_schema_hash = schema_hash\<rparr>
      | _ \<Rightarrow> tuple_error)"

definition SchemaDescriptorHeader_unpack :: "bytes \<Rightarrow> SchemaDescriptorHeader res" where
  "SchemaDescriptorHeader_unpack = fixed_width_unpack SCHEMA_DESCRIPTOR_HEADER_STRUCT SchemaDescriptorHeader_from_tuple"

lemma SchemaDescriptorHeader_from_values:
  assumes "SchemaDescriptorHeader_wf m" "list_all2 fits SCHEMA_DESCRIPTOR_HEADER_STRUCT (SchemaDescriptorHeader_values m)"
  shows "SchemaDescriptorHeader_from_tuple (SchemaDescriptorHeader_values m) = Inr m"
  using assms
  by (cases m)
    (simp add: SchemaDescriptorHeader_values_def SchemaDescriptorHeader_from_tuple_def SchemaDescriptorHeader_post_init_iff)

lemma SchemaDescriptorHeader_values_from:
  assumes "list_all2 fits SCHEMA_DESCRIPTOR_HEADER_STRUCT vs" "SchemaDescriptorHeader_from_tuple vs = Inr m"
  shows "SchemaDescriptorHeader_wf m \<and> SchemaDescriptorHeader_values m = vs"
  using assms unfolding SCHEMA_DESCRIPTOR_HEADER_STRUCT_def list_all2_fits_Cons list_all2_Nil
  by (elim exE conjE)
    (auto simp: SchemaDescriptorHeader_from_tuple_def SchemaDescriptorHeader_values_def
      Let_def res_simps SchemaDescriptorHeader_post_init_iff)

interpretation sdh: canonical_codec
  SchemaDescriptorHeader_pack SchemaDescriptorHeader_unpack "SchemaDescriptorHeader_wf" "calcsize SCHEMA_DESCRIPTOR_HEADER_STRUCT"
  unfolding SchemaDescriptorHeader_pack_def SchemaDescriptorHeader_unpack_def
  by (rule canonical_codecI)
    (auto intro: SchemaDescriptorHeader_from_values dest: SchemaDescriptorHeader_values_from)

section \<open>TypedPayloadDescriptor\<close>

definition TYPED_PAYLOAD_DESCRIPTOR_STRUCT :: "field list" where
  "TYPED_PAYLOAD_DESCRIPTOR_STRUCT =
     [FH, FB, FB, FI, FI, FH, FH, FI, FI]"

lemma TYPED_PAYLOAD_DESCRIPTOR_STRUCT_size [simp]: "calcsize TYPED_PAYLOAD_DESCRIPTOR_STRUCT = 24"
  by (simp add: TYPED_PAYLOAD_DESCRIPTOR_STRUCT_def)

record TypedPayloadDescriptor =
  tpd_profile_id :: int
  tpd_payload_kind :: int
  tpd_descriptor_flags :: int
  tpd_schema_id :: int
  tpd_schema_version :: int
  tpd_stream_semantics :: int
  tpd_offset :: int
  tpd_length :: int

definition TypedPayloadDescriptor_values :: "TypedPayloadDescriptor \<Rightarrow> int list" where
  "TypedPayloadDescriptor_values m =
     [tpd_profile_id m, tpd_payload_kind m, tpd_descriptor_flags m, tpd_schema_id m,
      tpd_schema_version m, tpd_stream_semantics m, 0, tpd_offset m, tpd_length m]"

definition TypedPayloadDescriptor_post_init :: "TypedPayloadDescriptor \<Rightarrow> TypedPayloadDescriptor res" where
  "TypedPayloadDescriptor_post_init m =
     bind_res (validate_u16 ''profile_id'' (tpd_profile_id m)) (\<lambda>_.
     bind_res (validate_single_payload_kind (tpd_payload_kind m)) (\<lambda>_.
     bind_res (validate_mask ''descriptor_flags'' (tpd_descriptor_flags m) 0x000F) (\<lambda>_.
     bind_res (validate_u32 ''schema_id'' (tpd_schema_id m)) (\<lambda>_.
     bind_res (validate_u32 ''schema_version'' (tpd_schema_version m)) (\<lambda>_.
     bind_res (validate_u16 ''stream_semantics'' (tpd_stream_semantics m)) (\<lambda>_.
     bind_res (validate_u32 ''offset'' (tpd_offset m)) (\<lambda>_.
     bind_res (validate_u32 ''length'' (tpd_length m)) (\<lambda>_.
     Inr m))))))))"

lemma TypedPayloadDescriptor_post_init_id: "TypedPayloadDescriptor_post_init m = Inr m' \<Longrightarrow> m' = m"
  by (auto simp: TypedPayloadDescriptor_post_init_def res_simps)

definition TypedPayloadDescriptor_wf :: "TypedPayloadDescriptor \<Rightarrow> bool" where
  "TypedPayloadDescriptor_wf m \<longleftrightarrow> TypedPayloadDescriptor_post_init m = Inr m"

lemma TypedPayloadDescriptor_post_init_iff: "TypedPayloadDescriptor_post_init r = Inr m \<longleftrightarrow> TypedPayloadDescriptor_wf r \<and> m = r"
  using TypedPayloadDescriptor_post_init_id [of r m] by (auto simp: TypedPayloadDescriptor_wf_def)

definition TypedPayloadDescriptor_pack :: "TypedPayloadDescriptor \<Rightarrow> bytes res" where
  "TypedPayloadDescriptor_pack = fixed_width_pack TYPED_PAYLOAD_DESCRIPTOR_STRUCT no_check TypedPayloadDescriptor_values"

definition TypedPayloadDescriptor_from_tuple :: "int list \<Rightarrow> TypedPayloadDescriptor res" where
  "TypedPayloadDescriptor_from_tuple vs =
     (case vs of
        [profile_id, payload_kind, descriptor_flags, schema_id, schema_version,
         stream_semantics, reserved0, offset, nbytes] \<Rightarrow>
          if reserved0 \<noteq> 0 then ve ''typed payload descriptor reserved0 must be 0'' else
          TypedPayloadDescriptor_post_init
            \<lparr>tpd_profile_id = profile_id, tpd_payload_kind = PayloadKind_call payload_kind,
            tpd_descriptor_flags = descriptor_flags, tpd_schema_id = schema_id,
            tpd_schema_version = schema_version, tpd_stream_semantics = stream_semantics,
            tpd_offset = offset, tpd_length = nbytes\<rparr>
      | _ \<Rightarrow> tuple_error)"

definition TypedPayloadDescriptor_unpack :: "bytes \<Rightarrow> TypedPayloadDescriptor res" where
  "TypedPayloadDescriptor_unpack = fixed_width_unpack TYPED_PAYLOAD_DESCRIPTOR_STRUCT TypedPayloadDescriptor_from_tuple"

lemma TypedPayloadDescriptor_from_values:
  assumes "TypedPayloadDescriptor_wf m" "list_all2 fits TYPED_PAYLOAD_DESCRIPTOR_STRUCT (TypedPayloadDescriptor_values m)"
  shows "TypedPayloadDescriptor_from_tuple (TypedPayloadDescriptor_values m) = Inr m"
  using assms
  by (cases m)
    (simp add: TypedPayloadDescriptor_values_def TypedPayloadDescriptor_from_tuple_def TYPED_PAYLOAD_DESCRIPTOR_STRUCT_def fits_def TypedPayloadDescriptor_post_init_iff)

lemma TypedPayloadDescriptor_values_from:
  assumes "list_all2 fits TYPED_PAYLOAD_DESCRIPTOR_STRUCT vs" "TypedPayloadDescriptor_from_tuple vs = Inr m"
  shows "TypedPayloadDescriptor_wf m \<and> TypedPayloadDescriptor_values m = vs"
  using assms unfolding TYPED_PAYLOAD_DESCRIPTOR_STRUCT_def list_all2_fits_Cons list_all2_Nil
  by (elim exE conjE)
    (auto simp: TypedPayloadDescriptor_from_tuple_def TypedPayloadDescriptor_values_def
      fits_def Let_def res_simps TypedPayloadDescriptor_post_init_iff)

interpretation tpd: canonical_codec
  TypedPayloadDescriptor_pack TypedPayloadDescriptor_unpack "TypedPayloadDescriptor_wf" "calcsize TYPED_PAYLOAD_DESCRIPTOR_STRUCT"
  unfolding TypedPayloadDescriptor_pack_def TypedPayloadDescriptor_unpack_def
  by (rule canonical_codecI)
    (auto intro: TypedPayloadDescriptor_from_values dest: TypedPayloadDescriptor_values_from)

definition tpd_is_terminal :: "TypedPayloadDescriptor \<Rightarrow> bool" where
  "tpd_is_terminal m \<longleftrightarrow> tpd_descriptor_flags m AND TPF_TERMINAL \<noteq> 0"

definition tpd_is_partial :: "TypedPayloadDescriptor \<Rightarrow> bool" where
  "tpd_is_partial m \<longleftrightarrow> tpd_descriptor_flags m AND TPF_PARTIAL \<noteq> 0"

text \<open>A descriptor the constructor accepts always packs, unless its kind needs more than 8 bits.\<close>

lemma TypedPayloadDescriptor_pack_total:
  assumes "TypedPayloadDescriptor_wf d" "0 \<le> tpd_payload_kind d" "tpd_payload_kind d < 256"
  obtains bs where "TypedPayloadDescriptor_pack d = Inr bs"
proof -
  have mask: "tpd_descriptor_flags d \<le> 15"
    if "0 \<le> tpd_descriptor_flags d" "tpd_descriptor_flags d AND NOT 15 = 0"
    using that and_not_mask_zero_bounds [of "tpd_descriptor_flags d" 15] by simp
  have "list_all2 fits TYPED_PAYLOAD_DESCRIPTOR_STRUCT (TypedPayloadDescriptor_values d)"
    using assms mask
    by (auto simp: TypedPayloadDescriptor_wf_def TypedPayloadDescriptor_post_init_def res_simps
        validate_Inr_iff TypedPayloadDescriptor_values_def TYPED_PAYLOAD_DESCRIPTOR_STRUCT_def fits_def)
  then show ?thesis
    using that by (auto simp: TypedPayloadDescriptor_pack_def fixed_width_pack_Inr simp flip: struct_pack_iff)
qed

section \<open>Standard descriptors\<close>

definition TOKEN_DELTA_SCHEMA_ID :: int where "TOKEN_DELTA_SCHEMA_ID = 0x1001"
definition TOKEN_DELTA_SCHEMA_VERSION :: int where "TOKEN_DELTA_SCHEMA_VERSION = 3"
definition TOKEN_DELTA_SCHEMA_HASH :: int where "TOKEN_DELTA_SCHEMA_HASH = 0x6E6E7270746F6B33"

definition token_delta_schema_descriptor :: "SchemaDescriptorHeader res" where
  "token_delta_schema_descriptor = SchemaDescriptorHeader_post_init
     \<lparr>sdh_schema_id = TOKEN_DELTA_SCHEMA_ID, sdh_schema_version = TOKEN_DELTA_SCHEMA_VERSION,
      sdh_profile_id = StandardProfile_int PROFILE_TOKEN, sdh_schema_flags = SDF_NONE,
      sdh_min_version_major = 1, sdh_max_version_major = 1, sdh_body_bytes = 0,
      sdh_dependency_count = 0, sdh_default_stream_semantics = StreamSemantics_int STREAM_APPEND,
      sdh_schema_hash = TOKEN_DELTA_SCHEMA_HASH\<rparr>"

definition token_delta_payload_descriptor ::
    "int \<Rightarrow> int \<Rightarrow> bool \<Rightarrow> bool \<Rightarrow> TypedPayloadDescriptor res" where
  "token_delta_payload_descriptor offset nbytes terminal partial =
     (let flags = TPF_NONE;
          flags = (if terminal then flags OR TPF_TERMINAL else flags);
          flags = (if partial then flags OR TPF_PARTIAL else flags)
      in TypedPayloadDescriptor_post_init
           \<lparr>tpd_profile_id = StandardProfile_int PROFILE_TOKEN, tpd_payload_kind = PK_TOKEN_CHUNK,
            tpd_descriptor_flags = flags, tpd_schema_id = TOKEN_DELTA_SCHEMA_ID,
            tpd_schema_version = TOKEN_DELTA_SCHEMA_VERSION,
            tpd_stream_semantics = StreamSemantics_int STREAM_APPEND,
            tpd_offset = offset, tpd_length = nbytes\<rparr>)"

definition tensor_payload_descriptor ::
    "int \<Rightarrow> int \<Rightarrow> int \<Rightarrow> int \<Rightarrow> int \<Rightarrow> int \<Rightarrow> TypedPayloadDescriptor res" where
  "tensor_payload_descriptor schema_id schema_version stream_semantics offset nbytes descriptor_flags =
     TypedPayloadDescriptor_post_init
       \<lparr>tpd_profile_id = StandardProfile_int PROFILE_TENSOR, tpd_payload_kind = PK_TENSOR,
        tpd_descriptor_flags = descriptor_flags, tpd_schema_id = schema_id,
        tpd_schema_version = schema_version, tpd_stream_semantics = stream_semantics,
        tpd_offset = offset, tpd_length = nbytes\<rparr>"

definition unspecified_payload_descriptor ::
    "int \<Rightarrow> int \<Rightarrow> int \<Rightarrow> int \<Rightarrow> int \<Rightarrow> TypedPayloadDescriptor res" where
  "unspecified_payload_descriptor offset nbytes schema_id schema_version payload_kind =
     TypedPayloadDescriptor_post_init
       \<lparr>tpd_profile_id = StandardProfile_int PROFILE_UNSPECIFIED, tpd_payload_kind = payload_kind,
        tpd_descriptor_flags = TPF_NONE, tpd_schema_id = schema_id,
        tpd_schema_version = schema_version,
        tpd_stream_semantics = StreamSemantics_int STREAM_UNSPECIFIED,
        tpd_offset = offset, tpd_length = nbytes\<rparr>"

section \<open>Functions that may delegate to the native codec\<close>

text \<open>The methods of the \<open>SchemaCodec\<close> protocol, implemented by the native runtime.\<close>

record schema_codec =
  parse_schema_descriptor :: "bytes \<Rightarrow> SchemaDescriptorHeader res"
  write_schema_descriptor :: "SchemaDescriptorHeader \<Rightarrow> bytes res"
  parse_typed_payload_descriptor :: "bytes \<Rightarrow> TypedPayloadDescriptor res"
  write_typed_payload_descriptor :: "TypedPayloadDescriptor \<Rightarrow> bytes res"
  codec_validate_binding ::
    "SchemaDescriptorHeader list \<Rightarrow> TypedPayloadDescriptor \<Rightarrow> unit res"

definition pack_schema_descriptor ::
    "SchemaDescriptorHeader \<Rightarrow> schema_codec option \<Rightarrow> bytes res" where
  "pack_schema_descriptor descriptor codec =
     (case codec of Some c \<Rightarrow> write_schema_descriptor c descriptor
      | None \<Rightarrow> SchemaDescriptorHeader_pack descriptor)"

definition unpack_schema_descriptor ::
    "bytes \<Rightarrow> schema_codec option \<Rightarrow> SchemaDescriptorHeader res" where
  "unpack_schema_descriptor payload codec =
     (case codec of Some c \<Rightarrow> parse_schema_descriptor c payload
      | None \<Rightarrow> SchemaDescriptorHeader_unpack payload)"

definition pack_typed_payload_descriptor ::
    "TypedPayloadDescriptor \<Rightarrow> schema_codec option \<Rightarrow> bytes res" where
  "pack_typed_payload_descriptor descriptor codec =
     (case codec of Some c \<Rightarrow> write_typed_payload_descriptor c descriptor
      | None \<Rightarrow> TypedPayloadDescriptor_pack descriptor)"

definition unpack_typed_payload_descriptor ::
    "bytes \<Rightarrow> schema_codec option \<Rightarrow> TypedPayloadDescriptor res" where
  "unpack_typed_payload_descriptor payload codec =
     (case codec of Some c \<Rightarrow> parse_typed_payload_descriptor c payload
      | None \<Rightarrow> TypedPayloadDescriptor_unpack payload)"

definition validate_typed_payload_binding ::
    "SchemaDescriptorHeader list \<Rightarrow> TypedPayloadDescriptor \<Rightarrow> schema_codec option \<Rightarrow> unit res" where
  "validate_typed_payload_binding schemas descriptor codec =
     (case codec of
        Some c \<Rightarrow> codec_validate_binding c schemas descriptor
      | None \<Rightarrow>
          if tpd_profile_id descriptor = StandardProfile_int PROFILE_UNSPECIFIED then Inr ()
          else if list_ex (\<lambda>s. sdh_schema_id s = tpd_schema_id descriptor
                  \<and> sdh_schema_version s = tpd_schema_version descriptor
                  \<and> sdh_profile_id s = tpd_profile_id descriptor) schemas
          then Inr ()
          else ve ''typed payload descriptor does not match an installed schema descriptor'')"

end
