(* ===== verification/Payload_Frames.thy ===== *)
theory Payload_Frames
  imports Data_Messages Schema_Descriptors
begin

text \<open>
  Typed payload frames and extension frames of \<open>core/packet.py\<close>.  Both are carried as a table
  of fixed-width descriptors and a region of payload bytes the descriptors point into; the
  locale \<open>described_frames\<close> states what the two have in common, and holds the round trip.
\<close>

section \<open>Descriptor offsets\<close>

text \<open>
  The loop of \<open>_validate_descriptor_offsets\<close>.  The two accessors stand for its
  \<open>isinstance\<close> case distinction.
\<close>

fun descriptor_offsets_from ::
    "('d \<Rightarrow> int) \<Rightarrow> ('d \<Rightarrow> int) \<Rightarrow> int \<Rightarrow> int \<Rightarrow> 'd list \<Rightarrow> unit res" where
  "descriptor_offsets_from off extent region previous_end [] = Inr ()"
| "descriptor_offsets_from off extent region previous_end (d # ds) =
     (if off d < previous_end
      then ve ''descriptors must be ordered by non-overlapping ascending offsets''
      else if off d + extent d > region then ve ''region is shorter than descriptor table requires''
      else descriptor_offsets_from off extent region (off d + extent d) ds)"

definition validate_descriptor_offsets ::
    "('d \<Rightarrow> int) \<Rightarrow> ('d \<Rightarrow> int) \<Rightarrow> 'd list \<Rightarrow> int \<Rightarrow> unit res" where
  "validate_descriptor_offsets off extent descriptors payload_region_length =
     descriptor_offsets_from off extent payload_region_length (- 1) descriptors"

text \<open>
  The loop of \<open>pack_typed_payload_frames\<close> and \<open>pack_extension_frames\<close>: every frame is
  normalized by its builder, described at the running offset, and its payload appended.
\<close>

fun describe_frames ::
    "('f \<Rightarrow> 'f res) \<Rightarrow> ('f \<Rightarrow> int \<Rightarrow> 'd res) \<Rightarrow> ('f \<Rightarrow> bytes) \<Rightarrow> int \<Rightarrow> 'f list \<Rightarrow> ('d list \<times> bytes) res" where
  "describe_frames build descr payload offset [] = Inr ([], [])"
| "describe_frames build descr payload offset (f # fs) =
     bind_res (build f) (\<lambda>n.
     bind_res (descr n offset) (\<lambda>d.
     bind_res (describe_frames build descr payload (offset + len (payload n)) fs) (\<lambda>(ds, bs).
       Inr (d # ds, payload n @ bs))))"

section \<open>Typed payload frames\<close>

record TypedPayloadFrame =
  tfr_payload_kind :: int
  tfr_payload :: bytes
  tfr_profile_id :: int
  tfr_descriptor_flags :: int
  tfr_schema_id :: int
  tfr_schema_version :: int
  tfr_stream_semantics :: int

text \<open>
  \<open>TypedPayloadDescriptor(...)\<close> with the fields of a frame, as the builder (offset 0) and the
  packing loop construct it.
\<close>

definition typed_frame_descriptor :: "TypedPayloadFrame \<Rightarrow> int \<Rightarrow> TypedPayloadDescriptor res" where
  "typed_frame_descriptor f offset = TypedPayloadDescriptor_post_init
     \<lparr>tpd_profile_id = tfr_profile_id f, tpd_payload_kind = tfr_payload_kind f,
      tpd_descriptor_flags = tfr_descriptor_flags f, tpd_schema_id = tfr_schema_id f,
      tpd_schema_version = tfr_schema_version f, tpd_stream_semantics = tfr_stream_semantics f,
      tpd_offset = offset, tpd_length = len (tfr_payload f)\<rparr>"

text \<open>The argument holds the keyword arguments of the call.\<close>

definition build_typed_payload_frame :: "TypedPayloadFrame \<Rightarrow> TypedPayloadFrame res" where
  "build_typed_payload_frame f =
     (let normalized_kind = PayloadKind_call (tfr_payload_kind f); raw_kind = normalized_kind
      in if raw_kind = 0 \<or> raw_kind AND (raw_kind - 1) \<noteq> 0
         then ve ''payload_kind must contain exactly one current payload kind bit''
         else if normalized_kind = PK_TENSOR
         then ve ''tensor payloads must be encoded through tensor body blocks''
         else bind_res (typed_frame_descriptor (f\<lparr>tfr_payload_kind := normalized_kind\<rparr>) 0) (\<lambda>descriptor.
           Inr \<lparr>tfr_payload_kind = normalized_kind, tfr_payload = tfr_payload f,
                tfr_profile_id = tpd_profile_id descriptor,
                tfr_descriptor_flags = TypedPayloadDescriptorFlags_call (tpd_descriptor_flags descriptor),
                tfr_schema_id = tpd_schema_id descriptor,
                tfr_schema_version = tpd_schema_version descriptor,
                tfr_stream_semantics = tpd_stream_semantics descriptor\<rparr>))"

definition parse_typed_payload_frame :: "TypedPayloadFrame \<Rightarrow> int option \<Rightarrow> TypedPayloadFrame res" where
  "parse_typed_payload_frame frame expected_kind =
     bind_res (build_typed_payload_frame frame) (\<lambda>normalized.
       case expected_kind of
         None \<Rightarrow> Inr normalized
       | Some k \<Rightarrow>
           if tfr_payload_kind normalized \<noteq> PayloadKind_call k
           then ve ''expected another typed payload frame kind'' else Inr normalized)"

definition plain_frame :: "int \<Rightarrow> bytes \<Rightarrow> int \<Rightarrow> TypedPayloadFrame" where
  "plain_frame kind payload profile_id =
     \<lparr>tfr_payload_kind = kind, tfr_payload = payload, tfr_profile_id = profile_id,
      tfr_descriptor_flags = TPF_NONE, tfr_schema_id = 0, tfr_schema_version = 0,
      tfr_stream_semantics = StreamSemantics_int STREAM_UNSPECIFIED\<rparr>"

definition build_token_chunk_frame :: "bytes \<Rightarrow> int \<Rightarrow> TypedPayloadFrame res" where
  "build_token_chunk_frame payload profile_id = build_typed_payload_frame
     \<lparr>tfr_payload_kind = PK_TOKEN_CHUNK, tfr_payload = payload, tfr_profile_id = profile_id,
      tfr_descriptor_flags = TPF_PARTIAL, tfr_schema_id = TOKEN_DELTA_SCHEMA_ID,
      tfr_schema_version = TOKEN_DELTA_SCHEMA_VERSION,
      tfr_stream_semantics = StreamSemantics_int STREAM_APPEND\<rparr>"

definition build_audio_chunk_frame :: "bytes \<Rightarrow> int \<Rightarrow> TypedPayloadFrame res" where
  "build_audio_chunk_frame payload profile_id =
     build_typed_payload_frame (plain_frame PK_AUDIO_CHUNK payload profile_id)"

definition build_video_chunk_frame :: "bytes \<Rightarrow> int \<Rightarrow> TypedPayloadFrame res" where
  "build_video_chunk_frame payload profile_id =
     build_typed_payload_frame (plain_frame PK_VIDEO_CHUNK payload profile_id)"

definition build_structured_event_frame :: "bytes \<Rightarrow> int \<Rightarrow> TypedPayloadFrame res" where
  "build_structured_event_frame payload profile_id =
     build_typed_payload_frame (plain_frame PK_STRUCTURED_EVENT payload profile_id)"

definition build_tool_delta_frame :: "bytes \<Rightarrow> int \<Rightarrow> TypedPayloadFrame res" where
  "build_tool_delta_frame payload profile_id =
     build_typed_payload_frame (plain_frame PK_TOOL_DELTA payload profile_id)"

definition build_opaque_bytes_frame :: "bytes \<Rightarrow> int \<Rightarrow> TypedPayloadFrame res" where
  "build_opaque_bytes_frame payload profile_id =
     build_typed_payload_frame (plain_frame PK_OPAQUE_BYTES payload profile_id)"

definition parse_token_chunk_frame :: "TypedPayloadFrame \<Rightarrow> TypedPayloadFrame res" where
  "parse_token_chunk_frame frame = parse_typed_payload_frame frame (Some PK_TOKEN_CHUNK)"

definition parse_audio_chunk_frame :: "TypedPayloadFrame \<Rightarrow> TypedPayloadFrame res" where
  "parse_audio_chunk_frame frame = parse_typed_payload_frame frame (Some PK_AUDIO_CHUNK)"

definition parse_video_chunk_frame :: "TypedPayloadFrame \<Rightarrow> TypedPayloadFrame res" where
  "parse_video_chunk_frame frame = parse_typed_payload_frame frame (Some PK_VIDEO_CHUNK)"

definition parse_structured_event_frame :: "TypedPayloadFrame \<Rightarrow> TypedPayloadFrame res" where
  "parse_structured_event_frame frame = parse_typed_payload_frame frame (Some PK_STRUCTURED_EVENT)"

definition parse_tool_delta_frame :: "TypedPayloadFrame \<Rightarrow> TypedPayloadFrame res" where
  "parse_tool_delta_frame frame = parse_typed_payload_frame frame (Some PK_TOOL_DELTA)"

definition parse_opaque_bytes_frame :: "TypedPayloadFrame \<Rightarrow> TypedPayloadFrame res" where
  "parse_opaque_bytes_frame frame = parse_typed_payload_frame frame (Some PK_OPAQUE_BYTES)"

definition pack_typed_payload_descriptors :: "TypedPayloadDescriptor list \<Rightarrow> bytes res" where
  "pack_typed_payload_descriptors descriptors = pack_table TypedPayloadDescriptor_pack descriptors"

definition unpack_typed_payload_descriptors :: "bytes \<Rightarrow> TypedPayloadDescriptor list res" where
  "unpack_typed_payload_descriptors view =
     (if length view mod TYPED_PAYLOAD_DESCRIPTOR_LENGTH \<noteq> 0
      then ve ''typed payload descriptor bytes must be a multiple of TYPED_PAYLOAD_DESCRIPTOR_LENGTH''
      else unpack_table TYPED_PAYLOAD_DESCRIPTOR_LENGTH TypedPayloadDescriptor_unpack view)"

definition pack_typed_payload_frames :: "TypedPayloadFrame list \<Rightarrow> (bytes \<times> bytes) res" where
  "pack_typed_payload_frames frames =
     bind_res (describe_frames build_typed_payload_frame typed_frame_descriptor tfr_payload 0 frames)
       (\<lambda>(descriptors, payload_region).
       bind_res (pack_typed_payload_descriptors descriptors) (\<lambda>table. Inr (table, payload_region)))"

text \<open>
  \<open>_validate_typed_payload_kind_union\<close>.  \<open>~PayloadKind.TENSOR\<close> is the complement within the
  known bits of the flag class, so bits above them in the bitmap are not looked at.
\<close>

definition descriptor_kind_union :: "TypedPayloadDescriptor list \<Rightarrow> int" where
  "descriptor_kind_union descriptors =
     foldl (\<lambda>u d. u OR tpd_payload_kind d) PK_NONE descriptors"

definition validate_typed_payload_kind_union :: "int \<Rightarrow> TypedPayloadDescriptor list \<Rightarrow> unit res" where
  "validate_typed_payload_kind_union payload_kind_bitmap descriptors =
     (if descriptor_kind_union descriptors \<noteq> payload_kind_bitmap AND PayloadKind_call (NOT PK_TENSOR)
      then ve ''payload_kind_bitmap non-tensor bits must equal the typed descriptor kind union''
      else Inr ())"

definition typed_frame_of_descriptor :: "bytes \<Rightarrow> TypedPayloadDescriptor \<Rightarrow> TypedPayloadFrame" where
  "typed_frame_of_descriptor payload_view d =
     \<lparr>tfr_payload_kind = tpd_payload_kind d,
      tfr_payload = py_slice (tpd_offset d) (tpd_offset d + tpd_length d) payload_view,
      tfr_profile_id = tpd_profile_id d,
      tfr_descriptor_flags = TypedPayloadDescriptorFlags_call (tpd_descriptor_flags d),
      tfr_schema_id = tpd_schema_id d, tfr_schema_version = tpd_schema_version d,
      tfr_stream_semantics = tpd_stream_semantics d\<rparr>"

definition unpack_typed_payload_frames :: "bytes \<Rightarrow> bytes \<Rightarrow> int \<Rightarrow> TypedPayloadFrame list res" where
  "unpack_typed_payload_frames descriptor_region payload_view payload_kind_bitmap =
     bind_res (unpack_typed_payload_descriptors descriptor_region) (\<lambda>descriptors.
     bind_res (validate_descriptor_offsets tpd_offset tpd_length descriptors (len payload_view)) (\<lambda>_.
     bind_res (validate_typed_payload_kind_union (PayloadKind_call payload_kind_bitmap) descriptors) (\<lambda>_.
       Inr (map (typed_frame_of_descriptor payload_view) descriptors))))"

section \<open>Extension frames\<close>

record ExtensionFrame =
  xfr_extension_kind :: int
  xfr_payload :: bytes
  xfr_profile_id :: int
  xfr_extension_flags :: int

definition extension_frame_descriptor :: "ExtensionFrame \<Rightarrow> int \<Rightarrow> ExtensionFrameDescriptor res" where
  "extension_frame_descriptor f offset = ExtensionFrameDescriptor_post_init
     \<lparr>efd_extension_kind = xfr_extension_kind f, efd_extension_flags = xfr_extension_flags f,
      efd_profile_id = xfr_profile_id f, efd_reserved0 = 0, efd_payload_offset = offset,
      efd_payload_length = len (xfr_payload f)\<rparr>"

definition build_extension_frame :: "ExtensionFrame \<Rightarrow> ExtensionFrame res" where
  "build_extension_frame f =
     bind_res (extension_frame_descriptor f 0) (\<lambda>descriptor.
       Inr \<lparr>xfr_extension_kind = efd_extension_kind descriptor, xfr_payload = xfr_payload f,
            xfr_profile_id = efd_profile_id descriptor,
            xfr_extension_flags = efd_extension_flags descriptor\<rparr>)"

definition pack_extension_frame_descriptors :: "ExtensionFrameDescriptor list \<Rightarrow> bytes res" where
  "pack_extension_frame_descriptors descriptors = pack_table ExtensionFrameDescriptor_pack descriptors"

definition unpack_extension_frame_descriptors :: "bytes \<Rightarrow> ExtensionFrameDescriptor list res" where
  "unpack_extension_frame_descriptors view =
     (if length view mod EXTENSION_FRAME_DESCRIPTOR_LENGTH \<noteq> 0
      then ve ''extension frame descriptor bytes must be a multiple of EXTENSION_FRAME_DESCRIPTOR_LENGTH''
      else unpack_table EXTENSION_FRAME_DESCRIPTOR_LENGTH ExtensionFrameDescriptor_unpack view)"

definition pack_extension_frames :: "ExtensionFrame list \<Rightarrow> (bytes \<times> bytes) res" where
  "pack_extension_frames frames =
     bind_res (describe_frames build_extension_frame extension_frame_descriptor xfr_payload 0 frames)
       (\<lambda>(descriptors, payload_region).
       bind_res (pack_extension_frame_descriptors descriptors) (\<lambda>table. Inr (table, payload_region)))"

definition extension_frame_of_descriptor :: "bytes \<Rightarrow> ExtensionFrameDescriptor \<Rightarrow> ExtensionFrame" where
  "extension_frame_of_descriptor payload_view d =
     \<lparr>xfr_extension_kind = efd_extension_kind d,
      xfr_payload = py_slice (efd_payload_offset d) (efd_payload_offset d + efd_payload_length d) payload_view,
      xfr_profile_id = efd_profile_id d, xfr_extension_flags = efd_extension_flags d\<rparr>"

fun collect_extension_frames ::
    "int set option \<Rightarrow> bytes \<Rightarrow> ExtensionFrameDescriptor list \<Rightarrow> ExtensionFrame list res" where
  "collect_extension_frames known view [] = Inr []"
| "collect_extension_frames known view (d # ds) =
     (if known \<noteq> None \<and> efd_extension_kind d \<notin> the known then
        if truthy (efd_extension_flags d AND EFF_CRITICAL) then ve ''unknown critical extension frame kind''
        else collect_extension_frames known view ds
      else bind_res (collect_extension_frames known view ds) (\<lambda>frames.
        Inr (extension_frame_of_descriptor view d # frames)))"

definition unpack_extension_frames ::
    "bytes \<Rightarrow> bytes \<Rightarrow> int set option \<Rightarrow> ExtensionFrame list res" where
  "unpack_extension_frames descriptor_region payload_view known_extension_kinds =
     bind_res (unpack_extension_frame_descriptors descriptor_region) (\<lambda>descriptors.
     bind_res (validate_descriptor_offsets efd_payload_offset efd_payload_length descriptors
         (len payload_view)) (\<lambda>_.
       collect_extension_frames known_extension_kinds payload_view descriptors))"

section \<open>What the offset check guarantees\<close>

text \<open>The payloads lie inside the region, in the order of the table, and do not overlap.\<close>

lemma descriptor_offsets_from_bounds:
  "descriptor_offsets_from off extent region prev ds = Inr () \<Longrightarrow> \<forall>d \<in> set ds. 0 \<le> extent d \<Longrightarrow>
     (\<forall>d \<in> set ds. prev \<le> off d \<and> off d + extent d \<le> region) \<and>
     sorted_wrt (\<lambda>d e. off d + extent d \<le> off e) ds"
proof (induction off extent region prev ds rule: descriptor_offsets_from.induct)
  case (2 off extent region prev d ds)
  then have "\<not> off d < prev" "\<not> off d + extent d > region" "0 \<le> extent d"
    and rest: "(\<forall>e \<in> set ds. off d + extent d \<le> off e \<and> off e + extent e \<le> region) \<and>
      sorted_wrt (\<lambda>d e. off d + extent d \<le> off e) ds"
    by (auto split: if_splits)
  then show ?case by (fastforce simp: not_less)
qed simp

section \<open>The round trip of a described region\<close>

locale described_frames =
  fixes build :: "'f \<Rightarrow> 'f res"
    and descr :: "'f \<Rightarrow> int \<Rightarrow> 'd res"
    and payload :: "'f \<Rightarrow> bytes"
    and off :: "'d \<Rightarrow> int"
    and extent :: "'d \<Rightarrow> int"
    and frame_of :: "bytes \<Rightarrow> 'd \<Rightarrow> 'f"
  assumes build_payload: "build f = Inr n \<Longrightarrow> payload n = payload f"
    and descr_place: "descr n o1 = Inr d \<Longrightarrow> off d = o1 \<and> extent d = len (payload n)"
    and frame_of_descr: "build f = Inr n \<Longrightarrow> descr n o1 = Inr d \<Longrightarrow>
      py_slice o1 (o1 + len (payload n)) view = payload n \<Longrightarrow> frame_of view d = n"
begin

lemma describe_frames_place:
  "describe_frames build descr payload (len pre) fs = Inr (ds, r) \<Longrightarrow> prev \<le> len pre \<Longrightarrow>
     descriptor_offsets_from off extent (len (pre @ r @ post)) prev ds = Inr () \<and>
     map_res build fs = Inr (map (frame_of (pre @ r @ post)) ds) \<and>
     r = concat (map payload fs)"
proof (induction fs arbitrary: pre ds r prev)
  case Nil
  then show ?case by simp
next
  case (Cons f fs)
  then obtain n d ds' r' where n: "build f = Inr n" and d: "descr n (len pre) = Inr d"
    and rest: "describe_frames build descr payload (len (pre @ payload n)) fs = Inr (ds', r')"
    and ds: "ds = d # ds'" "r = payload n @ r'"
    by (auto simp: res_simps split: prod.splits)
  have place: "off d = len pre" "extent d = len (payload n)"
    using descr_place [OF d] by simp_all
  have "py_slice (len pre) (len pre + len (payload n)) (pre @ payload n @ (r' @ post)) = payload n"
    by (intro py_slice_append_mid) simp_all
  then have "frame_of (pre @ r @ post) d = n"
    using frame_of_descr [OF n d] ds(2) by simp
  moreover have "descriptor_offsets_from off extent (len ((pre @ payload n) @ r' @ post)) (len (pre @ payload n)) ds' = Inr () \<and>
      map_res build fs = Inr (map (frame_of ((pre @ payload n) @ r' @ post)) ds') \<and> r' = concat (map payload fs)"
    using rest by (rule Cons.IH) simp
  ultimately have "descriptor_offsets_from off extent (len (pre @ r @ post)) prev ds = Inr ()"
    "map_res build (f # fs) = Inr (map (frame_of (pre @ r @ post)) ds)"
    "r' = concat (map payload fs)"
    using n place Cons.prems(2) by (auto simp add: add.assoc ds)
  then show ?case
    using build_payload [OF n] by (simp add: ds)
qed

theorem describe_frames_round_trip:
  assumes "describe_frames build descr payload 0 fs = Inr (ds, r)"
  shows "validate_descriptor_offsets off extent ds (len r) = Inr ()"
    and "map_res build fs = Inr (map (frame_of r) ds)"
    and "r = concat (map payload fs)"
proof -
  have *: "descriptor_offsets_from off extent (len ([] @ r @ [])) (- 1) ds = Inr () \<and>
      map_res build fs = Inr (map (frame_of ([] @ r @ [])) ds) \<and> r = concat (map payload fs)"
    by (rule describe_frames_place) (use assms in simp_all)
  from conjunct1 [OF *] show "validate_descriptor_offsets off extent ds (len r) = Inr ()"
    by (simp add: validate_descriptor_offsets_def)
  from conjunct1 [OF conjunct2 [OF *]] show "map_res build fs = Inr (map (frame_of r) ds)"
    by simp
  from conjunct2 [OF conjunct2 [OF *]] show "r = concat (map payload fs)" .
qed

lemma describe_frames_descr:
  "describe_frames build descr payload o1 fs = Inr (ds, r) \<Longrightarrow>
     list_all2 (\<lambda>f d. \<exists>n o2. build f = Inr n \<and> descr n o2 = Inr d) fs ds"
  by (induction fs arbitrary: o1 ds r) (auto simp: res_simps split: prod.splits)

end

text \<open>Both kinds of frame are described this way.\<close>

lemma TypedPayloadDescriptor_wf_flags:
  "TypedPayloadDescriptor_wf d \<Longrightarrow>
     TypedPayloadDescriptorFlags_call (tpd_descriptor_flags d) = tpd_descriptor_flags d"
  by (auto simp: TypedPayloadDescriptor_wf_def TypedPayloadDescriptor_post_init_def res_simps
      validate_Inr_iff TypedPayloadDescriptorFlags_call_def)

lemma typed_frame_descriptor_iff:
  "typed_frame_descriptor f o1 = Inr d \<longleftrightarrow> TypedPayloadDescriptor_wf d \<and>
     d = \<lparr>tpd_profile_id = tfr_profile_id f, tpd_payload_kind = tfr_payload_kind f,
      tpd_descriptor_flags = tfr_descriptor_flags f, tpd_schema_id = tfr_schema_id f,
      tpd_schema_version = tfr_schema_version f, tpd_stream_semantics = tfr_stream_semantics f,
      tpd_offset = o1, tpd_length = len (tfr_payload f)\<rparr>"
  by (auto simp: typed_frame_descriptor_def TypedPayloadDescriptor_post_init_iff)

text \<open>What the builder does: it normalizes the kind and checks the rest.\<close>

lemma build_typed_payload_frame_iff:
  "build_typed_payload_frame f = Inr n \<longleftrightarrow>
     n = f\<lparr>tfr_payload_kind := PayloadKind_call (tfr_payload_kind f)\<rparr> \<and>
     tfr_payload_kind n \<noteq> 0 \<and> tfr_payload_kind n AND (tfr_payload_kind n - 1) = 0 \<and>
     tfr_payload_kind n \<noteq> 1 \<and> (\<exists>d. typed_frame_descriptor n 0 = Inr d)"
proof -
  let ?g = "f\<lparr>tfr_payload_kind := PayloadKind_call (tfr_payload_kind f)\<rparr>"
  have "\<lparr>tfr_payload_kind = PayloadKind_call (tfr_payload_kind f), tfr_payload = tfr_payload f,
         tfr_profile_id = tpd_profile_id d,
         tfr_descriptor_flags = TypedPayloadDescriptorFlags_call (tpd_descriptor_flags d),
         tfr_schema_id = tpd_schema_id d, tfr_schema_version = tpd_schema_version d,
         tfr_stream_semantics = tpd_stream_semantics d\<rparr> = ?g"
    if "typed_frame_descriptor ?g 0 = Inr d" for d
    using that TypedPayloadDescriptor_wf_flags [of d] by (cases f) (auto simp: typed_frame_descriptor_iff)
  then show ?thesis
    by (auto simp: build_typed_payload_frame_def Let_def res_simps)
qed

interpretation typed: described_frames build_typed_payload_frame typed_frame_descriptor tfr_payload
  tpd_offset tpd_length typed_frame_of_descriptor
proof unfold_locales
  fix f n o1 d view
  show "tfr_payload n = tfr_payload f" if "build_typed_payload_frame f = Inr n"
    using that by (auto simp: build_typed_payload_frame_iff)
  show "tpd_offset d = o1 \<and> tpd_length d = len (tfr_payload n)" if "typed_frame_descriptor n o1 = Inr d"
    using that by (auto simp: typed_frame_descriptor_iff)
  show "typed_frame_of_descriptor view d = n"
    if "typed_frame_descriptor n o1 = Inr d" "py_slice o1 (o1 + len (tfr_payload n)) view = tfr_payload n"
    using that by (cases n) (auto simp: typed_frame_descriptor_iff typed_frame_of_descriptor_def
        dest: TypedPayloadDescriptor_wf_flags)
qed

lemma extension_frame_descriptor_iff:
  "extension_frame_descriptor f o1 = Inr d \<longleftrightarrow> ExtensionFrameDescriptor_wf d \<and>
     d = \<lparr>efd_extension_kind = xfr_extension_kind f, efd_extension_flags = xfr_extension_flags f,
      efd_profile_id = xfr_profile_id f, efd_reserved0 = 0, efd_payload_offset = o1,
      efd_payload_length = len (xfr_payload f)\<rparr>"
  by (auto simp: extension_frame_descriptor_def ExtensionFrameDescriptor_post_init_iff)

lemma build_extension_frame_iff:
  "build_extension_frame f = Inr n \<longleftrightarrow> n = f \<and> (\<exists>d. extension_frame_descriptor f 0 = Inr d)"
  by (cases f) (auto simp: build_extension_frame_def res_simps extension_frame_descriptor_iff)

interpretation extension: described_frames build_extension_frame extension_frame_descriptor xfr_payload
  efd_payload_offset efd_payload_length extension_frame_of_descriptor
proof unfold_locales
  fix f n o1 d view
  show "xfr_payload n = xfr_payload f" if "build_extension_frame f = Inr n"
    using that by (auto simp: build_extension_frame_iff)
  show "efd_payload_offset d = o1 \<and> efd_payload_length d = len (xfr_payload n)"
    if "extension_frame_descriptor n o1 = Inr d"
    using that by (auto simp: extension_frame_descriptor_iff)
  show "extension_frame_of_descriptor view d = n"
    if "extension_frame_descriptor n o1 = Inr d" "py_slice o1 (o1 + len (xfr_payload n)) view = xfr_payload n"
    using that by (cases n) (auto simp: extension_frame_descriptor_iff extension_frame_of_descriptor_def)
qed

section \<open>Descriptor tables\<close>

interpretation tpds: exact_codec pack_typed_payload_descriptors unpack_typed_payload_descriptors
  "list_all TypedPayloadDescriptor_wf"
proof unfold_locales
  fix ms bs
  show "unpack_typed_payload_descriptors bs = Inr ms"
    if "list_all TypedPayloadDescriptor_wf ms" "pack_typed_payload_descriptors ms = Inr bs"
    using that tpd.unpack_table_pack [of ms bs] tpd.pack_table_size [of ms bs]
    by (simp add: pack_typed_payload_descriptors_def unpack_typed_payload_descriptors_def
        TYPED_PAYLOAD_DESCRIPTOR_LENGTH_def)
  show "pack_typed_payload_descriptors ms = Inr bs" "list_all TypedPayloadDescriptor_wf ms"
    if "unpack_typed_payload_descriptors bs = Inr ms"
    using that tpd.pack_table_unpack_mod [of bs ms] tpd.unpack_table_wf [of bs ms]
    by (simp_all add: pack_typed_payload_descriptors_def unpack_typed_payload_descriptors_def
        TYPED_PAYLOAD_DESCRIPTOR_LENGTH_def split: if_splits)
qed

interpretation efds: exact_codec pack_extension_frame_descriptors unpack_extension_frame_descriptors
  "list_all ExtensionFrameDescriptor_wf"
proof unfold_locales
  fix ms bs
  show "unpack_extension_frame_descriptors bs = Inr ms"
    if "list_all ExtensionFrameDescriptor_wf ms" "pack_extension_frame_descriptors ms = Inr bs"
    using that efd.unpack_table_pack [of ms bs] efd.pack_table_size [of ms bs]
    by (simp add: pack_extension_frame_descriptors_def unpack_extension_frame_descriptors_def
        EXTENSION_FRAME_DESCRIPTOR_LENGTH_def)
  show "pack_extension_frame_descriptors ms = Inr bs" "list_all ExtensionFrameDescriptor_wf ms"
    if "unpack_extension_frame_descriptors bs = Inr ms"
    using that efd.pack_table_unpack_mod [of bs ms] efd.unpack_table_wf [of bs ms]
    by (simp_all add: pack_extension_frame_descriptors_def unpack_extension_frame_descriptors_def
        EXTENSION_FRAME_DESCRIPTOR_LENGTH_def split: if_splits)
qed

section \<open>Typed frames through the wire\<close>

definition frame_kind_union :: "TypedPayloadFrame list \<Rightarrow> int" where
  "frame_kind_union frames = foldl (\<lambda>u f. u OR tfr_payload_kind f) PK_NONE frames"

lemma descriptor_kind_union_frames:
  "descriptor_kind_union ds = frame_kind_union (map (typed_frame_of_descriptor view) ds)"
  by (simp add: descriptor_kind_union_def frame_kind_union_def foldl_map typed_frame_of_descriptor_def)

lemma PayloadKind_not_tensor [simp]: "PayloadKind_call (- 2) = 126"
  by (simp add: PayloadKind_call_def int_flag_def)

lemma pack_typed_payload_framesE:
  assumes "pack_typed_payload_frames frames = Inr (table, region)"
  obtains ds where "unpack_typed_payload_descriptors table = Inr ds"
    "list_all TypedPayloadDescriptor_wf ds"
    "validate_descriptor_offsets tpd_offset tpd_length ds (len region) = Inr ()"
    "map_res build_typed_payload_frame frames = Inr (map (typed_frame_of_descriptor region) ds)"
    "region = concat (map tfr_payload frames)" "length ds = length frames"
proof -
  from assms obtain ds where
    ds: "describe_frames build_typed_payload_frame typed_frame_descriptor tfr_payload 0 frames = Inr (ds, region)"
    and table: "pack_typed_payload_descriptors ds = Inr table"
    by (auto simp: pack_typed_payload_frames_def res_simps split: prod.splits)
  note both = typed.describe_frames_descr [OF ds]
  have wf: "list_all TypedPayloadDescriptor_wf ds"
    using both by (auto simp: list_all2_conv_all_nth list_all_length typed_frame_descriptor_iff)
  show ?thesis
    using that [of ds] tpds.unpack_pack [OF wf table] wf typed.describe_frames_round_trip [OF ds]
      list_all2_lengthD [OF both] by simp
qed

lemma unpack_typed_payload_frames_pack:
  assumes "pack_typed_payload_frames frames = Inr (table, region)"
    and "map_res build_typed_payload_frame frames = Inr ns"
    and "PayloadKind_call bitmap AND 126 = frame_kind_union ns"
  shows "unpack_typed_payload_frames table region bitmap = Inr ns"
  using assms(1)
proof (rule pack_typed_payload_framesE)
  fix ds
  assume ds: "unpack_typed_payload_descriptors table = Inr ds"
    "validate_descriptor_offsets tpd_offset tpd_length ds (len region) = Inr ()"
    "map_res build_typed_payload_frame frames = Inr (map (typed_frame_of_descriptor region) ds)"
  then have "ns = map (typed_frame_of_descriptor region) ds"
    using assms(2) by simp
  with ds assms(3) show ?thesis
    using descriptor_kind_union_frames [of ds region]
    by (simp add: unpack_typed_payload_frames_def validate_typed_payload_kind_union_def)
qed

text \<open>What is read from any typed payload table: the frames are disjoint slices of the region.\<close>

lemma unpack_typed_payload_frames_layout:
  assumes "unpack_typed_payload_frames table region bitmap = Inr frames"
  shows "\<exists>ds. unpack_typed_payload_descriptors table = Inr ds \<and>
    frames = map (typed_frame_of_descriptor region) ds \<and>
    (\<forall>d \<in> set ds. 0 \<le> tpd_offset d \<and> 0 \<le> tpd_length d \<and> tpd_offset d + tpd_length d \<le> len region) \<and>
    sorted_wrt (\<lambda>d e. tpd_offset d + tpd_length d \<le> tpd_offset e) ds \<and>
    frame_kind_union frames = PayloadKind_call bitmap AND 126"
proof -
  from assms obtain ds where ds: "unpack_typed_payload_descriptors table = Inr ds"
    "validate_descriptor_offsets tpd_offset tpd_length ds (len region) = Inr ()"
    "descriptor_kind_union ds = PayloadKind_call bitmap AND 126"
    "frames = map (typed_frame_of_descriptor region) ds"
    by (auto simp: unpack_typed_payload_frames_def validate_typed_payload_kind_union_def res_simps)
  have "list_all TypedPayloadDescriptor_wf ds"
    by (rule tpds.unpack_wf [OF ds(1)])
  then have sizes: "\<forall>d \<in> set ds. 0 \<le> tpd_offset d \<and> 0 \<le> tpd_length d"
    by (auto simp: list_all_iff TypedPayloadDescriptor_wf_def TypedPayloadDescriptor_post_init_def
        res_simps validate_Inr_iff)
  have "descriptor_offsets_from tpd_offset tpd_length (len region) (- 1) ds = Inr ()"
    using ds(2) by (simp add: validate_descriptor_offsets_def)
  then have "(\<forall>d \<in> set ds. - 1 \<le> tpd_offset d \<and> tpd_offset d + tpd_length d \<le> len region) \<and>
      sorted_wrt (\<lambda>d e. tpd_offset d + tpd_length d \<le> tpd_offset e) ds"
    using sizes by (intro descriptor_offsets_from_bounds) simp_all
  then show ?thesis
    using ds sizes descriptor_kind_union_frames [of ds region] by auto
qed

section \<open>Extension frames through the wire\<close>

definition extension_unknown :: "int set option \<Rightarrow> ExtensionFrame \<Rightarrow> bool" where
  "extension_unknown known f \<longleftrightarrow> (\<exists>k. known = Some k \<and> xfr_extension_kind f \<notin> k)"

definition extension_critical :: "ExtensionFrame \<Rightarrow> bool" where
  "extension_critical f \<longleftrightarrow> truthy (xfr_extension_flags f AND EFF_CRITICAL)"

lemma collect_extension_frames_spec:
  "collect_extension_frames known view ds =
     (let fs = map (extension_frame_of_descriptor view) ds in
      if list_ex (\<lambda>f. extension_unknown known f \<and> extension_critical f) fs
      then ve ''unknown critical extension frame kind''
      else Inr (filter (\<lambda>f. \<not> extension_unknown known f) fs))"
proof (induction ds)
  case Nil
  then show ?case by simp
next
  case (Cons d ds)
  let ?f = "extension_frame_of_descriptor view d"
  have "known \<noteq> None \<and> efd_extension_kind d \<notin> the known \<longleftrightarrow> extension_unknown known ?f"
    by (cases known) (simp_all add: extension_unknown_def extension_frame_of_descriptor_def)
  moreover have "truthy (efd_extension_flags d AND EFF_CRITICAL) \<longleftrightarrow> extension_critical ?f"
    by (simp add: extension_critical_def extension_frame_of_descriptor_def)
  ultimately show ?case
    by (simp only: collect_extension_frames.simps Cons.IH) (simp add: Let_def)
qed

lemma unpack_extension_frames_pack:
  assumes "pack_extension_frames frames = Inr (table, region)"
  shows "unpack_extension_frames table region known =
    (if list_ex (\<lambda>f. extension_unknown known f \<and> extension_critical f) frames
     then ve ''unknown critical extension frame kind''
     else Inr (filter (\<lambda>f. \<not> extension_unknown known f) frames))"
proof -
  from assms obtain ds where
    ds: "describe_frames build_extension_frame extension_frame_descriptor xfr_payload 0 frames = Inr (ds, region)"
    and table: "pack_extension_frame_descriptors ds = Inr table"
    by (auto simp: pack_extension_frames_def res_simps split: prod.splits)
  have wf: "list_all ExtensionFrameDescriptor_wf ds"
    using extension.describe_frames_descr [OF ds]
    by (auto simp: list_all2_conv_all_nth list_all_length extension_frame_descriptor_iff)
  have "frames = map (extension_frame_of_descriptor region) ds"
    using extension.describe_frames_round_trip(2) [OF ds]
    by (auto simp: map_res_Inr_iff list_all2_conv_all_nth build_extension_frame_iff intro: nth_equalityI)
  then show ?thesis
    using efds.unpack_pack [OF wf table] extension.describe_frames_round_trip(1) [OF ds]
    by (simp add: unpack_extension_frames_def collect_extension_frames_spec Let_def)
qed

end
