(* ===== verification/Tensor_Sections.thy ===== *)
theory Tensor_Sections
  imports Alignment Data_Messages Tile_Index
begin

text \<open>
  Tensor sections of \<open>core/packet.py\<close>: \<open>TensorSectionData\<close> and its packing
  (\<open>pack_tensor_section_data\<close>, \<open>pack_tensor_section\<close>, \<open>_pack_section_sequence\<close>,
  \<open>_pack_tensor_section_region\<close>), \<open>TensorSectionView\<close> and its parsing
  (\<open>_parse_tensor_section\<close>, \<open>unpack_tensor_body\<close>), and the slices of a section's payload.
\<close>

abbreviation TENSOR_SECTION_DESC_LENGTH :: int where
  "TENSOR_SECTION_DESC_LENGTH \<equiv> 32"

record TensorSectionData =
  tdat_role_id :: int
  tdat_default_codec_id :: int
  tdat_dtype_id :: TensorDType
  tdat_tile_payloads :: "bytes list"
  tdat_codec_ids :: "int list"
  tdat_layout_id :: TensorLayout
  tdat_scale_policy :: ScalePolicy
  tdat_payload_stride_bytes :: int
  tdat_element_count_per_tile :: int

record TensorSectionView =
  tsv_desc :: TensorSectionDesc
  tsv_codec_table :: bytes
  tsv_length_table :: bytes
  tsv_payload :: bytes

record TensorBodyView =
  tbv_tile_index_block :: bytes
  tbv_sections :: "TensorSectionView list"

section \<open>Views\<close>

definition tsv_total_bytes :: "TensorSectionView \<Rightarrow> int" where
  "tsv_total_bytes v =
     TENSOR_SECTION_DESC_LENGTH + len (tsv_codec_table v) + len (tsv_length_table v) + len (tsv_payload v)"

definition tile_lengths :: "TensorSectionView \<Rightarrow> int list res" where
  "tile_lengths v =
     (if length (tsv_length_table v) mod 4 \<noteq> 0 then ve ''length_table_bytes must be a multiple of 4''
      else unpack_table 4 (unpack_entry FI) (tsv_length_table v))"

text \<open>The two loops of \<open>payload_slices\<close>: fixed stride, and back to back.\<close>

fun stride_slices :: "bytes \<Rightarrow> int \<Rightarrow> int \<Rightarrow> int list \<Rightarrow> bytes list res" where
  "stride_slices payload stride index [] = Inr []"
| "stride_slices payload stride index (item_length # ls) =
     (if item_length > stride then ve ''tile length exceeds stride''
      else let start = index * stride; end_pos = start + stride
           in if any_nonzero (py_slice (start + item_length) end_pos payload)
              then ve ''fixed-stride payload padding must be zero''
              else bind_res (stride_slices payload stride (index + 1) ls) (\<lambda>slices.
                Inr (py_slice start (start + item_length) payload # slices)))"

fun cursor_slices :: "bytes \<Rightarrow> int \<Rightarrow> int list \<Rightarrow> bytes list" where
  "cursor_slices payload cursor [] = []"
| "cursor_slices payload cursor (item_length # ls) =
     py_slice cursor (cursor + item_length) payload # cursor_slices payload (cursor + item_length) ls"

definition payload_slices :: "TensorSectionView \<Rightarrow> bytes list res" where
  "payload_slices v =
     bind_res (tile_lengths v) (\<lambda>lengths.
       let stride = tsd_payload_stride_bytes (tsv_desc v) in
       if truthy stride then
         if len (tsv_payload v) \<noteq> stride * len lengths
         then ve ''expected payload blob of expected_bytes bytes for fixed stride''
         else stride_slices (tsv_payload v) stride 0 lengths
       else if sum_list lengths \<noteq> len (tsv_payload v)
         then ve ''expected payload blob of total_length bytes''
         else Inr (cursor_slices (tsv_payload v) 0 lengths))"

definition build_tensor_section_view ::
    "TensorSectionDesc \<Rightarrow> bytes \<Rightarrow> bytes \<Rightarrow> bytes \<Rightarrow> TensorSectionView res" where
  "build_tensor_section_view desc codec_table length_table payload =
     (if len codec_table \<noteq> tsd_codec_table_bytes desc then ve ''codec_table length mismatch''
      else if len length_table \<noteq> tsd_length_table_bytes desc then ve ''length_table length mismatch''
      else if len payload \<noteq> tsd_payload_bytes desc then ve ''payload length mismatch''
      else if length length_table mod 4 \<noteq> 0 then ve ''length_table_bytes must be a multiple of 4''
      else if truthy (tsd_flags desc AND SF_FIXED_STRIDE) \<and> tsd_payload_stride_bytes desc = 0
      then ve ''fixed-stride section requires payload_stride_bytes''
      else if \<not> truthy (tsd_flags desc AND SF_FIXED_STRIDE) \<and> tsd_payload_stride_bytes desc \<noteq> 0
      then ve ''payload_stride_bytes requires FIXED_STRIDE flag''
      else if truthy (tsd_flags desc AND SF_MIXED_CODEC) \<and> len codec_table = 0
      then ve ''mixed-codec section requires codec_table''
      else if \<not> truthy (tsd_flags desc AND SF_MIXED_CODEC) \<and> len codec_table \<noteq> 0
      then ve ''codec_table requires MIXED_CODEC flag''
      else let length_entry_count = length length_table div 4
           in if length codec_table \<notin> {0, length_entry_count}
              then ve ''codec_table entry count mismatch''
              else Inr \<lparr>tsv_desc = desc, tsv_codec_table = codec_table,
                        tsv_length_table = length_table, tsv_payload = payload\<rparr>)"

section \<open>Packing\<close>

definition pack_tensor_section :: "TensorSectionDesc \<Rightarrow> bytes \<Rightarrow> bytes \<Rightarrow> bytes \<Rightarrow> bytes res" where
  "pack_tensor_section desc codec_table length_table payload =
     (if len codec_table \<noteq> tsd_codec_table_bytes desc then ve ''codec_table length mismatch''
      else if len length_table \<noteq> tsd_length_table_bytes desc then ve ''length_table length mismatch''
      else if len payload \<noteq> tsd_payload_bytes desc then ve ''payload length mismatch''
      else bind_res (build_tensor_section_view desc codec_table length_table payload) (\<lambda>section_view.
           bind_res (payload_slices section_view) (\<lambda>_.
           bind_res (TensorSectionDesc_pack desc) (\<lambda>d. Inr (d @ codec_table @ length_table @ payload)))))"

definition build_codec_table :: "int list \<Rightarrow> int \<Rightarrow> int \<Rightarrow> bytes res" where
  "build_codec_table codec_ids default_codec_id tile_count =
     (if codec_ids = [] then Inr []
      else if len codec_ids \<noteq> tile_count then ve ''codec_ids length mismatch''
      else if list_ex (\<lambda>c. c < 0 \<or> c > 0xFF) codec_ids then ve ''codec ids must fit into u8''
      else if list_all (\<lambda>c. c = default_codec_id) codec_ids then Inr []
      else Inr (map word_of_int codec_ids))"

fun stride_blob :: "int \<Rightarrow> bytes list \<Rightarrow> bytes res" where
  "stride_blob stride [] = Inr []"
| "stride_blob stride (item # items) =
     (if len item > stride then ve ''tile payload length exceeds fixed stride''
      else bind_res (stride_blob stride items) (\<lambda>bs. Inr (item @ zeros (stride - len item) @ bs)))"

definition build_section_payload_blob :: "bytes list \<Rightarrow> int \<Rightarrow> (bytes \<times> int) res" where
  "build_section_payload_blob tile_payloads payload_stride_bytes =
     (if payload_stride_bytes < 0 then ve ''payload_stride_bytes must be non-negative''
      else if payload_stride_bytes = 0 then Inr (concat tile_payloads, SF_NONE)
      else bind_res (stride_blob payload_stride_bytes tile_payloads) (\<lambda>bs. Inr (bs, SF_FIXED_STRIDE)))"

definition pack_tensor_section_data :: "TensorSectionData \<Rightarrow> bytes res" where
  "pack_tensor_section_data s =
     (let tile_payloads = tdat_tile_payloads s; codec_ids = tdat_codec_ids s in
      bind_res (build_codec_table codec_ids (tdat_default_codec_id s) (len tile_payloads)) (\<lambda>codec_table.
      bind_res (pack_table (pack_entry FI) (map len tile_payloads)) (\<lambda>length_table.
      bind_res (build_section_payload_blob tile_payloads (tdat_payload_stride_bytes s))
        (\<lambda>(payload_blob, flags).
        let flags = (if codec_table \<noteq> [] then flags OR SF_MIXED_CODEC else flags);
            desc = \<lparr>tsd_role_id = tdat_role_id s, tsd_codec_id = tdat_default_codec_id s,
                    tsd_dtype_id = tdat_dtype_id s, tsd_layout_id = tdat_layout_id s,
                    tsd_scale_policy = tdat_scale_policy s, tsd_flags = flags,
                    tsd_element_count_per_tile = tdat_element_count_per_tile s,
                    tsd_codec_table_bytes = len codec_table,
                    tsd_length_table_bytes = len length_table,
                    tsd_payload_bytes = len payload_blob,
                    tsd_payload_stride_bytes = tdat_payload_stride_bytes s, tsd_reserved = 0\<rparr>
        in pack_tensor_section desc codec_table length_table payload_blob))))"

fun pack_section_sequence_from ::
    "int option \<Rightarrow> int \<Rightarrow> TensorSectionData list \<Rightarrow> bytes list res" where
  "pack_section_sequence_from previous_role_id tile_count [] = Inr []"
| "pack_section_sequence_from previous_role_id tile_count (s # ss) =
     (if given_and previous_role_id (\<lambda>p. tdat_role_id s \<le> p)
      then ve ''tensor sections must be ordered by strictly increasing role_id''
      else if len (tdat_tile_payloads s) \<noteq> tile_count
      then ve ''section tile payload count mismatch''
      else bind_res (pack_tensor_section_data s) (\<lambda>b.
           bind_res (pack_section_sequence_from (Some (tdat_role_id s)) tile_count ss) (\<lambda>bs.
           Inr (b # bs))))"

definition pack_section_sequence :: "TensorSectionData list \<Rightarrow> int \<Rightarrow> bytes list res" where
  "pack_section_sequence sections tile_count = pack_section_sequence_from None tile_count sections"

fun pack_tensor_section_region_from :: "bytes \<Rightarrow> bytes list \<Rightarrow> bytes res" where
  "pack_tensor_section_region_from payload [] = Inr payload"
| "pack_tensor_section_region_from payload (p # ps) =
     bind_res (append_zero_padding payload BLOCK_ALIGNMENT) (\<lambda>padded.
       pack_tensor_section_region_from (padded @ p) ps)"

definition pack_tensor_section_region :: "bytes list \<Rightarrow> bytes res" where
  "pack_tensor_section_region section_payloads = pack_tensor_section_region_from [] section_payloads"

section \<open>Parsing\<close>

definition parse_tensor_section :: "bytes \<Rightarrow> (TensorSectionView \<times> int) res" where
  "parse_tensor_section payload =
     (if len payload < TENSOR_SECTION_DESC_LENGTH
      then ve ''expected at least TENSOR_SECTION_DESC_LENGTH bytes for tensor section''
      else bind_res (TensorSectionDesc_unpack (py_slice 0 TENSOR_SECTION_DESC_LENGTH payload)) (\<lambda>desc.
        let body_length = tsd_codec_table_bytes desc + tsd_length_table_bytes desc + tsd_payload_bytes desc;
            total_length = TENSOR_SECTION_DESC_LENGTH + body_length
        in if len payload < total_length then ve ''expected total_length section bytes''
           else let tail = py_slice TENSOR_SECTION_DESC_LENGTH total_length payload;
                    codec_end = tsd_codec_table_bytes desc;
                    length_end = codec_end + tsd_length_table_bytes desc
                in bind_res (build_tensor_section_view desc (py_slice 0 codec_end tail)
                       (py_slice codec_end length_end tail) (slice_from length_end tail)) (\<lambda>sec.
                   bind_res (payload_slices sec) (\<lambda>_. Inr (sec, total_length)))))"

text \<open>
  The loop of \<open>unpack_tensor_body\<close>; the first argument counts the sections still to read, so
  that \<open>index + 1 < section_count\<close> holds when it is not the last.
\<close>

fun unpack_sections_from ::
    "nat \<Rightarrow> bytes \<Rightarrow> int option \<Rightarrow> int \<Rightarrow> int option \<Rightarrow> (TensorSectionView list \<times> int) res" where
  "unpack_sections_from 0 view tile_count cursor previous_role_id = Inr ([], cursor)"
| "unpack_sections_from (Suc remaining) view tile_count cursor previous_role_id =
     bind_res (parse_tensor_section (slice_from cursor view)) (\<lambda>(sec, consumed).
       if given_and previous_role_id (\<lambda>p. tsd_role_id (tsv_desc sec) \<le> p)
       then ve ''tensor sections must be ordered by strictly increasing role_id''
       else bind_res (case tile_count of
              None \<Rightarrow> Inr ()
            | Some n \<Rightarrow> bind_res (tile_lengths sec) (\<lambda>lengths.
                if len lengths \<noteq> n then ve ''section tile length count mismatch'' else Inr ())) (\<lambda>_.
         let next_cursor = cursor + consumed in
         bind_res
           (if remaining \<noteq> 0 then
              bind_res (align_up next_cursor BLOCK_ALIGNMENT) (\<lambda>aligned_cursor.
                if aligned_cursor > len view then ve ''expected aligned tensor section end''
                else bind_res (validate_zero_padding view next_cursor aligned_cursor) (\<lambda>_.
                  Inr aligned_cursor))
            else Inr next_cursor) (\<lambda>new_cursor.
         bind_res (unpack_sections_from remaining view tile_count new_cursor
                     (Some (tsd_role_id (tsv_desc sec)))) (\<lambda>(secs, final_cursor).
           Inr (sec # secs, final_cursor)))))"

definition unpack_tensor_body :: "bytes \<Rightarrow> int \<Rightarrow> int \<Rightarrow> int option \<Rightarrow> TensorBodyView res" where
  "unpack_tensor_body view tile_index_bytes section_count tile_count =
     (if len view < tile_index_bytes then ve ''expected at least tile_index_bytes tile index bytes''
      else bind_res
        (if section_count > 0 then
           bind_res (align_up tile_index_bytes BLOCK_ALIGNMENT) (\<lambda>aligned_cursor.
             if aligned_cursor > len view then ve ''expected aligned tensor body start''
             else bind_res (validate_zero_padding view tile_index_bytes aligned_cursor) (\<lambda>_.
               Inr aligned_cursor))
         else Inr tile_index_bytes) (\<lambda>cursor.
        bind_res (unpack_sections_from (nat section_count) view tile_count cursor None)
          (\<lambda>(sections, final_cursor).
          if final_cursor \<noteq> len view then ve ''unexpected trailing bytes in tensor body''
          else Inr \<lparr>tbv_tile_index_block = py_slice 0 tile_index_bytes view,
                    tbv_sections = sections\<rparr>)))"

definition summarize_tensor_sections :: "bytes list \<Rightarrow> (int \<times> int) res" where
  "summarize_tensor_sections section_payloads =
     foldl (\<lambda>acc payload. bind_res acc (\<lambda>(descriptor_bytes, payload_bytes).
        bind_res (TensorSectionDesc_unpack (py_slice 0 TENSOR_SECTION_DESC_LENGTH payload)) (\<lambda>desc.
          Inr (descriptor_bytes + (TENSOR_SECTION_DESC_LENGTH + tsd_codec_table_bytes desc
                 + tsd_length_table_bytes desc),
               payload_bytes + tsd_payload_bytes desc)))) (Inr (0, 0)) section_payloads"

section \<open>One section\<close>

text \<open>
  Packing and parsing one section are inverse to each other; parsing also works in front of
  more bytes, and says how many it read.
\<close>

lemma build_tensor_section_view_iff:
  "build_tensor_section_view desc ct lt p = Inr v \<longleftrightarrow>
     v = \<lparr>tsv_desc = desc, tsv_codec_table = ct, tsv_length_table = lt, tsv_payload = p\<rparr> \<and>
     len ct = tsd_codec_table_bytes desc \<and> len lt = tsd_length_table_bytes desc \<and>
     len p = tsd_payload_bytes desc \<and> length lt mod 4 = 0 \<and>
     (truthy (tsd_flags desc AND SF_FIXED_STRIDE) \<longleftrightarrow> tsd_payload_stride_bytes desc \<noteq> 0) \<and>
     (truthy (tsd_flags desc AND SF_MIXED_CODEC) \<longleftrightarrow> ct \<noteq> []) \<and>
     length ct \<in> {0, length lt div 4}"
  by (auto simp: build_tensor_section_view_def)

lemma pack_tensor_section_iff:
  "pack_tensor_section desc ct lt p = Inr bs \<longleftrightarrow>
     (\<exists>d slices. let v = \<lparr>tsv_desc = desc, tsv_codec_table = ct, tsv_length_table = lt, tsv_payload = p\<rparr>
        in build_tensor_section_view desc ct lt p = Inr v \<and> payload_slices v = Inr slices \<and>
           TensorSectionDesc_pack desc = Inr d \<and> bs = d @ ct @ lt @ p)"
  by (auto simp: pack_tensor_section_def res_simps build_tensor_section_view_iff)

lemma parse_tensor_section_frame:
  assumes "pack_tensor_section desc ct lt p = Inr bs"
  shows "parse_tensor_section (bs @ rest) =
    Inr (\<lparr>tsv_desc = desc, tsv_codec_table = ct, tsv_length_table = lt, tsv_payload = p\<rparr>, len bs)"
proof -
  let ?v = "\<lparr>tsv_desc = desc, tsv_codec_table = ct, tsv_length_table = lt, tsv_payload = p\<rparr>"
  from assms obtain d slices where v: "build_tensor_section_view desc ct lt p = Inr ?v"
    and slices: "payload_slices ?v = Inr slices" and d: "TensorSectionDesc_pack desc = Inr d"
    and bs: "bs = d @ ct @ lt @ p"
    by (auto simp: pack_tensor_section_iff Let_def)
  have d32: "length d = 32"
    using tsd.pack_size [OF d] by simp
  have sizes: "tsd_codec_table_bytes desc = len ct" "tsd_length_table_bytes desc = len lt"
      "tsd_payload_bytes desc = len p"
    using v by (auto simp: build_tensor_section_view_iff)
  have desc: "TensorSectionDesc_unpack (py_slice 0 32 (bs @ rest)) = Inr desc"
    using tsd.unpack_pack [OF _ d] by (simp add: bs d32)
  have total: "32 + (len ct + len lt + len p) = len bs"
    by (simp add: bs d32)
  have "py_slice 32 (len bs) (d @ (ct @ lt @ p) @ rest) = ct @ lt @ p"
    by (intro py_slice_append_mid) (simp_all add: bs d32)
  then have tail: "py_slice 32 (len bs) (bs @ rest) = ct @ lt @ p"
    by (simp add: bs)
  have "slice_from (len ct + len lt) ((ct @ lt) @ p) = p"
    by (intro slice_from_append) simp
  then have parts: "py_slice 0 (len ct) (ct @ lt @ p) = ct"
      "py_slice (len ct) (len ct + len lt) (ct @ lt @ p) = lt"
      "slice_from (len ct + len lt) (ct @ lt @ p) = p"
    by (auto intro: py_slice_append_mid)
  have long: "\<not> len (bs @ rest) < 32" "\<not> len (bs @ rest) < len bs"
    by (simp_all add: bs d32)
  show ?thesis
    using long by (simp only: parse_tensor_section_def if_False desc bind_res_simps sizes Let_def total
        tail parts v slices)
qed

lemma TensorSectionDesc_unpack_sizes:
  assumes "TensorSectionDesc_unpack bs = Inr desc"
  shows "0 \<le> tsd_codec_table_bytes desc" "0 \<le> tsd_length_table_bytes desc" "0 \<le> tsd_payload_bytes desc"
    "0 \<le> tsd_payload_stride_bytes desc"
  using tsd.pack_unpack [OF assms]
  by (auto simp: TensorSectionDesc_pack_def fixed_width_pack_Inr TensorSectionDesc_values_def
      TENSOR_SECTION_DESC_STRUCT_def fits_def dest!: struct_pack_fits)

lemma parse_tensor_sectionE:
  assumes "parse_tensor_section payload = Inr (v, n)"
  obtains bs rest where "payload = bs @ rest" "n = len bs" "32 \<le> n"
    "pack_tensor_section (tsv_desc v) (tsv_codec_table v) (tsv_length_table v) (tsv_payload v) = Inr bs"
proof -
  from assms obtain desc where desc: "TensorSectionDesc_unpack (take 32 payload) = Inr desc"
    and n: "n = 32 + (tsd_codec_table_bytes desc + tsd_length_table_bytes desc + tsd_payload_bytes desc)"
    and long: "n \<le> len payload"
    and v: "build_tensor_section_view desc (py_slice 0 (tsd_codec_table_bytes desc) (py_slice 32 n payload))
        (py_slice (tsd_codec_table_bytes desc) (tsd_codec_table_bytes desc + tsd_length_table_bytes desc)
          (py_slice 32 n payload))
        (slice_from (tsd_codec_table_bytes desc + tsd_length_table_bytes desc) (py_slice 32 n payload)) = Inr v"
    and slices: "\<exists>s. payload_slices v = Inr s"
    by (auto simp: parse_tensor_section_def res_simps Let_def not_less split: if_splits)
  note sizes = TensorSectionDesc_unpack_sizes [OF desc]
  define c l where "c = nat (tsd_codec_table_bytes desc)" and "l = nat (tsd_length_table_bytes desc)"
  have cl: "tsd_codec_table_bytes desc = int c" "tsd_length_table_bytes desc = int l"
    using sizes by (simp_all add: c_def l_def)
  define t where "t = py_slice 32 n payload"
  have t: "t = take (nat n - 32) (drop 32 payload)"
    using n sizes by (simp add: t_def py_slice_nonneg)
  have parts: "py_slice 0 (int c) t = take c t" "py_slice (int c) (int c + int l) t = take l (drop c t)"
      "slice_from (int c + int l) t = drop l (drop c t)"
    by (simp_all add: py_slice_nonneg slice_from_nonneg nat_add_distrib drop_drop add.commute)
  have tv: "tsv_desc v = desc" "t = tsv_codec_table v @ tsv_length_table v @ tsv_payload v"
    using v by (simp_all add: cl t_def [symmetric] parts build_tensor_section_view_iff del: drop_drop)
  have "pack_tensor_section (tsv_desc v) (tsv_codec_table v) (tsv_length_table v) (tsv_payload v) =
      Inr (take 32 payload @ t)"
    using tsd.pack_unpack [OF desc] v slices tv
    by (auto simp: pack_tensor_section_iff Let_def build_tensor_section_view_iff)
  moreover have "take 32 payload @ t = take (32 + (nat n - 32)) payload"
    by (simp only: t take_add)
  then have "payload = (take 32 payload @ t) @ drop (32 + (nat n - 32)) payload"
    by simp
  moreover have "n = len (take 32 payload @ t)"
    using n sizes long by (simp add: t)
  moreover have "32 \<le> n"
    using n sizes by simp
  ultimately show ?thesis
    by (intro that)
qed

section \<open>Payload slices\<close>

lemma tile_lengths_table:
  "pack_table (pack_entry FI) ls = Inr lt \<Longrightarrow> tsv_length_table v = lt \<Longrightarrow> tile_lengths v = Inr ls"
  using entry.unpack_table_pack [of ls FI lt] entry.pack_table_size [of FI ls lt]
  by (simp add: tile_lengths_def list_all_iff)

lemma pack_entries_fit: "pack_table (pack_entry f) ls = Inr bs \<Longrightarrow> l \<in> set ls \<Longrightarrow> fits f l"
  by (induction ls arbitrary: bs) (auto simp: res_simps pack_entry_def dest!: struct_pack_fits)

lemma tile_lengths_iff:
  "tile_lengths v = Inr ls \<longleftrightarrow> pack_table (pack_entry FI) ls = Inr (tsv_length_table v)"
  using tile_lengths_table [of ls _ v] entry.pack_table_unpack_mod [of "tsv_length_table v" FI ls]
  by (auto simp: tile_lengths_def split: if_splits)

lemma cursor_slices_concat:
  "cursor_slices (pre @ concat ts @ post) (len pre) (map len ts) = ts"
proof (induction ts arbitrary: pre)
  case Nil
  then show ?case by simp
next
  case (Cons t ts)
  have "py_slice (len pre) (len pre + len t) (pre @ t @ (concat ts @ post)) = t"
    by (intro py_slice_append_mid) simp_all
  moreover have "cursor_slices ((pre @ t) @ concat ts @ post) (len (pre @ t)) (map len ts) = ts"
    by (rule Cons.IH)
  ultimately show ?case by simp
qed

lemma stride_blob_length: "stride_blob s ts = Inr blob \<Longrightarrow> len blob = s * len ts"
  by (induction s ts arbitrary: blob rule: stride_blob.induct)
    (auto simp: res_simps algebra_simps split: if_splits)

lemma stride_slices_blob:
  "stride_blob s ts = Inr blob \<Longrightarrow> len pre = i * s \<Longrightarrow>
     stride_slices (pre @ blob) s i (map len ts) = Inr ts"
proof (induction s ts arbitrary: blob pre i rule: stride_blob.induct)
  case (1 s)
  then show ?case by simp
next
  case (2 s t ts)
  then obtain b where fit: "len t \<le> s" and b: "stride_blob s ts = Inr b"
    and blob: "blob = t @ zeros (s - len t) @ b"
    by (auto simp: res_simps split: if_splits)
  have "py_slice (i * s) (i * s + len t) (pre @ t @ (zeros (s - len t) @ b)) = t"
    using "2.prems"(2) by (intro py_slice_append_mid) simp_all
  then have item: "py_slice (i * s) (i * s + len t) (pre @ blob) = t"
    by (simp add: blob)
  have "py_slice (i * s + len t) (i * s + s) ((pre @ t) @ zeros (s - len t) @ b) = zeros (s - len t)"
    using "2.prems"(2) fit by (intro py_slice_append_mid) simp_all
  then have pad: "py_slice (i * s + len t) (i * s + s) (pre @ blob) = zeros (s - len t)"
    by (simp add: blob)
  have "stride_slices ((pre @ t @ zeros (s - len t)) @ b) s (i + 1) (map len ts) = Inr ts"
    using fit "2.prems"(2) by (intro "2.IH" b) (simp_all add: algebra_simps)
  then show ?case
    using fit item pad by (simp add: Let_def blob)
qed

section \<open>What a packed section says\<close>

text \<open>
  A parsed section describes the section it was packed from: the same tile payloads (slices
  of the blob, with or without stride), the codec of every tile, the descriptor's fields.
\<close>

definition view_codecs :: "TensorSectionView \<Rightarrow> nat \<Rightarrow> int list" where
  "view_codecs v n =
     (if tsv_codec_table v = [] then replicate n (tsd_codec_id (tsv_desc v))
      else map uint (tsv_codec_table v))"

definition data_codecs :: "TensorSectionData \<Rightarrow> int list" where
  "data_codecs s =
     (if tdat_codec_ids s = [] then replicate (length (tdat_tile_payloads s)) (tdat_default_codec_id s)
      else tdat_codec_ids s)"

definition describes :: "TensorSectionView \<Rightarrow> TensorSectionData \<Rightarrow> bool" where
  "describes v s \<longleftrightarrow>
     payload_slices v = Inr (tdat_tile_payloads s) \<and>
     tile_lengths v = Inr (map len (tdat_tile_payloads s)) \<and>
     view_codecs v (length (tdat_tile_payloads s)) = data_codecs s \<and>
     tsd_role_id (tsv_desc v) = tdat_role_id s \<and>
     tsd_codec_id (tsv_desc v) = tdat_default_codec_id s \<and>
     tsd_dtype_id (tsv_desc v) = tdat_dtype_id s \<and>
     tsd_layout_id (tsv_desc v) = tdat_layout_id s \<and>
     tsd_scale_policy (tsv_desc v) = tdat_scale_policy s \<and>
     tsd_payload_stride_bytes (tsv_desc v) = tdat_payload_stride_bytes s \<and>
     tsd_element_count_per_tile (tsv_desc v) = tdat_element_count_per_tile s"

lemma all_equal_replicate: "list_all (\<lambda>c. c = d) xs \<Longrightarrow> xs = replicate (length xs) d"
  by (induction xs) auto

lemma build_codec_table_codecs:
  assumes "build_codec_table ids d n = Inr ct" "n = int k"
  shows "(if ct = [] then replicate k d else map uint ct) = (if ids = [] then replicate k d else ids)"
proof (cases "ids = [] \<or> list_all (\<lambda>c. c = d) ids")
  case True
  then show ?thesis
    using assms all_equal_replicate [of d ids]
    by (auto simp: build_codec_table_def split: if_splits)
next
  case False
  then have ct: "ct = map word_of_int ids" and fit: "\<forall>c \<in> set ids. 0 \<le> c \<and> c < 256"
    using assms(1) by (auto simp: build_codec_table_def list_ex_iff not_less not_le split: if_splits)
  have "uint (word_of_int c :: byte) = c" if "c \<in> set ids" for c
    using fit that by (auto simp: uint_word_of_int)
  then have "map uint ct = ids"
    by (simp add: ct map_idI)
  with False ct show ?thesis by simp
qed

lemma payload_slices_blob:
  assumes "build_section_payload_blob ts stride = Inr (blob, flags)"
    and "tile_lengths v = Inr (map len ts)" "tsv_payload v = blob"
    and "tsd_payload_stride_bytes (tsv_desc v) = stride"
  shows "payload_slices v = Inr ts"
proof (cases "stride = 0")
  case True
  have "sum_list (map len ts) = len (concat ts)"
    by (induction ts) simp_all
  then show ?thesis
    using True assms cursor_slices_concat [of "[]" ts "[]"]
    by (simp add: payload_slices_def build_section_payload_blob_def Let_def)
next
  case False
  then have "stride_blob stride ts = Inr blob"
    using assms(1) by (auto simp: build_section_payload_blob_def res_simps split: if_splits)
  then show ?thesis
    using False assms stride_slices_blob [of stride ts blob "[]" 0] stride_blob_length [of stride ts blob]
    by (simp add: payload_slices_def Let_def)
qed

lemma pack_tensor_section_data_parse:
  assumes "pack_tensor_section_data s = Inr bs"
  shows "\<exists>v. parse_tensor_section (bs @ rest) = Inr (v, len bs) \<and> describes v s"
proof -
  let ?ts = "tdat_tile_payloads s"
  from assms obtain ct lt blob flags where
    ct: "build_codec_table (tdat_codec_ids s) (tdat_default_codec_id s) (len ?ts) = Inr ct"
    and lt: "pack_table (pack_entry FI) (map len ?ts) = Inr lt"
    and blob: "build_section_payload_blob ?ts (tdat_payload_stride_bytes s) = Inr (blob, flags)"
    and packed: "pack_tensor_section
        \<lparr>tsd_role_id = tdat_role_id s, tsd_codec_id = tdat_default_codec_id s,
         tsd_dtype_id = tdat_dtype_id s, tsd_layout_id = tdat_layout_id s,
         tsd_scale_policy = tdat_scale_policy s,
         tsd_flags = (if ct \<noteq> [] then flags OR SF_MIXED_CODEC else flags),
         tsd_element_count_per_tile = tdat_element_count_per_tile s,
         tsd_codec_table_bytes = len ct, tsd_length_table_bytes = len lt,
         tsd_payload_bytes = len blob, tsd_payload_stride_bytes = tdat_payload_stride_bytes s,
         tsd_reserved = 0\<rparr> ct lt blob = Inr bs" (is "pack_tensor_section ?d ct lt blob = _")
    by (auto simp: pack_tensor_section_data_def Let_def res_simps split: prod.splits)
  let ?v = "\<lparr>tsv_desc = ?d, tsv_codec_table = ct, tsv_length_table = lt, tsv_payload = blob\<rparr>"
  have lengths: "tile_lengths ?v = Inr (map len ?ts)"
    using tile_lengths_table [OF lt, of ?v] by simp
  have slices: "payload_slices ?v = Inr ?ts"
    using lengths by (intro payload_slices_blob [OF blob]) simp_all
  have codecs: "view_codecs ?v (length ?ts) = data_codecs s"
    using build_codec_table_codecs [OF ct refl]
    unfolding view_codecs_def data_codecs_def TensorSectionView.simps TensorSectionDesc.simps .
  show ?thesis
    using parse_tensor_section_frame [OF packed, of rest] lengths slices codecs
    by (intro exI [of _ ?v]) (simp add: describes_def)
qed

lemma pack_tensor_section_data_nonempty: "pack_tensor_section_data s = Inr bs \<Longrightarrow> 32 \<le> length bs"
  using pack_tensor_section_data_parse [of s bs "[]"]
  by (auto elim!: parse_tensor_sectionE)

section \<open>The table of sections\<close>

text \<open>The region as one list: every section but the last is padded to a multiple of eight.\<close>

fun section_region :: "bytes list \<Rightarrow> bytes" where
  "section_region [] = []"
| "section_region [p] = p"
| "section_region (p # q # ps) = p @ padding (len p) @ section_region (q # ps)"

lemma padding_shift: "k mod 8 = 0 \<Longrightarrow> padding (k + v) = padding v"
  by (simp add: padding_def aligned_shift)

lemma section_region_snoc:
  "section_region (ps @ [p]) = section_region ps @ padding (len (section_region ps)) @ p"
proof (induction ps rule: section_region.induct)
  case (3 p' q ps)
  have "padding ((len p' + len (padding (len p'))) + len (section_region (q # ps))) =
      padding (len (section_region (q # ps)))"
    by (intro padding_shift) (simp add: aligned_bounds(3))
  with 3 show ?case by (simp add: add.assoc)
qed (simp_all add: padding_def aligned_def zeros_def)

lemma pack_tensor_section_region_from_append:
  "pack_tensor_section_region_from buf (ps @ [p]) =
     bind_res (pack_tensor_section_region_from buf ps) (\<lambda>b. Inr (b @ padding (len b) @ p))"
  by (induction ps arbitrary: buf) simp_all

lemma pack_tensor_section_region_eq: "pack_tensor_section_region ps = Inr (section_region ps)"
  by (induction ps rule: rev_induct)
    (simp_all add: pack_tensor_section_region_def pack_tensor_section_region_from_append section_region_snoc)

lemma pack_section_sequence_from_iff:
  "pack_section_sequence_from prev n ss = Inr ps \<longleftrightarrow>
     list_all2 (\<lambda>s p. pack_tensor_section_data s = Inr p) ss ps \<and>
     (\<forall>s \<in> set ss. len (tdat_tile_payloads s) = n) \<and>
     sorted_wrt (<) (map tdat_role_id ss) \<and>
     (\<forall>r. prev = Some r \<longrightarrow> (\<forall>s \<in> set ss. r < tdat_role_id s))"
proof (induction ss arbitrary: prev ps)
  case Nil
  then show ?case by auto
next
  case (Cons s ss)
  have step: "pack_section_sequence_from prev n (s # ss) = Inr ps \<longleftrightarrow>
      \<not> (\<exists>r. prev = Some r \<and> tdat_role_id s \<le> r) \<and> len (tdat_tile_payloads s) = n \<and>
      (\<exists>b bs. ps = b # bs \<and> pack_tensor_section_data s = Inr b \<and>
        pack_section_sequence_from (Some (tdat_role_id s)) n ss = Inr bs)"
    by (auto simp: res_simps)
  show ?case
    unfolding step Cons.IH by (cases prev; auto simp: list_all2_Cons1 not_le; force)
qed

lemma unpack_sections_from_region:
  assumes "pack_section_sequence_from prev n ss = Inr ps" "len pre mod 8 = 0"
  shows "\<exists>vs. unpack_sections_from (length ps) (pre @ section_region ps) (Some n) (len pre) prev =
      Inr (vs, len (pre @ section_region ps)) \<and> list_all2 describes vs ss"
  using assms
proof (induction ss arbitrary: prev ps pre)
  case Nil
  then show ?case by simp
next
  case (Cons s ss)
  from Cons.prems(1) obtain p ps' where p: "pack_tensor_section_data s = Inr p"
    and ps': "pack_section_sequence_from (Some (tdat_role_id s)) n ss = Inr ps'" and ps: "ps = p # ps'"
    and role: "\<not> (\<exists>r. prev = Some r \<and> tdat_role_id s \<le> r)" and count: "len (tdat_tile_payloads s) = n"
    by (auto simp: res_simps split: if_splits)
  define tl where "tl = (if ps' = [] then [] else padding (len p) @ section_region ps')"
  have region: "section_region ps = p @ tl"
    by (cases ps') (simp_all add: ps tl_def)
  obtain v where v: "parse_tensor_section (p @ tl) = Inr (v, len p)" "describes v s"
    using pack_tensor_section_data_parse [OF p, of tl] by blast
  have parsed: "parse_tensor_section (slice_from (len pre) (pre @ p @ tl)) = Inr (v, len p)"
    using v(1) by (simp add: slice_from_append)
  have checks: "\<not> (\<exists>r. prev = Some r \<and> tsd_role_id (tsv_desc v) \<le> r)"
      "tile_lengths v = Inr (map len (tdat_tile_payloads s))" "tsd_role_id (tsv_desc v) = tdat_role_id s"
    using v(2) role by (auto simp: describes_def)
  show ?case
  proof (cases ps')
    case Nil
    then have "ss = []"
      using ps' by (auto simp: pack_section_sequence_from_iff)
    then show ?thesis
      using parsed checks count v(2) Nil by (simp add: ps region tl_def)
  next
    case (Cons q qs)
    let ?pre = "pre @ p @ padding (len p)"
    let ?view = "pre @ p @ tl"
    have split: "?view = ?pre @ section_region ps'"
      using Cons by (simp add: tl_def)
    have al: "aligned (len pre + len p) = len ?pre"
      using Cons.prems(2) by (simp add: aligned_shift)
    have "py_slice (len pre + len p) (len ?pre) ((pre @ p) @ padding (len p) @ section_region ps') = padding (len p)"
      by (intro py_slice_append_mid) simp_all
    then have pad: "validate_zero_padding ?view (len pre + len p) (len ?pre) = Inr ()"
      unfolding split using aligned_bounds(1) [of "len p"]
      by (subst validate_zero_padding_iff) (simp_all add: padding_def)
    have le: "\<not> len ?pre > len ?view"
      unfolding split by simp
    obtain vs where vs: "unpack_sections_from (length ps') (?pre @ section_region ps') (Some n) (len ?pre)
        (Some (tdat_role_id s)) = Inr (vs, len (?pre @ section_region ps'))" "list_all2 describes vs ss"
      using Cons.IH [OF ps', of ?pre] al aligned_bounds(3) [of "len pre + len p"] by auto
    have next_cursor: "(if length ps' \<noteq> 0 then bind_res (align_up (len pre + len p) BLOCK_ALIGNMENT)
        (\<lambda>aligned_cursor. if aligned_cursor > len ?view then ve ''expected aligned tensor section end''
          else bind_res (validate_zero_padding ?view (len pre + len p) aligned_cursor) (\<lambda>_. Inr aligned_cursor))
        else Inr (len pre + len p)) = Inr (len ?pre)"
      using Cons le pad by (simp only: align_up_8 al bind_res_simps if_False) simp
    have "unpack_sections_from (length ps) ?view (Some n) (len pre) prev =
        Inr (v # vs, len (?pre @ section_region ps'))"
      using vs(1) unfolding ps split [symmetric]
      by (simp only: list.size add_Suc_right add_0_right unpack_sections_from.simps parsed bind_res_simps
          prod.case given_and_iff checks role option.case Let_def next_cursor if_False length_map count) simp
    then show ?thesis
      using vs(2) v(2) by (simp only: region split) (intro exI [of _ "v # vs"], simp)
  qed
qed

text \<open>
  The table of tensor sections: what \<open>_pack_section_sequence\<close> and \<open>_pack_tensor_section_region\<close>
  write, \<open>unpack_tensor_body\<close> reads back as views that describe the same sections.
\<close>

lemma unpack_tensor_body_pack:
  assumes "pack_section_sequence ss n = Inr ps" "pack_tensor_section_region ps = Inr region"
  shows "\<exists>vs. unpack_tensor_body region 0 (len ss) (Some n) =
      Inr \<lparr>tbv_tile_index_block = [], tbv_sections = vs\<rparr> \<and> list_all2 describes vs ss"
proof -
  have "length ps = length ss"
    using assms(1) by (auto simp: pack_section_sequence_def pack_section_sequence_from_iff dest: list_all2_lengthD)
  moreover have "region = section_region ps"
    using assms(2) by (simp add: pack_tensor_section_region_eq)
  ultimately obtain vs where vs: "unpack_sections_from (length ss) region (Some n) 0 None = Inr (vs, len region)"
      "list_all2 describes vs ss"
    using unpack_sections_from_region [of None n ss ps "[]"] assms(1)
    by (auto simp: pack_section_sequence_def)
  have "aligned 0 = 0"
    by (simp add: aligned_def)
  then show ?thesis
    using vs
    by (cases "ss = []"; auto simp: unpack_tensor_body_def validate_zero_padding_def)
qed

end
