(* ===== verification/Body.thy ===== *)
theory Body
  imports Object_Blocks Payload_Frames Tensor_Sections
begin

text \<open>
  The composed body of \<open>core/packet.py\<close>: a 32-byte prelude and six regions in a fixed order
  (\<open>pack_body\<close>, \<open>unpack_body\<close>), and the tensor view of a body
  (\<open>unpack_current_tensor_body\<close>).
\<close>

abbreviation BODY_REGION_PRELUDE_LENGTH :: int where
  "BODY_REGION_PRELUDE_LENGTH \<equiv> 32"

text \<open>The six regions, the keyword arguments of \<open>pack_body\<close>; each defaults to \<open>b""\<close>.\<close>

record body_regions =
  reg_inline_object :: bytes
  reg_object_reference :: bytes
  reg_typed_payload_descriptor :: bytes
  reg_typed_payload_frame :: bytes
  reg_extension_descriptor :: bytes
  reg_extension_payload :: bytes

definition no_regions :: body_regions where
  "no_regions = \<lparr>reg_inline_object = [], reg_object_reference = [], reg_typed_payload_descriptor = [],
     reg_typed_payload_frame = [], reg_extension_descriptor = [], reg_extension_payload = []\<rparr>"

record BodyView =
  bv_prelude :: BodyRegionPrelude
  bv_regions :: body_regions

definition pack_body :: "body_regions \<Rightarrow> bytes res" where
  "pack_body r =
     bind_res (BodyRegionPrelude_post_init
         \<lparr>brp_inline_object_bytes = len (reg_inline_object r),
          brp_object_reference_bytes = len (reg_object_reference r),
          brp_typed_payload_descriptor_bytes = len (reg_typed_payload_descriptor r),
          brp_typed_payload_frame_bytes = len (reg_typed_payload_frame r),
          brp_extension_descriptor_bytes = len (reg_extension_descriptor r),
          brp_extension_payload_bytes = len (reg_extension_payload r),
          brp_body_flags = 0, brp_reserved = 0\<rparr>) (\<lambda>prelude.
     bind_res (BodyRegionPrelude_pack prelude) (\<lambda>p.
       Inr (p @ reg_inline_object r @ reg_object_reference r @ reg_typed_payload_descriptor r
            @ reg_typed_payload_frame r @ reg_extension_descriptor r @ reg_extension_payload r)))"

definition unpack_body :: "bytes \<Rightarrow> BodyView res" where
  "unpack_body view =
     (if len view < BODY_REGION_PRELUDE_LENGTH
      then ve ''expected at least BODY_REGION_PRELUDE_LENGTH bytes for current body prelude''
      else bind_res (BodyRegionPrelude_unpack (py_slice 0 BODY_REGION_PRELUDE_LENGTH view)) (\<lambda>prelude.
        let cursor = BODY_REGION_PRELUDE_LENGTH;
            inline_end = cursor + brp_inline_object_bytes prelude;
            object_reference_end = inline_end + brp_object_reference_bytes prelude;
            typed_descriptor_end = object_reference_end + brp_typed_payload_descriptor_bytes prelude;
            typed_frame_end = typed_descriptor_end + brp_typed_payload_frame_bytes prelude;
            extension_descriptor_end = typed_frame_end + brp_extension_descriptor_bytes prelude;
            extension_payload_end = extension_descriptor_end + brp_extension_payload_bytes prelude
        in if extension_payload_end \<noteq> len view then ve ''current body length mismatch''
           else let
             r = \<lparr>reg_inline_object = py_slice cursor inline_end view,
                  reg_object_reference = py_slice inline_end object_reference_end view,
                  reg_typed_payload_descriptor = py_slice object_reference_end typed_descriptor_end view,
                  reg_typed_payload_frame = py_slice typed_descriptor_end typed_frame_end view,
                  reg_extension_descriptor = py_slice typed_frame_end extension_descriptor_end view,
                  reg_extension_payload = py_slice extension_descriptor_end extension_payload_end view\<rparr>
           in bind_res (split_inline_object_region (reg_inline_object r)) (\<lambda>blocks.
              bind_res (map_res unpack_inline_object_block blocks) (\<lambda>_.
              bind_res (unpack_object_reference_blocks (reg_object_reference r)) (\<lambda>_.
              bind_res (unpack_typed_payload_descriptors (reg_typed_payload_descriptor r)) (\<lambda>descriptors.
              bind_res (validate_descriptor_offsets tpd_offset tpd_length descriptors
                  (len (reg_typed_payload_frame r))) (\<lambda>_.
              bind_res (unpack_extension_frame_descriptors (reg_extension_descriptor r)) (\<lambda>extension_descriptors.
              bind_res (validate_descriptor_offsets efd_payload_offset efd_payload_length
                  extension_descriptors (len (reg_extension_payload r))) (\<lambda>_.
                Inr \<lparr>bv_prelude = prelude, bv_regions = r\<rparr>)))))))))"

text \<open>
  The dictionary \<open>{block.header.object_kind: block for block in ...}\<close> and its \<open>get\<close>: a later
  block of the same kind replaces an earlier one.
\<close>

definition last_block_of_kind ::
    "InlineObjectBlockView list \<Rightarrow> CacheObjectKind \<Rightarrow> InlineObjectBlockView option" where
  "last_block_of_kind blocks =
     map_of (rev (map (\<lambda>b. (iob_object_kind (iov_header b), b)) blocks))"

definition unpack_current_tensor_body :: "BodyView \<Rightarrow> int \<Rightarrow> int \<Rightarrow> TensorBodyView res" where
  "unpack_current_tensor_body body section_count tile_count =
     bind_res (unpack_inline_object_blocks (reg_inline_object (bv_regions body))) (\<lambda>blocks.
       let tile_index = last_block_of_kind blocks COK_TILE_INDEX_BLOCK;
           section_table = last_block_of_kind blocks COK_TENSOR_SECTION_TABLE
       in bind_res
            (case section_table of
               None \<Rightarrow> Inr []
             | Some b \<Rightarrow> map_sum id tbv_sections
                 (unpack_tensor_body (iov_payload b) 0 section_count (Some tile_count))) (\<lambda>sections.
          Inr \<lparr>tbv_tile_index_block = (case tile_index of Some b \<Rightarrow> iov_payload b | None \<Rightarrow> []),
               tbv_sections = sections\<rparr>))"

section \<open>What unpacking a body checks\<close>

definition body_regions_ok :: "body_regions \<Rightarrow> bool" where
  "body_regions_ok r \<longleftrightarrow>
     (\<exists>blocks. unpack_inline_object_blocks (reg_inline_object r) = Inr blocks) \<and>
     (\<exists>refs. unpack_object_reference_blocks (reg_object_reference r) = Inr refs) \<and>
     (\<exists>ds. unpack_typed_payload_descriptors (reg_typed_payload_descriptor r) = Inr ds \<and>
        validate_descriptor_offsets tpd_offset tpd_length ds (len (reg_typed_payload_frame r)) = Inr ()) \<and>
     (\<exists>ds. unpack_extension_frame_descriptors (reg_extension_descriptor r) = Inr ds \<and>
        validate_descriptor_offsets efd_payload_offset efd_payload_length ds
          (len (reg_extension_payload r)) = Inr ())"

definition prelude_of :: "body_regions \<Rightarrow> BodyRegionPrelude" where
  "prelude_of r =
     \<lparr>brp_inline_object_bytes = len (reg_inline_object r),
      brp_object_reference_bytes = len (reg_object_reference r),
      brp_typed_payload_descriptor_bytes = len (reg_typed_payload_descriptor r),
      brp_typed_payload_frame_bytes = len (reg_typed_payload_frame r),
      brp_extension_descriptor_bytes = len (reg_extension_descriptor r),
      brp_extension_payload_bytes = len (reg_extension_payload r),
      brp_body_flags = 0, brp_reserved = 0\<rparr>"

lemma pack_body_iff:
  "pack_body r = Inr bs \<longleftrightarrow> BodyRegionPrelude_wf (prelude_of r) \<and>
     (\<exists>p. BodyRegionPrelude_pack (prelude_of r) = Inr p \<and>
       bs = p @ reg_inline_object r @ reg_object_reference r @ reg_typed_payload_descriptor r
            @ reg_typed_payload_frame r @ reg_extension_descriptor r @ reg_extension_payload r)"
  by (auto simp: pack_body_def prelude_of_def res_simps BodyRegionPrelude_post_init_iff)

lemma unpack_body_frame:
  assumes "BodyRegionPrelude_unpack p = Inr (prelude_of r)" "body_regions_ok r"
  shows "unpack_body (p @ reg_inline_object r @ reg_object_reference r @ reg_typed_payload_descriptor r
            @ reg_typed_payload_frame r @ reg_extension_descriptor r @ reg_extension_payload r) =
    Inr \<lparr>bv_prelude = prelude_of r, bv_regions = r\<rparr>"
proof -
  obtain a b c d e f where r: "r = \<lparr>reg_inline_object = a, reg_object_reference = b,
      reg_typed_payload_descriptor = c, reg_typed_payload_frame = d,
      reg_extension_descriptor = e, reg_extension_payload = f\<rparr>"
    by (cases r)
  have p: "length p = 32"
    using brp.unpack_size [OF assms(1)] by simp
  let ?v = "p @ a @ b @ c @ d @ e @ f"
  have slices: "py_slice 0 32 ?v = p"
    "py_slice 32 (32 + len a) ?v = a"
    "py_slice (32 + len a) (32 + len a + len b) ?v = b"
    "py_slice (32 + len a + len b) (32 + len a + len b + len c) ?v = c"
    "py_slice (32 + len a + len b + len c) (32 + len a + len b + len c + len d) ?v = d"
    "py_slice (32 + len a + len b + len c + len d) (32 + len a + len b + len c + len d + len e) ?v = e"
    "py_slice (32 + len a + len b + len c + len d + len e)
       (32 + len a + len b + len c + len d + len e + len f) ?v = f"
    using p py_slice_append_mid [of 32 p "32 + len a" a "b @ c @ d @ e @ f"]
      py_slice_append_mid [of "32 + len a" "p @ a" "32 + len a + len b" b "c @ d @ e @ f"]
      py_slice_append_mid [of "32 + len a + len b" "p @ a @ b" "32 + len a + len b + len c" c "d @ e @ f"]
      py_slice_append_mid [of "32 + len a + len b + len c" "p @ a @ b @ c"
        "32 + len a + len b + len c + len d" d "e @ f"]
      py_slice_append_mid [of "32 + len a + len b + len c + len d" "p @ a @ b @ c @ d"
        "32 + len a + len b + len c + len d + len e" e f]
      py_slice_append_mid [of "32 + len a + len b + len c + len d + len e" "p @ a @ b @ c @ d @ e"
        "32 + len a + len b + len c + len d + len e + len f" f "[]"]
    by simp_all
  have total: "32 + len a + len b + len c + len d + len e + len f = len ?v"
    using p by simp
  have long: "\<not> len ?v < 32"
    using p by simp
  obtain blocks views refs ds eds where
    "split_inline_object_region a = Inr blocks" "map_res unpack_inline_object_block blocks = Inr views"
    "unpack_object_reference_blocks b = Inr refs" "unpack_typed_payload_descriptors c = Inr ds"
    "validate_descriptor_offsets tpd_offset tpd_length ds (len d) = Inr ()"
    "unpack_extension_frame_descriptors e = Inr eds"
    "validate_descriptor_offsets efd_payload_offset efd_payload_length eds (len f) = Inr ()"
    using assms(2) by (auto simp: r body_regions_ok_def unpack_inline_object_blocks_def res_simps)
  then show ?thesis
    using assms(1) long unfolding unpack_body_def r
    by (simp only: body_regions.simps slices bind_res_simps prelude_of_def BodyRegionPrelude.simps Let_def
        if_False total [symmetric] slices refl simp_thms if_True not_less) simp
qed

lemma BodyRegionPrelude_unpack_sizes:
  assumes "BodyRegionPrelude_unpack bs = Inr m"
  shows "0 \<le> brp_inline_object_bytes m" "0 \<le> brp_object_reference_bytes m"
    "0 \<le> brp_typed_payload_descriptor_bytes m" "0 \<le> brp_typed_payload_frame_bytes m"
    "0 \<le> brp_extension_descriptor_bytes m" "0 \<le> brp_extension_payload_bytes m"
    "brp_body_flags m = 0" "brp_reserved m = 0"
  using brp.pack_unpack [OF assms] brp.unpack_wf [OF assms]
  by (auto simp: BodyRegionPrelude_pack_def fixed_width_pack_Inr BodyRegionPrelude_values_def
      BODY_REGION_PRELUDE_STRUCT_def fits_def BodyRegionPrelude_wf_def BodyRegionPrelude_post_init_def
      dest!: struct_pack_fits split: if_splits)

lemma unpack_bodyE:
  assumes "unpack_body bs = Inr v"
  obtains p where "BodyRegionPrelude_unpack p = Inr (bv_prelude v)" "bv_prelude v = prelude_of (bv_regions v)"
    "body_regions_ok (bv_regions v)" "pack_body (bv_regions v) = Inr bs"
proof -
  let ?p = "take 32 bs"
  from assms obtain pl where pl: "BodyRegionPrelude_unpack ?p = Inr pl" and v: "bv_prelude v = pl"
    by (auto simp: unpack_body_def res_simps Let_def split: if_splits)
  note sizes = BodyRegionPrelude_unpack_sizes [OF pl]
  define e1 e2 e3 e4 e5 e6 where ends: "e1 = 32 + brp_inline_object_bytes pl"
    "e2 = e1 + brp_object_reference_bytes pl" "e3 = e2 + brp_typed_payload_descriptor_bytes pl"
    "e4 = e3 + brp_typed_payload_frame_bytes pl" "e5 = e4 + brp_extension_descriptor_bytes pl"
    "e6 = e5 + brp_extension_payload_bytes pl"
  from assms have long: "32 \<le> len bs" and e6: "e6 = len bs"
    and r: "bv_regions v = \<lparr>reg_inline_object = py_slice 32 e1 bs, reg_object_reference = py_slice e1 e2 bs,
        reg_typed_payload_descriptor = py_slice e2 e3 bs, reg_typed_payload_frame = py_slice e3 e4 bs,
        reg_extension_descriptor = py_slice e4 e5 bs, reg_extension_payload = py_slice e5 e6 bs\<rparr>"
      (is "_ = ?r")
    and ok: "body_regions_ok (bv_regions v)"
    using pl
    by (auto simp: unpack_body_def res_simps Let_def ends body_regions_ok_def unpack_inline_object_blocks_def
        split: if_splits)
  have order: "0 \<le> (32::int)" "32 \<le> e1" "e1 \<le> e2" "e2 \<le> e3" "e3 \<le> e4" "e4 \<le> e5" "e5 \<le> e6"
    using sizes by (simp_all add: ends)
  have lens: "len (py_slice 32 e1 bs) = brp_inline_object_bytes pl"
    "len (py_slice e1 e2 bs) = brp_object_reference_bytes pl"
    "len (py_slice e2 e3 bs) = brp_typed_payload_descriptor_bytes pl"
    "len (py_slice e3 e4 bs) = brp_typed_payload_frame_bytes pl"
    "len (py_slice e4 e5 bs) = brp_extension_descriptor_bytes pl"
    "len (py_slice e5 e6 bs) = brp_extension_payload_bytes pl"
    using order e6 by (simp_all add: length_py_slice ends)
  have prelude: "pl = prelude_of (bv_regions v)"
    using sizes(7,8) by (cases pl) (simp add: r prelude_of_def lens)
  have "bs = ?p @ drop (nat 32) bs"
    by simp
  also have "drop (nat 32) bs = py_slice 32 e1 bs @ py_slice e1 e2 bs @ py_slice e2 e3 bs @ py_slice e3 e4 bs
      @ py_slice e4 e5 bs @ py_slice e5 e6 bs @ drop (nat e6) bs"
    using order drop_py_slice [of 32 e1 bs] drop_py_slice [of e1 e2 bs] drop_py_slice [of e2 e3 bs]
      drop_py_slice [of e3 e4 bs] drop_py_slice [of e4 e5 bs] drop_py_slice [of e5 e6 bs] by simp
  finally have bs: "bs = ?p @ py_slice 32 e1 bs @ py_slice e1 e2 bs @ py_slice e2 e3 bs @ py_slice e3 e4 bs
      @ py_slice e4 e5 bs @ py_slice e5 e6 bs"
    by (simp add: e6)
  have "pack_body (bv_regions v) = Inr bs"
    unfolding pack_body_iff
    using bs brp.pack_unpack [OF pl] brp.unpack_wf [OF pl] prelude r by auto
  then show ?thesis
    using that pl v prelude ok by simp
qed

text \<open>
  Bodies and their views: what unpacks was packed from its regions, and the regions that pass
  the checks are read back.
\<close>

definition pack_body_view :: "BodyView \<Rightarrow> bytes res" where
  "pack_body_view v = pack_body (bv_regions v)"

interpretation body: exact_codec pack_body_view unpack_body
  "\<lambda>v. bv_prelude v = prelude_of (bv_regions v) \<and> body_regions_ok (bv_regions v)"
proof unfold_locales
  fix v bs
  show "unpack_body bs = Inr v"
    if "bv_prelude v = prelude_of (bv_regions v) \<and> body_regions_ok (bv_regions v)"
      "pack_body_view v = Inr bs"
  proof -
    from that(2) obtain p where "BodyRegionPrelude_wf (prelude_of (bv_regions v))"
      "BodyRegionPrelude_pack (prelude_of (bv_regions v)) = Inr p"
      and bs: "bs = p @ reg_inline_object (bv_regions v) @ reg_object_reference (bv_regions v)
         @ reg_typed_payload_descriptor (bv_regions v) @ reg_typed_payload_frame (bv_regions v)
         @ reg_extension_descriptor (bv_regions v) @ reg_extension_payload (bv_regions v)"
      by (auto simp: pack_body_view_def pack_body_iff)
    then have "BodyRegionPrelude_unpack p = Inr (prelude_of (bv_regions v))"
      by (intro brp.unpack_pack)
    with that(1) show ?thesis
      by (simp add: bs unpack_body_frame)
  qed
  show "bv_prelude v = prelude_of (bv_regions v) \<and> body_regions_ok (bv_regions v)"
    "pack_body_view v = Inr bs" if "unpack_body bs = Inr v"
    using that by (auto simp: pack_body_view_def elim: unpack_bodyE)
qed

end
