(* ===== verification/Body_Contract.thy ===== *)
theory Body_Contract
  imports Body "HOL-Library.Product_Lexorder"
begin

text \<open>
  What a receiver checks of a FRAME_SUBMIT or RESULT_PUSH body against its metadata:
  \<open>validate_frame_submit_body\<close>, \<open>validate_result_push_body\<close> and their helpers in
  \<open>core/packet.py\<close>; and declarative specifications the checks implement.
\<close>

section \<open>Typed payloads against the metadata\<close>

definition check :: "bool \<Rightarrow> string \<Rightarrow> unit res" where
  "check c msg = (if c then Inr () else ve msg)"

lemma check_Inr_iff [simp]: "check c msg = Inr u \<longleftrightarrow> c"
  by (cases u) (simp add: check_def)

definition validate_body_metadata_contract :: "int \<Rightarrow> int \<Rightarrow> BodyView \<Rightarrow> unit res" where
  "validate_body_metadata_contract payload_kind_bitmap payload_frame_count body_view =
     bind_res (unpack_typed_payload_descriptors (reg_typed_payload_descriptor (bv_regions body_view)))
       (\<lambda>descriptors.
     bind_res (check (len descriptors = payload_frame_count)
       ''typed payload descriptor count does not match payload_frame_count'') (\<lambda>_.
     bind_res (check (brp_typed_payload_descriptor_bytes (bv_prelude body_view) =
         payload_frame_count * int TYPED_PAYLOAD_DESCRIPTOR_LENGTH)
       ''typed payload descriptor byte count does not match payload_frame_count'') (\<lambda>_.
     bind_res (check (\<not> (payload_frame_count = 0 \<and> brp_typed_payload_frame_bytes (bv_prelude body_view) \<noteq> 0))
       ''typed payload frame bytes must be 0 when payload_frame_count is 0'') (\<lambda>_.
     bind_res (check (\<not> list_ex (\<lambda>d. tpd_payload_kind d = PK_TENSOR
           \<or> tpd_profile_id d = StandardProfile_int PROFILE_TENSOR) descriptors)
       ''tensor payloads must use tensor body blocks, not typed payload descriptors'') (\<lambda>_.
     validate_typed_payload_kind_union payload_kind_bitmap descriptors)))))"

lemma check_True [simp]: "check True msg = Inr ()"
  by simp

section \<open>FRAME_SUBMIT objects\<close>

definition FRAME_SUBMIT_STANDARD_REFERENCE_SLOTS :: "(int \<times> CacheObjectKind) list" where
  "FRAME_SUBMIT_STANDARD_REFERENCE_SLOTS =
     [(1, COK_CAMERA_BLOCK), (2, COK_TILE_INDEX_BLOCK), (4, COK_TENSOR_SECTION_TABLE),
      (8, COK_PAYLOAD_LAYOUT_TEMPLATE)]"

definition FRAME_SUBMIT_KNOWN_OBJECT_REF_MASK :: int where
  "FRAME_SUBMIT_KNOWN_OBJECT_REF_MASK = sum_list (map fst FRAME_SUBMIT_STANDARD_REFERENCE_SLOTS)"

text \<open>
  \<open>inline_by_kind.get(kind, [])\<close> after the \<open>setdefault(...).append(...)\<close> loop: the blocks of
  one kind, in their order; the same for references.
\<close>

definition inline_of_kind ::
    "CacheObjectKind \<Rightarrow> InlineObjectBlockView list \<Rightarrow> InlineObjectBlockView list" where
  "inline_of_kind kind blocks = filter (\<lambda>b. iob_object_kind (iov_header b) = kind) blocks"

definition refs_of_kind :: "CacheObjectKind \<Rightarrow> ObjectReferenceBlock list \<Rightarrow> ObjectReferenceBlock list" where
  "refs_of_kind kind blocks = filter (\<lambda>b. orb_object_kind b = kind) blocks"

text \<open>The loop over the standard slots; it returns \<open>expected_reference_kinds\<close>.\<close>

fun check_reference_slots ::
    "int \<Rightarrow> InlineObjectBlockView list \<Rightarrow> ObjectReferenceBlock list \<Rightarrow> (int \<times> CacheObjectKind) list
      \<Rightarrow> CacheObjectKind list res" where
  "check_reference_slots ref_mask inline refs [] = Inr []"
| "check_reference_slots ref_mask inline refs ((slot_bit, kind) # slots) =
     (if length (inline_of_kind kind inline) > 1
      then ve ''FRAME_SUBMIT current body carries duplicate inline blocks''
      else if length (refs_of_kind kind refs) > 1
      then ve ''FRAME_SUBMIT current body carries duplicate reference blocks''
      else if truthy (ref_mask AND slot_bit) then
        if inline_of_kind kind inline \<noteq> []
        then ve ''FRAME_SUBMIT current body references an object but also carries it inline''
        else if length (refs_of_kind kind refs) \<noteq> 1
        then ve ''FRAME_SUBMIT object reference region must contain exactly one block''
        else bind_res (check_reference_slots ref_mask inline refs slots) (\<lambda>kinds. Inr (kind # kinds))
      else if refs_of_kind kind refs \<noteq> []
      then ve ''FRAME_SUBMIT current body carries a reference block without object_ref_mask bit''
      else check_reference_slots ref_mask inline refs slots)"

definition check_submit_camera :: "FrameSubmitMetadata \<Rightarrow> InlineObjectBlockView list \<Rightarrow> unit res" where
  "check_submit_camera m inline =
     (case inline_of_kind COK_CAMERA_BLOCK inline of
        camera_block # _ \<Rightarrow>
          check (iob_object_bytes (iov_header camera_block) = fsm_camera_bytes m)
            ''FRAME_SUBMIT inline CAMERA_BLOCK bytes do not match metadata.camera_bytes''
      | [] \<Rightarrow> check (fsm_camera_bytes m = 0)
            ''FRAME_SUBMIT current body is missing required CAMERA_BLOCK inline object'')"

definition check_submit_tile_index :: "FrameSubmitMetadata \<Rightarrow> InlineObjectBlockView list \<Rightarrow> unit res" where
  "check_submit_tile_index m inline =
     (let tile_index_is_referenced = truthy (fsm_object_ref_mask m AND 2) in
      bind_res
       (case inline_of_kind COK_TILE_INDEX_BLOCK inline of
          tile_index_block # _ \<Rightarrow>
            if iob_object_bytes (iov_header tile_index_block) \<noteq> fsm_tile_index_bytes m
            then ve ''FRAME_SUBMIT inline TILE_INDEX_BLOCK bytes do not match metadata.tile_index_bytes''
            else bind_res (unpack_tile_index_block (iov_payload tile_index_block) (fsm_tile_index_mode m)
                   (fsm_tile_count m) (fsm_tile_base_id m)) (\<lambda>_. Inr ())
        | [] \<Rightarrow> check (\<not> (fsm_tile_count m > 0 \<and> \<not> tile_index_is_referenced))
              ''FRAME_SUBMIT current body is missing required TILE_INDEX_BLOCK'') (\<lambda>_.
       check (\<not> (tile_index_is_referenced \<and> fsm_tile_index_bytes m \<noteq> 0))
         ''FRAME_SUBMIT tile_index_bytes must be 0 when TILE_INDEX_BLOCK is referenced''))"

definition check_submit_sections :: "FrameSubmitMetadata \<Rightarrow> InlineObjectBlockView list \<Rightarrow> unit res" where
  "check_submit_sections m inline =
     (let tensor_section_is_referenced = truthy (fsm_object_ref_mask m AND 4) in
      case inline_of_kind COK_TENSOR_SECTION_TABLE inline of
        b # _ \<Rightarrow> bind_res (unpack_tensor_body (iov_payload b) 0 (fsm_section_count m)
                    (Some (fsm_tile_count m))) (\<lambda>_. Inr ())
      | [] \<Rightarrow> check (\<not> (fsm_section_count m > 0 \<and> \<not> tensor_section_is_referenced))
            ''FRAME_SUBMIT current body is missing required TENSOR_SECTION_TABLE'')"

definition validate_frame_submit_object_contract :: "FrameSubmitMetadata \<Rightarrow> BodyView \<Rightarrow> unit res" where
  "validate_frame_submit_object_contract m body_view =
     (if truthy (fsm_object_ref_mask m AND NOT FRAME_SUBMIT_KNOWN_OBJECT_REF_MASK)
      then ve ''FRAME_SUBMIT object_ref_mask contains unknown bits'' else
      bind_res (unpack_inline_object_blocks (reg_inline_object (bv_regions body_view))) (\<lambda>inline.
      bind_res (unpack_object_reference_blocks (reg_object_reference (bv_regions body_view))) (\<lambda>refs.
      bind_res (check (\<not> (fsm_submit_mode m = SM_INLINE \<and> fsm_object_ref_mask m \<noteq> 0))
        ''inline FRAME_SUBMIT current body must not declare object_ref_mask'') (\<lambda>_.
      bind_res (check (\<not> (fsm_submit_mode m = SM_INLINE \<and> refs \<noteq> []))
        ''inline FRAME_SUBMIT current body must not carry object reference blocks'') (\<lambda>_.
      bind_res (check_reference_slots (fsm_object_ref_mask m) inline refs
          FRAME_SUBMIT_STANDARD_REFERENCE_SLOTS) (\<lambda>expected_reference_kinds.
      bind_res (check (\<not> (fsm_submit_mode m = SM_REFERENCE \<and>
          list_ex (\<lambda>(bit, kind). inline_of_kind kind inline \<noteq> []) FRAME_SUBMIT_STANDARD_REFERENCE_SLOTS))
        ''reference FRAME_SUBMIT current body must not carry inline standard object blocks'') (\<lambda>_.
      bind_res (check (map orb_object_kind refs = expected_reference_kinds)
        ''FRAME_SUBMIT object reference region does not match object_ref_mask order'') (\<lambda>_.
      bind_res (check_submit_camera m inline) (\<lambda>_.
      bind_res (check_submit_tile_index m inline) (\<lambda>_.
      check_submit_sections m inline))))))))))"

definition validate_frame_submit_body :: "FrameSubmitMetadata \<Rightarrow> bytes \<Rightarrow> BodyView res" where
  "validate_frame_submit_body m body =
     bind_res (unpack_body body) (\<lambda>body_view.
     bind_res (validate_body_metadata_contract (fsm_payload_kind_bitmap m) (fsm_payload_frame_count m)
         body_view) (\<lambda>_.
     bind_res (validate_frame_submit_object_contract m body_view) (\<lambda>_. Inr body_view)))"

section \<open>RESULT_PUSH objects\<close>

definition validate_result_push_tensor_coverage :: "ResultPushMetadata \<Rightarrow> unit res" where
  "validate_result_push_tensor_coverage m =
     (if \<not> truthy (rpm_payload_kind_bitmap m AND PK_TENSOR) then Inr ()
      else if rpm_covered_tile_count m < 0 then ve ''covered_tile_count must be non-negative''
      else if rpm_dropped_tile_count m < 0 then ve ''dropped_tile_count must be non-negative''
      else if rpm_covered_tile_count m > rpm_tile_count m
      then ve ''covered_tile_count must not exceed tile_count''
      else if rpm_dropped_tile_count m > rpm_tile_count m
      then ve ''dropped_tile_count must not exceed tile_count''
      else if rpm_covered_tile_count m + rpm_dropped_tile_count m \<noteq> rpm_tile_count m
      then ve ''covered_tile_count + dropped_tile_count must equal tile_count''
      else if (rpm_result_class m = RC_PARTIAL \<or> truthy (rpm_result_flags m AND RF_PARTIAL))
        \<and> rpm_dropped_tile_count m = 0
      then ve ''partial RESULT_PUSH requires dropped_tile_count > 0''
      else Inr ())"

definition reference_key :: "ObjectReferenceBlock \<Rightarrow> int \<times> int \<times> int \<times> int" where
  "reference_key b =
     (CacheObjectKind_int (orb_object_kind b), orb_cache_namespace b, orb_cache_key_hi b, orb_cache_key_lo b)"

fun check_reference_order ::
    "(int \<times> int \<times> int \<times> int) option \<Rightarrow> ObjectReferenceBlock list \<Rightarrow> unit res" where
  "check_reference_order previous_key [] = Inr ()"
| "check_reference_order previous_key (b # bs) =
     (if given_and previous_key (\<lambda>p. reference_key b \<le> p)
      then ve ''RESULT_PUSH current object reference region must be strictly ordered''
      else check_reference_order (Some (reference_key b)) bs)"

definition check_result_tile_index ::
    "ResultPushMetadata \<Rightarrow> InlineObjectBlockView list \<Rightarrow> ObjectReferenceBlock list \<Rightarrow> unit res" where
  "check_result_tile_index m inline refs =
     (let tile_refs = refs_of_kind COK_TILE_INDEX_BLOCK refs;
          tile_inline = inline_of_kind COK_TILE_INDEX_BLOCK inline in
      bind_res (check (length tile_refs \<le> 1)
        ''RESULT_PUSH current body carries duplicate TILE_INDEX_BLOCK reference blocks'') (\<lambda>_.
      bind_res (check (tile_inline = [] \<or> tile_refs = [])
        ''RESULT_PUSH current body must not carry TILE_INDEX_BLOCK both inline and by reference'') (\<lambda>_.
      bind_res
       (case tile_inline of
          b # _ \<Rightarrow>
            if iob_object_bytes (iov_header b) \<noteq> rpm_tile_index_bytes m
            then ve ''RESULT_PUSH inline TILE_INDEX_BLOCK bytes do not match metadata.tile_index_bytes''
            else bind_res (unpack_tile_index_block (iov_payload b)
                   (if truthy (rpm_tile_index_bytes m) then TIM_RAW_U16 else TIM_DENSE_RANGE)
                   (rpm_tile_count m) (rpm_tile_base_id m)) (\<lambda>_. Inr ())
        | [] \<Rightarrow> check (\<not> (rpm_tile_count m > 0 \<and> tile_refs = []))
              ''RESULT_PUSH current body is missing required TILE_INDEX_BLOCK'') (\<lambda>_.
      check (\<not> (tile_refs \<noteq> [] \<and> rpm_tile_index_bytes m \<noteq> 0))
        ''RESULT_PUSH tile_index_bytes must be 0 when TILE_INDEX_BLOCK is referenced''))))"

definition check_result_sections ::
    "ResultPushMetadata \<Rightarrow> InlineObjectBlockView list \<Rightarrow> ObjectReferenceBlock list \<Rightarrow> unit res" where
  "check_result_sections m inline refs =
     (let table_refs = refs_of_kind COK_TENSOR_SECTION_TABLE refs;
          table_inline = inline_of_kind COK_TENSOR_SECTION_TABLE inline in
      bind_res (check (length table_refs \<le> 1)
        ''RESULT_PUSH current body carries duplicate TENSOR_SECTION_TABLE reference blocks'') (\<lambda>_.
      bind_res (check (table_inline = [] \<or> table_refs = [])
        ''RESULT_PUSH current body must not carry TENSOR_SECTION_TABLE both inline and by reference'') (\<lambda>_.
      case table_inline of
        b # _ \<Rightarrow> bind_res (unpack_tensor_body (iov_payload b) 0 (rpm_section_count m)
                    (Some (rpm_tile_count m))) (\<lambda>_. Inr ())
      | [] \<Rightarrow> check (\<not> (rpm_section_count m > 0 \<and> table_refs = []))
            ''RESULT_PUSH current body is missing required TENSOR_SECTION_TABLE'')))"

definition validate_result_push_object_contract :: "ResultPushMetadata \<Rightarrow> BodyView \<Rightarrow> unit res" where
  "validate_result_push_object_contract m body_view =
     bind_res (unpack_inline_object_blocks (reg_inline_object (bv_regions body_view))) (\<lambda>inline.
     bind_res (unpack_object_reference_blocks (reg_object_reference (bv_regions body_view))) (\<lambda>refs.
     bind_res (check_reference_order None refs) (\<lambda>_.
     bind_res (check (\<not> list_ex (\<lambda>kind. length (inline_of_kind kind inline) > 1)
         [COK_TILE_INDEX_BLOCK, COK_TENSOR_SECTION_TABLE])
       ''RESULT_PUSH current body carries duplicate inline blocks'') (\<lambda>_.
     bind_res (check_result_tile_index m inline refs) (\<lambda>_.
     check_result_sections m inline refs)))))"

definition validate_result_push_body :: "ResultPushMetadata \<Rightarrow> bytes \<Rightarrow> BodyView res" where
  "validate_result_push_body m body =
     bind_res (unpack_body body) (\<lambda>body_view.
     bind_res (validate_result_push_tensor_coverage m) (\<lambda>_.
     bind_res (validate_body_metadata_contract (rpm_payload_kind_bitmap m) (rpm_payload_frame_count m)
         body_view) (\<lambda>_.
     bind_res (validate_result_push_object_contract m body_view) (\<lambda>_. Inr body_view))))"

section \<open>What the typed payload checks mean\<close>

text \<open>
  The descriptor table has as many entries as the metadata counts, none of them is a tensor,
  and their kinds are the non-tensor bits of the bitmap.
\<close>

definition typed_payload_spec :: "int \<Rightarrow> int \<Rightarrow> body_regions \<Rightarrow> bool" where
  "typed_payload_spec bitmap count r \<longleftrightarrow>
     (\<exists>ds. unpack_typed_payload_descriptors (reg_typed_payload_descriptor r) = Inr ds \<and>
        len ds = count \<and> (count = 0 \<longrightarrow> reg_typed_payload_frame r = []) \<and>
        (\<forall>d \<in> set ds. tpd_payload_kind d \<noteq> 1 \<and> tpd_profile_id d \<noteq> 1) \<and>
        descriptor_kind_union ds = bitmap AND 126)"

lemma unpack_typed_payload_descriptors_length:
  assumes "unpack_typed_payload_descriptors bs = Inr ds"
  shows "length bs = length ds * TYPED_PAYLOAD_DESCRIPTOR_LENGTH"
  using tpds.pack_unpack [OF assms] tpd.pack_table_size [of ds bs]
  by (simp add: pack_typed_payload_descriptors_def TYPED_PAYLOAD_DESCRIPTOR_LENGTH_def)

lemma validate_body_metadata_contract_iff:
  assumes "bv_prelude v = prelude_of (bv_regions v)"
  shows "validate_body_metadata_contract bitmap count v = Inr () \<longleftrightarrow>
    typed_payload_spec bitmap count (bv_regions v)"
proof -
  have union: "validate_typed_payload_kind_union bitmap ds = Inr () \<longleftrightarrow> descriptor_kind_union ds = bitmap AND 126" for ds
    by (simp add: validate_typed_payload_kind_union_def)
  have "brp_typed_payload_descriptor_bytes (bv_prelude v) = len ds * int TYPED_PAYLOAD_DESCRIPTOR_LENGTH"
    if "unpack_typed_payload_descriptors (reg_typed_payload_descriptor (bv_regions v)) = Inr ds" for ds
    using unpack_typed_payload_descriptors_length [OF that] assms by (simp add: prelude_of_def)
  moreover have "brp_typed_payload_frame_bytes (bv_prelude v) = len (reg_typed_payload_frame (bv_regions v))"
    using assms by (simp add: prelude_of_def)
  ultimately show ?thesis
    by (auto simp: validate_body_metadata_contract_def typed_payload_spec_def res_simps union list_ex_iff)
qed

section \<open>What the FRAME_SUBMIT checks mean\<close>

text \<open>
  The object contract of a FRAME_SUBMIT: the reference region lists exactly the kinds of the
  mask, in slot order; a kind is inline at most once and never both inline and referenced; the
  mode fixes which of the two may occur; and camera, tile index and tensor sections agree with
  the counts and byte lengths of the metadata.
\<close>

definition mask_kinds :: "int \<Rightarrow> CacheObjectKind list" where
  "mask_kinds ref_mask =
     map snd (filter (\<lambda>(bit, kind). truthy (ref_mask AND bit)) FRAME_SUBMIT_STANDARD_REFERENCE_SLOTS)"

definition submit_objects_spec ::
    "FrameSubmitMetadata \<Rightarrow> InlineObjectBlockView list \<Rightarrow> ObjectReferenceBlock list \<Rightarrow> bool" where
  "submit_objects_spec m inline refs \<longleftrightarrow>
     fsm_object_ref_mask m AND NOT 15 = 0 \<and>
     (fsm_submit_mode m = SM_INLINE \<longrightarrow> fsm_object_ref_mask m = 0) \<and>
     map orb_object_kind refs = mask_kinds (fsm_object_ref_mask m) \<and>
     (\<forall>(bit, kind) \<in> set FRAME_SUBMIT_STANDARD_REFERENCE_SLOTS.
        length (inline_of_kind kind inline) \<le> 1 \<and>
        (truthy (fsm_object_ref_mask m AND bit) \<or> fsm_submit_mode m = SM_REFERENCE \<longrightarrow>
           inline_of_kind kind inline = [])) \<and>
     (case inline_of_kind COK_CAMERA_BLOCK inline of
        b # _ \<Rightarrow> iob_object_bytes (iov_header b) = fsm_camera_bytes m
      | [] \<Rightarrow> fsm_camera_bytes m = 0) \<and>
     (case inline_of_kind COK_TILE_INDEX_BLOCK inline of
        b # _ \<Rightarrow> iob_object_bytes (iov_header b) = fsm_tile_index_bytes m \<and>
          (\<exists>ids. unpack_tile_index_block (iov_payload b) (fsm_tile_index_mode m) (fsm_tile_count m)
             (fsm_tile_base_id m) = Inr ids)
      | [] \<Rightarrow> fsm_tile_count m > 0 \<longrightarrow> truthy (fsm_object_ref_mask m AND 2)) \<and>
     (truthy (fsm_object_ref_mask m AND 2) \<longrightarrow> fsm_tile_index_bytes m = 0) \<and>
     (case inline_of_kind COK_TENSOR_SECTION_TABLE inline of
        b # _ \<Rightarrow> (\<exists>t. unpack_tensor_body (iov_payload b) 0 (fsm_section_count m) (Some (fsm_tile_count m)) = Inr t)
      | [] \<Rightarrow> fsm_section_count m > 0 \<longrightarrow> truthy (fsm_object_ref_mask m AND 4))"

lemma submit_objects_spec_checks:
  "submit_objects_spec m inline refs \<longleftrightarrow>
     fsm_object_ref_mask m AND NOT 15 = 0 \<and>
     (fsm_submit_mode m = SM_INLINE \<longrightarrow> fsm_object_ref_mask m = 0) \<and>
     map orb_object_kind refs = mask_kinds (fsm_object_ref_mask m) \<and>
     (\<forall>(bit, kind) \<in> set FRAME_SUBMIT_STANDARD_REFERENCE_SLOTS.
        length (inline_of_kind kind inline) \<le> 1 \<and>
        (truthy (fsm_object_ref_mask m AND bit) \<or> fsm_submit_mode m = SM_REFERENCE \<longrightarrow>
           inline_of_kind kind inline = [])) \<and>
     check_submit_camera m inline = Inr () \<and>
     check_submit_tile_index m inline = Inr () \<and>
     check_submit_sections m inline = Inr ()"
proof -
  have "check_submit_camera m inline = Inr () \<longleftrightarrow> (case inline_of_kind COK_CAMERA_BLOCK inline of
        b # _ \<Rightarrow> iob_object_bytes (iov_header b) = fsm_camera_bytes m
      | [] \<Rightarrow> fsm_camera_bytes m = 0)"
    by (simp add: check_submit_camera_def split: list.split)
  moreover have "check_submit_tile_index m inline = Inr () \<longleftrightarrow>
     (case inline_of_kind COK_TILE_INDEX_BLOCK inline of
        b # _ \<Rightarrow> iob_object_bytes (iov_header b) = fsm_tile_index_bytes m \<and>
          (\<exists>ids. unpack_tile_index_block (iov_payload b) (fsm_tile_index_mode m) (fsm_tile_count m)
             (fsm_tile_base_id m) = Inr ids)
      | [] \<Rightarrow> fsm_tile_count m > 0 \<longrightarrow> truthy (fsm_object_ref_mask m AND 2)) \<and>
     (truthy (fsm_object_ref_mask m AND 2) \<longrightarrow> fsm_tile_index_bytes m = 0)"
    by (cases "inline_of_kind COK_TILE_INDEX_BLOCK inline")
      (auto simp: check_submit_tile_index_def Let_def res_simps)
  moreover have "check_submit_sections m inline = Inr () \<longleftrightarrow>
     (case inline_of_kind COK_TENSOR_SECTION_TABLE inline of
        b # _ \<Rightarrow> (\<exists>t. unpack_tensor_body (iov_payload b) 0 (fsm_section_count m) (Some (fsm_tile_count m)) = Inr t)
      | [] \<Rightarrow> fsm_section_count m > 0 \<longrightarrow> truthy (fsm_object_ref_mask m AND 4))"
    by (cases "inline_of_kind COK_TENSOR_SECTION_TABLE inline")
      (auto simp: check_submit_sections_def Let_def res_simps)
  ultimately show ?thesis
    unfolding submit_objects_spec_def by simp
qed

lemma check_reference_slots_iff:
  "check_reference_slots ref_mask inline refs slots = Inr ks \<longleftrightarrow>
     ks = map snd (filter (\<lambda>(bit, kind). truthy (ref_mask AND bit)) slots) \<and>
     (\<forall>(bit, kind) \<in> set slots. length (inline_of_kind kind inline) \<le> 1 \<and>
        (truthy (ref_mask AND bit) \<longrightarrow> inline_of_kind kind inline = []) \<and>
        length (refs_of_kind kind refs) = (if truthy (ref_mask AND bit) then 1 else 0))"
proof (induction slots arbitrary: ks)
  case Nil
  then show ?case by auto
next
  case (Cons slot slots)
  obtain b k where slot: "slot = (b, k)" by (cases slot)
  show ?case
    using Cons unfolding slot
    by (cases "truthy (ref_mask AND b)"; cases "refs_of_kind k refs") (auto simp: res_simps)
qed

text \<open>The kinds of the slots are distinct, so the order of the references fixes their number.\<close>

lemma refs_of_kind_count: "length (refs_of_kind k refs) = count_list (map orb_object_kind refs) k"
  by (induction refs) (auto simp: refs_of_kind_def)

lemma count_mask_kinds:
  "(b, k) \<in> set FRAME_SUBMIT_STANDARD_REFERENCE_SLOTS \<Longrightarrow>
     count_list (mask_kinds ref_mask) k = (if truthy (ref_mask AND b) then 1 else 0)"
  by (auto simp: mask_kinds_def FRAME_SUBMIT_STANDARD_REFERENCE_SLOTS_def)

lemma mask_kinds_0 [simp]: "mask_kinds 0 = []"
  by (simp add: mask_kinds_def)

lemma unit_res_iff: "(\<exists>u. r = Inr (u :: unit)) \<longleftrightarrow> r = Inr ()"
  by auto

lemma known_mask [simp]: "FRAME_SUBMIT_KNOWN_OBJECT_REF_MASK = 15"
  by (simp add: FRAME_SUBMIT_KNOWN_OBJECT_REF_MASK_def FRAME_SUBMIT_STANDARD_REFERENCE_SLOTS_def)

lemma reference_slots_agree:
  "check_reference_slots ref_mask inline refs FRAME_SUBMIT_STANDARD_REFERENCE_SLOTS = Inr ks \<and>
     map orb_object_kind refs = ks \<longleftrightarrow>
   map orb_object_kind refs = mask_kinds ref_mask \<and> ks = mask_kinds ref_mask \<and>
     (\<forall>(bit, kind) \<in> set FRAME_SUBMIT_STANDARD_REFERENCE_SLOTS. length (inline_of_kind kind inline) \<le> 1 \<and>
        (truthy (ref_mask AND bit) \<longrightarrow> inline_of_kind kind inline = []))"
proof -
  have slots: "check_reference_slots ref_mask inline refs FRAME_SUBMIT_STANDARD_REFERENCE_SLOTS = Inr ks \<longleftrightarrow>
      ks = mask_kinds ref_mask \<and>
      (\<forall>(bit, kind) \<in> set FRAME_SUBMIT_STANDARD_REFERENCE_SLOTS. length (inline_of_kind kind inline) \<le> 1 \<and>
        (truthy (ref_mask AND bit) \<longrightarrow> inline_of_kind kind inline = []) \<and>
        count_list (map orb_object_kind refs) kind = (if truthy (ref_mask AND bit) then 1 else 0))" for ks
    unfolding check_reference_slots_iff [of ref_mask inline refs FRAME_SUBMIT_STANDARD_REFERENCE_SLOTS ks]
      mask_kinds_def refs_of_kind_count by (rule refl)
  show ?thesis
    unfolding slots by (auto simp: count_mask_kinds)
qed

theorem validate_frame_submit_object_contract_iff:
  "validate_frame_submit_object_contract m v = Inr () \<longleftrightarrow>
     (\<exists>inline refs. unpack_inline_object_blocks (reg_inline_object (bv_regions v)) = Inr inline \<and>
        unpack_object_reference_blocks (reg_object_reference (bv_regions v)) = Inr refs \<and>
        submit_objects_spec m inline refs)"
proof (cases "unpack_inline_object_blocks (reg_inline_object (bv_regions v))";
    cases "unpack_object_reference_blocks (reg_object_reference (bv_regions v))")
  fix inline refs
  assume u: "unpack_inline_object_blocks (reg_inline_object (bv_regions v)) = Inr inline"
    "unpack_object_reference_blocks (reg_object_reference (bv_regions v)) = Inr refs"
  have "validate_frame_submit_object_contract m v = Inr () \<longleftrightarrow>
      fsm_object_ref_mask m AND NOT 15 = 0 \<and>
      (fsm_submit_mode m = SM_INLINE \<longrightarrow> fsm_object_ref_mask m = 0) \<and>
      (fsm_submit_mode m = SM_INLINE \<longrightarrow> refs = []) \<and>
      (\<exists>ks. check_reference_slots (fsm_object_ref_mask m) inline refs FRAME_SUBMIT_STANDARD_REFERENCE_SLOTS = Inr ks \<and>
         map orb_object_kind refs = ks) \<and>
      (fsm_submit_mode m = SM_REFERENCE \<longrightarrow>
        (\<forall>(bit, kind) \<in> set FRAME_SUBMIT_STANDARD_REFERENCE_SLOTS. inline_of_kind kind inline = [])) \<and>
      check_submit_camera m inline = Inr () \<and> check_submit_tile_index m inline = Inr () \<and>
      check_submit_sections m inline = Inr ()"
    by (auto simp: validate_frame_submit_object_contract_def u res_simps list_ex_iff)
  also have "\<dots> \<longleftrightarrow> submit_objects_spec m inline refs"
    unfolding reference_slots_agree submit_objects_spec_checks by (auto split: prod.splits)
  finally show ?thesis
    by (simp add: u)
qed (auto simp: validate_frame_submit_object_contract_def)

theorem validate_frame_submit_body_iff:
  "validate_frame_submit_body m body = Inr v \<longleftrightarrow>
     unpack_body body = Inr v \<and>
     typed_payload_spec (fsm_payload_kind_bitmap m) (fsm_payload_frame_count m) (bv_regions v) \<and>
     (\<exists>inline refs. unpack_inline_object_blocks (reg_inline_object (bv_regions v)) = Inr inline \<and>
        unpack_object_reference_blocks (reg_object_reference (bv_regions v)) = Inr refs \<and>
        submit_objects_spec m inline refs)"
proof -
  have "validate_frame_submit_body m body = Inr v \<longleftrightarrow> unpack_body body = Inr v \<and>
      validate_body_metadata_contract (fsm_payload_kind_bitmap m) (fsm_payload_frame_count m) v = Inr () \<and>
      validate_frame_submit_object_contract m v = Inr ()"
    by (auto simp: validate_frame_submit_body_def res_simps)
  then show ?thesis
    using validate_body_metadata_contract_iff [of v] body.unpack_wf [of body v]
    by (auto simp: validate_frame_submit_object_contract_iff)
qed

section \<open>What the RESULT_PUSH checks mean\<close>

definition result_objects_spec ::
    "ResultPushMetadata \<Rightarrow> InlineObjectBlockView list \<Rightarrow> ObjectReferenceBlock list \<Rightarrow> bool" where
  "result_objects_spec m inline refs \<longleftrightarrow>
     sorted_wrt (<) (map reference_key refs) \<and>
     (\<forall>kind \<in> {COK_TILE_INDEX_BLOCK, COK_TENSOR_SECTION_TABLE}.
        length (inline_of_kind kind inline) + length (refs_of_kind kind refs) \<le> 1) \<and>
     (case inline_of_kind COK_TILE_INDEX_BLOCK inline of
        b # _ \<Rightarrow> iob_object_bytes (iov_header b) = rpm_tile_index_bytes m \<and>
          (\<exists>ids. unpack_tile_index_block (iov_payload b)
             (if rpm_tile_index_bytes m \<noteq> 0 then TIM_RAW_U16 else TIM_DENSE_RANGE)
             (rpm_tile_count m) (rpm_tile_base_id m) = Inr ids)
      | [] \<Rightarrow> rpm_tile_count m > 0 \<longrightarrow> refs_of_kind COK_TILE_INDEX_BLOCK refs \<noteq> []) \<and>
     (refs_of_kind COK_TILE_INDEX_BLOCK refs \<noteq> [] \<longrightarrow> rpm_tile_index_bytes m = 0) \<and>
     (case inline_of_kind COK_TENSOR_SECTION_TABLE inline of
        b # _ \<Rightarrow> (\<exists>t. unpack_tensor_body (iov_payload b) 0 (rpm_section_count m) (Some (rpm_tile_count m)) = Inr t)
      | [] \<Rightarrow> rpm_section_count m > 0 \<longrightarrow> refs_of_kind COK_TENSOR_SECTION_TABLE refs \<noteq> [])"

lemma check_reference_order_iff:
  "check_reference_order prev refs = Inr () \<longleftrightarrow>
     sorted_wrt (<) (map reference_key refs) \<and>
     (\<forall>p. prev = Some p \<longrightarrow> (\<forall>b \<in> set refs. p < reference_key b))"
proof (induction refs arbitrary: prev)
  case Nil
  then show ?case by simp
next
  case (Cons b refs)
  show ?case
    by (cases prev) (auto simp: Cons.IH not_le dest: less_trans)
qed

lemma check_result_tile_index_iff:
  "check_result_tile_index m inline refs = Inr () \<longleftrightarrow>
     length (refs_of_kind COK_TILE_INDEX_BLOCK refs) \<le> 1 \<and>
     (inline_of_kind COK_TILE_INDEX_BLOCK inline = [] \<or> refs_of_kind COK_TILE_INDEX_BLOCK refs = []) \<and>
     (case inline_of_kind COK_TILE_INDEX_BLOCK inline of
        b # _ \<Rightarrow> iob_object_bytes (iov_header b) = rpm_tile_index_bytes m \<and>
          (\<exists>ids. unpack_tile_index_block (iov_payload b)
             (if rpm_tile_index_bytes m \<noteq> 0 then TIM_RAW_U16 else TIM_DENSE_RANGE)
             (rpm_tile_count m) (rpm_tile_base_id m) = Inr ids)
      | [] \<Rightarrow> rpm_tile_count m > 0 \<longrightarrow> refs_of_kind COK_TILE_INDEX_BLOCK refs \<noteq> []) \<and>
     (refs_of_kind COK_TILE_INDEX_BLOCK refs \<noteq> [] \<longrightarrow> rpm_tile_index_bytes m = 0)"
  by (cases "inline_of_kind COK_TILE_INDEX_BLOCK inline")
    (auto simp: check_result_tile_index_def Let_def res_simps)

lemma check_result_sections_iff:
  "check_result_sections m inline refs = Inr () \<longleftrightarrow>
     length (refs_of_kind COK_TENSOR_SECTION_TABLE refs) \<le> 1 \<and>
     (inline_of_kind COK_TENSOR_SECTION_TABLE inline = [] \<or> refs_of_kind COK_TENSOR_SECTION_TABLE refs = []) \<and>
     (case inline_of_kind COK_TENSOR_SECTION_TABLE inline of
        b # _ \<Rightarrow> (\<exists>t. unpack_tensor_body (iov_payload b) 0 (rpm_section_count m) (Some (rpm_tile_count m)) = Inr t)
      | [] \<Rightarrow> rpm_section_count m > 0 \<longrightarrow> refs_of_kind COK_TENSOR_SECTION_TABLE refs \<noteq> [])"
  by (cases "inline_of_kind COK_TENSOR_SECTION_TABLE inline")
    (auto simp: check_result_sections_def Let_def res_simps)

lemma at_most_one_split:
  "length xs + length ys \<le> 1 \<longleftrightarrow> length xs \<le> 1 \<and> length ys \<le> 1 \<and> (xs = [] \<or> ys = [])"
  by (cases xs; cases ys) auto

theorem validate_result_push_body_iff:
  "validate_result_push_body m body = Inr v \<longleftrightarrow>
     unpack_body body = Inr v \<and>
     validate_result_push_tensor_coverage m = Inr () \<and>
     typed_payload_spec (rpm_payload_kind_bitmap m) (rpm_payload_frame_count m) (bv_regions v) \<and>
     (\<exists>inline refs. unpack_inline_object_blocks (reg_inline_object (bv_regions v)) = Inr inline \<and>
        unpack_object_reference_blocks (reg_object_reference (bv_regions v)) = Inr refs \<and>
        result_objects_spec m inline refs)"
proof -
  have objects: "validate_result_push_object_contract m v = Inr () \<longleftrightarrow>
      (\<exists>inline refs. unpack_inline_object_blocks (reg_inline_object (bv_regions v)) = Inr inline \<and>
        unpack_object_reference_blocks (reg_object_reference (bv_regions v)) = Inr refs \<and>
        check_reference_order None refs = Inr () \<and>
        (\<forall>kind \<in> {COK_TILE_INDEX_BLOCK, COK_TENSOR_SECTION_TABLE}. length (inline_of_kind kind inline) \<le> 1) \<and>
        check_result_tile_index m inline refs = Inr () \<and> check_result_sections m inline refs = Inr ())"
    by (auto simp: validate_result_push_object_contract_def res_simps not_less)
  have spec: "(check_reference_order None refs = Inr () \<and>
        (\<forall>kind \<in> {COK_TILE_INDEX_BLOCK, COK_TENSOR_SECTION_TABLE}. length (inline_of_kind kind inline) \<le> 1) \<and>
        check_result_tile_index m inline refs = Inr () \<and> check_result_sections m inline refs = Inr ()) \<longleftrightarrow>
      result_objects_spec m inline refs" for inline refs
    unfolding check_reference_order_iff check_result_tile_index_iff check_result_sections_iff
      result_objects_spec_def at_most_one_split by auto
  have "validate_result_push_body m body = Inr v \<longleftrightarrow> unpack_body body = Inr v \<and>
      validate_result_push_tensor_coverage m = Inr () \<and>
      validate_body_metadata_contract (rpm_payload_kind_bitmap m) (rpm_payload_frame_count m) v = Inr () \<and>
      validate_result_push_object_contract m v = Inr ()"
    by (auto simp: validate_result_push_body_def res_simps)
  then show ?thesis
    using validate_body_metadata_contract_iff [of v] body.unpack_wf [of body v]
    unfolding objects spec by auto
qed

text \<open>
  Metadata that came off the wire has already passed the coverage check: its counts are
  unsigned, and the constructor checks the rest.
\<close>

lemma ResultPushMetadata_coverage:
  assumes "ResultPushMetadata_wf m" "0 \<le> rpm_covered_tile_count m" "0 \<le> rpm_dropped_tile_count m"
  shows "validate_result_push_tensor_coverage m = Inr ()"
proof (cases "rpm_payload_kind_bitmap m AND PK_TENSOR = 0")
  case True
  then show ?thesis by (simp add: validate_result_push_tensor_coverage_def)
next
  case False
  have "m\<lparr>rpm_result_flags := rpm_result_flags m, rpm_applied_budget_policy := rpm_applied_budget_policy m,
      rpm_payload_kind_bitmap := rpm_payload_kind_bitmap m\<rparr> = m"
    by (cases m) simp
  then have "validate_result_push_contract m = Inr ()"
    using assms(1) by (auto simp: ResultPushMetadata_wf_def ResultPushMetadata_post_init_def Let_def
        res_simps coerce_iff)
  then have "\<not> ((rpm_result_class m = RC_PARTIAL \<or> rpm_result_flags m AND RF_PARTIAL \<noteq> 0) \<and> rpm_dropped_tile_count m = 0)"
    "\<not> (rpm_covered_tile_count m > rpm_tile_count m \<or> rpm_dropped_tile_count m > rpm_tile_count m)"
    "rpm_covered_tile_count m + rpm_dropped_tile_count m = rpm_tile_count m"
    using False by (simp_all only: validate_result_push_contract_def Let_def if_False if_ve_Inr_iff) simp_all
  then show ?thesis
    using assms(2,3) False unfolding validate_result_push_tensor_coverage_def by simp
qed

lemma ResultPushMetadata_unpack_coverage:
  assumes "ResultPushMetadata_unpack bs = Inr m"
  shows "validate_result_push_tensor_coverage m = Inr ()"
proof -
  have "ResultPushMetadata_pack m = Inr bs"
    by (rule rpm.pack_unpack [OF assms])
  then have "0 \<le> rpm_covered_tile_count m" "0 \<le> rpm_dropped_tile_count m"
    by (auto simp: ResultPushMetadata_pack_def fixed_width_pack_Inr ResultPushMetadata_values_def
        RESULT_PUSH_STRUCT_def fits_def dest!: struct_pack_fits)
  then show ?thesis
    using rpm.unpack_wf [OF assms] by (intro ResultPushMetadata_coverage)
qed

end
