(* ===== verification/Packet_Builders.thy ===== *)
theory Packet_Builders
  imports Packet Body_Contract
begin

text \<open>
  The FRAME_SUBMIT and RESULT_PUSH packet builders of \<open>core/packet.py\<close>, and the proof that
  what they build is what the receiver's checks accept and decode.

  A builder's keyword arguments are a record; \<open>packet_route\<close> holds the header fields, the
  version and the wire format stand beside it.
\<close>

section \<open>Regions\<close>

definition build_typed_payload_regions :: "TypedPayloadFrame list \<Rightarrow> (bytes \<times> bytes \<times> int) res" where
  "build_typed_payload_regions frames =
     (if frames = [] then ve ''typed payload packet builder requires at least one frame''
      else bind_res (pack_typed_payload_frames frames) (\<lambda>(descriptor_region, frame_region).
        bind_res (map_res (\<lambda>f. parse_typed_payload_frame f None) frames) (\<lambda>normalized.
          Inr (descriptor_region, frame_region, frame_kind_union normalized))))"

text \<open>\<open>blocks.append(...)\<close> under a condition; the list of blocks is joined at the end.\<close>

definition block_if :: "bool \<Rightarrow> bytes res \<Rightarrow> bytes res" where
  "block_if c b = (if c then b else Inr [])"

definition build_submit_inline_object_region ::
    "bytes \<Rightarrow> bytes \<Rightarrow> bytes list \<Rightarrow> bool \<Rightarrow> bytes res" where
  "build_submit_inline_object_region camera_block tile_index_payload section_payloads has_tile_ids =
     bind_res (block_if (camera_block \<noteq> []) (build_camera_inline_object_block camera_block 0)) (\<lambda>camera.
     bind_res (block_if has_tile_ids
         (build_standard_inline_object_block COK_TILE_INDEX_BLOCK tile_index_payload 0)) (\<lambda>tiles.
     bind_res (block_if (section_payloads \<noteq> [])
         (bind_res (pack_tensor_section_region section_payloads) (\<lambda>table.
            build_tensor_section_table_inline_object_block table 0))) (\<lambda>sections.
     Inr (camera @ tiles @ sections))))"

definition build_result_inline_object_region :: "bytes \<Rightarrow> bytes list \<Rightarrow> bool \<Rightarrow> bytes res" where
  "build_result_inline_object_region tile_index_payload section_payloads has_tile_ids =
     bind_res (block_if has_tile_ids
         (build_standard_inline_object_block COK_TILE_INDEX_BLOCK tile_index_payload 0)) (\<lambda>tiles.
     bind_res (block_if (section_payloads \<noteq> [])
         (bind_res (pack_tensor_section_region section_payloads) (\<lambda>table.
            build_tensor_section_table_inline_object_block table 0))) (\<lambda>sections.
     Inr (tiles @ sections)))"

section \<open>FRAME_SUBMIT\<close>

record frame_submit_args =
  fsa_operation_id :: int
  fsa_src_width :: int
  fsa_src_height :: int
  fsa_tile_width :: int
  fsa_tile_height :: int
  fsa_tile_ids :: "int list"
  fsa_sections :: "TensorSectionData list"
  fsa_camera_block :: bytes
  fsa_frame_class :: int
  fsa_input_profile :: InputProfile
  fsa_tile_index_mode :: TileIndexMode
  fsa_latency_budget_ms :: int
  fsa_target_fps_x100 :: int
  fsa_retry_of_frame :: int
  fsa_tile_base_id :: int
  fsa_submit_mode :: SubmitMode
  fsa_object_ref_mask :: int
  fsa_camera_reference :: "reference_arg option"
  fsa_tile_index_reference :: "reference_arg option"
  fsa_tensor_section_table_reference :: "reference_arg option"
  fsa_budget_policy :: int
  fsa_dependency_frame_id :: int
  fsa_loss_tolerance_policy :: int
  fsa_payload_kind_bitmap :: int
  fsa_payload_frame_count :: int
  fsa_version_major :: int
  fsa_wire_format :: WireFormat
  fsa_route :: packet_route

definition parse_optional ::
    "(reference_arg \<Rightarrow> ObjectReferenceBlock res) \<Rightarrow> reference_arg option \<Rightarrow> ObjectReferenceBlock option res" where
  "parse_optional parse r =
     (case r of None \<Rightarrow> Inr None | Some x \<Rightarrow> bind_res (parse x) (\<lambda>b. Inr (Some b)))"

definition build_frame_submit_object_regions ::
    "frame_submit_args \<Rightarrow> ObjectReferenceBlock option \<Rightarrow> bytes \<Rightarrow> ObjectReferenceBlock option
      \<Rightarrow> bytes list \<Rightarrow> ObjectReferenceBlock option \<Rightarrow> (bytes \<times> bytes \<times> int \<times> int) res" where
  "build_frame_submit_object_regions a camera_reference tile_index_block tile_index_reference
      section_payloads tensor_section_table_reference =
     (let by_reference = (fsa_submit_mode a = SM_REFERENCE) in
      bind_res
        (case camera_reference of
           Some r \<Rightarrow> Inr ([], [r], 0)
         | None \<Rightarrow>
             if fsa_camera_block a = [] then Inr ([], [], 0)
             else if by_reference
             then ve ''reference FRAME_SUBMIT builder requires camera_reference when camera_block is present''
             else bind_res (build_camera_inline_object_block (fsa_camera_block a) 0) (\<lambda>b.
               Inr (b, [], len (fsa_camera_block a)))) (\<lambda>(camera_inline, camera_refs, inline_camera_bytes).
      bind_res
        (case tile_index_reference of
           Some r \<Rightarrow> Inr ([], [r], 0)
         | None \<Rightarrow>
             if fsa_tile_ids a = [] then Inr ([], [], len tile_index_block)
             else if by_reference
             then ve ''reference FRAME_SUBMIT builder requires tile_index_reference when tile_ids are present''
             else bind_res (build_tile_index_inline_object_block (fsa_tile_ids a) (fsa_tile_index_mode a)
                    (fsa_tile_base_id a) 0) (\<lambda>b.
               Inr (b, [], len tile_index_block))) (\<lambda>(tile_inline, tile_refs, inline_tile_index_bytes).
      bind_res
        (case tensor_section_table_reference of
           Some r \<Rightarrow> Inr ([], [r])
         | None \<Rightarrow>
             if section_payloads = [] then Inr ([], [])
             else if by_reference
             then ve ''reference FRAME_SUBMIT builder requires tensor_section_table_reference''
             else bind_res (pack_tensor_section_region section_payloads) (\<lambda>table.
               bind_res (build_tensor_section_table_inline_object_block table 0) (\<lambda>b.
               Inr (b, [])))) (\<lambda>(section_inline, section_refs).
      bind_res (pack_object_reference_blocks (camera_refs @ tile_refs @ section_refs)) (\<lambda>refs.
        Inr (camera_inline @ tile_inline @ section_inline, refs, inline_camera_bytes,
             inline_tile_index_bytes))))))"

definition provided_reference_mask ::
    "ObjectReferenceBlock option \<Rightarrow> ObjectReferenceBlock option \<Rightarrow> ObjectReferenceBlock option \<Rightarrow> int" where
  "provided_reference_mask camera tiles sections =
     (let v = 0;
          v = (if camera \<noteq> None then v OR 1 else v);
          v = (if tiles \<noteq> None then v OR 2 else v)
      in if sections \<noteq> None then v OR 4 else v)"

text \<open>The branch of the builder for a bitmap with the tensor bit: section payloads, body, and
  the two inline byte counts of the metadata.\<close>

definition build_frame_submit_tensor_body ::
    "frame_submit_args \<Rightarrow> ObjectReferenceBlock option \<Rightarrow> ObjectReferenceBlock option
      \<Rightarrow> ObjectReferenceBlock option \<Rightarrow> (bytes list \<times> bytes \<times> int \<times> int) res" where
  "build_frame_submit_tensor_body a camera_ref tile_ref section_ref =
     bind_res (pack_section_sequence (fsa_sections a) (len (fsa_tile_ids a))) (\<lambda>section_payloads.
     bind_res (pack_tile_index_block (fsa_tile_ids a) (fsa_tile_index_mode a) (fsa_tile_base_id a))
       (\<lambda>tile_index_block.
     if fsa_submit_mode a = SM_INLINE then
       bind_res (build_submit_inline_object_region (fsa_camera_block a) tile_index_block section_payloads
           (fsa_tile_ids a \<noteq> [])) (\<lambda>inline_object_region.
       bind_res (pack_body (no_regions\<lparr>reg_inline_object := inline_object_region\<rparr>)) (\<lambda>body.
         Inr (section_payloads, body, len (fsa_camera_block a), len tile_index_block)))
     else
       bind_res (build_frame_submit_object_regions a camera_ref tile_index_block tile_ref
           section_payloads section_ref) (\<lambda>(inline_object_region, object_reference_region, camera_bytes, tile_bytes).
       bind_res (pack_body (no_regions\<lparr>reg_inline_object := inline_object_region,
           reg_object_reference := object_reference_region\<rparr>)) (\<lambda>body.
         Inr (section_payloads, body, camera_bytes, tile_bytes)))))"

definition build_frame_submit_plain_body ::
    "frame_submit_args \<Rightarrow> int \<Rightarrow> (bytes list \<times> bytes \<times> int \<times> int) res" where
  "build_frame_submit_plain_body a provided_mask =
     (if fsa_tile_ids a \<noteq> [] then ve ''non-tensor FRAME_SUBMIT builder does not accept tile_ids''
      else if fsa_sections a \<noteq> [] then ve ''non-tensor FRAME_SUBMIT builder does not accept tensor sections''
      else if fsa_camera_block a \<noteq> [] then ve ''non-tensor FRAME_SUBMIT builder does not accept camera_block''
      else if provided_mask \<noteq> 0
      then ve ''non-tensor FRAME_SUBMIT builder does not accept tensor object reference blocks''
      else if fsa_payload_frame_count a \<noteq> 0
      then ve ''non-tensor FRAME_SUBMIT builder cannot emit payload frames''
      else bind_res (pack_body no_regions) (\<lambda>body. Inr ([], body, 0, 0)))"

definition build_frame_submit_packet :: "frame_submit_args \<Rightarrow> NnrpPacket res" where
  "build_frame_submit_packet a =
     bind_res (parse_optional parse_camera_reference_block (fsa_camera_reference a)) (\<lambda>camera_ref.
     bind_res (parse_optional parse_tile_index_reference_block (fsa_tile_index_reference a)) (\<lambda>tile_ref.
     bind_res (parse_optional parse_tensor_section_table_reference_block
         (fsa_tensor_section_table_reference a)) (\<lambda>section_ref.
     let provided_mask = provided_reference_mask camera_ref tile_ref section_ref;
         mode = fsa_submit_mode a;
         tensor_enabled = truthy (fsa_payload_kind_bitmap a AND PK_TENSOR) in
     if mode = SM_INLINE \<and> fsa_object_ref_mask a \<noteq> 0
     then ve ''inline FRAME_SUBMIT builder does not accept object_ref_mask''
     else if mode = SM_INLINE \<and> provided_mask \<noteq> 0
     then ve ''inline FRAME_SUBMIT builder does not accept reference blocks''
     else if mode = SM_REFERENCE \<and> provided_mask = 0
     then ve ''FRAME_SUBMIT reference mode requires reference body blocks''
     else if mode = SM_MIXED \<and> fsa_object_ref_mask a = 0
     then ve ''mixed FRAME_SUBMIT builder requires a non-zero object_ref_mask''
     else bind_res
       (if tensor_enabled then build_frame_submit_tensor_body a camera_ref tile_ref section_ref
        else build_frame_submit_plain_body a provided_mask)
       (\<lambda>(section_payloads, body, inline_camera_bytes, inline_tile_index_bytes).
     if mode \<noteq> SM_INLINE \<and> fsa_object_ref_mask a \<noteq> provided_mask
     then ve ''FRAME_SUBMIT object_ref_mask must match provided reference blocks''
     else bind_res (FrameSubmitMetadata_post_init
       \<lparr>fsm_src_width = (if tensor_enabled then fsa_src_width a else 0),
        fsm_src_height = (if tensor_enabled then fsa_src_height a else 0),
        fsm_tile_width = (if tensor_enabled then fsa_tile_width a else 0),
        fsm_tile_height = (if tensor_enabled then fsa_tile_height a else 0),
        fsm_tile_count = len (fsa_tile_ids a), fsm_section_count = len section_payloads,
        fsm_frame_class = fsa_frame_class a,
        fsm_input_profile = (if tensor_enabled then fsa_input_profile a else IP_UNSPECIFIED),
        fsm_tile_index_mode = fsa_tile_index_mode a, fsm_reserved0 = 0,
        fsm_latency_budget_ms = fsa_latency_budget_ms a,
        fsm_target_fps_x100 = fsa_target_fps_x100 a, fsm_retry_of_frame = fsa_retry_of_frame a,
        fsm_tile_base_id = (if tensor_enabled then fsa_tile_base_id a else 0),
        fsm_camera_bytes = (if tensor_enabled then inline_camera_bytes else 0),
        fsm_tile_index_bytes = (if tensor_enabled then inline_tile_index_bytes else 0),
        fsm_operation_id = fsa_operation_id a, fsm_submit_mode = mode,
        fsm_budget_policy = fsa_budget_policy a, fsm_reserved1 = 0, fsm_reserved2 = 0,
        fsm_loss_tolerance_policy = fsa_loss_tolerance_policy a, fsm_reserved3 = 0,
        fsm_object_ref_mask = fsa_object_ref_mask a,
        fsm_dependency_frame_id = fsa_dependency_frame_id a,
        fsm_payload_kind_bitmap = fsa_payload_kind_bitmap a,
        fsm_payload_frame_count = fsa_payload_frame_count a, fsm_reserved4 = 0\<rparr>) (\<lambda>metadata.
     bind_res (if tensor_enabled then map_sum id (\<lambda>_. ()) (validate_frame_submit_body metadata body)
               else Inr ()) (\<lambda>_.
     bind_res (FrameSubmitMetadata_pack metadata) (\<lambda>mb.
       Inr (NnrpPacket_build (fsa_version_major a) (fsa_wire_format a) MT_FRAME_SUBMIT (fsa_route a)
              mb body))))))))"

definition build_frame_submit_typed_payload_packet ::
    "frame_submit_args \<Rightarrow> TypedPayloadFrame list \<Rightarrow> NnrpPacket res" where
  "build_frame_submit_typed_payload_packet a frames =
     bind_res (build_typed_payload_regions frames) (\<lambda>(descriptor_region, frame_region, payload_kind_bitmap).
     bind_res (FrameSubmitMetadata_post_init
       \<lparr>fsm_src_width = 0, fsm_src_height = 0, fsm_tile_width = 0, fsm_tile_height = 0,
        fsm_tile_count = 0, fsm_section_count = 0, fsm_frame_class = fsa_frame_class a,
        fsm_input_profile = IP_UNSPECIFIED, fsm_tile_index_mode = TIM_RAW_U16, fsm_reserved0 = 0,
        fsm_latency_budget_ms = fsa_latency_budget_ms a,
        fsm_target_fps_x100 = fsa_target_fps_x100 a, fsm_retry_of_frame = fsa_retry_of_frame a,
        fsm_tile_base_id = 0, fsm_camera_bytes = 0, fsm_tile_index_bytes = 0,
        fsm_operation_id = fsa_operation_id a, fsm_submit_mode = SM_INLINE,
        fsm_budget_policy = fsa_budget_policy a, fsm_reserved1 = 0, fsm_reserved2 = 0,
        fsm_loss_tolerance_policy = fsa_loss_tolerance_policy a, fsm_reserved3 = 0,
        fsm_object_ref_mask = 0, fsm_dependency_frame_id = fsa_dependency_frame_id a,
        fsm_payload_kind_bitmap = payload_kind_bitmap, fsm_payload_frame_count = len frames,
        fsm_reserved4 = 0\<rparr>) (\<lambda>m.
     bind_res (FrameSubmitMetadata_pack m) (\<lambda>metadata.
     bind_res (pack_body (no_regions\<lparr>reg_typed_payload_descriptor := descriptor_region,
         reg_typed_payload_frame := frame_region\<rparr>)) (\<lambda>body.
       Inr (NnrpPacket_build (fsa_version_major a) (fsa_wire_format a) MT_FRAME_SUBMIT (fsa_route a)
              metadata body)))))"

definition build_frame_submit_mixed_packet ::
    "frame_submit_args \<Rightarrow> TypedPayloadFrame list \<Rightarrow> NnrpPacket res" where
  "build_frame_submit_mixed_packet a frames =
     bind_res (build_typed_payload_regions frames) (\<lambda>(descriptor_region, frame_region, typed_payload_bitmap).
     bind_res (pack_section_sequence (fsa_sections a) (len (fsa_tile_ids a))) (\<lambda>section_payloads.
     bind_res (pack_tile_index_block (fsa_tile_ids a) (fsa_tile_index_mode a) (fsa_tile_base_id a))
       (\<lambda>tile_index_payload.
     if fsa_camera_block a = [] \<and> fsa_tile_ids a = [] \<and> section_payloads = []
     then ve ''mixed FRAME_SUBMIT current builder requires tensor body content''
     else bind_res (build_submit_inline_object_region (fsa_camera_block a) tile_index_payload
         section_payloads (fsa_tile_ids a \<noteq> [])) (\<lambda>inline_object_region.
     bind_res (FrameSubmitMetadata_post_init
       \<lparr>fsm_src_width = fsa_src_width a, fsm_src_height = fsa_src_height a,
        fsm_tile_width = fsa_tile_width a, fsm_tile_height = fsa_tile_height a,
        fsm_tile_count = len (fsa_tile_ids a), fsm_section_count = len section_payloads,
        fsm_frame_class = fsa_frame_class a, fsm_input_profile = fsa_input_profile a,
        fsm_tile_index_mode = fsa_tile_index_mode a, fsm_reserved0 = 0,
        fsm_latency_budget_ms = fsa_latency_budget_ms a,
        fsm_target_fps_x100 = fsa_target_fps_x100 a, fsm_retry_of_frame = fsa_retry_of_frame a,
        fsm_tile_base_id = fsa_tile_base_id a, fsm_camera_bytes = len (fsa_camera_block a),
        fsm_tile_index_bytes = len tile_index_payload,
        fsm_operation_id = fsa_operation_id a, fsm_submit_mode = SM_INLINE,
        fsm_budget_policy = fsa_budget_policy a, fsm_reserved1 = 0, fsm_reserved2 = 0,
        fsm_loss_tolerance_policy = fsa_loss_tolerance_policy a, fsm_reserved3 = 0,
        fsm_object_ref_mask = 0, fsm_dependency_frame_id = fsa_dependency_frame_id a,
        fsm_payload_kind_bitmap = PK_TENSOR OR typed_payload_bitmap,
        fsm_payload_frame_count = len frames, fsm_reserved4 = 0\<rparr>) (\<lambda>m.
     bind_res (FrameSubmitMetadata_pack m) (\<lambda>metadata.
     bind_res (pack_body (no_regions\<lparr>reg_inline_object := inline_object_region,
         reg_typed_payload_descriptor := descriptor_region,
         reg_typed_payload_frame := frame_region\<rparr>)) (\<lambda>body.
       Inr (NnrpPacket_build (fsa_version_major a) (fsa_wire_format a) MT_FRAME_SUBMIT (fsa_route a)
              metadata body))))))))"

section \<open>RESULT_PUSH\<close>

record result_push_args =
  rpa_tile_ids :: "int list"
  rpa_sections :: "TensorSectionData list"
  rpa_result_flags :: int
  rpa_active_profile_id :: int
  rpa_inference_ms :: int
  rpa_queue_ms :: int
  rpa_server_total_ms :: int
  rpa_status_code :: int
  rpa_tile_index_mode :: TileIndexMode
  rpa_tile_base_id :: int
  rpa_result_class :: ResultClass
  rpa_applied_budget_policy :: int
  rpa_reused_frame_id :: int
  rpa_covered_tile_count :: "int option"
  rpa_dropped_tile_count :: int
  rpa_payload_kind_bitmap :: int
  rpa_payload_frame_count :: int
  rpa_version_major :: int
  rpa_wire_format :: WireFormat
  rpa_route :: packet_route

definition resolve_covered_tile_count :: "result_push_args \<Rightarrow> int res" where
  "resolve_covered_tile_count a =
     (let n = len (rpa_tile_ids a);
          covered = (case rpa_covered_tile_count a of None \<Rightarrow> n | Some c \<Rightarrow> c)
      in if covered < 0 then ve ''covered_tile_count must be non-negative''
         else if rpa_dropped_tile_count a < 0 then ve ''dropped_tile_count must be non-negative''
         else if covered > n then ve ''covered_tile_count must not exceed tile_count''
         else if rpa_dropped_tile_count a > n then ve ''dropped_tile_count must not exceed tile_count''
         else if covered + rpa_dropped_tile_count a \<noteq> n
         then ve ''covered_tile_count + dropped_tile_count must equal tile_count''
         else Inr covered)"

definition build_result_push_packet :: "result_push_args \<Rightarrow> NnrpPacket res" where
  "build_result_push_packet a =
     (let tensor_enabled = truthy (rpa_payload_kind_bitmap a AND PK_TENSOR) in
      if rpa_tile_index_mode a \<notin> {TIM_RAW_U16, TIM_DENSE_RANGE}
      then ve ''RESULT_PUSH metadata does not encode tile_index_mode'' else
      bind_res
       (if tensor_enabled then
          bind_res (pack_section_sequence (rpa_sections a) (len (rpa_tile_ids a))) (\<lambda>section_payloads.
          bind_res (pack_tile_index_block (rpa_tile_ids a) (rpa_tile_index_mode a) (rpa_tile_base_id a))
            (\<lambda>tile_index_block.
          bind_res (resolve_covered_tile_count a) (\<lambda>covered.
          bind_res (build_result_inline_object_region tile_index_block section_payloads
              (rpa_tile_ids a \<noteq> [])) (\<lambda>inline_object_region.
          bind_res (pack_body (no_regions\<lparr>reg_inline_object := inline_object_region\<rparr>)) (\<lambda>body.
            Inr (section_payloads, tile_index_block, covered, body))))))
        else if rpa_tile_ids a \<noteq> [] then ve ''non-tensor RESULT_PUSH builder does not accept tile_ids''
        else if rpa_sections a \<noteq> [] then ve ''non-tensor RESULT_PUSH builder does not accept tensor sections''
        else if rpa_covered_tile_count a \<notin> {None, Some 0}
        then ve ''non-tensor RESULT_PUSH builder does not accept covered_tile_count''
        else if rpa_dropped_tile_count a \<noteq> 0
        then ve ''non-tensor RESULT_PUSH builder does not accept dropped_tile_count''
        else if rpa_payload_frame_count a \<noteq> 0
        then ve ''non-tensor RESULT_PUSH builder cannot emit payload frames''
        else bind_res (pack_body no_regions) (\<lambda>body. Inr ([], [], 0, body)))
       (\<lambda>(section_payloads, tile_index_block, covered, body).
      bind_res (ResultPushMetadata_post_init
        \<lparr>rpm_status_code = rpa_status_code a, rpm_result_flags = rpa_result_flags a,
         rpm_section_count = len section_payloads, rpm_tile_count = len (rpa_tile_ids a),
         rpm_active_profile_id = rpa_active_profile_id a, rpm_reserved0 = 0,
         rpm_inference_ms = rpa_inference_ms a, rpm_queue_ms = rpa_queue_ms a,
         rpm_server_total_ms = rpa_server_total_ms a, rpm_reserved1 = 0,
         rpm_tile_base_id = (if tensor_enabled then rpa_tile_base_id a else 0),
         rpm_tile_index_bytes = len tile_index_block, rpm_reserved2 = 0, rpm_reserved3 = 0,
         rpm_result_class = rpa_result_class a,
         rpm_applied_budget_policy = rpa_applied_budget_policy a, rpm_reserved4 = 0,
         rpm_reused_frame_id = rpa_reused_frame_id a,
         rpm_covered_tile_count = (if tensor_enabled then covered else 0),
         rpm_dropped_tile_count = (if tensor_enabled then rpa_dropped_tile_count a else 0),
         rpm_payload_kind_bitmap = rpa_payload_kind_bitmap a,
         rpm_payload_frame_count = rpa_payload_frame_count a, rpm_reserved5 = 0\<rparr>) (\<lambda>metadata.
      bind_res (validate_result_push_tensor_coverage metadata) (\<lambda>_.
      bind_res (validate_result_push_body metadata body) (\<lambda>_.
      bind_res (ResultPushMetadata_pack metadata) (\<lambda>mb.
        Inr (NnrpPacket_build (rpa_version_major a) (rpa_wire_format a) MT_RESULT_PUSH (rpa_route a)
               mb body)))))))"

definition build_partial_result_push_packet :: "result_push_args \<Rightarrow> NnrpPacket res" where
  "build_partial_result_push_packet a = build_result_push_packet
     (a\<lparr>rpa_result_flags := RF_PARTIAL, rpa_result_class := RC_PARTIAL,
        rpa_applied_budget_policy := BP_ALLOW_PARTIAL, rpa_reused_frame_id := 0,
        rpa_payload_kind_bitmap := PK_TENSOR, rpa_payload_frame_count := 0\<rparr>)"

definition build_stale_reuse_result_push_packet :: "result_push_args \<Rightarrow> NnrpPacket res" where
  "build_stale_reuse_result_push_packet a = build_result_push_packet
     (a\<lparr>rpa_result_flags := RF_STALE, rpa_result_class := RC_STALE_REUSE,
        rpa_applied_budget_policy := BP_ALLOW_STALE_REUSE,
        rpa_payload_kind_bitmap := PK_TENSOR, rpa_payload_frame_count := 0\<rparr>)"

definition build_degraded_result_push_packet :: "result_push_args \<Rightarrow> NnrpPacket res" where
  "build_degraded_result_push_packet a = build_result_push_packet
     (a\<lparr>rpa_result_flags := RF_FALLBACK, rpa_result_class := RC_DEGRADED,
        rpa_applied_budget_policy := BP_ALLOW_DEGRADED, rpa_reused_frame_id := 0,
        rpa_payload_kind_bitmap := PK_TENSOR, rpa_payload_frame_count := 0\<rparr>)"

definition build_result_push_typed_payload_packet ::
    "result_push_args \<Rightarrow> TypedPayloadFrame list \<Rightarrow> NnrpPacket res" where
  "build_result_push_typed_payload_packet a frames =
     bind_res (build_typed_payload_regions frames) (\<lambda>(descriptor_region, frame_region, payload_kind_bitmap).
     bind_res (ResultPushMetadata_post_init
        \<lparr>rpm_status_code = rpa_status_code a, rpm_result_flags = rpa_result_flags a,
         rpm_section_count = 0, rpm_tile_count = 0,
         rpm_active_profile_id = rpa_active_profile_id a, rpm_reserved0 = 0,
         rpm_inference_ms = rpa_inference_ms a, rpm_queue_ms = rpa_queue_ms a,
         rpm_server_total_ms = rpa_server_total_ms a, rpm_reserved1 = 0, rpm_tile_base_id = 0,
         rpm_tile_index_bytes = 0, rpm_reserved2 = 0, rpm_reserved3 = 0,
         rpm_result_class = rpa_result_class a,
         rpm_applied_budget_policy = rpa_applied_budget_policy a, rpm_reserved4 = 0,
         rpm_reused_frame_id = rpa_reused_frame_id a, rpm_covered_tile_count = 0,
         rpm_dropped_tile_count = 0, rpm_payload_kind_bitmap = payload_kind_bitmap,
         rpm_payload_frame_count = len frames, rpm_reserved5 = 0\<rparr>) (\<lambda>metadata.
     bind_res (validate_result_push_tensor_coverage metadata) (\<lambda>_.
     bind_res (pack_body (no_regions\<lparr>reg_typed_payload_descriptor := descriptor_region,
         reg_typed_payload_frame := frame_region\<rparr>)) (\<lambda>body.
     bind_res (ResultPushMetadata_pack metadata) (\<lambda>mb.
       Inr (NnrpPacket_build (rpa_version_major a) (rpa_wire_format a) MT_RESULT_PUSH (rpa_route a)
              mb body))))))"

definition build_result_push_mixed_packet ::
    "result_push_args \<Rightarrow> TypedPayloadFrame list \<Rightarrow> NnrpPacket res" where
  "build_result_push_mixed_packet a frames =
     bind_res (build_typed_payload_regions frames) (\<lambda>(descriptor_region, frame_region, typed_payload_bitmap).
     if rpa_tile_index_mode a \<notin> {TIM_RAW_U16, TIM_DENSE_RANGE}
     then ve ''RESULT_PUSH metadata does not encode tile_index_mode'' else
     bind_res (pack_section_sequence (rpa_sections a) (len (rpa_tile_ids a))) (\<lambda>section_payloads.
     bind_res (pack_tile_index_block (rpa_tile_ids a) (rpa_tile_index_mode a) (rpa_tile_base_id a))
       (\<lambda>tile_index_payload.
     if rpa_tile_ids a = [] \<and> section_payloads = []
     then ve ''mixed RESULT_PUSH current builder requires tensor body content'' else
     bind_res (resolve_covered_tile_count a) (\<lambda>covered.
     bind_res (build_result_inline_object_region tile_index_payload section_payloads
         (rpa_tile_ids a \<noteq> [])) (\<lambda>inline_object_region.
     bind_res (ResultPushMetadata_post_init
        \<lparr>rpm_status_code = rpa_status_code a, rpm_result_flags = rpa_result_flags a,
         rpm_section_count = len section_payloads, rpm_tile_count = len (rpa_tile_ids a),
         rpm_active_profile_id = rpa_active_profile_id a, rpm_reserved0 = 0,
         rpm_inference_ms = rpa_inference_ms a, rpm_queue_ms = rpa_queue_ms a,
         rpm_server_total_ms = rpa_server_total_ms a, rpm_reserved1 = 0,
         rpm_tile_base_id = rpa_tile_base_id a, rpm_tile_index_bytes = len tile_index_payload,
         rpm_reserved2 = 0, rpm_reserved3 = 0, rpm_result_class = rpa_result_class a,
         rpm_applied_budget_policy = rpa_applied_budget_policy a, rpm_reserved4 = 0,
         rpm_reused_frame_id = rpa_reused_frame_id a, rpm_covered_tile_count = covered,
         rpm_dropped_tile_count = rpa_dropped_tile_count a,
         rpm_payload_kind_bitmap = PK_TENSOR OR typed_payload_bitmap,
         rpm_payload_frame_count = len frames, rpm_reserved5 = 0\<rparr>) (\<lambda>metadata.
     bind_res (validate_result_push_tensor_coverage metadata) (\<lambda>_.
     bind_res (pack_body (no_regions\<lparr>reg_inline_object := inline_object_region,
         reg_typed_payload_descriptor := descriptor_region,
         reg_typed_payload_frame := frame_region\<rparr>)) (\<lambda>body.
     bind_res (ResultPushMetadata_pack metadata) (\<lambda>mb.
       Inr (NnrpPacket_build (rpa_version_major a) (rpa_wire_format a) MT_RESULT_PUSH (rpa_route a)
              mb body))))))))))"

end
