(* ===== verification/Builder_Correctness.thy ===== *)
theory Builder_Correctness
  imports Packet_Builders
begin

text \<open>
  The packets the builders return, seen from the receiver: the metadata unpacks, the body
  passes the checks, and the tile ids, tensor sections and typed frames read back are the ones
  the builder was given.
\<close>

section \<open>Inline regions\<close>

definition block_contents :: "InlineObjectBlockView \<Rightarrow> CacheObjectKind \<times> bytes" where
  "block_contents v = (iob_object_kind (iov_header v), iov_payload v)"

lemma map_res_append_Inr:
  "map_res f xs = Inr as \<Longrightarrow> map_res f ys = Inr bs \<Longrightarrow> map_res f (xs @ ys) = Inr (as @ bs)"
  by (simp add: map_res_append)

lemma optional_block:
  assumes "block_if c (build_standard_inline_object_block k body pid) = Inr bs"
  obtains bl vs where "bs = concat bl" "map_res unpack_inline_object_block bl = Inr vs"
    "map block_contents vs = (if c then [(k, body)] else [])"
proof (cases c)
  case False
  then show ?thesis
    using assms that [of "[]" "[]"] by (simp add: block_if_def)
next
  case True
  then obtain v where "parse_standard_inline_object_block bs k = Inr v" "iov_payload v = body"
    using assms parse_build_standard_inline_object_block [of k body pid bs] by (auto simp: block_if_def)
  then show ?thesis
    using True that [of "[bs]" "[v]"]
    by (auto simp: parse_standard_inline_object_block_def res_simps block_contents_def split: if_splits)
qed

lemma section_block_standard:
  "block_if c (bind_res (pack_tensor_section_region ps) (\<lambda>table.
     build_tensor_section_table_inline_object_block table 0)) =
   block_if c (build_standard_inline_object_block COK_TENSOR_SECTION_TABLE (section_region ps) 0)"
  by (simp add: pack_tensor_section_region_eq build_tensor_section_table_inline_object_block_def)

definition tensor_contents :: "bytes \<Rightarrow> bytes list \<Rightarrow> bool \<Rightarrow> (CacheObjectKind \<times> bytes) list" where
  "tensor_contents tile_payload ps has_tiles =
     (if has_tiles then [(COK_TILE_INDEX_BLOCK, tile_payload)] else []) @
     (if ps \<noteq> [] then [(COK_TENSOR_SECTION_TABLE, section_region ps)] else [])"

lemma result_inline_region_contents:
  assumes "build_result_inline_object_region tile_payload ps has_tiles = Inr region"
  obtains vs where "unpack_inline_object_blocks region = Inr vs"
    "map block_contents vs = tensor_contents tile_payload ps has_tiles"
proof -
  from assms obtain t s where
    t: "block_if has_tiles (build_standard_inline_object_block COK_TILE_INDEX_BLOCK tile_payload 0) = Inr t"
    and s: "block_if (ps \<noteq> []) (build_standard_inline_object_block COK_TENSOR_SECTION_TABLE
        (section_region ps) 0) = Inr s"
    and region: "region = t @ s"
    by (auto simp: build_result_inline_object_region_def section_block_standard res_simps)
  obtain tb tv where tb: "t = concat tb" "map_res unpack_inline_object_block tb = Inr tv"
    "map block_contents tv = (if has_tiles then [(COK_TILE_INDEX_BLOCK, tile_payload)] else [])"
    using t by (rule optional_block)
  obtain sb sv where sb: "s = concat sb" "map_res unpack_inline_object_block sb = Inr sv"
    "map block_contents sv = (if ps \<noteq> [] then [(COK_TENSOR_SECTION_TABLE, section_region ps)] else [])"
    using s by (rule optional_block)
  have "unpack_inline_object_blocks (concat (tb @ sb)) = Inr (tv @ sv)"
    using tb(2) sb(2) by (intro unpack_inline_object_blocks_concat map_res_append_Inr)
  then show ?thesis
    using that [of "tv @ sv"] tb sb by (simp add: region tensor_contents_def)
qed

lemma submit_inline_region_contents:
  assumes "build_submit_inline_object_region camera tile_payload ps has_tiles = Inr region"
  obtains vs where "unpack_inline_object_blocks region = Inr vs"
    "map block_contents vs = (if camera \<noteq> [] then [(COK_CAMERA_BLOCK, camera)] else []) @
       tensor_contents tile_payload ps has_tiles"
proof -
  from assms obtain c r where
    c: "block_if (camera \<noteq> []) (build_standard_inline_object_block COK_CAMERA_BLOCK camera 0) = Inr c"
    and r: "build_result_inline_object_region tile_payload ps has_tiles = Inr r"
    and region: "region = c @ r"
    by (auto simp: build_submit_inline_object_region_def build_result_inline_object_region_def
        build_camera_inline_object_block_def res_simps)
  obtain cb cv where cb: "c = concat cb" "map_res unpack_inline_object_block cb = Inr cv"
    "map block_contents cv = (if camera \<noteq> [] then [(COK_CAMERA_BLOCK, camera)] else [])"
    using c by (rule optional_block)
  obtain rv where rv: "unpack_inline_object_blocks r = Inr rv"
    "map block_contents rv = tensor_contents tile_payload ps has_tiles"
    using r by (rule result_inline_region_contents)
  then obtain rb where rb: "map_res unpack_inline_object_block rb = Inr rv" "r = concat rb"
    by (elim unpack_inline_object_blocksE)
  have "unpack_inline_object_blocks (concat (cb @ rb)) = Inr (cv @ rv)"
    using cb(2) rb(1) by (intro unpack_inline_object_blocks_concat map_res_append_Inr)
  then show ?thesis
    using that [of "cv @ rv"] cb rb rv by (simp add: region)
qed

lemma unpack_inline_object_blocks_bytes:
  assumes "unpack_inline_object_blocks region = Inr vs" "v \<in> set vs"
  shows "iob_object_bytes (iov_header v) = len (iov_payload v)"
proof -
  obtain blocks where "list_all2 (\<lambda>b v. unpack_inline_object_block b = Inr v) blocks vs"
    using assms(1) by (elim unpack_inline_object_blocksE) (simp add: map_res_Inr_iff)
  then obtain b where "unpack_inline_object_block b = Inr v"
    using assms(2) by (auto simp: list_all2_conv_all_nth in_set_conv_nth)
  then show ?thesis
    by (rule unpack_inline_object_blockE) simp
qed

text \<open>What the kind lookups return, in terms of the contents.\<close>

lemma last_block_contents:
  "map_option iov_payload (last_block_of_kind vs k) = map_of (rev (map block_contents vs)) k"
proof -
  have "rev (map block_contents vs) =
      map (\<lambda>(k, b). (k, iov_payload b)) (rev (map (\<lambda>b. (iob_object_kind (iov_header b), b)) vs))"
    by (simp add: rev_map block_contents_def)
  then show ?thesis
    unfolding last_block_of_kind_def by (simp only: map_of_map comp_apply)
qed

lemma inline_of_kind_contents:
  "map block_contents (inline_of_kind k vs) = filter (\<lambda>c. fst c = k) (map block_contents vs)"
  by (induction vs) (auto simp: inline_of_kind_def block_contents_def)

lemma inline_of_kind_singleton:
  assumes "filter (\<lambda>c. fst c = k) (map block_contents vs) = [(k, body)]"
    and "unpack_inline_object_blocks region = Inr vs"
  obtains b where "inline_of_kind k vs = [b]" "iov_payload b = body"
    "iob_object_bytes (iov_header b) = len body"
proof -
  have "map block_contents (inline_of_kind k vs) = [(k, body)]"
    using assms(1) by (simp add: inline_of_kind_contents)
  then obtain b where b: "inline_of_kind k vs = [b]" "iov_payload b = body"
    by (auto simp: block_contents_def)
  have "set (inline_of_kind k vs) \<subseteq> set vs"
    by (auto simp: inline_of_kind_def)
  with b have "b \<in> set vs"
    by simp
  then show ?thesis
    using that b unpack_inline_object_blocks_bytes [OF assms(2)] by simp
qed

lemma inline_of_kind_empty:
  "filter (\<lambda>c. fst c = k) (map block_contents vs) = [] \<Longrightarrow> inline_of_kind k vs = []"
  using inline_of_kind_contents [of k vs] by simp

section \<open>The tensor view of a built body\<close>

text \<open>
  The core of both directions: a body whose inline region was built from tile ids and
  sections yields a tensor view with those ids and sections.
\<close>

lemma tensor_view_of_contents:
  assumes ps: "pack_section_sequence ss (len ids) = Inr ps"
    and tiles: "pack_tile_index_block ids mode base = Inr tile_payload"
    and vs: "unpack_inline_object_blocks (reg_inline_object (bv_regions v)) = Inr vs"
    and contents: "map block_contents vs = pre @ tensor_contents tile_payload ps (ids \<noteq> [])"
    and pre: "\<forall>c \<in> set pre. fst c \<notin> {COK_TILE_INDEX_BLOCK, COK_TENSOR_SECTION_TABLE}"
  shows "\<exists>tb. unpack_current_tensor_body v (len ss) (len ids) = Inr tb \<and>
    list_all2 describes (tbv_sections tb) ss \<and>
    unpack_tile_index_block (tbv_tile_index_block tb) mode (len ids) base = Inr ids"
proof -
  have pre_none: "map_of (rev pre) k = None" if "k \<in> {COK_TILE_INDEX_BLOCK, COK_TENSOR_SECTION_TABLE}" for k
    using pre that by (auto simp: map_of_eq_None_iff)
  have ti: "map_option iov_payload (last_block_of_kind vs COK_TILE_INDEX_BLOCK) =
      (if ids \<noteq> [] then Some tile_payload else None)"
    using pre_none by (simp add: last_block_contents contents tensor_contents_def)
  have se: "map_option iov_payload (last_block_of_kind vs COK_TENSOR_SECTION_TABLE) =
      (if ps \<noteq> [] then Some (section_region ps) else None)"
    using pre_none by (simp add: last_block_contents contents tensor_contents_def)
  obtain tvs where tvs: "unpack_tensor_body (section_region ps) 0 (len ss) (Some (len ids)) =
      Inr \<lparr>tbv_tile_index_block = [], tbv_sections = tvs\<rparr>" "list_all2 describes tvs ss"
    using unpack_tensor_body_pack [OF ps pack_tensor_section_region_eq] by blast
  have len_ps: "length ps = length ss"
    using ps by (auto simp: pack_section_sequence_def pack_section_sequence_from_iff dest: list_all2_lengthD)
  define table where "table = last_block_of_kind vs COK_TENSOR_SECTION_TABLE"
  have sections: "(case table of None \<Rightarrow> Inr [] | Some b \<Rightarrow> map_sum id tbv_sections
      (unpack_tensor_body (iov_payload b) 0 (len ss) (Some (len ids)))) = Inr tvs"
    using se tvs len_ps unfolding table_def [symmetric] by (cases table; cases "ps = []") auto
  define tile where "tile = last_block_of_kind vs COK_TILE_INDEX_BLOCK"
  have "(case tile of Some b \<Rightarrow> iov_payload b | None \<Rightarrow> []) = (if ids \<noteq> [] then tile_payload else [])"
    using ti unfolding tile_def [symmetric] by (cases tile; cases "ids = []") auto
  moreover have "ids = [] \<Longrightarrow> unpack_tile_index_block [] mode (len ids) base = Inr ids"
    by (cases mode) (simp_all add: unpack_tile_index_block_def bitset_tile_ids_def)
  ultimately have "unpack_tile_index_block (case tile of Some b \<Rightarrow> iov_payload b | None \<Rightarrow> [])
      mode (len ids) base = Inr ids"
    using unpack_tile_index_block_pack [OF tiles] by (cases "ids = []") simp_all
  then show ?thesis
    using sections tvs(2) vs
    by (simp add: unpack_current_tensor_body_def table_def [symmetric] tile_def [symmetric] Let_def)
qed

section \<open>FRAME_SUBMIT with tensors\<close>

text \<open>
  The builder returns only what the receiver accepts: it validates a tensor body itself, and
  the metadata it packs is read back unchanged.
\<close>

lemma build_frame_submit_packetE:
  assumes "build_frame_submit_packet a = Inr p" "truthy (fsa_payload_kind_bitmap a AND PK_TENSOR)"
  obtains camera_ref tile_ref section_ref ps body cb tb m v where
    "build_frame_submit_tensor_body a camera_ref tile_ref section_ref = Inr (ps, body, cb, tb)"
    "FrameSubmitMetadata_unpack (pkt_metadata p) = Inr m"
    "validate_frame_submit_body m (pkt_body p) = Inr v" "pkt_body p = body"
    "fsm_section_count m = len ps" "fsm_tile_count m = len (fsa_tile_ids a)"
    "fsm_tile_index_mode m = fsa_tile_index_mode a" "fsm_tile_base_id m = fsa_tile_base_id a"
    "hdr_msg_type (pkt_header p) = MT_FRAME_SUBMIT" "fsm_operation_id m = fsa_operation_id a"
    "fsm_payload_kind_bitmap m = fsa_payload_kind_bitmap a"
proof -
  from assms obtain camera_ref tile_ref section_ref ps body cb tb m mb where
    body: "build_frame_submit_tensor_body a camera_ref tile_ref section_ref = Inr (ps, body, cb, tb)"
    and m: "FrameSubmitMetadata_wf m" "FrameSubmitMetadata_pack m = Inr mb"
    and valid: "map_sum id (\<lambda>_. ()) (validate_frame_submit_body m body) = Inr ()"
    and fields: "fsm_section_count m = len ps" "fsm_tile_count m = len (fsa_tile_ids a)"
      "fsm_tile_index_mode m = fsa_tile_index_mode a" "fsm_tile_base_id m = fsa_tile_base_id a"
      "fsm_operation_id m = fsa_operation_id a" "fsm_payload_kind_bitmap m = fsa_payload_kind_bitmap a"
    and p: "p = NnrpPacket_build (fsa_version_major a) (fsa_wire_format a) MT_FRAME_SUBMIT (fsa_route a) mb body"
    by (simp only: build_frame_submit_packet_def Let_def if_True not_False_eq_True res_simps
        split_paired_Ex prod.case FrameSubmitMetadata_post_init_iff) force
  obtain v where "validate_frame_submit_body m body = Inr v"
    using valid by (cases "validate_frame_submit_body m body") simp_all
  then show ?thesis
    using that [OF body] fsm.unpack_pack [OF m] fields p by simp
qed

lemma build_frame_submit_tensor_bodyE:
  assumes "build_frame_submit_tensor_body a cr tr sr = Inr (ps, body, cb, tb)" "fsa_submit_mode a = SM_INLINE"
  obtains tile_payload region where "pack_section_sequence (fsa_sections a) (len (fsa_tile_ids a)) = Inr ps"
    "pack_tile_index_block (fsa_tile_ids a) (fsa_tile_index_mode a) (fsa_tile_base_id a) = Inr tile_payload"
    "build_submit_inline_object_region (fsa_camera_block a) tile_payload ps (fsa_tile_ids a \<noteq> []) = Inr region"
    "pack_body (no_regions\<lparr>reg_inline_object := region\<rparr>) = Inr body"
    "cb = len (fsa_camera_block a)" "tb = len tile_payload"
  using assms by (auto simp: build_frame_submit_tensor_body_def res_simps)

lemma pack_body_inject:
  assumes "pack_body r = Inr bs" "unpack_body bs = Inr v"
  shows "bv_regions v = r"
proof -
  obtain q where q: "BodyRegionPrelude_unpack q = Inr (bv_prelude v)"
    "bv_prelude v = prelude_of (bv_regions v)" "pack_body (bv_regions v) = Inr bs"
    using assms(2) by (elim unpack_bodyE)
  obtain p1 p2 where p1: "BodyRegionPrelude_pack (prelude_of r) = Inr p1" "BodyRegionPrelude_wf (prelude_of r)"
      "bs = p1 @ reg_inline_object r @ reg_object_reference r @ reg_typed_payload_descriptor r
            @ reg_typed_payload_frame r @ reg_extension_descriptor r @ reg_extension_payload r"
    and p2: "BodyRegionPrelude_pack (prelude_of (bv_regions v)) = Inr p2"
      "BodyRegionPrelude_wf (prelude_of (bv_regions v))"
      "bs = p2 @ reg_inline_object (bv_regions v) @ reg_object_reference (bv_regions v)
            @ reg_typed_payload_descriptor (bv_regions v) @ reg_typed_payload_frame (bv_regions v)
            @ reg_extension_descriptor (bv_regions v) @ reg_extension_payload (bv_regions v)"
    using assms(1) q(3) by (auto simp: pack_body_iff)
  have len: "length p1 = length p2"
    using brp.pack_size [OF p1(1)] brp.pack_size [OF p2(1)] by simp
  have "p1 = p2"
    using p1(3) p2(3) len by (auto dest: arg_cong [where f = "take (length p1)"])
  then have pre: "prelude_of r = prelude_of (bv_regions v)"
    using brp.pack_inject [OF p1(2) p2(2)] p1(1) p2(1) by simp
  then have lens: "length (reg_inline_object r) = length (reg_inline_object (bv_regions v))"
    "length (reg_object_reference r) = length (reg_object_reference (bv_regions v))"
    "length (reg_typed_payload_descriptor r) = length (reg_typed_payload_descriptor (bv_regions v))"
    "length (reg_typed_payload_frame r) = length (reg_typed_payload_frame (bv_regions v))"
    "length (reg_extension_descriptor r) = length (reg_extension_descriptor (bv_regions v))"
    by (simp_all add: prelude_of_def)
  from p1(3) p2(3) have "p1 @ reg_inline_object r @ reg_object_reference r @ reg_typed_payload_descriptor r
            @ reg_typed_payload_frame r @ reg_extension_descriptor r @ reg_extension_payload r =
      p2 @ reg_inline_object (bv_regions v) @ reg_object_reference (bv_regions v)
            @ reg_typed_payload_descriptor (bv_regions v) @ reg_typed_payload_frame (bv_regions v)
            @ reg_extension_descriptor (bv_regions v) @ reg_extension_payload (bv_regions v)"
    by (rule subst)
  then show ?thesis
    by (intro body_regions.equality) (simp_all add: append_eq_append_conv lens len)
qed

lemma build_frame_submit_packet_view:
  assumes p: "build_frame_submit_packet a = Inr p"
    and tensor: "truthy (fsa_payload_kind_bitmap a AND PK_TENSOR)"
    and inline: "fsa_submit_mode a = SM_INLINE"
  shows "\<exists>m v tb. FrameSubmitMetadata_unpack (pkt_metadata p) = Inr m \<and>
    validate_frame_submit_body m (pkt_body p) = Inr v \<and>
    unpack_current_tensor_body v (fsm_section_count m) (fsm_tile_count m) = Inr tb \<and>
    list_all2 describes (tbv_sections tb) (fsa_sections a) \<and>
    unpack_tile_index_block (tbv_tile_index_block tb) (fsm_tile_index_mode m) (fsm_tile_count m)
      (fsm_tile_base_id m) = Inr (fsa_tile_ids a)"
  using p tensor
proof (rule build_frame_submit_packetE)
  fix cr tr sr ps body cb tb m v
  assume body: "build_frame_submit_tensor_body a cr tr sr = Inr (ps, body, cb, tb)"
    and m: "FrameSubmitMetadata_unpack (pkt_metadata p) = Inr m"
    and v: "validate_frame_submit_body m (pkt_body p) = Inr v" "pkt_body p = body"
    and fields: "fsm_section_count m = len ps" "fsm_tile_count m = len (fsa_tile_ids a)"
      "fsm_tile_index_mode m = fsa_tile_index_mode a" "fsm_tile_base_id m = fsa_tile_base_id a"
  obtain tile_payload region where ps: "pack_section_sequence (fsa_sections a) (len (fsa_tile_ids a)) = Inr ps"
    and tp: "pack_tile_index_block (fsa_tile_ids a) (fsa_tile_index_mode a) (fsa_tile_base_id a) = Inr tile_payload"
    and region: "build_submit_inline_object_region (fsa_camera_block a) tile_payload ps (fsa_tile_ids a \<noteq> []) = Inr region"
    and packed: "pack_body (no_regions\<lparr>reg_inline_object := region\<rparr>) = Inr body"
    using body inline by (rule build_frame_submit_tensor_bodyE)
  obtain vs where vs: "unpack_inline_object_blocks region = Inr vs"
    and contents: "map block_contents vs = (if fsa_camera_block a \<noteq> [] then [(COK_CAMERA_BLOCK, fsa_camera_block a)] else []) @
       tensor_contents tile_payload ps (fsa_tile_ids a \<noteq> [])"
    using region by (rule submit_inline_region_contents)
  have "unpack_body body = Inr v"
    using v by (simp add: validate_frame_submit_body_iff)
  then have "bv_regions v = no_regions\<lparr>reg_inline_object := region\<rparr>"
    by (rule pack_body_inject [OF packed])
  then have "unpack_inline_object_blocks (reg_inline_object (bv_regions v)) = Inr vs"
    using vs by simp
  then obtain t where "unpack_current_tensor_body v (len (fsa_sections a)) (len (fsa_tile_ids a)) = Inr t"
      "list_all2 describes (tbv_sections t) (fsa_sections a)"
      "unpack_tile_index_block (tbv_tile_index_block t) (fsa_tile_index_mode a) (len (fsa_tile_ids a))
        (fsa_tile_base_id a) = Inr (fsa_tile_ids a)"
    using tensor_view_of_contents [OF ps tp _ contents] by auto
  moreover have "length ps = length (fsa_sections a)"
    using ps by (auto simp: pack_section_sequence_def pack_section_sequence_from_iff dest: list_all2_lengthD)
  ultimately show ?thesis
    using m v(1) fields by auto
qed

section \<open>Kind bitmaps of typed frames\<close>

lemma odd_and_pred: "odd k \<Longrightarrow> k AND (k - 1) = k - (1 :: int)"
proof -
  assume "odd k"
  then obtain j where "k = 2 * j + 1"
    by (elim oddE)
  then show ?thesis
    by (simp add: and_int_rec [of "2 * j + 1"])
qed

lemma built_frame_kind_even:
  assumes "build_typed_payload_frame f = Inr n"
  shows "even (tfr_payload_kind n)" "0 \<le> tfr_payload_kind n"
proof -
  have n: "tfr_payload_kind n = PayloadKind_call (tfr_payload_kind f)" "tfr_payload_kind n \<noteq> 1"
    "tfr_payload_kind n AND (tfr_payload_kind n - 1) = 0"
    using assms by (auto simp: build_typed_payload_frame_iff)
  then show "even (tfr_payload_kind n)"
    using odd_and_pred [of "tfr_payload_kind n"] by auto
  show "0 \<le> tfr_payload_kind n"
    by (simp add: n(1) PayloadKind_call_def int_flag_ge_0)
qed

lemma even_or_iff_int: "even (a OR b) \<longleftrightarrow> even a \<and> even (b :: int)"
  by (simp add: even_or_iff)

lemma foldl_or_even:
  "even u \<Longrightarrow> 0 \<le> u \<Longrightarrow> \<forall>f \<in> set ns. even (tfr_payload_kind f) \<and> 0 \<le> tfr_payload_kind f \<Longrightarrow>
     even (foldl (\<lambda>u f. u OR tfr_payload_kind f) u ns) \<and> 0 \<le> foldl (\<lambda>u f. u OR tfr_payload_kind f) u ns"
  by (induction ns arbitrary: u) (auto simp: even_or_iff)

lemma frame_kind_union_even:
  assumes "map_res build_typed_payload_frame frames = Inr ns"
  shows "even (frame_kind_union ns)" "0 \<le> frame_kind_union ns"
proof -
  have "\<forall>n \<in> set ns. even (tfr_payload_kind n) \<and> 0 \<le> tfr_payload_kind n"
  proof
    fix n
    assume "n \<in> set ns"
    then obtain f where "build_typed_payload_frame f = Inr n"
      using assms by (auto simp: map_res_Inr_iff list_all2_conv_all_nth in_set_conv_nth)
    then show "even (tfr_payload_kind n) \<and> 0 \<le> tfr_payload_kind n"
      using built_frame_kind_even by blast
  qed
  then show "even (frame_kind_union ns)" "0 \<le> frame_kind_union ns"
    using foldl_or_even [of 0 ns] by (simp_all add: frame_kind_union_def)
qed

text \<open>An even bitmap without unknown bits is its own non-tensor part, with or without the tensor bit.\<close>

lemma and_not_eq_0_iff: "(b :: int) AND NOT m = 0 \<longleftrightarrow> (\<forall>n. bit b n \<longrightarrow> bit m n)"
  by (auto simp: bit_eq_iff bit_and_iff bit_not_iff)

lemma and_126_iff: "(b :: int) AND 126 = b \<longleftrightarrow> even b \<and> b AND NOT 127 = 0"
proof -
  have "b AND 126 = b \<longleftrightarrow> (\<forall>n. bit b n \<longrightarrow> bit (126 :: int) n)"
    by (auto simp: bit_eq_iff bit_and_iff)
  also have "\<dots> \<longleftrightarrow> (\<forall>n. bit b n \<longrightarrow> n \<noteq> 0 \<and> bit (127 :: int) n)"
  proof -
    have "bit (126 :: int) n \<longleftrightarrow> n \<noteq> 0 \<and> bit (127 :: int) n" for n
      by (cases n) (simp_all add: bit_Suc)
    then show ?thesis by simp
  qed
  also have "\<dots> \<longleftrightarrow> even b \<and> b AND NOT 127 = 0"
    unfolding and_not_eq_0_iff using bit_0 [of b] by metis
  finally show ?thesis .
qed

lemma bitmap_non_tensor:
  assumes "even u" "u AND NOT 127 = 0"
  shows "(u :: int) AND 126 = u" "(1 OR u) AND 126 = u"
proof -
  show u: "u AND 126 = u"
    using assms by (simp add: and_126_iff)
  have "(1 OR u) AND 126 = (1 AND 126) OR (u AND 126)"
    by (rule bit.conj_disj_distrib2)
  then show "(1 OR u) AND 126 = u"
    by (simp add: u)
qed

lemma or_unknown_bits: "(1 OR u) AND NOT 127 = 0 \<Longrightarrow> (u :: int) AND NOT 127 = 0"
  unfolding and_not_eq_0_iff by (auto simp: bit_or_iff)

section \<open>Bodies with typed frames\<close>

lemma parse_typed_payload_frame_None [simp]: "parse_typed_payload_frame f None = build_typed_payload_frame f"
  by (cases "build_typed_payload_frame f") (simp_all add: parse_typed_payload_frame_def)

lemma build_typed_payload_regionsE:
  assumes "build_typed_payload_regions frames = Inr (d, r, bm)"
  obtains ns where "frames \<noteq> []" "pack_typed_payload_frames frames = Inr (d, r)"
    "map_res build_typed_payload_frame frames = Inr ns" "bm = frame_kind_union ns"
  using assms by (auto simp: build_typed_payload_regions_def res_simps split: if_splits prod.splits)

abbreviation typed_body :: "bytes \<Rightarrow> bytes \<Rightarrow> bytes \<Rightarrow> body_regions" where
  "typed_body region d r \<equiv> no_regions\<lparr>reg_inline_object := region,
     reg_typed_payload_descriptor := d, reg_typed_payload_frame := r\<rparr>"

lemma unpack_typed_body:
  assumes "pack_body (typed_body region d r) = Inr body"
    and "unpack_inline_object_blocks region = Inr vs" "pack_typed_payload_frames frames = Inr (d, r)"
  shows "unpack_body body = Inr \<lparr>bv_prelude = prelude_of (typed_body region d r), bv_regions = typed_body region d r\<rparr>"
proof -
  obtain ds where "unpack_typed_payload_descriptors d = Inr ds"
    "validate_descriptor_offsets tpd_offset tpd_length ds (len r) = Inr ()"
    using assms(3) by (elim pack_typed_payload_framesE)
  then have "body_regions_ok (typed_body region d r)"
    using assms(2)
    by (simp add: body_regions_ok_def no_regions_def unpack_object_reference_blocks_def
        unpack_extension_frame_descriptors_def validate_descriptor_offsets_def)
  then show ?thesis
    using assms(1) body.unpack_pack [of "\<lparr>bv_prelude = prelude_of (typed_body region d r),
        bv_regions = typed_body region d r\<rparr>" body] by (simp add: pack_body_view_def)
qed

lemma typed_payload_spec_frames:
  assumes "pack_typed_payload_frames frames = Inr (d, r)" "frames \<noteq> []"
    and ns: "map_res build_typed_payload_frame frames = Inr ns"
    and bitmap: "bitmap AND 126 = frame_kind_union ns"
  shows "typed_payload_spec bitmap (len frames) (typed_body region d r) \<longleftrightarrow>
    (\<forall>f \<in> set frames. tfr_profile_id f \<noteq> 1)"
  using assms(1)
proof (rule pack_typed_payload_framesE)
  fix ds
  assume ds: "unpack_typed_payload_descriptors d = Inr ds" "length ds = length frames"
    "map_res build_typed_payload_frame frames = Inr (map (typed_frame_of_descriptor r) ds)"
  have each: "tpd_payload_kind (ds ! i) \<noteq> 1" "tpd_profile_id (ds ! i) = tfr_profile_id (frames ! i)"
    if "i < length frames" for i
  proof -
    have "build_typed_payload_frame (frames ! i) = Inr (typed_frame_of_descriptor r (ds ! i))"
      using ds(2,3) that by (auto simp: map_res_Inr_iff list_all2_conv_all_nth)
    then show "tpd_payload_kind (ds ! i) \<noteq> 1" "tpd_profile_id (ds ! i) = tfr_profile_id (frames ! i)"
      by (auto simp: build_typed_payload_frame_iff typed_frame_of_descriptor_def
          TypedPayloadFrame.defs dest: arg_cong [where f = tfr_profile_id])
  qed
  have "descriptor_kind_union ds = bitmap AND 126"
    using ds(3) ns bitmap descriptor_kind_union_frames [of ds r] by simp
  moreover have "(\<forall>x \<in> set ds. tpd_payload_kind x \<noteq> 1 \<and> tpd_profile_id x \<noteq> 1) \<longleftrightarrow>
      (\<forall>f \<in> set frames. tfr_profile_id f \<noteq> 1)"
    using ds(2) each by (simp add: all_set_conv_all_nth)
  ultimately show ?thesis
    using ds(1,2) assms(2) by (simp add: typed_payload_spec_def)
qed

section \<open>Inline objects against the metadata\<close>

lemma inline_of_kind_optional:
  assumes "filter (\<lambda>c. fst c = k) (map block_contents vs) = (if c then [(k, body)] else [])"
    and "unpack_inline_object_blocks region = Inr vs"
  obtains (absent) "\<not> c" "inline_of_kind k vs = []"
  | (present) b where "c" "inline_of_kind k vs = [b]" "iov_payload b = body"
      "iob_object_bytes (iov_header b) = len body"
  using assms inline_of_kind_singleton [of k vs body region] inline_of_kind_empty [of k vs]
  by (cases c) auto

text \<open>
  An inline region built from a camera block, tile ids (\<open>tile_payload\<close> their packed index) and
  sections (\<open>ps\<close> the packed sections).
\<close>

definition built_inline_region ::
    "InlineObjectBlockView list \<Rightarrow> bytes \<Rightarrow> bytes \<Rightarrow> int list \<Rightarrow> TensorSectionData list \<Rightarrow> bytes list
      \<Rightarrow> TileIndexMode \<Rightarrow> int \<Rightarrow> bytes \<Rightarrow> bool" where
  "built_inline_region vs camera tile_payload ids ss ps mode base region \<longleftrightarrow>
     pack_section_sequence ss (len ids) = Inr ps \<and>
     pack_tile_index_block ids mode base = Inr tile_payload \<and>
     unpack_inline_object_blocks region = Inr vs \<and>
     map block_contents vs = (if camera \<noteq> [] then [(COK_CAMERA_BLOCK, camera)] else []) @
       tensor_contents tile_payload ps (ids \<noteq> [])"

lemma built_inline_regionD:
  assumes "built_inline_region vs camera tile_payload ids ss ps mode base region"
  shows "pack_section_sequence ss (len ids) = Inr ps" "length ps = length ss"
    "pack_tile_index_block ids mode base = Inr tile_payload"
    "unpack_inline_object_blocks region = Inr vs"
    "filter (\<lambda>c. fst c = COK_CAMERA_BLOCK) (map block_contents vs) =
       (if camera \<noteq> [] then [(COK_CAMERA_BLOCK, camera)] else [])"
    "filter (\<lambda>c. fst c = COK_TILE_INDEX_BLOCK) (map block_contents vs) =
       (if ids \<noteq> [] then [(COK_TILE_INDEX_BLOCK, tile_payload)] else [])"
    "filter (\<lambda>c. fst c = COK_TENSOR_SECTION_TABLE) (map block_contents vs) =
       (if ps \<noteq> [] then [(COK_TENSOR_SECTION_TABLE, section_region ps)] else [])"
    "length (inline_of_kind k vs) \<le> 1"
  using assms arg_cong [OF inline_of_kind_contents [of k vs], of length]
  by (auto simp: built_inline_region_def tensor_contents_def pack_section_sequence_def
      pack_section_sequence_from_iff dest: list_all2_lengthD)

lemma built_submit_spec:
  assumes R: "built_inline_region vs camera tile_payload ids ss ps mode base region"
    and m: "fsm_submit_mode m = SM_INLINE" "fsm_object_ref_mask m = 0"
      "fsm_camera_bytes m = len camera" "fsm_tile_count m = len ids"
      "fsm_tile_index_bytes m = len tile_payload" "fsm_section_count m = len ss"
      "fsm_tile_index_mode m = mode" "fsm_tile_base_id m = base"
  shows "submit_objects_spec m vs []"
proof -
  note region = built_inline_regionD [OF R]
  have "check_submit_camera m vs = Inr ()"
    using region(5,4) by (cases rule: inline_of_kind_optional) (simp_all add: check_submit_camera_def m)
  moreover have "check_submit_tile_index m vs = Inr ()"
    using region(6,4) by (cases rule: inline_of_kind_optional)
      (simp_all add: check_submit_tile_index_def m Let_def unpack_tile_index_block_pack [OF region(3)])
  moreover have "check_submit_sections m vs = Inr ()"
    using region(7,4) unpack_tensor_body_pack [OF region(1) pack_tensor_section_region_eq] region(2)
    by (cases rule: inline_of_kind_optional) (auto simp: check_submit_sections_def m Let_def)
  ultimately show ?thesis
    using m region(8) by (auto simp: submit_objects_spec_checks)
qed

lemma built_result_spec:
  assumes R: "built_inline_region vs [] tile_payload ids ss ps mode base region"
    and m: "rpm_tile_count m = len ids" "rpm_tile_index_bytes m = len tile_payload"
      "rpm_section_count m = len ss" "rpm_tile_base_id m = base"
    and mode: "mode \<in> {TIM_RAW_U16, TIM_DENSE_RANGE}"
  shows "result_objects_spec m vs []"
proof -
  note region = built_inline_regionD [OF R]
  have decode: "unpack_tile_index_block tile_payload
      (if len tile_payload \<noteq> 0 then TIM_RAW_U16 else TIM_DENSE_RANGE) (len ids) base = Inr ids" if "ids \<noteq> []"
  proof -
    have "(if len tile_payload \<noteq> 0 then TIM_RAW_U16 else TIM_DENSE_RANGE) = mode"
      using mode pack_tile_index_block_length [OF region(3)] that by auto
    then show ?thesis
      by (simp only: unpack_tile_index_block_pack [OF region(3)])
  qed
  have "case inline_of_kind COK_TILE_INDEX_BLOCK vs of
      b # _ \<Rightarrow> iob_object_bytes (iov_header b) = rpm_tile_index_bytes m \<and>
        (\<exists>ids. unpack_tile_index_block (iov_payload b)
           (if rpm_tile_index_bytes m \<noteq> 0 then TIM_RAW_U16 else TIM_DENSE_RANGE)
           (rpm_tile_count m) (rpm_tile_base_id m) = Inr ids)
    | [] \<Rightarrow> rpm_tile_count m > 0 \<longrightarrow> refs_of_kind COK_TILE_INDEX_BLOCK [] \<noteq> []"
    using region(6,4) by (cases rule: inline_of_kind_optional) (use decode in \<open>auto simp: m\<close>)
  moreover have "case inline_of_kind COK_TENSOR_SECTION_TABLE vs of
      b # _ \<Rightarrow> (\<exists>t. unpack_tensor_body (iov_payload b) 0 (rpm_section_count m) (Some (rpm_tile_count m)) = Inr t)
    | [] \<Rightarrow> rpm_section_count m > 0 \<longrightarrow> refs_of_kind COK_TENSOR_SECTION_TABLE [] \<noteq> []"
    using region(7,4) unpack_tensor_body_pack [OF region(1) pack_tensor_section_region_eq] region(2)
    by (cases rule: inline_of_kind_optional) (auto simp: m)
  ultimately show ?thesis
    using region(8) by (auto simp: result_objects_spec_def refs_of_kind_def)
qed

lemma built_inline_region_empty: "built_inline_region [] [] [] [] [] [] TIM_RAW_U16 0 []"
proof -
  have "unpack_inline_object_blocks [] = Inr []"
    using unpack_inline_object_blocks_concat [of "[]" "[]"] by simp
  then show ?thesis
    by (simp add: built_inline_region_def tensor_contents_def pack_section_sequence_def
        pack_tile_index_block_def validate_tile_ids_def)
qed

lemma built_inline_region_tensor_view:
  assumes R: "built_inline_region vs camera tile_payload ids ss ps mode base region"
    and v: "reg_inline_object (bv_regions v) = region"
  shows "\<exists>tb. unpack_current_tensor_body v (len ss) (len ids) = Inr tb \<and>
    list_all2 describes (tbv_sections tb) ss \<and>
    unpack_tile_index_block (tbv_tile_index_block tb) mode (len ids) base = Inr ids"
proof (rule tensor_view_of_contents)
  show "map block_contents vs = (if camera \<noteq> [] then [(COK_CAMERA_BLOCK, camera)] else []) @
       tensor_contents tile_payload ps (ids \<noteq> [])"
    using R by (simp add: built_inline_region_def)
qed (use R v in \<open>auto simp: built_inline_region_def\<close>)

section \<open>Bodies with inline objects and typed frames\<close>

text \<open>
  What the typed and the mixed builders have in common: the bitmap is the union of the frame
  kinds, with or without the tensor bit.
\<close>

lemma frames_bitmap:
  assumes "build_typed_payload_regions frames = Inr (d, r, bm)"
    and "bitmap \<in> {bm, PK_TENSOR OR bm}" "0 \<le> bitmap" "bitmap AND NOT 127 = 0"
  obtains ns where "frames \<noteq> []" "pack_typed_payload_frames frames = Inr (d, r)"
    "map_res build_typed_payload_frame frames = Inr ns" "bitmap AND 126 = frame_kind_union ns"
    "unpack_typed_payload_frames d r bitmap = Inr ns"
  using assms(1)
proof (rule build_typed_payload_regionsE)
  fix ns
  assume ns: "frames \<noteq> []" "pack_typed_payload_frames frames = Inr (d, r)"
    "map_res build_typed_payload_frame frames = Inr ns" "bm = frame_kind_union ns"
  have "bm AND NOT 127 = 0"
    using assms(2,4) or_unknown_bits by auto
  then have b: "bitmap AND 126 = frame_kind_union ns"
    using frame_kind_union_even(1) [OF ns(3)] ns(4) bitmap_non_tensor [of bm] assms(2) by auto
  then have "unpack_typed_payload_frames d r bitmap = Inr ns"
    using unpack_typed_payload_frames_pack [OF ns(2,3), of bitmap] b assms(3) by simp
  with ns b show thesis by (intro that)
qed

lemma submit_body_with_frames:
  assumes R: "built_inline_region vs camera tile_payload ids ss ps mode base region"
    and typed: "build_typed_payload_regions frames = Inr (d, r, bm)"
    and body: "pack_body (typed_body region d r) = Inr body"
    and m: "FrameSubmitMetadata_wf m" "fsm_payload_kind_bitmap m \<in> {bm, PK_TENSOR OR bm}"
      "fsm_payload_frame_count m = len frames" "fsm_submit_mode m = SM_INLINE" "fsm_object_ref_mask m = 0"
      "fsm_camera_bytes m = len camera" "fsm_tile_count m = len ids"
      "fsm_tile_index_bytes m = len tile_payload" "fsm_section_count m = len ss"
      "fsm_tile_index_mode m = mode" "fsm_tile_base_id m = base"
  shows "\<exists>v ns. unpack_body body = Inr v \<and> bv_regions v = typed_body region d r \<and>
    map_res build_typed_payload_frame frames = Inr ns \<and>
    unpack_typed_payload_frames d r (fsm_payload_kind_bitmap m) = Inr ns \<and>
    (validate_frame_submit_body m body = Inr v \<longleftrightarrow> (\<forall>f \<in> set frames. tfr_profile_id f \<noteq> 1))"
proof -
  have "0 \<le> fsm_payload_kind_bitmap m" "fsm_payload_kind_bitmap m AND NOT 127 = 0"
    using FrameSubmitMetadata_wf_coerced(3) [OF m(1)] by (simp_all add: coerce_payload_kind_bitmap_iff)
  then obtain ns where ns: "frames \<noteq> []" "pack_typed_payload_frames frames = Inr (d, r)"
    "map_res build_typed_payload_frame frames = Inr ns"
    "fsm_payload_kind_bitmap m AND 126 = frame_kind_union ns"
    "unpack_typed_payload_frames d r (fsm_payload_kind_bitmap m) = Inr ns"
    using frames_bitmap [OF typed m(2)] by blast
  note vs = built_inline_regionD(4) [OF R]
  let ?v = "\<lparr>bv_prelude = prelude_of (typed_body region d r), bv_regions = typed_body region d r\<rparr>"
  have u: "unpack_body body = Inr ?v"
    using body vs ns(2) by (rule unpack_typed_body)
  have "submit_objects_spec m vs []"
    using R m(4-) by (rule built_submit_spec)
  then have "validate_frame_submit_body m body = Inr ?v \<longleftrightarrow> (\<forall>f \<in> set frames. tfr_profile_id f \<noteq> 1)"
    using vs typed_payload_spec_frames [OF ns(2,1,3,4), of region] u
    by (auto simp: validate_frame_submit_body_iff m(3) no_regions_def unpack_object_reference_blocks_def)
  then show ?thesis
    using u ns by auto
qed

lemma result_body_with_frames:
  assumes R: "built_inline_region vs [] tile_payload ids ss ps mode base region"
    and typed: "build_typed_payload_regions frames = Inr (d, r, bm)"
    and body: "pack_body (typed_body region d r) = Inr body"
    and m: "ResultPushMetadata_wf m" "rpm_payload_kind_bitmap m \<in> {bm, PK_TENSOR OR bm}"
      "rpm_payload_frame_count m = len frames" "validate_result_push_tensor_coverage m = Inr ()"
      "rpm_tile_count m = len ids" "rpm_tile_index_bytes m = len tile_payload"
      "rpm_section_count m = len ss" "rpm_tile_base_id m = base"
    and mode: "mode \<in> {TIM_RAW_U16, TIM_DENSE_RANGE}"
  shows "\<exists>v ns. unpack_body body = Inr v \<and> bv_regions v = typed_body region d r \<and>
    map_res build_typed_payload_frame frames = Inr ns \<and>
    unpack_typed_payload_frames d r (rpm_payload_kind_bitmap m) = Inr ns \<and>
    (validate_result_push_body m body = Inr v \<longleftrightarrow> (\<forall>f \<in> set frames. tfr_profile_id f \<noteq> 1))"
proof -
  have "0 \<le> rpm_payload_kind_bitmap m" "rpm_payload_kind_bitmap m AND NOT 127 = 0"
    using ResultPushMetadata_wf_coerced(3) [OF m(1)] by (simp_all add: coerce_payload_kind_bitmap_iff)
  then obtain ns where ns: "frames \<noteq> []" "pack_typed_payload_frames frames = Inr (d, r)"
    "map_res build_typed_payload_frame frames = Inr ns"
    "rpm_payload_kind_bitmap m AND 126 = frame_kind_union ns"
    "unpack_typed_payload_frames d r (rpm_payload_kind_bitmap m) = Inr ns"
    using frames_bitmap [OF typed m(2)] by blast
  note vs = built_inline_regionD(4) [OF R]
  let ?v = "\<lparr>bv_prelude = prelude_of (typed_body region d r), bv_regions = typed_body region d r\<rparr>"
  have u: "unpack_body body = Inr ?v"
    using body vs ns(2) by (rule unpack_typed_body)
  have "result_objects_spec m vs []"
    using R m(5-8) mode by (rule built_result_spec)
  then have "validate_result_push_body m body = Inr ?v \<longleftrightarrow> (\<forall>f \<in> set frames. tfr_profile_id f \<noteq> 1)"
    using vs typed_payload_spec_frames [OF ns(2,1,3,4), of region] u
    by (auto simp: validate_result_push_body_iff m(3,4) no_regions_def unpack_object_reference_blocks_def)
  then show ?thesis
    using u ns by auto
qed

section \<open>The four builders of packets with typed frames\<close>

text \<open>
  What the receiver of a built packet reads: the metadata, the body, the normalized frames, and
  (in the mixed packets) the tensor view with the ids and the sections given to the builder.
\<close>

lemma submit_regionE:
  assumes "build_submit_inline_object_region camera tile_payload ps (ids \<noteq> []) = Inr region"
    and "pack_section_sequence ss (len ids) = Inr ps"
    and "pack_tile_index_block ids mode base = Inr tile_payload"
  obtains vs where "built_inline_region vs camera tile_payload ids ss ps mode base region"
  using submit_inline_region_contents [OF assms(1)] assms(2,3) by (metis built_inline_region_def)

lemma result_regionE:
  assumes "build_result_inline_object_region tile_payload ps (ids \<noteq> []) = Inr region"
    and "pack_section_sequence ss (len ids) = Inr ps"
    and "pack_tile_index_block ids mode base = Inr tile_payload"
  obtains vs where "built_inline_region vs [] tile_payload ids ss ps mode base region"
  using result_inline_region_contents [OF assms(1)] assms(2,3)
  by (simp add: built_inline_region_def) blast

lemma build_submit_typed_packetE:
  assumes "build_frame_submit_typed_payload_packet a frames = Inr p"
  obtains d r bm m mb body where "build_typed_payload_regions frames = Inr (d, r, bm)"
    "pack_body (typed_body [] d r) = Inr body" "FrameSubmitMetadata_wf m"
    "FrameSubmitMetadata_unpack (pkt_metadata p) = Inr m" "pkt_body p = body"
    "fsm_payload_kind_bitmap m = bm" "fsm_payload_frame_count m = len frames"
    "fsm_submit_mode m = SM_INLINE" "fsm_object_ref_mask m = 0" "fsm_camera_bytes m = 0"
    "fsm_tile_count m = 0" "fsm_tile_index_bytes m = 0" "fsm_section_count m = 0"
    "fsm_tile_index_mode m = TIM_RAW_U16" "fsm_tile_base_id m = 0"
    "fsm_operation_id m = fsa_operation_id a"
proof -
  from assms obtain d r bm m mb body where
    regions: "build_typed_payload_regions frames = Inr (d, r, bm)"
    and body: "pack_body (typed_body [] d r) = Inr body"
    and m: "FrameSubmitMetadata_wf m" "FrameSubmitMetadata_pack m = Inr mb"
    and p: "p = NnrpPacket_build (fsa_version_major a) (fsa_wire_format a) MT_FRAME_SUBMIT (fsa_route a) mb body"
    and fields: "fsm_payload_kind_bitmap m = bm" "fsm_payload_frame_count m = len frames"
      "fsm_submit_mode m = SM_INLINE" "fsm_object_ref_mask m = 0" "fsm_camera_bytes m = 0"
      "fsm_tile_count m = 0" "fsm_tile_index_bytes m = 0" "fsm_section_count m = 0"
      "fsm_tile_index_mode m = TIM_RAW_U16" "fsm_tile_base_id m = 0"
      "fsm_operation_id m = fsa_operation_id a"
    by (simp only: build_frame_submit_typed_payload_packet_def Let_def res_simps split_paired_Ex
        prod.case FrameSubmitMetadata_post_init_iff) (force simp: no_regions_def)
  show ?thesis
    using that [OF regions body m(1)] fsm.unpack_pack [OF m] fields p by simp
qed

lemma build_submit_mixed_packetE:
  assumes "build_frame_submit_mixed_packet a frames = Inr p"
  obtains d r bm m ps tile_payload region body where
    "build_typed_payload_regions frames = Inr (d, r, bm)"
    "pack_section_sequence (fsa_sections a) (len (fsa_tile_ids a)) = Inr ps"
    "pack_tile_index_block (fsa_tile_ids a) (fsa_tile_index_mode a) (fsa_tile_base_id a) = Inr tile_payload"
    "build_submit_inline_object_region (fsa_camera_block a) tile_payload ps (fsa_tile_ids a \<noteq> []) = Inr region"
    "pack_body (typed_body region d r) = Inr body" "FrameSubmitMetadata_wf m"
    "FrameSubmitMetadata_unpack (pkt_metadata p) = Inr m" "pkt_body p = body"
    "fsm_payload_kind_bitmap m = PK_TENSOR OR bm" "fsm_payload_frame_count m = len frames"
    "fsm_submit_mode m = SM_INLINE" "fsm_object_ref_mask m = 0"
    "fsm_camera_bytes m = len (fsa_camera_block a)" "fsm_tile_count m = len (fsa_tile_ids a)"
    "fsm_tile_index_bytes m = len tile_payload" "fsm_section_count m = len ps"
    "fsm_tile_index_mode m = fsa_tile_index_mode a" "fsm_tile_base_id m = fsa_tile_base_id a"
    "fsm_operation_id m = fsa_operation_id a"
proof -
  from assms obtain d r bm m mb ps tile_payload region body where
    regions: "build_typed_payload_regions frames = Inr (d, r, bm)"
    and parts: "pack_section_sequence (fsa_sections a) (len (fsa_tile_ids a)) = Inr ps"
      "pack_tile_index_block (fsa_tile_ids a) (fsa_tile_index_mode a) (fsa_tile_base_id a) = Inr tile_payload"
      "build_submit_inline_object_region (fsa_camera_block a) tile_payload ps (fsa_tile_ids a \<noteq> []) = Inr region"
    and body: "pack_body (typed_body region d r) = Inr body"
    and m: "FrameSubmitMetadata_wf m" "FrameSubmitMetadata_pack m = Inr mb"
    and p: "p = NnrpPacket_build (fsa_version_major a) (fsa_wire_format a) MT_FRAME_SUBMIT (fsa_route a) mb body"
    and fields: "fsm_payload_kind_bitmap m = PK_TENSOR OR bm" "fsm_payload_frame_count m = len frames"
      "fsm_submit_mode m = SM_INLINE" "fsm_object_ref_mask m = 0"
      "fsm_camera_bytes m = len (fsa_camera_block a)" "fsm_tile_count m = len (fsa_tile_ids a)"
      "fsm_tile_index_bytes m = len tile_payload" "fsm_section_count m = len ps"
      "fsm_tile_index_mode m = fsa_tile_index_mode a" "fsm_tile_base_id m = fsa_tile_base_id a"
      "fsm_operation_id m = fsa_operation_id a"
    by (simp only: build_frame_submit_mixed_packet_def Let_def res_simps split_paired_Ex
        prod.case FrameSubmitMetadata_post_init_iff) force
  show ?thesis
    using that [OF regions parts body m(1)] fsm.unpack_pack [OF m] fields p by simp
qed

lemma build_result_typed_packetE:
  assumes "build_result_push_typed_payload_packet a frames = Inr p"
  obtains d r bm m body where "build_typed_payload_regions frames = Inr (d, r, bm)"
    "pack_body (typed_body [] d r) = Inr body" "ResultPushMetadata_wf m"
    "ResultPushMetadata_unpack (pkt_metadata p) = Inr m" "pkt_body p = body"
    "rpm_payload_kind_bitmap m = bm" "rpm_payload_frame_count m = len frames"
    "validate_result_push_tensor_coverage m = Inr ()"
    "rpm_tile_count m = 0" "rpm_tile_index_bytes m = 0" "rpm_section_count m = 0"
    "rpm_tile_base_id m = 0" "rpm_result_class m = rpa_result_class a"
proof -
  from assms obtain d r bm m mb body where
    regions: "build_typed_payload_regions frames = Inr (d, r, bm)"
    and body: "pack_body (typed_body [] d r) = Inr body"
    and m: "ResultPushMetadata_wf m" "ResultPushMetadata_pack m = Inr mb"
    and p: "p = NnrpPacket_build (rpa_version_major a) (rpa_wire_format a) MT_RESULT_PUSH (rpa_route a) mb body"
    and fields: "rpm_payload_kind_bitmap m = bm" "rpm_payload_frame_count m = len frames"
      "validate_result_push_tensor_coverage m = Inr ()"
      "rpm_tile_count m = 0" "rpm_tile_index_bytes m = 0" "rpm_section_count m = 0"
      "rpm_tile_base_id m = 0" "rpm_result_class m = rpa_result_class a"
    by (simp only: build_result_push_typed_payload_packet_def Let_def res_simps split_paired_Ex
        prod.case ResultPushMetadata_post_init_iff) (force simp: no_regions_def)
  show ?thesis
    using that [OF regions body m(1)] rpm.unpack_pack [OF m] fields p by simp
qed

lemma build_result_mixed_packetE:
  assumes "build_result_push_mixed_packet a frames = Inr p"
  obtains d r bm m ps tile_payload region body where
    "build_typed_payload_regions frames = Inr (d, r, bm)"
    "rpa_tile_index_mode a \<in> {TIM_RAW_U16, TIM_DENSE_RANGE}"
    "pack_section_sequence (rpa_sections a) (len (rpa_tile_ids a)) = Inr ps"
    "pack_tile_index_block (rpa_tile_ids a) (rpa_tile_index_mode a) (rpa_tile_base_id a) = Inr tile_payload"
    "build_result_inline_object_region tile_payload ps (rpa_tile_ids a \<noteq> []) = Inr region"
    "pack_body (typed_body region d r) = Inr body" "ResultPushMetadata_wf m"
    "ResultPushMetadata_unpack (pkt_metadata p) = Inr m" "pkt_body p = body"
    "rpm_payload_kind_bitmap m = PK_TENSOR OR bm" "rpm_payload_frame_count m = len frames"
    "validate_result_push_tensor_coverage m = Inr ()"
    "rpm_tile_count m = len (rpa_tile_ids a)" "rpm_tile_index_bytes m = len tile_payload"
    "rpm_section_count m = len ps" "rpm_tile_base_id m = rpa_tile_base_id a"
    "rpm_result_class m = rpa_result_class a"
proof -
  from assms obtain d r bm m mb ps tile_payload region body where
    regions: "build_typed_payload_regions frames = Inr (d, r, bm)"
    and mode: "rpa_tile_index_mode a \<in> {TIM_RAW_U16, TIM_DENSE_RANGE}"
    and parts: "pack_section_sequence (rpa_sections a) (len (rpa_tile_ids a)) = Inr ps"
      "pack_tile_index_block (rpa_tile_ids a) (rpa_tile_index_mode a) (rpa_tile_base_id a) = Inr tile_payload"
      "build_result_inline_object_region tile_payload ps (rpa_tile_ids a \<noteq> []) = Inr region"
    and body: "pack_body (typed_body region d r) = Inr body"
    and m: "ResultPushMetadata_wf m" "ResultPushMetadata_pack m = Inr mb"
    and p: "NnrpPacket_build (rpa_version_major a) (rpa_wire_format a) MT_RESULT_PUSH (rpa_route a) mb body = p"
    and fields: "rpm_payload_kind_bitmap m = PK_TENSOR OR bm" "rpm_payload_frame_count m = len frames"
      "validate_result_push_tensor_coverage m = Inr ()"
      "rpm_tile_count m = len (rpa_tile_ids a)" "rpm_tile_index_bytes m = len tile_payload"
      "rpm_section_count m = len ps" "rpm_tile_base_id m = rpa_tile_base_id a"
      "rpm_result_class m = rpa_result_class a"
    by (simp only: build_result_push_mixed_packet_def Let_def res_simps split_paired_Ex
        prod.case ResultPushMetadata_post_init_iff not_not)
      (elim exE conjE, rule that, assumption+, simp_all)
  show ?thesis
    using that [OF regions mode parts body m(1)] rpm.unpack_pack [OF m] fields p [symmetric] by simp
qed

text \<open>What the four builders promise the receiver.\<close>

lemma build_frame_submit_typed_payload_view:
  assumes "build_frame_submit_typed_payload_packet a frames = Inr p"
  shows "\<exists>m v ns. FrameSubmitMetadata_unpack (pkt_metadata p) = Inr m \<and>
    unpack_body (pkt_body p) = Inr v \<and> map_res build_typed_payload_frame frames = Inr ns \<and>
    unpack_typed_payload_frames (reg_typed_payload_descriptor (bv_regions v))
      (reg_typed_payload_frame (bv_regions v)) (fsm_payload_kind_bitmap m) = Inr ns \<and>
    (validate_frame_submit_body m (pkt_body p) = Inr v \<longleftrightarrow> (\<forall>f \<in> set frames. tfr_profile_id f \<noteq> 1))"
  using assms
proof (rule build_submit_typed_packetE)
  fix d r bm m mb body
  assume typed: "build_typed_payload_regions frames = Inr (d, r, bm)"
    and body: "pack_body (typed_body [] d r) = Inr body"
    and m: "FrameSubmitMetadata_wf m" "FrameSubmitMetadata_unpack (pkt_metadata p) = Inr m"
    and p: "pkt_body p = body" and bm: "fsm_payload_kind_bitmap m = bm"
    and fields: "fsm_payload_frame_count m = len frames"
    "fsm_submit_mode m = SM_INLINE" "fsm_object_ref_mask m = 0" "fsm_camera_bytes m = 0"
    "fsm_tile_count m = 0" "fsm_tile_index_bytes m = 0" "fsm_section_count m = 0"
    "fsm_tile_index_mode m = TIM_RAW_U16" "fsm_tile_base_id m = 0"
  have "\<exists>v ns. unpack_body body = Inr v \<and> bv_regions v = typed_body [] d r \<and>
    map_res build_typed_payload_frame frames = Inr ns \<and>
    unpack_typed_payload_frames d r (fsm_payload_kind_bitmap m) = Inr ns \<and>
    (validate_frame_submit_body m body = Inr v \<longleftrightarrow> (\<forall>f \<in> set frames. tfr_profile_id f \<noteq> 1))"
    by (rule submit_body_with_frames [OF built_inline_region_empty typed body m(1)])
      (simp_all add: bm fields)
  then show ?thesis
    using m p by auto
qed

lemma build_frame_submit_mixed_view:
  assumes "build_frame_submit_mixed_packet a frames = Inr p"
  shows "\<exists>m v ns tb. FrameSubmitMetadata_unpack (pkt_metadata p) = Inr m \<and>
    unpack_body (pkt_body p) = Inr v \<and> map_res build_typed_payload_frame frames = Inr ns \<and>
    unpack_typed_payload_frames (reg_typed_payload_descriptor (bv_regions v))
      (reg_typed_payload_frame (bv_regions v)) (fsm_payload_kind_bitmap m) = Inr ns \<and>
    unpack_current_tensor_body v (fsm_section_count m) (fsm_tile_count m) = Inr tb \<and>
    list_all2 describes (tbv_sections tb) (fsa_sections a) \<and>
    unpack_tile_index_block (tbv_tile_index_block tb) (fsm_tile_index_mode m) (fsm_tile_count m)
      (fsm_tile_base_id m) = Inr (fsa_tile_ids a) \<and>
    (validate_frame_submit_body m (pkt_body p) = Inr v \<longleftrightarrow> (\<forall>f \<in> set frames. tfr_profile_id f \<noteq> 1))"
  using assms
proof (rule build_submit_mixed_packetE)
  fix d r bm m ps tile_payload region body
  assume typed: "build_typed_payload_regions frames = Inr (d, r, bm)"
    and parts: "pack_section_sequence (fsa_sections a) (len (fsa_tile_ids a)) = Inr ps"
      "pack_tile_index_block (fsa_tile_ids a) (fsa_tile_index_mode a) (fsa_tile_base_id a) = Inr tile_payload"
      "build_submit_inline_object_region (fsa_camera_block a) tile_payload ps (fsa_tile_ids a \<noteq> []) = Inr region"
    and body: "pack_body (typed_body region d r) = Inr body"
    and m: "FrameSubmitMetadata_wf m" "FrameSubmitMetadata_unpack (pkt_metadata p) = Inr m"
    and p: "pkt_body p = body"
    and bm: "fsm_payload_kind_bitmap m = PK_TENSOR OR bm"
    and fields: "fsm_payload_frame_count m = len frames"
      "fsm_submit_mode m = SM_INLINE" "fsm_object_ref_mask m = 0"
      "fsm_camera_bytes m = len (fsa_camera_block a)" "fsm_tile_count m = len (fsa_tile_ids a)"
      "fsm_tile_index_bytes m = len tile_payload" "fsm_section_count m = len ps"
      "fsm_tile_index_mode m = fsa_tile_index_mode a" "fsm_tile_base_id m = fsa_tile_base_id a"
  obtain vs where R: "built_inline_region vs (fsa_camera_block a) tile_payload (fsa_tile_ids a)
      (fsa_sections a) ps (fsa_tile_index_mode a) (fsa_tile_base_id a) region"
    using parts(3,1,2) by (rule submit_regionE)
  have ps: "fsm_section_count m = len (fsa_sections a)"
    using built_inline_regionD(2) [OF R] fields by simp
  obtain v ns where v: "unpack_body body = Inr v" "bv_regions v = typed_body region d r"
    "map_res build_typed_payload_frame frames = Inr ns"
    "unpack_typed_payload_frames d r (fsm_payload_kind_bitmap m) = Inr ns"
    "validate_frame_submit_body m body = Inr v \<longleftrightarrow> (\<forall>f \<in> set frames. tfr_profile_id f \<noteq> 1)"
    using submit_body_with_frames [OF R typed body m(1) _ fields(1-6) ps fields(8,9)] bm by blast
  have "reg_inline_object (bv_regions v) = region"
    using v(2) by simp
  then obtain tb where "unpack_current_tensor_body v (len (fsa_sections a)) (len (fsa_tile_ids a)) = Inr tb"
    "list_all2 describes (tbv_sections tb) (fsa_sections a)"
    "unpack_tile_index_block (tbv_tile_index_block tb) (fsa_tile_index_mode a) (len (fsa_tile_ids a))
      (fsa_tile_base_id a) = Inr (fsa_tile_ids a)"
    using built_inline_region_tensor_view [OF R] by blast
  then show ?thesis
    using m(2) v p ps fields by auto
qed

lemma build_result_push_typed_payload_view:
  assumes "build_result_push_typed_payload_packet a frames = Inr p"
  shows "\<exists>m v ns. ResultPushMetadata_unpack (pkt_metadata p) = Inr m \<and>
    unpack_body (pkt_body p) = Inr v \<and> map_res build_typed_payload_frame frames = Inr ns \<and>
    unpack_typed_payload_frames (reg_typed_payload_descriptor (bv_regions v))
      (reg_typed_payload_frame (bv_regions v)) (rpm_payload_kind_bitmap m) = Inr ns \<and>
    (validate_result_push_body m (pkt_body p) = Inr v \<longleftrightarrow> (\<forall>f \<in> set frames. tfr_profile_id f \<noteq> 1))"
  using assms
proof (rule build_result_typed_packetE)
  fix d r bm m body
  assume typed: "build_typed_payload_regions frames = Inr (d, r, bm)"
    and body: "pack_body (typed_body [] d r) = Inr body"
    and m: "ResultPushMetadata_wf m" "ResultPushMetadata_unpack (pkt_metadata p) = Inr m"
    and p: "pkt_body p = body" and bm: "rpm_payload_kind_bitmap m = bm"
    and fields: "rpm_payload_frame_count m = len frames"
      "validate_result_push_tensor_coverage m = Inr ()"
      "rpm_tile_count m = 0" "rpm_tile_index_bytes m = 0" "rpm_section_count m = 0"
      "rpm_tile_base_id m = 0"
  have "\<exists>v ns. unpack_body body = Inr v \<and> bv_regions v = typed_body [] d r \<and>
    map_res build_typed_payload_frame frames = Inr ns \<and>
    unpack_typed_payload_frames d r (rpm_payload_kind_bitmap m) = Inr ns \<and>
    (validate_result_push_body m body = Inr v \<longleftrightarrow> (\<forall>f \<in> set frames. tfr_profile_id f \<noteq> 1))"
    by (rule result_body_with_frames [OF built_inline_region_empty typed body m(1)])
      (simp_all add: bm fields)
  then show ?thesis
    using m p by auto
qed

lemma build_result_push_mixed_view:
  assumes "build_result_push_mixed_packet a frames = Inr p"
  shows "\<exists>m v ns tb. ResultPushMetadata_unpack (pkt_metadata p) = Inr m \<and>
    unpack_body (pkt_body p) = Inr v \<and> map_res build_typed_payload_frame frames = Inr ns \<and>
    unpack_typed_payload_frames (reg_typed_payload_descriptor (bv_regions v))
      (reg_typed_payload_frame (bv_regions v)) (rpm_payload_kind_bitmap m) = Inr ns \<and>
    unpack_current_tensor_body v (rpm_section_count m) (rpm_tile_count m) = Inr tb \<and>
    list_all2 describes (tbv_sections tb) (rpa_sections a) \<and>
    unpack_tile_index_block (tbv_tile_index_block tb) (rpa_tile_index_mode a) (rpm_tile_count m)
      (rpm_tile_base_id m) = Inr (rpa_tile_ids a) \<and>
    (validate_result_push_body m (pkt_body p) = Inr v \<longleftrightarrow> (\<forall>f \<in> set frames. tfr_profile_id f \<noteq> 1))"
  using assms
proof (rule build_result_mixed_packetE)
  fix d r bm m ps tile_payload region body
  assume typed: "build_typed_payload_regions frames = Inr (d, r, bm)"
    and mode: "rpa_tile_index_mode a \<in> {TIM_RAW_U16, TIM_DENSE_RANGE}"
    and parts: "pack_section_sequence (rpa_sections a) (len (rpa_tile_ids a)) = Inr ps"
      "pack_tile_index_block (rpa_tile_ids a) (rpa_tile_index_mode a) (rpa_tile_base_id a) = Inr tile_payload"
      "build_result_inline_object_region tile_payload ps (rpa_tile_ids a \<noteq> []) = Inr region"
    and body: "pack_body (typed_body region d r) = Inr body"
    and m: "ResultPushMetadata_wf m" "ResultPushMetadata_unpack (pkt_metadata p) = Inr m"
    and p: "pkt_body p = body"
    and bm: "rpm_payload_kind_bitmap m = PK_TENSOR OR bm"
    and fields: "rpm_payload_frame_count m = len frames"
      "validate_result_push_tensor_coverage m = Inr ()"
      "rpm_tile_count m = len (rpa_tile_ids a)" "rpm_tile_index_bytes m = len tile_payload"
      "rpm_section_count m = len ps" "rpm_tile_base_id m = rpa_tile_base_id a"
  obtain vs where R: "built_inline_region vs [] tile_payload (rpa_tile_ids a)
      (rpa_sections a) ps (rpa_tile_index_mode a) (rpa_tile_base_id a) region"
    using parts(3,1,2) by (rule result_regionE)
  have ps: "rpm_section_count m = len (rpa_sections a)"
    using built_inline_regionD(2) [OF R] fields by simp
  obtain v ns where v: "unpack_body body = Inr v" "bv_regions v = typed_body region d r"
    "map_res build_typed_payload_frame frames = Inr ns"
    "unpack_typed_payload_frames d r (rpm_payload_kind_bitmap m) = Inr ns"
    "validate_result_push_body m body = Inr v \<longleftrightarrow> (\<forall>f \<in> set frames. tfr_profile_id f \<noteq> 1)"
    using result_body_with_frames [OF R typed body m(1) _ fields(1-4) ps fields(6) mode] bm by blast
  have "reg_inline_object (bv_regions v) = region"
    using v(2) by simp
  then obtain tb where "unpack_current_tensor_body v (len (rpa_sections a)) (len (rpa_tile_ids a)) = Inr tb"
    "list_all2 describes (tbv_sections tb) (rpa_sections a)"
    "unpack_tile_index_block (tbv_tile_index_block tb) (rpa_tile_index_mode a) (len (rpa_tile_ids a))
      (rpa_tile_base_id a) = Inr (rpa_tile_ids a)"
    using built_inline_region_tensor_view [OF R] by blast
  then show ?thesis
    using m(2) v p ps fields by auto
qed

text \<open>The plain result builder checks its own packet, so its result is always accepted.\<close>

lemma build_result_push_packetE:
  assumes "build_result_push_packet a = Inr p" "truthy (rpa_payload_kind_bitmap a AND PK_TENSOR)"
  obtains ps tile_payload covered region body m v where
    "rpa_tile_index_mode a \<in> {TIM_RAW_U16, TIM_DENSE_RANGE}"
    "pack_section_sequence (rpa_sections a) (len (rpa_tile_ids a)) = Inr ps"
    "pack_tile_index_block (rpa_tile_ids a) (rpa_tile_index_mode a) (rpa_tile_base_id a) = Inr tile_payload"
    "resolve_covered_tile_count a = Inr covered"
    "build_result_inline_object_region tile_payload ps (rpa_tile_ids a \<noteq> []) = Inr region"
    "pack_body (no_regions\<lparr>reg_inline_object := region\<rparr>) = Inr body"
    "ResultPushMetadata_unpack (pkt_metadata p) = Inr m" "pkt_body p = body"
    "validate_result_push_body m body = Inr v"
    "rpm_section_count m = len ps" "rpm_tile_count m = len (rpa_tile_ids a)"
    "rpm_tile_base_id m = rpa_tile_base_id a" "rpm_covered_tile_count m = covered"
    "rpm_result_class m = rpa_result_class a"
    "rpm_payload_kind_bitmap m = rpa_payload_kind_bitmap a"
proof -
  from assms obtain ps tile_payload covered region body m mb v where
    parts: "rpa_tile_index_mode a \<in> {TIM_RAW_U16, TIM_DENSE_RANGE}"
      "pack_section_sequence (rpa_sections a) (len (rpa_tile_ids a)) = Inr ps"
      "pack_tile_index_block (rpa_tile_ids a) (rpa_tile_index_mode a) (rpa_tile_base_id a) = Inr tile_payload"
      "resolve_covered_tile_count a = Inr covered"
      "build_result_inline_object_region tile_payload ps (rpa_tile_ids a \<noteq> []) = Inr region"
      "pack_body (no_regions\<lparr>reg_inline_object := region\<rparr>) = Inr body"
    and m: "ResultPushMetadata_wf m" "ResultPushMetadata_pack m = Inr mb"
    and valid: "validate_result_push_body m body = Inr v"
    and p: "NnrpPacket_build (rpa_version_major a) (rpa_wire_format a) MT_RESULT_PUSH (rpa_route a) mb body = p"
    and fields: "rpm_section_count m = len ps" "rpm_tile_count m = len (rpa_tile_ids a)"
      "rpm_tile_base_id m = rpa_tile_base_id a" "rpm_covered_tile_count m = covered"
      "rpm_result_class m = rpa_result_class a"
      "rpm_payload_kind_bitmap m = rpa_payload_kind_bitmap a"
    by (simp only: build_result_push_packet_def Let_def if_True not_False_eq_True res_simps split_paired_Ex prod.case
        ResultPushMetadata_post_init_iff not_not prod.inject sum.inject)
      (elim exE conjE, hypsubst, rule that, assumption+, simp_all)
  show ?thesis
    using that [OF parts] rpm.unpack_pack [OF m] valid fields p [symmetric] by simp
qed

lemma build_result_push_packet_view:
  assumes p: "build_result_push_packet a = Inr p"
    and tensor: "truthy (rpa_payload_kind_bitmap a AND PK_TENSOR)"
  shows "\<exists>m v tb. ResultPushMetadata_unpack (pkt_metadata p) = Inr m \<and>
    validate_result_push_body m (pkt_body p) = Inr v \<and>
    unpack_current_tensor_body v (rpm_section_count m) (rpm_tile_count m) = Inr tb \<and>
    list_all2 describes (tbv_sections tb) (rpa_sections a) \<and>
    unpack_tile_index_block (tbv_tile_index_block tb) (rpa_tile_index_mode a) (rpm_tile_count m)
      (rpm_tile_base_id m) = Inr (rpa_tile_ids a)"
  using p tensor
proof (rule build_result_push_packetE)
  fix ps tile_payload covered region body m v
  assume parts: "pack_section_sequence (rpa_sections a) (len (rpa_tile_ids a)) = Inr ps"
      "pack_tile_index_block (rpa_tile_ids a) (rpa_tile_index_mode a) (rpa_tile_base_id a) = Inr tile_payload"
      "build_result_inline_object_region tile_payload ps (rpa_tile_ids a \<noteq> []) = Inr region"
    and packed: "pack_body (no_regions\<lparr>reg_inline_object := region\<rparr>) = Inr body"
    and m: "ResultPushMetadata_unpack (pkt_metadata p) = Inr m" "pkt_body p = body"
    and valid: "validate_result_push_body m body = Inr v"
    and fields: "rpm_section_count m = len ps" "rpm_tile_count m = len (rpa_tile_ids a)"
      "rpm_tile_base_id m = rpa_tile_base_id a"
  obtain vs where R: "built_inline_region vs [] tile_payload (rpa_tile_ids a)
      (rpa_sections a) ps (rpa_tile_index_mode a) (rpa_tile_base_id a) region"
    using parts(3,1,2) by (rule result_regionE)
  have "unpack_body body = Inr v"
    using valid by (simp add: validate_result_push_body_iff)
  then have "reg_inline_object (bv_regions v) = region"
    using pack_body_inject [OF packed] by simp
  then obtain tb where "unpack_current_tensor_body v (len (rpa_sections a)) (len (rpa_tile_ids a)) = Inr tb"
    "list_all2 describes (tbv_sections tb) (rpa_sections a)"
    "unpack_tile_index_block (tbv_tile_index_block tb) (rpa_tile_index_mode a) (len (rpa_tile_ids a))
      (rpa_tile_base_id a) = Inr (rpa_tile_ids a)"
    using built_inline_region_tensor_view [OF R] by blast
  then show ?thesis
    using m valid fields built_inline_regionD(2) [OF R] by auto
qed

section \<open>What the builders do not check\<close>

lemma foldl_or_mono:
  "0 \<le> u \<Longrightarrow> \<forall>n \<in> set ns. 0 \<le> tfr_payload_kind n \<Longrightarrow>
     0 \<le> foldl (\<lambda>u f. u OR tfr_payload_kind f) u ns \<and> u \<le> foldl (\<lambda>u f. u OR tfr_payload_kind f) u ns \<and>
     (\<forall>n \<in> set ns. tfr_payload_kind n \<le> foldl (\<lambda>u f. u OR tfr_payload_kind f) u ns)"
proof (induction ns arbitrary: u)
  case Nil
  then show ?case by simp
next
  case (Cons n ns)
  have "u \<le> u OR tfr_payload_kind n" "tfr_payload_kind n \<le> u OR tfr_payload_kind n"
    using Cons.prems or_greater_eq [of "tfr_payload_kind n" u] or_greater_eq [of u "tfr_payload_kind n"]
    by (simp_all add: or.commute)
  then show ?case
    using Cons.IH [of "u OR tfr_payload_kind n"] Cons.prems by fastforce
qed

lemma frame_kind_union_ge:
  assumes "\<forall>n \<in> set ns. 0 \<le> tfr_payload_kind n" "n \<in> set ns"
  shows "tfr_payload_kind n \<le> frame_kind_union ns"
  using foldl_or_mono [of 0 ns] assms by (simp add: frame_kind_union_def)

text \<open>
  A frame whose kind lies above the known bits can be built and packed, but no bitmap reads it.
\<close>

lemma unknown_kind_unreadable:
  assumes "pack_typed_payload_frames frames = Inr (table, region)"
    and "f \<in> set frames" "126 < tfr_payload_kind f"
  shows "unpack_typed_payload_frames table region bitmap \<noteq> Inr ns"
proof
  assume u: "unpack_typed_payload_frames table region bitmap = Inr ns"
  obtain ds where ds: "unpack_typed_payload_descriptors table = Inr ds"
    "map_res build_typed_payload_frame frames = Inr (map (typed_frame_of_descriptor region) ds)"
    using assms(1) by (rule pack_typed_payload_framesE)
  have ns: "map_res build_typed_payload_frame frames = Inr ns"
    and union: "frame_kind_union ns = PayloadKind_call bitmap AND 126"
    using unpack_typed_payload_frames_layout [OF u] ds by auto
  obtain n where n: "n \<in> set ns" "build_typed_payload_frame f = Inr n"
    using map_res_set(2) [OF ns assms(2)] by blast
  have "tfr_payload_kind n = tfr_payload_kind f"
    using n(2) assms(3) by (auto simp: build_typed_payload_frame_iff)
  moreover have "\<forall>n \<in> set ns. 0 \<le> tfr_payload_kind n"
    using map_res_set(1) [OF ns] built_frame_kind_even(2) by blast
  then have "tfr_payload_kind n \<le> frame_kind_union ns"
    using n(1) by (rule frame_kind_union_ge)
  moreover have "PayloadKind_call bitmap AND 126 \<le> 126"
    by (simp add: AND_upper2)
  ultimately show False
    using union assms(3) by simp
qed

lemma build_frame_submit_plain_packetE:
  assumes "build_frame_submit_packet a = Inr p" "\<not> truthy (fsa_payload_kind_bitmap a AND PK_TENSOR)"
  obtains m where "FrameSubmitMetadata_wf m" "FrameSubmitMetadata_unpack (pkt_metadata p) = Inr m"
    "pack_body no_regions = Inr (pkt_body p)"
    "fsm_payload_kind_bitmap m = fsa_payload_kind_bitmap a"
    "fsm_payload_frame_count m = 0" "fsm_camera_bytes m = 0" "fsm_tile_count m = 0"
    "fsm_tile_index_bytes m = 0" "fsm_section_count m = 0" "fsm_object_ref_mask m = 0"
    "fsm_submit_mode m = SM_INLINE"
proof -
  from assms obtain pm body m mb where
    guards: "\<not> (fsa_submit_mode a = SM_INLINE \<and> fsa_object_ref_mask a \<noteq> 0)"
      "\<not> (fsa_submit_mode a = SM_REFERENCE \<and> pm = 0)"
      "\<not> (fsa_submit_mode a = SM_MIXED \<and> fsa_object_ref_mask a = 0)" "\<not> pm \<noteq> 0"
      "\<not> (fsa_submit_mode a \<noteq> SM_INLINE \<and> fsa_object_ref_mask a \<noteq> pm)"
    and body: "pack_body no_regions = Inr body"
    and m: "FrameSubmitMetadata_wf m" "FrameSubmitMetadata_pack m = Inr mb"
    and p: "NnrpPacket_build (fsa_version_major a) (fsa_wire_format a) MT_FRAME_SUBMIT (fsa_route a) mb body = p"
    and fields: "fsm_payload_kind_bitmap m = fsa_payload_kind_bitmap a"
      "fsm_payload_frame_count m = 0" "fsm_camera_bytes m = 0" "fsm_tile_count m = 0"
      "fsm_tile_index_bytes m = 0" "fsm_section_count m = 0"
      "fsm_object_ref_mask m = fsa_object_ref_mask a" "fsm_submit_mode m = fsa_submit_mode a"
    by (simp only: build_frame_submit_packet_def build_frame_submit_plain_body_def Let_def if_False
        not_not res_simps split_paired_Ex prod.case FrameSubmitMetadata_post_init_iff prod.inject sum.inject)
      (elim exE conjE, hypsubst, rule that,
        (assumption | (simp only: FrameSubmitMetadata.simps list.size of_nat_0 not_not simp_thms)[1])+)
  have "fsa_submit_mode a = SM_INLINE \<and> fsa_object_ref_mask a = 0"
    using guards by (cases "fsa_submit_mode a") auto
  then show ?thesis
    using that [OF m(1)] fsm.unpack_pack [OF m] body fields p by auto
qed

lemma zero_bitmap: "(b :: int) AND 1 = 0 \<Longrightarrow> b AND NOT 127 = 0 \<Longrightarrow> b AND 126 = 0 \<longleftrightarrow> b = 0"
  using and_126_iff [of b] by (auto simp: and_one_eq even_iff_mod_2_eq_zero)

text \<open>
  Without the tensor bit the builder emits an empty body, and does not run the receiver's
  checks.  They pass only for the empty bitmap.
\<close>

lemma build_frame_submit_plain_view:
  assumes p: "build_frame_submit_packet a = Inr p"
    and plain: "\<not> truthy (fsa_payload_kind_bitmap a AND PK_TENSOR)"
  shows "\<exists>m. FrameSubmitMetadata_unpack (pkt_metadata p) = Inr m \<and>
    fsm_payload_kind_bitmap m = fsa_payload_kind_bitmap a \<and>
    ((\<exists>v. validate_frame_submit_body m (pkt_body p) = Inr v) \<longleftrightarrow> fsa_payload_kind_bitmap a = 0)"
  using p plain
proof (rule build_frame_submit_plain_packetE)
  fix m
  assume m: "FrameSubmitMetadata_wf m" "FrameSubmitMetadata_unpack (pkt_metadata p) = Inr m"
    and body: "pack_body no_regions = Inr (pkt_body p)"
    and bm: "fsm_payload_kind_bitmap m = fsa_payload_kind_bitmap a"
    and fields: "fsm_payload_frame_count m = 0" "fsm_camera_bytes m = 0" "fsm_tile_count m = 0"
      "fsm_tile_index_bytes m = 0" "fsm_section_count m = 0" "fsm_object_ref_mask m = 0"
      "fsm_submit_mode m = SM_INLINE"
  let ?v = "\<lparr>bv_prelude = prelude_of no_regions, bv_regions = no_regions\<rparr>"
  have empty: "unpack_inline_object_blocks [] = Inr []" "unpack_object_reference_blocks [] = Inr []"
    "unpack_typed_payload_descriptors [] = Inr []" "unpack_extension_frame_descriptors [] = Inr []"
    using unpack_inline_object_blocks_concat [of "[]" "[]"]
    by (simp_all add: unpack_object_reference_blocks_def unpack_typed_payload_descriptors_def
        unpack_extension_frame_descriptors_def)
  have "body_regions_ok no_regions"
    by (simp add: body_regions_ok_def no_regions_def empty validate_descriptor_offsets_def)
  then have u: "unpack_body (pkt_body p) = Inr ?v"
    using body body.unpack_pack [of ?v "pkt_body p"] by (simp add: pack_body_view_def)
  have "submit_objects_spec m [] []"
    by (simp add: submit_objects_spec_def fields mask_kinds_def inline_of_kind_def)
  then have "(\<exists>v. validate_frame_submit_body m (pkt_body p) = Inr v) \<longleftrightarrow>
      fsa_payload_kind_bitmap a AND 126 = 0"
    by (auto simp: validate_frame_submit_body_iff u fields bm typed_payload_spec_def no_regions_def
        empty descriptor_kind_union_def)
  moreover have "fsm_payload_kind_bitmap m AND NOT 127 = 0"
    using FrameSubmitMetadata_wf_coerced(3) [OF m(1)] by (simp add: coerce_payload_kind_bitmap_iff)
  ultimately show ?thesis
    using m(2) bm plain zero_bitmap [of "fsa_payload_kind_bitmap a"] by auto
qed

end
