(* ===== verification/Samples.thy ===== *)
theory Samples
  imports Builder_Correctness
begin

text \<open>
  Concrete inputs of the packet builders, small enough to be evaluated: a submit of two tiles
  with one tensor section and a camera block, a result for the same tiles, and a text frame and
  a token frame to travel with them.
\<close>

definition sample_section :: TensorSectionData where
  "sample_section = \<lparr>tdat_role_id = 1, tdat_default_codec_id = 2, tdat_dtype_id = TD_FP16,
     tdat_tile_payloads = [[1, 2], [3]], tdat_codec_ids = [2, 5], tdat_layout_id = TL_NHWC,
     tdat_scale_policy = SP_NONE, tdat_payload_stride_bytes = 4, tdat_element_count_per_tile = 2\<rparr>"

definition sample_submit :: frame_submit_args where
  "sample_submit = \<lparr>fsa_operation_id = 7, fsa_src_width = 64, fsa_src_height = 32,
     fsa_tile_width = 16, fsa_tile_height = 16, fsa_tile_ids = [3, 9], fsa_sections = [sample_section],
     fsa_camera_block = [170, 187], fsa_frame_class = 0, fsa_input_profile = IP_CHANGED_TILES_LUMA,
     fsa_tile_index_mode = TIM_DELTA_U16, fsa_latency_budget_ms = 33, fsa_target_fps_x100 = 3000,
     fsa_retry_of_frame = 0, fsa_tile_base_id = 0, fsa_submit_mode = SM_INLINE,
     fsa_object_ref_mask = 0, fsa_camera_reference = None, fsa_tile_index_reference = None,
     fsa_tensor_section_table_reference = None, fsa_budget_policy = 0, fsa_dependency_frame_id = 0,
     fsa_loss_tolerance_policy = 0, fsa_payload_kind_bitmap = PK_TENSOR, fsa_payload_frame_count = 0,
     fsa_version_major = 1, fsa_wire_format = WF_CURRENT, fsa_route = no_route\<rparr>"

definition sample_result :: result_push_args where
  "sample_result = \<lparr>rpa_tile_ids = [3, 9], rpa_sections = [sample_section], rpa_result_flags = 0,
     rpa_active_profile_id = 1, rpa_inference_ms = 5, rpa_queue_ms = 1, rpa_server_total_ms = 8,
     rpa_status_code = 0, rpa_tile_index_mode = TIM_RAW_U16, rpa_tile_base_id = 0,
     rpa_result_class = RC_COMPLETE, rpa_applied_budget_policy = 0, rpa_reused_frame_id = 0,
     rpa_covered_tile_count = None, rpa_dropped_tile_count = 0, rpa_payload_kind_bitmap = PK_TENSOR,
     rpa_payload_frame_count = 0, rpa_version_major = 1, rpa_wire_format = WF_CURRENT,
     rpa_route = no_route\<rparr>"

definition sample_frame :: "int \<Rightarrow> int \<Rightarrow> bytes \<Rightarrow> TypedPayloadFrame" where
  "sample_frame kind profile payload = \<lparr>tfr_payload_kind = kind, tfr_payload = payload,
     tfr_profile_id = profile, tfr_descriptor_flags = 0, tfr_schema_id = 0, tfr_schema_version = 0,
     tfr_stream_semantics = 0\<rparr>"

definition sample_frames :: "TypedPayloadFrame list" where
  "sample_frames = [sample_frame 2 2 [72, 105], sample_frame 4 3 [1, 2, 3, 4]]"

fun accepted :: "'a res \<Rightarrow> bool" where
  "accepted (Inr x) = True"
| "accepted (Inl e) = False"

lemma acceptedD: "accepted r \<Longrightarrow> \<exists>x. r = Inr x"
  by (cases r) simp_all

lemma sample_submit_builds: "accepted (build_frame_submit_packet sample_submit)"
  by code_simp

lemma sample_submit_typed_builds: "accepted (build_frame_submit_typed_payload_packet sample_submit sample_frames)"
  by code_simp

lemma sample_submit_mixed_builds: "accepted (build_frame_submit_mixed_packet sample_submit sample_frames)"
  by code_simp

lemma sample_result_builds: "accepted (build_result_push_packet sample_result)"
  by code_simp

lemma sample_result_typed_builds: "accepted (build_result_push_typed_payload_packet sample_result sample_frames)"
  by code_simp

lemma sample_result_mixed_builds: "accepted (build_result_push_mixed_packet sample_result sample_frames)"
  by code_simp

text \<open>Metadata of a partial result, and inputs that show what the builders let through.\<close>

definition sample_partial :: ResultPushMetadata where
  "sample_partial = \<lparr>rpm_status_code = 0, rpm_result_flags = RF_PARTIAL, rpm_section_count = 1,
     rpm_tile_count = 2, rpm_active_profile_id = 1, rpm_reserved0 = 0, rpm_inference_ms = 5,
     rpm_queue_ms = 1, rpm_server_total_ms = 8, rpm_reserved1 = 0, rpm_tile_base_id = 0,
     rpm_tile_index_bytes = 4, rpm_reserved2 = 0, rpm_reserved3 = 0, rpm_result_class = RC_PARTIAL,
     rpm_applied_budget_policy = BP_ALLOW_PARTIAL, rpm_reserved4 = 0, rpm_reused_frame_id = 0,
     rpm_covered_tile_count = 1, rpm_dropped_tile_count = 1, rpm_payload_kind_bitmap = PK_TENSOR,
     rpm_payload_frame_count = 0, rpm_reserved5 = 0\<rparr>"

lemma sample_partial_unpacks: "\<exists>bs. ResultPushMetadata_unpack bs = Inr sample_partial"
proof -
  have "accepted (ResultPushMetadata_pack sample_partial)"
    by code_simp
  then obtain bs where "ResultPushMetadata_pack sample_partial = Inr bs"
    using acceptedD by blast
  moreover have "ResultPushMetadata_post_init sample_partial = Inr sample_partial"
    by code_simp
  ultimately show ?thesis
    using rpm.unpack_pack [of sample_partial] by (auto simp: ResultPushMetadata_wf_def)
qed

definition sample_bare_submit :: frame_submit_args where
  "sample_bare_submit = sample_submit\<lparr>fsa_tile_ids := [], fsa_sections := [], fsa_camera_block := [],
     fsa_payload_kind_bitmap := PK_TOKEN_CHUNK\<rparr>"

lemma sample_bare_submit_builds: "accepted (build_frame_submit_packet sample_bare_submit)"
  by code_simp

definition sample_flow :: FlowUpdateMetadata where
  "sample_flow = \<lparr>fum_scope_kind = FUS_SESSION, fum_update_reason = FUR_GRANT,
     fum_backpressure_level = FUB_NONE, fum_connection_credit = 0, fum_session_credit = 8,
     fum_operation_credit = 0, fum_operation_id = 0, fum_retry_after_ms = 0, fum_credit_epoch = 3,
     fum_flags = 0\<rparr>"

lemma sample_flow_builds: "accepted (build_flow_update_packet sample_flow (no_route\<lparr>pr_session_id := 5\<rparr>))"
  by code_simp

end
