(* ===== verification/Control_Extensions.thy ===== *)
theory Control_Extensions
  imports Control_Messages
begin

text \<open>
  The extension block of the handshake messages (\<open>core/messages/control.py\<close>): the TLV entries
  (\<open>ControlExtensionEntry\<close>, \<open>pack_control_extension_block\<close>,
  \<open>unpack_control_extension_block\<close>) and the six extensions carried in them.  The parser is
  the \<open>while\<close> loop of the code over an explicit offset.
\<close>

section \<open>TLV entries\<close>

definition CONTROL_EXTENSION_HEADER_STRUCT :: "field list" where
  "CONTROL_EXTENSION_HEADER_STRUCT = [FH, FH, FI]"

definition CONTROL_EXTENSION_HEADER_LENGTH :: int where
  "CONTROL_EXTENSION_HEADER_LENGTH = int (calcsize CONTROL_EXTENSION_HEADER_STRUCT)"

lemma CONTROL_EXTENSION_HEADER_size [simp]:
  "calcsize CONTROL_EXTENSION_HEADER_STRUCT = 8" "CONTROL_EXTENSION_HEADER_LENGTH = 8"
  by (simp_all add: CONTROL_EXTENSION_HEADER_STRUCT_def CONTROL_EXTENSION_HEADER_LENGTH_def)

definition control_extension_padding :: "int \<Rightarrow> int" where
  "control_extension_padding payload_length = (- payload_length) mod 8"

record ControlExtensionEntry =
  ext_type :: int
  ext_flags :: int
  ext_payload :: bytes

definition ControlExtensionEntry_pack :: "ControlExtensionEntry \<Rightarrow> bytes res" where
  "ControlExtensionEntry_pack e =
     bind_res (struct_pack CONTROL_EXTENSION_HEADER_STRUCT
       [ext_type e, ext_flags e, len (ext_payload e)]) (\<lambda>header.
     Inr (header @ ext_payload e @ zeros (control_extension_padding (len (ext_payload e)))))"

definition pack_control_extension_block :: "ControlExtensionEntry list \<Rightarrow> bytes res" where
  "pack_control_extension_block entries = pack_table ControlExtensionEntry_pack entries"

text \<open>
  The first half of the loop body reads one entry at \<open>offset\<close>; the second drops it when its
  type is not known, and refuses it when it is critical besides.
\<close>

definition read_control_extension :: "bytes \<Rightarrow> int \<Rightarrow> (ControlExtensionEntry \<times> int) res" where
  "read_control_extension payload offset =
     (if len payload - offset < CONTROL_EXTENSION_HEADER_LENGTH
      then ve ''truncated control extension header'' else
      bind_res (struct_unpack CONTROL_EXTENSION_HEADER_STRUCT
        (py_slice offset (offset + CONTROL_EXTENSION_HEADER_LENGTH) payload)) (\<lambda>values.
      case values of
        [t, flags, ext_len] \<Rightarrow>
          let payload_start = offset + CONTROL_EXTENSION_HEADER_LENGTH;
              payload_end = payload_start + ext_len;
              padding_end = payload_end + control_extension_padding ext_len
          in if payload_end > len payload then ve ''truncated control extension payload''
             else if padding_end > len payload then ve ''truncated control extension padding''
             else if any_nonzero (py_slice payload_end padding_end payload)
             then ve ''control extension padding must be zero''
             else Inr (\<lparr>ext_type = t, ext_flags = ControlExtensionFlags_call flags,
                        ext_payload = py_slice payload_start payload_end payload\<rparr>, padding_end)
      | _ \<Rightarrow> tuple_error))"

definition extension_step :: "int set option \<Rightarrow> bytes \<Rightarrow> int \<times> ControlExtensionEntry list
    \<Rightarrow> (int \<times> ControlExtensionEntry list) res" where
  "extension_step known_types payload st =
     bind_res (read_control_extension payload (fst st)) (\<lambda>(entry, padding_end).
       if known_types \<noteq> None \<and> ext_type entry \<notin> the known_types
       then if truthy (ext_flags entry AND CEF_CRITICAL)
            then ve ''unknown critical control extension type''
            else Inr (padding_end, snd st)
       else Inr (padding_end, snd st @ [entry]))"

lemma padding_bounds: "0 \<le> control_extension_padding n" "control_extension_padding n < 8"
  by (simp_all add: control_extension_padding_def)

lemma read_control_extensionE:
  assumes "read_control_extension payload offset = Inr (e, offset')" "0 \<le> offset"
  obtains h ext_len where
    "struct_pack CONTROL_EXTENSION_HEADER_STRUCT [ext_type e, ext_flags e, ext_len] = Inr h"
    "h = py_slice offset (offset + 8) payload"
    "ext_payload e = py_slice (offset + 8) (offset + 8 + ext_len) payload" "0 \<le> ext_len"
    "offset' = offset + 8 + ext_len + control_extension_padding ext_len"
    "offset' \<le> len payload"
    "\<not> any_nonzero (py_slice (offset + 8 + ext_len) offset' payload)"
proof -
  from assms(1) obtain vs where room: "8 \<le> len payload - offset"
    and vs: "struct_unpack CONTROL_EXTENSION_HEADER_STRUCT (py_slice offset (offset + 8) payload) = Inr vs"
    by (auto simp: read_control_extension_def res_simps split: if_splits)
  then have fit: "list_all2 fits CONTROL_EXTENSION_HEADER_STRUCT vs"
    by (auto simp: struct_unpack_iff_pack dest: struct_pack_fits)
  then obtain t fl n where v: "vs = [t, fl, n]" "0 \<le> t" "0 \<le> fl" "0 \<le> n"
    by (auto simp: CONTROL_EXTENSION_HEADER_STRUCT_def list_all2_Cons1 fits_def)
  show thesis
    by (rule that [where ext_len = n and h = "py_slice offset (offset + 8) payload"])
      (use assms(1) room vs v in \<open>auto simp: read_control_extension_def Let_def
        struct_unpack_iff_pack ControlExtensionFlags_call_def split: if_splits\<close>)
qed

lemma read_control_extension_advances:
  assumes "read_control_extension payload offset = Inr (e, offset')" "0 \<le> offset"
  shows "offset + 8 \<le> offset'" "offset' \<le> len payload"
  by (rule read_control_extensionE [OF assms]; use padding_bounds in \<open>simp add: add_increasing2\<close>)+

lemma extension_step_advances:
  "extension_step known payload st = Inr st' \<Longrightarrow> 0 \<le> fst st
    \<Longrightarrow> fst st + 8 \<le> fst st' \<and> fst st' \<le> len payload"
  by (auto simp: extension_step_def res_simps split: if_splits
      dest: read_control_extension_advances)

text \<open>The offset starts at 0; a negative one is no state of the loop.\<close>

function extension_loop :: "int set option \<Rightarrow> bytes \<Rightarrow> int \<times> ControlExtensionEntry list
    \<Rightarrow> ControlExtensionEntry list res" where
  "extension_loop known payload st =
     (if 0 \<le> fst st \<and> fst st < len payload
      then bind_res (extension_step known payload st) (extension_loop known payload)
      else Inr (snd st))"
  by auto

termination
  by (relation "measure (\<lambda>(known, payload, st). nat (len payload - fst st))")
    (auto dest!: extension_step_advances)

declare extension_loop.simps [simp del]

definition unpack_control_extension_block ::
    "int set option \<Rightarrow> bytes \<Rightarrow> ControlExtensionEntry list res" where
  "unpack_control_extension_block known_types payload = extension_loop known_types payload (0, [])"

section \<open>The loop ends\<close>

text \<open>The same loop cut off after \<open>n\<close> iterations.\<close>

fun extension_loop_fuel :: "nat \<Rightarrow> int set option \<Rightarrow> bytes \<Rightarrow> int \<times> ControlExtensionEntry list
    \<Rightarrow> ControlExtensionEntry list res option" where
  "extension_loop_fuel 0 known payload st = None"
| "extension_loop_fuel (Suc n) known payload st =
     (if fst st < len payload
      then (case extension_step known payload st of
              Inl e \<Rightarrow> Some (Inl e)
            | Inr st' \<Rightarrow> extension_loop_fuel n known payload st')
      else Some (Inr (snd st)))"

lemma extension_loop_enough_fuel:
  "0 \<le> fst st \<Longrightarrow> fst st \<le> len payload \<Longrightarrow> len payload - fst st < 8 * int n
    \<Longrightarrow> extension_loop_fuel n known payload st = Some (extension_loop known payload st)"
proof (induction n arbitrary: st)
  case 0
  then show ?case by (simp add: extension_loop.simps)
next
  case (Suc n)
  show ?case
  proof (cases "fst st < len payload")
    case True
    show ?thesis
    proof (cases "extension_step known payload st")
      case (Inl e)
      with True Suc.prems show ?thesis by (subst extension_loop.simps) simp
    next
      case (Inr st')
      with extension_step_advances [OF Inr Suc.prems(1)] True Suc.prems Suc.IH [of st']
      show ?thesis by (subst extension_loop.simps) simp
    qed
  qed (subst extension_loop.simps, simp)
qed

lemma unpack_control_extension_block_terminates:
  "extension_loop_fuel (Suc (length payload div 8)) known payload (0, [])
    = Some (unpack_control_extension_block known payload)"
  unfolding unpack_control_extension_block_def
  by (rule extension_loop_enough_fuel) auto


section \<open>Packing and parsing are inverse to each other\<close>

lemma entry_packE:
  assumes "ControlExtensionEntry_pack e = Inr bs"
  obtains h where
    "struct_pack CONTROL_EXTENSION_HEADER_STRUCT [ext_type e, ext_flags e, len (ext_payload e)] = Inr h"
    "bs = h @ ext_payload e @ zeros (control_extension_padding (len (ext_payload e)))"
    "length h = 8" "0 \<le> ext_flags e"
proof -
  obtain h where h: "struct_pack CONTROL_EXTENSION_HEADER_STRUCT
      [ext_type e, ext_flags e, len (ext_payload e)] = Inr h"
    "bs = h @ ext_payload e @ zeros (control_extension_padding (len (ext_payload e)))"
    using assms by (auto simp: ControlExtensionEntry_pack_def res_simps)
  then show thesis
    using that length_struct_pack [OF h(1)] struct_pack_fits [OF h(1)]
    by (simp add: CONTROL_EXTENSION_HEADER_STRUCT_def fits_def)
qed

lemma read_packed:
  assumes "ControlExtensionEntry_pack e = Inr bs"
  shows "read_control_extension (pre @ bs @ rest) (len pre) = Inr (e, len (pre @ bs))"
proof -
  let ?n = "len (ext_payload e)"
  let ?pad = "control_extension_padding ?n"
  obtain h where h: "struct_pack CONTROL_EXTENSION_HEADER_STRUCT [ext_type e, ext_flags e, ?n] = Inr h"
    "bs = h @ ext_payload e @ zeros ?pad" "length h = 8" "0 \<le> ext_flags e"
    using assms by (rule entry_packE)
  let ?view = "pre @ bs @ rest"
  have s: "py_slice (len pre) (len pre + 8) ?view = h"
    by (simp add: h(2)) (rule py_slice_append_mid, simp_all add: h(3))
  have p: "py_slice (len pre + 8) (len pre + 8 + ?n) ?view = ext_payload e"
    using py_slice_append_mid [of "len pre + 8" "pre @ h" "len pre + 8 + ?n" "ext_payload e"] h(3)
    by (simp add: h(2))
  have z: "py_slice (len pre + 8 + ?n) (len pre + 8 + ?n + ?pad) ?view = zeros ?pad"
    using py_slice_append_mid [of "len pre + 8 + ?n" "pre @ h @ ext_payload e"
        "len pre + 8 + ?n + ?pad" "zeros ?pad" rest] h(3) padding_bounds [of ?n]
    by (simp add: h(2))
  have l: "len ?view = len pre + 8 + ?n + ?pad + len rest" "len (pre @ bs) = len pre + 8 + ?n + ?pad"
    using h(3) padding_bounds [of ?n] by (simp_all add: h(2))
  show ?thesis
    using padding_bounds [of ?n] h(4) struct_unpack_pack [OF h(1)]
    by (simp add: read_control_extension_def Let_def s p z l ControlExtensionFlags_call_def
        del: length_append)
qed

lemma packed_read:
  assumes "read_control_extension payload offset = Inr (e, offset')" "0 \<le> offset"
  shows "ControlExtensionEntry_pack e = Inr (py_slice offset offset' payload)"
proof -
  obtain h n where h: "struct_pack CONTROL_EXTENSION_HEADER_STRUCT [ext_type e, ext_flags e, n] = Inr h"
    "h = py_slice offset (offset + 8) payload"
    "ext_payload e = py_slice (offset + 8) (offset + 8 + n) payload" "0 \<le> n"
    "offset' = offset + 8 + n + control_extension_padding n" "offset' \<le> len payload"
    "\<not> any_nonzero (py_slice (offset + 8 + n) offset' payload)"
    using assms by (rule read_control_extensionE)
  note pad = padding_bounds [of n]
  have n: "len (ext_payload e) = n"
    using h(3-6) assms(2) pad by (simp add: length_py_slice)
  have z: "py_slice (offset + 8 + n) offset' payload = zeros (control_extension_padding n)"
    using h(4-7) assms(2) pad by (simp add: not_any_nonzero_iff length_py_slice)
  have mid: "offset + 8 \<le> offset'" "offset + 8 + n \<le> offset'"
    using h(4,5) pad by simp_all
  have "py_slice offset offset' payload
      = py_slice offset (offset + 8) payload @ py_slice (offset + 8) (offset + 8 + n) payload
        @ py_slice (offset + 8 + n) offset' payload"
    using py_slice_split [of offset "offset + 8" offset' payload]
      py_slice_split [of "offset + 8" "offset + 8 + n" offset' payload] h(4) assms(2) mid
    by simp
  then show ?thesis
    using h(1) by (simp add: ControlExtensionEntry_pack_def n z flip: h(2,3))
qed

lemma pack_block_simps [simp]:
  "pack_control_extension_block [] = Inr []"
  "pack_control_extension_block (e # es) = bind_res (ControlExtensionEntry_pack e) (\<lambda>b.
     bind_res (pack_control_extension_block es) (\<lambda>bs. Inr (b @ bs)))"
  by (simp_all add: pack_control_extension_block_def)

lemma loop_packed:
  "pack_control_extension_block es = Inr bs
    \<Longrightarrow> extension_loop None (pre @ bs) (len pre, acc) = Inr (acc @ es)"
proof (induction es arbitrary: bs pre acc)
  case Nil
  then show ?case by (simp add: extension_loop.simps)
next
  case (Cons e es)
  then obtain b bs' where b: "ControlExtensionEntry_pack e = Inr b" "bs = b @ bs'"
    "pack_control_extension_block es = Inr bs'"
    by (auto simp: res_simps)
  have "0 < length b" using b(1) by (auto elim!: entry_packE)
  moreover have "extension_step None (pre @ b @ bs') (len pre, acc) = Inr (len (pre @ b), acc @ [e])"
    using read_packed [OF b(1)] by (simp add: extension_step_def del: length_append)
  ultimately show ?case
    using Cons.IH [OF b(3), of "pre @ b" "acc @ [e]"] b(2)
    by (subst extension_loop.simps) (cases "length b", simp_all)
qed

lemma packed_loop:
  assumes "extension_loop None payload st = Inr es" "0 \<le> fst st" "fst st \<le> len payload"
  shows "\<exists>es'. es = snd st @ es'
    \<and> pack_control_extension_block es' = Inr (py_slice (fst st) (len payload) payload)"
  using assms
proof (induction "None :: int set option" payload st rule: extension_loop.induct)
  case (1 payload st)
  show ?case
  proof (cases "fst st < len payload")
    case False
    then show ?thesis using "1.prems" by (subst (asm) extension_loop.simps) (simp add: py_slice_nonneg)
  next
    case True
    then obtain st' where st': "extension_step None payload st = Inr st'"
      "extension_loop None payload st' = Inr es"
      using "1.prems" by (subst (asm) extension_loop.simps) (auto simp: res_simps)
    then obtain e where e: "read_control_extension payload (fst st) = Inr (e, fst st')"
      "snd st' = snd st @ [e]"
      by (auto simp: extension_step_def res_simps)
    note adv = extension_step_advances [OF st'(1) "1.prems"(2)]
    obtain es' where es': "es = snd st' @ es'"
      "pack_control_extension_block es' = Inr (py_slice (fst st') (len payload) payload)"
      using "1.hyps" [OF _ st'(1) st'(2)] True "1.prems"(2) adv by auto
    have "py_slice (fst st) (len payload) payload
        = py_slice (fst st) (fst st') payload @ py_slice (fst st') (len payload) payload"
      using adv "1.prems"(2) by (intro py_slice_split) simp_all
    then show ?thesis
      using es' e packed_read [OF e(1) "1.prems"(2)] by (auto intro!: exI [of _ "e # es'"])
  qed
qed

lemma unpack_extension_block_iff:
  "unpack_control_extension_block None bs = Inr es \<longleftrightarrow> pack_control_extension_block es = Inr bs"
  using loop_packed [of es bs "[]" "[]"] packed_loop [of bs "(0, [])" es]
  by (auto simp: unpack_control_extension_block_def)

interpretation extension_block:
  exact_codec pack_control_extension_block "unpack_control_extension_block None" "\<lambda>es. True"
  by unfold_locales (simp_all add: unpack_extension_block_iff)

section \<open>Unknown types\<close>

lemma loop_known:
  "0 \<le> fst st \<Longrightarrow> extension_loop None payload st = Inr (acc @ es) \<Longrightarrow> snd st = acc
    \<Longrightarrow> extension_loop (Some known) payload (fst st, acc') =
      (if \<exists>e \<in> set es. ext_type e \<notin> known \<and> ext_flags e AND CEF_CRITICAL \<noteq> 0
       then ve ''unknown critical control extension type''
       else Inr (acc' @ filter (\<lambda>e. ext_type e \<in> known) es))"
proof (induction "None :: int set option" payload st arbitrary: es acc acc' rule: extension_loop.induct)
  case (1 payload st)
  show ?case
  proof (cases "fst st < len payload")
    case False
    then have "es = []" using "1.prems" by (subst (asm) extension_loop.simps) simp
    then show ?thesis using False by (subst extension_loop.simps) simp
  next
    case True
    obtain st' where st': "extension_step None payload st = Inr st'"
      "extension_loop None payload st' = Inr (acc @ es)"
      using "1.prems" True by (subst (asm) (1) extension_loop.simps) (auto simp: res_simps)
    then obtain e where e: "read_control_extension payload (fst st) = Inr (e, fst st')"
      "snd st' = acc @ [e]"
      using "1.prems"(3) by (auto simp: extension_step_def res_simps)
    note adv = extension_step_advances [OF st'(1) "1.prems"(1)]
    obtain es' where es: "es = e # es'"
      using packed_loop [OF st'(2)] adv "1.prems"(1) e(2) by auto
    have ih: "extension_loop (Some known) payload (fst st', acc'') =
      (if \<exists>e \<in> set es'. ext_type e \<notin> known \<and> ext_flags e AND CEF_CRITICAL \<noteq> 0
       then ve ''unknown critical control extension type''
       else Inr (acc'' @ filter (\<lambda>e. ext_type e \<in> known) es'))" for acc''
      using "1.hyps" [OF _ st'(1), of "acc @ [e]" es' acc''] True "1.prems"(1) adv st'(2) e(2) es
      by simp
    show ?thesis
    proof (cases "ext_type e \<in> known")
      case True2: True
      then show ?thesis
        using True "1.prems"(1) e(1) ih by (subst extension_loop.simps) (simp add: extension_step_def es)
    next
      case False
      then show ?thesis
        using True "1.prems"(1) e(1) ih by (subst extension_loop.simps) (simp add: extension_step_def es)
    qed
  qed
qed

text \<open>
  With a set of known types a parser keeps exactly the entries of those types, and refuses
  the block when an entry of another type is critical.
\<close>

lemma unpack_known_types:
  assumes "pack_control_extension_block es = Inr bs"
  shows "unpack_control_extension_block (Some known) bs =
    (if \<exists>e \<in> set es. ext_type e \<notin> known \<and> ext_flags e AND CEF_CRITICAL \<noteq> 0
     then ve ''unknown critical control extension type''
     else Inr (filter (\<lambda>e. ext_type e \<in> known) es))"
  using loop_known [of "(0, [])" bs "[]" es known "[]"] assms
  by (simp add: unpack_control_extension_block_def flip: unpack_extension_block_iff)

section \<open>The hello extensions\<close>

text \<open>
  Each class packs a fixed tuple.  The two transport extensions ignore the fields they do not
  use when they decode (\<open>_reserved\<close>, \<open>_accepted_policy\<close>); the others check them.
\<close>

definition TRANSPORT_POLICY_EXTENSION_STRUCT :: "field list" where
  "TRANSPORT_POLICY_EXTENSION_STRUCT = [FB, FB, FH, FI]"

definition LOSS_TOLERANCE_EXTENSION_STRUCT :: "field list" where
  "LOSS_TOLERANCE_EXTENSION_STRUCT = [FB, FB, FH, FI]"

definition PAYLOAD_CAPABILITIES_EXTENSION_STRUCT :: "field list" where
  "PAYLOAD_CAPABILITIES_EXTENSION_STRUCT = [FI, FI]"

lemma extension_struct_sizes [simp]:
  "calcsize TRANSPORT_POLICY_EXTENSION_STRUCT = 8"
  "calcsize LOSS_TOLERANCE_EXTENSION_STRUCT = 8"
  "calcsize PAYLOAD_CAPABILITIES_EXTENSION_STRUCT = 8"
  by (simp_all add: TRANSPORT_POLICY_EXTENSION_STRUCT_def LOSS_TOLERANCE_EXTENSION_STRUCT_def
      PAYLOAD_CAPABILITIES_EXTENSION_STRUCT_def)

named_theorems extension_defs \<open>formats, tuples and checks of the hello extensions\<close>

declare TRANSPORT_POLICY_EXTENSION_STRUCT_def [extension_defs]
  LOSS_TOLERANCE_EXTENSION_STRUCT_def [extension_defs]
  PAYLOAD_CAPABILITIES_EXTENSION_STRUCT_def [extension_defs]

text \<open>\<open>_validate\<close> of the transport extensions: the id is coerced, unspecified allowed.\<close>

definition PAYLOAD_KIND_ALLOWED_MASK :: int where
  "PAYLOAD_KIND_ALLOWED_MASK = PK_TENSOR OR PK_TOKEN_CHUNK OR PK_AUDIO_CHUNK OR PK_VIDEO_CHUNK
     OR PK_STRUCTURED_EVENT OR PK_TOOL_DELTA OR PK_OPAQUE_BYTES"

definition validate_payload_capabilities :: "int \<Rightarrow> int \<Rightarrow> unit res" where
  "validate_payload_capabilities payload_kind_bitmap critical_extension_frame_bitmap =
     (if truthy (payload_kind_bitmap AND NOT PAYLOAD_KIND_ALLOWED_MASK)
      then ve ''unknown payload kind bits''
      else if critical_extension_frame_bitmap \<noteq> 0
      then ve ''critical extension frame bitmap must be zero in current''
      else Inr ())"

record ClientHelloTransportPolicyExtension =
  chtp_transport_policy :: TransportPolicy
  chtp_preferred_transport_id :: TransportId

definition ClientHelloTransportPolicyExtension_values :: "ClientHelloTransportPolicyExtension \<Rightarrow> int list" where
  "ClientHelloTransportPolicyExtension_values x = [TransportPolicy_int (chtp_transport_policy x), 0, 0, TransportId_int (chtp_preferred_transport_id x)]"

definition ClientHelloTransportPolicyExtension_validate :: "ClientHelloTransportPolicyExtension \<Rightarrow> unit res" where
  "ClientHelloTransportPolicyExtension_validate x = 
     bind_res (coerce_transport_id (TransportId_int (chtp_preferred_transport_id x)) True) (\<lambda>_. Inr ())"

definition ClientHelloTransportPolicyExtension_pack :: "ClientHelloTransportPolicyExtension \<Rightarrow> bytes res" where
  "ClientHelloTransportPolicyExtension_pack = fixed_width_pack TRANSPORT_POLICY_EXTENSION_STRUCT ClientHelloTransportPolicyExtension_validate ClientHelloTransportPolicyExtension_values"

definition ClientHelloTransportPolicyExtension_from_tuple :: "int list \<Rightarrow> ClientHelloTransportPolicyExtension res" where
  "ClientHelloTransportPolicyExtension_from_tuple vs =
     (case vs of
        [transport_policy, accepted_policy, reserved, preferred_transport_id] \<Rightarrow>
          bind_res (TransportPolicy_of transport_policy) (\<lambda>transport_policy.
          bind_res (coerce_transport_id preferred_transport_id True) (\<lambda>preferred_transport_id.
          Inr \<lparr>chtp_transport_policy = transport_policy,
               chtp_preferred_transport_id = preferred_transport_id\<rparr>))
      | _ \<Rightarrow> tuple_error)"

definition ClientHelloTransportPolicyExtension_unpack :: "bytes \<Rightarrow> ClientHelloTransportPolicyExtension res" where
  "ClientHelloTransportPolicyExtension_unpack = fixed_width_unpack TRANSPORT_POLICY_EXTENSION_STRUCT ClientHelloTransportPolicyExtension_from_tuple"

declare ClientHelloTransportPolicyExtension_values_def [extension_defs] ClientHelloTransportPolicyExtension_validate_def [extension_defs]
  ClientHelloTransportPolicyExtension_from_tuple_def [extension_defs]

lemma ClientHelloTransportPolicyExtension_from_values:
  assumes "ClientHelloTransportPolicyExtension_validate x = Inr ()" "list_all2 fits TRANSPORT_POLICY_EXTENSION_STRUCT (ClientHelloTransportPolicyExtension_values x)"
  shows "ClientHelloTransportPolicyExtension_from_tuple (ClientHelloTransportPolicyExtension_values x) = Inr x"
  using assms by (cases x) (auto simp: extension_defs coerce_transport_id_def fits_def
      validate_payload_capabilities_def PayloadKind_call_def split: if_splits)

interpretation chtp: fixed_codec
  ClientHelloTransportPolicyExtension_pack ClientHelloTransportPolicyExtension_unpack "(\<lambda>x. True)" "calcsize TRANSPORT_POLICY_EXTENSION_STRUCT"
  unfolding ClientHelloTransportPolicyExtension_pack_def ClientHelloTransportPolicyExtension_unpack_def
  by (rule fixed_codecI) (auto intro: ClientHelloTransportPolicyExtension_from_values)

record ServerHelloAckTransportPolicyExtension =
  shtp_transport_policy :: TransportPolicy
  shtp_accepted_transport_policy :: TransportPolicy
  shtp_active_transport_id :: TransportId

definition ServerHelloAckTransportPolicyExtension_values :: "ServerHelloAckTransportPolicyExtension \<Rightarrow> int list" where
  "ServerHelloAckTransportPolicyExtension_values x = 
     [TransportPolicy_int (shtp_transport_policy x), TransportPolicy_int (shtp_accepted_transport_policy x),
      0, TransportId_int (shtp_active_transport_id x)]"

definition ServerHelloAckTransportPolicyExtension_validate :: "ServerHelloAckTransportPolicyExtension \<Rightarrow> unit res" where
  "ServerHelloAckTransportPolicyExtension_validate x = 
     bind_res (coerce_transport_id (TransportId_int (shtp_active_transport_id x)) True) (\<lambda>_. Inr ())"

definition ServerHelloAckTransportPolicyExtension_pack :: "ServerHelloAckTransportPolicyExtension \<Rightarrow> bytes res" where
  "ServerHelloAckTransportPolicyExtension_pack = fixed_width_pack TRANSPORT_POLICY_EXTENSION_STRUCT ServerHelloAckTransportPolicyExtension_validate ServerHelloAckTransportPolicyExtension_values"

definition ServerHelloAckTransportPolicyExtension_from_tuple :: "int list \<Rightarrow> ServerHelloAckTransportPolicyExtension res" where
  "ServerHelloAckTransportPolicyExtension_from_tuple vs =
     (case vs of
        [transport_policy, accepted_transport_policy, reserved, active_transport_id] \<Rightarrow>
          bind_res (TransportPolicy_of transport_policy) (\<lambda>transport_policy.
          bind_res (TransportPolicy_of accepted_transport_policy) (\<lambda>accepted_transport_policy.
          bind_res (coerce_transport_id active_transport_id True) (\<lambda>active_transport_id.
          Inr \<lparr>shtp_transport_policy = transport_policy,
               shtp_accepted_transport_policy = accepted_transport_policy,
               shtp_active_transport_id = active_transport_id\<rparr>)))
      | _ \<Rightarrow> tuple_error)"

definition ServerHelloAckTransportPolicyExtension_unpack :: "bytes \<Rightarrow> ServerHelloAckTransportPolicyExtension res" where
  "ServerHelloAckTransportPolicyExtension_unpack = fixed_width_unpack TRANSPORT_POLICY_EXTENSION_STRUCT ServerHelloAckTransportPolicyExtension_from_tuple"

declare ServerHelloAckTransportPolicyExtension_values_def [extension_defs] ServerHelloAckTransportPolicyExtension_validate_def [extension_defs]
  ServerHelloAckTransportPolicyExtension_from_tuple_def [extension_defs]

lemma ServerHelloAckTransportPolicyExtension_from_values:
  assumes "ServerHelloAckTransportPolicyExtension_validate x = Inr ()" "list_all2 fits TRANSPORT_POLICY_EXTENSION_STRUCT (ServerHelloAckTransportPolicyExtension_values x)"
  shows "ServerHelloAckTransportPolicyExtension_from_tuple (ServerHelloAckTransportPolicyExtension_values x) = Inr x"
  using assms by (cases x) (auto simp: extension_defs coerce_transport_id_def fits_def
      validate_payload_capabilities_def PayloadKind_call_def split: if_splits)

interpretation shtp: fixed_codec
  ServerHelloAckTransportPolicyExtension_pack ServerHelloAckTransportPolicyExtension_unpack "(\<lambda>x. True)" "calcsize TRANSPORT_POLICY_EXTENSION_STRUCT"
  unfolding ServerHelloAckTransportPolicyExtension_pack_def ServerHelloAckTransportPolicyExtension_unpack_def
  by (rule fixed_codecI) (auto intro: ServerHelloAckTransportPolicyExtension_from_values)

record ClientHelloLossToleranceExtension =
  chlt_session_loss_tolerance :: LossTolerance

definition ClientHelloLossToleranceExtension_values :: "ClientHelloLossToleranceExtension \<Rightarrow> int list" where
  "ClientHelloLossToleranceExtension_values x = [LossTolerance_int (chlt_session_loss_tolerance x), 0, 0, 0]"

definition ClientHelloLossToleranceExtension_validate :: "ClientHelloLossToleranceExtension \<Rightarrow> unit res" where
  "ClientHelloLossToleranceExtension_validate x = Inr ()"

definition ClientHelloLossToleranceExtension_pack :: "ClientHelloLossToleranceExtension \<Rightarrow> bytes res" where
  "ClientHelloLossToleranceExtension_pack = fixed_width_pack LOSS_TOLERANCE_EXTENSION_STRUCT ClientHelloLossToleranceExtension_validate ClientHelloLossToleranceExtension_values"

definition ClientHelloLossToleranceExtension_from_tuple :: "int list \<Rightarrow> ClientHelloLossToleranceExtension res" where
  "ClientHelloLossToleranceExtension_from_tuple vs =
     (case vs of
        [session_loss_tolerance, reserved0, reserved1, reserved2] \<Rightarrow>
          if reserved0 \<noteq> 0 \<or> reserved1 \<noteq> 0 \<or> reserved2 \<noteq> 0
          then ve ''client hello loss tolerance extension reserved fields must be zero''
          else bind_res (LossTolerance_of session_loss_tolerance) (\<lambda>v. Inr \<lparr>chlt_session_loss_tolerance = v\<rparr>)
      | _ \<Rightarrow> tuple_error)"

definition ClientHelloLossToleranceExtension_unpack :: "bytes \<Rightarrow> ClientHelloLossToleranceExtension res" where
  "ClientHelloLossToleranceExtension_unpack = fixed_width_unpack LOSS_TOLERANCE_EXTENSION_STRUCT ClientHelloLossToleranceExtension_from_tuple"

declare ClientHelloLossToleranceExtension_values_def [extension_defs] ClientHelloLossToleranceExtension_validate_def [extension_defs]
  ClientHelloLossToleranceExtension_from_tuple_def [extension_defs]

lemma ClientHelloLossToleranceExtension_from_values:
  assumes "ClientHelloLossToleranceExtension_validate x = Inr ()" "list_all2 fits LOSS_TOLERANCE_EXTENSION_STRUCT (ClientHelloLossToleranceExtension_values x)"
  shows "ClientHelloLossToleranceExtension_from_tuple (ClientHelloLossToleranceExtension_values x) = Inr x"
  using assms by (cases x) (auto simp: extension_defs coerce_transport_id_def fits_def
      validate_payload_capabilities_def PayloadKind_call_def split: if_splits)

lemma ClientHelloLossToleranceExtension_values_from:
  assumes "list_all2 fits LOSS_TOLERANCE_EXTENSION_STRUCT vs" "ClientHelloLossToleranceExtension_from_tuple vs = Inr x"
  shows "ClientHelloLossToleranceExtension_validate x = Inr () \<and> ClientHelloLossToleranceExtension_values x = vs"
  using assms unfolding LOSS_TOLERANCE_EXTENSION_STRUCT_def list_all2_fits_Cons list_all2_Nil
  by (elim exE conjE) (auto simp: extension_defs res_simps fits_def PayloadKind_call_def
      split: if_splits)

interpretation chlt: canonical_codec
  ClientHelloLossToleranceExtension_pack ClientHelloLossToleranceExtension_unpack "(\<lambda>x. True)" "calcsize LOSS_TOLERANCE_EXTENSION_STRUCT"
  unfolding ClientHelloLossToleranceExtension_pack_def ClientHelloLossToleranceExtension_unpack_def
  by (rule canonical_codecI) (auto intro: ClientHelloLossToleranceExtension_from_values dest: ClientHelloLossToleranceExtension_values_from)

record ServerHelloAckLossToleranceExtension =
  shlt_accepted_loss_tolerance :: LossTolerance

definition ServerHelloAckLossToleranceExtension_values :: "ServerHelloAckLossToleranceExtension \<Rightarrow> int list" where
  "ServerHelloAckLossToleranceExtension_values x = [LossTolerance_int (shlt_accepted_loss_tolerance x), 0, 0, 0]"

definition ServerHelloAckLossToleranceExtension_validate :: "ServerHelloAckLossToleranceExtension \<Rightarrow> unit res" where
  "ServerHelloAckLossToleranceExtension_validate x = Inr ()"

definition ServerHelloAckLossToleranceExtension_pack :: "ServerHelloAckLossToleranceExtension \<Rightarrow> bytes res" where
  "ServerHelloAckLossToleranceExtension_pack = fixed_width_pack LOSS_TOLERANCE_EXTENSION_STRUCT ServerHelloAckLossToleranceExtension_validate ServerHelloAckLossToleranceExtension_values"

definition ServerHelloAckLossToleranceExtension_from_tuple :: "int list \<Rightarrow> ServerHelloAckLossToleranceExtension res" where
  "ServerHelloAckLossToleranceExtension_from_tuple vs =
     (case vs of
        [accepted_loss_tolerance, reserved0, reserved1, reserved2] \<Rightarrow>
          if reserved0 \<noteq> 0 \<or> reserved1 \<noteq> 0 \<or> reserved2 \<noteq> 0
          then ve ''server hello ack loss tolerance extension reserved fields must be zero''
          else bind_res (LossTolerance_of accepted_loss_tolerance) (\<lambda>v. Inr \<lparr>shlt_accepted_loss_tolerance = v\<rparr>)
      | _ \<Rightarrow> tuple_error)"

definition ServerHelloAckLossToleranceExtension_unpack :: "bytes \<Rightarrow> ServerHelloAckLossToleranceExtension res" where
  "ServerHelloAckLossToleranceExtension_unpack = fixed_width_unpack LOSS_TOLERANCE_EXTENSION_STRUCT ServerHelloAckLossToleranceExtension_from_tuple"

declare ServerHelloAckLossToleranceExtension_values_def [extension_defs] ServerHelloAckLossToleranceExtension_validate_def [extension_defs]
  ServerHelloAckLossToleranceExtension_from_tuple_def [extension_defs]

lemma ServerHelloAckLossToleranceExtension_from_values:
  assumes "ServerHelloAckLossToleranceExtension_validate x = Inr ()" "list_all2 fits LOSS_TOLERANCE_EXTENSION_STRUCT (ServerHelloAckLossToleranceExtension_values x)"
  shows "ServerHelloAckLossToleranceExtension_from_tuple (ServerHelloAckLossToleranceExtension_values x) = Inr x"
  using assms by (cases x) (auto simp: extension_defs coerce_transport_id_def fits_def
      validate_payload_capabilities_def PayloadKind_call_def split: if_splits)

lemma ServerHelloAckLossToleranceExtension_values_from:
  assumes "list_all2 fits LOSS_TOLERANCE_EXTENSION_STRUCT vs" "ServerHelloAckLossToleranceExtension_from_tuple vs = Inr x"
  shows "ServerHelloAckLossToleranceExtension_validate x = Inr () \<and> ServerHelloAckLossToleranceExtension_values x = vs"
  using assms unfolding LOSS_TOLERANCE_EXTENSION_STRUCT_def list_all2_fits_Cons list_all2_Nil
  by (elim exE conjE) (auto simp: extension_defs res_simps fits_def PayloadKind_call_def
      split: if_splits)

interpretation shlt: canonical_codec
  ServerHelloAckLossToleranceExtension_pack ServerHelloAckLossToleranceExtension_unpack "(\<lambda>x. True)" "calcsize LOSS_TOLERANCE_EXTENSION_STRUCT"
  unfolding ServerHelloAckLossToleranceExtension_pack_def ServerHelloAckLossToleranceExtension_unpack_def
  by (rule canonical_codecI) (auto intro: ServerHelloAckLossToleranceExtension_from_values dest: ServerHelloAckLossToleranceExtension_values_from)

record ClientHelloPayloadCapabilitiesExtension =
  chpc_payload_kind_bitmap :: int
  chpc_critical_extension_frame_bitmap :: int

definition ClientHelloPayloadCapabilitiesExtension_values :: "ClientHelloPayloadCapabilitiesExtension \<Rightarrow> int list" where
  "ClientHelloPayloadCapabilitiesExtension_values x = [chpc_payload_kind_bitmap x, chpc_critical_extension_frame_bitmap x]"

definition ClientHelloPayloadCapabilitiesExtension_validate :: "ClientHelloPayloadCapabilitiesExtension \<Rightarrow> unit res" where
  "ClientHelloPayloadCapabilitiesExtension_validate x = 
     validate_payload_capabilities (chpc_payload_kind_bitmap x) (chpc_critical_extension_frame_bitmap x)"

definition ClientHelloPayloadCapabilitiesExtension_pack :: "ClientHelloPayloadCapabilitiesExtension \<Rightarrow> bytes res" where
  "ClientHelloPayloadCapabilitiesExtension_pack = fixed_width_pack PAYLOAD_CAPABILITIES_EXTENSION_STRUCT ClientHelloPayloadCapabilitiesExtension_validate ClientHelloPayloadCapabilitiesExtension_values"

definition ClientHelloPayloadCapabilitiesExtension_from_tuple :: "int list \<Rightarrow> ClientHelloPayloadCapabilitiesExtension res" where
  "ClientHelloPayloadCapabilitiesExtension_from_tuple vs =
     (case vs of
        [payload_kind_bitmap, critical_extension_frame_bitmap] \<Rightarrow>
          let extension = \<lparr>chpc_payload_kind_bitmap = PayloadKind_call payload_kind_bitmap, chpc_critical_extension_frame_bitmap = critical_extension_frame_bitmap\<rparr>
          in bind_res (ClientHelloPayloadCapabilitiesExtension_validate extension) (\<lambda>_. Inr extension)
      | _ \<Rightarrow> tuple_error)"

definition ClientHelloPayloadCapabilitiesExtension_unpack :: "bytes \<Rightarrow> ClientHelloPayloadCapabilitiesExtension res" where
  "ClientHelloPayloadCapabilitiesExtension_unpack = fixed_width_unpack PAYLOAD_CAPABILITIES_EXTENSION_STRUCT ClientHelloPayloadCapabilitiesExtension_from_tuple"

declare ClientHelloPayloadCapabilitiesExtension_values_def [extension_defs] ClientHelloPayloadCapabilitiesExtension_validate_def [extension_defs]
  ClientHelloPayloadCapabilitiesExtension_from_tuple_def [extension_defs]

lemma ClientHelloPayloadCapabilitiesExtension_from_values:
  assumes "ClientHelloPayloadCapabilitiesExtension_validate x = Inr ()" "list_all2 fits PAYLOAD_CAPABILITIES_EXTENSION_STRUCT (ClientHelloPayloadCapabilitiesExtension_values x)"
  shows "ClientHelloPayloadCapabilitiesExtension_from_tuple (ClientHelloPayloadCapabilitiesExtension_values x) = Inr x"
  using assms by (cases x) (auto simp: extension_defs coerce_transport_id_def fits_def
      validate_payload_capabilities_def PayloadKind_call_def split: if_splits)

lemma ClientHelloPayloadCapabilitiesExtension_values_from:
  assumes "list_all2 fits PAYLOAD_CAPABILITIES_EXTENSION_STRUCT vs" "ClientHelloPayloadCapabilitiesExtension_from_tuple vs = Inr x"
  shows "ClientHelloPayloadCapabilitiesExtension_validate x = Inr () \<and> ClientHelloPayloadCapabilitiesExtension_values x = vs"
  using assms unfolding PAYLOAD_CAPABILITIES_EXTENSION_STRUCT_def list_all2_fits_Cons list_all2_Nil
  by (elim exE conjE) (auto simp: extension_defs res_simps fits_def PayloadKind_call_def
      split: if_splits)

interpretation chpc: canonical_codec
  ClientHelloPayloadCapabilitiesExtension_pack ClientHelloPayloadCapabilitiesExtension_unpack "(\<lambda>x. True)" "calcsize PAYLOAD_CAPABILITIES_EXTENSION_STRUCT"
  unfolding ClientHelloPayloadCapabilitiesExtension_pack_def ClientHelloPayloadCapabilitiesExtension_unpack_def
  by (rule canonical_codecI) (auto intro: ClientHelloPayloadCapabilitiesExtension_from_values dest: ClientHelloPayloadCapabilitiesExtension_values_from)

record ServerHelloAckPayloadCapabilitiesExtension =
  shpc_accepted_payload_kind_bitmap :: int
  shpc_accepted_critical_extension_frame_bitmap :: int

definition ServerHelloAckPayloadCapabilitiesExtension_values :: "ServerHelloAckPayloadCapabilitiesExtension \<Rightarrow> int list" where
  "ServerHelloAckPayloadCapabilitiesExtension_values x = [shpc_accepted_payload_kind_bitmap x, shpc_accepted_critical_extension_frame_bitmap x]"

definition ServerHelloAckPayloadCapabilitiesExtension_validate :: "ServerHelloAckPayloadCapabilitiesExtension \<Rightarrow> unit res" where
  "ServerHelloAckPayloadCapabilitiesExtension_validate x = 
     validate_payload_capabilities (shpc_accepted_payload_kind_bitmap x) (shpc_accepted_critical_extension_frame_bitmap x)"

definition ServerHelloAckPayloadCapabilitiesExtension_pack :: "ServerHelloAckPayloadCapabilitiesExtension \<Rightarrow> bytes res" where
  "ServerHelloAckPayloadCapabilitiesExtension_pack = fixed_width_pack PAYLOAD_CAPABILITIES_EXTENSION_STRUCT ServerHelloAckPayloadCapabilitiesExtension_validate ServerHelloAckPayloadCapabilitiesExtension_values"

definition ServerHelloAckPayloadCapabilitiesExtension_from_tuple :: "int list \<Rightarrow> ServerHelloAckPayloadCapabilitiesExtension res" where
  "ServerHelloAckPayloadCapabilitiesExtension_from_tuple vs =
     (case vs of
        [accepted_payload_kind_bitmap, accepted_critical_extension_frame_bitmap] \<Rightarrow>
          let extension = \<lparr>shpc_accepted_payload_kind_bitmap = PayloadKind_call accepted_payload_kind_bitmap, shpc_accepted_critical_extension_frame_bitmap = accepted_critical_extension_frame_bitmap\<rparr>
          in bind_res (ServerHelloAckPayloadCapabilitiesExtension_validate extension) (\<lambda>_. Inr extension)
      | _ \<Rightarrow> tuple_error)"

definition ServerHelloAckPayloadCapabilitiesExtension_unpack :: "bytes \<Rightarrow> ServerHelloAckPayloadCapabilitiesExtension res" where
  "ServerHelloAckPayloadCapabilitiesExtension_unpack = fixed_width_unpack PAYLOAD_CAPABILITIES_EXTENSION_STRUCT ServerHelloAckPayloadCapabilitiesExtension_from_tuple"

declare ServerHelloAckPayloadCapabilitiesExtension_values_def [extension_defs] ServerHelloAckPayloadCapabilitiesExtension_validate_def [extension_defs]
  ServerHelloAckPayloadCapabilitiesExtension_from_tuple_def [extension_defs]

lemma ServerHelloAckPayloadCapabilitiesExtension_from_values:
  assumes "ServerHelloAckPayloadCapabilitiesExtension_validate x = Inr ()" "list_all2 fits PAYLOAD_CAPABILITIES_EXTENSION_STRUCT (ServerHelloAckPayloadCapabilitiesExtension_values x)"
  shows "ServerHelloAckPayloadCapabilitiesExtension_from_tuple (ServerHelloAckPayloadCapabilitiesExtension_values x) = Inr x"
  using assms by (cases x) (auto simp: extension_defs coerce_transport_id_def fits_def
      validate_payload_capabilities_def PayloadKind_call_def split: if_splits)

lemma ServerHelloAckPayloadCapabilitiesExtension_values_from:
  assumes "list_all2 fits PAYLOAD_CAPABILITIES_EXTENSION_STRUCT vs" "ServerHelloAckPayloadCapabilitiesExtension_from_tuple vs = Inr x"
  shows "ServerHelloAckPayloadCapabilitiesExtension_validate x = Inr () \<and> ServerHelloAckPayloadCapabilitiesExtension_values x = vs"
  using assms unfolding PAYLOAD_CAPABILITIES_EXTENSION_STRUCT_def list_all2_fits_Cons list_all2_Nil
  by (elim exE conjE) (auto simp: extension_defs res_simps fits_def PayloadKind_call_def
      split: if_splits)

interpretation shpc: canonical_codec
  ServerHelloAckPayloadCapabilitiesExtension_pack ServerHelloAckPayloadCapabilitiesExtension_unpack "(\<lambda>x. True)" "calcsize PAYLOAD_CAPABILITIES_EXTENSION_STRUCT"
  unfolding ServerHelloAckPayloadCapabilitiesExtension_pack_def ServerHelloAckPayloadCapabilitiesExtension_unpack_def
  by (rule canonical_codecI) (auto intro: ServerHelloAckPayloadCapabilitiesExtension_from_values dest: ServerHelloAckPayloadCapabilitiesExtension_values_from)

section \<open>Entries of the hello extensions\<close>

text \<open>
  \<open>build_*_extension\<close> wraps the packed extension in an entry without flags;
  \<open>parse_*_extension\<close> checks the type and unpacks.
\<close>

definition build_extension :: "int \<Rightarrow> ('a \<Rightarrow> bytes res) \<Rightarrow> 'a \<Rightarrow> ControlExtensionEntry res" where
  "build_extension t pack x =
     bind_res (pack x) (\<lambda>payload. Inr \<lparr>ext_type = t, ext_flags = CEF_NONE, ext_payload = payload\<rparr>)"

definition parse_extension ::
    "int \<Rightarrow> (bytes \<Rightarrow> 'a res) \<Rightarrow> string \<Rightarrow> ControlExtensionEntry \<Rightarrow> 'a res" where
  "parse_extension t unpack message entry =
     (if ext_type entry \<noteq> t then ve message else unpack (ext_payload entry))"

abbreviation (input) CLIENT_HELLO_TRANSPORT_POLICY_EXTENSION :: int where "CLIENT_HELLO_TRANSPORT_POLICY_EXTENSION \<equiv> 0x0101"

definition build_client_hello_transport_policy_extension :: "ClientHelloTransportPolicyExtension \<Rightarrow> ControlExtensionEntry res" where
  "build_client_hello_transport_policy_extension =
     build_extension CLIENT_HELLO_TRANSPORT_POLICY_EXTENSION ClientHelloTransportPolicyExtension_pack"

definition parse_client_hello_transport_policy_extension :: "ControlExtensionEntry \<Rightarrow> ClientHelloTransportPolicyExtension res" where
  "parse_client_hello_transport_policy_extension =
     parse_extension CLIENT_HELLO_TRANSPORT_POLICY_EXTENSION ClientHelloTransportPolicyExtension_unpack
       ''unexpected client hello transport extension type''"

abbreviation (input) SERVER_HELLO_ACK_TRANSPORT_POLICY_EXTENSION :: int where "SERVER_HELLO_ACK_TRANSPORT_POLICY_EXTENSION \<equiv> 0x0102"

definition build_server_hello_ack_transport_policy_extension :: "ServerHelloAckTransportPolicyExtension \<Rightarrow> ControlExtensionEntry res" where
  "build_server_hello_ack_transport_policy_extension =
     build_extension SERVER_HELLO_ACK_TRANSPORT_POLICY_EXTENSION ServerHelloAckTransportPolicyExtension_pack"

definition parse_server_hello_ack_transport_policy_extension :: "ControlExtensionEntry \<Rightarrow> ServerHelloAckTransportPolicyExtension res" where
  "parse_server_hello_ack_transport_policy_extension =
     parse_extension SERVER_HELLO_ACK_TRANSPORT_POLICY_EXTENSION ServerHelloAckTransportPolicyExtension_unpack
       ''unexpected server hello ack transport extension type''"

abbreviation (input) CLIENT_HELLO_LOSS_TOLERANCE_EXTENSION :: int where "CLIENT_HELLO_LOSS_TOLERANCE_EXTENSION \<equiv> 0x0103"

definition build_client_hello_loss_tolerance_extension :: "ClientHelloLossToleranceExtension \<Rightarrow> ControlExtensionEntry res" where
  "build_client_hello_loss_tolerance_extension =
     build_extension CLIENT_HELLO_LOSS_TOLERANCE_EXTENSION ClientHelloLossToleranceExtension_pack"

definition parse_client_hello_loss_tolerance_extension :: "ControlExtensionEntry \<Rightarrow> ClientHelloLossToleranceExtension res" where
  "parse_client_hello_loss_tolerance_extension =
     parse_extension CLIENT_HELLO_LOSS_TOLERANCE_EXTENSION ClientHelloLossToleranceExtension_unpack
       ''unexpected client hello loss tolerance extension type''"

abbreviation (input) SERVER_HELLO_ACK_LOSS_TOLERANCE_EXTENSION :: int where "SERVER_HELLO_ACK_LOSS_TOLERANCE_EXTENSION \<equiv> 0x0104"

definition build_server_hello_ack_loss_tolerance_extension :: "ServerHelloAckLossToleranceExtension \<Rightarrow> ControlExtensionEntry res" where
  "build_server_hello_ack_loss_tolerance_extension =
     build_extension SERVER_HELLO_ACK_LOSS_TOLERANCE_EXTENSION ServerHelloAckLossToleranceExtension_pack"

definition parse_server_hello_ack_loss_tolerance_extension :: "ControlExtensionEntry \<Rightarrow> ServerHelloAckLossToleranceExtension res" where
  "parse_server_hello_ack_loss_tolerance_extension =
     parse_extension SERVER_HELLO_ACK_LOSS_TOLERANCE_EXTENSION ServerHelloAckLossToleranceExtension_unpack
       ''unexpected server hello ack loss tolerance extension type''"

abbreviation (input) CLIENT_HELLO_PAYLOAD_CAPABILITIES_EXTENSION :: int where "CLIENT_HELLO_PAYLOAD_CAPABILITIES_EXTENSION \<equiv> 0x0105"

definition build_client_hello_payload_capabilities_extension :: "ClientHelloPayloadCapabilitiesExtension \<Rightarrow> ControlExtensionEntry res" where
  "build_client_hello_payload_capabilities_extension =
     build_extension CLIENT_HELLO_PAYLOAD_CAPABILITIES_EXTENSION ClientHelloPayloadCapabilitiesExtension_pack"

definition parse_client_hello_payload_capabilities_extension :: "ControlExtensionEntry \<Rightarrow> ClientHelloPayloadCapabilitiesExtension res" where
  "parse_client_hello_payload_capabilities_extension =
     parse_extension CLIENT_HELLO_PAYLOAD_CAPABILITIES_EXTENSION ClientHelloPayloadCapabilitiesExtension_unpack
       ''unexpected client hello payload capabilities extension type''"

abbreviation (input) SERVER_HELLO_ACK_PAYLOAD_CAPABILITIES_EXTENSION :: int where "SERVER_HELLO_ACK_PAYLOAD_CAPABILITIES_EXTENSION \<equiv> 0x0106"

definition build_server_hello_ack_payload_capabilities_extension :: "ServerHelloAckPayloadCapabilitiesExtension \<Rightarrow> ControlExtensionEntry res" where
  "build_server_hello_ack_payload_capabilities_extension =
     build_extension SERVER_HELLO_ACK_PAYLOAD_CAPABILITIES_EXTENSION ServerHelloAckPayloadCapabilitiesExtension_pack"

definition parse_server_hello_ack_payload_capabilities_extension :: "ControlExtensionEntry \<Rightarrow> ServerHelloAckPayloadCapabilitiesExtension res" where
  "parse_server_hello_ack_payload_capabilities_extension =
     parse_extension SERVER_HELLO_ACK_PAYLOAD_CAPABILITIES_EXTENSION ServerHelloAckPayloadCapabilitiesExtension_unpack
       ''unexpected server hello ack payload capabilities extension type''"

text \<open>What every kind of hello extension promises.\<close>

locale hello_extension = wire_codec +
  fixes t :: int
    and build :: "'a \<Rightarrow> ControlExtensionEntry res"
    and parse :: "ControlExtensionEntry \<Rightarrow> 'a res"
    and message :: string
  assumes build: "build = build_extension t pack"
    and parse: "parse = parse_extension t unpack message"
begin

lemma parse_build: "wf x \<Longrightarrow> build x = Inr e \<Longrightarrow> parse e = Inr x"
  by (auto simp: build parse build_extension_def parse_extension_def res_simps intro: unpack_pack)

lemma build_entry: "build x = Inr e \<Longrightarrow> ext_type e = t \<and> ext_flags e = CEF_NONE"
  by (auto simp: build build_extension_def res_simps)

lemma parse_type: "parse e = Inr x \<Longrightarrow> ext_type e = t"
  by (simp add: parse parse_extension_def split: if_splits)

end

interpretation chtp_ext: hello_extension
  ClientHelloTransportPolicyExtension_pack ClientHelloTransportPolicyExtension_unpack "\<lambda>x. True" CLIENT_HELLO_TRANSPORT_POLICY_EXTENSION
  build_client_hello_transport_policy_extension parse_client_hello_transport_policy_extension
  "''unexpected client hello transport extension type''"
  by unfold_locales
    (simp_all add: build_client_hello_transport_policy_extension_def parse_client_hello_transport_policy_extension_def)

interpretation shtp_ext: hello_extension
  ServerHelloAckTransportPolicyExtension_pack ServerHelloAckTransportPolicyExtension_unpack "\<lambda>x. True" SERVER_HELLO_ACK_TRANSPORT_POLICY_EXTENSION
  build_server_hello_ack_transport_policy_extension parse_server_hello_ack_transport_policy_extension
  "''unexpected server hello ack transport extension type''"
  by unfold_locales
    (simp_all add: build_server_hello_ack_transport_policy_extension_def parse_server_hello_ack_transport_policy_extension_def)

interpretation chlt_ext: hello_extension
  ClientHelloLossToleranceExtension_pack ClientHelloLossToleranceExtension_unpack "\<lambda>x. True" CLIENT_HELLO_LOSS_TOLERANCE_EXTENSION
  build_client_hello_loss_tolerance_extension parse_client_hello_loss_tolerance_extension
  "''unexpected client hello loss tolerance extension type''"
  by unfold_locales
    (simp_all add: build_client_hello_loss_tolerance_extension_def parse_client_hello_loss_tolerance_extension_def)

interpretation shlt_ext: hello_extension
  ServerHelloAckLossToleranceExtension_pack ServerHelloAckLossToleranceExtension_unpack "\<lambda>x. True" SERVER_HELLO_ACK_LOSS_TOLERANCE_EXTENSION
  build_server_hello_ack_loss_tolerance_extension parse_server_hello_ack_loss_tolerance_extension
  "''unexpected server hello ack loss tolerance extension type''"
  by unfold_locales
    (simp_all add: build_server_hello_ack_loss_tolerance_extension_def parse_server_hello_ack_loss_tolerance_extension_def)

interpretation chpc_ext: hello_extension
  ClientHelloPayloadCapabilitiesExtension_pack ClientHelloPayloadCapabilitiesExtension_unpack "\<lambda>x. True" CLIENT_HELLO_PAYLOAD_CAPABILITIES_EXTENSION
  build_client_hello_payload_capabilities_extension parse_client_hello_payload_capabilities_extension
  "''unexpected client hello payload capabilities extension type''"
  by unfold_locales
    (simp_all add: build_client_hello_payload_capabilities_extension_def parse_client_hello_payload_capabilities_extension_def)

interpretation shpc_ext: hello_extension
  ServerHelloAckPayloadCapabilitiesExtension_pack ServerHelloAckPayloadCapabilitiesExtension_unpack "\<lambda>x. True" SERVER_HELLO_ACK_PAYLOAD_CAPABILITIES_EXTENSION
  build_server_hello_ack_payload_capabilities_extension parse_server_hello_ack_payload_capabilities_extension
  "''unexpected server hello ack payload capabilities extension type''"
  by unfold_locales
    (simp_all add: build_server_hello_ack_payload_capabilities_extension_def parse_server_hello_ack_payload_capabilities_extension_def)

end
