(* ===== verification/Client_Dial.thy ===== *)
theory Client_Dial
  imports Packet Control_Extensions
begin

text \<open>
  How a client opens a connection: the dial policy of \<open>client/profile.py\<close>, and from
  \<open>client/transport.py\<close> the transport plan, the CLIENT_HELLO packet, the bootstrap, the
  choice of the endpoint and the reading of SERVER_HELLO_ACK.
\<close>

section \<open>Profiles and dial policy\<close>

record ClientProfile =
  cp_max_views :: int
  cp_enable_cache :: bool
  cp_max_cache_entries :: int
  cp_max_cache_bytes :: int

definition default_client_profile :: ClientProfile where
  "default_client_profile =
     \<lparr>cp_max_views = 1, cp_enable_cache = True, cp_max_cache_entries = 256,
      cp_max_cache_bytes = 8 * 1024 * 1024\<rparr>"

definition preferred_transport_policy_for_id :: "TransportId \<Rightarrow> TransportPolicy res" where
  "preferred_transport_policy_for_id transport_id =
     (if transport_id = TI_QUIC then Inr TP_PREFER_QUIC
      else if transport_id = TI_TCP then Inr TP_PREFER_TCP
      else if transport_id = TI_IPC then Inr TP_PREFER_IPC
      else if transport_id = TI_WEBSOCKET then Inr TP_PREFER_WEBSOCKET
      else ve ''selected transport id must be QUIC, TCP, IPC, or WEBSOCKET'')"

definition forced_transport_policy_for_id :: "TransportId \<Rightarrow> TransportPolicy res" where
  "forced_transport_policy_for_id transport_id =
     (if transport_id = TI_QUIC then Inr TP_FORCE_QUIC
      else if transport_id = TI_TCP then Inr TP_FORCE_TCP
      else if transport_id = TI_IPC then Inr TP_FORCE_IPC
      else if transport_id = TI_WEBSOCKET then Inr TP_FORCE_WEBSOCKET
      else ve ''forced transport id must be QUIC, TCP, IPC, or WEBSOCKET'')"

text \<open>\<open>ClientDialPolicy(...).to_client_hello_transport_policy()\<close>\<close>

definition resolve_client_hello_transport_policy ::
    "TransportId \<Rightarrow> TransportId \<Rightarrow> ClientHelloTransportPolicyExtension option res" where
  "resolve_client_hello_transport_policy selected forced =
     (if forced \<noteq> TI_UNSPECIFIED then
        if selected \<noteq> TI_UNSPECIFIED \<and> selected \<noteq> forced
        then ve ''selected_transport_id and forced_transport_id must not conflict''
        else bind_res (forced_transport_policy_for_id forced) (\<lambda>policy.
          Inr (Some \<lparr>chtp_transport_policy = policy, chtp_preferred_transport_id = forced\<rparr>))
      else if selected = TI_UNSPECIFIED then Inr None
      else bind_res (preferred_transport_policy_for_id selected) (\<lambda>policy.
        Inr (Some \<lparr>chtp_transport_policy = policy, chtp_preferred_transport_id = selected\<rparr>)))"

section \<open>Transport plan\<close>

record ClientTransportPlan =
  ctp_selected_transport_id :: TransportId
  ctp_transport_policy_extension :: "ClientHelloTransportPolicyExtension option"

definition plan_client_transport :: "TransportId \<Rightarrow> TransportId \<Rightarrow> ClientTransportPlan res" where
  "plan_client_transport selected forced =
     bind_res (resolve_client_hello_transport_policy selected forced) (\<lambda>policy_extension.
       let resolved = forced;
           resolved = (if resolved = TI_UNSPECIFIED then selected else resolved)
       in Inr \<lparr>ctp_selected_transport_id = resolved,
               ctp_transport_policy_extension = policy_extension\<rparr>)"

section \<open>CLIENT_HELLO\<close>

text \<open>
  A Python string is a list of code points; \<open>encode("utf-8")\<close> rejects surrogates with
  \<open>UnicodeEncodeError\<close>, a \<open>ValueError\<close>.
\<close>

type_synonym pystr = "int list"

definition utf8_char :: "int \<Rightarrow> bytes res" where
  "utf8_char c =
     (if c < 0x80 then Inr [word_of_int c]
      else if c < 0x800 then Inr [word_of_int (0xC0 + c div 64), word_of_int (0x80 + c mod 64)]
      else if 0xD800 \<le> c \<and> c \<le> 0xDFFF then ve ''surrogates not allowed''
      else if c < 0x10000 then
        Inr [word_of_int (0xE0 + c div 4096), word_of_int (0x80 + c div 64 mod 64),
             word_of_int (0x80 + c mod 64)]
      else Inr [word_of_int (0xF0 + c div 262144), word_of_int (0x80 + c div 4096 mod 64),
                word_of_int (0x80 + c div 64 mod 64), word_of_int (0x80 + c mod 64)])"

definition utf8_encode :: "pystr \<Rightarrow> bytes res" where
  "utf8_encode s = bind_res (map_res utf8_char s) (\<lambda>cs. Inr (concat cs))"

definition resolve_client_auth_block :: "bytes \<Rightarrow> pystr option \<Rightarrow> bytes res" where
  "resolve_client_auth_block auth_block requested_model =
     (case requested_model of
        None \<Rightarrow> Inr auth_block
      | Some model \<Rightarrow>
          if auth_block \<noteq> [] then ve ''requested_model cannot be combined with auth_block''
          else utf8_encode model)"

definition build_client_hello_helper_extensions ::
    "TransportPolicy option \<Rightarrow> TransportId \<Rightarrow> bytes res" where
  "build_client_hello_helper_extensions transport_policy preferred_transport_id =
     (if transport_policy \<noteq> None \<or> preferred_transport_id \<noteq> TI_UNSPECIFIED then
        bind_res (build_client_hello_transport_policy_extension
          \<lparr>chtp_transport_policy = (case transport_policy of Some t \<Rightarrow> t | None \<Rightarrow> TP_AUTO),
           chtp_preferred_transport_id = preferred_transport_id\<rparr>) (\<lambda>entry.
        pack_control_extension_block [entry])
      else Inr [])"

definition client_hello_wire_format_bitmap :: "WireFormat \<Rightarrow> int res" where
  "client_hello_wire_format_bitmap wire_format =
     (if wire_format = WF_CURRENT then Inr 0x0001
      else ve ''unsupported client hello wire_format'')"

text \<open>The keyword arguments of \<open>build_client_hello_packet\<close>.\<close>

record hello_request =
  hr_requested_session_id :: int
  hr_auth_block :: bytes
  hr_requested_model :: "pystr option"
  hr_control_extensions :: bytes
  hr_client_profile :: "ClientProfile option"
  hr_transport_policy_extension :: "ClientHelloTransportPolicyExtension option"
  hr_transport_policy :: "TransportPolicy option"
  hr_preferred_transport_id :: TransportId
  hr_selected_transport_id :: TransportId
  hr_forced_transport_id :: TransportId
  hr_wire_format :: WireFormat

definition default_hello_request :: hello_request where
  "default_hello_request =
     \<lparr>hr_requested_session_id = 1, hr_auth_block = [], hr_requested_model = None,
      hr_control_extensions = [], hr_client_profile = None,
      hr_transport_policy_extension = None, hr_transport_policy = None,
      hr_preferred_transport_id = TI_UNSPECIFIED, hr_selected_transport_id = TI_UNSPECIFIED,
      hr_forced_transport_id = TI_UNSPECIFIED, hr_wire_format = WF_CURRENT\<rparr>"

text \<open>
  The first part of the function: the policy and the preferred transport the hello carries,
  from the one source the arguments may name.
\<close>

definition hello_transport_arguments ::
    "hello_request \<Rightarrow> (TransportPolicy option \<times> TransportId) res" where
  "hello_transport_arguments r =
     bind_res (case hr_transport_policy_extension r of
         None \<Rightarrow> Inr (hr_transport_policy r, hr_preferred_transport_id r)
       | Some ext \<Rightarrow>
           if hr_transport_policy r \<noteq> None \<or> hr_preferred_transport_id r \<noteq> TI_UNSPECIFIED
             \<or> hr_selected_transport_id r \<noteq> TI_UNSPECIFIED
             \<or> hr_forced_transport_id r \<noteq> TI_UNSPECIFIED
           then ve ''transport_policy_extension cannot be combined with explicit transport policy arguments''
           else Inr (Some (chtp_transport_policy ext), chtp_preferred_transport_id ext))
       (\<lambda>(transport_policy, preferred_transport_id).
     bind_res (plan_client_transport (hr_selected_transport_id r) (hr_forced_transport_id r)) (\<lambda>plan.
       case ctp_transport_policy_extension plan of
         None \<Rightarrow> Inr (transport_policy, preferred_transport_id)
       | Some ext \<Rightarrow>
           if transport_policy \<noteq> None \<or> preferred_transport_id \<noteq> TI_UNSPECIFIED
           then ve ''explicit transport_policy/preferred_transport_id cannot be combined with local dial policy ids''
           else Inr (Some (chtp_transport_policy ext), chtp_preferred_transport_id ext)))"

definition client_hello_metadata ::
    "hello_request \<Rightarrow> int \<Rightarrow> ClientProfile \<Rightarrow> int \<Rightarrow> int \<Rightarrow> ClientHelloMetadata" where
  "client_hello_metadata r wire_format_bitmap profile auth_bytes control_extension_bytes =
     \<lparr>chm_min_version_major = 1, chm_max_version_major = 1,
      chm_supported_wire_format_bitmap = wire_format_bitmap,
      chm_supported_profile_bitmap = 0x0001, chm_supported_payload_kind_bitmap = 0x0001,
      chm_supported_codec_bitmap = 0x0003, chm_supported_compression_bitmap = 0x0003,
      chm_supported_dtype_bitmap = 0x001F, chm_supported_layout_bitmap = 0x0003,
      chm_cache_digest_bitmap = 0x0001,
      chm_cache_object_bitmap =
        (if cp_enable_cache profile then TENSOR_PROFILE_CACHE_OBJECT_BITMAP else 0),
      chm_cache_namespace_count = (if cp_enable_cache profile then 1 else 0),
      chm_max_lane_count = cp_max_views profile,
      chm_max_cache_entries = (if cp_enable_cache profile then cp_max_cache_entries profile else 0),
      chm_max_cache_bytes = (if cp_enable_cache profile then cp_max_cache_bytes profile else 0),
      chm_target_cadence_x100 = 6000, chm_latency_budget_ms = 50, chm_quality_tier = 2,
      chm_degrade_policy = 0, chm_requested_session_id = hr_requested_session_id r,
      chm_auth_bytes = auth_bytes, chm_control_extension_bytes = control_extension_bytes\<rparr>"

definition build_client_hello_packet :: "hello_request \<Rightarrow> NnrpPacket res" where
  "build_client_hello_packet r =
     bind_res (hello_transport_arguments r) (\<lambda>(transport_policy, preferred_transport_id).
     let profile = (case hr_client_profile r of Some p \<Rightarrow> p | None \<Rightarrow> default_client_profile) in
     bind_res (resolve_client_auth_block (hr_auth_block r) (hr_requested_model r)) (\<lambda>auth_block.
     bind_res (build_client_hello_helper_extensions transport_policy preferred_transport_id)
       (\<lambda>helper_extensions.
     let body = helper_extensions @ hr_control_extensions r @ auth_block in
     bind_res (client_hello_wire_format_bitmap (hr_wire_format r)) (\<lambda>wire_format_bitmap.
     bind_res (ClientHelloMetadata_pack (client_hello_metadata r wire_format_bitmap profile
       (len auth_block) (len helper_extensions + len (hr_control_extensions r)))) (\<lambda>metadata.
     Inr (NnrpPacket_build 1 (hr_wire_format r) MT_CLIENT_HELLO
       (no_route\<lparr>pr_flags := HF_ACK_REQUIRED\<rparr>) metadata body))))))"

text \<open>\<open>ClientTransportPlan.build_client_hello_packet\<close>\<close>

definition plan_build_client_hello_packet ::
    "ClientTransportPlan \<Rightarrow> hello_request \<Rightarrow> NnrpPacket res" where
  "plan_build_client_hello_packet plan r =
     build_client_hello_packet
       (default_hello_request
         \<lparr>hr_requested_session_id := hr_requested_session_id r, hr_auth_block := hr_auth_block r,
          hr_requested_model := hr_requested_model r,
          hr_control_extensions := hr_control_extensions r,
          hr_client_profile := hr_client_profile r,
          hr_transport_policy_extension := ctp_transport_policy_extension plan,
          hr_wire_format := hr_wire_format r\<rparr>)"

section \<open>Bootstrap\<close>

text \<open>
  A probe selection enters only through its \<open>selected_transport_id\<close>.
\<close>

record ClientTransportBootstrap =
  ctb_plan :: ClientTransportPlan
  ctb_hello_packet :: NnrpPacket
  ctb_probe_selection :: "TransportId option"

definition bootstrap_client_transport ::
    "hello_request \<Rightarrow> TransportId option \<Rightarrow> ClientTransportBootstrap res" where
  "bootstrap_client_transport r probe_selection =
     (let resolved = hr_selected_transport_id r;
          resolved = (if resolved = TI_UNSPECIFIED \<and> hr_forced_transport_id r = TI_UNSPECIFIED
                        \<and> probe_selection \<noteq> None
                      then the probe_selection else resolved)
      in bind_res (plan_client_transport resolved (hr_forced_transport_id r)) (\<lambda>plan.
         bind_res (plan_build_client_hello_packet plan (r\<lparr>hr_wire_format := WF_CURRENT\<rparr>)) (\<lambda>hello.
         Inr \<lparr>ctb_plan = plan, ctb_hello_packet = hello, ctb_probe_selection = probe_selection\<rparr>)))"

definition resolve_selected_transport_endpoint ::
    "TransportId \<Rightarrow> int option \<Rightarrow> int option \<Rightarrow> (TransportId \<times> int) res" where
  "resolve_selected_transport_endpoint selected quic_port tcp_port =
     bind_res (if selected = TI_UNSPECIFIED then
                 if quic_port \<noteq> None \<and> tcp_port = None then Inr TI_QUIC
                 else if tcp_port \<noteq> None \<and> quic_port = None then Inr TI_TCP
                 else ve ''selected transport id is unspecified''
               else Inr selected) (\<lambda>resolved.
     if resolved = TI_QUIC then
       (case quic_port of
          None \<Rightarrow> ve ''quic_port is required when selected transport is QUIC''
        | Some p \<Rightarrow> Inr (resolved, p))
     else if resolved = TI_TCP then
       (case tcp_port of
          None \<Rightarrow> ve ''tcp_port is required when selected transport is TCP''
        | Some p \<Rightarrow> Inr (resolved, p))
     else ve ''unsupported transport id for endpoint resolution'')"

definition resolve_transport_endpoint ::
    "ClientTransportBootstrap \<Rightarrow> int option \<Rightarrow> int option \<Rightarrow> (TransportId \<times> int) res" where
  "resolve_transport_endpoint bootstrap quic_port tcp_port =
     resolve_selected_transport_endpoint (ctp_selected_transport_id (ctb_plan bootstrap))
       quic_port tcp_port"

section \<open>The control session after the acknowledgement\<close>

record ClientControlBootstrapSession =
  ccs_transport_id :: TransportId
  ccs_bootstrap :: ClientTransportBootstrap
  ccs_ack_packet :: NnrpPacket
  ccs_ack_metadata :: ServerHelloAckMetadata

text \<open>
  \<open>_bootstrap_connected_client\<close> after the hello was sent: \<open>ack_packet\<close> is what
  \<open>receive_control_packet\<close> returned.
\<close>

definition bootstrap_connected_client ::
    "TransportId \<Rightarrow> ClientTransportBootstrap \<Rightarrow> NnrpPacket \<Rightarrow> ClientControlBootstrapSession res" where
  "bootstrap_connected_client transport_id bootstrap ack_packet =
     (if hdr_msg_type (pkt_header ack_packet) \<noteq> MT_SERVER_HELLO_ACK
      then ve ''expected SERVER_HELLO_ACK''
      else bind_res (ServerHelloAckMetadata_unpack (pkt_metadata ack_packet)) (\<lambda>ack_metadata.
        Inr \<lparr>ccs_transport_id = transport_id, ccs_bootstrap = bootstrap,
             ccs_ack_packet = ack_packet, ccs_ack_metadata = ack_metadata\<rparr>))"

section \<open>What the hello carries\<close>

lemma build_client_hello_packetE:
  assumes "build_client_hello_packet r = Inr p"
  obtains policy preferred auth helper m where
    "hello_transport_arguments r = Inr (policy, preferred)"
    "resolve_client_auth_block (hr_auth_block r) (hr_requested_model r) = Inr auth"
    "build_client_hello_helper_extensions policy preferred = Inr helper"
    "ClientHelloMetadata_pack (client_hello_metadata r 1
       (case hr_client_profile r of Some p \<Rightarrow> p | None \<Rightarrow> default_client_profile)
       (len auth) (len helper + len (hr_control_extensions r))) = Inr m"
    "p = NnrpPacket_build 1 (hr_wire_format r) MT_CLIENT_HELLO (no_route\<lparr>pr_flags := HF_ACK_REQUIRED\<rparr>)
       m (helper @ hr_control_extensions r @ auth)"
  using assms
  by (auto simp: build_client_hello_packet_def res_simps Let_def client_hello_wire_format_bitmap_def
      split: prod.splits if_splits)

text \<open>The requested policy and transport, as the plan decides them.\<close>

definition dial_policy :: "TransportId \<Rightarrow> TransportId \<Rightarrow> TransportPolicy" where
  "dial_policy selected forced =
     (case forced of
        TI_QUIC \<Rightarrow> TP_FORCE_QUIC | TI_TCP \<Rightarrow> TP_FORCE_TCP | TI_IPC \<Rightarrow> TP_FORCE_IPC
      | TI_WEBSOCKET \<Rightarrow> TP_FORCE_WEBSOCKET
      | TI_UNSPECIFIED \<Rightarrow>
          (case selected of
             TI_QUIC \<Rightarrow> TP_PREFER_QUIC | TI_TCP \<Rightarrow> TP_PREFER_TCP | TI_IPC \<Rightarrow> TP_PREFER_IPC
           | TI_WEBSOCKET \<Rightarrow> TP_PREFER_WEBSOCKET | TI_UNSPECIFIED \<Rightarrow> TP_AUTO))"

lemma plan_client_transport_spec:
  "plan_client_transport selected forced =
     (if forced \<noteq> TI_UNSPECIFIED \<and> selected \<notin> {TI_UNSPECIFIED, forced}
      then ve ''selected_transport_id and forced_transport_id must not conflict''
      else let t = (if forced = TI_UNSPECIFIED then selected else forced)
           in Inr \<lparr>ctp_selected_transport_id = t,
                   ctp_transport_policy_extension =
                     (if t = TI_UNSPECIFIED then None
                      else Some \<lparr>chtp_transport_policy = dial_policy selected forced,
                                 chtp_preferred_transport_id = t\<rparr>)\<rparr>)"
  by (cases forced; cases selected)
    (simp_all add: plan_client_transport_def resolve_client_hello_transport_policy_def
      forced_transport_policy_for_id_def preferred_transport_policy_for_id_def dial_policy_def)

text \<open>The plan names the transport the endpoint is then resolved for.\<close>

lemma endpoint_of_plan:
  "resolve_selected_transport_endpoint t quic_port tcp_port = Inr (t', port) \<Longrightarrow>
     t' \<in> {TI_QUIC, TI_TCP} \<and> (t \<noteq> TI_UNSPECIFIED \<longrightarrow> t' = t) \<and>
     (if t' = TI_QUIC then quic_port else tcp_port) = Some port"
  by (auto simp: resolve_selected_transport_endpoint_def res_simps split: if_splits option.splits)

end
