(* ===== verification/Client_Session.thy ===== *)
theory Client_Session
  imports Client_Dial Builder_Correctness
begin

text \<open>
  The client side of a session (\<open>client/transport.py\<close>): typed payloads, submit requests,
  results, \<open>ClientSession\<close> with its migration rule, and the migration itself.  What the
  connection does is an argument: \<open>send\<close> for sending a packet, the packet received otherwise.
\<close>

section \<open>TypedPayload\<close>

text \<open>
  A \<open>TypedPayload\<close> has the fields of a \<open>TypedPayloadFrame\<close>; its \<open>__post_init__\<close> replaces them
  by those of the normalised frame.
\<close>

definition TypedPayload_init :: "TypedPayloadFrame \<Rightarrow> TypedPayloadFrame res" where
  "TypedPayload_init payload = build_typed_payload_frame payload"

definition TypedPayload_from_core_frame :: "TypedPayloadFrame \<Rightarrow> TypedPayloadFrame res" where
  "TypedPayload_from_core_frame frame = TypedPayload_init frame"

definition TypedPayload_to_core_frame :: "TypedPayloadFrame \<Rightarrow> TypedPayloadFrame res" where
  "TypedPayload_to_core_frame payload = build_typed_payload_frame payload"

definition TypedPayload_token_chunk :: "bytes \<Rightarrow> int \<Rightarrow> int \<Rightarrow> TypedPayloadFrame res" where
  "TypedPayload_token_chunk payload profile_id descriptor_flags = TypedPayload_init
     \<lparr>tfr_payload_kind = PK_TOKEN_CHUNK, tfr_payload = payload, tfr_profile_id = profile_id,
      tfr_descriptor_flags = descriptor_flags, tfr_schema_id = TOKEN_DELTA_SCHEMA_ID,
      tfr_schema_version = TOKEN_DELTA_SCHEMA_VERSION,
      tfr_stream_semantics = StreamSemantics_int STREAM_APPEND\<rparr>"

text \<open>The constructors that leave schema and stream semantics at their defaults.\<close>

definition TypedPayload_plain :: "int \<Rightarrow> bytes \<Rightarrow> int \<Rightarrow> int \<Rightarrow> TypedPayloadFrame res" where
  "TypedPayload_plain kind payload profile_id descriptor_flags = TypedPayload_init
     \<lparr>tfr_payload_kind = kind, tfr_payload = payload, tfr_profile_id = profile_id,
      tfr_descriptor_flags = descriptor_flags, tfr_schema_id = 0, tfr_schema_version = 0,
      tfr_stream_semantics = StreamSemantics_int STREAM_UNSPECIFIED\<rparr>"

definition TypedPayload_audio_chunk :: "bytes \<Rightarrow> int \<Rightarrow> int \<Rightarrow> TypedPayloadFrame res" where
  "TypedPayload_audio_chunk = TypedPayload_plain PK_AUDIO_CHUNK"

definition TypedPayload_video_chunk :: "bytes \<Rightarrow> int \<Rightarrow> int \<Rightarrow> TypedPayloadFrame res" where
  "TypedPayload_video_chunk = TypedPayload_plain PK_VIDEO_CHUNK"

definition TypedPayload_structured_event :: "bytes \<Rightarrow> int \<Rightarrow> int \<Rightarrow> TypedPayloadFrame res" where
  "TypedPayload_structured_event = TypedPayload_plain PK_STRUCTURED_EVENT"

definition TypedPayload_tool_delta :: "bytes \<Rightarrow> int \<Rightarrow> int \<Rightarrow> TypedPayloadFrame res" where
  "TypedPayload_tool_delta = TypedPayload_plain PK_TOOL_DELTA"

definition TypedPayload_opaque_bytes :: "bytes \<Rightarrow> int \<Rightarrow> int \<Rightarrow> TypedPayloadFrame res" where
  "TypedPayload_opaque_bytes = TypedPayload_plain PK_OPAQUE_BYTES"

section \<open>Submit requests\<close>

record SubmitHeaderContext =
  shc_flags :: int
  shc_view_id :: int
  shc_route_id :: int
  shc_trace_id :: int

record SubmitIdentity =
  sid_operation_id :: int
  sid_frame_id :: int
  sid_header :: SubmitHeaderContext

record SubmitPolicy =
  spo_frame_class :: int
  spo_latency_budget_ms :: int
  spo_target_fps_x100 :: int
  spo_retry_of_frame :: int
  spo_budget_policy :: int
  spo_loss_tolerance_policy :: int
  spo_dependency_frame_id :: int

record SubmitObjectReferences =
  sor_camera :: "ObjectReferenceBlock option"
  sor_tile_index :: "ObjectReferenceBlock option"
  sor_tensor_section_table :: "ObjectReferenceBlock option"

record TensorSubmitInput =
  tsi_identity :: SubmitIdentity
  tsi_policy :: SubmitPolicy
  tsi_src_width :: int
  tsi_src_height :: int
  tsi_tile_width :: int
  tsi_tile_height :: int
  tsi_tile_ids :: "int list"
  tsi_sections :: "TensorSectionData list"
  tsi_camera_block :: bytes
  tsi_input_profile :: InputProfile
  tsi_tile_index_mode :: TileIndexMode
  tsi_tile_base_id :: int
  tsi_references :: SubmitObjectReferences

record TokenChunk =
  tck_payload :: bytes
  tck_descriptor_flags :: int

record SubmitRequest =
  srq_operation_id :: int
  srq_frame_id :: int
  srq_header :: SubmitHeaderContext
  srq_metadata :: FrameSubmitMetadata
  srq_body :: bytes

text \<open>The header arguments of the builders; the request is built with session id 0.\<close>

definition submit_route :: "int \<Rightarrow> int \<Rightarrow> SubmitHeaderContext \<Rightarrow> packet_route" where
  "submit_route session_id frame_id h =
     \<lparr>pr_flags = shc_flags h, pr_session_id = session_id, pr_frame_id = frame_id,
      pr_view_id = shc_view_id h, pr_route_id = shc_route_id h, pr_trace_id = shc_trace_id h\<rparr>"

definition SubmitRequest_from_packet :: "SubmitIdentity \<Rightarrow> NnrpPacket \<Rightarrow> SubmitRequest res" where
  "SubmitRequest_from_packet identity packet =
     (if sid_operation_id identity \<le> 0 \<or> sid_frame_id identity \<le> 0
      then ve ''submit operation_id and frame_id must be non-zero''
      else bind_res (FrameSubmitMetadata_unpack (pkt_metadata packet)) (\<lambda>metadata.
        Inr \<lparr>srq_operation_id = sid_operation_id identity, srq_frame_id = sid_frame_id identity,
             srq_header = sid_header identity, srq_metadata = metadata,
             srq_body = pkt_body packet\<rparr>))"

definition tensor_submit_mode :: "TensorSubmitInput \<Rightarrow> SubmitMode" where
  "tensor_submit_mode v =
     (let refs = tsi_references v;
          provided_ref_count = sum_list (map (\<lambda>c. if c then 1 else 0)
            [sor_camera refs \<noteq> None, sor_tile_index refs \<noteq> None, sor_tensor_section_table refs \<noteq> None]);
          inline_count = sum_list (map (\<lambda>c. if c then 1 else 0)
            [tsi_camera_block v \<noteq> [] \<and> sor_camera refs = None,
             tsi_tile_ids v \<noteq> [] \<and> sor_tile_index refs = None,
             tsi_sections v \<noteq> [] \<and> sor_tensor_section_table refs = None])
      in if truthy provided_ref_count \<and> truthy inline_count then SM_MIXED
         else if truthy provided_ref_count then SM_REFERENCE else SM_INLINE)"

definition tensor_object_ref_mask :: "SubmitObjectReferences \<Rightarrow> int" where
  "tensor_object_ref_mask refs =
     (if sor_camera refs \<noteq> None then 1 else 0) OR (if sor_tile_index refs \<noteq> None then 2 else 0)
       OR (if sor_tensor_section_table refs \<noteq> None then 4 else 0)"

definition tensor_submit_args :: "TensorSubmitInput \<Rightarrow> frame_submit_args" where
  "tensor_submit_args v =
     (let identity = tsi_identity v; policy = tsi_policy v; refs = tsi_references v in
      \<lparr>fsa_operation_id = sid_operation_id identity, fsa_src_width = tsi_src_width v,
       fsa_src_height = tsi_src_height v, fsa_tile_width = tsi_tile_width v,
       fsa_tile_height = tsi_tile_height v, fsa_tile_ids = tsi_tile_ids v,
       fsa_sections = tsi_sections v, fsa_camera_block = tsi_camera_block v,
       fsa_frame_class = spo_frame_class policy, fsa_input_profile = tsi_input_profile v,
       fsa_tile_index_mode = tsi_tile_index_mode v,
       fsa_latency_budget_ms = spo_latency_budget_ms policy,
       fsa_target_fps_x100 = spo_target_fps_x100 policy,
       fsa_retry_of_frame = spo_retry_of_frame policy, fsa_tile_base_id = tsi_tile_base_id v,
       fsa_submit_mode = tensor_submit_mode v, fsa_object_ref_mask = tensor_object_ref_mask refs,
       fsa_camera_reference = map_option RefBlock (sor_camera refs),
       fsa_tile_index_reference = map_option RefBlock (sor_tile_index refs),
       fsa_tensor_section_table_reference = map_option RefBlock (sor_tensor_section_table refs),
       fsa_budget_policy = spo_budget_policy policy,
       fsa_dependency_frame_id = spo_dependency_frame_id policy,
       fsa_loss_tolerance_policy = spo_loss_tolerance_policy policy,
       fsa_payload_kind_bitmap = PK_TENSOR, fsa_payload_frame_count = 0, fsa_version_major = 1,
       fsa_wire_format = WF_CURRENT,
       fsa_route = submit_route 0 (sid_frame_id identity) (sid_header identity)\<rparr>)"

definition SubmitRequest_tensor :: "TensorSubmitInput \<Rightarrow> SubmitRequest res" where
  "SubmitRequest_tensor v =
     bind_res (build_frame_submit_packet (tensor_submit_args v)) (\<lambda>packet.
       SubmitRequest_from_packet (tsi_identity v) packet)"

text \<open>The typed payload builder reads only the policy, the operation id and the header.\<close>

definition typed_submit_args :: "SubmitIdentity \<Rightarrow> SubmitPolicy \<Rightarrow> frame_submit_args" where
  "typed_submit_args identity policy =
     \<lparr>fsa_operation_id = sid_operation_id identity, fsa_src_width = 0, fsa_src_height = 0,
      fsa_tile_width = 0, fsa_tile_height = 0, fsa_tile_ids = [], fsa_sections = [],
      fsa_camera_block = [], fsa_frame_class = spo_frame_class policy,
      fsa_input_profile = IP_UNSPECIFIED, fsa_tile_index_mode = TIM_RAW_U16,
      fsa_latency_budget_ms = spo_latency_budget_ms policy,
      fsa_target_fps_x100 = spo_target_fps_x100 policy,
      fsa_retry_of_frame = spo_retry_of_frame policy, fsa_tile_base_id = 0,
      fsa_submit_mode = SM_INLINE, fsa_object_ref_mask = 0, fsa_camera_reference = None,
      fsa_tile_index_reference = None, fsa_tensor_section_table_reference = None,
      fsa_budget_policy = spo_budget_policy policy,
      fsa_dependency_frame_id = spo_dependency_frame_id policy,
      fsa_loss_tolerance_policy = spo_loss_tolerance_policy policy, fsa_payload_kind_bitmap = 0,
      fsa_payload_frame_count = 0, fsa_version_major = 1, fsa_wire_format = WF_CURRENT,
      fsa_route = submit_route 0 (sid_frame_id identity) (sid_header identity)\<rparr>"

definition SubmitRequest_of_frames ::
    "SubmitIdentity \<Rightarrow> SubmitPolicy \<Rightarrow> TypedPayloadFrame list \<Rightarrow> SubmitRequest res" where
  "SubmitRequest_of_frames identity policy frames =
     bind_res (build_frame_submit_typed_payload_packet (typed_submit_args identity policy) frames)
       (\<lambda>packet. SubmitRequest_from_packet identity packet)"

definition SubmitRequest_token ::
    "SubmitIdentity \<Rightarrow> SubmitPolicy \<Rightarrow> TokenChunk list \<Rightarrow> SubmitRequest res" where
  "SubmitRequest_token identity policy chunks =
     bind_res (map_res (\<lambda>c. build_typed_payload_frame
       \<lparr>tfr_payload_kind = PK_TOKEN_CHUNK, tfr_payload = tck_payload c,
        tfr_profile_id = StandardProfile_int PROFILE_TOKEN,
        tfr_descriptor_flags = tck_descriptor_flags c, tfr_schema_id = TOKEN_DELTA_SCHEMA_ID,
        tfr_schema_version = TOKEN_DELTA_SCHEMA_VERSION,
        tfr_stream_semantics = StreamSemantics_int STREAM_APPEND\<rparr>) chunks) (\<lambda>frames.
     SubmitRequest_of_frames identity policy frames)"

text \<open>A \<open>TypedPayloadInputFrame\<close> is the tuple of the fields of a frame, not yet normalised.\<close>

definition SubmitRequest_typed_payload ::
    "SubmitIdentity \<Rightarrow> SubmitPolicy \<Rightarrow> TypedPayloadFrame list \<Rightarrow> SubmitRequest res" where
  "SubmitRequest_typed_payload identity policy frames =
     bind_res (map_res build_typed_payload_frame frames) (\<lambda>core_frames.
       SubmitRequest_of_frames identity policy core_frames)"

section \<open>Results\<close>

record Result =
  res_packet :: NnrpPacket
  res_metadata :: "ResultPushMetadata option"
  res_tensor_body :: "TensorBodyView option"
  res_typed_payloads :: "TypedPayloadFrame list"

definition PAYLOAD_KIND_ORDER :: "int list" where
  "PAYLOAD_KIND_ORDER = [PK_TENSOR, PK_TOKEN_CHUNK, PK_AUDIO_CHUNK, PK_VIDEO_CHUNK,
     PK_STRUCTURED_EVENT, PK_TOOL_DELTA, PK_OPAQUE_BYTES]"

definition Result_is_drop :: "Result \<Rightarrow> bool" where
  "Result_is_drop r \<longleftrightarrow> hdr_msg_type (pkt_header (res_packet r)) = MT_RESULT_DROP"

definition Result_is_push :: "Result \<Rightarrow> bool" where
  "Result_is_push r \<longleftrightarrow> hdr_msg_type (pkt_header (res_packet r)) = MT_RESULT_PUSH"

definition Result_payload_kinds :: "Result \<Rightarrow> int list" where
  "Result_payload_kinds r =
     (case res_metadata r of None \<Rightarrow> []
      | Some m \<Rightarrow> filter (\<lambda>k. truthy (rpm_payload_kind_bitmap m AND k)) PAYLOAD_KIND_ORDER)"

definition Result_has_payload_kind :: "Result \<Rightarrow> int \<Rightarrow> bool" where
  "Result_has_payload_kind r payload_kind =
     (case res_metadata r of None \<Rightarrow> False
      | Some m \<Rightarrow> let kind = PayloadKind_call payload_kind
                   in if kind = PK_NONE then False else truthy (rpm_payload_kind_bitmap m AND kind))"

definition Result_payload_frame_count :: "Result \<Rightarrow> int" where
  "Result_payload_frame_count r =
     (case res_metadata r of None \<Rightarrow> 0 | Some m \<Rightarrow> rpm_payload_frame_count m)"

definition Result_typed_payloads_of_kind :: "Result \<Rightarrow> int \<Rightarrow> TypedPayloadFrame list" where
  "Result_typed_payloads_of_kind r payload_kind =
     (let kind = PayloadKind_call payload_kind
      in if kind \<in> {PK_NONE, PK_TENSOR} then []
         else filter (\<lambda>p. tfr_payload_kind p = kind) (res_typed_payloads r))"

definition Result_token_chunks :: "Result \<Rightarrow> bytes list" where
  "Result_token_chunks r = map tfr_payload (Result_typed_payloads_of_kind r PK_TOKEN_CHUNK)"

definition Result_audio_chunks :: "Result \<Rightarrow> bytes list" where
  "Result_audio_chunks r = map tfr_payload (Result_typed_payloads_of_kind r PK_AUDIO_CHUNK)"

definition Result_video_chunks :: "Result \<Rightarrow> bytes list" where
  "Result_video_chunks r = map tfr_payload (Result_typed_payloads_of_kind r PK_VIDEO_CHUNK)"

definition Result_structured_events :: "Result \<Rightarrow> bytes list" where
  "Result_structured_events r = map tfr_payload (Result_typed_payloads_of_kind r PK_STRUCTURED_EVENT)"

definition Result_tool_deltas :: "Result \<Rightarrow> bytes list" where
  "Result_tool_deltas r = map tfr_payload (Result_typed_payloads_of_kind r PK_TOOL_DELTA)"

definition Result_opaque_bytes_payloads :: "Result \<Rightarrow> bytes list" where
  "Result_opaque_bytes_payloads r = map tfr_payload (Result_typed_payloads_of_kind r PK_OPAQUE_BYTES)"

definition Result_has_tensor_coverage :: "Result \<Rightarrow> bool" where
  "Result_has_tensor_coverage r = Result_has_payload_kind r PK_TENSOR"

definition Result_tensor_covered_tile_count :: "Result \<Rightarrow> int option" where
  "Result_tensor_covered_tile_count r =
     (case res_metadata r of None \<Rightarrow> None
      | Some m \<Rightarrow> if Result_has_tensor_coverage r then Some (rpm_covered_tile_count m) else None)"

definition Result_tensor_dropped_tile_count :: "Result \<Rightarrow> int option" where
  "Result_tensor_dropped_tile_count r =
     (case res_metadata r of None \<Rightarrow> None
      | Some m \<Rightarrow> if Result_has_tensor_coverage r then Some (rpm_dropped_tile_count m) else None)"

text \<open>The tile index mode is not on the wire: any index bytes are read as \<open>RAW_U16\<close>.\<close>

definition Result_tile_ids :: "Result \<Rightarrow> int list res" where
  "Result_tile_ids r =
     (case (res_metadata r, res_tensor_body r) of
        (Some m, Some tb) \<Rightarrow>
          unpack_tile_index_block (tbv_tile_index_block tb)
            (if truthy (rpm_tile_index_bytes m) then TIM_RAW_U16 else TIM_DENSE_RANGE)
            (rpm_tile_count m) (rpm_tile_base_id m)
      | _ \<Rightarrow> Inr [])"

definition Result_sections :: "Result \<Rightarrow> TensorSectionView list" where
  "Result_sections r =
     (case res_tensor_body r of None \<Rightarrow> [] | Some tb \<Rightarrow> tbv_sections tb)"

section \<open>ClientSession\<close>

record ClientSession =
  cs_control :: ClientControlBootstrapSession
  cs_current_min_frame_id :: int
  cs_current_last_submitted_frame_id :: "int option"

definition ClientSession_new :: "ClientControlBootstrapSession \<Rightarrow> ClientSession" where
  "ClientSession_new control =
     \<lparr>cs_control = control, cs_current_min_frame_id = 0,
      cs_current_last_submitted_frame_id = None\<rparr>"

definition cs_session_id :: "ClientSession \<Rightarrow> int" where
  "cs_session_id s = sham_session_id (ccs_ack_metadata (cs_control s))"

definition validate_migrated_current_frame_id :: "ClientSession \<Rightarrow> int \<Rightarrow> unit res" where
  "validate_migrated_current_frame_id s frame_id =
     (if cs_current_min_frame_id s > 0 \<and> frame_id < cs_current_min_frame_id s
      then ve ''current migration resume_from_frame_id requires frame_id >= min''
      else if given_and (cs_current_last_submitted_frame_id s) (\<lambda>l. frame_id \<le> l)
      then ve ''current migrated session frame_id must be strictly increasing''
      else Inr ())"

text \<open>A session that was migrated from a frame on.\<close>

definition cs_migrated :: "ClientSession \<Rightarrow> bool" where
  "cs_migrated s \<longleftrightarrow> cs_current_min_frame_id s > 0 \<or> cs_current_last_submitted_frame_id s \<noteq> None"

definition send_submit_built :: "ClientSession \<Rightarrow> SubmitRequest \<Rightarrow> NnrpPacket res" where
  "send_submit_built s request =
     bind_res (if cs_migrated s then validate_migrated_current_frame_id s (srq_frame_id request)
               else Inr ()) (\<lambda>_.
     if fsm_operation_id (srq_metadata request) \<noteq> srq_operation_id request
     then ve ''submit metadata operation_id does not match request operation_id''
     else bind_res (FrameSubmitMetadata_pack (srq_metadata request)) (\<lambda>metadata.
       Inr (NnrpPacket_build 1 WF_CURRENT MT_FRAME_SUBMIT
         (submit_route (cs_session_id s) (srq_frame_id request) (srq_header request))
         metadata (srq_body request))))"

text \<open>\<open>send\<close> is \<open>send_submit_packet\<close>, which returns the stream id.\<close>

definition send_submit ::
    "(NnrpPacket \<Rightarrow> int res) \<Rightarrow> SubmitRequest \<Rightarrow> ClientSession \<Rightarrow> int res \<times> ClientSession" where
  "send_submit send request s =
     (case bind_res (send_submit_built s request) send of
        Inl e \<Rightarrow> (Inl e, s)
      | Inr stream_id \<Rightarrow>
          (Inr stream_id,
           if cs_migrated s
           then s\<lparr>cs_current_last_submitted_frame_id := Some (srq_frame_id request)\<rparr> else s))"

text \<open>\<open>receive_result\<close>, for the packet \<open>receive_result_packet\<close> returned.\<close>

definition receive_result :: "NnrpPacket \<Rightarrow> Result res" where
  "receive_result packet =
     (if hdr_msg_type (pkt_header packet) = MT_RESULT_DROP
      then Inr \<lparr>res_packet = packet, res_metadata = None, res_tensor_body = None,
                res_typed_payloads = []\<rparr>
      else if hdr_msg_type (pkt_header packet) \<noteq> MT_RESULT_PUSH
      then ve ''expected RESULT_PUSH or RESULT_DROP''
      else bind_res (ResultPushMetadata_unpack (pkt_metadata packet)) (\<lambda>metadata.
        if pkt_body packet = [] \<and> rpm_payload_frame_count metadata = 0
           \<and> \<not> truthy (rpm_payload_kind_bitmap metadata AND PK_TENSOR)
        then Inr \<lparr>res_packet = packet, res_metadata = Some metadata, res_tensor_body = None,
                  res_typed_payloads = []\<rparr>
        else bind_res (validate_result_push_body metadata (pkt_body packet)) (\<lambda>body_view.
          bind_res (unpack_typed_payload_frames
              (reg_typed_payload_descriptor (bv_regions body_view))
              (reg_typed_payload_frame (bv_regions body_view))
              (rpm_payload_kind_bitmap metadata)) (\<lambda>frames.
          bind_res (map_res TypedPayload_from_core_frame frames) (\<lambda>typed_payloads.
          bind_res (if truthy (rpm_payload_kind_bitmap metadata AND PK_TENSOR)
                    then bind_res (unpack_current_tensor_body body_view
                           (rpm_section_count metadata) (rpm_tile_count metadata))
                           (\<lambda>tb. Inr (Some tb))
                    else Inr None) (\<lambda>tensor_body.
          Inr \<lparr>res_packet = packet, res_metadata = Some metadata,
               res_tensor_body = tensor_body, res_typed_payloads = typed_payloads\<rparr>))))))"

section \<open>Migration\<close>

record MigrationOutcome =
  mo_previous_transport_id :: TransportId
  mo_current_transport_id :: TransportId
  mo_session :: ClientSession
  mo_ack_packet :: NnrpPacket
  mo_ack_metadata :: SessionMigrateAckMetadata

definition mo_accepted :: "MigrationOutcome \<Rightarrow> bool" where
  "mo_accepted out = (smam_accept_code (mo_ack_metadata out) = 0)"

definition mo_resume_from_frame_id :: "MigrationOutcome \<Rightarrow> int" where
  "mo_resume_from_frame_id out = smam_resume_from_frame_id (mo_ack_metadata out)"

record migrate_args =
  mga_quic_port :: "int option"
  mga_tcp_port :: "int option"
  mga_selected_transport_id :: TransportId
  mga_forced_transport_id :: TransportId
  mga_last_result_frame_id :: int
  mga_client_migrate_ts_us :: int
  mga_route_id :: int
  mga_trace_id :: int
  mga_flags :: int
  mga_body :: bytes

text \<open>
  \<open>migrate_session\<close> up to the request: the new transport, its port, and the SESSION_MIGRATE
  packet that goes out on the new connection.
\<close>

definition migrate_session_request ::
    "migrate_args \<Rightarrow> ClientSession \<Rightarrow> (TransportId \<times> int \<times> NnrpPacket) res" where
  "migrate_session_request a s =
     bind_res (plan_client_transport (mga_selected_transport_id a) (mga_forced_transport_id a)) (\<lambda>plan.
     bind_res (resolve_selected_transport_endpoint (ctp_selected_transport_id plan)
       (mga_quic_port a) (mga_tcp_port a)) (\<lambda>(new_transport_id, port).
     if new_transport_id = ccs_transport_id (cs_control s)
     then ve ''current migration requires a different transport from the active session''
     else bind_res (build_session_migrate_packet
       \<lparr>smm_old_transport_id = ccs_transport_id (cs_control s),
        smm_new_transport_id = new_transport_id,
        smm_last_result_frame_id = mga_last_result_frame_id a,
        smm_client_migrate_ts_us = mga_client_migrate_ts_us a\<rparr> (mga_body a)
       \<lparr>pr_flags = mga_flags a, pr_session_id = cs_session_id s, pr_frame_id = 0, pr_view_id = 0,
        pr_route_id = mga_route_id a, pr_trace_id = mga_trace_id a\<rparr>) (\<lambda>packet.
     Inr (new_transport_id, port, packet))))"

text \<open>The rest, for the packet received on the new connection.\<close>

definition migrate_session_outcome ::
    "TransportId \<Rightarrow> NnrpPacket \<Rightarrow> ClientSession \<Rightarrow> MigrationOutcome res" where
  "migrate_session_outcome new_transport_id ack_packet s =
     (if hdr_msg_type (pkt_header ack_packet) \<noteq> MT_SESSION_MIGRATE_ACK
      then ve ''expected SESSION_MIGRATE_ACK''
      else bind_res (SessionMigrateAckMetadata_unpack (pkt_metadata ack_packet)) (\<lambda>ack_metadata.
        if hdr_session_id (pkt_header ack_packet) \<noteq> cs_session_id s
        then ve ''expected migrated session_id''
        else let control = cs_control s;
                 plan = \<lparr>ctp_selected_transport_id = new_transport_id,
                         ctp_transport_policy_extension = None\<rparr>;
                 migrated_control = control
                   \<lparr>ccs_transport_id := new_transport_id,
                    ccs_bootstrap := (ccs_bootstrap control)\<lparr>ctb_plan := plan\<rparr>\<rparr>;
                 resume = smam_resume_from_frame_id ack_metadata
             in Inr \<lparr>mo_previous_transport_id = ccs_transport_id control,
                     mo_current_transport_id = new_transport_id,
                     mo_session =
                       \<lparr>cs_control = migrated_control, cs_current_min_frame_id = resume,
                        cs_current_last_submitted_frame_id =
                          (if resume > 0 then Some (resume - 1) else None)\<rparr>,
                     mo_ack_packet = ack_packet, mo_ack_metadata = ack_metadata\<rparr>))"

end
