(* ===== verification/Server_Accept.thy ===== *)
theory Server_Accept
  imports Client_Dial
begin

text \<open>
  How a server accepts a connection (\<open>server/transport.py\<close>, \<open>server/profile.py\<close>): the body
  of CLIENT_HELLO is split into extensions and authentication block, the requested transport
  policy is found among the extensions and acknowledged.  Together with \<open>Client_Dial\<close> this
  gives the handshake.
\<close>

section \<open>Profile and contexts\<close>

record ServerProfile =
  sp_max_concurrent_frames :: int
  sp_enable_cache :: bool
  sp_max_sections :: int
  sp_max_body_bytes :: int

definition default_server_profile :: ServerProfile where
  "default_server_profile =
     \<lparr>sp_max_concurrent_frames = 1, sp_enable_cache = True, sp_max_sections = 16,
      sp_max_body_bytes = 32 * 1024 * 1024\<rparr>"

record ClientHelloContext =
  chc_packet :: NnrpPacket
  chc_metadata :: ClientHelloMetadata
  chc_auth_block :: bytes
  chc_control_extensions :: "ControlExtensionEntry list"

record ServerSessionAcceptResolution =
  ssr_session_id :: int
  ssr_active_model_name :: pystr

record ServerSession =
  ss_transport_id :: TransportId
  ss_hello :: ClientHelloContext
  ss_session_id :: int
  ss_active_model_name :: pystr
  ss_server_profile :: ServerProfile

section \<open>Reading CLIENT_HELLO\<close>

definition parse_hello_auth_block :: "bytes \<Rightarrow> int \<Rightarrow> bytes res" where
  "parse_hello_auth_block body auth_bytes =
     (if auth_bytes < 0 \<or> auth_bytes > len body then ve ''CLIENT_HELLO auth_bytes/body mismatch''
      else Inr (if truthy auth_bytes then slice_from (- auth_bytes) body else []))"

definition parse_hello_control_extensions ::
    "bytes \<Rightarrow> int \<Rightarrow> int \<Rightarrow> ControlExtensionEntry list res" where
  "parse_hello_control_extensions body auth_bytes control_extension_bytes =
     (if auth_bytes < 0 \<or> auth_bytes > len body then ve ''CLIENT_HELLO auth_bytes/body mismatch''
      else let extension_payload = (if truthy auth_bytes then py_slice 0 (- auth_bytes) body else body)
           in if control_extension_bytes \<noteq> len extension_payload
              then ve ''CLIENT_HELLO control_extension_bytes/body mismatch''
              else if extension_payload = [] then Inr []
              else unpack_control_extension_block None extension_payload)"

fun requested_transport_policy :: "ControlExtensionEntry list \<Rightarrow> TransportPolicy res" where
  "requested_transport_policy [] = Inr TP_AUTO"
| "requested_transport_policy (entry # entries) =
     (if ext_type entry = CLIENT_HELLO_TRANSPORT_POLICY_EXTENSION
      then bind_res (parse_client_hello_transport_policy_extension entry) (\<lambda>e.
        Inr (chtp_transport_policy e))
      else requested_transport_policy entries)"

section \<open>SERVER_HELLO_ACK\<close>

definition SUPPORTED_PAYLOAD_KINDS :: int where
  "SUPPORTED_PAYLOAD_KINDS = PK_TENSOR OR PK_TOKEN_CHUNK OR PK_AUDIO_CHUNK OR PK_VIDEO_CHUNK
     OR PK_STRUCTURED_EVENT OR PK_TOOL_DELTA OR PK_OPAQUE_BYTES"

definition server_hello_ack_metadata :: "int \<Rightarrow> ServerProfile \<Rightarrow> int \<Rightarrow> ServerHelloAckMetadata" where
  "server_hello_ack_metadata session_id profile control_extension_bytes =
     \<lparr>sham_selected_version_major = 1, sham_selected_wire_format = WireFormat_int WF_CURRENT,
      sham_auth_status = 0, sham_session_id = session_id, sham_accepted_profile_bitmap = 0x0001,
      sham_accepted_payload_kind_bitmap = SUPPORTED_PAYLOAD_KINDS,
      sham_accepted_codec_bitmap = 0x0003, sham_accepted_compression_bitmap = 0x0003,
      sham_accepted_dtype_bitmap = 0x001F, sham_accepted_layout_bitmap = 0x0003,
      sham_cache_digest_bitmap = 0, sham_cache_object_bitmap = 0, sham_max_cache_entries = 0,
      sham_max_cache_bytes = 0, sham_max_lane_count = 1,
      sham_max_concurrent_frames = sp_max_concurrent_frames profile,
      sham_target_cadence_x100 = 0, sham_latency_budget_ms = 0, sham_quality_tier = 0,
      sham_degrade_policy = 0, sham_max_body_bytes = sp_max_body_bytes profile,
      sham_token_ttl_ms = 0, sham_retry_after_ms = 0,
      sham_control_extension_bytes = control_extension_bytes, sham_server_flags = 0,
      sham_reserved0 = 0\<rparr>"

definition build_server_hello_ack_packet ::
    "int \<Rightarrow> ServerProfile \<Rightarrow> TransportId \<Rightarrow> TransportPolicy \<Rightarrow> NnrpPacket res" where
  "build_server_hello_ack_packet session_id profile active_transport_id requested =
     bind_res (build_server_hello_ack_transport_policy_extension
       \<lparr>shtp_transport_policy = requested, shtp_accepted_transport_policy = requested,
        shtp_active_transport_id = active_transport_id\<rparr>) (\<lambda>entry.
     bind_res (pack_control_extension_block [entry]) (\<lambda>body.
     bind_res (ServerHelloAckMetadata_pack
       (server_hello_ack_metadata session_id profile (len body))) (\<lambda>metadata.
     Inr (NnrpPacket_build 1 WF_CURRENT MT_SERVER_HELLO_ACK
       (no_route\<lparr>pr_flags := HF_ACK_REQUIRED, pr_session_id := session_id\<rparr>) metadata body))))"

section \<open>accept_server_connection\<close>

text \<open>
  The connection is a QUIC or a TCP one; \<open>accepted\<close> is what happened to it: the packets sent
  on it and whether it was closed, as every exception does.
\<close>

definition transport_id_for_connection :: "bool \<Rightarrow> TransportId" where
  "transport_id_for_connection is_quic = (if is_quic then TI_QUIC else TI_TCP)"

definition read_client_hello :: "NnrpPacket \<Rightarrow> ClientHelloContext res" where
  "read_client_hello hello_packet =
     (if hdr_msg_type (pkt_header hello_packet) \<noteq> MT_CLIENT_HELLO then ve ''expected CLIENT_HELLO''
      else if hdr_wire_format (pkt_header hello_packet) \<noteq> WF_CURRENT
      then ve ''expected current CLIENT_HELLO''
      else bind_res (ClientHelloMetadata_unpack (pkt_metadata hello_packet)) (\<lambda>metadata.
        bind_res (parse_hello_auth_block (pkt_body hello_packet) (chm_auth_bytes metadata)) (\<lambda>auth_block.
        bind_res (parse_hello_control_extensions (pkt_body hello_packet) (chm_auth_bytes metadata)
          (chm_control_extension_bytes metadata)) (\<lambda>control_extensions.
        Inr \<lparr>chc_packet = hello_packet, chc_metadata = metadata, chc_auth_block = auth_block,
             chc_control_extensions = control_extensions\<rparr>))))"

text \<open>
  \<open>resolver\<close> is the optional \<open>session_resolver\<close> of the caller, with what it returns or raises;
  \<open>send\<close> is \<open>connection.send_control_packet\<close>.
\<close>

definition accept_server_connection_body ::
    "bool \<Rightarrow> NnrpPacket \<Rightarrow> int option \<Rightarrow> pystr \<Rightarrow> ServerProfile option
      \<Rightarrow> (ClientHelloContext \<Rightarrow> ServerSessionAcceptResolution res) option
      \<Rightarrow> (ServerSession \<times> NnrpPacket) res" where
  "accept_server_connection_body is_quic hello_packet session_id active_model_name profile resolver =
     bind_res (read_client_hello hello_packet) (\<lambda>hello.
     let resolved_profile = (case profile of Some p \<Rightarrow> p | None \<Rightarrow> default_server_profile);
         resolved_session_id = (case session_id of
            None \<Rightarrow> chm_requested_session_id (chc_metadata hello) | Some i \<Rightarrow> i) in
     bind_res (case resolver of
         None \<Rightarrow> Inr (resolved_session_id, active_model_name)
       | Some f \<Rightarrow> bind_res (f hello) (\<lambda>resolution.
           Inr (ssr_session_id resolution, ssr_active_model_name resolution)))
       (\<lambda>(resolved_session_id, resolved_active_model_name).
     bind_res (requested_transport_policy (chc_control_extensions hello)) (\<lambda>requested.
     bind_res (build_server_hello_ack_packet resolved_session_id resolved_profile
       (transport_id_for_connection is_quic) requested) (\<lambda>ack.
     Inr (\<lparr>ss_transport_id = transport_id_for_connection is_quic, ss_hello = hello,
           ss_session_id = resolved_session_id,
           ss_active_model_name = resolved_active_model_name,
           ss_server_profile = resolved_profile\<rparr>, ack)))))"

record accepted_connection =
  ac_sent :: "NnrpPacket list"
  ac_closed :: bool

definition accept_server_connection ::
    "bool \<Rightarrow> (NnrpPacket \<Rightarrow> unit res) \<Rightarrow> NnrpPacket \<Rightarrow> int option \<Rightarrow> pystr \<Rightarrow> ServerProfile option
      \<Rightarrow> (ClientHelloContext \<Rightarrow> ServerSessionAcceptResolution res) option
      \<Rightarrow> ServerSession res \<times> accepted_connection" where
  "accept_server_connection is_quic send hello_packet session_id active_model_name profile resolver =
     (case accept_server_connection_body is_quic hello_packet session_id active_model_name profile
             resolver of
        Inl e \<Rightarrow> (Inl e, \<lparr>ac_sent = [], ac_closed = True\<rparr>)
      | Inr (session, ack) \<Rightarrow>
          (case send ack of
             Inl e \<Rightarrow> (Inl e, \<lparr>ac_sent = [], ac_closed = True\<rparr>)
           | Inr _ \<Rightarrow> (Inr session, \<lparr>ac_sent = [ack], ac_closed = False\<rparr>)))"


section \<open>The handshake\<close>

text \<open>The server splits the body of a hello as the client put it together.\<close>

lemma parse_hello_auth_block_append:
  "parse_hello_auth_block (ext @ auth) (len auth) = Inr auth"
proof -
  have "slice_from (- len auth) (ext @ auth) = auth" if "auth \<noteq> []"
    using that by (simp add: slice_from_def clamp_index_def)
  then show ?thesis
    by (cases "auth = []") (simp_all add: parse_hello_auth_block_def)
qed

lemma parse_hello_control_extensions_append:
  assumes "pack_control_extension_block es = Inr ext"
  shows "parse_hello_control_extensions (ext @ auth) (len auth) (len ext) = Inr es"
proof -
  have cut: "(if truthy (len auth) then py_slice 0 (- len auth) (ext @ auth) else ext @ auth) = ext"
    by (cases "auth = []") (simp_all add: py_slice_def clamp_index_def)
  have "unpack_control_extension_block None ext = Inr es"
    using assms by (simp add: unpack_extension_block_iff)
  moreover have "es = []" if "ext = []"
    using assms that by (cases es) (auto simp: res_simps elim!: entry_packE)
  ultimately show ?thesis
    unfolding parse_hello_control_extensions_def cut by simp
qed

lemma requested_first:
  "ext_type e = CLIENT_HELLO_TRANSPORT_POLICY_EXTENSION \<Longrightarrow>
     parse_client_hello_transport_policy_extension e = Inr x \<Longrightarrow>
     requested_transport_policy (e # es) = Inr (chtp_transport_policy x)"
  by simp

lemma requested_none:
  "(\<forall>e \<in> set es. ext_type e \<noteq> CLIENT_HELLO_TRANSPORT_POLICY_EXTENSION)
    \<Longrightarrow> requested_transport_policy es = Inr TP_AUTO"
  by (induction es) simp_all

text \<open>The entries the client puts in front of its own extensions.\<close>

lemma helper_extensionsE:
  assumes "build_client_hello_helper_extensions policy preferred = Inr helper"
  obtains hs where "pack_control_extension_block hs = Inr helper"
    "\<And>es. (policy = None \<and> preferred = TI_UNSPECIFIED \<longrightarrow>
        (\<forall>e \<in> set es. ext_type e \<noteq> CLIENT_HELLO_TRANSPORT_POLICY_EXTENSION)) \<Longrightarrow>
      requested_transport_policy (hs @ es)
        = Inr (case policy of Some t \<Rightarrow> t | None \<Rightarrow> TP_AUTO)"
proof (cases "policy = None \<and> preferred = TI_UNSPECIFIED")
  case True
  then have "helper = []" using assms by (simp add: build_client_hello_helper_extensions_def)
  then show ?thesis using True by (intro that [of "[]"]) (auto simp: requested_none)
next
  case False
  let ?x = "\<lparr>chtp_transport_policy = (case policy of Some t \<Rightarrow> t | None \<Rightarrow> TP_AUTO),
    chtp_preferred_transport_id = preferred\<rparr>"
  obtain entry where e: "build_client_hello_transport_policy_extension ?x = Inr entry"
    "pack_control_extension_block [entry] = Inr helper"
    using assms False
    by (auto simp: build_client_hello_helper_extensions_def res_simps simp del: pack_block_simps
        split: if_splits)
  have "parse_client_hello_transport_policy_extension entry = Inr ?x"
    using e(1) by (rule chtp_ext.parse_build [rotated]) simp
  moreover have "ext_type entry = CLIENT_HELLO_TRANSPORT_POLICY_EXTENSION"
    using chtp_ext.build_entry [OF e(1)] by simp
  ultimately show ?thesis
    using e(2) False by (intro that [of "[entry]"]) (auto simp: requested_first)
qed

lemma pack_extension_block_append:
  "pack_control_extension_block es = Inr b \<Longrightarrow> pack_control_extension_block fs = Inr c
    \<Longrightarrow> pack_control_extension_block (es @ fs) = Inr (b @ c)"
  by (induction es arbitrary: b) (auto simp: res_simps)

text \<open>What the server reads from a hello the client built.\<close>

lemma read_built_hello:
  assumes "build_client_hello_packet r = Inr hello" "hr_wire_format r = WF_CURRENT"
    "pack_control_extension_block es = Inr (hr_control_extensions r)"
    "hello_transport_arguments r = Inr (policy, preferred)"
    "policy = None \<and> preferred = TI_UNSPECIFIED \<longrightarrow>
      (\<forall>e \<in> set es. ext_type e \<noteq> CLIENT_HELLO_TRANSPORT_POLICY_EXTENSION)"
  obtains ctx hs auth where
    "read_client_hello hello = Inr ctx" "chc_packet ctx = hello"
    "resolve_client_auth_block (hr_auth_block r) (hr_requested_model r) = Inr auth"
    "chc_auth_block ctx = auth" "chc_control_extensions ctx = hs @ es"
    "chm_requested_session_id (chc_metadata ctx) = hr_requested_session_id r"
    "requested_transport_policy (chc_control_extensions ctx)
       = Inr (case policy of Some t \<Rightarrow> t | None \<Rightarrow> TP_AUTO)"
proof -
  obtain auth helper m where h:
    "resolve_client_auth_block (hr_auth_block r) (hr_requested_model r) = Inr auth"
    "build_client_hello_helper_extensions policy preferred = Inr helper"
    "ClientHelloMetadata_pack (client_hello_metadata r 1
       (case hr_client_profile r of Some p \<Rightarrow> p | None \<Rightarrow> default_client_profile)
       (len auth) (len helper + len (hr_control_extensions r))) = Inr m"
    "hello = NnrpPacket_build 1 (hr_wire_format r) MT_CLIENT_HELLO
       (no_route\<lparr>pr_flags := HF_ACK_REQUIRED\<rparr>) m (helper @ hr_control_extensions r @ auth)"
    using assms(1,4) by (auto elim!: build_client_hello_packetE)
  obtain hs where hs: "pack_control_extension_block hs = Inr helper"
    "requested_transport_policy (hs @ es) = Inr (case policy of Some t \<Rightarrow> t | None \<Rightarrow> TP_AUTO)"
    using h(2) assms(5) by (blast elim: helper_extensionsE)
  let ?m = "client_hello_metadata r 1
       (case hr_client_profile r of Some p \<Rightarrow> p | None \<Rightarrow> default_client_profile)
       (len auth) (len helper + len (hr_control_extensions r))"
  have m: "ClientHelloMetadata_unpack m = Inr ?m"
    using h(3) by (simp add: chm.unpack_pack)
  have ext: "pack_control_extension_block (hs @ es) = Inr (helper @ hr_control_extensions r)"
    using hs(1) assms(3) by (rule pack_extension_block_append)
  let ?ctx = "\<lparr>chc_packet = hello, chc_metadata = ?m, chc_auth_block = auth,
    chc_control_extensions = hs @ es\<rparr>"
  have "read_client_hello hello = Inr ?ctx"
    using parse_hello_auth_block_append [of "helper @ hr_control_extensions r" auth]
      parse_hello_control_extensions_append [OF ext, of auth]
    by (simp add: read_client_hello_def h(4) assms(2) m client_hello_metadata_def)
  then show thesis
    by (rule that [where auth = auth and hs = hs])
      (simp_all only: ClientHelloContext.simps h(1) hs(2) client_hello_metadata_def
        ClientHelloMetadata.simps)
qed

text \<open>The acknowledgement, as the client reads it.\<close>

definition server_profile_fits :: "ServerProfile \<Rightarrow> bool" where
  "server_profile_fits p \<longleftrightarrow>
     fits FH (sp_max_concurrent_frames p) \<and> fits FI (sp_max_body_bytes p)"

lemma server_hello_ack_builds:
  assumes "server_profile_fits profile" "fits FI session_id"
  obtains ack m where
    "build_server_hello_ack_packet session_id profile t policy = Inr ack"
    "hdr_msg_type (pkt_header ack) = MT_SERVER_HELLO_ACK"
    "hdr_session_id (pkt_header ack) = session_id"
    "ServerHelloAckMetadata_unpack (pkt_metadata ack) = Inr m" "sham_session_id m = session_id"
    "sham_control_extension_bytes m = len (pkt_body ack)"
    "\<exists>e. unpack_control_extension_block None (pkt_body ack) = Inr [e] \<and>
       parse_server_hello_ack_transport_policy_extension e
         = Inr \<lparr>shtp_transport_policy = policy, shtp_accepted_transport_policy = policy,
                shtp_active_transport_id = t\<rparr>"
proof -
  let ?x = "\<lparr>shtp_transport_policy = policy, shtp_accepted_transport_policy = policy,
    shtp_active_transport_id = t\<rparr>"
  have "coerce_transport_id (TransportId_int t) True = Inr t"
    by (simp add: coerce_transport_id_def)
  then have "\<exists>bs. ServerHelloAckTransportPolicyExtension_pack ?x = Inr bs"
    by (cases policy; cases t)
      (simp_all add: ServerHelloAckTransportPolicyExtension_pack_def fixed_width_pack_Inr
        extension_defs struct_pack_iff fits_def)
  then obtain payload where payload: "ServerHelloAckTransportPolicyExtension_pack ?x = Inr payload"
    by blast
  then have payload_len: "length payload = 8" using shtp.pack_size by simp
  let ?e = "\<lparr>ext_type = SERVER_HELLO_ACK_TRANSPORT_POLICY_EXTENSION, ext_flags = CEF_NONE,
    ext_payload = payload\<rparr>"
  have e: "build_server_hello_ack_transport_policy_extension ?x = Inr ?e"
    by (simp add: build_server_hello_ack_transport_policy_extension_def build_extension_def payload)
  have "\<exists>h. struct_pack CONTROL_EXTENSION_HEADER_STRUCT [ext_type ?e, ext_flags ?e, len payload] = Inr h"
    by (simp add: struct_pack_iff CONTROL_EXTENSION_HEADER_STRUCT_def fits_def payload_len)
  then obtain h where h: "struct_pack CONTROL_EXTENSION_HEADER_STRUCT
      [ext_type ?e, ext_flags ?e, len payload] = Inr h" by blast
  have "control_extension_padding 8 = 0" by (simp add: control_extension_padding_def)
  then have body: "pack_control_extension_block [?e] = Inr (h @ payload)"
    using h by (simp add: ControlExtensionEntry_pack_def payload_len zeros_def)
  have body_len: "len (h @ payload) = 16"
    using length_struct_pack [OF h] payload_len by simp
  let ?m = "server_hello_ack_metadata session_id profile 16"
  have "\<exists>m. ServerHelloAckMetadata_pack ?m = Inr m"
    using assms
    by (simp add: ServerHelloAckMetadata_pack_def fixed_width_pack_Inr struct_pack_iff
        ServerHelloAckMetadata_values_def SERVER_HELLO_ACK_STRUCT_def server_hello_ack_metadata_def
        server_profile_fits_def SUPPORTED_PAYLOAD_KINDS_def)
      (simp add: fits_def)
  then obtain m where m: "ServerHelloAckMetadata_pack ?m = Inr m" by blast
  show thesis
  proof (rule that [of "NnrpPacket_build 1 WF_CURRENT MT_SERVER_HELLO_ACK
      (no_route\<lparr>pr_flags := HF_ACK_REQUIRED, pr_session_id := session_id\<rparr>) m (h @ payload)" ?m])
    show "build_server_hello_ack_packet session_id profile t policy
        = Inr (NnrpPacket_build 1 WF_CURRENT MT_SERVER_HELLO_ACK
          (no_route\<lparr>pr_flags := HF_ACK_REQUIRED, pr_session_id := session_id\<rparr>) m (h @ payload))"
      using body_len by (simp add: build_server_hello_ack_packet_def e body m del: pack_block_simps length_append)
    show "ServerHelloAckMetadata_unpack (pkt_metadata (NnrpPacket_build 1 WF_CURRENT
        MT_SERVER_HELLO_ACK (no_route\<lparr>pr_flags := HF_ACK_REQUIRED, pr_session_id := session_id\<rparr>) m
        (h @ payload))) = Inr ?m"
      using m by (simp add: sham.unpack_pack server_hello_ack_metadata_def)
    show "\<exists>e. unpack_control_extension_block None (pkt_body (NnrpPacket_build 1 WF_CURRENT
        MT_SERVER_HELLO_ACK (no_route\<lparr>pr_flags := HF_ACK_REQUIRED, pr_session_id := session_id\<rparr>) m
        (h @ payload))) = Inr [e] \<and>
        parse_server_hello_ack_transport_policy_extension e = Inr ?x"
      using body shtp_ext.parse_build [OF _ e]
      by (intro exI [of _ ?e]) (simp add: unpack_extension_block_iff del: pack_block_simps)
  qed (use body_len in \<open>simp_all add: server_hello_ack_metadata_def del: length_append\<close>)
qed


text \<open>The transport the client settles on before the plan is made.\<close>

definition settled_transport :: "hello_request \<Rightarrow> TransportId option \<Rightarrow> TransportId" where
  "settled_transport r probe =
     (case probe of
        Some t \<Rightarrow> if hr_selected_transport_id r = TI_UNSPECIFIED
                    \<and> hr_forced_transport_id r = TI_UNSPECIFIED
                 then t else hr_selected_transport_id r
      | None \<Rightarrow> hr_selected_transport_id r)"

lemma bootstrapE:
  assumes "bootstrap_client_transport r probe = Inr b"
  obtains r' policy preferred where
    "build_client_hello_packet r' = Inr (ctb_hello_packet b)" "hr_wire_format r' = WF_CURRENT"
    "hr_control_extensions r' = hr_control_extensions r" "hr_auth_block r' = hr_auth_block r"
    "hr_requested_model r' = hr_requested_model r"
    "hr_requested_session_id r' = hr_requested_session_id r"
    "hello_transport_arguments r' = Inr (policy, preferred)"
    "(case policy of Some t \<Rightarrow> t | None \<Rightarrow> TP_AUTO)
       = dial_policy (settled_transport r probe) (hr_forced_transport_id r)"
proof -
  let ?sel = "settled_transport r probe" and ?forced = "hr_forced_transport_id r"
  obtain plan where plan: "plan_client_transport ?sel ?forced = Inr plan"
    and hello: "plan_build_client_hello_packet plan (r\<lparr>hr_wire_format := WF_CURRENT\<rparr>)
        = Inr (ctb_hello_packet b)"
    using assms
    by (cases probe) (auto simp: bootstrap_client_transport_def Let_def settled_transport_def res_simps
        split: if_splits)
  let ?ext = "ctp_transport_policy_extension plan"
  let ?r = "default_hello_request
         \<lparr>hr_requested_session_id := hr_requested_session_id r, hr_auth_block := hr_auth_block r,
          hr_requested_model := hr_requested_model r,
          hr_control_extensions := hr_control_extensions r,
          hr_client_profile := hr_client_profile r,
          hr_transport_policy_extension := ?ext, hr_wire_format := WF_CURRENT\<rparr>"
  have args: "hello_transport_arguments ?r
      = Inr (case ?ext of None \<Rightarrow> (None, TI_UNSPECIFIED)
             | Some x \<Rightarrow> (Some (chtp_transport_policy x), chtp_preferred_transport_id x))"
    by (simp add: hello_transport_arguments_def default_hello_request_def
        plan_client_transport_spec Let_def split: option.split)
  have policy: "(case map_option chtp_transport_policy ?ext of Some t \<Rightarrow> t | None \<Rightarrow> TP_AUTO)
      = dial_policy ?sel ?forced"
    using plan
    by (cases "?forced"; cases "?sel")
      (auto simp: plan_client_transport_spec Let_def dial_policy_def split: if_splits)
  show thesis
  proof (cases ?ext)
    case None
    then show ?thesis
      using hello args policy
      by (intro that [of ?r None TI_UNSPECIFIED])
        (simp_all add: plan_build_client_hello_packet_def default_hello_request_def)
  next
    case (Some x)
    then show ?thesis
      using hello args policy
      by (intro that [of ?r "Some (chtp_transport_policy x)" "chtp_preferred_transport_id x"])
        (simp_all add: plan_build_client_hello_packet_def default_hello_request_def)
  qed
qed

lemma handshake:
  assumes boot: "bootstrap_client_transport r probe = Inr b"
    and ext: "pack_control_extension_block es = Inr (hr_control_extensions r)"
    and own: "\<forall>e \<in> set es. ext_type e \<noteq> CLIENT_HELLO_TRANSPORT_POLICY_EXTENSION"
    and profile: "server_profile_fits profile"
  shows "\<exists>session ack ctl hs e.
    accept_server_connection is_quic (\<lambda>_. Inr ()) (ctb_hello_packet b) None model (Some profile) None
      = (Inr session, \<lparr>ac_sent = [ack], ac_closed = False\<rparr>) \<and>
    resolve_client_auth_block (hr_auth_block r) (hr_requested_model r)
      = Inr (chc_auth_block (ss_hello session)) \<and>
    chc_control_extensions (ss_hello session) = hs @ es \<and>
    bootstrap_connected_client t b ack = Inr ctl \<and>
    ss_session_id session = hr_requested_session_id r \<and>
    sham_session_id (ccs_ack_metadata ctl) = hr_requested_session_id r \<and>
    unpack_control_extension_block None (pkt_body ack) = Inr [e] \<and>
    parse_server_hello_ack_transport_policy_extension e
      = Inr (let policy = dial_policy (settled_transport r probe) (hr_forced_transport_id r)
             in \<lparr>shtp_transport_policy = policy, shtp_accepted_transport_policy = policy,
                 shtp_active_transport_id = transport_id_for_connection is_quic\<rparr>)"
proof -
  let ?policy = "dial_policy (settled_transport r probe) (hr_forced_transport_id r)"
  obtain r' policy preferred where r': "build_client_hello_packet r' = Inr (ctb_hello_packet b)"
    "hr_wire_format r' = WF_CURRENT" "hr_control_extensions r' = hr_control_extensions r"
    "hr_auth_block r' = hr_auth_block r" "hr_requested_model r' = hr_requested_model r"
    "hr_requested_session_id r' = hr_requested_session_id r"
    "hello_transport_arguments r' = Inr (policy, preferred)"
    "(case policy of Some t \<Rightarrow> t | None \<Rightarrow> TP_AUTO) = ?policy"
    using boot by (rule bootstrapE)
  obtain ctx hs auth where ctx: "read_client_hello (ctb_hello_packet b) = Inr ctx"
    "resolve_client_auth_block (hr_auth_block r) (hr_requested_model r) = Inr auth"
    "chc_auth_block ctx = auth" "chc_control_extensions ctx = hs @ es"
    "chm_requested_session_id (chc_metadata ctx) = hr_requested_session_id r"
    "requested_transport_policy (chc_control_extensions ctx) = Inr ?policy"
  proof (rule read_built_hello [OF r'(1,2) _ r'(7)])
    show "pack_control_extension_block es = Inr (hr_control_extensions r')" using ext r'(3) by simp
  qed (use own r' that in auto)
  have "fits FI (hr_requested_session_id r')"
    using r'(1)
    by (auto elim!: build_client_hello_packetE simp: ClientHelloMetadata_pack_def
        fixed_width_pack_Inr dest!: struct_pack_fits)
      (simp add: CLIENT_HELLO_STRUCT_def ClientHelloMetadata_values_def client_hello_metadata_def)
  then have fit: "fits FI (hr_requested_session_id r)" using r'(6) by simp
  obtain ack m where ack:
    "build_server_hello_ack_packet (hr_requested_session_id r) profile
       (transport_id_for_connection is_quic) ?policy = Inr ack"
    "hdr_msg_type (pkt_header ack) = MT_SERVER_HELLO_ACK"
    "ServerHelloAckMetadata_unpack (pkt_metadata ack) = Inr m"
    "sham_session_id m = hr_requested_session_id r"
    "\<exists>e. unpack_control_extension_block None (pkt_body ack) = Inr [e] \<and>
       parse_server_hello_ack_transport_policy_extension e
         = Inr \<lparr>shtp_transport_policy = ?policy, shtp_accepted_transport_policy = ?policy,
                shtp_active_transport_id = transport_id_for_connection is_quic\<rparr>"
    by (rule server_hello_ack_builds [OF profile fit])
  then show ?thesis
    using ctx
    by (auto simp: accept_server_connection_def accept_server_connection_body_def Let_def
        bootstrap_connected_client_def)
qed

end
