(* ===== verification/Server_Session.thy ===== *)
theory Server_Session
  imports Client_Session Server_Accept
begin

text \<open>
  The server side of a session (\<open>server/transport.py\<close>): receiving submits, sending results,
  drops and flow updates.
\<close>

section \<open>Receiving submits\<close>

record ReceivedSubmit =
  rsub_packet :: NnrpPacket
  rsub_metadata :: FrameSubmitMetadata
  rsub_request :: SubmitRequest
  rsub_tensor_body :: "TensorBodyView option"

definition decode_submit_request ::
    "NnrpPacket \<Rightarrow> FrameSubmitMetadata \<Rightarrow> (SubmitRequest \<times> TensorBodyView option) res" where
  "decode_submit_request packet metadata =
     bind_res (validate_frame_submit_body metadata (pkt_body packet)) (\<lambda>body_view.
     bind_res (if truthy (fsm_payload_kind_bitmap metadata AND PK_TENSOR)
               then bind_res (unpack_current_tensor_body body_view (fsm_section_count metadata)
                      (fsm_tile_count metadata)) (\<lambda>tb. Inr (Some tb))
               else Inr None) (\<lambda>tensor_body.
     Inr (\<lparr>srq_operation_id = fsm_operation_id metadata,
           srq_frame_id = hdr_frame_id (pkt_header packet),
           srq_header =
             \<lparr>shc_flags = hdr_flags (pkt_header packet), shc_view_id = hdr_view_id (pkt_header packet),
              shc_route_id = hdr_route_id (pkt_header packet),
              shc_trace_id = hdr_trace_id (pkt_header packet)\<rparr>,
           srq_metadata = metadata, srq_body = pkt_body packet\<rparr>, tensor_body)))"

definition receive_submit :: "int \<Rightarrow> NnrpPacket \<Rightarrow> ReceivedSubmit res" where
  "receive_submit session_id packet =
     (if hdr_msg_type (pkt_header packet) \<noteq> MT_FRAME_SUBMIT then ve ''expected FRAME_SUBMIT''
      else if hdr_wire_format (pkt_header packet) \<noteq> WF_CURRENT
      then ve ''expected current FRAME_SUBMIT''
      else if hdr_session_id (pkt_header packet) \<noteq> session_id then ve ''expected session_id''
      else bind_res (FrameSubmitMetadata_unpack (pkt_metadata packet)) (\<lambda>metadata.
        bind_res (decode_submit_request packet metadata) (\<lambda>(request, tensor_body).
        Inr \<lparr>rsub_packet = packet, rsub_metadata = metadata, rsub_request = request,
             rsub_tensor_body = tensor_body\<rparr>)))"

section \<open>Sending results\<close>

text \<open>
  The builder is chosen by what there is to send.  The version, the wire format and the
  session id are the session's own.
\<close>

definition server_result_args :: "int \<Rightarrow> result_push_args \<Rightarrow> result_push_args" where
  "server_result_args session_id a =
     a\<lparr>rpa_version_major := 1, rpa_wire_format := WF_CURRENT,
       rpa_route := (rpa_route a)\<lparr>pr_session_id := session_id\<rparr>\<rparr>"

definition send_result_packet :: "int \<Rightarrow> result_push_args \<Rightarrow> TypedPayloadFrame list \<Rightarrow> NnrpPacket res" where
  "send_result_packet session_id a typed_payloads =
     (let args = server_result_args session_id a in
      if typed_payloads \<noteq> [] then
        bind_res (map_res TypedPayload_to_core_frame typed_payloads) (\<lambda>typed_frames.
        if rpa_tile_ids a \<noteq> [] \<or> rpa_sections a \<noteq> []
        then build_result_push_mixed_packet args typed_frames
        else build_result_push_typed_payload_packet args typed_frames)
      else build_result_push_packet args)"

definition send_result ::
    "(NnrpPacket \<Rightarrow> int res) \<Rightarrow> int \<Rightarrow> result_push_args \<Rightarrow> TypedPayloadFrame list \<Rightarrow> int res" where
  "send_result send session_id a typed_payloads =
     bind_res (send_result_packet session_id a typed_payloads) send"

definition send_result_drop :: "(NnrpPacket \<Rightarrow> int res) \<Rightarrow> int \<Rightarrow> packet_route \<Rightarrow> int res" where
  "send_result_drop send session_id r = send (build_result_drop_packet (r\<lparr>pr_session_id := session_id\<rparr>))"

definition server_flow_update_packet ::
    "int \<Rightarrow> FlowUpdateMetadata \<Rightarrow> int \<Rightarrow> int \<Rightarrow> NnrpPacket res" where
  "server_flow_update_packet session_id metadata trace_id flags =
     build_flow_update_packet metadata
       (no_route\<lparr>pr_session_id := session_id, pr_trace_id := trace_id, pr_flags := flags\<rparr>)"

end
