(* ===== verification/Packet_Stream.thy ===== *)
theory Packet_Stream
  imports Packet
begin

text \<open>
  Reassembly of packets from a byte stream: \<open>_try_unpack_packet\<close> of \<open>adapters/tcp.py\<close> and
  \<open>adapters/quic.py\<close> and the loop both readers run after every chunk.  The result does not
  depend on how the stream is cut into chunks.
\<close>

text \<open>The kinds of packet the adapters keep apart.\<close>

abbreviation packet_type :: "NnrpPacket \<Rightarrow> MessageType" where
  "packet_type p \<equiv> hdr_msg_type (pkt_header p)"

abbreviation is_submit_packet :: "NnrpPacket \<Rightarrow> bool" where
  "is_submit_packet p \<equiv> packet_type p = MT_FRAME_SUBMIT"

abbreviation is_result_packet :: "NnrpPacket \<Rightarrow> bool" where
  "is_result_packet p \<equiv> packet_type p \<in> {MT_RESULT_PUSH, MT_RESULT_DROP}"

section \<open>One packet\<close>

text \<open>
  The packet at the front of the buffer, if it is complete, and what \<open>del buffer[:n]\<close> leaves.
\<close>

definition try_unpack_packet :: "bytes \<Rightarrow> (NnrpPacket option \<times> bytes) res" where
  "try_unpack_packet buffer =
     (if length buffer < HEADER_LENGTH then Inr (None, buffer)
      else bind_res (NnrpHeader_unpack None (py_slice 0 (int HEADER_LENGTH) buffer)) (\<lambda>header.
        let packet_length = hdr_header_len header + hdr_meta_len header + hdr_body_len header
        in if len buffer < packet_length then Inr (None, buffer)
           else bind_res (NnrpPacket_unpack (py_slice 0 packet_length buffer)) (\<lambda>p.
             Inr (Some p, slice_from packet_length buffer))))"

lemma try_unpack_SomeE:
  assumes "try_unpack_packet buffer = Inr (Some p, rest)"
  obtains bs where "NnrpPacket_pack p = Inr bs" "buffer = bs @ rest" "40 \<le> length bs"
proof -
  from assms obtain header where h: "NnrpHeader_unpack None (take 40 buffer) = Inr header"
    and l: "hdr_header_len header + hdr_meta_len header + hdr_body_len header \<le> len buffer"
    and p: "NnrpPacket_unpack (py_slice 0
        (hdr_header_len header + hdr_meta_len header + hdr_body_len header) buffer) = Inr p"
    and rest: "rest = slice_from
        (hdr_header_len header + hdr_meta_len header + hdr_body_len header) buffer"
    by (auto simp: try_unpack_packet_def Let_def res_simps split: if_splits)
  let ?n = "hdr_header_len header + hdr_meta_len header + hdr_body_len header"
  note bounds = NnrpHeader_unpack_bounds [OF h]
  then have n: "40 \<le> ?n" by simp
  show thesis
  proof (rule that)
    show "NnrpPacket_pack p = Inr (take (nat ?n) buffer)"
      using NnrpPacket_pack_unpack [OF p] n by simp
    show "buffer = take (nat ?n) buffer @ rest"
      using n by (simp add: rest slice_from_nonneg)
    show "40 \<le> length (take (nat ?n) buffer)"
      using n l by auto
  qed
qed

lemma try_unpack_shrinks: "try_unpack_packet b = Inr (Some p, r) \<Longrightarrow> length r < length b"
  by (elim try_unpack_SomeE) auto

lemma try_unpack_None: "try_unpack_packet b = Inr (None, r) \<Longrightarrow> r = b"
  by (auto simp: try_unpack_packet_def Let_def res_simps split: if_splits)

lemma packet_length:
  assumes "NnrpPacket_pack p = Inr bs"
  shows "NnrpHeader_unpack None (take 40 bs) = Inr (pkt_header p)"
    "len bs = hdr_header_len (pkt_header p) + hdr_meta_len (pkt_header p) + hdr_body_len (pkt_header p)"
    "40 \<le> length bs"
proof -
  obtain h where h: "NnrpHeader_pack (pkt_header p) = Inr h"
    "bs = h @ pkt_metadata p @ pkt_body p" "length h = 40"
    "len (pkt_metadata p) = hdr_meta_len (pkt_header p)"
    "len (pkt_body p) = hdr_body_len (pkt_header p)"
    using assms by (rule NnrpPacket_packE)
  show head: "NnrpHeader_unpack None (take 40 bs) = Inr (pkt_header p)"
    using NnrpHeader_unpack_pack [OF h(1)] h(2,3) by simp
  show "len bs = hdr_header_len (pkt_header p) + hdr_meta_len (pkt_header p) + hdr_body_len (pkt_header p)"
    using NnrpHeader_unpack_bounds(5) [OF head] h(2-5) by simp
  show "40 \<le> length bs" using h(2,3) by simp
qed

lemma try_unpack_packed: "NnrpPacket_pack p = Inr bs \<Longrightarrow> try_unpack_packet (bs @ rest) = Inr (Some p, rest)"
proof -
  assume p: "NnrpPacket_pack p = Inr bs"
  note l = packet_length [OF p]
  have n: "nat (hdr_header_len (pkt_header p) + hdr_meta_len (pkt_header p) + hdr_body_len (pkt_header p))
      = length bs"
    by (simp flip: l(2))
  show ?thesis
    using l NnrpPacket_unpack_pack [OF p]
    by (simp add: try_unpack_packet_def Let_def slice_from_nonneg n)
qed

text \<open>More bytes do not change what is already decided.\<close>

lemma try_unpack_append_Inl: "try_unpack_packet b = Inl e \<Longrightarrow> try_unpack_packet (b @ c) = Inl e"
proof -
  assume a: "try_unpack_packet b = Inl e"
  then have l: "40 \<le> length b" by (simp add: try_unpack_packet_def split: if_splits)
  show ?thesis
  proof (cases "NnrpHeader_unpack None (take 40 b)")
    case (Inl e')
    then show ?thesis using a l by (simp add: try_unpack_packet_def)
  next
    case (Inr header)
    let ?n = "hdr_header_len header + hdr_meta_len header + hdr_body_len header"
    have n: "0 \<le> ?n" using NnrpHeader_unpack_bounds [OF Inr] by simp
    have "\<not> len b < ?n" using a l Inr by (simp add: try_unpack_packet_def Let_def split: if_splits)
    moreover then have "py_slice 0 ?n (b @ c) = py_slice 0 ?n b" using n by simp
    ultimately show ?thesis
      using a l Inr by (simp add: try_unpack_packet_def Let_def bind_res_def split: sum.splits)
  qed
qed

lemma try_unpack_append_Some:
  "try_unpack_packet b = Inr (Some p, r) \<Longrightarrow> try_unpack_packet (b @ c) = Inr (Some p, r @ c)"
  by (elim try_unpack_SomeE) (simp add: try_unpack_packed)

section \<open>The reader's loop\<close>

text \<open>
  \<open>while True\<close>: take packets until none is complete; the packets routed so far, and the bytes
  left or the exception that ends the loop.
\<close>

function unpack_packets :: "bytes \<Rightarrow> NnrpPacket list \<times> bytes res" where
  "unpack_packets buffer =
     (case try_unpack_packet buffer of
        Inl e \<Rightarrow> ([], Inl e)
      | Inr (None, rest) \<Rightarrow> ([], Inr rest)
      | Inr (Some p, rest) \<Rightarrow> (case unpack_packets rest of (ps, r) \<Rightarrow> (p # ps, r)))"
  by pat_completeness auto

termination
  by (relation "measure length") (auto dest: try_unpack_shrinks)

declare unpack_packets.simps [simp del]

lemma unpack_packets_append:
  "unpack_packets (b @ c) =
     (case unpack_packets b of
        (ps, Inl e) \<Rightarrow> (ps, Inl e)
      | (ps, Inr r) \<Rightarrow> (case unpack_packets (r @ c) of (qs, x) \<Rightarrow> (ps @ qs, x)))"
proof (induction b rule: unpack_packets.induct)
  case (1 b)
  show ?case
  proof (cases "try_unpack_packet b")
    case (Inl e)
    then show ?thesis
      using try_unpack_append_Inl [OF Inl, of c] by (simp add: unpack_packets.simps [of "_ @ _"] unpack_packets.simps [of b])
  next
    case (Inr pr)
    obtain po r where pr: "pr = (po, r)" by fastforce
    show ?thesis
    proof (cases po)
      case None
      then have r: "r = b" using Inr pr try_unpack_None by simp
      show ?thesis
        using Inr by (simp add: unpack_packets.simps [of b] pr None r split: prod.split)
    next
      case (Some p)
      have "try_unpack_packet (b @ c) = Inr (Some p, r @ c)"
        using Inr pr Some try_unpack_append_Some by simp
      then show ?thesis
        using Inr pr Some "1" [OF Inr pr [symmetric] Some]
        by (simp add: unpack_packets.simps [of "b @ c"] unpack_packets.simps [of b]
            split: prod.split sum.split)
    qed
  qed
qed

lemma unpack_packets_rest: "unpack_packets b = (ps, Inr r) \<Longrightarrow> unpack_packets r = ([], Inr r)"
proof (induction b arbitrary: ps rule: unpack_packets.induct)
  case (1 b)
  show ?case
  proof (cases "try_unpack_packet b")
    case (Inr pr)
    obtain po r' where pr: "pr = (po, r')" by fastforce
    show ?thesis
    proof (cases po)
      case None
      then have "r = b" using Inr pr "1.prems" try_unpack_None [of b r'] by (simp add: unpack_packets.simps [of b])
      then show ?thesis using Inr pr None try_unpack_None [of b r'] by (simp add: unpack_packets.simps [of b])
    next
      case (Some p)
      then show ?thesis
        using 1 Inr pr by (auto simp: unpack_packets.simps [of b] split: prod.splits)
    qed
  qed (use "1.prems" in \<open>simp add: unpack_packets.simps [of b]\<close>)
qed

lemma unpack_packets_Nil [simp]: "unpack_packets [] = ([], Inr [])"
  by (simp add: unpack_packets.simps try_unpack_packet_def)

lemma unpack_packets_packed:
  "map_res NnrpPacket_pack ps = Inr bss \<Longrightarrow> unpack_packets (concat bss) = (ps, Inr [])"
proof (induction ps arbitrary: bss)
  case (Cons p ps)
  then obtain bs bss' where b: "NnrpPacket_pack p = Inr bs" "map_res NnrpPacket_pack ps = Inr bss'"
    "bss = bs # bss'"
    by (auto simp: res_simps)
  then show ?case
    using try_unpack_packed [OF b(1), of "concat bss'"] Cons.IH [OF b(2)]
    by (simp add: unpack_packets.simps [of "bs @ _"])
qed simp

text \<open>The loop runs at most once for every 40 bytes, and once more.\<close>

lemma unpack_packets_count: "unpack_packets b = (ps, r) \<Longrightarrow> 40 * length ps \<le> length b"
proof (induction b arbitrary: ps r rule: unpack_packets.induct)
  case (1 b)
  show ?case
  proof (cases "try_unpack_packet b")
    case (Inr pr)
    obtain po r' where pr: "pr = (po, r')" by fastforce
    show ?thesis
    proof (cases po)
      case (Some p)
      then obtain ps' where ps: "ps = p # ps'" "unpack_packets r' = (ps', r)"
        using Inr pr "1.prems" by (auto simp: unpack_packets.simps [of b] split: prod.splits)
      have "40 + length r' \<le> length b"
        using Inr pr Some by (auto elim!: try_unpack_SomeE)
      then show ?thesis using "1.IH" [OF Inr pr [symmetric] Some ps(2)] ps(1) by simp
    qed (use Inr pr "1.prems" in \<open>simp add: unpack_packets.simps [of b]\<close>)
  qed (use "1.prems" in \<open>simp add: unpack_packets.simps [of b]\<close>)
qed

section \<open>Chunks\<close>

text \<open>
  What a reader does with one chunk: extend the buffer, run the loop.  The state is the bytes
  left over, or \<open>None\<close> after an exception, when the reader has stopped.
\<close>

definition feed_chunk :: "bytes \<Rightarrow> bytes res \<Rightarrow> NnrpPacket list \<times> bytes res" where
  "feed_chunk chunk st =
     (case st of Inl e \<Rightarrow> ([], Inl e) | Inr buffer \<Rightarrow> unpack_packets (buffer @ chunk))"

fun feed_chunks :: "bytes list \<Rightarrow> bytes res \<Rightarrow> NnrpPacket list \<times> bytes res" where
  "feed_chunks [] st = ([], st)"
| "feed_chunks (c # cs) st =
     (case feed_chunk c st of (ps, st') \<Rightarrow> (case feed_chunks cs st' of (qs, st'') \<Rightarrow> (ps @ qs, st'')))"

lemma feed_chunks_Inl: "feed_chunks cs (Inl e) = ([], Inl e)"
  by (induction cs) (simp_all add: feed_chunk_def)

lemma feed_chunks_concat:
  "unpack_packets b = ([], Inr b) \<Longrightarrow> feed_chunks cs (Inr b) = unpack_packets (b @ concat cs)"
proof (induction cs arbitrary: b)
  case (Cons c cs)
  obtain ps st where f: "unpack_packets (b @ c) = (ps, st)" by fastforce
  show ?case
  proof (cases st)
    case (Inl e)
    then show ?thesis
      using f unpack_packets_append [of "b @ c" "concat cs"]
      by (simp add: feed_chunk_def feed_chunks_Inl)
  next
    case (Inr r)
    have "feed_chunks cs (Inr r) = unpack_packets (r @ concat cs)"
      using Cons.IH unpack_packets_rest f Inr by blast
    then show ?thesis
      using f Inr unpack_packets_append [of "b @ c" "concat cs"] by (simp add: feed_chunk_def)
  qed
qed simp

lemma chunking_irrelevant: "feed_chunks cs (Inr []) = unpack_packets (concat cs)"
  using feed_chunks_concat [of "[]"] by simp

end
