(* ===== verification/Tcp_Connection.thy ===== *)
theory Tcp_Connection
  imports Packet_Stream
begin

text \<open>
  \<open>NnrpTcpConnection\<close> of \<open>adapters/tcp.py\<close>: one ordered byte stream that carries control,
  submit and result packets, the reader task that reassembles and routes them, and the
  synthetic stream ids.  A method is a function from the connection to its result and the
  connection after it; what the socket does (a chunk, the end of the stream, a timeout, a
  failing \<open>drain\<close>) is an argument.
\<close>

section \<open>State\<close>

text \<open>
  \<open>tcp_reader\<close> is the local \<open>buffer\<close> of \<open>_read_packets\<close>, \<open>None\<close> once the task has returned;
  \<open>tcp_written\<close> is what went to \<open>writer.write\<close>.
\<close>

record tcp_connection =
  tcp_incoming_control :: "NnrpPacket list"
  tcp_incoming_submit :: "NnrpPacket list"
  tcp_incoming_result :: "NnrpPacket list"
  tcp_terminal_error :: "exn option"
  tcp_last_submit_stream_id :: "int option"
  tcp_last_result_stream_id :: "int option"
  tcp_next_outgoing_submit :: int
  tcp_next_incoming_submit :: int
  tcp_next_outgoing_result :: int
  tcp_next_incoming_result :: int
  tcp_reader :: "bytes option"
  tcp_written :: bytes

definition tcp_connection_init :: tcp_connection where
  "tcp_connection_init =
     \<lparr>tcp_incoming_control = [], tcp_incoming_submit = [], tcp_incoming_result = [],
      tcp_terminal_error = None, tcp_last_submit_stream_id = None,
      tcp_last_result_stream_id = None, tcp_next_outgoing_submit = 2,
      tcp_next_incoming_submit = 2, tcp_next_outgoing_result = 2,
      tcp_next_incoming_result = 2, tcp_reader = Some [], tcp_written = []\<rparr>"

type_synonym 'a tcp_call = "tcp_connection \<Rightarrow> 'a res \<times> tcp_connection"

section \<open>Errors\<close>

abbreviation tcp_closed_error :: exn where
  "tcp_closed_error \<equiv> RuntimeError ''TCP connection closed by peer''"

abbreviation tcp_idle_error :: exn where
  "tcp_idle_error \<equiv> RuntimeError ''TCP connection idle timeout expired''"

abbreviation tcp_decode_error :: exn where
  "tcp_decode_error \<equiv> RuntimeError ''failed to decode packet on TCP control stream''"

abbreviation tcp_trailing_error :: exn where
  "tcp_trailing_error \<equiv> RuntimeError ''TCP control stream ended with trailing bytes''"

abbreviation tcp_send_error :: exn where
  "tcp_send_error \<equiv> RuntimeError ''TCP send failed''"

text \<open>The first error stays.\<close>

definition tcp_fail_connection :: "exn \<Rightarrow> tcp_connection \<Rightarrow> tcp_connection" where
  "tcp_fail_connection error s =
     (if tcp_terminal_error s \<noteq> None then s else s\<lparr>tcp_terminal_error := Some error\<rparr>)"

definition tcp_raise_if_terminal_error :: "tcp_connection \<Rightarrow> unit res" where
  "tcp_raise_if_terminal_error s =
     (case tcp_terminal_error s of Some e \<Rightarrow> Inl e | None \<Rightarrow> Inr ())"

section \<open>The reader task\<close>

definition allocate_incoming_submit :: "tcp_connection \<Rightarrow> int \<times> tcp_connection" where
  "allocate_incoming_submit s =
     (tcp_next_incoming_submit s, s\<lparr>tcp_next_incoming_submit := tcp_next_incoming_submit s + 4\<rparr>)"

definition allocate_incoming_result :: "tcp_connection \<Rightarrow> int \<times> tcp_connection" where
  "allocate_incoming_result s =
     (tcp_next_incoming_result s, s\<lparr>tcp_next_incoming_result := tcp_next_incoming_result s + 4\<rparr>)"

definition tcp_route_packet :: "NnrpPacket \<Rightarrow> tcp_connection \<Rightarrow> tcp_connection" where
  "tcp_route_packet p s =
     (if is_submit_packet p then
        (case allocate_incoming_submit s of (i, s) \<Rightarrow>
           s\<lparr>tcp_last_submit_stream_id := Some i,
             tcp_incoming_submit := tcp_incoming_submit s @ [p]\<rparr>)
      else if is_result_packet p then
        (case allocate_incoming_result s of (i, s) \<Rightarrow>
           s\<lparr>tcp_last_result_stream_id := Some i,
             tcp_incoming_result := tcp_incoming_result s @ [p]\<rparr>)
      else s\<lparr>tcp_incoming_control := tcp_incoming_control s @ [p]\<rparr>)"

text \<open>
  One pass of the outer loop of \<open>_read_packets\<close>, for the chunk \<open>read\<close> returned; an empty one
  is the end of the stream.
\<close>

definition tcp_read_chunk :: "bytes \<Rightarrow> tcp_connection \<Rightarrow> tcp_connection" where
  "tcp_read_chunk chunk s =
     (case tcp_reader s of
        None \<Rightarrow> s
      | Some buffer \<Rightarrow>
          if chunk = [] then
            tcp_fail_connection (if buffer \<noteq> [] then tcp_trailing_error else tcp_closed_error)
              (s\<lparr>tcp_reader := None\<rparr>)
          else (case unpack_packets (buffer @ chunk) of
                  (packets, Inr rest) \<Rightarrow> fold tcp_route_packet packets (s\<lparr>tcp_reader := Some rest\<rparr>)
                | (packets, Inl e) \<Rightarrow>
                    tcp_fail_connection tcp_decode_error
                      (fold tcp_route_packet packets (s\<lparr>tcp_reader := None\<rparr>))))"

definition tcp_read_timeout :: "tcp_connection \<Rightarrow> tcp_connection" where
  "tcp_read_timeout s =
     (case tcp_reader s of
        None \<Rightarrow> s
      | Some buffer \<Rightarrow> tcp_fail_connection tcp_idle_error (s\<lparr>tcp_reader := None\<rparr>))"

section \<open>Sending\<close>

definition tcp_send_packet :: "bool \<Rightarrow> NnrpPacket \<Rightarrow> unit tcp_call" where
  "tcp_send_packet drains packet s =
     (case tcp_raise_if_terminal_error s of
        Inl e \<Rightarrow> (Inl e, s)
      | Inr _ \<Rightarrow>
          (case NnrpPacket_pack packet of
             Inl e \<Rightarrow> (Inl e, s)
           | Inr bs \<Rightarrow>
               let s = s\<lparr>tcp_written := tcp_written s @ bs\<rparr>
               in if drains then (Inr (), s)
                  else let s = tcp_fail_connection tcp_send_error s
                       in (tcp_raise_if_terminal_error s, s)))"

definition tcp_send_control_packet :: "bool \<Rightarrow> NnrpPacket \<Rightarrow> unit tcp_call" where
  "tcp_send_control_packet drains packet s = tcp_send_packet drains packet s"

text \<open>The stream id is allocated first, whatever happens to the packet then.\<close>

definition tcp_send_submit_packet :: "bool \<Rightarrow> NnrpPacket \<Rightarrow> int tcp_call" where
  "tcp_send_submit_packet drains packet s =
     (if \<not> is_submit_packet packet then (ve ''expected FRAME_SUBMIT packet'', s)
      else let stream_id = tcp_next_outgoing_submit s;
               s = s\<lparr>tcp_next_outgoing_submit := tcp_next_outgoing_submit s + 4\<rparr>
           in case tcp_send_packet drains packet s of
                (Inl e, s) \<Rightarrow> (Inl e, s)
              | (Inr _, s) \<Rightarrow> (Inr stream_id, s))"

definition tcp_send_result_packet :: "bool \<Rightarrow> NnrpPacket \<Rightarrow> int tcp_call" where
  "tcp_send_result_packet drains packet s =
     (if \<not> is_result_packet packet then (ve ''expected RESULT_PUSH or RESULT_DROP packet'', s)
      else let stream_id = tcp_next_outgoing_result s;
               s = s\<lparr>tcp_next_outgoing_result := tcp_next_outgoing_result s + 4\<rparr>
           in case tcp_send_packet drains packet s of
                (Inl e, s) \<Rightarrow> (Inl e, s)
              | (Inr _, s) \<Rightarrow> (Inr stream_id, s))"

section \<open>Receiving\<close>

text \<open>
  \<open>_receive_from_queue\<close>: a terminal error is raised before the queue is looked at.  Once the
  call waits, a packet wins over the termination.  \<open>None\<close> means that the call (still) waits.
\<close>

datatype tcp_queue = ControlQueue | SubmitQueue | ResultQueue

fun tcp_queue_of :: "tcp_queue \<Rightarrow> tcp_connection \<Rightarrow> NnrpPacket list" where
  "tcp_queue_of ControlQueue s = tcp_incoming_control s"
| "tcp_queue_of SubmitQueue s = tcp_incoming_submit s"
| "tcp_queue_of ResultQueue s = tcp_incoming_result s"

fun tcp_set_queue :: "tcp_queue \<Rightarrow> NnrpPacket list \<Rightarrow> tcp_connection \<Rightarrow> tcp_connection" where
  "tcp_set_queue ControlQueue q s = s\<lparr>tcp_incoming_control := q\<rparr>"
| "tcp_set_queue SubmitQueue q s = s\<lparr>tcp_incoming_submit := q\<rparr>"
| "tcp_set_queue ResultQueue q s = s\<lparr>tcp_incoming_result := q\<rparr>"

definition tcp_receive_waiting ::
    "tcp_queue \<Rightarrow> tcp_connection \<Rightarrow> NnrpPacket res option \<times> tcp_connection" where
  "tcp_receive_waiting q s =
     (case tcp_queue_of q s of
        p # ps \<Rightarrow> (Some (Inr p), tcp_set_queue q ps s)
      | [] \<Rightarrow> (case tcp_terminal_error s of Some e \<Rightarrow> (Some (Inl e), s) | None \<Rightarrow> (None, s)))"

definition tcp_receive_from_queue ::
    "tcp_queue \<Rightarrow> tcp_connection \<Rightarrow> NnrpPacket res option \<times> tcp_connection" where
  "tcp_receive_from_queue q s =
     (case tcp_raise_if_terminal_error s of
        Inl e \<Rightarrow> (Some (Inl e), s)
      | Inr _ \<Rightarrow> tcp_receive_waiting q s)"

section \<open>What the peer receives\<close>

lemma fold_route:
  "tcp_incoming_control (fold tcp_route_packet ps s)
     = tcp_incoming_control s @ filter (\<lambda>p. \<not> is_submit_packet p \<and> \<not> is_result_packet p) ps"
  "tcp_incoming_submit (fold tcp_route_packet ps s)
     = tcp_incoming_submit s @ filter is_submit_packet ps"
  "tcp_incoming_result (fold tcp_route_packet ps s)
     = tcp_incoming_result s @ filter is_result_packet ps"
  "tcp_terminal_error (fold tcp_route_packet ps s) = tcp_terminal_error s"
  "tcp_reader (fold tcp_route_packet ps s) = tcp_reader s"
  "tcp_next_incoming_submit (fold tcp_route_packet ps s)
     = tcp_next_incoming_submit s + 4 * len (filter is_submit_packet ps)"
  "tcp_next_incoming_result (fold tcp_route_packet ps s)
     = tcp_next_incoming_result s + 4 * len (filter is_result_packet ps)"
  by (induction ps arbitrary: s)
    (auto simp: tcp_route_packet_def allocate_incoming_submit_def allocate_incoming_result_def)

lemma route_reader:
  "tcp_route_packet p (s\<lparr>tcp_reader := b\<rparr>) = (tcp_route_packet p s)\<lparr>tcp_reader := b\<rparr>"
  by (cases s)
    (simp add: tcp_route_packet_def allocate_incoming_submit_def allocate_incoming_result_def)

lemma fold_route_reader:
  "fold tcp_route_packet ps (s\<lparr>tcp_reader := b\<rparr>) = (fold tcp_route_packet ps s)\<lparr>tcp_reader := b\<rparr>"
  by (induction ps arbitrary: s) (simp_all add: route_reader)

text \<open>Reading chunk by chunk is routing what the whole stream unpacks to.\<close>

lemma read_chunks:
  assumes "tcp_reader s = Some b" "unpack_packets b = ([], Inr b)" "[] \<notin> set chunks"
    "unpack_packets (b @ concat chunks) = (ps, Inr rest)"
  shows "fold tcp_read_chunk chunks s = fold tcp_route_packet ps (s\<lparr>tcp_reader := Some rest\<rparr>)"
  using assms
proof (induction chunks arbitrary: s b ps)
  case Nil
  then show ?case by (cases s) simp
next
  case (Cons c cs)
  obtain qs x where first: "unpack_packets (b @ c) = (qs, x)" by fastforce
  have "unpack_packets ((b @ c) @ concat cs) = (ps, Inr rest)"
    using Cons.prems(4) by simp
  note whole = this [unfolded unpack_packets_append [of "b @ c" "concat cs"]]
  then obtain r where x: "x = Inr r"
    using first by (cases x) auto
  obtain qs' where tail: "unpack_packets (r @ concat cs) = (qs', Inr rest)" "ps = qs @ qs'"
    using whole first x by (auto split: prod.splits)
  have step: "tcp_read_chunk c s = fold tcp_route_packet qs (s\<lparr>tcp_reader := Some r\<rparr>)"
    using Cons.prems(1,3) first x by (auto simp: tcp_read_chunk_def)
  have "fold tcp_read_chunk cs (tcp_read_chunk c s)
      = fold tcp_route_packet qs' ((tcp_read_chunk c s)\<lparr>tcp_reader := Some rest\<rparr>)"
    using Cons.prems(3) unpack_packets_rest [of "b @ c" qs r] first x tail(1)
    by (intro Cons.IH [of _ r]) (simp_all add: step fold_route(5))
  then show ?case
    by (simp add: step tail(2) fold_route_reader)
qed

text \<open>The methods a session uses, by the type of the packet.\<close>

definition tcp_send :: "NnrpPacket \<Rightarrow> tcp_connection \<Rightarrow> unit res \<times> tcp_connection" where
  "tcp_send p s =
     (if is_submit_packet p then
        (case tcp_send_submit_packet True p s of (r, s) \<Rightarrow> (bind_res r (\<lambda>_. Inr ()), s))
      else if is_result_packet p then
        (case tcp_send_result_packet True p s of (r, s) \<Rightarrow> (bind_res r (\<lambda>_. Inr ()), s))
      else tcp_send_control_packet True p s)"

fun tcp_send_all :: "NnrpPacket list \<Rightarrow> tcp_connection \<Rightarrow> unit res \<times> tcp_connection" where
  "tcp_send_all [] s = (Inr (), s)"
| "tcp_send_all (p # ps) s =
     (case tcp_send p s of (Inl e, s) \<Rightarrow> (Inl e, s) | (Inr _, s) \<Rightarrow> tcp_send_all ps s)"

lemma tcp_send_Inr:
  assumes "tcp_send p s = (Inr (), s')"
  shows "\<exists>bs. NnrpPacket_pack p = Inr bs \<and> tcp_written s' = tcp_written s @ bs"
    "tcp_next_outgoing_submit s' = tcp_next_outgoing_submit s + (if is_submit_packet p then 4 else 0)"
    "tcp_next_outgoing_result s' = tcp_next_outgoing_result s + (if is_result_packet p then 4 else 0)"
  using assms
  by (auto simp: tcp_send_def tcp_send_submit_packet_def tcp_send_result_packet_def
      tcp_send_control_packet_def tcp_send_packet_def Let_def split: sum.splits if_splits prod.splits)

lemma tcp_send_all_Inr:
  "tcp_send_all ps s = (Inr (), s') \<Longrightarrow>
     (\<exists>bss. map_res NnrpPacket_pack ps = Inr bss \<and> tcp_written s' = tcp_written s @ concat bss) \<and>
     tcp_next_outgoing_submit s' = tcp_next_outgoing_submit s + 4 * len (filter is_submit_packet ps) \<and>
     tcp_next_outgoing_result s' = tcp_next_outgoing_result s + 4 * len (filter is_result_packet ps)"
proof (induction ps arbitrary: s)
  case (Cons p ps)
  then obtain s1 where s1: "tcp_send p s = (Inr (), s1)" "tcp_send_all ps s1 = (Inr (), s')"
    by (auto split: prod.splits sum.splits)
  obtain bs where "NnrpPacket_pack p = Inr bs" "tcp_written s1 = tcp_written s @ bs"
    using tcp_send_Inr(1) [OF s1(1)] by blast
  then show ?case
    using Cons.IH [OF s1(2)] tcp_send_Inr(2,3) [OF s1(1)] by auto
qed simp

lemma tcp_delivery:
  assumes "tcp_send_all ps tcp_connection_init = (Inr (), sender)"
    "concat chunks = tcp_written sender" "[] \<notin> set chunks"
  defines "receiver \<equiv> fold tcp_read_chunk chunks tcp_connection_init"
  shows "tcp_incoming_control receiver = filter (\<lambda>p. \<not> is_submit_packet p \<and> \<not> is_result_packet p) ps"
    "tcp_incoming_submit receiver = filter is_submit_packet ps"
    "tcp_incoming_result receiver = filter is_result_packet ps"
    "tcp_terminal_error receiver = None" "tcp_reader receiver = Some []"
    "tcp_next_incoming_submit receiver = tcp_next_outgoing_submit sender"
    "tcp_next_incoming_result receiver = tcp_next_outgoing_result sender"
proof -
  obtain bss where bss: "map_res NnrpPacket_pack ps = Inr bss" "tcp_written sender = concat bss"
    and next_ids: "tcp_next_outgoing_submit sender = 2 + 4 * len (filter is_submit_packet ps)"
      "tcp_next_outgoing_result sender = 2 + 4 * len (filter is_result_packet ps)"
    using tcp_send_all_Inr [OF assms(1)] by (auto simp: tcp_connection_init_def)
  have "receiver = fold tcp_route_packet ps (tcp_connection_init\<lparr>tcp_reader := Some []\<rparr>)"
    unfolding receiver_def
    using assms(2,3) bss unpack_packets_packed [OF bss(1)]
    by (intro read_chunks [where b = "[]"]) (simp_all add: tcp_connection_init_def)
  then show "tcp_incoming_control receiver = filter (\<lambda>p. \<not> is_submit_packet p \<and> \<not> is_result_packet p) ps"
    "tcp_incoming_submit receiver = filter is_submit_packet ps"
    "tcp_incoming_result receiver = filter is_result_packet ps"
    "tcp_terminal_error receiver = None" "tcp_reader receiver = Some []"
    "tcp_next_incoming_submit receiver = tcp_next_outgoing_submit sender"
    "tcp_next_incoming_result receiver = tcp_next_outgoing_result sender"
    by (simp_all add: fold_route next_ids tcp_connection_init_def)
qed

section \<open>Packets that arrived before the connection ended\<close>

text \<open>
  A call that was already waiting still gets a packet that arrived together with the end of
  the stream; a call made afterwards raises, whatever is queued.
\<close>

lemma receive_after_end:
  assumes "tcp_terminal_error s = Some e" "tcp_queue_of q s = p # ps"
  shows "tcp_receive_waiting q s = (Some (Inr p), tcp_set_queue q ps s)"
    "tcp_receive_from_queue q s = (Some (Inl e), s)"
  using assms
  by (simp_all add: tcp_receive_waiting_def tcp_receive_from_queue_def tcp_raise_if_terminal_error_def)

lemma result_lost_at_close:
  assumes "NnrpPacket_pack p = Inr bs" "is_result_packet p"
  defines "s \<equiv> tcp_read_chunk [] (tcp_read_chunk bs tcp_connection_init)"
  shows "tcp_incoming_result s = [p]"
    "tcp_receive_from_queue ResultQueue s = (Some (Inl tcp_closed_error), s)"
proof -
  have bs: "bs \<noteq> []" using packet_length(3) [OF assms(1)] by auto
  have u: "unpack_packets bs = ([p], Inr [])"
    using unpack_packets_packed [of "[p]" "[bs]"] assms(1) by simp
  let ?t = "tcp_route_packet p tcp_connection_init"
  have init: "tcp_reader tcp_connection_init = Some []"
    "tcp_connection_init\<lparr>tcp_reader := Some []\<rparr> = tcp_connection_init"
    "tcp_terminal_error tcp_connection_init = None" "tcp_incoming_result tcp_connection_init = []"
    by (simp_all add: tcp_connection_init_def)
  have "tcp_read_chunk bs tcp_connection_init = ?t"
    using bs u by (simp add: tcp_read_chunk_def init)
  moreover have "tcp_reader ?t = Some []" "tcp_terminal_error ?t = None"
    using fold_route(4,5) [of "[p]" tcp_connection_init] by (simp_all add: init)
  ultimately have s: "s = ?t\<lparr>tcp_reader := None, tcp_terminal_error := Some tcp_closed_error\<rparr>"
    by (simp add: s_def tcp_read_chunk_def tcp_fail_connection_def)
  show "tcp_incoming_result s = [p]"
    using assms(2) fold_route(3) [of "[p]" tcp_connection_init]
    by (simp add: s init)
  show "tcp_receive_from_queue ResultQueue s = (Some (Inl tcp_closed_error), s)"
    by (simp add: s tcp_receive_from_queue_def tcp_raise_if_terminal_error_def)
qed

end
