(* ===== verification/Session_Exchange.thy ===== *)
theory Session_Exchange
  imports Server_Session Tcp_Connection
begin

text \<open>
  What client and server make of each other's submits and results.  A body that a receiver's
  validator accepts is always decoded by the steps that follow; the requests and results that
  the builders make are therefore received, and received as they were made.
\<close>

section \<open>A validated body decodes\<close>

text \<open>
  The validators look at the first block of a kind, the decoder at the last; a validated body
  has at most one.
\<close>

lemma last_block_of_kind_filter:
  "last_block_of_kind vs k =
     (case inline_of_kind k vs of [] \<Rightarrow> None | b # bs \<Rightarrow> Some (last (b # bs)))"
proof (induction vs rule: rev_induct)
  case (snoc b vs)
  then show ?case
    by (auto simp: last_block_of_kind_def inline_of_kind_def split: list.split
        dest!: arg_cong [where f = last])
qed (simp add: last_block_of_kind_def inline_of_kind_def)

lemma last_block_only:
  "length (inline_of_kind k vs) \<le> 1 \<Longrightarrow>
     last_block_of_kind vs k = (case inline_of_kind k vs of [] \<Rightarrow> None | b # _ \<Rightarrow> Some b)"
  by (cases "inline_of_kind k vs") (simp_all add: last_block_of_kind_filter)

lemma tensor_body_decodes:
  assumes vs: "unpack_inline_object_blocks (reg_inline_object (bv_regions v)) = Inr vs"
    and one: "length (inline_of_kind COK_TENSOR_SECTION_TABLE vs) \<le> 1"
    and table: "case inline_of_kind COK_TENSOR_SECTION_TABLE vs of
        b # _ \<Rightarrow> (\<exists>t. unpack_tensor_body (iov_payload b) 0 sections (Some tiles) = Inr t) | [] \<Rightarrow> True"
  shows "\<exists>tb. unpack_current_tensor_body v sections tiles = Inr tb \<and>
    tbv_tile_index_block tb =
      (case last_block_of_kind vs COK_TILE_INDEX_BLOCK of Some b \<Rightarrow> iov_payload b | None \<Rightarrow> [])"
  using table
  by (auto simp: unpack_current_tensor_body_def vs Let_def last_block_only [OF one] split: list.splits)

lemma submit_tensor_decodes:
  assumes "validate_frame_submit_body m body = Inr v"
  shows "\<exists>tb. unpack_current_tensor_body v (fsm_section_count m) (fsm_tile_count m) = Inr tb"
proof -
  obtain inline refs where inline: "unpack_inline_object_blocks (reg_inline_object (bv_regions v)) = Inr inline"
    and spec: "submit_objects_spec m inline refs"
    using assms by (auto simp: validate_frame_submit_body_iff)
  have "length (inline_of_kind COK_TENSOR_SECTION_TABLE inline) \<le> 1"
    using spec by (auto simp: submit_objects_spec_def FRAME_SUBMIT_STANDARD_REFERENCE_SLOTS_def)
  moreover have "case inline_of_kind COK_TENSOR_SECTION_TABLE inline of
      b # _ \<Rightarrow> (\<exists>t. unpack_tensor_body (iov_payload b) 0 (fsm_section_count m) (Some (fsm_tile_count m)) = Inr t)
    | [] \<Rightarrow> True"
    using spec by (auto simp: submit_objects_spec_def split: list.splits)
  ultimately show ?thesis using tensor_body_decodes [OF inline] by blast
qed

text \<open>For a result, the tile ids decode too, under the mode that \<open>Result.tile_ids\<close> guesses.\<close>

lemma result_tensor_decodes:
  assumes "validate_result_push_body m body = Inr v" "0 \<le> rpm_tile_count m"
  shows "\<exists>tb ids. unpack_current_tensor_body v (rpm_section_count m) (rpm_tile_count m) = Inr tb \<and>
    unpack_tile_index_block (tbv_tile_index_block tb)
      (if truthy (rpm_tile_index_bytes m) then TIM_RAW_U16 else TIM_DENSE_RANGE)
      (rpm_tile_count m) (rpm_tile_base_id m) = Inr ids"
proof -
  obtain inline refs where inline: "unpack_inline_object_blocks (reg_inline_object (bv_regions v)) = Inr inline"
    and spec: "result_objects_spec m inline refs"
    using assms by (auto simp: validate_result_push_body_iff)
  have one: "length (inline_of_kind COK_TENSOR_SECTION_TABLE inline) \<le> 1"
    "length (inline_of_kind COK_TILE_INDEX_BLOCK inline) \<le> 1"
    using spec by (auto simp: result_objects_spec_def)
  have "case inline_of_kind COK_TENSOR_SECTION_TABLE inline of
      b # _ \<Rightarrow> (\<exists>t. unpack_tensor_body (iov_payload b) 0 (rpm_section_count m) (Some (rpm_tile_count m)) = Inr t)
    | [] \<Rightarrow> True"
    using spec by (auto simp: result_objects_spec_def split: list.splits)
  then obtain tb where tb: "unpack_current_tensor_body v (rpm_section_count m) (rpm_tile_count m) = Inr tb"
    "tbv_tile_index_block tb = (case inline_of_kind COK_TILE_INDEX_BLOCK inline of b # _ \<Rightarrow> iov_payload b | [] \<Rightarrow> [])"
    using tensor_body_decodes [OF inline one(1)] last_block_only [OF one(2)]
    by (auto split: list.splits)
  have "\<exists>ids. unpack_tile_index_block (tbv_tile_index_block tb)
      (if truthy (rpm_tile_index_bytes m) then TIM_RAW_U16 else TIM_DENSE_RANGE)
      (rpm_tile_count m) (rpm_tile_base_id m) = Inr ids"
  proof (cases "inline_of_kind COK_TILE_INDEX_BLOCK inline")
    case (Cons b bs)
    then show ?thesis using spec tb(2) by (auto simp: result_objects_spec_def)
  next
    case Nil
    then have "rpm_tile_index_bytes m = 0 \<or> rpm_tile_count m = 0"
      using spec assms(2) by (auto simp: result_objects_spec_def)
    then show ?thesis
      using Nil tb(2) assms(2) by (auto simp: unpack_tile_index_block_def unpack_table_def)
  qed
  with tb(1) show ?thesis by blast
qed

text \<open>The typed frames decode, and are in normal form.\<close>

lemma unpacked_descriptor_kinds:
  assumes "unpack_typed_payload_descriptors table = Inr ds" "d \<in> set ds"
  shows "0 \<le> tpd_payload_kind d" "TypedPayloadDescriptor_wf d"
proof -
  have "pack_typed_payload_descriptors ds = Inr table"
    using assms(1) by (rule tpds.pack_unpack)
  then obtain b where "TypedPayloadDescriptor_pack d = Inr b"
    using assms(2)
    by (auto simp: pack_typed_payload_descriptors_def pack_table_def res_simps map_res_Inr_iff
        list_all2_conv_all_nth in_set_conv_nth)
  then show "0 \<le> tpd_payload_kind d"
    by (auto simp: TypedPayloadDescriptor_pack_def fixed_width_pack_def res_simps fits_def
        TYPED_PAYLOAD_DESCRIPTOR_STRUCT_def TypedPayloadDescriptor_values_def dest!: struct_pack_fits)
  show "TypedPayloadDescriptor_wf d"
    using tpds.unpack_wf [OF assms(1)] assms(2) by (simp add: list_all_iff)
qed

lemma PayloadKind_call_idem [simp]: "PayloadKind_call (PayloadKind_call v) = PayloadKind_call v"
  by (simp add: PayloadKind_call_def int_flag_ge_0)

lemma build_typed_payload_frame_idem:
  "map_res build_typed_payload_frame fs = Inr ns \<Longrightarrow> map_res build_typed_payload_frame ns = Inr ns"
  by (auto simp: map_res_Inr_iff list_all2_conv_all_nth build_typed_payload_frame_iff)

lemma frame_of_descriptor_normal:
  assumes "TypedPayloadDescriptor_wf d" "0 \<le> tpd_payload_kind d" "tpd_payload_kind d \<noteq> 1"
    and "0 \<le> tpd_offset d" "tpd_offset d + tpd_length d \<le> len region"
  shows "build_typed_payload_frame (typed_frame_of_descriptor region d) =
    Inr (typed_frame_of_descriptor region d)"
proof -
  let ?f = "typed_frame_of_descriptor region d"
  have wf: "TypedPayloadDescriptor_wf (d\<lparr>tpd_offset := 0\<rparr>)" "0 \<le> tpd_length d"
    and kind: "tpd_payload_kind d \<noteq> 0" "tpd_payload_kind d AND (tpd_payload_kind d - 1) = 0"
    using assms(1,2) by (auto simp: TypedPayloadDescriptor_wf_def TypedPayloadDescriptor_post_init_def
        res_simps validate_Inr_iff validate_single_payload_kind_def Let_def split: if_splits)
  have "len (tfr_payload ?f) = tpd_length d"
    using assms(4,5) wf(2) by (simp add: typed_frame_of_descriptor_def length_py_slice)
  then have "typed_frame_descriptor ?f 0 = Inr (d\<lparr>tpd_offset := 0\<rparr>)"
    using wf(1) TypedPayloadDescriptor_wf_flags [OF assms(1)]
    by (cases d) (simp add: typed_frame_descriptor_iff typed_frame_of_descriptor_def)
  moreover have "tfr_payload_kind ?f = tpd_payload_kind d"
    by (simp add: typed_frame_of_descriptor_def)
  ultimately show ?thesis
    using assms(2,3) kind by (cases ?f) (simp add: build_typed_payload_frame_iff)
qed

lemma typed_frames_decode:
  assumes "typed_payload_spec bitmap n (bv_regions v)" "unpack_body body = Inr v" "0 \<le> bitmap"
  shows "\<exists>fs. unpack_typed_payload_frames (reg_typed_payload_descriptor (bv_regions v))
      (reg_typed_payload_frame (bv_regions v)) bitmap = Inr fs \<and>
    map_res build_typed_payload_frame fs = Inr fs \<and> len fs = n \<and>
    (\<forall>f \<in> set fs. tfr_payload_kind f \<noteq> 1 \<and> tfr_profile_id f \<noteq> 1)"
proof -
  let ?r = "bv_regions v"
  let ?region = "reg_typed_payload_frame ?r"
  obtain ds where ds: "unpack_typed_payload_descriptors (reg_typed_payload_descriptor ?r) = Inr ds"
    "len ds = n" "\<forall>d \<in> set ds. tpd_payload_kind d \<noteq> 1 \<and> tpd_profile_id d \<noteq> 1"
    "descriptor_kind_union ds = bitmap AND 126"
    using assms(1) by (auto simp: typed_payload_spec_def)
  have "body_regions_ok ?r"
    using assms(2) by (rule unpack_bodyE)
  then have offsets: "validate_descriptor_offsets tpd_offset tpd_length ds (len ?region) = Inr ()"
    using ds(1) by (auto simp: body_regions_ok_def)
  let ?fs = "map (typed_frame_of_descriptor ?region) ds"
  have fs: "unpack_typed_payload_frames (reg_typed_payload_descriptor ?r) ?region bitmap = Inr ?fs"
    using ds offsets assms(3)
    by (simp add: unpack_typed_payload_frames_def validate_typed_payload_kind_union_def)
  have bounds: "\<forall>d \<in> set ds. 0 \<le> tpd_offset d \<and> tpd_offset d + tpd_length d \<le> len ?region"
    using unpack_typed_payload_frames_layout [OF fs] ds(1) by auto
  have "map_res build_typed_payload_frame ?fs = Inr ?fs"
    using ds(3) bounds unpacked_descriptor_kinds [OF ds(1)]
    by (auto simp: map_res_Inr_iff list_all2_conv_all_nth frame_of_descriptor_normal)
  then show ?thesis
    using fs ds(2,3) by (auto simp: typed_frame_of_descriptor_def)
qed

section \<open>Receiving a result\<close>

lemma ResultPushMetadata_unpack_counts:
  assumes "ResultPushMetadata_unpack bs = Inr m"
  shows "0 \<le> rpm_tile_count m" "0 \<le> rpm_payload_kind_bitmap m"
proof -
  have "ResultPushMetadata_pack m = Inr bs"
    using assms by (rule rpm.pack_unpack)
  then show "0 \<le> rpm_tile_count m" "0 \<le> rpm_payload_kind_bitmap m"
    by (auto simp: ResultPushMetadata_pack_def fixed_width_pack_def res_simps fits_def
        RESULT_PUSH_STRUCT_def ResultPushMetadata_values_def dest!: struct_pack_fits)
qed

text \<open>The bare result, whose body \<open>receive_result\<close> does not look at.\<close>

definition bare_result :: "ResultPushMetadata \<Rightarrow> bytes \<Rightarrow> bool" where
  "bare_result m body \<longleftrightarrow> body = [] \<and> rpm_payload_frame_count m = 0
     \<and> \<not> truthy (rpm_payload_kind_bitmap m AND PK_TENSOR)"

text \<open>
  Reading a RESULT_PUSH: no step after the validation can fail, and what is read is what the
  regions hold.
\<close>

lemma receive_result_bare:
  assumes "packet_type p = MT_RESULT_PUSH" "ResultPushMetadata_unpack (pkt_metadata p) = Inr m"
    "bare_result m (pkt_body p)"
  shows "receive_result p = Inr \<lparr>res_packet = p, res_metadata = Some m, res_tensor_body = None,
    res_typed_payloads = []\<rparr>"
  using assms by (simp add: receive_result_def bare_result_def)

lemma receive_result_body:
  assumes "packet_type p = MT_RESULT_PUSH" "ResultPushMetadata_unpack (pkt_metadata p) = Inr m"
    "\<not> bare_result m (pkt_body p)" "validate_result_push_body m (pkt_body p) = Inr v"
  obtains fs tb where
    "unpack_typed_payload_frames (reg_typed_payload_descriptor (bv_regions v))
       (reg_typed_payload_frame (bv_regions v)) (rpm_payload_kind_bitmap m) = Inr fs"
    "unpack_current_tensor_body v (rpm_section_count m) (rpm_tile_count m) = Inr tb"
    "receive_result p = Inr \<lparr>res_packet = p, res_metadata = Some m,
       res_tensor_body = (if truthy (rpm_payload_kind_bitmap m AND PK_TENSOR) then Some tb else None),
       res_typed_payloads = fs\<rparr>"
    "len fs = rpm_payload_frame_count m" "\<forall>f \<in> set fs. tfr_payload_kind f \<noteq> 1 \<and> tfr_profile_id f \<noteq> 1"
    "\<exists>ids. unpack_tile_index_block (tbv_tile_index_block tb)
      (if truthy (rpm_tile_index_bytes m) then TIM_RAW_U16 else TIM_DENSE_RANGE)
      (rpm_tile_count m) (rpm_tile_base_id m) = Inr ids"
proof -
  note counts = ResultPushMetadata_unpack_counts [OF assms(2)]
  obtain tb ids where tb: "unpack_current_tensor_body v (rpm_section_count m) (rpm_tile_count m) = Inr tb"
    "unpack_tile_index_block (tbv_tile_index_block tb)
      (if truthy (rpm_tile_index_bytes m) then TIM_RAW_U16 else TIM_DENSE_RANGE)
      (rpm_tile_count m) (rpm_tile_base_id m) = Inr ids"
    using result_tensor_decodes [OF assms(4) counts(1)] by blast
  obtain fs where fs: "unpack_typed_payload_frames (reg_typed_payload_descriptor (bv_regions v))
      (reg_typed_payload_frame (bv_regions v)) (rpm_payload_kind_bitmap m) = Inr fs"
    "map_res build_typed_payload_frame fs = Inr fs" "len fs = rpm_payload_frame_count m"
    "\<forall>f \<in> set fs. tfr_payload_kind f \<noteq> 1 \<and> tfr_profile_id f \<noteq> 1"
    using typed_frames_decode [of "rpm_payload_kind_bitmap m" "rpm_payload_frame_count m" v "pkt_body p"]
      assms(4) counts(2) by (auto simp: validate_result_push_body_iff)
  have init: "TypedPayload_from_core_frame = build_typed_payload_frame"
    by (simp add: TypedPayload_from_core_frame_def TypedPayload_init_def fun_eq_iff)
  show thesis
  proof (rule that [OF fs(1) tb(1) _ fs(3,4)])
    show "receive_result p = Inr \<lparr>res_packet = p, res_metadata = Some m,
       res_tensor_body = (if truthy (rpm_payload_kind_bitmap m AND PK_TENSOR) then Some tb else None),
       res_typed_payloads = fs\<rparr>"
      using assms fs(1,2) tb(1) by (auto simp: receive_result_def bare_result_def init)
  qed (use tb(2) in blast)
qed

lemma receive_result_accepts:
  assumes "packet_type p = MT_RESULT_PUSH" "ResultPushMetadata_unpack (pkt_metadata p) = Inr m"
  shows "(\<exists>r. receive_result p = Inr r) \<longleftrightarrow>
    bare_result m (pkt_body p) \<or> (\<exists>v. validate_result_push_body m (pkt_body p) = Inr v)"
proof (cases "bare_result m (pkt_body p)")
  case True
  then show ?thesis using receive_result_bare [OF assms] by simp
next
  case False
  then have "(\<exists>r. receive_result p = Inr r) \<Longrightarrow> \<exists>v. validate_result_push_body m (pkt_body p) = Inr v"
    using assms by (auto simp: receive_result_def bare_result_def res_simps)
  with False show ?thesis using receive_result_body [OF assms False] by metis
qed

text \<open>Every property of a received result can be read.\<close>

lemma unpack_tile_index_length:
  assumes "unpack_tile_index_block t mode n base = Inr ids" "mode \<in> {TIM_RAW_U16, TIM_DENSE_RANGE}"
  shows "len ids = n"
  using assms
  by (auto simp: unpack_tile_index_block_def unpack_table_def map_res_Inr_iff
      split: if_splits dest!: list_all2_lengthD)

lemma received_result_readable:
  assumes "receive_result p = Inr r"
  shows "(\<exists>ids. Result_tile_ids r = Inr ids \<and>
      len ids = (case res_metadata r of Some m \<Rightarrow> if res_tensor_body r = None then 0 else rpm_tile_count m
                                      | None \<Rightarrow> 0)) \<and>
    len (res_typed_payloads r) = Result_payload_frame_count r \<and>
    (\<forall>f \<in> set (res_typed_payloads r). tfr_payload_kind f \<noteq> PK_TENSOR)" (is ?readable)
proof (cases "packet_type p = MT_RESULT_DROP")
  case True
  then show ?thesis
    using assms by (auto simp: receive_result_def Result_tile_ids_def Result_payload_frame_count_def)
next
  case False
  then have push: "packet_type p = MT_RESULT_PUSH"
    using assms by (auto simp: receive_result_def split: if_splits)
  then obtain m where m: "ResultPushMetadata_unpack (pkt_metadata p) = Inr m"
    using assms by (auto simp: receive_result_def res_simps)
  show ?thesis
  proof (cases "bare_result m (pkt_body p)")
    case True
    then show ?thesis
      using assms receive_result_bare [OF push m True]
      by (auto simp: Result_tile_ids_def Result_payload_frame_count_def bare_result_def)
  next
    case False
    then obtain v where v: "validate_result_push_body m (pkt_body p) = Inr v"
      using assms receive_result_accepts [OF push m] by blast
    show ?thesis
    proof (rule receive_result_body [OF push m False v])
      fix fs tb
      assume r: "receive_result p = Inr \<lparr>res_packet = p, res_metadata = Some m,
         res_tensor_body = (if truthy (rpm_payload_kind_bitmap m AND PK_TENSOR) then Some tb else None),
         res_typed_payloads = fs\<rparr>"
        and fs: "len fs = rpm_payload_frame_count m"
          "\<forall>f \<in> set fs. tfr_payload_kind f \<noteq> 1 \<and> tfr_profile_id f \<noteq> 1"
        and "\<exists>ids. unpack_tile_index_block (tbv_tile_index_block tb)
          (if truthy (rpm_tile_index_bytes m) then TIM_RAW_U16 else TIM_DENSE_RANGE)
          (rpm_tile_count m) (rpm_tile_base_id m) = Inr ids"
      then obtain ids where ids: "unpack_tile_index_block (tbv_tile_index_block tb)
          (if truthy (rpm_tile_index_bytes m) then TIM_RAW_U16 else TIM_DENSE_RANGE)
          (rpm_tile_count m) (rpm_tile_base_id m) = Inr ids" by blast
      moreover have "len ids = rpm_tile_count m"
        using ids by (rule unpack_tile_index_length) simp
      ultimately show ?readable
        using assms r fs by (auto simp: Result_tile_ids_def Result_payload_frame_count_def)
    qed
  qed
qed

section \<open>Results: what the server sends is what the client reads\<close>

lemma tile_modes_agree:
  assumes "unpack_tile_index_block t mode n base = Inr ids" "mode \<in> {TIM_RAW_U16, TIM_DENSE_RANGE}"
    "unpack_tile_index_block t mode' n base = Inr ids'" "mode' \<in> {TIM_RAW_U16, TIM_DENSE_RANGE}"
  shows "ids' = ids"
  using assms by (auto simp: unpack_tile_index_block_def split: if_splits)

text \<open>A validated result with tensors, given what its regions decode to.\<close>

lemma result_received:
  assumes p: "packet_type p = MT_RESULT_PUSH" "ResultPushMetadata_unpack (pkt_metadata p) = Inr m"
      "validate_result_push_body m (pkt_body p) = Inr v" "truthy (rpm_payload_kind_bitmap m AND PK_TENSOR)"
    and frames: "unpack_typed_payload_frames (reg_typed_payload_descriptor (bv_regions v))
       (reg_typed_payload_frame (bv_regions v)) (rpm_payload_kind_bitmap m) = Inr ns"
    and tensor: "unpack_current_tensor_body v (rpm_section_count m) (rpm_tile_count m) = Inr tb"
      "unpack_tile_index_block (tbv_tile_index_block tb) mode (rpm_tile_count m) (rpm_tile_base_id m) = Inr ids"
      "mode \<in> {TIM_RAW_U16, TIM_DENSE_RANGE}"
  shows "\<exists>r. receive_result p = Inr r \<and> Result_tile_ids r = Inr ids \<and>
    Result_sections r = tbv_sections tb \<and> res_typed_payloads r = ns"
proof -
  have "\<not> bare_result m (pkt_body p)" using p(4) by (simp add: bare_result_def)
  then show ?thesis
  proof (rule receive_result_body [OF p(1,2) _ p(3)])
    fix fs t
    assume fs: "unpack_typed_payload_frames (reg_typed_payload_descriptor (bv_regions v))
       (reg_typed_payload_frame (bv_regions v)) (rpm_payload_kind_bitmap m) = Inr fs"
      and t: "unpack_current_tensor_body v (rpm_section_count m) (rpm_tile_count m) = Inr t"
      and r: "receive_result p = Inr \<lparr>res_packet = p, res_metadata = Some m,
       res_tensor_body = (if truthy (rpm_payload_kind_bitmap m AND PK_TENSOR) then Some t else None),
       res_typed_payloads = fs\<rparr>"
      and "\<exists>ids. unpack_tile_index_block (tbv_tile_index_block t)
        (if truthy (rpm_tile_index_bytes m) then TIM_RAW_U16 else TIM_DENSE_RANGE)
        (rpm_tile_count m) (rpm_tile_base_id m) = Inr ids"
    then obtain ids' where ids': "unpack_tile_index_block (tbv_tile_index_block t)
        (if truthy (rpm_tile_index_bytes m) then TIM_RAW_U16 else TIM_DENSE_RANGE)
        (rpm_tile_count m) (rpm_tile_base_id m) = Inr ids'" by blast
    have same: "t = tb" "fs = ns" using t tensor(1) fs frames by simp_all
    have "ids' = ids"
      using tile_modes_agree [OF tensor(2,3)] ids' same(1) by auto
    then show ?thesis
      using r p(4) ids' same by (simp add: Result_tile_ids_def Result_sections_def)
  qed
qed

lemma result_builders_type:
  "build_result_push_packet a = Inr p \<Longrightarrow> packet_type p = MT_RESULT_PUSH"
  "build_result_push_typed_payload_packet a frames = Inr p \<Longrightarrow> packet_type p = MT_RESULT_PUSH"
  "build_result_push_mixed_packet a frames = Inr p \<Longrightarrow> packet_type p = MT_RESULT_PUSH"
  by (auto simp: build_result_push_packet_def build_result_push_typed_payload_packet_def
      build_result_push_mixed_packet_def Let_def res_simps split: if_splits prod.splits)

lemma typed_frames_nothing:
  "unpack_typed_payload_frames [] r bitmap = Inr ns \<Longrightarrow> ns = []"
  by (auto simp: unpack_typed_payload_frames_def unpack_typed_payload_descriptors_def res_simps
      split: if_splits)

lemma tensor_result_received:
  assumes p: "build_result_push_packet a = Inr p"
    and tensor: "truthy (rpa_payload_kind_bitmap a AND PK_TENSOR)"
  shows "\<exists>r. receive_result p = Inr r \<and> Result_tile_ids r = Inr (rpa_tile_ids a) \<and>
    list_all2 describes (Result_sections r) (rpa_sections a) \<and> res_typed_payloads r = []"
proof -
  obtain m v tb where m: "ResultPushMetadata_unpack (pkt_metadata p) = Inr m"
    and v: "validate_result_push_body m (pkt_body p) = Inr v"
    and tb: "unpack_current_tensor_body v (rpm_section_count m) (rpm_tile_count m) = Inr tb"
      "list_all2 describes (tbv_sections tb) (rpa_sections a)"
      "unpack_tile_index_block (tbv_tile_index_block tb) (rpa_tile_index_mode a) (rpm_tile_count m)
        (rpm_tile_base_id m) = Inr (rpa_tile_ids a)"
    using build_result_push_packet_view [OF p tensor] by blast
  show ?thesis
    using p tensor
  proof (rule build_result_push_packetE)
    fix region body m'
    assume mode: "rpa_tile_index_mode a \<in> {TIM_RAW_U16, TIM_DENSE_RANGE}"
      and packed: "pack_body (no_regions\<lparr>reg_inline_object := region\<rparr>) = Inr body" "pkt_body p = body"
      and m': "ResultPushMetadata_unpack (pkt_metadata p) = Inr m'"
        "rpm_payload_kind_bitmap m' = rpa_payload_kind_bitmap a"
    have bitmap: "truthy (rpm_payload_kind_bitmap m AND PK_TENSOR)" using m m' tensor by simp
    have "bv_regions v = no_regions\<lparr>reg_inline_object := region\<rparr>"
      using v packed by (simp add: validate_result_push_body_iff pack_body_inject)
    then have table: "reg_typed_payload_descriptor (bv_regions v) = []" by (simp add: no_regions_def)
    have "typed_payload_spec (rpm_payload_kind_bitmap m) (rpm_payload_frame_count m) (bv_regions v)"
      "unpack_body (pkt_body p) = Inr v"
      using v by (simp_all add: validate_result_push_body_iff)
    then obtain ns where "unpack_typed_payload_frames (reg_typed_payload_descriptor (bv_regions v))
      (reg_typed_payload_frame (bv_regions v)) (rpm_payload_kind_bitmap m) = Inr ns"
      using typed_frames_decode ResultPushMetadata_unpack_counts(2) [OF m] by blast
    moreover then have "ns = []" using table typed_frames_nothing by simp
    ultimately show ?thesis
      using result_received [OF result_builders_type(1) [OF p] m v bitmap _ tb(1,3) mode] tb(2) by auto
  qed
qed

lemma typed_result_received:
  assumes p: "build_result_push_typed_payload_packet a frames = Inr p"
    and profiles: "\<forall>f \<in> set frames. tfr_profile_id f \<noteq> 1"
  shows "\<exists>r. receive_result p = Inr r \<and> Result_tile_ids r = Inr [] \<and> Result_sections r = [] \<and>
    map_res build_typed_payload_frame frames = Inr (res_typed_payloads r)"
proof -
  obtain m v ns where m: "ResultPushMetadata_unpack (pkt_metadata p) = Inr m"
    and ns: "map_res build_typed_payload_frame frames = Inr ns"
      "unpack_typed_payload_frames (reg_typed_payload_descriptor (bv_regions v))
        (reg_typed_payload_frame (bv_regions v)) (rpm_payload_kind_bitmap m) = Inr ns"
    and v: "validate_result_push_body m (pkt_body p) = Inr v"
    using build_result_push_typed_payload_view [OF p] profiles by blast
  note type = result_builders_type(2) [OF p]
  show ?thesis
    using p
  proof (rule build_result_typed_packetE)
    fix d r bm m' body
    assume regions: "build_typed_payload_regions frames = Inr (d, r, bm)"
      and body: "pack_body (typed_body [] d r) = Inr body" "pkt_body p = body"
      and m': "ResultPushMetadata_unpack (pkt_metadata p) = Inr m'" "rpm_payload_kind_bitmap m' = bm"
    have "even (rpm_payload_kind_bitmap m)"
      by (rule build_typed_payload_regionsE [OF regions]) (use frame_kind_union_even(1) m m' in simp)
    then have bitmap: "\<not> truthy (rpm_payload_kind_bitmap m AND PK_TENSOR)"
      by (simp add: and_one_eq even_iff_mod_2_eq_zero)
    have "pkt_body p \<noteq> []"
      using body pack_body_iff [of "typed_body [] d r" body] brp.pack_size by fastforce
    then have "\<not> bare_result m (pkt_body p)" by (simp add: bare_result_def)
    then show ?thesis
      by (rule receive_result_body [OF type m _ v])
        (use ns bitmap in \<open>auto simp: Result_tile_ids_def Result_sections_def\<close>)
  qed
qed

lemma mixed_result_received:
  assumes p: "build_result_push_mixed_packet a frames = Inr p"
    and profiles: "\<forall>f \<in> set frames. tfr_profile_id f \<noteq> 1"
  shows "\<exists>r. receive_result p = Inr r \<and> Result_tile_ids r = Inr (rpa_tile_ids a) \<and>
    list_all2 describes (Result_sections r) (rpa_sections a) \<and>
    map_res build_typed_payload_frame frames = Inr (res_typed_payloads r)"
proof -
  obtain m v ns tb where m: "ResultPushMetadata_unpack (pkt_metadata p) = Inr m"
    and ns: "map_res build_typed_payload_frame frames = Inr ns"
      "unpack_typed_payload_frames (reg_typed_payload_descriptor (bv_regions v))
        (reg_typed_payload_frame (bv_regions v)) (rpm_payload_kind_bitmap m) = Inr ns"
    and tb: "unpack_current_tensor_body v (rpm_section_count m) (rpm_tile_count m) = Inr tb"
      "list_all2 describes (tbv_sections tb) (rpa_sections a)"
      "unpack_tile_index_block (tbv_tile_index_block tb) (rpa_tile_index_mode a) (rpm_tile_count m)
        (rpm_tile_base_id m) = Inr (rpa_tile_ids a)"
    and v: "validate_result_push_body m (pkt_body p) = Inr v"
    using build_result_push_mixed_view [OF p] profiles by blast
  show ?thesis
    using p
  proof (rule build_result_mixed_packetE)
    fix bm m'
    assume mode: "rpa_tile_index_mode a \<in> {TIM_RAW_U16, TIM_DENSE_RANGE}"
      and m': "ResultPushMetadata_unpack (pkt_metadata p) = Inr m'"
        "rpm_payload_kind_bitmap m' = PK_TENSOR OR bm"
    have bitmap: "truthy (rpm_payload_kind_bitmap m AND PK_TENSOR)"
      using m m' by (simp add: and_one_eq even_or_iff_int flip: odd_iff_mod_2_eq_one)
    show ?thesis
      using result_received [OF result_builders_type(3) [OF p] m v bitmap ns(2) tb(1,3) mode] tb(2) ns(1)
      by auto
  qed
qed

text \<open>
  \<open>send_result\<close> with tile ids, sections and typed payloads: the client's \<open>Result\<close> has all three.
\<close>

lemma result_exchange:
  assumes "send_result_packet session_id a payloads = Inr p"
    and "\<forall>f \<in> set payloads. tfr_profile_id f \<noteq> StandardProfile_int PROFILE_TENSOR"
    and "truthy (rpa_payload_kind_bitmap a AND PK_TENSOR)"
  shows "\<exists>r. receive_result p = Inr r \<and> Result_tile_ids r = Inr (rpa_tile_ids a) \<and>
    list_all2 describes (Result_sections r) (rpa_sections a) \<and>
    map_res build_typed_payload_frame payloads = Inr (res_typed_payloads r)"
proof (cases "payloads = []")
  case True
  then show ?thesis
    using tensor_result_received [of "server_result_args session_id a" p] assms(1,3)
    by (auto simp: send_result_packet_def server_result_args_def)
next
  case False
  then obtain frames where frames: "map_res build_typed_payload_frame payloads = Inr frames"
    using assms(1)
    by (auto simp: send_result_packet_def TypedPayload_to_core_frame_def [abs_def] Let_def res_simps)
  have profiles: "\<forall>f \<in> set frames. tfr_profile_id f \<noteq> 1"
    using frames assms(2)
    by (auto simp: map_res_Inr_iff list_all2_conv_all_nth all_set_conv_all_nth build_typed_payload_frame_iff)
  have same: "map_res build_typed_payload_frame frames = Inr frames"
    using frames by (rule build_typed_payload_frame_idem)
  let ?a = "server_result_args session_id a"
  show ?thesis
  proof (cases "rpa_tile_ids a \<noteq> [] \<or> rpa_sections a \<noteq> []")
    case True
    then have "build_result_push_mixed_packet ?a frames = Inr p"
      using assms(1) False frames
      by (auto simp: send_result_packet_def TypedPayload_to_core_frame_def [abs_def] Let_def)
    then show ?thesis
      using mixed_result_received [of ?a frames p] profiles frames same
      by (auto simp: server_result_args_def)
  next
    case none: False
    then have "build_result_push_typed_payload_packet ?a frames = Inr p"
      using assms(1) False frames
      by (auto simp: send_result_packet_def TypedPayload_to_core_frame_def [abs_def] Let_def)
    then show ?thesis
      using typed_result_received [of ?a frames p] profiles frames same none by auto
  qed
qed

section \<open>Submits: what the client sends is what the server decodes\<close>

definition request_readable :: "SubmitRequest \<Rightarrow> bool" where
  "request_readable q \<longleftrightarrow> FrameSubmitMetadata_wf (srq_metadata q)
     \<and> (\<exists>v. validate_frame_submit_body (srq_metadata q) (srq_body q) = Inr v)"

lemma submit_received:
  assumes "send_submit_built s q = Inr p" "FrameSubmitMetadata_wf (srq_metadata q)"
    and v: "validate_frame_submit_body (srq_metadata q) (srq_body q) = Inr v"
    and tb: "unpack_current_tensor_body v (fsm_section_count (srq_metadata q))
      (fsm_tile_count (srq_metadata q)) = Inr tb"
  shows "receive_submit (cs_session_id s) p = Inr
    \<lparr>rsub_packet = p, rsub_metadata = srq_metadata q, rsub_request = q,
     rsub_tensor_body =
       (if truthy (fsm_payload_kind_bitmap (srq_metadata q) AND PK_TENSOR) then Some tb else None)\<rparr>"
proof -
  obtain mb where mb: "FrameSubmitMetadata_pack (srq_metadata q) = Inr mb"
    "fsm_operation_id (srq_metadata q) = srq_operation_id q"
    "p = NnrpPacket_build 1 WF_CURRENT MT_FRAME_SUBMIT
         (submit_route (cs_session_id s) (srq_frame_id q) (srq_header q)) mb (srq_body q)"
    using assms(1) by (auto simp: send_submit_built_def res_simps split: if_splits)
  have "FrameSubmitMetadata_unpack mb = Inr (srq_metadata q)"
    using mb(1) assms(2) by (simp add: fsm.unpack_pack)
  then show ?thesis
    using v tb mb(2)
    by (simp add: receive_submit_def decode_submit_request_def mb(3) NnrpPacket_build_def submit_route_def)
qed

lemma readable_request_received:
  assumes "send_submit_built s q = Inr p" "request_readable q"
  shows "\<exists>r. receive_submit (cs_session_id s) p = Inr r \<and> rsub_request r = q"
  using assms submit_tensor_decodes submit_received [OF assms(1)] unfolding request_readable_def by fastforce

text \<open>When \<open>send_submit\<close> lets a request through.\<close>

definition may_submit :: "ClientSession \<Rightarrow> int \<Rightarrow> bool" where
  "may_submit s frame_id \<longleftrightarrow>
     (cs_migrated s \<longrightarrow> validate_migrated_current_frame_id s frame_id = Inr ())"

lemma may_submit_iff:
  "may_submit s f \<longleftrightarrow>
     (cs_current_min_frame_id s > 0 \<longrightarrow> cs_current_min_frame_id s \<le> f) \<and>
     (\<forall>l. cs_current_last_submitted_frame_id s = Some l \<longrightarrow> l < f)"
  by (auto simp: may_submit_def cs_migrated_def validate_migrated_current_frame_id_def given_and_def
      split: option.splits)

lemma request_sent:
  assumes "FrameSubmitMetadata_pack (srq_metadata q) = Inr mb"
    "fsm_operation_id (srq_metadata q) = srq_operation_id q" "may_submit s (srq_frame_id q)"
  shows "\<exists>p. send_submit_built s q = Inr p"
  using assms by (simp add: send_submit_built_def may_submit_def)

lemma tensor_requestE:
  assumes "SubmitRequest_tensor v = Inr q"
  obtains p bv mb where
    "build_frame_submit_packet (tensor_submit_args v) = Inr p" "pkt_body p = srq_body q"
    "FrameSubmitMetadata_unpack (pkt_metadata p) = Inr (srq_metadata q)"
    "FrameSubmitMetadata_wf (srq_metadata q)" "FrameSubmitMetadata_pack (srq_metadata q) = Inr mb"
    "validate_frame_submit_body (srq_metadata q) (srq_body q) = Inr bv"
    "fsm_operation_id (srq_metadata q) = srq_operation_id q"
    "fsm_payload_kind_bitmap (srq_metadata q) = PK_TENSOR"
proof -
  obtain p where p: "build_frame_submit_packet (tensor_submit_args v) = Inr p"
    and q: "pkt_body p = srq_body q" "FrameSubmitMetadata_unpack (pkt_metadata p) = Inr (srq_metadata q)"
      "srq_operation_id q = sid_operation_id (tsi_identity v)"
    using assms by (auto simp: SubmitRequest_tensor_def SubmitRequest_from_packet_def res_simps split: if_splits)
  have bitmap: "truthy (fsa_payload_kind_bitmap (tensor_submit_args v) AND PK_TENSOR)"
    by (simp add: tensor_submit_args_def Let_def)
  show thesis
    using p bitmap
  proof (rule build_frame_submit_packetE)
    fix m bv
    assume m: "FrameSubmitMetadata_unpack (pkt_metadata p) = Inr m"
      "validate_frame_submit_body m (pkt_body p) = Inr bv"
      "fsm_operation_id m = fsa_operation_id (tensor_submit_args v)"
      "fsm_payload_kind_bitmap m = fsa_payload_kind_bitmap (tensor_submit_args v)"
    show thesis
      using that [OF p q(1,2) fsm.unpack_wf [OF q(2)] fsm.pack_unpack [OF q(2)]] m q
      by (simp add: tensor_submit_args_def Let_def)
  qed
qed

lemma tensor_submit_mode_inline:
  "fsa_submit_mode (tensor_submit_args v) = SM_INLINE \<longleftrightarrow>
     tsi_references v = \<lparr>sor_camera = None, sor_tile_index = None, sor_tensor_section_table = None\<rparr>"
  by (cases "tsi_references v") (auto simp: tensor_submit_args_def tensor_submit_mode_def Let_def)

lemma tensor_submit_exchange:
  assumes "SubmitRequest_tensor v = Inr q" "may_submit s (srq_frame_id q)"
  shows "\<exists>p r tb. send_submit_built s q = Inr p \<and> receive_submit (cs_session_id s) p = Inr r \<and>
    rsub_request r = q \<and> rsub_tensor_body r = Some tb \<and>
    (tsi_references v = \<lparr>sor_camera = None, sor_tile_index = None, sor_tensor_section_table = None\<rparr> \<longrightarrow>
       list_all2 describes (tbv_sections tb) (tsi_sections v) \<and>
       unpack_tile_index_block (tbv_tile_index_block tb) (fsm_tile_index_mode (rsub_metadata r))
         (fsm_tile_count (rsub_metadata r)) (fsm_tile_base_id (rsub_metadata r)) = Inr (tsi_tile_ids v))"
  using assms(1)
proof (rule tensor_requestE)
  fix p' bv mb
  assume p': "build_frame_submit_packet (tensor_submit_args v) = Inr p'" "pkt_body p' = srq_body q"
      "FrameSubmitMetadata_unpack (pkt_metadata p') = Inr (srq_metadata q)"
    and m: "FrameSubmitMetadata_wf (srq_metadata q)" "FrameSubmitMetadata_pack (srq_metadata q) = Inr mb"
    and bv: "validate_frame_submit_body (srq_metadata q) (srq_body q) = Inr bv"
    and fields: "fsm_operation_id (srq_metadata q) = srq_operation_id q"
      "fsm_payload_kind_bitmap (srq_metadata q) = PK_TENSOR"
  obtain p where p: "send_submit_built s q = Inr p"
    using request_sent [OF m(2) fields(1) assms(2)] by blast
  obtain tb where tb: "unpack_current_tensor_body bv (fsm_section_count (srq_metadata q))
      (fsm_tile_count (srq_metadata q)) = Inr tb"
    using submit_tensor_decodes [OF bv] by blast
  have "list_all2 describes (tbv_sections tb) (tsi_sections v) \<and>
      unpack_tile_index_block (tbv_tile_index_block tb) (fsm_tile_index_mode (srq_metadata q))
        (fsm_tile_count (srq_metadata q)) (fsm_tile_base_id (srq_metadata q)) = Inr (tsi_tile_ids v)"
    if "tsi_references v = \<lparr>sor_camera = None, sor_tile_index = None, sor_tensor_section_table = None\<rparr>"
    using build_frame_submit_packet_view [OF p'(1)] tensor_submit_mode_inline [of v] that p'(2,3) bv tb
    by (simp add: tensor_submit_args_def Let_def)
  then show ?thesis
    using submit_received [OF p m(1) bv tb] p fields(2) by auto
qed

text \<open>Requests of typed payloads.\<close>

lemma frames_requestE:
  assumes "SubmitRequest_of_frames identity policy frames = Inr q" "\<forall>f \<in> set frames. tfr_profile_id f \<noteq> 1"
  obtains mb bv ns where "FrameSubmitMetadata_wf (srq_metadata q)"
    "FrameSubmitMetadata_pack (srq_metadata q) = Inr mb"
    "validate_frame_submit_body (srq_metadata q) (srq_body q) = Inr bv"
    "map_res build_typed_payload_frame frames = Inr ns"
    "unpack_typed_payload_frames (reg_typed_payload_descriptor (bv_regions bv))
      (reg_typed_payload_frame (bv_regions bv)) (fsm_payload_kind_bitmap (srq_metadata q)) = Inr ns"
    "fsm_operation_id (srq_metadata q) = srq_operation_id q"
    "srq_frame_id q = sid_frame_id identity"
proof -
  let ?a = "typed_submit_args identity policy"
  obtain p where p: "build_frame_submit_typed_payload_packet ?a frames = Inr p"
    and q: "pkt_body p = srq_body q" "FrameSubmitMetadata_unpack (pkt_metadata p) = Inr (srq_metadata q)"
      "srq_operation_id q = sid_operation_id identity" "srq_frame_id q = sid_frame_id identity"
    using assms(1) by (auto simp: SubmitRequest_of_frames_def SubmitRequest_from_packet_def res_simps split: if_splits)
  obtain bv ns where view: "validate_frame_submit_body (srq_metadata q) (srq_body q) = Inr bv"
    "map_res build_typed_payload_frame frames = Inr ns"
    "unpack_typed_payload_frames (reg_typed_payload_descriptor (bv_regions bv))
      (reg_typed_payload_frame (bv_regions bv)) (fsm_payload_kind_bitmap (srq_metadata q)) = Inr ns"
    using build_frame_submit_typed_payload_view [OF p] assms(2) q(1,2) by auto
  have "fsm_operation_id (srq_metadata q) = srq_operation_id q"
    using p by (rule build_submit_typed_packetE) (use q in \<open>simp add: typed_submit_args_def\<close>)
  then show thesis
    using that [OF fsm.unpack_wf [OF q(2)] fsm.pack_unpack [OF q(2)] view] q(4) by blast
qed

lemma token_submit_exchange:
  assumes "SubmitRequest_token identity policy chunks = Inr q" "may_submit s (srq_frame_id q)"
  shows "\<exists>p r bv fs. send_submit_built s q = Inr p \<and> receive_submit (cs_session_id s) p = Inr r \<and>
    rsub_request r = q \<and> validate_frame_submit_body (srq_metadata q) (srq_body q) = Inr bv \<and>
    unpack_typed_payload_frames (reg_typed_payload_descriptor (bv_regions bv))
      (reg_typed_payload_frame (bv_regions bv)) (fsm_payload_kind_bitmap (srq_metadata q)) = Inr fs \<and>
    map tfr_payload fs = map tck_payload chunks \<and>
    (\<forall>f \<in> set fs. tfr_payload_kind f = PK_TOKEN_CHUNK \<and> tfr_schema_id f = TOKEN_DELTA_SCHEMA_ID)"
proof -
  obtain frames where frames: "map_res (\<lambda>c. build_typed_payload_frame
       \<lparr>tfr_payload_kind = PK_TOKEN_CHUNK, tfr_payload = tck_payload c,
        tfr_profile_id = StandardProfile_int PROFILE_TOKEN,
        tfr_descriptor_flags = tck_descriptor_flags c, tfr_schema_id = TOKEN_DELTA_SCHEMA_ID,
        tfr_schema_version = TOKEN_DELTA_SCHEMA_VERSION,
        tfr_stream_semantics = StreamSemantics_int STREAM_APPEND\<rparr>) chunks = Inr frames"
    and q: "SubmitRequest_of_frames identity policy frames = Inr q"
    using assms(1) by (auto simp: SubmitRequest_token_def res_simps)
  have shape: "map tfr_payload frames = map tck_payload chunks"
    "\<forall>f \<in> set frames. tfr_payload_kind f = PK_TOKEN_CHUNK \<and> tfr_schema_id f = TOKEN_DELTA_SCHEMA_ID
       \<and> tfr_profile_id f = 2"
    "map_res build_typed_payload_frame frames = Inr frames"
    using frames
    by (auto simp: map_res_Inr_iff list_all2_conv_all_nth all_set_conv_all_nth build_typed_payload_frame_iff
        intro!: nth_equalityI)
  then have "\<forall>f \<in> set frames. tfr_profile_id f \<noteq> 1" by auto
  then show ?thesis
  proof (rule frames_requestE [OF q])
    fix mb bv ns
    assume m: "FrameSubmitMetadata_wf (srq_metadata q)" "FrameSubmitMetadata_pack (srq_metadata q) = Inr mb"
      and bv: "validate_frame_submit_body (srq_metadata q) (srq_body q) = Inr bv"
      and ns: "map_res build_typed_payload_frame frames = Inr ns"
        "unpack_typed_payload_frames (reg_typed_payload_descriptor (bv_regions bv))
          (reg_typed_payload_frame (bv_regions bv)) (fsm_payload_kind_bitmap (srq_metadata q)) = Inr ns"
      and fields: "fsm_operation_id (srq_metadata q) = srq_operation_id q"
    obtain p where p: "send_submit_built s q = Inr p"
      using request_sent [OF m(2) fields assms(2)] by blast
    then obtain r where "receive_submit (cs_session_id s) p = Inr r" "rsub_request r = q"
      using readable_request_received [OF p] m(1) bv by (auto simp: request_readable_def)
    then show ?thesis
      using p bv ns shape by auto
  qed
qed

section \<open>Many submits over one TCP connection\<close>

lemma submit_packet_type: "send_submit_built s q = Inr p \<Longrightarrow> is_submit_packet p"
  by (auto simp: send_submit_built_def res_simps split: if_splits)

text \<open>
  The server decodes the requests the client made, in their order, whatever the chunks in which
  the bytes arrive.
\<close>

lemma submits_over_tcp:
  assumes "list_all2 (\<lambda>q p. send_submit_built s q = Inr p) qs ps" "\<forall>q \<in> set qs. request_readable q"
    and "tcp_send_all ps tcp_connection_init = (Inr (), sender)"
    and "concat chunks = tcp_written sender" "[] \<notin> set chunks"
  shows "\<exists>rs. map_res (receive_submit (cs_session_id s))
      (tcp_incoming_submit (fold tcp_read_chunk chunks tcp_connection_init)) = Inr rs \<and>
    map rsub_request rs = qs"
proof -
  have "\<forall>p \<in> set ps. is_submit_packet p"
    using assms(1) submit_packet_type [of s] unfolding list_all2_conv_all_nth all_set_conv_all_nth by metis
  then have "tcp_incoming_submit (fold tcp_read_chunk chunks tcp_connection_init) = ps"
    using tcp_delivery(2) [OF assms(3-5)] by simp
  moreover have "\<exists>rs. map_res (receive_submit (cs_session_id s)) ps = Inr rs \<and> map rsub_request rs = qs"
    using assms(1,2)
  proof (induction rule: list_all2_induct)
    case (Cons q qs p ps)
    then obtain rs where "map_res (receive_submit (cs_session_id s)) ps = Inr rs" "map rsub_request rs = qs"
      by auto
    moreover obtain r where "receive_submit (cs_session_id s) p = Inr r" "rsub_request r = q"
      using readable_request_received [OF Cons(1)] Cons.prems by auto
    ultimately show ?case by auto
  qed simp
  ultimately show ?thesis by simp
qed

section \<open>Submits on a migrated session\<close>

text \<open>
  A sequence of \<open>send_submit\<close> calls, each with what the connection does; the frame ids of the
  calls that returned, in order, and the session afterwards.
\<close>

fun submit_all :: "((NnrpPacket \<Rightarrow> int res) \<times> SubmitRequest) list \<Rightarrow> ClientSession
    \<Rightarrow> int list \<times> ClientSession" where
  "submit_all [] s = ([], s)"
| "submit_all ((send, q) # calls) s =
     (case send_submit send q s of
        (Inl e, s') \<Rightarrow> submit_all calls s'
      | (Inr i, s') \<Rightarrow> (case submit_all calls s' of (fs, s'') \<Rightarrow> (srq_frame_id q # fs, s'')))"

text \<open>What holds of a session that was migrated from a frame \<open>R > 0\<close> on.\<close>

definition migrated_from :: "int \<Rightarrow> int \<Rightarrow> ClientSession \<Rightarrow> bool" where
  "migrated_from R l s \<longleftrightarrow> 0 < R \<and> R - 1 \<le> l \<and> cs_current_min_frame_id s = R \<and>
     cs_current_last_submitted_frame_id s = Some l"

lemma migrated_send_submit:
  assumes "send_submit send q s = (r, s')" "migrated_from R l s"
  shows "case r of Inl e \<Rightarrow> s' = s
    | Inr i \<Rightarrow> l < srq_frame_id q \<and> migrated_from R (srq_frame_id q) s'"
proof -
  have m: "cs_migrated s" using assms(2) by (auto simp: cs_migrated_def migrated_from_def)
  show ?thesis
  proof (cases "bind_res (send_submit_built s q) send")
    case (Inr i)
    then have "may_submit s (srq_frame_id q)"
      by (auto simp: send_submit_built_def may_submit_def m res_simps)
    then have "l < srq_frame_id q"
      using assms(2) by (simp add: may_submit_iff migrated_from_def)
    moreover have "r = Inr i" "s' = s\<lparr>cs_current_last_submitted_frame_id := Some (srq_frame_id q)\<rparr>"
      using assms(1) Inr m by (simp_all add: send_submit_def)
    ultimately show ?thesis
      using assms(2) by (simp add: migrated_from_def)
  next
    case (Inl e)
    then have "r = Inl e" "s' = s" using assms(1) by (simp_all add: send_submit_def)
    then show ?thesis by simp
  qed
qed

lemma migrated_submits_increase:
  "submit_all calls s = (fs, s') \<Longrightarrow> migrated_from R l s \<Longrightarrow>
     sorted_wrt (<) fs \<and> (\<forall>f \<in> set fs. l < f) \<and> migrated_from R (last (l # fs)) s'"
proof (induction calls arbitrary: s l fs)
  case (Cons c calls)
  obtain send q where c: "c = (send, q)" by fastforce
  obtain r s1 where step: "send_submit send q s = (r, s1)" by fastforce
  show ?case
  proof (cases r)
    case (Inl e)
    then have "s1 = s" using migrated_send_submit [OF step Cons.prems(2)] by simp
    then show ?thesis using Cons step Inl c by simp
  next
    case (Inr i)
    then have m: "l < srq_frame_id q" "migrated_from R (srq_frame_id q) s1"
      using migrated_send_submit [OF step Cons.prems(2)] by simp_all
    obtain fs1 where fs1: "submit_all calls s1 = (fs1, s')" "fs = srq_frame_id q # fs1"
      using Cons.prems(1) step Inr c by (auto split: prod.splits)
    show ?thesis
      using Cons.IH [OF fs1(1) m(2)] m(1) fs1(2) by (auto intro: order_less_trans)
  qed
qed simp

lemma migrated_session:
  assumes "migrate_session_outcome transport ack s = Inr out" "0 < mo_resume_from_frame_id out"
  shows "migrated_from (mo_resume_from_frame_id out) (mo_resume_from_frame_id out - 1) (mo_session out)"
  using assms
  by (auto simp: migrate_session_outcome_def mo_resume_from_frame_id_def migrated_from_def Let_def
      res_simps split: if_splits)

lemma migrated_submits:
  assumes "migrate_session_outcome transport ack s = Inr out" "0 < mo_resume_from_frame_id out"
    and "submit_all calls (mo_session out) = (fs, s')"
  shows "sorted_wrt (<) fs \<and> (\<forall>f \<in> set fs. mo_resume_from_frame_id out \<le> f) \<and>
    cs_current_last_submitted_frame_id s' = Some (last ((mo_resume_from_frame_id out - 1) # fs)) \<and>
    cs_session_id (mo_session out) = cs_session_id s"
proof -
  have "cs_session_id (mo_session out) = cs_session_id s"
    using assms(1) by (auto simp: migrate_session_outcome_def Let_def cs_session_id_def res_simps split: if_splits)
  then show ?thesis
    using migrated_submits_increase [OF assms(3) migrated_session [OF assms(1,2)]]
    by (auto simp: migrated_from_def)
qed

end
