(* ===== verification/Runtime_Metadata.thy ===== *)
theory Runtime_Metadata
  imports Enums
begin

text \<open>
  The runtime value types of \<open>runtime/types.py\<close>: its enumerations and the twenty fixed-width
  metadata classes that runtime control, object and session-close messages carry.

  A class \<open>X\<close> is a record with \<open>X_pack\<close> and \<open>X_unpack\<close>, as in \<open>Data_Messages\<close>; \<open>X_STRUCT\<close>
  is its format.  A field that holds \<open>Enum | int\<close> is the integer \<open>int(field)\<close>; where
  \<open>_from_tuple\<close> calls the enum class, so that an unknown value is a \<open>ValueError\<close>, the model
  makes the same check (\<open>known_member\<close>), and \<open>X_wf\<close> says that the values are members.
  All classes are \<open>canonical_codec\<close>s but \<open>ControlRequestMetadata\<close>, which checks its flags
  only when it packs.
\<close>

section \<open>Enumerations\<close>

datatype OperationState = OS_ACCEPTED | OS_RUNNING | OS_PARTIAL | OS_WAITING_TOOL
    | OS_SUPERSEDED | OS_CANCELLED | OS_FAILED | OS_COMPLETED

fun OperationState_int :: "OperationState \<Rightarrow> int" where
  "OperationState_int OS_ACCEPTED = 0"
| "OperationState_int OS_RUNNING = 1"
| "OperationState_int OS_PARTIAL = 2"
| "OperationState_int OS_WAITING_TOOL = 3"
| "OperationState_int OS_SUPERSEDED = 4"
| "OperationState_int OS_CANCELLED = 5"
| "OperationState_int OS_FAILED = 6"
| "OperationState_int OS_COMPLETED = 7"

definition OperationState_of :: "int \<Rightarrow> OperationState res" where
  "OperationState_of v =
     (if v = 0 then Inr OS_ACCEPTED
     else if v = 1 then Inr OS_RUNNING
     else if v = 2 then Inr OS_PARTIAL
     else if v = 3 then Inr OS_WAITING_TOOL
     else if v = 4 then Inr OS_SUPERSEDED
     else if v = 5 then Inr OS_CANCELLED
     else if v = 6 then Inr OS_FAILED
     else if v = 7 then Inr OS_COMPLETED
     else ve ''not a valid OperationState'')"

interpretation OS_enum: int_enum OperationState_int OperationState_of
proof
  show "OperationState_of (OperationState_int k) = Inr k" for k
    by (cases k) (simp_all add: OperationState_of_def)
  show "OperationState_of v = Inr k \<Longrightarrow> OperationState_int k = v" for v k
    by (auto simp: OperationState_of_def split: if_splits)
qed

datatype ResultTerminalState = RTS_SUCCESS | RTS_CANCELLED | RTS_DROPPED | RTS_ERROR

fun ResultTerminalState_int :: "ResultTerminalState \<Rightarrow> int" where
  "ResultTerminalState_int RTS_SUCCESS = 0"
| "ResultTerminalState_int RTS_CANCELLED = 1"
| "ResultTerminalState_int RTS_DROPPED = 2"
| "ResultTerminalState_int RTS_ERROR = 3"

definition ResultTerminalState_of :: "int \<Rightarrow> ResultTerminalState res" where
  "ResultTerminalState_of v =
     (if v = 0 then Inr RTS_SUCCESS
     else if v = 1 then Inr RTS_CANCELLED
     else if v = 2 then Inr RTS_DROPPED
     else if v = 3 then Inr RTS_ERROR
     else ve ''not a valid ResultTerminalState'')"

interpretation RTS_enum: int_enum ResultTerminalState_int ResultTerminalState_of
proof
  show "ResultTerminalState_of (ResultTerminalState_int k) = Inr k" for k
    by (cases k) (simp_all add: ResultTerminalState_of_def)
  show "ResultTerminalState_of v = Inr k \<Longrightarrow> ResultTerminalState_int k = v" for v k
    by (auto simp: ResultTerminalState_of_def split: if_splits)
qed

datatype RuntimeObjectKind = ROK_UNSPECIFIED | ROK_TENSOR | ROK_TOKEN_BLOCK | ROK_IMAGE_TILE
    | ROK_FEATURE_MAP | ROK_TOOL_RESULT | ROK_TRACE_SEGMENT | ROK_OPAQUE_BYTES
    | ROK_DOCUMENT_CHUNK | ROK_AUDIO_CHUNK | ROK_VIDEO_CHUNK | ROK_ROUTE_PLAN
    | ROK_CACHE_MANIFEST

fun RuntimeObjectKind_int :: "RuntimeObjectKind \<Rightarrow> int" where
  "RuntimeObjectKind_int ROK_UNSPECIFIED = 0"
| "RuntimeObjectKind_int ROK_TENSOR = 1"
| "RuntimeObjectKind_int ROK_TOKEN_BLOCK = 2"
| "RuntimeObjectKind_int ROK_IMAGE_TILE = 3"
| "RuntimeObjectKind_int ROK_FEATURE_MAP = 4"
| "RuntimeObjectKind_int ROK_TOOL_RESULT = 5"
| "RuntimeObjectKind_int ROK_TRACE_SEGMENT = 6"
| "RuntimeObjectKind_int ROK_OPAQUE_BYTES = 7"
| "RuntimeObjectKind_int ROK_DOCUMENT_CHUNK = 8"
| "RuntimeObjectKind_int ROK_AUDIO_CHUNK = 9"
| "RuntimeObjectKind_int ROK_VIDEO_CHUNK = 10"
| "RuntimeObjectKind_int ROK_ROUTE_PLAN = 11"
| "RuntimeObjectKind_int ROK_CACHE_MANIFEST = 12"

definition RuntimeObjectKind_of :: "int \<Rightarrow> RuntimeObjectKind res" where
  "RuntimeObjectKind_of v =
     (if v = 0 then Inr ROK_UNSPECIFIED
     else if v = 1 then Inr ROK_TENSOR
     else if v = 2 then Inr ROK_TOKEN_BLOCK
     else if v = 3 then Inr ROK_IMAGE_TILE
     else if v = 4 then Inr ROK_FEATURE_MAP
     else if v = 5 then Inr ROK_TOOL_RESULT
     else if v = 6 then Inr ROK_TRACE_SEGMENT
     else if v = 7 then Inr ROK_OPAQUE_BYTES
     else if v = 8 then Inr ROK_DOCUMENT_CHUNK
     else if v = 9 then Inr ROK_AUDIO_CHUNK
     else if v = 10 then Inr ROK_VIDEO_CHUNK
     else if v = 11 then Inr ROK_ROUTE_PLAN
     else if v = 12 then Inr ROK_CACHE_MANIFEST
     else ve ''not a valid RuntimeObjectKind'')"

interpretation ROK_enum: int_enum RuntimeObjectKind_int RuntimeObjectKind_of
proof
  show "RuntimeObjectKind_of (RuntimeObjectKind_int k) = Inr k" for k
    by (cases k) (simp_all add: RuntimeObjectKind_of_def)
  show "RuntimeObjectKind_of v = Inr k \<Longrightarrow> RuntimeObjectKind_int k = v" for v k
    by (auto simp: RuntimeObjectKind_of_def split: if_splits)
qed

datatype RuntimeRole = ROLE_UNSPECIFIED | ROLE_CLIENT | ROLE_SERVER | ROLE_RUNTIME
    | ROLE_SUBAGENT | ROLE_TOOL | ROLE_SCHEDULER | ROLE_CONFORMANCE_RUNNER

fun RuntimeRole_int :: "RuntimeRole \<Rightarrow> int" where
  "RuntimeRole_int ROLE_UNSPECIFIED = 0"
| "RuntimeRole_int ROLE_CLIENT = 1"
| "RuntimeRole_int ROLE_SERVER = 2"
| "RuntimeRole_int ROLE_RUNTIME = 3"
| "RuntimeRole_int ROLE_SUBAGENT = 4"
| "RuntimeRole_int ROLE_TOOL = 5"
| "RuntimeRole_int ROLE_SCHEDULER = 6"
| "RuntimeRole_int ROLE_CONFORMANCE_RUNNER = 7"

definition RuntimeRole_of :: "int \<Rightarrow> RuntimeRole res" where
  "RuntimeRole_of v =
     (if v = 0 then Inr ROLE_UNSPECIFIED
     else if v = 1 then Inr ROLE_CLIENT
     else if v = 2 then Inr ROLE_SERVER
     else if v = 3 then Inr ROLE_RUNTIME
     else if v = 4 then Inr ROLE_SUBAGENT
     else if v = 5 then Inr ROLE_TOOL
     else if v = 6 then Inr ROLE_SCHEDULER
     else if v = 7 then Inr ROLE_CONFORMANCE_RUNNER
     else ve ''not a valid RuntimeRole'')"

interpretation ROLE_enum: int_enum RuntimeRole_int RuntimeRole_of
proof
  show "RuntimeRole_of (RuntimeRole_int k) = Inr k" for k
    by (cases k) (simp_all add: RuntimeRole_of_def)
  show "RuntimeRole_of v = Inr k \<Longrightarrow> RuntimeRole_int k = v" for v k
    by (auto simp: RuntimeRole_of_def split: if_splits)
qed

datatype MemoryLocationHint = MLH_UNSPECIFIED | MLH_HOST_MEMORY | MLH_DEVICE_MEMORY
    | MLH_SHARED_MEMORY | MLH_REMOTE_MEMORY | MLH_MMAP_FILE | MLH_OBJECT_STORE

fun MemoryLocationHint_int :: "MemoryLocationHint \<Rightarrow> int" where
  "MemoryLocationHint_int MLH_UNSPECIFIED = 0"
| "MemoryLocationHint_int MLH_HOST_MEMORY = 1"
| "MemoryLocationHint_int MLH_DEVICE_MEMORY = 2"
| "MemoryLocationHint_int MLH_SHARED_MEMORY = 3"
| "MemoryLocationHint_int MLH_REMOTE_MEMORY = 4"
| "MemoryLocationHint_int MLH_MMAP_FILE = 5"
| "MemoryLocationHint_int MLH_OBJECT_STORE = 6"

definition MemoryLocationHint_of :: "int \<Rightarrow> MemoryLocationHint res" where
  "MemoryLocationHint_of v =
     (if v = 0 then Inr MLH_UNSPECIFIED
     else if v = 1 then Inr MLH_HOST_MEMORY
     else if v = 2 then Inr MLH_DEVICE_MEMORY
     else if v = 3 then Inr MLH_SHARED_MEMORY
     else if v = 4 then Inr MLH_REMOTE_MEMORY
     else if v = 5 then Inr MLH_MMAP_FILE
     else if v = 6 then Inr MLH_OBJECT_STORE
     else ve ''not a valid MemoryLocationHint'')"

interpretation MLH_enum: int_enum MemoryLocationHint_int MemoryLocationHint_of
proof
  show "MemoryLocationHint_of (MemoryLocationHint_int k) = Inr k" for k
    by (cases k) (simp_all add: MemoryLocationHint_of_def)
  show "MemoryLocationHint_of v = Inr k \<Longrightarrow> MemoryLocationHint_int k = v" for v k
    by (auto simp: MemoryLocationHint_of_def split: if_splits)
qed

datatype OwnershipHint = OWN_UNSPECIFIED | OWN_PRODUCER_OWNED | OWN_CONSUMER_OWNED
    | OWN_SESSION_OWNED | OWN_BORROWED | OWN_TRANSFER_ON_REF | OWN_RELEASE_ON_DROP

fun OwnershipHint_int :: "OwnershipHint \<Rightarrow> int" where
  "OwnershipHint_int OWN_UNSPECIFIED = 0"
| "OwnershipHint_int OWN_PRODUCER_OWNED = 1"
| "OwnershipHint_int OWN_CONSUMER_OWNED = 2"
| "OwnershipHint_int OWN_SESSION_OWNED = 3"
| "OwnershipHint_int OWN_BORROWED = 4"
| "OwnershipHint_int OWN_TRANSFER_ON_REF = 5"
| "OwnershipHint_int OWN_RELEASE_ON_DROP = 6"

definition OwnershipHint_of :: "int \<Rightarrow> OwnershipHint res" where
  "OwnershipHint_of v =
     (if v = 0 then Inr OWN_UNSPECIFIED
     else if v = 1 then Inr OWN_PRODUCER_OWNED
     else if v = 2 then Inr OWN_CONSUMER_OWNED
     else if v = 3 then Inr OWN_SESSION_OWNED
     else if v = 4 then Inr OWN_BORROWED
     else if v = 5 then Inr OWN_TRANSFER_ON_REF
     else if v = 6 then Inr OWN_RELEASE_ON_DROP
     else ve ''not a valid OwnershipHint'')"

interpretation OWN_enum: int_enum OwnershipHint_int OwnershipHint_of
proof
  show "OwnershipHint_of (OwnershipHint_int k) = Inr k" for k
    by (cases k) (simp_all add: OwnershipHint_of_def)
  show "OwnershipHint_of v = Inr k \<Longrightarrow> OwnershipHint_int k = v" for v k
    by (auto simp: OwnershipHint_of_def split: if_splits)
qed

datatype ObjectReleaseReason = ORR_COMPLETED | ORR_CANCELLED | ORR_EXPIRED | ORR_REPLACED
    | ORR_INVALIDATED | ORR_OWNER_CLOSED | ORR_LEASE_EXPIRED | ORR_CONFORMANCE_INJECTION

fun ObjectReleaseReason_int :: "ObjectReleaseReason \<Rightarrow> int" where
  "ObjectReleaseReason_int ORR_COMPLETED = 0"
| "ObjectReleaseReason_int ORR_CANCELLED = 1"
| "ObjectReleaseReason_int ORR_EXPIRED = 2"
| "ObjectReleaseReason_int ORR_REPLACED = 3"
| "ObjectReleaseReason_int ORR_INVALIDATED = 4"
| "ObjectReleaseReason_int ORR_OWNER_CLOSED = 5"
| "ObjectReleaseReason_int ORR_LEASE_EXPIRED = 6"
| "ObjectReleaseReason_int ORR_CONFORMANCE_INJECTION = 7"

definition ObjectReleaseReason_of :: "int \<Rightarrow> ObjectReleaseReason res" where
  "ObjectReleaseReason_of v =
     (if v = 0 then Inr ORR_COMPLETED
     else if v = 1 then Inr ORR_CANCELLED
     else if v = 2 then Inr ORR_EXPIRED
     else if v = 3 then Inr ORR_REPLACED
     else if v = 4 then Inr ORR_INVALIDATED
     else if v = 5 then Inr ORR_OWNER_CLOSED
     else if v = 6 then Inr ORR_LEASE_EXPIRED
     else if v = 7 then Inr ORR_CONFORMANCE_INJECTION
     else ve ''not a valid ObjectReleaseReason'')"

interpretation ORR_enum: int_enum ObjectReleaseReason_int ObjectReleaseReason_of
proof
  show "ObjectReleaseReason_of (ObjectReleaseReason_int k) = Inr k" for k
    by (cases k) (simp_all add: ObjectReleaseReason_of_def)
  show "ObjectReleaseReason_of v = Inr k \<Longrightarrow> ObjectReleaseReason_int k = v" for v k
    by (auto simp: ObjectReleaseReason_of_def split: if_splits)
qed

datatype ResultDropReasonCode = RDR_NONE | RDR_DEADLINE_EXPIRED | RDR_SUPERSEDED
    | RDR_PEER_CANCELLED | RDR_BACKPRESSURE | RDR_CAPABILITY_MISMATCH | RDR_BUDGET_EXCEEDED
    | RDR_OBJECT_INVALIDATED | RDR_TRANSPORT_CLOSED | RDR_CONFORMANCE_INJECTION

fun ResultDropReasonCode_int :: "ResultDropReasonCode \<Rightarrow> int" where
  "ResultDropReasonCode_int RDR_NONE = 0"
| "ResultDropReasonCode_int RDR_DEADLINE_EXPIRED = 1"
| "ResultDropReasonCode_int RDR_SUPERSEDED = 2"
| "ResultDropReasonCode_int RDR_PEER_CANCELLED = 3"
| "ResultDropReasonCode_int RDR_BACKPRESSURE = 4"
| "ResultDropReasonCode_int RDR_CAPABILITY_MISMATCH = 5"
| "ResultDropReasonCode_int RDR_BUDGET_EXCEEDED = 6"
| "ResultDropReasonCode_int RDR_OBJECT_INVALIDATED = 7"
| "ResultDropReasonCode_int RDR_TRANSPORT_CLOSED = 8"
| "ResultDropReasonCode_int RDR_CONFORMANCE_INJECTION = 9"

definition ResultDropReasonCode_of :: "int \<Rightarrow> ResultDropReasonCode res" where
  "ResultDropReasonCode_of v =
     (if v = 0 then Inr RDR_NONE
     else if v = 1 then Inr RDR_DEADLINE_EXPIRED
     else if v = 2 then Inr RDR_SUPERSEDED
     else if v = 3 then Inr RDR_PEER_CANCELLED
     else if v = 4 then Inr RDR_BACKPRESSURE
     else if v = 5 then Inr RDR_CAPABILITY_MISMATCH
     else if v = 6 then Inr RDR_BUDGET_EXCEEDED
     else if v = 7 then Inr RDR_OBJECT_INVALIDATED
     else if v = 8 then Inr RDR_TRANSPORT_CLOSED
     else if v = 9 then Inr RDR_CONFORMANCE_INJECTION
     else ve ''not a valid ResultDropReasonCode'')"

interpretation RDR_enum: int_enum ResultDropReasonCode_int ResultDropReasonCode_of
proof
  show "ResultDropReasonCode_of (ResultDropReasonCode_int k) = Inr k" for k
    by (cases k) (simp_all add: ResultDropReasonCode_of_def)
  show "ResultDropReasonCode_of v = Inr k \<Longrightarrow> ResultDropReasonCode_int k = v" for v k
    by (auto simp: ResultDropReasonCode_of_def split: if_splits)
qed

datatype CacheReuseScope = CRS_OPERATION | CRS_SESSION | CRS_CONNECTION | CRS_GLOBAL
    | CRS_TENANT | CRS_PROFILE

fun CacheReuseScope_int :: "CacheReuseScope \<Rightarrow> int" where
  "CacheReuseScope_int CRS_OPERATION = 0"
| "CacheReuseScope_int CRS_SESSION = 1"
| "CacheReuseScope_int CRS_CONNECTION = 2"
| "CacheReuseScope_int CRS_GLOBAL = 3"
| "CacheReuseScope_int CRS_TENANT = 4"
| "CacheReuseScope_int CRS_PROFILE = 5"

definition CacheReuseScope_of :: "int \<Rightarrow> CacheReuseScope res" where
  "CacheReuseScope_of v =
     (if v = 0 then Inr CRS_OPERATION
     else if v = 1 then Inr CRS_SESSION
     else if v = 2 then Inr CRS_CONNECTION
     else if v = 3 then Inr CRS_GLOBAL
     else if v = 4 then Inr CRS_TENANT
     else if v = 5 then Inr CRS_PROFILE
     else ve ''not a valid CacheReuseScope'')"

interpretation CRS_enum: int_enum CacheReuseScope_int CacheReuseScope_of
proof
  show "CacheReuseScope_of (CacheReuseScope_int k) = Inr k" for k
    by (cases k) (simp_all add: CacheReuseScope_of_def)
  show "CacheReuseScope_of v = Inr k \<Longrightarrow> CacheReuseScope_int k = v" for v k
    by (auto simp: CacheReuseScope_of_def split: if_splits)
qed

datatype CacheMissReason = CMR_UNKNOWN | CMR_NOT_FOUND | CMR_EXPIRED | CMR_INVALIDATED
    | CMR_SCHEMA_MISMATCH | CMR_PRODUCER_UNAVAILABLE | CMR_LEASE_REQUIRED
    | CMR_PERMISSION_DENIED

fun CacheMissReason_int :: "CacheMissReason \<Rightarrow> int" where
  "CacheMissReason_int CMR_UNKNOWN = 0"
| "CacheMissReason_int CMR_NOT_FOUND = 1"
| "CacheMissReason_int CMR_EXPIRED = 2"
| "CacheMissReason_int CMR_INVALIDATED = 3"
| "CacheMissReason_int CMR_SCHEMA_MISMATCH = 4"
| "CacheMissReason_int CMR_PRODUCER_UNAVAILABLE = 5"
| "CacheMissReason_int CMR_LEASE_REQUIRED = 6"
| "CacheMissReason_int CMR_PERMISSION_DENIED = 7"

definition CacheMissReason_of :: "int \<Rightarrow> CacheMissReason res" where
  "CacheMissReason_of v =
     (if v = 0 then Inr CMR_UNKNOWN
     else if v = 1 then Inr CMR_NOT_FOUND
     else if v = 2 then Inr CMR_EXPIRED
     else if v = 3 then Inr CMR_INVALIDATED
     else if v = 4 then Inr CMR_SCHEMA_MISMATCH
     else if v = 5 then Inr CMR_PRODUCER_UNAVAILABLE
     else if v = 6 then Inr CMR_LEASE_REQUIRED
     else if v = 7 then Inr CMR_PERMISSION_DENIED
     else ve ''not a valid CacheMissReason'')"

interpretation CMR_enum: int_enum CacheMissReason_int CacheMissReason_of
proof
  show "CacheMissReason_of (CacheMissReason_int k) = Inr k" for k
    by (cases k) (simp_all add: CacheMissReason_of_def)
  show "CacheMissReason_of v = Inr k \<Longrightarrow> CacheMissReason_int k = v" for v k
    by (auto simp: CacheMissReason_of_def split: if_splits)
qed

datatype SessionCloseReason = SCR_NORMAL | SCR_CLIENT_SHUTDOWN | SCR_SERVER_SHUTDOWN
    | SCR_IDLE_TIMEOUT | SCR_PROTOCOL_ERROR | SCR_AUTH_REVOKED

fun SessionCloseReason_int :: "SessionCloseReason \<Rightarrow> int" where
  "SessionCloseReason_int SCR_NORMAL = 0"
| "SessionCloseReason_int SCR_CLIENT_SHUTDOWN = 1"
| "SessionCloseReason_int SCR_SERVER_SHUTDOWN = 2"
| "SessionCloseReason_int SCR_IDLE_TIMEOUT = 3"
| "SessionCloseReason_int SCR_PROTOCOL_ERROR = 4"
| "SessionCloseReason_int SCR_AUTH_REVOKED = 5"

definition SessionCloseReason_of :: "int \<Rightarrow> SessionCloseReason res" where
  "SessionCloseReason_of v =
     (if v = 0 then Inr SCR_NORMAL
     else if v = 1 then Inr SCR_CLIENT_SHUTDOWN
     else if v = 2 then Inr SCR_SERVER_SHUTDOWN
     else if v = 3 then Inr SCR_IDLE_TIMEOUT
     else if v = 4 then Inr SCR_PROTOCOL_ERROR
     else if v = 5 then Inr SCR_AUTH_REVOKED
     else ve ''not a valid SessionCloseReason'')"

interpretation SCR_enum: int_enum SessionCloseReason_int SessionCloseReason_of
proof
  show "SessionCloseReason_of (SessionCloseReason_int k) = Inr k" for k
    by (cases k) (simp_all add: SessionCloseReason_of_def)
  show "SessionCloseReason_of v = Inr k \<Longrightarrow> SessionCloseReason_int k = v" for v k
    by (auto simp: SessionCloseReason_of_def split: if_splits)
qed

datatype InFlightPolicy = IFP_DRAIN | IFP_ABORT

fun InFlightPolicy_int :: "InFlightPolicy \<Rightarrow> int" where
  "InFlightPolicy_int IFP_DRAIN = 0"
| "InFlightPolicy_int IFP_ABORT = 1"

definition InFlightPolicy_of :: "int \<Rightarrow> InFlightPolicy res" where
  "InFlightPolicy_of v =
     (if v = 0 then Inr IFP_DRAIN
     else if v = 1 then Inr IFP_ABORT
     else ve ''not a valid InFlightPolicy'')"

interpretation IFP_enum: int_enum InFlightPolicy_int InFlightPolicy_of
proof
  show "InFlightPolicy_of (InFlightPolicy_int k) = Inr k" for k
    by (cases k) (simp_all add: InFlightPolicy_of_def)
  show "InFlightPolicy_of v = Inr k \<Longrightarrow> InFlightPolicy_int k = v" for v k
    by (auto simp: InFlightPolicy_of_def split: if_splits)
qed

section \<open>Field checks\<close>

text \<open>The helper functions at the end of the file.\<close>

definition runtime_validate_mask :: "int \<Rightarrow> int \<Rightarrow> string \<Rightarrow> unit res" where
  "runtime_validate_mask v allowed field =
     (if truthy (v AND NOT allowed) then ve (field @ '' has reserved bits set'') else Inr ())"

definition require_zero :: "int \<Rightarrow> string \<Rightarrow> unit res" where
  "require_zero v field = (if v \<noteq> 0 then ve (field @ '' must be zero'') else Inr ())"

definition validate_percent_x100 :: "int \<Rightarrow> unit res" where
  "validate_percent_x100 v =
     (if 0 \<le> v \<and> v \<le> 10000 \<or> v = 0xFFFF then Inr ()
      else ve ''progress.percent_x100 must be 0..10000 or 0xffff'')"

text \<open>\<open>try: return RuntimeRole(value)\<close>, \<open>except ValueError: return value\<close>, as an integer.\<close>

definition runtime_role_or_int :: "int \<Rightarrow> int" where
  "runtime_role_or_int v =
     (case RuntimeRole_of v of Inr r \<Rightarrow> RuntimeRole_int r | Inl e \<Rightarrow> v)"

definition result_drop_reason_or_int :: "int \<Rightarrow> int" where
  "result_drop_reason_or_int v =
     (case ResultDropReasonCode_of v of Inr r \<Rightarrow> ResultDropReasonCode_int r | Inl e \<Rightarrow> v)"

text \<open>The call of an enum class, for its exception only.\<close>

definition known_member :: "(int \<Rightarrow> 'a res) \<Rightarrow> int \<Rightarrow> unit res" where
  "known_member of_value v = bind_res (of_value v) (\<lambda>_. Inr ())"

lemma runtime_validate_mask_iff [res_simps]: "runtime_validate_mask v a f = Inr u \<longleftrightarrow> v AND NOT a = 0"
  by (simp add: runtime_validate_mask_def)

lemma require_zero_iff [res_simps]: "require_zero v f = Inr u \<longleftrightarrow> v = 0"
  by (simp add: require_zero_def)

lemma require_zero_0 [simp]: "require_zero 0 f = Inr ()"
  by (simp add: require_zero_def)

lemma role_or_int [simp]:
  "runtime_role_or_int v = v" "result_drop_reason_or_int v = v"
  by (auto simp: runtime_role_or_int_def result_drop_reason_or_int_def res_simps split: sum.split)

section \<open>SessionCloseMetadata\<close>

definition SESSION_CLOSE_STRUCT :: "field list" where
  "SESSION_CLOSE_STRUCT = [FH, FB, FB, FI, FQ, FI, FI]"

lemma SESSION_CLOSE_STRUCT_size [simp]: "calcsize SESSION_CLOSE_STRUCT = 24"
  by (simp add: SESSION_CLOSE_STRUCT_def)

record SessionCloseMetadata =
  scm_close_reason :: SessionCloseReason
  scm_in_flight_policy :: InFlightPolicy
  scm_drain_timeout_ms :: int
  scm_last_operation_id :: int
  scm_session_error_code :: int
  scm_session_close_tag :: int

definition SessionCloseMetadata_values :: "SessionCloseMetadata \<Rightarrow> int list" where
  "SessionCloseMetadata_values m =
     [SessionCloseReason_int (scm_close_reason m), InFlightPolicy_int (scm_in_flight_policy m),
      0, scm_drain_timeout_ms m, scm_last_operation_id m, scm_session_error_code m,
      scm_session_close_tag m]"

definition SessionCloseMetadata_pack :: "SessionCloseMetadata \<Rightarrow> bytes res" where
  "SessionCloseMetadata_pack = fixed_width_pack SESSION_CLOSE_STRUCT no_check SessionCloseMetadata_values"

definition SessionCloseMetadata_from_tuple :: "int list \<Rightarrow> SessionCloseMetadata res" where
  "SessionCloseMetadata_from_tuple vs =
     (case vs of
        [close_reason, in_flight_policy, reserved, drain_timeout_ms, last_operation_id,
         session_error_code, session_close_tag] \<Rightarrow>
          bind_res (require_zero reserved ''session_close.reserved0'') (\<lambda>_.
          bind_res (SessionCloseReason_of close_reason) (\<lambda>close_reason.
          bind_res (InFlightPolicy_of in_flight_policy) (\<lambda>in_flight_policy.
          Inr
            \<lparr>scm_close_reason = close_reason, scm_in_flight_policy = in_flight_policy,
            scm_drain_timeout_ms = drain_timeout_ms, scm_last_operation_id = last_operation_id,
            scm_session_error_code = session_error_code,
            scm_session_close_tag = session_close_tag\<rparr>)))
      | _ \<Rightarrow> tuple_error)"

definition SessionCloseMetadata_unpack :: "bytes \<Rightarrow> SessionCloseMetadata res" where
  "SessionCloseMetadata_unpack = fixed_width_unpack SESSION_CLOSE_STRUCT SessionCloseMetadata_from_tuple"

lemma SessionCloseMetadata_from_values:
  shows "SessionCloseMetadata_from_tuple (SessionCloseMetadata_values m) = Inr m"
  by (cases m) (simp add: SessionCloseMetadata_values_def SessionCloseMetadata_from_tuple_def)

lemma SessionCloseMetadata_values_from:
  assumes "SessionCloseMetadata_from_tuple vs = Inr m"
  shows "SessionCloseMetadata_values m = vs"
  using assms
  by (auto simp: SessionCloseMetadata_from_tuple_def SessionCloseMetadata_values_def res_simps
      split: list.splits)

interpretation scm: canonical_codec
  SessionCloseMetadata_pack SessionCloseMetadata_unpack "\<lambda>_. True" "calcsize SESSION_CLOSE_STRUCT"
  unfolding SessionCloseMetadata_pack_def SessionCloseMetadata_unpack_def
  by (rule canonical_codecI)
    (auto intro: SessionCloseMetadata_from_values dest: SessionCloseMetadata_values_from)

section \<open>ControlRequestMetadata\<close>

definition CONTROL_REQUEST_STRUCT :: "field list" where
  "CONTROL_REQUEST_STRUCT = [FQ, FQ, FH, FB, FB, FI, FQ]"

lemma CONTROL_REQUEST_STRUCT_size [simp]: "calcsize CONTROL_REQUEST_STRUCT = 32"
  by (simp add: CONTROL_REQUEST_STRUCT_def)

record ControlRequestMetadata =
  crm_operation_id :: int
  crm_control_sequence :: int
  crm_reason_code :: int
  crm_source_role :: int
  crm_flags :: int
  crm_diagnostic_bytes :: int

definition ControlRequestMetadata_values :: "ControlRequestMetadata \<Rightarrow> int list" where
  "ControlRequestMetadata_values m =
     [crm_operation_id m, crm_control_sequence m, crm_reason_code m, crm_source_role m,
      crm_flags m, crm_diagnostic_bytes m, 0]"

definition ControlRequestMetadata_check :: "ControlRequestMetadata \<Rightarrow> unit res" where
  "ControlRequestMetadata_check m = runtime_validate_mask (crm_flags m) 3 ''control_request.flags''"

definition ControlRequestMetadata_pack :: "ControlRequestMetadata \<Rightarrow> bytes res" where
  "ControlRequestMetadata_pack = fixed_width_pack CONTROL_REQUEST_STRUCT ControlRequestMetadata_check ControlRequestMetadata_values"

definition ControlRequestMetadata_from_tuple :: "int list \<Rightarrow> ControlRequestMetadata res" where
  "ControlRequestMetadata_from_tuple vs =
     (case vs of
        [operation_id, control_sequence, reason_code, source_role, flags, diagnostic_bytes,
         reserved] \<Rightarrow>
          bind_res (require_zero reserved ''control_request.reserved'') (\<lambda>_.
          Inr
            \<lparr>crm_operation_id = operation_id, crm_control_sequence = control_sequence,
            crm_reason_code = reason_code, crm_source_role = runtime_role_or_int source_role,
            crm_flags = flags, crm_diagnostic_bytes = diagnostic_bytes\<rparr>)
      | _ \<Rightarrow> tuple_error)"

definition ControlRequestMetadata_unpack :: "bytes \<Rightarrow> ControlRequestMetadata res" where
  "ControlRequestMetadata_unpack = fixed_width_unpack CONTROL_REQUEST_STRUCT ControlRequestMetadata_from_tuple"

lemma ControlRequestMetadata_from_values:
  assumes "ControlRequestMetadata_check m = Inr ()"
  shows "ControlRequestMetadata_from_tuple (ControlRequestMetadata_values m) = Inr m"
  using assms
  by (cases m) (simp add: ControlRequestMetadata_values_def ControlRequestMetadata_from_tuple_def ControlRequestMetadata_check_def)

lemma ControlRequestMetadata_values_from:
  assumes "ControlRequestMetadata_from_tuple vs = Inr m"
  shows "ControlRequestMetadata_values m = vs"
  using assms
  by (auto simp: ControlRequestMetadata_from_tuple_def ControlRequestMetadata_values_def ControlRequestMetadata_check_def res_simps
      split: list.splits)

interpretation crm: fixed_codec
  ControlRequestMetadata_pack ControlRequestMetadata_unpack "\<lambda>_. True" "calcsize CONTROL_REQUEST_STRUCT"
  unfolding ControlRequestMetadata_pack_def ControlRequestMetadata_unpack_def
  by (rule fixed_codecI)
    (auto intro: ControlRequestMetadata_from_values dest: ControlRequestMetadata_values_from)

section \<open>SchedulingMetadata\<close>

definition SCHEDULING_STRUCT :: "field list" where
  "SCHEDULING_STRUCT = [FQ, FQ, FH, Fh, FQ, FI]"

lemma SCHEDULING_STRUCT_size [simp]: "calcsize SCHEDULING_STRUCT = 32"
  by (simp add: SCHEDULING_STRUCT_def)

record SchedulingMetadata =
  sdm_operation_id :: int
  sdm_control_sequence :: int
  sdm_priority_class :: int
  sdm_priority_delta :: int
  sdm_deadline_unix_ms :: int
  sdm_flags :: int

definition SchedulingMetadata_values :: "SchedulingMetadata \<Rightarrow> int list" where
  "SchedulingMetadata_values m =
     [sdm_operation_id m, sdm_control_sequence m, sdm_priority_class m, sdm_priority_delta m,
      sdm_deadline_unix_ms m, sdm_flags m]"

definition SchedulingMetadata_check :: "SchedulingMetadata \<Rightarrow> unit res" where
  "SchedulingMetadata_check m = runtime_validate_mask (sdm_flags m) 3 ''scheduling.flags''"

definition SchedulingMetadata_pack :: "SchedulingMetadata \<Rightarrow> bytes res" where
  "SchedulingMetadata_pack = fixed_width_pack SCHEDULING_STRUCT SchedulingMetadata_check SchedulingMetadata_values"

definition SchedulingMetadata_from_tuple :: "int list \<Rightarrow> SchedulingMetadata res" where
  "SchedulingMetadata_from_tuple vs =
     (case vs of
        [operation_id, control_sequence, priority_class, priority_delta, deadline_unix_ms,
         flags] \<Rightarrow>
          bind_res (runtime_validate_mask flags 3 ''scheduling.flags'') (\<lambda>_.
          Inr
            \<lparr>sdm_operation_id = operation_id, sdm_control_sequence = control_sequence,
            sdm_priority_class = priority_class, sdm_priority_delta = priority_delta,
            sdm_deadline_unix_ms = deadline_unix_ms, sdm_flags = flags\<rparr>)
      | _ \<Rightarrow> tuple_error)"

definition SchedulingMetadata_unpack :: "bytes \<Rightarrow> SchedulingMetadata res" where
  "SchedulingMetadata_unpack = fixed_width_unpack SCHEDULING_STRUCT SchedulingMetadata_from_tuple"

lemma SchedulingMetadata_from_values:
  assumes "SchedulingMetadata_check m = Inr ()"
  shows "SchedulingMetadata_from_tuple (SchedulingMetadata_values m) = Inr m"
  using assms
  by (cases m) (simp add: SchedulingMetadata_values_def SchedulingMetadata_from_tuple_def SchedulingMetadata_check_def)

lemma SchedulingMetadata_values_from:
  assumes "SchedulingMetadata_from_tuple vs = Inr m"
  shows "SchedulingMetadata_check m = Inr () \<and> SchedulingMetadata_values m = vs"
  using assms
  by (auto simp: SchedulingMetadata_from_tuple_def SchedulingMetadata_values_def SchedulingMetadata_check_def res_simps
      split: list.splits)

interpretation sdm: canonical_codec
  SchedulingMetadata_pack SchedulingMetadata_unpack "\<lambda>_. True" "calcsize SCHEDULING_STRUCT"
  unfolding SchedulingMetadata_pack_def SchedulingMetadata_unpack_def
  by (rule canonical_codecI)
    (auto intro: SchedulingMetadata_from_values dest: SchedulingMetadata_values_from)

section \<open>SupersedeMetadata\<close>

definition SUPERSEDE_STRUCT :: "field list" where
  "SUPERSEDE_STRUCT = [FQ, FQ, FQ, FH, FH, FI]"

lemma SUPERSEDE_STRUCT_size [simp]: "calcsize SUPERSEDE_STRUCT = 32"
  by (simp add: SUPERSEDE_STRUCT_def)

record SupersedeMetadata =
  sudm_old_operation_id :: int
  sudm_new_operation_id :: int
  sudm_control_sequence :: int
  sudm_drop_reason_code :: int
  sudm_flags :: int
  sudm_diagnostic_bytes :: int

definition SupersedeMetadata_values :: "SupersedeMetadata \<Rightarrow> int list" where
  "SupersedeMetadata_values m =
     [sudm_old_operation_id m, sudm_new_operation_id m, sudm_control_sequence m,
      sudm_drop_reason_code m, sudm_flags m, sudm_diagnostic_bytes m]"

definition SupersedeMetadata_check :: "SupersedeMetadata \<Rightarrow> unit res" where
  "SupersedeMetadata_check m = runtime_validate_mask (sudm_flags m) 1 ''supersede.flags''"

definition SupersedeMetadata_pack :: "SupersedeMetadata \<Rightarrow> bytes res" where
  "SupersedeMetadata_pack = fixed_width_pack SUPERSEDE_STRUCT SupersedeMetadata_check SupersedeMetadata_values"

definition SupersedeMetadata_from_tuple :: "int list \<Rightarrow> SupersedeMetadata res" where
  "SupersedeMetadata_from_tuple vs =
     (case vs of
        [old_operation_id, new_operation_id, control_sequence, drop_reason_code, flags,
         diagnostic_bytes] \<Rightarrow>
          bind_res (runtime_validate_mask flags 1 ''supersede.flags'') (\<lambda>_.
          Inr
            \<lparr>sudm_old_operation_id = old_operation_id, sudm_new_operation_id = new_operation_id,
            sudm_control_sequence = control_sequence, sudm_drop_reason_code = drop_reason_code,
            sudm_flags = flags, sudm_diagnostic_bytes = diagnostic_bytes\<rparr>)
      | _ \<Rightarrow> tuple_error)"

definition SupersedeMetadata_unpack :: "bytes \<Rightarrow> SupersedeMetadata res" where
  "SupersedeMetadata_unpack = fixed_width_unpack SUPERSEDE_STRUCT SupersedeMetadata_from_tuple"

lemma SupersedeMetadata_from_values:
  assumes "SupersedeMetadata_check m = Inr ()"
  shows "SupersedeMetadata_from_tuple (SupersedeMetadata_values m) = Inr m"
  using assms
  by (cases m) (simp add: SupersedeMetadata_values_def SupersedeMetadata_from_tuple_def SupersedeMetadata_check_def)

lemma SupersedeMetadata_values_from:
  assumes "SupersedeMetadata_from_tuple vs = Inr m"
  shows "SupersedeMetadata_check m = Inr () \<and> SupersedeMetadata_values m = vs"
  using assms
  by (auto simp: SupersedeMetadata_from_tuple_def SupersedeMetadata_values_def SupersedeMetadata_check_def res_simps
      split: list.splits)

interpretation sudm: canonical_codec
  SupersedeMetadata_pack SupersedeMetadata_unpack "\<lambda>_. True" "calcsize SUPERSEDE_STRUCT"
  unfolding SupersedeMetadata_pack_def SupersedeMetadata_unpack_def
  by (rule canonical_codecI)
    (auto intro: SupersedeMetadata_from_values dest: SupersedeMetadata_values_from)

section \<open>BudgetMetadata\<close>

definition BUDGET_STRUCT :: "field list" where
  "BUDGET_STRUCT = [FQ, FQ, FQ, FQ, FI, FI]"

lemma BUDGET_STRUCT_size [simp]: "calcsize BUDGET_STRUCT = 40"
  by (simp add: BUDGET_STRUCT_def)

record BudgetMetadata =
  bgm_operation_id :: int
  bgm_compute_budget_units :: int
  bgm_memory_budget_bytes :: int
  bgm_bandwidth_budget_bytes :: int
  bgm_token_budget :: int
  bgm_flags :: int

definition BudgetMetadata_values :: "BudgetMetadata \<Rightarrow> int list" where
  "BudgetMetadata_values m =
     [bgm_operation_id m, bgm_compute_budget_units m, bgm_memory_budget_bytes m,
      bgm_bandwidth_budget_bytes m, bgm_token_budget m, bgm_flags m]"

definition BudgetMetadata_check :: "BudgetMetadata \<Rightarrow> unit res" where
  "BudgetMetadata_check m = runtime_validate_mask (bgm_flags m) 3 ''budget.flags''"

definition BudgetMetadata_pack :: "BudgetMetadata \<Rightarrow> bytes res" where
  "BudgetMetadata_pack = fixed_width_pack BUDGET_STRUCT BudgetMetadata_check BudgetMetadata_values"

definition BudgetMetadata_from_tuple :: "int list \<Rightarrow> BudgetMetadata res" where
  "BudgetMetadata_from_tuple vs =
     (case vs of
        [operation_id, compute_budget_units, memory_budget_bytes, bandwidth_budget_bytes,
         token_budget, flags] \<Rightarrow>
          bind_res (runtime_validate_mask flags 3 ''budget.flags'') (\<lambda>_.
          Inr
            \<lparr>bgm_operation_id = operation_id, bgm_compute_budget_units = compute_budget_units,
            bgm_memory_budget_bytes = memory_budget_bytes,
            bgm_bandwidth_budget_bytes = bandwidth_budget_bytes,
            bgm_token_budget = token_budget, bgm_flags = flags\<rparr>)
      | _ \<Rightarrow> tuple_error)"

definition BudgetMetadata_unpack :: "bytes \<Rightarrow> BudgetMetadata res" where
  "BudgetMetadata_unpack = fixed_width_unpack BUDGET_STRUCT BudgetMetadata_from_tuple"

lemma BudgetMetadata_from_values:
  assumes "BudgetMetadata_check m = Inr ()"
  shows "BudgetMetadata_from_tuple (BudgetMetadata_values m) = Inr m"
  using assms
  by (cases m) (simp add: BudgetMetadata_values_def BudgetMetadata_from_tuple_def BudgetMetadata_check_def)

lemma BudgetMetadata_values_from:
  assumes "BudgetMetadata_from_tuple vs = Inr m"
  shows "BudgetMetadata_check m = Inr () \<and> BudgetMetadata_values m = vs"
  using assms
  by (auto simp: BudgetMetadata_from_tuple_def BudgetMetadata_values_def BudgetMetadata_check_def res_simps
      split: list.splits)

interpretation bgm: canonical_codec
  BudgetMetadata_pack BudgetMetadata_unpack "\<lambda>_. True" "calcsize BUDGET_STRUCT"
  unfolding BudgetMetadata_pack_def BudgetMetadata_unpack_def
  by (rule canonical_codecI)
    (auto intro: BudgetMetadata_from_values dest: BudgetMetadata_values_from)

section \<open>ProgressMetadata\<close>

definition PROGRESS_STRUCT :: "field list" where
  "PROGRESS_STRUCT = [FQ, FQ, FH, FH, FQ, FI]"

lemma PROGRESS_STRUCT_size [simp]: "calcsize PROGRESS_STRUCT = 32"
  by (simp add: PROGRESS_STRUCT_def)

record ProgressMetadata =
  prm_operation_id :: int
  prm_progress_sequence :: int
  prm_stage_code :: int
  prm_percent_x100 :: int
  prm_object_id :: int
  prm_body_bytes :: int

definition ProgressMetadata_values :: "ProgressMetadata \<Rightarrow> int list" where
  "ProgressMetadata_values m =
     [prm_operation_id m, prm_progress_sequence m, prm_stage_code m, prm_percent_x100 m,
      prm_object_id m, prm_body_bytes m]"

definition ProgressMetadata_check :: "ProgressMetadata \<Rightarrow> unit res" where
  "ProgressMetadata_check m = validate_percent_x100 (prm_percent_x100 m)"

definition ProgressMetadata_pack :: "ProgressMetadata \<Rightarrow> bytes res" where
  "ProgressMetadata_pack = fixed_width_pack PROGRESS_STRUCT ProgressMetadata_check ProgressMetadata_values"

definition ProgressMetadata_from_tuple :: "int list \<Rightarrow> ProgressMetadata res" where
  "ProgressMetadata_from_tuple vs =
     (case vs of
        [operation_id, progress_sequence, stage_code, percent_x100, object_id, body_bytes] \<Rightarrow>
          bind_res (validate_percent_x100 percent_x100) (\<lambda>_.
          Inr
            \<lparr>prm_operation_id = operation_id, prm_progress_sequence = progress_sequence,
            prm_stage_code = stage_code, prm_percent_x100 = percent_x100,
            prm_object_id = object_id, prm_body_bytes = body_bytes\<rparr>)
      | _ \<Rightarrow> tuple_error)"

definition ProgressMetadata_unpack :: "bytes \<Rightarrow> ProgressMetadata res" where
  "ProgressMetadata_unpack = fixed_width_unpack PROGRESS_STRUCT ProgressMetadata_from_tuple"

lemma ProgressMetadata_from_values:
  assumes "ProgressMetadata_check m = Inr ()"
  shows "ProgressMetadata_from_tuple (ProgressMetadata_values m) = Inr m"
  using assms
  by (cases m) (simp add: ProgressMetadata_values_def ProgressMetadata_from_tuple_def ProgressMetadata_check_def)

lemma ProgressMetadata_values_from:
  assumes "ProgressMetadata_from_tuple vs = Inr m"
  shows "ProgressMetadata_check m = Inr () \<and> ProgressMetadata_values m = vs"
  using assms
  by (auto simp: ProgressMetadata_from_tuple_def ProgressMetadata_values_def ProgressMetadata_check_def res_simps
      split: list.splits)

interpretation prm: canonical_codec
  ProgressMetadata_pack ProgressMetadata_unpack "\<lambda>_. True" "calcsize PROGRESS_STRUCT"
  unfolding ProgressMetadata_pack_def ProgressMetadata_unpack_def
  by (rule canonical_codecI)
    (auto intro: ProgressMetadata_from_values dest: ProgressMetadata_values_from)

section \<open>PartialResultMetadata\<close>

definition PARTIAL_RESULT_STRUCT :: "field list" where
  "PARTIAL_RESULT_STRUCT = [FQ, FQ, FQ, FQ, FI, FI]"

lemma PARTIAL_RESULT_STRUCT_size [simp]: "calcsize PARTIAL_RESULT_STRUCT = 40"
  by (simp add: PARTIAL_RESULT_STRUCT_def)

record PartialResultMetadata =
  ptm_operation_id :: int
  ptm_result_sequence :: int
  ptm_object_id :: int
  ptm_delta_sequence :: int
  ptm_body_bytes :: int
  ptm_flags :: int

definition PartialResultMetadata_values :: "PartialResultMetadata \<Rightarrow> int list" where
  "PartialResultMetadata_values m =
     [ptm_operation_id m, ptm_result_sequence m, ptm_object_id m, ptm_delta_sequence m,
      ptm_body_bytes m, ptm_flags m]"

definition PartialResultMetadata_check :: "PartialResultMetadata \<Rightarrow> unit res" where
  "PartialResultMetadata_check m = runtime_validate_mask (ptm_flags m) 3 ''partial_result.flags''"

definition PartialResultMetadata_pack :: "PartialResultMetadata \<Rightarrow> bytes res" where
  "PartialResultMetadata_pack = fixed_width_pack PARTIAL_RESULT_STRUCT PartialResultMetadata_check PartialResultMetadata_values"

definition PartialResultMetadata_from_tuple :: "int list \<Rightarrow> PartialResultMetadata res" where
  "PartialResultMetadata_from_tuple vs =
     (case vs of
        [operation_id, result_sequence, object_id, delta_sequence, body_bytes, flags] \<Rightarrow>
          bind_res (runtime_validate_mask flags 3 ''partial_result.flags'') (\<lambda>_.
          Inr
            \<lparr>ptm_operation_id = operation_id, ptm_result_sequence = result_sequence,
            ptm_object_id = object_id, ptm_delta_sequence = delta_sequence,
            ptm_body_bytes = body_bytes, ptm_flags = flags\<rparr>)
      | _ \<Rightarrow> tuple_error)"

definition PartialResultMetadata_unpack :: "bytes \<Rightarrow> PartialResultMetadata res" where
  "PartialResultMetadata_unpack = fixed_width_unpack PARTIAL_RESULT_STRUCT PartialResultMetadata_from_tuple"

lemma PartialResultMetadata_from_values:
  assumes "PartialResultMetadata_check m = Inr ()"
  shows "PartialResultMetadata_from_tuple (PartialResultMetadata_values m) = Inr m"
  using assms
  by (cases m) (simp add: PartialResultMetadata_values_def PartialResultMetadata_from_tuple_def PartialResultMetadata_check_def)

lemma PartialResultMetadata_values_from:
  assumes "PartialResultMetadata_from_tuple vs = Inr m"
  shows "PartialResultMetadata_check m = Inr () \<and> PartialResultMetadata_values m = vs"
  using assms
  by (auto simp: PartialResultMetadata_from_tuple_def PartialResultMetadata_values_def PartialResultMetadata_check_def res_simps
      split: list.splits)

interpretation ptm: canonical_codec
  PartialResultMetadata_pack PartialResultMetadata_unpack "\<lambda>_. True" "calcsize PARTIAL_RESULT_STRUCT"
  unfolding PartialResultMetadata_pack_def PartialResultMetadata_unpack_def
  by (rule canonical_codecI)
    (auto intro: PartialResultMetadata_from_values dest: PartialResultMetadata_values_from)

section \<open>PressureMetadata\<close>

definition PRESSURE_STRUCT :: "field list" where
  "PRESSURE_STRUCT = [FQ, FQ, FH, FH, FI, FI, FI]"

lemma PRESSURE_STRUCT_size [simp]: "calcsize PRESSURE_STRUCT = 32"
  by (simp add: PRESSURE_STRUCT_def)

record PressureMetadata =
  psm_scope_id :: int
  psm_credit_window :: int
  psm_pressure_level :: int
  psm_pressure_reason :: int
  psm_retry_after_ms :: int
  psm_flags :: int

definition PressureMetadata_values :: "PressureMetadata \<Rightarrow> int list" where
  "PressureMetadata_values m =
     [psm_scope_id m, psm_credit_window m, psm_pressure_level m, psm_pressure_reason m,
      psm_retry_after_ms m, psm_flags m, 0]"

definition PressureMetadata_check :: "PressureMetadata \<Rightarrow> unit res" where
  "PressureMetadata_check m = runtime_validate_mask (psm_flags m) 3 ''pressure.flags''"

definition PressureMetadata_pack :: "PressureMetadata \<Rightarrow> bytes res" where
  "PressureMetadata_pack = fixed_width_pack PRESSURE_STRUCT PressureMetadata_check PressureMetadata_values"

definition PressureMetadata_from_tuple :: "int list \<Rightarrow> PressureMetadata res" where
  "PressureMetadata_from_tuple vs =
     (case vs of
        [scope_id, credit_window, pressure_level, pressure_reason, retry_after_ms, flags,
         reserved] \<Rightarrow>
          bind_res (runtime_validate_mask flags 3 ''pressure.flags'') (\<lambda>_.
          bind_res (require_zero reserved ''pressure.reserved'') (\<lambda>_.
          Inr
            \<lparr>psm_scope_id = scope_id, psm_credit_window = credit_window,
            psm_pressure_level = pressure_level, psm_pressure_reason = pressure_reason,
            psm_retry_after_ms = retry_after_ms, psm_flags = flags\<rparr>))
      | _ \<Rightarrow> tuple_error)"

definition PressureMetadata_unpack :: "bytes \<Rightarrow> PressureMetadata res" where
  "PressureMetadata_unpack = fixed_width_unpack PRESSURE_STRUCT PressureMetadata_from_tuple"

lemma PressureMetadata_from_values:
  assumes "PressureMetadata_check m = Inr ()"
  shows "PressureMetadata_from_tuple (PressureMetadata_values m) = Inr m"
  using assms
  by (cases m) (simp add: PressureMetadata_values_def PressureMetadata_from_tuple_def PressureMetadata_check_def)

lemma PressureMetadata_values_from:
  assumes "PressureMetadata_from_tuple vs = Inr m"
  shows "PressureMetadata_check m = Inr () \<and> PressureMetadata_values m = vs"
  using assms
  by (auto simp: PressureMetadata_from_tuple_def PressureMetadata_values_def PressureMetadata_check_def res_simps
      split: list.splits)

interpretation psm: canonical_codec
  PressureMetadata_pack PressureMetadata_unpack "\<lambda>_. True" "calcsize PRESSURE_STRUCT"
  unfolding PressureMetadata_pack_def PressureMetadata_unpack_def
  by (rule canonical_codecI)
    (auto intro: PressureMetadata_from_values dest: PressureMetadata_values_from)

section \<open>CapabilityMetadata\<close>

definition CAPABILITY_STRUCT :: "field list" where
  "CAPABILITY_STRUCT = [FH, FH, FH, FH, FQ, FQ, FI, FI]"

lemma CAPABILITY_STRUCT_size [simp]: "calcsize CAPABILITY_STRUCT = 32"
  by (simp add: CAPABILITY_STRUCT_def)

record CapabilityMetadata =
  cpbm_profile_id :: int
  cpbm_capability_count :: int
  cpbm_cost_model_id :: int
  cpbm_preference_rank :: int
  cpbm_limit_bytes :: int
  cpbm_limit_units :: int
  cpbm_body_bytes :: int
  cpbm_flags :: int

definition CapabilityMetadata_values :: "CapabilityMetadata \<Rightarrow> int list" where
  "CapabilityMetadata_values m =
     [cpbm_profile_id m, cpbm_capability_count m, cpbm_cost_model_id m, cpbm_preference_rank m,
      cpbm_limit_bytes m, cpbm_limit_units m, cpbm_body_bytes m, cpbm_flags m]"

definition CapabilityMetadata_check :: "CapabilityMetadata \<Rightarrow> unit res" where
  "CapabilityMetadata_check m = runtime_validate_mask (cpbm_flags m) 3 ''capability.flags''"

definition CapabilityMetadata_pack :: "CapabilityMetadata \<Rightarrow> bytes res" where
  "CapabilityMetadata_pack = fixed_width_pack CAPABILITY_STRUCT CapabilityMetadata_check CapabilityMetadata_values"

definition CapabilityMetadata_from_tuple :: "int list \<Rightarrow> CapabilityMetadata res" where
  "CapabilityMetadata_from_tuple vs =
     (case vs of
        [profile_id, capability_count, cost_model_id, preference_rank, limit_bytes,
         limit_units, body_bytes, flags] \<Rightarrow>
          bind_res (runtime_validate_mask flags 3 ''capability.flags'') (\<lambda>_.
          Inr
            \<lparr>cpbm_profile_id = profile_id, cpbm_capability_count = capability_count,
            cpbm_cost_model_id = cost_model_id, cpbm_preference_rank = preference_rank,
            cpbm_limit_bytes = limit_bytes, cpbm_limit_units = limit_units,
            cpbm_body_bytes = body_bytes, cpbm_flags = flags\<rparr>)
      | _ \<Rightarrow> tuple_error)"

definition CapabilityMetadata_unpack :: "bytes \<Rightarrow> CapabilityMetadata res" where
  "CapabilityMetadata_unpack = fixed_width_unpack CAPABILITY_STRUCT CapabilityMetadata_from_tuple"

lemma CapabilityMetadata_from_values:
  assumes "CapabilityMetadata_check m = Inr ()"
  shows "CapabilityMetadata_from_tuple (CapabilityMetadata_values m) = Inr m"
  using assms
  by (cases m) (simp add: CapabilityMetadata_values_def CapabilityMetadata_from_tuple_def CapabilityMetadata_check_def)

lemma CapabilityMetadata_values_from:
  assumes "CapabilityMetadata_from_tuple vs = Inr m"
  shows "CapabilityMetadata_check m = Inr () \<and> CapabilityMetadata_values m = vs"
  using assms
  by (auto simp: CapabilityMetadata_from_tuple_def CapabilityMetadata_values_def CapabilityMetadata_check_def res_simps
      split: list.splits)

interpretation cpbm: canonical_codec
  CapabilityMetadata_pack CapabilityMetadata_unpack "\<lambda>_. True" "calcsize CAPABILITY_STRUCT"
  unfolding CapabilityMetadata_pack_def CapabilityMetadata_unpack_def
  by (rule canonical_codecI)
    (auto intro: CapabilityMetadata_from_values dest: CapabilityMetadata_values_from)

section \<open>RouteHintMetadata\<close>

definition ROUTE_HINT_STRUCT :: "field list" where
  "ROUTE_HINT_STRUCT = [FQ, FI, FH, FH, FQ, FI, FI]"

lemma ROUTE_HINT_STRUCT_size [simp]: "calcsize ROUTE_HINT_STRUCT = 32"
  by (simp add: ROUTE_HINT_STRUCT_def)

record RouteHintMetadata =
  rhtm_operation_id :: int
  rhtm_route_id :: int
  rhtm_executor_class :: int
  rhtm_affinity_class :: int
  rhtm_deadline_unix_ms :: int
  rhtm_body_bytes :: int
  rhtm_flags :: int

definition RouteHintMetadata_values :: "RouteHintMetadata \<Rightarrow> int list" where
  "RouteHintMetadata_values m =
     [rhtm_operation_id m, rhtm_route_id m, rhtm_executor_class m, rhtm_affinity_class m,
      rhtm_deadline_unix_ms m, rhtm_body_bytes m, rhtm_flags m]"

definition RouteHintMetadata_check :: "RouteHintMetadata \<Rightarrow> unit res" where
  "RouteHintMetadata_check m = runtime_validate_mask (rhtm_flags m) 3 ''route_hint.flags''"

definition RouteHintMetadata_pack :: "RouteHintMetadata \<Rightarrow> bytes res" where
  "RouteHintMetadata_pack = fixed_width_pack ROUTE_HINT_STRUCT RouteHintMetadata_check RouteHintMetadata_values"

definition RouteHintMetadata_from_tuple :: "int list \<Rightarrow> RouteHintMetadata res" where
  "RouteHintMetadata_from_tuple vs =
     (case vs of
        [operation_id, route_id, executor_class, affinity_class, deadline_unix_ms, body_bytes,
         flags] \<Rightarrow>
          bind_res (runtime_validate_mask flags 3 ''route_hint.flags'') (\<lambda>_.
          Inr
            \<lparr>rhtm_operation_id = operation_id, rhtm_route_id = route_id,
            rhtm_executor_class = executor_class, rhtm_affinity_class = affinity_class,
            rhtm_deadline_unix_ms = deadline_unix_ms, rhtm_body_bytes = body_bytes,
            rhtm_flags = flags\<rparr>)
      | _ \<Rightarrow> tuple_error)"

definition RouteHintMetadata_unpack :: "bytes \<Rightarrow> RouteHintMetadata res" where
  "RouteHintMetadata_unpack = fixed_width_unpack ROUTE_HINT_STRUCT RouteHintMetadata_from_tuple"

lemma RouteHintMetadata_from_values:
  assumes "RouteHintMetadata_check m = Inr ()"
  shows "RouteHintMetadata_from_tuple (RouteHintMetadata_values m) = Inr m"
  using assms
  by (cases m) (simp add: RouteHintMetadata_values_def RouteHintMetadata_from_tuple_def RouteHintMetadata_check_def)

lemma RouteHintMetadata_values_from:
  assumes "RouteHintMetadata_from_tuple vs = Inr m"
  shows "RouteHintMetadata_check m = Inr () \<and> RouteHintMetadata_values m = vs"
  using assms
  by (auto simp: RouteHintMetadata_from_tuple_def RouteHintMetadata_values_def RouteHintMetadata_check_def res_simps
      split: list.splits)

interpretation rhtm: canonical_codec
  RouteHintMetadata_pack RouteHintMetadata_unpack "\<lambda>_. True" "calcsize ROUTE_HINT_STRUCT"
  unfolding RouteHintMetadata_pack_def RouteHintMetadata_unpack_def
  by (rule canonical_codecI)
    (auto intro: RouteHintMetadata_from_values dest: RouteHintMetadata_values_from)

section \<open>TraceContextMetadata\<close>

definition TRACE_CONTEXT_STRUCT :: "field list" where
  "TRACE_CONTEXT_STRUCT = [FQ, FQ, FQ, FH, FH, FI]"

lemma TRACE_CONTEXT_STRUCT_size [simp]: "calcsize TRACE_CONTEXT_STRUCT = 32"
  by (simp add: TRACE_CONTEXT_STRUCT_def)

record TraceContextMetadata =
  tcm_trace_id :: int
  tcm_span_id :: int
  tcm_parent_span_id :: int
  tcm_stage_code :: int
  tcm_flags :: int
  tcm_body_bytes :: int

definition TraceContextMetadata_values :: "TraceContextMetadata \<Rightarrow> int list" where
  "TraceContextMetadata_values m =
     [tcm_trace_id m, tcm_span_id m, tcm_parent_span_id m, tcm_stage_code m, tcm_flags m,
      tcm_body_bytes m]"

definition TraceContextMetadata_check :: "TraceContextMetadata \<Rightarrow> unit res" where
  "TraceContextMetadata_check m = runtime_validate_mask (tcm_flags m) 3 ''trace_context.flags''"

definition TraceContextMetadata_pack :: "TraceContextMetadata \<Rightarrow> bytes res" where
  "TraceContextMetadata_pack = fixed_width_pack TRACE_CONTEXT_STRUCT TraceContextMetadata_check TraceContextMetadata_values"

definition TraceContextMetadata_from_tuple :: "int list \<Rightarrow> TraceContextMetadata res" where
  "TraceContextMetadata_from_tuple vs =
     (case vs of
        [trace_id, span_id, parent_span_id, stage_code, flags, body_bytes] \<Rightarrow>
          bind_res (runtime_validate_mask flags 3 ''trace_context.flags'') (\<lambda>_.
          Inr
            \<lparr>tcm_trace_id = trace_id, tcm_span_id = span_id,
            tcm_parent_span_id = parent_span_id, tcm_stage_code = stage_code,
            tcm_flags = flags, tcm_body_bytes = body_bytes\<rparr>)
      | _ \<Rightarrow> tuple_error)"

definition TraceContextMetadata_unpack :: "bytes \<Rightarrow> TraceContextMetadata res" where
  "TraceContextMetadata_unpack = fixed_width_unpack TRACE_CONTEXT_STRUCT TraceContextMetadata_from_tuple"

lemma TraceContextMetadata_from_values:
  assumes "TraceContextMetadata_check m = Inr ()"
  shows "TraceContextMetadata_from_tuple (TraceContextMetadata_values m) = Inr m"
  using assms
  by (cases m) (simp add: TraceContextMetadata_values_def TraceContextMetadata_from_tuple_def TraceContextMetadata_check_def)

lemma TraceContextMetadata_values_from:
  assumes "TraceContextMetadata_from_tuple vs = Inr m"
  shows "TraceContextMetadata_check m = Inr () \<and> TraceContextMetadata_values m = vs"
  using assms
  by (auto simp: TraceContextMetadata_from_tuple_def TraceContextMetadata_values_def TraceContextMetadata_check_def res_simps
      split: list.splits)

interpretation tcm: canonical_codec
  TraceContextMetadata_pack TraceContextMetadata_unpack "\<lambda>_. True" "calcsize TRACE_CONTEXT_STRUCT"
  unfolding TraceContextMetadata_pack_def TraceContextMetadata_unpack_def
  by (rule canonical_codecI)
    (auto intro: TraceContextMetadata_from_values dest: TraceContextMetadata_values_from)

section \<open>ResultDropReasonMetadata\<close>

definition RESULT_DROP_REASON_STRUCT :: "field list" where
  "RESULT_DROP_REASON_STRUCT = [FQ, FQ, FH, FB, FB, FI, FQ]"

lemma RESULT_DROP_REASON_STRUCT_size [simp]: "calcsize RESULT_DROP_REASON_STRUCT = 32"
  by (simp add: RESULT_DROP_REASON_STRUCT_def)

record ResultDropReasonMetadata =
  drm_operation_id :: int
  drm_result_sequence :: int
  drm_drop_reason_code :: int
  drm_source_role :: int
  drm_flags :: int
  drm_diagnostic_bytes :: int

definition ResultDropReasonMetadata_values :: "ResultDropReasonMetadata \<Rightarrow> int list" where
  "ResultDropReasonMetadata_values m =
     [drm_operation_id m, drm_result_sequence m, drm_drop_reason_code m, drm_source_role m,
      drm_flags m, drm_diagnostic_bytes m, 0]"

definition ResultDropReasonMetadata_check :: "ResultDropReasonMetadata \<Rightarrow> unit res" where
  "ResultDropReasonMetadata_check m = runtime_validate_mask (drm_flags m) 3 ''result_drop_reason.flags''"

definition ResultDropReasonMetadata_pack :: "ResultDropReasonMetadata \<Rightarrow> bytes res" where
  "ResultDropReasonMetadata_pack = fixed_width_pack RESULT_DROP_REASON_STRUCT ResultDropReasonMetadata_check ResultDropReasonMetadata_values"

definition ResultDropReasonMetadata_from_tuple :: "int list \<Rightarrow> ResultDropReasonMetadata res" where
  "ResultDropReasonMetadata_from_tuple vs =
     (case vs of
        [operation_id, result_sequence, drop_reason_code, source_role, flags, diagnostic_bytes,
         reserved] \<Rightarrow>
          bind_res (runtime_validate_mask flags 3 ''result_drop_reason.flags'') (\<lambda>_.
          bind_res (require_zero reserved ''result_drop_reason.reserved'') (\<lambda>_.
          Inr
            \<lparr>drm_operation_id = operation_id, drm_result_sequence = result_sequence,
            drm_drop_reason_code = result_drop_reason_or_int drop_reason_code,
            drm_source_role = runtime_role_or_int source_role, drm_flags = flags,
            drm_diagnostic_bytes = diagnostic_bytes\<rparr>))
      | _ \<Rightarrow> tuple_error)"

definition ResultDropReasonMetadata_unpack :: "bytes \<Rightarrow> ResultDropReasonMetadata res" where
  "ResultDropReasonMetadata_unpack = fixed_width_unpack RESULT_DROP_REASON_STRUCT ResultDropReasonMetadata_from_tuple"

lemma ResultDropReasonMetadata_from_values:
  assumes "ResultDropReasonMetadata_check m = Inr ()"
  shows "ResultDropReasonMetadata_from_tuple (ResultDropReasonMetadata_values m) = Inr m"
  using assms
  by (cases m) (simp add: ResultDropReasonMetadata_values_def ResultDropReasonMetadata_from_tuple_def ResultDropReasonMetadata_check_def)

lemma ResultDropReasonMetadata_values_from:
  assumes "ResultDropReasonMetadata_from_tuple vs = Inr m"
  shows "ResultDropReasonMetadata_check m = Inr () \<and> ResultDropReasonMetadata_values m = vs"
  using assms
  by (auto simp: ResultDropReasonMetadata_from_tuple_def ResultDropReasonMetadata_values_def ResultDropReasonMetadata_check_def res_simps
      split: list.splits)

interpretation drm: canonical_codec
  ResultDropReasonMetadata_pack ResultDropReasonMetadata_unpack "\<lambda>_. True" "calcsize RESULT_DROP_REASON_STRUCT"
  unfolding ResultDropReasonMetadata_pack_def ResultDropReasonMetadata_unpack_def
  by (rule canonical_codecI)
    (auto intro: ResultDropReasonMetadata_from_values dest: ResultDropReasonMetadata_values_from)

section \<open>RecoverableErrorMetadata\<close>

definition RECOVERABLE_ERROR_STRUCT :: "field list" where
  "RECOVERABLE_ERROR_STRUCT = [FI, FI, FH, FB, FB, FI, FI, FI, FI, FI]"

lemma RECOVERABLE_ERROR_STRUCT_size [simp]: "calcsize RECOVERABLE_ERROR_STRUCT = 32"
  by (simp add: RECOVERABLE_ERROR_STRUCT_def)

record RecoverableErrorMetadata =
  rem_error_code :: int
  rem_error_scope :: int
  rem_recovery_action :: int
  rem_source_role :: int
  rem_flags :: int
  rem_retry_after_ms :: int
  rem_related_session_id :: int
  rem_related_frame_id :: int
  rem_related_view_id :: int
  rem_diagnostic_bytes :: int

definition RecoverableErrorMetadata_values :: "RecoverableErrorMetadata \<Rightarrow> int list" where
  "RecoverableErrorMetadata_values m =
     [rem_error_code m, rem_error_scope m, rem_recovery_action m, rem_source_role m,
      rem_flags m, rem_retry_after_ms m, rem_related_session_id m, rem_related_frame_id m,
      rem_related_view_id m, rem_diagnostic_bytes m]"

definition RecoverableErrorMetadata_check :: "RecoverableErrorMetadata \<Rightarrow> unit res" where
  "RecoverableErrorMetadata_check m = runtime_validate_mask (rem_flags m) 3 ''recoverable_error.flags''"

definition RecoverableErrorMetadata_pack :: "RecoverableErrorMetadata \<Rightarrow> bytes res" where
  "RecoverableErrorMetadata_pack = fixed_width_pack RECOVERABLE_ERROR_STRUCT RecoverableErrorMetadata_check RecoverableErrorMetadata_values"

definition RecoverableErrorMetadata_from_tuple :: "int list \<Rightarrow> RecoverableErrorMetadata res" where
  "RecoverableErrorMetadata_from_tuple vs =
     (case vs of
        [error_code, error_scope, recovery_action, source_role, flags, retry_after_ms,
         related_session_id, related_frame_id, related_view_id, diagnostic_bytes] \<Rightarrow>
          bind_res (runtime_validate_mask flags 3 ''recoverable_error.flags'') (\<lambda>_.
          Inr
            \<lparr>rem_error_code = error_code, rem_error_scope = error_scope,
            rem_recovery_action = recovery_action,
            rem_source_role = runtime_role_or_int source_role, rem_flags = flags,
            rem_retry_after_ms = retry_after_ms, rem_related_session_id = related_session_id,
            rem_related_frame_id = related_frame_id, rem_related_view_id = related_view_id,
            rem_diagnostic_bytes = diagnostic_bytes\<rparr>)
      | _ \<Rightarrow> tuple_error)"

definition RecoverableErrorMetadata_unpack :: "bytes \<Rightarrow> RecoverableErrorMetadata res" where
  "RecoverableErrorMetadata_unpack = fixed_width_unpack RECOVERABLE_ERROR_STRUCT RecoverableErrorMetadata_from_tuple"

lemma RecoverableErrorMetadata_from_values:
  assumes "RecoverableErrorMetadata_check m = Inr ()"
  shows "RecoverableErrorMetadata_from_tuple (RecoverableErrorMetadata_values m) = Inr m"
  using assms
  by (cases m) (simp add: RecoverableErrorMetadata_values_def RecoverableErrorMetadata_from_tuple_def RecoverableErrorMetadata_check_def)

lemma RecoverableErrorMetadata_values_from:
  assumes "RecoverableErrorMetadata_from_tuple vs = Inr m"
  shows "RecoverableErrorMetadata_check m = Inr () \<and> RecoverableErrorMetadata_values m = vs"
  using assms
  by (auto simp: RecoverableErrorMetadata_from_tuple_def RecoverableErrorMetadata_values_def RecoverableErrorMetadata_check_def res_simps
      split: list.splits)

interpretation rem: canonical_codec
  RecoverableErrorMetadata_pack RecoverableErrorMetadata_unpack "\<lambda>_. True" "calcsize RECOVERABLE_ERROR_STRUCT"
  unfolding RecoverableErrorMetadata_pack_def RecoverableErrorMetadata_unpack_def
  by (rule canonical_codecI)
    (auto intro: RecoverableErrorMetadata_from_values dest: RecoverableErrorMetadata_values_from)

section \<open>RetryAfterMetadata\<close>

definition RETRY_AFTER_STRUCT :: "field list" where
  "RETRY_AFTER_STRUCT = [FQ, FQ, FI, FI, FH, FB, FB, FI]"

lemma RETRY_AFTER_STRUCT_size [simp]: "calcsize RETRY_AFTER_STRUCT = 32"
  by (simp add: RETRY_AFTER_STRUCT_def)

record RetryAfterMetadata =
  ram_scope_id :: int
  ram_control_sequence :: int
  ram_retry_after_ms :: int
  ram_jitter_ms :: int
  ram_reason_code :: int
  ram_source_role :: int
  ram_flags :: int
  ram_diagnostic_bytes :: int

definition RetryAfterMetadata_values :: "RetryAfterMetadata \<Rightarrow> int list" where
  "RetryAfterMetadata_values m =
     [ram_scope_id m, ram_control_sequence m, ram_retry_after_ms m, ram_jitter_ms m,
      ram_reason_code m, ram_source_role m, ram_flags m, ram_diagnostic_bytes m]"

definition RetryAfterMetadata_check :: "RetryAfterMetadata \<Rightarrow> unit res" where
  "RetryAfterMetadata_check m = runtime_validate_mask (ram_flags m) 3 ''retry_after.flags''"

definition RetryAfterMetadata_pack :: "RetryAfterMetadata \<Rightarrow> bytes res" where
  "RetryAfterMetadata_pack = fixed_width_pack RETRY_AFTER_STRUCT RetryAfterMetadata_check RetryAfterMetadata_values"

definition RetryAfterMetadata_from_tuple :: "int list \<Rightarrow> RetryAfterMetadata res" where
  "RetryAfterMetadata_from_tuple vs =
     (case vs of
        [scope_id, control_sequence, retry_after_ms, jitter_ms, reason_code, source_role,
         flags, diagnostic_bytes] \<Rightarrow>
          bind_res (runtime_validate_mask flags 3 ''retry_after.flags'') (\<lambda>_.
          Inr
            \<lparr>ram_scope_id = scope_id, ram_control_sequence = control_sequence,
            ram_retry_after_ms = retry_after_ms, ram_jitter_ms = jitter_ms,
            ram_reason_code = reason_code, ram_source_role = runtime_role_or_int source_role,
            ram_flags = flags, ram_diagnostic_bytes = diagnostic_bytes\<rparr>)
      | _ \<Rightarrow> tuple_error)"

definition RetryAfterMetadata_unpack :: "bytes \<Rightarrow> RetryAfterMetadata res" where
  "RetryAfterMetadata_unpack = fixed_width_unpack RETRY_AFTER_STRUCT RetryAfterMetadata_from_tuple"

lemma RetryAfterMetadata_from_values:
  assumes "RetryAfterMetadata_check m = Inr ()"
  shows "RetryAfterMetadata_from_tuple (RetryAfterMetadata_values m) = Inr m"
  using assms
  by (cases m) (simp add: RetryAfterMetadata_values_def RetryAfterMetadata_from_tuple_def RetryAfterMetadata_check_def)

lemma RetryAfterMetadata_values_from:
  assumes "RetryAfterMetadata_from_tuple vs = Inr m"
  shows "RetryAfterMetadata_check m = Inr () \<and> RetryAfterMetadata_values m = vs"
  using assms
  by (auto simp: RetryAfterMetadata_from_tuple_def RetryAfterMetadata_values_def RetryAfterMetadata_check_def res_simps
      split: list.splits)

interpretation ram: canonical_codec
  RetryAfterMetadata_pack RetryAfterMetadata_unpack "\<lambda>_. True" "calcsize RETRY_AFTER_STRUCT"
  unfolding RetryAfterMetadata_pack_def RetryAfterMetadata_unpack_def
  by (rule canonical_codecI)
    (auto intro: RetryAfterMetadata_from_values dest: RetryAfterMetadata_values_from)

section \<open>ObjectDescriptorMetadata\<close>

definition OBJECT_DESCRIPTOR_STRUCT :: "field list" where
  "OBJECT_DESCRIPTOR_STRUCT = [FQ, FH, FB, FB, FI, FQ, FI, FH, FH, FI, FI, FQ]"

lemma OBJECT_DESCRIPTOR_STRUCT_size [simp]: "calcsize OBJECT_DESCRIPTOR_STRUCT = 48"
  by (simp add: OBJECT_DESCRIPTOR_STRUCT_def)

record ObjectDescriptorMetadata =
  odm_object_id :: int
  odm_object_kind :: int
  odm_producer_role :: int
  odm_consumer_role :: int
  odm_session_id :: int
  odm_byte_size :: int
  odm_compute_cost_units :: int
  odm_memory_location_hint :: int
  odm_ownership_hint :: int
  odm_lifetime_hint_ms :: int
  odm_metadata_bytes :: int

definition ObjectDescriptorMetadata_values :: "ObjectDescriptorMetadata \<Rightarrow> int list" where
  "ObjectDescriptorMetadata_values m =
     [odm_object_id m, odm_object_kind m, odm_producer_role m, odm_consumer_role m,
      odm_session_id m, odm_byte_size m, odm_compute_cost_units m, odm_memory_location_hint m,
      odm_ownership_hint m, odm_lifetime_hint_ms m, odm_metadata_bytes m, 0]"

definition ObjectDescriptorMetadata_pack :: "ObjectDescriptorMetadata \<Rightarrow> bytes res" where
  "ObjectDescriptorMetadata_pack = fixed_width_pack OBJECT_DESCRIPTOR_STRUCT no_check ObjectDescriptorMetadata_values"

definition ObjectDescriptorMetadata_from_tuple :: "int list \<Rightarrow> ObjectDescriptorMetadata res" where
  "ObjectDescriptorMetadata_from_tuple vs =
     (case vs of
        [object_id, object_kind, producer_role, consumer_role, session_id, byte_size,
         compute_cost_units, memory_location_hint, ownership_hint, lifetime_hint_ms,
         metadata_bytes, reserved] \<Rightarrow>
          bind_res (require_zero reserved ''object_descriptor.reserved'') (\<lambda>_.
          bind_res (known_member RuntimeObjectKind_of object_kind) (\<lambda>_.
          bind_res (known_member RuntimeRole_of producer_role) (\<lambda>_.
          bind_res (known_member RuntimeRole_of consumer_role) (\<lambda>_.
          bind_res (known_member MemoryLocationHint_of memory_location_hint) (\<lambda>_.
          bind_res (known_member OwnershipHint_of ownership_hint) (\<lambda>_.
          Inr
            \<lparr>odm_object_id = object_id, odm_object_kind = object_kind,
            odm_producer_role = producer_role, odm_consumer_role = consumer_role,
            odm_session_id = session_id, odm_byte_size = byte_size,
            odm_compute_cost_units = compute_cost_units,
            odm_memory_location_hint = memory_location_hint,
            odm_ownership_hint = ownership_hint, odm_lifetime_hint_ms = lifetime_hint_ms,
            odm_metadata_bytes = metadata_bytes\<rparr>))))))
      | _ \<Rightarrow> tuple_error)"

definition ObjectDescriptorMetadata_unpack :: "bytes \<Rightarrow> ObjectDescriptorMetadata res" where
  "ObjectDescriptorMetadata_unpack = fixed_width_unpack OBJECT_DESCRIPTOR_STRUCT ObjectDescriptorMetadata_from_tuple"

definition ObjectDescriptorMetadata_wf :: "ObjectDescriptorMetadata \<Rightarrow> bool" where
  "ObjectDescriptorMetadata_wf m \<longleftrightarrow>
     known_member RuntimeObjectKind_of (odm_object_kind m) = Inr () \<and>
     known_member RuntimeRole_of (odm_producer_role m) = Inr () \<and>
     known_member RuntimeRole_of (odm_consumer_role m) = Inr () \<and>
     known_member MemoryLocationHint_of (odm_memory_location_hint m) = Inr () \<and>
     known_member OwnershipHint_of (odm_ownership_hint m) = Inr ()"

lemma ObjectDescriptorMetadata_from_values:
  assumes "ObjectDescriptorMetadata_wf m"
  shows "ObjectDescriptorMetadata_from_tuple (ObjectDescriptorMetadata_values m) = Inr m"
  using assms
  by (cases m) (simp add: ObjectDescriptorMetadata_values_def ObjectDescriptorMetadata_from_tuple_def ObjectDescriptorMetadata_wf_def)

lemma ObjectDescriptorMetadata_values_from:
  assumes "ObjectDescriptorMetadata_from_tuple vs = Inr m"
  shows "ObjectDescriptorMetadata_wf m \<and> ObjectDescriptorMetadata_values m = vs"
  using assms
  by (auto simp: ObjectDescriptorMetadata_from_tuple_def ObjectDescriptorMetadata_values_def ObjectDescriptorMetadata_wf_def res_simps
      split: list.splits)

interpretation odm: canonical_codec
  ObjectDescriptorMetadata_pack ObjectDescriptorMetadata_unpack "ObjectDescriptorMetadata_wf" "calcsize OBJECT_DESCRIPTOR_STRUCT"
  unfolding ObjectDescriptorMetadata_pack_def ObjectDescriptorMetadata_unpack_def
  by (rule canonical_codecI)
    (auto intro: ObjectDescriptorMetadata_from_values dest: ObjectDescriptorMetadata_values_from)

section \<open>ObjectReferenceMetadata\<close>

definition OBJECT_REFERENCE_STRUCT :: "field list" where
  "OBJECT_REFERENCE_STRUCT = [FQ, FQ, FQ, FQ, FQ, FI, FI]"

lemma OBJECT_REFERENCE_STRUCT_size [simp]: "calcsize OBJECT_REFERENCE_STRUCT = 48"
  by (simp add: OBJECT_REFERENCE_STRUCT_def)

record ObjectReferenceMetadata =
  orm_object_id :: int
  orm_operation_id :: int
  orm_object_version :: int
  orm_offset :: int
  orm_length :: int
  orm_flags :: int
  orm_metadata_bytes :: int

definition ObjectReferenceMetadata_values :: "ObjectReferenceMetadata \<Rightarrow> int list" where
  "ObjectReferenceMetadata_values m =
     [orm_object_id m, orm_operation_id m, orm_object_version m, orm_offset m, orm_length m,
      orm_flags m, orm_metadata_bytes m]"

definition ObjectReferenceMetadata_check :: "ObjectReferenceMetadata \<Rightarrow> unit res" where
  "ObjectReferenceMetadata_check m = runtime_validate_mask (orm_flags m) 7 ''object_reference.flags''"

definition ObjectReferenceMetadata_pack :: "ObjectReferenceMetadata \<Rightarrow> bytes res" where
  "ObjectReferenceMetadata_pack = fixed_width_pack OBJECT_REFERENCE_STRUCT ObjectReferenceMetadata_check ObjectReferenceMetadata_values"

definition ObjectReferenceMetadata_from_tuple :: "int list \<Rightarrow> ObjectReferenceMetadata res" where
  "ObjectReferenceMetadata_from_tuple vs =
     (case vs of
        [object_id, operation_id, object_version, off, nbytes, flags, metadata_bytes] \<Rightarrow>
          bind_res (runtime_validate_mask flags 7 ''object_reference.flags'') (\<lambda>_.
          Inr
            \<lparr>orm_object_id = object_id, orm_operation_id = operation_id,
            orm_object_version = object_version, orm_offset = off, orm_length = nbytes,
            orm_flags = flags, orm_metadata_bytes = metadata_bytes\<rparr>)
      | _ \<Rightarrow> tuple_error)"

definition ObjectReferenceMetadata_unpack :: "bytes \<Rightarrow> ObjectReferenceMetadata res" where
  "ObjectReferenceMetadata_unpack = fixed_width_unpack OBJECT_REFERENCE_STRUCT ObjectReferenceMetadata_from_tuple"

lemma ObjectReferenceMetadata_from_values:
  assumes "ObjectReferenceMetadata_check m = Inr ()"
  shows "ObjectReferenceMetadata_from_tuple (ObjectReferenceMetadata_values m) = Inr m"
  using assms
  by (cases m) (simp add: ObjectReferenceMetadata_values_def ObjectReferenceMetadata_from_tuple_def ObjectReferenceMetadata_check_def)

lemma ObjectReferenceMetadata_values_from:
  assumes "ObjectReferenceMetadata_from_tuple vs = Inr m"
  shows "ObjectReferenceMetadata_check m = Inr () \<and> ObjectReferenceMetadata_values m = vs"
  using assms
  by (auto simp: ObjectReferenceMetadata_from_tuple_def ObjectReferenceMetadata_values_def ObjectReferenceMetadata_check_def res_simps
      split: list.splits)

interpretation orm: canonical_codec
  ObjectReferenceMetadata_pack ObjectReferenceMetadata_unpack "\<lambda>_. True" "calcsize OBJECT_REFERENCE_STRUCT"
  unfolding ObjectReferenceMetadata_pack_def ObjectReferenceMetadata_unpack_def
  by (rule canonical_codecI)
    (auto intro: ObjectReferenceMetadata_from_values dest: ObjectReferenceMetadata_values_from)

section \<open>ObjectReleaseMetadata\<close>

definition OBJECT_RELEASE_STRUCT :: "field list" where
  "OBJECT_RELEASE_STRUCT = [FQ, FQ, FH, FB, FB, FI, FQ]"

lemma OBJECT_RELEASE_STRUCT_size [simp]: "calcsize OBJECT_RELEASE_STRUCT = 32"
  by (simp add: OBJECT_RELEASE_STRUCT_def)

record ObjectReleaseMetadata =
  olm_object_id :: int
  olm_operation_id :: int
  olm_release_reason :: int
  olm_source_role :: int
  olm_flags :: int
  olm_diagnostic_bytes :: int

definition ObjectReleaseMetadata_values :: "ObjectReleaseMetadata \<Rightarrow> int list" where
  "ObjectReleaseMetadata_values m =
     [olm_object_id m, olm_operation_id m, olm_release_reason m, olm_source_role m,
      olm_flags m, olm_diagnostic_bytes m, 0]"

definition ObjectReleaseMetadata_check :: "ObjectReleaseMetadata \<Rightarrow> unit res" where
  "ObjectReleaseMetadata_check m = runtime_validate_mask (olm_flags m) 3 ''object_release.flags''"

definition ObjectReleaseMetadata_pack :: "ObjectReleaseMetadata \<Rightarrow> bytes res" where
  "ObjectReleaseMetadata_pack = fixed_width_pack OBJECT_RELEASE_STRUCT ObjectReleaseMetadata_check ObjectReleaseMetadata_values"

definition ObjectReleaseMetadata_from_tuple :: "int list \<Rightarrow> ObjectReleaseMetadata res" where
  "ObjectReleaseMetadata_from_tuple vs =
     (case vs of
        [object_id, operation_id, release_reason, source_role, flags, diagnostic_bytes,
         reserved] \<Rightarrow>
          bind_res (runtime_validate_mask flags 3 ''object_release.flags'') (\<lambda>_.
          bind_res (require_zero reserved ''object_release.reserved'') (\<lambda>_.
          bind_res (known_member ObjectReleaseReason_of release_reason) (\<lambda>_.
          bind_res (known_member RuntimeRole_of source_role) (\<lambda>_.
          Inr
            \<lparr>olm_object_id = object_id, olm_operation_id = operation_id,
            olm_release_reason = release_reason, olm_source_role = source_role,
            olm_flags = flags, olm_diagnostic_bytes = diagnostic_bytes\<rparr>))))
      | _ \<Rightarrow> tuple_error)"

definition ObjectReleaseMetadata_unpack :: "bytes \<Rightarrow> ObjectReleaseMetadata res" where
  "ObjectReleaseMetadata_unpack = fixed_width_unpack OBJECT_RELEASE_STRUCT ObjectReleaseMetadata_from_tuple"

definition ObjectReleaseMetadata_wf :: "ObjectReleaseMetadata \<Rightarrow> bool" where
  "ObjectReleaseMetadata_wf m \<longleftrightarrow>
     known_member ObjectReleaseReason_of (olm_release_reason m) = Inr () \<and>
     known_member RuntimeRole_of (olm_source_role m) = Inr ()"

lemma ObjectReleaseMetadata_from_values:
  assumes "ObjectReleaseMetadata_wf m" "ObjectReleaseMetadata_check m = Inr ()"
  shows "ObjectReleaseMetadata_from_tuple (ObjectReleaseMetadata_values m) = Inr m"
  using assms
  by (cases m) (simp add: ObjectReleaseMetadata_values_def ObjectReleaseMetadata_from_tuple_def ObjectReleaseMetadata_check_def ObjectReleaseMetadata_wf_def)

lemma ObjectReleaseMetadata_values_from:
  assumes "ObjectReleaseMetadata_from_tuple vs = Inr m"
  shows "ObjectReleaseMetadata_wf m \<and> ObjectReleaseMetadata_check m = Inr () \<and> ObjectReleaseMetadata_values m = vs"
  using assms
  by (auto simp: ObjectReleaseMetadata_from_tuple_def ObjectReleaseMetadata_values_def ObjectReleaseMetadata_check_def ObjectReleaseMetadata_wf_def res_simps
      split: list.splits)

interpretation olm: canonical_codec
  ObjectReleaseMetadata_pack ObjectReleaseMetadata_unpack "ObjectReleaseMetadata_wf" "calcsize OBJECT_RELEASE_STRUCT"
  unfolding ObjectReleaseMetadata_pack_def ObjectReleaseMetadata_unpack_def
  by (rule canonical_codecI)
    (auto intro: ObjectReleaseMetadata_from_values dest: ObjectReleaseMetadata_values_from)

section \<open>ObjectDeltaMetadata\<close>

definition OBJECT_DELTA_STRUCT :: "field list" where
  "OBJECT_DELTA_STRUCT = [FQ, FQ, FQ, FI, FI, FI, FI]"

lemma OBJECT_DELTA_STRUCT_size [simp]: "calcsize OBJECT_DELTA_STRUCT = 40"
  by (simp add: OBJECT_DELTA_STRUCT_def)

record ObjectDeltaMetadata =
  oem_object_id :: int
  oem_delta_sequence :: int
  oem_region_offset :: int
  oem_region_bytes :: int
  oem_delta_bytes :: int
  oem_flags :: int
  oem_metadata_bytes :: int

definition ObjectDeltaMetadata_values :: "ObjectDeltaMetadata \<Rightarrow> int list" where
  "ObjectDeltaMetadata_values m =
     [oem_object_id m, oem_delta_sequence m, oem_region_offset m, oem_region_bytes m,
      oem_delta_bytes m, oem_flags m, oem_metadata_bytes m]"

definition ObjectDeltaMetadata_check :: "ObjectDeltaMetadata \<Rightarrow> unit res" where
  "ObjectDeltaMetadata_check m = runtime_validate_mask (oem_flags m) 7 ''object_delta.flags''"

definition ObjectDeltaMetadata_pack :: "ObjectDeltaMetadata \<Rightarrow> bytes res" where
  "ObjectDeltaMetadata_pack = fixed_width_pack OBJECT_DELTA_STRUCT ObjectDeltaMetadata_check ObjectDeltaMetadata_values"

definition ObjectDeltaMetadata_from_tuple :: "int list \<Rightarrow> ObjectDeltaMetadata res" where
  "ObjectDeltaMetadata_from_tuple vs =
     (case vs of
        [object_id, delta_sequence, region_offset, region_bytes, delta_bytes, flags,
         metadata_bytes] \<Rightarrow>
          bind_res (runtime_validate_mask flags 7 ''object_delta.flags'') (\<lambda>_.
          Inr
            \<lparr>oem_object_id = object_id, oem_delta_sequence = delta_sequence,
            oem_region_offset = region_offset, oem_region_bytes = region_bytes,
            oem_delta_bytes = delta_bytes, oem_flags = flags,
            oem_metadata_bytes = metadata_bytes\<rparr>)
      | _ \<Rightarrow> tuple_error)"

definition ObjectDeltaMetadata_unpack :: "bytes \<Rightarrow> ObjectDeltaMetadata res" where
  "ObjectDeltaMetadata_unpack = fixed_width_unpack OBJECT_DELTA_STRUCT ObjectDeltaMetadata_from_tuple"

lemma ObjectDeltaMetadata_from_values:
  assumes "ObjectDeltaMetadata_check m = Inr ()"
  shows "ObjectDeltaMetadata_from_tuple (ObjectDeltaMetadata_values m) = Inr m"
  using assms
  by (cases m) (simp add: ObjectDeltaMetadata_values_def ObjectDeltaMetadata_from_tuple_def ObjectDeltaMetadata_check_def)

lemma ObjectDeltaMetadata_values_from:
  assumes "ObjectDeltaMetadata_from_tuple vs = Inr m"
  shows "ObjectDeltaMetadata_check m = Inr () \<and> ObjectDeltaMetadata_values m = vs"
  using assms
  by (auto simp: ObjectDeltaMetadata_from_tuple_def ObjectDeltaMetadata_values_def ObjectDeltaMetadata_check_def res_simps
      split: list.splits)

interpretation oem: canonical_codec
  ObjectDeltaMetadata_pack ObjectDeltaMetadata_unpack "\<lambda>_. True" "calcsize OBJECT_DELTA_STRUCT"
  unfolding ObjectDeltaMetadata_pack_def ObjectDeltaMetadata_unpack_def
  by (rule canonical_codecI)
    (auto intro: ObjectDeltaMetadata_from_values dest: ObjectDeltaMetadata_values_from)

section \<open>CacheReferenceMetadata\<close>

definition CACHE_REFERENCE_STRUCT :: "field list" where
  "CACHE_REFERENCE_STRUCT = [FI, FH, FH, FQ, FQ, FQ, FQ, FI, FI, FI, FI]"

lemma CACHE_REFERENCE_STRUCT_size [simp]: "calcsize CACHE_REFERENCE_STRUCT = 56"
  by (simp add: CACHE_REFERENCE_STRUCT_def)

record CacheReferenceMetadata =
  cfm_cache_namespace :: int
  cfm_cache_key_hi :: int
  cfm_cache_key_lo :: int
  cfm_profile_id :: int
  cfm_reuse_scope :: int
  cfm_lease_id :: int
  cfm_producer_trace_id :: int
  cfm_expiration_hint_ms :: int
  cfm_metadata_bytes :: int
  cfm_flags :: int

definition CacheReferenceMetadata_values :: "CacheReferenceMetadata \<Rightarrow> int list" where
  "CacheReferenceMetadata_values m =
     [cfm_cache_namespace m, cfm_profile_id m, cfm_reuse_scope m, cfm_cache_key_hi m,
      cfm_cache_key_lo m, cfm_lease_id m, cfm_producer_trace_id m, cfm_expiration_hint_ms m,
      cfm_metadata_bytes m, cfm_flags m, 0]"

definition CacheReferenceMetadata_check :: "CacheReferenceMetadata \<Rightarrow> unit res" where
  "CacheReferenceMetadata_check m = runtime_validate_mask (cfm_flags m) 3 ''cache_reference.flags''"

definition CacheReferenceMetadata_pack :: "CacheReferenceMetadata \<Rightarrow> bytes res" where
  "CacheReferenceMetadata_pack = fixed_width_pack CACHE_REFERENCE_STRUCT CacheReferenceMetadata_check CacheReferenceMetadata_values"

definition CacheReferenceMetadata_from_tuple :: "int list \<Rightarrow> CacheReferenceMetadata res" where
  "CacheReferenceMetadata_from_tuple vs =
     (case vs of
        [cache_namespace, profile_id, reuse_scope, cache_key_hi, cache_key_lo, lease_id,
         producer_trace_id, expiration_hint_ms, metadata_bytes, flags, reserved] \<Rightarrow>
          bind_res (runtime_validate_mask flags 3 ''cache_reference.flags'') (\<lambda>_.
          bind_res (require_zero reserved ''cache_reference.reserved'') (\<lambda>_.
          bind_res (known_member CacheReuseScope_of reuse_scope) (\<lambda>_.
          Inr
            \<lparr>cfm_cache_namespace = cache_namespace, cfm_cache_key_hi = cache_key_hi,
            cfm_cache_key_lo = cache_key_lo, cfm_profile_id = profile_id,
            cfm_reuse_scope = reuse_scope, cfm_lease_id = lease_id,
            cfm_producer_trace_id = producer_trace_id,
            cfm_expiration_hint_ms = expiration_hint_ms, cfm_metadata_bytes = metadata_bytes,
            cfm_flags = flags\<rparr>)))
      | _ \<Rightarrow> tuple_error)"

definition CacheReferenceMetadata_unpack :: "bytes \<Rightarrow> CacheReferenceMetadata res" where
  "CacheReferenceMetadata_unpack = fixed_width_unpack CACHE_REFERENCE_STRUCT CacheReferenceMetadata_from_tuple"

definition CacheReferenceMetadata_wf :: "CacheReferenceMetadata \<Rightarrow> bool" where
  "CacheReferenceMetadata_wf m \<longleftrightarrow>
     known_member CacheReuseScope_of (cfm_reuse_scope m) = Inr ()"

lemma CacheReferenceMetadata_from_values:
  assumes "CacheReferenceMetadata_wf m" "CacheReferenceMetadata_check m = Inr ()"
  shows "CacheReferenceMetadata_from_tuple (CacheReferenceMetadata_values m) = Inr m"
  using assms
  by (cases m) (simp add: CacheReferenceMetadata_values_def CacheReferenceMetadata_from_tuple_def CacheReferenceMetadata_check_def CacheReferenceMetadata_wf_def)

lemma CacheReferenceMetadata_values_from:
  assumes "CacheReferenceMetadata_from_tuple vs = Inr m"
  shows "CacheReferenceMetadata_wf m \<and> CacheReferenceMetadata_check m = Inr () \<and> CacheReferenceMetadata_values m = vs"
  using assms
  by (auto simp: CacheReferenceMetadata_from_tuple_def CacheReferenceMetadata_values_def CacheReferenceMetadata_check_def CacheReferenceMetadata_wf_def res_simps
      split: list.splits)

interpretation cfm: canonical_codec
  CacheReferenceMetadata_pack CacheReferenceMetadata_unpack "CacheReferenceMetadata_wf" "calcsize CACHE_REFERENCE_STRUCT"
  unfolding CacheReferenceMetadata_pack_def CacheReferenceMetadata_unpack_def
  by (rule canonical_codecI)
    (auto intro: CacheReferenceMetadata_from_values dest: CacheReferenceMetadata_values_from)

section \<open>CacheMissMetadata\<close>

definition CACHE_MISS_STRUCT :: "field list" where
  "CACHE_MISS_STRUCT = [FI, FH, FH, FQ, FQ, FI, FI]"

lemma CACHE_MISS_STRUCT_size [simp]: "calcsize CACHE_MISS_STRUCT = 32"
  by (simp add: CACHE_MISS_STRUCT_def)

record CacheMissMetadata =
  cmm_cache_namespace :: int
  cmm_cache_key_hi :: int
  cmm_cache_key_lo :: int
  cmm_miss_reason :: int
  cmm_profile_id :: int
  cmm_diagnostic_bytes :: int

definition CacheMissMetadata_values :: "CacheMissMetadata \<Rightarrow> int list" where
  "CacheMissMetadata_values m =
     [cmm_cache_namespace m, cmm_profile_id m, cmm_miss_reason m, cmm_cache_key_hi m,
      cmm_cache_key_lo m, cmm_diagnostic_bytes m, 0]"

definition CacheMissMetadata_pack :: "CacheMissMetadata \<Rightarrow> bytes res" where
  "CacheMissMetadata_pack = fixed_width_pack CACHE_MISS_STRUCT no_check CacheMissMetadata_values"

definition CacheMissMetadata_from_tuple :: "int list \<Rightarrow> CacheMissMetadata res" where
  "CacheMissMetadata_from_tuple vs =
     (case vs of
        [cache_namespace, profile_id, miss_reason, cache_key_hi, cache_key_lo,
         diagnostic_bytes, reserved] \<Rightarrow>
          bind_res (require_zero reserved ''cache_miss.reserved'') (\<lambda>_.
          bind_res (known_member CacheMissReason_of miss_reason) (\<lambda>_.
          Inr
            \<lparr>cmm_cache_namespace = cache_namespace, cmm_cache_key_hi = cache_key_hi,
            cmm_cache_key_lo = cache_key_lo, cmm_miss_reason = miss_reason,
            cmm_profile_id = profile_id, cmm_diagnostic_bytes = diagnostic_bytes\<rparr>))
      | _ \<Rightarrow> tuple_error)"

definition CacheMissMetadata_unpack :: "bytes \<Rightarrow> CacheMissMetadata res" where
  "CacheMissMetadata_unpack = fixed_width_unpack CACHE_MISS_STRUCT CacheMissMetadata_from_tuple"

definition CacheMissMetadata_wf :: "CacheMissMetadata \<Rightarrow> bool" where
  "CacheMissMetadata_wf m \<longleftrightarrow>
     known_member CacheMissReason_of (cmm_miss_reason m) = Inr ()"

lemma CacheMissMetadata_from_values:
  assumes "CacheMissMetadata_wf m"
  shows "CacheMissMetadata_from_tuple (CacheMissMetadata_values m) = Inr m"
  using assms
  by (cases m) (simp add: CacheMissMetadata_values_def CacheMissMetadata_from_tuple_def CacheMissMetadata_wf_def)

lemma CacheMissMetadata_values_from:
  assumes "CacheMissMetadata_from_tuple vs = Inr m"
  shows "CacheMissMetadata_wf m \<and> CacheMissMetadata_values m = vs"
  using assms
  by (auto simp: CacheMissMetadata_from_tuple_def CacheMissMetadata_values_def CacheMissMetadata_wf_def res_simps
      split: list.splits)

interpretation cmm: canonical_codec
  CacheMissMetadata_pack CacheMissMetadata_unpack "CacheMissMetadata_wf" "calcsize CACHE_MISS_STRUCT"
  unfolding CacheMissMetadata_pack_def CacheMissMetadata_unpack_def
  by (rule canonical_codecI)
    (auto intro: CacheMissMetadata_from_values dest: CacheMissMetadata_values_from)

end
