(* ===== verification/Runtime_Frames.thy ===== *)
theory Runtime_Frames
  imports Runtime_Metadata Packet_Stream
begin

text \<open>
  The helpers of \<open>runtime/__init__.py\<close>: a runtime message is fixed metadata of the class its
  message type names, followed by a tail whose length the metadata declares; a WebSocket binary
  frame is one whole packet, and a batch is a sequence of them.

  \<open>runtime_metadata\<close> is the union of the metadata classes, \<open>runtime_class\<close> names a class (a
  value of the two registries), and \<open>class_of\<close> is \<open>type(metadata)\<close>.  A \<open>bytes-like\<close> argument is
  its bytes, so the type checks of \<open>_snapshot_payload\<close> and \<open>_require_websocket_binary_payload\<close>
  have no counterpart.
\<close>

section \<open>The union of the metadata classes\<close>

datatype runtime_class = SessionCloseClass | ControlRequestClass | SchedulingClass
    | SupersedeClass | BudgetClass | ProgressClass | PartialResultClass | PressureClass
    | CapabilityClass | RouteHintClass | TraceContextClass | ResultDropReasonClass
    | RecoverableErrorClass | RetryAfterClass | ObjectDescriptorClass | ObjectReferenceClass
    | ObjectReleaseClass | ObjectDeltaClass | CacheReferenceClass | CacheMissClass

datatype runtime_metadata = SessionCloseM SessionCloseMetadata
    | ControlRequestM ControlRequestMetadata | SchedulingM SchedulingMetadata
    | SupersedeM SupersedeMetadata | BudgetM BudgetMetadata | ProgressM ProgressMetadata
    | PartialResultM PartialResultMetadata | PressureM PressureMetadata
    | CapabilityM CapabilityMetadata | RouteHintM RouteHintMetadata
    | TraceContextM TraceContextMetadata | ResultDropReasonM ResultDropReasonMetadata
    | RecoverableErrorM RecoverableErrorMetadata | RetryAfterM RetryAfterMetadata
    | ObjectDescriptorM ObjectDescriptorMetadata | ObjectReferenceM ObjectReferenceMetadata
    | ObjectReleaseM ObjectReleaseMetadata | ObjectDeltaM ObjectDeltaMetadata
    | CacheReferenceM CacheReferenceMetadata | CacheMissM CacheMissMetadata

fun class_of :: "runtime_metadata \<Rightarrow> runtime_class" where
  "class_of (SessionCloseM m) = SessionCloseClass"
| "class_of (ControlRequestM m) = ControlRequestClass"
| "class_of (SchedulingM m) = SchedulingClass"
| "class_of (SupersedeM m) = SupersedeClass"
| "class_of (BudgetM m) = BudgetClass"
| "class_of (ProgressM m) = ProgressClass"
| "class_of (PartialResultM m) = PartialResultClass"
| "class_of (PressureM m) = PressureClass"
| "class_of (CapabilityM m) = CapabilityClass"
| "class_of (RouteHintM m) = RouteHintClass"
| "class_of (TraceContextM m) = TraceContextClass"
| "class_of (ResultDropReasonM m) = ResultDropReasonClass"
| "class_of (RecoverableErrorM m) = RecoverableErrorClass"
| "class_of (RetryAfterM m) = RetryAfterClass"
| "class_of (ObjectDescriptorM m) = ObjectDescriptorClass"
| "class_of (ObjectReferenceM m) = ObjectReferenceClass"
| "class_of (ObjectReleaseM m) = ObjectReleaseClass"
| "class_of (ObjectDeltaM m) = ObjectDeltaClass"
| "class_of (CacheReferenceM m) = CacheReferenceClass"
| "class_of (CacheMissM m) = CacheMissClass"

fun class_size :: "runtime_class \<Rightarrow> nat" where
  "class_size SessionCloseClass = calcsize SESSION_CLOSE_STRUCT"
| "class_size ControlRequestClass = calcsize CONTROL_REQUEST_STRUCT"
| "class_size SchedulingClass = calcsize SCHEDULING_STRUCT"
| "class_size SupersedeClass = calcsize SUPERSEDE_STRUCT"
| "class_size BudgetClass = calcsize BUDGET_STRUCT"
| "class_size ProgressClass = calcsize PROGRESS_STRUCT"
| "class_size PartialResultClass = calcsize PARTIAL_RESULT_STRUCT"
| "class_size PressureClass = calcsize PRESSURE_STRUCT"
| "class_size CapabilityClass = calcsize CAPABILITY_STRUCT"
| "class_size RouteHintClass = calcsize ROUTE_HINT_STRUCT"
| "class_size TraceContextClass = calcsize TRACE_CONTEXT_STRUCT"
| "class_size ResultDropReasonClass = calcsize RESULT_DROP_REASON_STRUCT"
| "class_size RecoverableErrorClass = calcsize RECOVERABLE_ERROR_STRUCT"
| "class_size RetryAfterClass = calcsize RETRY_AFTER_STRUCT"
| "class_size ObjectDescriptorClass = calcsize OBJECT_DESCRIPTOR_STRUCT"
| "class_size ObjectReferenceClass = calcsize OBJECT_REFERENCE_STRUCT"
| "class_size ObjectReleaseClass = calcsize OBJECT_RELEASE_STRUCT"
| "class_size ObjectDeltaClass = calcsize OBJECT_DELTA_STRUCT"
| "class_size CacheReferenceClass = calcsize CACHE_REFERENCE_STRUCT"
| "class_size CacheMissClass = calcsize CACHE_MISS_STRUCT"

fun runtime_pack :: "runtime_metadata \<Rightarrow> bytes res" where
  "runtime_pack (SessionCloseM m) = SessionCloseMetadata_pack m"
| "runtime_pack (ControlRequestM m) = ControlRequestMetadata_pack m"
| "runtime_pack (SchedulingM m) = SchedulingMetadata_pack m"
| "runtime_pack (SupersedeM m) = SupersedeMetadata_pack m"
| "runtime_pack (BudgetM m) = BudgetMetadata_pack m"
| "runtime_pack (ProgressM m) = ProgressMetadata_pack m"
| "runtime_pack (PartialResultM m) = PartialResultMetadata_pack m"
| "runtime_pack (PressureM m) = PressureMetadata_pack m"
| "runtime_pack (CapabilityM m) = CapabilityMetadata_pack m"
| "runtime_pack (RouteHintM m) = RouteHintMetadata_pack m"
| "runtime_pack (TraceContextM m) = TraceContextMetadata_pack m"
| "runtime_pack (ResultDropReasonM m) = ResultDropReasonMetadata_pack m"
| "runtime_pack (RecoverableErrorM m) = RecoverableErrorMetadata_pack m"
| "runtime_pack (RetryAfterM m) = RetryAfterMetadata_pack m"
| "runtime_pack (ObjectDescriptorM m) = ObjectDescriptorMetadata_pack m"
| "runtime_pack (ObjectReferenceM m) = ObjectReferenceMetadata_pack m"
| "runtime_pack (ObjectReleaseM m) = ObjectReleaseMetadata_pack m"
| "runtime_pack (ObjectDeltaM m) = ObjectDeltaMetadata_pack m"
| "runtime_pack (CacheReferenceM m) = CacheReferenceMetadata_pack m"
| "runtime_pack (CacheMissM m) = CacheMissMetadata_pack m"

fun runtime_unpack :: "runtime_class \<Rightarrow> bytes \<Rightarrow> runtime_metadata res" where
  "runtime_unpack SessionCloseClass b = bind_res (SessionCloseMetadata_unpack b) (\<lambda>m. Inr (SessionCloseM m))"
| "runtime_unpack ControlRequestClass b = bind_res (ControlRequestMetadata_unpack b) (\<lambda>m. Inr (ControlRequestM m))"
| "runtime_unpack SchedulingClass b = bind_res (SchedulingMetadata_unpack b) (\<lambda>m. Inr (SchedulingM m))"
| "runtime_unpack SupersedeClass b = bind_res (SupersedeMetadata_unpack b) (\<lambda>m. Inr (SupersedeM m))"
| "runtime_unpack BudgetClass b = bind_res (BudgetMetadata_unpack b) (\<lambda>m. Inr (BudgetM m))"
| "runtime_unpack ProgressClass b = bind_res (ProgressMetadata_unpack b) (\<lambda>m. Inr (ProgressM m))"
| "runtime_unpack PartialResultClass b = bind_res (PartialResultMetadata_unpack b) (\<lambda>m. Inr (PartialResultM m))"
| "runtime_unpack PressureClass b = bind_res (PressureMetadata_unpack b) (\<lambda>m. Inr (PressureM m))"
| "runtime_unpack CapabilityClass b = bind_res (CapabilityMetadata_unpack b) (\<lambda>m. Inr (CapabilityM m))"
| "runtime_unpack RouteHintClass b = bind_res (RouteHintMetadata_unpack b) (\<lambda>m. Inr (RouteHintM m))"
| "runtime_unpack TraceContextClass b = bind_res (TraceContextMetadata_unpack b) (\<lambda>m. Inr (TraceContextM m))"
| "runtime_unpack ResultDropReasonClass b = bind_res (ResultDropReasonMetadata_unpack b) (\<lambda>m. Inr (ResultDropReasonM m))"
| "runtime_unpack RecoverableErrorClass b = bind_res (RecoverableErrorMetadata_unpack b) (\<lambda>m. Inr (RecoverableErrorM m))"
| "runtime_unpack RetryAfterClass b = bind_res (RetryAfterMetadata_unpack b) (\<lambda>m. Inr (RetryAfterM m))"
| "runtime_unpack ObjectDescriptorClass b = bind_res (ObjectDescriptorMetadata_unpack b) (\<lambda>m. Inr (ObjectDescriptorM m))"
| "runtime_unpack ObjectReferenceClass b = bind_res (ObjectReferenceMetadata_unpack b) (\<lambda>m. Inr (ObjectReferenceM m))"
| "runtime_unpack ObjectReleaseClass b = bind_res (ObjectReleaseMetadata_unpack b) (\<lambda>m. Inr (ObjectReleaseM m))"
| "runtime_unpack ObjectDeltaClass b = bind_res (ObjectDeltaMetadata_unpack b) (\<lambda>m. Inr (ObjectDeltaM m))"
| "runtime_unpack CacheReferenceClass b = bind_res (CacheReferenceMetadata_unpack b) (\<lambda>m. Inr (CacheReferenceM m))"
| "runtime_unpack CacheMissClass b = bind_res (CacheMissMetadata_unpack b) (\<lambda>m. Inr (CacheMissM m))"

fun runtime_wf :: "runtime_metadata \<Rightarrow> bool" where
  "runtime_wf (SessionCloseM m) = True"
| "runtime_wf (ControlRequestM m) = True"
| "runtime_wf (SchedulingM m) = True"
| "runtime_wf (SupersedeM m) = True"
| "runtime_wf (BudgetM m) = True"
| "runtime_wf (ProgressM m) = True"
| "runtime_wf (PartialResultM m) = True"
| "runtime_wf (PressureM m) = True"
| "runtime_wf (CapabilityM m) = True"
| "runtime_wf (RouteHintM m) = True"
| "runtime_wf (TraceContextM m) = True"
| "runtime_wf (ResultDropReasonM m) = True"
| "runtime_wf (RecoverableErrorM m) = True"
| "runtime_wf (RetryAfterM m) = True"
| "runtime_wf (ObjectDescriptorM m) = ObjectDescriptorMetadata_wf m"
| "runtime_wf (ObjectReferenceM m) = True"
| "runtime_wf (ObjectReleaseM m) = ObjectReleaseMetadata_wf m"
| "runtime_wf (ObjectDeltaM m) = True"
| "runtime_wf (CacheReferenceM m) = CacheReferenceMetadata_wf m"
| "runtime_wf (CacheMissM m) = CacheMissMetadata_wf m"

text \<open>
  \<open>_declared_tail_length\<close>: an object delta has a metadata tail and a delta; another class the
  first of \<open>diagnostic_bytes\<close>, \<open>body_bytes\<close>, \<open>metadata_bytes\<close> it has.
\<close>

fun declared_tail_length :: "runtime_metadata \<Rightarrow> int" where
  "declared_tail_length (SessionCloseM m) = 0"
| "declared_tail_length (ControlRequestM m) = crm_diagnostic_bytes m"
| "declared_tail_length (SchedulingM m) = 0"
| "declared_tail_length (SupersedeM m) = sudm_diagnostic_bytes m"
| "declared_tail_length (BudgetM m) = 0"
| "declared_tail_length (ProgressM m) = prm_body_bytes m"
| "declared_tail_length (PartialResultM m) = ptm_body_bytes m"
| "declared_tail_length (PressureM m) = 0"
| "declared_tail_length (CapabilityM m) = cpbm_body_bytes m"
| "declared_tail_length (RouteHintM m) = rhtm_body_bytes m"
| "declared_tail_length (TraceContextM m) = tcm_body_bytes m"
| "declared_tail_length (ResultDropReasonM m) = drm_diagnostic_bytes m"
| "declared_tail_length (RecoverableErrorM m) = rem_diagnostic_bytes m"
| "declared_tail_length (RetryAfterM m) = ram_diagnostic_bytes m"
| "declared_tail_length (ObjectDescriptorM m) = odm_metadata_bytes m"
| "declared_tail_length (ObjectReferenceM m) = orm_metadata_bytes m"
| "declared_tail_length (ObjectReleaseM m) = olm_diagnostic_bytes m"
| "declared_tail_length (ObjectDeltaM m) = oem_metadata_bytes m + oem_delta_bytes m"
| "declared_tail_length (CacheReferenceM m) = cfm_metadata_bytes m"
| "declared_tail_length (CacheMissM m) = cmm_diagnostic_bytes m"

text \<open>
  The only value that a decoder accepts and the encoder refuses: a control request with
  reserved flag bits.
\<close>

definition flags_encodable :: "runtime_metadata \<Rightarrow> bool" where
  "flags_encodable m =
     (case m of ControlRequestM c \<Rightarrow> ControlRequestMetadata_check c = Inr () | _ \<Rightarrow> True)"

lemma runtime_pack_size: "runtime_pack m = Inr bs \<Longrightarrow> length bs = class_size (class_of m)"
  by (cases m) (simp_all add: scm.pack_size crm.pack_size sdm.pack_size sudm.pack_size
      bgm.pack_size prm.pack_size ptm.pack_size psm.pack_size cpbm.pack_size rhtm.pack_size
      tcm.pack_size drm.pack_size rem.pack_size ram.pack_size odm.pack_size orm.pack_size
      olm.pack_size oem.pack_size cfm.pack_size cmm.pack_size)

lemma runtime_unpack_pack:
  "runtime_wf m \<Longrightarrow> runtime_pack m = Inr bs \<Longrightarrow> runtime_unpack (class_of m) bs = Inr m"
  by (cases m) (simp_all add: scm.unpack_pack crm.unpack_pack sdm.unpack_pack
      sudm.unpack_pack bgm.unpack_pack prm.unpack_pack ptm.unpack_pack psm.unpack_pack
      cpbm.unpack_pack rhtm.unpack_pack tcm.unpack_pack drm.unpack_pack rem.unpack_pack
      ram.unpack_pack odm.unpack_pack orm.unpack_pack olm.unpack_pack oem.unpack_pack
      cfm.unpack_pack cmm.unpack_pack)

lemma runtime_unpack_class: "runtime_unpack c bs = Inr m \<Longrightarrow> class_of m = c \<and> runtime_wf m"
  by (cases c) (auto simp: res_simps dest: odm.unpack_wf olm.unpack_wf cfm.unpack_wf cmm.unpack_wf)

lemma runtime_pack_unpack:
  "runtime_unpack (class_of m) bs = Inr m \<Longrightarrow> flags_encodable m \<Longrightarrow> runtime_pack m = Inr bs"
  by (cases m) (auto simp: flags_encodable_def res_simps ControlRequestMetadata_pack_def
      ControlRequestMetadata_unpack_def fixed_width_pack_Inr elim!: fixed_width_unpackE
      dest!: ControlRequestMetadata_values_from
  dest: scm.pack_unpack sdm.pack_unpack sudm.pack_unpack bgm.pack_unpack prm.pack_unpack
      ptm.pack_unpack psm.pack_unpack cpbm.pack_unpack rhtm.pack_unpack tcm.pack_unpack
      drm.pack_unpack rem.pack_unpack ram.pack_unpack odm.pack_unpack orm.pack_unpack
      olm.pack_unpack oem.pack_unpack cfm.pack_unpack cmm.pack_unpack)

section \<open>The registries\<close>

definition RUNTIME_CONTROL_TYPES :: "MessageType \<Rightarrow> runtime_class option" where
  "RUNTIME_CONTROL_TYPES = map_of
     [(MT_CANCEL, ControlRequestClass), (MT_ABORT, ControlRequestClass),
      (MT_PRIORITY_UPDATE, SchedulingClass), (MT_DEADLINE, SchedulingClass),
      (MT_EXPIRE_AT, SchedulingClass), (MT_SUPERSEDE, SupersedeClass),
      (MT_BUDGET_UPDATE, BudgetClass), (MT_PROGRESS, ProgressClass),
      (MT_PARTIAL_RESULT, PartialResultClass), (MT_BACKPRESSURE, PressureClass),
      (MT_CREDIT_UPDATE, PressureClass), (MT_CAPABILITY_NEGOTIATION, CapabilityClass),
      (MT_DEGRADE_PROFILE, CapabilityClass), (MT_ROUTE_HINT, RouteHintClass),
      (MT_EXECUTION_HINT, RouteHintClass), (MT_TRACE_CONTEXT, TraceContextClass),
      (MT_RESULT_DROP_REASON, ResultDropReasonClass),
      (MT_ERROR_RECOVERABLE, RecoverableErrorClass), (MT_RETRY_AFTER, RetryAfterClass)]"

definition RUNTIME_OBJECT_TYPES :: "MessageType \<Rightarrow> runtime_class option" where
  "RUNTIME_OBJECT_TYPES = map_of
     [(MT_OBJECT_DECLARE, ObjectDescriptorClass), (MT_OBJECT_REF, ObjectReferenceClass),
      (MT_OBJECT_RELEASE, ObjectReleaseClass), (MT_OBJECT_PATCH, ObjectDeltaClass),
      (MT_OBJECT_DELTA, ObjectDeltaClass), (MT_CACHE_REFERENCE, CacheReferenceClass),
      (MT_CACHE_MISS, CacheMissClass)]"

definition metadata_type ::
    "(MessageType \<Rightarrow> runtime_class option) \<Rightarrow> MessageType \<Rightarrow> runtime_class res" where
  "metadata_type registry message_type =
     (case registry message_type of
        Some c \<Rightarrow> Inr c
      | None \<Rightarrow> ve ''does not carry preview4 runtime metadata'')"

section \<open>Metadata and its tail\<close>

definition split_fixed_tail :: "bytes \<Rightarrow> runtime_class \<Rightarrow> (bytes \<times> bytes) res" where
  "split_fixed_tail payload fixed_type =
     (let fixed_len = int (class_size fixed_type)
      in if len payload < fixed_len then ve ''expected at least fixed_len bytes''
         else Inr (py_slice 0 fixed_len payload, slice_from fixed_len payload))"

definition validate_declared_tail :: "runtime_metadata \<Rightarrow> bytes \<Rightarrow> unit res" where
  "validate_declared_tail metadata tail =
     (let declared = declared_tail_length metadata
      in if declared \<noteq> len tail then ve ''declared tail length mismatch'' else Inr ())"

text \<open>
  The encoder and the decoder are written twice in the source, once for each registry; the
  bodies are the same.
\<close>

definition encode_with ::
    "(MessageType \<Rightarrow> runtime_class option) \<Rightarrow> MessageType \<Rightarrow> runtime_metadata \<Rightarrow> bytes \<Rightarrow> bytes res" where
  "encode_with registry message_type metadata tail =
     bind_res (metadata_type registry message_type) (\<lambda>fixed_type.
       if class_of metadata \<noteq> fixed_type then Inl (TypeError ''message requires fixed_type'')
       else bind_res (runtime_pack metadata) (\<lambda>fixed.
         bind_res (validate_declared_tail metadata tail) (\<lambda>_. Inr (fixed @ tail))))"

definition decode_with ::
    "(MessageType \<Rightarrow> runtime_class option) \<Rightarrow> MessageType \<Rightarrow> bytes \<Rightarrow> (runtime_metadata \<times> bytes) res" where
  "decode_with registry message_type payload =
     bind_res (metadata_type registry message_type) (\<lambda>fixed_type.
       bind_res (split_fixed_tail payload fixed_type) (\<lambda>(fixed, tail).
         bind_res (runtime_unpack fixed_type fixed) (\<lambda>metadata.
           bind_res (validate_declared_tail metadata tail) (\<lambda>_. Inr (metadata, tail)))))"

definition encode_runtime_control_metadata ::
    "MessageType \<Rightarrow> runtime_metadata \<Rightarrow> bytes \<Rightarrow> bytes res" where
  "encode_runtime_control_metadata = encode_with RUNTIME_CONTROL_TYPES"

definition decode_runtime_control_metadata ::
    "MessageType \<Rightarrow> bytes \<Rightarrow> (runtime_metadata \<times> bytes) res" where
  "decode_runtime_control_metadata = decode_with RUNTIME_CONTROL_TYPES"

definition encode_runtime_object_metadata ::
    "MessageType \<Rightarrow> runtime_metadata \<Rightarrow> bytes \<Rightarrow> bytes res" where
  "encode_runtime_object_metadata = encode_with RUNTIME_OBJECT_TYPES"

definition decode_runtime_object_metadata ::
    "MessageType \<Rightarrow> bytes \<Rightarrow> (runtime_metadata \<times> bytes) res" where
  "decode_runtime_object_metadata = decode_with RUNTIME_OBJECT_TYPES"

definition declare_runtime_object :: "ObjectDescriptorMetadata \<Rightarrow> bytes \<Rightarrow> bytes res" where
  "declare_runtime_object metadata metadata_tail =
     encode_runtime_object_metadata MT_OBJECT_DECLARE (ObjectDescriptorM metadata) metadata_tail"

definition reference_runtime_object :: "ObjectReferenceMetadata \<Rightarrow> bytes \<Rightarrow> bytes res" where
  "reference_runtime_object metadata metadata_tail =
     encode_runtime_object_metadata MT_OBJECT_REF (ObjectReferenceM metadata) metadata_tail"

definition release_runtime_object :: "ObjectReleaseMetadata \<Rightarrow> bytes \<Rightarrow> bytes res" where
  "release_runtime_object metadata diagnostic_tail =
     encode_runtime_object_metadata MT_OBJECT_RELEASE (ObjectReleaseM metadata) diagnostic_tail"

definition patch_runtime_object :: "ObjectDeltaMetadata \<Rightarrow> bytes \<Rightarrow> bytes \<Rightarrow> bytes res" where
  "patch_runtime_object metadata metadata_tail delta =
     encode_runtime_object_metadata MT_OBJECT_PATCH (ObjectDeltaM metadata) (metadata_tail @ delta)"

definition delta_runtime_object :: "ObjectDeltaMetadata \<Rightarrow> bytes \<Rightarrow> bytes \<Rightarrow> bytes res" where
  "delta_runtime_object metadata metadata_tail delta =
     encode_runtime_object_metadata MT_OBJECT_DELTA (ObjectDeltaM metadata) (metadata_tail @ delta)"

definition partial_result_runtime_object :: "PartialResultMetadata \<Rightarrow> bytes \<Rightarrow> bytes res" where
  "partial_result_runtime_object metadata body =
     encode_runtime_control_metadata MT_PARTIAL_RESULT (PartialResultM metadata) body"

lemma encode_with_Inr:
  "encode_with r mt m rest = Inr bs \<longleftrightarrow>
     r mt = Some (class_of m) \<and> declared_tail_length m = len rest \<and>
     (\<exists>fixed. runtime_pack m = Inr fixed \<and> bs = fixed @ rest)"
  by (auto simp: encode_with_def metadata_type_def validate_declared_tail_def Let_def res_simps
      split: option.splits)

lemma decode_with_encode:
  assumes "encode_with r mt m rest = Inr bs" "runtime_wf m"
  shows "decode_with r mt bs = Inr (m, rest)"
proof -
  from assms(1) obtain fixed where f: "r mt = Some (class_of m)" "declared_tail_length m = len rest"
    "runtime_pack m = Inr fixed" "bs = fixed @ rest"
    by (auto simp: encode_with_Inr)
  have "split_fixed_tail bs (class_of m) = Inr (fixed, rest)"
    using runtime_pack_size [OF f(3)] by (simp add: split_fixed_tail_def f(4) slice_from_nonneg)
  then show ?thesis
    using f runtime_unpack_pack [OF assms(2) f(3)]
    by (simp add: decode_with_def metadata_type_def validate_declared_tail_def)
qed

lemma decode_withE:
  assumes "decode_with r mt bs = Inr (m, rest)"
  obtains fixed where "r mt = Some (class_of m)" "runtime_wf m" "bs = fixed @ rest"
    "runtime_unpack (class_of m) fixed = Inr m" "declared_tail_length m = len rest"
proof -
  from assms obtain c where c: "r mt = Some c" "class_size c \<le> length bs"
    "runtime_unpack c (take (class_size c) bs) = Inr m" "declared_tail_length m = len rest"
    "rest = drop (class_size c) bs"
    by (auto simp: decode_with_def metadata_type_def split_fixed_tail_def validate_declared_tail_def
        Let_def res_simps slice_from_nonneg split: option.splits if_splits)
  show thesis
    using runtime_unpack_class [OF c(3)] c
    by (intro that [of "take (class_size c) bs"]) simp_all
qed

text \<open>
  A decoded message is encoded to the same bytes; a control request only if its flags have no
  reserved bit.
\<close>

lemma encode_with_decode:
  assumes "decode_with r mt bs = Inr (m, rest)" "flags_encodable m"
  shows "encode_with r mt m rest = Inr bs"
  using assms(1)
proof (rule decode_withE)
  fix fixed
  assume d: "r mt = Some (class_of m)" "bs = fixed @ rest" "declared_tail_length m = len rest"
    and u: "runtime_unpack (class_of m) fixed = Inr m"
  have "runtime_pack m = Inr fixed"
    by (rule runtime_pack_unpack [OF u assms(2)])
  with d show ?thesis by (simp add: encode_with_Inr)
qed

section \<open>WebSocket binary frames\<close>

record RuntimeFrameHeader =
  rfh_message_type :: MessageType
  rfh_flags :: int
  rfh_session_id :: int
  rfh_frame_id :: int
  rfh_view_id :: int
  rfh_route_id :: int
  rfh_trace_id :: int
  rfh_version_major :: int
  rfh_wire_format :: WireFormat

record DecodedRuntimeFrame =
  drf_header :: RuntimeFrameHeader
  drf_metadata :: bytes
  drf_body :: bytes

definition encode_websocket_binary_frame :: "RuntimeFrameHeader \<Rightarrow> bytes \<Rightarrow> bytes \<Rightarrow> bytes res" where
  "encode_websocket_binary_frame h metadata body =
     bind_res (NnrpHeader_pack
       \<lparr>hdr_version_major = rfh_version_major h, hdr_wire_format = rfh_wire_format h,
        hdr_msg_type = rfh_message_type h, hdr_flags = rfh_flags h, hdr_meta_len = len metadata,
        hdr_body_len = len body, hdr_session_id = rfh_session_id h,
        hdr_frame_id = rfh_frame_id h, hdr_view_id = rfh_view_id h,
        hdr_route_id = rfh_route_id h, hdr_trace_id = rfh_trace_id h,
        hdr_header_len = int HEADER_LENGTH\<rparr>) (\<lambda>packet_header.
     Inr (packet_header @ metadata @ body))"

definition runtime_frame_header_from_header :: "NnrpHeader \<Rightarrow> RuntimeFrameHeader" where
  "runtime_frame_header_from_header h =
     \<lparr>rfh_message_type = hdr_msg_type h, rfh_flags = hdr_flags h,
      rfh_session_id = hdr_session_id h, rfh_frame_id = hdr_frame_id h,
      rfh_view_id = hdr_view_id h, rfh_route_id = hdr_route_id h,
      rfh_trace_id = hdr_trace_id h, rfh_version_major = hdr_version_major h,
      rfh_wire_format = hdr_wire_format h\<rparr>"

definition decode_websocket_binary_frame :: "bytes \<Rightarrow> DecodedRuntimeFrame res" where
  "decode_websocket_binary_frame frame =
     (if length frame < HEADER_LENGTH then ve ''incomplete WebSocket binary frame header''
      else bind_res (NnrpHeader_unpack None (py_slice 0 (int HEADER_LENGTH) frame)) (\<lambda>header.
        let total_len = hdr_header_len header + hdr_meta_len header + hdr_body_len header
        in if len frame \<noteq> total_len then ve ''expected total_len bytes''
        else let metadata_start = hdr_header_len header;
                 body_start = metadata_start + hdr_meta_len header
             in Inr \<lparr>drf_header = runtime_frame_header_from_header header,
                     drf_metadata = py_slice metadata_start body_start frame,
                     drf_body = slice_from body_start frame\<rparr>))"

text \<open>
  The loop over a batch, with its variables \<open>cursor\<close> and \<open>frames\<close>.  Every frame is at least a
  header long, so the rest of the batch shrinks.
\<close>

function decode_batch_loop ::
    "int \<Rightarrow> bytes \<Rightarrow> int \<Rightarrow> DecodedRuntimeFrame list \<Rightarrow> DecodedRuntimeFrame list res" where
  "decode_batch_loop limit batch cursor frames =
     (if cursor < len batch then
        if limit \<noteq> 0 \<and> limit \<le> len frames then ve ''WebSocket batch contains more than limit frames''
        else if len batch - cursor < int HEADER_LENGTH
        then ve ''incomplete WebSocket binary frame in batch''
        else bind_res (NnrpHeader_unpack None (py_slice cursor (cursor + int HEADER_LENGTH) batch)) (\<lambda>header.
          let frame_len = hdr_header_len header + hdr_meta_len header + hdr_body_len header
          in if len batch - cursor < frame_len
             then ve ''incomplete WebSocket binary frame in batch''
             else bind_res (decode_websocket_binary_frame (py_slice cursor (cursor + frame_len) batch)) (\<lambda>f.
               decode_batch_loop limit batch (cursor + frame_len) (frames @ [f])))
      else Inr frames)"
  by pat_completeness auto

termination
proof (relation "measure (\<lambda>(limit, batch, cursor, frames). nat (len batch - cursor))")
  fix limit cursor :: int and batch :: bytes and frames header frame_len f
  assume "cursor < len batch"
    and h: "NnrpHeader_unpack None (py_slice cursor (cursor + int HEADER_LENGTH) batch) = Inr header"
    and "frame_len = hdr_header_len header + hdr_meta_len header + hdr_body_len header"
  moreover note NnrpHeader_unpack_bounds [OF h]
  ultimately show "((limit, batch, cursor + frame_len, frames @ [f]), limit, batch, cursor, frames)
      \<in> measure (\<lambda>(limit, batch, cursor, frames). nat (len batch - cursor))"
    by simp
qed simp

declare decode_batch_loop.simps [simp del]

definition decode_websocket_binary_frame_batch :: "bytes \<Rightarrow> int \<Rightarrow> DecodedRuntimeFrame list res" where
  "decode_websocket_binary_frame_batch batch limit =
     (if limit < 0 then ve ''limit must be non-negative''
      else decode_batch_loop limit batch 0 [])"

subsection \<open>Frames are packets\<close>

text \<open>The frame a packet is, and the header of the packet a frame is encoded to.\<close>

definition packet_frame :: "NnrpPacket \<Rightarrow> DecodedRuntimeFrame" where
  "packet_frame p =
     \<lparr>drf_header = runtime_frame_header_from_header (pkt_header p),
      drf_metadata = pkt_metadata p, drf_body = pkt_body p\<rparr>"

lemma decode_frame_packet:
  "decode_websocket_binary_frame bs = Inr f \<longleftrightarrow>
     (\<exists>p. NnrpPacket_unpack bs = Inr p \<and> f = packet_frame p)"
  by (auto simp: decode_websocket_binary_frame_def NnrpPacket_unpack_def packet_frame_def Let_def
      res_simps NnrpHeader_unpack_bounds(5) split: if_splits)

lemma encode_frame_packet:
  "encode_websocket_binary_frame h m b = Inr bs \<longleftrightarrow>
     (\<exists>p. NnrpPacket_pack p = Inr bs \<and> packet_frame p = \<lparr>drf_header = h, drf_metadata = m, drf_body = b\<rparr>)"
  (is "?l \<longleftrightarrow> ?r")
proof
  let ?p = "NnrpPacket_build (rfh_version_major h) (rfh_wire_format h) (rfh_message_type h)
    \<lparr>pr_flags = rfh_flags h, pr_session_id = rfh_session_id h, pr_frame_id = rfh_frame_id h,
     pr_view_id = rfh_view_id h, pr_route_id = rfh_route_id h, pr_trace_id = rfh_trace_id h\<rparr> m b"
  assume ?l
  then have "NnrpPacket_pack ?p = Inr bs"
    unfolding NnrpPacket_pack_build
    by (simp add: encode_websocket_binary_frame_def NnrpPacket_build_def)
  moreover have "packet_frame ?p = \<lparr>drf_header = h, drf_metadata = m, drf_body = b\<rparr>"
    by (simp add: packet_frame_def NnrpPacket_build_def runtime_frame_header_from_header_def)
  ultimately show ?r by blast
next
  assume ?r
  then obtain p where p: "NnrpPacket_pack p = Inr bs"
    and f: "packet_frame p = \<lparr>drf_header = h, drf_metadata = m, drf_body = b\<rparr>"
    by blast
  from p show ?l
  proof (rule NnrpPacket_packE)
    fix hb
    assume a: "NnrpHeader_pack (pkt_header p) = Inr hb" "bs = hb @ pkt_metadata p @ pkt_body p"
      "len (pkt_metadata p) = hdr_meta_len (pkt_header p)"
      "len (pkt_body p) = hdr_body_len (pkt_header p)"
    have "hdr_header_len (pkt_header p) = 40"
      using a(1) by (simp add: NnrpHeader_pack_def split: if_splits)
    then have "NnrpHeader_pack
       \<lparr>hdr_version_major = rfh_version_major h, hdr_wire_format = rfh_wire_format h,
        hdr_msg_type = rfh_message_type h, hdr_flags = rfh_flags h, hdr_meta_len = len m,
        hdr_body_len = len b, hdr_session_id = rfh_session_id h,
        hdr_frame_id = rfh_frame_id h, hdr_view_id = rfh_view_id h,
        hdr_route_id = rfh_route_id h, hdr_trace_id = rfh_trace_id h,
        hdr_header_len = int HEADER_LENGTH\<rparr> = Inr hb"
      using f a by (cases "pkt_header p")
        (auto simp: packet_frame_def runtime_frame_header_from_header_def)
    then show ?l
      using f a(2) by (simp add: encode_websocket_binary_frame_def packet_frame_def)
  qed
qed

lemma websocket_frame_round_trip:
  "encode_websocket_binary_frame h m b = Inr bs \<longleftrightarrow>
     decode_websocket_binary_frame bs = Inr \<lparr>drf_header = h, drf_metadata = m, drf_body = b\<rparr>"
  by (auto simp: encode_frame_packet decode_frame_packet pkt.unpack_iff_pack)

text \<open>
  The batch decoder is the packet reader of the stream adapters, run on a buffer that must
  hold complete packets only, with a bound on their number.
\<close>

lemma unpack_packets_all:
  "b \<noteq> [] \<Longrightarrow> unpack_packets b = (ps, Inr []) \<longleftrightarrow>
    (\<exists>p ps' r. try_unpack_packet b = Inr (Some p, r) \<and> ps = p # ps' \<and> unpack_packets r = (ps', Inr []))"
  by (subst unpack_packets.simps)
    (auto dest: try_unpack_None split: sum.splits option.splits prod.splits)

lemma unpack_packets_step:
  "try_unpack_packet b = Inr (Some p, r) \<Longrightarrow>
    unpack_packets b = (ps, x) \<longleftrightarrow> (\<exists>ps'. ps = p # ps' \<and> unpack_packets r = (ps', x))"
  by (subst unpack_packets.simps) (auto split: prod.splits)

lemma batch_loop_packets:
  assumes "0 \<le> cursor" "cursor \<le> len batch"
  shows "decode_batch_loop limit batch cursor frames = Inr fs \<longleftrightarrow>
    (\<exists>ps. unpack_packets (drop (nat cursor) batch) = (ps, Inr []) \<and>
      fs = frames @ map packet_frame ps \<and> (limit = 0 \<or> ps = [] \<or> len fs \<le> limit))"
  using assms
proof (induction limit batch cursor frames rule: decode_batch_loop.induct)
  case (1 limit batch cursor frames)
  let ?rest = "drop (nat cursor) batch"
  note loop = decode_batch_loop.simps [of limit batch cursor frames]
  show ?case
  proof (cases "cursor < len batch")
    case False
    then show ?thesis
      unfolding loop using "1.prems" by auto
  next
    case True
    then have all: "unpack_packets ?rest = (ps, Inr []) \<longleftrightarrow>
        (\<exists>p ps' r. try_unpack_packet ?rest = Inr (Some p, r) \<and> ps = p # ps' \<and>
          unpack_packets r = (ps', Inr []))" for ps
      using "1.prems" by (intro unpack_packets_all) auto
    have slice: "py_slice cursor (cursor + n) batch = take (nat n) ?rest" if "0 \<le> n" for n
      using "1.prems" that by (simp add: py_slice_nonneg nat_add_distrib)
    show ?thesis
    proof (cases "(limit \<noteq> 0 \<and> limit \<le> len frames) \<or> length ?rest < 40")
      case stop: True
      then show ?thesis
        using True "1.prems" by (auto simp: loop all try_unpack_packet_def)
    next
      case go: False
      show ?thesis
      proof (cases "NnrpHeader_unpack None (take 40 ?rest)")
        case (Inl e)
        then show ?thesis
          using True go by (auto simp: loop all try_unpack_packet_def slice)
      next
        case (Inr header)
        let ?n = "hdr_header_len header + hdr_meta_len header + hdr_body_len header"
        have n: "40 \<le> ?n" using NnrpHeader_unpack_bounds [OF Inr] by simp
        have h: "NnrpHeader_unpack None (py_slice cursor (cursor + int HEADER_LENGTH) batch) = Inr header"
          using Inr by (simp add: slice)
        show ?thesis
        proof (cases "len ?rest < ?n")
          case short: True
          have "len batch - cursor < ?n" using short True "1.prems" by simp
          then have "\<not> (\<exists>fs. decode_batch_loop limit batch cursor frames = Inr fs)"
            using True by (simp add: loop h [simplified] Let_def)
          moreover have "try_unpack_packet ?rest = Inr (None, ?rest)"
            using short go Inr by (simp add: try_unpack_packet_def)
          ultimately show ?thesis by (auto simp: all)
        next
          case enough: False
          let ?frame = "py_slice cursor (cursor + ?n) batch"
          have frame: "?frame = take (nat ?n) ?rest" using n by (intro slice) simp
          have step: "try_unpack_packet ?rest = bind_res (NnrpPacket_unpack ?frame) (\<lambda>p.
              Inr (Some p, drop (nat (cursor + ?n)) batch))"
          proof -
            have "slice_from ?n ?rest = drop (nat (cursor + ?n)) batch"
              using n "1.prems" by (simp add: slice_from_nonneg nat_add_distrib add.commute)
            moreover have "py_slice 0 ?n ?rest = ?frame"
              using n by (simp add: frame)
            ultimately show ?thesis
              using go enough Inr by (simp only: try_unpack_packet_def HEADER_LENGTH_eq Let_def
                  py_slice_0 of_nat_numeral bind_res_simps if_False de_Morgan_disj) simp
          qed
          have room: "\<not> (limit \<noteq> 0 \<and> limit \<le> len frames)" "\<not> len batch - cursor < 40"
              "\<not> len batch - cursor < ?n"
            using go enough "1.prems" by auto
          have lp: "decode_batch_loop limit batch cursor frames =
              bind_res (decode_websocket_binary_frame ?frame) (\<lambda>f.
                decode_batch_loop limit batch (cursor + ?n) (frames @ [f]))"
            unfolding loop HEADER_LENGTH_eq of_nat_numeral h [simplified] Let_def bind_res_simps
            using True room by (simp only: if_True if_False)
          show ?thesis
          proof (cases "NnrpPacket_unpack ?frame")
            case bad: (Inl e)
            then have "\<not> (\<exists>f. decode_websocket_binary_frame ?frame = Inr f)"
              by (simp add: decode_frame_packet)
            then show ?thesis
              by (auto simp: lp res_simps all step bad)
          next
            case good: (Inr p)
            then have f: "decode_websocket_binary_frame ?frame = Inr (packet_frame p)"
              by (simp add: decode_frame_packet)
            define after where "after = drop (nat (cursor + ?n)) batch"
            have t: "try_unpack_packet ?rest = Inr (Some p, after)"
              by (simp only: step good bind_res_simps after_def)
            have "decode_batch_loop limit batch cursor frames = Inr fs \<longleftrightarrow>
              (\<exists>ps. unpack_packets after = (ps, Inr []) \<and>
                fs = (frames @ [packet_frame p]) @ map packet_frame ps \<and>
                (limit = 0 \<or> ps = [] \<or> len fs \<le> limit))"
              unfolding lp f bind_res_simps after_def
            proof (rule "1.IH" [OF True room(1) _ h refl room(3) f])
              show "\<not> len batch - cursor < int HEADER_LENGTH" using room(2) by simp
              show "0 \<le> cursor + ?n" "cursor + ?n \<le> len batch"
                using n room(3) "1.prems" by linarith+
            qed
            also have "\<dots> \<longleftrightarrow> (\<exists>ps. unpack_packets after = (ps, Inr []) \<and>
                fs = frames @ map packet_frame (p # ps) \<and> (limit = 0 \<or> len fs \<le> limit))"
              using room(1) by (intro ex_cong1 conj_cong) auto
            also have "\<dots> \<longleftrightarrow> (\<exists>ps. unpack_packets ?rest = (ps, Inr []) \<and>
                fs = frames @ map packet_frame ps \<and> (limit = 0 \<or> ps = [] \<or> len fs \<le> limit))"
              unfolding unpack_packets_step [OF t] by blast
            finally show ?thesis .
          qed
        qed
      qed
    qed
  qed
qed

lemma websocket_batch_packets:
  "decode_websocket_binary_frame_batch batch limit = Inr fs \<longleftrightarrow>
    0 \<le> limit \<and> (limit = 0 \<or> len fs \<le> limit) \<and>
    (\<exists>ps. unpack_packets batch = (ps, Inr []) \<and> fs = map packet_frame ps)"
  by (auto simp: decode_websocket_binary_frame_batch_def batch_loop_packets)

text \<open>
  A batch of encoded frames is decoded to these frames, if the limit admits them; a batch with
  more frames than the limit is refused as a whole.
\<close>

lemma websocket_batch_round_trip:
  assumes "map_res (\<lambda>f. encode_websocket_binary_frame (drf_header f) (drf_metadata f) (drf_body f)) fs
    = Inr bss"
  shows "decode_websocket_binary_frame_batch (concat bss) limit = Inr gs \<longleftrightarrow>
    gs = fs \<and> 0 \<le> limit \<and> (limit = 0 \<or> len fs \<le> limit)"
proof -
  have "\<exists>ps. map_res NnrpPacket_pack ps = Inr bss \<and> map packet_frame ps = fs"
    using assms
  proof (induction fs arbitrary: bss)
    case (Cons f fs)
    then obtain b bs where b: "encode_websocket_binary_frame (drf_header f) (drf_metadata f)
        (drf_body f) = Inr b" "bss = b # bs"
      and rest: "\<exists>ps. map_res NnrpPacket_pack ps = Inr bs \<and> map packet_frame ps = fs"
      by (auto simp: res_simps)
    obtain p where "NnrpPacket_pack p = Inr b" "packet_frame p = f"
      using b(1) by (auto simp: encode_frame_packet)
    moreover obtain ps where "map_res NnrpPacket_pack ps = Inr bs" "map packet_frame ps = fs"
      using rest by blast
    ultimately have "map_res NnrpPacket_pack (p # ps) = Inr bss \<and>
        map packet_frame (p # ps) = f # fs"
      using b(2) by simp
    then show ?case by (rule exI)
  qed simp
  then obtain ps where ps: "map_res NnrpPacket_pack ps = Inr bss" "fs = map packet_frame ps"
    by blast
  show ?thesis
    using unpack_packets_packed [OF ps(1)] ps(2) by (auto simp: websocket_batch_packets)
qed

end
