(* ===== verification/Session_Samples.thy ===== *)
theory Session_Samples
  imports Session_Exchange Server_Accept Runtime_Frames Samples
begin

text \<open>
  Concrete sessions, requests and runtime messages that the witnesses evaluate: a client session
  with id 9, a tensor submit of two tiles, an acknowledged migration that resumes at frame 5, a
  cancel request and a batch of two frames.
\<close>

definition sample_ack :: ServerHelloAckMetadata where
  "sample_ack =
     \<lparr>sham_selected_version_major = 1, sham_selected_wire_format = 0, sham_auth_status = 0,
      sham_session_id = 9, sham_accepted_profile_bitmap = 1,
      sham_accepted_payload_kind_bitmap = 127, sham_accepted_codec_bitmap = 1,
      sham_accepted_compression_bitmap = 0, sham_accepted_dtype_bitmap = 1,
      sham_accepted_layout_bitmap = 1, sham_cache_digest_bitmap = 0,
      sham_cache_object_bitmap = 0, sham_max_cache_entries = 0, sham_max_cache_bytes = 0,
      sham_max_lane_count = 1, sham_max_concurrent_frames = 1, sham_target_cadence_x100 = 0,
      sham_latency_budget_ms = 0, sham_quality_tier = 0, sham_degrade_policy = 0,
      sham_max_body_bytes = 65536, sham_token_ttl_ms = 0, sham_retry_after_ms = 0,
      sham_control_extension_bytes = 0, sham_server_flags = 0, sham_reserved0 = 0\<rparr>"

definition sample_packet :: "MessageType \<Rightarrow> bytes \<Rightarrow> NnrpPacket" where
  "sample_packet mt metadata =
     NnrpPacket_build 1 WF_CURRENT mt (no_route\<lparr>pr_session_id := 9\<rparr>) metadata []"

definition sample_session :: ClientSession where
  "sample_session = ClientSession_new
     \<lparr>ccs_transport_id = TI_QUIC,
      ccs_bootstrap =
        \<lparr>ctb_plan = \<lparr>ctp_selected_transport_id = TI_QUIC, ctp_transport_policy_extension = None\<rparr>,
         ctb_hello_packet = sample_packet MT_CLIENT_HELLO [], ctb_probe_selection = None\<rparr>,
      ccs_ack_packet = sample_packet MT_SERVER_HELLO_ACK [], ccs_ack_metadata = sample_ack\<rparr>"

lemma sample_session_simps [simp]:
  "cs_session_id sample_session = 9" "cs_current_min_frame_id sample_session = 0"
  "cs_current_last_submitted_frame_id sample_session = None"
  by (simp_all add: sample_session_def ClientSession_new_def cs_session_id_def sample_ack_def)

definition sample_tensor_input :: TensorSubmitInput where
  "sample_tensor_input =
     \<lparr>tsi_identity = \<lparr>sid_operation_id = 7, sid_frame_id = 4,
        sid_header = \<lparr>shc_flags = 0, shc_view_id = 0, shc_route_id = 0, shc_trace_id = 0\<rparr>\<rparr>,
      tsi_policy = \<lparr>spo_frame_class = 0, spo_latency_budget_ms = 33, spo_target_fps_x100 = 3000,
        spo_retry_of_frame = 0, spo_budget_policy = 0, spo_loss_tolerance_policy = 0,
        spo_dependency_frame_id = 0\<rparr>,
      tsi_src_width = 64, tsi_src_height = 32, tsi_tile_width = 16, tsi_tile_height = 16,
      tsi_tile_ids = [3, 9], tsi_sections = [sample_section], tsi_camera_block = [170, 187],
      tsi_input_profile = IP_CHANGED_TILES_LUMA, tsi_tile_index_mode = TIM_DELTA_U16,
      tsi_tile_base_id = 0,
      tsi_references = \<lparr>sor_camera = None, sor_tile_index = None, sor_tensor_section_table = None\<rparr>\<rparr>"

lemma sample_tensor_request_builds:
  "accepted (bind_res (SubmitRequest_tensor sample_tensor_input)
     (\<lambda>q. if srq_frame_id q \<noteq> 4 then ve ''another frame'' else Inr q))"
  by code_simp

lemma sample_result_sends: "accepted (send_result_packet 9 sample_result sample_frames)"
  by code_simp

definition sample_migrate_ack :: NnrpPacket where
  "sample_migrate_ack = sample_packet MT_SESSION_MIGRATE_ACK
     (case SessionMigrateAckMetadata_pack \<lparr>smam_accept_code = 0, smam_resume_from_frame_id = 5,
        smam_grace_window_ms = 100, smam_server_migrate_ts_us = 0\<rparr> of Inr b \<Rightarrow> b | Inl e \<Rightarrow> [])"

definition sample_cancel :: ControlRequestMetadata where
  "sample_cancel = \<lparr>crm_operation_id = 7, crm_control_sequence = 1, crm_reason_code = 2,
     crm_source_role = 1, crm_flags = 1, crm_diagnostic_bytes = 3\<rparr>"

definition sample_frame_header :: "int \<Rightarrow> RuntimeFrameHeader" where
  "sample_frame_header frame_id = \<lparr>rfh_message_type = MT_PING, rfh_flags = 0, rfh_session_id = 9,
     rfh_frame_id = frame_id, rfh_view_id = 0, rfh_route_id = 0, rfh_trace_id = 0,
     rfh_version_major = 1, rfh_wire_format = WF_CURRENT\<rparr>"

end
