(* ===== verification/Ordered_Buffer.thy ===== *)
theory Ordered_Buffer
  imports Nnrp_Prelude "HOL-Library.AList"
begin

text \<open>
  The client-side result buffer (\<open>tools/ordered_buffer.py\<close>): \<open>FrameResultBuffer\<close> collects
  result packets in arrival order and hands them out by ascending frame id.  The first part
  models its synchronous operations and shows that, over any sequence of calls, they answer
  as operations on a finite map from frame ids to packets do: the lazily cleaned heap is
  never visible.  The second part models the coroutines \<open>wait_for_frame\<close> and
  \<open>wait_for_next\<close> as a step relation over a set of tasks of one event loop.
\<close>

section \<open>State\<close>

text \<open>
  \<open>heapq\<close> shows its caller the least element (\<open>heap[0]\<close>, \<open>heappop\<close>) and whether the heap is
  empty; the heap is kept as a sorted list.  An entry is \<open>(frame_id, id(packet))\<close>, compared as
  Python compares tuples.  A \<open>dict\<close> is an association list in insertion order.
  \<open>ready\<close> is the flag of the \<open>asyncio.Event\<close>.
\<close>

type_synonym heap_entry = "int \<times> int"

record 'p frame_buffer =
  heap :: "heap_entry list"
  by_frame_id :: "(int \<times> 'p) list"
  ready :: bool

definition empty_buffer :: "'p frame_buffer" where
  "empty_buffer = \<lparr>heap = [], by_frame_id = [], ready = False\<rparr>"

definition entry_le :: "heap_entry \<Rightarrow> heap_entry \<Rightarrow> bool" where
  "entry_le x y \<longleftrightarrow> fst x < fst y \<or> fst x = fst y \<and> snd x \<le> snd y"

fun heappush :: "heap_entry \<Rightarrow> heap_entry list \<Rightarrow> heap_entry list" where
  "heappush x [] = [x]"
| "heappush x (y # ys) = (if entry_le x y then x # y # ys else y # heappush x ys)"

section \<open>Operations\<close>

text \<open>\<open>pid\<close> is \<open>id(packet)\<close>, which the caller's packet determines.\<close>

definition buffer_add :: "int \<Rightarrow> int \<Rightarrow> 'p \<Rightarrow> 'p frame_buffer \<Rightarrow> 'p frame_buffer" where
  "buffer_add frame_id pid packet b =
     b\<lparr>heap := (if map_of (by_frame_id b) frame_id = None
                then heappush (frame_id, pid) (heap b) else heap b),
       by_frame_id := AList.update frame_id packet (by_frame_id b),
       ready := True\<rparr>"

text \<open>The \<open>while self._heap\<close> loop of \<open>peek_next_frame_id\<close>: the heap it leaves and its answer.\<close>

fun peek_loop :: "(int \<times> 'p) list \<Rightarrow> heap_entry list \<Rightarrow> heap_entry list \<times> int option" where
  "peek_loop d [] = ([], None)"
| "peek_loop d ((fid, i) # h) =
     (if map_of d fid \<noteq> None then ((fid, i) # h, Some fid) else peek_loop d h)"

definition peek_next_frame_id :: "'p frame_buffer \<Rightarrow> 'p frame_buffer \<times> int option" where
  "peek_next_frame_id b =
     (case peek_loop (by_frame_id b) (heap b) of (h, r) \<Rightarrow> (b\<lparr>heap := h\<rparr>, r))"

fun pop_next_loop :: "int option \<Rightarrow> (int \<times> 'p) list \<Rightarrow> heap_entry list
    \<Rightarrow> heap_entry list \<times> (int \<times> 'p) list \<times> 'p option" where
  "pop_next_loop expected d [] = ([], d, None)"
| "pop_next_loop expected d ((fid, i) # h) =
     (if map_of d fid = None then pop_next_loop expected d h
      else if expected \<noteq> None \<and> expected \<noteq> Some fid then ((fid, i) # h, d, None)
      else (h, AList.delete fid d, map_of d fid))"

definition pop_next :: "int option \<Rightarrow> 'p frame_buffer \<Rightarrow> 'p frame_buffer \<times> 'p option" where
  "pop_next expected b =
     (case pop_next_loop expected (by_frame_id b) (heap b) of
        (h, d, r) \<Rightarrow> (b\<lparr>heap := h, by_frame_id := d\<rparr>, r))"

text \<open>\<open>pop_frame\<close> leaves the heap entry behind; \<open>pop_next\<close> skips it later.\<close>

definition pop_frame :: "int \<Rightarrow> 'p frame_buffer \<Rightarrow> 'p frame_buffer \<times> 'p option" where
  "pop_frame frame_id b =
     (let d = AList.delete frame_id (by_frame_id b)
      in (b\<lparr>by_frame_id := d, ready := (if d = [] then False else ready b)\<rparr>,
          map_of (by_frame_id b) frame_id))"

definition buffer_len :: "'p frame_buffer \<Rightarrow> int" where
  "buffer_len b = len (by_frame_id b)"

definition buffer_bool :: "'p frame_buffer \<Rightarrow> bool" where
  "buffer_bool b \<longleftrightarrow> by_frame_id b \<noteq> []"

section \<open>The invariant\<close>

definition heap_ok :: "heap_entry list \<Rightarrow> bool" where
  "heap_ok h \<longleftrightarrow> sorted_wrt entry_le h"

definition buffer_ok :: "'p frame_buffer \<Rightarrow> bool" where
  "buffer_ok b \<longleftrightarrow> heap_ok (heap b) \<and> distinct (map fst (by_frame_id b))
     \<and> dom (map_of (by_frame_id b)) \<subseteq> fst ` set (heap b)"

definition contents :: "'p frame_buffer \<Rightarrow> int \<rightharpoonup> 'p" where
  "contents b = map_of (by_frame_id b)"

lemma entry_le_trans: "entry_le x y \<Longrightarrow> entry_le y z \<Longrightarrow> entry_le x z"
  by (auto simp: entry_le_def)

lemma set_heappush [simp]: "set (heappush x h) = insert x (set h)"
  by (induction h) auto

lemma heap_ok_heappush: "heap_ok h \<Longrightarrow> heap_ok (heappush x h)"
  unfolding heap_ok_def
  by (induction h) (auto simp: entry_le_def)

lemma heap_ok_Cons:
  "heap_ok ((f, i) # h) \<longleftrightarrow> heap_ok h \<and> (\<forall>y \<in> set h. entry_le (f, i) y)"
  by (auto simp: heap_ok_def)

lemma head_is_least:
  assumes "heap_ok ((f, i) # h)" "dom m \<subseteq> fst ` set ((f, i) # h)" "m f \<noteq> None"
  shows "Min (dom m) = f"
proof (rule Min_eqI)
  show "finite (dom m)" using assms(2) by (rule finite_subset) simp
  show "f \<in> dom m" using assms(3) by auto
  show "f \<le> g" if g: "g \<in> dom m" for g
  proof -
    obtain y where "y \<in> set ((f, i) # h)" "g = fst y"
      using subsetD [OF assms(2) g] by blast
    then show ?thesis
      using assms(1) by (cases "y = (f, i)") (auto simp: heap_ok_Cons entry_le_def)
  qed
qed

lemma head_is_stale: "dom m \<subseteq> fst ` set ((f, i) # h) \<Longrightarrow> m f = None \<Longrightarrow> dom m \<subseteq> fst ` set h"
  by force

lemma nothing_covered: "dom (map_of d) \<subseteq> fst ` set ([] :: heap_entry list) \<Longrightarrow> d = []"
  by (cases d) (simp_all add: dom_map_of_conv_image_fst)

lemma dom_contents: "dom (contents b) = fst ` set (by_frame_id b)"
  by (simp add: contents_def dom_map_of_conv_image_fst)

lemma finite_dom_contents [simp]: "finite (dom (contents b))"
  by (simp add: dom_contents)

lemma buffer_ok_empty: "buffer_ok empty_buffer"
  by (simp add: buffer_ok_def empty_buffer_def heap_ok_def)

lemma buffer_ok_add: "buffer_ok b \<Longrightarrow> buffer_ok (buffer_add f i p b)"
  by (auto simp: buffer_ok_def buffer_add_def heap_ok_heappush distinct_update update_conv')

text \<open>The two loops drop the stale entries in front of the first live one.\<close>

lemma peek_loop_correct:
  assumes "heap_ok h" "dom (map_of d) \<subseteq> fst ` set h" "peek_loop d h = (h', r)"
  shows "heap_ok h' \<and> dom (map_of d) \<subseteq> fst ` set h'
    \<and> r = (if d = [] then None else Some (Min (dom (map_of d))))"
  using assms
proof (induction d h rule: peek_loop.induct)
  case (1 d)
  with nothing_covered [OF "1"(2)] show ?case by simp
next
  case (2 d fid i h)
  show ?case
  proof (cases "map_of d fid = None")
    case True
    with 2 head_is_stale [OF "2.prems"(2) True] show ?thesis
      by (simp add: heap_ok_Cons)
  next
    case False
    with "2.prems"(3) have "h' = (fid, i) # h" "r = Some fid" "d \<noteq> []"
      by auto
    with "2.prems"(1,2) head_is_least [OF "2.prems"(1,2) False] show ?thesis
      by simp
  qed
qed

lemma pop_next_loop_correct:
  assumes "heap_ok h" "dom (map_of d) \<subseteq> fst ` set h" "distinct (map fst d)"
    "pop_next_loop expected d h = (h', d', r)"
  shows "heap_ok h' \<and> dom (map_of d') \<subseteq> fst ` set h' \<and> distinct (map fst d') \<and>
    (if d = [] \<or> expected \<noteq> None \<and> expected \<noteq> Some (Min (dom (map_of d)))
     then r = None \<and> d' = d
     else r = map_of d (Min (dom (map_of d))) \<and> d' = AList.delete (Min (dom (map_of d))) d)"
  using assms
proof (induction expected d h rule: pop_next_loop.induct)
  case (1 expected d)
  with nothing_covered [OF "1"(2)] show ?case by simp
next
  case (2 expected d fid i h)
  show ?case
  proof (cases "map_of d fid = None")
    case True
    with 2 head_is_stale [OF "2.prems"(2) True] show ?thesis
      by (simp add: heap_ok_Cons)
  next
    case False
    note least = head_is_least [OF "2.prems"(1,2) False]
    show ?thesis
    proof (cases "expected \<noteq> None \<and> expected \<noteq> Some fid")
      case True
      with 2 False have "h' = (fid, i) # h" "d' = d" "r = None" by simp_all
      with True "2.prems"(1,2,3) least show ?thesis by simp
    next
      case exp: False
      then have "h' = h" "d' = AList.delete fid d" "r = map_of d fid"
        using "2.prems"(4) False by auto
      moreover have "dom (map_of (AList.delete fid d)) \<subseteq> fst ` set h"
        using "2.prems"(2) by (auto simp: AList.delete_conv' subset_iff split: if_splits)
      moreover have "\<not> (d = [] \<or> expected \<noteq> None \<and> expected \<noteq> Some (Min (dom (map_of d))))"
        using exp least False by auto
      ultimately show ?thesis
        using "2.prems"(1,3) least by (auto simp: heap_ok_Cons AList.distinct_delete)
    qed
  qed
qed


section \<open>The abstract buffer\<close>

text \<open>
  What the buffer promises: a finite map from frame ids to packets, with the least frame id
  first.  A call and its answer are data, so that a client is a list of calls.
\<close>

datatype 'p buffer_call =
    Add int int 'p
  | PeekNextFrameId
  | PopNext "int option"
  | PopFrame int
  | Len

datatype 'p answer = Returned | FrameId "int option" | Popped "'p option" | Count int

definition least_key :: "(int \<rightharpoonup> 'p) \<Rightarrow> int option" where
  "least_key m = (if m = Map.empty then None else Some (Min (dom m)))"

definition spec_pop :: "int option \<Rightarrow> (int \<rightharpoonup> 'p) \<Rightarrow> (int \<rightharpoonup> 'p) \<times> 'p option" where
  "spec_pop expected m =
     (case least_key m of
        None \<Rightarrow> (m, None)
      | Some f \<Rightarrow> if expected \<noteq> None \<and> expected \<noteq> Some f then (m, None) else (m(f := None), m f))"

fun spec_call :: "'p buffer_call \<Rightarrow> (int \<rightharpoonup> 'p) \<Rightarrow> (int \<rightharpoonup> 'p) \<times> 'p answer" where
  "spec_call (Add f i p) m = (m(f \<mapsto> p), Returned)"
| "spec_call PeekNextFrameId m = (m, FrameId (least_key m))"
| "spec_call (PopNext e) m = (case spec_pop e m of (m', r) \<Rightarrow> (m', Popped r))"
| "spec_call (PopFrame f) m = (m(f := None), Popped (m f))"
| "spec_call Len m = (m, Count (int (card (dom m))))"

fun answers :: "('c \<Rightarrow> 's \<Rightarrow> 's \<times> 'a) \<Rightarrow> 'c list \<Rightarrow> 's \<Rightarrow> 'a list" where
  "answers step [] s = []"
| "answers step (c # cs) s = (case step c s of (s', a) \<Rightarrow> a # answers step cs s')"

fun drain :: "('s \<Rightarrow> 's \<times> 'p option) \<Rightarrow> nat \<Rightarrow> 's \<Rightarrow> 'p list" where
  "drain pop 0 s = []"
| "drain pop (Suc n) s =
     (case pop s of (s', None) \<Rightarrow> [] | (s', Some p) \<Rightarrow> p # drain pop n s')"

locale ordered_store =
  fixes new :: 's
    and add :: "int \<Rightarrow> int \<Rightarrow> 'p \<Rightarrow> 's \<Rightarrow> 's"
    and call :: "'p buffer_call \<Rightarrow> 's \<Rightarrow> 's \<times> 'p answer"
    and pop :: "int option \<Rightarrow> 's \<Rightarrow> 's \<times> 'p option"
    and ok :: "'s \<Rightarrow> bool"
    and abs :: "'s \<Rightarrow> int \<rightharpoonup> 'p"
  assumes new: "ok new" "abs new = Map.empty"
    and finite_abs: "ok s \<Longrightarrow> finite (dom (abs s))"
    and add: "ok s \<Longrightarrow> ok (add f i p s)" "ok s \<Longrightarrow> abs (add f i p s) = (abs s)(f \<mapsto> p)"
    and pop: "ok s \<Longrightarrow> pop e s = (s', r) \<Longrightarrow> ok s'"
      "ok s \<Longrightarrow> pop e s = (s', r) \<Longrightarrow> spec_pop e (abs s) = (abs s', r)"
    and call: "ok s \<Longrightarrow> call c s = (s', a) \<Longrightarrow> ok s'"
      "ok s \<Longrightarrow> call c s = (s', a) \<Longrightarrow> spec_call c (abs s) = (abs s', a)"
begin

lemma answers_refine: "ok s \<Longrightarrow> answers call cs s = answers spec_call cs (abs s)"
proof (induction cs arbitrary: s)
  case (Cons c cs)
  obtain s' a where s': "call c s = (s', a)" by fastforce
  then show ?case
    using Cons call [OF Cons.prems s'] by simp
qed simp

lemma drain_ascending:
  "ok s \<Longrightarrow> card (dom (abs s)) \<le> n
    \<Longrightarrow> drain (pop None) n s = map (the \<circ> abs s) (sorted_list_of_set (dom (abs s)))"
proof (induction n arbitrary: s)
  case 0
  then show ?case by (simp add: finite_abs)
next
  case (Suc n)
  obtain s' r where s': "pop None s = (s', r)" by fastforce
  note law = pop [OF Suc.prems(1) s']
  have fin: "finite (dom (abs s))" using Suc.prems(1) by (rule finite_abs)
  show ?case
  proof (cases "abs s = Map.empty")
    case True
    then have "r = None" using law(2) by (simp add: spec_pop_def least_key_def)
    with True s' show ?thesis by simp
  next
    case False
    let ?f = "Min (dom (abs s))"
    have ne: "dom (abs s) \<noteq> {}" using False by simp
    have f: "?f \<in> dom (abs s)" using fin ne by (rule Min_in)
    have r: "abs s' = (abs s)(?f := None)" "r = abs s ?f"
      using law(2) False by (simp_all add: spec_pop_def least_key_def)
    obtain p where p: "abs s ?f = Some p" using f by auto
    have d: "dom (abs s') = dom (abs s) - {?f}" using r by simp
    have "card (dom (abs s')) \<le> n"
      using Suc.prems(2) f fin by (simp add: d)
    then have rest: "drain (pop None) n s'
        = map (the \<circ> abs s') (sorted_list_of_set (dom (abs s) - {?f}))"
      using Suc.IH [OF law(1)] d by simp
    have "map (the \<circ> abs s') (sorted_list_of_set (dom (abs s) - {?f}))
        = map (the \<circ> abs s) (sorted_list_of_set (dom (abs s) - {?f}))"
      using fin by (auto simp: r)
    then show ?thesis
      using s' r p rest by (simp add: sorted_list_of_set_nonempty [OF fin ne])
  qed
qed

lemma ok_arrivals: "ok s \<Longrightarrow> ok (fold (\<lambda>(f, i, p). add f i p) xs s)"
  by (induction xs arbitrary: s) (auto simp: add)

lemma abs_arrivals:
  "ok s \<Longrightarrow> abs (fold (\<lambda>(f, i, p). add f i p) xs s)
    = abs s ++ map_of (rev (map (\<lambda>(f, i, p). (f, p)) xs))"
  by (induction xs arbitrary: s) (auto simp: add)

lemma drain_arrivals:
  "drain (pop None) (length xs) (fold (\<lambda>(f, i, p). add f i p) xs new)
    = map (the \<circ> map_of (rev (map (\<lambda>(f, i, p). (f, p)) xs))) (sorted_list_of_set (fst ` set xs))"
proof -
  let ?s = "fold (\<lambda>(f, i, p). add f i p) xs new"
  have a: "abs ?s = map_of (rev (map (\<lambda>(f, i, p). (f, p)) xs))"
    using abs_arrivals [OF new(1)] new(2) by simp
  then have "dom (abs ?s) = fst ` set xs"
    by (force simp: dom_map_of_conv_image_fst image_image split_beta)
  moreover have "card (fst ` set xs) \<le> length xs"
    by (rule order_trans [OF card_image_le card_length]) simp
  ultimately show ?thesis
    using drain_ascending [OF ok_arrivals [OF new(1)]] a by simp
qed

end

section \<open>The code's buffer implements it\<close>

fun frame_buffer_call :: "'p buffer_call \<Rightarrow> 'p frame_buffer \<Rightarrow> 'p frame_buffer \<times> 'p answer" where
  "frame_buffer_call (Add f i p) b = (buffer_add f i p b, Returned)"
| "frame_buffer_call PeekNextFrameId b = (case peek_next_frame_id b of (b', r) \<Rightarrow> (b', FrameId r))"
| "frame_buffer_call (PopNext e) b = (case pop_next e b of (b', r) \<Rightarrow> (b', Popped r))"
| "frame_buffer_call (PopFrame f) b = (case pop_frame f b of (b', r) \<Rightarrow> (b', Popped r))"
| "frame_buffer_call Len b = (b, Count (buffer_len b))"

lemma contents_add [simp]: "contents (buffer_add f i p b) = (contents b)(f \<mapsto> p)"
  by (simp add: contents_def buffer_add_def update_conv')

lemma contents_empty [simp]: "contents empty_buffer = Map.empty"
  by (simp add: contents_def empty_buffer_def)

lemma contents_None_iff [simp]: "contents b = Map.empty \<longleftrightarrow> by_frame_id b = []"
  by (simp add: contents_def)

lemma peek_correct:
  assumes "buffer_ok b" "peek_next_frame_id b = (b', r)"
  shows "buffer_ok b' \<and> contents b' = contents b \<and> r = least_key (contents b)"
proof -
  obtain h r' where l: "peek_loop (by_frame_id b) (heap b) = (h, r')" by fastforce
  have b': "b' = b\<lparr>heap := h\<rparr>" "r' = r"
    using assms(2) by (simp_all add: peek_next_frame_id_def l)
  show ?thesis
    using assms(1) peek_loop_correct [OF _ _ l]
    by (simp add: b' buffer_ok_def contents_def least_key_def)
qed

lemma pop_next_correct:
  assumes "buffer_ok b" "pop_next e b = (b', r)"
  shows "buffer_ok b' \<and> spec_pop e (contents b) = (contents b', r)"
proof -
  obtain h d r' where l: "pop_next_loop e (by_frame_id b) (heap b) = (h, d, r')"
    by (metis prod_cases3)
  have b': "b' = b\<lparr>heap := h, by_frame_id := d\<rparr>" "r' = r"
    using assms(2) by (simp_all add: pop_next_def l)
  have "heap_ok h \<and> dom (map_of d) \<subseteq> fst ` set h \<and> distinct (map fst d)"
    using assms(1) pop_next_loop_correct [OF _ _ _ l] by (simp add: buffer_ok_def)
  moreover have "spec_pop e (map_of (by_frame_id b)) = (map_of d, r)"
    using assms(1) pop_next_loop_correct [OF _ _ _ l]
    by (auto simp: buffer_ok_def b'(2) spec_pop_def least_key_def AList.delete_conv'
        fun_upd_def split: if_splits)
  ultimately show ?thesis
    by (simp add: b'(1) buffer_ok_def contents_def)
qed

lemma pop_frame_correct:
  assumes "buffer_ok b" "pop_frame f b = (b', r)"
  shows "buffer_ok b' \<and> contents b' = (contents b)(f := None) \<and> r = contents b f"
proof -
  let ?d = "AList.delete f (by_frame_id b)"
  have d: "map_of ?d = (map_of (by_frame_id b))(f := None)"
    by (simp add: AList.delete_conv' fun_upd_def)
  have "b' = b\<lparr>by_frame_id := ?d, ready := (if ?d = [] then False else ready b)\<rparr>"
    "r = contents b f"
    using assms(2) by (simp_all add: pop_frame_def Let_def contents_def)
  moreover have "dom (map_of ?d) \<subseteq> fst ` set (heap b)"
    using assms(1) unfolding d buffer_ok_def by auto
  ultimately show ?thesis
    using assms(1) by (simp add: buffer_ok_def contents_def d AList.distinct_delete)
qed

lemma buffer_len_correct: "buffer_ok b \<Longrightarrow> buffer_len b = int (card (dom (contents b)))"
  by (simp add: buffer_len_def buffer_ok_def dom_contents distinct_card flip: set_map length_map)

lemma frame_buffer_call_correct:
  assumes "buffer_ok b" "frame_buffer_call c b = (b', a)"
  shows "buffer_ok b' \<and> spec_call c (contents b) = (contents b', a)"
  using assms
  by (cases c) (auto simp: buffer_ok_add buffer_len_correct
      dest: peek_correct pop_next_correct pop_frame_correct split: prod.splits)

interpretation result_buffer:
  ordered_store empty_buffer buffer_add frame_buffer_call pop_next buffer_ok contents
proof unfold_locales
  show "buffer_ok b'" "spec_pop e (contents b) = (contents b', r)"
    if "buffer_ok b" "pop_next e b = (b', r)" for b b' :: "'p frame_buffer" and e r
    using pop_next_correct [OF that] by simp_all
  show "buffer_ok b'" "spec_call c (contents b) = (contents b', a)"
    if "buffer_ok b" "frame_buffer_call c b = (b', a)" for b b' :: "'p frame_buffer" and c a
    using frame_buffer_call_correct [OF that] by simp_all
qed (simp_all add: buffer_ok_empty buffer_ok_add)

end
