(* ===== verification/Result_Waiters.thy ===== *)
theory Result_Waiters
  imports Ordered_Buffer
begin

text \<open>
  The coroutines of \<open>FrameResultBuffer\<close> (\<open>wait_for_frame\<close>, \<open>wait_for_next\<close>, \<open>_wait_ready\<close>
  in \<open>tools/ordered_buffer.py\<close>) as tasks of one event loop.  A step is what one task does
  between two awaits, so steps do not overlap.  Every task runs the same loop: take a packet,
  or look at the deadline, or clear the event and wait for it.

  \<open>asyncio.wait_for\<close> awaits \<open>_wait_ready\<close> in the calling task since Python 3.12; up to
  Python 3.11, which \<open>requires-python\<close> admits, it starts it in a task of its own, so that the
  event is cleared one step later.  The parameter \<open>helper\<close> says which.
\<close>

section \<open>Tasks\<close>

datatype want = AwaitFrame int | AwaitNext

text \<open>
  \<open>Start\<close>: not run yet.  \<open>Spawned\<close>: inside \<open>wait_for\<close>, its helper task not run yet.
  \<open>Blocked\<close>: its future is among the waiters of the event.  \<open>Woken\<close>: that future is resolved
  and the task scheduled.  \<open>Finished\<close>: the coroutine has returned.
\<close>

datatype 'p phase = Start | Woken | Spawned | Blocked | Finished "'p option"

record 'p task =
  want :: want
  timed :: bool
  phase :: "'p phase"

record 'p event_loop =
  buf :: "'p frame_buffer"
  tasks :: "'p task list"

definition set_phase :: "nat \<Rightarrow> 'p phase \<Rightarrow> 'p event_loop \<Rightarrow> 'p event_loop" where
  "set_phase i ph s = s\<lparr>tasks := (tasks s)[i := (tasks s ! i)\<lparr>phase := ph\<rparr>]\<rparr>"

text \<open>The pop the loop of a task tries first.\<close>

fun try_pop :: "want \<Rightarrow> 'p frame_buffer \<Rightarrow> 'p frame_buffer \<times> 'p option" where
  "try_pop (AwaitFrame f) b = pop_frame f b"
| "try_pop AwaitNext b = pop_next None b"

text \<open>\<open>Event.set\<close> resolves the futures of the waiters, and only if the flag was not set.\<close>

definition wake :: "'p task \<Rightarrow> 'p task" where
  "wake t = (if phase t = Blocked then t\<lparr>phase := Woken\<rparr> else t)"

definition arrive :: "int \<Rightarrow> int \<Rightarrow> 'p \<Rightarrow> 'p event_loop \<Rightarrow> 'p event_loop" where
  "arrive f pid p s =
     s\<lparr>buf := buffer_add f pid p (buf s),
       tasks := (if ready (buf s) then tasks s else map wake (tasks s))\<rparr>"

text \<open>\<open>_wait_ready\<close>: the flag is cleared, so that \<open>wait\<close> always suspends.\<close>

definition wait_ready :: "nat \<Rightarrow> 'p event_loop \<Rightarrow> 'p event_loop" where
  "wait_ready i s = set_phase i Blocked (s\<lparr>buf := (buf s)\<lparr>ready := False\<rparr>\<rparr>)"

text \<open>
  One pass through the loop of task \<open>i\<close>; \<open>expired\<close> is \<open>remaining <= 0\<close>.
\<close>

definition run_task :: "bool \<Rightarrow> nat \<Rightarrow> bool \<Rightarrow> 'p event_loop \<Rightarrow> 'p event_loop" where
  "run_task helper i expired s =
     (let t = tasks s ! i
      in case try_pop (want t) (buf s) of
           (b, Some p) \<Rightarrow> set_phase i (Finished (Some p)) (s\<lparr>buf := b\<rparr>)
         | (b, None) \<Rightarrow>
             if timed t \<and> expired then set_phase i (Finished None) (s\<lparr>buf := b\<rparr>)
             else if timed t \<and> helper then set_phase i Spawned (s\<lparr>buf := b\<rparr>)
             else wait_ready i (s\<lparr>buf := b\<rparr>))"

section \<open>Steps\<close>

datatype 'p loop_event =
    Arrive int int 'p
  | Open want bool
  | Run nat bool
  | RunHelper nat
  | Expire nat
  | Call "'p buffer_call"

inductive loop_step :: "bool \<Rightarrow> 'p event_loop \<Rightarrow> 'p loop_event \<Rightarrow> 'p event_loop \<Rightarrow> bool"
  for helper where
  step_arrive: "loop_step helper s (Arrive f pid p) (arrive f pid p s)"
| step_open: "loop_step helper s (Open w d)
    (s\<lparr>tasks := tasks s @ [\<lparr>want = w, timed = d, phase = Start\<rparr>]\<rparr>)"
| step_run: "i < length (tasks s) \<Longrightarrow> phase (tasks s ! i) \<in> {Start, Woken}
    \<Longrightarrow> loop_step helper s (Run i expired) (run_task helper i expired s)"
| step_helper: "i < length (tasks s) \<Longrightarrow> phase (tasks s ! i) = Spawned
    \<Longrightarrow> loop_step helper s (RunHelper i) (wait_ready i s)"
| step_expire: "i < length (tasks s) \<Longrightarrow> timed (tasks s ! i)
    \<Longrightarrow> phase (tasks s ! i) \<in> {Woken, Spawned, Blocked}
    \<Longrightarrow> loop_step helper s (Expire i) (set_phase i (Finished None) s)"
| step_call: "(\<And>f pid p. c \<noteq> Add f pid p)
    \<Longrightarrow> loop_step helper s (Call c) (s\<lparr>buf := fst (frame_buffer_call c (buf s))\<rparr>)"

inductive_cases arrive_stepE: "loop_step helper s (Arrive f pid p) s'"
inductive_cases open_stepE: "loop_step helper s (Open w d) s'"
inductive_cases run_stepE: "loop_step helper s (Run i expired) s'"
inductive_cases expire_stepE: "loop_step helper s (Expire i) s'"
inductive_cases call_stepE: "loop_step helper s (Call c) s'"
inductive_simps run_step_iff: "loop_step helper s (Run i expired) s'"

definition initial_loop :: "'p event_loop" where
  "initial_loop = \<lparr>buf = empty_buffer, tasks = []\<rparr>"

inductive reachable :: "bool \<Rightarrow> 'p event_loop \<Rightarrow> bool" for helper where
  reachable_initial: "reachable helper initial_loop"
| reachable_step: "reachable helper s \<Longrightarrow> loop_step helper s e s' \<Longrightarrow> reachable helper s'"

inductive loop_path :: "bool \<Rightarrow> 'p event_loop \<Rightarrow> 'p loop_event list \<Rightarrow> 'p event_loop \<Rightarrow> bool"
  for helper where
  path_nil: "loop_path helper s [] s"
| path_cons: "loop_step helper s e s' \<Longrightarrow> loop_path helper s' es s''
    \<Longrightarrow> loop_path helper s (e # es) s''"

inductive_cases path_consE: "loop_path helper s (e # es) s''"
inductive_cases path_nilE: "loop_path helper s [] s''"

lemma reachable_path: "loop_path helper s es s' \<Longrightarrow> reachable helper s \<Longrightarrow> reachable helper s'"
  by (induction rule: loop_path.induct) (auto intro: reachable_step)

section \<open>No wakeup is lost when the event is cleared in the waiting task\<close>

fun wanted :: "want \<Rightarrow> (int \<rightharpoonup> 'p) \<Rightarrow> bool" where
  "wanted (AwaitFrame f) m \<longleftrightarrow> m f \<noteq> None"
| "wanted AwaitNext m \<longleftrightarrow> m \<noteq> Map.empty"

definition task_ok :: "'p frame_buffer \<Rightarrow> 'p task \<Rightarrow> bool" where
  "task_ok b t \<longleftrightarrow> phase t \<noteq> Spawned
     \<and> (phase t = Blocked \<longrightarrow> \<not> ready b \<and> \<not> wanted (want t) (contents b))"

definition loop_ok :: "'p event_loop \<Rightarrow> bool" where
  "loop_ok s \<longleftrightarrow> buffer_ok (buf s) \<and> (\<forall>t \<in> set (tasks s). task_ok (buf s) t)"

text \<open>A pop gives the wanted packet exactly when there is one, and otherwise changes nothing.\<close>

lemma wanted_mono: "m' \<subseteq>\<^sub>m m \<Longrightarrow> wanted w m' \<Longrightarrow> wanted w m"
  using map_le_implies_dom_le [of m' m] by (cases w) (auto simp: map_le_def)

lemma spec_pop_le: "spec_pop e m = (m', r) \<Longrightarrow> m' \<subseteq>\<^sub>m m"
  by (auto simp: spec_pop_def map_le_def split: option.splits if_splits)

lemma ready_pop: 
  "ready (fst (pop_next e b)) = ready b"
  "ready (fst (pop_frame f b)) \<Longrightarrow> ready b"
  by (auto simp: pop_next_def pop_frame_def Let_def split: prod.splits if_splits)

lemma ready_peek: "ready (fst (peek_next_frame_id b)) = ready b"
  by (simp add: peek_next_frame_id_def split: prod.splits)

text \<open>What every call but \<open>add\<close> keeps.\<close>

definition shrinks :: "'p frame_buffer \<Rightarrow> 'p frame_buffer \<Rightarrow> bool" where
  "shrinks b b' \<longleftrightarrow> buffer_ok b' \<and> contents b' \<subseteq>\<^sub>m contents b \<and> (ready b' \<longrightarrow> ready b)"

lemma task_ok_shrinks: "shrinks b b' \<Longrightarrow> task_ok b t \<Longrightarrow> task_ok b' t"
  by (auto simp: shrinks_def task_ok_def dest: wanted_mono)

lemma try_pop_shrinks: "buffer_ok b \<Longrightarrow> shrinks b (fst (try_pop w b))"
proof (cases w)
  case (AwaitFrame f)
  assume "buffer_ok b"
  then show ?thesis
    using pop_frame_correct [of b f] ready_pop(2) [of f b]
    by (cases "pop_frame f b") (auto simp: AwaitFrame shrinks_def map_le_def)
next
  case AwaitNext
  assume "buffer_ok b"
  then show ?thesis
    using pop_next_correct [of b None] spec_pop_le [of None "contents b"] ready_pop(1) [of None b]
    by (cases "pop_next None b") (auto simp: AwaitNext shrinks_def)
qed

lemma try_pop_result:
  "buffer_ok b \<Longrightarrow> snd (try_pop (AwaitFrame f) b) = contents b f"
  "buffer_ok b \<Longrightarrow> (snd (try_pop w b) = None) = (\<not> wanted w (contents b))"
proof -
  show 1: "snd (try_pop (AwaitFrame f) b) = contents b f" if "buffer_ok b" for f
    by (simp add: pop_frame_def Let_def contents_def)
  assume ok: "buffer_ok b"
  show "(snd (try_pop w b) = None) = (\<not> wanted w (contents b))"
  proof (cases w)
    case (AwaitFrame f)
    then show ?thesis using 1 [OF ok] by simp
  next
    case AwaitNext
    have "contents b (Min (dom (contents b))) \<noteq> None" if "by_frame_id b \<noteq> []"
      using that Min_in [of "dom (contents b)"] by (simp add: domIff)
    then show ?thesis
      using AwaitNext pop_next_correct [OF ok, of None]
      by (cases "pop_next None b") (auto simp: spec_pop_def least_key_def split: if_splits)
  qed
qed

lemma frame_buffer_call_shrinks:
  assumes "buffer_ok b" "\<And>f pid p. c \<noteq> Add f pid p"
  shows "shrinks b (fst (frame_buffer_call c b))"
proof (cases c)
  case PeekNextFrameId
  then show ?thesis
    using assms(1) peek_correct [of b] ready_peek [of b]
    by (cases "peek_next_frame_id b") (auto simp: shrinks_def)
next
  case (PopNext e)
  then show ?thesis
    using assms(1) pop_next_correct [of b e] spec_pop_le [of e "contents b"] ready_pop(1) [of e b]
    by (cases "pop_next e b") (auto simp: shrinks_def)
next
  case (PopFrame f)
  then show ?thesis
    using try_pop_shrinks [OF assms(1), of "AwaitFrame f"] by (cases "pop_frame f b") simp
qed (use assms in \<open>auto simp: shrinks_def\<close>)

lemma loop_ok_set_phase:
  "loop_ok s \<Longrightarrow> i < length (tasks s) \<Longrightarrow> task_ok (buf s) ((tasks s ! i)\<lparr>phase := ph\<rparr>)
    \<Longrightarrow> loop_ok (set_phase i ph s)"
  by (auto simp: loop_ok_def set_phase_def dest!: set_update_subset_insert [THEN subsetD])

lemma loop_ok_shrinks: "loop_ok s \<Longrightarrow> shrinks (buf s) b \<Longrightarrow> loop_ok (s\<lparr>buf := b\<rparr>)"
  by (auto simp: loop_ok_def task_ok_shrinks) (simp add: shrinks_def)

lemma shrinks_clear: "buffer_ok b \<Longrightarrow> shrinks b (b\<lparr>ready := False\<rparr>)"
  by (simp add: shrinks_def buffer_ok_def contents_def)

lemma loop_ok_wait_ready:
  assumes "loop_ok s" "i < length (tasks s)" "\<not> wanted (want (tasks s ! i)) (contents (buf s))"
  shows "loop_ok (wait_ready i s)"
proof -
  have "loop_ok (s\<lparr>buf := (buf s)\<lparr>ready := False\<rparr>\<rparr>)"
    using assms(1) by (intro loop_ok_shrinks shrinks_clear) (simp_all add: loop_ok_def)
  then show ?thesis
    unfolding wait_ready_def using assms(2,3)
    by (intro loop_ok_set_phase) (auto simp: task_ok_def contents_def)
qed

lemma loop_ok_arrive: "loop_ok s \<Longrightarrow> loop_ok (arrive f pid p s)"
  by (auto simp: loop_ok_def arrive_def task_ok_def wake_def buffer_ok_add)

lemma loop_ok_run:
  assumes "loop_ok s" "i < length (tasks s)"
  shows "loop_ok (run_task False i expired s)"
proof -
  let ?t = "tasks s ! i"
  have ok: "buffer_ok (buf s)" using assms(1) by (simp add: loop_ok_def)
  obtain b r where p: "try_pop (want ?t) (buf s) = (b, r)" by fastforce
  have b: "loop_ok (s\<lparr>buf := b\<rparr>)" "contents b \<subseteq>\<^sub>m contents (buf s)"
    using loop_ok_shrinks [OF assms(1) try_pop_shrinks [OF ok, of "want ?t"]]
      try_pop_shrinks [OF ok, of "want ?t"] by (simp_all add: p shrinks_def)
  have fin: "loop_ok (set_phase i (Finished x) (s\<lparr>buf := b\<rparr>))" for x
    using b(1) assms(2) by (intro loop_ok_set_phase) (auto simp: task_ok_def)
  show ?thesis
  proof (cases r)
    case None
    then have "\<not> wanted (want ?t) (contents b)"
      using try_pop_result(2) [OF ok, of "want ?t"] wanted_mono [OF b(2)] by (auto simp: p)
    then have "loop_ok (wait_ready i (s\<lparr>buf := b\<rparr>))"
      using b(1) assms(2) by (intro loop_ok_wait_ready) auto
    then show ?thesis using fin None by (simp add: run_task_def Let_def p)
  next
    case (Some q)
    then show ?thesis using fin by (simp add: run_task_def Let_def p)
  qed
qed

lemma loop_ok_step: "loop_step False s e s' \<Longrightarrow> loop_ok s \<Longrightarrow> loop_ok s'"
proof (induction rule: loop_step.induct)
  case (step_open s w d)
  then show ?case by (auto simp: loop_ok_def task_ok_def)
next
  case (step_helper i s)
  then show ?case by (auto simp: loop_ok_def task_ok_def)
next
  case (step_expire i s)
  then show ?case by (intro loop_ok_set_phase) (auto simp: task_ok_def)
next
  case (step_call c s)
  then show ?case
    by (intro loop_ok_shrinks frame_buffer_call_shrinks) (auto simp: loop_ok_def)
qed (simp_all add: loop_ok_arrive loop_ok_run)

lemma loop_ok_reachable: "reachable False s \<Longrightarrow> loop_ok s"
  by (induction rule: reachable.induct)
    (auto simp: loop_ok_step, simp add: loop_ok_def initial_loop_def buffer_ok_empty)


section \<open>Delivery\<close>

text \<open>A waiter whose frame is there is scheduled, and its next run returns the packet.\<close>

lemma waiter_scheduled:
  assumes "loop_ok s" "i < length (tasks s)" "wanted (want (tasks s ! i)) (contents (buf s))"
    "\<And>r. phase (tasks s ! i) \<noteq> Finished r"
  shows "phase (tasks s ! i) \<in> {Start, Woken}"
  using assms nth_mem [OF assms(2)]
  by (cases "phase (tasks s ! i)") (auto simp: loop_ok_def task_ok_def)

lemma nth_list_update_if:
  "xs[i := x] ! j = (if i = j \<and> i < length xs then x else xs ! j)"
  by (cases "i < length xs") (auto simp: nth_list_update not_less list_update_beyond)

lemma phase_set_phase [simp]:
  "i < length (tasks s) \<Longrightarrow> phase (tasks (set_phase i ph s) ! j) = (if j = i then ph else phase (tasks s ! j))"
  "want (tasks (set_phase i ph s) ! j) = want (tasks s ! j)"
  "length (tasks (set_phase i ph s)) = length (tasks s)"
  "buf (set_phase i ph s) = buf s"
  by (auto simp: set_phase_def nth_list_update_if)

lemma run_returns:
  assumes "buffer_ok (buf s)" "i < length (tasks s)" "want (tasks s ! i) = AwaitFrame f"
    "contents (buf s) f = Some p"
  shows "phase (tasks (run_task helper i expired s) ! i) = Finished (Some p)"
  using assms(2,3) try_pop_result(1) [OF assms(1), of f] assms(4)
  by (cases "pop_frame f (buf s)") (auto simp: run_task_def Let_def)

text \<open>
  Others that may take frame \<open>f\<close>: a waiter for it or for the next frame, and a synchronous pop.
\<close>

fun takes :: "int \<Rightarrow> 'p loop_event \<Rightarrow> bool" where
  "takes f (Open w d) \<longleftrightarrow> w \<in> {AwaitFrame f, AwaitNext}"
| "takes f (Call c) \<longleftrightarrow> (case c of PopNext e \<Rightarrow> True | PopFrame g \<Rightarrow> g = f | _ \<Rightarrow> False)"
| "takes f _ \<longleftrightarrow> False"

definition sole_waiter :: "nat \<Rightarrow> int \<Rightarrow> 'p event_loop \<Rightarrow> bool" where
  "sole_waiter i f s \<longleftrightarrow> i < length (tasks s) \<and> want (tasks s ! i) = AwaitFrame f
     \<and> (\<forall>j < length (tasks s). j \<noteq> i \<longrightarrow> want (tasks s ! j) \<notin> {AwaitFrame f, AwaitNext})"

lemma pop_frame_other: "g \<noteq> f \<Longrightarrow> contents (fst (pop_frame g b)) f = contents b f"
  by (simp add: pop_frame_def Let_def contents_def AList.delete_conv')

lemma tasks_wait_ready [simp]:
  "tasks (wait_ready i s) = tasks (set_phase i Blocked s)" "contents (buf (wait_ready i s)) = contents (buf s)"
  by (simp_all add: wait_ready_def contents_def set_phase_def)

lemma run_other:
  assumes "want (tasks s ! j) \<notin> {AwaitFrame f, AwaitNext}" "j < length (tasks s)"
  shows "contents (buf (run_task helper j expired s)) f = contents (buf s) f"
    "i \<noteq> j \<Longrightarrow> phase (tasks (run_task helper j expired s) ! i) = phase (tasks s ! i)"
proof -
  obtain g where g: "want (tasks s ! j) = AwaitFrame g" "g \<noteq> f"
    using assms(1) by (cases "want (tasks s ! j)") auto
  obtain b r where b: "pop_frame g (buf s) = (b, r)" by fastforce
  then have "contents b f = contents (buf s) f"
    using pop_frame_other [OF g(2), of "buf s"] by simp
  then show "contents (buf (run_task helper j expired s)) f = contents (buf s) f"
    by (auto simp: run_task_def Let_def g b split: option.split)
  show "i \<noteq> j \<Longrightarrow> phase (tasks (run_task helper j expired s) ! i) = phase (tasks s ! i)"
    using assms(2) by (auto simp: run_task_def Let_def g b set_phase_def split: option.split)
qed

lemma want_run [simp]:
  "want (tasks (run_task helper j expired s) ! i) = want (tasks s ! i)"
  "length (tasks (run_task helper j expired s)) = length (tasks s)"
  by (auto simp: run_task_def Let_def set_phase_def wait_ready_def nth_list_update_if
      split: prod.split option.split)

definition served :: "nat \<Rightarrow> 'p event_loop \<Rightarrow> bool" where
  "served i s \<longleftrightarrow> (\<exists>p. phase (tasks s ! i) = Finished (Some p))"

text \<open>
  While nobody else can take the frame, it stays buffered until task \<open>i\<close> has run.
\<close>

definition pending :: "nat \<Rightarrow> int \<Rightarrow> 'p event_loop \<Rightarrow> bool" where
  "pending i f s \<longleftrightarrow> sole_waiter i f s \<and>
     (served i s \<or> contents (buf s) f \<noteq> None \<and> (\<forall>r. phase (tasks s ! i) \<noteq> Finished r))"

lemma call_keeps_frame:
  assumes "buffer_ok b" "\<not> takes f (Call c)"
  shows "contents b f = Some p \<Longrightarrow> \<exists>q. contents (fst (frame_buffer_call c b)) f = Some q"
proof (cases c)
  case PeekNextFrameId
  moreover assume "contents b f = Some p"
  ultimately show ?thesis using peek_correct [OF assms(1)] by (auto split: prod.splits)
next
  case (PopFrame g)
  moreover assume "contents b f = Some p"
  ultimately show ?thesis
    using assms(2) pop_frame_other [of g f b] by (auto split: prod.splits)
qed (use assms in \<open>auto\<close>)

lemma pending_step:
  assumes "loop_step False s e s'" "loop_ok s" "pending i f s" "\<not> takes f e" "e \<noteq> Expire i"
  shows "pending i f s'"
  using assms
proof (induction rule: loop_step.induct)
  case (step_arrive s g pid p)
  then show ?case
    by (auto simp: pending_def sole_waiter_def served_def arrive_def wake_def)
next
  case (step_open s w d)
  then show ?case
    by (auto simp: pending_def sole_waiter_def served_def nth_append)
next
  case (step_run j s expired)
  note ok = step_run(3)
  have pend: "sole_waiter i f s" using step_run(4) by (simp add: pending_def)
  have sole: "sole_waiter i f (run_task False j expired s)"
    using pend by (auto simp: sole_waiter_def)
  show ?case
  proof (cases "j = i")
    case True
    have "served i (run_task False i expired s)" if "contents (buf s) f \<noteq> None"
      using that pend run_returns [of s i f] ok
      by (auto simp: served_def sole_waiter_def loop_ok_def)
    moreover have "contents (buf s) f \<noteq> None"
      using step_run(2,4) True by (auto simp: pending_def served_def)
    ultimately show ?thesis using sole True by (simp add: pending_def)
  next
    case False
    then have "want (tasks s ! j) \<notin> {AwaitFrame f, AwaitNext}"
      using pend step_run(1) by (auto simp: sole_waiter_def)
    then show ?thesis
      using run_other(1) [OF _ step_run(1)] run_other(2) [OF _ step_run(1)] False step_run(4) sole
      by (auto simp: pending_def served_def)
  qed
next
  case (step_helper j s)
  then show ?case by (auto simp: loop_ok_def task_ok_def)
next
  case (step_expire j s)
  then have "j \<noteq> i" by simp
  with step_expire show ?case
    by (auto simp: pending_def sole_waiter_def served_def)
next
  case (step_call c s)
  then show ?case
    using call_keeps_frame [of "buf s" f c]
    by (auto simp: pending_def sole_waiter_def served_def loop_ok_def)
qed

lemma served_step: 
  assumes "loop_step False s e s'" "served i s" "i < length (tasks s)"
  shows "served i s' \<and> i < length (tasks s')"
  using assms
proof (induction rule: loop_step.induct)
  case (step_run j s expired)
  then have "j \<noteq> i" by (auto simp: served_def)
  with step_run show ?case
    by (auto simp: served_def run_task_def Let_def wait_ready_def set_phase_def
        split: prod.split option.split)
next
  case (step_arrive s f pid p)
  then show ?case by (auto simp: served_def arrive_def wake_def)
qed (auto simp: served_def nth_append set_phase_def wait_ready_def nth_list_update_if)

lemma served_path:
  "loop_path False s es s' \<Longrightarrow> served i s \<Longrightarrow> i < length (tasks s) \<Longrightarrow> served i s'"
  by (induction rule: loop_path.induct) (auto dest: served_step)

text \<open>
  Whatever the other tasks do meanwhile, a schedule that runs the waiter once delivers the
  frame.
\<close>

lemma delivery:
  assumes "loop_path False s es s'" "loop_ok s" "pending i f s"
    "Run i expired \<in> set es" "\<not> list_ex (takes f) es" "Expire i \<notin> set es"
  shows "served i s'"
  using assms
proof (induction rule: loop_path.induct)
  case (path_cons s e s1 es s2)
  have next_ok: "loop_ok s1" "pending i f s1"
    using path_cons by (auto simp: loop_ok_step intro: pending_step)
  show ?case
  proof (cases "e = Run i expired")
    case True
    then have run: "s1 = run_task False i expired s" "phase (tasks s ! i) \<in> {Start, Woken}"
      using path_cons(1) by (auto elim: run_stepE)
    then have "served i s1"
      using path_cons(4,5) run_returns [of s i f]
      by (auto simp: pending_def served_def sole_waiter_def loop_ok_def)
    then show ?thesis
      using path_cons(2) next_ok(2) by (auto simp: pending_def sole_waiter_def intro: served_path)
  next
    case False
    then show ?thesis using path_cons next_ok by auto
  qed
qed simp

section \<open>The wakeup lost when \<open>wait_for\<close> uses a helper task\<close>

text \<open>
  Task 0 waits for frame 7 with a timeout.  Frame 7 arrives after its loop has looked at the
  buffer and before the helper task clears the event: nothing wakes it, and its timeout
  returns \<open>None\<close> while the packet is in the buffer.
\<close>

definition lost_wakeup_events :: "'p \<Rightarrow> 'p loop_event list" where
  "lost_wakeup_events p =
     [Open (AwaitFrame 7) True, Run 0 False, Arrive 7 1 p, RunHelper 0, Expire 0]"

lemma lost_wakeup:
  "\<exists>s. loop_path True initial_loop (lost_wakeup_events p) s
     \<and> phase (tasks s ! 0) = Finished None \<and> want (tasks s ! 0) = AwaitFrame 7
     \<and> contents (buf s) 7 = Some p"
proof -
  let ?t = "\<lparr>want = AwaitFrame 7, timed = True, phase = Start\<rparr> :: 'a task"
  let ?s1 = "initial_loop\<lparr>tasks := [?t]\<rparr>"
  let ?s2 = "run_task True 0 False ?s1"
  let ?s3 = "arrive 7 1 p ?s2"
  let ?s4 = "wait_ready 0 ?s3"
  let ?s5 = "set_phase 0 (Finished None) ?s4"
  have s2: "?s2 = \<lparr>buf = empty_buffer, tasks = [?t\<lparr>phase := Spawned\<rparr>]\<rparr>"
    by (simp add: run_task_def initial_loop_def pop_frame_def empty_buffer_def set_phase_def Let_def)
  have s3: "?s3 = \<lparr>buf = buffer_add 7 1 p empty_buffer, tasks = [?t\<lparr>phase := Spawned\<rparr>]\<rparr>"
    by (simp add: s2 arrive_def empty_buffer_def wake_def)
  have "loop_path True initial_loop (lost_wakeup_events p) ?s5"
    unfolding lost_wakeup_events_def
  proof (intro path_cons)
    show "loop_step True initial_loop (Open (AwaitFrame 7) True) ?s1"
      using step_open [of True initial_loop] by (simp add: initial_loop_def)
    show "loop_step True ?s1 (Run 0 False) ?s2"
      by (rule step_run) simp_all
    show "loop_step True ?s2 (Arrive 7 1 p) ?s3" by (rule step_arrive)
    show "loop_step True ?s3 (RunHelper 0) ?s4" by (rule step_helper) (simp_all add: s3)
    show "loop_step True ?s4 (Expire 0) ?s5"
      by (rule step_expire) (simp_all add: s3 wait_ready_def set_phase_def)
  qed (rule path_nil)
  moreover have "phase (tasks ?s5 ! 0) = Finished None" "want (tasks ?s5 ! 0) = AwaitFrame 7"
    by (simp_all add: s3)
  moreover have "contents (buf ?s5) 7 = Some p" by (simp add: s3)
  ultimately show ?thesis by blast
qed

end
