(* ===== verification/Schema_Catalog.thy ===== *)
theory Schema_Catalog
  imports Schema_Descriptors "HOL-Library.AList"
begin

text \<open>
  \<open>SchemaRegistryCatalog\<close> of \<open>schema.py\<close>: the host-side table of installed schema
  descriptors, keyed by schema id and version.  An operation that raises leaves the table as
  it was; a sequence of operations is what a host does with one catalog.
\<close>

section \<open>Results of the registry\<close>

record SchemaVersionMismatch =
  svm_requested_schema_id :: int
  svm_requested_schema_version :: int
  svm_available_schema_version :: "int option"
  svm_profile_id :: int
  svm_failure :: SchemaRegistryFailure

definition SchemaVersionMismatch_post_init :: "SchemaVersionMismatch \<Rightarrow> SchemaVersionMismatch res" where
  "SchemaVersionMismatch_post_init m =
     bind_res (validate_u32 ''requested_schema_id'' (svm_requested_schema_id m)) (\<lambda>_.
     bind_res (validate_u32 ''requested_schema_version'' (svm_requested_schema_version m)) (\<lambda>_.
     bind_res (case svm_available_schema_version m of
         None \<Rightarrow> Inr ()
       | Some v \<Rightarrow> validate_u32 ''available_schema_version'' v) (\<lambda>_.
     bind_res (validate_u16 ''profile_id'' (svm_profile_id m)) (\<lambda>_.
     Inr m))))"

section \<open>The catalog\<close>

text \<open>The \<open>dict\<close> \<open>_descriptors\<close>, in insertion order.\<close>

type_synonym catalog_key = "int \<times> int"
type_synonym catalog = "(catalog_key \<times> SchemaDescriptorHeader) list"

definition schema_key :: "SchemaDescriptorHeader \<Rightarrow> catalog_key" where
  "schema_key d = (sdh_schema_id d, sdh_schema_version d)"

definition catalog_install ::
    "SchemaDescriptorHeader \<Rightarrow> catalog \<Rightarrow> (SchemaRegistryAction \<times> catalog) res" where
  "catalog_install descriptor c =
     (let key = schema_key descriptor; existing = map_of c key
      in if existing = Some descriptor then Inr (SRA_ALREADY_INSTALLED, c)
         else if given_and existing (\<lambda>e. sdh_schema_hash e \<noteq> sdh_schema_hash descriptor)
         then ve ''schema hash conflict for installed schema version''
         else let has_older_version = list_ex (\<lambda>(k, _). fst k = sdh_schema_id descriptor) c
              in Inr (if has_older_version then SRA_UPDATED else SRA_INSTALLED,
                      AList.update key descriptor c))"

definition catalog_install_profile ::
    "SchemaDescriptorHeader \<Rightarrow> catalog \<Rightarrow> (SchemaRegistryAction \<times> catalog) res" where
  "catalog_install_profile descriptor c = catalog_install descriptor c"

text \<open>\<open>__init__\<close>: install every descriptor, stop at the first that is refused.\<close>

fun catalog_install_all :: "SchemaDescriptorHeader list \<Rightarrow> catalog \<Rightarrow> catalog res" where
  "catalog_install_all [] c = Inr c"
| "catalog_install_all (d # ds) c =
     bind_res (catalog_install d c) (\<lambda>(_, c'). catalog_install_all ds c')"

definition SchemaRegistryCatalog :: "SchemaDescriptorHeader list \<Rightarrow> catalog res" where
  "SchemaRegistryCatalog descriptors = catalog_install_all descriptors []"

definition catalog_lookup :: "int \<Rightarrow> int \<Rightarrow> catalog \<Rightarrow> SchemaDescriptorHeader option res" where
  "catalog_lookup schema_id schema_version c =
     bind_res (validate_u32 ''schema_id'' schema_id) (\<lambda>_.
     bind_res (validate_u32 ''schema_version'' schema_version) (\<lambda>_.
     Inr (map_of c (schema_id, schema_version))))"

definition catalog_lookup_profile :: "int \<Rightarrow> catalog \<Rightarrow> SchemaDescriptorHeader list res" where
  "catalog_lookup_profile profile_id c =
     bind_res (validate_u16 ''profile_id'' profile_id) (\<lambda>_.
     Inr (filter (\<lambda>d. sdh_profile_id d = profile_id) (map snd c)))"

definition catalog_invalidate ::
    "int \<Rightarrow> int \<Rightarrow> catalog \<Rightarrow> (SchemaRegistryAction \<times> catalog) res" where
  "catalog_invalidate schema_id schema_version c =
     bind_res (validate_u32 ''schema_id'' schema_id) (\<lambda>_.
     bind_res (validate_u32 ''schema_version'' schema_version) (\<lambda>_.
     Inr (SRA_INVALIDATED, AList.delete (schema_id, schema_version) c)))"

text \<open>\<open>max\<close> of a list that is not empty.\<close>

definition py_max :: "int list \<Rightarrow> int" where
  "py_max xs = fold max (tl xs) (hd xs)"

definition catalog_version_mismatch ::
    "int \<Rightarrow> int \<Rightarrow> int \<Rightarrow> catalog \<Rightarrow> SchemaVersionMismatch option res" where
  "catalog_version_mismatch schema_id requested_schema_version profile_id c =
     bind_res (validate_u32 ''schema_id'' schema_id) (\<lambda>_.
     bind_res (validate_u32 ''requested_schema_version'' requested_schema_version) (\<lambda>_.
     bind_res (validate_u16 ''profile_id'' profile_id) (\<lambda>_.
     bind_res (catalog_lookup schema_id requested_schema_version c) (\<lambda>found.
     if found \<noteq> None then Inr None
     else let available_versions = map (\<lambda>(k, _). snd k) (filter (\<lambda>(k, _). fst k = schema_id) c)
          in bind_res (SchemaVersionMismatch_post_init
               \<lparr>svm_requested_schema_id = schema_id,
                svm_requested_schema_version = requested_schema_version,
                svm_available_schema_version =
                  (if available_versions = [] then None else Some (py_max available_versions)),
                svm_profile_id = profile_id, svm_failure = SRF_VERSION_UNKNOWN\<rparr>) (\<lambda>m.
             Inr (Some m))))))"

definition catalog_descriptors :: "catalog \<Rightarrow> SchemaDescriptorHeader list" where
  "catalog_descriptors c = map snd c"

section \<open>The invariant\<close>

text \<open>
  Every descriptor stands under its own key, once, and has passed \<open>__post_init__\<close>.
\<close>

definition catalog_ok :: "catalog \<Rightarrow> bool" where
  "catalog_ok c \<longleftrightarrow> distinct (map fst c)
     \<and> (\<forall>(k, d) \<in> set c. k = schema_key d \<and> SchemaDescriptorHeader_post_init d = Inr d)"

datatype catalog_op = Install SchemaDescriptorHeader | Invalidate int int

fun apply_catalog_op :: "catalog_op \<Rightarrow> catalog \<Rightarrow> catalog" where
  "apply_catalog_op (Install d) c =
     (case catalog_install d c of Inl e \<Rightarrow> c | Inr (a, c') \<Rightarrow> c')"
| "apply_catalog_op (Invalidate i v) c =
     (case catalog_invalidate i v c of Inl e \<Rightarrow> c | Inr (a, c') \<Rightarrow> c')"

lemma post_init_key_range:
  "SchemaDescriptorHeader_post_init d = Inr d \<Longrightarrow>
     0 \<le> sdh_schema_id d \<and> sdh_schema_id d < 2 ^ 32 \<and>
     0 \<le> sdh_schema_version d \<and> sdh_schema_version d < 2 ^ 32"
  by (auto simp: SchemaDescriptorHeader_post_init_def res_simps validate_Inr_iff)

lemma set_update_subset: "set (AList.update k v xs) \<subseteq> insert (k, v) (set xs)"
  by (induction xs) auto

lemma catalog_ok_update:
  "catalog_ok c \<Longrightarrow> SchemaDescriptorHeader_post_init d = Inr d
    \<Longrightarrow> catalog_ok (AList.update (schema_key d) d c)"
  using set_update_subset [of "schema_key d" d c]
  by (auto simp: catalog_ok_def distinct_update split_beta)

lemma catalog_ok_delete: "catalog_ok c \<Longrightarrow> catalog_ok (AList.delete k c)"
  using AList.distinct_delete [of c k] by (auto simp: catalog_ok_def AList.delete_eq)

lemma catalog_install_cases:
  assumes "catalog_install d c = Inr (a, c')"
  shows "map_of c' (schema_key d) = Some d" "k \<noteq> schema_key d \<Longrightarrow> map_of c' k = map_of c k"
    "c' = c \<or> c' = AList.update (schema_key d) d c"
  using assms
  by (auto simp: catalog_install_def Let_def AList.update_conv' split: if_splits)

lemma catalog_install_ok:
  "catalog_install d c = Inr (a, c') \<Longrightarrow> catalog_ok c
    \<Longrightarrow> SchemaDescriptorHeader_post_init d = Inr d \<Longrightarrow> catalog_ok c'"
  using catalog_install_cases(3) [of d c a c'] catalog_ok_update [of c d] by auto

lemma catalog_invalidate_cases:
  "catalog_invalidate i v c = Inr (a, c') \<Longrightarrow> c' = AList.delete (i, v) c \<and> a = SRA_INVALIDATED"
  by (auto simp: catalog_invalidate_def res_simps)

interpretation valid_catalog:
  kept "\<lambda>op c. if (\<forall>d. op = Install d \<longrightarrow> SchemaDescriptorHeader_post_init d = Inr d)
      then apply_catalog_op op c else c" catalog_ok
proof
  fix c op
  assume ok: "catalog_ok c"
  show "catalog_ok (if (\<forall>d. op = Install d \<longrightarrow> SchemaDescriptorHeader_post_init d = Inr d)
      then apply_catalog_op op c else c)"
  proof (cases op)
    case (Install d)
    then show ?thesis using ok by (auto intro: catalog_install_ok split: sum.splits)
  next
    case (Invalidate i v)
    then show ?thesis
      using ok by (auto intro: catalog_ok_delete dest!: catalog_invalidate_cases split: sum.splits)
  qed
qed

section \<open>A published version keeps its hash\<close>

text \<open>The hash under a key, as \<open>lookup\<close> sees it.\<close>

definition installed_hash :: "catalog_key \<Rightarrow> catalog \<Rightarrow> int option" where
  "installed_hash k c = map_option sdh_schema_hash (map_of c k)"

lemma install_keeps_hash:
  "installed_hash k c = Some h \<Longrightarrow> installed_hash k (apply_catalog_op (Install d) c) = Some h"
  by (auto simp: installed_hash_def catalog_install_def Let_def AList.update_conv'
      split: if_splits sum.splits)

lemma invalidate_keeps_hash:
  "(i, v) \<noteq> k \<Longrightarrow> installed_hash k (apply_catalog_op (Invalidate i v) c) = installed_hash k c"
  by (auto simp: installed_hash_def catalog_invalidate_def bind_res_def AList.delete_conv'
      split: sum.splits)

lemma hash_pinned:
  "installed_hash (i, v) c = Some h \<Longrightarrow> Invalidate i v \<notin> set ops
    \<Longrightarrow> installed_hash (i, v) (fold apply_catalog_op ops c) = Some h"
proof (induction ops arbitrary: c)
  case (Cons op ops)
  have "installed_hash (i, v) (apply_catalog_op op c) = Some h"
    using Cons.prems install_keeps_hash [of "(i, v)" c h] invalidate_keeps_hash [of _ _ "(i, v)" c]
    by (cases op) auto
  then show ?case using Cons by simp
qed simp

section \<open>Version mismatches\<close>

lemma validate_ok:
  "0 \<le> v \<Longrightarrow> v < 2 ^ 16 \<Longrightarrow> validate_u16 n v = Inr ()"
  "0 \<le> v \<Longrightarrow> v < 2 ^ 32 \<Longrightarrow> validate_u32 n v = Inr ()"
  by (simp_all add: validate_Inr_iff)

lemma py_max_Max: "xs \<noteq> [] \<Longrightarrow> py_max xs = Max (set xs)"
  by (cases xs) (simp_all add: py_max_def Max.set_eq_fold del: list.set)

lemma catalog_key_range:
  assumes "catalog_ok c" "(k, d) \<in> set c"
  shows "0 \<le> snd k \<and> snd k < 2 ^ 32"
  using assms post_init_key_range [of d] by (auto simp: catalog_ok_def schema_key_def)

text \<open>
  With valid arguments a mismatch is reported exactly when the version is not installed, and
  it names the greatest installed version of the schema, if there is one.
\<close>

lemma version_mismatch_spec:
  assumes "catalog_ok c" "0 \<le> i" "i < 2 ^ 32" "0 \<le> v" "v < 2 ^ 32" "0 \<le> p" "p < 2 ^ 16"
  shows "catalog_version_mismatch i v p c = Inr
    (if map_of c (i, v) \<noteq> None then None
     else Some \<lparr>svm_requested_schema_id = i, svm_requested_schema_version = v,
       svm_available_schema_version =
         (let versions = {w. map_of c (i, w) \<noteq> None}
          in if versions = {} then None else Some (Max versions)),
       svm_profile_id = p, svm_failure = SRF_VERSION_UNKNOWN\<rparr>)"
proof (cases "map_of c (i, v)")
  case (Some d)
  then show ?thesis
    using assms by (simp add: catalog_version_mismatch_def catalog_lookup_def validate_ok)
next
  case None
  let ?vs = "map (\<lambda>(k, _). snd k) (filter (\<lambda>(k, _). fst k = i) c)"
  have vs: "set ?vs = {w. map_of c (i, w) \<noteq> None}"
    by (force simp: map_of_eq_None_iff)
  have "0 \<le> py_max ?vs \<and> py_max ?vs < 2 ^ 32" if ne: "?vs \<noteq> []"
  proof -
    have "py_max ?vs \<in> set ?vs"
      using Max_in [of "set ?vs"] ne unfolding py_max_Max [OF ne] by blast
    then show ?thesis using catalog_key_range [OF assms(1)] by fastforce
  qed
  then have post: "SchemaVersionMismatch_post_init
      \<lparr>svm_requested_schema_id = i, svm_requested_schema_version = v,
       svm_available_schema_version = (if ?vs = [] then None else Some (py_max ?vs)),
       svm_profile_id = p, svm_failure = SRF_VERSION_UNKNOWN\<rparr> = Inr
      \<lparr>svm_requested_schema_id = i, svm_requested_schema_version = v,
       svm_available_schema_version = (if ?vs = [] then None else Some (py_max ?vs)),
       svm_profile_id = p, svm_failure = SRF_VERSION_UNKNOWN\<rparr>"
    using assms by (cases "?vs = []") (simp_all add: SchemaVersionMismatch_post_init_def validate_ok)
  have av: "(if ?vs = [] then None else Some (py_max ?vs))
      = (let versions = {w. map_of c (i, w) \<noteq> None}
         in if versions = {} then None else Some (Max versions))"
    unfolding vs [symmetric] Let_def
    by (cases "?vs = []") (simp_all only: py_max_Max set_empty if_True if_False refl simp_thms)
  have "catalog_version_mismatch i v p c = bind_res (SchemaVersionMismatch_post_init
      \<lparr>svm_requested_schema_id = i, svm_requested_schema_version = v,
       svm_available_schema_version = (if ?vs = [] then None else Some (py_max ?vs)),
       svm_profile_id = p, svm_failure = SRF_VERSION_UNKNOWN\<rparr>) (\<lambda>m. Inr (Some m))"
    using assms None
    by (simp add: catalog_version_mismatch_def catalog_lookup_def validate_ok)
  then show ?thesis unfolding post unfolding av by (simp add: None)
qed


section \<open>Payload bindings against the catalog\<close>

text \<open>
  \<open>validate_typed_payload_binding\<close> searches the installed descriptors; with the descriptors of
  a catalog it is a lookup under the key of the payload descriptor.
\<close>

lemma binding_is_lookup:
  assumes "catalog_ok c"
  shows "validate_typed_payload_binding (catalog_descriptors c) d None = Inr () \<longleftrightarrow>
    tpd_profile_id d = StandardProfile_int PROFILE_UNSPECIFIED \<or>
    given_and (map_of c (tpd_schema_id d, tpd_schema_version d))
      (\<lambda>s. sdh_profile_id s = tpd_profile_id d)"
proof -
  have found: "map_of c (i, v) = Some s \<longleftrightarrow>
      s \<in> snd ` set c \<and> sdh_schema_id s = i \<and> sdh_schema_version s = v" for i v s
  proof
    assume "map_of c (i, v) = Some s"
    then show "s \<in> snd ` set c \<and> sdh_schema_id s = i \<and> sdh_schema_version s = v"
      using assms by (force dest!: map_of_SomeD simp: catalog_ok_def schema_key_def)
  next
    assume "s \<in> snd ` set c \<and> sdh_schema_id s = i \<and> sdh_schema_version s = v"
    then have "((i, v), s) \<in> set c"
      using assms by (force simp: catalog_ok_def schema_key_def)
    then show "map_of c (i, v) = Some s"
      using assms by (simp add: catalog_ok_def map_of_eq_Some_iff)
  qed
  show ?thesis
    by (auto simp: validate_typed_payload_binding_def catalog_descriptors_def list_ex_iff found
        simp del: StandardProfile_int.simps)
qed

end
