(* ===== verification/Quic_Connection.thy ===== *)
theory Quic_Connection
  imports Packet_Stream "HOL-Library.AList"
begin

text \<open>
  \<open>NnrpQuicConnection\<close> of \<open>adapters/quic.py\<close>: one bidirectional control stream and one
  unidirectional stream per submit or result packet, reassembled per stream.  The QUIC stack
  (\<open>aioquic\<close>) is outside: the events it delivers and the stream ids it hands out are
  arguments, and what is sent through it is recorded.
\<close>

section \<open>State\<close>

record quic_connection =
  quic_connected :: bool
  quic_incoming_control :: "NnrpPacket list"
  quic_incoming_submit :: "NnrpPacket list"
  quic_incoming_result :: "NnrpPacket list"
  quic_incoming_datagrams :: "bytes list"
  quic_stream_buffers :: "(int \<times> bytes) list"
  quic_control_stream_id :: "int option"
  quic_last_submit_stream_id :: "int option"
  quic_last_result_stream_id :: "int option"
  quic_terminal_error :: "exn option"
  quic_ready_queue :: bool
  quic_queued_on_ready :: bool
  quic_ready_count :: nat
  quic_sent :: "(int \<times> bytes \<times> bool) list"
  quic_datagrams_sent :: "bytes list"

text \<open>\<open>has_ready_queue\<close>: a \<open>connection_ready_queue\<close> was given, as the listener does.\<close>

definition quic_connection_init :: "bool \<Rightarrow> quic_connection" where
  "quic_connection_init has_ready_queue =
     \<lparr>quic_connected = False, quic_incoming_control = [], quic_incoming_submit = [],
      quic_incoming_result = [], quic_incoming_datagrams = [], quic_stream_buffers = [],
      quic_control_stream_id = None, quic_last_submit_stream_id = None,
      quic_last_result_stream_id = None, quic_terminal_error = None,
      quic_ready_queue = has_ready_queue, quic_queued_on_ready = False, quic_ready_count = 0,
      quic_sent = [], quic_datagrams_sent = []\<rparr>"

definition is_unidirectional_stream :: "int \<Rightarrow> bool" where
  "is_unidirectional_stream stream_id = truthy (stream_id AND 2)"

text \<open>\<open>_try_unpack_packet\<close> of this file, a copy of the one in \<open>adapters/tcp.py\<close>.\<close>

definition quic_try_unpack_packet :: "bytes \<Rightarrow> (NnrpPacket option \<times> bytes) res" where
  "quic_try_unpack_packet buffer =
     (if length buffer < HEADER_LENGTH then Inr (None, buffer)
      else bind_res (NnrpHeader_unpack None (py_slice 0 (int HEADER_LENGTH) buffer)) (\<lambda>header.
        let packet_length = hdr_header_len header + hdr_meta_len header + hdr_body_len header
        in if len buffer < packet_length then Inr (None, buffer)
           else bind_res (NnrpPacket_unpack (py_slice 0 packet_length buffer)) (\<lambda>p.
             Inr (Some p, slice_from packet_length buffer))))"

lemma quic_try_unpack_same: "quic_try_unpack_packet = try_unpack_packet"
  by (simp add: fun_eq_iff quic_try_unpack_packet_def try_unpack_packet_def)

section \<open>Errors\<close>

abbreviation quic_decode_error :: exn where
  "quic_decode_error \<equiv> RuntimeError ''failed to decode packet on stream''"

abbreviation quic_trailing_error :: exn where
  "quic_trailing_error \<equiv> RuntimeError ''stream ended with trailing bytes''"

abbreviation quic_terminated_error :: exn where
  "quic_terminated_error \<equiv> RuntimeError ''connection terminated''"

abbreviation quic_reset_error :: exn where
  "quic_reset_error \<equiv> RuntimeError ''stream reset by peer''"

definition quic_fail_connection :: "exn \<Rightarrow> quic_connection \<Rightarrow> quic_connection" where
  "quic_fail_connection error s =
     (if quic_terminal_error s \<noteq> None then s else s\<lparr>quic_terminal_error := Some error\<rparr>)"

definition quic_raise_if_terminal_error :: "quic_connection \<Rightarrow> unit res" where
  "quic_raise_if_terminal_error s =
     (case quic_terminal_error s of Some e \<Rightarrow> Inl e | None \<Rightarrow> Inr ())"

section \<open>Events of the QUIC stack\<close>

definition quic_route_packet :: "int \<Rightarrow> NnrpPacket \<Rightarrow> quic_connection \<Rightarrow> quic_connection" where
  "quic_route_packet stream_id p s =
     (if Some stream_id = quic_control_stream_id s then
        s\<lparr>quic_incoming_control := quic_incoming_control s @ [p]\<rparr>
      else if is_submit_packet p then
        s\<lparr>quic_last_submit_stream_id := Some stream_id,
          quic_incoming_submit := quic_incoming_submit s @ [p]\<rparr>
      else if is_result_packet p then
        s\<lparr>quic_last_result_stream_id := Some stream_id,
          quic_incoming_result := quic_incoming_result s @ [p]\<rparr>
      else s\<lparr>quic_incoming_control := quic_incoming_control s @ [p]\<rparr>)"

text \<open>\<open>self._stream_buffers.setdefault(stream_id, bytearray())\<close>\<close>

definition stream_buffer :: "int \<Rightarrow> quic_connection \<Rightarrow> bytes" where
  "stream_buffer stream_id s =
     (case map_of (quic_stream_buffers s) stream_id of Some b \<Rightarrow> b | None \<Rightarrow> [])"

definition quic_handle_stream_data ::
    "int \<Rightarrow> bytes \<Rightarrow> bool \<Rightarrow> quic_connection \<Rightarrow> quic_connection" where
  "quic_handle_stream_data stream_id data end_of_stream s =
     (let s = (if quic_control_stream_id s = None \<and> \<not> is_unidirectional_stream stream_id
               then s\<lparr>quic_control_stream_id := Some stream_id\<rparr> else s)
      in case unpack_packets (stream_buffer stream_id s @ data) of
           (packets, Inl e) \<Rightarrow>
             quic_fail_connection quic_decode_error
               (fold (quic_route_packet stream_id) packets
                 (s\<lparr>quic_stream_buffers := AList.delete stream_id (quic_stream_buffers s)\<rparr>))
         | (packets, Inr buffer) \<Rightarrow>
             let s = fold (quic_route_packet stream_id) packets
                   (s\<lparr>quic_stream_buffers := AList.update stream_id buffer (quic_stream_buffers s)\<rparr>)
             in if \<not> end_of_stream then s
                else let s = s\<lparr>quic_stream_buffers := AList.delete stream_id (quic_stream_buffers s)\<rparr>
                     in if buffer \<noteq> [] then quic_fail_connection quic_trailing_error s else s)"

datatype quic_event =
    HandshakeCompleted
  | ConnectionTerminated
  | StreamReset int
  | StopSendingReceived int
  | StreamDataReceived int bytes bool
  | DatagramFrameReceived bytes

fun quic_event_received :: "quic_event \<Rightarrow> quic_connection \<Rightarrow> quic_connection" where
  "quic_event_received HandshakeCompleted s =
     (let s = s\<lparr>quic_connected := True\<rparr>
      in if quic_ready_queue s \<and> \<not> quic_queued_on_ready s
         then s\<lparr>quic_ready_count := quic_ready_count s + 1, quic_queued_on_ready := True\<rparr> else s)"
| "quic_event_received ConnectionTerminated s = quic_fail_connection quic_terminated_error s"
| "quic_event_received (StreamReset i) s =
     quic_fail_connection quic_reset_error
       (s\<lparr>quic_stream_buffers := AList.delete i (quic_stream_buffers s)\<rparr>)"
| "quic_event_received (StopSendingReceived i) s =
     s\<lparr>quic_stream_buffers := AList.delete i (quic_stream_buffers s)\<rparr>"
| "quic_event_received (StreamDataReceived i data end_stream) s =
     quic_handle_stream_data i data end_stream s"
| "quic_event_received (DatagramFrameReceived data) s =
     s\<lparr>quic_incoming_datagrams := quic_incoming_datagrams s @ [data]\<rparr>"

section \<open>Sending\<close>

text \<open>\<open>next_id\<close> is what \<open>get_next_available_stream_id\<close> returns.\<close>

definition quic_ensure_control_stream :: "int \<Rightarrow> quic_connection \<Rightarrow> int \<times> quic_connection" where
  "quic_ensure_control_stream next_id s =
     (case quic_control_stream_id s of
        Some i \<Rightarrow> (i, s)
      | None \<Rightarrow> (next_id, s\<lparr>quic_control_stream_id := Some next_id\<rparr>))"

definition quic_send_control_packet ::
    "int \<Rightarrow> NnrpPacket \<Rightarrow> quic_connection \<Rightarrow> unit res \<times> quic_connection" where
  "quic_send_control_packet next_id packet s =
     (case quic_ensure_control_stream next_id s of
        (stream_id, s) \<Rightarrow>
          (case NnrpPacket_pack packet of
             Inl e \<Rightarrow> (Inl e, s)
           | Inr bs \<Rightarrow> (Inr (), s\<lparr>quic_sent := quic_sent s @ [(stream_id, bs, False)]\<rparr>)))"

definition quic_send_unidirectional_packet ::
    "int \<Rightarrow> NnrpPacket \<Rightarrow> quic_connection \<Rightarrow> int res \<times> quic_connection" where
  "quic_send_unidirectional_packet next_id packet s =
     (case NnrpPacket_pack packet of
        Inl e \<Rightarrow> (Inl e, s)
      | Inr bs \<Rightarrow> (Inr next_id, s\<lparr>quic_sent := quic_sent s @ [(next_id, bs, True)]\<rparr>))"

definition quic_send_submit_packet ::
    "int \<Rightarrow> NnrpPacket \<Rightarrow> quic_connection \<Rightarrow> int res \<times> quic_connection" where
  "quic_send_submit_packet next_id packet s =
     (if \<not> is_submit_packet packet then (ve ''expected FRAME_SUBMIT packet'', s)
      else quic_send_unidirectional_packet next_id packet s)"

definition quic_send_result_packet ::
    "int \<Rightarrow> NnrpPacket \<Rightarrow> quic_connection \<Rightarrow> int res \<times> quic_connection" where
  "quic_send_result_packet next_id packet s =
     (if \<not> is_result_packet packet then (ve ''expected RESULT_PUSH or RESULT_DROP packet'', s)
      else quic_send_unidirectional_packet next_id packet s)"

definition quic_send_datagram :: "bytes \<Rightarrow> quic_connection \<Rightarrow> quic_connection" where
  "quic_send_datagram payload s = s\<lparr>quic_datagrams_sent := quic_datagrams_sent s @ [payload]\<rparr>"

section \<open>Interleaved streams\<close>

text \<open>
  The packets a sequence of stream data events routes, each with its stream.  They account
  for everything the queues receive.
\<close>

type_synonym stream_event = "int \<times> bytes \<times> bool"

abbreviation handle_stream_event :: "stream_event \<Rightarrow> quic_connection \<Rightarrow> quic_connection" where
  "handle_stream_event e s \<equiv> quic_handle_stream_data (fst e) (fst (snd e)) (snd (snd e)) s"

fun routed :: "stream_event list \<Rightarrow> quic_connection \<Rightarrow> (int \<times> NnrpPacket) list" where
  "routed [] s = []"
| "routed (e # es) s =
     map (Pair (fst e)) (fst (unpack_packets (stream_buffer (fst e) s @ fst (snd e))))
       @ routed es (handle_stream_event e s)"

lemma quic_route_fields [simp]:
  "quic_control_stream_id (quic_route_packet i p s) = quic_control_stream_id s"
  "quic_stream_buffers (quic_route_packet i p s) = quic_stream_buffers s"
  "quic_terminal_error (quic_route_packet i p s) = quic_terminal_error s"
  by (simp_all add: quic_route_packet_def)

lemma quic_fold_route_fields [simp]:
  "quic_control_stream_id (fold (quic_route_packet i) ps s) = quic_control_stream_id s"
  "quic_stream_buffers (fold (quic_route_packet i) ps s) = quic_stream_buffers s"
  "quic_terminal_error (fold (quic_route_packet i) ps s) = quic_terminal_error s"
  by (induction ps arbitrary: s) simp_all

lemma fail_connection_fields [simp]:
  "quic_control_stream_id (quic_fail_connection e s) = quic_control_stream_id s"
  "quic_stream_buffers (quic_fail_connection e s) = quic_stream_buffers s"
  "quic_terminal_error (quic_fail_connection e s) \<noteq> None"
  by (auto simp: quic_fail_connection_def)

text \<open>Where a packet of a stream goes, once the control stream is known.\<close>

definition queue_of_packet :: "int \<Rightarrow> int \<times> NnrpPacket \<Rightarrow> MessageType option" where
  "queue_of_packet control x =
     (if fst x = control then None
      else if is_submit_packet (snd x) then Some MT_FRAME_SUBMIT
      else if is_result_packet (snd x) then Some MT_RESULT_PUSH
      else None)"

text \<open>What data on one stream does to the buffer of another, and to its own.\<close>

lemma stream_buffer_other:
  "j \<noteq> i \<Longrightarrow> stream_buffer j (quic_handle_stream_data i data eos s) = stream_buffer j s"
  by (auto simp: quic_handle_stream_data_def Let_def stream_buffer_def AList.update_conv'
      AList.delete_conv' split: prod.split sum.split)

lemma stream_buffer_own:
  assumes "unpack_packets (stream_buffer i s @ data) = (ps, Inr rest)"
  shows "stream_buffer i (quic_handle_stream_data i data eos s) = (if eos then [] else rest)"
  using assms
  by (auto simp: quic_handle_stream_data_def Let_def stream_buffer_def AList.update_conv'
      AList.delete_conv')

text \<open>The bytes of one stream, in the order its events bring them.\<close>

definition stream_bytes :: "int \<Rightarrow> stream_event list \<Rightarrow> bytes" where
  "stream_bytes i es = concat (map (fst \<circ> snd) (filter (\<lambda>e. fst e = i) es))"

text \<open>No data follows the end of a stream.\<close>

fun ends_last :: "int \<Rightarrow> stream_event list \<Rightarrow> bool" where
  "ends_last i [] = True"
| "ends_last i (e # es) \<longleftrightarrow>
     (fst e = i \<and> snd (snd e) \<longrightarrow> (\<forall>e' \<in> set es. fst e' \<noteq> i)) \<and> ends_last i es"

lemma routed_nothing: "\<forall>e \<in> set es. fst e \<noteq> i \<Longrightarrow> filter (\<lambda>x. fst x = i) (routed es s) = []"
  by (induction es arbitrary: s) (auto simp: filter_map o_def)

lemma filter_map_Pair [simp]:
  "filter (\<lambda>x. fst x = i) (map (Pair j) ps) = (if i = j then map (Pair j) ps else [])"
  by (induction ps) auto

lemma routed_stream:
  assumes "unpack_packets (stream_buffer i s) = ([], Inr (stream_buffer i s))" "ends_last i es"
    "unpack_packets (stream_buffer i s @ stream_bytes i es) = (ps, Inr rest)"
  shows "filter (\<lambda>x. fst x = i) (routed es s) = map (Pair i) ps"
  using assms
proof (induction es arbitrary: s ps)
  case Nil
  then show ?case by (simp add: stream_bytes_def)
next
  case (Cons e es)
  obtain j data eos where e: "e = (j, data, eos)" by (cases e) auto
  show ?case
  proof (cases "j = i")
    case False
    then show ?thesis
      using Cons.prems Cons.IH [of "handle_stream_event e s" ps] e
      by (simp add: stream_buffer_other stream_bytes_def)
  next
    case True
    let ?b = "stream_buffer i s"
    obtain qs x where first: "unpack_packets (?b @ data) = (qs, x)" by fastforce
    have "unpack_packets ((?b @ data) @ stream_bytes i es) = (ps, Inr rest)"
      using Cons.prems(3) e True by (simp add: stream_bytes_def)
    note whole = this [unfolded unpack_packets_append [of "?b @ data" "stream_bytes i es"]]
    obtain r where r: "x = Inr r" using whole first by (cases x) auto
    obtain qs' where tail: "unpack_packets (r @ stream_bytes i es) = (qs', Inr rest)" "ps = qs @ qs'"
      using whole first r by (auto split: prod.splits)
    have own: "stream_buffer i (handle_stream_event e s) = (if eos then [] else r)"
      using stream_buffer_own [of i s data qs r eos] first r e True by simp
    have "filter (\<lambda>x. fst x = i) (routed es (handle_stream_event e s)) = map (Pair i) qs'"
    proof (cases eos)
      case False
      then show ?thesis
        using Cons.IH [of "handle_stream_event e s" qs'] Cons.prems(2) own tail(1)
          unpack_packets_rest [of "?b @ data" qs r] first r by simp
    next
      case eos: True
      then have none: "\<forall>e' \<in> set es. fst e' \<noteq> i" using Cons.prems(2) e True by simp
      then have "stream_bytes i es = []" by (auto simp: stream_bytes_def filter_empty_conv)
      then have "qs' = []" using tail(1) unpack_packets_rest [of "?b @ data" qs r] first r by simp
      then show ?thesis using routed_nothing [OF none] by simp
    qed
    then show ?thesis using e True first tail(2) by simp
  qed
qed

text \<open>
  The queues after the events, when the control stream is known: every routed packet, in the
  order in which the last byte of each arrived.
\<close>

lemma quic_fold_route_queues:
  assumes "quic_control_stream_id s = Some c"
  shows "quic_incoming_submit (fold (quic_route_packet i) ps s) = quic_incoming_submit s
      @ map snd (filter (\<lambda>x. queue_of_packet c x = Some MT_FRAME_SUBMIT) (map (Pair i) ps))"
    "quic_incoming_result (fold (quic_route_packet i) ps s) = quic_incoming_result s
      @ map snd (filter (\<lambda>x. queue_of_packet c x = Some MT_RESULT_PUSH) (map (Pair i) ps))"
    "quic_incoming_control (fold (quic_route_packet i) ps s) = quic_incoming_control s
      @ map snd (filter (\<lambda>x. queue_of_packet c x = None) (map (Pair i) ps))"
  using assms
  by (induction ps arbitrary: s) (auto simp: quic_route_packet_def queue_of_packet_def)

lemma quic_handle_queues:
  fixes i :: int and data :: bytes
  assumes "quic_control_stream_id s = Some c"
  defines "ps \<equiv> map (Pair i) (fst (unpack_packets (stream_buffer i s @ data)))"
  shows "quic_incoming_submit (quic_handle_stream_data i data eos s) = quic_incoming_submit s
      @ map snd (filter (\<lambda>x. queue_of_packet c x = Some MT_FRAME_SUBMIT) ps)"
    "quic_incoming_result (quic_handle_stream_data i data eos s) = quic_incoming_result s
      @ map snd (filter (\<lambda>x. queue_of_packet c x = Some MT_RESULT_PUSH) ps)"
    "quic_incoming_control (quic_handle_stream_data i data eos s) = quic_incoming_control s
      @ map snd (filter (\<lambda>x. queue_of_packet c x = None) ps)"
    "quic_control_stream_id (quic_handle_stream_data i data eos s) = Some c"
  using assms(1) unfolding ps_def
  by (auto simp: quic_handle_stream_data_def Let_def quic_fail_connection_def
      quic_fold_route_queues [where c = c] split: prod.split sum.split)

lemma queues_are_routed:
  assumes "quic_control_stream_id s = Some c"
  shows "quic_incoming_submit (fold handle_stream_event es s) = quic_incoming_submit s
      @ map snd (filter (\<lambda>x. queue_of_packet c x = Some MT_FRAME_SUBMIT) (routed es s))"
    "quic_incoming_result (fold handle_stream_event es s) = quic_incoming_result s
      @ map snd (filter (\<lambda>x. queue_of_packet c x = Some MT_RESULT_PUSH) (routed es s))"
    "quic_incoming_control (fold handle_stream_event es s) = quic_incoming_control s
      @ map snd (filter (\<lambda>x. queue_of_packet c x = None) (routed es s))"
  using assms
  by (induction es arbitrary: s) (simp_all add: quic_handle_queues [where c = c])

text \<open>
  Each stream delivers its own packets in order, however its data is cut into events and
  whatever the other streams do in between.
\<close>

lemma quic_stream_delivery:
  assumes "map_res NnrpPacket_pack ps = Inr bss" "stream_bytes i es = concat bss" "ends_last i es"
    "stream_buffer i s = []"
  shows "filter (\<lambda>x. fst x = i) (routed es s) = map (Pair i) ps"
  using assms unpack_packets_packed [OF assms(1)] by (intro routed_stream) simp_all

end
