(* ===== verification/Result_Router.thy ===== *)
theory Result_Router
  imports Client_Session "HOL-Library.AList"
begin

text \<open>
  \<open>ResultRouter\<close> of \<open>client/transport.py\<close>: one task receives results and puts each into the
  queue of its frame and view id; \<open>receive\<close> takes from the queue of a key.  The state is that of
  the dataclass, with the phase of its task; an event is what happens between two suspension
  points: an iteration of the task's loop, its end, a call, a waiting call that is resumed.
\<close>

section \<open>State\<close>

type_synonym router_key = "int \<times> int"

datatype queue_item = Item Result | ClosedMark

datatype router_task = NoTask | TaskCreated | TaskRunning | TaskFinished

record router =
  rr_queues :: "(router_key \<times> queue_item list) list"
  rr_task :: router_task
  rr_error :: "exn option"
  rr_closed :: bool

definition new_router :: router where
  "new_router = \<lparr>rr_queues = [], rr_task = NoTask, rr_error = None, rr_closed = False\<rparr>"

definition result_key :: "Result \<Rightarrow> router_key" where
  "result_key r = (hdr_frame_id (pkt_header (res_packet r)), hdr_view_id (pkt_header (res_packet r)))"

text \<open>\<open>_queue_for\<close>: the queue, made when it is missing.\<close>

definition queue_for :: "router_key \<Rightarrow> router \<Rightarrow> queue_item list \<times> router" where
  "queue_for k s =
     (case map_of (rr_queues s) k of
        Some q \<Rightarrow> (q, s)
      | None \<Rightarrow> ([], s\<lparr>rr_queues := rr_queues s @ [(k, [])]\<rparr>))"

definition set_queue :: "router_key \<Rightarrow> queue_item list \<Rightarrow> router \<Rightarrow> router" where
  "set_queue k q s = s\<lparr>rr_queues := AList.update k q (rr_queues s)\<rparr>"

section \<open>The task\<close>

definition router_enter :: "router \<Rightarrow> unit res \<times> router" where
  "router_enter s =
     (if rr_task s \<noteq> NoTask then (Inl (RuntimeError ''current result router is already running''), s)
      else (Inr (), s\<lparr>rr_task := TaskCreated\<rparr>))"

text \<open>One iteration of \<open>_run\<close>, for the result it received.\<close>

definition router_deliver :: "Result \<Rightarrow> router \<Rightarrow> router" where
  "router_deliver r s =
     (let k = result_key r in case queue_for k s of (q, s) \<Rightarrow> set_queue k (q @ [Item r]) s)"

text \<open>The end of \<open>_run\<close>: an exception of \<open>receive_result\<close>, or \<open>None\<close> for the cancellation.\<close>

definition router_stop :: "exn option \<Rightarrow> router \<Rightarrow> router" where
  "router_stop e s =
     s\<lparr>rr_error := (case e of Some _ \<Rightarrow> e | None \<Rightarrow> rr_error s), rr_closed := True,
       rr_task := TaskFinished,
       rr_queues := map (\<lambda>(k, q). (k, q @ [ClosedMark])) (rr_queues s)\<rparr>"

text \<open>
  \<open>close\<close>.  A task that is cancelled before its first step never enters the \<open>try\<close> of \<open>_run\<close>.
\<close>

definition router_close :: "router \<Rightarrow> router" where
  "router_close s =
     (case rr_task s of
        NoTask \<Rightarrow> s\<lparr>rr_closed := True\<rparr>
      | TaskCreated \<Rightarrow> s\<lparr>rr_task := NoTask\<rparr>
      | TaskRunning \<Rightarrow> (router_stop None s)\<lparr>rr_task := NoTask\<rparr>
      | TaskFinished \<Rightarrow> s\<lparr>rr_task := NoTask\<rparr>)"

section \<open>Receiving\<close>

abbreviation router_failed_error :: exn where
  "router_failed_error \<equiv> RuntimeError ''current result router stopped after a receive failure''"

abbreviation router_closed_error :: exn where
  "router_closed_error \<equiv> RuntimeError ''current result router is closed''"

text \<open>\<open>queue.get()\<close> and what \<open>receive\<close> makes of the item; \<open>None\<close> while the queue is empty.\<close>

definition router_take :: "router_key \<Rightarrow> router \<Rightarrow> Result res option \<times> router" where
  "router_take k s =
     (case queue_for k s of
        ([], s) \<Rightarrow> (None, s)
      | (x # q, s) \<Rightarrow>
          (Some (case x of
             Item r \<Rightarrow> Inr r
           | ClosedMark \<Rightarrow> Inl (if rr_error s \<noteq> None then router_failed_error else router_closed_error)),
           set_queue k q s))"

definition router_receive :: "router_key \<Rightarrow> router \<Rightarrow> Result res option \<times> router" where
  "router_receive k s =
     (case queue_for k s of
        (q, s) \<Rightarrow>
          if rr_error s \<noteq> None \<and> q = [] then (Some (Inl router_failed_error), s)
          else if rr_closed s \<and> q = [] then (Some (Inl router_closed_error), s)
          else router_take k s)"

section \<open>Runs\<close>

text \<open>
  \<open>Resume k\<close> is a call of \<open>receive\<close> for \<open>k\<close> that was waiting and is resumed.  An event that
  cannot happen in a state leaves it.
\<close>

datatype router_event =
    Enter
  | StartTask
  | Deliver Result
  | Fail exn
  | CloseCall
  | Receive router_key
  | Resume router_key

fun router_step :: "router_event \<Rightarrow> router \<Rightarrow> (router_key \<times> Result res) option \<times> router" where
  "router_step Enter s = (None, snd (router_enter s))"
| "router_step StartTask s = (None, if rr_task s = TaskCreated then s\<lparr>rr_task := TaskRunning\<rparr> else s)"
| "router_step (Deliver r) s = (None, if rr_task s = TaskRunning then router_deliver r s else s)"
| "router_step (Fail e) s = (None, if rr_task s = TaskRunning then router_stop (Some e) s else s)"
| "router_step CloseCall s = (None, router_close s)"
| "router_step (Receive k) s = (case router_receive k s of (out, s) \<Rightarrow> (map_option (Pair k) out, s))"
| "router_step (Resume k) s = (case router_take k s of (out, s) \<Rightarrow> (map_option (Pair k) out, s))"

fun router_run :: "router_event list \<Rightarrow> router \<Rightarrow> (router_key \<times> Result res) list \<times> router" where
  "router_run [] s = ([], s)"
| "router_run (e # es) s =
     (case router_step e s of (out, s) \<Rightarrow>
       (case router_run es s of (outs, s) \<Rightarrow>
         ((case out of Some x \<Rightarrow> [x] | None \<Rightarrow> []) @ outs, s)))"

section \<open>Every result reaches its key, once and in order\<close>

text \<open>The results waiting for a key; the ones a run delivers; the ones it returns.\<close>

fun items :: "queue_item list \<Rightarrow> Result list" where
  "items [] = []"
| "items (Item r # q) = r # items q"
| "items (ClosedMark # q) = items q"

definition queued :: "router_key \<Rightarrow> router \<Rightarrow> Result list" where
  "queued k s = (case map_of (rr_queues s) k of Some q \<Rightarrow> items q | None \<Rightarrow> [])"

fun delivered :: "router_key \<Rightarrow> router_event list \<Rightarrow> router \<Rightarrow> Result list" where
  "delivered k [] s = []"
| "delivered k (e # es) s =
     (case e of Deliver r \<Rightarrow> if rr_task s = TaskRunning \<and> result_key r = k then [r] else [] | _ \<Rightarrow> [])
       @ delivered k es (snd (router_step e s))"

definition returned :: "router_key \<Rightarrow> (router_key \<times> Result res) list \<Rightarrow> Result list" where
  "returned k outs = concat (map (\<lambda>(k', r). case r of Inr x \<Rightarrow> if k' = k then [x] else [] | Inl _ \<Rightarrow> []) outs)"

lemma items_append [simp]: "items (p @ q) = items p @ items q"
  by (induction p rule: items.induct) simp_all

lemma queue_for_lookup:
  "queue_for k s = (q, s') \<Longrightarrow> map_of (rr_queues s') k = Some q \<and> queued k s = items q \<and>
     queued j s' = queued j s \<and>
     rr_task s' = rr_task s \<and> rr_error s' = rr_error s \<and> rr_closed s' = rr_closed s"
  by (auto simp: queue_for_def queued_def map_add_def split: option.splits if_splits)

lemma queued_set_queue [simp]:
  "queued j (set_queue k q s) = (if j = k then items q else queued j s)"
  by (simp add: queued_def set_queue_def AList.update_conv')

lemma queued_deliver:
  "queued k (router_deliver r s) = queued k s @ (if result_key r = k then [r] else [])"
proof -
  obtain q s' where q: "queue_for (result_key r) s = (q, s')" by fastforce
  show ?thesis
    using queue_for_lookup [OF q, of k] by (auto simp: router_deliver_def q)
qed

lemma stop_queues [simp]:
  "map_of (rr_queues (router_stop e s)) k = map_option (\<lambda>q. q @ [ClosedMark]) (map_of (rr_queues s) k)"
proof -
  have "map_of (map (\<lambda>(k, q). (k, q @ [ClosedMark])) qs) k = map_option (\<lambda>q. q @ [ClosedMark]) (map_of qs k)"
    for qs :: "(router_key \<times> queue_item list) list"
    by (induction qs) auto
  then show ?thesis by (simp add: router_stop_def)
qed

lemma queued_stop [simp]: "queued k (router_stop e s) = queued k s"
  by (simp add: queued_def split: option.splits)

lemma queued_task [simp]:
  "queued k (s\<lparr>rr_task := t\<rparr>) = queued k s" "queued k (s\<lparr>rr_closed := c\<rparr>) = queued k s"
  by (simp_all add: queued_def)

lemma queued_take:
  assumes "router_take j s = (out, s')"
  shows "queued k s =
    (case out of Some (Inr r) \<Rightarrow> if j = k then [r] else [] | _ \<Rightarrow> []) @ queued k s'"
proof -
  obtain q s1 where q: "queue_for j s = (q, s1)" by fastforce
  note l = queue_for_lookup [OF q, of k]
  show ?thesis
  proof (cases q)
    case Nil
    then show ?thesis using assms q l by (auto simp: router_take_def)
  next
    case (Cons x xs)
    then show ?thesis
      using assms q l by (cases x) (auto simp: router_take_def)
  qed
qed

lemma queued_receive:
  assumes "router_receive j s = (out, s')"
  shows "queued k s =
    (case out of Some (Inr r) \<Rightarrow> if j = k then [r] else [] | _ \<Rightarrow> []) @ queued k s'"
proof -
  obtain q s1 where q: "queue_for j s = (q, s1)" by fastforce
  have "queued k s1 = queued k s" using queue_for_lookup [OF q] by blast
  then show ?thesis
    using assms q queued_take [of j s1 out s' k] by (auto simp: router_receive_def split: if_splits)
qed

lemma queued_close [simp]: "queued k (router_close s) = queued k s"
  by (simp add: router_close_def split: router_task.split)

lemma queued_enter [simp]: "queued k (snd (router_enter s)) = queued k s"
  by (simp add: router_enter_def)

lemma router_conservation:
  "router_run es s = (outs, s') \<Longrightarrow> returned k outs @ queued k s' = queued k s @ delivered k es s"
proof (induction es arbitrary: s outs)
  case Nil
  then show ?case by (simp add: returned_def)
next
  case (Cons e es)
  obtain out s1 where e: "router_step e s = (out, s1)" by fastforce
  obtain outs1 where run: "router_run es s1 = (outs1, s')"
    "outs = (case out of Some x \<Rightarrow> [x] | None \<Rightarrow> []) @ outs1"
    using Cons.prems e by (auto split: prod.splits)
  have step: "returned k (case out of Some x \<Rightarrow> [x] | None \<Rightarrow> []) @ queued k s1 =
      queued k s @ (case e of Deliver r \<Rightarrow> if rr_task s = TaskRunning \<and> result_key r = k then [r] else [] | _ \<Rightarrow> [])"
  proof (cases e)
    case (Receive j)
    then show ?thesis
      using e queued_receive [of j s _ s1 k]
      by (auto simp: returned_def split: prod.splits option.splits sum.splits)
  next
    case (Resume j)
    then show ?thesis
      using e queued_take [of j s _ s1 k]
      by (auto simp: returned_def split: prod.splits option.splits sum.splits)
  qed (use e in \<open>auto simp: returned_def queued_deliver split: if_splits\<close>)
  have "returned k outs = returned k (case out of Some x \<Rightarrow> [x] | None \<Rightarrow> []) @ returned k outs1"
    by (simp add: run(2) returned_def)
  then show ?case
    using Cons.IH [OF run(1)] step e by simp
qed

text \<open>The same from the start, where nothing waits.\<close>

lemma queued_new [simp]: "queued k new_router = []"
  by (simp add: queued_def new_router_def)

section \<open>The end of the task\<close>

text \<open>
  When the task ends, every queue that exists gets one mark: a call that waits for its key alone
  is released.
\<close>

definition has_queue :: "router_key \<Rightarrow> router \<Rightarrow> bool" where
  "has_queue k s \<longleftrightarrow> map_of (rr_queues s) k \<noteq> None"

lemma receive_waits_has_queue: "router_receive k s = (None, s') \<Longrightarrow> has_queue k s'"
proof -
  assume r: "router_receive k s = (None, s')"
  obtain q s1 where q: "queue_for k s = (q, s1)" by fastforce
  have l: "map_of (rr_queues s1) k = Some q" using queue_for_lookup [OF q] by blast
  then show ?thesis
    using r q by (auto simp: router_receive_def router_take_def queue_for_def has_queue_def
        split: if_splits list.splits option.splits queue_item.splits)
qed

lemma stop_releases:
  assumes "has_queue k s"
  shows "\<exists>out s'. router_take k (router_stop e s) = (Some out, s')"
proof -
  obtain q where "map_of (rr_queues s) k = Some q" using assms by (auto simp: has_queue_def)
  then show ?thesis by (cases q) (simp_all add: router_take_def queue_for_def)
qed

text \<open>
  A second call that waits for the same key takes nothing, and after the task has ended nothing
  is ever put: it waits for ever.
\<close>

definition dead_queue :: "router_key \<Rightarrow> router \<Rightarrow> bool" where
  "dead_queue k s \<longleftrightarrow> map_of (rr_queues s) k = Some [] \<and> rr_task s \<in> {NoTask, TaskFinished}"

lemma dead_take: "dead_queue k s \<Longrightarrow> router_take k s = (None, s)"
  by (simp add: dead_queue_def router_take_def queue_for_def)

lemma queue_for_other:
  "queue_for j s = (q, s') \<Longrightarrow> map_of (rr_queues s) k = Some x \<Longrightarrow> map_of (rr_queues s') k = Some x"
  by (auto simp: queue_for_def map_add_Some_iff split: option.splits)

lemma dead_queue_for: "queue_for j s = (q, s') \<Longrightarrow> dead_queue k s \<Longrightarrow> dead_queue k s'"
  using queue_for_other [of j s q s' k] queue_for_lookup [of j s q s'] by (simp add: dead_queue_def)

lemma dead_take_other:
  assumes "dead_queue k s" "router_take j s = (out, s')"
  shows "dead_queue k s'"
proof -
  obtain q s1 where q: "queue_for j s = (q, s1)" by fastforce
  have dead: "dead_queue k s1" by (rule dead_queue_for [OF q assms(1)])
  have "q \<noteq> [] \<Longrightarrow> j \<noteq> k" using q assms(1) by (auto simp: queue_for_def dead_queue_def)
  then show ?thesis
    using assms(2) q dead
    by (cases q) (auto simp: router_take_def dead_queue_def set_queue_def AList.update_conv')
qed

lemma dead_step:
  assumes "dead_queue k s" "e \<noteq> Enter" "router_step e s = (out, s')"
  shows "dead_queue k s'"
proof (cases e)
  case (Receive j)
  obtain q s1 where q: "queue_for j s = (q, s1)" by fastforce
  have "dead_queue k s1" by (rule dead_queue_for [OF q assms(1)])
  then show ?thesis
    using assms(3) Receive q dead_take_other [of k s1 j]
    by (auto simp: router_receive_def split: prod.splits if_splits)
next
  case (Resume j)
  then show ?thesis using assms(1,3) dead_take_other [of k s j] by (auto split: prod.splits)
qed (use assms in \<open>auto simp: dead_queue_def router_close_def split: if_splits router_task.splits\<close>)

lemma dead_run:
  "dead_queue k s \<Longrightarrow> Enter \<notin> set es \<Longrightarrow> dead_queue k (snd (router_run es s))"
proof (induction es arbitrary: s)
  case (Cons e es)
  obtain out s1 where e: "router_step e s = (out, s1)" by fastforce
  have "e \<noteq> Enter" using Cons.prems(2) by auto
  then have "dead_queue k s1" by (rule dead_step [OF Cons.prems(1) _ e])
  then show ?case using Cons.IH [of s1] Cons.prems(2) e by (auto split: prod.splits)
qed simp

lemma second_receiver_stuck:
  assumes "map_of (rr_queues s) k = Some []"
    and "router_take k (router_stop e s) = (out, s1)" "Enter \<notin> set es"
  shows "\<exists>err. out = Some (Inl err)" "router_take k (snd (router_run es s1)) = (None, snd (router_run es s1))"
proof -
  have stop: "map_of (rr_queues (router_stop e s)) k = Some [ClosedMark]" using assms(1) by simp
  then show "\<exists>err. out = Some (Inl err)"
    using assms(2) by (auto simp: router_take_def queue_for_def)
  have "dead_queue k s1"
    using assms(2) stop
    by (auto simp: router_take_def queue_for_def dead_queue_def set_queue_def AList.update_conv' router_stop_def)
  then show "router_take k (snd (router_run es s1)) = (None, snd (router_run es s1))"
    using dead_run assms(3) by (intro dead_take)
qed

text \<open>
  Closed before its task took a step, the router is not marked closed: a later call waits
  instead of raising.
\<close>

lemma closed_before_start:
  "router_run [Enter, CloseCall, Receive k] new_router =
     ([], \<lparr>rr_queues = [(k, [])], rr_task = NoTask, rr_error = None, rr_closed = False\<rparr>)"
  by (simp add: new_router_def router_enter_def router_close_def router_receive_def queue_for_def
      router_take_def)

end
