(* ===== verification/Runtime_Control.thy ===== *)
theory Runtime_Control
  imports Runtime_Frames Server_Session
begin

text \<open>
  The runtime control packets a server session sends (\<open>server/transport.py\<close>) and the event
  values of \<open>runtime/types.py\<close>.

  The keyword arguments \<open>frame_id\<close>, \<open>flags\<close>, \<open>view_id\<close>, \<open>route_id\<close> and \<open>trace_id\<close> are the
  fields of a \<open>packet_route\<close>; the session id is the session's.  \<open>connection.send_control_packet\<close>
  is the parameter \<open>send\<close>.
\<close>

section \<open>Sending runtime control packets\<close>

definition runtime_control_packet ::
    "int \<Rightarrow> MessageType \<Rightarrow> runtime_metadata \<Rightarrow> bytes \<Rightarrow> packet_route \<Rightarrow> NnrpPacket res" where
  "runtime_control_packet session_id message_type metadata body r =
     bind_res (encode_runtime_control_metadata message_type metadata body) (\<lambda>m.
       Inr (NnrpPacket_build 1 WF_CURRENT message_type (r\<lparr>pr_session_id := session_id\<rparr>) m []))"

definition send_runtime_control_packet ::
    "(NnrpPacket \<Rightarrow> unit res) \<Rightarrow> int \<Rightarrow> MessageType \<Rightarrow> runtime_metadata \<Rightarrow> bytes \<Rightarrow> packet_route \<Rightarrow> unit res"
    where
  "send_runtime_control_packet send session_id message_type metadata body r =
     bind_res (runtime_control_packet session_id message_type metadata body r) send"

definition send_progress ::
    "(NnrpPacket \<Rightarrow> unit res) \<Rightarrow> int \<Rightarrow> int \<Rightarrow> int \<Rightarrow> int \<Rightarrow> int \<Rightarrow> int \<Rightarrow> bytes \<Rightarrow> packet_route \<Rightarrow> unit res"
    where
  "send_progress send session_id operation_id progress_sequence stage_code percent_x100 object_id
     body r =
     send_runtime_control_packet send session_id MT_PROGRESS
       (ProgressM \<lparr>prm_operation_id = operation_id, prm_progress_sequence = progress_sequence,
          prm_stage_code = stage_code, prm_percent_x100 = percent_x100,
          prm_object_id = object_id, prm_body_bytes = len body\<rparr>) body r"

definition send_partial_result ::
    "(NnrpPacket \<Rightarrow> unit res) \<Rightarrow> int \<Rightarrow> int \<Rightarrow> int \<Rightarrow> int \<Rightarrow> int \<Rightarrow> bytes \<Rightarrow> int \<Rightarrow> packet_route \<Rightarrow> unit res"
    where
  "send_partial_result send session_id operation_id result_sequence object_id delta_sequence
     body control_flags r =
     send_runtime_control_packet send session_id MT_PARTIAL_RESULT
       (PartialResultM \<lparr>ptm_operation_id = operation_id, ptm_result_sequence = result_sequence,
          ptm_object_id = object_id, ptm_delta_sequence = delta_sequence,
          ptm_body_bytes = len body, ptm_flags = control_flags\<rparr>) body r"

definition send_result_drop_reason ::
    "(NnrpPacket \<Rightarrow> unit res) \<Rightarrow> int \<Rightarrow> int \<Rightarrow> int \<Rightarrow> int \<Rightarrow> int \<Rightarrow> bytes \<Rightarrow> int \<Rightarrow> packet_route \<Rightarrow> unit res"
    where
  "send_result_drop_reason send session_id operation_id result_sequence drop_reason_code
     source_role diagnostic control_flags r =
     send_runtime_control_packet send session_id MT_RESULT_DROP_REASON
       (ResultDropReasonM \<lparr>drm_operation_id = operation_id,
          drm_result_sequence = result_sequence, drm_drop_reason_code = drop_reason_code,
          drm_source_role = source_role, drm_flags = control_flags,
          drm_diagnostic_bytes = len diagnostic\<rparr>) diagnostic r"

definition send_pressure_control ::
    "(NnrpPacket \<Rightarrow> unit res) \<Rightarrow> int \<Rightarrow> MessageType \<Rightarrow> int \<Rightarrow> int \<Rightarrow> int \<Rightarrow> int \<Rightarrow> int \<Rightarrow> int \<Rightarrow> packet_route
      \<Rightarrow> unit res" where
  "send_pressure_control send session_id message_type scope_id credit_window pressure_level
     pressure_reason retry_after_ms control_flags r =
     send_runtime_control_packet send session_id message_type
       (PressureM \<lparr>psm_scope_id = scope_id, psm_credit_window = credit_window,
          psm_pressure_level = pressure_level, psm_pressure_reason = pressure_reason,
          psm_retry_after_ms = retry_after_ms, psm_flags = control_flags\<rparr>) [] r"

definition send_backpressure ::
    "(NnrpPacket \<Rightarrow> unit res) \<Rightarrow> int \<Rightarrow> int \<Rightarrow> int \<Rightarrow> int \<Rightarrow> int \<Rightarrow> int \<Rightarrow> int \<Rightarrow> packet_route \<Rightarrow> unit res" where
  "send_backpressure send session_id = send_pressure_control send session_id MT_BACKPRESSURE"

definition send_credit_update ::
    "(NnrpPacket \<Rightarrow> unit res) \<Rightarrow> int \<Rightarrow> int \<Rightarrow> int \<Rightarrow> int \<Rightarrow> int \<Rightarrow> int \<Rightarrow> int \<Rightarrow> packet_route \<Rightarrow> unit res" where
  "send_credit_update send session_id = send_pressure_control send session_id MT_CREDIT_UPDATE"

text \<open>
  The peer decodes the packet to the metadata and the body that were sent; the body travels as
  the tail of the metadata, so the packet's own body is empty.
\<close>

lemma runtime_control_received:
  assumes "runtime_control_packet session_id mt m body r = Inr p" "runtime_wf m"
  shows "decode_runtime_control_metadata (packet_type p) (pkt_metadata p) = Inr (m, body)"
    "packet_type p = mt" "hdr_session_id (pkt_header p) = session_id" "pkt_body p = []"
proof -
  from assms(1) obtain bs where bs: "encode_runtime_control_metadata mt m body = Inr bs"
    "p = NnrpPacket_build 1 WF_CURRENT mt (r\<lparr>pr_session_id := session_id\<rparr>) bs []"
    by (auto simp: runtime_control_packet_def res_simps)
  then show "packet_type p = mt" "hdr_session_id (pkt_header p) = session_id" "pkt_body p = []"
    by simp_all
  with bs assms(2) show
    "decode_runtime_control_metadata (packet_type p) (pkt_metadata p) = Inr (m, body)"
    by (simp add: encode_runtime_control_metadata_def decode_runtime_control_metadata_def
        decode_with_encode)
qed

text \<open>A session sends progress only with a percentage the protocol knows.\<close>

lemma send_progress_percent:
  "send_progress send s op q st pct ob body r = Inr () \<Longrightarrow> 0 \<le> pct \<and> pct \<le> 10000 \<or> pct = 0xFFFF"
  by (auto simp: send_progress_def send_runtime_control_packet_def runtime_control_packet_def
      encode_runtime_control_metadata_def encode_with_Inr res_simps ProgressMetadata_pack_def
      fixed_width_pack_Inr ProgressMetadata_check_def validate_percent_x100_def split: if_splits)

section \<open>Event values\<close>

text \<open>
  The enum classes are string enums; only the members matter here.  \<open>value: Any\<close> is an
  optional value of any type.
\<close>

datatype RuntimeEventMetadataKind =
  REM_NONE | REM_FRAME_SUBMIT | REM_RESULT_PUSH | REM_RESULT_HINT | REM_CONTROL_REQUEST
  | REM_SCHEDULING | REM_SUPERSEDE | REM_BUDGET | REM_PROGRESS | REM_PARTIAL_RESULT
  | REM_PRESSURE | REM_CAPABILITY | REM_ROUTE_HINT | REM_TRACE_CONTEXT | REM_RESULT_DROP_REASON
  | REM_RECOVERABLE_ERROR | REM_RETRY_AFTER | REM_FLOW_UPDATE | REM_OBJECT_DESCRIPTOR
  | REM_OBJECT_REFERENCE | REM_OBJECT_RELEASE | REM_OBJECT_DELTA | REM_CACHE_REFERENCE
  | REM_CACHE_MISS | REM_CACHE_INVALIDATE | REM_SESSION_CLOSE

record 'v RuntimeEventMetadata =
  rev_kind :: RuntimeEventMetadataKind
  rev_value :: "'v option"

definition RuntimeEventMetadata_init ::
    "RuntimeEventMetadataKind \<Rightarrow> 'v option \<Rightarrow> 'v RuntimeEventMetadata res" where
  "RuntimeEventMetadata_init kind value =
     (if kind = REM_NONE \<and> value \<noteq> None
      then ve ''none runtime event metadata cannot carry a value''
      else if kind \<noteq> REM_NONE \<and> value = None
      then ve ''runtime event metadata requires a value''
      else Inr \<lparr>rev_kind = kind, rev_value = value\<rparr>)"

datatype RuntimeEventTailKind =
  RET_NONE | RET_BODY | RET_DIAGNOSTIC | RET_METADATA_BODY_AND_DELTA

record RuntimeEventTail =
  ret_kind :: RuntimeEventTailKind
  ret_body :: bytes
  ret_diagnostic :: bytes
  ret_metadata_body :: bytes
  ret_delta :: bytes

fun tail_populated :: "RuntimeEventTailKind \<Rightarrow> RuntimeEventTail \<Rightarrow> bool" where
  "tail_populated RET_NONE t \<longleftrightarrow>
     ret_body t = [] \<and> ret_diagnostic t = [] \<and> ret_metadata_body t = [] \<and> ret_delta t = []"
| "tail_populated RET_BODY t \<longleftrightarrow>
     ret_diagnostic t = [] \<and> ret_metadata_body t = [] \<and> ret_delta t = []"
| "tail_populated RET_DIAGNOSTIC t \<longleftrightarrow>
     ret_body t = [] \<and> ret_metadata_body t = [] \<and> ret_delta t = []"
| "tail_populated RET_METADATA_BODY_AND_DELTA t \<longleftrightarrow> ret_body t = [] \<and> ret_diagnostic t = []"

definition RuntimeEventTail_post_init :: "RuntimeEventTail \<Rightarrow> RuntimeEventTail res" where
  "RuntimeEventTail_post_init t =
     (if \<not> tail_populated (ret_kind t) t
      then ve ''runtime event tail fields do not match'' else Inr t)"

definition tail_none :: "RuntimeEventTail res" where
  "tail_none = RuntimeEventTail_post_init
     \<lparr>ret_kind = RET_NONE, ret_body = [], ret_diagnostic = [], ret_metadata_body = [], ret_delta = []\<rparr>"

definition tail_with_body :: "bytes \<Rightarrow> RuntimeEventTail res" where
  "tail_with_body body = RuntimeEventTail_post_init
     \<lparr>ret_kind = RET_BODY, ret_body = body, ret_diagnostic = [], ret_metadata_body = [],
      ret_delta = []\<rparr>"

definition tail_with_diagnostic :: "bytes \<Rightarrow> RuntimeEventTail res" where
  "tail_with_diagnostic diagnostic = RuntimeEventTail_post_init
     \<lparr>ret_kind = RET_DIAGNOSTIC, ret_body = [], ret_diagnostic = diagnostic,
      ret_metadata_body = [], ret_delta = []\<rparr>"

definition tail_with_metadata_body_and_delta :: "bytes \<Rightarrow> bytes \<Rightarrow> RuntimeEventTail res" where
  "tail_with_metadata_body_and_delta metadata_body delta = RuntimeEventTail_post_init
     \<lparr>ret_kind = RET_METADATA_BODY_AND_DELTA, ret_body = [], ret_diagnostic = [],
      ret_metadata_body = metadata_body, ret_delta = delta\<rparr>"

record OperationLifecycleEvent =
  ole_operation_id :: int
  ole_state :: OperationState

definition OperationLifecycleEvent_init :: "int \<Rightarrow> int \<Rightarrow> OperationLifecycleEvent res" where
  "OperationLifecycleEvent_init operation_id state =
     (if \<not> (1 \<le> operation_id \<and> operation_id \<le> 0xFFFFFFFFFFFFFFFF)
      then ve ''operation_id must be a non-zero unsigned 64-bit integer''
      else bind_res (OperationState_of state) (\<lambda>s.
        Inr \<lparr>ole_operation_id = operation_id, ole_state = s\<rparr>))"

text \<open>
  A tail's bytes and its kind determine each other: the four class methods build every tail
  the class admits.
\<close>

lemma tail_constructors:
  "RuntimeEventTail_post_init t = Inr t' \<longleftrightarrow> t' = t \<and>
     Inr t \<in> {tail_none} \<union> range tail_with_body \<union> range tail_with_diagnostic \<union>
       range (\<lambda>(m, d). tail_with_metadata_body_and_delta m d)"
  by (cases t; cases "ret_kind t")
    (auto simp: RuntimeEventTail_post_init_def tail_none_def tail_with_body_def
      tail_with_diagnostic_def tail_with_metadata_body_and_delta_def image_iff)

end
