(* ===== verification/Lifecycle.thy ===== *)
theory Lifecycle
  imports Enums "HOL-Library.Multiset"
begin

text \<open>
  The connection and session snapshots of \<open>lifecycle.py\<close>.  \<open>X_init\<close> is the constructor of a
  frozen class together with its \<open>__post_init__\<close>; its \<open>isinstance\<close> checks are the HOL types.
\<close>

datatype ConnectionLifecycleState = CLS_OPEN | CLS_CLOSING | CLS_CLOSED

datatype SessionLifecycleState = SLS_OPEN | SLS_RESUMED | SLS_CLOSING | SLS_DRAINING | SLS_CLOSED

definition require_unsigned :: "string \<Rightarrow> int \<Rightarrow> nat \<Rightarrow> bool \<Rightarrow> unit res" where
  "require_unsigned field v bits nonzero =
     (let minimum = if nonzero then 1 else 0
      in if \<not> (minimum \<le> v \<and> v \<le> push_bit bits 1 - 1) then ve (field @ '' must fit in u'')
         else Inr ())"

record SessionLifecycleSnapshot =
  lsn_session_id :: int
  lsn_state :: SessionLifecycleState
  lsn_profile_id :: int
  lsn_priority_class :: SessionPriorityClass
  lsn_schema_id :: int
  lsn_schema_version :: int
  lsn_max_in_flight_operations :: int
  lsn_route_scope_id :: int
  lsn_last_operation_id :: int
  lsn_session_error_code :: int

definition SessionLifecycleSnapshot_init :: "SessionLifecycleSnapshot \<Rightarrow> SessionLifecycleSnapshot res" where
  "SessionLifecycleSnapshot_init s =
     bind_res (require_unsigned ''session_id'' (lsn_session_id s) 32 True) (\<lambda>_.
     bind_res (require_unsigned ''profile_id'' (lsn_profile_id s) 16 False) (\<lambda>_.
     bind_res (require_unsigned ''schema_id'' (lsn_schema_id s) 32 False) (\<lambda>_.
     bind_res (require_unsigned ''schema_version'' (lsn_schema_version s) 32 False) (\<lambda>_.
     bind_res (require_unsigned ''max_in_flight_operations'' (lsn_max_in_flight_operations s) 16 False) (\<lambda>_.
     bind_res (require_unsigned ''route_scope_id'' (lsn_route_scope_id s) 32 False) (\<lambda>_.
     bind_res (require_unsigned ''last_operation_id'' (lsn_last_operation_id s) 64 False) (\<lambda>_.
     bind_res (require_unsigned ''session_error_code'' (lsn_session_error_code s) 32 False) (\<lambda>_.
     Inr s))))))))"

definition accepts_session_scoped_messages :: "SessionLifecycleSnapshot \<Rightarrow> bool" where
  "accepts_session_scoped_messages s \<longleftrightarrow>
     lsn_state s \<in> {SLS_OPEN, SLS_RESUMED, SLS_CLOSING, SLS_DRAINING}"

definition accepts_new_operations :: "SessionLifecycleSnapshot \<Rightarrow> bool" where
  "accepts_new_operations s \<longleftrightarrow> lsn_state s \<in> {SLS_OPEN, SLS_RESUMED}"

record ConnectionLifecycleSnapshot =
  cs_state :: ConnectionLifecycleState
  cs_sessions :: "SessionLifecycleSnapshot list"

text \<open>\<open>sorted\<close> is a stable sort; the set of identifiers finds duplicates.\<close>

definition ConnectionLifecycleSnapshot_init ::
    "ConnectionLifecycleState \<Rightarrow> SessionLifecycleSnapshot list \<Rightarrow> ConnectionLifecycleSnapshot res" where
  "ConnectionLifecycleSnapshot_init state sessions =
     (let ordered = sort_key lsn_session_id sessions
      in if card (set (map lsn_session_id ordered)) \<noteq> length ordered
         then ve ''sessions must not contain duplicate session_id values''
         else if state = CLS_CLOSED \<and> list_ex (\<lambda>s. lsn_state s \<noteq> SLS_CLOSED) ordered
         then ve ''closed connection snapshots require every session to be closed''
         else Inr \<lparr>cs_state = state, cs_sessions = ordered\<rparr>)"

section \<open>What a snapshot guarantees\<close>

lemma require_unsigned_iff [res_simps]:
  "require_unsigned f v bits nz = Inr u \<longleftrightarrow> (if nz then 1 else 0) \<le> v \<and> v < 2 ^ bits"
  by (auto simp: require_unsigned_def Let_def push_bit_eq_mult)

lemma new_operations_session_scoped:
  "accepts_new_operations s \<Longrightarrow> accepts_session_scoped_messages s"
  by (auto simp: accepts_new_operations_def accepts_session_scoped_messages_def)

lemma closed_accepts_nothing:
  "\<not> accepts_session_scoped_messages s \<longleftrightarrow> lsn_state s = SLS_CLOSED"
  by (cases "lsn_state s") (auto simp: accepts_session_scoped_messages_def)

text \<open>
  A snapshot is made exactly when the identifiers differ and a closed connection has closed
  sessions only.  Then it holds the sessions it was given, in the order of their identifiers.
\<close>

lemma snapshot_iff:
  "ConnectionLifecycleSnapshot_init st ss = Inr c \<longleftrightarrow>
     distinct (map lsn_session_id ss) \<and>
     (st = CLS_CLOSED \<longrightarrow> (\<forall>s \<in> set ss. \<not> accepts_session_scoped_messages s)) \<and>
     c = \<lparr>cs_state = st, cs_sessions = sort_key lsn_session_id ss\<rparr>"
proof -
  have "card (set (map lsn_session_id (sort_key lsn_session_id ss))) = length (sort_key lsn_session_id ss)
      \<longleftrightarrow> distinct (map lsn_session_id ss)"
    by (metis card_distinct distinct_card length_map length_sort set_map set_sort)
  then show ?thesis
    by (auto simp: ConnectionLifecycleSnapshot_init_def Let_def list_ex_iff closed_accepts_nothing)
qed

lemma snapshot_sessions:
  assumes "ConnectionLifecycleSnapshot_init st ss = Inr c"
  shows "mset (cs_sessions c) = mset ss" "sorted_wrt (<) (map lsn_session_id (cs_sessions c))"
proof -
  have c: "cs_sessions c = sort_key lsn_session_id ss" and d: "distinct (map lsn_session_id ss)"
    using assms by (simp_all add: snapshot_iff)
  show "mset (cs_sessions c) = mset ss" by (simp add: c)
  have "mset (map lsn_session_id (cs_sessions c)) = mset (map lsn_session_id ss)"
    by (simp add: c)
  then have "distinct (map lsn_session_id (cs_sessions c))"
    using d mset_eq_imp_distinct_iff by blast
  then show "sorted_wrt (<) (map lsn_session_id (cs_sessions c))"
    by (simp add: strict_sorted_iff c)
qed

text \<open>The snapshot does not depend on the order in which the sessions are listed.\<close>

lemma snapshot_order_independent:
  assumes "mset ss = mset ss'"
  shows "ConnectionLifecycleSnapshot_init st ss = Inr c \<longleftrightarrow>
    ConnectionLifecycleSnapshot_init st ss' = Inr c"
proof -
  have d: "distinct (map lsn_session_id ss) \<longleftrightarrow> distinct (map lsn_session_id ss')"
    by (rule mset_eq_imp_distinct_iff) (simp add: assms)
  have s: "set ss = set ss'" by (rule mset_eq_setD [OF assms])
  have "sort_key lsn_session_id ss = sort_key lsn_session_id ss'" if "distinct (map lsn_session_id ss)"
  proof (rule map_sorted_distinct_set_unique)
    have inj: "inj_on lsn_session_id (set ss)" using that by (simp add: distinct_map)
    show "inj_on lsn_session_id (set (sort_key lsn_session_id ss) \<union> set (sort_key lsn_session_id ss'))"
      using inj s by simp
    have "mset (map lsn_session_id (sort_key lsn_session_id xs)) = mset (map lsn_session_id xs)" for xs
      by simp
    then show "distinct (map lsn_session_id (sort_key lsn_session_id ss))"
      "distinct (map lsn_session_id (sort_key lsn_session_id ss'))"
      using that d mset_eq_imp_distinct_iff by blast+
  qed (use s in simp_all)
  then show ?thesis using d s by (auto simp: snapshot_iff)
qed

end
