(* ===== verification/Cache_Values.thy ===== *)
theory Cache_Values
  imports Runtime_Metadata
begin

text \<open>
  The value classes of \<open>cache.py\<close>: identities, leases, versions, results and policies.  The
  runtime backend is a parameter of the four \<open>cache_X\<close> functions.  A string enum is a datatype;
  \<open>int | CacheObjectKind\<close> is its integer.
\<close>

datatype CacheLeaseOutcome = CLO_VALID | CLO_EXPIRED | CLO_RENEWED | CLO_RELEASED | CLO_MISSING

datatype CacheInvalidationReason = CIR_EXPLICIT | CIR_DEPENDENCY_INVALIDATED | CIR_LEASE_EXPIRED
  | CIR_VERSION_MISMATCH | CIR_SCHEMA_MISMATCH

datatype CacheLeaseOwnerScope = CLW_CONNECTION | CLW_SESSION | CLW_OPERATION

fun CacheLeaseOwnerScope_int :: "CacheLeaseOwnerScope \<Rightarrow> int" where
  "CacheLeaseOwnerScope_int CLW_CONNECTION = 0"
| "CacheLeaseOwnerScope_int CLW_SESSION = 1"
| "CacheLeaseOwnerScope_int CLW_OPERATION = 2"

definition CacheLeaseOwnerScope_of :: "int \<Rightarrow> CacheLeaseOwnerScope res" where
  "CacheLeaseOwnerScope_of v =
     (if v = 0 then Inr CLW_CONNECTION
      else if v = 1 then Inr CLW_SESSION
      else if v = 2 then Inr CLW_OPERATION
      else ve ''not a valid CacheLeaseOwnerScope'')"

interpretation CLW_enum: int_enum CacheLeaseOwnerScope_int CacheLeaseOwnerScope_of
proof
  show "CacheLeaseOwnerScope_of (CacheLeaseOwnerScope_int k) = Inr k" for k
    by (cases k) (simp_all add: CacheLeaseOwnerScope_of_def)
  show "CacheLeaseOwnerScope_of v = Inr k \<Longrightarrow> CacheLeaseOwnerScope_int k = v" for v k
    by (auto simp: CacheLeaseOwnerScope_of_def split: if_splits)
qed

definition cache_validate_u32 :: "string \<Rightarrow> int \<Rightarrow> unit res" where
  "cache_validate_u32 field v =
     (if v < 0 \<or> v > 0xFFFFFFFF then ve (field @ '' must be a uint32 value'') else Inr ())"

definition cache_validate_u64 :: "string \<Rightarrow> int \<Rightarrow> unit res" where
  "cache_validate_u64 field v =
     (if v < 0 \<or> v > 0xFFFFFFFFFFFFFFFF then ve (field @ '' must be a uint64 value'') else Inr ())"

lemma validate_uint_iff [res_simps]:
  "cache_validate_u32 f v = Inr u \<longleftrightarrow> 0 \<le> v \<and> v < 2 ^ 32"
  "cache_validate_u64 f v = Inr u \<longleftrightarrow> 0 \<le> v \<and> v < 2 ^ 64"
  by (auto simp: cache_validate_u32_def cache_validate_u64_def)

section \<open>Identities\<close>

record CacheObjectIdentity =
  coi_cache_namespace :: int
  coi_object_kind :: int
  coi_cache_key_hi :: int
  coi_cache_key_lo :: int

definition CacheObjectIdentity_init :: "CacheObjectIdentity \<Rightarrow> CacheObjectIdentity res" where
  "CacheObjectIdentity_init i =
     bind_res (cache_validate_u32 ''cache_namespace'' (coi_cache_namespace i)) (\<lambda>_.
     bind_res (cache_validate_u32 ''object_kind'' (coi_object_kind i)) (\<lambda>_.
     bind_res (cache_validate_u64 ''cache_key_hi'' (coi_cache_key_hi i)) (\<lambda>_.
     bind_res (cache_validate_u64 ''cache_key_lo'' (coi_cache_key_lo i)) (\<lambda>_. Inr i))))"

definition identity_key :: "CacheObjectIdentity \<Rightarrow> int \<times> int" where
  "identity_key i = (coi_cache_key_hi i, coi_cache_key_lo i)"

definition cache_key_u128 :: "CacheObjectIdentity \<Rightarrow> int" where
  "cache_key_u128 i = push_bit 64 (coi_cache_key_hi i) OR coi_cache_key_lo i"

section \<open>Leases\<close>

record CacheLeaseDescriptor =
  cld_identity :: CacheObjectIdentity
  cld_object_version :: int
  cld_lease_id :: int
  cld_owner_scope :: CacheLeaseOwnerScope
  cld_owner_id :: int
  cld_granted_at_ms :: int
  cld_ttl_ms :: int

definition CacheLeaseDescriptor_init ::
    "CacheObjectIdentity \<Rightarrow> int \<Rightarrow> int \<Rightarrow> int \<Rightarrow> int \<Rightarrow> int \<Rightarrow> int \<Rightarrow> CacheLeaseDescriptor res" where
  "CacheLeaseDescriptor_init identity object_version lease_id owner_scope owner_id granted_at_ms
     ttl_ms =
     bind_res (cache_validate_u64 ''object_version'' object_version) (\<lambda>_.
     bind_res (cache_validate_u64 ''lease_id'' lease_id) (\<lambda>_.
     bind_res (CacheLeaseOwnerScope_of owner_scope) (\<lambda>scope.
     bind_res (cache_validate_u64 ''owner_id'' owner_id) (\<lambda>_.
     bind_res (cache_validate_u64 ''granted_at_ms'' granted_at_ms) (\<lambda>_.
     bind_res (cache_validate_u32 ''ttl_ms'' ttl_ms) (\<lambda>_.
     Inr \<lparr>cld_identity = identity, cld_object_version = object_version, cld_lease_id = lease_id,
          cld_owner_scope = scope, cld_owner_id = owner_id, cld_granted_at_ms = granted_at_ms,
          cld_ttl_ms = ttl_ms\<rparr>))))))"

definition expires_at_ms :: "CacheLeaseDescriptor \<Rightarrow> int" where
  "expires_at_ms l = min (cld_granted_at_ms l + cld_ttl_ms l) 0xFFFFFFFFFFFFFFFF"

definition is_expired :: "CacheLeaseDescriptor \<Rightarrow> int \<Rightarrow> bool res" where
  "is_expired l now_ms =
     bind_res (cache_validate_u64 ''now_ms'' now_ms) (\<lambda>_. Inr (expires_at_ms l \<le> now_ms))"

definition validate_version :: "CacheLeaseDescriptor \<Rightarrow> int \<Rightarrow> unit res" where
  "validate_version l expected_version =
     bind_res (cache_validate_u64 ''expected_version'' expected_version) (\<lambda>_.
       if expected_version \<noteq> cld_object_version l then ve ''version_mismatch'' else Inr ())"

definition as_renewed ::
    "CacheLeaseDescriptor \<Rightarrow> int \<Rightarrow> int \<Rightarrow> int \<Rightarrow> int option \<Rightarrow> CacheLeaseDescriptor res" where
  "as_renewed l object_version lease_id granted_at_ms ttl_ms =
     CacheLeaseDescriptor_init (cld_identity l) object_version lease_id
       (CacheLeaseOwnerScope_int (cld_owner_scope l)) (cld_owner_id l) granted_at_ms
       (case ttl_ms of None \<Rightarrow> cld_ttl_ms l | Some t \<Rightarrow> t)"

section \<open>Versions, results, invalidations and policies\<close>

record CacheObjectVersion =
  cov_identity :: CacheObjectIdentity
  cov_object_version :: int
  cov_schema_id :: int
  cov_schema_version :: int

definition CacheObjectVersion_init :: "CacheObjectVersion \<Rightarrow> CacheObjectVersion res" where
  "CacheObjectVersion_init v =
     bind_res (cache_validate_u64 ''object_version'' (cov_object_version v)) (\<lambda>_.
     bind_res (cache_validate_u32 ''schema_id'' (cov_schema_id v)) (\<lambda>_.
     bind_res (cache_validate_u32 ''schema_version'' (cov_schema_version v)) (\<lambda>_. Inr v)))"

definition matches_schema :: "CacheObjectVersion \<Rightarrow> int \<Rightarrow> int \<Rightarrow> bool res" where
  "matches_schema v schema_id schema_version =
     bind_res (cache_validate_u32 ''schema_id'' schema_id) (\<lambda>_.
     bind_res (cache_validate_u32 ''schema_version'' schema_version) (\<lambda>_.
       Inr (cov_schema_id v = schema_id \<and> cov_schema_version v = schema_version)))"

record CacheLeaseResult =
  clr_identity :: CacheObjectIdentity
  clr_outcome :: CacheLeaseOutcome
  clr_lease :: "CacheLeaseDescriptor option"
  clr_object_version :: "CacheObjectVersion option"
  clr_diagnostic :: "string option"

definition CacheLeaseResult_init :: "CacheLeaseResult \<Rightarrow> CacheLeaseResult res" where
  "CacheLeaseResult_init r =
     (if given_and (clr_lease r) (\<lambda>l. cld_identity l \<noteq> clr_identity r)
      then ve ''lease identity must match result identity''
      else if given_and (clr_object_version r) (\<lambda>v. cov_identity v \<noteq> clr_identity r)
      then ve ''object_version identity must match result identity''
      else Inr r)"

definition lease_succeeded :: "CacheLeaseResult \<Rightarrow> bool" where
  "lease_succeeded r \<longleftrightarrow> clr_outcome r \<in> {CLO_VALID, CLO_RENEWED}"

record CacheDependencyInvalidation =
  cdi_source :: CacheObjectIdentity
  cdi_affected :: "CacheObjectIdentity list"
  cdi_reason :: CacheInvalidationReason
  cdi_schema_id :: int
  cdi_schema_version :: int

definition CacheDependencyInvalidation_init ::
    "CacheDependencyInvalidation \<Rightarrow> CacheDependencyInvalidation res" where
  "CacheDependencyInvalidation_init d =
     bind_res (cache_validate_u32 ''schema_id'' (cdi_schema_id d)) (\<lambda>_.
     bind_res (cache_validate_u32 ''schema_version'' (cdi_schema_version d)) (\<lambda>_. Inr d))"

record CacheInvalidation =
  civ_identity :: CacheObjectIdentity
  civ_reason :: CacheInvalidationReason
  civ_object_version :: int
  civ_diagnostic :: "string option"

definition CacheInvalidation_init :: "CacheInvalidation \<Rightarrow> CacheInvalidation res" where
  "CacheInvalidation_init d =
     bind_res (cache_validate_u64 ''object_version'' (civ_object_version d)) (\<lambda>_. Inr d)"

record CachePolicyOptions =
  cpo_enabled :: bool
  cpo_reuse_scope :: "int option"
  cpo_expiration_hint_ms :: int
  cpo_invalidation_reason :: CacheInvalidationReason

definition CachePolicyOptions_init :: "CachePolicyOptions \<Rightarrow> CachePolicyOptions res" where
  "CachePolicyOptions_init p =
     bind_res (case cpo_reuse_scope p of
         None \<Rightarrow> Inr () | Some v \<Rightarrow> known_member CacheReuseScope_of v) (\<lambda>_.
     bind_res (cache_validate_u64 ''expiration_hint_ms'' (cpo_expiration_hint_ms p)) (\<lambda>_.
       if cpo_enabled p \<and> cpo_reuse_scope p = None
       then ve ''enabled cache policy requires reuse_scope''
       else if \<not> cpo_enabled p \<and> cpo_reuse_scope p \<noteq> None
       then ve ''disabled cache policy must not set reuse_scope''
       else if \<not> cpo_enabled p \<and> cpo_expiration_hint_ms p \<noteq> 0
       then ve ''disabled cache policy must not set expiration_hint_ms''
       else Inr p))"

text \<open>The backend calls; only \<open>cache_touch\<close> checks an argument first.\<close>

definition cache_query ::
    "(CacheObjectIdentity \<Rightarrow> CacheLeaseResult res) \<Rightarrow> CacheObjectIdentity \<Rightarrow> CacheLeaseResult res" where
  "cache_query query identity = query identity"

definition cache_touch ::
    "(CacheObjectIdentity \<Rightarrow> int option \<Rightarrow> CacheLeaseResult res) \<Rightarrow> CacheObjectIdentity \<Rightarrow> int option
      \<Rightarrow> CacheLeaseResult res" where
  "cache_touch touch identity ttl_ms =
     bind_res (case ttl_ms of None \<Rightarrow> Inr () | Some t \<Rightarrow> cache_validate_u32 ''ttl_ms'' t) (\<lambda>_.
       touch identity ttl_ms)"

definition cache_prefetch ::
    "(CacheObjectIdentity list \<Rightarrow> CacheLeaseResult list res) \<Rightarrow> CacheObjectIdentity list
      \<Rightarrow> CacheLeaseResult list res" where
  "cache_prefetch prefetch identities = prefetch identities"

definition cache_release ::
    "(CacheObjectIdentity \<Rightarrow> CacheLeaseResult res) \<Rightarrow> CacheObjectIdentity \<Rightarrow> CacheLeaseResult res" where
  "cache_release release identity = release identity"

section \<open>Correctness\<close>

text \<open>The 128-bit key is the pair of its halves: it fits, and identities with one key agree on both.\<close>

lemma or_shifted:
  fixes lo hi :: int
  assumes "0 \<le> lo" "lo < 2 ^ n"
  shows "push_bit n hi OR lo = hi * 2 ^ n + lo"
proof -
  have "take_bit n lo = lo" using assms by (rule take_bit_int_eq_self)
  then have "push_bit n hi AND lo = push_bit n hi AND take_bit n lo" by simp
  also have "\<dots> = 0" by (rule bit_eqI) (auto simp: bit_simps)
  finally show ?thesis
    using disjunctive_add_eq_or [of "push_bit n hi" lo] by (simp add: push_bit_eq_mult)
qed

lemma cache_key_parts:
  assumes "CacheObjectIdentity_init i = Inr i'"
  shows "cache_key_u128 i = coi_cache_key_hi i * 2 ^ 64 + coi_cache_key_lo i"
    "0 \<le> cache_key_u128 i" "cache_key_u128 i < 2 ^ 128"
    "cache_key_u128 i div 2 ^ 64 = coi_cache_key_hi i"
    "cache_key_u128 i mod 2 ^ 64 = coi_cache_key_lo i"
proof -
  have b: "0 \<le> coi_cache_key_hi i" "coi_cache_key_hi i < 2 ^ 64" "0 \<le> coi_cache_key_lo i"
    "coi_cache_key_lo i < 2 ^ 64"
    using assms by (simp_all only: CacheObjectIdentity_init_def res_simps) blast+
  then show k: "cache_key_u128 i = coi_cache_key_hi i * 2 ^ 64 + coi_cache_key_lo i"
    unfolding cache_key_u128_def by (intro or_shifted)
  show "0 \<le> cache_key_u128 i" "cache_key_u128 i < 2 ^ 128"
    "cache_key_u128 i div 2 ^ 64 = coi_cache_key_hi i"
    "cache_key_u128 i mod 2 ^ 64 = coi_cache_key_lo i"
    using b by (simp_all add: k)
qed

lemma cache_key_u128_key:
  assumes "CacheObjectIdentity_init i = Inr i'" "CacheObjectIdentity_init j = Inr j'"
  shows "cache_key_u128 i = cache_key_u128 j \<longleftrightarrow> identity_key i = identity_key j"
  using cache_key_parts(4,5) [OF assms(1)] cache_key_parts(4,5) [OF assms(2)]
    cache_key_u128_def [of i] cache_key_u128_def [of j]
  by (metis identity_key_def prod.inject)

text \<open>
  Once expired, a lease stays expired; and no lease outlives the largest time, so at that time
  every lease is expired.
\<close>

lemma expired_later:
  "is_expired l t = Inr True \<Longrightarrow> t \<le> t' \<Longrightarrow> t' < 2 ^ 64 \<Longrightarrow> is_expired l t' = Inr True"
  by (auto simp: is_expired_def cache_validate_u64_def split: if_splits)

lemma expired_finally: "is_expired l 0xFFFFFFFFFFFFFFFF = Inr True"
  by (simp add: is_expired_def cache_validate_u64_def expires_at_ms_def)

text \<open>
  A renewed lease covers the same object for the same owner; it is valid from its grant for
  its time to live, without overflow.
\<close>

lemma renewed:
  assumes "as_renewed l v lease t ttl = Inr l'"
  shows "cld_identity l' = cld_identity l" "cld_owner_scope l' = cld_owner_scope l"
    "cld_owner_id l' = cld_owner_id l" "cld_object_version l' = v" "cld_lease_id l' = lease"
    "validate_version l' v = Inr ()"
    "0 \<le> now \<Longrightarrow> now < 0xFFFFFFFFFFFFFFFF \<Longrightarrow>
      is_expired l' now = Inr (t + (case ttl of None \<Rightarrow> cld_ttl_ms l | Some d \<Rightarrow> d) \<le> now)"
  using assms
  by (auto simp: as_renewed_def CacheLeaseDescriptor_init_def res_simps validate_version_def
      is_expired_def expires_at_ms_def cache_validate_u64_def)

text \<open>A policy is either enabled with a known scope, or disabled and empty.\<close>

lemma policy_iff:
  "CachePolicyOptions_init p = Inr q \<longleftrightarrow> q = p \<and>
     (if cpo_enabled p
      then \<exists>v. cpo_reuse_scope p = Some v \<and> known_member CacheReuseScope_of v = Inr () \<and>
        0 \<le> cpo_expiration_hint_ms p \<and> cpo_expiration_hint_ms p < 2 ^ 64
      else cpo_reuse_scope p = None \<and> cpo_expiration_hint_ms p = 0)"
  by (auto simp: CachePolicyOptions_init_def res_simps split: option.splits)

end
