(* ===== verification/Transport_Evidence.thy ===== *)
theory Transport_Evidence
  imports Enums
begin

text \<open>
  What \<open>native.py\<close> knows when it selects a transport: the providers, their readiness, the probe
  samples and the observations made of them, and the summary of a provider's samples.

  A string enum is a datatype; \<open>X_init\<close> is the constructor with its \<open>__post_init__\<close>, less the
  \<open>isinstance\<close> checks.
\<close>

section \<open>Providers and evidence\<close>

definition require_bounded_integer :: "string \<Rightarrow> int \<Rightarrow> int \<Rightarrow> unit res" where
  "require_bounded_integer field v maximum =
     (if \<not> (0 \<le> v \<and> v \<le> maximum) then ve (field @ '' must be an integer in 0..maximum'') else Inr ())"

abbreviation (input) u16_max :: int where "u16_max \<equiv> 0xFFFF"
abbreviation (input) u32_max :: int where "u32_max \<equiv> 0xFFFFFFFF"
abbreviation (input) u64_max :: int where "u64_max \<equiv> 0xFFFFFFFFFFFFFFFF"

text \<open>\<open>NATIVE_TRANSPORT_NAME_BY_ID\<close>: \<open>UNSPECIFIED\<close> has no name.\<close>

fun NATIVE_TRANSPORT_NAME_BY_ID :: "TransportId \<Rightarrow> string option" where
  "NATIVE_TRANSPORT_NAME_BY_ID TI_QUIC = Some ''quic''"
| "NATIVE_TRANSPORT_NAME_BY_ID TI_TCP = Some ''tcp''"
| "NATIVE_TRANSPORT_NAME_BY_ID TI_IPC = Some ''ipc''"
| "NATIVE_TRANSPORT_NAME_BY_ID TI_WEBSOCKET = Some ''websocket''"
| "NATIVE_TRANSPORT_NAME_BY_ID TI_UNSPECIFIED = None"

definition selectable :: "TransportId \<Rightarrow> bool" where
  "selectable t \<longleftrightarrow> NATIVE_TRANSPORT_NAME_BY_ID t \<noteq> None"

definition ascii_id :: "string \<Rightarrow> bool" where
  "ascii_id s \<longleftrightarrow> s \<noteq> [] \<and> list_all (\<lambda>c. of_char c < (128 :: nat)) s"

record NativeTransportProviderCost =
  pco_model_id :: int
  pco_units :: int

definition NativeTransportProviderCost_init ::
    "NativeTransportProviderCost \<Rightarrow> NativeTransportProviderCost res" where
  "NativeTransportProviderCost_init c =
     bind_res (require_bounded_integer ''model_id'' (pco_model_id c) u16_max) (\<lambda>_.
     bind_res (require_bounded_integer ''units'' (pco_units c) u64_max) (\<lambda>_.
       if pco_model_id c = 0 \<and> pco_units c \<noteq> 0
       then ve ''units must be zero when model_id is zero'' else Inr c))"

record NativeTransportProviderLimits =
  pli_max_frame_bytes :: int

definition NativeTransportProviderLimits_init ::
    "NativeTransportProviderLimits \<Rightarrow> NativeTransportProviderLimits res" where
  "NativeTransportProviderLimits_init l =
     bind_res (require_bounded_integer ''max_frame_bytes'' (pli_max_frame_bytes l) u64_max) (\<lambda>_.
       if pli_max_frame_bytes l = 0 then ve ''max_frame_bytes must be greater than zero'' else Inr l)"

datatype NativeTransportProviderLimitation = NPL_REQUIRES_UDP | NPL_REQUIRES_TCP
  | NPL_LOCAL_HOST_ONLY | NPL_NATIVE_HOST_ONLY | NPL_BROWSER_HOST_ONLY
  | NPL_UNIX_DOMAIN_SOCKET | NPL_WINDOWS_NAMED_PIPE

record NativeTransportProviderMetadata =
  pmd_id :: string
  pmd_cost :: NativeTransportProviderCost
  pmd_preference_rank :: int
  pmd_limits :: NativeTransportProviderLimits
  pmd_limitations :: "NativeTransportProviderLimitation list"

definition NativeTransportProviderMetadata_init ::
    "NativeTransportProviderMetadata \<Rightarrow> NativeTransportProviderMetadata res" where
  "NativeTransportProviderMetadata_init m =
     (if \<not> ascii_id (pmd_id m) then ve ''id must be a non-empty ASCII string''
      else bind_res (require_bounded_integer ''preference_rank'' (pmd_preference_rank m) u16_max) (\<lambda>_.
        if \<not> distinct (pmd_limitations m) then ve ''limitations must not contain duplicates''
        else Inr m))"

datatype NativeTransportProviderKind = NPK_PURE_RUST | NPK_NATIVE_DYNAMIC | NPK_WASM

record NativeTransportProvider =
  tpr_name :: string
  tpr_version :: string
  tpr_transport_id :: TransportId
  tpr_kind :: NativeTransportProviderKind
  tpr_available :: bool
  tpr_library_path :: "string option"
  tpr_metadata :: NativeTransportProviderMetadata
  tpr_diagnostic :: "string option"

definition NativeTransportProvider_init :: "NativeTransportProvider \<Rightarrow> NativeTransportProvider res" where
  "NativeTransportProvider_init p =
     (if tpr_name p = [] then ve ''name must be a non-empty string''
      else if tpr_version p = [] then ve ''version must be a non-empty string''
      else if \<not> selectable (tpr_transport_id p)
      then ve ''transport_id must identify a selectable transport'' else Inr p)"

abbreviation provider_id :: "NativeTransportProvider \<Rightarrow> string" where
  "provider_id p \<equiv> pmd_id (tpr_metadata p)"

record NativeTransportCandidateReadiness =
  tcr_transport_id :: TransportId
  tcr_provider_id :: string
  tcr_route_resolved :: bool
  tcr_security_satisfied :: bool
  tcr_diagnostic :: "string option"

definition NativeTransportCandidateReadiness_init ::
    "NativeTransportCandidateReadiness \<Rightarrow> NativeTransportCandidateReadiness res" where
  "NativeTransportCandidateReadiness_init r =
     (if \<not> selectable (tcr_transport_id r)
      then ve ''transport_id must identify a selectable transport''
      else if \<not> ascii_id (tcr_provider_id r)
      then ve ''provider_id must be a non-empty ASCII string'' else Inr r)"

definition readiness_ready :: "NativeTransportProvider \<Rightarrow> NativeTransportCandidateReadiness res" where
  "readiness_ready p = NativeTransportCandidateReadiness_init
     \<lparr>tcr_transport_id = tpr_transport_id p, tcr_provider_id = provider_id p,
      tcr_route_resolved = True, tcr_security_satisfied = True, tcr_diagnostic = None\<rparr>"

definition readiness_route_unresolved ::
    "NativeTransportProvider \<Rightarrow> string \<Rightarrow> NativeTransportCandidateReadiness res" where
  "readiness_route_unresolved p diagnostic = NativeTransportCandidateReadiness_init
     \<lparr>tcr_transport_id = tpr_transport_id p, tcr_provider_id = provider_id p,
      tcr_route_resolved = False, tcr_security_satisfied = True,
      tcr_diagnostic = Some diagnostic\<rparr>"

definition readiness_security_unsatisfied ::
    "NativeTransportProvider \<Rightarrow> string \<Rightarrow> NativeTransportCandidateReadiness res" where
  "readiness_security_unsatisfied p diagnostic = NativeTransportCandidateReadiness_init
     \<lparr>tcr_transport_id = tpr_transport_id p, tcr_provider_id = provider_id p,
      tcr_route_resolved = True, tcr_security_satisfied = False,
      tcr_diagnostic = Some diagnostic\<rparr>"

record NativeTransportProbeSample =
  tps_transport_id :: TransportId
  tps_provider_id :: string
  tps_elapsed_us :: int
  tps_rtt_us :: "int option"
  tps_bytes_sent :: int
  tps_bytes_received :: int
  tps_timed_out :: bool
  tps_failed :: bool

definition NativeTransportProbeSample_init ::
    "NativeTransportProbeSample \<Rightarrow> NativeTransportProbeSample res" where
  "NativeTransportProbeSample_init s =
     (if \<not> selectable (tps_transport_id s)
      then ve ''transport_id must identify a selectable transport''
      else if \<not> ascii_id (tps_provider_id s)
      then ve ''provider_id must be a non-empty ASCII string''
      else bind_res (require_bounded_integer ''elapsed_us'' (tps_elapsed_us s) u64_max) (\<lambda>_.
        bind_res (case tps_rtt_us s of None \<Rightarrow> Inr ()
                  | Some r \<Rightarrow> require_bounded_integer ''rtt_us'' r u64_max) (\<lambda>_.
        bind_res (require_bounded_integer ''bytes_sent'' (tps_bytes_sent s) u64_max) (\<lambda>_.
        bind_res (require_bounded_integer ''bytes_received'' (tps_bytes_received s) u64_max) (\<lambda>_.
          Inr s)))))"

datatype NativeTransportProbeState = NPS_NOT_RUN | NPS_SUCCEEDED | NPS_FAILED | NPS_MISSING

record NativeTransportProbeMetrics =
  npm_sample_count :: int
  npm_success_count :: int
  npm_median_throughput_bytes_per_sec :: int
  npm_median_rtt_us :: int

definition NativeTransportProbeMetrics_init ::
    "NativeTransportProbeMetrics \<Rightarrow> NativeTransportProbeMetrics res" where
  "NativeTransportProbeMetrics_init m =
     bind_res (require_bounded_integer ''sample_count'' (npm_sample_count m) u32_max) (\<lambda>_.
     bind_res (require_bounded_integer ''success_count'' (npm_success_count m) u32_max) (\<lambda>_.
       if npm_sample_count m = 0 then ve ''sample_count must be positive''
       else if \<not> (1 \<le> npm_success_count m \<and> npm_success_count m \<le> npm_sample_count m)
       then ve ''success_count must be in 1..sample_count''
       else bind_res (require_bounded_integer ''median_throughput_bytes_per_sec''
              (npm_median_throughput_bytes_per_sec m) u64_max) (\<lambda>_.
            bind_res (require_bounded_integer ''median_rtt_us'' (npm_median_rtt_us m) u64_max) (\<lambda>_.
              Inr m))))"

record NativeTransportProbeObservation =
  tpo_transport_id :: TransportId
  tpo_provider_id :: string
  tpo_state :: NativeTransportProbeState
  tpo_metrics :: "NativeTransportProbeMetrics option"
  tpo_diagnostic :: "string option"

definition NativeTransportProbeObservation_init ::
    "NativeTransportProbeObservation \<Rightarrow> NativeTransportProbeObservation res" where
  "NativeTransportProbeObservation_init b =
     (if \<not> selectable (tpo_transport_id b)
      then ve ''transport_id must identify a selectable transport''
      else if \<not> ascii_id (tpo_provider_id b)
      then ve ''provider_id must be a non-empty ASCII string''
      else if tpo_state b \<notin> {NPS_SUCCEEDED, NPS_FAILED} then ve ''state must be SUCCEEDED or FAILED''
      else if tpo_state b = NPS_SUCCEEDED \<and> tpo_metrics b = None
      then ve ''SUCCEEDED observations require metrics''
      else if tpo_state b = NPS_FAILED \<and> tpo_metrics b \<noteq> None
      then ve ''FAILED observations forbid metrics''
      else Inr b)"

definition observation_succeeded ::
    "NativeTransportProvider \<Rightarrow> NativeTransportProbeMetrics \<Rightarrow> NativeTransportProbeObservation res" where
  "observation_succeeded p metrics = NativeTransportProbeObservation_init
     \<lparr>tpo_transport_id = tpr_transport_id p, tpo_provider_id = provider_id p,
      tpo_state = NPS_SUCCEEDED, tpo_metrics = Some metrics, tpo_diagnostic = None\<rparr>"

definition observation_failed ::
    "NativeTransportProvider \<Rightarrow> string \<Rightarrow> NativeTransportProbeObservation res" where
  "observation_failed p diagnostic = NativeTransportProbeObservation_init
     \<lparr>tpo_transport_id = tpr_transport_id p, tpo_provider_id = provider_id p,
      tpo_state = NPS_FAILED, tpo_metrics = None, tpo_diagnostic = Some diagnostic\<rparr>"

lemma require_bounded_integer_iff [res_simps]:
  "require_bounded_integer f v n = Inr u \<longleftrightarrow> 0 \<le> v \<and> v \<le> n"
  by (simp add: require_bounded_integer_def)

section \<open>Summary of probe samples\<close>

definition matching_probe_samples ::
    "NativeTransportProvider \<Rightarrow> NativeTransportProbeSample list \<Rightarrow> NativeTransportProbeSample list" where
  "matching_probe_samples provider samples =
     filter (\<lambda>s. tps_provider_id s = provider_id provider \<and>
       tps_transport_id s = tpr_transport_id provider) samples"

text \<open>The values are sorted first; the two middle values are averaged without a sum.\<close>

definition transport_median :: "int list \<Rightarrow> int" where
  "transport_median vals =
     (let vals = sort vals; upper = length vals div 2
      in if length vals mod 2 \<noteq> 0 then vals ! upper
         else let lower_value = vals ! (upper - 1)
              in lower_value + (vals ! upper - lower_value) div 2)"

definition sample_successful :: "NativeTransportProbeSample \<Rightarrow> bool" where
  "sample_successful s \<longleftrightarrow>
     \<not> tps_failed s \<and> \<not> tps_timed_out s \<and> tps_rtt_us s \<noteq> None \<and> 0 < tps_elapsed_us s"

definition sample_throughput :: "NativeTransportProbeSample \<Rightarrow> int" where
  "sample_throughput s =
     min (min (tps_bytes_sent s + tps_bytes_received s) u64_max * 1000000 div tps_elapsed_us s) u64_max"

definition summarize_probe_samples ::
    "NativeTransportProbeSample list \<Rightarrow> NativeTransportProbeMetrics option res" where
  "summarize_probe_samples matching =
     (let successful = filter sample_successful matching
      in if successful = [] then Inr None
         else let throughputs = map sample_throughput successful;
                  rtts = List.map_filter tps_rtt_us successful
              in bind_res (NativeTransportProbeMetrics_init
                   \<lparr>npm_sample_count = min (len matching) u32_max,
                    npm_success_count = min (len successful) u32_max,
                    npm_median_throughput_bytes_per_sec = transport_median throughputs,
                    npm_median_rtt_us = transport_median rtts\<rparr>) (\<lambda>m. Inr (Some m)))"

definition summarize_native_provider_probe ::
    "NativeTransportProvider \<Rightarrow> NativeTransportProbeSample list \<Rightarrow> NativeTransportProbeMetrics option res" where
  "summarize_native_provider_probe provider samples =
     summarize_probe_samples (matching_probe_samples provider samples)"

fun probe_observations_from_samples ::
    "NativeTransportProvider list \<Rightarrow> NativeTransportProbeSample list
      \<Rightarrow> NativeTransportProbeObservation list res" where
  "probe_observations_from_samples [] samples = Inr []"
| "probe_observations_from_samples (p # ps) samples =
     (let matching = matching_probe_samples p samples
      in if matching = [] then probe_observations_from_samples ps samples
         else bind_res (summarize_probe_samples matching) (\<lambda>metrics.
              bind_res (case metrics of
                  None \<Rightarrow> observation_failed p ''transport probe failed''
                | Some m \<Rightarrow> observation_succeeded p m) (\<lambda>b.
              bind_res (probe_observations_from_samples ps samples) (\<lambda>bs. Inr (b # bs)))))"

text \<open>
  The median lies between bounds of the values, so it needs no more bits than they do; the
  average of the middle values never leaves that range.
\<close>

lemma transport_median_bounds:
  assumes "vals \<noteq> []" "\<And>v. v \<in> set vals \<Longrightarrow> lo \<le> v \<and> v \<le> hi"
  shows "lo \<le> transport_median vals \<and> transport_median vals \<le> hi"
proof -
  let ?s = "sort vals" and ?u = "length (sort vals) div 2"
  have u: "?u < length ?s" "?u - 1 < length ?s"
    using assms(1) by (cases vals; simp)+
  have b: "lo \<le> ?s ! i \<and> ?s ! i \<le> hi" if "i < length ?s" for i
    using assms(2) [of "?s ! i"] nth_mem [OF that] by simp
  have "?s ! (?u - 1) \<le> ?s ! ?u"
    by (rule sorted_nth_mono) (use u in auto)
  then have "?s ! (?u - 1) \<le> ?s ! (?u - 1) + (?s ! ?u - ?s ! (?u - 1)) div 2 \<and>
      ?s ! (?u - 1) + (?s ! ?u - ?s ! (?u - 1)) div 2 \<le> ?s ! ?u"
    by linarith
  then show ?thesis
    using b [OF u(1)] b [OF u(2)] by (auto simp: transport_median_def Let_def)
qed

text \<open>
  The summary of valid samples never raises: its numbers pass the checks of
  \<open>NativeTransportProbeMetrics\<close>.  It is \<open>None\<close> exactly when no sample succeeded.
\<close>

lemma summarize_valid:
  assumes "\<And>s. s \<in> set ss \<Longrightarrow> NativeTransportProbeSample_init s = Inr s"
  shows "summarize_probe_samples ss =
    (if list_ex sample_successful ss
     then Inr (Some
       \<lparr>npm_sample_count = min (len ss) u32_max,
        npm_success_count = min (len (filter sample_successful ss)) u32_max,
        npm_median_throughput_bytes_per_sec =
          transport_median (map sample_throughput (filter sample_successful ss)),
        npm_median_rtt_us =
          transport_median (List.map_filter tps_rtt_us (filter sample_successful ss))\<rparr>)
     else Inr None)"
proof -
  let ?ok = "filter sample_successful ss"
  have n: "len ?ok \<le> len ss" by simp
  have ok: "0 \<le> sample_throughput s \<and> sample_throughput s \<le> u64_max"
      "\<exists>r. tps_rtt_us s = Some r \<and> 0 \<le> r \<and> r \<le> u64_max" if "s \<in> set ?ok" for s
  proof -
    from that have s: "NativeTransportProbeSample_init s = Inr s" "sample_successful s"
      using assms by auto
    then have "0 \<le> tps_bytes_sent s" "0 \<le> tps_bytes_received s" "0 < tps_elapsed_us s"
      by (auto simp: NativeTransportProbeSample_init_def res_simps sample_successful_def
          split: if_splits option.splits)
    then show "0 \<le> sample_throughput s \<and> sample_throughput s \<le> u64_max"
      by (simp add: sample_throughput_def pos_imp_zdiv_nonneg_iff)
    show "\<exists>r. tps_rtt_us s = Some r \<and> 0 \<le> r \<and> r \<le> u64_max"
      using s by (auto simp: NativeTransportProbeSample_init_def res_simps sample_successful_def
          split: if_splits option.splits)
  qed
  show ?thesis
  proof (cases "?ok = []")
    case True
    then show ?thesis
      by (auto simp: summarize_probe_samples_def list_ex_iff filter_empty_conv)
  next
    case False
    have "List.map_filter tps_rtt_us ?ok \<noteq> []"
      using False ok(2) [of "hd ?ok"] by (cases ?ok) (auto simp: map_filter_def)
    moreover have "0 \<le> v \<and> v \<le> u64_max" if "v \<in> set (List.map_filter tps_rtt_us ?ok)" for v
      using that ok(2) by (fastforce simp: map_filter_def)
    ultimately have r: "0 \<le> transport_median (List.map_filter tps_rtt_us ?ok) \<and>
        transport_median (List.map_filter tps_rtt_us ?ok) \<le> u64_max"
      by (rule transport_median_bounds)
    have t: "0 \<le> transport_median (map sample_throughput ?ok) \<and>
        transport_median (map sample_throughput ?ok) \<le> u64_max"
      using False ok(1) by (intro transport_median_bounds) auto
    have "1 \<le> len ?ok" using False by (cases ?ok) simp_all
    then have counts: "1 \<le> min (len ?ok) u32_max" "min (len ?ok) u32_max \<le> min (len ss) u32_max"
        "0 \<le> min (len ?ok) u32_max" "0 \<le> min (len ss) u32_max" "min (len ss) u32_max \<noteq> 0"
        "min (len ?ok) u32_max \<le> u32_max" "min (len ss) u32_max \<le> u32_max"
      using n by linarith+
    have "list_ex sample_successful ss" using False by (auto simp: list_ex_iff filter_empty_conv)
    then show ?thesis
      using False r t counts
      by (simp add: summarize_probe_samples_def Let_def NativeTransportProbeMetrics_init_def
          require_bounded_integer_def)
  qed
qed

end
