(* ===== verification/Transport_Selection.thy ===== *)
theory Transport_Selection
  imports Transport_Evidence "HOL-Library.List_Lexorder" "HOL-Library.Char_ord"
    "HOL-Library.Product_Lexorder" "HOL-Library.Multiset"
begin

text \<open>
  The selection of a transport provider in \<open>native.py\<close>: the candidates and why each is
  rejected, the comparison of the probed ones, the selection, and every exception it may raise.

  The comparison is a total order when the providers use one cost model; then the selected
  provider does not depend on the order of the registry.  With several cost models it is not
  transitive (\<open>comparison_cycle\<close>).
\<close>

section \<open>Candidates\<close>

datatype NativeTransportRejectionReason = NRR_POLICY_DISALLOWED | NRR_LOCAL_UNAVAILABLE
  | NRR_PEER_UNSUPPORTED | NRR_LIMIT_EXCEEDED | NRR_ROUTE_UNRESOLVED | NRR_SECURITY_UNSATISFIED
  | NRR_PROBE_MISSING | NRR_PROBE_FAILED

record NativeTransportCandidateDiagnostic =
  tcd_transport_id :: TransportId
  tcd_provider :: NativeTransportProviderMetadata
  tcd_local_available :: bool
  tcd_peer_supported :: bool
  tcd_within_limits :: bool
  tcd_probe_state :: NativeTransportProbeState
  tcd_probe :: "NativeTransportProbeMetrics option"
  tcd_selection_rank :: "int option"
  tcd_rejection_reason :: "NativeTransportRejectionReason option"
  tcd_diagnostic :: "string option"

definition NativeTransportCandidateDiagnostic_init ::
    "NativeTransportCandidateDiagnostic \<Rightarrow> NativeTransportCandidateDiagnostic res" where
  "NativeTransportCandidateDiagnostic_init c =
     (if \<not> selectable (tcd_transport_id c)
      then ve ''transport_id must identify a selectable transport''
      else if tcd_probe_state c = NPS_SUCCEEDED \<and> tcd_probe c = None
      then ve ''succeeded probe_state requires probe metrics''
      else if tcd_probe_state c \<noteq> NPS_SUCCEEDED \<and> tcd_probe c \<noteq> None
      then ve ''probe metrics require succeeded probe_state''
      else case tcd_selection_rank c of
          None \<Rightarrow> Inr c
        | Some r \<Rightarrow> bind_res (require_bounded_integer ''selection_rank'' r u32_max) (\<lambda>_.
            if tcd_rejection_reason c \<noteq> None
            then ve ''rejected candidates must not have selection_rank'' else Inr c))"

type_synonym candidate = "NativeTransportProvider \<times> NativeTransportCandidateDiagnostic"

record NativeTransportSelection =
  tsel_selected_provider :: NativeTransportProvider
  tsel_candidates :: "NativeTransportCandidateDiagnostic list"
  tsel_policy :: TransportPolicy
  tsel_diagnostic :: "string option"

record NativeTransportSelectionOptions =
  tso_peer_supported_transports :: "TransportId list"
  tso_policy :: TransportPolicy
  tso_requested_max_frame_bytes :: "int option"
  tso_candidate_readiness :: "NativeTransportCandidateReadiness list"
  tso_probe_observations :: "NativeTransportProbeObservation list"

definition NativeTransportSelectionOptions_init ::
    "NativeTransportSelectionOptions \<Rightarrow> NativeTransportSelectionOptions res" where
  "NativeTransportSelectionOptions_init n =
     (if list_ex (\<lambda>t. \<not> selectable t) (tso_peer_supported_transports n)
      then ve ''peer_supported_transports must contain selectable transport IDs''
      else bind_res (case tso_requested_max_frame_bytes n of
          None \<Rightarrow> Inr ()
        | Some b \<Rightarrow> require_bounded_integer ''requested_max_frame_bytes'' b u64_max) (\<lambda>_. Inr n))"

section \<open>Errors\<close>

text \<open>
  \<open>NativeTransportSelectionError\<close> with its fields, an exception of a class's own checks, and
  the two exceptions of \<open>next\<close> without a default and of the missing probe.
\<close>

datatype NativeTransportSelectionErrorCode = NSE_INVALID_EVIDENCE
  | NSE_FORCED_TRANSPORT_UNAVAILABLE | NSE_NO_VIABLE_TRANSPORT

datatype selection_exn =
    SelectionError NativeTransportSelectionErrorCode string "TransportPolicy option"
      "TransportId option" "NativeTransportCandidateDiagnostic list"
  | CheckError exn
  | StopIteration
  | AssertionError string

definition bind_sel :: "selection_exn + 'a \<Rightarrow> ('a \<Rightarrow> selection_exn + 'b) \<Rightarrow> selection_exn + 'b" where
  "bind_sel m k = (case m of Inl e \<Rightarrow> Inl e | Inr x \<Rightarrow> k x)"

definition checked :: "'a res \<Rightarrow> selection_exn + 'a" where
  "checked m = (case m of Inl e \<Rightarrow> Inl (CheckError e) | Inr x \<Rightarrow> Inr x)"

fun map_sel :: "('a \<Rightarrow> selection_exn + 'b) \<Rightarrow> 'a list \<Rightarrow> selection_exn + 'b list" where
  "map_sel f [] = Inr []"
| "map_sel f (x # xs) = bind_sel (f x) (\<lambda>y. bind_sel (map_sel f xs) (\<lambda>ys. Inr (y # ys)))"

definition invalid_evidence :: "string \<Rightarrow> selection_exn + 'a" where
  "invalid_evidence diagnostic = Inl (SelectionError NSE_INVALID_EVIDENCE diagnostic None None [])"

section \<open>Evidence\<close>

definition provider_key :: "NativeTransportProvider \<Rightarrow> TransportId \<times> string" where
  "provider_key p = (tpr_transport_id p, provider_id p)"

abbreviation readiness_key :: "NativeTransportCandidateReadiness \<Rightarrow> TransportId \<times> string" where
  "readiness_key r \<equiv> (tcr_transport_id r, tcr_provider_id r)"

abbreviation observation_key :: "NativeTransportProbeObservation \<Rightarrow> TransportId \<times> string" where
  "observation_key b \<equiv> (tpo_transport_id b, tpo_provider_id b)"

definition matching_candidate_readiness ::
    "NativeTransportProvider \<Rightarrow> NativeTransportCandidateReadiness list
      \<Rightarrow> selection_exn + NativeTransportCandidateReadiness" where
  "matching_candidate_readiness p readiness =
     (case find (\<lambda>r. readiness_key r = provider_key p) readiness of
        None \<Rightarrow> Inl StopIteration | Some r \<Rightarrow> Inr r)"

definition matching_probe_observation ::
    "NativeTransportProvider \<Rightarrow> NativeTransportProbeObservation list
      \<Rightarrow> NativeTransportProbeObservation option" where
  "matching_probe_observation p observations =
     find (\<lambda>b. observation_key b = provider_key p) observations"

definition validate_selection_evidence ::
    "NativeTransportProvider list \<Rightarrow> NativeTransportCandidateReadiness list
      \<Rightarrow> NativeTransportProbeObservation list \<Rightarrow> selection_exn + unit" where
  "validate_selection_evidence providers readiness observations =
     (let transport_ids = map tpr_transport_id providers;
          provider_ids = map provider_id providers;
          provider_keys = set (map provider_key providers);
          readiness_keys = map readiness_key readiness;
          observation_keys = map observation_key observations
      in if card (set transport_ids) \<noteq> length transport_ids \<or>
            card (set provider_ids) \<noteq> length provider_ids
         then invalid_evidence ''provider registry contains duplicate identifiers''
         else if list_ex (\<lambda>k. k \<notin> provider_keys) readiness_keys
         then invalid_evidence ''candidate readiness contains an unmatched provider key''
         else if card (set readiness_keys) \<noteq> length readiness_keys
         then invalid_evidence ''candidate readiness contains a duplicate provider key''
         else if set readiness_keys \<noteq> provider_keys
         then invalid_evidence ''candidate readiness must contain one record for every provider''
         else if list_ex (\<lambda>k. k \<notin> provider_keys) observation_keys
         then invalid_evidence ''probe observations contain an unmatched provider key''
         else if card (set observation_keys) \<noteq> length observation_keys
         then invalid_evidence ''probe observations contain a duplicate provider key''
         else Inr ())"

section \<open>Policy\<close>

fun forced_transport_name :: "TransportPolicy \<Rightarrow> string option" where
  "forced_transport_name TP_FORCE_QUIC = Some ''quic''"
| "forced_transport_name TP_FORCE_TCP = Some ''tcp''"
| "forced_transport_name TP_FORCE_IPC = Some ''ipc''"
| "forced_transport_name TP_FORCE_WEBSOCKET = Some ''websocket''"
| "forced_transport_name _ = None"

abbreviation transport_name :: "NativeTransportProvider \<Rightarrow> string option" where
  "transport_name p \<equiv> NATIVE_TRANSPORT_NAME_BY_ID (tpr_transport_id p)"

definition policy_allows :: "TransportPolicy \<Rightarrow> string option \<Rightarrow> bool" where
  "policy_allows policy name \<longleftrightarrow>
     forced_transport_name policy = None \<or> forced_transport_name policy = name"

fun preferred_transport :: "TransportPolicy \<Rightarrow> string option" where
  "preferred_transport TP_PREFER_QUIC = Some ''quic''"
| "preferred_transport TP_PREFER_TCP = Some ''tcp''"
| "preferred_transport TP_PREFER_IPC = Some ''ipc''"
| "preferred_transport TP_PREFER_WEBSOCKET = Some ''websocket''"
| "preferred_transport _ = None"

definition transport_is_preferred :: "TransportPolicy \<Rightarrow> string option \<Rightarrow> bool" where
  "transport_is_preferred policy name \<longleftrightarrow>
     preferred_transport policy \<noteq> None \<and> preferred_transport policy = name"

section \<open>Evaluation\<close>

text \<open>
  One candidate for each provider.  \<open>availability\<close> and \<open>diagnostics\<close> are the two optional
  dictionaries, by provider id.
\<close>

definition candidate_rejection ::
    "TransportPolicy \<Rightarrow> string option \<Rightarrow> bool \<Rightarrow> bool \<Rightarrow> bool \<Rightarrow> NativeTransportCandidateReadiness
      \<Rightarrow> NativeTransportRejectionReason option" where
  "candidate_rejection policy name local_available peer_supported within_limits readiness =
     (if \<not> policy_allows policy name then Some NRR_POLICY_DISALLOWED
      else if \<not> local_available then Some NRR_LOCAL_UNAVAILABLE
      else if \<not> peer_supported then Some NRR_PEER_UNSUPPORTED
      else if \<not> within_limits then Some NRR_LIMIT_EXCEEDED
      else if \<not> tcr_route_resolved readiness then Some NRR_ROUTE_UNRESOLVED
      else if \<not> tcr_security_satisfied readiness then Some NRR_SECURITY_UNSATISFIED
      else None)"

definition evaluate_candidate ::
    "string option set \<Rightarrow> NativeTransportSelectionOptions \<Rightarrow> (string \<Rightarrow> bool option)
      \<Rightarrow> (string \<Rightarrow> string option) \<Rightarrow> NativeTransportProvider \<Rightarrow> selection_exn + candidate" where
  "evaluate_candidate supported options availability diagnostics p =
     bind_sel (matching_candidate_readiness p (tso_candidate_readiness options)) (\<lambda>readiness.
     let local_available = (case availability (provider_id p) of None \<Rightarrow> True | Some b \<Rightarrow> b);
         peer_supported = transport_name p \<in> supported;
         within_limits = (case tso_requested_max_frame_bytes options of
             None \<Rightarrow> True
           | Some n \<Rightarrow> n \<le> pli_max_frame_bytes (pmd_limits (tpr_metadata p)))
     in bind_sel (checked (NativeTransportCandidateDiagnostic_init
          \<lparr>tcd_transport_id = tpr_transport_id p, tcd_provider = tpr_metadata p,
           tcd_local_available = local_available, tcd_peer_supported = peer_supported,
           tcd_within_limits = within_limits, tcd_probe_state = NPS_NOT_RUN, tcd_probe = None,
           tcd_selection_rank = None,
           tcd_rejection_reason = candidate_rejection (tso_policy options) (transport_name p)
             local_available peer_supported within_limits readiness,
           tcd_diagnostic = (if \<not> local_available then diagnostics (provider_id p)
             else tcr_diagnostic readiness)\<rparr>)) (\<lambda>c. Inr (p, c)))"

definition evaluate_candidates ::
    "NativeTransportProvider list \<Rightarrow> string option set \<Rightarrow> NativeTransportSelectionOptions
      \<Rightarrow> (string \<Rightarrow> bool option) \<Rightarrow> (string \<Rightarrow> string option) \<Rightarrow> selection_exn + candidate list" where
  "evaluate_candidates providers supported options availability diagnostics =
     map_sel (evaluate_candidate supported options availability diagnostics) providers"

text \<open>
  The probe of an eligible candidate: its observation decides, and a candidate without one is
  rejected too.
\<close>

definition probe_candidate ::
    "NativeTransportProbeObservation list \<Rightarrow> candidate \<Rightarrow> selection_exn + candidate" where
  "probe_candidate observations = (\<lambda>(p, c).
     bind_sel (checked (NativeTransportCandidateDiagnostic_init
       (case matching_probe_observation p observations of
          Some b \<Rightarrow>
            if tpo_state b = NPS_SUCCEEDED
            then c\<lparr>tcd_probe_state := NPS_SUCCEEDED, tcd_probe := tpo_metrics b,
                   tcd_diagnostic := tpo_diagnostic b\<rparr>
            else c\<lparr>tcd_probe_state := NPS_FAILED,
                   tcd_rejection_reason := Some NRR_PROBE_FAILED,
                   tcd_diagnostic := tpo_diagnostic b\<rparr>
        | None \<Rightarrow>
            c\<lparr>tcd_probe_state := NPS_MISSING, tcd_rejection_reason := Some NRR_PROBE_MISSING\<rparr>)))
       (\<lambda>c'. Inr (p, c')))"

section \<open>Comparison\<close>

definition compare_values :: "'a::linorder \<Rightarrow> 'a \<Rightarrow> int" where
  "compare_values l r = of_bool (r < l) - of_bool (l < r)"

definition compare_cost :: "NativeTransportProviderCost \<Rightarrow> NativeTransportProviderCost \<Rightarrow> int" where
  "compare_cost l r =
     (if pco_model_id l \<noteq> 0 \<and> pco_model_id l = pco_model_id r
      then compare_values (pco_units l) (pco_units r) else 0)"

text \<open>\<open>next((c for c in comparisons if c), 0)\<close>: the first comparison that decides.\<close>

definition first_nonzero :: "int list \<Rightarrow> int" where
  "first_nonzero cs = (case find (\<lambda>c. truthy c) cs of None \<Rightarrow> 0 | Some c \<Rightarrow> c)"

definition compare_probed ::
    "TransportPolicy \<Rightarrow> NativeTransportProvider \<Rightarrow> NativeTransportProbeMetrics
      \<Rightarrow> NativeTransportProvider \<Rightarrow> NativeTransportProbeMetrics \<Rightarrow> int" where
  "compare_probed policy lp lm rp rm = first_nonzero
     [compare_values (npm_success_count rm) (npm_success_count lm),
      compare_values (npm_median_throughput_bytes_per_sec rm) (npm_median_throughput_bytes_per_sec lm),
      compare_values (npm_median_rtt_us lm) (npm_median_rtt_us rm),
      compare_cost (pmd_cost (tpr_metadata lp)) (pmd_cost (tpr_metadata rp)),
      compare_values (if transport_is_preferred policy (transport_name lp) then 0 else 1 :: int)
        (if transport_is_preferred policy (transport_name rp) then 0 else 1),
      compare_values (pmd_preference_rank (tpr_metadata lp)) (pmd_preference_rank (tpr_metadata rp)),
      compare_values (TransportId_int (tpr_transport_id lp)) (TransportId_int (tpr_transport_id rp)),
      compare_values (provider_id lp) (provider_id rp)]"

text \<open>
  The comparison of two entries of the candidate list, and the stable sort of \<open>list.sort\<close> by
  it.  The sort is an insertion sort from the right; any sort of the standard library gives the
  same list where the comparison is a total preorder.  A sort of two or more entries compares
  every one, so a missing probe is an \<open>AssertionError\<close> then.
\<close>

definition compare_entries :: "TransportPolicy \<Rightarrow> candidate list \<Rightarrow> nat \<Rightarrow> nat \<Rightarrow> int" where
  "compare_entries policy cs i j =
     compare_probed policy (fst (cs ! i)) (the (tcd_probe (snd (cs ! i))))
       (fst (cs ! j)) (the (tcd_probe (snd (cs ! j))))"

fun insert_last :: "('a \<Rightarrow> 'a \<Rightarrow> int) \<Rightarrow> 'a \<Rightarrow> 'a list \<Rightarrow> 'a list" where
  "insert_last cmp x [] = [x]"
| "insert_last cmp x (y # ys) = (if cmp x y < 0 then y # insert_last cmp x ys else x # y # ys)"

definition cmp_sort :: "('a \<Rightarrow> 'a \<Rightarrow> int) \<Rightarrow> 'a list \<Rightarrow> 'a list" where
  "cmp_sort cmp xs = rev (fold (insert_last cmp) xs [])"

definition sort_entries :: "TransportPolicy \<Rightarrow> candidate list \<Rightarrow> nat list \<Rightarrow> selection_exn + nat list" where
  "sort_entries policy cs indexes =
     (if 2 \<le> length indexes \<and> list_ex (\<lambda>i. tcd_probe (snd (cs ! i)) = None) indexes
      then Inl (AssertionError ''successful candidates must carry probe metrics'')
      else Inr (cmp_sort (compare_entries policy cs) indexes))"

section \<open>Selection\<close>

definition ordered_diagnostics :: "candidate list \<Rightarrow> NativeTransportCandidateDiagnostic list" where
  "ordered_diagnostics cs =
     map snd (sort_key (\<lambda>(p, c). (tcd_selection_rank c = None,
       case tcd_selection_rank c of Some r \<Rightarrow> r | None \<Rightarrow> TransportId_int (tcd_transport_id c),
       if tcd_selection_rank c \<noteq> None then '''' else pmd_id (tcd_provider c))) cs)"

text \<open>The name of a forced transport is the name of this transport.\<close>

fun NATIVE_TRANSPORT_ID_BY_NAME :: "string \<Rightarrow> TransportId option" where
  "NATIVE_TRANSPORT_ID_BY_NAME name =
     map_of [(''quic'', TI_QUIC), (''tcp'', TI_TCP), (''ipc'', TI_IPC), (''websocket'', TI_WEBSOCKET)] name"

definition selection_error ::
    "TransportPolicy \<Rightarrow> NativeTransportCandidateDiagnostic list \<Rightarrow> selection_exn" where
  "selection_error policy candidates =
     (case forced_transport_name policy of
        Some forced \<Rightarrow>
          (case find (\<lambda>c. NATIVE_TRANSPORT_NAME_BY_ID (tcd_transport_id c) = Some forced) candidates of
             Some c \<Rightarrow>
               if tcd_rejection_reason c \<noteq> None
               then SelectionError NSE_FORCED_TRANSPORT_UNAVAILABLE
                 ''forced native transport rejected'' (Some policy) (Some (tcd_transport_id c)) candidates
               else SelectionError NSE_FORCED_TRANSPORT_UNAVAILABLE
                 ''forced native transport is not available'' (Some policy)
                 (NATIVE_TRANSPORT_ID_BY_NAME forced) candidates
           | None \<Rightarrow> SelectionError NSE_FORCED_TRANSPORT_UNAVAILABLE
                 ''forced native transport is not available'' (Some policy)
                 (NATIVE_TRANSPORT_ID_BY_NAME forced) candidates)
      | None \<Rightarrow> SelectionError NSE_NO_VIABLE_TRANSPORT
          ''no viable native transport provider after applying policy and remote support''
          (Some policy) None candidates)"

definition rank_candidate :: "int \<Rightarrow> candidate \<Rightarrow> selection_exn + candidate" where
  "rank_candidate rank = (\<lambda>(p, c).
     bind_sel (checked (NativeTransportCandidateDiagnostic_init (c\<lparr>tcd_selection_rank := Some rank\<rparr>)))
       (\<lambda>c'. Inr (p, c')))"

text \<open>\<open>candidates[i] = f(candidates[i])\<close> for each \<open>i\<close> of a list, with its position in the list.\<close>

fun update_entries ::
    "(int \<Rightarrow> candidate \<Rightarrow> selection_exn + candidate) \<Rightarrow> int \<Rightarrow> nat list \<Rightarrow> candidate list
      \<Rightarrow> selection_exn + candidate list" where
  "update_entries f k [] cs = Inr cs"
| "update_entries f k (i # is) cs =
     bind_sel (f k (cs ! i)) (\<lambda>c. update_entries f (k + 1) is (cs[i := c]))"

definition indexes_where :: "(NativeTransportCandidateDiagnostic \<Rightarrow> bool) \<Rightarrow> candidate list \<Rightarrow> nat list" where
  "indexes_where P cs = filter (\<lambda>i. P (snd (cs ! i))) [0 ..< length cs]"

definition select_from_providers ::
    "NativeTransportProvider list \<Rightarrow> NativeTransportSelectionOptions \<Rightarrow> (string \<Rightarrow> bool option)
      \<Rightarrow> (string \<Rightarrow> string option) \<Rightarrow> selection_exn + NativeTransportSelection" where
  "select_from_providers providers options availability diagnostics =
     (let supported = set (map NATIVE_TRANSPORT_NAME_BY_ID (tso_peer_supported_transports options));
          policy = tso_policy options
      in bind_sel (validate_selection_evidence providers (tso_candidate_readiness options)
           (tso_probe_observations options)) (\<lambda>_.
         bind_sel (evaluate_candidates providers supported options availability diagnostics) (\<lambda>cs.
         case indexes_where (\<lambda>c. tcd_rejection_reason c = None) cs of
           [i] \<Rightarrow>
             bind_sel (rank_candidate 0 (cs ! i)) (\<lambda>c.
             Inr \<lparr>tsel_selected_provider = fst (cs ! i),
                  tsel_candidates = ordered_diagnostics (cs[i := c]), tsel_policy = policy,
                  tsel_diagnostic = Some ''single eligible native transport selected directly''\<rparr>)
         | eligible \<Rightarrow>
             bind_sel (update_entries (\<lambda>_. probe_candidate (tso_probe_observations options)) 0
               eligible cs) (\<lambda>cs.
             bind_sel (sort_entries policy cs
               (indexes_where (\<lambda>c. tcd_probe_state c = NPS_SUCCEEDED) cs)) (\<lambda>successful.
             bind_sel (update_entries rank_candidate 0 successful cs) (\<lambda>cs.
             case successful of
               [] \<Rightarrow> Inl (selection_error policy (ordered_diagnostics cs))
             | best # _ \<Rightarrow>
                 Inr \<lparr>tsel_selected_provider = fst (cs ! best),
                      tsel_candidates = ordered_diagnostics cs, tsel_policy = policy,
                      tsel_diagnostic =
                        Some ''native transport selected by deterministic probe ordering''\<rparr>))))))"

section \<open>Lists of entries\<close>

lemma bind_sel_simps [simp]:
  "bind_sel (Inl e) k = Inl e" "bind_sel (Inr x) k = k x" "checked (Inr x) = Inr x"
  by (simp_all add: bind_sel_def checked_def)

lemma map_sel_Inr: "list_all2 (\<lambda>x y. f x = Inr y) xs ys \<Longrightarrow> map_sel f xs = Inr ys"
  by (induction rule: list_all2_induct) simp_all

lemma map_sel_total: "(\<And>x. x \<in> set xs \<Longrightarrow> f x = Inr (g x)) \<Longrightarrow> map_sel f xs = Inr (map g xs)"
  by (induction xs) simp_all

lemma update_entriesE:
  assumes "distinct is" "\<And>i. i \<in> set is \<Longrightarrow> i < length cs"
    "\<And>j. j < length is \<Longrightarrow> \<exists>c. f (k + int j) (cs ! (is ! j)) = Inr c"
  obtains cs' where "update_entries f k is cs = Inr cs'" "length cs' = length cs"
    "\<And>i. i \<notin> set is \<Longrightarrow> cs' ! i = cs ! i"
    "\<And>j. j < length is \<Longrightarrow> f (k + int j) (cs ! (is ! j)) = Inr (cs' ! (is ! j))"
  using assms
proof (induction "is" arbitrary: k cs thesis)
  case Nil
  then show ?case by simp
next
  case (Cons i "is")
  obtain c where c: "f k (cs ! i) = Inr c" using Cons.prems(4) [of 0] by auto
  let ?cs = "cs[i := c]"
  have other: "?cs ! x = cs ! x" if "x \<in> set is" for x
    using that Cons.prems(2) by (intro nth_list_update_neq) auto
  have step: "\<exists>d. f ((k + 1) + int j) (?cs ! (is ! j)) = Inr d" if "j < length is" for j
    using Cons.prems(4) [of "Suc j"] that other [of "is ! j"] by (simp add: algebra_simps)
  obtain cs' where cs': "update_entries f (k + 1) is ?cs = Inr cs'" "length cs' = length ?cs"
    "\<And>x. x \<notin> set is \<Longrightarrow> cs' ! x = ?cs ! x"
    "\<And>j. j < length is \<Longrightarrow> f ((k + 1) + int j) (?cs ! (is ! j)) = Inr (cs' ! (is ! j))"
    using Cons.IH [of "k + 1" ?cs] Cons.prems(2,3) step by auto
  show ?case
  proof (rule Cons.prems(1))
    show "update_entries f k (i # is) cs = Inr cs'" by (simp add: c cs'(1))
    show "length cs' = length cs" using cs'(2) by simp
    show "cs' ! x = cs ! x" if "x \<notin> set (i # is)" for x using that cs'(3) by auto
    show "f (k + int j) (cs ! ((i # is) ! j)) = Inr (cs' ! ((i # is) ! j))"
      if "j < length (i # is)" for j
    proof (cases j)
      case 0
      have "i \<notin> set is" "i < length cs" using Cons.prems(2,3) by auto
      then show ?thesis using 0 c cs'(3) by simp
    next
      case (Suc m)
      then show ?thesis using cs'(4) [of m] that other [of "is ! m"] by (simp add: algebra_simps)
    qed
  qed
qed

lemma filter_indexes: "filter P xs = map (nth xs) (filter (\<lambda>i. P (xs ! i)) [0 ..< length xs])"
proof -
  have "filter P (map (nth xs) [0 ..< length xs]) = map (nth xs) (filter (P \<circ> nth xs) [0 ..< length xs])"
    by (rule filter_map)
  then show ?thesis by (simp add: map_nth o_def)
qed

subsection \<open>Sorting by a comparison\<close>

lemma set_insert_last [simp]: "set (insert_last cmp x ys) = insert x (set ys)"
  by (induction ys) auto

lemma mset_insert_last [simp]: "mset (insert_last cmp x ys) = add_mset x (mset ys)"
  by (induction ys) auto

lemma mset_cmp_sort [simp]: "mset (cmp_sort cmp xs) = mset xs"
proof -
  have "mset (fold (insert_last cmp) xs ys) = mset xs + mset ys" for ys
    by (induction xs arbitrary: ys) simp_all
  then show ?thesis by (simp add: cmp_sort_def)
qed

lemma set_cmp_sort [simp]: "set (cmp_sort cmp xs) = set xs"
  by (metis mset_cmp_sort set_mset_mset)

lemma length_cmp_sort [simp]: "length (cmp_sort cmp xs) = length xs"
  by (metis mset_cmp_sort size_mset)

lemma distinct_cmp_sort [simp]: "distinct (cmp_sort cmp xs) \<longleftrightarrow> distinct xs"
  by (rule mset_eq_imp_distinct_iff) simp

lemma cmp_sort_map:
  assumes "\<And>x y. x \<in> set xs \<Longrightarrow> y \<in> set xs \<Longrightarrow> cmp' (f x) (f y) = cmp x y"
  shows "cmp_sort cmp' (map f xs) = map f (cmp_sort cmp xs)"
proof -
  have ins: "insert_last cmp' (f x) (map f ys) = map f (insert_last cmp x ys)"
    if "x \<in> set xs" "set ys \<subseteq> set xs" for x ys
    using that by (induction ys) (auto simp: assms)
  have "fold (insert_last cmp') (map f zs) (map f ys) = map f (fold (insert_last cmp) zs ys)"
    if "set zs \<subseteq> set xs" "set ys \<subseteq> set xs" for zs ys
    using that by (induction zs arbitrary: ys) (simp_all add: ins)
  from this [of xs "[]"] show ?thesis by (simp add: cmp_sort_def rev_map)
qed

text \<open>
  A comparison that is a total preorder on a set: a list of its elements is sorted by it.
\<close>

locale comparison =
  fixes cmp :: "'a \<Rightarrow> 'a \<Rightarrow> int"
    and S :: "'a set"
  assumes swap: "x \<in> S \<Longrightarrow> y \<in> S \<Longrightarrow> cmp x y < 0 \<longleftrightarrow> 0 < cmp y x"
    and trans: "x \<in> S \<Longrightarrow> y \<in> S \<Longrightarrow> z \<in> S \<Longrightarrow> cmp x y \<le> 0 \<Longrightarrow> cmp y z \<le> 0 \<Longrightarrow> cmp x z \<le> 0"
begin

lemma insert_last_sorted:
  "x \<in> S \<Longrightarrow> set ys \<subseteq> S \<Longrightarrow> sorted_wrt (\<lambda>a b. cmp b a \<le> 0) ys \<Longrightarrow>
    sorted_wrt (\<lambda>a b. cmp b a \<le> 0) (insert_last cmp x ys)"
proof (induction ys)
  case (Cons y ys)
  show ?case
  proof (cases "cmp x y < 0")
    case True
    then show ?thesis using Cons by auto
  next
    case False
    then have "cmp y x \<le> 0" using swap [of x y] swap [of y x] Cons.prems by auto
    then show ?thesis
      using False Cons.prems trans [of _ y x] by auto
  qed
qed simp

lemma cmp_sort_sorted:
  assumes "set xs \<subseteq> S"
  shows "sorted_wrt (\<lambda>a b. cmp a b \<le> 0) (cmp_sort cmp xs)"
proof -
  have "sorted_wrt (\<lambda>a b. cmp b a \<le> 0) (fold (insert_last cmp) xs ys)"
    if "set xs \<subseteq> S" "set ys \<subseteq> S" "sorted_wrt (\<lambda>a b. cmp b a \<le> 0) ys" for ys
    using that by (induction xs arbitrary: ys) (auto simp: insert_last_sorted)
  from this [of "[]"] show ?thesis
    using assms by (simp add: cmp_sort_def sorted_wrt_rev)
qed

lemma cmp_sort_first:
  "set xs \<subseteq> S \<Longrightarrow> cmp_sort cmp xs = x # ys \<Longrightarrow> y \<in> set xs \<Longrightarrow> y \<noteq> x \<Longrightarrow> cmp x y \<le> 0"
  using cmp_sort_sorted [of xs] set_cmp_sort [of cmp xs] by auto

end

end
