(* ===== verification/Selection_Correctness.thy ===== *)
theory Selection_Correctness
  imports Transport_Selection
begin

text \<open>
  What the selection of \<open>Transport_Selection\<close> promises.  The specification \<open>best_provider\<close>
  speaks of providers only: the eligible ones, and of several the first by the comparison among
  those whose probe succeeded.  \<open>selection_refines\<close> shows that the code, with its indices,
  updates and checked records, selects that provider and raises only the documented errors.
\<close>

section \<open>Specification\<close>

definition eligible ::
    "NativeTransportSelectionOptions \<Rightarrow> (string \<Rightarrow> bool option) \<Rightarrow> NativeTransportProvider \<Rightarrow> bool" where
  "eligible options availability p \<longleftrightarrow>
     policy_allows (tso_policy options) (transport_name p) \<and>
     availability (provider_id p) \<noteq> Some False \<and>
     tpr_transport_id p \<in> set (tso_peer_supported_transports options) \<and>
     (case tso_requested_max_frame_bytes options of
        None \<Rightarrow> True | Some n \<Rightarrow> n \<le> pli_max_frame_bytes (pmd_limits (tpr_metadata p))) \<and>
     list_ex (\<lambda>r. readiness_key r = provider_key p \<and> tcr_route_resolved r \<and> tcr_security_satisfied r)
       (tso_candidate_readiness options)"

definition probe_result ::
    "NativeTransportSelectionOptions \<Rightarrow> NativeTransportProvider \<Rightarrow> NativeTransportProbeMetrics option" where
  "probe_result options p =
     (case matching_probe_observation p (tso_probe_observations options) of
        None \<Rightarrow> None | Some b \<Rightarrow> if tpo_state b = NPS_SUCCEEDED then tpo_metrics b else None)"

definition compare_providers ::
    "NativeTransportSelectionOptions \<Rightarrow> NativeTransportProvider \<Rightarrow> NativeTransportProvider \<Rightarrow> int" where
  "compare_providers options p q =
     compare_probed (tso_policy options) p (the (probe_result options p)) q (the (probe_result options q))"

definition contenders ::
    "NativeTransportSelectionOptions \<Rightarrow> (string \<Rightarrow> bool option) \<Rightarrow> NativeTransportProvider list
      \<Rightarrow> NativeTransportProvider list" where
  "contenders options availability ps =
     filter (\<lambda>p. probe_result options p \<noteq> None) (filter (eligible options availability) ps)"

definition best_provider ::
    "NativeTransportSelectionOptions \<Rightarrow> (string \<Rightarrow> bool option) \<Rightarrow> NativeTransportProvider list
      \<Rightarrow> NativeTransportProvider option" where
  "best_provider options availability ps =
     (case filter (eligible options availability) ps of
        [p] \<Rightarrow> Some p
      | _ \<Rightarrow> (case cmp_sort (compare_providers options) (contenders options availability ps) of
               [] \<Rightarrow> None | p # _ \<Rightarrow> Some p))"

section \<open>Evidence\<close>

lemma card_set_length: "card (set xs) = length xs \<longleftrightarrow> distinct xs"
  by (metis card_distinct distinct_card)

lemma evidence_iff:
  "validate_selection_evidence ps rd obs = Inr u \<longleftrightarrow>
     distinct (map tpr_transport_id ps) \<and> distinct (map provider_id ps) \<and>
     distinct (map readiness_key rd) \<and> set (map readiness_key rd) = set (map provider_key ps) \<and>
     distinct (map observation_key obs) \<and> set (map observation_key obs) \<subseteq> set (map provider_key ps)"
  unfolding validate_selection_evidence_def Let_def invalid_evidence_def card_set_length list_ex_iff
  by (simp del: set_map) blast

lemma evidence_error:
  "validate_selection_evidence ps rd obs = Inl e \<Longrightarrow>
     \<exists>d. e = SelectionError NSE_INVALID_EVIDENCE d None None []"
  by (auto simp: validate_selection_evidence_def Let_def invalid_evidence_def split: if_splits)

lemma few_providers: "distinct (map tpr_transport_id ps) \<Longrightarrow> length ps \<le> 5"
proof -
  assume d: "distinct (map tpr_transport_id ps)"
  have u: "(UNIV :: TransportId set) = {TI_UNSPECIFIED, TI_QUIC, TI_TCP, TI_IPC, TI_WEBSOCKET}"
    using TransportId.exhaust by blast
  have "length ps = card (set (map tpr_transport_id ps))"
    using distinct_card [OF d] by simp
  also have "\<dots> \<le> card (UNIV :: TransportId set)"
    by (intro card_mono subset_UNIV) (simp only: u finite.intros)
  also have "\<dots> = 5" by (simp add: u)
  finally show ?thesis .
qed

lemma transport_name_inject [simp]:
  "NATIVE_TRANSPORT_NAME_BY_ID t = NATIVE_TRANSPORT_NAME_BY_ID t' \<longleftrightarrow> t = t'"
  by (cases t; cases t') auto

section \<open>Candidates\<close>

definition diagnoses :: "NativeTransportProvider \<Rightarrow> NativeTransportCandidateDiagnostic \<Rightarrow> bool" where
  "diagnoses p c \<longleftrightarrow> tcd_transport_id c = tpr_transport_id p \<and> tcd_provider c = tpr_metadata p"

definition fresh ::
    "NativeTransportSelectionOptions \<Rightarrow> (string \<Rightarrow> bool option) \<Rightarrow> NativeTransportProvider
      \<Rightarrow> NativeTransportCandidateDiagnostic \<Rightarrow> bool" where
  "fresh options availability p c \<longleftrightarrow> diagnoses p c \<and> tcd_probe_state c = NPS_NOT_RUN \<and>
     tcd_probe c = None \<and> tcd_selection_rank c = None \<and>
     (tcd_rejection_reason c = None \<longleftrightarrow> eligible options availability p)"

definition probed ::
    "NativeTransportSelectionOptions \<Rightarrow> NativeTransportProvider
      \<Rightarrow> NativeTransportCandidateDiagnostic \<Rightarrow> bool" where
  "probed options p c \<longleftrightarrow> diagnoses p c \<and> tcd_selection_rank c = None \<and>
     tcd_probe c = probe_result options p \<and>
     (tcd_probe_state c = NPS_SUCCEEDED \<longleftrightarrow> probe_result options p \<noteq> None) \<and>
     (tcd_probe_state c = NPS_SUCCEEDED \<longrightarrow> tcd_rejection_reason c = None)"

lemma evaluate_candidate_fresh:
  assumes "selectable (tpr_transport_id p)" "distinct (map readiness_key (tso_candidate_readiness options))"
    "provider_key p \<in> set (map readiness_key (tso_candidate_readiness options))"
  shows "\<exists>c. evaluate_candidate (set (map NATIVE_TRANSPORT_NAME_BY_ID (tso_peer_supported_transports options)))
    options availability diagnostics p = Inr (p, c) \<and> fresh options availability p c"
proof -
  let ?rd = "tso_candidate_readiness options"
  let ?names = "set (map NATIVE_TRANSPORT_NAME_BY_ID (tso_peer_supported_transports options))"
  obtain r where r: "find (\<lambda>r. readiness_key r = provider_key p) ?rd = Some r"
    using assms(3) by (cases "find (\<lambda>r. readiness_key r = provider_key p) ?rd")
      (auto simp: find_None_iff)
  then have key: "readiness_key r = provider_key p" "r \<in> set ?rd"
    by (auto simp: find_Some_iff)
  have uniq: "r' = r" if "r' \<in> set ?rd" "readiness_key r' = provider_key p" for r'
  proof -
    have "readiness_key r' = readiness_key r" using that(2) key(1) by simp
    then show ?thesis
      using that(1) key(2) assms(2) unfolding distinct_map by (meson inj_onD)
  qed
  have ready: "list_ex (\<lambda>r. readiness_key r = provider_key p \<and> tcr_route_resolved r \<and>
      tcr_security_satisfied r) ?rd \<longleftrightarrow> tcr_route_resolved r \<and> tcr_security_satisfied r"
    unfolding list_ex_iff using key uniq by metis
  have peer: "transport_name p \<in> set (map NATIVE_TRANSPORT_NAME_BY_ID (tso_peer_supported_transports options))
      \<longleftrightarrow> tpr_transport_id p \<in> set (tso_peer_supported_transports options)"
    by auto
  have avail: "(case availability (provider_id p) of None \<Rightarrow> True | Some b \<Rightarrow> b) \<longleftrightarrow>
      availability (provider_id p) \<noteq> Some False"
    by (auto split: option.splits)
  define local_available where
    "local_available = (case availability (provider_id p) of None \<Rightarrow> True | Some b \<Rightarrow> b)"
  define within_limits where "within_limits = (case tso_requested_max_frame_bytes options of
      None \<Rightarrow> True | Some n \<Rightarrow> n \<le> pli_max_frame_bytes (pmd_limits (tpr_metadata p)))"
  define rejection where "rejection = candidate_rejection (tso_policy options) (transport_name p)
      local_available (transport_name p \<in> ?names) within_limits r"
  have rejection: "rejection = None \<longleftrightarrow> eligible options availability p"
    unfolding rejection_def eligible_def ready peer candidate_rejection_def
      avail [folded local_available_def, symmetric] within_limits_def [symmetric] by simp
  show ?thesis
    unfolding evaluate_candidate_def matching_candidate_readiness_def r option.case bind_sel_simps
      Let_def local_available_def [symmetric] within_limits_def [symmetric] rejection_def [symmetric]
    using assms(1) rejection
    by (simp add: NativeTransportCandidateDiagnostic_init_def fresh_def diagnoses_def)
qed

lemma succeeded_has_metrics:
  "NativeTransportProbeObservation_init b = Inr b \<Longrightarrow> tpo_state b = NPS_SUCCEEDED \<Longrightarrow>
    tpo_metrics b \<noteq> None"
  by (simp add: NativeTransportProbeObservation_init_def split: if_splits)

lemma probe_candidate_probed:
  assumes "fresh options availability p c" "eligible options availability p"
    "selectable (tpr_transport_id p)"
    "\<And>b. b \<in> set (tso_probe_observations options) \<Longrightarrow> NativeTransportProbeObservation_init b = Inr b"
  shows "\<exists>c'. probe_candidate (tso_probe_observations options) (p, c) = Inr (p, c') \<and> probed options p c'"
proof -
  have "tpo_metrics b \<noteq> None"
    if "matching_probe_observation p (tso_probe_observations options) = Some b" "tpo_state b = NPS_SUCCEEDED" for b
  proof -
    have "b \<in> set (tso_probe_observations options)"
      using that(1) by (auto simp: matching_probe_observation_def find_Some_iff)
    from assms(4) [OF this] that(2) show ?thesis
      by (rule succeeded_has_metrics)
  qed
  then show ?thesis
    using assms(1-3)
    by (auto simp: probe_candidate_def probed_def fresh_def diagnoses_def probe_result_def
        NativeTransportCandidateDiagnostic_init_def split: option.splits)
qed

lemma rank_candidate_ok:
  assumes "diagnoses p c" "selectable (tpr_transport_id p)" "0 \<le> k" "k \<le> 5"
    "tcd_rejection_reason c = None" "tcd_probe_state c = NPS_SUCCEEDED \<longleftrightarrow> tcd_probe c \<noteq> None"
  shows "rank_candidate k (p, c) = Inr (p, c\<lparr>tcd_selection_rank := Some k\<rparr>)"
  using assms
  by (auto simp: rank_candidate_def NativeTransportCandidateDiagnostic_init_def diagnoses_def
      require_bounded_integer_def)

text \<open>The diagnostics list every provider once, whatever their order.\<close>

lemma ordered_diagnostics_mset: "mset (ordered_diagnostics cs) = mset (map snd cs)"
  by (simp add: ordered_diagnostics_def mset_map)

lemma diagnostics_of_providers:
  assumes "length cs = length ps" "\<And>i. i < length ps \<Longrightarrow> diagnoses (ps ! i) (snd (cs ! i))"
  shows "mset (map tcd_provider (ordered_diagnostics cs)) = mset (map tpr_metadata ps)"
proof -
  have "map tcd_provider (map snd cs) = map tpr_metadata ps"
    using assms by (intro nth_equalityI) (auto simp: diagnoses_def)
  then show ?thesis
    by (metis mset_map ordered_diagnostics_mset)
qed

section \<open>Refinement\<close>

text \<open>
  The hypotheses of the following lemmas: the objects are built by their constructors, and the
  evidence is accepted.
\<close>

definition valid_inputs :: "NativeTransportProvider list \<Rightarrow> NativeTransportSelectionOptions \<Rightarrow> bool" where
  "valid_inputs ps options \<longleftrightarrow>
     list_all (\<lambda>p. NativeTransportProvider_init p = Inr p) ps \<and>
     list_all (\<lambda>b. NativeTransportProbeObservation_init b = Inr b) (tso_probe_observations options)"

lemma valid_inputs_D:
  assumes "valid_inputs ps options"
  shows "p \<in> set ps \<Longrightarrow> selectable (tpr_transport_id p)"
    "b \<in> set (tso_probe_observations options) \<Longrightarrow> NativeTransportProbeObservation_init b = Inr b"
  using assms
  by (auto simp: valid_inputs_def list_all_iff NativeTransportProvider_init_def split: if_splits)

lemma evaluated:
  assumes "valid_inputs ps options"
    "validate_selection_evidence ps (tso_candidate_readiness options) obs = Inr ()"
  obtains cs where "evaluate_candidates ps
      (set (map NATIVE_TRANSPORT_NAME_BY_ID (tso_peer_supported_transports options))) options av dg = Inr cs"
    "length cs = length ps" "\<And>i. i < length ps \<Longrightarrow> fst (cs ! i) = ps ! i \<and> fresh options av (ps ! i) (snd (cs ! i))"
proof -
  let ?f = "evaluate_candidate (set (map NATIVE_TRANSPORT_NAME_BY_ID
    (tso_peer_supported_transports options))) options av dg"
  have "\<forall>p \<in> set ps. \<exists>c. ?f p = Inr (p, c) \<and> fresh options av p c"
    using assms valid_inputs_D(1) [OF assms(1)]
    by (intro ballI evaluate_candidate_fresh) (simp_all add: evidence_iff)
  then obtain g where g: "\<And>p. p \<in> set ps \<Longrightarrow> ?f p = Inr (p, g p) \<and> fresh options av p (g p)"
    by metis
  show thesis
  proof (rule that)
    show "evaluate_candidates ps (set (map NATIVE_TRANSPORT_NAME_BY_ID
        (tso_peer_supported_transports options))) options av dg = Inr (map (\<lambda>p. (p, g p)) ps)"
      unfolding evaluate_candidates_def by (rule map_sel_total) (use g in blast)
  qed (simp_all add: g)
qed

lemma probed_entries:
  fixes E
  assumes "valid_inputs ps options" "length cs = length ps"
    "\<And>i. i < length ps \<Longrightarrow> fst (cs ! i) = ps ! i \<and> fresh options av (ps ! i) (snd (cs ! i))"
  defines "E \<equiv> filter (\<lambda>i. eligible options av (ps ! i)) [0 ..< length ps]"
  obtains cs' where "update_entries (\<lambda>_. probe_candidate (tso_probe_observations options)) 0 E cs = Inr cs'"
    "length cs' = length ps"
    "\<And>i. i < length ps \<Longrightarrow> fst (cs' ! i) = ps ! i \<and>
       (if i \<in> set E then probed options (ps ! i) (snd (cs' ! i))
        else fresh options av (ps ! i) (snd (cs' ! i)))"
proof -
  have E: "distinct E" "\<And>i. i \<in> set E \<longleftrightarrow> i < length ps \<and> eligible options av (ps ! i)"
    by (auto simp: E_def)
  have step: "\<exists>c'. probe_candidate (tso_probe_observations options) (cs ! i) = Inr (ps ! i, c') \<and>
      probed options (ps ! i) c'" if "i \<in> set E" for i
  proof -
    have i: "i < length ps" "eligible options av (ps ! i)" using that E(2) by auto
    have "cs ! i = (ps ! i, snd (cs ! i))" using assms(3) [OF i(1)] by (metis prod.collapse)
    moreover have "\<exists>c'. probe_candidate (tso_probe_observations options) (ps ! i, snd (cs ! i)) =
        Inr (ps ! i, c') \<and> probed options (ps ! i) c'"
      using assms(3) [OF i(1)] i valid_inputs_D [OF assms(1)]
      by (intro probe_candidate_probed) simp_all
    ultimately show ?thesis by simp
  qed
  obtain cs' where cs': "update_entries (\<lambda>_. probe_candidate (tso_probe_observations options)) 0 E cs = Inr cs'"
    "length cs' = length cs" "\<And>i. i \<notin> set E \<Longrightarrow> cs' ! i = cs ! i"
    "\<And>j. j < length E \<Longrightarrow> probe_candidate (tso_probe_observations options) (cs ! (E ! j)) = Inr (cs' ! (E ! j))"
  proof (rule update_entriesE [of E cs "\<lambda>_. probe_candidate (tso_probe_observations options)" 0])
    show "distinct E" by (rule E(1))
    show "i < length cs" if "i \<in> set E" for i using that E(2) assms(2) by simp
    show "\<exists>c. probe_candidate (tso_probe_observations options) (cs ! (E ! j)) = Inr c" if "j < length E" for j
      using step [of "E ! j"] that by auto
  qed blast
  show thesis
  proof (rule that [OF cs'(1)])
    show "length cs' = length ps" using cs'(2) assms(2) by simp
    fix i assume i: "i < length ps"
    show "fst (cs' ! i) = ps ! i \<and> (if i \<in> set E then probed options (ps ! i) (snd (cs' ! i))
        else fresh options av (ps ! i) (snd (cs' ! i)))"
    proof (cases "i \<in> set E")
      case True
      then obtain j where "j < length E" "i = E ! j" by (metis in_set_conv_nth)
      then show ?thesis using cs'(4) [of j] step [OF True] True by auto
    next
      case False
      then show ?thesis using cs'(3) [OF False] assms(3) [OF i] by simp
    qed
  qed
qed

lemma ranked_entries:
  assumes "valid_inputs ps options" "length cs = length ps" "length ps \<le> 5" "distinct is"
    "\<And>i. i < length ps \<Longrightarrow> fst (cs ! i) = ps ! i \<and> diagnoses (ps ! i) (snd (cs ! i))"
    "\<And>i. i \<in> set is \<Longrightarrow> i < length ps \<and> probed options (ps ! i) (snd (cs ! i)) \<and>
      probe_result options (ps ! i) \<noteq> None"
  obtains cs' where "update_entries rank_candidate 0 is cs = Inr cs'" "length cs' = length ps"
    "\<And>i. i < length ps \<Longrightarrow> fst (cs' ! i) = ps ! i \<and> diagnoses (ps ! i) (snd (cs' ! i))"
proof -
  have short: "length is \<le> 5"
  proof -
    have "set is \<subseteq> {0 ..< length ps}" using assms(6) by auto
    then have "card (set is) \<le> length ps" using card_mono [of "{0 ..< length ps}" "set is"] by simp
    then show ?thesis using assms(3,4) by (simp add: distinct_card)
  qed
  have step: "rank_candidate (0 + int j) (cs ! (is ! j)) =
      Inr (ps ! (is ! j), snd (cs ! (is ! j))\<lparr>tcd_selection_rank := Some (int j)\<rparr>)"
    if "j < length is" for j
  proof -
    let ?i = "is ! j"
    have i: "?i < length ps" "probed options (ps ! ?i) (snd (cs ! ?i))" "probe_result options (ps ! ?i) \<noteq> None"
      using assms(6) [of ?i] that by auto
    have pair: "cs ! ?i = (ps ! ?i, snd (cs ! ?i))" using assms(5) [OF i(1)] by (metis prod.collapse)
    have "rank_candidate (int j) (ps ! ?i, snd (cs ! ?i)) =
        Inr (ps ! ?i, snd (cs ! ?i)\<lparr>tcd_selection_rank := Some (int j)\<rparr>)"
      using i valid_inputs_D(1) [OF assms(1), of "ps ! ?i"] that short
      by (intro rank_candidate_ok) (auto simp: probed_def)
    then show ?thesis by (subst pair) simp
  qed
  obtain cs' where cs': "update_entries rank_candidate 0 is cs = Inr cs'" "length cs' = length cs"
    "\<And>i. i \<notin> set is \<Longrightarrow> cs' ! i = cs ! i"
    "\<And>j. j < length is \<Longrightarrow> rank_candidate (0 + int j) (cs ! (is ! j)) = Inr (cs' ! (is ! j))"
  proof (rule update_entriesE [of "is" cs rank_candidate 0])
    show "i < length cs" if "i \<in> set is" for i using assms(2,6) that by simp
    show "\<exists>c. rank_candidate (0 + int j) (cs ! (is ! j)) = Inr c" if "j < length is" for j
      using step [OF that] by blast
  qed (use assms(4) in blast)+
  show thesis
  proof (rule that [OF cs'(1)])
    show "length cs' = length ps" using cs'(2) assms(2) by simp
    fix i assume i: "i < length ps"
    show "fst (cs' ! i) = ps ! i \<and> diagnoses (ps ! i) (snd (cs' ! i))"
    proof (cases "i \<in> set is")
      case True
      then obtain j where j: "j < length is" "i = is ! j" by (metis in_set_conv_nth)
      have "cs' ! i = (ps ! i, snd (cs ! i)\<lparr>tcd_selection_rank := Some (int j)\<rparr>)"
        using cs'(4) [OF j(1)] step [OF j(1)] j(2) by simp
      then show ?thesis using assms(5) [OF i] by (simp add: diagnoses_def)
    next
      case False
      then show ?thesis using cs'(3) [OF False] assms(5) [OF i] by simp
    qed
  qed
qed

text \<open>
  The selection returns the best provider of the specification, with a diagnostic for every
  provider of the registry; without one it raises the selection error of the policy.
\<close>

lemma selection_refines:
  assumes "valid_inputs ps options"
    and ev: "validate_selection_evidence ps (tso_candidate_readiness options)
      (tso_probe_observations options) = Inr ()"
  shows "case best_provider options av ps of
      Some p \<Rightarrow> \<exists>s. select_from_providers ps options av dg = Inr s \<and> tsel_selected_provider s = p \<and>
        tsel_policy s = tso_policy options \<and>
        mset (map tcd_provider (tsel_candidates s)) = mset (map tpr_metadata ps)
    | None \<Rightarrow> \<exists>cs. select_from_providers ps options av dg =
          Inl (selection_error (tso_policy options) cs) \<and>
        mset (map tcd_provider cs) = mset (map tpr_metadata ps)"
proof -
  define E where "E = filter (\<lambda>i. eligible options av (ps ! i)) [0 ..< length ps]"
  have E: "\<And>i. i \<in> set E \<longleftrightarrow> i < length ps \<and> eligible options av (ps ! i)"
    by (auto simp: E_def)
  have filter_E: "filter (eligible options av) ps = map (nth ps) E"
    unfolding E_def by (rule filter_indexes)
  obtain cs where cs: "evaluate_candidates ps
      (set (map NATIVE_TRANSPORT_NAME_BY_ID (tso_peer_supported_transports options))) options av dg = Inr cs"
    "length cs = length ps"
    "\<And>i. i < length ps \<Longrightarrow> fst (cs ! i) = ps ! i \<and> fresh options av (ps ! i) (snd (cs ! i))"
    using evaluated [OF assms] by blast
  have idx: "indexes_where (\<lambda>c. tcd_rejection_reason c = None) cs = E"
    unfolding indexes_where_def E_def cs(2) using cs(3) by (intro filter_cong) (auto simp: fresh_def)
  have few: "length ps \<le> 5" by (rule few_providers) (use ev in \<open>simp only: evidence_iff\<close>)
  show ?thesis
  proof (cases "length E = 1")
    case True
    then obtain i where i: "E = [i]" by (auto simp: length_Suc_conv)
    then have "i < length ps" "eligible options av (ps ! i)" using E by auto
    note iE = this cs(3) [OF this(1)]
    let ?c = "snd (cs ! i)\<lparr>tcd_selection_rank := Some 0\<rparr>"
    have pair: "cs ! i = (ps ! i, snd (cs ! i))" using iE(3) by (metis prod.collapse)
    have "rank_candidate 0 (ps ! i, snd (cs ! i)) = Inr (ps ! i, ?c)"
      using iE valid_inputs_D(1) [OF assms(1), of "ps ! i"]
      by (intro rank_candidate_ok) (auto simp: fresh_def)
    then have "rank_candidate 0 (cs ! i) = Inr (ps ! i, ?c)" by (subst pair)
    then have "select_from_providers ps options av dg = Inr
        \<lparr>tsel_selected_provider = ps ! i,
         tsel_candidates = ordered_diagnostics (cs[i := (ps ! i, ?c)]),
         tsel_policy = tso_policy options,
         tsel_diagnostic = Some ''single eligible native transport selected directly''\<rparr>"
      using iE(3) by (simp add: select_from_providers_def Let_def ev cs(1) [simplified] idx i)
    moreover have "mset (map tcd_provider (ordered_diagnostics (cs[i := (ps ! i, ?c)]))) =
        mset (map tpr_metadata ps)"
      using cs(2,3) iE(1) by (intro diagnostics_of_providers)
        (auto simp: nth_list_update fresh_def diagnoses_def)
    moreover have "best_provider options av ps = Some (ps ! i)"
      by (simp add: best_provider_def filter_E i)
    ultimately show ?thesis by simp
  next
    case False
    obtain cs1 where cs1: "update_entries (\<lambda>_. probe_candidate (tso_probe_observations options)) 0 E cs = Inr cs1"
      "length cs1 = length ps"
      "\<And>i. i < length ps \<Longrightarrow> fst (cs1 ! i) = ps ! i \<and>
       (if i \<in> set E then probed options (ps ! i) (snd (cs1 ! i))
        else fresh options av (ps ! i) (snd (cs1 ! i)))"
      using probed_entries [OF assms(1) cs(2,3)] unfolding E_def by blast
    define S where "S = filter (\<lambda>i. probe_result options (ps ! i) \<noteq> None) E"
    have S: "i < length ps \<and> probed options (ps ! i) (snd (cs1 ! i)) \<and> probe_result options (ps ! i) \<noteq> None"
      if "i \<in> set S" for i
      using that E cs1(3) [of i] by (auto simp: S_def)
    have state: "tcd_probe_state (snd (cs1 ! i)) = NPS_SUCCEEDED \<longleftrightarrow>
        eligible options av (ps ! i) \<and> probe_result options (ps ! i) \<noteq> None" if "i < length ps" for i
      using cs1(3) [OF that] E [of i] that
      by (cases "eligible options av (ps ! i)") (auto simp: fresh_def probed_def)
    have idx1: "indexes_where (\<lambda>c. tcd_probe_state c = NPS_SUCCEEDED) cs1 = S"
      unfolding indexes_where_def S_def E_def cs1(2) filter_filter
      using state by (intro filter_cong) auto
    have filter_S: "contenders options av ps = map (nth ps) S"
      by (simp add: contenders_def filter_E filter_map o_def S_def)
    let ?sorted = "cmp_sort (compare_entries (tso_policy options) cs1) S"
    have sorted: "sort_entries (tso_policy options) cs1 S = Inr ?sorted"
      using S by (auto simp: sort_entries_def list_ex_iff probed_def)
    have spec: "cmp_sort (compare_providers options) (contenders options av ps) = map (nth ps) ?sorted"
      unfolding filter_S
    proof (rule cmp_sort_map)
      fix i j assume "i \<in> set S" "j \<in> set S"
      then show "compare_providers options (ps ! i) (ps ! j) = compare_entries (tso_policy options) cs1 i j"
        using S [of i] S [of j] cs1(3) [of i] cs1(3) [of j]
        by (simp add: compare_providers_def compare_entries_def probed_def)
    qed
    obtain cs2 where cs2: "update_entries rank_candidate 0 ?sorted cs1 = Inr cs2" "length cs2 = length ps"
      "\<And>i. i < length ps \<Longrightarrow> fst (cs2 ! i) = ps ! i \<and> diagnoses (ps ! i) (snd (cs2 ! i))"
    proof (rule ranked_entries [OF assms(1) cs1(2) few, of ?sorted])
      show "distinct ?sorted" by (simp add: S_def E_def)
      show "fst (cs1 ! i) = ps ! i \<and> diagnoses (ps ! i) (snd (cs1 ! i))" if "i < length ps" for i
        using cs1(3) [OF that] by (auto simp: fresh_def probed_def split: if_splits)
      show "i < length ps \<and> probed options (ps ! i) (snd (cs1 ! i)) \<and> probe_result options (ps ! i) \<noteq> None"
        if "i \<in> set ?sorted" for i using that S by simp
    qed blast
    have diag: "mset (map tcd_provider (ordered_diagnostics cs2)) = mset (map tpr_metadata ps)"
      using cs2(2,3) by (intro diagnostics_of_providers) simp_all
    have select: "select_from_providers ps options av dg =
        (case ?sorted of
           [] \<Rightarrow> Inl (selection_error (tso_policy options) (ordered_diagnostics cs2))
         | best # _ \<Rightarrow> Inr \<lparr>tsel_selected_provider = fst (cs2 ! best),
             tsel_candidates = ordered_diagnostics cs2, tsel_policy = tso_policy options,
             tsel_diagnostic = Some ''native transport selected by deterministic probe ordering''\<rparr>)"
    proof (cases E rule: remdups_adj.cases)
      case 1
      show ?thesis
        by (simp only: select_from_providers_def Let_def ev cs(1) bind_sel_simps idx 1 list.case
            cs1(1) [unfolded 1] idx1 sorted cs2(1))
    next
      case (2 i)
      then show ?thesis using False by simp
    next
      case (3 i j l)
      show ?thesis
        by (simp only: select_from_providers_def Let_def ev cs(1) bind_sel_simps idx 3 list.case
            cs1(1) [unfolded 3] idx1 sorted cs2(1))
    qed
    have best: "best_provider options av ps =
        (case ?sorted of [] \<Rightarrow> None | i # _ \<Rightarrow> Some (ps ! i))"
      using False by (cases E rule: remdups_adj.cases)
        (simp_all add: best_provider_def spec filter_E split: list.split)
    show ?thesis
    proof (cases ?sorted)
      case Nil
      then show ?thesis using select best diag by auto
    next
      case (Cons i "is")
      then have "i < length ps" using S [of i] set_cmp_sort [of _ S] by (metis list.set_intros(1))
      then show ?thesis using Cons select best diag cs2(3) [of i] by auto
    qed
  qed
qed

lemma selection_invalid:
  assumes "validate_selection_evidence ps (tso_candidate_readiness options)
      (tso_probe_observations options) = Inl e"
  shows "\<exists>d. select_from_providers ps options av dg =
    Inl (SelectionError NSE_INVALID_EVIDENCE d None None [])"
  using evidence_error [OF assms] by (auto simp: select_from_providers_def Let_def assms)

text \<open>No check of a class and neither of the two unexpected exceptions can be raised.\<close>

lemma selection_error_is: "\<exists>code d pol tid cs'. selection_error policy cs = SelectionError code d pol tid cs'"
  unfolding selection_error_def by (auto split: option.split)

lemma selection_errors:
  assumes "valid_inputs ps options" "select_from_providers ps options av dg = Inl e"
  shows "\<exists>code d pol tid cs. e = SelectionError code d pol tid cs"
proof (cases "validate_selection_evidence ps (tso_candidate_readiness options)
      (tso_probe_observations options)")
  case (Inl e')
  then show ?thesis using selection_invalid [OF Inl, of av dg] assms(2) by auto
next
  case (Inr u)
  have "\<exists>cs. select_from_providers ps options av dg = Inl (selection_error (tso_policy options) cs)"
  proof (cases "best_provider options av ps")
    case None
    then show ?thesis using selection_refines [OF assms(1), of av dg] Inr by auto
  next
    case (Some p)
    then show ?thesis using selection_refines [OF assms(1), of av dg] Inr assms(2) by simp
  qed
  then show ?thesis using selection_error_is assms(2) by (metis sum.inject(1))
qed

section \<open>One cost model: the best provider\<close>

text \<open>
  When two providers use the same cost model, the comparison is the lexicographic order of
  these keys: more successes, more throughput, a shorter round trip, a lower cost, the preferred
  transport, then the fixed ranks.
\<close>

abbreviation cost_model :: "NativeTransportProvider \<Rightarrow> int" where
  "cost_model p \<equiv> pco_model_id (pmd_cost (tpr_metadata p))"

definition probed_key ::
    "TransportPolicy \<Rightarrow> NativeTransportProvider \<Rightarrow> NativeTransportProbeMetrics
      \<Rightarrow> int \<times> int \<times> int \<times> int \<times> int \<times> int \<times> int \<times> string" where
  "probed_key policy p m =
     (- npm_success_count m, - npm_median_throughput_bytes_per_sec m, npm_median_rtt_us m,
      if cost_model p = 0 then 0 else pco_units (pmd_cost (tpr_metadata p)),
      if transport_is_preferred policy (transport_name p) then 0 else 1,
      pmd_preference_rank (tpr_metadata p), TransportId_int (tpr_transport_id p), provider_id p)"

lemma compare_values_simps [simp]:
  "compare_values l r < 0 \<longleftrightarrow> l < r" "0 < compare_values l r \<longleftrightarrow> r < l"
  "compare_values l r \<le> 0 \<longleftrightarrow> l \<le> r" "compare_values l r = 0 \<longleftrightarrow> l = r"
  by (auto simp: compare_values_def of_bool_def)

lemma compare_values_refl [simp]: "compare_values l l = 0"
  by simp

lemma compare_values_minus: "compare_values (- l) (- r) = compare_values (r :: int) l"
  by (simp add: compare_values_def)

lemma compare_values_pair:
  "compare_values (a, b) (c, d) = (if a = c then compare_values b d else compare_values a c)"
  by (auto simp: compare_values_def less_prod_def less_le)

lemma first_nonzero_simps:
  "first_nonzero [] = 0"
  "first_nonzero (compare_values l r # cs) = (if l = r then first_nonzero cs else compare_values l r)"
  by (simp_all add: first_nonzero_def)

lemma compare_cost_same:
  "pco_model_id l = pco_model_id r \<Longrightarrow> compare_cost l r =
    compare_values (if pco_model_id l = 0 then 0 else pco_units l)
      (if pco_model_id r = 0 then 0 else pco_units r)"
  by (simp add: compare_cost_def compare_values_def)

lemma compare_probed_key:
  assumes "cost_model p = cost_model q"
  shows "compare_probed policy p m q n = compare_values (probed_key policy p m) (probed_key policy q n)"
  unfolding compare_probed_def probed_key_def compare_values_pair first_nonzero_simps
    compare_cost_same [OF assms]
    compare_values_minus [of "npm_success_count m", symmetric]
    compare_values_minus [of "npm_median_throughput_bytes_per_sec m", symmetric]
  by simp

interpretation sel: comparison "compare_providers options" "{p. cost_model p = model}" for options model
  by unfold_locales (auto simp: compare_providers_def compare_probed_key)

lemma compare_providers_eq:
  "cost_model p = cost_model q \<Longrightarrow> compare_providers options p q = 0 \<Longrightarrow>
    tpr_transport_id p = tpr_transport_id q"
  by (simp add: compare_providers_def compare_probed_key probed_key_def)

text \<open>The selected provider is eligible, and no successfully probed one compares less.\<close>

lemma best_provider_eligible:
  assumes "best_provider options av ps = Some p"
  shows "p \<in> set ps" "eligible options av p"
    "filter (eligible options av) ps = [p] \<or> probe_result options p \<noteq> None"
proof -
  let ?ok = "filter (eligible options av) ps"
  have "p \<in> set ?ok \<and> (?ok = [p] \<or> probe_result options p \<noteq> None)"
  proof (cases "length ?ok = 1")
    case True
    then obtain q where "?ok = [q]" by (auto simp: length_Suc_conv)
    then show ?thesis using assms by (auto simp: best_provider_def)
  next
    case False
    then obtain r where "cmp_sort (compare_providers options) (contenders options av ps) = p # r"
      using assms by (cases ?ok rule: remdups_adj.cases)
        (auto simp: best_provider_def split: list.splits)
    then have "p \<in> set (contenders options av ps)"
      using set_cmp_sort [of "compare_providers options" "contenders options av ps"]
      by (metis list.set_intros(1))
    then show ?thesis by (auto simp: contenders_def)
  qed
  then show "p \<in> set ps" "eligible options av p" "?ok = [p] \<or> probe_result options p \<noteq> None"
    by auto
qed

lemma best_provider_least:
  assumes "best_provider options av ps = Some p" "\<And>q. q \<in> set ps \<Longrightarrow> cost_model q = model"
    "q \<in> set (contenders options av ps)"
  shows "compare_providers options p q \<le> 0"
proof (cases "length (filter (eligible options av) ps) = 1")
  case True
  then obtain r where r: "filter (eligible options av) ps = [r]" by (auto simp: length_Suc_conv)
  then have "p = r" "q = r" using assms(1,3) by (auto simp: best_provider_def contenders_def split: if_splits)
  then show ?thesis by (simp add: compare_providers_def compare_probed_key)
next
  case False
  then obtain r where r: "cmp_sort (compare_providers options) (contenders options av ps) = p # r"
    using assms(1) by (cases "filter (eligible options av) ps" rule: remdups_adj.cases)
      (auto simp: best_provider_def split: list.splits)
  show ?thesis
  proof (cases "q = p")
    case True
    then show ?thesis by (simp add: compare_providers_def compare_probed_key)
  next
    case False
    have "set (contenders options av ps) \<subseteq> {p. cost_model p = model}"
      using assms(2) by (auto simp: contenders_def)
    then show ?thesis using r assms(3) False by (rule sel.cmp_sort_first)
  qed
qed

text \<open>The order of the registry does not matter.\<close>

lemma best_provider_None:
  "best_provider options av ps = None \<longleftrightarrow>
    contenders options av ps = [] \<and> length (filter (eligible options av) ps) \<noteq> 1"
proof -
  have "cmp_sort (compare_providers options) (contenders options av ps) = [] \<longleftrightarrow>
      contenders options av ps = []"
    by (metis length_0_conv length_cmp_sort)
  then show ?thesis
    by (cases "filter (eligible options av) ps" rule: remdups_adj.cases)
      (auto simp: best_provider_def split: list.splits)
qed

lemma best_provider_permuted:
  assumes "mset ps = mset ps'" "\<And>q. q \<in> set ps \<Longrightarrow> cost_model q = model"
    "distinct (map tpr_transport_id ps)"
  shows "best_provider options av ps = best_provider options av ps'"
proof -
  let ?ok = "filter (eligible options av)"
  have ok: "mset (?ok ps) = mset (?ok ps')" using assms(1) by (simp add: mset_filter)
  then have len: "length (?ok ps) = length (?ok ps')" by (metis size_mset)
  have cont: "mset (contenders options av ps) = mset (contenders options av ps')"
    using assms(1) by (simp add: contenders_def mset_filter)
  have set: "set ps = set ps'" by (rule mset_eq_setD [OF assms(1)])
  show ?thesis
  proof (cases "best_provider options av ps")
    case None
    then show ?thesis
      using len cont by (metis best_provider_None mset_zero_iff)
  next
    case (Some p)
    show ?thesis
    proof (cases "length (?ok ps) = 1")
      case True
      then obtain q where q: "?ok ps = [q]" by (auto simp: length_Suc_conv)
      then have "?ok ps' = [q]" using ok mset_single_iff [of "?ok ps'" q] by (metis mset_single_iff)
      then show ?thesis using q by (simp add: best_provider_def)
    next
      case False
      have "best_provider options av ps' \<noteq> None"
        using Some False len cont by (metis best_provider_None mset_zero_iff option.distinct(1))
      then obtain p' where p': "best_provider options av ps' = Some p'" by blast
      have mem: "p \<in> set (contenders options av ps)" "p' \<in> set (contenders options av ps)"
      proof -
        have "x \<in> set (contenders options av xs)"
          if "best_provider options av xs = Some x" "length (?ok xs) \<noteq> 1" for x xs
          using best_provider_eligible [OF that(1)] that(2) by (auto simp: contenders_def)
        from this [OF Some False] this [OF p'] len False mset_eq_setD [OF cont]
        show "p \<in> set (contenders options av ps)" "p' \<in> set (contenders options av ps)" by auto
      qed
      then have models: "cost_model p = model" "cost_model p' = model"
        using assms(2) by (simp_all add: contenders_def)
      have "compare_providers options p p' \<le> 0"
        by (rule best_provider_least [OF Some assms(2) mem(2)])
      moreover have "compare_providers options p' p \<le> 0"
        using best_provider_least [OF p', of model p] assms(2) mem(1) set mset_eq_setD [OF cont] by simp
      ultimately have "compare_providers options p p' = 0"
        using sel.swap [of p model p' options] models by simp
      moreover have "p \<in> set ps" "p' \<in> set ps" using mem by (auto simp: contenders_def)
      ultimately have "p = p'"
        using compare_providers_eq [of p p'] assms(2,3) by (auto simp: distinct_map inj_on_def)
      then show ?thesis using Some p' by simp
    qed
  qed
qed

lemma evidence_permuted:
  assumes "mset ps = mset ps'"
  shows "validate_selection_evidence ps rd obs = Inr u \<longleftrightarrow> validate_selection_evidence ps' rd obs = Inr u"
proof -
  have d: "distinct (map f ps) \<longleftrightarrow> distinct (map f ps')" for f :: "NativeTransportProvider \<Rightarrow> 'x"
    by (rule mset_eq_imp_distinct_iff) (simp add: assms)
  show ?thesis
    unfolding evidence_iff d set_map mset_eq_setD [OF assms] by (rule refl)
qed

lemma selection_order_independent:
  assumes "valid_inputs ps options" "mset ps = mset ps'"
    "\<And>p. p \<in> set ps \<Longrightarrow> cost_model p = model"
    "select_from_providers ps options av dg = Inr s"
  shows "\<exists>s'. select_from_providers ps' options av dg = Inr s' \<and>
    tsel_selected_provider s' = tsel_selected_provider s"
proof -
  have ev: "validate_selection_evidence ps (tso_candidate_readiness options)
      (tso_probe_observations options) = Inr ()"
    using selection_invalid [of ps options _ av dg] assms(4)
    by (cases "validate_selection_evidence ps (tso_candidate_readiness options)
      (tso_probe_observations options)") auto
  have ok': "valid_inputs ps' options"
    using assms(1) mset_eq_setD [OF assms(2)] by (simp add: valid_inputs_def list_all_iff)
  have best: "best_provider options av ps = best_provider options av ps'"
    by (rule best_provider_permuted [OF assms(2,3)]) (use ev in \<open>simp_all only: evidence_iff\<close>)
  note r = selection_refines [OF assms(1) ev, of av dg]
    selection_refines [OF ok' evidence_permuted [OF assms(2), THEN iffD1, OF ev], of av dg]
  show ?thesis
    using r assms(4) unfolding best by (cases "best_provider options av ps'") auto
qed

lemma selection_best:
  assumes "valid_inputs ps options" "select_from_providers ps options av dg = Inr s"
  shows "tsel_selected_provider s \<in> set ps" "eligible options av (tsel_selected_provider s)"
    "filter (eligible options av) ps = [tsel_selected_provider s] \<or>
      probe_result options (tsel_selected_provider s) \<noteq> None"
    "(\<And>p. p \<in> set ps \<Longrightarrow> cost_model p = model) \<Longrightarrow> q \<in> set (contenders options av ps) \<Longrightarrow>
      compare_providers options (tsel_selected_provider s) q \<le> 0"
    "mset (map tcd_provider (tsel_candidates s)) = mset (map tpr_metadata ps)"
proof -
  have ev: "validate_selection_evidence ps (tso_candidate_readiness options)
      (tso_probe_observations options) = Inr ()"
    using selection_invalid [of ps options _ av dg] assms(2)
    by (cases "validate_selection_evidence ps (tso_candidate_readiness options)
      (tso_probe_observations options)") auto
  note r = selection_refines [OF assms(1) ev, of av dg]
  have best: "best_provider options av ps = Some (tsel_selected_provider s)"
    using r assms(2) by (cases "best_provider options av ps") auto
  show "mset (map tcd_provider (tsel_candidates s)) = mset (map tpr_metadata ps)"
    using r assms(2) by (cases "best_provider options av ps") auto
  show "tsel_selected_provider s \<in> set ps" "eligible options av (tsel_selected_provider s)"
    "filter (eligible options av) ps = [tsel_selected_provider s] \<or>
      probe_result options (tsel_selected_provider s) \<noteq> None"
    by (fact best_provider_eligible [OF best])+
  show "(\<And>p. p \<in> set ps \<Longrightarrow> cost_model p = model) \<Longrightarrow> q \<in> set (contenders options av ps) \<Longrightarrow>
      compare_providers options (tsel_selected_provider s) q \<le> 0"
    by (rule best_provider_least [OF best])
qed

section \<open>Two cost models: a cycle\<close>

text \<open>
  Three providers whose probes were equally good.  TCP is cheaper than IPC in their common cost
  model; IPC ranks before QUIC and QUIC before TCP, with which they share no cost model.
\<close>

definition example_provider :: "string \<Rightarrow> TransportId \<Rightarrow> int \<Rightarrow> int \<Rightarrow> int \<Rightarrow> NativeTransportProvider" where
  "example_provider name tid model units rank =
     \<lparr>tpr_name = name, tpr_version = ''1'', tpr_transport_id = tid, tpr_kind = NPK_NATIVE_DYNAMIC,
      tpr_available = True, tpr_library_path = None,
      tpr_metadata = \<lparr>pmd_id = name, pmd_cost = \<lparr>pco_model_id = model, pco_units = units\<rparr>,
        pmd_preference_rank = rank, pmd_limits = \<lparr>pli_max_frame_bytes = 65536\<rparr>,
        pmd_limitations = []\<rparr>,
      tpr_diagnostic = None\<rparr>"

definition example_tcp :: NativeTransportProvider where
  "example_tcp = example_provider ''tcp'' TI_TCP 1 5 3"

definition example_quic :: NativeTransportProvider where
  "example_quic = example_provider ''quic'' TI_QUIC 2 5 2"

definition example_ipc :: NativeTransportProvider where
  "example_ipc = example_provider ''ipc'' TI_IPC 1 9 1"

definition example_options :: "NativeTransportProvider list \<Rightarrow> NativeTransportSelectionOptions" where
  "example_options ps =
     \<lparr>tso_peer_supported_transports = [TI_QUIC, TI_TCP, TI_IPC], tso_policy = TP_AUTO,
      tso_requested_max_frame_bytes = None,
      tso_candidate_readiness = map (\<lambda>p. \<lparr>tcr_transport_id = tpr_transport_id p,
        tcr_provider_id = provider_id p, tcr_route_resolved = True,
        tcr_security_satisfied = True, tcr_diagnostic = None\<rparr>) ps,
      tso_probe_observations = map (\<lambda>p. \<lparr>tpo_transport_id = tpr_transport_id p,
        tpo_provider_id = provider_id p, tpo_state = NPS_SUCCEEDED,
        tpo_metrics = Some \<lparr>npm_sample_count = 1, npm_success_count = 1,
          npm_median_throughput_bytes_per_sec = 1000, npm_median_rtt_us = 10\<rparr>,
        tpo_diagnostic = None\<rparr>) ps\<rparr>"

lemmas example_defs = example_provider_def example_tcp_def example_quic_def example_ipc_def
  example_options_def

lemma comparison_cycle:
  fixes options
  defines "options \<equiv> example_options [example_tcp, example_ipc, example_quic]"
  shows "compare_providers options example_tcp example_ipc < 0"
    "compare_providers options example_ipc example_quic < 0"
    "compare_providers options example_quic example_tcp < 0"
  by (simp_all add: options_def example_defs compare_providers_def probe_result_def
      matching_probe_observation_def provider_key_def compare_probed_def first_nonzero_def
      compare_values_def compare_cost_def transport_is_preferred_def)

lemma selection_order_dependent:
  fixes options
  defines "options \<equiv> example_options [example_tcp, example_ipc, example_quic]"
  shows "map_sum id tsel_selected_provider
      (select_from_providers [example_tcp, example_ipc, example_quic] options (\<lambda>_. None) (\<lambda>_. None)) =
    Inr example_tcp"
  "map_sum id tsel_selected_provider
      (select_from_providers [example_ipc, example_quic, example_tcp] options (\<lambda>_. None) (\<lambda>_. None)) =
    Inr example_ipc"
  unfolding options_def by code_simp+

end
