(* ===== verification/Native_Values.thy ===== *)
theory Native_Values
  imports Runtime_Control Transport_Evidence
begin

text \<open>
  The values the binding of the native runtime (\<open>native.py\<close>) exchanges with the library: status,
  handles, buffer views, and the batches of a transport connection.

  The classes of \<open>NativeRuntimeError\<close> are constructors with the status they carry; another Python
  exception is \<open>Raised\<close>.  \<open>NativeHandleError\<close> has the fixed part of its message.
\<close>

section \<open>Exceptions\<close>

record NativeStatus =
  nst_status_code :: int
  nst_error_family :: int
  nst_protocol_error_code :: int
  nst_detail_code :: int

datatype native_exn =
    Raised exn
  | HandleError string
  | InvalidArgumentError NativeStatus
  | InvalidHandleError NativeStatus
  | InvalidStateError NativeStatus
  | ProtocolError NativeStatus
  | WouldBlockError NativeStatus
  | CallbackRejectedError NativeStatus
  | InternalError NativeStatus
  | NativeError NativeStatus
  | DeadlineExceeded
  | WaitCancelled

type_synonym 'a nres = "native_exn + 'a"

definition bind_nat :: "'a nres \<Rightarrow> ('a \<Rightarrow> 'b nres) \<Rightarrow> 'b nres" where
  "bind_nat m k = (case m of Inl e \<Rightarrow> Inl e | Inr x \<Rightarrow> k x)"

lemma bind_nat_simps [simp]: "bind_nat (Inl e) k = Inl e" "bind_nat (Inr x) k = k x"
  by (simp_all add: bind_nat_def)

lemma bind_nat_cong [fundef_cong]:
  "m = m' \<Longrightarrow> (\<And>x. m' = Inr x \<Longrightarrow> k x = k' x) \<Longrightarrow> bind_nat m k = bind_nat m' k'"
  by (auto simp: bind_nat_def split: sum.splits)

lemma bind_nat_Inr_iff [res_simps]:
  "bind_nat m k = Inr y \<longleftrightarrow> (\<exists>x. m = Inr x \<and> k x = Inr y)"
  by (cases m) auto

definition plain :: "'a res \<Rightarrow> 'a nres" where
  "plain = map_sum Raised id"

lemma plain_Inr [simp]: "plain m = Inr x \<longleftrightarrow> m = Inr x"
  by (cases m) (auto simp: plain_def)

lemma plain_simps [simp]: "plain (Inr x) = Inr x" "plain (Inl e) = Inl (Raised e)"
  by (simp_all add: plain_def)

fun map_nat :: "('a \<Rightarrow> 'b nres) \<Rightarrow> 'a list \<Rightarrow> 'b list nres" where
  "map_nat f [] = Inr []"
| "map_nat f (x # xs) = bind_nat (f x) (\<lambda>y. bind_nat (map_nat f xs) (\<lambda>ys. Inr (y # ys)))"

lemma map_nat_Inr: "map_nat f xs = Inr ys \<longleftrightarrow> list_all2 (\<lambda>x y. f x = Inr y) xs ys"
  by (induction xs arbitrary: ys) (auto simp: res_simps list_all2_Cons1)

lemma map_nat_append:
  "map_nat f (xs @ ys) = bind_nat (map_nat f xs) (\<lambda>as. bind_nat (map_nat f ys) (\<lambda>bs. Inr (as @ bs)))"
  by (induction xs) (auto simp: bind_nat_def split: sum.split)

section \<open>Status\<close>

abbreviation (input) FFI_STATUS_OK :: int where "FFI_STATUS_OK \<equiv> 0"
abbreviation (input) FFI_STATUS_INVALID_ARGUMENT :: int where "FFI_STATUS_INVALID_ARGUMENT \<equiv> 1"
abbreviation (input) FFI_STATUS_INVALID_HANDLE :: int where "FFI_STATUS_INVALID_HANDLE \<equiv> 2"
abbreviation (input) FFI_STATUS_INVALID_STATE :: int where "FFI_STATUS_INVALID_STATE \<equiv> 3"
abbreviation (input) FFI_STATUS_PROTOCOL_ERROR :: int where "FFI_STATUS_PROTOCOL_ERROR \<equiv> 4"
abbreviation (input) FFI_STATUS_WOULD_BLOCK :: int where "FFI_STATUS_WOULD_BLOCK \<equiv> 5"
abbreviation (input) FFI_STATUS_CALLBACK_REJECTED :: int where "FFI_STATUS_CALLBACK_REJECTED \<equiv> 6"

definition native_validate_u32 :: "string \<Rightarrow> int \<Rightarrow> unit nres" where
  "native_validate_u32 name v =
     (if v < 0 \<or> v > 0xFFFFFFFF then Inl (HandleError (name @ '' must be a uint32 value'')) else Inr ())"

definition native_validate_u64 :: "string \<Rightarrow> int \<Rightarrow> unit nres" where
  "native_validate_u64 name v =
     (if v < 0 \<or> v > 0xFFFFFFFFFFFFFFFF then Inl (HandleError (name @ '' must be a uint64 value'')) else Inr ())"

definition NativeStatus_init :: "NativeStatus \<Rightarrow> NativeStatus nres" where
  "NativeStatus_init st =
     bind_nat (native_validate_u32 ''status_code'' (nst_status_code st)) (\<lambda>_.
     bind_nat (native_validate_u32 ''error_family'' (nst_error_family st)) (\<lambda>_.
     bind_nat (native_validate_u32 ''protocol_error_code'' (nst_protocol_error_code st)) (\<lambda>_.
     bind_nat (native_validate_u32 ''detail_code'' (nst_detail_code st)) (\<lambda>_. Inr st))))"

text \<open>\<open>NativeStatus(code)\<close>, with the defaults of the other fields.\<close>

definition status_of :: "int \<Rightarrow> NativeStatus" where
  "status_of code = \<lparr>nst_status_code = code, nst_error_family = 0, nst_protocol_error_code = 0,
     nst_detail_code = 0\<rparr>"

definition native_status_ok :: NativeStatus where
  "native_status_ok = status_of FFI_STATUS_OK"

definition status_succeeded :: "NativeStatus \<Rightarrow> bool" where
  "status_succeeded st \<longleftrightarrow> nst_status_code st = FFI_STATUS_OK"

definition is_protocol_error :: "NativeStatus \<Rightarrow> bool" where
  "is_protocol_error st \<longleftrightarrow> nst_status_code st = FFI_STATUS_PROTOCOL_ERROR"

definition is_session_error :: "NativeStatus \<Rightarrow> bool" where
  "is_session_error st \<longleftrightarrow> nst_error_family st = 1"

definition is_cache_error :: "NativeStatus \<Rightarrow> bool" where
  "is_cache_error st \<longleftrightarrow> nst_error_family st = 2"

definition is_schema_error :: "NativeStatus \<Rightarrow> bool" where
  "is_schema_error st \<longleftrightarrow> nst_error_family st = 3"

definition RETRYABLE_PROTOCOL_ERRORS :: "int list" where
  "RETRYABLE_PROTOCOL_ERRORS =
     [0x00010007, 0x00030001, 0x00030002, 0x00030003, 0x00030004, 0x00040002, 0x00040005]"

definition is_retryable :: "NativeStatus \<Rightarrow> bool" where
  "is_retryable st \<longleftrightarrow> nst_status_code st = FFI_STATUS_WOULD_BLOCK \<or>
     nst_protocol_error_code st \<in> set RETRYABLE_PROTOCOL_ERRORS"

definition is_downgrade :: "NativeStatus \<Rightarrow> bool" where
  "is_downgrade st \<longleftrightarrow> is_session_error st \<and> nst_protocol_error_code st = 0x00010004"

text \<open>\<open>raise_for_native_status\<close>, with the table \<open>_STATUS_EXCEPTION_TYPES\<close>.\<close>

definition status_exception :: "NativeStatus \<Rightarrow> native_exn" where
  "status_exception st =
     (if nst_status_code st = FFI_STATUS_INVALID_ARGUMENT then InvalidArgumentError st
      else if nst_status_code st = FFI_STATUS_INVALID_HANDLE then InvalidHandleError st
      else if nst_status_code st = FFI_STATUS_INVALID_STATE then InvalidStateError st
      else if nst_status_code st = FFI_STATUS_PROTOCOL_ERROR then ProtocolError st
      else if nst_status_code st = FFI_STATUS_WOULD_BLOCK then WouldBlockError st
      else if nst_status_code st = FFI_STATUS_CALLBACK_REJECTED then CallbackRejectedError st
      else InternalError st)"

definition raise_for_native_status :: "NativeStatus \<Rightarrow> unit nres" where
  "raise_for_native_status st = (if status_succeeded st then Inr () else Inl (status_exception st))"

lemma raise_for_native_status_Inr [res_simps]:
  "raise_for_native_status st = Inr u \<longleftrightarrow> status_succeeded st"
  by (simp add: raise_for_native_status_def)

definition invalid_state :: "'a nres" where
  "invalid_state = Inl (InvalidStateError (status_of FFI_STATUS_INVALID_STATE))"

definition protocol_error :: "'a nres" where
  "protocol_error = Inl (ProtocolError (status_of FFI_STATUS_PROTOCOL_ERROR))"

lemma errors_not_Inr [simp]: "invalid_state \<noteq> Inr x" "protocol_error \<noteq> Inr x"
  by (simp_all add: invalid_state_def protocol_error_def)

section \<open>Handles and views\<close>

record NativeHandle =
  nh_kind :: int
  nh_id :: int
  nh_generation :: int
  nh_flags :: int

definition NativeHandle_init :: "NativeHandle \<Rightarrow> NativeHandle nres" where
  "NativeHandle_init h =
     bind_nat (native_validate_u32 ''kind'' (nh_kind h)) (\<lambda>_.
     bind_nat (native_validate_u64 ''id'' (nh_id h)) (\<lambda>_.
     bind_nat (native_validate_u32 ''generation'' (nh_generation h)) (\<lambda>_.
     bind_nat (native_validate_u32 ''flags'' (nh_flags h)) (\<lambda>_.
       if nh_kind h = 0 then
         if nh_id h \<noteq> 0 \<or> nh_generation h \<noteq> 0 \<or> nh_flags h \<noteq> 0
         then Inl (HandleError ''invalid handles must use zero id, generation, and flags'')
         else Inr h
       else if nh_id h = 0 \<or> nh_generation h = 0
       then Inl (HandleError ''native handles require non-zero id and generation'')
       else Inr h))))"

definition invalid_handle :: NativeHandle where
  "invalid_handle = \<lparr>nh_kind = 0, nh_id = 0, nh_generation = 0, nh_flags = 0\<rparr>"

definition handle_is_valid :: "NativeHandle \<Rightarrow> bool" where
  "handle_is_valid h \<longleftrightarrow> nh_kind h \<noteq> 0"

definition require_kind :: "int \<Rightarrow> NativeHandle \<Rightarrow> unit nres" where
  "require_kind expected h =
     (if nh_kind h \<noteq> expected then Inl (HandleError ''expected native handle kind'') else Inr ())"

text \<open>
  The typed handles (\<open>NativeSessionHandle\<close>, \<open>NativeOperationHandle\<close> and the other six) wrap a
  handle after checking its kind; \<open>typed_from_ffi\<close> is \<open>from_ffi\<close> of the class of that kind.
\<close>

abbreviation (input) KIND_CONNECTION :: int where "KIND_CONNECTION \<equiv> 1"
abbreviation (input) KIND_SESSION :: int where "KIND_SESSION \<equiv> 2"
abbreviation (input) KIND_OPERATION :: int where "KIND_OPERATION \<equiv> 3"
abbreviation (input) KIND_BUFFER :: int where "KIND_BUFFER \<equiv> 5"

definition typed_handle :: "int \<Rightarrow> NativeHandle \<Rightarrow> NativeHandle nres" where
  "typed_handle kind h = bind_nat (require_kind kind h) (\<lambda>_. Inr h)"

definition typed_from_ffi :: "int \<Rightarrow> NativeHandle \<Rightarrow> NativeHandle nres" where
  "typed_from_ffi kind h = bind_nat (NativeHandle_init h) (typed_handle kind)"

lemma typed_from_ffi_Inr [res_simps]:
  "typed_from_ffi kind h = Inr h' \<longleftrightarrow> h' = h \<and> nh_kind h = kind \<and> NativeHandle_init h = Inr h"
  by (auto simp: typed_from_ffi_def typed_handle_def require_kind_def NativeHandle_init_def bind_nat_def
      native_validate_u32_def native_validate_u64_def)

text \<open>A handle of one of the eight kinds is never null.\<close>

lemma typed_handle_valid:
  "typed_from_ffi kind h = Inr h' \<Longrightarrow> kind \<noteq> 0 \<Longrightarrow>
    handle_is_valid h' \<and> 0 < nh_id h' \<and> nh_id h' < 2 ^ 64 \<and> 0 < nh_generation h' \<and> nh_generation h' < 2 ^ 32"
  by (auto simp: typed_from_ffi_def typed_handle_def require_kind_def NativeHandle_init_def bind_nat_def
      native_validate_u32_def native_validate_u64_def handle_is_valid_def split: if_splits sum.splits)

definition validate_pointer_and_length :: "int \<Rightarrow> int \<Rightarrow> unit nres" where
  "validate_pointer_and_length ptr n =
     bind_nat (native_validate_u64 ''ptr'' ptr) (\<lambda>_.
       if n < 0 then Inl (HandleError ''length must be non-negative'')
       else if n > 0 \<and> ptr = 0
       then Inl (HandleError ''non-empty views require a non-null pointer'')
       else Inr ())"

section \<open>Batches of a transport connection\<close>

text \<open>
  The library hands over received packets as one block of bytes, each packet after its n
  in four bytes.  \<open>batch_encoding\<close> is that format.
\<close>

definition normalize_transport_packets :: "bytes list \<Rightarrow> bytes list res" where
  "normalize_transport_packets packets =
     (if packets = [] then ve ''native transport send requires at least one complete NNRP packet''
      else if list_ex (\<lambda>p. p = []) packets then ve ''native transport packets must be non-empty''
      else if len packets > 0xFFFFFFFF
      then ve ''native transport packet batch exceeds uint32 frame count''
      else Inr packets)"

function decode_packet_batch_loop :: "bytes \<Rightarrow> int \<Rightarrow> bytes list \<Rightarrow> bytes list nres" where
  "decode_packet_batch_loop encoded offset packets =
     (if offset < len encoded then
        if len encoded - offset < 4
        then Inl (HandleError ''native transport batch ends inside a packet length prefix'')
        else let packet_length = le_int (py_slice offset (offset + 4) encoded);
                 start = offset + 4;
                 packet_end = start + packet_length
             in if packet_end > len encoded
                then Inl (HandleError ''native transport batch packet exceeds the owned payload'')
                else decode_packet_batch_loop encoded packet_end
                       (packets @ [py_slice start packet_end encoded])
      else Inr packets)"
  by pat_completeness auto

termination
proof (relation "measure (\<lambda>(encoded, offset, packets). nat (len encoded - offset))")
  fix encoded packets and offset packet_length start packet_end :: int
  assume "offset < len encoded" "packet_length = le_int (py_slice offset (offset + 4) encoded)"
    "start = offset + 4" "packet_end = start + packet_length"
  then show "((encoded, packet_end, packets @ [py_slice start packet_end encoded]),
      encoded, offset, packets) \<in> measure (\<lambda>(encoded, offset, packets). nat (len encoded - offset))"
    using le_int_bounds [of "py_slice offset (offset + 4) encoded"] by simp
qed simp

declare decode_packet_batch_loop.simps [simp del]

definition decode_transport_packet_batch :: "bytes \<Rightarrow> int \<Rightarrow> bytes list nres" where
  "decode_transport_packet_batch encoded frame_count =
     bind_nat (plain (require_bounded_integer ''frame_count'' frame_count 0xFFFFFFFF)) (\<lambda>_.
     bind_nat (decode_packet_batch_loop encoded 0 []) (\<lambda>packets.
       if len packets \<noteq> frame_count
       then Inl (HandleError ''native transport batch declared another number of packets'')
       else Inr packets))"

text \<open>A batch decodes to packets exactly if it is their encoding.\<close>

definition batch_encoding :: "bytes list \<Rightarrow> bytes" where
  "batch_encoding ps = concat (map (\<lambda>p. le_bytes 4 (len p) @ p) ps)"

lemma batch_encoding_simps [simp]:
  "batch_encoding [] = []" "batch_encoding (p # ps) = le_bytes 4 (len p) @ p @ batch_encoding ps"
  by (simp_all add: batch_encoding_def)

lemma batch_encoding_split:
  assumes "xs \<noteq> []"
  shows "xs = batch_encoding ps \<and> (\<forall>p \<in> set ps. len p < 2 ^ 32) \<longleftrightarrow>
    4 \<le> length xs \<and> 4 + le_int (take 4 xs) \<le> len xs \<and>
    (\<exists>ps'. ps = take (nat (le_int (take 4 xs))) (drop 4 xs) # ps' \<and>
       drop (4 + nat (le_int (take 4 xs))) xs = batch_encoding ps' \<and> (\<forall>p \<in> set ps'. len p < 2 ^ 32))"
    (is "?l \<longleftrightarrow> ?r")
proof
  assume ?l
  then obtain p ps' where ps: "ps = p # ps'" "xs = le_bytes 4 (len p) @ p @ batch_encoding ps'"
    and fit: "len p < 2 ^ 32" "\<forall>p \<in> set ps'. len p < 2 ^ 32"
    using assms by (cases ps) auto
  have "le_int (take 4 xs) = len p"
    using fit(1) by (simp add: ps(2) le_int_le_bytes)
  then show ?r using ps fit(2) by simp
next
  assume r: ?r
  define n where "n = le_int (take 4 xs)"
  have n: "0 \<le> n" "n < 2 ^ 32" "le_bytes 4 n = take 4 xs"
    using le_int_bounds [of "take 4 xs"] le_bytes_le_int [of "take 4 xs"] r
    by (simp_all add: n_def min_absorb2)
  define p where "p = take (nat n) (drop 4 xs)"
  have "4 \<le> length xs" "4 + n \<le> len xs" using r unfolding n_def by blast+
  then have p: "len p = n" using n(1) by (auto simp: p_def min_def)
  have "xs = take 4 xs @ p @ drop (4 + nat n) xs"
    unfolding p_def by (metis append_take_drop_id drop_drop add.commute)
  moreover obtain ps' where ps': "ps = p # ps'" "drop (4 + nat n) xs = batch_encoding ps'"
    "\<forall>p \<in> set ps'. len p < 2 ^ 32"
    using r unfolding n_def [symmetric] p_def [symmetric] by blast
  ultimately show ?l
    using n(2,3) p by (metis batch_encoding_simps(2) set_ConsD)
qed

lemma decode_packet_batch_loop_Inr:
  "0 \<le> offset \<Longrightarrow> offset \<le> len encoded \<Longrightarrow> decode_packet_batch_loop encoded offset packets = Inr r \<longleftrightarrow>
    (\<exists>ps. r = packets @ ps \<and> drop (nat offset) encoded = batch_encoding ps \<and> (\<forall>p \<in> set ps. len p < 2 ^ 32))"
proof (induction encoded offset packets rule: decode_packet_batch_loop.induct)
  case (1 encoded offset packets)
  show ?case
  proof (cases "offset < len encoded")
    case False
    then have "drop (nat offset) encoded = []" using "1.prems" by simp
    moreover have "[] = batch_encoding ps \<longleftrightarrow> ps = []" for ps
    proof (cases ps)
      case (Cons p ps')
      then have "4 \<le> length (batch_encoding ps)" by simp
      then show ?thesis using Cons by (metis list.size(3) list.distinct(1) not_numeral_le_zero)
    qed simp
    ultimately show ?thesis
      using False by (auto simp: decode_packet_batch_loop.simps [of encoded offset])
  next
    case True
    let ?xs = "drop (nat offset) encoded"
    have xs: "?xs \<noteq> []" using True "1.prems" by simp
    have slice: "py_slice offset (offset + 4) encoded = take 4 ?xs"
      using "1.prems" by (simp add: py_slice_nonneg nat_add_distrib take_drop add.commute)
    define n where "n = le_int (take 4 ?xs)"
    have n: "0 \<le> n" using le_int_bounds [of "take 4 ?xs"] by (simp add: n_def)
    have body: "py_slice (offset + 4) (offset + 4 + n) encoded = take (nat n) (drop 4 ?xs)"
      using "1.prems" n by (simp add: py_slice_nonneg nat_add_distrib take_drop add.commute)
    show ?thesis
    proof (cases "4 \<le> length ?xs \<and> 4 + n \<le> len ?xs")
      case False
      then have "decode_packet_batch_loop encoded offset packets \<noteq> Inr r"
        using True "1.prems" n
        by (auto simp: decode_packet_batch_loop.simps [of encoded offset] slice n_def [symmetric] Let_def)
      then show ?thesis
        using batch_encoding_split [OF xs] False unfolding n_def by blast
    next
      case fits: True
      have le: "offset + 4 + n \<le> len encoded" "4 \<le> len encoded - offset"
        using fits "1.prems" n by simp_all
      have "decode_packet_batch_loop encoded offset packets =
          decode_packet_batch_loop encoded (offset + 4 + n) (packets @ [take (nat n) (drop 4 ?xs)])"
        using True le by (simp add: decode_packet_batch_loop.simps [of encoded offset] slice
            n_def [symmetric] body Let_def)
      also have "\<dots> = Inr r \<longleftrightarrow> (\<exists>ps. r = (packets @ [take (nat n) (drop 4 ?xs)]) @ ps \<and>
          drop (nat (offset + 4 + n)) encoded = batch_encoding ps \<and> (\<forall>p \<in> set ps. len p < 2 ^ 32))"
        using "1.IH" [OF True _ refl refl refl] le "1.prems" n
        by (simp add: slice n_def [symmetric] body)
      also have "drop (nat (offset + 4 + n)) encoded = drop (4 + nat n) ?xs"
        using "1.prems" n by (simp add: nat_add_distrib add.commute add.left_commute)
      finally show ?thesis
        using batch_encoding_split [OF xs] fits unfolding n_def [symmetric] by auto
    qed
  qed
qed

lemma decode_transport_packet_batch_iff:
  "decode_transport_packet_batch encoded n = Inr ps \<longleftrightarrow>
    n = len ps \<and> n \<le> 0xFFFFFFFF \<and> encoded = batch_encoding ps \<and> (\<forall>p \<in> set ps. len p < 2 ^ 32)"
  using decode_packet_batch_loop_Inr [of 0 encoded "[]" ps]
  by (auto simp: decode_transport_packet_batch_def require_bounded_integer_def bind_nat_Inr_iff
      split: if_splits)

end
