(* ===== verification/Native_Events.thy ===== *)
theory Native_Events
  imports Native_Values
begin

text \<open>
  The events of the native runtime: what the library hands over (\<open>ffi_event\<close>), how it is decoded
  to a runtime frame or a lifecycle event, which operation an event belongs to, and the result an
  operation ends with.  And the other direction, the payload of a frame that is sent.

  \<open>fe_payload\<close> is the owned buffer of an event, \<open>None\<close> a null pointer with a length;
  \<open>fe_release\<close> is the status of the call that releases the buffer, \<open>None\<close> if there is no owner.
\<close>

section \<open>Events\<close>

datatype event_value =
    FrameSubmitV FrameSubmitMetadata
  | ResultPushV ResultPushMetadata
  | FlowUpdateV FlowUpdateMetadata
  | ResultHintV ResultHintMetadata
  | CacheInvalidateV CacheInvalidateMetadata
  | RuntimeV runtime_metadata

record NativeRuntimeDiagnostic =
  nrd_status :: NativeStatus
  nrd_related_connection_id :: int
  nrd_related_session_id :: int
  nrd_related_operation_id :: int
  nrd_related_frame_id :: int

definition diagnostic_ok :: NativeRuntimeDiagnostic where
  "diagnostic_ok = \<lparr>nrd_status = native_status_ok, nrd_related_connection_id = 0,
     nrd_related_session_id = 0, nrd_related_operation_id = 0, nrd_related_frame_id = 0\<rparr>"

record NativeRuntimeEventContext =
  nec_kind :: int
  nec_connection :: NativeHandle
  nec_session :: NativeHandle
  nec_operation :: NativeHandle
  nec_diagnostic :: NativeRuntimeDiagnostic

record NativeRuntimeEvent =
  nre_header :: RuntimeFrameHeader
  nre_metadata :: "event_value RuntimeEventMetadata"
  nre_tail :: RuntimeEventTail
  nre_context :: "NativeRuntimeEventContext option"

record NativeLifecycleEvent =
  nle_kind :: int
  nle_connection :: NativeHandle
  nle_session :: NativeHandle
  nle_operation :: NativeHandle
  nle_payload :: bytes
  nle_diagnostic :: NativeRuntimeDiagnostic

datatype polled_event = RuntimeE NativeRuntimeEvent | LifecycleE NativeLifecycleEvent

fun is_runtime_event :: "polled_event \<Rightarrow> bool" where
  "is_runtime_event (RuntimeE e) \<longleftrightarrow> True"
| "is_runtime_event (LifecycleE e) \<longleftrightarrow> False"

abbreviation (input) EVENT_RESULT_PUSHED :: int where "EVENT_RESULT_PUSHED \<equiv> 6"
abbreviation (input) EVENT_RESULT_DROPPED :: int where "EVENT_RESULT_DROPPED \<equiv> 7"
abbreviation (input) EVENT_FLOW_UPDATED :: int where "EVENT_FLOW_UPDATED \<equiv> 8"
abbreviation (input) EVENT_ERROR :: int where "EVENT_ERROR \<equiv> 10"
abbreviation (input) EVENT_RUNTIME_FRAME :: int where "EVENT_RUNTIME_FRAME \<equiv> 13"
abbreviation (input) EVENT_OPERATION_LIFECYCLE :: int where "EVENT_OPERATION_LIFECYCLE \<equiv> 14"

definition runtime_event_context :: "NativeRuntimeEvent \<Rightarrow> NativeRuntimeEventContext" where
  "runtime_event_context e =
     (case nre_context e of
        Some c \<Rightarrow> c
      | None \<Rightarrow> \<lparr>nec_kind = EVENT_RUNTIME_FRAME, nec_connection = invalid_handle,
          nec_session = invalid_handle, nec_operation = invalid_handle,
          nec_diagnostic = diagnostic_ok\<rparr>)"

fun native_event_kind :: "polled_event \<Rightarrow> int" where
  "native_event_kind (RuntimeE e) = nec_kind (runtime_event_context e)"
| "native_event_kind (LifecycleE e) = nle_kind e"

fun event_session :: "polled_event \<Rightarrow> NativeHandle" where
  "event_session (RuntimeE e) = nec_session (runtime_event_context e)"
| "event_session (LifecycleE e) = nle_session e"

section \<open>Decoding\<close>

definition RUNTIME_METADATA_KIND_BY_MESSAGE :: "MessageType \<Rightarrow> RuntimeEventMetadataKind option" where
  "RUNTIME_METADATA_KIND_BY_MESSAGE = map_of
     [(MT_CANCEL, REM_CONTROL_REQUEST), (MT_ABORT, REM_CONTROL_REQUEST),
      (MT_PRIORITY_UPDATE, REM_SCHEDULING), (MT_DEADLINE, REM_SCHEDULING),
      (MT_EXPIRE_AT, REM_SCHEDULING), (MT_SUPERSEDE, REM_SUPERSEDE),
      (MT_BUDGET_UPDATE, REM_BUDGET), (MT_PROGRESS, REM_PROGRESS),
      (MT_PARTIAL_RESULT, REM_PARTIAL_RESULT), (MT_BACKPRESSURE, REM_PRESSURE),
      (MT_CREDIT_UPDATE, REM_PRESSURE), (MT_CAPABILITY_NEGOTIATION, REM_CAPABILITY),
      (MT_DEGRADE_PROFILE, REM_CAPABILITY), (MT_ROUTE_HINT, REM_ROUTE_HINT),
      (MT_EXECUTION_HINT, REM_ROUTE_HINT), (MT_TRACE_CONTEXT, REM_TRACE_CONTEXT),
      (MT_RESULT_DROP_REASON, REM_RESULT_DROP_REASON),
      (MT_ERROR_RECOVERABLE, REM_RECOVERABLE_ERROR), (MT_RETRY_AFTER, REM_RETRY_AFTER),
      (MT_OBJECT_DECLARE, REM_OBJECT_DESCRIPTOR), (MT_OBJECT_REF, REM_OBJECT_REFERENCE),
      (MT_OBJECT_RELEASE, REM_OBJECT_RELEASE), (MT_OBJECT_PATCH, REM_OBJECT_DELTA),
      (MT_OBJECT_DELTA, REM_OBJECT_DELTA), (MT_CACHE_REFERENCE, REM_CACHE_REFERENCE),
      (MT_CACHE_MISS, REM_CACHE_MISS)]"

definition RUNTIME_OBJECT_MESSAGE_TYPES :: "MessageType list" where
  "RUNTIME_OBJECT_MESSAGE_TYPES = [MT_OBJECT_DECLARE, MT_OBJECT_REF, MT_OBJECT_RELEASE,
     MT_OBJECT_PATCH, MT_OBJECT_DELTA, MT_CACHE_REFERENCE, MT_CACHE_MISS]"

definition RUNTIME_BODY_MESSAGE_TYPES :: "MessageType list" where
  "RUNTIME_BODY_MESSAGE_TYPES = [MT_PROGRESS, MT_PARTIAL_RESULT, MT_CAPABILITY_NEGOTIATION,
     MT_DEGRADE_PROFILE, MT_ROUTE_HINT, MT_EXECUTION_HINT, MT_TRACE_CONTEXT, MT_OBJECT_DECLARE,
     MT_OBJECT_REF, MT_CACHE_REFERENCE]"

definition RUNTIME_DIAGNOSTIC_MESSAGE_TYPES :: "MessageType list" where
  "RUNTIME_DIAGNOSTIC_MESSAGE_TYPES = [MT_CANCEL, MT_ABORT, MT_SUPERSEDE, MT_RESULT_DROP_REASON,
     MT_ERROR_RECOVERABLE, MT_RETRY_AFTER, MT_OBJECT_RELEASE, MT_CACHE_MISS]"

definition unpack_runtime_event_prefix ::
    "nat \<Rightarrow> (bytes \<Rightarrow> 'a res) \<Rightarrow> bytes \<Rightarrow> ('a \<times> bytes) nres" where
  "unpack_runtime_event_prefix metadata_length unpack payload =
     (if len payload < int metadata_length then protocol_error
      else bind_nat (plain (unpack (py_slice 0 (int metadata_length) payload))) (\<lambda>m.
        Inr (m, slice_from (int metadata_length) payload)))"

text \<open>The metadata and the tail of an event, made by their constructors.\<close>

definition event_parts ::
    "RuntimeEventMetadataKind \<Rightarrow> event_value option \<Rightarrow> RuntimeEventTail res
      \<Rightarrow> (event_value RuntimeEventMetadata \<times> RuntimeEventTail) nres" where
  "event_parts kind v tail =
     bind_nat (plain (RuntimeEventMetadata_init kind v)) (\<lambda>m.
     bind_nat (plain tail) (\<lambda>t. Inr (m, t)))"

definition decode_object_event ::
    "MessageType \<Rightarrow> bytes \<Rightarrow> (event_value RuntimeEventMetadata \<times> RuntimeEventTail) nres" where
  "decode_object_event mt payload =
     bind_nat (plain (decode_runtime_object_metadata mt payload)) (\<lambda>(m, tail).
       let kind = the (RUNTIME_METADATA_KIND_BY_MESSAGE mt)
       in if mt \<in> {MT_OBJECT_PATCH, MT_OBJECT_DELTA}
          then (case m of
              ObjectDeltaM d \<Rightarrow>
                event_parts kind (Some (RuntimeV m)) (tail_with_metadata_body_and_delta
                  (py_slice 0 (oem_metadata_bytes d) tail) (slice_from (oem_metadata_bytes d) tail))
            | _ \<Rightarrow> Inl (NativeError (status_of FFI_STATUS_PROTOCOL_ERROR)))
          else if mt \<in> set RUNTIME_BODY_MESSAGE_TYPES
          then event_parts kind (Some (RuntimeV m)) (tail_with_body tail)
          else event_parts kind (Some (RuntimeV m)) (tail_with_diagnostic tail))"

definition decode_control_event ::
    "MessageType \<Rightarrow> bytes \<Rightarrow> (event_value RuntimeEventMetadata \<times> RuntimeEventTail) nres" where
  "decode_control_event mt payload =
     bind_nat (plain (decode_runtime_control_metadata mt payload)) (\<lambda>(m, tail).
       event_parts (the (RUNTIME_METADATA_KIND_BY_MESSAGE mt)) (Some (RuntimeV m))
         (if mt \<in> set RUNTIME_BODY_MESSAGE_TYPES then tail_with_body tail
          else if mt \<in> set RUNTIME_DIAGNOSTIC_MESSAGE_TYPES then tail_with_diagnostic tail
          else tail_none))"

definition decode_event_parts ::
    "MessageType \<Rightarrow> bytes \<Rightarrow> (event_value RuntimeEventMetadata \<times> RuntimeEventTail) nres" where
  "decode_event_parts mt payload =
     (if mt \<in> {MT_FRAME_CANCEL, MT_RESULT_DROP}
      then if payload \<noteq> [] then protocol_error else event_parts REM_NONE None tail_none
      else if mt = MT_SESSION_CLOSE
      then bind_nat (plain (runtime_unpack SessionCloseClass payload)) (\<lambda>m.
        event_parts REM_SESSION_CLOSE (Some (RuntimeV m)) tail_none)
      else if mt = MT_FRAME_SUBMIT
      then bind_nat (unpack_runtime_event_prefix (calcsize FRAME_SUBMIT_STRUCT)
          FrameSubmitMetadata_unpack payload) (\<lambda>(m, body).
        event_parts REM_FRAME_SUBMIT (Some (FrameSubmitV m)) (tail_with_body body))
      else if mt = MT_RESULT_PUSH
      then bind_nat (unpack_runtime_event_prefix (calcsize RESULT_PUSH_STRUCT)
          ResultPushMetadata_unpack payload) (\<lambda>(m, body).
        event_parts REM_RESULT_PUSH (Some (ResultPushV m)) (tail_with_body body))
      else if mt = MT_FLOW_UPDATE
      then bind_nat (plain (FlowUpdateMetadata_unpack payload)) (\<lambda>m.
        event_parts REM_FLOW_UPDATE (Some (FlowUpdateV m)) tail_none)
      else if mt = MT_RESULT_HINT
      then bind_nat (plain (ResultHintMetadata_unpack payload)) (\<lambda>m.
        event_parts REM_RESULT_HINT (Some (ResultHintV m)) tail_none)
      else if mt = MT_CACHE_INVALIDATE
      then bind_nat (plain (CacheInvalidateMetadata_unpack payload)) (\<lambda>m.
        event_parts REM_CACHE_INVALIDATE (Some (CacheInvalidateV m)) tail_none)
      else if mt \<in> set RUNTIME_OBJECT_MESSAGE_TYPES then decode_object_event mt payload
      else if RUNTIME_METADATA_KIND_BY_MESSAGE mt \<noteq> None then decode_control_event mt payload
      else protocol_error)"

definition decode_wire_runtime_event ::
    "RuntimeFrameHeader \<Rightarrow> bytes \<Rightarrow> NativeRuntimeEventContext \<Rightarrow> NativeRuntimeEvent nres" where
  "decode_wire_runtime_event header payload context =
     bind_nat (decode_event_parts (rfh_message_type header) payload) (\<lambda>(m, t).
       Inr \<lparr>nre_header = header, nre_metadata = m, nre_tail = t, nre_context = Some context\<rparr>)"

text \<open>The structure the library fills.\<close>

record ffi_event =
  fe_kind :: int
  fe_connection :: NativeHandle
  fe_session :: NativeHandle
  fe_operation :: NativeHandle
  fe_diagnostic :: NativeRuntimeDiagnostic
  fe_payload :: "bytes option"
  fe_release :: "NativeStatus option"
  fe_present :: int
  fe_message_type :: int
  fe_flags :: int
  fe_session_id :: int
  fe_frame_id :: int
  fe_view_id :: int
  fe_route_id :: int
  fe_trace_id :: int
  fe_version_major :: int
  fe_wire_format :: int

text \<open>The buffer is released also if copying fails; an error of the release replaces that error.\<close>

definition copy_owned_event_payload :: "ffi_event \<Rightarrow> bytes nres" where
  "copy_owned_event_payload e =
     bind_nat (case fe_release e of None \<Rightarrow> Inr () | Some st \<Rightarrow> raise_for_native_status st) (\<lambda>_.
       case fe_payload e of
         Some payload \<Rightarrow> Inr payload
       | None \<Rightarrow> Inl (HandleError ''native event payload has non-empty null pointer''))"

definition or_protocol_error :: "'a res \<Rightarrow> 'a nres" where
  "or_protocol_error m = (case m of Inr x \<Rightarrow> Inr x | Inl e \<Rightarrow> protocol_error)"

definition native_event_from_ffi :: "ffi_event \<Rightarrow> polled_event nres" where
  "native_event_from_ffi e =
     bind_nat (copy_owned_event_payload e) (\<lambda>payload.
       if fe_present e = 0 then
         Inr (LifecycleE \<lparr>nle_kind = fe_kind e, nle_connection = fe_connection e,
           nle_session = fe_session e, nle_operation = fe_operation e, nle_payload = payload,
           nle_diagnostic = fe_diagnostic e\<rparr>)
       else if fe_present e \<noteq> 1 then protocol_error
       else bind_nat (or_protocol_error (MessageType_of (fe_message_type e))) (\<lambda>mt.
            bind_nat (or_protocol_error (WireFormat_of (fe_wire_format e))) (\<lambda>wf.
            bind_nat (decode_wire_runtime_event
              \<lparr>rfh_message_type = mt, rfh_flags = HeaderFlags_call (fe_flags e),
               rfh_session_id = fe_session_id e, rfh_frame_id = fe_frame_id e,
               rfh_view_id = fe_view_id e, rfh_route_id = fe_route_id e,
               rfh_trace_id = fe_trace_id e, rfh_version_major = fe_version_major e,
               rfh_wire_format = wf\<rparr>
              payload
              \<lparr>nec_kind = fe_kind e, nec_connection = fe_connection e, nec_session = fe_session e,
               nec_operation = fe_operation e, nec_diagnostic = fe_diagnostic e\<rparr>) (\<lambda>event.
              Inr (RuntimeE event)))))"

section \<open>Encoding\<close>

definition encode_native_runtime_frame :: "MessageType \<Rightarrow> event_value \<Rightarrow> bytes \<Rightarrow> bytes res" where
  "encode_native_runtime_frame mt metadata tail =
     (if mt = MT_CACHE_INVALIDATE then
        (case metadata of
           CacheInvalidateV m \<Rightarrow>
             if tail \<noteq> [] then ve ''CACHE_INVALIDATE does not declare a tail''
             else CacheInvalidateMetadata_pack m
         | _ \<Rightarrow> Inl (TypeError ''CACHE_INVALIDATE requires CacheInvalidateMetadata''))
      else if mt \<in> set RUNTIME_OBJECT_MESSAGE_TYPES then
        (case metadata of
           RuntimeV m \<Rightarrow> encode_runtime_object_metadata mt m tail
         | _ \<Rightarrow> Inl (TypeError ''message requires runtime object metadata''))
      else
        (case metadata of
           RuntimeV m \<Rightarrow> encode_runtime_control_metadata mt m tail
         | _ \<Rightarrow> Inl (TypeError ''message requires runtime control metadata'')))"

text \<open>The bytes of a tail, and the values whose packed form is decoded to themselves.\<close>

definition tail_bytes :: "RuntimeEventTail \<Rightarrow> bytes" where
  "tail_bytes t = ret_body t @ ret_diagnostic t @ ret_metadata_body t @ ret_delta t"

fun frame_value_wf :: "event_value \<Rightarrow> bool" where
  "frame_value_wf (RuntimeV m) \<longleftrightarrow> runtime_wf m"
| "frame_value_wf (CacheInvalidateV m) \<longleftrightarrow> CacheInvalidateMetadata_wf m"
| "frame_value_wf _ \<longleftrightarrow> True"

lemma event_parts_simps:
  "v \<noteq> None \<Longrightarrow> kind \<noteq> REM_NONE \<Longrightarrow> event_parts kind v (Inr t) = Inr (\<lparr>rev_kind = kind, rev_value = v\<rparr>, t)"
  "event_parts REM_NONE None (Inr t) = Inr (\<lparr>rev_kind = REM_NONE, rev_value = None\<rparr>, t)"
  by (auto simp: event_parts_def RuntimeEventMetadata_init_def)

lemma tail_makers:
  "tail_none = Inr \<lparr>ret_kind = RET_NONE, ret_body = [], ret_diagnostic = [], ret_metadata_body = [],
     ret_delta = []\<rparr>"
  "tail_with_body b = Inr \<lparr>ret_kind = RET_BODY, ret_body = b, ret_diagnostic = [],
     ret_metadata_body = [], ret_delta = []\<rparr>"
  "tail_with_diagnostic b = Inr \<lparr>ret_kind = RET_DIAGNOSTIC, ret_body = [], ret_diagnostic = b,
     ret_metadata_body = [], ret_delta = []\<rparr>"
  "tail_with_metadata_body_and_delta b d = Inr \<lparr>ret_kind = RET_METADATA_BODY_AND_DELTA, ret_body = [],
     ret_diagnostic = [], ret_metadata_body = b, ret_delta = d\<rparr>"
  by (simp_all add: tail_none_def tail_with_body_def tail_with_diagnostic_def
      tail_with_metadata_body_and_delta_def RuntimeEventTail_post_init_def)

text \<open>Each message of a registry has its metadata kind, and a message without a place for a tail declares none.\<close>

lemma control_registry:
  assumes "RUNTIME_CONTROL_TYPES mt = Some c"
  shows "\<exists>k. RUNTIME_METADATA_KIND_BY_MESSAGE mt = Some k \<and> k \<noteq> REM_NONE"
    "mt \<notin> set RUNTIME_OBJECT_MESSAGE_TYPES"
    "mt \<notin> {MT_FRAME_CANCEL, MT_RESULT_DROP, MT_SESSION_CLOSE, MT_FRAME_SUBMIT, MT_RESULT_PUSH,
       MT_FLOW_UPDATE, MT_RESULT_HINT, MT_CACHE_INVALIDATE}"
    "mt \<notin> set RUNTIME_BODY_MESSAGE_TYPES \<Longrightarrow> mt \<notin> set RUNTIME_DIAGNOSTIC_MESSAGE_TYPES \<Longrightarrow>
       c \<in> {SchedulingClass, BudgetClass, PressureClass}"
  using assms
  by (cases mt; simp add: RUNTIME_CONTROL_TYPES_def RUNTIME_METADATA_KIND_BY_MESSAGE_def
      RUNTIME_OBJECT_MESSAGE_TYPES_def RUNTIME_BODY_MESSAGE_TYPES_def
      RUNTIME_DIAGNOSTIC_MESSAGE_TYPES_def)+

lemma object_registry:
  assumes "RUNTIME_OBJECT_TYPES mt = Some c"
  shows "\<exists>k. RUNTIME_METADATA_KIND_BY_MESSAGE mt = Some k \<and> k \<noteq> REM_NONE"
    "mt \<in> set RUNTIME_OBJECT_MESSAGE_TYPES"
    "mt \<notin> {MT_FRAME_CANCEL, MT_RESULT_DROP, MT_SESSION_CLOSE, MT_FRAME_SUBMIT, MT_RESULT_PUSH,
       MT_FLOW_UPDATE, MT_RESULT_HINT, MT_CACHE_INVALIDATE}"
    "mt \<in> {MT_OBJECT_PATCH, MT_OBJECT_DELTA} \<longleftrightarrow> c = ObjectDeltaClass"
  using assms
  by (cases mt; simp add: RUNTIME_OBJECT_TYPES_def RUNTIME_METADATA_KIND_BY_MESSAGE_def
      RUNTIME_OBJECT_MESSAGE_TYPES_def)+

lemma no_tail_declared:
  "class_of m \<in> {SchedulingClass, BudgetClass, PressureClass} \<Longrightarrow> declared_tail_length m = 0"
  by (cases m) auto

lemma object_delta_length:
  assumes "runtime_pack (ObjectDeltaM d) = Inr bs"
  shows "0 \<le> oem_metadata_bytes d"
proof -
  have "list_all2 fits OBJECT_DELTA_STRUCT (ObjectDeltaMetadata_values d)"
    using assms by (auto simp: res_simps ObjectDeltaMetadata_pack_def fixed_width_pack_Inr intro: struct_pack_fits)
  then show ?thesis
    by (auto simp: OBJECT_DELTA_STRUCT_def ObjectDeltaMetadata_values_def fits_def)
qed

lemma control_event_round_trip:
  assumes "encode_runtime_control_metadata mt m tail = Inr payload" "runtime_wf m"
  shows "\<exists>p t. decode_event_parts mt payload = Inr (p, t) \<and> rev_value p = Some (RuntimeV m) \<and>
    tail_bytes t = tail"
proof -
  have r: "RUNTIME_CONTROL_TYPES mt = Some (class_of m)" "declared_tail_length m = len tail"
    using assms(1) by (auto simp: encode_runtime_control_metadata_def encode_with_Inr)
  have d: "decode_runtime_control_metadata mt payload = Inr (m, tail)"
    using assms by (simp add: encode_runtime_control_metadata_def decode_runtime_control_metadata_def
        decode_with_encode)
  note k = control_registry [OF r(1)]
  then obtain kind where kind: "RUNTIME_METADATA_KIND_BY_MESSAGE mt = Some kind" "kind \<noteq> REM_NONE"
    by blast
  have "decode_event_parts mt payload = decode_control_event mt payload"
    using k(2,3) kind(1) by (simp add: decode_event_parts_def)
  moreover have "tail = []" if "mt \<notin> set RUNTIME_BODY_MESSAGE_TYPES" "mt \<notin> set RUNTIME_DIAGNOSTIC_MESSAGE_TYPES"
    using no_tail_declared [OF k(4) [OF that]] r(2) by simp
  ultimately show ?thesis
    by (auto simp: decode_control_event_def d kind event_parts_simps tail_makers tail_bytes_def)
qed

lemma object_event_round_trip:
  assumes "encode_runtime_object_metadata mt m tail = Inr payload" "runtime_wf m"
  shows "\<exists>p t. decode_event_parts mt payload = Inr (p, t) \<and> rev_value p = Some (RuntimeV m) \<and>
    tail_bytes t = tail"
proof -
  obtain fixed where r: "RUNTIME_OBJECT_TYPES mt = Some (class_of m)" "runtime_pack m = Inr fixed"
    using assms(1) by (auto simp: encode_runtime_object_metadata_def encode_with_Inr)
  have d: "decode_runtime_object_metadata mt payload = Inr (m, tail)"
    using assms by (simp add: encode_runtime_object_metadata_def decode_runtime_object_metadata_def
        decode_with_encode)
  note k = object_registry [OF r(1)]
  then obtain kind where kind: "RUNTIME_METADATA_KIND_BY_MESSAGE mt = Some kind" "kind \<noteq> REM_NONE"
    by blast
  have parts: "decode_event_parts mt payload = decode_object_event mt payload"
    using k(2,3) by (simp add: decode_event_parts_def)
  show ?thesis
  proof (cases "mt \<in> {MT_OBJECT_PATCH, MT_OBJECT_DELTA}")
    case True
    then obtain dm where dm: "m = ObjectDeltaM dm" using k(4) by (cases m) auto
    have "0 \<le> oem_metadata_bytes dm" using object_delta_length r(2) dm by blast
    then have "py_slice 0 (oem_metadata_bytes dm) tail @ slice_from (oem_metadata_bytes dm) tail = tail"
      by (simp add: slice_from_nonneg)
    then show ?thesis
      using True by (simp add: parts decode_object_event_def d dm kind Let_def event_parts_simps tail_makers
          tail_bytes_def)
  next
    case False
    then show ?thesis
      by (auto simp: parts decode_object_event_def d kind Let_def event_parts_simps tail_makers tail_bytes_def)
  qed
qed

text \<open>
  What one end sends as a runtime frame, the other reads as an event with the same metadata and
  the same tail bytes.
\<close>

lemma native_frame_round_trip:
  assumes "encode_native_runtime_frame mt v tail = Inr payload" "frame_value_wf v"
    and h: "rfh_message_type h = mt"
  shows "\<exists>e. decode_wire_runtime_event h payload c = Inr e \<and> nre_header e = h \<and>
      nre_context e = Some c \<and> rev_value (nre_metadata e) = Some v \<and> tail_bytes (nre_tail e) = tail"
proof -
  have "\<exists>p t. decode_event_parts mt payload = Inr (p, t) \<and> rev_value p = Some v \<and> tail_bytes t = tail"
  proof (cases "mt = MT_CACHE_INVALIDATE")
    case True
    then obtain m where m: "v = CacheInvalidateV m" "tail = []" "CacheInvalidateMetadata_pack m = Inr payload"
      using assms(1) by (auto simp: encode_native_runtime_frame_def split: event_value.splits if_splits)
    then have "CacheInvalidateMetadata_unpack payload = Inr m"
      using cim.unpack_pack assms(2) by simp
    then show ?thesis
      using True m(1,2) by (simp add: decode_event_parts_def event_parts_simps tail_makers tail_bytes_def)
  next
    case False
    then obtain m where m: "v = RuntimeV m" "runtime_wf m"
      using assms by (auto simp: encode_native_runtime_frame_def split: event_value.splits if_splits)
    then show ?thesis
      using assms(1) False control_event_round_trip [of mt m tail payload]
        object_event_round_trip [of mt m tail payload]
      by (auto simp: encode_native_runtime_frame_def split: if_splits)
  qed
  then show ?thesis by (auto simp: decode_wire_runtime_event_def h)
qed

end
