(* ===== verification/Native_Results.thy ===== *)
theory Native_Results
  imports Native_Events
begin

text \<open>
  Which operation an event belongs to, whether it ends the operation, and the result it ends
  with (\<open>NativeRuntimeResult\<close>).
\<close>

section \<open>Operations of events\<close>

text \<open>\<open>getattr(value, "operation_id", 0)\<close> over the classes a metadata value may have.\<close>

fun metadata_operation_id :: "event_value \<Rightarrow> int" where
  "metadata_operation_id (FrameSubmitV m) = fsm_operation_id m"
| "metadata_operation_id (FlowUpdateV m) = fum_operation_id m"
| "metadata_operation_id (RuntimeV (ControlRequestM m)) = crm_operation_id m"
| "metadata_operation_id (RuntimeV (SchedulingM m)) = sdm_operation_id m"
| "metadata_operation_id (RuntimeV (BudgetM m)) = bgm_operation_id m"
| "metadata_operation_id (RuntimeV (ProgressM m)) = prm_operation_id m"
| "metadata_operation_id (RuntimeV (PartialResultM m)) = ptm_operation_id m"
| "metadata_operation_id (RuntimeV (RouteHintM m)) = rhtm_operation_id m"
| "metadata_operation_id (RuntimeV (ResultDropReasonM m)) = drm_operation_id m"
| "metadata_operation_id (RuntimeV (ObjectReferenceM m)) = orm_operation_id m"
| "metadata_operation_id (RuntimeV (ObjectReleaseM m)) = olm_operation_id m"
| "metadata_operation_id _ = 0"

definition runtime_event_operation_id :: "NativeRuntimeEvent \<Rightarrow> int" where
  "runtime_event_operation_id e =
     (let by_context = (let related = nrd_related_operation_id (nec_diagnostic (runtime_event_context e))
            in if related \<noteq> 0 then related
               else (case rev_value (nre_metadata e) of None \<Rightarrow> 0 | Some v \<Rightarrow> metadata_operation_id v))
      in if rfh_message_type (nre_header e) = MT_SUPERSEDE then
           (case rev_value (nre_metadata e) of
              Some (RuntimeV (SupersedeM m)) \<Rightarrow> sudm_old_operation_id m
            | _ \<Rightarrow> by_context)
         else by_context)"

fun event_operation_id :: "polled_event \<Rightarrow> int" where
  "event_operation_id (RuntimeE e) = runtime_event_operation_id e"
| "event_operation_id (LifecycleE e) = nrd_related_operation_id (nle_diagnostic e)"

text \<open>\<open>_runtime_operation_id\<close>: the operation a frame that is sent refers to, if its type has one.\<close>

definition runtime_operation_id :: "MessageType \<Rightarrow> event_value \<Rightarrow> int option" where
  "runtime_operation_id mt v =
     (case v of
        RuntimeV (ControlRequestM m) \<Rightarrow>
          if mt \<in> {MT_CANCEL, MT_ABORT} then Some (crm_operation_id m) else None
      | RuntimeV (SchedulingM m) \<Rightarrow>
          if mt \<in> {MT_PRIORITY_UPDATE, MT_DEADLINE, MT_EXPIRE_AT} then Some (sdm_operation_id m) else None
      | RuntimeV (SupersedeM m) \<Rightarrow>
          if mt = MT_SUPERSEDE then Some (sudm_old_operation_id m) else None
      | RuntimeV (BudgetM m) \<Rightarrow> if mt = MT_BUDGET_UPDATE then Some (bgm_operation_id m) else None
      | RuntimeV (RouteHintM m) \<Rightarrow>
          if mt \<in> {MT_ROUTE_HINT, MT_EXECUTION_HINT} then Some (rhtm_operation_id m) else None
      | RuntimeV (ObjectReferenceM m) \<Rightarrow> if mt = MT_OBJECT_REF then Some (orm_operation_id m) else None
      | RuntimeV (ObjectReleaseM m) \<Rightarrow>
          if mt = MT_OBJECT_RELEASE then Some (olm_operation_id m) else None
      | _ \<Rightarrow> None)"

section \<open>Lifecycle\<close>

definition operation_lifecycle_from_native_event ::
    "NativeLifecycleEvent \<Rightarrow> OperationLifecycleEvent nres" where
  "operation_lifecycle_from_native_event e =
     (if nle_kind e \<noteq> EVENT_OPERATION_LIFECYCLE then protocol_error
      else let operation_id = event_operation_id (LifecycleE e)
           in if operation_id = 0 then protocol_error
              else (case nle_payload e of
                  [b] \<Rightarrow> bind_nat (or_protocol_error (OperationState_of (uint b))) (\<lambda>state.
                    plain (OperationLifecycleEvent_init operation_id (OperationState_int state)))
                | _ \<Rightarrow> protocol_error))"

definition terminal_operation_state :: "OperationState \<Rightarrow> bool" where
  "terminal_operation_state st \<longleftrightarrow> st \<in> {OS_COMPLETED, OS_CANCELLED, OS_SUPERSEDED, OS_FAILED}"

fun event_is_result_event :: "polled_event \<Rightarrow> bool nres" where
  "event_is_result_event (RuntimeE e) =
     Inr (native_event_kind (RuntimeE e) \<in> {EVENT_RESULT_PUSHED, EVENT_RESULT_DROPPED, EVENT_ERROR})"
| "event_is_result_event (LifecycleE e) =
     (if nle_kind e \<in> {EVENT_RESULT_PUSHED, EVENT_RESULT_DROPPED, EVENT_ERROR} then Inr True
      else if nle_kind e = EVENT_OPERATION_LIFECYCLE
      then bind_nat (operation_lifecycle_from_native_event e) (\<lambda>l.
        Inr (terminal_operation_state (ole_state l)))
      else Inr False)"

definition operation_state_from_lifecycle_event :: "NativeLifecycleEvent \<Rightarrow> OperationState nres" where
  "operation_state_from_lifecycle_event e =
     (if \<not> status_succeeded (nrd_status (nle_diagnostic e)) \<or> nle_kind e = EVENT_ERROR then Inr OS_FAILED
      else if nle_kind e = EVENT_RESULT_DROPPED then Inr OS_CANCELLED
      else if nle_kind e = EVENT_RESULT_PUSHED then Inr OS_COMPLETED
      else Inl (HandleError ''is not a terminal operation lifecycle event''))"

fun terminal_state_from_operation_state :: "OperationState \<Rightarrow> ResultTerminalState nres" where
  "terminal_state_from_operation_state OS_COMPLETED = Inr RTS_SUCCESS"
| "terminal_state_from_operation_state OS_CANCELLED = Inr RTS_CANCELLED"
| "terminal_state_from_operation_state OS_SUPERSEDED = Inr RTS_DROPPED"
| "terminal_state_from_operation_state OS_FAILED = Inr RTS_ERROR"
| "terminal_state_from_operation_state _ = Inl (HandleError ''is not a terminal operation state'')"

section \<open>Results\<close>

datatype terminal_event = TerminalRuntime NativeRuntimeEvent | TerminalLifecycle OperationLifecycleEvent

definition terminal_state_from_terminal_event :: "terminal_event \<Rightarrow> ResultTerminalState nres" where
  "terminal_state_from_terminal_event t =
     (case t of
        TerminalRuntime e \<Rightarrow>
          if rfh_message_type (nre_header e) = MT_RESULT_PUSH then
            if rev_kind (nre_metadata e) \<noteq> REM_RESULT_PUSH
            then plain (ve ''RESULT_PUSH terminal event requires ResultPushMetadata'')
            else Inr RTS_SUCCESS
          else if rfh_message_type (nre_header e) \<in> {MT_RESULT_DROP, MT_RESULT_DROP_REASON}
          then Inr RTS_DROPPED
          else plain (ve ''is not terminal result evidence'')
      | TerminalLifecycle l \<Rightarrow>
          (case terminal_state_from_operation_state (ole_state l) of
             Inr s \<Rightarrow> Inr s
           | Inl e \<Rightarrow> plain (ve ''is not a terminal operation state'')))"

record NativeRuntimeResult =
  nrr_operation_id :: int
  nrr_terminal_state :: ResultTerminalState
  nrr_event :: terminal_event

definition NativeRuntimeResult_init ::
    "int \<Rightarrow> ResultTerminalState \<Rightarrow> terminal_event \<Rightarrow> NativeRuntimeResult nres" where
  "NativeRuntimeResult_init operation_id terminal_state event =
     (if \<not> (1 \<le> operation_id \<and> operation_id \<le> 0xFFFFFFFFFFFFFFFF)
      then plain (ve ''operation_id must be a non-zero unsigned 64-bit integer'')
      else if (case event of TerminalLifecycle l \<Rightarrow> ole_operation_id l \<noteq> operation_id | _ \<Rightarrow> False)
      then plain (ve ''lifecycle event operation_id must match result operation_id'')
      else bind_nat (terminal_state_from_terminal_event event) (\<lambda>expected.
        if terminal_state \<noteq> expected then plain (ve ''terminal_state does not match terminal evidence'')
        else Inr \<lparr>nrr_operation_id = operation_id, nrr_terminal_state = terminal_state,
               nrr_event = event\<rparr>))"

text \<open>\<open>NativeRuntimeResult._from_polled_event\<close>, with the operation id given.\<close>

fun result_from_polled_event :: "polled_event \<Rightarrow> int \<Rightarrow> NativeRuntimeResult nres" where
  "result_from_polled_event (RuntimeE e) operation_id =
     (let mt = rfh_message_type (nre_header e)
      in if mt = MT_RESULT_PUSH then
           if rev_kind (nre_metadata e) \<noteq> REM_RESULT_PUSH
           then Inl (HandleError ''RESULT_PUSH terminal event requires ResultPushMetadata'')
           else NativeRuntimeResult_init operation_id RTS_SUCCESS (TerminalRuntime e)
         else if mt \<in> {MT_RESULT_DROP, MT_RESULT_DROP_REASON}
         then NativeRuntimeResult_init operation_id RTS_DROPPED (TerminalRuntime e)
         else Inl (HandleError ''is not a terminal result event''))"
| "result_from_polled_event (LifecycleE e) operation_id =
     bind_nat
       (if nle_kind e = EVENT_OPERATION_LIFECYCLE then
          bind_nat (operation_lifecycle_from_native_event e) (\<lambda>l.
            if ole_operation_id l \<noteq> operation_id
            then Inl (HandleError ''operation lifecycle identity does not match the requested operation'')
            else Inr l)
        else bind_nat (operation_state_from_lifecycle_event e) (\<lambda>state.
          plain (OperationLifecycleEvent_init operation_id (OperationState_int state)))) (\<lambda>l.
     bind_nat (terminal_state_from_operation_state (ole_state l)) (\<lambda>terminal_state.
       NativeRuntimeResult_init operation_id terminal_state (TerminalLifecycle l)))"

text \<open>
  An event that ends an operation of a valid id gives a result, unless it is a runtime frame of
  another type than the three result messages; the checks of the class never fail.
\<close>

lemma OperationLifecycleEvent_init_Inr:
  "OperationLifecycleEvent_init i (OperationState_int s) = Inr l \<longleftrightarrow>
    1 \<le> i \<and> i \<le> 0xFFFFFFFFFFFFFFFF \<and> l = \<lparr>ole_operation_id = i, ole_state = s\<rparr>"
  by (auto simp: OperationLifecycleEvent_init_def)

lemma operation_lifecycle_Inr:
  "operation_lifecycle_from_native_event e = Inr l \<Longrightarrow>
    nle_kind e = EVENT_OPERATION_LIFECYCLE \<and> ole_operation_id l = event_operation_id (LifecycleE e) \<and>
    1 \<le> ole_operation_id l \<and> ole_operation_id l \<le> 0xFFFFFFFFFFFFFFFF"
  by (auto simp: operation_lifecycle_from_native_event_def Let_def res_simps
      OperationLifecycleEvent_init_Inr split: if_splits list.splits)

lemma terminal_operation_state_iff:
  "terminal_operation_state s \<longleftrightarrow> (\<exists>t. terminal_state_from_operation_state s = Inr t)"
  by (cases s) (simp_all add: terminal_operation_state_def)

lemma lifecycle_result:
  assumes "terminal_state_from_operation_state (ole_state l) = Inr t"
    "1 \<le> ole_operation_id l" "ole_operation_id l \<le> 0xFFFFFFFFFFFFFFFF"
  shows "NativeRuntimeResult_init (ole_operation_id l) t (TerminalLifecycle l) =
    Inr \<lparr>nrr_operation_id = ole_operation_id l, nrr_terminal_state = t, nrr_event = TerminalLifecycle l\<rparr>"
  using assms by (simp add: NativeRuntimeResult_init_def terminal_state_from_terminal_event_def)

lemma result_of_lifecycle_event:
  assumes "event_is_result_event (LifecycleE e) = Inr True" "event_operation_id (LifecycleE e) = i"
    "1 \<le> i" "i \<le> 0xFFFFFFFFFFFFFFFF"
  shows "\<exists>r. result_from_polled_event (LifecycleE e) i = Inr r \<and> nrr_operation_id r = i"
proof (cases "nle_kind e = EVENT_OPERATION_LIFECYCLE")
  case True
  then obtain l where l: "operation_lifecycle_from_native_event e = Inr l" "terminal_operation_state (ole_state l)"
    using assms(1) by (auto simp: res_simps)
  then obtain t where "terminal_state_from_operation_state (ole_state l) = Inr t"
    by (auto simp: terminal_operation_state_iff)
  moreover have id: "ole_operation_id l = i" "1 \<le> i" "i \<le> 0xFFFFFFFFFFFFFFFF"
    using operation_lifecycle_Inr [OF l(1)] assms(2) by simp_all
  ultimately have "NativeRuntimeResult_init i t (TerminalLifecycle l) =
      Inr \<lparr>nrr_operation_id = i, nrr_terminal_state = t, nrr_event = TerminalLifecycle l\<rparr>"
    using lifecycle_result [of l t] by simp
  then show ?thesis
    using True l(1) id(1) \<open>terminal_state_from_operation_state (ole_state l) = Inr t\<close> by simp
next
  case False
  then have "nle_kind e \<in> {EVENT_RESULT_PUSHED, EVENT_RESULT_DROPPED, EVENT_ERROR}"
    using assms(1) by (auto split: if_splits)
  then have "\<exists>s. operation_state_from_lifecycle_event e = Inr s \<and> terminal_operation_state s"
    by (auto simp: operation_state_from_lifecycle_event_def terminal_operation_state_def)
  then obtain s where s: "operation_state_from_lifecycle_event e = Inr s" "terminal_operation_state s"
    by blast
  then obtain t where "terminal_state_from_operation_state s = Inr t"
    by (auto simp: terminal_operation_state_iff)
  moreover have "OperationLifecycleEvent_init i (OperationState_int s) =
      Inr \<lparr>ole_operation_id = i, ole_state = s\<rparr>"
    using assms(3,4) by (simp add: OperationLifecycleEvent_init_Inr)
  ultimately show ?thesis
    using False s(1) assms lifecycle_result [of "\<lparr>ole_operation_id = i, ole_state = s\<rparr>"] by simp
qed

lemma result_of_runtime_event:
  assumes "1 \<le> i" "i \<le> 0xFFFFFFFFFFFFFFFF"
  shows "(\<exists>r. result_from_polled_event (RuntimeE e) i = Inr r) \<longleftrightarrow>
    rfh_message_type (nre_header e) \<in> {MT_RESULT_DROP, MT_RESULT_DROP_REASON} \<or>
    rfh_message_type (nre_header e) = MT_RESULT_PUSH \<and> rev_kind (nre_metadata e) = REM_RESULT_PUSH"
  using assms
  by (auto simp: NativeRuntimeResult_init_def terminal_state_from_terminal_event_def Let_def)

lemma result_operation: "result_from_polled_event e i = Inr r \<Longrightarrow> nrr_operation_id r = i"
  by (cases "(e, i)" rule: result_from_polled_event.cases)
    (auto simp: NativeRuntimeResult_init_def Let_def res_simps split: if_splits)

end
