(* ===== verification/Event_Delivery.thy ===== *)
theory Event_Delivery
  imports Native_Values
begin

text \<open>
  What the two sessions over the native library have in common: an object keeps the events it has
  read and not handed out, its methods read replies and select events.  \<open>conserves\<close> says that a
  call loses, invents and reorders nothing: within each class of events, what it hands out and
  then keeps is what was kept and then delivered.  The locale \<open>lossless\<close> lifts this from the
  calls of an object to every sequence of calls.
\<close>

section \<open>Selecting events\<close>

text \<open>
  The loops that split a list of events into selected and retained ones; at most \<open>limit\<close> events
  are selected, \<open>k\<close> of them already.
\<close>

definition below :: "int option \<Rightarrow> int \<Rightarrow> bool" where
  "below limit k \<longleftrightarrow> (case limit of None \<Rightarrow> True | Some n \<Rightarrow> k < n)"

fun split_events :: "('e \<Rightarrow> bool) \<Rightarrow> int option \<Rightarrow> int \<Rightarrow> 'e list \<Rightarrow> 'e list \<times> 'e list" where
  "split_events sel limit k [] = ([], [])"
| "split_events sel limit k (e # es) =
     (if sel e \<and> below limit k
      then (case split_events sel limit (k + 1) es of (a, b) \<Rightarrow> (e # a, b))
      else (case split_events sel limit k es of (a, b) \<Rightarrow> (a, e # b)))"

lemma split_events_length:
  "split_events sel limit k es = (a, b) \<Longrightarrow> length a + length b = length es"
  by (induction es arbitrary: k a b) (auto split: if_splits prod.splits)

lemma split_selected:
  "split_events sel limit k es = (a, b) \<Longrightarrow> e \<in> set a \<Longrightarrow> sel e"
  by (induction es arbitrary: k a b) (auto split: if_splits prod.splits)

lemma split_full: "\<not> below limit k \<Longrightarrow> split_events sel limit k es = ([], es)"
  by (induction es) auto

lemma split_retained:
  "split_events sel limit k es = (a, b) \<Longrightarrow> below limit (k + len a) \<Longrightarrow> e \<in> set b \<Longrightarrow> \<not> sel e"
proof (induction es arbitrary: k a b)
  case (Cons x es)
  show ?case
  proof (cases "sel x \<and> below limit k")
    case True
    then obtain a' where a': "a = x # a'" "split_events sel limit (k + 1) es = (a', b)"
      using Cons.prems(1) by (auto split: prod.splits)
    have "below limit (k + 1 + len a')"
      using Cons.prems(2) unfolding a'(1) by (simp add: algebra_simps)
    then show ?thesis
      by (rule Cons.IH [OF a'(2) _ Cons.prems(3)])
  next
    case False
    then obtain b' where b': "b = x # b'" "split_events sel limit k es = (a, b')"
      using Cons.prems(1) by (auto split: prod.splits)
    have "below limit k"
      using Cons.prems(2) by (auto simp: below_def split: option.splits)
    then show ?thesis
      using Cons.IH [OF b'(2)] Cons.prems False b'(1) by auto
  qed
qed simp

lemma split_at_most:
  "split_events sel (Some n) k es = (a, b) \<Longrightarrow> k + len a \<le> n \<or> a = []"
proof (induction es arbitrary: k a b)
  case (Cons e es)
  then show ?case
    by (fastforce simp: below_def split: if_splits prod.splits)
qed simp

section \<open>Classes\<close>

abbreviation of_class :: "('e \<Rightarrow> 'c) \<Rightarrow> 'c \<Rightarrow> 'e list \<Rightarrow> 'e list" where
  "of_class cls c \<equiv> filter (\<lambda>e. cls e = c)"

definition by_class :: "('e \<Rightarrow> 'c) \<Rightarrow> ('e \<Rightarrow> 'b) \<Rightarrow> bool" where
  "by_class cls sel \<longleftrightarrow> (\<forall>e e'. cls e = cls e' \<longrightarrow> sel e = sel e')"

lemma by_class_cases:
  assumes "by_class cls sel" "\<And>e. e \<in> set as \<Longrightarrow> sel e" "\<And>e. e \<in> set bs \<Longrightarrow> \<not> sel e"
  shows "of_class cls c as = [] \<or> of_class cls c bs = []"
  using assms unfolding by_class_def filter_empty_conv by metis

lemma split_class:
  assumes "by_class cls sel"
  shows "split_events sel limit k es = (a, b) \<Longrightarrow> of_class cls c a @ of_class cls c b = of_class cls c es"
proof (induction es arbitrary: k a b)
  case (Cons x es)
  show ?case
  proof (cases "sel x \<and> below limit k")
    case True
    then show ?thesis using Cons by (auto split: prod.splits)
  next
    case False
    then obtain b' where b': "b = x # b'" "split_events sel limit k es = (a, b')"
      using Cons.prems(1) by (auto split: prod.splits)
    have "of_class cls c a = []" if "cls x = c"
    proof (cases "sel x")
      case True
      then have "a = []" using False b'(2) split_full [of limit k sel es] by simp
      then show ?thesis by simp
    next
      case no: False
      then have "\<forall>e \<in> set a. cls e \<noteq> c"
        using split_selected [OF b'(2)] assms that unfolding by_class_def by metis
      then show ?thesis by (simp add: filter_empty_conv)
    qed
    then show ?thesis using Cons.IH [OF b'(2)] b'(1) by auto
  qed
qed simp

text \<open>Selecting from the kept events and then from the new ones, when no selected event was kept.\<close>

lemma split_twice:
  assumes "by_class cls sel" "\<And>e. e \<in> set retained \<Longrightarrow> \<not> sel e"
    "split_events sel limit k polled = (matching, other)"
  shows "of_class cls c (events @ matching) @ of_class cls c (retained @ other) =
    (of_class cls c events @ of_class cls c retained) @ of_class cls c polled"
  using by_class_cases [OF assms(1), of matching retained c] split_selected [OF assms(3)] assms(2)
    split_class [OF assms(1,3), of c] by auto

lemma first_of_class:
  assumes "by_class cls sel" "\<forall>x \<in> set a. sel x \<noteq> v" "sel e = v"
  shows "of_class cls c [e] @ of_class cls c (a @ b) = of_class cls c (a @ e # b)"
proof -
  have "of_class cls c a = []" if "cls e = c"
    using assms that unfolding by_class_def filter_empty_conv by metis
  then show ?thesis by simp
qed

section \<open>Conservation\<close>

definition conserves ::
    "('e \<Rightarrow> 'c) \<Rightarrow> ('s \<Rightarrow> 'e list) \<Rightarrow> ('r \<Rightarrow> 'e list nres) \<Rightarrow> 's \<Rightarrow> 'r list \<Rightarrow> 'e list \<Rightarrow> 's \<Rightarrow> 'r list \<Rightarrow> bool" where
  "conserves cls pend reply_events s script events s' script' \<longleftrightarrow>
     (\<exists>replies delivered. script = replies @ script' \<and> map_nat reply_events replies = Inr delivered \<and>
       (\<forall>c. of_class cls c events @ of_class cls c (pend s') =
          of_class cls c (pend s) @ of_class cls c (concat delivered)))"

lemma conserves_none:
  "(\<And>c. of_class cls c events @ of_class cls c (pend s') = of_class cls c (pend s)) \<Longrightarrow>
    conserves cls pend reply_events s script events s' script"
  unfolding conserves_def by (intro exI [of _ "[]"]) simp

lemma conserves_one:
  "reply_events reply = Inr polled \<Longrightarrow>
    (\<And>c. of_class cls c events @ of_class cls c (pend s') = of_class cls c (pend s) @ of_class cls c polled) \<Longrightarrow>
    conserves cls pend reply_events s (reply # script) events s' script"
  unfolding conserves_def by (intro exI [of _ "[reply]"]) simp

lemma conserves_trans:
  assumes "conserves cls pend reply_events s script events s1 script1" "conserves cls pend reply_events s1 script1 events' s2 script2"
  shows "conserves cls pend reply_events s script (events @ events') s2 script2"
proof -
  obtain r d where 1: "script = r @ script1" "map_nat reply_events r = Inr d"
    "\<And>c. of_class cls c events @ of_class cls c (pend s1) = of_class cls c (pend s) @ of_class cls c (concat d)"
    using assms(1) unfolding conserves_def by blast
  obtain r' d' where 2: "script1 = r' @ script2" "map_nat reply_events r' = Inr d'"
    "\<And>c. of_class cls c events' @ of_class cls c (pend s2) = of_class cls c (pend s1) @ of_class cls c (concat d')"
    using assms(2) unfolding conserves_def by blast
  have "map_nat reply_events (r @ r') = Inr (d @ d')"
    using 1(2) 2(2) by (simp add: map_nat_append)
  moreover have "of_class cls c (events @ events') @ of_class cls c (pend s2) =
      of_class cls c (pend s) @ of_class cls c (concat (d @ d'))" for c
  proof -
    have "of_class cls c (events @ events') @ of_class cls c (pend s2) =
        (of_class cls c events @ of_class cls c (pend s1)) @ of_class cls c (concat d')"
      by (simp add: 2(3))
    then show ?thesis by (simp only: 1(3) concat_append filter_append append_assoc)
  qed
  ultimately show ?thesis using 1(1) 2(1) unfolding conserves_def by fastforce
qed

section \<open>Sequences of calls\<close>

text \<open>
  A step of an object makes one call; its result is paired with the object and the replies left,
  \<open>None\<close> if it still waits.  A run ends with the first error.
\<close>

type_synonym ('s, 'r, 'a) reading = "'s \<Rightarrow> 'r list \<Rightarrow> ('a nres \<times> 's \<times> 'r list) option"

fun run_calls :: "('call \<Rightarrow> ('s, 'r, 'e list) reading) \<Rightarrow> 'call list \<Rightarrow> ('s, 'r, 'e list) reading" where
  "run_calls step [] s script = Some (Inr [], s, script)"
| "run_calls step (c # cs) s script =
     (case step c s script of
        None \<Rightarrow> None
      | Some (Inl err, s, script) \<Rightarrow> Some (Inl err, s, script)
      | Some (Inr es, s, script) \<Rightarrow>
          (case run_calls step cs s script of
             None \<Rightarrow> None
           | Some (r, s, script) \<Rightarrow> Some (bind_nat r (\<lambda>es'. Inr (es @ es')), s, script)))"

locale lossless =
  fixes cls :: "'e \<Rightarrow> 'c"
    and pend :: "'s \<Rightarrow> 'e list"
    and reply_events :: "'r \<Rightarrow> 'e list nres"
    and step :: "'call \<Rightarrow> ('s, 'r, 'e list) reading"
  assumes step_conserves:
    "step c s script = Some (Inr es, s', script') \<Longrightarrow> conserves cls pend reply_events s script es s' script'"
begin

lemma run_conserves:
  "run_calls step cs s script = Some (Inr es, s', script') \<Longrightarrow>
    conserves cls pend reply_events s script es s' script'"
proof (induction cs arbitrary: s script es)
  case Nil
  then show ?case by (auto intro: conserves_none)
next
  case (Cons c cs)
  obtain es1 s1 script1 es2 where "step c s script = Some (Inr es1, s1, script1)"
    "run_calls step cs s1 script1 = Some (Inr es2, s', script')" "es = es1 @ es2"
    using Cons.prems by (auto simp: res_simps split: option.splits sum.splits prod.splits)
  then show ?case
    using conserves_trans [OF step_conserves Cons.IH] by blast
qed

text \<open>In particular an object that was new and keeps nothing has handed out every event, class by class in order.\<close>

lemma drained:
  assumes "run_calls step cs s script = Some (Inr es, s', [])" "pend s = []" "pend s' = []"
  shows "\<exists>delivered. map_nat reply_events script = Inr delivered \<and>
    (\<forall>c. of_class cls c es = of_class cls c (concat delivered))"
  using run_conserves [OF assms(1)] assms(2,3) by (auto simp: conserves_def)

end

end
