(* ===== verification/Native_Session.thy ===== *)
theory Native_Session
  imports Native_Results Client_Session Event_Delivery
begin

text \<open>
  \<open>NativeRuntimeSession\<close>: the client session over the native library.  Its state is the list of
  events that were read and not handed out, the frames of the active operations and two counters.

  The library is seen through its replies.  A method that reads events takes the list of the
  replies to come (\<open>script\<close>) and returns the ones it has not used; \<open>None\<close> means that it still
  waits for a reply.  A method that makes one call takes that call as a function of the request.
  The locks make each method one step; the result is paired with the state, which is kept if the
  method raises.
\<close>

record NativeRuntimeSession =
  ns_handle :: NativeHandle
  ns_closed :: bool
  ns_pending :: "polled_event list"
  ns_next_frame_id :: int
  ns_next_control_sequence :: int
  ns_operation_frames :: "int \<rightharpoonup> int"

definition new_session :: "NativeHandle \<Rightarrow> NativeRuntimeSession" where
  "new_session h = \<lparr>ns_handle = h, ns_closed = False, ns_pending = [], ns_next_frame_id = 1,
     ns_next_control_sequence = 1, ns_operation_frames = Map.empty\<rparr>"

record poll_reply =
  pl_status :: NativeStatus
  pl_events :: "ffi_event list"

type_synonym script = "poll_reply list"

record NativeOperationSchedulingHint =
  nsh_parent_operation_id :: "int option"
  nsh_operation_group_id :: "int option"
  nsh_deadline_ms :: "int option"

record NativeRuntimeOperation =
  nro_session :: NativeHandle
  nro_handle :: NativeHandle
  nro_operation_id :: int
  nro_frame_id :: int
  nro_scheduling_hint :: NativeOperationSchedulingHint

definition session_ensure_open :: "NativeRuntimeSession \<Rightarrow> unit nres" where
  "session_ensure_open s = (if ns_closed s then invalid_state else Inr ())"

section \<open>Active operations\<close>

definition remember_operation_frame :: "int \<Rightarrow> int \<Rightarrow> NativeRuntimeSession \<Rightarrow> NativeRuntimeSession" where
  "remember_operation_frame operation_id frame_id s =
     s\<lparr>ns_operation_frames := (ns_operation_frames s)(operation_id \<mapsto> frame_id)\<rparr>"

definition forget_operation_frame :: "int \<Rightarrow> NativeRuntimeSession \<Rightarrow> NativeRuntimeSession" where
  "forget_operation_frame operation_id s =
     s\<lparr>ns_operation_frames := (ns_operation_frames s)(operation_id := None)\<rparr>"

definition forget_operation_frame_by_frame :: "int \<Rightarrow> NativeRuntimeSession \<Rightarrow> NativeRuntimeSession" where
  "forget_operation_frame_by_frame frame_id s =
     s\<lparr>ns_operation_frames := (\<lambda>i. if ns_operation_frames s i = Some frame_id then None
         else ns_operation_frames s i)\<rparr>"

definition observe_polled_event ::
    "polled_event \<Rightarrow> NativeRuntimeSession \<Rightarrow> unit nres \<times> NativeRuntimeSession" where
  "observe_polled_event e s =
     (if event_session e \<noteq> ns_handle s then (Inr (), s)
      else if (case e of RuntimeE r \<Rightarrow> rfh_message_type (nre_header r) = MT_SESSION_CLOSE | _ \<Rightarrow> False)
      then (Inr (), s\<lparr>ns_operation_frames := Map.empty\<rparr>)
      else let operation_id = event_operation_id e
           in if operation_id = 0 then (Inr (), s)
              else (case event_is_result_event e of
                  Inl err \<Rightarrow> (Inl err, s)
                | Inr terminal \<Rightarrow>
                    if terminal \<or> (case e of
                        RuntimeE r \<Rightarrow> rfh_message_type (nre_header r) \<in> {MT_CANCEL, MT_ABORT, MT_SUPERSEDE}
                      | _ \<Rightarrow> False)
                    then (Inr (), forget_operation_frame operation_id s) else (Inr (), s)))"

fun observe_all :: "polled_event list \<Rightarrow> NativeRuntimeSession \<Rightarrow> unit nres \<times> NativeRuntimeSession" where
  "observe_all [] s = (Inr (), s)"
| "observe_all (e # es) s =
     (case observe_polled_event e s of (Inl err, s) \<Rightarrow> (Inl err, s) | (Inr _, s) \<Rightarrow> observe_all es s)"

section \<open>Reading events\<close>

text \<open>\<open>_poll_native_events_unlocked\<close>.\<close>

definition poll_native_events ::
    "NativeRuntimeSession \<Rightarrow> script
      \<Rightarrow> (polled_event list nres \<times> NativeRuntimeSession \<times> script) option" where
  "poll_native_events s script =
     (case script of
        [] \<Rightarrow> None
      | reply # script \<Rightarrow>
          if nst_status_code (pl_status reply) = FFI_STATUS_WOULD_BLOCK then Some (Inr [], s, script)
          else if \<not> status_succeeded (pl_status reply)
          then Some (Inl (status_exception (pl_status reply)), s, script)
          else (case map_nat native_event_from_ffi (pl_events reply) of
              Inl err \<Rightarrow> Some (Inl err, s, script)
            | Inr events \<Rightarrow>
                (case observe_all events s of
                   (Inl err, s) \<Rightarrow> Some (Inl err, s, script)
                 | (Inr _, s) \<Rightarrow> Some (Inr events, s, script))))"

definition kind_selected :: "int option \<Rightarrow> polled_event \<Rightarrow> bool" where
  "kind_selected event_kind e \<longleftrightarrow> (case event_kind of None \<Rightarrow> True | Some k \<Rightarrow> native_event_kind e = k)"

definition check_poll_arguments :: "int \<Rightarrow> int option \<Rightarrow> int \<Rightarrow> unit nres" where
  "check_poll_arguments max_events event_kind timeout_ms =
     bind_nat (plain (require_bounded_integer ''max_events'' max_events 0xFFFFFFFF)) (\<lambda>_.
     bind_nat (plain (require_bounded_integer ''timeout_ms'' timeout_ms 0xFFFFFFFF)) (\<lambda>_.
       if max_events = 0 then Inr ()
       else (case event_kind of None \<Rightarrow> Inr () | Some k \<Rightarrow> native_validate_u32 ''event_kind'' k)))"

definition poll_events_batch ::
    "int \<Rightarrow> int option \<Rightarrow> int \<Rightarrow> NativeRuntimeSession \<Rightarrow> script
      \<Rightarrow> (polled_event list nres \<times> NativeRuntimeSession \<times> script) option" where
  "poll_events_batch max_events event_kind timeout_ms s script =
     (case bind_nat (session_ensure_open s) (\<lambda>_. check_poll_arguments max_events event_kind timeout_ms) of
        Inl err \<Rightarrow> Some (Inl err, s, script)
      | Inr _ \<Rightarrow>
          if max_events = 0 then Some (Inr [], s, script)
          else (case split_events (kind_selected event_kind) (Some max_events) 0 (ns_pending s) of
              (events, retained) \<Rightarrow>
                let s = s\<lparr>ns_pending := retained\<rparr>
                in if max_events - len events = 0 then Some (Inr events, s, script)
                   else (case poll_native_events s script of
                       None \<Rightarrow> None
                     | Some (Inl err, s, script) \<Rightarrow> Some (Inl err, s, script)
                     | Some (Inr polled, s, script) \<Rightarrow>
                         (case split_events (kind_selected event_kind) None 0 polled of
                            (matching, other) \<Rightarrow>
                              Some (Inr (events @ matching), s\<lparr>ns_pending := ns_pending s @ other\<rparr>, script)))))"

definition poll_event ::
    "int \<Rightarrow> NativeRuntimeSession \<Rightarrow> script
      \<Rightarrow> (polled_event option nres \<times> NativeRuntimeSession \<times> script) option" where
  "poll_event timeout_ms s script =
     map_option (\<lambda>(r, s, script). (bind_nat r (\<lambda>es. Inr (case es of [] \<Rightarrow> None | e # _ \<Rightarrow> Some e)), s, script))
       (poll_events_batch 1 None timeout_ms s script)"

text \<open>
  \<open>poll_events\<close> without \<open>max_events\<close> reads one event after the other until there is none.  Every
  round takes an event that was kept or uses a reply.
\<close>

lemma observe_pending:
  "observe_polled_event e s = (r, s') \<Longrightarrow> ns_pending s' = ns_pending s \<and> ns_handle s' = ns_handle s \<and>
    ns_closed s' = ns_closed s \<and> ns_next_frame_id s' = ns_next_frame_id s"
  by (auto simp: observe_polled_event_def forget_operation_frame_def Let_def split: if_splits sum.splits)

lemma observe_all_pending:
  "observe_all es s = (r, s') \<Longrightarrow> ns_pending s' = ns_pending s \<and> ns_handle s' = ns_handle s \<and>
    ns_closed s' = ns_closed s \<and> ns_next_frame_id s' = ns_next_frame_id s"
proof (induction es arbitrary: s)
  case (Cons e es)
  obtain q s1 where q: "observe_polled_event e s = (q, s1)" by fastforce
  then show ?case
    using Cons observe_pending [OF q] by (cases q) auto
qed simp

lemma poll_native_pending:
  "poll_native_events s script = Some (r, s', script') \<Longrightarrow> ns_pending s' = ns_pending s \<and>
    ns_handle s' = ns_handle s \<and> ns_closed s' = ns_closed s \<and> (\<exists>reply. script = reply # script')"
  by (auto simp: poll_native_events_def split: list.splits if_splits sum.splits prod.splits
      dest: observe_all_pending)

lemma split_events_all: "split_events (kind_selected None) None k es = (es, [])"
  by (induction es arbitrary: k) (simp_all add: kind_selected_def below_def)

lemma split_events_one:
  "split_events (kind_selected None) (Some 1) 0 (e # es) = ([e], es)"
proof -
  have "split_events sel (Some 1) 1 es = ([], es)" for sel
    by (induction es) (simp_all add: below_def)
  then show ?thesis by (simp add: kind_selected_def below_def)
qed

lemma poll_one:
  assumes "poll_events_batch 1 None timeout_ms s script = Some (Inr events, s', script')"
  shows "length (ns_pending s') + length script' < length (ns_pending s) + length script"
proof (cases "ns_pending s")
  case Nil
  then show ?thesis
    using assms poll_native_pending [of "s\<lparr>ns_pending := []\<rparr>" script]
    by (fastforce simp: poll_events_batch_def split_events_all Let_def split: sum.splits option.splits)
next
  case (Cons e es)
  then show ?thesis
    using assms by (auto simp: poll_events_batch_def split_events_one Let_def split: sum.splits
        simp del: split_events.simps)
qed

function poll_all_loop ::
    "int option \<Rightarrow> int \<Rightarrow> polled_event list \<Rightarrow> NativeRuntimeSession \<Rightarrow> script
      \<Rightarrow> (polled_event list nres \<times> NativeRuntimeSession \<times> script) option" where
  "poll_all_loop event_kind timeout_ms events s script =
     (case poll_events_batch 1 None timeout_ms s script of
        None \<Rightarrow> None
      | Some (Inl err, s, script) \<Rightarrow> Some (Inl err, s, script)
      | Some (Inr [], s, script) \<Rightarrow> Some (Inr events, s, script)
      | Some (Inr (e # _), s, script) \<Rightarrow>
          poll_all_loop event_kind 0 (if kind_selected event_kind e then events @ [e] else events) s script)"
  by pat_completeness auto

termination
  by (relation "measure (\<lambda>(_, _, _, s, script). length (ns_pending s) + length script)")
    (auto dest: poll_one)

declare poll_all_loop.simps [simp del]

definition poll_events ::
    "int option \<Rightarrow> int option \<Rightarrow> int \<Rightarrow> NativeRuntimeSession \<Rightarrow> script
      \<Rightarrow> (polled_event list nres \<times> NativeRuntimeSession \<times> script) option" where
  "poll_events max_events event_kind timeout_ms s script =
     (case max_events of
        Some n \<Rightarrow> poll_events_batch n event_kind timeout_ms s script
      | None \<Rightarrow>
          (case (case event_kind of None \<Rightarrow> Inr () | Some k \<Rightarrow> native_validate_u32 ''event_kind'' k) of
             Inl err \<Rightarrow> Some (Inl err, s, script)
           | Inr _ \<Rightarrow> poll_all_loop event_kind timeout_ms [] s script))"

text \<open>\<open>poll_runtime_frames\<close>; it does not check that the session is open.\<close>

fun poll_frames_loop ::
    "int option \<Rightarrow> polled_event list \<Rightarrow> NativeRuntimeSession \<Rightarrow> script
      \<Rightarrow> (polled_event list nres \<times> NativeRuntimeSession \<times> script) option" where
  "poll_frames_loop max_events frames s [] = None"
| "poll_frames_loop max_events frames s (reply # script) =
     (case poll_native_events s (reply # script) of
        None \<Rightarrow> None
      | Some (Inl err, s, rest) \<Rightarrow> Some (Inl err, s, script)
      | Some (Inr events, s, rest) \<Rightarrow>
          if events = [] then Some (Inr frames, s, script)
          else (case split_events is_runtime_event max_events (len frames) events of
              (matching, other) \<Rightarrow>
                let s = s\<lparr>ns_pending := ns_pending s @ other\<rparr>;
                    frames = frames @ matching
                in if max_events \<noteq> None then Some (Inr frames, s, script)
                   else poll_frames_loop max_events frames s script))"

definition check_frame_arguments :: "int option \<Rightarrow> int \<Rightarrow> unit nres" where
  "check_frame_arguments max_events timeout_ms =
     bind_nat (case max_events of None \<Rightarrow> Inr ()
         | Some n \<Rightarrow> plain (require_bounded_integer ''max_events'' n 0xFFFFFFFF)) (\<lambda>_.
       if max_events = Some 0 then Inr ()
       else plain (require_bounded_integer ''timeout_ms'' timeout_ms 0xFFFFFFFF))"

definition poll_runtime_frames ::
    "int option \<Rightarrow> int \<Rightarrow> NativeRuntimeSession \<Rightarrow> script
      \<Rightarrow> (polled_event list nres \<times> NativeRuntimeSession \<times> script) option" where
  "poll_runtime_frames max_events timeout_ms s script =
     (case check_frame_arguments max_events timeout_ms of
        Inl err \<Rightarrow> Some (Inl err, s, script)
      | Inr _ \<Rightarrow>
          if max_events = Some 0 then Some (Inr [], s, script)
          else (case split_events is_runtime_event max_events 0 (ns_pending s) of
              (frames, retained) \<Rightarrow>
                let s = s\<lparr>ns_pending := retained\<rparr>
                in if max_events = Some (len frames) then Some (Inr frames, s, script)
                   else poll_frames_loop max_events frames s script))"

section \<open>Results\<close>

definition event_matches_operation :: "polled_event \<Rightarrow> NativeRuntimeOperation \<Rightarrow> bool" where
  "event_matches_operation e operation \<longleftrightarrow>
     event_session e = nro_session operation \<and> event_operation_id e = nro_operation_id operation"

definition result_of_operation :: "NativeRuntimeOperation \<Rightarrow> polled_event \<Rightarrow> bool nres" where
  "result_of_operation operation e =
     bind_nat (event_is_result_event e) (\<lambda>r. Inr (r \<and> event_matches_operation e operation))"

text \<open>
  \<open>_take_pending_result\<close>: the event is deleted before it is converted.  The first component is
  what the method returns, with the event it was made of.
\<close>

fun take_pending_result ::
    "NativeRuntimeOperation \<Rightarrow> polled_event list
      \<Rightarrow> (polled_event \<times> NativeRuntimeResult) option nres \<times> polled_event list" where
  "take_pending_result operation [] = (Inr None, [])"
| "take_pending_result operation (e # es) =
     (case result_of_operation operation e of
        Inl err \<Rightarrow> (Inl err, e # es)
      | Inr True \<Rightarrow>
          (bind_nat (result_from_polled_event e (nro_operation_id operation)) (\<lambda>r. Inr (Some (e, r))), es)
      | Inr False \<Rightarrow> (case take_pending_result operation es of (r, es) \<Rightarrow> (r, e # es)))"

fun scan_result_batch ::
    "NativeRuntimeOperation \<Rightarrow> (polled_event \<times> NativeRuntimeResult) option \<Rightarrow> ffi_event list
      \<Rightarrow> NativeRuntimeSession
      \<Rightarrow> (polled_event \<times> NativeRuntimeResult) option nres \<times> NativeRuntimeSession" where
  "scan_result_batch operation matched [] s = (Inr matched, s)"
| "scan_result_batch operation matched (f # fs) s =
     (case native_event_from_ffi f of
        Inl err \<Rightarrow> (Inl err, s)
      | Inr e \<Rightarrow>
          (case observe_polled_event e s of
             (Inl err, s) \<Rightarrow> (Inl err, s)
           | (Inr _, s) \<Rightarrow>
               (case (if matched = None then result_of_operation operation e else Inr False) of
                  Inl err \<Rightarrow> (Inl err, s)
                | Inr True \<Rightarrow>
                    (case result_from_polled_event e (nro_operation_id operation) of
                       Inl err \<Rightarrow> (Inl err, s)
                     | Inr r \<Rightarrow> scan_result_batch operation (Some (e, r)) fs s)
                | Inr False \<Rightarrow>
                    scan_result_batch operation matched fs (s\<lparr>ns_pending := ns_pending s @ [e]\<rparr>))))"

definition poll_result_batch ::
    "NativeRuntimeOperation \<Rightarrow> int \<Rightarrow> NativeRuntimeSession \<Rightarrow> script
      \<Rightarrow> ((polled_event \<times> NativeRuntimeResult) option nres \<times> NativeRuntimeSession \<times> script) option" where
  "poll_result_batch operation max_events s script =
     (case take_pending_result operation (ns_pending s) of
        (Inl err, pending) \<Rightarrow> Some (Inl err, s\<lparr>ns_pending := pending\<rparr>, script)
      | (Inr matched, pending) \<Rightarrow>
          let s = s\<lparr>ns_pending := pending\<rparr>
          in if matched \<noteq> None \<or> max_events = 0 then Some (Inr matched, s, script)
             else (case script of
                 [] \<Rightarrow> None
               | reply # script \<Rightarrow>
                   if nst_status_code (pl_status reply) = FFI_STATUS_WOULD_BLOCK
                   then Some (Inr None, s, script)
                   else if \<not> status_succeeded (pl_status reply)
                   then Some (Inl (status_exception (pl_status reply)), s, script)
                   else (case scan_result_batch operation None (pl_events reply) s of
                       (r, s) \<Rightarrow> Some (r, s, script))))"

definition would_block :: native_exn where
  "would_block = WouldBlockError (status_of FFI_STATUS_WOULD_BLOCK)"

definition check_result_arguments :: "int option \<Rightarrow> int \<Rightarrow> NativeRuntimeSession \<Rightarrow> unit nres" where
  "check_result_arguments max_events timeout_ms s =
     bind_nat (session_ensure_open s) (\<lambda>_.
       if (case max_events of None \<Rightarrow> False | Some n \<Rightarrow> n < 0)
       then plain (ve ''max_events must be non-negative'')
       else plain (require_bounded_integer ''timeout_ms'' timeout_ms 0xFFFFFFFF))"

definition result_batch_size :: "int option \<Rightarrow> int" where
  "result_batch_size max_events = (case max_events of None \<Rightarrow> 1 | Some n \<Rightarrow> n)"

definition poll_result ::
    "NativeRuntimeOperation \<Rightarrow> int option \<Rightarrow> int \<Rightarrow> NativeRuntimeSession \<Rightarrow> script
      \<Rightarrow> (NativeRuntimeResult nres \<times> NativeRuntimeSession \<times> script) option" where
  "poll_result operation max_events timeout_ms s script =
     (case check_result_arguments max_events timeout_ms s of
        Inl err \<Rightarrow> Some (Inl err, s, script)
      | Inr _ \<Rightarrow>
          map_option (\<lambda>(r, s, script).
              (bind_nat r (\<lambda>m. case m of None \<Rightarrow> Inl would_block | Some (_, result) \<Rightarrow> Inr result), s, script))
            (poll_result_batch operation (result_batch_size max_events) s script))"

end
