(* ===== verification/Native_Operations.thy ===== *)
theory Native_Operations
  imports Native_Session
begin

text \<open>
  Submitting and controlling operations over the native library: the rest of
  \<open>NativeRuntimeSession\<close> with \<open>NativeRuntimeOperation\<close>.

  A method that calls the library once takes the call as a function from the request to what the
  library returns, and gives the requests it made along with its result and the state.  The
  request structures have fixed widths: \<open>ctypes\<close> keeps the low bits of a value and
  does not check it.
\<close>

section \<open>Requests\<close>

record submit_call =
  sbc_session :: NativeHandle
  sbc_operation_id :: int
  sbc_frame_id :: int
  sbc_header_flags :: int
  sbc_view_id :: int
  sbc_route_id :: int
  sbc_trace_id :: int
  sbc_payload :: bytes

record cancel_call =
  cnc_session :: NativeHandle
  cnc_frame_id :: int

record frame_call =
  frc_handle :: NativeHandle
  frc_message_type :: int
  frc_frame_id :: int
  frc_payload :: bytes

definition submit_call_of :: "NativeHandle \<Rightarrow> SubmitRequest \<Rightarrow> bytes \<Rightarrow> submit_call" where
  "submit_call_of h r payload =
     \<lparr>sbc_session = h, sbc_operation_id = srq_operation_id r mod 2 ^ 64,
      sbc_frame_id = srq_frame_id r mod 2 ^ 32,
      sbc_header_flags = shc_flags (srq_header r) mod 2 ^ 32,
      sbc_view_id = shc_view_id (srq_header r) mod 2 ^ 16,
      sbc_route_id = shc_route_id (srq_header r) mod 2 ^ 16,
      sbc_trace_id = shc_trace_id (srq_header r) mod 2 ^ 64,
      sbc_payload = payload\<rparr>"

definition cancel_call_of :: "NativeHandle \<Rightarrow> int \<Rightarrow> cancel_call" where
  "cancel_call_of h frame_id = \<lparr>cnc_session = h, cnc_frame_id = frame_id mod 2 ^ 32\<rparr>"

definition frame_call_of :: "NativeHandle \<Rightarrow> MessageType \<Rightarrow> int \<Rightarrow> bytes \<Rightarrow> frame_call" where
  "frame_call_of h mt frame_id payload =
     \<lparr>frc_handle = h, frc_message_type = MessageType_int mt mod 2 ^ 32,
      frc_frame_id = frame_id mod 2 ^ 32, frc_payload = payload\<rparr>"

section \<open>Scheduling hints\<close>

definition NativeOperationSchedulingHint_init ::
    "NativeOperationSchedulingHint \<Rightarrow> NativeOperationSchedulingHint nres" where
  "NativeOperationSchedulingHint_init h =
     bind_nat (case nsh_parent_operation_id h of None \<Rightarrow> Inr ()
         | Some v \<Rightarrow> native_validate_u64 ''parent_operation_id'' v) (\<lambda>_.
     bind_nat (case nsh_operation_group_id h of None \<Rightarrow> Inr ()
         | Some v \<Rightarrow> native_validate_u64 ''operation_group_id'' v) (\<lambda>_.
     bind_nat (case nsh_deadline_ms h of None \<Rightarrow> Inr ()
         | Some v \<Rightarrow> native_validate_u32 ''deadline_ms'' v) (\<lambda>_. Inr h)))"

definition hint_has_scope :: "NativeOperationSchedulingHint \<Rightarrow> bool" where
  "hint_has_scope h \<longleftrightarrow> nsh_parent_operation_id h \<noteq> None \<or> nsh_operation_group_id h \<noteq> None"

definition coerce_operation_scheduling_hint ::
    "NativeOperationSchedulingHint option \<Rightarrow> int option \<Rightarrow> int option
      \<Rightarrow> NativeOperationSchedulingHint nres" where
  "coerce_operation_scheduling_hint hint parent_operation_id operation_group_id =
     (case hint of
        None \<Rightarrow> NativeOperationSchedulingHint_init
          \<lparr>nsh_parent_operation_id = parent_operation_id, nsh_operation_group_id = operation_group_id,
           nsh_deadline_ms = None\<rparr>
      | Some h \<Rightarrow>
          if parent_operation_id \<noteq> None \<and> nsh_parent_operation_id h \<noteq> parent_operation_id
          then Inl (HandleError ''parent_operation_id conflicts with scheduling_hint'')
          else if operation_group_id \<noteq> None \<and> nsh_operation_group_id h \<noteq> operation_group_id
          then Inl (HandleError ''operation_group_id conflicts with scheduling_hint'')
          else Inr h)"

section \<open>Submitting\<close>

definition validate_submit_request_identity :: "SubmitRequest \<Rightarrow> unit nres" where
  "validate_submit_request_identity r =
     (if fsm_operation_id (srq_metadata r) \<noteq> srq_operation_id r
      then plain (ve ''metadata.operation_id must equal the submit operation_id'') else Inr ())"

text \<open>
  \<open>submit_operation\<close> calls the library and then, in a second step, records the frame of the
  operation.  Only the second step takes a lock, so that another thread may read events between
  them.
\<close>

definition submit_start ::
    "(submit_call \<Rightarrow> NativeStatus \<times> NativeHandle) \<Rightarrow> SubmitRequest \<Rightarrow> int option \<Rightarrow> int option
      \<Rightarrow> NativeOperationSchedulingHint option \<Rightarrow> NativeRuntimeSession
      \<Rightarrow> NativeRuntimeOperation nres \<times> submit_call list" where
  "submit_start lib request parent_operation_id operation_group_id hint s =
     (case bind_nat (session_ensure_open s) (\<lambda>_.
           bind_nat (validate_submit_request_identity request) (\<lambda>_.
           bind_nat (coerce_operation_scheduling_hint hint parent_operation_id operation_group_id) (\<lambda>h.
           bind_nat (plain (FrameSubmitMetadata_pack (srq_metadata request))) (\<lambda>packed.
             Inr (h, packed @ srq_body request))))) of
        Inl err \<Rightarrow> (Inl err, [])
      | Inr (h, payload) \<Rightarrow>
          let call = submit_call_of (ns_handle s) request payload
          in (bind_nat (raise_for_native_status (fst (lib call))) (\<lambda>_.
              bind_nat (typed_from_ffi KIND_OPERATION (snd (lib call))) (\<lambda>handle.
                Inr \<lparr>nro_session = ns_handle s, nro_handle = handle,
                     nro_operation_id = srq_operation_id request, nro_frame_id = srq_frame_id request,
                     nro_scheduling_hint = h\<rparr>)),
              [call]))"

definition submit_finish :: "NativeRuntimeOperation \<Rightarrow> NativeRuntimeSession \<Rightarrow> NativeRuntimeSession" where
  "submit_finish operation = remember_operation_frame (nro_operation_id operation) (nro_frame_id operation)"

definition submit_operation ::
    "(submit_call \<Rightarrow> NativeStatus \<times> NativeHandle) \<Rightarrow> SubmitRequest \<Rightarrow> int option \<Rightarrow> int option
      \<Rightarrow> NativeOperationSchedulingHint option \<Rightarrow> NativeRuntimeSession
      \<Rightarrow> NativeRuntimeOperation nres \<times> submit_call list \<times> NativeRuntimeSession" where
  "submit_operation lib request parent_operation_id operation_group_id hint s =
     (case submit_start lib request parent_operation_id operation_group_id hint s of
        (Inl err, calls) \<Rightarrow> (Inl err, calls, s)
      | (Inr operation, calls) \<Rightarrow> (Inr operation, calls, submit_finish operation s))"

section \<open>Runtime frames\<close>

definition operation_frame_id :: "int \<Rightarrow> NativeRuntimeSession \<Rightarrow> int nres" where
  "operation_frame_id operation_id s =
     (case ns_operation_frames s operation_id of Some f \<Rightarrow> Inr f | None \<Rightarrow> invalid_state)"

definition CONNECTION_SCOPED :: "MessageType set" where
  "CONNECTION_SCOPED = {MT_CANCEL, MT_ABORT, MT_BUDGET_UPDATE, MT_OBJECT_REF, MT_OBJECT_RELEASE}"

definition runtime_frame_id :: "MessageType \<Rightarrow> event_value \<Rightarrow> NativeRuntimeSession \<Rightarrow> int nres" where
  "runtime_frame_id mt metadata s =
     (case runtime_operation_id mt metadata of
        None \<Rightarrow> Inr (ns_next_frame_id s)
      | Some operation_id \<Rightarrow>
          if operation_id = 0 then if mt \<notin> CONNECTION_SCOPED then invalid_state else Inr 0
          else operation_frame_id operation_id s)"

definition following_frame_id :: "int \<Rightarrow> int" where
  "following_frame_id i = (if i = 0xFFFFFFFF then 1 else i + 1)"

definition send_runtime_frame ::
    "(frame_call \<Rightarrow> NativeStatus) \<Rightarrow> MessageType \<Rightarrow> event_value \<Rightarrow> bytes \<Rightarrow> int option
      \<Rightarrow> NativeRuntimeSession \<Rightarrow> unit nres \<times> frame_call list \<times> NativeRuntimeSession" where
  "send_runtime_frame lib mt metadata tail frame_id s =
     (case bind_nat (session_ensure_open s) (\<lambda>_.
           bind_nat (plain (encode_native_runtime_frame mt metadata tail)) (\<lambda>payload.
           bind_nat (case frame_id of None \<Rightarrow> runtime_frame_id mt metadata s | Some f \<Rightarrow> Inr f) (\<lambda>f.
             Inr (payload, f)))) of
        Inl err \<Rightarrow> (Inl err, [], s)
      | Inr (payload, selected) \<Rightarrow>
          let call = frame_call_of (ns_handle s) mt selected payload
          in (case raise_for_native_status (lib call) of
                Inl err \<Rightarrow> (Inl err, [call], s)
              | Inr _ \<Rightarrow>
                  let operation_id = runtime_operation_id mt metadata;
                      s = (if frame_id = None \<and> operation_id = None
                           then s\<lparr>ns_next_frame_id := following_frame_id selected\<rparr> else s)
                  in (Inr (), [call],
                      (case operation_id of
                         Some i \<Rightarrow>
                           if mt \<in> {MT_CANCEL, MT_ABORT, MT_SUPERSEDE} \<and> i \<noteq> 0
                           then forget_operation_frame i s else s
                       | None \<Rightarrow> s))))"

text \<open>\<open>send_trace_context\<close>; the other senders call \<open>send_runtime_frame\<close> with their message type.\<close>

definition send_trace_context ::
    "(frame_call \<Rightarrow> NativeStatus) \<Rightarrow> TraceContextMetadata \<Rightarrow> bytes \<Rightarrow> int option
      \<Rightarrow> NativeRuntimeSession \<Rightarrow> unit nres \<times> frame_call list \<times> NativeRuntimeSession" where
  "send_trace_context lib metadata body operation_id s =
     (case (case operation_id of None \<Rightarrow> Inr 0 | Some i \<Rightarrow> operation_frame_id i s) of
        Inl err \<Rightarrow> (Inl err, [], s)
      | Inr frame_id \<Rightarrow>
          send_runtime_frame lib MT_TRACE_CONTEXT (RuntimeV (TraceContextM metadata)) body (Some frame_id) s)"

section \<open>Cancelling and closing\<close>

definition cancel_frame ::
    "(cancel_call \<Rightarrow> NativeStatus) \<Rightarrow> int \<Rightarrow> NativeRuntimeSession
      \<Rightarrow> unit nres \<times> cancel_call list \<times> NativeRuntimeSession" where
  "cancel_frame lib frame_id s =
     (case session_ensure_open s of
        Inl err \<Rightarrow> (Inl err, [], s)
      | Inr _ \<Rightarrow>
          let call = cancel_call_of (ns_handle s) frame_id
          in (case raise_for_native_status (lib call) of
                Inl err \<Rightarrow> (Inl err, [call], s)
              | Inr _ \<Rightarrow> (Inr (), [call], forget_operation_frame_by_frame frame_id s)))"

text \<open>The cancel method of an operation that has an owner.\<close>

definition operation_cancel ::
    "(cancel_call \<Rightarrow> NativeStatus) \<Rightarrow> NativeRuntimeOperation \<Rightarrow> NativeRuntimeSession
      \<Rightarrow> unit nres \<times> cancel_call list \<times> NativeRuntimeSession" where
  "operation_cancel lib operation = cancel_frame lib (nro_frame_id operation)"

definition close_session ::
    "(NativeHandle \<Rightarrow> NativeStatus) \<Rightarrow> NativeRuntimeSession
      \<Rightarrow> unit nres \<times> NativeHandle list \<times> NativeRuntimeSession" where
  "close_session lib s =
     (if ns_closed s then (Inr (), [], s)
      else (case raise_for_native_status (lib (ns_handle s)) of
          Inl err \<Rightarrow> (Inl err, [ns_handle s], s)
        | Inr _ \<Rightarrow> (Inr (), [ns_handle s], s\<lparr>ns_operation_frames := Map.empty, ns_closed := True\<rparr>)))"

section \<open>Submitting and waiting\<close>

definition allocate_control_sequence :: "NativeRuntimeSession \<Rightarrow> int \<times> NativeRuntimeSession" where
  "allocate_control_sequence s =
     (let i = ns_next_control_sequence s
      in (i, s\<lparr>ns_next_control_sequence := (if i = 0xFFFFFFFFFFFFFFFF then 1 else i + 1)\<rparr>))"

text \<open>\<open>now_ms\<close> is the time of day in milliseconds, rounded up.\<close>

definition prepare_submit_wait ::
    "(frame_call \<Rightarrow> NativeStatus) \<Rightarrow> int \<Rightarrow> SubmitRequest \<Rightarrow> int option \<Rightarrow> int option
      \<Rightarrow> NativeOperationSchedulingHint option \<Rightarrow> int option \<Rightarrow> int \<Rightarrow> NativeRuntimeSession
      \<Rightarrow> NativeOperationSchedulingHint nres \<times> frame_call list \<times> NativeRuntimeSession" where
  "prepare_submit_wait lib now_ms request parent_operation_id operation_group_id hint max_events timeout_ms s =
     (case bind_nat (session_ensure_open s) (\<lambda>_.
           bind_nat (validate_submit_request_identity request) (\<lambda>_.
           bind_nat (if (case max_events of None \<Rightarrow> False | Some n \<Rightarrow> n < 0)
             then plain (ve ''max_events must be non-negative'') else Inr ()) (\<lambda>_.
           bind_nat (coerce_operation_scheduling_hint hint parent_operation_id operation_group_id) (\<lambda>h.
           bind_nat (plain (require_bounded_integer ''timeout_ms'' timeout_ms 0xFFFFFFFF)) (\<lambda>_. Inr h))))) of
        Inl err \<Rightarrow> (Inl err, [], s)
      | Inr h \<Rightarrow>
          if timeout_ms = 0 then (Inr h, [], s)
          else (case allocate_control_sequence s of
              (sequence, s) \<Rightarrow>
                (case send_runtime_frame lib MT_DEADLINE
                    (RuntimeV (SchedulingM \<lparr>sdm_operation_id = srq_operation_id request,
                       sdm_control_sequence = sequence, sdm_priority_class = 0, sdm_priority_delta = 0,
                       sdm_deadline_unix_ms = now_ms + timeout_ms, sdm_flags = 0\<rparr>))
                    [] (Some (srq_frame_id request)) s of
                   (r, calls, s) \<Rightarrow> (bind_nat r (\<lambda>_. Inr h), calls, s))))"

text \<open>
  One turn of the waiting loop sees the cancellation flag before and after reading, the timeout it
  reads with, and whether the deadline is still ahead.  The loop uses one turn after the other;
  \<open>None\<close> means that it needs more turns or replies.  The second component is the cancel requests.
\<close>

record wait_turn =
  wt_cancelled_before :: bool
  wt_timeout_ms :: int
  wt_cancelled_after :: bool
  wt_before_deadline :: bool

fun poll_submitted_result ::
    "(cancel_call \<Rightarrow> NativeStatus) \<Rightarrow> NativeRuntimeOperation \<Rightarrow> int option \<Rightarrow> bool \<Rightarrow> wait_turn list
      \<Rightarrow> NativeRuntimeSession \<Rightarrow> script
      \<Rightarrow> (NativeRuntimeResult nres \<times> cancel_call list \<times> NativeRuntimeSession \<times> script) option" where
  "poll_submitted_result lib operation max_events deadline [] s script = None"
| "poll_submitted_result lib operation max_events deadline (t # ts) s script =
     (if wt_cancelled_before t then Some (Inl WaitCancelled, [], s, script)
      else (case poll_result operation max_events (wt_timeout_ms t) s script of
          None \<Rightarrow> None
        | Some (Inr result, s, script) \<Rightarrow>
            Some (if wt_cancelled_after t then Inl WaitCancelled else Inr result, [], s, script)
        | Some (Inl (WouldBlockError st), s, script) \<Rightarrow>
            if wt_cancelled_after t then Some (Inl WaitCancelled, [], s, script)
            else if \<not> deadline \<or> max_events = Some 0 then Some (Inl (WouldBlockError st), [], s, script)
            else if wt_before_deadline t
            then poll_submitted_result lib operation max_events deadline ts s script
            else (case operation_cancel lib operation s of
                (r, calls, s) \<Rightarrow>
                  Some (case r of Inl err \<Rightarrow> Inl err | Inr _ \<Rightarrow> Inl DeadlineExceeded, calls, s, script))
        | Some (Inl err, s, script) \<Rightarrow> Some (Inl err, [], s, script)))"

text \<open>\<open>submit_and_poll_result\<close>; the deadline exists unless \<open>timeout_ms\<close> is zero.\<close>

record library_calls =
  lbc_submit :: "submit_call \<Rightarrow> NativeStatus \<times> NativeHandle"
  lbc_frame :: "frame_call \<Rightarrow> NativeStatus"
  lbc_cancel :: "cancel_call \<Rightarrow> NativeStatus"

record calls_made =
  clm_frames :: "frame_call list"
  clm_submits :: "submit_call list"
  clm_cancels :: "cancel_call list"

definition submit_and_poll_result ::
    "library_calls \<Rightarrow> int \<Rightarrow> SubmitRequest \<Rightarrow> int option \<Rightarrow> int option
      \<Rightarrow> NativeOperationSchedulingHint option \<Rightarrow> int option \<Rightarrow> int \<Rightarrow> wait_turn list
      \<Rightarrow> NativeRuntimeSession \<Rightarrow> script
      \<Rightarrow> (NativeRuntimeResult nres \<times> calls_made \<times> NativeRuntimeSession \<times> script) option" where
  "submit_and_poll_result lib now_ms request parent_operation_id operation_group_id hint max_events timeout_ms turns s script =
     (case plain (require_bounded_integer ''timeout_ms'' timeout_ms 0xFFFFFFFF) of
        Inl err \<Rightarrow> Some (Inl err, \<lparr>clm_frames = [], clm_submits = [], clm_cancels = []\<rparr>, s, script)
      | Inr _ \<Rightarrow>
          (case prepare_submit_wait (lbc_frame lib) now_ms request parent_operation_id operation_group_id hint max_events timeout_ms s of
             (Inl err, frames, s) \<Rightarrow>
               Some (Inl err, \<lparr>clm_frames = frames, clm_submits = [], clm_cancels = []\<rparr>, s, script)
           | (Inr h, frames, s) \<Rightarrow>
               (case submit_operation (lbc_submit lib) request None None (Some h) s of
                  (Inl err, submits, s) \<Rightarrow>
                    Some (Inl err, \<lparr>clm_frames = frames, clm_submits = submits, clm_cancels = []\<rparr>, s, script)
                | (Inr operation, submits, s) \<Rightarrow>
                    map_option (\<lambda>(r, cancels, s, script).
                        (r, \<lparr>clm_frames = frames, clm_submits = submits, clm_cancels = cancels\<rparr>, s, script))
                      (poll_submitted_result (lbc_cancel lib) operation max_events (timeout_ms \<noteq> 0) turns
                        s script))))"

end
