(* ===== verification/Session_Polling.thy ===== *)
theory Session_Polling
  imports Native_Session
begin

text \<open>
  No event is lost by a client session: its reading methods conserve events
  (\<open>Event_Delivery\<close>).  The class of an event is what the methods can
  ask for: runtime frame or not, kind, session, operation, result or not.
\<close>

section \<open>Classes of events\<close>

type_synonym event_class = "bool \<times> int \<times> NativeHandle \<times> int \<times> bool nres"

definition class_of_event :: "polled_event \<Rightarrow> event_class" where
  "class_of_event e = (is_runtime_event e, native_event_kind e, event_session e, event_operation_id e,
     event_is_result_event e)"

lemma by_class_simps:
  "by_class class_of_event (kind_selected k)" "by_class class_of_event is_runtime_event"
  "by_class class_of_event (result_of_operation operation)"
  by (auto simp: by_class_def class_of_event_def kind_selected_def result_of_operation_def
      event_matches_operation_def split: option.split)

section \<open>Replies\<close>

definition reply_events :: "poll_reply \<Rightarrow> polled_event list nres" where
  "reply_events reply =
     (if nst_status_code (pl_status reply) = FFI_STATUS_WOULD_BLOCK then Inr []
      else if \<not> status_succeeded (pl_status reply) then Inl (status_exception (pl_status reply))
      else map_nat native_event_from_ffi (pl_events reply))"

lemma poll_native_reply:
  assumes "poll_native_events s script = Some (Inr events, s', script')"
  shows "\<exists>reply. script = reply # script' \<and> reply_events reply = Inr events"
  using assms
  by (auto simp: poll_native_events_def reply_events_def split: list.splits if_splits sum.splits prod.splits)

abbreviation client_conserves ::
    "NativeRuntimeSession \<Rightarrow> script \<Rightarrow> polled_event list \<Rightarrow> NativeRuntimeSession \<Rightarrow> script \<Rightarrow> bool" where
  "client_conserves \<equiv> conserves class_of_event ns_pending reply_events"

abbreviation of_event_class :: "event_class \<Rightarrow> polled_event list \<Rightarrow> polled_event list" where
  "of_event_class \<equiv> of_class class_of_event"

lemmas client_one = conserves_one [where reply_events = reply_events and pend = ns_pending and cls = class_of_event]
lemmas client_none = conserves_none [where reply_events = reply_events and pend = ns_pending and cls = class_of_event]

section \<open>The methods\<close>

lemma poll_events_batch_conserves:
  assumes "poll_events_batch max_events kind timeout_ms s script = Some (Inr events, s', script')"
  shows "client_conserves s script events s' script'"
proof (cases "max_events = 0")
  case True
  then show ?thesis
    using assms by (auto simp: poll_events_batch_def intro: client_none split: sum.splits)
next
  case False
  obtain taken retained where t: "split_events (kind_selected kind) (Some max_events) 0 (ns_pending s) =
      (taken, retained)"
    by fastforce
  have pending: "of_event_class c taken @ of_event_class c retained = of_event_class c (ns_pending s)" for c
    by (rule split_class [OF by_class_simps(1) t])
  show ?thesis
  proof (cases "max_events - len taken = 0")
    case True
    have "Some (Inr taken :: polled_event list nres, s\<lparr>ns_pending := retained\<rparr>, script) = Some (Inr events, s', script')"
      if "bind_nat (session_ensure_open s) (\<lambda>_. check_poll_arguments max_events kind timeout_ms) = Inr u" for u
      using assms unfolding poll_events_batch_def that t by (simp only: sum.case prod.case if_not_P [OF False]
          Let_def True if_P refl)
    then have "events = taken" "ns_pending s' = retained" "script' = script"
      using assms by (auto simp: poll_events_batch_def split: sum.splits)
    then show ?thesis using pending by (auto intro: client_none)
  next
    case more: False
    obtain polled s1 where p: "poll_native_events (s\<lparr>ns_pending := retained\<rparr>) script = Some (Inr polled, s1, script')"
      and r: "events = taken @ fst (split_events (kind_selected kind) None 0 polled)"
        "s' = s1\<lparr>ns_pending := ns_pending s1 @ snd (split_events (kind_selected kind) None 0 polled)\<rparr>"
      using assms False more
      by (auto simp: poll_events_batch_def t Let_def split: sum.splits option.splits prod.splits)
    obtain matching other where m: "split_events (kind_selected kind) None 0 polled = (matching, other)"
      by fastforce
    have len: "len taken < max_events"
      using split_at_most [OF t] more assms
      by (auto simp: poll_events_batch_def check_poll_arguments_def require_bounded_integer_def
          bind_nat_def split: sum.splits if_splits)
    have "\<not> kind_selected kind e" if "e \<in> set retained" for e
      using split_retained [OF t _ that] len by (simp add: below_def)
    note two = split_twice [OF by_class_simps(1) this m, where events = taken]
    obtain reply where reply: "script = reply # script'" "reply_events reply = Inr polled"
      using poll_native_reply [OF p] by blast
    have "ns_pending s' = retained @ other" "events = taken @ matching"
      using poll_native_pending [OF p] r m by simp_all
    then show ?thesis
      unfolding reply(1) using two pending by (intro client_one [OF reply(2)]) metis
  qed
qed

lemma poll_frames_loop_conserves:
  assumes "poll_frames_loop max_events frames s script = Some (Inr events, s', script')"
    "\<And>e. e \<in> set (ns_pending s) \<Longrightarrow> \<not> is_runtime_event e"
  shows "\<exists>replies delivered. script = replies @ script' \<and> map_nat reply_events replies = Inr delivered \<and>
    (\<forall>c. of_event_class c events @ of_event_class c (ns_pending s') =
      of_event_class c frames @ of_event_class c (ns_pending s) @ of_event_class c (concat delivered))"
  using assms
proof (induction script arbitrary: frames s)
  case (Cons reply script)
  obtain polled s1 where p: "poll_native_events s (reply # script) = Some (Inr polled, s1, script)"
    and reply: "reply_events reply = Inr polled" and s1: "ns_pending s1 = ns_pending s"
  proof -
    obtain r s1 sc where p: "poll_native_events s (reply # script) = Some (r, s1, sc)"
      using Cons.prems(1) by (auto split: option.splits)
    moreover obtain polled where "r = Inr polled"
      using Cons.prems(1) p by (cases r) auto
    ultimately show ?thesis
      using that poll_native_reply [of s "reply # script"] poll_native_pending [OF p] by fastforce
  qed
  show ?case
  proof (cases "polled = []")
    case True
    then have "events = frames" "s' = s1" "script' = script" using Cons.prems(1) p by simp_all
    then show ?thesis
      using reply True s1 by (intro exI [of _ "[reply]"] exI [of _ "[[]]"]) simp
  next
    case False
    obtain matching other where m: "split_events is_runtime_event max_events (len frames) polled = (matching, other)"
      by fastforce
    let ?s = "s1\<lparr>ns_pending := ns_pending s1 @ other\<rparr>"
    have two: "of_event_class c (frames @ matching) @ of_event_class c (ns_pending ?s) =
        (of_event_class c frames @ of_event_class c (ns_pending s)) @ of_event_class c polled" for c
      using split_twice [OF by_class_simps(2) Cons.prems(2) m, where c = c and events = frames] s1 by simp
    show ?thesis
    proof (cases "max_events = None")
      case False
      then have "events = frames @ matching" "s' = ?s" "script' = script"
        using Cons.prems(1) p m \<open>polled \<noteq> []\<close> by (simp_all add: Let_def)
      then show ?thesis
        using reply two by (intro exI [of _ "[reply]"] exI [of _ "[polled]"]) simp
    next
      case True
      then have run: "poll_frames_loop max_events (frames @ matching) ?s script = Some (Inr events, s', script')"
        using Cons.prems(1) p m \<open>polled \<noteq> []\<close> by (simp add: Let_def)
      have "\<not> is_runtime_event e" if "e \<in> set (ns_pending ?s)" for e
        using that Cons.prems(2) s1 split_retained [OF m, of e] True by (auto simp: below_def)
      from Cons.IH [OF run this] obtain replies delivered where d:
        "script = replies @ script'" "map_nat reply_events replies = Inr delivered"
        "\<And>c. of_event_class c events @ of_event_class c (ns_pending s') = of_event_class c (frames @ matching) @
          of_event_class c (ns_pending ?s) @ of_event_class c (concat delivered)" by blast
      have "of_event_class c events @ of_event_class c (ns_pending s') =
          of_event_class c frames @ of_event_class c (ns_pending s) @ of_event_class c (concat (polled # delivered))" for c
      proof -
        have "of_event_class c events @ of_event_class c (ns_pending s') =
            (of_event_class c (frames @ matching) @ of_event_class c (ns_pending ?s)) @ of_event_class c (concat delivered)"
          by (simp only: d(3) append_assoc)
        then show ?thesis by (simp only: two) simp
      qed
      then show ?thesis
        using d(1,2) reply by (intro exI [of _ "reply # replies"] exI [of _ "polled # delivered"]) simp
    qed
  qed
qed simp

lemma poll_runtime_frames_conserves:
  assumes "poll_runtime_frames max_events timeout_ms s script = Some (Inr events, s', script')"
  shows "client_conserves s script events s' script'"
proof (cases "max_events = Some 0")
  case True
  then show ?thesis
    using assms by (auto simp: poll_runtime_frames_def intro: client_none split: sum.splits)
next
  case False
  obtain frames retained where t: "split_events is_runtime_event max_events 0 (ns_pending s) = (frames, retained)"
    by fastforce
  have pending: "of_event_class c frames @ of_event_class c retained = of_event_class c (ns_pending s)" for c
    by (rule split_class [OF by_class_simps(2) t])
  let ?s = "s\<lparr>ns_pending := retained\<rparr>"
  have run: "(if max_events = Some (len frames) then Some (Inr frames, ?s, script)
      else poll_frames_loop max_events frames ?s script) = Some (Inr events, s', script')"
    using assms False t by (auto simp: poll_runtime_frames_def Let_def split: sum.splits)
  show ?thesis
  proof (cases "max_events = Some (len frames)")
    case True
    then show ?thesis using run pending by (auto intro: client_none)
  next
    case unfilled: False
    then have loop: "poll_frames_loop max_events frames ?s script = Some (Inr events, s', script')"
      using run unfilled by simp
    have "below max_events (len frames)"
    proof (cases max_events)
      case (Some n)
      then have "0 \<le> n" using assms
        by (auto simp: poll_runtime_frames_def check_frame_arguments_def require_bounded_integer_def
            bind_nat_def split: sum.splits if_splits)
      then have "len frames \<le> n"
        using split_at_most [of is_runtime_event n 0 "ns_pending s"] t Some by auto
      then show ?thesis using Some unfilled by (simp add: below_def)
    qed (simp add: below_def)
    then have "\<not> is_runtime_event e" if "e \<in> set (ns_pending ?s)" for e
      using split_retained [OF t, of e] that by simp
    then obtain replies delivered where d: "script = replies @ script'"
      "map_nat reply_events replies = Inr delivered"
      "\<And>c. of_event_class c events @ of_event_class c (ns_pending s') =
        of_event_class c frames @ of_event_class c (ns_pending ?s) @ of_event_class c (concat delivered)"
      using poll_frames_loop_conserves [OF loop] by blast
    have "of_event_class c events @ of_event_class c (ns_pending s') = of_event_class c (ns_pending s) @ of_event_class c (concat delivered)" for c
      using d(3) pending [of c, symmetric] by simp
    then show ?thesis using d(1,2) unfolding conserves_def by blast
  qed
qed

section \<open>Results\<close>

lemma take_pending_none:
  "take_pending_result operation es = (Inr None, es') \<Longrightarrow>
    es' = es \<and> (\<forall>e \<in> set es. result_of_operation operation e = Inr False)"
  by (induction es arbitrary: es')
    (auto split: sum.splits bool.splits prod.splits simp: bind_nat_def)

lemma take_pending_some:
  "take_pending_result operation es = (Inr (Some (e, r)), es') \<Longrightarrow>
    \<exists>a b. es = a @ e # b \<and> es' = a @ b \<and> (\<forall>x \<in> set a. result_of_operation operation x = Inr False) \<and>
      result_of_operation operation e = Inr True \<and>
      result_from_polled_event e (nro_operation_id operation) = Inr r"
proof (induction es arbitrary: es')
  case (Cons x es)
  consider (yes) "result_of_operation operation x = Inr True" | (no) "result_of_operation operation x = Inr False"
    using Cons.prems by (cases "result_of_operation operation x") auto
  then show ?case
  proof cases
    case yes
    then show ?thesis using Cons.prems by (intro exI [of _ "[]"] exI [of _ es]) (auto simp: bind_nat_def split: sum.splits)
  next
    case no
    then obtain es2 where es2: "take_pending_result operation es = (Inr (Some (e, r)), es2)" "es' = x # es2"
      using Cons.prems by (auto split: prod.splits)
    from Cons.IH [OF es2(1)] obtain a b where "es = a @ e # b" "es2 = a @ b"
      "\<forall>x \<in> set a. result_of_operation operation x = Inr False" "result_of_operation operation e = Inr True"
      "result_from_polled_event e (nro_operation_id operation) = Inr r" by blast
    then show ?thesis using no es2(2) by (intro exI [of _ "x # a"] exI [of _ b]) simp
  qed
qed simp

lemma scan_after_match:
  "scan_result_batch operation (Some m) fs s = (Inr x, s') \<Longrightarrow>
    \<exists>polled. map_nat native_event_from_ffi fs = Inr polled \<and> x = Some m \<and> ns_pending s' = ns_pending s @ polled"
proof (induction fs arbitrary: s)
  case (Cons f fs)
  obtain e where e: "native_event_from_ffi f = Inr e"
    using Cons.prems by (auto split: sum.splits)
  obtain s1 where s1: "observe_polled_event e s = (Inr (), s1)"
    using Cons.prems e by (auto split: sum.splits prod.splits)
  from Cons.IH [of "s1\<lparr>ns_pending := ns_pending s1 @ [e]\<rparr>"] Cons.prems e s1 observe_pending [OF s1]
  show ?case by auto
qed simp

lemma scan_no_match:
  "scan_result_batch operation None fs s = (Inr m, s') \<Longrightarrow>
    \<exists>polled. map_nat native_event_from_ffi fs = Inr polled \<and>
      (case m of
         None \<Rightarrow> ns_pending s' = ns_pending s @ polled
       | Some (e, r) \<Rightarrow> \<exists>a b. polled = a @ e # b \<and> ns_pending s' = ns_pending s @ a @ b \<and>
           (\<forall>x \<in> set a. result_of_operation operation x = Inr False) \<and>
           result_of_operation operation e = Inr True \<and>
           result_from_polled_event e (nro_operation_id operation) = Inr r)"
proof (induction fs arbitrary: s)
  case (Cons f fs)
  obtain e where e: "native_event_from_ffi f = Inr e"
    using Cons.prems by (auto split: sum.splits)
  obtain s1 where s1: "observe_polled_event e s = (Inr (), s1)"
    using Cons.prems e by (auto split: sum.splits prod.splits)
  have pending: "ns_pending s1 = ns_pending s" using observe_pending [OF s1] by simp
  consider (yes) "result_of_operation operation e = Inr True" | (no) "result_of_operation operation e = Inr False"
    using Cons.prems e s1 by (cases "result_of_operation operation e") auto
  then show ?case
  proof cases
    case yes
    then obtain r where r: "result_from_polled_event e (nro_operation_id operation) = Inr r"
      "scan_result_batch operation (Some (e, r)) fs s1 = (Inr m, s')"
      using Cons.prems e s1 by (auto split: sum.splits)
    from scan_after_match [OF r(2)] obtain polled where
      "map_nat native_event_from_ffi fs = Inr polled" "m = Some (e, r)" "ns_pending s' = ns_pending s1 @ polled"
      by blast
    then show ?thesis
      using e pending yes r(1)
      by (intro exI [of _ "e # polled"] conjI, simp)
        (simp, intro exI [of _ "[]"] exI [of _ polled], simp)
  next
    case no
    then have "scan_result_batch operation None fs (s1\<lparr>ns_pending := ns_pending s1 @ [e]\<rparr>) = (Inr m, s')"
      using Cons.prems e s1 by simp
    moreover have pend: "ns_pending (s1\<lparr>ns_pending := ns_pending s1 @ [e]\<rparr>) = ns_pending s @ [e]"
      using pending by simp
    ultimately obtain polled where p: "map_nat native_event_from_ffi fs = Inr polled"
      and m: "case m of
         None \<Rightarrow> ns_pending s' = ns_pending s @ e # polled
       | Some (e', r) \<Rightarrow> \<exists>a b. polled = a @ e' # b \<and> ns_pending s' = ns_pending s @ e # a @ b \<and>
           (\<forall>x \<in> set a. result_of_operation operation x = Inr False) \<and>
           result_of_operation operation e' = Inr True \<and>
           result_from_polled_event e' (nro_operation_id operation) = Inr r"
      using Cons.IH [of "s1\<lparr>ns_pending := ns_pending s1 @ [e]\<rparr>", unfolded pend append_assoc append_Cons append_Nil]
      by blast
    have polled: "map_nat native_event_from_ffi (f # fs) = Inr (e # polled)" using e p by simp
    show ?thesis
    proof (cases m)
      case None
      then show ?thesis using m polled by auto
    next
      case (Some er)
      obtain e' r where er: "er = (e', r)" by (cases er)
      obtain a b where "polled = a @ e' # b" "ns_pending s' = ns_pending s @ e # a @ b"
        "\<forall>x \<in> set a. result_of_operation operation x = Inr False"
        "result_of_operation operation e' = Inr True"
        "result_from_polled_event e' (nro_operation_id operation) = Inr r"
        using m unfolding Some er by auto
      then show ?thesis
        using polled no unfolding Some er
        by (intro exI [of _ "e # polled"] conjI, simp) (simp, intro exI [of _ "e # a"] exI [of _ b], simp)
    qed
  qed
qed simp

lemma result_first:
  assumes "\<forall>x \<in> set a. result_of_operation operation x = Inr False"
    "result_of_operation operation e = Inr True"
  shows "of_event_class c [e] @ of_event_class c (a @ b) = of_event_class c (a @ e # b)"
  by (rule first_of_class [OF by_class_simps(3) _ assms(2)]) (use assms(1) in simp)

lemma poll_result_batch_conserves:
  assumes "poll_result_batch operation max_events s script = Some (Inr m, s', script')"
  shows "client_conserves s script (case m of None \<Rightarrow> [] | Some (e, r) \<Rightarrow> [e]) s' script' \<and>
    (\<forall>e r. m = Some (e, r) \<longrightarrow> result_of_operation operation e = Inr True \<and>
      result_from_polled_event e (nro_operation_id operation) = Inr r)"
proof -
  obtain q pending where "take_pending_result operation (ns_pending s) = (q, pending)" by fastforce
  moreover from this assms obtain matched where "q = Inr matched"
    by (cases q) (auto simp: poll_result_batch_def)
  ultimately have t: "take_pending_result operation (ns_pending s) = (Inr matched, pending)" by simp
  show ?thesis
  proof (cases matched)
    case (Some er)
    obtain e r where er: "er = (e, r)" by (cases er)
    have "m = Some (e, r)" "ns_pending s' = pending" "script' = script"
      using assms t Some er by (auto simp: poll_result_batch_def)
    then show ?thesis
      using take_pending_some [OF t [unfolded Some er]] result_first [of _ operation e]
      by (auto intro!: client_none simp del: filter_append filter.simps)
  next
    case None
    note kept = take_pending_none [OF t [unfolded None]]
    have s: "s\<lparr>ns_pending := pending\<rparr> = s" using kept by simp
    show ?thesis
    proof (cases "max_events = 0")
      case True
      then have "m = None" "s' = s" "script' = script"
        using assms t None s by (auto simp: poll_result_batch_def)
      then show ?thesis by (auto intro: client_none)
    next
      case False
      obtain reply where script: "script = reply # script'"
        and m: "if nst_status_code (pl_status reply) = FFI_STATUS_WOULD_BLOCK then m = None \<and> s' = s
          else status_succeeded (pl_status reply) \<and>
            scan_result_batch operation None (pl_events reply) s = (Inr m, s')"
        using assms t None False s
        by (auto simp: poll_result_batch_def split: list.splits if_splits prod.splits)
      show ?thesis
      proof (cases "nst_status_code (pl_status reply) = FFI_STATUS_WOULD_BLOCK")
        case True
        then show ?thesis using m unfolding script
          by (auto intro!: client_one [of _ "[]"] simp: reply_events_def)
      next
        case False
        then have ok: "status_succeeded (pl_status reply)"
          and scan: "scan_result_batch operation None (pl_events reply) s = (Inr m, s')"
          using m by simp_all
        from scan_no_match [OF scan] obtain polled where
          p: "map_nat native_event_from_ffi (pl_events reply) = Inr polled"
          and r: "case m of
             None \<Rightarrow> ns_pending s' = ns_pending s @ polled
           | Some (e, r) \<Rightarrow> \<exists>a b. polled = a @ e # b \<and> ns_pending s' = ns_pending s @ a @ b \<and>
               (\<forall>x \<in> set a. result_of_operation operation x = Inr False) \<and>
               result_of_operation operation e = Inr True \<and>
               result_from_polled_event e (nro_operation_id operation) = Inr r" by blast
        have reply: "reply_events reply = Inr polled" using False ok p by (simp add: reply_events_def)
        show ?thesis
        proof (cases m)
          case None
          then show ?thesis using r unfolding script
            by (auto intro!: client_one [OF reply])
        next
          case (Some er)
          obtain e x where er: "er = (e, x)" by (cases er)
          obtain a b where ab: "polled = a @ e # b" "ns_pending s' = (ns_pending s @ a) @ b"
            "\<forall>x \<in> set (ns_pending s @ a). result_of_operation operation x = Inr False"
            "result_of_operation operation e = Inr True"
            "result_from_polled_event e (nro_operation_id operation) = Inr x"
            using r kept unfolding Some er by auto
          have "of_event_class c [e] @ of_event_class c (ns_pending s') = of_event_class c (ns_pending s) @ of_event_class c polled" for c
            using result_first [OF ab(3,4), of c b] unfolding ab(1,2) filter_append by (simp only: append_assoc)
          from client_one [OF reply this] show ?thesis
            using ab(4,5) unfolding script Some er by auto
        qed
      qed
    qed
  qed
qed

section \<open>Any sequence of calls\<close>

text \<open>
  The calls a program makes on one session, with their arguments.  A step gives the events the
  call hands out; \<open>poll_result\<close> hands out the event its result is made of, or none, when it raises
  \<open>WOULD_BLOCK\<close> for a result that is not there.  Every other error ends the run.
\<close>

datatype poll_call =
    PollBatch int "int option" int
  | PollFrames "int option" int
  | PollResult NativeRuntimeOperation "int option" int

fun poll_step ::
    "poll_call \<Rightarrow> NativeRuntimeSession \<Rightarrow> script
      \<Rightarrow> (polled_event list nres \<times> NativeRuntimeSession \<times> script) option" where
  "poll_step (PollBatch n kind timeout_ms) s script = poll_events_batch n kind timeout_ms s script"
| "poll_step (PollFrames n timeout_ms) s script = poll_runtime_frames n timeout_ms s script"
| "poll_step (PollResult operation n timeout_ms) s script =
     (case check_result_arguments n timeout_ms s of
        Inl err \<Rightarrow> Some (Inl err, s, script)
      | Inr _ \<Rightarrow>
          map_option (\<lambda>(r, s, script).
              (bind_nat r (\<lambda>m. Inr (case m of None \<Rightarrow> [] | Some (e, _) \<Rightarrow> [e])), s, script))
            (poll_result_batch operation (result_batch_size n) s script))"

lemma poll_result_step:
  "poll_result operation n timeout_ms s script = Some (Inr r, s', script') \<Longrightarrow>
    \<exists>e. poll_step (PollResult operation n timeout_ms) s script = Some (Inr [e], s', script') \<and>
      result_of_operation operation e = Inr True \<and>
      result_from_polled_event e (nro_operation_id operation) = Inr r"
proof -
  assume "poll_result operation n timeout_ms s script = Some (Inr r, s', script')"
  then obtain e where "check_result_arguments n timeout_ms s = Inr ()"
    "poll_result_batch operation (result_batch_size n) s script = Some (Inr (Some (e, r)), s', script')"
    by (auto simp: poll_result_def res_simps split: sum.splits option.splits)
  then show ?thesis using poll_result_batch_conserves by fastforce
qed

lemma poll_step_conserves:
  "poll_step c s script = Some (Inr es, s', script') \<Longrightarrow> client_conserves s script es s' script'"
proof (cases c)
  case (PollResult operation n timeout_ms)
  assume "poll_step c s script = Some (Inr es, s', script')"
  then obtain m where "poll_result_batch operation (result_batch_size n) s script = Some (Inr m, s', script')"
    "es = (case m of None \<Rightarrow> [] | Some (e, _) \<Rightarrow> [e])"
    unfolding PollResult by (auto simp: res_simps split: sum.splits)
  then show ?thesis using poll_result_batch_conserves by blast
qed (auto intro: poll_events_batch_conserves poll_runtime_frames_conserves)

interpretation client_polls: lossless class_of_event ns_pending reply_events poll_step
  by unfold_locales (rule poll_step_conserves)

section \<open>Reading everything\<close>

text \<open>
  \<open>poll_events\<close> without \<open>max_events\<close>, over a library that gives at most the one event it is asked
  for: it returns the events of the kind among all there are, in their order, and keeps none of
  the others.
\<close>

definition single_event_replies :: "script \<Rightarrow> bool" where
  "single_event_replies script \<longleftrightarrow> (\<forall>reply \<in> set script. length (pl_events reply) \<le> 1)"

lemma poll_one_step:
  assumes "poll_events_batch 1 None timeout_ms s script = Some (Inr es, s1, script1)"
  shows "case ns_pending s of
      e # rest \<Rightarrow> es = [e] \<and> ns_pending s1 = rest \<and> script1 = script
    | [] \<Rightarrow> ns_pending s1 = [] \<and> (\<exists>reply. script = reply # script1 \<and> reply_events reply = Inr es)"
proof (cases "ns_pending s")
  case Nil
  then have "poll_native_events (s\<lparr>ns_pending := []\<rparr>) script = Some (Inr es, s1, script1)"
    using assms
    by (auto simp: poll_events_batch_def split_events_all Let_def split: sum.splits option.splits)
  from poll_native_reply [OF this] poll_native_pending [OF this] show ?thesis using Nil by simp
next
  case (Cons e rest)
  then show ?thesis
    using assms by (auto simp: poll_events_batch_def split_events_one Let_def split: sum.splits
        simp del: split_events.simps)
qed

lemma reply_events_length:
  "reply_events reply = Inr es \<Longrightarrow> es = [] \<or> length es = length (pl_events reply)"
  by (auto simp: reply_events_def map_nat_Inr list_all2_lengthD split: if_splits)

lemma poll_all_loop_events:
  assumes "poll_all_loop kind timeout_ms events s script = Some (Inr es, s', script')"
    "single_event_replies script"
  shows "ns_pending s' = [] \<and> (\<exists>replies delivered. script = replies @ script' \<and>
    map_nat reply_events replies = Inr delivered \<and>
    es = events @ filter (kind_selected kind) (ns_pending s @ concat delivered))"
  using assms
proof (induction kind timeout_ms events s script rule: poll_all_loop.induct)
  case (1 kind timeout_ms events s script)
  obtain q s1 script1 where b: "poll_events_batch 1 None timeout_ms s script = Some (Inr q, s1, script1)"
    using "1.prems"(1) by (subst (asm) poll_all_loop.simps) (auto split: option.splits sum.splits)
  note step = poll_one_step [OF b]
  show ?case
  proof (cases q)
    case Nil
    then have fin: "es = events" "s' = s1" "script' = script1"
      using "1.prems"(1) b by (subst (asm) poll_all_loop.simps, simp)+
    have "ns_pending s = []" "ns_pending s1 = []"
      using step Nil by (auto split: list.splits)
    moreover obtain reply where "script = reply # script1" "reply_events reply = Inr []"
      using step Nil by (auto split: list.splits)
    ultimately show ?thesis using fin
      by (intro conjI exI [of _ "[reply]"] exI [of _ "[[]]"]) simp_all
  next
    case (Cons e rest)
    have run: "poll_all_loop kind 0 (if kind_selected kind e then events @ [e] else events) s1 script1 =
        Some (Inr es, s', script')"
      using "1.prems"(1) b Cons by (subst (asm) poll_all_loop.simps) simp
    have bounded: "single_event_replies script1"
      using "1.prems"(2) step unfolding single_event_replies_def by (auto split: list.splits)
    note IH = "1.IH" [OF b refl refl Cons refl run bounded]
    show ?thesis
    proof (cases "ns_pending s")
      case (Cons e' pending)
      then show ?thesis using IH step \<open>q = e # rest\<close> by auto
    next
      case Nil
      then obtain reply where r: "script = reply # script1" "reply_events reply = Inr q" "ns_pending s1 = []"
        using step by auto
      have "q = [e]"
        using reply_events_length [OF r(2)] "1.prems"(2) r(1) Cons
        by (auto simp: single_event_replies_def le_Suc_eq)
      obtain replies delivered where d: "script1 = replies @ script'" "map_nat reply_events replies = Inr delivered"
        "es = (if kind_selected kind e then events @ [e] else events) @
          filter (kind_selected kind) (ns_pending s1 @ concat delivered)"
        using IH by blast
      then show ?thesis using IH r \<open>q = [e]\<close> Nil
        by (intro conjI exI [of _ "reply # replies"] exI [of _ "[e] # delivered"]) auto
    qed
  qed
qed

lemma poll_events_all:
  assumes "poll_events None kind timeout_ms s script = Some (Inr es, s', script')"
    "single_event_replies script"
  shows "ns_pending s' = [] \<and> (\<exists>replies delivered. script = replies @ script' \<and>
    map_nat reply_events replies = Inr delivered \<and>
    es = filter (kind_selected kind) (ns_pending s @ concat delivered))"
  using assms poll_all_loop_events [where events = "[]"]
  by (auto simp: poll_events_def split: sum.splits option.splits)

text \<open>
  If the library reports an error when fewer events than asked for were kept, the kept events that
  were selected are neither returned nor kept.
\<close>

lemma poll_events_batch_error:
  assumes "\<not> ns_closed s" "0 < n" "n \<le> 0xFFFFFFFF" "0 \<le> timeout_ms" "timeout_ms \<le> 0xFFFFFFFF"
    "split_events (kind_selected None) (Some n) 0 (ns_pending s) = (taken, retained)" "len taken < n"
    "\<not> status_succeeded (pl_status reply)" "nst_status_code (pl_status reply) \<noteq> FFI_STATUS_WOULD_BLOCK"
  shows "poll_events_batch n None timeout_ms s (reply # script) =
    Some (Inl (status_exception (pl_status reply)), s\<lparr>ns_pending := retained\<rparr>, script)"
  using assms
  by (simp add: poll_events_batch_def session_ensure_open_def check_poll_arguments_def
      require_bounded_integer_def Let_def poll_native_events_def)

end
