(* ===== verification/Operation_Correctness.thy ===== *)
theory Operation_Correctness
  imports Native_Operations Session_Polling
begin

text \<open>
  Frames and waits of client operations.  The locale \<open>frame_sender\<close> is what the client and the
  server session promise of the frames they send: which one call is made, which frame id it has, and
  how the counter of the automatic ids moves.
\<close>

section \<open>Frame ids\<close>

record frame_request =
  frq_type :: MessageType
  frq_metadata :: event_value
  frq_tail :: bytes
  frq_frame_id :: "int option"

abbreviation automatic :: "frame_request \<Rightarrow> bool" where
  "automatic r \<equiv> frq_frame_id r = None \<and> runtime_operation_id (frq_type r) (frq_metadata r) = None"

text \<open>The ids of the frames that were sent with an automatic id, in the order of the sends.\<close>

fun automatic_ids ::
    "(frame_request \<Rightarrow> 's \<Rightarrow> unit nres \<times> frame_call list \<times> 's) \<Rightarrow> frame_request list \<Rightarrow> 's \<Rightarrow> int list" where
  "automatic_ids send [] s = []"
| "automatic_ids send (r # rs) s =
     (case send r s of
        (Inr _, calls, s) \<Rightarrow> (if automatic r then map frc_frame_id calls else []) @ automatic_ids send rs s
      | (Inl _, _, s) \<Rightarrow> automatic_ids send rs s)"

definition nth_frame_id :: "int \<Rightarrow> nat \<Rightarrow> int" where
  "nth_frame_id start k = (start - 1 + int k) mod 0xFFFFFFFF + 1"

locale frame_sender =
  fixes next_id :: "'s \<Rightarrow> int"
    and frames :: "'s \<Rightarrow> int \<rightharpoonup> int"
    and send :: "frame_request \<Rightarrow> 's \<Rightarrow> unit nres \<times> frame_call list \<times> 's"
  assumes failed: "send r s = (Inl err, calls, s') \<Longrightarrow> s' = s"
    and sent_automatic: "send r s = (Inr u, calls, s') \<Longrightarrow> automatic r \<Longrightarrow>
      (\<exists>c. calls = [c] \<and> frc_frame_id c = next_id s mod 2 ^ 32) \<and> next_id s' = following_frame_id (next_id s)"
    and sent_other: "send r s = (Inr u, calls, s') \<Longrightarrow> \<not> automatic r \<Longrightarrow> next_id s' = next_id s"
    and sent_operation: "frq_frame_id r = None \<Longrightarrow>
      runtime_operation_id (frq_type r) (frq_metadata r) = Some i \<Longrightarrow> i \<noteq> 0 \<Longrightarrow>
      (case frames s i of
         None \<Rightarrow> fst (snd (send r s)) = [] \<and> (\<exists>err. fst (send r s) = Inl err)
       | Some f \<Rightarrow> \<forall>c \<in> set (fst (snd (send r s))). frc_frame_id c = f mod 2 ^ 32)"
begin

lemma following_nth:
  assumes "1 \<le> i" "i \<le> 0xFFFFFFFF"
  shows "nth_frame_id (following_frame_id i) k = nth_frame_id i (Suc k)"
proof (cases "i = 0xFFFFFFFF")
  case True
  have "(0xFFFFFFFF - 1 + int (Suc k)) mod 0xFFFFFFFF = (int k + 0xFFFFFFFF) mod 0xFFFFFFFF"
    by (simp add: algebra_simps)
  then show ?thesis using True by (simp add: nth_frame_id_def following_frame_id_def)
next
  case False
  then show ?thesis by (simp add: nth_frame_id_def following_frame_id_def algebra_simps)
qed

lemma following_range: "1 \<le> i \<Longrightarrow> i \<le> 0xFFFFFFFF \<Longrightarrow> 1 \<le> following_frame_id i \<and> following_frame_id i \<le> 0xFFFFFFFF"
  by (simp add: following_frame_id_def)

lemma ids_of_run:
  assumes "1 \<le> next_id s" "next_id s \<le> 0xFFFFFFFF"
  shows "automatic_ids send rs s = map (nth_frame_id (next_id s)) [0..<length (automatic_ids send rs s)]"
  using assms
proof (induction rs arbitrary: s)
  case (Cons r rs)
  obtain q calls s' where q: "send r s = (q, calls, s')" by (cases "send r s") auto
  show ?case
  proof (cases q)
    case (Inl err)
    then show ?thesis using q failed [OF q [unfolded Inl]] Cons by simp
  next
    case (Inr u)
    note sent = q [unfolded Inr]
    show ?thesis
    proof (cases "automatic r")
      case False
      then have "automatic_ids send (r # rs) s = automatic_ids send rs s'" using sent by auto
      then show ?thesis using Cons.IH [of s'] sent_other [OF sent False] Cons.prems by simp
    next
      case True
      obtain c where c: "calls = [c]" "frc_frame_id c = next_id s mod 2 ^ 32"
        and following: "next_id s' = following_frame_id (next_id s)"
        using sent_automatic [OF sent True] by blast
      have first: "frc_frame_id c = nth_frame_id (next_id s) 0"
        using c(2) Cons.prems by (simp add: nth_frame_id_def)
      have "automatic_ids send rs s' =
          map (nth_frame_id (next_id s')) [0..<length (automatic_ids send rs s')]"
        by (rule Cons.IH) (use following following_range [OF Cons.prems] in simp_all)
      also have "\<dots> = map (\<lambda>k. nth_frame_id (next_id s) (Suc k)) [0..<length (automatic_ids send rs s')]"
        unfolding following by (intro map_cong refl following_nth Cons.prems)
      finally have rest: "automatic_ids send rs s' =
          map (\<lambda>k. nth_frame_id (next_id s) (Suc k)) [0..<length (automatic_ids send rs s')]" .
      have "automatic_ids send (r # rs) s = nth_frame_id (next_id s) 0 # automatic_ids send rs s'"
        using sent True c first by simp
      then show ?thesis
        by (simp only: list.size add_Suc_right add_0_right One_nat_def map_upt_Suc rest [symmetric])
    qed
  qed
qed simp

lemma nth_distinct:
  assumes "n \<le> 0xFFFFFFFF"
  shows "distinct (map (nth_frame_id start) [0..<n])"
proof -
  have "j = k" if jk: "j < n" "k < n" "nth_frame_id start j = nth_frame_id start k" for j k
  proof -
    have "(int j) mod 0xFFFFFFFF = (int k) mod 0xFFFFFFFF"
      using jk(3) by (simp add: nth_frame_id_def mod_eq_dvd_iff)
    then show ?thesis using jk(1,2) assms by simp
  qed
  then show ?thesis by (auto simp: distinct_map inj_on_def)
qed

text \<open>Automatic ids are never zero, fit in 32 bits, and repeat only after all others were used.\<close>

lemma ids_fresh:
  assumes "1 \<le> next_id s" "next_id s \<le> 0xFFFFFFFF" "length (automatic_ids send rs s) \<le> 0xFFFFFFFF"
  shows "distinct (automatic_ids send rs s) \<and> (\<forall>i \<in> set (automatic_ids send rs s). 1 \<le> i \<and> i < 2 ^ 32)"
proof -
  have "1 \<le> nth_frame_id start k \<and> nth_frame_id start k < 2 ^ 32" for start k
    by (simp add: nth_frame_id_def)
  then show ?thesis
    using ids_of_run [OF assms(1,2), of rs] nth_distinct [OF assms(3), of "next_id s"]
    by (metis (no_types, lifting) ex_map_conv)
qed

end

section \<open>The client session as a sender\<close>

definition client_send ::
    "(frame_call \<Rightarrow> NativeStatus) \<Rightarrow> frame_request \<Rightarrow> NativeRuntimeSession
      \<Rightarrow> unit nres \<times> frame_call list \<times> NativeRuntimeSession" where
  "client_send lib r = send_runtime_frame lib (frq_type r) (frq_metadata r) (frq_tail r) (frq_frame_id r)"

lemma forget_next_frame_id [simp]: "ns_next_frame_id (forget_operation_frame i s) = ns_next_frame_id s"
  by (simp add: forget_operation_frame_def)

lemma send_runtime_frame_error:
  "send_runtime_frame lib mt metadata tail frame_id s = (Inl err, calls, s') \<Longrightarrow> s' = s"
  by (auto simp: send_runtime_frame_def Let_def split: sum.splits prod.splits option.splits)

lemma send_runtime_frame_sent:
  assumes "send_runtime_frame lib mt metadata tail frame_id s = (Inr u, calls, s')"
  shows "\<exists>payload f. encode_native_runtime_frame mt metadata tail = Inr payload \<and>
    (case frame_id of None \<Rightarrow> runtime_frame_id mt metadata s | Some f \<Rightarrow> Inr f) = Inr f \<and>
    calls = [frame_call_of (ns_handle s) mt f payload] \<and>
    status_succeeded (lib (frame_call_of (ns_handle s) mt f payload)) \<and> \<not> ns_closed s \<and>
    ns_next_frame_id s' = (if frame_id = None \<and> runtime_operation_id mt metadata = None
      then following_frame_id f else ns_next_frame_id s)"
  using assms
  by (auto simp: send_runtime_frame_def session_ensure_open_def Let_def res_simps
      split: sum.splits prod.splits option.splits if_splits)

lemma send_runtime_frame_call:
  assumes "c \<in> set (fst (snd (send_runtime_frame lib mt metadata tail frame_id s)))"
  shows "\<exists>payload f. encode_native_runtime_frame mt metadata tail = Inr payload \<and>
    (case frame_id of None \<Rightarrow> runtime_frame_id mt metadata s | Some f \<Rightarrow> Inr f) = Inr f \<and>
    c = frame_call_of (ns_handle s) mt f payload"
  using assms
  by (auto simp: send_runtime_frame_def Let_def res_simps split: sum.splits prod.splits option.splits)

interpretation client_frames: frame_sender ns_next_frame_id ns_operation_frames "client_send lib" for lib
proof unfold_locales
  fix r and s :: NativeRuntimeSession and err calls and s' :: NativeRuntimeSession
  show "client_send lib r s = (Inl err, calls, s') \<Longrightarrow> s' = s"
    unfolding client_send_def by (rule send_runtime_frame_error)
next
  fix r u calls and s s' :: NativeRuntimeSession
  assume "client_send lib r s = (Inr u, calls, s')" "automatic r"
  then show "(\<exists>c. calls = [c] \<and> frc_frame_id c = ns_next_frame_id s mod 2 ^ 32) \<and>
      ns_next_frame_id s' = following_frame_id (ns_next_frame_id s)"
    unfolding client_send_def by (auto dest!: send_runtime_frame_sent simp: runtime_frame_id_def frame_call_of_def)
next
  fix r u calls and s s' :: NativeRuntimeSession
  assume "client_send lib r s = (Inr u, calls, s')" "\<not> automatic r"
  then show "ns_next_frame_id s' = ns_next_frame_id s"
    unfolding client_send_def by (auto dest!: send_runtime_frame_sent)
next
  fix r :: frame_request and i and s :: NativeRuntimeSession
  assume r: "frq_frame_id r = None" "runtime_operation_id (frq_type r) (frq_metadata r) = Some i" "i \<noteq> 0"
  show "case ns_operation_frames s i of
      None \<Rightarrow> fst (snd (client_send lib r s)) = [] \<and> (\<exists>err. fst (client_send lib r s) = Inl err)
    | Some f \<Rightarrow> \<forall>c \<in> set (fst (snd (client_send lib r s))). frc_frame_id c = f mod 2 ^ 32"
  proof (cases "ns_operation_frames s i")
    case None
    then have "runtime_frame_id (frq_type r) (frq_metadata r) s = invalid_state"
      using r by (simp add: runtime_frame_id_def operation_frame_id_def)
    then show ?thesis
      using None r(1)
      by (auto simp: client_send_def send_runtime_frame_def bind_nat_def invalid_state_def split: sum.splits)
  next
    case (Some f)
    then show ?thesis
      using r by (auto dest!: send_runtime_frame_call simp: client_send_def runtime_frame_id_def
          operation_frame_id_def frame_call_of_def)
  qed
qed

section \<open>Where WOULD_BLOCK comes from\<close>

text \<open>
  Reading raises \<open>WOULD_BLOCK\<close> only if there is no result, unless the library reports it when it
  is asked to release the payload of an event.
\<close>

definition blocks :: "'a nres \<Rightarrow> bool" where
  "blocks m \<longleftrightarrow> (\<exists>st. m = Inl (WouldBlockError st))"

lemma blocks_simps [simp]:
  "\<not> blocks (Inr x)" "\<not> blocks (plain m)" "\<not> blocks protocol_error" "\<not> blocks invalid_state"
  "blocks (Inl err) \<longleftrightarrow> (\<exists>st. err = WouldBlockError st)"
  by (auto simp: blocks_def plain_def protocol_error_def invalid_state_def map_sum_def split: sum.splits)

lemma blocks_bind [simp]:
  "blocks (bind_nat m k) \<longleftrightarrow> blocks m \<or> (\<exists>x. m = Inr x \<and> blocks (k x))"
  by (cases m) auto

lemma not_blocks: "\<not> blocks m \<Longrightarrow> m \<noteq> Inl (WouldBlockError st)"
  by (auto simp: blocks_def)

definition release_blocks :: "ffi_event \<Rightarrow> bool" where
  "release_blocks f \<longleftrightarrow> (\<exists>st. fe_release f = Some st \<and> nst_status_code st = FFI_STATUS_WOULD_BLOCK)"

lemma event_parts_blocks [simp]: "\<not> blocks (event_parts k v t)"
  by (auto simp: event_parts_def)

lemma decode_wire_blocks [simp]: "\<not> blocks (decode_wire_runtime_event h payload c)"
  by (auto simp: decode_wire_runtime_event_def decode_event_parts_def decode_object_event_def
      decode_control_event_def unpack_runtime_event_prefix_def Let_def
      split: runtime_metadata.splits)

lemma or_protocol_error_blocks [simp]: "\<not> blocks (or_protocol_error m)"
  by (cases m) (simp_all add: or_protocol_error_def)

lemma native_event_blocks: "blocks (native_event_from_ffi f) \<Longrightarrow> release_blocks f"
  by (auto simp: native_event_from_ffi_def copy_owned_event_payload_def raise_for_native_status_def
      status_exception_def release_blocks_def split: option.splits if_splits)

lemma lifecycle_blocks [simp]: "\<not> blocks (operation_lifecycle_from_native_event e)"
  by (auto simp: operation_lifecycle_from_native_event_def Let_def split: list.splits)

lemma event_is_result_blocks [simp]: "\<not> blocks (event_is_result_event e)"
  by (cases e) auto

lemmas event_is_result_not_blocks [simp] = not_blocks [OF event_is_result_blocks]

lemma observe_blocks: "observe_polled_event e s = (r, s') \<Longrightarrow> \<not> blocks r"
  by (auto simp: observe_polled_event_def Let_def split: if_splits sum.splits)

lemma terminal_state_blocks [simp]:
  "\<not> blocks (terminal_state_from_operation_state st)" "\<not> blocks (operation_state_from_lifecycle_event e)"
  "\<not> blocks (terminal_state_from_terminal_event t)"
proof -
  show state: "\<not> blocks (terminal_state_from_operation_state st)" for st by (cases st) simp_all
  show "\<not> blocks (operation_state_from_lifecycle_event e)"
    by (simp add: operation_state_from_lifecycle_event_def)
  show "\<not> blocks (terminal_state_from_terminal_event t)"
    by (auto simp: terminal_state_from_terminal_event_def split: terminal_event.split sum.split)
qed

lemma result_blocks [simp]: "\<not> blocks (result_from_polled_event e i)"
  by (cases e) (auto simp: Let_def NativeRuntimeResult_init_def)

lemma result_of_operation_blocks [simp]: "\<not> blocks (result_of_operation operation e)"
  by (simp add: result_of_operation_def)

lemmas result_not_blocks [simp] = not_blocks [OF result_blocks] not_blocks [OF result_of_operation_blocks]

lemma take_pending_blocks: "take_pending_result operation es = (r, es') \<Longrightarrow> \<not> blocks r"
proof (induction es arbitrary: es')
  case (Cons e es)
  then show ?case by (auto split: sum.splits bool.splits prod.splits)
qed auto

lemma scan_blocks:
  "scan_result_batch operation m fs s = (r, s') \<Longrightarrow> \<forall>f \<in> set fs. \<not> release_blocks f \<Longrightarrow> \<not> blocks r"
proof (induction fs arbitrary: s m)
  case (Cons f fs)
  have f: "\<not> blocks (native_event_from_ffi f)" using native_event_blocks Cons.prems(2) by auto
  show ?case
  proof (cases "native_event_from_ffi f")
    case (Inl err)
    then show ?thesis using f Cons.prems(1) by auto
  next
    case (Inr e)
    obtain q s1 where q: "observe_polled_event e s = (q, s1)" by fastforce
    show ?thesis
      using Cons.prems Cons.IH Inr q observe_blocks [OF q]
      by (auto split: sum.splits if_splits bool.splits)
  qed
qed auto

definition clean_script :: "script \<Rightarrow> bool" where
  "clean_script script \<longleftrightarrow> (\<forall>reply \<in> set script. \<forall>f \<in> set (pl_events reply). \<not> release_blocks f)"

lemma poll_result_batch_blocks:
  "poll_result_batch operation n s script = Some (r, s', script') \<Longrightarrow> clean_script script \<Longrightarrow> \<not> blocks r"
  using take_pending_blocks [of operation "ns_pending s"] scan_blocks [of operation None]
  by (fastforce simp: poll_result_batch_def clean_script_def Let_def status_exception_def
      split: prod.splits sum.splits list.splits if_splits)

section \<open>Waiting\<close>

lemma scan_handle:
  "scan_result_batch operation m fs s = (r, s') \<Longrightarrow> ns_handle s' = ns_handle s \<and> ns_closed s' = ns_closed s"
proof (induction fs arbitrary: s m)
  case (Cons f fs)
  show ?case
  proof (cases "native_event_from_ffi f")
    case (Inl err)
    then show ?thesis using Cons.prems by simp
  next
    case (Inr e)
    obtain q s1 where q: "observe_polled_event e s = (q, s1)" by fastforce
    show ?thesis
      using Cons.prems Cons.IH Inr q observe_pending [OF q]
      by (auto split: sum.splits if_splits bool.splits)
  qed
qed simp

lemma poll_result_handle:
  assumes "poll_result operation n timeout_ms s script = Some (r, s', script')"
  shows "ns_handle s' = ns_handle s \<and> ns_closed s' = ns_closed s"
proof -
  have "ns_handle s' = ns_handle s \<and> ns_closed s' = ns_closed s"
    if "poll_result_batch operation k s script = Some (q, s', script')" for k q
    using that scan_handle by (fastforce simp: poll_result_batch_def Let_def
        split: prod.splits sum.splits list.splits if_splits)
  then show ?thesis using assms by (auto simp: poll_result_def split: sum.splits)
qed

lemma poll_result_would_block:
  assumes "poll_result operation n timeout_ms s script = Some (Inl (WouldBlockError st), s', script')"
    "clean_script script"
  shows "client_conserves s script [] s' script'"
proof -
  have "\<not> blocks (check_result_arguments n timeout_ms s)"
    by (simp add: check_result_arguments_def session_ensure_open_def)
  then obtain r where b: "poll_result_batch operation (result_batch_size n) s script = Some (r, s', script')"
    and r: "bind_nat r (\<lambda>m. case m of None \<Rightarrow> Inl would_block | Some (_, result) \<Rightarrow> Inr result) =
      Inl (WouldBlockError st)"
    using assms(1) by (auto simp: poll_result_def dest: not_blocks split: sum.splits)
  have "\<not> blocks r" by (rule poll_result_batch_blocks [OF b assms(2)])
  then have "r = Inr None" using r by (cases r) (auto split: option.splits)
  then show ?thesis using poll_result_batch_conserves [OF b [unfolded \<open>r = Inr None\<close>]] by simp
qed

lemma conserves_suffix: "client_conserves s script es s' script' \<Longrightarrow> \<exists>used. script = used @ script'"
  by (auto simp: conserves_def)

lemma poll_result_matched:
  assumes "poll_result operation n timeout_ms s script = Some (Inr r, s', script')"
  shows "\<exists>e. client_conserves s script [e] s' script' \<and> result_of_operation operation e = Inr True \<and>
    result_from_polled_event e (nro_operation_id operation) = Inr r"
  using poll_result_step [OF assms] poll_step_conserves by blast

text \<open>A result that is returned ends the operation waited for; no other event was taken.\<close>

lemma wait_result:
  assumes "poll_submitted_result lib operation max_events deadline turns s script =
      Some (Inr r, calls, s', script')" "clean_script script"
  shows "calls = [] \<and> (\<exists>e. client_conserves s script [e] s' script' \<and>
    result_of_operation operation e = Inr True \<and>
    result_from_polled_event e (nro_operation_id operation) = Inr r)"
  using assms
proof (induction turns arbitrary: s script)
  case (Cons t turns)
  obtain q s1 script1 where q: "poll_result operation max_events (wt_timeout_ms t) s script = Some (q, s1, script1)"
    using Cons.prems(1) by (auto split: if_splits option.splits)
  show ?case
  proof (cases q)
    case (Inr x)
    then have "x = r" "calls = []" "s1 = s'" "script1 = script'"
      using Cons.prems(1) q by (auto split: if_splits)
    then show ?thesis using poll_result_matched [of operation max_events "wt_timeout_ms t" s script] q Inr by simp
  next
    case (Inl err)
    then obtain st where st: "err = WouldBlockError st"
      using Cons.prems(1) q by (cases err) (auto split: if_splits)
    then have rest: "poll_submitted_result lib operation max_events deadline turns s1 script1 =
        Some (Inr r, calls, s', script')"
      using Cons.prems(1) q Inl by (auto split: if_splits prod.splits sum.splits)
    have kept: "client_conserves s script [] s1 script1"
      using poll_result_would_block Cons.prems(2) q Inl st by blast
    then have "clean_script script1"
      using Cons.prems(2) conserves_suffix [OF kept] by (auto simp: clean_script_def)
    from Cons.IH [OF rest this] show ?thesis
      using conserves_trans [OF kept] by fastforce
  qed
qed simp

text \<open>
  A wait asks the library to cancel the operation only when its time is over, and then once; if the
  library agrees, the wait raises \<open>TimeoutError\<close> and the operation is not active any more.
\<close>

lemma wait_cancels:
  assumes "poll_submitted_result lib operation max_events deadline turns s script = Some (r, calls, s', script')"
    "calls \<noteq> []" and c: "c = cancel_call_of (ns_handle s) (nro_frame_id operation)"
  shows "calls = [c] \<and> deadline \<and> (\<exists>t \<in> set turns. \<not> wt_before_deadline t) \<and>
    (if status_succeeded (lib c)
     then r = Inl DeadlineExceeded \<and> (\<forall>i. ns_operation_frames s' i \<noteq> Some (nro_frame_id operation))
     else r = Inl (status_exception (lib c)))"
  using assms
proof (induction turns arbitrary: s script)
  case (Cons t turns)
  obtain q s1 script1 where q: "poll_result operation max_events (wt_timeout_ms t) s script = Some (q, s1, script1)"
    using Cons.prems(1,2) by (auto split: if_splits option.splits)
  obtain err where err: "q = Inl err"
    using Cons.prems(1,2) q by (cases q) (auto split: if_splits)
  obtain st where st: "err = WouldBlockError st"
    using Cons.prems(1,2) q err by (cases err) (auto split: if_splits)
  note handle = poll_result_handle [OF q]
  show ?case
  proof (cases "wt_before_deadline t")
    case True
    then have "poll_submitted_result lib operation max_events deadline turns s1 script1 = Some (r, calls, s', script')"
      using Cons.prems(1,2) q err st by (auto split: if_splits)
    from Cons.IH [OF this Cons.prems(2)] Cons.prems(3) handle show ?thesis by simp
  next
    case False
    then have d: "deadline" and cancelled: "(case operation_cancel lib operation s1 of
        (x, calls, s) \<Rightarrow> Some (case x of Inl e \<Rightarrow> Inl e | Inr _ \<Rightarrow> Inl DeadlineExceeded, calls, s, script1)) =
        Some (r, calls, s', script')"
      using Cons.prems(1,2) q err st by (auto split: if_splits)
    show ?thesis
      using cancelled d False Cons.prems(2,3) handle
      by (auto simp: operation_cancel_def cancel_frame_def Let_def raise_for_native_status_def
          session_ensure_open_def invalid_state_def forget_operation_frame_by_frame_def split: if_splits)
  qed
qed simp

text \<open>A wait whose time ends, or that is cancelled, returns after at most one reply per turn.\<close>

lemma poll_result_some:
  "script \<noteq> [] \<Longrightarrow> \<exists>r s' script'. poll_result operation n timeout_ms s script = Some (r, s', script') \<and>
    (script' = script \<or> script' = tl script)"
proof -
  assume "script \<noteq> []"
  then have "\<exists>r s' script'. poll_result_batch operation k s script = Some (r, s', script') \<and>
      (script' = script \<or> script' = tl script)" for k
    by (cases script) (auto simp: poll_result_batch_def Let_def split: prod.splits sum.splits)
  from this [of "result_batch_size n"] show ?thesis
    by (auto simp: poll_result_def split: sum.splits)
qed

definition turn_stops :: "wait_turn \<Rightarrow> bool" where
  "turn_stops t \<longleftrightarrow> wt_cancelled_before t \<or> wt_cancelled_after t \<or> \<not> wt_before_deadline t"

lemma wait_ends:
  assumes "length turns \<le> length script" "\<exists>t \<in> set turns. turn_stops t"
  shows "\<exists>r calls s' script'. poll_submitted_result lib operation max_events deadline turns s script =
    Some (r, calls, s', script')"
  using assms
proof (induction turns arbitrary: s script)
  case (Cons t turns)
  obtain q s1 script1 where q: "poll_result operation max_events (wt_timeout_ms t) s script = Some (q, s1, script1)"
    and used: "script1 = script \<or> script1 = tl script"
    using poll_result_some [of script operation max_events "wt_timeout_ms t" s] Cons.prems(1) by fastforce
  have len: "length turns \<le> length script1" using used Cons.prems(1) by auto
  show ?case
  proof (cases "turn_stops t")
    case True
    then show ?thesis using q
      by (auto simp: turn_stops_def split: sum.splits native_exn.splits prod.splits)
  next
    case False
    then have "\<exists>t \<in> set turns. turn_stops t" using Cons.prems(2) by auto
    then show ?thesis
      using False q Cons.IH [OF len] by (auto simp: turn_stops_def split: sum.splits native_exn.splits)
  qed
qed simp

end
