(* ===== verification/Native_Server.thy ===== *)
theory Native_Server
  imports Operation_Correctness
begin

text \<open>
  \<open>NativeRuntimeServerSession\<close>: the server session over the native library, with the operations
  it hands to the application.  As on the client side the library is seen through its replies, and
  the locks make each method one step.  The reply methods of an operation are in \<open>Server_Replies\<close>.
\<close>

section \<open>State\<close>

text \<open>An operation also refers to the session it belongs to, which its methods take as an argument.\<close>

record NativeRuntimeServerOperation =
  nso_operation_id :: int
  nso_frame_id :: int
  nso_submit :: NativeRuntimeEvent
  nso_handle :: NativeHandle

datatype NativeServerEvent =
    ServerSubmit NativeRuntimeServerOperation
  | ServerRuntime NativeRuntimeEvent
  | ServerLifecycle OperationLifecycleEvent

record NativeRuntimeServerSession =
  nss_handle :: NativeHandle
  nss_closed :: bool
  nss_pending :: "NativeServerEvent list"
  nss_next_frame_id :: int
  nss_operation_frames :: "int \<rightharpoonup> int"

definition new_server_session :: "NativeHandle \<Rightarrow> NativeRuntimeServerSession" where
  "new_server_session h = \<lparr>nss_handle = h, nss_closed = False, nss_pending = [], nss_next_frame_id = 1,
     nss_operation_frames = Map.empty\<rparr>"

definition NativeRuntimeServerOperation_init ::
    "NativeRuntimeServerOperation \<Rightarrow> NativeRuntimeServerOperation nres" where
  "NativeRuntimeServerOperation_init p =
     (if rfh_message_type (nre_header (nso_submit p)) \<noteq> MT_FRAME_SUBMIT
      then plain (ve ''submit must be a FRAME_SUBMIT runtime event'')
      else (case rev_value (nre_metadata (nso_submit p)) of
          Some (FrameSubmitV m) \<Rightarrow>
            if fsm_operation_id m \<noteq> nso_operation_id p
            then plain (ve ''operation_id must match submit metadata'')
            else if rfh_frame_id (nre_header (nso_submit p)) \<noteq> nso_frame_id p
            then plain (ve ''frame_id must match submit header'')
            else Inr p
        | _ \<Rightarrow> plain (Inl (TypeError ''submit metadata must be FrameSubmitMetadata''))))"

fun as_submit :: "NativeServerEvent \<Rightarrow> NativeRuntimeServerOperation option" where
  "as_submit (ServerSubmit p) = Some p"
| "as_submit _ = None"

fun as_runtime :: "NativeServerEvent \<Rightarrow> NativeRuntimeEvent option" where
  "as_runtime (ServerRuntime e) = Some e"
| "as_runtime _ = None"

fun as_lifecycle :: "NativeServerEvent \<Rightarrow> OperationLifecycleEvent option" where
  "as_lifecycle (ServerLifecycle l) = Some l"
| "as_lifecycle _ = None"

definition server_ensure_open :: "NativeRuntimeServerSession \<Rightarrow> unit nres" where
  "server_ensure_open s = (if nss_closed s then invalid_state else Inr ())"

definition server_remember :: "int \<Rightarrow> int \<Rightarrow> NativeRuntimeServerSession \<Rightarrow> NativeRuntimeServerSession" where
  "server_remember operation_id frame_id s =
     s\<lparr>nss_operation_frames := (nss_operation_frames s)(operation_id \<mapsto> frame_id)\<rparr>"

definition server_forget :: "int \<Rightarrow> NativeRuntimeServerSession \<Rightarrow> NativeRuntimeServerSession" where
  "server_forget operation_id s =
     s\<lparr>nss_operation_frames := (nss_operation_frames s)(operation_id := None)\<rparr>"

section \<open>Server events\<close>

text \<open>The event an event of the library becomes, and what the session records of it.\<close>

definition server_event :: "polled_event \<Rightarrow> NativeServerEvent nres" where
  "server_event e =
     (case e of
        LifecycleE l \<Rightarrow> bind_nat (operation_lifecycle_from_native_event l) (\<lambda>l. Inr (ServerLifecycle l))
      | RuntimeE r \<Rightarrow>
          if rfh_message_type (nre_header r) \<noteq> MT_FRAME_SUBMIT then Inr (ServerRuntime r)
          else let operation = nec_operation (runtime_event_context r)
               in bind_nat (require_kind KIND_OPERATION operation) (\<lambda>_.
                  case rev_value (nre_metadata r) of
                    Some (FrameSubmitV m) \<Rightarrow>
                      bind_nat (typed_handle KIND_OPERATION operation) (\<lambda>handle.
                      bind_nat (NativeRuntimeServerOperation_init
                        \<lparr>nso_operation_id = fsm_operation_id m, nso_frame_id = rfh_frame_id (nre_header r),
                         nso_submit = r, nso_handle = handle\<rparr>) (\<lambda>p.
                        Inr (ServerSubmit p)))
                  | _ \<Rightarrow> protocol_error))"

definition observe_server_event ::
    "NativeServerEvent \<Rightarrow> NativeRuntimeServerSession \<Rightarrow> NativeRuntimeServerSession" where
  "observe_server_event e s =
     (case e of
        ServerSubmit p \<Rightarrow> server_remember (nso_operation_id p) (nso_frame_id p) s
      | ServerRuntime r \<Rightarrow>
          if rfh_message_type (nre_header r) = MT_SESSION_CLOSE
          then s\<lparr>nss_operation_frames := Map.empty\<rparr> else s
      | ServerLifecycle _ \<Rightarrow> s)"

fun server_events_from ::
    "polled_event list \<Rightarrow> NativeRuntimeServerSession
      \<Rightarrow> NativeServerEvent list nres \<times> NativeRuntimeServerSession" where
  "server_events_from [] s = (Inr [], s)"
| "server_events_from (e # es) s =
     (case server_event e of
        Inl err \<Rightarrow> (Inl err, s)
      | Inr v \<Rightarrow>
          (case server_events_from es (observe_server_event v s) of
             (r, s) \<Rightarrow> (bind_nat r (\<lambda>vs. Inr (v # vs)), s)))"

definition poll_server_events :: "(NativeRuntimeServerSession, poll_reply, NativeServerEvent list) reading" where
  "poll_server_events s script =
     (case script of
        [] \<Rightarrow> None
      | reply # script \<Rightarrow>
          if nst_status_code (pl_status reply) = FFI_STATUS_WOULD_BLOCK then Some (Inr [], s, script)
          else if \<not> status_succeeded (pl_status reply)
          then Some (Inl (status_exception (pl_status reply)), s, script)
          else (case map_nat native_event_from_ffi (pl_events reply) of
              Inl err \<Rightarrow> Some (Inl err, s, script)
            | Inr events \<Rightarrow>
                (case server_events_from events s of (r, s) \<Rightarrow> Some (r, s, script))))"

section \<open>Reading\<close>

text \<open>\<open>poll_events\<close> takes the oldest events it has kept.\<close>

definition server_poll_events ::
    "int \<Rightarrow> int \<Rightarrow> (NativeRuntimeServerSession, poll_reply, NativeServerEvent list) reading" where
  "server_poll_events max_events timeout_ms s script =
     (case bind_nat (server_ensure_open s) (\<lambda>_.
         bind_nat (plain (require_bounded_integer ''max_events'' max_events 0xFFFFFFFF)) (\<lambda>_.
           plain (require_bounded_integer ''timeout_ms'' timeout_ms 0xFFFFFFFF))) of
        Inl err \<Rightarrow> Some (Inl err, s, script)
      | Inr _ \<Rightarrow>
          if max_events = 0 then Some (Inr [], s, script)
          else let events = take (nat max_events) (nss_pending s);
                   s = s\<lparr>nss_pending := drop (length events) (nss_pending s)\<rparr>
               in if max_events - len events = 0 then Some (Inr events, s, script)
                  else (case poll_server_events s script of
                      None \<Rightarrow> None
                    | Some (r, s, script) \<Rightarrow> Some (bind_nat r (\<lambda>polled. Inr (events @ polled)), s, script)))"

definition server_poll_event ::
    "int \<Rightarrow> (NativeRuntimeServerSession, poll_reply, NativeServerEvent option) reading" where
  "server_poll_event timeout_ms s script =
     map_option (\<lambda>(r, s, script). (bind_nat r (\<lambda>es. Inr (case es of [] \<Rightarrow> None | e # _ \<Rightarrow> Some e)), s, script))
       (server_poll_events 1 timeout_ms s script)"

definition is_server_runtime :: "NativeServerEvent \<Rightarrow> bool" where
  "is_server_runtime e \<longleftrightarrow> as_runtime e \<noteq> None"

definition server_poll_runtime_frames ::
    "int \<Rightarrow> int \<Rightarrow> (NativeRuntimeServerSession, poll_reply, NativeServerEvent list) reading" where
  "server_poll_runtime_frames max_events timeout_ms s script =
     (case bind_nat (plain (require_bounded_integer ''max_events'' max_events 0xFFFFFFFF)) (\<lambda>_.
           plain (require_bounded_integer ''timeout_ms'' timeout_ms 0xFFFFFFFF)) of
        Inl err \<Rightarrow> Some (Inl err, s, script)
      | Inr _ \<Rightarrow>
          if max_events = 0 then Some (Inr [], s, script)
          else (case split_events is_server_runtime (Some max_events) 0 (nss_pending s) of
              (frames, retained) \<Rightarrow>
                let s = s\<lparr>nss_pending := retained\<rparr>
                in if len frames = max_events then Some (Inr frames, s, script)
                   else (case poll_server_events s script of
                       None \<Rightarrow> None
                     | Some (Inl err, s, script) \<Rightarrow> Some (Inl err, s, script)
                     | Some (Inr events, s, script) \<Rightarrow>
                         (case split_events is_server_runtime (Some max_events) (len frames) events of
                            (matching, other) \<Rightarrow>
                              Some (Inr (frames @ matching),
                                s\<lparr>nss_pending := nss_pending s @ other\<rparr>, script)))))"

text \<open>
  The blocking methods.  Each turn reads once and then looks whether the deadline has passed
  (\<open>True\<close>); the loop keeps the lock.  \<open>None\<close> as a result is the error \<open>WOULD_BLOCK\<close> of the methods
  \<open>next_event\<close> and \<open>receive_submit\<close>.
\<close>

fun next_event_loop ::
    "bool list \<Rightarrow> (NativeRuntimeServerSession, poll_reply, NativeServerEvent option) reading" where
  "next_event_loop [] s script = None"
| "next_event_loop (expired # turns) s script =
     (case nss_pending s of
        e # es \<Rightarrow> Some (Inr (Some e), s\<lparr>nss_pending := es\<rparr>, script)
      | [] \<Rightarrow>
          (case poll_server_events s script of
             None \<Rightarrow> None
           | Some (Inl err, s, script) \<Rightarrow> Some (Inl err, s, script)
           | Some (Inr events, s, script) \<Rightarrow>
               (case nss_pending s @ events of
                  e # es \<Rightarrow> Some (Inr (Some e), s\<lparr>nss_pending := es\<rparr>, script)
                | [] \<Rightarrow> if expired then Some (Inr None, s, script) else next_event_loop turns s script)))"

fun take_pending_submit ::
    "NativeServerEvent list \<Rightarrow> (NativeRuntimeServerOperation \<times> NativeServerEvent list) option" where
  "take_pending_submit [] = None"
| "take_pending_submit (e # es) =
     (case as_submit e of
        Some p \<Rightarrow> Some (p, es)
      | None \<Rightarrow> map_option (\<lambda>(p, es). (p, e # es)) (take_pending_submit es))"

fun receive_submit_loop ::
    "bool list \<Rightarrow> (NativeRuntimeServerSession, poll_reply, NativeRuntimeServerOperation option) reading" where
  "receive_submit_loop [] s script = None"
| "receive_submit_loop (expired # turns) s script =
     (case take_pending_submit (nss_pending s) of
        Some (p, es) \<Rightarrow> Some (Inr (Some p), s\<lparr>nss_pending := es\<rparr>, script)
      | None \<Rightarrow>
          (case poll_server_events s script of
             None \<Rightarrow> None
           | Some (Inl err, s, script) \<Rightarrow> Some (Inl err, s, script)
           | Some (Inr events, s, script) \<Rightarrow>
               let s = s\<lparr>nss_pending := nss_pending s @ events\<rparr>
               in (case take_pending_submit (nss_pending s) of
                     Some (p, es) \<Rightarrow> Some (Inr (Some p), s\<lparr>nss_pending := es\<rparr>, script)
                   | None \<Rightarrow>
                       if expired then Some (Inr None, s, script) else receive_submit_loop turns s script)))"

definition blocking_method ::
    "('a option nres \<times> NativeRuntimeServerSession \<times> script) option
      \<Rightarrow> ('a nres \<times> NativeRuntimeServerSession \<times> script) option" where
  "blocking_method =
     map_option (\<lambda>(r, s, script).
       (bind_nat r (\<lambda>m. case m of None \<Rightarrow> Inl would_block | Some x \<Rightarrow> Inr x), s, script))"

definition server_next_event ::
    "bool list \<Rightarrow> (NativeRuntimeServerSession, poll_reply, NativeServerEvent) reading" where
  "server_next_event turns s script =
     (case server_ensure_open s of
        Inl err \<Rightarrow> Some (Inl err, s, script)
      | Inr _ \<Rightarrow> blocking_method (next_event_loop turns s script))"

definition server_receive_submit ::
    "bool list \<Rightarrow> (NativeRuntimeServerSession, poll_reply, NativeRuntimeServerOperation) reading" where
  "server_receive_submit turns s script =
     (case server_ensure_open s of
        Inl err \<Rightarrow> Some (Inl err, s, script)
      | Inr _ \<Rightarrow> blocking_method (receive_submit_loop turns s script))"

section \<open>Sending\<close>

definition server_frame_id :: "MessageType \<Rightarrow> event_value \<Rightarrow> NativeRuntimeServerSession \<Rightarrow> int nres" where
  "server_frame_id mt metadata s =
     (case runtime_operation_id mt metadata of
        None \<Rightarrow> Inr (nss_next_frame_id s)
      | Some operation_id \<Rightarrow>
          if operation_id = 0
          then if mt \<notin> {MT_OBJECT_REF, MT_OBJECT_RELEASE} then invalid_state else Inr 0
          else (case nss_operation_frames s operation_id of
              Some f \<Rightarrow> Inr f
            | None \<Rightarrow> invalid_state))"

definition server_send_runtime_frame ::
    "(frame_call \<Rightarrow> NativeStatus) \<Rightarrow> MessageType \<Rightarrow> event_value \<Rightarrow> bytes \<Rightarrow> int option
      \<Rightarrow> NativeRuntimeServerSession \<Rightarrow> unit nres \<times> frame_call list \<times> NativeRuntimeServerSession" where
  "server_send_runtime_frame lib mt metadata tail frame_id s =
     (case bind_nat (server_ensure_open s) (\<lambda>_.
           bind_nat (plain (encode_native_runtime_frame mt metadata tail)) (\<lambda>payload.
           bind_nat (case frame_id of None \<Rightarrow> server_frame_id mt metadata s | Some f \<Rightarrow> Inr f) (\<lambda>f.
             Inr (payload, f)))) of
        Inl err \<Rightarrow> (Inl err, [], s)
      | Inr (payload, selected) \<Rightarrow>
          let call = frame_call_of (nss_handle s) mt selected payload
          in (case raise_for_native_status (lib call) of
                Inl err \<Rightarrow> (Inl err, [call], s)
              | Inr _ \<Rightarrow>
                  (Inr (), [call],
                   if frame_id = None \<and> runtime_operation_id mt metadata = None
                   then s\<lparr>nss_next_frame_id := following_frame_id selected\<rparr> else s)))"

definition send_operation_runtime_frame ::
    "(frame_call \<Rightarrow> NativeStatus) \<Rightarrow> NativeHandle \<Rightarrow> int \<Rightarrow> MessageType \<Rightarrow> event_value \<Rightarrow> bytes
      \<Rightarrow> NativeRuntimeServerSession \<Rightarrow> unit nres \<times> frame_call list" where
  "send_operation_runtime_frame lib operation frame_id mt metadata tail s =
     (case bind_nat (server_ensure_open s) (\<lambda>_. plain (encode_native_runtime_frame mt metadata tail)) of
        Inl err \<Rightarrow> (Inl err, [])
      | Inr payload \<Rightarrow>
          let call = frame_call_of operation mt frame_id payload
          in (raise_for_native_status (lib call), [call]))"

definition server_close ::
    "(NativeHandle \<Rightarrow> NativeStatus) \<Rightarrow> NativeRuntimeServerSession
      \<Rightarrow> unit nres \<times> NativeHandle list \<times> NativeRuntimeServerSession" where
  "server_close lib s =
     (if nss_closed s then (Inr (), [], s)
      else (case raise_for_native_status (lib (nss_handle s)) of
          Inl err \<Rightarrow> (Inl err, [nss_handle s], s)
        | Inr _ \<Rightarrow> (Inr (), [nss_handle s], s\<lparr>nss_operation_frames := Map.empty, nss_closed := True\<rparr>)))"

end
