(* ===== verification/Server_Replies.thy ===== *)
theory Server_Replies
  imports Native_Server
begin

text \<open>
  The replies to one server operation (the methods of \<open>NativeRuntimeServerOperation\<close>) as steps
  of coroutines and worker threads.  A reply begins under the lock of the operation; then a
  worker thread makes the library call while other coroutines run; then the coroutine
  that waits for the worker goes on.  Whatever the library may do is a possible step.
\<close>

section \<open>State\<close>

text \<open>
  \<open>Sending\<close>: the worker has not made its call.  \<open>Accepted\<close>, \<open>Rejected\<close>: the call has succeeded or
  the worker has raised, and the coroutine has not gone on.  \<open>Replied\<close>, \<open>Refused\<close>: the coroutine has
  ended.
\<close>

datatype reply_phase = Sending | Accepted | Rejected | Replied | Refused

record reply_task =
  rtk_terminal :: bool
  rtk_phase :: reply_phase

text \<open>\<open>rps_active\<close>: the session remembers the frame of the operation.  \<open>rps_sent\<close>: the replies the library has accepted, in order.\<close>

record reply_state =
  rps_closed :: bool
  rps_started :: bool
  rps_active :: bool
  rps_tasks :: "reply_task list"
  rps_sent :: "nat list"

definition new_operation :: reply_state where
  "new_operation = \<lparr>rps_closed = False, rps_started = False, rps_active = True, rps_tasks = [], rps_sent = []\<rparr>"

section \<open>Operations\<close>

definition begin_reply :: "bool \<Rightarrow> reply_state \<Rightarrow> unit nres \<times> reply_state" where
  "begin_reply terminal s =
     (if rps_closed s then (invalid_state, s)
      else if rps_started s then (invalid_state, s)
      else (Inr (), if terminal then s\<lparr>rps_started := True\<rparr> else s))"

definition restore_terminal_reply :: "reply_state \<Rightarrow> reply_state" where
  "restore_terminal_reply s = s\<lparr>rps_started := False\<rparr>"

definition complete_terminal_reply :: "reply_state \<Rightarrow> reply_state" where
  "complete_terminal_reply s = s\<lparr>rps_active := False\<rparr>"

text \<open>
  The waiting of \<open>_send_terminal_reply\<close>: the coroutine is woken by a cancellation (\<open>True\<close>) or by the
  end of the worker; cancellations are noted, and \<open>None\<close> means that the worker still runs.
\<close>

fun await_worker :: "bool \<Rightarrow> bool list \<Rightarrow> bool option" where
  "await_worker cancelled [] = None"
| "await_worker cancelled (wake # wakes) = (if wake then await_worker True wakes else Some cancelled)"

datatype reply_outcome = ReplyReturned | ReplyRaised native_exn | ReplyCancelled

definition finish_terminal_reply ::
    "unit nres \<Rightarrow> bool \<Rightarrow> reply_state \<Rightarrow> reply_outcome \<times> reply_state" where
  "finish_terminal_reply worker cancelled s =
     (case worker of
        Inl err \<Rightarrow> (if cancelled then ReplyCancelled else ReplyRaised err, restore_terminal_reply s)
      | Inr _ \<Rightarrow> (if cancelled then ReplyCancelled else ReplyReturned, complete_terminal_reply s))"

definition set_reply :: "nat \<Rightarrow> reply_phase \<Rightarrow> reply_state \<Rightarrow> reply_state" where
  "set_reply i ph s = s\<lparr>rps_tasks := (rps_tasks s)[i := (rps_tasks s ! i)\<lparr>rtk_phase := ph\<rparr>]\<rparr>"

definition is_reply :: "reply_state \<Rightarrow> nat \<Rightarrow> bool \<Rightarrow> reply_phase \<Rightarrow> bool" where
  "is_reply s i terminal ph \<longleftrightarrow> i < length (rps_tasks s) \<and> rtk_terminal (rps_tasks s ! i) = terminal \<and>
     rtk_phase (rps_tasks s ! i) = ph"

section \<open>Steps\<close>

inductive reply_step :: "reply_state \<Rightarrow> reply_state \<Rightarrow> bool" where
  begins: "begin_reply terminal s = (r, s') \<Longrightarrow>
    reply_step s (s'\<lparr>rps_tasks := rps_tasks s' @
      [\<lparr>rtk_terminal = terminal, rtk_phase = (if r = Inr () then Sending else Refused)\<rparr>]\<rparr>)"
| accepts: "is_reply s i terminal Sending \<Longrightarrow>
    reply_step s ((set_reply i Accepted s)\<lparr>rps_sent := rps_sent s @ [i]\<rparr>)"
| rejects: "is_reply s i terminal Sending \<Longrightarrow> reply_step s (set_reply i Rejected s)"
| completes: "is_reply s i True Accepted \<Longrightarrow> await_worker False wakes = Some cancelled \<Longrightarrow>
    reply_step s (set_reply i Replied (snd (finish_terminal_reply (Inr ()) cancelled s)))"
| restores: "is_reply s i True Rejected \<Longrightarrow> await_worker False wakes = Some cancelled \<Longrightarrow>
    reply_step s (set_reply i Refused (snd (finish_terminal_reply (Inl err) cancelled s)))"
| returns: "is_reply s i False Accepted \<Longrightarrow> reply_step s (set_reply i Replied s)"
| raises: "is_reply s i False Rejected \<Longrightarrow> reply_step s (set_reply i Refused s)"
| peer_close: "reply_step s (s\<lparr>rps_active := False\<rparr>)"
| session_close: "reply_step s (s\<lparr>rps_active := False, rps_closed := True\<rparr>)"

definition reply_reachable :: "reply_state \<Rightarrow> bool" where
  "reply_reachable = reply_step\<^sup>*\<^sup>* new_operation"

section \<open>The invariant\<close>

text \<open>A terminal reply holds the operation from its beginning until it is refused.\<close>

definition holds_operation :: "reply_state \<Rightarrow> nat \<Rightarrow> bool" where
  "holds_operation s i \<longleftrightarrow> i < length (rps_tasks s) \<and> rtk_terminal (rps_tasks s ! i) \<and>
     rtk_phase (rps_tasks s ! i) \<noteq> Refused"

definition reply_inv :: "reply_state \<Rightarrow> bool" where
  "reply_inv s \<longleftrightarrow>
     (\<forall>i j. holds_operation s i \<longrightarrow> holds_operation s j \<longrightarrow> i = j) \<and>
     (rps_started s \<longleftrightarrow> (\<exists>i. holds_operation s i)) \<and>
     distinct (rps_sent s) \<and>
     (\<forall>i \<in> set (rps_sent s). i < length (rps_tasks s) \<and> rtk_phase (rps_tasks s ! i) \<in> {Accepted, Replied}) \<and>
     (\<forall>i. is_reply s i True Replied \<longrightarrow> \<not> rps_active s)"

lemma holds_append:
  "holds_operation (s\<lparr>rps_tasks := rps_tasks s @ [t]\<rparr>) i \<longleftrightarrow>
    holds_operation s i \<or> i = length (rps_tasks s) \<and> rtk_terminal t \<and> rtk_phase t \<noteq> Refused"
  by (auto simp: holds_operation_def nth_append less_Suc_eq)

lemma set_reply_simps [simp]:
  "length (rps_tasks (set_reply i ph s)) = length (rps_tasks s)"
  "rps_started (set_reply i ph s) = rps_started s" "rps_sent (set_reply i ph s) = rps_sent s"
  "rps_active (set_reply i ph s) = rps_active s"
  "j < length (rps_tasks s) \<Longrightarrow> rtk_terminal (rps_tasks (set_reply i ph s) ! j) = rtk_terminal (rps_tasks s ! j)"
  "j < length (rps_tasks s) \<Longrightarrow> rtk_phase (rps_tasks (set_reply i ph s) ! j) =
    (if i = j then ph else rtk_phase (rps_tasks s ! j))"
  by (cases "i = j"; auto simp: set_reply_def)+

lemma holds_set:
  "holds_operation (set_reply i ph s) j \<longleftrightarrow>
    (if i = j then i < length (rps_tasks s) \<and> rtk_terminal (rps_tasks s ! i) \<and> ph \<noteq> Refused
     else holds_operation s j)"
  by (auto simp: holds_operation_def)

lemma is_reply_set:
  "is_reply (set_reply i ph s) j terminal ph' \<longleftrightarrow>
    (if i = j then i < length (rps_tasks s) \<and> rtk_terminal (rps_tasks s ! i) = terminal \<and> ph = ph'
     else is_reply s j terminal ph')"
  by (auto simp: is_reply_def)

lemma holds_update [simp]:
  "holds_operation (s\<lparr>rps_sent := x\<rparr>) = holds_operation s"
  "holds_operation (s\<lparr>rps_active := b\<rparr>) = holds_operation s"
  "holds_operation (s\<lparr>rps_closed := b\<rparr>) = holds_operation s"
  "holds_operation (s\<lparr>rps_started := b\<rparr>) = holds_operation s"
  "is_reply (s\<lparr>rps_sent := x\<rparr>) = is_reply s" "is_reply (s\<lparr>rps_active := b\<rparr>) = is_reply s"
  "is_reply (s\<lparr>rps_closed := b\<rparr>) = is_reply s" "is_reply (s\<lparr>rps_started := b\<rparr>) = is_reply s"
  by (auto simp: holds_operation_def is_reply_def fun_eq_iff)

lemma is_reply_append:
  "rtk_phase t \<noteq> Replied \<Longrightarrow> is_reply (s\<lparr>rps_tasks := rps_tasks s @ [t]\<rparr>) i True Replied \<longleftrightarrow>
    is_reply s i True Replied"
  by (auto simp: is_reply_def nth_append less_Suc_eq)

lemma reply_inv_new: "reply_inv new_operation"
  by (simp add: reply_inv_def new_operation_def holds_operation_def is_reply_def)

lemma reply_inv_begin:
  assumes "reply_inv s" "begin_reply terminal s = (r, s')"
  shows "reply_inv (s'\<lparr>rps_tasks := rps_tasks s' @
      [\<lparr>rtk_terminal = terminal, rtk_phase = (if r = Inr () then Sending else Refused)\<rparr>]\<rparr>)"
  using assms
  by (auto simp: reply_inv_def begin_reply_def holds_append is_reply_append nth_append split: if_splits)

lemma reply_inv_phase:
  assumes "reply_inv s" "is_reply s i terminal ph" "i \<notin> set (rps_sent s) \<or> ph' \<in> {Accepted, Replied}"
    "terminal \<Longrightarrow> ph \<noteq> Refused \<and> ph' \<noteq> Refused" "terminal \<Longrightarrow> ph' = Replied \<Longrightarrow> \<not> rps_active s"
  shows "reply_inv (set_reply i ph' s)"
  using assms
  unfolding reply_inv_def holds_set is_reply_set
  by (auto simp: holds_operation_def is_reply_def)

lemma reply_inv_step:
  assumes "reply_step s s'" "reply_inv s"
  shows "reply_inv s'"
  using assms
proof cases
  case (begins terminal r t)
  then show ?thesis using reply_inv_begin assms(2) by blast
next
  case (accepts i terminal)
  have "i \<notin> set (rps_sent s)" using accepts assms(2) by (auto simp: reply_inv_def is_reply_def)
  moreover have "reply_inv (set_reply i Accepted s)"
    using reply_inv_phase [OF assms(2) accepts(2), of Accepted] by simp
  ultimately show ?thesis
    using accepts by (auto simp: reply_inv_def is_reply_def)
next
  case (rejects i terminal)
  have "i \<notin> set (rps_sent s)" using rejects assms(2) by (auto simp: reply_inv_def is_reply_def)
  then show ?thesis using rejects reply_inv_phase [OF assms(2) rejects(2), of Rejected] by simp
next
  case (completes i wakes cancelled)
  have "reply_inv (s\<lparr>rps_active := False\<rparr>)" using assms(2) by (simp add: reply_inv_def)
  from reply_inv_phase [OF this, of i True Accepted Replied] show ?thesis
    using completes by (simp add: finish_terminal_reply_def complete_terminal_reply_def)
next
  case (restores i wakes cancelled err)
  have holds: "holds_operation s i" using restores by (auto simp: holds_operation_def is_reply_def)
  have sent: "i \<notin> set (rps_sent s)" using restores assms(2) by (auto simp: reply_inv_def is_reply_def)
  have "\<not> holds_operation (set_reply i Refused s) j" for j
    using assms(2) holds by (auto simp: reply_inv_def holds_set)
  then show ?thesis
    using assms(2) sent restores
    by (auto simp: reply_inv_def finish_terminal_reply_def restore_terminal_reply_def is_reply_set
        set_reply_def nth_list_update holds_operation_def is_reply_def)
next
  case (returns i)
  then show ?thesis using reply_inv_phase [OF assms(2) returns(2), of Replied] by simp
next
  case (raises i)
  have "i \<notin> set (rps_sent s)" using raises assms(2) by (auto simp: reply_inv_def is_reply_def)
  then show ?thesis using raises reply_inv_phase [OF assms(2) raises(2), of Refused] by simp
next
  case peer_close
  then show ?thesis using assms(2) by (simp add: reply_inv_def)
next
  case session_close
  then show ?thesis using assms(2) by (simp add: reply_inv_def)
qed

lemma reply_reachable_inv: "reply_reachable s \<Longrightarrow> reply_inv s"
  unfolding reply_reachable_def
  by (induction rule: rtranclp_induct) (auto intro: reply_inv_new reply_inv_step)

section \<open>One terminal reply\<close>

definition terminal_replies :: "reply_state \<Rightarrow> nat list" where
  "terminal_replies s = filter (\<lambda>i. rtk_terminal (rps_tasks s ! i)) (rps_sent s)"

lemma one_terminal_reply:
  assumes "reply_reachable s"
  shows "length (terminal_replies s) \<le> 1 \<and> (terminal_replies s \<noteq> [] \<longrightarrow> begin_reply terminal s = (invalid_state, s))"
proof -
  have inv: "reply_inv s" by (rule reply_reachable_inv [OF assms])
  have holds: "holds_operation s i" if "i \<in> set (terminal_replies s)" for i
    using that inv by (auto simp: terminal_replies_def reply_inv_def holds_operation_def)
  have dist: "distinct (terminal_replies s)" using inv by (simp add: terminal_replies_def reply_inv_def)
  have same: "i = j" if "i \<in> set (terminal_replies s)" "j \<in> set (terminal_replies s)" for i j
    using inv holds [OF that(1)] holds [OF that(2)] by (auto simp: reply_inv_def)
  have "length (terminal_replies s) \<le> 1"
  proof (cases "terminal_replies s" rule: remdups_adj.cases)
    case (3 i j rest)
    then show ?thesis using dist same [of i j] by simp
  qed simp_all
  moreover have "rps_started s" if "terminal_replies s \<noteq> []"
    using inv holds [of "hd (terminal_replies s)"] that by (auto simp: reply_inv_def)
  ultimately show ?thesis by (simp add: begin_reply_def)
qed

text \<open>
  An incremental reply looks at the flag before its worker calls the library, so that the library
  can accept it after a terminal reply.
\<close>

definition late_increment :: reply_state where
  "late_increment = \<lparr>rps_closed = False, rps_started = True, rps_active = False,
     rps_tasks = [\<lparr>rtk_terminal = False, rtk_phase = Accepted\<rparr>, \<lparr>rtk_terminal = True, rtk_phase = Replied\<rparr>],
     rps_sent = [1, 0]\<rparr>"

lemma reply_begins:
  "begin_reply terminal s = (Inr (), s') \<Longrightarrow> reply_reachable s \<Longrightarrow>
    reply_reachable (s'\<lparr>rps_tasks := rps_tasks s' @ [\<lparr>rtk_terminal = terminal, rtk_phase = Sending\<rparr>]\<rparr>)"
  using reply_step.begins [of terminal s "Inr ()" s'] by (simp add: reply_reachable_def)

lemma reply_moves: "reply_step s s' \<Longrightarrow> reply_reachable s \<Longrightarrow> reply_reachable s'"
  by (simp add: reply_reachable_def)

lemma late_increment_reachable: "reply_reachable late_increment"
proof -
  let ?t = "\<lambda>terminal ph. \<lparr>rtk_terminal = terminal, rtk_phase = ph\<rparr>"
  have "reply_reachable new_operation" by (simp add: reply_reachable_def)
  from reply_begins [OF _ this, of False new_operation]
  have "reply_reachable (new_operation\<lparr>rps_tasks := [?t False Sending]\<rparr>)" (is "reply_reachable ?a")
    by (simp add: begin_reply_def new_operation_def)
  from reply_begins [OF _ this, of True "?a\<lparr>rps_started := True\<rparr>"]
  have "reply_reachable (?a\<lparr>rps_started := True, rps_tasks := [?t False Sending, ?t True Sending]\<rparr>)" (is "reply_reachable ?b")
    by (simp add: begin_reply_def new_operation_def)
  from reply_moves [OF reply_step.accepts [of ?b 1 True] this]
  have "reply_reachable (?b\<lparr>rps_tasks := [?t False Sending, ?t True Accepted], rps_sent := [1]\<rparr>)" (is "reply_reachable ?c")
    by (simp add: is_reply_def set_reply_def new_operation_def)
  from reply_moves [OF reply_step.completes [of ?c 1 "[False]" False] this]
  have "reply_reachable (?c\<lparr>rps_active := False, rps_tasks := [?t False Sending, ?t True Replied]\<rparr>)" (is "reply_reachable ?d")
    by (simp add: is_reply_def set_reply_def new_operation_def finish_terminal_reply_def complete_terminal_reply_def)
  from reply_moves [OF reply_step.accepts [of ?d 0 False] this]
  show ?thesis by (simp add: is_reply_def set_reply_def new_operation_def late_increment_def)
qed

text \<open>Cancelling the coroutine changes what it raises, not what is recorded of the reply.\<close>

lemma await_worker_cancelled:
  "await_worker c wakes = Some cancelled \<Longrightarrow> cancelled = (c \<or> (\<exists>rest. wakes = True # rest))"
proof (induction c wakes rule: await_worker.induct)
  case (2 c wake wakes)
  then show ?case by (cases wake) auto
qed simp

end
