(* ===== verification/Submit_Races.thy ===== *)
theory Submit_Races
  imports Operation_Correctness
begin

text \<open>
  Submitting while other threads run: the two steps of \<open>submit_operation\<close>, and the thread that
  \<open>async_submit_operation\<close> starts, whose caller may be cancelled.
\<close>

section \<open>Recording the frame of an operation\<close>

text \<open>An event that ends the operation \<open>i\<close> of the session \<open>h\<close>.\<close>

definition ends_operation :: "NativeHandle \<Rightarrow> int \<Rightarrow> polled_event \<Rightarrow> bool" where
  "ends_operation h i e \<longleftrightarrow> event_session e = h \<and> event_operation_id e = i \<and> i \<noteq> 0 \<and>
     event_is_result_event e = Inr True"

text \<open>
  The operation is forgotten if the event that ends it is read after the second step, and stays
  active for ever if the event is read between the two steps.
\<close>

lemma submit_order:
  assumes "ends_operation (ns_handle s) (nro_operation_id operation) e"
  shows "ns_operation_frames (snd (observe_polled_event e (submit_finish operation s)))
      (nro_operation_id operation) = None \<and>
    ns_operation_frames (submit_finish operation (snd (observe_polled_event e s)))
      (nro_operation_id operation) = Some (nro_frame_id operation)"
  using assms
  by (auto simp: ends_operation_def observe_polled_event_def submit_finish_def
      remember_operation_frame_def forget_operation_frame_def)

section \<open>Submitting in a thread\<close>

datatype submit_thread = NotStarted | Declined | Submitting | SubmittedOk | SubmitFailed

text \<open>
  \<open>AwaitsSubmit\<close>: the first \<open>await\<close>; \<open>AwaitsOutcome\<close>: the one in the handler of the cancellation.
\<close>

datatype submit_caller = AwaitsSubmit | AwaitsOutcome | CallerReturned | CallerCancelled | CallerRaised

record async_submit =
  asb_allowed :: bool
  asb_started :: bool
  asb_thread :: submit_thread
  asb_caller :: submit_caller
  asb_cancellations :: nat
  asb_cancel_calls :: nat

definition async_submit_start :: async_submit where
  "async_submit_start = \<lparr>asb_allowed = True, asb_started = False, asb_thread = NotStarted,
     asb_caller = AwaitsSubmit, asb_cancellations = 0, asb_cancel_calls = 0\<rparr>"

text \<open>\<open>dispatch\<close> up to the call of \<open>submit_operation\<close>, under the lock.\<close>

definition dispatch :: "async_submit \<Rightarrow> async_submit" where
  "dispatch s =
     (if \<not> asb_allowed s then s\<lparr>asb_thread := Declined\<rparr>
      else s\<lparr>asb_started := True, asb_thread := Submitting\<rparr>)"

text \<open>The caller is cancelled while it waits.\<close>

definition cancel_caller :: "async_submit \<Rightarrow> async_submit" where
  "cancel_caller s =
     (let s = s\<lparr>asb_cancellations := asb_cancellations s + 1\<rparr>
      in if asb_caller s = AwaitsSubmit then
           if \<not> asb_started s then s\<lparr>asb_allowed := False, asb_caller := CallerCancelled\<rparr>
           else s\<lparr>asb_caller := AwaitsOutcome\<rparr>
         else s\<lparr>asb_caller := CallerCancelled\<rparr>)"

text \<open>The caller goes on after the thread has ended; cancelling the operation may raise.\<close>

definition resume_caller :: "bool \<Rightarrow> async_submit \<Rightarrow> async_submit" where
  "resume_caller cancel_raises s =
     (case (asb_caller s, asb_thread s) of
        (AwaitsSubmit, SubmittedOk) \<Rightarrow> s\<lparr>asb_caller := CallerReturned\<rparr>
      | (AwaitsSubmit, SubmitFailed) \<Rightarrow> s\<lparr>asb_caller := CallerRaised\<rparr>
      | (AwaitsSubmit, Declined) \<Rightarrow> s\<lparr>asb_caller := CallerCancelled\<rparr>
      | (AwaitsOutcome, SubmittedOk) \<Rightarrow>
          s\<lparr>asb_cancel_calls := asb_cancel_calls s + 1,
            asb_caller := (if cancel_raises then CallerRaised else CallerCancelled)\<rparr>
      | (AwaitsOutcome, SubmitFailed) \<Rightarrow> s\<lparr>asb_caller := CallerRaised\<rparr>
      | (AwaitsOutcome, Declined) \<Rightarrow> s\<lparr>asb_caller := CallerCancelled\<rparr>
      | _ \<Rightarrow> s)"

inductive submit_step :: "async_submit \<Rightarrow> async_submit \<Rightarrow> bool" where
  dispatches: "asb_thread s = NotStarted \<Longrightarrow> submit_step s (dispatch s)"
| submits: "asb_thread s = Submitting \<Longrightarrow> t \<in> {SubmittedOk, SubmitFailed} \<Longrightarrow>
    submit_step s (s\<lparr>asb_thread := t\<rparr>)"
| cancelled: "asb_caller s \<in> {AwaitsSubmit, AwaitsOutcome} \<Longrightarrow> submit_step s (cancel_caller s)"
| resumes: "submit_step s (resume_caller b s)"

definition submit_reachable :: "async_submit \<Rightarrow> bool" where
  "submit_reachable = submit_step\<^sup>*\<^sup>* async_submit_start"

definition submit_inv :: "async_submit \<Rightarrow> bool" where
  "submit_inv s \<longleftrightarrow>
     (asb_started s \<longleftrightarrow> asb_thread s \<in> {Submitting, SubmittedOk, SubmitFailed}) \<and>
     (asb_started s \<longrightarrow> asb_allowed s) \<and>
     (asb_allowed s \<longrightarrow> asb_thread s \<noteq> Declined) \<and>
     (asb_caller s = AwaitsSubmit \<longrightarrow> asb_allowed s \<and> asb_cancellations s = 0) \<and>
     (asb_caller s = AwaitsOutcome \<longrightarrow> asb_started s \<and> asb_cancellations s = 1) \<and>
     (asb_caller s \<in> {AwaitsSubmit, AwaitsOutcome, CallerReturned} \<longrightarrow> asb_cancel_calls s = 0) \<and>
     (asb_caller s = CallerReturned \<longrightarrow> asb_thread s = SubmittedOk) \<and>
     (asb_caller s = CallerCancelled \<longrightarrow>
        \<not> asb_allowed s \<or> asb_thread s = SubmittedOk \<and> asb_cancel_calls s = 1 \<or> 2 \<le> asb_cancellations s) \<and>
     asb_cancel_calls s \<le> 1"

lemma submit_inv_step:
  assumes "submit_step s s'" "submit_inv s"
  shows "submit_inv s'"
  using assms
proof cases
  case (resumes b)
  then show ?thesis using assms(2)
    by (cases "asb_caller s"; cases "asb_thread s"; simp add: submit_inv_def resume_caller_def)
next
  case dispatches
  then show ?thesis using assms(2)
    by (cases "asb_allowed s"; cases "asb_caller s"; simp add: submit_inv_def dispatch_def)
next
  case (submits t)
  then show ?thesis using assms(2)
    by (cases "asb_caller s"; cases t; simp add: submit_inv_def)
next
  case cancelled
  then show ?thesis using assms(2)
    by (cases "asb_caller s"; cases "asb_started s"; cases "asb_thread s";
        simp add: submit_inv_def cancel_caller_def Let_def)
qed

lemma submit_inv_start: "submit_inv async_submit_start"
  by (simp add: submit_inv_def async_submit_start_def)

lemma submit_reachable_inv: "submit_reachable s \<Longrightarrow> submit_inv s"
  unfolding submit_reachable_def
  by (induction rule: rtranclp_induct)
    (auto intro: submit_inv_step submit_inv_start)

text \<open>
  A caller that was cancelled once either prevented the call of the library, now and later, or has
  cancelled the operation that was submitted.
\<close>

lemma cancelled_submit:
  assumes "submit_reachable s" "asb_caller s = CallerCancelled" "asb_cancellations s \<le> 1"
  shows "asb_thread s \<in> {NotStarted, Declined} \<and> asb_thread (dispatch s) = Declined \<or>
    asb_thread s = SubmittedOk \<and> asb_cancel_calls s = 1"
  using submit_reachable_inv [OF assms(1)] assms(2,3)
  by (cases "asb_thread s") (auto simp: submit_inv_def dispatch_def)

text \<open>A second cancellation leaves an operation that runs and that nobody cancels.\<close>

definition abandoned :: async_submit where
  "abandoned = \<lparr>asb_allowed = True, asb_started = True, asb_thread = SubmittedOk,
     asb_caller = CallerCancelled, asb_cancellations = 2, asb_cancel_calls = 0\<rparr>"

lemma submit_moves: "submit_step s s' \<Longrightarrow> submit_reachable s \<Longrightarrow> submit_reachable s'"
  by (simp add: submit_reachable_def)

lemma abandoned_reachable: "submit_reachable abandoned"
proof -
  have "submit_reachable async_submit_start" by (simp add: submit_reachable_def)
  then have "submit_reachable (dispatch async_submit_start)" (is "submit_reachable ?a")
    by (rule submit_moves [rotated], intro submit_step.dispatches) (simp_all add: async_submit_start_def)
  then have "submit_reachable (cancel_caller ?a)" (is "submit_reachable ?b")
    by (rule submit_moves [rotated], intro submit_step.cancelled) (simp_all add: async_submit_start_def dispatch_def)
  then have "submit_reachable (cancel_caller ?b)" (is "submit_reachable ?c")
    by (rule submit_moves [rotated], intro submit_step.cancelled) (simp_all add: async_submit_start_def dispatch_def cancel_caller_def)
  then have "submit_reachable (?c\<lparr>asb_thread := SubmittedOk\<rparr>)"
    by (rule submit_moves [rotated], intro submit_step.submits) (simp_all add: async_submit_start_def dispatch_def cancel_caller_def)
  moreover have "?c\<lparr>asb_thread := SubmittedOk\<rparr> = abandoned"
    by (simp add: async_submit_start_def dispatch_def cancel_caller_def abandoned_def)
  ultimately show ?thesis by simp
qed

end
