(* ===== verification/Host_Routes.thy ===== *)
theory Host_Routes
  imports Selection_Correctness
begin

text \<open>
  How a client and a server choose the routes they may use: \<open>_native_routes.py\<close>, and the route
  resolution of \<open>client/native.py\<close> and \<open>server/native.py\<close>.

  A \<open>NativeArtifactError\<close> is a \<open>RuntimeError\<close>.  Parsing URIs is left to the caller: \<open>carrier s\<close> is
  the endpoint of the host and port of the application endpoint with the scheme \<open>s\<close>, \<open>None\<close> if
  there is none.  The names of a set of transports are given as a list in the order in which
  Python iterates over the set.
\<close>

section \<open>Host policy\<close>

definition artifact_error :: "string \<Rightarrow> selection_exn + 'a" where
  "artifact_error message = Inl (CheckError (RuntimeError message))"

definition NATIVE_TRANSPORT_SCOPES :: "string list" where
  "NATIVE_TRANSPORT_SCOPES = [''tcp'', ''quic'', ''ipc'', ''websocket'']"

definition normalize_provider_routes :: "(string \<times> 'r) list \<Rightarrow> selection_exn + (string \<times> 'r) list" where
  "normalize_provider_routes routes =
     (if list_ex (\<lambda>(name, _). name \<notin> set NATIVE_TRANSPORT_SCOPES) routes
      then artifact_error ''provider route key must be a transport scope'' else Inr routes)"

text \<open>\<open>windows\<close> is \<open>os.name == "nt"\<close>.\<close>

definition official_provider_metadata :: "bool \<Rightarrow> string \<Rightarrow> NativeTransportProviderMetadata" where
  "official_provider_metadata windows name =
     \<lparr>pmd_id = ''nnrp.transport.'' @ name @ ''.native'',
      pmd_cost = \<lparr>pco_model_id = 0, pco_units = 0\<rparr>,
      pmd_preference_rank = (if name = ''ipc'' then 0 else if name = ''quic'' then 1
        else if name = ''tcp'' then 2 else 3),
      pmd_limits = \<lparr>pli_max_frame_bytes = 67108864\<rparr>,
      pmd_limitations =
        (if name = ''quic'' then [NPL_REQUIRES_UDP, NPL_NATIVE_HOST_ONLY]
         else if name = ''ipc'' then [NPL_LOCAL_HOST_ONLY, NPL_NATIVE_HOST_ONLY,
           if windows then NPL_WINDOWS_NAMED_PIPE else NPL_UNIX_DOMAIN_SOCKET]
         else [NPL_REQUIRES_TCP, NPL_NATIVE_HOST_ONLY])\<rparr>"

definition unavailable_candidate :: "bool \<Rightarrow> string \<Rightarrow> selection_exn + NativeTransportCandidateDiagnostic" where
  "unavailable_candidate windows name =
     (case NATIVE_TRANSPORT_ID_BY_NAME name of
        None \<Rightarrow> Inl (CheckError KeyError)
      | Some t \<Rightarrow> checked (NativeTransportCandidateDiagnostic_init
          \<lparr>tcd_transport_id = t, tcd_provider = official_provider_metadata windows name,
           tcd_local_available = False, tcd_peer_supported = True, tcd_within_limits = True,
           tcd_probe_state = NPS_NOT_RUN, tcd_probe = None, tcd_selection_rank = None,
           tcd_rejection_reason = Some NRR_LOCAL_UNAVAILABLE, tcd_diagnostic = None\<rparr>))"

record host_checks =
  hck_policy_allowed :: bool
  hck_local_available :: bool
  hck_peer_supported :: bool
  hck_within_limits :: bool
  hck_route_resolved :: bool
  hck_security_satisfied :: bool

definition host_rejection_reason ::
    "host_checks \<Rightarrow> NativeTransportRejectionReason option \<Rightarrow> NativeTransportRejectionReason option" where
  "host_rejection_reason k other =
     (if \<not> hck_policy_allowed k then Some NRR_POLICY_DISALLOWED
      else if \<not> hck_local_available k then Some NRR_LOCAL_UNAVAILABLE
      else if \<not> hck_peer_supported k then Some NRR_PEER_UNSUPPORTED
      else if \<not> hck_within_limits k then Some NRR_LIMIT_EXCEEDED
      else if \<not> hck_route_resolved k then Some NRR_ROUTE_UNRESOLVED
      else if \<not> hck_security_satisfied k then Some NRR_SECURITY_UNSATISFIED
      else other)"

definition apply_host_rejection ::
    "host_checks \<Rightarrow> NativeTransportCandidateDiagnostic
      \<Rightarrow> selection_exn + NativeTransportCandidateDiagnostic" where
  "apply_host_rejection k c =
     (let reason = host_rejection_reason k (tcd_rejection_reason c)
      in checked (NativeTransportCandidateDiagnostic_init
           (c\<lparr>tcd_local_available := hck_local_available k, tcd_peer_supported := hck_peer_supported k,
              tcd_within_limits := hck_within_limits k,
              tcd_selection_rank := (if reason \<noteq> None then None else tcd_selection_rank c),
              tcd_rejection_reason := reason\<rparr>)))"

definition candidate_order :: "NativeTransportCandidateDiagnostic \<Rightarrow> bool \<times> int \<times> string" where
  "candidate_order c = (tcd_selection_rank c = None,
     case tcd_selection_rank c of Some r \<Rightarrow> r | None \<Rightarrow> TransportId_int (tcd_transport_id c),
     pmd_id (tcd_provider c))"

definition ordered_candidates ::
    "NativeTransportCandidateDiagnostic list \<Rightarrow> NativeTransportCandidateDiagnostic list" where
  "ordered_candidates = sort_key candidate_order"

definition host_selection_error ::
    "TransportPolicy \<Rightarrow> NativeTransportCandidateDiagnostic list \<Rightarrow> selection_exn" where
  "host_selection_error policy candidates =
     (case forced_transport_name policy of
        Some forced \<Rightarrow>
          (case find (\<lambda>c. NATIVE_TRANSPORT_NAME_BY_ID (tcd_transport_id c) = Some forced) candidates of
             Some c \<Rightarrow>
               if tcd_rejection_reason c \<noteq> None
               then SelectionError NSE_FORCED_TRANSPORT_UNAVAILABLE
                 ''forced native transport rejected'' (Some policy) None candidates
               else SelectionError NSE_FORCED_TRANSPORT_UNAVAILABLE
                 ''forced native transport is not available'' (Some policy) None candidates
           | None \<Rightarrow> SelectionError NSE_FORCED_TRANSPORT_UNAVAILABLE
                 ''forced native transport is not available'' (Some policy) None candidates)
      | None \<Rightarrow> SelectionError NSE_NO_VIABLE_TRANSPORT
          ''no viable native transport provider after applying host routes'' (Some policy) None
          candidates)"

definition provider_order_key ::
    "TransportPolicy \<Rightarrow> NativeTransportProvider \<Rightarrow> int \<times> int \<times> int \<times> string" where
  "provider_order_key policy p =
     (if preferred_transport policy = transport_name p then 0 else 1,
      pmd_preference_rank (tpr_metadata p), TransportId_int (tpr_transport_id p), provider_id p)"

section \<open>Routes\<close>

record NnrpEndpoint =
  nep_uri :: string
  nep_secure :: bool

record NativeTransportEndpoint =
  nte_uri :: string
  nte_transport_name :: string
  nte_secure :: bool

text \<open>
  A route of the client or of the server, with the security material of its side; \<open>NativeTransportBinding\<close>
  with the fields its selection needs.
\<close>

record 'sec provider_route =
  prv_provider_endpoint :: "NativeTransportEndpoint option"
  prv_security :: "'sec option"

definition default_route :: "'sec provider_route" where
  "default_route = \<lparr>prv_provider_endpoint = None, prv_security = None\<rparr>"

record NativeTransportBinding =
  ntb_provider :: NativeTransportProvider
  ntb_local_available :: bool
  ntb_diagnostic :: "string option"

definition NativeTransportBinding_init :: "NativeTransportBinding \<Rightarrow> NativeTransportBinding res" where
  "NativeTransportBinding_init b =
     (if \<not> ntb_local_available b \<and> (case ntb_diagnostic b of None \<Rightarrow> True | Some d \<Rightarrow> d = [])
      then ve ''unavailable native transport bindings require a diagnostic''
      else if ntb_local_available b \<and> ntb_diagnostic b \<noteq> None
      then ve ''available native transport bindings must not declare an unavailable diagnostic''
      else Inr b)"

abbreviation binding_kind :: "NativeTransportBinding \<Rightarrow> string option" where
  "binding_kind b \<equiv> transport_name (ntb_provider b)"

definition resolve_native_transport_endpoint ::
    "(string \<Rightarrow> NativeTransportEndpoint option) \<Rightarrow> NnrpEndpoint \<Rightarrow> string
      \<Rightarrow> NativeTransportEndpoint option \<Rightarrow> NativeTransportEndpoint option" where
  "resolve_native_transport_endpoint carrier endpoint name provider_endpoint =
     (case provider_endpoint of
        Some resolved \<Rightarrow> if nte_transport_name resolved \<noteq> name then None else Some resolved
      | None \<Rightarrow>
          if name \<in> {''ipc'', ''websocket''} then None
          else if name = ''tcp'' then carrier ''tcp''
          else if name = ''quic'' then carrier (if nep_secure endpoint then ''quic+tls'' else ''quic'')
          else None)"

definition client_route_security_satisfied ::
    "NnrpEndpoint \<Rightarrow> string \<Rightarrow> NativeTransportEndpoint option \<Rightarrow> 'sec option \<Rightarrow> bool" where
  "client_route_security_satisfied endpoint name provider_endpoint security =
     (if name = ''quic'' then security \<noteq> None
      else if name = ''websocket'' \<and> (case provider_endpoint of Some e \<Rightarrow> nte_secure e | None \<Rightarrow> False)
      then security \<noteq> None
      else if \<not> nep_secure endpoint then True
      else if name = ''tcp'' then security \<noteq> None
      else if name = ''websocket''
      then (case provider_endpoint of Some e \<Rightarrow> nte_secure e | None \<Rightarrow> False) \<and> security \<noteq> None
      else False)"

definition server_route_security_satisfied ::
    "NnrpEndpoint \<Rightarrow> string \<Rightarrow> NativeTransportEndpoint option \<Rightarrow> 'sec option \<Rightarrow> bool" where
  "server_route_security_satisfied endpoint name provider_endpoint security =
     (if name = ''quic'' then security \<noteq> None
      else if name = ''websocket'' \<and> (case provider_endpoint of Some e \<Rightarrow> nte_secure e | None \<Rightarrow> False)
      then security \<noteq> None
      else if \<not> nep_secure endpoint then True
      else if name = ''tcp'' then security \<noteq> None
      else if name = ''websocket''
      then (case provider_endpoint of Some e \<Rightarrow> nte_secure e | None \<Rightarrow> False) \<and> security \<noteq> None
      else False)"

definition resolve_transport_bindings ::
    "NativeTransportBinding list \<Rightarrow> selection_exn + NativeTransportBinding list" where
  "resolve_transport_bindings bindings =
     (if card (set (map binding_kind bindings)) \<noteq> length bindings \<or>
         card (set (map (provider_id \<circ> ntb_provider) bindings)) \<noteq> length bindings
      then Inl (SelectionError NSE_INVALID_EVIDENCE
        ''transport bindings contain duplicate transport or provider identifiers'' None None [])
      else Inr bindings)"

definition find_binding :: "NativeTransportBinding list \<Rightarrow> string \<Rightarrow> NativeTransportBinding option" where
  "find_binding bindings name = find (\<lambda>b. binding_kind b = Some name) bindings"

definition route_of :: "(string \<times> 'sec provider_route) list \<Rightarrow> string \<Rightarrow> 'sec provider_route" where
  "route_of routes name = (case map_of routes name of None \<Rightarrow> default_route | Some r \<Rightarrow> r)"

section \<open>The server\<close>

record 'sec server_route =
  srt_binding :: NativeTransportBinding
  srt_endpoint :: NativeTransportEndpoint
  srt_security :: "'sec option"

definition base_server_candidate ::
    "NativeTransportBinding \<Rightarrow> selection_exn + NativeTransportCandidateDiagnostic" where
  "base_server_candidate b =
     checked (NativeTransportCandidateDiagnostic_init
       \<lparr>tcd_transport_id = tpr_transport_id (ntb_provider b), tcd_provider = tpr_metadata (ntb_provider b),
        tcd_local_available = ntb_local_available b, tcd_peer_supported = True, tcd_within_limits = True,
        tcd_probe_state = NPS_NOT_RUN, tcd_probe = None, tcd_selection_rank = None,
        tcd_rejection_reason = None, tcd_diagnostic = ntb_diagnostic b\<rparr>)"

text \<open>What one turn of the loop over the transports gives: a diagnostic, a route, a required failure.\<close>

type_synonym 'sec server_turn_result =
  "NativeTransportCandidateDiagnostic \<times> 'sec server_route option \<times> bool"

definition server_checks ::
    "(string \<Rightarrow> NativeTransportEndpoint option) \<Rightarrow> NnrpEndpoint \<Rightarrow> TransportPolicy
      \<Rightarrow> NativeTransportBinding list \<Rightarrow> (string \<times> 'sec provider_route) list \<Rightarrow> string
      \<Rightarrow> NativeTransportEndpoint option \<times> host_checks" where
  "server_checks carrier endpoint policy bindings routes name =
     (let binding = find_binding bindings name;
          route = route_of routes name;
          carrier_endpoint = (if binding = None then None
            else resolve_native_transport_endpoint carrier endpoint name (prv_provider_endpoint route))
      in (carrier_endpoint,
          \<lparr>hck_policy_allowed = policy_allows policy (Some name),
           hck_local_available = (case binding of None \<Rightarrow> False | Some b \<Rightarrow> ntb_local_available b),
           hck_peer_supported = True, hck_within_limits = True,
           hck_route_resolved = carrier_endpoint \<noteq> None,
           hck_security_satisfied = server_route_security_satisfied endpoint name carrier_endpoint
             (prv_security route)\<rparr>))"

definition server_turn ::
    "bool \<Rightarrow> (string \<Rightarrow> NativeTransportEndpoint option) \<Rightarrow> NnrpEndpoint \<Rightarrow> TransportPolicy
      \<Rightarrow> NativeTransportBinding list \<Rightarrow> (string \<times> 'sec provider_route) list \<Rightarrow> string
      \<Rightarrow> selection_exn + 'sec server_turn_result" where
  "server_turn windows carrier endpoint policy bindings routes name =
     (case server_checks carrier endpoint policy bindings routes name of
        (carrier_endpoint, checks) \<Rightarrow>
          bind_sel (case find_binding bindings name of
              None \<Rightarrow> unavailable_candidate windows name | Some b \<Rightarrow> base_server_candidate b) (\<lambda>base.
          bind_sel (apply_host_rejection checks base) (\<lambda>candidate.
            case tcd_rejection_reason candidate of
              None \<Rightarrow>
                (case (find_binding bindings name, carrier_endpoint) of
                   (Some b, Some e) \<Rightarrow>
                     Inr (candidate, Some \<lparr>srt_binding = b, srt_endpoint = e,
                       srt_security = prv_security (route_of routes name)\<rparr>, False)
                 | _ \<Rightarrow> Inl (AssertionError []))
            | Some reason \<Rightarrow>
                Inr (candidate, None,
                  policy_allows policy (Some name) \<and>
                  (reason = NRR_ROUTE_UNRESOLVED \<or>
                   map_of routes name \<noteq> None \<and> reason = NRR_LOCAL_UNAVAILABLE)))))"

definition transport_names ::
    "TransportPolicy \<Rightarrow> NativeTransportBinding list \<Rightarrow> (string \<times> 'r) list \<Rightarrow> string set" where
  "transport_names policy bindings routes =
     set (List.map_filter binding_kind bindings) \<union> set (map fst routes) \<union>
     set_option (forced_transport_name policy)"

definition resolve_server_routes ::
    "bool \<Rightarrow> (string \<Rightarrow> NativeTransportEndpoint option) \<Rightarrow> NnrpEndpoint \<Rightarrow> TransportPolicy
      \<Rightarrow> NativeTransportBinding list \<Rightarrow> (string \<times> 'sec provider_route) list \<Rightarrow> string list
      \<Rightarrow> selection_exn + 'sec server_route list" where
  "resolve_server_routes windows carrier endpoint policy transports routes names =
     bind_sel (normalize_provider_routes routes) (\<lambda>routes.
     bind_sel (resolve_transport_bindings transports) (\<lambda>bindings.
     bind_sel (map_sel (server_turn windows carrier endpoint policy bindings routes) names) (\<lambda>turns.
     let resolved = List.map_filter (fst \<circ> snd) turns
     in if list_ex (snd \<circ> snd) turns \<or> resolved = []
        then Inl (host_selection_error policy (ordered_candidates (map fst turns)))
        else Inr (sort_key (\<lambda>r. provider_order_key policy (ntb_provider (srt_binding r))) resolved))))"

section \<open>The client\<close>

record 'sec client_route =
  crt_endpoint :: "NativeTransportEndpoint option"
  crt_security :: "'sec option"
  crt_route_resolved :: bool
  crt_security_satisfied :: bool

definition resolve_client_route ::
    "(string \<Rightarrow> NativeTransportEndpoint option) \<Rightarrow> NnrpEndpoint \<Rightarrow> (string \<times> 'sec provider_route) list
      \<Rightarrow> string \<Rightarrow> 'sec client_route" where
  "resolve_client_route carrier endpoint routes name =
     (let route = route_of routes name;
          carrier_endpoint = resolve_native_transport_endpoint carrier endpoint name
            (prv_provider_endpoint route)
      in \<lparr>crt_endpoint = carrier_endpoint, crt_security = prv_security route,
          crt_route_resolved = carrier_endpoint \<noteq> None,
          crt_security_satisfied = client_route_security_satisfied endpoint name carrier_endpoint
            (prv_security route)\<rparr>)"

text \<open>The route of a provider; every provider has a selectable transport, so that its name exists.\<close>

definition provider_route_of ::
    "(string \<Rightarrow> NativeTransportEndpoint option) \<Rightarrow> NnrpEndpoint \<Rightarrow> (string \<times> 'sec provider_route) list
      \<Rightarrow> NativeTransportProvider \<Rightarrow> 'sec client_route" where
  "provider_route_of carrier endpoint routes p =
     resolve_client_route carrier endpoint routes (the (transport_name p))"

definition client_readiness ::
    "'sec client_route \<Rightarrow> NativeTransportProvider \<Rightarrow> selection_exn + NativeTransportCandidateReadiness" where
  "client_readiness route p =
     checked (NativeTransportCandidateReadiness_init
       \<lparr>tcr_transport_id = tpr_transport_id p, tcr_provider_id = provider_id p,
        tcr_route_resolved = crt_route_resolved route,
        tcr_security_satisfied = crt_security_satisfied route,
        tcr_diagnostic = (if \<not> crt_route_resolved route then Some ''provider route is unresolved''
          else if \<not> crt_security_satisfied route
          then Some ''provider route does not satisfy application security'' else None)\<rparr>)"

text \<open>
  The probe of an eligible binding gives metrics or raises.
\<close>

definition client_observation ::
    "(NativeTransportBinding \<Rightarrow> NativeTransportEndpoint \<Rightarrow> 'sec option
        \<Rightarrow> string + NativeTransportProbeMetrics)
      \<Rightarrow> 'sec client_route \<Rightarrow> NativeTransportBinding \<Rightarrow> selection_exn + NativeTransportProbeObservation list" where
  "client_observation probe route b =
     (case crt_endpoint route of
        None \<Rightarrow> Inr []
      | Some e \<Rightarrow>
          (case probe b e (crt_security route) of
             Inl error \<Rightarrow>
               bind_sel (checked (observation_failed (ntb_provider b) (''transport probe failed: '' @ error)))
                 (\<lambda>observation. Inr [observation])
           | Inr metrics \<Rightarrow>
               bind_sel (checked (observation_succeeded (ntb_provider b) metrics))
                 (\<lambda>observation. Inr [observation])))"

definition client_candidate_diagnostics ::
    "bool \<Rightarrow> TransportPolicy \<Rightarrow> NativeTransportBinding list \<Rightarrow> (string \<Rightarrow> 'sec client_route)
      \<Rightarrow> NativeTransportCandidateDiagnostic list \<Rightarrow> string list
      \<Rightarrow> selection_exn + NativeTransportCandidateDiagnostic list" where
  "client_candidate_diagnostics windows policy bindings route native_candidates names =
     bind_sel (map_sel (\<lambda>name.
       case find (\<lambda>c. NATIVE_TRANSPORT_NAME_BY_ID (tcd_transport_id c) = Some name) (rev native_candidates) of
         Some c \<Rightarrow> Inr c
       | None \<Rightarrow>
           bind_sel (unavailable_candidate windows name) (\<lambda>c.
             apply_host_rejection
               \<lparr>hck_policy_allowed = policy_allows policy (Some name),
                hck_local_available = find_binding bindings name \<noteq> None,
                hck_peer_supported = tcd_peer_supported c, hck_within_limits = tcd_within_limits c,
                hck_route_resolved = crt_route_resolved (route name),
                hck_security_satisfied = crt_security_satisfied (route name)\<rparr> c)) names)
       (\<lambda>cs. Inr (ordered_candidates cs))"

definition client_eligible ::
    "TransportPolicy \<Rightarrow> string set \<Rightarrow> (NativeTransportProvider \<Rightarrow> 'sec client_route)
      \<Rightarrow> NativeTransportBinding \<Rightarrow> bool" where
  "client_eligible policy peer_supported route b \<longleftrightarrow>
     ntb_local_available b \<and> policy_allows policy (binding_kind b) \<and>
     binding_kind b \<in> Some ` peer_supported \<and>
     crt_route_resolved (route (ntb_provider b)) \<and> crt_security_satisfied (route (ntb_provider b))"

text \<open>\<open>names\<close>: \<open>transport_names\<close> together with \<open>tcp\<close> and \<open>quic\<close>, in the order of the set.\<close>

definition peer_supported_names :: "(string \<times> 'r) list \<Rightarrow> string list" where
  "peer_supported_names routes =
     filter (\<lambda>name. name \<in> {''tcp'', ''quic''} \<or> name \<in> set (map fst routes))
       [''ipc'', ''quic'', ''tcp'', ''websocket'']"

text \<open>The evidence the selection is made with.\<close>

type_synonym 'sec probing =
  "NativeTransportBinding \<Rightarrow> NativeTransportEndpoint \<Rightarrow> 'sec option \<Rightarrow> string + NativeTransportProbeMetrics"

definition client_selection_options ::
    "(string \<Rightarrow> NativeTransportEndpoint option) \<Rightarrow> 'sec probing \<Rightarrow> NnrpEndpoint \<Rightarrow> TransportPolicy
      \<Rightarrow> NativeTransportBinding list \<Rightarrow> (string \<times> 'sec provider_route) list
      \<Rightarrow> selection_exn + NativeTransportSelectionOptions" where
  "client_selection_options carrier probe endpoint policy bindings routes =
     (let route = provider_route_of carrier endpoint routes;
          peers = peer_supported_names routes;
          eligible_bindings = filter (client_eligible policy (set peers) route) bindings
      in bind_sel (map_sel (\<lambda>p. client_readiness (route p) p) (map ntb_provider bindings)) (\<lambda>readiness.
         bind_sel (if length eligible_bindings \<le> 1 then Inr []
           else map_sel (\<lambda>b. client_observation probe (route (ntb_provider b)) b) eligible_bindings) (\<lambda>observations.
         checked (NativeTransportSelectionOptions_init
           \<lparr>tso_peer_supported_transports = List.map_filter NATIVE_TRANSPORT_ID_BY_NAME peers,
            tso_policy = policy, tso_requested_max_frame_bytes = None,
            tso_candidate_readiness = readiness,
            tso_probe_observations = concat observations\<rparr>))))"

definition binding_availability :: "NativeTransportBinding list \<Rightarrow> string \<Rightarrow> bool option" where
  "binding_availability bindings i =
     map_option ntb_local_available (find (\<lambda>b. provider_id (ntb_provider b) = i) bindings)"

definition binding_diagnostics :: "NativeTransportBinding list \<Rightarrow> string \<Rightarrow> string option" where
  "binding_diagnostics bindings i =
     (case find (\<lambda>b. provider_id (ntb_provider b) = i) bindings of
        None \<Rightarrow> None | Some b \<Rightarrow> ntb_diagnostic b)"

definition select_client_transport ::
    "bool \<Rightarrow> (string \<Rightarrow> NativeTransportEndpoint option) \<Rightarrow> 'sec probing \<Rightarrow> NnrpEndpoint
      \<Rightarrow> TransportPolicy \<Rightarrow> NativeTransportBinding list
      \<Rightarrow> (string \<times> 'sec provider_route) list \<Rightarrow> string list
      \<Rightarrow> selection_exn + NativeTransportSelection \<times> 'sec client_route \<times> NativeTransportBinding" where
  "select_client_transport windows carrier probe endpoint policy transports routes names =
     bind_sel (normalize_provider_routes routes) (\<lambda>routes.
     bind_sel (resolve_transport_bindings transports) (\<lambda>bindings.
     bind_sel (client_selection_options carrier probe endpoint policy bindings routes) (\<lambda>options.
       case select_from_providers (map ntb_provider bindings) options
           (binding_availability bindings) (binding_diagnostics bindings) of
         Inr selection \<Rightarrow>
           (let p = tsel_selected_provider selection
            in case find (\<lambda>b. binding_kind b = transport_name p) bindings of
                 None \<Rightarrow> Inl (CheckError KeyError)
               | Some b \<Rightarrow> Inr (selection, provider_route_of carrier endpoint routes p, b))
       | Inl (SelectionError code d pol t candidates) \<Rightarrow>
           if code = NSE_INVALID_EVIDENCE then Inl (SelectionError code d pol t candidates)
           else bind_sel (client_candidate_diagnostics windows policy bindings
               (resolve_client_route carrier endpoint routes) candidates names) (\<lambda>diagnostics.
             Inl (host_selection_error policy diagnostics))
       | Inl error \<Rightarrow> Inl error)))"

end
