(* ===== verification/Route_Correctness.thy ===== *)
theory Route_Correctness
  imports Host_Routes
begin

text \<open>
  What the choice of routes promises: a client connects, and a server listens, only over routes
  that its policy allows, that are resolved, and that satisfy the security of the application
  endpoint; the server uses every such route, in an order that does not depend on the iteration
  order of a Python set.
\<close>

section \<open>Security\<close>

lemma security_functions_agree:
  "client_route_security_satisfied endpoint name e security \<longleftrightarrow>
    server_route_security_satisfied endpoint name e security"
  by (simp add: client_route_security_satisfied_def server_route_security_satisfied_def)

text \<open>
  A route of a secure endpoint, a QUIC route and a route to a secure WebSocket carry security
  material; and a secure endpoint is not served over IPC or over a plain WebSocket.
\<close>

definition secure_route :: "NnrpEndpoint \<Rightarrow> string \<Rightarrow> NativeTransportEndpoint \<Rightarrow> 'sec option \<Rightarrow> bool" where
  "secure_route endpoint name e security \<longleftrightarrow>
     (nep_secure endpoint \<or> name = ''quic'' \<or> name = ''websocket'' \<and> nte_secure e \<longrightarrow> security \<noteq> None) \<and>
     (nep_secure endpoint \<longrightarrow> name \<noteq> ''ipc'' \<and> (name = ''websocket'' \<longrightarrow> nte_secure e))"

lemma security_satisfied_secure:
  "client_route_security_satisfied endpoint name (Some e) security \<Longrightarrow> secure_route endpoint name e security"
  by (auto simp: client_route_security_satisfied_def secure_route_def split: if_splits)

section \<open>Sums\<close>

lemma bind_sel_Inr: "bind_sel m k = Inr y \<longleftrightarrow> (\<exists>x. m = Inr x \<and> k x = Inr y)"
  by (cases m) auto

lemma checked_Inr: "checked m = Inr x \<longleftrightarrow> m = Inr x"
  by (cases m) (auto simp: checked_def)

lemma map_sel_Inr_iff: "map_sel f xs = Inr ys \<longleftrightarrow> list_all2 (\<lambda>x y. f x = Inr y) xs ys"
  by (induction xs arbitrary: ys) (auto simp: bind_sel_Inr list_all2_Cons1)

lemma normalize_provider_routes_Inr: "normalize_provider_routes routes = Inr r \<Longrightarrow> r = routes"
  by (auto simp: normalize_provider_routes_def artifact_error_def split: if_splits)

lemma resolve_transport_bindings_Inr:
  "resolve_transport_bindings bs = Inr b \<longleftrightarrow> b = bs \<and> distinct (map binding_kind bs) \<and>
    distinct (map (provider_id \<circ> ntb_provider) bs)"
  using card_set_length [of "map binding_kind bs"] card_set_length [of "map (provider_id \<circ> ntb_provider) bs"]
  by (auto simp: resolve_transport_bindings_def simp del: set_map)

section \<open>The client\<close>

lemma observation_init_valid:
  "NativeTransportProbeObservation_init b = Inr b' \<Longrightarrow> NativeTransportProbeObservation_init b' = Inr b'"
  by (auto simp: NativeTransportProbeObservation_init_def split: if_splits)

lemma client_observation_valid:
  "client_observation probe route b = Inr obs \<Longrightarrow> x \<in> set obs \<Longrightarrow> NativeTransportProbeObservation_init x = Inr x"
  by (auto simp: client_observation_def bind_sel_Inr checked_Inr observation_failed_def
      observation_succeeded_def dest: observation_init_valid split: option.splits sum.splits)

lemma client_readiness_Inr:
  "client_readiness route p = Inr r \<Longrightarrow> readiness_key r = provider_key p \<and>
    tcr_route_resolved r = crt_route_resolved route \<and> tcr_security_satisfied r = crt_security_satisfied route"
  by (auto simp: client_readiness_def checked_Inr NativeTransportCandidateReadiness_init_def provider_key_def
      split: if_splits)

lemma find_binding_kind:
  assumes "distinct (map binding_kind bs)" "b \<in> set bs" "binding_kind b = k"
  shows "find (\<lambda>b. binding_kind b = k) bs = Some b"
  using assms by (induction bs) (auto simp: image_iff)

lemma selection_options_init_Inr: "NativeTransportSelectionOptions_init n = Inr m \<Longrightarrow> m = n"
  by (auto simp: NativeTransportSelectionOptions_init_def bind_res_def split: if_splits sum.splits)

lemma client_selection_options_Inr:
  assumes "client_selection_options carrier probe endpoint policy bindings routes = Inr options"
  shows "tso_policy options = policy \<and>
    (\<forall>x \<in> set (tso_probe_observations options). NativeTransportProbeObservation_init x = Inr x) \<and>
    (\<forall>r \<in> set (tso_candidate_readiness options). \<exists>b \<in> set bindings.
       client_readiness (provider_route_of carrier endpoint routes (ntb_provider b)) (ntb_provider b) = Inr r)"
proof -
  let ?route = "provider_route_of carrier endpoint routes"
  let ?bs = "filter (client_eligible policy (set (peer_supported_names routes)) ?route) bindings"
  obtain readiness observations where
    readiness: "map_sel (\<lambda>p. client_readiness (?route p) p) (map ntb_provider bindings) = Inr readiness"
    and probes: "(if length ?bs \<le> 1 then Inr [] else map_sel (\<lambda>b. client_observation probe (?route (ntb_provider b)) b) ?bs) =
      Inr observations"
    and init: "checked (NativeTransportSelectionOptions_init
      \<lparr>tso_peer_supported_transports = List.map_filter NATIVE_TRANSPORT_ID_BY_NAME (peer_supported_names routes),
       tso_policy = policy, tso_requested_max_frame_bytes = None,
       tso_candidate_readiness = readiness, tso_probe_observations = concat observations\<rparr>) = Inr options"
    using assms unfolding client_selection_options_def Let_def bind_sel_Inr by blast
  note options = selection_options_init_Inr [OF init [unfolded checked_Inr]]
  have observations: "observations = [] \<or> map_sel (\<lambda>b. client_observation probe (?route (ntb_provider b)) b) ?bs = Inr observations"
    using probes by (auto split: if_splits)
  have "NativeTransportProbeObservation_init x = Inr x" if "x \<in> set (concat observations)" for x
    using that observations client_observation_valid
    by (fastforce simp: map_sel_Inr_iff list_all2_conv_all_nth in_set_conv_nth)
  moreover have "\<exists>b \<in> set bindings. client_readiness (?route (ntb_provider b)) (ntb_provider b) = Inr r"
    if "r \<in> set readiness" for r
    using that readiness
    by (fastforce simp: map_sel_Inr_iff list_all2_conv_all_nth in_set_conv_nth)
  ultimately show ?thesis by (simp add: options)
qed

text \<open>
  A client connects over a route of one of its bindings that is available and allowed, is resolved,
  and satisfies the security of the application endpoint.
\<close>

lemma client_selection_safe:
  assumes valid: "\<And>b. b \<in> set transports \<Longrightarrow> NativeTransportProvider_init (ntb_provider b) = Inr (ntb_provider b)"
    and sel: "select_client_transport windows carrier probe endpoint policy transports routes names =
      Inr (selection, route, b)"
  shows "b \<in> set transports \<and> ntb_provider b = tsel_selected_provider selection \<and> ntb_local_available b \<and>
    policy_allows policy (binding_kind b) \<and> route = provider_route_of carrier endpoint routes (ntb_provider b) \<and>
    (\<exists>e. crt_endpoint route = Some e \<and>
      secure_route endpoint (the (binding_kind b)) e (crt_security route))"
proof -
  let ?p = "tsel_selected_provider selection" and ?route = "provider_route_of carrier endpoint routes"
  obtain routes' bindings options where
    n: "normalize_provider_routes routes = Inr routes'" "resolve_transport_bindings transports = Inr bindings"
    and opts: "client_selection_options carrier probe endpoint policy bindings routes' = Inr options"
    and rest: "(case select_from_providers (map ntb_provider bindings) options
           (binding_availability bindings) (binding_diagnostics bindings) of
         Inr selection \<Rightarrow>
           (let p = tsel_selected_provider selection
            in case find (\<lambda>b. binding_kind b = transport_name p) bindings of
                 None \<Rightarrow> Inl (CheckError KeyError)
               | Some b \<Rightarrow> Inr (selection, provider_route_of carrier endpoint routes' p, b))
       | Inl (SelectionError code d pol t candidates) \<Rightarrow>
           if code = NSE_INVALID_EVIDENCE then Inl (SelectionError code d pol t candidates)
           else bind_sel (client_candidate_diagnostics windows policy bindings
               (resolve_client_route carrier endpoint routes') candidates names) (\<lambda>diagnostics.
             Inl (host_selection_error policy diagnostics))
       | Inl error \<Rightarrow> Inl error) = Inr (selection, route, b)"
    using sel unfolding select_client_transport_def bind_sel_Inr by blast
  have eqs: "routes' = routes" "bindings = transports"
    and distinct: "distinct (map binding_kind transports)" "distinct (map (provider_id \<circ> ntb_provider) transports)"
    using n normalize_provider_routes_Inr by (auto simp: resolve_transport_bindings_Inr)
  note options = opts [unfolded eqs]
  have s: "select_from_providers (map ntb_provider transports) options (binding_availability transports)
      (binding_diagnostics transports) = Inr selection"
    and found: "find (\<lambda>b. binding_kind b = transport_name ?p) transports = Some b"
    and route: "route = ?route ?p"
    using rest unfolding eqs
    by (auto simp: bind_sel_def Let_def split: if_splits sum.splits selection_exn.splits option.splits)
  note facts = client_selection_options_Inr [OF options]
  have "valid_inputs (map ntb_provider transports) options"
    using valid facts by (simp add: valid_inputs_def list_all_iff)
  note best = selection_best(1,2) [OF this s]
  obtain b' where b': "b' \<in> set transports" "ntb_provider b' = ?p"
    using best(1) by auto
  have b: "b = b'"
    using found find_binding_kind [OF distinct(1) b'(1)] b'(2) by simp
  obtain r where r: "r \<in> set (tso_candidate_readiness options)" "readiness_key r = provider_key ?p"
    "tcr_route_resolved r" "tcr_security_satisfied r"
    using best(2) by (auto simp: eligible_def list_ex_iff)
  obtain c :: NativeTransportBinding where c: "client_readiness (?route (ntb_provider c)) (ntb_provider c) = Inr r"
    using bspec [OF conjunct2 [OF conjunct2 [OF facts]] r(1)] by (elim bexE) (rule that)
  have "tpr_transport_id (ntb_provider c) = tpr_transport_id ?p"
    using client_readiness_Inr [OF c] r(2) by (simp add: provider_key_def)
  then have "?route (ntb_provider c) = route"
    by (simp add: route provider_route_of_def)
  then have ready: "crt_route_resolved route" "crt_security_satisfied route"
    using client_readiness_Inr [OF c] r(3,4) by simp_all
  have "find (\<lambda>b. provider_id (ntb_provider b) = provider_id (ntb_provider b')) transports = Some b'"
    using distinct(2) b'(1) by (induction transports) (auto simp: image_iff)
  then have "ntb_local_available b"
    using best(2) b b'(2) by (auto simp: eligible_def binding_availability_def)
  moreover have "policy_allows policy (binding_kind b)"
    using best(2) b b'(2) facts by (simp add: eligible_def)
  moreover obtain e where e: "crt_endpoint route = Some e"
    using ready(1) by (auto simp: route provider_route_of_def resolve_client_route_def Let_def)
  moreover have "secure_route endpoint (the (binding_kind b)) e (crt_security route)"
    using ready(2) e b b'(2) security_satisfied_secure
    by (fastforce simp: route provider_route_of_def resolve_client_route_def Let_def)
  ultimately show ?thesis using b b' route by auto
qed

section \<open>The server\<close>

text \<open>The inputs of the server: bindings over constructed providers, and the transports of the loop.\<close>

definition server_inputs ::
    "TransportPolicy \<Rightarrow> NativeTransportBinding list \<Rightarrow> (string \<times> 'sec provider_route) list \<Rightarrow> string list \<Rightarrow> bool" where
  "server_inputs policy bindings routes names \<longleftrightarrow>
     (\<forall>b \<in> set bindings. NativeTransportProvider_init (ntb_provider b) = Inr (ntb_provider b)) \<and>
     set names = transport_names policy bindings routes \<and> distinct names"

definition server_route_of ::
    "(string \<Rightarrow> NativeTransportEndpoint option) \<Rightarrow> NnrpEndpoint \<Rightarrow> TransportPolicy
      \<Rightarrow> NativeTransportBinding list \<Rightarrow> (string \<times> 'sec provider_route) list \<Rightarrow> string
      \<Rightarrow> 'sec server_route option" where
  "server_route_of carrier endpoint policy bindings routes name =
     (case (find_binding bindings name, server_checks carrier endpoint policy bindings routes name) of
        (Some b, Some e, checks) \<Rightarrow>
          if host_rejection_reason checks None = None
          then Some \<lparr>srt_binding = b, srt_endpoint = e, srt_security = prv_security (route_of routes name)\<rparr>
          else None
      | _ \<Rightarrow> None)"

text \<open>An allowed transport the server must serve and cannot.\<close>

definition server_required_failure ::
    "(string \<Rightarrow> NativeTransportEndpoint option) \<Rightarrow> NnrpEndpoint \<Rightarrow> TransportPolicy
      \<Rightarrow> NativeTransportBinding list \<Rightarrow> (string \<times> 'sec provider_route) list \<Rightarrow> string \<Rightarrow> bool" where
  "server_required_failure carrier endpoint policy bindings routes name \<longleftrightarrow>
     policy_allows policy (Some name) \<and>
     (let checks = snd (server_checks carrier endpoint policy bindings routes name)
      in if hck_local_available checks then \<not> hck_route_resolved checks else map_of routes name \<noteq> None)"

lemma find_binding_Some:
  "find_binding bindings name = Some b \<Longrightarrow> b \<in> set bindings \<and> binding_kind b = Some name"
  by (auto simp: find_binding_def find_Some_iff)

lemma transport_id_by_name: "name \<in> set NATIVE_TRANSPORT_SCOPES \<Longrightarrow> \<exists>t. NATIVE_TRANSPORT_ID_BY_NAME name = Some t \<and> selectable t"
  by (auto simp: NATIVE_TRANSPORT_SCOPES_def selectable_def)

lemma server_turn_total:
  assumes valid: "\<And>b. b \<in> set bindings \<Longrightarrow> NativeTransportProvider_init (ntb_provider b) = Inr (ntb_provider b)"
    and name: "find_binding bindings name = None \<Longrightarrow> name \<in> set NATIVE_TRANSPORT_SCOPES"
  shows "\<exists>c. server_turn windows carrier endpoint policy bindings routes name =
    Inr (c, server_route_of carrier endpoint policy bindings routes name,
      server_required_failure carrier endpoint policy bindings routes name)"
proof -
  obtain e checks where k: "server_checks carrier endpoint policy bindings routes name = (e, checks)"
    by fastforce
  have checks: "hck_local_available checks = (case find_binding bindings name of None \<Rightarrow> False | Some b \<Rightarrow> ntb_local_available b)"
    "hck_peer_supported checks" "hck_within_limits checks" "hck_route_resolved checks = (e \<noteq> None)"
    "hck_policy_allowed checks = policy_allows policy (Some name)" "find_binding bindings name = None \<Longrightarrow> e = None"
    using k by (auto simp: server_checks_def Let_def)
  show ?thesis
  proof (cases "find_binding bindings name")
    case None
    then obtain t where t: "NATIVE_TRANSPORT_ID_BY_NAME name = Some t" "selectable t"
      using transport_id_by_name name by blast
    show ?thesis
      using t checks None
      by (auto simp: server_turn_def k unavailable_candidate_def apply_host_rejection_def Let_def checked_def
          NativeTransportCandidateDiagnostic_init_def bind_sel_def host_rejection_reason_def
          server_route_of_def server_required_failure_def)
  next
    case (Some b)
    then have "NativeTransportProvider_init (ntb_provider b) = Inr (ntb_provider b)"
      using valid find_binding_Some by blast
    then have "selectable (tpr_transport_id (ntb_provider b))"
      by (simp add: NativeTransportProvider_init_def split: if_splits)
    then show ?thesis
      using checks Some
      by (cases e) (auto simp: server_turn_def k base_server_candidate_def apply_host_rejection_def Let_def checked_def
          NativeTransportCandidateDiagnostic_init_def bind_sel_def host_rejection_reason_def
          server_route_of_def server_required_failure_def)
  qed
qed

lemma transport_names_known:
  assumes "normalize_provider_routes routes = Inr r" "name \<in> transport_names policy bindings routes"
    "find_binding bindings name = None"
  shows "name \<in> set NATIVE_TRANSPORT_SCOPES"
proof -
  have "Some name \<notin> set (map binding_kind bindings)"
    using assms(3) unfolding find_binding_def find_None_iff by (simp add: image_iff eq_commute)
  then have "name \<in> set (map fst routes) \<or> forced_transport_name policy = Some name"
    using assms(2) by (force simp: transport_names_def List.map_filter_def)
  then show ?thesis
  proof
    assume "name \<in> set (map fst routes)"
    then show ?thesis using assms(1)
      by (auto simp: normalize_provider_routes_def artifact_error_def list_ex_iff split: if_splits)
  next
    assume "forced_transport_name policy = Some name"
    then show ?thesis by (cases policy) (auto simp: NATIVE_TRANSPORT_SCOPES_def)
  qed
qed

lemma server_turns:
  assumes "server_inputs policy bindings routes names" "normalize_provider_routes routes = Inr routes"
  obtains cs where "map_sel (server_turn windows carrier endpoint policy bindings routes) names =
    Inr (map (\<lambda>name. (cs name, server_route_of carrier endpoint policy bindings routes name,
      server_required_failure carrier endpoint policy bindings routes name)) names)"
proof -
  have "\<forall>name. \<exists>c. name \<in> set names \<longrightarrow> server_turn windows carrier endpoint policy bindings routes name =
    Inr (c, server_route_of carrier endpoint policy bindings routes name,
      server_required_failure carrier endpoint policy bindings routes name)"
    using assms server_turn_total [of bindings _ windows carrier endpoint policy routes] transport_names_known [OF assms(2)]
    by (fastforce simp: server_inputs_def)
  then obtain cs where "\<And>name. name \<in> set names \<Longrightarrow> server_turn windows carrier endpoint policy bindings routes name =
    Inr (cs name, server_route_of carrier endpoint policy bindings routes name,
      server_required_failure carrier endpoint policy bindings routes name)" by metis
  then show thesis by (intro that map_sel_total) auto
qed

text \<open>The routes the server uses are those of the specification, and it fails if it must.\<close>

lemma resolve_server_routes_spec:
  assumes "server_inputs policy bindings routes names" "normalize_provider_routes routes = Inr routes"
    "resolve_transport_bindings bindings = Inr bindings"
  shows "if list_ex (server_required_failure carrier endpoint policy bindings routes) names \<or>
      List.map_filter (server_route_of carrier endpoint policy bindings routes) names = []
    then \<exists>cs. resolve_server_routes windows carrier endpoint policy bindings routes names =
      Inl (host_selection_error policy cs)
    else resolve_server_routes windows carrier endpoint policy bindings routes names =
      Inr (sort_key (\<lambda>r. provider_order_key policy (ntb_provider (srt_binding r)))
        (List.map_filter (server_route_of carrier endpoint policy bindings routes) names))"
proof -
  obtain cs where turns: "map_sel (server_turn windows carrier endpoint policy bindings routes) names =
    Inr (map (\<lambda>name. (cs name, server_route_of carrier endpoint policy bindings routes name,
      server_required_failure carrier endpoint policy bindings routes name)) names)"
    by (rule server_turns [OF assms(1,2)])
  have "List.map_filter (fst \<circ> snd) (map (\<lambda>name. (cs name, server_route_of carrier endpoint policy bindings routes name,
      server_required_failure carrier endpoint policy bindings routes name)) names) =
    List.map_filter (server_route_of carrier endpoint policy bindings routes) names"
    by (simp add: List.map_filter_def filter_map comp_def)
  then show ?thesis
    by (simp add: resolve_server_routes_def assms(2,3) turns Let_def list_ex_iff) blast
qed

lemma server_route_of_Some:
  assumes "server_route_of carrier endpoint policy bindings routes name = Some r"
  shows "srt_binding r \<in> set bindings \<and> binding_kind (srt_binding r) = Some name \<and>
    ntb_local_available (srt_binding r) \<and> policy_allows policy (Some name) \<and>
    resolve_native_transport_endpoint carrier endpoint name (prv_provider_endpoint (route_of routes name)) =
      Some (srt_endpoint r) \<and>
    srt_security r = prv_security (route_of routes name) \<and>
    secure_route endpoint name (srt_endpoint r) (srt_security r)"
  using assms security_satisfied_secure [of endpoint name "srt_endpoint r" "srt_security r"]
  by (auto simp: server_route_of_def server_checks_def Let_def host_rejection_reason_def
      security_functions_agree dest: find_binding_Some split: option.splits if_splits)

lemma server_routes_distinct:
  assumes "distinct names"
  shows "distinct (List.map_filter (server_route_of carrier endpoint policy bindings routes) names) \<and>
    inj_on (\<lambda>r. provider_order_key policy (ntb_provider (srt_binding r)))
      (set (List.map_filter (server_route_of carrier endpoint policy bindings routes) names))"
proof -
  let ?f = "server_route_of carrier endpoint policy bindings routes"
  have name: "binding_kind (srt_binding r) = Some n" if "?f n = Some r" for n r
    using server_route_of_Some [OF that] by simp
  have "inj_on (the \<circ> ?f) {n \<in> set names. ?f n \<noteq> None}"
  proof (rule inj_onI)
    fix n n' assume n: "n \<in> {n \<in> set names. ?f n \<noteq> None}" "n' \<in> {n \<in> set names. ?f n \<noteq> None}"
      and same: "(the \<circ> ?f) n = (the \<circ> ?f) n'"
    then obtain r r' where "?f n = Some r" "?f n' = Some r'" by auto
    then show "n = n'" using name [of n r] name [of n' r'] same by simp
  qed
  then have "distinct (List.map_filter ?f names)"
    using assms by (simp add: List.map_filter_def distinct_map inj_on_def)
  moreover have "r = r'" if "?f n = Some r" "?f n' = Some r'"
    "provider_order_key policy (ntb_provider (srt_binding r)) = provider_order_key policy (ntb_provider (srt_binding r'))"
    for n n' r r'
  proof -
    have "TransportId_int (tpr_transport_id (ntb_provider (srt_binding r))) =
        TransportId_int (tpr_transport_id (ntb_provider (srt_binding r')))"
      using that(3) by (simp add: provider_order_key_def)
    then have "tpr_transport_id (ntb_provider (srt_binding r)) = tpr_transport_id (ntb_provider (srt_binding r'))"
      by (cases "tpr_transport_id (ntb_provider (srt_binding r))";
          cases "tpr_transport_id (ntb_provider (srt_binding r'))") simp_all
    then have "n = n'" using name [OF that(1)] name [OF that(2)] by simp
    then show ?thesis using that(1,2) by simp
  qed
  ultimately show ?thesis by (auto simp: inj_on_def List.map_filter_def) 
qed

lemma server_routes_safe:
  assumes "resolve_server_routes windows carrier endpoint policy bindings routes names = Inr rs"
    "server_inputs policy bindings routes names" "r \<in> set rs"
  shows "srt_binding r \<in> set bindings \<and> ntb_local_available (srt_binding r) \<and>
    policy_allows policy (binding_kind (srt_binding r)) \<and>
    secure_route endpoint (the (binding_kind (srt_binding r))) (srt_endpoint r) (srt_security r)"
proof -
  have n: "normalize_provider_routes routes = Inr routes" "resolve_transport_bindings bindings = Inr bindings"
    using assms(1) by (auto simp: resolve_server_routes_def bind_sel_Inr resolve_transport_bindings_Inr
        dest: normalize_provider_routes_Inr)
  have "r \<in> set (List.map_filter (server_route_of carrier endpoint policy bindings routes) names)"
    using resolve_server_routes_spec [OF assms(2) n, of carrier endpoint windows] assms(1,3)
    by (auto split: if_splits)
  then obtain name where "server_route_of carrier endpoint policy bindings routes name = Some r"
    by (auto simp: List.map_filter_def)
  from server_route_of_Some [OF this] show ?thesis by (elim conjE) (intro conjI, simp_all only: option.sel)
qed

text \<open>The order in which Python iterates over the set of transports does not matter.\<close>

lemma server_routes_deterministic:
  assumes "server_inputs policy bindings routes names" "server_inputs policy bindings routes names'"
    "resolve_server_routes windows carrier endpoint policy bindings routes names = Inr rs"
  shows "resolve_server_routes windows carrier endpoint policy bindings routes names' = Inr rs"
proof -
  let ?f = "server_route_of carrier endpoint policy bindings routes"
    and ?key = "\<lambda>r. provider_order_key policy (ntb_provider (srt_binding r))"
  have n: "normalize_provider_routes routes = Inr routes" "resolve_transport_bindings bindings = Inr bindings"
    using assms(3) by (auto simp: resolve_server_routes_def bind_sel_Inr resolve_transport_bindings_Inr
        dest: normalize_provider_routes_Inr)
  have sets: "set names = set names'" "distinct names" "distinct names'"
    using assms(1,2) by (simp_all add: server_inputs_def)
  have "mset names = mset names'" using sets by (simp add: set_eq_iff_mset_eq_distinct)
  then have m: "mset (List.map_filter ?f names) = mset (List.map_filter ?f names')"
    by (simp add: List.map_filter_def mset_map mset_filter)
  have "sort_key ?key (List.map_filter ?f names) = sort_key ?key (List.map_filter ?f names')"
    using m server_routes_distinct [OF sets(2), of carrier endpoint policy bindings routes]
    by (intro sort_key_inj_key_eq) (auto simp: mset_sort)
  moreover have "List.map_filter ?f names = [] \<longleftrightarrow> List.map_filter ?f names' = []"
    using m by (metis mset_zero_iff)
  moreover have "list_ex (server_required_failure carrier endpoint policy bindings routes) names \<longleftrightarrow>
      list_ex (server_required_failure carrier endpoint policy bindings routes) names'"
    by (simp add: list_ex_iff sets(1))
  ultimately show ?thesis
    using resolve_server_routes_spec [OF assms(1) n, of carrier endpoint windows]
      resolve_server_routes_spec [OF assms(2) n, of carrier endpoint windows] assms(3)
    by (auto split: if_splits)
qed

end
