(* ===== verification/Native_Accept.thy ===== *)
theory Native_Accept
  imports Native_Server
begin

text \<open>
  Accepting sessions: \<open>NativeRuntimeServer\<close> with its accept ticket, and \<open>NativeServer\<close>
  (\<open>server/native.py\<close>), which asks its servers in turn until one has a session or the time is
  over.  The library is seen through the status of each of its calls.
\<close>

section \<open>Options\<close>

record NativeServerSessionPolicyDecision =
  spd_accepted :: bool
  spd_session_error_code :: int
  spd_diagnostic :: "string option"

definition NativeServerSessionPolicyDecision_init ::
    "NativeServerSessionPolicyDecision \<Rightarrow> NativeServerSessionPolicyDecision res" where
  "NativeServerSessionPolicyDecision_init d =
     (if \<not> (0 \<le> spd_session_error_code d \<and> spd_session_error_code d \<le> 0xFFFFFFFF)
      then ve ''session_error_code must fit in u32''
      else if spd_accepted d \<and> spd_session_error_code d \<noteq> 0
      then ve ''accepted policy decisions require session_error_code 0''
      else if \<not> spd_accepted d \<and> spd_session_error_code d = 0
      then ve ''rejected policy decisions require a non-zero session_error_code''
      else Inr d)"

record NativeServerSessionOptions =
  svo_supported_profiles :: "int list"
  svo_supported_cache_objects :: "int list"
  svo_max_cache_objects :: int
  svo_max_cache_object_bytes :: int
  svo_resume_token_bytes :: int
  svo_max_in_flight_operations :: int
  svo_granted_operation_credit :: int
  svo_lease_ttl_ms :: int
  svo_resume_window_ms :: int

definition NativeServerSessionOptions_init ::
    "NativeServerSessionOptions \<Rightarrow> NativeServerSessionOptions res" where
  "NativeServerSessionOptions_init n =
     (if svo_supported_profiles n = [] \<or>
         list_ex (\<lambda>p. \<not> (0 \<le> p \<and> p \<le> 0xFFFF)) (svo_supported_profiles n)
      then ve ''supported_profiles must contain u16 profile ids''
      else if list_ex (\<lambda>k. \<not> (0 \<le> k \<and> k \<le> 0xFFFFFFFF)) (svo_supported_cache_objects n)
      then ve ''supported_cache_objects values must fit in u32''
      else if \<not> (0 \<le> svo_max_cache_objects n \<and> svo_max_cache_objects n \<le> 0xFFFFFFFFFFFFFFFF)
      then ve ''max_cache_objects must fit in u64''
      else if \<not> list_all (\<lambda>v. 0 \<le> v \<and> v \<le> 0xFFFFFFFF)
        [svo_max_cache_object_bytes n, svo_resume_token_bytes n, svo_lease_ttl_ms n, svo_resume_window_ms n]
      then ve ''value must fit in u32''
      else if \<not> (1 \<le> svo_max_in_flight_operations n \<and> svo_max_in_flight_operations n \<le> 0xFFFF)
      then ve ''max_in_flight_operations must be a non-zero u16''
      else if \<not> (0 \<le> svo_granted_operation_credit n \<and>
          svo_granted_operation_credit n \<le> svo_max_in_flight_operations n)
      then ve ''granted_operation_credit must not exceed max_in_flight_operations''
      else Inr n)"

section \<open>One server\<close>

record NativeRuntimeServer =
  nrs_handle :: NativeHandle
  nrs_closed :: bool
  nrs_ticket :: "NativeHandle option"
  nrs_session_handle_id :: "int option"
  nrs_generation :: "int option"

abbreviation (input) KIND_SERVER_ACCEPT :: int where "KIND_SERVER_ACCEPT \<equiv> 13"

text \<open>What the library says to one \<open>accept_session\<close>; the begin call is not made if there is a ticket.\<close>

record accept_reply =
  acr_begin :: "NativeStatus \<times> NativeHandle"
  acr_wait :: NativeStatus
  acr_claim :: "NativeStatus \<times> NativeHandle \<times> int"

definition runtime_server_ensure_open :: "NativeRuntimeServer \<Rightarrow> unit nres" where
  "runtime_server_ensure_open v = (if nrs_closed v then invalid_state else Inr ())"

definition accept_ticket ::
    "accept_reply \<Rightarrow> int \<Rightarrow> int \<Rightarrow> NativeRuntimeServer \<Rightarrow> NativeHandle nres \<times> NativeRuntimeServer" where
  "accept_ticket reply session_handle_id generation v =
     (case nrs_ticket v of
        None \<Rightarrow>
          (case bind_nat (raise_for_native_status (fst (acr_begin reply))) (\<lambda>_.
              typed_from_ffi KIND_SERVER_ACCEPT (snd (acr_begin reply))) of
             Inl err \<Rightarrow> (Inl err, v)
           | Inr ticket \<Rightarrow>
               (Inr ticket, v\<lparr>nrs_ticket := Some ticket, nrs_session_handle_id := Some session_handle_id,
                  nrs_generation := Some generation\<rparr>))
      | Some ticket \<Rightarrow>
          if nrs_session_handle_id v \<noteq> Some session_handle_id \<or> nrs_generation v \<noteq> Some generation
          then (invalid_state, v) else (Inr ticket, v))"

definition forget_ticket :: "NativeRuntimeServer \<Rightarrow> NativeRuntimeServer" where
  "forget_ticket v = v\<lparr>nrs_ticket := None, nrs_session_handle_id := None, nrs_generation := None\<rparr>"

definition accept_session ::
    "accept_reply \<Rightarrow> int \<Rightarrow> int \<Rightarrow> int \<Rightarrow> NativeRuntimeServer
      \<Rightarrow> (NativeHandle \<times> string) nres \<times> NativeRuntimeServer" where
  "accept_session reply session_handle_id generation timeout_ms v =
     (case bind_nat (runtime_server_ensure_open v) (\<lambda>_.
           bind_nat (native_validate_u64 ''session_handle_id'' session_handle_id) (\<lambda>_.
           bind_nat (native_validate_u32 ''generation'' generation) (\<lambda>_.
             native_validate_u32 ''timeout_ms'' timeout_ms))) of
        Inl err \<Rightarrow> (Inl err, v)
      | Inr _ \<Rightarrow>
          (case accept_ticket reply session_handle_id generation v of
             (Inl err, v) \<Rightarrow> (Inl err, v)
           | (Inr ticket, v) \<Rightarrow>
               (case bind_nat (raise_for_native_status (acr_wait reply)) (\<lambda>_.
                   raise_for_native_status (fst (acr_claim reply))) of
                  Inl err \<Rightarrow> (Inl err, v)
                | Inr _ \<Rightarrow>
                    (case snd (acr_claim reply) of
                       (session, transport_id) \<Rightarrow>
                         (case TransportId_of transport_id of
                            Inl _ \<Rightarrow> plain (Inl (RuntimeError ''native server accept returned unsupported transport id''))
                          | Inr t \<Rightarrow>
                              (case NATIVE_TRANSPORT_NAME_BY_ID t of
                                 None \<Rightarrow> plain (Inl KeyError)
                               | Some name \<Rightarrow>
                                   bind_nat (typed_from_ffi KIND_SESSION session) (\<lambda>h. Inr (h, name)))),
                     forget_ticket v))))"

definition release_pending_accept_ticket ::
    "(NativeHandle \<Rightarrow> NativeStatus) \<Rightarrow> NativeRuntimeServer \<Rightarrow> unit nres \<times> NativeRuntimeServer" where
  "release_pending_accept_ticket lib v =
     (case nrs_ticket v of
        None \<Rightarrow> (Inr (), v)
      | Some ticket \<Rightarrow> (raise_for_native_status (lib ticket), forget_ticket v))"

definition first_error :: "unit nres \<Rightarrow> unit nres \<Rightarrow> unit nres" where
  "first_error r r' = (case r of Inl err \<Rightarrow> Inl err | Inr _ \<Rightarrow> r')"

text \<open>\<open>close\<close> makes every call and raises the first error; \<open>dispatcher\<close> is the close of the policy dispatcher.\<close>

definition close_runtime_server ::
    "(NativeHandle \<Rightarrow> NativeStatus) \<Rightarrow> (NativeHandle \<Rightarrow> NativeStatus) \<Rightarrow> unit nres \<Rightarrow> NativeRuntimeServer
      \<Rightarrow> unit nres \<times> NativeRuntimeServer" where
  "close_runtime_server release connection_close dispatcher v =
     (case runtime_server_ensure_open v of
        Inl err \<Rightarrow> (Inl err, v)
      | Inr _ \<Rightarrow>
          (case release_pending_accept_ticket release v of
             (r, v) \<Rightarrow>
               (first_error (first_error dispatcher r)
                  (raise_for_native_status (connection_close (nrs_handle v))),
                v\<lparr>nrs_closed := True\<rparr>)))"

section \<open>All servers\<close>

record NativeServer =
  nsv_servers :: "NativeRuntimeServer list"
  nsv_sessions :: "NativeRuntimeServerSession list"
  nsv_accept_ids :: "int option list"
  nsv_closed :: bool
  nsv_next_handle_id :: int

text \<open>\<open>nsv_next_handle_id\<close> is the counter of the module, here with one user.\<close>

definition new_server :: "NativeRuntimeServer list \<Rightarrow> int \<Rightarrow> NativeServer" where
  "new_server servers next_id = \<lparr>nsv_servers = servers, nsv_sessions = [], nsv_accept_ids = [],
     nsv_closed = False, nsv_next_handle_id = next_id\<rparr>"

definition allocate_native_handle_id :: "NativeServer \<Rightarrow> int \<times> NativeServer" where
  "allocate_native_handle_id n =
     (let i = nsv_next_handle_id n
      in (i, n\<lparr>nsv_next_handle_id := (if i = 0xFFFFFFFFFFFFFFFF then 1 else i + 1)\<rparr>))"

record server_library =
  slb_release :: "NativeHandle \<Rightarrow> NativeStatus"
  slb_close_connection :: "NativeHandle \<Rightarrow> NativeStatus"
  slb_close_session :: "NativeHandle \<Rightarrow> NativeStatus"
  slb_close_dispatcher :: "NativeHandle \<Rightarrow> unit nres"

fun close_server_sessions ::
    "server_library \<Rightarrow> NativeRuntimeServerSession list \<Rightarrow> unit nres \<times> NativeRuntimeServerSession list" where
  "close_server_sessions lib [] = (Inr (), [])"
| "close_server_sessions lib (s # ss) =
     (case server_close (slb_close_session lib) s of
        (r, _, s) \<Rightarrow>
          (case close_server_sessions lib ss of (r', ss) \<Rightarrow> (first_error r r', s # ss)))"

fun close_runtime_servers ::
    "server_library \<Rightarrow> NativeRuntimeServer list \<Rightarrow> unit nres \<times> NativeRuntimeServer list" where
  "close_runtime_servers lib [] = (Inr (), [])"
| "close_runtime_servers lib (v # vs) =
     (case (if nrs_closed v then (Inr (), v)
         else close_runtime_server (slb_release lib) (slb_close_connection lib)
           (slb_close_dispatcher lib (nrs_handle v)) v) of
        (r, v) \<Rightarrow>
          (case close_runtime_servers lib vs of (r', vs) \<Rightarrow> (first_error r r', v # vs)))"

definition close_server :: "server_library \<Rightarrow> NativeServer \<Rightarrow> unit nres \<times> NativeServer" where
  "close_server lib n =
     (if nsv_closed n then (Inr (), n)
      else (case close_server_sessions lib (rev (nsv_sessions n)) of
          (r, sessions) \<Rightarrow>
            (case close_runtime_servers lib (rev (nsv_servers n)) of
               (r', servers) \<Rightarrow>
                 (first_error r r',
                  n\<lparr>nsv_sessions := rev sessions, nsv_servers := rev servers, nsv_closed := True\<rparr>))))"

text \<open>One round over the servers, with the replies each of them will get.\<close>

definition accept_id :: "nat \<Rightarrow> NativeServer \<Rightarrow> int \<times> NativeServer" where
  "accept_id i n =
     (case nsv_accept_ids n ! i of
        Some v \<Rightarrow> (v, n)
      | None \<Rightarrow>
          (case allocate_native_handle_id n of
             (v, n) \<Rightarrow> (v, n\<lparr>nsv_accept_ids := (nsv_accept_ids n)[i := Some v]\<rparr>)))"

fun accept_round ::
    "server_library \<Rightarrow> accept_reply list \<Rightarrow> nat \<Rightarrow> NativeServer
      \<Rightarrow> (NativeHandle \<times> string) option nres \<times> NativeServer" where
  "accept_round lib [] i n = (Inr None, n)"
| "accept_round lib (reply # replies) i n =
     (case accept_id i n of
        (session_handle_id, n) \<Rightarrow>
          (case accept_session reply session_handle_id 1 1 (nsv_servers n ! i) of
             (r, v) \<Rightarrow>
               let n = n\<lparr>nsv_servers := (nsv_servers n)[i := v]\<rparr>
               in (case r of
                     Inl err \<Rightarrow>
                       (case err of
                          WouldBlockError _ \<Rightarrow> accept_round lib replies (i + 1) n
                        | _ \<Rightarrow> (Inl err, snd (close_server lib n)))
                   | Inr (h, name) \<Rightarrow>
                       (Inr (Some (h, name)),
                        n\<lparr>nsv_accept_ids := (nsv_accept_ids n)[i := None],
                          nsv_sessions := nsv_sessions n @ [new_server_session h]\<rparr>))))"

fun release_tickets ::
    "server_library \<Rightarrow> NativeRuntimeServer list \<Rightarrow> unit nres \<times> NativeRuntimeServer list" where
  "release_tickets lib [] = (Inr (), [])"
| "release_tickets lib (v # vs) =
     (case release_pending_accept_ticket (slb_release lib) v of
        (r, v) \<Rightarrow> (case release_tickets lib vs of (r', vs) \<Rightarrow> (first_error r r', v # vs)))"

definition release_pending_accept_tickets :: "server_library \<Rightarrow> NativeServer \<Rightarrow> unit nres \<times> NativeServer" where
  "release_pending_accept_tickets lib n =
     (case release_tickets lib (nsv_servers n) of
        (r, servers) \<Rightarrow>
          (r, n\<lparr>nsv_servers := servers, nsv_accept_ids := map (\<lambda>_. None) (nsv_accept_ids n)\<rparr>))"

text \<open>
  The loop of \<open>_accept_serialized\<close>: each turn is what the library says to each server in the round
  and whether the deadline has passed after it; \<open>None\<close> if the turns do not suffice.
\<close>

fun accept_loop ::
    "server_library \<Rightarrow> ((nat \<Rightarrow> accept_reply) \<times> bool) list \<Rightarrow> NativeServer
      \<Rightarrow> ((NativeHandle \<times> string) nres \<times> NativeServer) option" where
  "accept_loop lib [] n = None"
| "accept_loop lib ((replies, expired) # turns) n =
     (case accept_round lib (map replies [0..<length (nsv_servers n)]) 0 n of
        (Inl err, n) \<Rightarrow> Some (Inl err, n)
      | (Inr (Some x), n) \<Rightarrow> Some (Inr x, n)
      | (Inr None, n) \<Rightarrow>
          if \<not> expired then accept_loop lib turns n
          else (case release_pending_accept_tickets lib n of
              (Inl err, n) \<Rightarrow> Some (Inl err, snd (close_server lib n))
            | (Inr _, n) \<Rightarrow> Some (Inl (WouldBlockError (status_of FFI_STATUS_WOULD_BLOCK)), n)))"

definition accept_serialized ::
    "server_library \<Rightarrow> ((nat \<Rightarrow> accept_reply) \<times> bool) list \<Rightarrow> NativeServer
      \<Rightarrow> ((NativeHandle \<times> string) nres \<times> NativeServer) option" where
  "accept_serialized lib turns n =
     (if nsv_closed n then Some (plain (Inl (RuntimeError ''native server is closed'')), n)
      else accept_loop lib turns
        (if nsv_accept_ids n = []
         then n\<lparr>nsv_accept_ids := replicate (length (nsv_servers n)) None\<rparr> else n))"

section \<open>The ticket invariant\<close>

text \<open>
  A ticket that waits belongs to the session handle id that the list of the server has for it.
\<close>

definition ticket_inv :: "NativeRuntimeServer \<Rightarrow> int option \<Rightarrow> bool" where
  "ticket_inv v i \<longleftrightarrow>
     (nrs_ticket v = None \<longrightarrow> nrs_session_handle_id v = None \<and> nrs_generation v = None) \<and>
     (nrs_ticket v \<noteq> None \<longrightarrow> i \<noteq> None \<and> nrs_session_handle_id v = i \<and> nrs_generation v = Some 1)"

definition accept_inv :: "NativeServer \<Rightarrow> bool" where
  "accept_inv n \<longleftrightarrow> list_all2 ticket_inv (nsv_servers n) (nsv_accept_ids n) \<and>
     1 \<le> nsv_next_handle_id n \<and> nsv_next_handle_id n \<le> 0xFFFFFFFFFFFFFFFF \<and>
     (\<forall>i. Some i \<in> set (nsv_accept_ids n) \<longrightarrow> 1 \<le> i \<and> i \<le> 0xFFFFFFFFFFFFFFFF)"

lemma forget_ticket_inv: "ticket_inv (forget_ticket v) i"
  by (simp add: ticket_inv_def forget_ticket_def)

lemma accept_session_ticket:
  assumes "accept_session reply sid 1 t v = (r, v')" "ticket_inv v (Some sid)"
  shows "ticket_inv v' (Some sid) \<and> (\<forall>x. r = Inr x \<longrightarrow> nrs_ticket v' = None)"
  using assms
  by (auto simp: accept_session_def accept_ticket_def ticket_inv_def forget_ticket_def
      split: sum.splits option.splits prod.splits if_splits)

text \<open>The error of a ticket for another session handle is never raised.\<close>

lemma accept_ticket_matches:
  assumes "ticket_inv v (Some sid)" "nrs_ticket v = Some ticket"
  shows "accept_ticket reply sid 1 v = (Inr ticket, v)"
  using assms by (simp add: accept_ticket_def ticket_inv_def)

lemma accept_id_inv:
  assumes "accept_id i n = (sid, n')" "accept_inv n" "i < length (nsv_servers n)"
  shows "accept_inv n' \<and> nsv_accept_ids n' ! i = Some sid \<and> nsv_servers n' = nsv_servers n \<and>
    nsv_closed n' = nsv_closed n \<and> 1 \<le> sid \<and> sid \<le> 0xFFFFFFFFFFFFFFFF"
proof (cases "nsv_accept_ids n ! i")
  case (Some v)
  have "i < length (nsv_accept_ids n)" using assms(2,3) by (auto simp: accept_inv_def dest: list_all2_lengthD)
  then have "Some v \<in> set (nsv_accept_ids n)" using Some by (metis nth_mem)
  then show ?thesis using assms Some by (auto simp: accept_id_def accept_inv_def)
next
  case None
  have len: "length (nsv_accept_ids n) = length (nsv_servers n)"
    using assms(2) by (auto simp: accept_inv_def dest: list_all2_lengthD)
  have sid: "sid = nsv_next_handle_id n"
    "n' = n\<lparr>nsv_next_handle_id := (if sid = 0xFFFFFFFFFFFFFFFF then 1 else sid + 1),
      nsv_accept_ids := (nsv_accept_ids n)[i := Some sid]\<rparr>"
    using assms(1) None by (auto simp: accept_id_def allocate_native_handle_id_def Let_def)
  have "ticket_inv (nsv_servers n ! i) None"
    using assms(2,3) None by (metis accept_inv_def list_all2_nthD)
  then have "ticket_inv (nsv_servers n ! i) (Some sid)"
    by (auto simp: ticket_inv_def)
  then have "list_all2 ticket_inv (nsv_servers n) ((nsv_accept_ids n)[i := Some sid])"
    using assms(2,3) by (auto simp: accept_inv_def list_all2_conv_all_nth nth_list_update)
  then show ?thesis
    using assms(2,3) sid len set_update_subset_insert [of "nsv_accept_ids n" i "Some sid"]
    by (auto simp: accept_inv_def)
qed

lemma accept_round_inv:
  assumes "accept_round lib replies i n = (Inr m, n')" "accept_inv n" "i + length replies \<le> length (nsv_servers n)"
  shows "accept_inv n' \<and> length (nsv_servers n') = length (nsv_servers n) \<and> nsv_closed n' = nsv_closed n"
  using assms
proof (induction replies arbitrary: i n)
  case (Cons reply replies)
  have i: "i < length (nsv_servers n)" using Cons.prems(3) by simp
  obtain sid n1 where n1: "accept_id i n = (sid, n1)" by fastforce
  note id = accept_id_inv [OF n1 Cons.prems(2) i]
  obtain r v where v: "accept_session reply sid 1 1 (nsv_servers n1 ! i) = (r, v)" by fastforce
  let ?n = "n1\<lparr>nsv_servers := (nsv_servers n1)[i := v]\<rparr>"
  have all: "list_all2 ticket_inv (nsv_servers n1) (nsv_accept_ids n1)"
    using id unfolding accept_inv_def by blast
  have "ticket_inv (nsv_servers n1 ! i) (Some sid)"
    using id i list_all2_nthD [OF all, of i] by simp
  note ticket = accept_session_ticket [OF v this]
  have inv: "accept_inv ?n"
    using id i ticket by (auto simp: accept_inv_def list_all2_conv_all_nth nth_list_update)
  show ?case
  proof (cases r)
    case (Inl err)
    then obtain st where "err = WouldBlockError st"
      using Cons.prems(1) n1 v by (cases err) (auto simp: Let_def)
    then have "accept_round lib replies (i + 1) ?n = (Inr m, n')"
      using Cons.prems(1) n1 v Inl by (simp add: Let_def)
    from Cons.IH [OF this inv] show ?thesis using Cons.prems(3) id by simp
  next
    case (Inr x)
    obtain h name where "x = (h, name)" by (cases x)
    then have n': "n' = ?n\<lparr>nsv_accept_ids := (nsv_accept_ids ?n)[i := None],
        nsv_sessions := nsv_sessions ?n @ [new_server_session h]\<rparr>"
      using Cons.prems(1) n1 v Inr by (auto simp: Let_def)
    have "ticket_inv v None" using ticket Inr by (auto simp: ticket_inv_def)
    then show ?thesis
      using inv id i set_update_subset_insert [of "nsv_accept_ids n1" i None] unfolding n'
      by (auto simp: accept_inv_def list_all2_conv_all_nth nth_list_update)
  qed
qed simp

lemma release_tickets_inv:
  "list_all2 ticket_inv vs ids \<Longrightarrow> release_tickets lib vs = (r, vs') \<Longrightarrow>
    list_all2 ticket_inv vs' (map (\<lambda>_. None) ids) \<and> (\<forall>v \<in> set vs'. nrs_ticket v = None) \<and>
    length vs' = length vs"
proof (induction vs ids arbitrary: r vs' rule: list_all2_induct)
  case (Cons v vs i ids)
  obtain q v1 where q: "release_pending_accept_ticket (slb_release lib) v = (q, v1)" by fastforce
  obtain r1 vs1 where r1: "release_tickets lib vs = (r1, vs1)" by fastforce
  have "ticket_inv v1 None \<and> nrs_ticket v1 = None"
    using q Cons.hyps(1)
    by (auto simp: release_pending_accept_ticket_def ticket_inv_def forget_ticket_def split: option.splits)
  then show ?case
    using Cons.IH [OF r1] Cons.prems q r1 by auto
qed simp

lemma close_server_closed: "nsv_closed (snd (close_server lib n))"
  by (auto simp: close_server_def split: prod.splits)

lemma accept_round_error:
  "accept_round lib replies i n = (Inl err, n') \<Longrightarrow> nsv_closed n'"
proof (induction replies arbitrary: i n)
  case (Cons reply replies)
  obtain sid n1 where n1: "accept_id i n = (sid, n1)" by fastforce
  obtain r v where v: "accept_session reply sid 1 1 (nsv_servers n1 ! i) = (r, v)" by fastforce
  let ?n = "n1\<lparr>nsv_servers := (nsv_servers n1)[i := v]\<rparr>"
  obtain e where e: "r = Inl e"
    using Cons.prems n1 v by (cases r) (auto simp: Let_def)
  have "n' = snd (close_server lib ?n) \<or> accept_round lib replies (i + 1) ?n = (Inl err, n')"
    using Cons.prems n1 v e by (cases e) (auto simp: Let_def)
  then show ?case using Cons.IH close_server_closed by auto
qed simp

definition no_ticket_waits :: "NativeServer \<Rightarrow> bool" where
  "no_ticket_waits n \<longleftrightarrow> list_all (\<lambda>v. nrs_ticket v = None) (nsv_servers n)"

lemma accept_loop_outcome:
  "accept_loop lib turns n = Some (r, n') \<Longrightarrow> accept_inv n \<Longrightarrow> \<not> nsv_closed n \<Longrightarrow>
    (case r of Inl _ \<Rightarrow> nsv_closed n' \<or> accept_inv n' \<and> no_ticket_waits n'
     | Inr _ \<Rightarrow> accept_inv n' \<and> \<not> nsv_closed n')"
proof (induction turns arbitrary: n)
  case (Cons turn turns)
  obtain replies expired where turn: "turn = (replies, expired)" by (cases turn)
  obtain q n1 where q: "accept_round lib (map replies [0..<length (nsv_servers n)]) 0 n = (q, n1)"
    by fastforce
  show ?case
  proof (cases q)
    case (Inl err)
    then show ?thesis using Cons.prems turn q accept_round_error by auto
  next
    case (Inr m)
    note n1 = accept_round_inv [OF q [unfolded Inr] Cons.prems(2)]
    show ?thesis
    proof (cases m)
      case (Some x)
      then show ?thesis using Cons.prems turn q Inr n1 by auto
    next
      case None
      obtain w n2 where n2: "release_pending_accept_tickets lib n1 = (w, n2)" by fastforce
      show ?thesis
      proof (cases expired)
        case False
        then show ?thesis using Cons.prems turn q Inr None n1 Cons.IH [of n1] by simp
      next
        case True
        obtain w' vs where vs: "release_tickets lib (nsv_servers n1) = (w', vs)" by fastforce
        have inv: "accept_inv n1" using n1 by simp
        then have "list_all2 ticket_inv (nsv_servers n1) (nsv_accept_ids n1)"
          by (simp add: accept_inv_def)
        note rel = release_tickets_inv [OF this vs]
        have "accept_inv n2 \<and> no_ticket_waits n2"
          using n2 vs rel inv
          by (auto simp: release_pending_accept_tickets_def accept_inv_def no_ticket_waits_def list_all_iff)
        then show ?thesis
          using Cons.prems turn q Inr None True n2 close_server_closed [of lib n2]
          by (auto split: sum.splits)
      qed
    qed
  qed
qed simp

text \<open>
  \<open>accept\<close> of an open server without waiting tickets: a session leaves the server open with its
  tickets in order, and an error leaves it closed or, when the time is over, with no ticket waiting.
\<close>

lemma accept_serialized_outcome:
  assumes "accept_serialized lib turns (new_server servers next_id) = Some (r, n')"
    "list_all (\<lambda>v. nrs_ticket v = None \<and> nrs_session_handle_id v = None \<and> nrs_generation v = None) servers"
    "1 \<le> next_id" "next_id \<le> 0xFFFFFFFFFFFFFFFF"
  shows "case r of Inl _ \<Rightarrow> nsv_closed n' \<or> accept_inv n' \<and> no_ticket_waits n'
     | Inr _ \<Rightarrow> accept_inv n' \<and> \<not> nsv_closed n'"
proof -
  let ?n = "(new_server servers next_id)\<lparr>nsv_accept_ids := replicate (length servers) None\<rparr>"
  have "accept_inv ?n"
    using assms by (auto simp: accept_inv_def new_server_def list_all2_conv_all_nth ticket_inv_def list_all_length)
  moreover have "accept_loop lib turns ?n = Some (r, n')"
    using assms(1) by (simp add: accept_serialized_def new_server_def)
  ultimately show ?thesis
    using accept_loop_outcome [of lib turns ?n r n'] by (simp add: new_server_def)
qed

text \<open>The next \<open>accept\<close> continues from a state that keeps the invariant.\<close>

lemma accept_serialized_again:
  assumes "accept_serialized lib turns n = Some (r, n')" "accept_inv n" "\<not> nsv_closed n"
  shows "case r of Inl _ \<Rightarrow> nsv_closed n' \<or> accept_inv n' \<and> no_ticket_waits n'
     | Inr _ \<Rightarrow> accept_inv n' \<and> \<not> nsv_closed n'"
proof -
  have "nsv_accept_ids n = [] \<Longrightarrow> nsv_servers n = []"
    using assms(2) by (simp add: accept_inv_def)
  then have "nsv_accept_ids n = [] \<Longrightarrow>
      n\<lparr>nsv_accept_ids := replicate (length (nsv_servers n)) None\<rparr> = n"
    by (cases n) simp
  then have "accept_loop lib turns n = Some (r, n')"
    using assms(1,3) by (cases "nsv_accept_ids n = []") (auto simp: accept_serialized_def)
  then show ?thesis using accept_loop_outcome assms(2,3) by blast
qed

section \<open>Sequences of accepts\<close>

fun accept_all ::
    "server_library \<Rightarrow> ((nat \<Rightarrow> accept_reply) \<times> bool) list list \<Rightarrow> NativeServer \<Rightarrow> NativeServer option" where
  "accept_all lib [] n = Some n"
| "accept_all lib (turns # calls) n =
     (case accept_serialized lib turns n of
        None \<Rightarrow> None | Some (_, n) \<Rightarrow> accept_all lib calls n)"

definition accept_ready :: "NativeServer \<Rightarrow> bool" where
  "accept_ready n \<longleftrightarrow> nsv_closed n \<or> accept_inv n"

lemma accept_serialized_ready:
  "accept_serialized lib turns n = Some (r, n') \<Longrightarrow> accept_ready n \<Longrightarrow> accept_ready n'"
  using accept_serialized_again [of lib turns n r n']
  by (cases "nsv_closed n") (auto simp: accept_ready_def accept_serialized_def split: sum.splits)

lemma accept_all_ready:
  "accept_all lib calls n = Some n' \<Longrightarrow> accept_ready n \<Longrightarrow> accept_ready n'"
proof (induction calls arbitrary: n)
  case (Cons turns calls)
  then show ?case
    using accept_serialized_ready by (auto split: option.splits)
qed simp

text \<open>
  However often \<open>accept\<close> is called and whatever it returns, a ticket that waits in an open server is
  the one the next call goes on with.
\<close>

lemma accept_all_ticket:
  assumes "accept_all lib (turns # calls) (new_server servers next_id) = Some n'"
    "list_all (\<lambda>v. nrs_ticket v = None \<and> nrs_session_handle_id v = None \<and> nrs_generation v = None) servers"
    "1 \<le> next_id" "next_id \<le> 0xFFFFFFFFFFFFFFFF"
    "\<not> nsv_closed n'" "i < length (nsv_servers n')" "nrs_ticket (nsv_servers n' ! i) = Some ticket"
  shows "\<exists>sid. accept_id i n' = (sid, n') \<and>
    accept_ticket reply sid 1 (nsv_servers n' ! i) = (Inr ticket, nsv_servers n' ! i)"
proof -
  obtain r n1 where n1: "accept_serialized lib turns (new_server servers next_id) = Some (r, n1)"
    "accept_all lib calls n1 = Some n'"
    using assms(1) by (auto split: option.splits)
  have "accept_ready n1"
    using accept_serialized_outcome [OF n1(1) assms(2-4)] by (auto simp: accept_ready_def split: sum.splits)
  from accept_all_ready [OF n1(2) this] have inv: "list_all2 ticket_inv (nsv_servers n') (nsv_accept_ids n')"
    using assms(5) by (simp add: accept_ready_def accept_inv_def)
  have t: "ticket_inv (nsv_servers n' ! i) (nsv_accept_ids n' ! i)"
    by (rule list_all2_nthD [OF inv assms(6)])
  then obtain sid where sid: "nsv_accept_ids n' ! i = Some sid"
    using assms(7) by (auto simp: ticket_inv_def)
  have "accept_id i n' = (sid, n')" using sid by (simp add: accept_id_def)
  moreover have "accept_ticket reply sid 1 (nsv_servers n' ! i) = (Inr ticket, nsv_servers n' ! i)"
    using accept_ticket_matches assms(7) t sid by simp
  ultimately show ?thesis by blast
qed

end
