(* ===== verification/Client_Connection.thy ===== *)
theory Client_Connection
  imports Operation_Correctness
begin

text \<open>
  \<open>client/native.py\<close>: recovery tickets, session options, the results a connection keeps back
  because their frame or operation was cancelled, operation scopes, and the closing of a connection.
\<close>

section \<open>Recovery tickets\<close>

record NativeSessionRecoveryTicket =
  srtk_session_id :: int
  srtk_resume_token :: bytes
  srtk_resume_from_operation_id :: "int option"
  srtk_resume_window_ms :: int

definition RECOVERY_TICKET_MAGIC :: bytes where
  "RECOVERY_TICKET_MAGIC = [78, 82, 84, 75]"  \<comment> \<open>\<open>b"NRTK"\<close>\<close>

text \<open>\<open>"<4sHHIIIQ"\<close>: four magic bytes, then these fields.\<close>

definition RECOVERY_TICKET_FIELDS :: "field list" where
  "RECOVERY_TICKET_FIELDS = [FH, FH, FI, FI, FI, FQ]"

definition recovery_ticket_create :: "NativeSessionRecoveryTicket \<Rightarrow> NativeSessionRecoveryTicket res" where
  "recovery_ticket_create t =
     (if \<not> (1 \<le> srtk_session_id t \<and> srtk_session_id t \<le> 0xFFFFFFFF) then ve ''session_id must be a non-zero u32''
      else if srtk_resume_token t = [] then ve ''resume_token must be non-empty''
      else if len (srtk_resume_token t) > 0xFFFFFFFF then ve ''resume_token length must fit in u32''
      else if (case srtk_resume_from_operation_id t of None \<Rightarrow> False
          | Some i \<Rightarrow> \<not> (1 \<le> i \<and> i \<le> 0xFFFFFFFFFFFFFFFF))
      then ve ''resume_from_operation_id must be a non-zero u64 when present''
      else if \<not> (0 \<le> srtk_resume_window_ms t \<and> srtk_resume_window_ms t \<le> 0xFFFFFFFF)
      then ve ''resume_window_ms must fit in u32''
      else Inr t)"

definition recovery_ticket_to_bytes :: "NativeSessionRecoveryTicket \<Rightarrow> bytes res" where
  "recovery_ticket_to_bytes t =
     bind_res (struct_pack RECOVERY_TICKET_FIELDS
       [1, if srtk_resume_from_operation_id t \<noteq> None then 1 else 0, srtk_session_id t,
        len (srtk_resume_token t), srtk_resume_window_ms t,
        case srtk_resume_from_operation_id t of None \<Rightarrow> 0 | Some i \<Rightarrow> i])
       (\<lambda>prefix. Inr (RECOVERY_TICKET_MAGIC @ prefix @ srtk_resume_token t))"

text \<open>\<open>flags & ~1\<close> is tested with the quotient by two.\<close>

definition recovery_ticket_from_fields :: "bytes \<Rightarrow> int list \<Rightarrow> NativeSessionRecoveryTicket res" where
  "recovery_ticket_from_fields payload vals =
     (case vals of
        [version, flags, session_id, token_bytes, window_ms, operation_id] \<Rightarrow>
          if version \<noteq> 1 then ve ''recovery ticket version is unsupported''
          else if flags div 2 \<noteq> 0 then ve ''recovery ticket contains reserved flags''
          else if len payload \<noteq> 28 + token_bytes
          then ve ''recovery ticket length does not match its token length''
          else if flags mod 2 = 0 \<and> operation_id \<noteq> 0
          then ve ''recovery ticket carries an operation id without its presence flag''
          else recovery_ticket_create
            \<lparr>srtk_session_id = session_id, srtk_resume_token = drop 28 payload,
             srtk_resume_from_operation_id = (if flags mod 2 = 0 then None else Some operation_id),
             srtk_resume_window_ms = window_ms\<rparr>
      | _ \<Rightarrow> tuple_error)"

definition recovery_ticket_from_bytes :: "bytes \<Rightarrow> NativeSessionRecoveryTicket res" where
  "recovery_ticket_from_bytes payload =
     (if len payload < 28 then ve ''recovery ticket is truncated''
      else if take 4 payload \<noteq> RECOVERY_TICKET_MAGIC then ve ''recovery ticket magic is invalid''
      else recovery_ticket_from_fields payload (unpack_fields RECOVERY_TICKET_FIELDS (take 24 (drop 4 payload))))"

lemma ticket_calcsize [simp]: "calcsize RECOVERY_TICKET_FIELDS = 24"
  by (simp add: RECOVERY_TICKET_FIELDS_def)

lemma ticket_magic_length [simp]: "length RECOVERY_TICKET_MAGIC = 4"
  by (simp add: RECOVERY_TICKET_MAGIC_def)

definition ticket_fields :: "NativeSessionRecoveryTicket \<Rightarrow> int list" where
  "ticket_fields t =
     [1, if srtk_resume_from_operation_id t \<noteq> None then 1 else 0, srtk_session_id t,
      len (srtk_resume_token t), srtk_resume_window_ms t,
      case srtk_resume_from_operation_id t of None \<Rightarrow> 0 | Some i \<Rightarrow> i]"

lemma ticket_packs:
  assumes "recovery_ticket_create t = Inr t'"
  shows "\<exists>prefix. struct_pack RECOVERY_TICKET_FIELDS (ticket_fields t) = Inr prefix"
  using assms
  by (auto simp: struct_pack_iff RECOVERY_TICKET_FIELDS_def ticket_fields_def fits_def
      recovery_ticket_create_def split: if_splits option.splits)

text \<open>The bytes of a ticket are read back, and only the bytes of a ticket are read.\<close>

lemma ticket_round_trip:
  assumes "recovery_ticket_create t = Inr t"
  shows "\<exists>bs. recovery_ticket_to_bytes t = Inr bs \<and> recovery_ticket_from_bytes bs = Inr t"
proof -
  obtain prefix where p: "struct_pack RECOVERY_TICKET_FIELDS (ticket_fields t) = Inr prefix"
    using ticket_packs [OF assms] by blast
  have n: "length prefix = 24" using length_struct_pack [OF p] by simp
  let ?bs = "RECOVERY_TICKET_MAGIC @ prefix @ srtk_resume_token t"
  have "recovery_ticket_to_bytes t = Inr ?bs"
    using p by (simp add: recovery_ticket_to_bytes_def ticket_fields_def)
  moreover have "unpack_fields RECOVERY_TICKET_FIELDS (take 24 (drop 4 ?bs)) = ticket_fields t"
    using unpack_fields_pack [OF p, of "[]"] n by simp
  then have "recovery_ticket_from_bytes ?bs = recovery_ticket_from_fields ?bs (ticket_fields t)"
    using n by (simp add: recovery_ticket_from_bytes_def)
  moreover have "recovery_ticket_from_fields ?bs (ticket_fields t) = Inr t"
    using assms n by (cases t) (auto simp: recovery_ticket_from_fields_def ticket_fields_def split: option.splits)
  ultimately show ?thesis by auto
qed

lemma ticket_canonical:
  assumes "recovery_ticket_from_bytes bs = Inr t"
  shows "recovery_ticket_create t = Inr t \<and> recovery_ticket_to_bytes t = Inr bs"
proof -
  let ?vals = "unpack_fields RECOVERY_TICKET_FIELDS (take 24 (drop 4 bs))"
  have bs: "28 \<le> length bs" "take 4 bs = RECOVERY_TICKET_MAGIC" "recovery_ticket_from_fields bs ?vals = Inr t"
    using assms by (auto simp: recovery_ticket_from_bytes_def split: if_splits)
  have pack: "struct_pack RECOVERY_TICKET_FIELDS ?vals = Inr (take 24 (drop 4 bs))"
    using bs(1) by (intro pack_unpack_fields) simp
  have fits: "list_all2 fits RECOVERY_TICKET_FIELDS ?vals" by (rule struct_pack_fits [OF pack])
  obtain version flags session_id token_bytes window_ms operation_id where
    v: "?vals = [version, flags, session_id, token_bytes, window_ms, operation_id]"
    using fits by (auto simp: RECOVERY_TICKET_FIELDS_def list_all2_Cons1)
  have created: "recovery_ticket_create t = Inr t"
    using bs(3) unfolding v by (auto simp: recovery_ticket_from_fields_def recovery_ticket_create_def split: if_splits)
  have parts: "version = 1" "flags div 2 = 0" "len bs = 28 + token_bytes" "flags mod 2 = 0 \<longrightarrow> operation_id = 0"
    "t = \<lparr>srtk_session_id = session_id, srtk_resume_token = drop 28 bs,
      srtk_resume_from_operation_id = (if flags mod 2 = 0 then None else Some operation_id),
      srtk_resume_window_ms = window_ms\<rparr>"
    using bs(3) unfolding v by (auto simp: recovery_ticket_from_fields_def recovery_ticket_create_def split: if_splits)
  have "flags = flags mod 2" using parts(2) by presburger
  then have "ticket_fields t = ?vals"
    using parts bs(1) unfolding v by (auto simp: ticket_fields_def)
  then have "recovery_ticket_to_bytes t = Inr (RECOVERY_TICKET_MAGIC @ take 24 (drop 4 bs) @ drop 28 bs)"
    using pack parts(5) by (simp add: recovery_ticket_to_bytes_def ticket_fields_def)
  also have "RECOVERY_TICKET_MAGIC @ take 24 (drop 4 bs) @ drop 28 bs = bs"
    using bs(2) append_take_drop_id [of 24 "drop 4 bs"] append_take_drop_id [of 4 bs] by simp
  finally show ?thesis using created by simp
qed

section \<open>Session options\<close>

record NativeClientSessionOptions =
  cso_requested_session_id :: int
  cso_profile_id :: int
  cso_schema_id :: int
  cso_schema_version :: int
  cso_priority_class :: int
  cso_default_deadline_ms :: int
  cso_max_in_flight_operations :: int
  cso_lease_ttl_hint_ms :: int
  cso_allow_resume :: bool
  cso_resume_token_bytes :: int
  cso_cache_hints :: "int list"

definition NativeClientSessionOptions_init :: "NativeClientSessionOptions \<Rightarrow> NativeClientSessionOptions res" where
  "NativeClientSessionOptions_init n =
     (if \<not> (0 \<le> cso_requested_session_id n \<and> cso_requested_session_id n \<le> 0xFFFFFFFF)
      then ve ''requested_session_id must fit in u32''
      else if \<not> (0 \<le> cso_profile_id n \<and> cso_profile_id n \<le> 0xFFFF) then ve ''profile_id must fit in u16''
      else if \<not> list_all (\<lambda>v. 0 \<le> v \<and> v \<le> 0xFFFFFFFF)
        [cso_schema_id n, cso_schema_version n, cso_default_deadline_ms n, cso_lease_ttl_hint_ms n,
         cso_resume_token_bytes n]
      then ve ''value must fit in u32''
      else if \<not> (1 \<le> cso_max_in_flight_operations n \<and> cso_max_in_flight_operations n \<le> 0xFFFF)
      then ve ''max_in_flight_operations must be a non-zero u16''
      else if \<not> cso_allow_resume n \<and> cso_resume_token_bytes n \<noteq> 0
      then ve ''resume_token_bytes requires allow_resume''
      else if list_ex (\<lambda>h. \<not> (0 \<le> h \<and> h \<le> 0xFFFFFFFF)) (cso_cache_hints n)
      then ve ''cache_hints values must fit in u32''
      else Inr n)"

text \<open>The session requests of \<open>_open_session\<close> and \<open>_resume_session\<close> differ in these fields.\<close>

definition resume_token_size :: "NativeSessionRecoveryTicket \<Rightarrow> NativeClientSessionOptions \<Rightarrow> int" where
  "resume_token_size t n = max (cso_resume_token_bytes n) (len (srtk_resume_token t))"

section \<open>Cancelled results\<close>

text \<open>
  The dictionaries from a session to the dictionary of the cancelled frames or operations, whose
  keys are kept in the order of their insertion.
\<close>

record NativeClientConnection =
  ncc_closed :: bool
  ncc_cancelled_frames :: "int \<Rightarrow> int list"
  ncc_cancelled_operations :: "int \<Rightarrow> int list"

definition new_client_connection :: NativeClientConnection where
  "new_client_connection = \<lparr>ncc_closed = False, ncc_cancelled_frames = (\<lambda>_. []),
     ncc_cancelled_operations = (\<lambda>_. [])\<rparr>"

definition MAX_SUPPRESSIONS :: nat where
  "MAX_SUPPRESSIONS = 4096"

definition remember_suppressed :: "int \<Rightarrow> int list \<Rightarrow> int list" where
  "remember_suppressed v vs =
     (let vs = (if v \<in> set vs then vs else vs @ [v])
      in drop (length vs - MAX_SUPPRESSIONS) vs)"

definition connection_ensure_open :: "NativeClientConnection \<Rightarrow> unit nres" where
  "connection_ensure_open c =
     (if ncc_closed c then plain (Inl (RuntimeError ''native client connection is closed'')) else Inr ())"

definition remember_cancelled_frame :: "int \<Rightarrow> int \<Rightarrow> NativeClientConnection \<Rightarrow> NativeClientConnection" where
  "remember_cancelled_frame session_id frame_id c =
     c\<lparr>ncc_cancelled_frames := (ncc_cancelled_frames c)
         (session_id := remember_suppressed frame_id (ncc_cancelled_frames c session_id))\<rparr>"

definition remember_cancelled_operation :: "int \<Rightarrow> int \<Rightarrow> NativeClientConnection \<Rightarrow> NativeClientConnection" where
  "remember_cancelled_operation session_id operation_id c =
     c\<lparr>ncc_cancelled_operations := (ncc_cancelled_operations c)
         (session_id := remember_suppressed operation_id (ncc_cancelled_operations c session_id))\<rparr>"

definition is_cancelled_result :: "NativeClientConnection \<Rightarrow> int \<Rightarrow> int \<Rightarrow> int \<Rightarrow> bool" where
  "is_cancelled_result c session_id operation_id frame_id \<longleftrightarrow>
     frame_id \<in> set (ncc_cancelled_frames c session_id) \<or>
     operation_id \<in> set (ncc_cancelled_operations c session_id)"

definition result_frame_id :: "NativeRuntimeResult \<Rightarrow> int \<Rightarrow> int" where
  "result_frame_id r fallback =
     (case nrr_event r of TerminalRuntime e \<Rightarrow> rfh_frame_id (nre_header e) | TerminalLifecycle _ \<Rightarrow> fallback)"

definition deliver_result ::
    "NativeClientConnection \<Rightarrow> int \<Rightarrow> int \<Rightarrow> NativeRuntimeResult \<Rightarrow> NativeRuntimeResult nres" where
  "deliver_result c session_id frame_id r =
     (if is_cancelled_result c session_id (nrr_operation_id r) (result_frame_id r frame_id)
      then Inl would_block else Inr r)"

definition connection_poll_result ::
    "NativeClientConnection \<Rightarrow> NativeRuntimeOperation \<Rightarrow> int option \<Rightarrow> int
      \<Rightarrow> (NativeRuntimeSession, poll_reply, NativeRuntimeResult) reading" where
  "connection_poll_result c operation max_events timeout_ms s script =
     (case connection_ensure_open c of
        Inl err \<Rightarrow> Some (Inl err, s, script)
      | Inr _ \<Rightarrow>
          if is_cancelled_result c (nh_id (ns_handle s)) (nro_operation_id operation) (nro_frame_id operation)
          then Some (Inl would_block, s, script)
          else map_option (\<lambda>(r, s, script).
              (bind_nat r (deliver_result c (nh_id (ns_handle s)) (nro_frame_id operation)), s, script))
            (poll_result operation max_events timeout_ms s script))"

definition connection_submit_and_poll_result ::
    "NativeClientConnection \<Rightarrow> library_calls \<Rightarrow> int \<Rightarrow> SubmitRequest \<Rightarrow> int option \<Rightarrow> int option
      \<Rightarrow> int option \<Rightarrow> int \<Rightarrow> wait_turn list \<Rightarrow> NativeRuntimeSession \<Rightarrow> script
      \<Rightarrow> (NativeRuntimeResult nres \<times> calls_made \<times> NativeRuntimeSession \<times> script) option" where
  "connection_submit_and_poll_result c lib now_ms request parent_operation_id operation_group_id
      max_events timeout_ms turns s script =
     (case connection_ensure_open c of
        Inl err \<Rightarrow> Some (Inl err, \<lparr>clm_frames = [], clm_submits = [], clm_cancels = []\<rparr>, s, script)
      | Inr _ \<Rightarrow>
          map_option (\<lambda>(r, calls, s, script).
              (bind_nat r (deliver_result c (nh_id (ns_handle s)) (srq_frame_id request)), calls, s, script))
            (submit_and_poll_result lib now_ms request parent_operation_id operation_group_id None
              max_events timeout_ms turns s script))"

definition connection_cancel_operation ::
    "(cancel_call \<Rightarrow> NativeStatus) \<Rightarrow> NativeRuntimeOperation \<Rightarrow> NativeClientConnection \<Rightarrow> NativeRuntimeSession
      \<Rightarrow> unit nres \<times> cancel_call list \<times> NativeClientConnection \<times> NativeRuntimeSession" where
  "connection_cancel_operation lib operation c s =
     (case connection_ensure_open c of
        Inl err \<Rightarrow> (Inl err, [], c, s)
      | Inr _ \<Rightarrow>
          (case operation_cancel lib operation s of
             (Inl err, calls, s) \<Rightarrow> (Inl err, calls, c, s)
           | (Inr _, calls, s) \<Rightarrow>
               let session_id = nh_id (nro_session operation)
               in (Inr (), calls,
                   remember_cancelled_operation session_id (nro_operation_id operation)
                     (remember_cancelled_frame session_id (nro_frame_id operation) c), s)))"

definition connection_cancel_frame ::
    "(cancel_call \<Rightarrow> NativeStatus) \<Rightarrow> int \<Rightarrow> NativeClientConnection \<Rightarrow> NativeRuntimeSession
      \<Rightarrow> unit nres \<times> cancel_call list \<times> NativeClientConnection \<times> NativeRuntimeSession" where
  "connection_cancel_frame lib frame_id c s =
     (case connection_ensure_open c of
        Inl err \<Rightarrow> (Inl err, [], c, s)
      | Inr _ \<Rightarrow>
          (case cancel_frame lib frame_id s of
             (Inl err, calls, s) \<Rightarrow> (Inl err, calls, c, s)
           | (Inr _, calls, s) \<Rightarrow>
               (Inr (), calls, remember_cancelled_frame (nh_id (ns_handle s)) frame_id c, s)))"

text \<open>\<open>_send_runtime_control\<close>, and the two requests that end an operation.\<close>

definition send_runtime_control ::
    "(frame_call \<Rightarrow> NativeStatus) \<Rightarrow> MessageType \<Rightarrow> runtime_metadata \<Rightarrow> bytes \<Rightarrow> NativeClientConnection
      \<Rightarrow> NativeRuntimeSession \<Rightarrow> unit nres \<times> frame_call list \<times> NativeRuntimeSession" where
  "send_runtime_control lib mt m tail c s =
     (case connection_ensure_open c of
        Inl err \<Rightarrow> (Inl err, [], s)
      | Inr _ \<Rightarrow> send_runtime_frame lib mt (RuntimeV m) tail None s)"

definition cancel_runtime_operation ::
    "(frame_call \<Rightarrow> NativeStatus) \<Rightarrow> ControlRequestMetadata \<Rightarrow> bytes \<Rightarrow> NativeClientConnection
      \<Rightarrow> NativeRuntimeSession
      \<Rightarrow> unit nres \<times> frame_call list \<times> NativeClientConnection \<times> NativeRuntimeSession" where
  "cancel_runtime_operation lib m diagnostic c s =
     (case send_runtime_control lib MT_CANCEL (ControlRequestM m) diagnostic c s of
        (Inl err, calls, s) \<Rightarrow> (Inl err, calls, c, s)
      | (Inr _, calls, s) \<Rightarrow>
          (Inr (), calls, remember_cancelled_operation (nh_id (ns_handle s)) (crm_operation_id m) c, s))"

definition abort_runtime_operation ::
    "(frame_call \<Rightarrow> NativeStatus) \<Rightarrow> ControlRequestMetadata \<Rightarrow> bytes \<Rightarrow> NativeClientConnection
      \<Rightarrow> NativeRuntimeSession \<Rightarrow> unit nres \<times> frame_call list \<times> NativeRuntimeSession" where
  "abort_runtime_operation lib m diagnostic c s =
     send_runtime_control lib MT_ABORT (ControlRequestM m) diagnostic c s"

section \<open>Operation scopes\<close>

record operation_scope =
  osc_operation :: NativeRuntimeOperation
  osc_cancel_on_error :: bool
  osc_closed :: bool

definition scope_close ::
    "(cancel_call \<Rightarrow> NativeStatus) \<Rightarrow> bool \<Rightarrow> operation_scope \<Rightarrow> NativeRuntimeSession
      \<Rightarrow> unit nres \<times> cancel_call list \<times> operation_scope \<times> NativeRuntimeSession" where
  "scope_close lib cancel sc s =
     (if osc_closed sc then (Inr (), [], sc, s)
      else if cancel then
        (case operation_cancel lib (osc_operation sc) s of
           (Inl err, calls, s) \<Rightarrow> (Inl err, calls, sc, s)
         | (Inr _, calls, s) \<Rightarrow> (Inr (), calls, sc\<lparr>osc_closed := True\<rparr>, s))
      else (Inr (), [], sc\<lparr>osc_closed := True\<rparr>, s))"

definition scope_exit ::
    "(cancel_call \<Rightarrow> NativeStatus) \<Rightarrow> bool \<Rightarrow> operation_scope \<Rightarrow> NativeRuntimeSession
      \<Rightarrow> unit nres \<times> cancel_call list \<times> operation_scope \<times> NativeRuntimeSession" where
  "scope_exit lib raised sc = scope_close lib (raised \<and> osc_cancel_on_error sc) sc"

section \<open>Closing\<close>

text \<open>
  \<open>_close_role_resources\<close>: the sessions are closed from the last one on, up to the first that
  raises; then the connection is closed; an exception of the connection replaces one of a session.
\<close>

fun close_sessions ::
    "(NativeHandle \<Rightarrow> NativeStatus) \<Rightarrow> NativeRuntimeSession list \<Rightarrow> unit nres \<times> NativeHandle list" where
  "close_sessions lib [] = (Inr (), [])"
| "close_sessions lib (s # ss) =
     (case close_session lib s of
        (Inl err, calls, _) \<Rightarrow> (Inl err, calls)
      | (Inr _, calls, _) \<Rightarrow>
          (case close_sessions lib ss of (r, more_calls) \<Rightarrow> (r, calls @ more_calls)))"

definition close_role_resources ::
    "(NativeHandle \<Rightarrow> NativeStatus) \<Rightarrow> unit nres \<Rightarrow> NativeRuntimeSession list \<Rightarrow> NativeClientConnection
      \<Rightarrow> unit nres \<times> NativeHandle list \<times> NativeClientConnection" where
  "close_role_resources lib connection_close sessions c =
     (case close_sessions lib (rev sessions) of
        (r, calls) \<Rightarrow>
          (case connection_close of Inl err \<Rightarrow> Inl err | Inr _ \<Rightarrow> r, calls,
           \<lparr>ncc_closed = True, ncc_cancelled_frames = (\<lambda>_. []), ncc_cancelled_operations = (\<lambda>_. [])\<rparr>))"

section \<open>Suppression\<close>

lemma remember_suppressed_length: "length vs \<le> MAX_SUPPRESSIONS \<Longrightarrow> length (remember_suppressed v vs) \<le> MAX_SUPPRESSIONS"
  by (simp add: remember_suppressed_def Let_def)

lemma remember_suppressed_member: "length vs \<le> MAX_SUPPRESSIONS \<Longrightarrow> v \<in> set (remember_suppressed v vs)"
proof (cases "v \<in> set vs")
  case False
  assume "length vs \<le> MAX_SUPPRESSIONS"
  then have "length (vs @ [v]) - MAX_SUPPRESSIONS \<le> length vs" by (simp add: MAX_SUPPRESSIONS_def)
  then show ?thesis using False by (simp add: remember_suppressed_def Let_def)
qed (simp add: remember_suppressed_def Let_def)

lemma remember_suppressed_distinct: "distinct vs \<Longrightarrow> distinct (remember_suppressed v vs)"
  by (simp add: remember_suppressed_def Let_def)

text \<open>
  A value stays suppressed while fewer than the maximum of others are remembered after it: it is
  behind \<open>k\<close> values at most after \<open>k\<close> calls.
\<close>

definition newer_than :: "int \<Rightarrow> nat \<Rightarrow> int list \<Rightarrow> bool" where
  "newer_than v k vs \<longleftrightarrow> (\<exists>a b. vs = a @ v # b \<and> length b \<le> k)"

lemma newer_than_first: "length vs \<le> MAX_SUPPRESSIONS \<Longrightarrow> v \<notin> set vs \<Longrightarrow> newer_than v 0 (remember_suppressed v vs)"
  unfolding newer_than_def
  by (intro exI [of _ "drop (length vs + 1 - MAX_SUPPRESSIONS) vs"] exI [of _ "[]"])
    (simp add: remember_suppressed_def MAX_SUPPRESSIONS_def)

lemma newer_than_next:
  assumes "newer_than v k vs" "Suc k < MAX_SUPPRESSIONS" "length vs \<le> MAX_SUPPRESSIONS"
  shows "newer_than v (Suc k) (remember_suppressed w vs)"
proof -
  obtain a b where vs: "vs = a @ v # b" "length b \<le> k" using assms(1) by (auto simp: newer_than_def)
  show ?thesis
  proof (cases "w \<in> set vs")
    case True
    then have "remember_suppressed w vs = vs" using assms(3) by (simp add: remember_suppressed_def)
    then show ?thesis using vs le_SucI unfolding newer_than_def by metis
  next
    case False
    let ?d = "length vs + 1 - MAX_SUPPRESSIONS"
    have "?d \<le> length a" using assms(2) vs by simp
    then have "remember_suppressed w vs = drop ?d a @ v # (b @ [w])"
      using False vs(1) by (simp add: remember_suppressed_def)
    then show ?thesis using vs(2) unfolding newer_than_def by fastforce
  qed
qed

fun remember_all :: "int list \<Rightarrow> int list \<Rightarrow> int list" where
  "remember_all [] vs = vs"
| "remember_all (w # ws) vs = remember_all ws (remember_suppressed w vs)"

lemma remember_all_keeps:
  "newer_than v k vs \<Longrightarrow> k + length ws < MAX_SUPPRESSIONS \<Longrightarrow> length vs \<le> MAX_SUPPRESSIONS \<Longrightarrow>
    v \<in> set (remember_all ws vs)"
proof (induction ws arbitrary: vs k)
  case Nil
  then show ?case by (auto simp: newer_than_def)
next
  case (Cons w ws)
  then show ?case
    using newer_than_next [of v k vs w] remember_suppressed_length [of vs w] by simp
qed

lemma suppressed_until_evicted:
  assumes "length vs \<le> MAX_SUPPRESSIONS" "v \<notin> set vs" "length ws < MAX_SUPPRESSIONS"
  shows "v \<in> set (remember_all ws (remember_suppressed v vs)) \<and>
    length (remember_all ws (remember_suppressed v vs)) \<le> MAX_SUPPRESSIONS"
proof -
  have "length (remember_all ws vs) \<le> MAX_SUPPRESSIONS" if "length vs \<le> MAX_SUPPRESSIONS" for vs
    using that by (induction ws arbitrary: vs) (auto intro: remember_suppressed_length)
  then show ?thesis
    using remember_all_keeps [OF newer_than_first [OF assms(1,2)], of ws] assms(3)
      remember_suppressed_length [OF assms(1), of v] by simp
qed

text \<open>No result of a cancelled operation is delivered, whatever the library sends.\<close>

lemma cancelled_result_not_delivered:
  assumes "nro_operation_id operation \<in> set (ncc_cancelled_operations c (nh_id (ns_handle s))) \<or>
      nro_frame_id operation \<in> set (ncc_cancelled_frames c (nh_id (ns_handle s)))"
  shows "\<exists>err. connection_poll_result c operation max_events timeout_ms s script = Some (Inl err, s, script)"
  using assms by (auto simp: connection_poll_result_def is_cancelled_result_def split: sum.split)

lemma cancel_operation_suppresses:
  assumes "connection_cancel_operation lib operation c s = (Inr (), calls, c', s')"
    "nro_session operation = ns_handle s" "length (ncc_cancelled_operations c (nh_id (ns_handle s))) \<le> MAX_SUPPRESSIONS"
  shows "calls = [cancel_call_of (ns_handle s) (nro_frame_id operation)] \<and>
    connection_poll_result c' operation max_events timeout_ms s' script = Some (Inl would_block, s', script)"
proof -
  obtain u where u: "operation_cancel lib operation s = (Inr u, calls, s')" "connection_ensure_open c = Inr ()"
    "c' = remember_cancelled_operation (nh_id (nro_session operation)) (nro_operation_id operation)
      (remember_cancelled_frame (nh_id (nro_session operation)) (nro_frame_id operation) c)"
    using assms(1) by (auto simp: connection_cancel_operation_def Let_def split: sum.splits prod.splits)
  have s': "ns_handle s' = ns_handle s" "calls = [cancel_call_of (ns_handle s) (nro_frame_id operation)]"
    using u(1) by (auto simp: operation_cancel_def cancel_frame_def Let_def forget_operation_frame_by_frame_def
        split: sum.splits)
  have "nro_operation_id operation \<in> set (ncc_cancelled_operations c' (nh_id (ns_handle s')))"
    using remember_suppressed_member [OF assms(3)] u(3) assms(2) s'(1)
    by (simp add: remember_cancelled_operation_def remember_cancelled_frame_def)
  moreover have "connection_ensure_open c' = Inr ()"
    using u(2,3) by (simp add: connection_ensure_open_def remember_cancelled_operation_def
        remember_cancelled_frame_def split: if_splits)
  ultimately show ?thesis using s'
    by (simp add: connection_poll_result_def is_cancelled_result_def)
qed

lemma remember_operations:
  "ncc_cancelled_operations (fold (remember_cancelled_operation sid) ws c) sid =
     remember_all ws (ncc_cancelled_operations c sid) \<and>
   connection_ensure_open (fold (remember_cancelled_operation sid) ws c) = connection_ensure_open c"
  by (induction ws arbitrary: c)
    (simp_all add: remember_cancelled_operation_def connection_ensure_open_def)

text \<open>It stays so while fewer than the maximum of other operations are cancelled after it.\<close>

lemma cancel_operation_suppressed_long:
  assumes "connection_cancel_operation lib operation c s = (Inr (), calls, c', s')"
    and "nro_session operation = ns_handle s"
    and "length (ncc_cancelled_operations c (nh_id (ns_handle s))) \<le> MAX_SUPPRESSIONS"
    and "nro_operation_id operation \<notin> set (ncc_cancelled_operations c (nh_id (ns_handle s)))"
    and "length ws < MAX_SUPPRESSIONS"
  shows "connection_poll_result (fold (remember_cancelled_operation (nh_id (ns_handle s))) ws c') operation
    max_events timeout_ms s' script = Some (Inl would_block, s', script)"
proof -
  let ?sid = "nh_id (ns_handle s)"
  let ?c = "fold (remember_cancelled_operation ?sid) ws c'"
  have c': "ncc_cancelled_operations c' ?sid =
      remember_suppressed (nro_operation_id operation) (ncc_cancelled_operations c ?sid)"
    "connection_ensure_open c' = Inr ()" "ns_handle s' = ns_handle s"
    using assms(1,2)
    by (auto simp: connection_cancel_operation_def operation_cancel_def cancel_frame_def Let_def
        forget_operation_frame_by_frame_def remember_cancelled_operation_def
        remember_cancelled_frame_def connection_ensure_open_def split: sum.splits prod.splits if_splits)
  have "nro_operation_id operation \<in> set (ncc_cancelled_operations ?c ?sid)" "connection_ensure_open ?c = Inr ()"
    using suppressed_until_evicted [OF assms(3-5)] remember_operations [of ?sid ws c'] c' by auto
  then show ?thesis using c'(3) by (simp add: connection_poll_result_def is_cancelled_result_def)
qed

section \<open>Scopes\<close>

text \<open>A scope left by an exception cancels its operation, once however often it is closed.\<close>

lemma scope_exit_once:
  assumes "scope_exit lib raised sc s = (Inr (), calls, sc', s')" "\<not> osc_closed sc"
  shows "calls = (if raised \<and> osc_cancel_on_error sc
      then [cancel_call_of (ns_handle s) (nro_frame_id (osc_operation sc))] else []) \<and>
    scope_close lib again sc' s' = (Inr (), [], sc', s')"
  using assms
  by (auto simp: scope_exit_def scope_close_def operation_cancel_def cancel_frame_def Let_def
      split: if_splits sum.splits prod.splits)

text \<open>After a session that cannot be closed, the sessions opened before it stay open.\<close>

lemma close_stops:
  assumes "\<not> ns_closed s" "\<not> status_succeeded (lib (ns_handle s))"
  shows "close_sessions lib (s # ss) = (Inl (status_exception (lib (ns_handle s))), [ns_handle s])"
  using assms by (simp add: close_session_def raise_for_native_status_def)

end
