(* ===== verification/Server_Polling.thy ===== *)
theory Server_Polling
  imports Native_Server
begin

text \<open>
  No event is lost by a server session, and the frames it sends follow the contract of
  \<open>frame_sender\<close>.  The classes of server events are submits, runtime frames and lifecycle events.
\<close>

section \<open>Classes and replies\<close>

definition server_class :: "NativeServerEvent \<Rightarrow> bool \<times> bool" where
  "server_class e = (as_submit e \<noteq> None, as_runtime e \<noteq> None)"

lemma by_server_class:
  "by_class server_class is_server_runtime" "by_class server_class (\<lambda>e. as_submit e \<noteq> None)"
  by (auto simp: by_class_def server_class_def is_server_runtime_def)

definition server_reply_events :: "poll_reply \<Rightarrow> NativeServerEvent list nres" where
  "server_reply_events reply = bind_nat (reply_events reply) (map_nat server_event)"

abbreviation server_conserves where
  "server_conserves \<equiv> conserves server_class nss_pending server_reply_events"

lemmas server_one = conserves_one [where reply_events = server_reply_events and pend = nss_pending and cls = server_class]
lemmas server_none = conserves_none [where reply_events = server_reply_events and pend = nss_pending and cls = server_class]

lemma observe_server_pending [simp]: "nss_pending (observe_server_event v s) = nss_pending s"
  by (simp add: observe_server_event_def server_remember_def split: NativeServerEvent.split)

lemma server_events_from_pending:
  "server_events_from es s = (r, s') \<Longrightarrow> nss_pending s' = nss_pending s \<and> r = map_nat server_event es"
proof (induction es arbitrary: s r)
  case (Cons e es)
  then show ?case
    by (fastforce split: sum.splits prod.splits)
qed simp

lemma poll_server_events_reply:
  assumes "poll_server_events s script = Some (Inr events, s', script')"
  shows "\<exists>reply. script = reply # script' \<and> server_reply_events reply = Inr events \<and>
    nss_pending s' = nss_pending s"
  using assms server_events_from_pending [of _ s]
  by (fastforce simp: poll_server_events_def server_reply_events_def reply_events_def
      split: list.splits if_splits sum.splits prod.splits)

section \<open>The methods\<close>

lemma server_poll_events_conserves:
  assumes "server_poll_events max_events timeout_ms s script = Some (Inr events, s', script')"
  shows "server_conserves s script events s' script'"
proof -
  let ?n = "nat max_events" and ?p = "nss_pending s"
  have args: "0 \<le> max_events"
    using assms by (auto simp: server_poll_events_def require_bounded_integer_def bind_nat_def
        split: sum.splits if_splits)
  have drop: "drop (length (take ?n ?p)) ?p = drop ?n ?p" by (simp add: min_def)
  have split: "of_class server_class c (take ?n ?p) @ of_class server_class c (drop ?n ?p) = of_class server_class c ?p" for c
    by (simp flip: filter_append)
  consider (none) "max_events = 0" | (full) "max_events \<noteq> 0" "max_events - len (take ?n ?p) = 0"
    | (poll) "max_events \<noteq> 0" "max_events - len (take ?n ?p) \<noteq> 0" by blast
  then show ?thesis
  proof cases
    case none
    then show ?thesis using assms
      by (auto simp: server_poll_events_def intro: server_none split: sum.splits)
  next
    case full
    then have "events = take ?n ?p" "nss_pending s' = drop ?n ?p" "script' = script"
      using assms by (auto simp: server_poll_events_def Let_def drop split: sum.splits)
    then show ?thesis using split by (auto intro: server_none)
  next
    case poll
    then obtain polled where p: "poll_server_events (s\<lparr>nss_pending := drop ?n ?p\<rparr>) script = Some (Inr polled, s', script')"
      "events = take ?n ?p @ polled"
      using assms by (auto simp: server_poll_events_def Let_def drop res_simps split: sum.splits option.splits)
    have "drop ?n ?p = []" using poll args by (auto simp: min_def split: if_splits)
    from poll_server_events_reply [OF p(1)] obtain reply where "script = reply # script'"
      "server_reply_events reply = Inr polled" "nss_pending s' = []"
      using \<open>drop ?n ?p = []\<close> by auto
    then show ?thesis
      using p(2) split \<open>drop ?n ?p = []\<close> by (auto intro!: server_one)
  qed
qed

lemma server_poll_runtime_frames_conserves:
  assumes "server_poll_runtime_frames max_events timeout_ms s script = Some (Inr events, s', script')"
  shows "server_conserves s script events s' script'"
proof (cases "max_events = 0")
  case True
  then show ?thesis
    using assms by (auto simp: server_poll_runtime_frames_def intro: server_none split: sum.splits)
next
  case False
  obtain frames retained where t: "split_events is_server_runtime (Some max_events) 0 (nss_pending s) = (frames, retained)"
    by fastforce
  have pending: "of_class server_class c frames @ of_class server_class c retained =
      of_class server_class c (nss_pending s)" for c
    by (rule split_class [OF by_server_class(1) t])
  show ?thesis
  proof (cases "len frames = max_events")
    case True
    have "Some (Inr frames :: NativeServerEvent list nres, s\<lparr>nss_pending := retained\<rparr>, script) = Some (Inr events, s', script')"
      using assms False True t
      by (auto simp: server_poll_runtime_frames_def Let_def split: sum.splits)
    then show ?thesis using pending by (auto intro: server_none)
  next
    case unfilled: False
    obtain polled s1 where p: "poll_server_events (s\<lparr>nss_pending := retained\<rparr>) script = Some (Inr polled, s1, script')"
      and r: "events = frames @ fst (split_events is_server_runtime (Some max_events) (len frames) polled)"
        "s' = s1\<lparr>nss_pending := nss_pending s1 @ snd (split_events is_server_runtime (Some max_events) (len frames) polled)\<rparr>"
      using assms False unfilled t
      by (auto simp: server_poll_runtime_frames_def Let_def split: sum.splits option.splits prod.splits)
    obtain matching other where m: "split_events is_server_runtime (Some max_events) (len frames) polled = (matching, other)"
      by fastforce
    have len: "len frames < max_events"
      using split_at_most [OF t] unfilled assms
      by (auto simp: server_poll_runtime_frames_def require_bounded_integer_def bind_nat_def
          split: sum.splits if_splits)
    have "\<not> is_server_runtime e" if "e \<in> set retained" for e
      using split_retained [OF t _ that] len by (simp add: below_def)
    note two = split_twice [OF by_server_class(1) this m, where events = frames]
    obtain reply where reply: "script = reply # script'" "server_reply_events reply = Inr polled"
      "nss_pending s1 = retained"
      using poll_server_events_reply [OF p] by auto
    have "nss_pending s' = retained @ other" "events = frames @ matching"
      using r m reply(3) by simp_all
    then show ?thesis
      unfolding reply(1) using two pending by (intro server_one [OF reply(2)]) metis
  qed
qed

definition option_list :: "'a option \<Rightarrow> 'a list" where
  "option_list m = (case m of None \<Rightarrow> [] | Some x \<Rightarrow> [x])"

lemma option_list_simps [simp]: "option_list None = []" "option_list (Some x) = [x]"
  by (simp_all add: option_list_def)

lemma next_event_loop_conserves:
  "next_event_loop turns s script = Some (Inr m, s', script') \<Longrightarrow>
    server_conserves s script (option_list m) s' script'"
proof (induction turns s script rule: next_event_loop.induct)
  case (2 expired turns s script)
  show ?case
  proof (cases "nss_pending s")
    case (Cons e es)
    then show ?thesis using "2.prems" by (auto intro!: server_none)
  next
    case Nil
    then obtain events s1 script1 where p: "poll_server_events s script = Some (Inr events, s1, script1)"
      using "2.prems" by (auto split: option.splits sum.splits)
    obtain reply where reply: "script = reply # script1" "server_reply_events reply = Inr events"
      "nss_pending s1 = []"
      using poll_server_events_reply [OF p] Nil by auto
    show ?thesis
    proof (cases events)
      case (Cons e es)
      then show ?thesis
        using "2.prems" p Nil reply by (auto intro!: server_one)
    next
      case none: Nil
      have step: "server_conserves s script [] s1 script1"
        unfolding reply(1) by (rule server_one [OF reply(2)]) (simp add: none reply(3) Nil)
      show ?thesis
      proof (cases expired)
        case True
        then show ?thesis using "2.prems" p Nil none reply(3) step by auto
      next
        case False
        then have "next_event_loop turns s1 script1 = Some (Inr m, s', script')"
          using "2.prems" p Nil none reply(3) by simp
        then have "server_conserves s1 script1 (option_list m) s' script'"
          using "2.IH" [OF Nil p refl refl refl _ False] none reply(3) by simp
        from conserves_trans [OF step this] show ?thesis by simp
      qed
    qed
  qed
qed simp

lemma take_pending_submit_some:
  "take_pending_submit es = Some (p, es') \<Longrightarrow>
    \<exists>a b. es = a @ ServerSubmit p # b \<and> es' = a @ b \<and> (\<forall>x \<in> set a. as_submit x = None)"
proof (induction es arbitrary: es')
  case (Cons e es)
  show ?case
  proof (cases "as_submit e")
    case (Some q)
    then have "e = ServerSubmit p" "es' = es" using Cons.prems by (cases e; auto)+
    then show ?thesis by (intro exI [of _ "[]"] exI [of _ es]) simp
  next
    case None
    then obtain es2 where es2: "take_pending_submit es = Some (p, es2)" "es' = e # es2"
      using Cons.prems by auto
    from Cons.IH [OF es2(1)] obtain a b where "es = a @ ServerSubmit p # b" "es2 = a @ b"
      "\<forall>x \<in> set a. as_submit x = None" by blast
    then show ?thesis using None es2(2) by (intro exI [of _ "e # a"] exI [of _ b]) simp
  qed
qed simp

lemma take_pending_submit_class:
  assumes "take_pending_submit es = Some (p, es')"
  shows "of_class server_class c [ServerSubmit p] @ of_class server_class c es' = of_class server_class c es"
proof -
  obtain a b where "es = a @ ServerSubmit p # b" "es' = a @ b" "\<forall>x \<in> set a. as_submit x = None"
    using take_pending_submit_some [OF assms] by blast
  then show ?thesis
    using first_of_class [OF by_server_class(2), of a True "ServerSubmit p" c b] by simp
qed

lemma receive_submit_loop_conserves:
  "receive_submit_loop turns s script = Some (Inr m, s', script') \<Longrightarrow>
    server_conserves s script (map ServerSubmit (option_list m)) s' script'"
proof (induction turns s script rule: receive_submit_loop.induct)
  case (2 expired turns s script)
  show ?case
  proof (cases "take_pending_submit (nss_pending s)")
    case (Some q)
    obtain p es where "q = (p, es)" by (cases q)
    then show ?thesis
      using "2.prems" Some take_pending_submit_class [of "nss_pending s" p es]
      by (auto intro!: server_none simp del: filter.simps filter_append)
  next
    case None
    then obtain events s1 script1 where p: "poll_server_events s script = Some (Inr events, s1, script1)"
      using "2.prems" by (auto split: option.splits sum.splits)
    obtain reply where reply: "script = reply # script1" "server_reply_events reply = Inr events"
      "nss_pending s1 = nss_pending s"
      using poll_server_events_reply [OF p] by auto
    let ?s = "s1\<lparr>nss_pending := nss_pending s1 @ events\<rparr>"
    show ?thesis
    proof (cases "take_pending_submit (nss_pending ?s)")
      case (Some q)
      obtain r es where q: "q = (r, es)" by (cases q)
      have eqs: "m = Some r" "s' = ?s\<lparr>nss_pending := es\<rparr>" "script' = script1"
        using "2.prems" None p Some q by (auto simp: Let_def)
      have "of_class server_class c [ServerSubmit r] @ of_class server_class c es =
          of_class server_class c (nss_pending s) @ of_class server_class c events" for c
        using take_pending_submit_class [OF Some [unfolded q], of c] reply(3)
        by (simp del: filter.simps)
      then show ?thesis
        unfolding eqs reply(1) by (intro server_one [OF reply(2)]) simp
    next
      case none: None
      have step: "server_conserves s script [] ?s script1"
        unfolding reply(1) by (rule server_one [OF reply(2)]) (simp add: reply(3))
      show ?thesis
      proof (cases expired)
        case True
        then show ?thesis using "2.prems" p None none step by (auto simp: Let_def)
      next
        case False
        then have "receive_submit_loop turns ?s script1 = Some (Inr m, s', script')"
          using "2.prems" p None none by (simp add: Let_def)
        then have "server_conserves ?s script1 (map ServerSubmit (option_list m)) s' script'"
          using "2.IH" [OF None p refl refl refl refl none False] by simp
        from conserves_trans [OF step this] show ?thesis by simp
      qed
    qed
  qed
qed simp

section \<open>Any sequence of calls\<close>

text \<open>The events a call hands out; a deadline that passes hands out nothing.\<close>

datatype server_call =
    ServerPoll int int
  | ServerFrames int int
  | ServerNext "bool list"
  | ServerReceive "bool list"

fun server_step :: "server_call \<Rightarrow> (NativeRuntimeServerSession, poll_reply, NativeServerEvent list) reading" where
  "server_step (ServerPoll n timeout_ms) s script = server_poll_events n timeout_ms s script"
| "server_step (ServerFrames n timeout_ms) s script = server_poll_runtime_frames n timeout_ms s script"
| "server_step (ServerNext turns) s script =
     (case server_ensure_open s of
        Inl err \<Rightarrow> Some (Inl err, s, script)
      | Inr _ \<Rightarrow> map_option (\<lambda>(r, s, script). (map_sum id option_list r, s, script)) (next_event_loop turns s script))"
| "server_step (ServerReceive turns) s script =
     (case server_ensure_open s of
        Inl err \<Rightarrow> Some (Inl err, s, script)
      | Inr _ \<Rightarrow> map_option (\<lambda>(r, s, script). (map_sum id (map ServerSubmit \<circ> option_list) r, s, script))
          (receive_submit_loop turns s script))"

lemma map_sum_Inr: "map_sum id f r = Inr y \<longleftrightarrow> (\<exists>x. r = Inr x \<and> y = f x)"
  by (cases r) auto

interpretation server_polls: lossless server_class nss_pending server_reply_events server_step
proof unfold_locales
  fix c s script es s' script'
  assume step: "server_step c s script = Some (Inr es, s', script')"
  show "server_conserves s script es s' script'"
    using step server_poll_events_conserves server_poll_runtime_frames_conserves
      next_event_loop_conserves receive_submit_loop_conserves
    by (cases c) (auto simp: map_sum_Inr split: sum.splits)
qed

section \<open>Frames\<close>

definition server_send ::
    "(frame_call \<Rightarrow> NativeStatus) \<Rightarrow> frame_request \<Rightarrow> NativeRuntimeServerSession
      \<Rightarrow> unit nres \<times> frame_call list \<times> NativeRuntimeServerSession" where
  "server_send lib r = server_send_runtime_frame lib (frq_type r) (frq_metadata r) (frq_tail r) (frq_frame_id r)"

lemma server_send_error:
  "server_send_runtime_frame lib mt metadata tail frame_id s = (Inl err, calls, s') \<Longrightarrow> s' = s"
  by (auto simp: server_send_runtime_frame_def Let_def split: sum.splits prod.splits)

lemma server_send_sent:
  assumes "server_send_runtime_frame lib mt metadata tail frame_id s = (Inr u, calls, s')"
  shows "\<exists>payload f. encode_native_runtime_frame mt metadata tail = Inr payload \<and>
    (case frame_id of None \<Rightarrow> server_frame_id mt metadata s | Some f \<Rightarrow> Inr f) = Inr f \<and>
    calls = [frame_call_of (nss_handle s) mt f payload] \<and>
    nss_next_frame_id s' = (if frame_id = None \<and> runtime_operation_id mt metadata = None
      then following_frame_id f else nss_next_frame_id s)"
  using assms
  by (auto simp: server_send_runtime_frame_def Let_def res_simps split: sum.splits prod.splits if_splits)

lemma server_send_call:
  assumes "c \<in> set (fst (snd (server_send_runtime_frame lib mt metadata tail frame_id s)))"
  shows "\<exists>payload f. (case frame_id of None \<Rightarrow> server_frame_id mt metadata s | Some f \<Rightarrow> Inr f) = Inr f \<and>
    c = frame_call_of (nss_handle s) mt f payload"
  using assms
  by (auto simp: server_send_runtime_frame_def Let_def res_simps split: sum.splits prod.splits)

interpretation server_frames: frame_sender nss_next_frame_id nss_operation_frames "server_send lib" for lib
proof unfold_locales
  fix r err calls and s s' :: NativeRuntimeServerSession
  show "server_send lib r s = (Inl err, calls, s') \<Longrightarrow> s' = s"
    unfolding server_send_def by (rule server_send_error)
next
  fix r u calls and s s' :: NativeRuntimeServerSession
  assume "server_send lib r s = (Inr u, calls, s')" "automatic r"
  then show "(\<exists>c. calls = [c] \<and> frc_frame_id c = nss_next_frame_id s mod 2 ^ 32) \<and>
      nss_next_frame_id s' = following_frame_id (nss_next_frame_id s)"
    unfolding server_send_def by (auto dest!: server_send_sent simp: server_frame_id_def frame_call_of_def)
next
  fix r u calls and s s' :: NativeRuntimeServerSession
  assume "server_send lib r s = (Inr u, calls, s')" "\<not> automatic r"
  then show "nss_next_frame_id s' = nss_next_frame_id s"
    unfolding server_send_def by (auto dest!: server_send_sent)
next
  fix r :: frame_request and i and s :: NativeRuntimeServerSession
  assume r: "frq_frame_id r = None" "runtime_operation_id (frq_type r) (frq_metadata r) = Some i" "i \<noteq> 0"
  show "case nss_operation_frames s i of
      None \<Rightarrow> fst (snd (server_send lib r s)) = [] \<and> (\<exists>err. fst (server_send lib r s) = Inl err)
    | Some f \<Rightarrow> \<forall>c \<in> set (fst (snd (server_send lib r s))). frc_frame_id c = f mod 2 ^ 32"
  proof (cases "nss_operation_frames s i")
    case None
    then have "server_frame_id (frq_type r) (frq_metadata r) s = invalid_state"
      using r by (simp add: server_frame_id_def)
    then show ?thesis
      using None r(1)
      by (auto simp: server_send_def server_send_runtime_frame_def bind_nat_def invalid_state_def split: sum.splits)
  next
    case (Some f)
    then show ?thesis
      using r by (auto dest!: server_send_call simp: server_send_def server_frame_id_def frame_call_of_def)
  qed
qed

end
