(* ===== verification/Native_Samples.thy ===== *)
theory Native_Samples
  imports Server_Polling Client_Connection Native_Accept Route_Correctness Session_Samples
begin

text \<open>
  Small native values for the witnesses: a session, an operation of it, an event that ends that
  operation, an event of nobody, a reply with both, and a control request.
\<close>

definition native_handle :: "int \<Rightarrow> int \<Rightarrow> NativeHandle" where
  "native_handle kind i = \<lparr>nh_kind = kind, nh_id = i, nh_generation = 1, nh_flags = 0\<rparr>"

definition sample_native_session :: NativeRuntimeSession where
  "sample_native_session = new_session (native_handle KIND_SESSION 5)"

definition sample_operation :: NativeRuntimeOperation where
  "sample_operation =
     \<lparr>nro_session = native_handle KIND_SESSION 5, nro_handle = native_handle KIND_OPERATION 6,
      nro_operation_id = 7, nro_frame_id = 4,
      nro_scheduling_hint = \<lparr>nsh_parent_operation_id = None, nsh_operation_group_id = None,
        nsh_deadline_ms = None\<rparr>\<rparr>"

definition sample_event :: "int \<Rightarrow> int \<Rightarrow> ffi_event" where
  "sample_event kind operation_id =
     \<lparr>fe_kind = kind, fe_connection = invalid_handle, fe_session = native_handle KIND_SESSION 5,
      fe_operation = invalid_handle,
      fe_diagnostic = diagnostic_ok\<lparr>nrd_related_operation_id := operation_id\<rparr>,
      fe_payload = Some [], fe_release = None, fe_present = 0, fe_message_type = 0, fe_flags = 0,
      fe_session_id = 0, fe_frame_id = 0, fe_view_id = 0, fe_route_id = 0, fe_trace_id = 0,
      fe_version_major = 0, fe_wire_format = 0\<rparr>"

definition sample_reply :: poll_reply where
  "sample_reply = \<lparr>pl_status = native_status_ok,
     pl_events = [sample_event 9 0, sample_event EVENT_RESULT_PUSHED 7]\<rparr>"

definition busy_reply :: poll_reply where
  "busy_reply = \<lparr>pl_status = status_of FFI_STATUS_WOULD_BLOCK, pl_events = []\<rparr>"

definition patient_turn :: wait_turn where
  "patient_turn = \<lparr>wt_cancelled_before = False, wt_timeout_ms = 5, wt_cancelled_after = False,
     wt_before_deadline = True\<rparr>"

definition sample_ticket :: NativeSessionRecoveryTicket where
  "sample_ticket = \<lparr>srtk_session_id = 9, srtk_resume_token = [1, 2, 3],
     srtk_resume_from_operation_id = Some 7, srtk_resume_window_ms = 5000\<rparr>"

definition sample_invalidation :: frame_request where
  "sample_invalidation = \<lparr>frq_type = MT_CACHE_INVALIDATE,
     frq_metadata = CacheInvalidateV \<lparr>cim_invalidate_scope = CIS_WHOLE_SESSION, cim_cache_namespace = 1,
       cim_cache_key_hi = 0, cim_cache_key_lo = 0, cim_reason_code = 0\<rparr>,
     frq_tail = [], frq_frame_id = None\<rparr>"

definition accepted_event :: ffi_event where
  "accepted_event = (sample_event 14 7)\<lparr>fe_payload := Some [0]\<rparr>"

definition sample_binding :: NativeTransportBinding where
  "sample_binding = \<lparr>ntb_provider = example_tcp, ntb_local_available = True, ntb_diagnostic = None\<rparr>"

definition sample_carrier :: "string \<Rightarrow> NativeTransportEndpoint option" where
  "sample_carrier scheme = Some \<lparr>nte_uri = scheme @ ''://h:4433'', nte_transport_name = ''tcp'', nte_secure = False\<rparr>"

definition sample_endpoint :: NnrpEndpoint where
  "sample_endpoint = \<lparr>nep_uri = ''nnrps://h'', nep_secure = True\<rparr>"

definition sample_routes :: "(string \<times> unit provider_route) list" where
  "sample_routes = [(''tcp'', \<lparr>prv_provider_endpoint = None, prv_security = Some ()\<rparr>)]"

definition sample_runtime_server :: NativeRuntimeServer where
  "sample_runtime_server = \<lparr>nrs_handle = native_handle KIND_CONNECTION 3, nrs_closed = False,
     nrs_ticket = None, nrs_session_handle_id = None, nrs_generation = None\<rparr>"

text \<open>A library that has begun an accept and has no session yet.\<close>

definition waiting_accept :: accept_reply where
  "waiting_accept = \<lparr>acr_begin = (native_status_ok, native_handle KIND_SERVER_ACCEPT 8),
     acr_wait = status_of FFI_STATUS_WOULD_BLOCK,
     acr_claim = (native_status_ok, native_handle KIND_SESSION 1, 1)\<rparr>"

definition quiet_library :: server_library where
  "quiet_library = \<lparr>slb_release = (\<lambda>_. native_status_ok), slb_close_connection = (\<lambda>_. native_status_ok),
     slb_close_session = (\<lambda>_. native_status_ok), slb_close_dispatcher = (\<lambda>_. Inr ())\<rparr>"

end
