(* ===== verification/Policy_Dispatcher.thy ===== *)
theory Policy_Dispatcher
  imports Native_Accept Client_Dial "HOL-Library.Multiset"
begin

text \<open>
  \<open>_NativeServerPolicyDispatcher\<close>: the library asks for a decision on every session a client wants
  to open; the callback hands the request to an executor, whose workers evaluate the policy of the
  application and complete the request.  \<open>close\<close> refuses new requests and waits for the workers.

  The callback, the workers and the callers of \<open>close\<close> are threads; a stretch of code that holds the
  lock, and the evaluation of one request with its library call, is one step.
\<close>

section \<open>One request\<close>

record policy_decision =
  pdc_accepted :: bool
  pdc_session_error_code :: int
  pdc_diagnostic :: bytes

type_synonym application_policy = "SessionOpenMetadata \<Rightarrow> (bool \<times> int \<times> pystr option) option"

abbreviation (input) SESSION_ERROR_LIMIT_REACHED :: int where "SESSION_ERROR_LIMIT_REACHED \<equiv> 0x00010007"

definition failed_evaluation :: "bool \<times> int \<times> pystr option" where
  "failed_evaluation =
     (False, SESSION_ERROR_LIMIT_REACHED, Some (map (int \<circ> of_char) ''application policy evaluation failed''))"

text \<open>
  The decision that is sent.  A policy that raises is \<open>None\<close>; the diagnostic is encoded outside the
  \<open>try\<close>, so that one with a surrogate raises.
\<close>

definition evaluate_policy :: "application_policy \<Rightarrow> bytes \<Rightarrow> policy_decision res" where
  "evaluate_policy policy encoded =
     (case (case SessionOpenMetadata_unpack encoded of
              Inl _ \<Rightarrow> failed_evaluation
            | Inr open_metadata \<Rightarrow>
                (case policy open_metadata of None \<Rightarrow> failed_evaluation | Some answer \<Rightarrow> answer)) of
        (accepted, session_error_code, diagnostic) \<Rightarrow>
          bind_res (case diagnostic of None \<Rightarrow> Inr [] | Some text \<Rightarrow> utf8_encode text) (\<lambda>encoded_diagnostic.
            Inr \<lparr>pdc_accepted = accepted, pdc_session_error_code = session_error_code mod 2 ^ 32,
                 pdc_diagnostic = encoded_diagnostic\<rparr>))"

section \<open>The dispatcher\<close>

text \<open>
  A task is a future: \<open>ptk_result\<close> is what its worker returned or raised, \<open>ptk_callback\<close> says whether
  \<open>_on_complete\<close> was added to it, \<open>ptk_noted\<close> whether that has run.  A task that is not noted is in
  \<open>_futures\<close>.  \<open>Closing\<close> has the futures \<open>close\<close> saw; \<open>pds_completions\<close> are the calls of the library.
\<close>

record policy_task =
  ptk_request :: int
  ptk_metadata :: bytes
  ptk_result :: "unit nres option"
  ptk_callback :: bool
  ptk_noted :: bool

datatype policy_close = NotClosed | Closing "nat list" | CloseReturned "unit nres"

record policy_dispatcher =
  pds_tasks :: "policy_task list"
  pds_first_error :: "native_exn option"
  pds_close :: policy_close
  pds_completions :: "(int \<times> policy_decision \<times> NativeStatus) list"

definition new_policy_dispatcher :: policy_dispatcher where
  "new_policy_dispatcher = \<lparr>pds_tasks = [], pds_first_error = None, pds_close = NotClosed, pds_completions = []\<rparr>"

definition set_task :: "nat \<Rightarrow> (policy_task \<Rightarrow> policy_task) \<Rightarrow> policy_dispatcher \<Rightarrow> policy_dispatcher" where
  "set_task i f s = s\<lparr>pds_tasks := (pds_tasks s)[i := f (pds_tasks s ! i)]\<rparr>"

text \<open>
  \<open>_begin\<close> up to the release of the lock.  \<open>metadata\<close> is \<open>None\<close> if the view cannot be copied,
  \<open>submits\<close> is false if the executor raises.
\<close>

definition policy_begin :: "int \<Rightarrow> bytes option \<Rightarrow> bool \<Rightarrow> policy_dispatcher \<Rightarrow> int \<times> policy_dispatcher" where
  "policy_begin request_id metadata submits s =
     (case metadata of
        None \<Rightarrow> (FFI_STATUS_CALLBACK_REJECTED, s)
      | Some encoded_metadata \<Rightarrow>
          if pds_close s \<noteq> NotClosed then (FFI_STATUS_CALLBACK_REJECTED, s)
          else if \<not> submits then (FFI_STATUS_CALLBACK_REJECTED, s)
          else (FFI_STATUS_OK, s\<lparr>pds_tasks := pds_tasks s @
                 [\<lparr>ptk_request = request_id, ptk_metadata = encoded_metadata, ptk_result = None,
                   ptk_callback = False, ptk_noted = False\<rparr>]\<rparr>))"

definition add_done_callback :: "nat \<Rightarrow> policy_dispatcher \<Rightarrow> policy_dispatcher" where
  "add_done_callback i = set_task i (\<lambda>t. t\<lparr>ptk_callback := True\<rparr>)"

definition evaluate_and_complete ::
    "application_policy \<Rightarrow> NativeStatus \<Rightarrow> nat \<Rightarrow> policy_dispatcher \<Rightarrow> policy_dispatcher" where
  "evaluate_and_complete policy status i s =
     (case evaluate_policy policy (ptk_metadata (pds_tasks s ! i)) of
        Inl err \<Rightarrow> set_task i (\<lambda>t. t\<lparr>ptk_result := Some (Inl (Raised err))\<rparr>) s
      | Inr decision \<Rightarrow>
          (set_task i (\<lambda>t. t\<lparr>ptk_result := Some (raise_for_native_status status)\<rparr>) s)
            \<lparr>pds_completions := pds_completions s @ [(ptk_request (pds_tasks s ! i), decision, status)]\<rparr>)"

definition error_of :: "unit nres option \<Rightarrow> native_exn option" where
  "error_of r = (case r of Some (Inl err) \<Rightarrow> Some err | _ \<Rightarrow> None)"

definition either_error :: "native_exn option \<Rightarrow> native_exn option \<Rightarrow> native_exn option" where
  "either_error e e' = (case e of None \<Rightarrow> e' | Some err \<Rightarrow> Some err)"

definition policy_on_complete :: "nat \<Rightarrow> policy_dispatcher \<Rightarrow> policy_dispatcher" where
  "policy_on_complete i s =
     (set_task i (\<lambda>t. t\<lparr>ptk_noted := True\<rparr>) s)
       \<lparr>pds_first_error := either_error (pds_first_error s) (error_of (ptk_result (pds_tasks s ! i)))\<rparr>"

text \<open>\<open>close\<close> before and after it waits for the workers; only the first caller goes on.\<close>

definition policy_close_begin :: "policy_dispatcher \<Rightarrow> policy_dispatcher" where
  "policy_close_begin s =
     (if pds_close s \<noteq> NotClosed then s
      else s\<lparr>pds_close := Closing [i \<leftarrow> [0..<length (pds_tasks s)]. \<not> ptk_noted (pds_tasks s ! i)]\<rparr>)"

definition policy_close_end :: "nat list \<Rightarrow> policy_dispatcher \<Rightarrow> policy_dispatcher" where
  "policy_close_end futures s =
     (let completion_error =
            foldl (\<lambda>e i. either_error e (error_of (ptk_result (pds_tasks s ! i)))) None futures
      in s\<lparr>pds_close := CloseReturned
            (case either_error (pds_first_error s) completion_error of None \<Rightarrow> Inr () | Some err \<Rightarrow> Inl err)\<rparr>)"

text \<open>
  The futures are a set, which \<open>close\<close> goes through in any order.  The workers have ended when every
  task has its result.
\<close>

inductive policy_step :: "application_policy \<Rightarrow> policy_dispatcher \<Rightarrow> policy_dispatcher \<Rightarrow> bool"
  for policy where
  begins: "policy_step policy s (snd (policy_begin request_id metadata submits s))"
| adds: "i < length (pds_tasks s) \<Longrightarrow> policy_step policy s (add_done_callback i s)"
| evaluates: "i < length (pds_tasks s) \<Longrightarrow> ptk_result (pds_tasks s ! i) = None \<Longrightarrow>
    policy_step policy s (evaluate_and_complete policy status i s)"
| marks: "i < length (pds_tasks s) \<Longrightarrow> ptk_result (pds_tasks s ! i) \<noteq> None \<Longrightarrow>
    ptk_callback (pds_tasks s ! i) \<Longrightarrow> \<not> ptk_noted (pds_tasks s ! i) \<Longrightarrow>
    policy_step policy s (policy_on_complete i s)"
| closes: "policy_step policy s (policy_close_begin s)"
| returns: "pds_close s = Closing seen \<Longrightarrow> set futures = set seen \<Longrightarrow> distinct futures \<Longrightarrow>
    \<forall>t \<in> set (pds_tasks s). ptk_result t \<noteq> None \<Longrightarrow>
    policy_step policy s (policy_close_end futures s)"

definition policy_reachable :: "application_policy \<Rightarrow> policy_dispatcher \<Rightarrow> bool" where
  "policy_reachable policy = (policy_step policy)\<^sup>*\<^sup>* new_policy_dispatcher"

section \<open>The invariant\<close>

text \<open>
  What the library has to be told about a task: nothing while it has no result and if its decision
  cannot be encoded, else the decision, whose call gave the result of the task.
\<close>

definition task_call ::
    "application_policy \<Rightarrow> policy_task \<Rightarrow> (int \<times> policy_decision \<times> unit nres) multiset" where
  "task_call policy t =
     (case (ptk_result t, evaluate_policy policy (ptk_metadata t)) of
        (Some r, Inr decision) \<Rightarrow> {#(ptk_request t, decision, r)#} | _ \<Rightarrow> {#})"

lemma task_call_update [simp]:
  "task_call policy (t\<lparr>ptk_noted := b\<rparr>) = task_call policy t"
  "task_call policy (t\<lparr>ptk_callback := b\<rparr>) = task_call policy t"
  by (simp_all add: task_call_def split: option.split sum.split)

lemma in_task_call:
  "(q, d, r) \<in># task_call policy t \<longleftrightarrow> ptk_request t = q \<and>
    evaluate_policy policy (ptk_metadata t) = Inr d \<and> ptk_result t = Some r"
  by (cases "ptk_result t"; cases "evaluate_policy policy (ptk_metadata t)") (auto simp: task_call_def)

definition task_failed :: "policy_task \<Rightarrow> bool" where
  "task_failed t \<longleftrightarrow> error_of (ptk_result t) \<noteq> None"

lemma task_failed_iff: "task_failed t \<longleftrightarrow> (\<exists>err. ptk_result t = Some (Inl err))"
  by (auto simp: task_failed_def error_of_def split: option.splits sum.splits)

fun close_inv :: "policy_dispatcher \<Rightarrow> policy_close \<Rightarrow> bool" where
  "close_inv s NotClosed \<longleftrightarrow> True"
| "close_inv s (Closing seen) \<longleftrightarrow> (\<forall>i \<in> set seen. i < length (pds_tasks s)) \<and>
     (\<forall>i < length (pds_tasks s). i \<notin> set seen \<longrightarrow> ptk_noted (pds_tasks s ! i))"
| "close_inv s (CloseReturned r) \<longleftrightarrow> (\<forall>i < length (pds_tasks s). ptk_result (pds_tasks s ! i) \<noteq> None) \<and>
     (r = Inr () \<longleftrightarrow> (\<forall>i < length (pds_tasks s). \<not> task_failed (pds_tasks s ! i)))"

definition policy_inv :: "application_policy \<Rightarrow> policy_dispatcher \<Rightarrow> bool" where
  "policy_inv policy s \<longleftrightarrow>
     mset (map (\<lambda>(q, d, st). (q, d, raise_for_native_status st)) (pds_completions s)) =
       sum_list (map (task_call policy) (pds_tasks s)) \<and>
     (\<forall>i < length (pds_tasks s).
        (ptk_noted (pds_tasks s ! i) \<longrightarrow> ptk_result (pds_tasks s ! i) \<noteq> None) \<and>
        (ptk_noted (pds_tasks s ! i) \<longrightarrow> task_failed (pds_tasks s ! i) \<longrightarrow> pds_first_error s \<noteq> None) \<and>
        (ptk_result (pds_tasks s ! i) = Some (Inr ()) \<longrightarrow>
           (\<exists>d. evaluate_policy policy (ptk_metadata (pds_tasks s ! i)) = Inr d))) \<and>
     (pds_first_error s \<noteq> None \<longrightarrow> (\<exists>i < length (pds_tasks s). task_failed (pds_tasks s ! i))) \<and>
     close_inv s (pds_close s)"

lemma sum_list_update:
  fixes f :: "'a \<Rightarrow> 'b::comm_monoid_add"
  assumes "i < length xs"
  shows "sum_list (map f (xs[i := y])) + f (xs ! i) = sum_list (map f xs) + f y"
  using assms
proof (induction xs arbitrary: i)
  case (Cons x xs)
  show ?case
  proof (cases i)
    case (Suc j)
    then have "sum_list (map f (xs[j := y])) + f (xs ! j) = sum_list (map f xs) + f y"
      using Cons by simp
    then show ?thesis using Suc by (simp add: add.assoc)
  qed (simp add: ac_simps)
qed simp

lemma sum_list_same:
  fixes f :: "'a \<Rightarrow> 'b::cancel_comm_monoid_add"
  shows "i < length xs \<Longrightarrow> f y = f (xs ! i) \<Longrightarrow> sum_list (map f (xs[i := y])) = sum_list (map f xs)"
  using sum_list_update [of i xs f y] by simp

lemma set_mset_sum_list: "set_mset (sum_list ms) = \<Union> (set_mset ` set ms)"
  by (induction ms) auto

lemma set_task_simps [simp]:
  "length (pds_tasks (set_task i f s)) = length (pds_tasks s)"
  "pds_completions (set_task i f s) = pds_completions s"
  "pds_first_error (set_task i f s) = pds_first_error s" "pds_close (set_task i f s) = pds_close s"
  "j < length (pds_tasks s) \<Longrightarrow> pds_tasks (set_task i f s) ! j =
    (if i = j then f (pds_tasks s ! j) else pds_tasks s ! j)"
  by (auto simp: set_task_def)

lemma close_inv_only: "pds_tasks s' = pds_tasks s \<Longrightarrow> close_inv s' c = close_inv s c"
  by (cases c) auto

lemma policy_inv_new: "policy_inv policy new_policy_dispatcher"
  by (simp add: policy_inv_def new_policy_dispatcher_def)

lemma policy_inv_begin:
  assumes "policy_inv policy s"
  shows "policy_inv policy (snd (policy_begin request_id metadata submits s))"
proof -
  let ?t = "\<lparr>ptk_request = request_id, ptk_metadata = the metadata, ptk_result = None,
    ptk_callback = False, ptk_noted = False\<rparr>"
  have t: "task_call policy ?t = {#}" "\<not> task_failed ?t"
    by (simp_all add: task_call_def task_failed_def error_of_def)
  show ?thesis
  proof (cases "policy_begin request_id metadata submits s = (FFI_STATUS_OK, s\<lparr>pds_tasks := pds_tasks s @ [?t]\<rparr>)")
    case True
    then have "pds_close s = NotClosed"
      by (auto simp: policy_begin_def split: option.splits if_splits)
    then show ?thesis
      using assms t by (simp add: policy_inv_def True All_less_Suc Ex_less_Suc nth_append cong: conj_cong)
  next
    case False
    then have "snd (policy_begin request_id metadata submits s) = s"
      by (auto simp: policy_begin_def split: option.splits if_splits)
    then show ?thesis using assms by simp
  qed
qed

lemma policy_inv_add:
  assumes "policy_inv policy s" "i < length (pds_tasks s)"
  shows "policy_inv policy (add_done_callback i s)"
proof -
  let ?s = "add_done_callback i s"
  have "sum_list (map (task_call policy) (pds_tasks ?s)) = sum_list (map (task_call policy) (pds_tasks s))"
    by (simp add: add_done_callback_def set_task_def)
      (rule sum_list_same [OF assms(2)], simp)
  moreover have "task_failed (t\<lparr>ptk_callback := b\<rparr>) = task_failed t" for t b
    by (simp add: task_failed_def)
  moreover have "close_inv ?s c = close_inv s c" for c
    using calculation(2) by (cases c) (auto simp: add_done_callback_def)
  ultimately show ?thesis
    using assms unfolding policy_inv_def by (auto simp: add_done_callback_def)
qed

lemma policy_inv_close:
  assumes "policy_inv policy s"
  shows "policy_inv policy (policy_close_begin s)"
  using assms by (auto simp: policy_inv_def policy_close_begin_def)

lemma task_failed_result [simp]: "task_failed (t\<lparr>ptk_result := Some r\<rparr>) \<longleftrightarrow> r \<noteq> Inr ()"
  by (cases r) (auto simp: task_failed_def error_of_def)

lemma policy_inv_evaluate:
  assumes inv: "policy_inv policy s" and i: "i < length (pds_tasks s)"
    and none: "ptk_result (pds_tasks s ! i) = None" and open_close: "\<And>r. pds_close s \<noteq> CloseReturned r"
  shows "policy_inv policy (evaluate_and_complete policy status i s)"
proof -
  have unnoted: "\<not> ptk_noted (pds_tasks s ! i)" using inv i none by (auto simp: policy_inv_def)
  have healthy: "\<not> task_failed (pds_tasks s ! i)" using none by (simp add: task_failed_def error_of_def)
  have call: "task_call policy (pds_tasks s ! i) = {#}" using none by (simp add: task_call_def)
  show ?thesis
  proof (cases "evaluate_policy policy (ptk_metadata (pds_tasks s ! i))")
    case (Inl err)
    let ?f = "\<lambda>t. t\<lparr>ptk_result := Some (Inl (Raised err))\<rparr>"
    have s': "evaluate_and_complete policy status i s = set_task i ?f s"
      by (simp add: evaluate_and_complete_def Inl)
    have "sum_list (map (task_call policy) (pds_tasks (set_task i ?f s))) =
        sum_list (map (task_call policy) (pds_tasks s))"
      by (simp add: set_task_def) (rule sum_list_same [OF i], simp add: task_call_def Inl none)
    moreover have "close_inv (set_task i ?f s) (pds_close s)"
      using inv i open_close by (cases "pds_close s") (auto simp: policy_inv_def)
    ultimately show ?thesis
      unfolding s' using inv i unnoted healthy
      by (auto simp: policy_inv_def)
  next
    case (Inr d)
    let ?f = "\<lambda>t. t\<lparr>ptk_result := Some (raise_for_native_status status)\<rparr>"
    let ?s = "evaluate_and_complete policy status i s"
    have s': "?s = (set_task i ?f s)
        \<lparr>pds_completions := pds_completions s @ [(ptk_request (pds_tasks s ! i), d, status)]\<rparr>"
      by (simp add: evaluate_and_complete_def Inr)
    have "sum_list (map (task_call policy) (pds_tasks ?s)) =
        sum_list (map (task_call policy) (pds_tasks s)) +
        {#(ptk_request (pds_tasks s ! i), d, raise_for_native_status status)#}"
    proof -
      have "task_call policy (?f (pds_tasks s ! i)) =
          {#(ptk_request (pds_tasks s ! i), d, raise_for_native_status status)#}"
        using Inr by (simp add: task_call_def)
      then show ?thesis
        unfolding s' set_task_def using sum_list_update [OF i, of "task_call policy"] call by simp
    qed
    moreover have "close_inv ?s (pds_close s)"
      using inv i open_close by (cases "pds_close s") (auto simp: policy_inv_def s')
    ultimately show ?thesis
      using inv i unnoted healthy Inr unfolding s'
      by (auto simp: policy_inv_def)
  qed
qed

lemma policy_inv_note:
  assumes inv: "policy_inv policy s" and i: "i < length (pds_tasks s)"
    and result: "ptk_result (pds_tasks s ! i) \<noteq> None"
  shows "policy_inv policy (policy_on_complete i s)"
proof -
  let ?s = "policy_on_complete i s"
  have "sum_list (map (task_call policy) (pds_tasks ?s)) = sum_list (map (task_call policy) (pds_tasks s))"
    by (simp add: policy_on_complete_def set_task_def)
      (rule sum_list_same [OF i], simp)
  moreover have failed: "task_failed (t\<lparr>ptk_noted := b\<rparr>) = task_failed t" for t b
    by (simp add: task_failed_def)
  moreover have "close_inv ?s c" if "close_inv s c" for c
    using that failed by (cases c) (auto simp: policy_on_complete_def)
  moreover have "pds_first_error ?s \<noteq> None \<longleftrightarrow> pds_first_error s \<noteq> None \<or> task_failed (pds_tasks s ! i)"
    by (auto simp: policy_on_complete_def either_error_def task_failed_def split: option.split)
  ultimately show ?thesis
    using inv i result unfolding policy_inv_def
    by (auto simp: policy_on_complete_def)
qed

lemma either_error_None [simp]: "either_error e e' = None \<longleftrightarrow> e = None \<and> e' = None"
  by (simp add: either_error_def split: option.split)

lemma either_error_first [simp]: "either_error None e = e"
  by (simp add: either_error_def)

lemma foldl_either_error:
  "foldl (\<lambda>e i. either_error e (f i)) e0 is = None \<longleftrightarrow> e0 = None \<and> (\<forall>i \<in> set is. f i = None)"
  by (induction "is" arbitrary: e0) auto

lemma policy_inv_return:
  assumes inv: "policy_inv policy s" and close: "pds_close s = Closing seen" "set futures = set seen"
    and results: "\<forall>t \<in> set (pds_tasks s). ptk_result t \<noteq> None"
  shows "policy_inv policy (policy_close_end futures s)"
proof -
  let ?e = "either_error (pds_first_error s)
    (foldl (\<lambda>e i. either_error e (error_of (ptk_result (pds_tasks s ! i)))) None futures)"
  have ends: "policy_close_end futures s =
      s\<lparr>pds_close := CloseReturned (case ?e of None \<Rightarrow> Inr () | Some err \<Rightarrow> Inl err)\<rparr>"
    by (simp add: policy_close_end_def Let_def)
  have "?e = None \<longleftrightarrow> (\<forall>i < length (pds_tasks s). \<not> task_failed (pds_tasks s ! i))"
  proof -
    have "?e = None \<longleftrightarrow> pds_first_error s = None \<and> (\<forall>i \<in> set seen. \<not> task_failed (pds_tasks s ! i))"
      by (simp add: foldl_either_error close(2) task_failed_def)
    also have "\<dots> \<longleftrightarrow> (\<forall>i < length (pds_tasks s). \<not> task_failed (pds_tasks s ! i))"
      using inv close(1) unfolding policy_inv_def by fastforce
    finally show ?thesis .
  qed
  then show ?thesis
    using inv results unfolding ends policy_inv_def by (auto split: option.splits)
qed

lemma policy_inv_step:
  assumes "policy_step policy s s'" "policy_inv policy s"
  shows "policy_inv policy s'"
  using assms
proof cases
  case (evaluates i status)
  then have "pds_close s \<noteq> CloseReturned r" for r
    using assms(2) by (cases "pds_close s") (auto simp: policy_inv_def)
  then show ?thesis using evaluates assms(2) by (simp add: policy_inv_evaluate)
qed (simp_all add: policy_inv_begin policy_inv_add policy_inv_note policy_inv_close policy_inv_return)

lemma policy_reachable_inv: "policy_reachable policy s \<Longrightarrow> policy_inv policy s"
  unfolding policy_reachable_def
  by (induction rule: rtranclp_induct) (auto intro: policy_inv_new policy_inv_step)

section \<open>Every request is answered once\<close>

definition policy_answer :: "application_policy \<Rightarrow> policy_task \<Rightarrow> (int \<times> policy_decision) multiset" where
  "policy_answer policy t =
     (case evaluate_policy policy (ptk_metadata t) of Inl _ \<Rightarrow> {#} | Inr d \<Rightarrow> {#(ptk_request t, d)#})"

lemma image_mset_sum_list: "image_mset f (sum_list ms) = sum_list (map (image_mset f) ms)"
  by (induction ms) auto

lemma closed_requests_answered:
  assumes "policy_reachable policy s" "pds_close s = CloseReturned r"
  shows "mset (map (\<lambda>(q, d, st). (q, d)) (pds_completions s)) =
      sum_list (map (policy_answer policy) (pds_tasks s))" (is ?answers)
    "r = Inr () \<longleftrightarrow>
      (\<forall>t \<in> set (pds_tasks s). \<exists>d. evaluate_policy policy (ptk_metadata t) = Inr d) \<and>
      (\<forall>(q, d, st) \<in> set (pds_completions s). status_succeeded st)" (is ?outcome)
    "policy_begin request_id metadata submits s = (FFI_STATUS_CALLBACK_REJECTED, s)"
proof -
  have inv: "policy_inv policy s" by (rule policy_reachable_inv [OF assms(1)])
  let ?calls = "mset (map (\<lambda>(q, d, st). (q, d, raise_for_native_status st)) (pds_completions s))"
  have calls: "?calls = sum_list (map (task_call policy) (pds_tasks s))"
    using inv by (simp add: policy_inv_def)
  have results: "\<exists>r. ptk_result t = Some r" if "t \<in> set (pds_tasks s)" for t
    using inv assms(2) that by (fastforce simp: policy_inv_def in_set_conv_nth)
  have answer: "image_mset (\<lambda>(q, d, r). (q, d)) (task_call policy t) = policy_answer policy t"
    if "t \<in> set (pds_tasks s)" for t
    using results [OF that] by (auto simp: task_call_def policy_answer_def split: sum.split)
  have "mset (map (\<lambda>(q, d, st). (q, d)) cs) =
      image_mset (\<lambda>(q, d, r). (q, d)) (mset (map (\<lambda>(q, d, st). (q, d, raise_for_native_status st)) cs))"
    for cs :: "(int \<times> policy_decision \<times> NativeStatus) list"
    by (induction cs) auto
  then have "mset (map (\<lambda>(q, d, st). (q, d)) (pds_completions s)) = image_mset (\<lambda>(q, d, r). (q, d)) ?calls" .
  also have "\<dots> = sum_list (map (policy_answer policy) (pds_tasks s))"
    unfolding calls image_mset_sum_list using answer by (simp add: comp_def cong: map_cong)
  finally show ?answers .
  have fine: "r = Inr () \<longleftrightarrow> (\<forall>t \<in> set (pds_tasks s). \<not> task_failed t)"
    using inv assms(2) unfolding all_set_conv_all_nth by (simp add: policy_inv_def)
  have evaluable: "\<exists>d. evaluate_policy policy (ptk_metadata t) = Inr d"
    if in_tasks: "t \<in> set (pds_tasks s)" and not_failed: "\<not> task_failed t" for t
  proof -
    obtain i where i: "i < length (pds_tasks s)" "pds_tasks s ! i = t"
      using in_tasks by (auto simp: in_set_conv_nth)
    obtain x where x: "ptk_result t = Some x" using results [OF in_tasks] by blast
    have "x = Inr ()" using not_failed x by (cases x) (auto simp: task_failed_iff)
    then show ?thesis using inv i x by (auto simp: policy_inv_def)
  qed
  have member: "(\<exists>st. (q, d, st) \<in> set (pds_completions s) \<and> raise_for_native_status st = x) \<longleftrightarrow>
      (\<exists>t \<in> set (pds_tasks s). ptk_request t = q \<and> evaluate_policy policy (ptk_metadata t) = Inr d \<and>
        ptk_result t = Some x)" for q d x
  proof -
    have "(\<exists>st. (q, d, st) \<in> set (pds_completions s) \<and> raise_for_native_status st = x) \<longleftrightarrow> (q, d, x) \<in># ?calls"
      by force
    also have "\<dots> \<longleftrightarrow> (\<exists>t \<in> set (pds_tasks s). (q, d, x) \<in># task_call policy t)"
      unfolding calls by (simp add: set_mset_sum_list)
    also have "\<dots> \<longleftrightarrow> (\<exists>t \<in> set (pds_tasks s). ptk_request t = q \<and>
        evaluate_policy policy (ptk_metadata t) = Inr d \<and> ptk_result t = Some x)"
      by (simp add: in_task_call)
    finally show ?thesis .
  qed
  show ?outcome
  proof
    assume "r = Inr ()"
    then have ok: "\<not> task_failed t" if "t \<in> set (pds_tasks s)" for t using fine that by blast
    have "status_succeeded st" if called: "(q, d, st) \<in> set (pds_completions s)" for q d st
    proof -
      obtain t where "t \<in> set (pds_tasks s)" "ptk_result t = Some (raise_for_native_status st)"
        using member [of q d "raise_for_native_status st"] called by blast
      then show ?thesis using ok [of t] by (auto simp: task_failed_iff raise_for_native_status_def split: if_splits)
    qed
    then show "(\<forall>t \<in> set (pds_tasks s). \<exists>d. evaluate_policy policy (ptk_metadata t) = Inr d) \<and>
        (\<forall>(q, d, st) \<in> set (pds_completions s). status_succeeded st)"
      using evaluable ok by blast
  next
    assume all: "(\<forall>t \<in> set (pds_tasks s). \<exists>d. evaluate_policy policy (ptk_metadata t) = Inr d) \<and>
        (\<forall>(q, d, st) \<in> set (pds_completions s). status_succeeded st)"
    have "\<not> task_failed t" if in_tasks: "t \<in> set (pds_tasks s)" for t
    proof
      assume "task_failed t"
      then obtain err d where "ptk_result t = Some (Inl err)" "evaluate_policy policy (ptk_metadata t) = Inr d"
        using all in_tasks by (auto simp: task_failed_iff)
      then obtain st where "(ptk_request t, d, st) \<in> set (pds_completions s)"
        "raise_for_native_status st = Inl err"
        using member [of "ptk_request t" d "Inl err"] in_tasks by blast
      then show False using all by (auto simp: raise_for_native_status_def)
    qed
    then show "r = Inr ()" using fine by blast
  qed
  show "policy_begin request_id metadata submits s = (FFI_STATUS_CALLBACK_REJECTED, s)"
    using assms(2) by (simp add: policy_begin_def split: option.split)
qed

text \<open>Whatever the policy and the library answer, \<open>close\<close> can return: no task waits for another one.\<close>

definition unfinished :: "policy_dispatcher \<Rightarrow> nat set" where
  "unfinished s = {i. i < length (pds_tasks s) \<and> ptk_result (pds_tasks s ! i) = None}"

lemma evaluate_unfinished:
  assumes "i \<in> unfinished s"
  shows "unfinished (evaluate_and_complete policy status i s) = unfinished s - {i}"
    "pds_close (evaluate_and_complete policy status i s) = pds_close s"
  using assms by (auto simp: unfinished_def evaluate_and_complete_def split: sum.splits if_splits)

lemma close_can_return:
  assumes "pds_close s = Closing seen"
  shows "\<exists>s' r. (policy_step policy)\<^sup>*\<^sup>* s s' \<and> pds_close s' = CloseReturned r"
  using assms
proof (induction "card (unfinished s)" arbitrary: s rule: less_induct)
  case less
  have fin: "finite (unfinished s)" by (simp add: unfinished_def)
  show ?case
  proof (cases "unfinished s = {}")
    case True
    then have "\<forall>t \<in> set (pds_tasks s). ptk_result t \<noteq> None"
      by (auto simp: unfinished_def in_set_conv_nth)
    then have "policy_step policy s (policy_close_end (remdups seen) s)"
      using less.prems by (intro policy_step.returns) auto
    moreover have "\<exists>r. pds_close (policy_close_end (remdups seen) s) = CloseReturned r"
      by (simp add: policy_close_end_def Let_def)
    ultimately show ?thesis by blast
  next
    case False
    then obtain i where i: "i \<in> unfinished s" by blast
    let ?s = "evaluate_and_complete policy native_status_ok i s"
    have "policy_step policy s ?s"
      using i by (intro policy_step.evaluates) (auto simp: unfinished_def)
    moreover have "card (unfinished ?s) < card (unfinished s)"
      using i fin by (simp add: evaluate_unfinished(1) card_Diff1_less del: card_Diff_insert)
    then have "\<exists>s' r. (policy_step policy)\<^sup>*\<^sup>* ?s s' \<and> pds_close s' = CloseReturned r"
      using less.hyps less.prems evaluate_unfinished(2) [OF i] by metis
    ultimately show ?thesis by (meson converse_rtranclp_into_rtranclp)
  qed
qed

text \<open>A diagnostic with a surrogate: the worker raises before its call, so that the library is not told.\<close>

lemma unencodable_diagnostic:
  assumes "SessionOpenMetadata_unpack encoded = Inr m" "policy m = Some (accepted, code, Some [0xD800])"
    "ptk_metadata (pds_tasks s ! i) = encoded"
  shows "pds_completions (evaluate_and_complete policy status i s) = pds_completions s"
  using assms by (simp add: evaluate_and_complete_def evaluate_policy_def utf8_encode_def utf8_char_def)

end
