(* ===== verification/Owned_Handles.thy ===== *)
theory Owned_Handles
  imports Policy_Dispatcher Runtime_Metadata
begin

text \<open>
  Objects that own a handle of the native library: they make calls with it until the handle is
  released, closed or handed over to another object.  The locale \<open>owned\<close> says what all of them
  promise: the handle is given back at most once, it is not used after that, and the object knows.
  This theory has the locale and the transport connection and listener; \<open>Native_Objects\<close> and
  \<open>Session_Opening\<close> have the other objects.

  A method takes what the library answers to the calls it makes, and returns its result, the calls
  with their status, and the object.
\<close>

section \<open>Calls\<close>

datatype buffer_family = RuntimeBuffer | ObjectMetadataBuffer

record server_bind_request =
  sbr_server_id :: int
  sbr_generation :: int
  sbr_supported_profiles :: "int list"
  sbr_supported_cache_objects :: "int list"
  sbr_max_cache_objects :: int
  sbr_max_cache_object_bytes :: int
  sbr_resume_token_bytes :: int
  sbr_max_in_flight_operations :: int
  sbr_granted_operation_credit :: int
  sbr_lease_ttl_ms :: int
  sbr_resume_window_ms :: int
  sbr_schema_registry :: NativeHandle
  sbr_policy :: bool

record session_open_request =
  sor_requested_session_id :: int
  sor_session_handle_id :: int
  sor_generation :: int
  sor_profile_id :: int
  sor_priority_class :: int
  sor_allow_resume :: int
  sor_schema_id :: int
  sor_schema_version :: int
  sor_default_deadline_ms :: int
  sor_max_in_flight_operations :: int
  sor_lease_ttl_hint_ms :: int
  sor_resume_token_bytes :: int
  sor_cache_hints :: "int list"

record transport_open_request =
  tor_transport_id :: TransportId
  tor_endpoint :: string
  tor_config :: NativeHandle
  tor_max_packet_bytes :: int
  tor_timeout_ms :: int

datatype library_request =
    WriteBatch NativeHandle "bytes list"
  | ReadBatch NativeHandle int int int
  | AcceptTransport NativeHandle int
  | CloseTransport NativeHandle
  | ConnectClient NativeHandle int int
  | BindServer NativeHandle server_bind_request
  | CreateSchemaRegistry
  | InstallSchema NativeHandle SchemaDescriptorHeader
  | LookupSchema NativeHandle int int
  | InvalidateSchema NativeHandle int int
  | ValidateBinding NativeHandle TypedPayloadDescriptor
  | ReleaseSchemaRegistry NativeHandle
  | AcquireBuffer buffer_family bytes
  | ViewBuffer buffer_family NativeHandle
  | ReleaseBuffer buffer_family NativeHandle
  | CreateObject ObjectDescriptorMetadata bytes
  | ViewObject NativeHandle
  | SnapshotObject NativeHandle
  | ReleaseObject NativeHandle
  | OpenSession NativeHandle session_open_request
  | ResumeSession NativeHandle session_open_request bytes
  | CloseConnection NativeHandle
  | ReadRecoveryTicket NativeHandle
  | CreateSecurityConfig bool TransportId bytes bytes
  | OpenTransport transport_open_request
  | ListenTransport transport_open_request
  | ProbeTransport transport_open_request int int
  | ReadListenerEndpoint NativeHandle

text \<open>The handle of the object a request is made for.\<close>

fun request_handle :: "library_request \<Rightarrow> NativeHandle option" where
  "request_handle (WriteBatch h _) = Some h"
| "request_handle (ReadBatch h _ _ _) = Some h"
| "request_handle (AcceptTransport h _) = Some h"
| "request_handle (CloseTransport h) = Some h"
| "request_handle (ConnectClient h _ _) = Some h"
| "request_handle (BindServer h _) = Some h"
| "request_handle CreateSchemaRegistry = None"
| "request_handle (InstallSchema h _) = Some h"
| "request_handle (LookupSchema h _ _) = Some h"
| "request_handle (InvalidateSchema h _ _) = Some h"
| "request_handle (ValidateBinding h _) = Some h"
| "request_handle (ReleaseSchemaRegistry h) = Some h"
| "request_handle (AcquireBuffer _ _) = None"
| "request_handle (ViewBuffer _ h) = Some h"
| "request_handle (ReleaseBuffer _ h) = Some h"
| "request_handle (CreateObject _ _) = None"
| "request_handle (ViewObject h) = Some h"
| "request_handle (SnapshotObject h) = Some h"
| "request_handle (ReleaseObject h) = Some h"
| "request_handle (OpenSession h _) = Some h"
| "request_handle (ResumeSession h _ _) = Some h"
| "request_handle (CloseConnection h) = Some h"
| "request_handle (ReadRecoveryTicket h) = Some h"
| "request_handle (CreateSecurityConfig _ _ _ _) = None"
| "request_handle (OpenTransport _) = None"
| "request_handle (ListenTransport _) = None"
| "request_handle (ProbeTransport _ _ _) = None"
| "request_handle (ReadListenerEndpoint h) = Some h"

type_synonym library_call = "library_request \<times> NativeStatus"

type_synonym ('o, 'a) native_method = "'o \<Rightarrow> 'a nres \<times> library_call list \<times> 'o"

text \<open>The calls after which the handle is no longer the object's: it is released, closed or adopted.\<close>

fun ends_handle :: "library_request \<Rightarrow> bool" where
  "ends_handle (CloseTransport _) = True"
| "ends_handle (ConnectClient _ _ _) = True"
| "ends_handle (BindServer _ _) = True"
| "ends_handle (ReleaseSchemaRegistry _) = True"
| "ends_handle (ReleaseBuffer _ _) = True"
| "ends_handle (ReleaseObject _) = True"
| "ends_handle (CloseConnection _) = True"
| "ends_handle _ = False"

definition names_handle :: "NativeHandle \<Rightarrow> library_call \<Rightarrow> bool" where
  "names_handle h c \<longleftrightarrow> request_handle (fst c) = Some h"

definition gives_back :: "NativeHandle \<Rightarrow> library_call \<Rightarrow> bool" where
  "gives_back h c \<longleftrightarrow> names_handle h c \<and> ends_handle (fst c) \<and> status_succeeded (snd c)"

definition given_back :: "NativeHandle \<Rightarrow> library_call list \<Rightarrow> bool" where
  "given_back h calls \<longleftrightarrow> list_ex (gives_back h) calls"

text \<open>A handle is not used after it was given back.\<close>

fun handle_respected :: "NativeHandle \<Rightarrow> library_call list \<Rightarrow> bool" where
  "handle_respected h [] \<longleftrightarrow> True"
| "handle_respected h (c # cs) \<longleftrightarrow>
     (if gives_back h c then \<not> list_ex (names_handle h) cs else handle_respected h cs)"

lemma given_back_simps [simp]:
  "\<not> given_back h []" "given_back h (c # cs) \<longleftrightarrow> gives_back h c \<or> given_back h cs"
  "given_back h (cs @ ds) \<longleftrightarrow> given_back h cs \<or> given_back h ds"
  by (simp_all add: given_back_def)

lemma gives_back_names: "gives_back h c \<Longrightarrow> names_handle h c"
  by (simp add: gives_back_def)

lemma not_named_respected: "\<not> list_ex (names_handle h) cs \<Longrightarrow> handle_respected h cs"
  by (induction cs) (auto simp: gives_back_def)

lemma handle_respected_append:
  "handle_respected h (cs @ ds) \<longleftrightarrow> handle_respected h cs \<and>
     (if given_back h cs then \<not> list_ex (names_handle h) ds else handle_respected h ds)"
  by (induction cs) (auto simp: not_named_respected gives_back_names)

text \<open>At most one call gives the handle back, since that one is the last call with the handle.\<close>

lemma handle_respected_once:
  "handle_respected h calls \<Longrightarrow> length (filter (gives_back h) calls) \<le> 1"
proof (induction calls)
  case (Cons c cs)
  show ?case
  proof (cases "gives_back h c")
    case True
    then have "\<not> list_ex (names_handle h) cs" using Cons.prems by simp
    then have "filter (gives_back h) cs = []"
      by (auto simp: filter_empty_conv list_ex_iff gives_back_def)
    then show ?thesis using True by simp
  next
    case False
    then show ?thesis using Cons by simp
  qed
qed simp

section \<open>The contract of an owner\<close>

fun run_owner :: "('c \<Rightarrow> 'o \<Rightarrow> library_call list \<times> 'o) \<Rightarrow> 'c list \<Rightarrow> 'o \<Rightarrow> library_call list \<times> 'o" where
  "run_owner step [] b = ([], b)"
| "run_owner step (c # cs) b =
     (case step c b of (calls, b) \<Rightarrow> (case run_owner step cs b of (calls', b) \<Rightarrow> (calls @ calls', b)))"

text \<open>
  \<open>step\<close> makes one method call with the answers of the library; \<open>regular\<close> are the calls for which
  the contract holds.
\<close>

locale owned =
  fixes handle_of :: "'o \<Rightarrow> NativeHandle"
    and is_open :: "'o \<Rightarrow> bool"
    and kind :: int
    and step :: "'c \<Rightarrow> 'o \<Rightarrow> library_call list \<times> 'o"
    and regular :: "'c \<Rightarrow> bool"
  assumes closed_silent: "\<not> is_open b \<Longrightarrow> fst (step c b) = [] \<and> \<not> is_open (snd (step c b))"
    and step_respects: "regular c \<Longrightarrow> is_open b \<Longrightarrow> nh_kind (handle_of b) = kind \<Longrightarrow> step c b = (calls, b') \<Longrightarrow>
      handle_respected (handle_of b) calls \<and> (is_open b' \<longleftrightarrow> \<not> given_back (handle_of b) calls) \<and>
      (is_open b' \<longrightarrow> handle_of b' = handle_of b)"
begin

lemma closed_run: "\<not> is_open b \<Longrightarrow> fst (run_owner step cs b) = [] \<and> \<not> is_open (snd (run_owner step cs b))"
proof (induction cs arbitrary: b)
  case (Cons c cs)
  obtain calls b1 where "step c b = (calls, b1)" by (cases "step c b")
  then show ?case using closed_silent [OF Cons.prems, of c] Cons.IH [of b1] by (auto split: prod.split)
qed simp

lemma run_respects:
  "list_all regular cs \<Longrightarrow> is_open b \<Longrightarrow> nh_kind (handle_of b) = kind \<Longrightarrow> run_owner step cs b = (calls, b') \<Longrightarrow>
    handle_respected (handle_of b) calls \<and> (is_open b' \<longleftrightarrow> \<not> given_back (handle_of b) calls)"
proof (induction cs arbitrary: b calls)
  case (Cons c cs)
  obtain calls1 b1 calls2 where 1: "step c b = (calls1, b1)" "run_owner step cs b1 = (calls2, b')"
    "calls = calls1 @ calls2"
    using Cons.prems(4) by (auto split: prod.splits)
  have s: "handle_respected (handle_of b) calls1" "is_open b1 \<longleftrightarrow> \<not> given_back (handle_of b) calls1"
    "is_open b1 \<Longrightarrow> handle_of b1 = handle_of b"
    using step_respects [OF _ Cons.prems(2,3) 1(1)] Cons.prems(1) by auto
  show ?case
  proof (cases "is_open b1")
    case True
    then show ?thesis
      using Cons.IH [OF _ True _ 1(2)] Cons.prems(1,3) s 1(3) by (auto simp: handle_respected_append)
  next
    case False
    then have "calls2 = []" "\<not> is_open b'" using closed_run [OF False, of cs] 1(2) by simp_all
    then show ?thesis using False s 1(3) by simp
  qed
qed simp

end

section \<open>Two shapes of methods\<close>

text \<open>A method that makes one call if a check passes, and reads the answer; and one that ends the handle.\<close>

definition ask_library :: "unit nres \<Rightarrow> library_request \<Rightarrow> NativeStatus \<Rightarrow> 'a nres \<Rightarrow> ('o, 'a) native_method" where
  "ask_library cond q status answer b =
     (case cond of
        Inl err \<Rightarrow> (Inl err, [], b)
      | Inr _ \<Rightarrow> (bind_nat (raise_for_native_status status) (\<lambda>_. answer), [(q, status)], b))"

definition end_handle :: "unit nres \<Rightarrow> library_request \<Rightarrow> NativeStatus \<Rightarrow> ('o \<Rightarrow> 'o) \<Rightarrow> ('o, unit) native_method" where
  "end_handle cond q status release b =
     (case cond of
        Inl err \<Rightarrow> (Inl err, [], b)
      | Inr _ \<Rightarrow>
          (case raise_for_native_status status of
             Inl err \<Rightarrow> (Inl err, [(q, status)], b)
           | Inr _ \<Rightarrow> (Inr (), [(q, status)], release b)))"

definition native_u16_slice :: "int list \<Rightarrow> int list nres" where
  "native_u16_slice vals =
     (if list_ex (\<lambda>v. \<not> (0 \<le> v \<and> v \<le> 0xFFFF)) vals
      then plain (ve ''u16 slice values must fit in u16'') else Inr vals)"

definition native_u32_slice :: "int list \<Rightarrow> int list nres" where
  "native_u32_slice vals =
     (if list_ex (\<lambda>v. \<not> (0 \<le> v \<and> v \<le> 0xFFFFFFFF)) vals
      then plain (ve ''u32 slice values must fit in u32'') else Inr vals)"

text \<open>A view the library fills in, \<open>None\<close> for a null pointer with a length.\<close>

definition copy_buffer_view :: "bytes option \<Rightarrow> bytes nres" where
  "copy_buffer_view view =
     (case view of
        Some payload \<Rightarrow> Inr payload
      | None \<Rightarrow> Inl (HandleError ''native event payload has non-empty null pointer''))"

section \<open>Transport connections\<close>

abbreviation (input) KIND_TRANSPORT_CONNECTION :: int where "KIND_TRANSPORT_CONNECTION \<equiv> 10"
abbreviation (input) KIND_TRANSPORT_LISTENER :: int where "KIND_TRANSPORT_LISTENER \<equiv> 11"
abbreviation (input) KIND_SCHEMA_REGISTRY :: int where "KIND_SCHEMA_REGISTRY \<equiv> 6"

record NativeTransportConnection =
  ntc_handle :: NativeHandle
  ntc_closed :: bool

definition NativeTransportConnection_init :: "NativeHandle \<Rightarrow> NativeTransportConnection nres" where
  "NativeTransportConnection_init h =
     bind_nat (require_kind KIND_TRANSPORT_CONNECTION h) (\<lambda>_. Inr \<lparr>ntc_handle = h, ntc_closed = False\<rparr>)"

definition transport_require_open :: "NativeTransportConnection \<Rightarrow> unit nres" where
  "transport_require_open b = (if ntc_closed b then invalid_state else Inr ())"

definition transport_send ::
    "bytes list \<Rightarrow> NativeStatus \<Rightarrow> (NativeTransportConnection, unit) native_method" where
  "transport_send packets status b =
     ask_library (bind_nat (plain (normalize_transport_packets packets)) (\<lambda>_. transport_require_open b))
       (WriteBatch (ntc_handle b) packets) status (Inr ()) b"

record transport_read =
  trd_status :: NativeStatus
  trd_owner :: NativeHandle
  trd_payload :: "bytes option"
  trd_frame_count :: int
  trd_release :: NativeStatus

text \<open>The buffer is released also if reading it raises; an error of the release replaces that error.\<close>

definition transport_receive ::
    "int \<Rightarrow> int \<Rightarrow> int \<Rightarrow> transport_read \<Rightarrow> (NativeTransportConnection, bytes list) native_method" where
  "transport_receive max_packets max_bytes timeout_ms reply b =
     (let read = (ReadBatch (ntc_handle b) max_packets timeout_ms max_bytes, trd_status reply);
          release = (ReleaseBuffer RuntimeBuffer (trd_owner reply), trd_release reply);
          packets = bind_nat (copy_buffer_view (trd_payload reply)) (\<lambda>encoded.
            decode_transport_packet_batch encoded (trd_frame_count reply))
      in case bind_nat (plain (require_bounded_integer ''max_packets'' max_packets 0xFFFFFFFF)) (\<lambda>_.
             bind_nat (plain (require_bounded_integer ''max_bytes'' max_bytes 0xFFFFFFFFFFFFFFFF)) (\<lambda>_.
             bind_nat (plain (require_bounded_integer ''timeout_ms'' timeout_ms 0xFFFFFFFF)) (\<lambda>_.
               transport_require_open b))) of
           Inl err \<Rightarrow> (Inl err, [], b)
         | Inr _ \<Rightarrow>
             (case bind_nat (raise_for_native_status (trd_status reply)) (\<lambda>_. NativeHandle_init (trd_owner reply)) of
                Inl err \<Rightarrow> (Inl err, [read], b)
              | Inr owner \<Rightarrow>
                  if \<not> handle_is_valid owner then (packets, [read], b)
                  else (case require_kind KIND_BUFFER owner of
                     Inl err \<Rightarrow> (Inl err, [read], b)
                   | Inr _ \<Rightarrow>
                       (bind_nat (raise_for_native_status (trd_release reply)) (\<lambda>_. packets),
                        [read, release], b))))"

definition transport_close :: "NativeStatus \<Rightarrow> (NativeTransportConnection, unit) native_method" where
  "transport_close status b =
     (if ntc_closed b then (Inr (), [], b)
      else end_handle (Inr ()) (CloseTransport (ntc_handle b)) status (\<lambda>b. b\<lparr>ntc_closed := True\<rparr>) b)"

text \<open>\<open>_adopt_client_role\<close>; \<open>output\<close> is the handle of the connection the library makes.\<close>

definition transport_adopt_client_role ::
    "int \<Rightarrow> int \<Rightarrow> NativeStatus \<Rightarrow> NativeHandle \<Rightarrow> (NativeTransportConnection, NativeHandle) native_method" where
  "transport_adopt_client_role connection_id generation status output b =
     (case bind_nat (native_validate_u64 ''connection_id'' connection_id) (\<lambda>_.
           bind_nat (native_validate_u32 ''generation'' generation) (\<lambda>_. transport_require_open b)) of
        Inl err \<Rightarrow> (Inl err, [], b)
      | Inr _ \<Rightarrow>
          (let call = (ConnectClient (ntc_handle b) connection_id generation, status)
           in case raise_for_native_status status of
                Inl err \<Rightarrow> (Inl err, [call], b)
              | Inr _ \<Rightarrow> (typed_from_ffi KIND_CONNECTION output, [call],
                   b\<lparr>ntc_closed := True, ntc_handle := invalid_handle\<rparr>)))"

datatype transport_op =
    TransportSend "bytes list" NativeStatus
  | TransportReceive int int int transport_read
  | TransportClose NativeStatus
  | TransportAdopt int int NativeStatus NativeHandle

fun transport_step :: "transport_op \<Rightarrow> NativeTransportConnection \<Rightarrow> library_call list \<times> NativeTransportConnection" where
  "transport_step (TransportSend packets status) b = snd (transport_send packets status b)"
| "transport_step (TransportReceive n max_bytes timeout_ms reply) b = snd (transport_receive n max_bytes timeout_ms reply b)"
| "transport_step (TransportClose status) b = snd (transport_close status b)"
| "transport_step (TransportAdopt i generation status output) b =
     snd (transport_adopt_client_role i generation status output b)"

lemma ask_library_calls:
  "snd (ask_library cond q status answer b) = (case cond of Inl _ \<Rightarrow> ([], b) | Inr _ \<Rightarrow> ([(q, status)], b))"
  by (simp add: ask_library_def split: sum.split)

lemma end_handle_calls:
  "snd (end_handle cond q status release b) =
    (case cond of Inl _ \<Rightarrow> ([], b)
     | Inr _ \<Rightarrow> ([(q, status)], if status_succeeded status then release b else b))"
  by (simp add: end_handle_def raise_for_native_status_def split: sum.split)

lemma require_kind_Inr: "require_kind k h = Inr u \<longleftrightarrow> nh_kind h = k"
  by (simp add: require_kind_def)

lemmas owner_simps = ask_library_calls end_handle_calls raise_for_native_status_def names_handle_def gives_back_def
  invalid_state_def Let_def bind_nat_def

interpretation transport: owned ntc_handle "\<lambda>b. \<not> ntc_closed b" KIND_TRANSPORT_CONNECTION transport_step "\<lambda>_. True"
proof
  fix b :: NativeTransportConnection and c
  assume "\<not> \<not> ntc_closed b"
  then show "fst (transport_step c b) = [] \<and> \<not> \<not> ntc_closed (snd (transport_step c b))"
    by (cases c) (auto simp: transport_send_def transport_receive_def transport_close_def
        transport_adopt_client_role_def transport_require_open_def owner_simps split: sum.split)
next
  fix b b' :: NativeTransportConnection and c calls
  assume b: "\<not> ntc_closed b" "nh_kind (ntc_handle b) = KIND_TRANSPORT_CONNECTION" "transport_step c b = (calls, b')"
  show "handle_respected (ntc_handle b) calls \<and> (\<not> ntc_closed b' \<longleftrightarrow> \<not> given_back (ntc_handle b) calls) \<and>
      (\<not> ntc_closed b' \<longrightarrow> ntc_handle b' = ntc_handle b)"
  proof (cases c)
    case (TransportSend packets status)
    then show ?thesis using b by (auto simp: transport_send_def owner_simps split: sum.splits)
  next
    case (TransportReceive n max_bytes timeout_ms reply)
    have "b' = b" "calls \<in> {[], [(ReadBatch (ntc_handle b) n timeout_ms max_bytes, trd_status reply)]} \<or>
        nh_kind (trd_owner reply) = KIND_BUFFER \<and>
        calls = [(ReadBatch (ntc_handle b) n timeout_ms max_bytes, trd_status reply),
          (ReleaseBuffer RuntimeBuffer (trd_owner reply), trd_release reply)]"
      using b(3) unfolding TransportReceive
      by (auto simp: transport_receive_def Let_def bind_nat_def require_kind_def NativeHandle_init_def
          split: sum.splits if_splits)
    then show ?thesis using b(1,2) by (auto simp: names_handle_def gives_back_def)
  next
    case (TransportClose status)
    then show ?thesis using b by (auto simp: transport_close_def owner_simps split: if_splits)
  next
    case (TransportAdopt i generation status out)
    then show ?thesis
      using b by (auto simp: transport_adopt_client_role_def owner_simps split: sum.splits if_splits)
  qed
qed

text \<open>A receive hands out exactly the packets of the batch, and leaves the connection as it is.\<close>

lemma receive_packets:
  assumes "transport_receive n max_bytes timeout_ms reply b = (Inr packets, calls, b')"
  shows "b' = b \<and> trd_frame_count reply = len packets \<and>
    (\<exists>payload. trd_payload reply = Some payload \<and> payload = batch_encoding packets)"
  using assms
  by (auto simp: transport_receive_def Let_def res_simps copy_buffer_view_def decode_transport_packet_batch_iff
      split: sum.splits if_splits option.splits)

section \<open>Transport listeners\<close>

record NativeTransportListener =
  ntl_handle :: NativeHandle
  ntl_closed :: bool

definition NativeTransportListener_init :: "NativeHandle \<Rightarrow> NativeTransportListener nres" where
  "NativeTransportListener_init h =
     bind_nat (require_kind KIND_TRANSPORT_LISTENER h) (\<lambda>_. Inr \<lparr>ntl_handle = h, ntl_closed = False\<rparr>)"

definition listener_require_open :: "NativeTransportListener \<Rightarrow> unit nres" where
  "listener_require_open b = (if ntl_closed b then invalid_state else Inr ())"

definition listener_accept ::
    "int \<Rightarrow> NativeStatus \<Rightarrow> NativeHandle \<Rightarrow> (NativeTransportListener, NativeTransportConnection) native_method" where
  "listener_accept timeout_ms status out b =
     ask_library (bind_nat (plain (require_bounded_integer ''timeout_ms'' timeout_ms 0xFFFFFFFF)) (\<lambda>_.
         listener_require_open b))
       (AcceptTransport (ntl_handle b) timeout_ms) status
       (bind_nat (NativeHandle_init out) NativeTransportConnection_init) b"

definition listener_close :: "NativeStatus \<Rightarrow> (NativeTransportListener, unit) native_method" where
  "listener_close status b =
     (if ntl_closed b then (Inr (), [], b)
      else end_handle (Inr ()) (CloseTransport (ntl_handle b)) status (\<lambda>b. b\<lparr>ntl_closed := True\<rparr>) b)"

text \<open>\<open>_schema_descriptor_to_ffi\<close>: every field keeps the low bits of its width.\<close>

definition schema_descriptor_to_ffi :: "SchemaDescriptorHeader \<Rightarrow> SchemaDescriptorHeader" where
  "schema_descriptor_to_ffi d =
     \<lparr>sdh_schema_id = sdh_schema_id d mod 2 ^ 32, sdh_schema_version = sdh_schema_version d mod 2 ^ 32,
      sdh_profile_id = sdh_profile_id d mod 2 ^ 16, sdh_schema_flags = sdh_schema_flags d mod 2 ^ 16,
      sdh_min_version_major = sdh_min_version_major d mod 2 ^ 8,
      sdh_max_version_major = sdh_max_version_major d mod 2 ^ 8,
      sdh_body_bytes = sdh_body_bytes d mod 2 ^ 32, sdh_dependency_count = sdh_dependency_count d mod 2 ^ 16,
      sdh_default_stream_semantics = sdh_default_stream_semantics d mod 2 ^ 16,
      sdh_schema_hash = sdh_schema_hash d mod 2 ^ 64\<rparr>"

definition schema_registry_action_from_ffi :: "int \<Rightarrow> SchemaRegistryAction nres" where
  "schema_registry_action_from_ffi action_code =
     (if action_code = 0 then Inr SRA_INSTALLED
      else if action_code = 1 then Inr SRA_ALREADY_INSTALLED
      else if action_code = 2 then Inr SRA_UPDATED
      else if action_code = 3 then Inr SRA_INVALIDATED
      else Inl (HandleError ''unknown native schema registry action''))"

text \<open>Installing descriptors in turn until one raises; \<open>installs\<close> has the answers.\<close>

fun install_all ::
    "NativeHandle \<Rightarrow> (nat \<Rightarrow> NativeStatus \<times> int) \<Rightarrow> nat \<Rightarrow> SchemaDescriptorHeader list
      \<Rightarrow> unit nres \<times> library_call list" where
  "install_all registry installs n [] = (Inr (), [])"
| "install_all registry installs n (d # ds) =
     (case installs n of
        (status, action) \<Rightarrow>
          let call = (InstallSchema registry (schema_descriptor_to_ffi d), status)
          in case bind_nat (raise_for_native_status status) (\<lambda>_. schema_registry_action_from_ffi action) of
               Inl err \<Rightarrow> (Inl err, [call])
             | Inr _ \<Rightarrow> (case install_all registry installs (Suc n) ds of (r, calls) \<Rightarrow> (r, call # calls)))"

record server_role =
  svr_server_id :: int
  svr_generation :: int
  svr_supported_profiles :: "int list"
  svr_supported_cache_objects :: "int list"
  svr_max_cache_objects :: int
  svr_max_cache_object_bytes :: int
  svr_resume_token_bytes :: int
  svr_max_in_flight_operations :: int
  svr_granted_operation_credit :: int
  svr_lease_ttl_ms :: int
  svr_resume_window_ms :: int
  svr_schema_descriptors :: "SchemaDescriptorHeader list"
  svr_policy :: bool

definition server_bind_of :: "server_role \<Rightarrow> NativeHandle \<Rightarrow> server_bind_request" where
  "server_bind_of r registry =
     \<lparr>sbr_server_id = svr_server_id r, sbr_generation = svr_generation r,
      sbr_supported_profiles = svr_supported_profiles r,
      sbr_supported_cache_objects = svr_supported_cache_objects r,
      sbr_max_cache_objects = svr_max_cache_objects r mod 2 ^ 64,
      sbr_max_cache_object_bytes = svr_max_cache_object_bytes r mod 2 ^ 32,
      sbr_resume_token_bytes = svr_resume_token_bytes r mod 2 ^ 32,
      sbr_max_in_flight_operations = svr_max_in_flight_operations r mod 2 ^ 16,
      sbr_granted_operation_credit = svr_granted_operation_credit r mod 2 ^ 16,
      sbr_lease_ttl_ms = svr_lease_ttl_ms r mod 2 ^ 32, sbr_resume_window_ms = svr_resume_window_ms r mod 2 ^ 32,
      sbr_schema_registry = registry, sbr_policy = svr_policy r\<rparr>"

text \<open>What the library answers; \<open>sad_dispatcher\<close> is the outcome of closing the policy dispatcher.\<close>

record server_adoption =
  sad_create :: "NativeStatus \<times> NativeHandle"
  sad_installs :: "nat \<Rightarrow> NativeStatus \<times> int"
  sad_bind :: "NativeStatus \<times> NativeHandle"
  sad_release :: NativeStatus
  sad_dispatcher :: "unit nres"

text \<open>
  \<open>_adopt_server_role\<close>.  The schema registry is released in a \<open>finally\<close>, also after the server was
  bound; an error of the release then leaves the listener as it is.  The result is the handle of the
  server, and whether it has a policy dispatcher.
\<close>

definition listener_adopt_server_role ::
    "server_role \<Rightarrow> server_adoption \<Rightarrow> (NativeTransportListener, NativeHandle \<times> bool) native_method" where
  "listener_adopt_server_role r reply b =
     (case bind_nat (native_validate_u64 ''server_id'' (svr_server_id r)) (\<lambda>_.
           bind_nat (native_validate_u32 ''generation'' (svr_generation r)) (\<lambda>_.
           bind_nat (listener_require_open b) (\<lambda>_.
           bind_nat (native_u16_slice (svr_supported_profiles r)) (\<lambda>_.
             native_u32_slice (svr_supported_cache_objects r))))) of
        Inl err \<Rightarrow> (Inl err, [], b)
      | Inr _ \<Rightarrow>
          (let create = (CreateSchemaRegistry, fst (sad_create reply))
           in case bind_nat (raise_for_native_status (fst (sad_create reply))) (\<lambda>_.
                typed_from_ffi KIND_SCHEMA_REGISTRY (snd (sad_create reply))) of
             Inl err \<Rightarrow> (Inl err, [create], b)
           | Inr registry \<Rightarrow>
               (case install_all registry (sad_installs reply) 0 (svr_schema_descriptors r) of
                  (installed, installs) \<Rightarrow>
                    let bound = (BindServer (ntl_handle b) (server_bind_of r registry), fst (sad_bind reply));
                        release = (ReleaseSchemaRegistry registry, sad_release reply);
                        calls = create # installs @ (if installed = Inr () then [bound] else []) @ [release]
                    in case bind_nat (raise_for_native_status (sad_release reply)) (\<lambda>_. installed) of
                         Inl err \<Rightarrow> (Inl err, calls, b)
                       | Inr _ \<Rightarrow>
                           (case raise_for_native_status (fst (sad_bind reply)) of
                              Inl err \<Rightarrow>
                                (case if svr_policy r then sad_dispatcher reply else Inr () of
                                   Inl err' \<Rightarrow> (Inl err', calls, b)
                                 | Inr _ \<Rightarrow> (Inl err, calls, b))
                            | Inr _ \<Rightarrow>
                                (bind_nat (typed_from_ffi KIND_CONNECTION (snd (sad_bind reply)))
                                   (\<lambda>h. Inr (h, svr_policy r)), calls,
                                 b\<lparr>ntl_closed := True, ntl_handle := invalid_handle\<rparr>)))))"

datatype listener_op =
    ListenerAccept int NativeStatus NativeHandle
  | ListenerClose NativeStatus
  | ListenerAdopt server_role server_adoption

fun listener_step :: "listener_op \<Rightarrow> NativeTransportListener \<Rightarrow> library_call list \<times> NativeTransportListener" where
  "listener_step (ListenerAccept timeout_ms status out) b = snd (listener_accept timeout_ms status out b)"
| "listener_step (ListenerClose status) b = snd (listener_close status b)"
| "listener_step (ListenerAdopt r reply) b = snd (listener_adopt_server_role r reply b)"

text \<open>The contract holds when the release of a schema registry does not fail after the server was bound.\<close>

fun listener_regular :: "listener_op \<Rightarrow> bool" where
  "listener_regular (ListenerAdopt r reply) \<longleftrightarrow>
     status_succeeded (fst (sad_bind reply)) \<longrightarrow> status_succeeded (sad_release reply)"
| "listener_regular _ \<longleftrightarrow> True"

lemma install_all_names:
  "install_all registry installs n ds = (r, calls) \<Longrightarrow> nh_kind registry \<noteq> nh_kind h \<Longrightarrow>
    \<not> list_ex (names_handle h) calls"
proof (induction ds arbitrary: n r calls)
  case (Cons d ds)
  then show ?case by (auto simp: names_handle_def Let_def split: prod.splits sum.splits)
qed simp

lemma not_named: "\<not> list_ex (names_handle h) cs \<Longrightarrow> handle_respected h cs \<and> \<not> given_back h cs"
  by (auto simp: not_named_respected given_back_def list_ex_iff gives_back_def)

lemma listener_closed_adopt:
  "ntl_closed b \<Longrightarrow> snd (listener_adopt_server_role r reply b) = ([], b)"
  by (simp add: listener_adopt_server_role_def listener_require_open_def invalid_state_def bind_nat_def
      split: sum.split)

text \<open>The calls an adoption makes with the listener: none, or the bind.\<close>

lemma listener_adopt_calls:
  assumes "snd (listener_adopt_server_role r reply b) = (calls, b')"
    "nh_kind (ntl_handle b) = KIND_TRANSPORT_LISTENER" "\<not> ntl_closed b"
  shows "(b' = b \<and> \<not> list_ex (names_handle (ntl_handle b)) calls) \<or>
    (\<exists>registry before release. calls = before @ [(BindServer (ntl_handle b) (server_bind_of r registry), fst (sad_bind reply)), release] \<and>
       \<not> list_ex (names_handle (ntl_handle b)) (before @ [release]) \<and>
       b' = (if status_succeeded (sad_release reply) \<and> status_succeeded (fst (sad_bind reply))
             then b\<lparr>ntl_closed := True, ntl_handle := invalid_handle\<rparr> else b))"
proof -
  let ?h = "ntl_handle b"
  let ?c = "bind_nat (raise_for_native_status (fst (sad_create reply))) (\<lambda>_.
    typed_from_ffi KIND_SCHEMA_REGISTRY (snd (sad_create reply)))"
  consider "calls = []" "b' = b" | "calls = [(CreateSchemaRegistry, fst (sad_create reply))]" "b' = b"
    | registry installed installs where "?c = Inr registry"
      "install_all registry (sad_installs reply) 0 (svr_schema_descriptors r) = (installed, installs)"
      "calls = (CreateSchemaRegistry, fst (sad_create reply)) # installs @
         (if installed = Inr () then [(BindServer ?h (server_bind_of r registry), fst (sad_bind reply))] else []) @
         [(ReleaseSchemaRegistry registry, sad_release reply)]"
      "b' = (if status_succeeded (sad_release reply) \<and> status_succeeded (fst (sad_bind reply)) \<and> installed = Inr ()
             then b\<lparr>ntl_closed := True, ntl_handle := invalid_handle\<rparr> else b)"
    using assms(1) unfolding listener_adopt_server_role_def Let_def raise_for_native_status_def
    by (fastforce simp: bind_nat_def split: sum.splits prod.splits if_splits)
  then show ?thesis
  proof cases
    case (3 registry installed installs)
    have kind: "nh_kind registry \<noteq> nh_kind ?h"
      using 3(1) assms(2) by (auto simp: res_simps typed_from_ffi_Inr)
    have out: "\<not> list_ex (names_handle ?h) installs" by (rule install_all_names [OF 3(2) kind])
    have rel: "\<not> names_handle ?h (ReleaseSchemaRegistry registry, st)" "\<not> names_handle ?h (CreateSchemaRegistry, st)" for st
      using kind by (auto simp: names_handle_def)
    show ?thesis
    proof (cases "installed = Inr ()")
      case True
      then show ?thesis
        using 3(3,4) out rel
        by (intro disjI2 exI [of _ registry] exI [of _ "(CreateSchemaRegistry, fst (sad_create reply)) # installs"]
            exI [of _ "(ReleaseSchemaRegistry registry, sad_release reply)"]) simp
    next
      case False
      then show ?thesis using 3(3,4) out rel by simp
    qed
  qed (auto simp: names_handle_def)
qed

interpretation listener: owned ntl_handle "\<lambda>b. \<not> ntl_closed b" KIND_TRANSPORT_LISTENER listener_step listener_regular
proof
  fix b :: NativeTransportListener and c
  assume "\<not> \<not> ntl_closed b"
  then show "fst (listener_step c b) = [] \<and> \<not> \<not> ntl_closed (snd (listener_step c b))"
    by (cases c) (auto simp: listener_accept_def listener_close_def listener_closed_adopt listener_require_open_def
        owner_simps split: sum.split)
next
  fix b b' :: NativeTransportListener and c calls
  assume b: "listener_regular c" "\<not> ntl_closed b" "nh_kind (ntl_handle b) = KIND_TRANSPORT_LISTENER"
    "listener_step c b = (calls, b')"
  show "handle_respected (ntl_handle b) calls \<and> (\<not> ntl_closed b' \<longleftrightarrow> \<not> given_back (ntl_handle b) calls) \<and>
      (\<not> ntl_closed b' \<longrightarrow> ntl_handle b' = ntl_handle b)"
  proof (cases c)
    case (ListenerAccept timeout_ms status out)
    then show ?thesis using b by (auto simp: listener_accept_def owner_simps split: sum.splits)
  next
    case (ListenerClose status)
    then show ?thesis using b by (auto simp: listener_close_def owner_simps split: if_splits)
  next
    case (ListenerAdopt r reply)
    have "snd (listener_adopt_server_role r reply b) = (calls, b')" using b(4) ListenerAdopt by simp
    from listener_adopt_calls [OF this b(3,2)] show ?thesis
    proof (elim disjE exE conjE)
      assume "b' = b" "\<not> list_ex (names_handle (ntl_handle b)) calls"
      then show ?thesis using b(2) not_named by blast
    next
      fix registry before release
      assume bound: "calls = before @ [(BindServer (ntl_handle b) (server_bind_of r registry), fst (sad_bind reply)), release]"
        "\<not> list_ex (names_handle (ntl_handle b)) (before @ [release])"
        "b' = (if status_succeeded (sad_release reply) \<and> status_succeeded (fst (sad_bind reply))
             then b\<lparr>ntl_closed := True, ntl_handle := invalid_handle\<rparr> else b)"
      have "\<not> list_ex (names_handle (ntl_handle b)) before" "\<not> names_handle (ntl_handle b) release"
        using bound(2) by auto
      then show ?thesis
        using b(1,2) bound(1,3) ListenerAdopt not_named [of "ntl_handle b" before]
        by (auto simp: handle_respected_append gives_back_def names_handle_def)
    qed
  qed
qed

text \<open>
  If the release fails after the server was bound, the listener still owns the handle it has given
  away, and closing it closes the transport of the server.
\<close>

lemma bound_listener_closed_again:
  assumes "\<not> ntl_closed b" "nh_kind (ntl_handle b) = KIND_TRANSPORT_LISTENER"
    "listener_adopt_server_role r reply b = (res, calls, b1)" "given_back (ntl_handle b) calls"
    "\<not> status_succeeded (sad_release reply)"
  shows "b1 = b"
    "\<not> handle_respected (ntl_handle b) (fst (run_owner listener_step [ListenerAdopt r reply, ListenerClose status] b))"
proof -
  have adopt: "snd (listener_adopt_server_role r reply b) = (calls, b1)" using assms(3) by simp
  show b1: "b1 = b"
    using listener_adopt_calls [OF adopt assms(2,1)] assms(5) by auto
  have close: "listener_step (ListenerClose status) b =
      ([(CloseTransport (ntl_handle b), status)], if status_succeeded status then b\<lparr>ntl_closed := True\<rparr> else b)"
    using assms(1) by (simp add: listener_close_def end_handle_calls)
  have "fst (run_owner listener_step [ListenerAdopt r reply, ListenerClose status] b) =
      calls @ [(CloseTransport (ntl_handle b), status)]"
    using adopt b1 close by (simp del: listener_step.simps add: listener_step.simps(3))
  then show "\<not> handle_respected (ntl_handle b)
      (fst (run_owner listener_step [ListenerAdopt r reply, ListenerClose status] b))"
    using assms(4) by (simp add: handle_respected_append names_handle_def)
qed

end
