(* ===== verification/Native_Objects.thy ===== *)
theory Native_Objects
  imports Owned_Handles
begin

text \<open>
  Objects of the native library that an application holds: schema registries, buffers with their
  borrowed views, and object descriptors.  Each is an interpretation of \<open>owned\<close>; a buffer is not
  released while a borrowed view of it is active.

  \<open>NativeOwnedBuffer\<close> and \<open>NativeObjectMetadataBuffer\<close> are the same class over two sets of library
  functions; they are one record here, and \<open>buffer_family\<close> says which functions are called.
\<close>

section \<open>Views\<close>

record NativeBufferView =
  nbv_ptr :: int
  nbv_length :: int

definition NativeBufferView_init :: "NativeBufferView \<Rightarrow> NativeBufferView nres" where
  "NativeBufferView_init v = bind_nat (validate_pointer_and_length (nbv_ptr v) (nbv_length v)) (\<lambda>_. Inr v)"

definition NativeBufferView_empty :: NativeBufferView where
  "NativeBufferView_empty = \<lparr>nbv_ptr = 0, nbv_length = 0\<rparr>"

section \<open>Schema registries\<close>

record NativeSchemaRegistry =
  nsr_handle :: NativeHandle
  nsr_released :: bool

definition schema_registry_ensure_open :: "NativeSchemaRegistry \<Rightarrow> unit nres" where
  "schema_registry_ensure_open b = (if nsr_released b then invalid_state else Inr ())"

definition schema_registry_create :: "NativeStatus \<Rightarrow> NativeHandle \<Rightarrow> NativeSchemaRegistry nres \<times> library_call list" where
  "schema_registry_create status out =
     (bind_nat (raise_for_native_status status) (\<lambda>_. bind_nat (typed_from_ffi KIND_SCHEMA_REGISTRY out) (\<lambda>h.
        Inr \<lparr>nsr_handle = h, nsr_released = False\<rparr>)), [(CreateSchemaRegistry, status)])"

definition schema_registry_install ::
    "SchemaDescriptorHeader \<Rightarrow> NativeStatus \<Rightarrow> int \<Rightarrow> (NativeSchemaRegistry, SchemaRegistryAction) native_method" where
  "schema_registry_install d status action b =
     ask_library (schema_registry_ensure_open b) (InstallSchema (nsr_handle b) (schema_descriptor_to_ffi d)) status
       (schema_registry_action_from_ffi action) b"

definition schema_descriptor_from_ffi :: "SchemaDescriptorHeader \<Rightarrow> SchemaDescriptorHeader nres" where
  "schema_descriptor_from_ffi d = plain (SchemaDescriptorHeader_post_init d)"

definition schema_registry_lookup ::
    "int \<Rightarrow> int \<Rightarrow> NativeStatus \<Rightarrow> SchemaDescriptorHeader \<Rightarrow> (NativeSchemaRegistry, SchemaDescriptorHeader) native_method" where
  "schema_registry_lookup schema_id schema_version status out b =
     ask_library (bind_nat (schema_registry_ensure_open b) (\<lambda>_.
         bind_nat (native_validate_u32 ''schema_id'' schema_id) (\<lambda>_.
           native_validate_u32 ''schema_version'' schema_version)))
       (LookupSchema (nsr_handle b) schema_id schema_version) status (schema_descriptor_from_ffi out) b"

definition schema_registry_invalidate ::
    "int \<Rightarrow> int \<Rightarrow> NativeStatus \<Rightarrow> int \<Rightarrow> (NativeSchemaRegistry, SchemaRegistryAction) native_method" where
  "schema_registry_invalidate schema_id schema_version status action b =
     ask_library (bind_nat (schema_registry_ensure_open b) (\<lambda>_.
         bind_nat (native_validate_u32 ''schema_id'' schema_id) (\<lambda>_.
           native_validate_u32 ''schema_version'' schema_version)))
       (InvalidateSchema (nsr_handle b) schema_id schema_version) status
       (schema_registry_action_from_ffi action) b"

definition typed_payload_descriptor_to_ffi :: "TypedPayloadDescriptor \<Rightarrow> TypedPayloadDescriptor" where
  "typed_payload_descriptor_to_ffi d =
     \<lparr>tpd_profile_id = tpd_profile_id d mod 2 ^ 16, tpd_payload_kind = tpd_payload_kind d mod 2 ^ 8,
      tpd_descriptor_flags = tpd_descriptor_flags d mod 2 ^ 8, tpd_schema_id = tpd_schema_id d mod 2 ^ 32,
      tpd_schema_version = tpd_schema_version d mod 2 ^ 32,
      tpd_stream_semantics = tpd_stream_semantics d mod 2 ^ 16, tpd_offset = tpd_offset d mod 2 ^ 32,
      tpd_length = tpd_length d mod 2 ^ 32\<rparr>"

definition registry_validate_binding ::
    "TypedPayloadDescriptor \<Rightarrow> NativeStatus \<Rightarrow> (NativeSchemaRegistry, unit) native_method" where
  "registry_validate_binding d status b =
     ask_library (schema_registry_ensure_open b)
       (ValidateBinding (nsr_handle b) (typed_payload_descriptor_to_ffi d)) status (Inr ()) b"

definition schema_registry_close :: "NativeStatus \<Rightarrow> (NativeSchemaRegistry, unit) native_method" where
  "schema_registry_close status b =
     end_handle (schema_registry_ensure_open b) (ReleaseSchemaRegistry (nsr_handle b)) status
       (\<lambda>b. b\<lparr>nsr_released := True\<rparr>) b"

datatype registry_op =
    RegistryInstall SchemaDescriptorHeader NativeStatus int
  | RegistryLookup int int NativeStatus SchemaDescriptorHeader
  | RegistryInvalidate int int NativeStatus int
  | RegistryValidate TypedPayloadDescriptor NativeStatus
  | RegistryClose NativeStatus

fun registry_step :: "registry_op \<Rightarrow> NativeSchemaRegistry \<Rightarrow> library_call list \<times> NativeSchemaRegistry" where
  "registry_step (RegistryInstall d status action) b = snd (schema_registry_install d status action b)"
| "registry_step (RegistryLookup i v status out) b = snd (schema_registry_lookup i v status out b)"
| "registry_step (RegistryInvalidate i v status action) b = snd (schema_registry_invalidate i v status action b)"
| "registry_step (RegistryValidate d status) b = snd (registry_validate_binding d status b)"
| "registry_step (RegistryClose status) b = snd (schema_registry_close status b)"

lemmas registry_defs = schema_registry_install_def schema_registry_lookup_def schema_registry_invalidate_def
  registry_validate_binding_def schema_registry_close_def schema_registry_ensure_open_def

interpretation registry: owned nsr_handle "\<lambda>b. \<not> nsr_released b" KIND_SCHEMA_REGISTRY registry_step "\<lambda>_. True"
proof
  fix b :: NativeSchemaRegistry and c
  assume "\<not> \<not> nsr_released b"
  then show "fst (registry_step c b) = [] \<and> \<not> \<not> nsr_released (snd (registry_step c b))"
    by (cases c) (auto simp: registry_defs owner_simps)
next
  fix b b' :: NativeSchemaRegistry and c calls
  assume "\<not> nsr_released b" "registry_step c b = (calls, b')"
  then show "handle_respected (nsr_handle b) calls \<and> (\<not> nsr_released b' \<longleftrightarrow> \<not> given_back (nsr_handle b) calls) \<and>
      (\<not> nsr_released b' \<longrightarrow> nsr_handle b' = nsr_handle b)"
    by (cases c) (auto simp: registry_defs owner_simps split: sum.splits if_splits)
qed

lemma known_flag_bits:
  assumes "(f :: int) AND NOT 0xF = 0"
  shows "0 \<le> f \<and> f < 16"
proof -
  have "(0xF :: int) = mask 4" by (simp add: mask_eq_exp_minus_1)
  then have "f AND NOT (mask 4) = 0" using assms by simp
  then have "take_bit 4 f = f"
    by (auto simp: bit_eq_iff bit_simps)
  then show ?thesis using take_bit_nonnegative [of 4 f] take_bit_int_less_exp [of 4 f] by simp
qed

text \<open>A descriptor is handed over as it is, and one that the library gives back is read as it is.\<close>

lemma schema_descriptor_ffi:
  assumes "SchemaDescriptorHeader_wf d"
  shows "schema_descriptor_to_ffi d = d" "schema_descriptor_from_ffi (schema_descriptor_to_ffi d) = Inr d"
proof -
  have "sdh_schema_flags d AND NOT 0xF = 0"
    using assms by (auto simp: SchemaDescriptorHeader_wf_def SchemaDescriptorHeader_post_init_def res_simps
        validate_mask_def split: if_splits)
  from known_flag_bits [OF this] show same: "schema_descriptor_to_ffi d = d"
    using assms by (cases d) (auto simp: SchemaDescriptorHeader_wf_def SchemaDescriptorHeader_post_init_def
        schema_descriptor_to_ffi_def res_simps validate_u32_def validate_u16_def validate_u8_def validate_u64_def
        split: if_splits)
  show "schema_descriptor_from_ffi (schema_descriptor_to_ffi d) = Inr d"
    using assms by (simp add: same schema_descriptor_from_ffi_def SchemaDescriptorHeader_wf_def)
qed

section \<open>Buffers\<close>

record NativeOwnedBuffer =
  nob_family :: buffer_family
  nob_handle :: NativeHandle
  nob_view :: NativeBufferView
  nob_released :: bool
  nob_borrow_count :: int

definition buffer_ensure_open :: "NativeOwnedBuffer \<Rightarrow> unit nres" where
  "buffer_ensure_open b = (if nob_released b then invalid_state else Inr ())"

definition buffer_acquire_copy ::
    "buffer_family \<Rightarrow> bytes \<Rightarrow> NativeStatus \<Rightarrow> NativeHandle \<Rightarrow> NativeBufferView
      \<Rightarrow> NativeOwnedBuffer nres \<times> library_call list" where
  "buffer_acquire_copy family payload status out out_view =
     (bind_nat (raise_for_native_status status) (\<lambda>_. bind_nat (typed_from_ffi KIND_BUFFER out) (\<lambda>h.
        bind_nat (NativeBufferView_init out_view) (\<lambda>view.
          Inr \<lparr>nob_family = family, nob_handle = h, nob_view = view, nob_released = False, nob_borrow_count = 0\<rparr>))),
      [(AcquireBuffer family payload, status)])"

definition buffer_refresh_view ::
    "NativeStatus \<Rightarrow> NativeBufferView \<Rightarrow> (NativeOwnedBuffer, NativeBufferView) native_method" where
  "buffer_refresh_view status out_view b =
     (case ask_library (buffer_ensure_open b) (ViewBuffer (nob_family b) (nob_handle b)) status
         (NativeBufferView_init out_view) b of
        (Inl err, calls, b) \<Rightarrow> (Inl err, calls, b)
      | (Inr view, calls, b) \<Rightarrow> (Inr view, calls, b\<lparr>nob_view := view\<rparr>))"

definition buffer_to_bytes :: "NativeStatus \<Rightarrow> bytes option \<Rightarrow> (NativeOwnedBuffer, bytes) native_method" where
  "buffer_to_bytes status out_view b =
     ask_library (buffer_ensure_open b) (ViewBuffer (nob_family b) (nob_handle b)) status
       (copy_buffer_view out_view) b"

definition buffer_close :: "NativeStatus \<Rightarrow> (NativeOwnedBuffer, unit) native_method" where
  "buffer_close status b =
     end_handle (bind_nat (buffer_ensure_open b) (\<lambda>_. if nob_borrow_count b \<noteq> 0 then invalid_state else Inr ()))
       (ReleaseBuffer (nob_family b) (nob_handle b)) status (\<lambda>b. b\<lparr>nob_released := True\<rparr>) b"

subsection \<open>Borrowed views\<close>

record NativeBorrowedBufferView =
  nbw_view :: NativeBufferView
  nbw_active :: bool

definition buffer_borrow_view ::
    "NativeStatus \<Rightarrow> NativeBufferView \<Rightarrow> (NativeOwnedBuffer, NativeBorrowedBufferView) native_method" where
  "buffer_borrow_view status out_view b =
     (case buffer_ensure_open b of
        Inl err \<Rightarrow> (Inl err, [], b)
      | Inr _ \<Rightarrow>
          (case buffer_refresh_view status out_view b of
             (r, calls, b) \<Rightarrow> (bind_nat r (\<lambda>view. Inr \<lparr>nbw_view = view, nbw_active = False\<rparr>), calls, b)))"

text \<open>\<open>maps\<close> is the outcome of making the memory view.\<close>

definition borrowed_enter ::
    "unit nres \<Rightarrow> NativeBorrowedBufferView \<Rightarrow> NativeOwnedBuffer
      \<Rightarrow> NativeBufferView nres \<times> NativeBorrowedBufferView \<times> NativeOwnedBuffer" where
  "borrowed_enter maps w b =
     (if nbw_active w then (invalid_state, w, b)
      else case buffer_ensure_open b of
        Inl err \<Rightarrow> (Inl err, w, b)
      | Inr _ \<Rightarrow>
          (let b = b\<lparr>nob_borrow_count := nob_borrow_count b + 1\<rparr>;
               w = w\<lparr>nbw_active := True\<rparr>
           in case maps of
                Inr _ \<Rightarrow> (Inr (nbw_view w), w, b)
              | Inl err \<Rightarrow>
                  (Inl err, w\<lparr>nbw_active := False\<rparr>, b\<lparr>nob_borrow_count := nob_borrow_count b - 1\<rparr>)))"

definition borrowed_exit ::
    "NativeBorrowedBufferView \<Rightarrow> NativeOwnedBuffer \<Rightarrow> NativeBorrowedBufferView \<times> NativeOwnedBuffer" where
  "borrowed_exit w b =
     (if nbw_active w
      then (w\<lparr>nbw_active := False\<rparr>, b\<lparr>nob_borrow_count := nob_borrow_count b - 1\<rparr>) else (w, b))"

text \<open>A buffer with the views that were borrowed of it, and what a program does with them.\<close>

record lent_buffer =
  lnb_buffer :: NativeOwnedBuffer
  lnb_views :: "NativeBorrowedBufferView list"

datatype lent_op =
    LentRefresh NativeStatus NativeBufferView
  | LentBytes NativeStatus "bytes option"
  | LentBorrow NativeStatus NativeBufferView
  | LentEnter nat "unit nres"
  | LentExit nat
  | LentClose NativeStatus

definition with_view ::
    "nat \<Rightarrow> (NativeBorrowedBufferView \<Rightarrow> NativeOwnedBuffer \<Rightarrow> NativeBorrowedBufferView \<times> NativeOwnedBuffer)
      \<Rightarrow> lent_buffer \<Rightarrow> lent_buffer" where
  "with_view i f l =
     (if i < length (lnb_views l)
      then case f (lnb_views l ! i) (lnb_buffer l) of
             (w, b) \<Rightarrow> l\<lparr>lnb_buffer := b, lnb_views := (lnb_views l)[i := w]\<rparr>
      else l)"

fun lent_step :: "lent_op \<Rightarrow> lent_buffer \<Rightarrow> library_call list \<times> lent_buffer" where
  "lent_step (LentRefresh status out_view) l =
     (case buffer_refresh_view status out_view (lnb_buffer l) of (_, calls, b) \<Rightarrow> (calls, l\<lparr>lnb_buffer := b\<rparr>))"
| "lent_step (LentBytes status out_view) l =
     (case buffer_to_bytes status out_view (lnb_buffer l) of (_, calls, b) \<Rightarrow> (calls, l\<lparr>lnb_buffer := b\<rparr>))"
| "lent_step (LentBorrow status out_view) l =
     (case buffer_borrow_view status out_view (lnb_buffer l) of
        (r, calls, b) \<Rightarrow>
          (calls, l\<lparr>lnb_buffer := b,
             lnb_views := lnb_views l @ (case r of Inl _ \<Rightarrow> [] | Inr w \<Rightarrow> [w])\<rparr>))"
| "lent_step (LentEnter i maps) l = ([], with_view i (\<lambda>w b. snd (borrowed_enter maps w b)) l)"
| "lent_step (LentExit i) l = ([], with_view i borrowed_exit l)"
| "lent_step (LentClose status) l =
     (case buffer_close status (lnb_buffer l) of (_, calls, b) \<Rightarrow> (calls, l\<lparr>lnb_buffer := b\<rparr>))"

lemma refresh_view_calls:
  "snd (buffer_refresh_view status out_view b) =
    (if nob_released b then ([], b)
     else ([(ViewBuffer (nob_family b) (nob_handle b), status)],
       if status_succeeded status \<and> NativeBufferView_init out_view = Inr out_view then b\<lparr>nob_view := out_view\<rparr> else b))"
  by (auto simp: buffer_refresh_view_def ask_library_def buffer_ensure_open_def invalid_state_def
      raise_for_native_status_def NativeBufferView_init_def bind_nat_def split: sum.splits)

lemma borrow_view_calls:
  assumes "buffer_borrow_view status out_view b = (r, calls, b')"
  shows "(calls, b') = snd (buffer_refresh_view status out_view b) \<and> (\<forall>w. r = Inr w \<longrightarrow> \<not> nbw_active w)"
proof (cases "nob_released b")
  case True
  then show ?thesis
    using assms by (auto simp: buffer_borrow_view_def refresh_view_calls buffer_ensure_open_def invalid_state_def)
next
  case False
  obtain x c b0 where "buffer_refresh_view status out_view b = (x, c, b0)"
    by (cases "buffer_refresh_view status out_view b")
  then show ?thesis
    using assms False by (auto simp: buffer_borrow_view_def buffer_ensure_open_def res_simps)
qed

lemma buffer_to_bytes_calls:
  "snd (buffer_to_bytes status out_view b) =
    (if nob_released b then ([], b) else ([(ViewBuffer (nob_family b) (nob_handle b), status)], b))"
  by (simp add: buffer_to_bytes_def ask_library_calls buffer_ensure_open_def invalid_state_def)

lemma buffer_close_calls:
  "snd (buffer_close status b) =
    (if nob_released b \<or> nob_borrow_count b \<noteq> 0 then ([], b)
     else ([(ReleaseBuffer (nob_family b) (nob_handle b), status)],
       if status_succeeded status then b\<lparr>nob_released := True\<rparr> else b))"
  by (simp add: buffer_close_def end_handle_calls buffer_ensure_open_def invalid_state_def)

text \<open>Entering and leaving a view change nothing of the buffer but the count.\<close>

lemma with_view_buffer:
  assumes "\<And>w b. nob_handle (snd (f w b)) = nob_handle b \<and> nob_released (snd (f w b)) = nob_released b"
  shows "nob_handle (lnb_buffer (with_view i f l)) = nob_handle (lnb_buffer l)"
    "nob_released (lnb_buffer (with_view i f l)) = nob_released (lnb_buffer l)"
  using assms [of "lnb_views l ! i" "lnb_buffer l"] by (auto simp: with_view_def split: prod.splits)

lemma enter_exit_buffer:
  "nob_handle (snd (snd (borrowed_enter maps w b))) = nob_handle b \<and>
   nob_released (snd (snd (borrowed_enter maps w b))) = nob_released b"
  "nob_handle (snd (borrowed_exit w b)) = nob_handle b \<and> nob_released (snd (borrowed_exit w b)) = nob_released b"
  by (auto simp: borrowed_enter_def borrowed_exit_def Let_def split: sum.split)

lemmas enter_buffer = with_view_buffer [OF enter_exit_buffer(1)]
lemmas exit_buffer = with_view_buffer [OF enter_exit_buffer(2)]

interpretation lent: owned "\<lambda>l. nob_handle (lnb_buffer l)" "\<lambda>l. \<not> nob_released (lnb_buffer l)" KIND_BUFFER lent_step "\<lambda>_. True"
proof
  fix l :: lent_buffer and c
  assume l: "\<not> \<not> nob_released (lnb_buffer l)"
  show "fst (lent_step c l) = [] \<and> \<not> \<not> nob_released (lnb_buffer (snd (lent_step c l)))"
  proof (cases c)
    case (LentRefresh status out_view)
    then show ?thesis using l refresh_view_calls [of status out_view "lnb_buffer l"] by (auto split: prod.split)
  next
    case (LentBytes status out_view)
    then show ?thesis using l buffer_to_bytes_calls [of status out_view "lnb_buffer l"] by (auto split: prod.split)
  next
    case (LentBorrow status out_view)
    then show ?thesis
      using l borrow_view_calls [of status out_view "lnb_buffer l"]
      by (auto simp: refresh_view_calls split: prod.split)
  next
    case (LentClose status)
    then show ?thesis using l buffer_close_calls [of status "lnb_buffer l"] by (auto split: prod.split)
  qed (use l in \<open>simp_all add: enter_buffer exit_buffer\<close>)
next
  fix l l' :: lent_buffer and c calls
  assume l: "\<not> nob_released (lnb_buffer l)" "lent_step c l = (calls, l')"
  show "handle_respected (nob_handle (lnb_buffer l)) calls \<and>
      (\<not> nob_released (lnb_buffer l') \<longleftrightarrow> \<not> given_back (nob_handle (lnb_buffer l)) calls) \<and>
      (\<not> nob_released (lnb_buffer l') \<longrightarrow> nob_handle (lnb_buffer l') = nob_handle (lnb_buffer l))"
  proof (cases c)
    case (LentRefresh status out_view)
    then show ?thesis
      using l refresh_view_calls [of status out_view "lnb_buffer l"]
      by (auto simp: gives_back_def names_handle_def split: prod.splits if_splits)
  next
    case (LentBytes status out_view)
    then show ?thesis
      using l buffer_to_bytes_calls [of status out_view "lnb_buffer l"]
      by (auto simp: gives_back_def names_handle_def split: prod.splits if_splits)
  next
    case (LentBorrow status out_view)
    then show ?thesis
      using l borrow_view_calls [of status out_view "lnb_buffer l"]
      by (auto simp: gives_back_def names_handle_def refresh_view_calls split: prod.splits if_splits)
  next
    case (LentClose status)
    then show ?thesis
      using l buffer_close_calls [of status "lnb_buffer l"]
      by (auto simp: gives_back_def names_handle_def split: prod.splits if_splits)
  qed (use l in \<open>auto simp: enter_buffer exit_buffer\<close>)
qed

subsection \<open>No view of a released buffer\<close>

definition lent_inv :: "lent_buffer \<Rightarrow> bool" where
  "lent_inv l \<longleftrightarrow> nob_borrow_count (lnb_buffer l) = int (length (filter nbw_active (lnb_views l))) \<and>
     (nob_released (lnb_buffer l) \<longrightarrow> \<not> list_ex nbw_active (lnb_views l))"

lemma filter_update:
  "i < length xs \<Longrightarrow> int (length (filter P (xs[i := y]))) =
    int (length (filter P xs)) - of_bool (P (xs ! i)) + of_bool (P y)"
proof (induction xs arbitrary: i)
  case (Cons x xs)
  then show ?case by (cases i) auto
qed simp

lemma no_active: "length (filter P xs) = 0 \<longleftrightarrow> \<not> list_ex P xs"
  by (auto simp: filter_empty_conv list_ex_iff)

lemma lent_inv_view:
  assumes "lent_inv l"
  shows "lent_inv (with_view i (\<lambda>w b. snd (borrowed_enter maps w b)) l)" "lent_inv (with_view i borrowed_exit l)"
proof -
  have released: "nob_released (lnb_buffer l) \<Longrightarrow> i < length (lnb_views l) \<Longrightarrow> \<not> nbw_active (lnb_views l ! i)"
    using assms by (auto simp: lent_inv_def list_ex_iff)
  show "lent_inv (with_view i (\<lambda>w b. snd (borrowed_enter maps w b)) l)"
    using assms
    by (auto simp: lent_inv_def with_view_def borrowed_enter_def buffer_ensure_open_def invalid_state_def Let_def
        filter_update split: prod.splits sum.splits if_splits)
  show "lent_inv (with_view i borrowed_exit l)"
    using assms released
    by (auto simp: lent_inv_def with_view_def borrowed_exit_def filter_update split: prod.splits if_splits)
qed

lemma lent_inv_step:
  assumes "lent_inv l"
  shows "lent_inv (snd (lent_step c l))"
proof (cases c)
  case (LentRefresh status out_view)
  then show ?thesis
    using assms refresh_view_calls [of status out_view "lnb_buffer l"]
    by (auto simp: lent_inv_def split: prod.splits if_splits)
next
  case (LentBytes status out_view)
  then show ?thesis
    using assms buffer_to_bytes_calls [of status out_view "lnb_buffer l"]
    by (auto simp: lent_inv_def split: prod.splits if_splits)
next
  case (LentBorrow status out_view)
  then show ?thesis
    using assms borrow_view_calls [of status out_view "lnb_buffer l"]
    by (auto simp: lent_inv_def refresh_view_calls split: prod.splits if_splits sum.splits)
next
  case (LentClose status)
  then show ?thesis
    using assms buffer_close_calls [of status "lnb_buffer l"] no_active [of nbw_active "lnb_views l"]
    by (auto simp: lent_inv_def split: prod.splits if_splits)
qed (simp_all add: assms lent_inv_view)

lemma lent_inv_run: "lent_inv l \<Longrightarrow> run_owner lent_step cs l = (calls, l') \<Longrightarrow> lent_inv l'"
proof (induction cs arbitrary: l calls)
  case (Cons c cs)
  then show ?case using lent_inv_step [of l c] by (auto split: prod.splits)
qed simp

definition lend :: "NativeOwnedBuffer \<Rightarrow> lent_buffer" where
  "lend b = \<lparr>lnb_buffer = b, lnb_views = []\<rparr>"

lemma acquired_buffer:
  "buffer_acquire_copy family payload status out out_view = (Inr b, calls) \<Longrightarrow>
    nob_handle b = out \<and> nh_kind out = KIND_BUFFER \<and> \<not> nob_released b \<and> lent_inv (lend b)"
  by (auto simp: buffer_acquire_copy_def res_simps lend_def lent_inv_def)

text \<open>
  A program that gets a buffer from the library and borrows views of it never reads through a view
  after the buffer was released, whatever it calls in whatever order.
\<close>

lemma no_view_of_released_buffer:
  assumes "buffer_acquire_copy family payload status out out_view = (Inr b, acquired)"
    "run_owner lent_step ops (lend b) = (calls, l)"
  shows "handle_respected out calls" "list_ex nbw_active (lnb_views l) \<Longrightarrow> \<not> given_back out calls"
proof -
  have b: "nob_handle b = out" "nh_kind out = KIND_BUFFER" "\<not> nob_released b" "lent_inv (lend b)"
    using acquired_buffer [OF assms(1)] by blast+
  have run: "handle_respected out calls \<and> (\<not> nob_released (lnb_buffer l) \<longleftrightarrow> \<not> given_back out calls)"
    using lent.run_respects [of ops "lend b" calls l] assms(2) b by (simp add: lend_def list_all_iff)
  then show "handle_respected out calls" by blast
  show "\<not> given_back out calls" if "list_ex nbw_active (lnb_views l)"
    using run that lent_inv_run [OF b(4) assms(2)] by (auto simp: lent_inv_def)
qed

section \<open>Object descriptors\<close>

abbreviation (input) KIND_OBJECT_DESCRIPTOR :: int where "KIND_OBJECT_DESCRIPTOR \<equiv> 8"

record NativeObjectDescriptor =
  nod_handle :: NativeHandle
  nod_descriptor :: ObjectDescriptorMetadata
  nod_metadata_view :: NativeBufferView
  nod_released :: bool

definition object_descriptor_ensure_open :: "NativeObjectDescriptor \<Rightarrow> unit nres" where
  "object_descriptor_ensure_open b = (if nod_released b then invalid_state else Inr ())"

definition runtime_object_descriptor_to_ffi :: "ObjectDescriptorMetadata \<Rightarrow> ObjectDescriptorMetadata" where
  "runtime_object_descriptor_to_ffi d =
     \<lparr>odm_object_id = odm_object_id d mod 2 ^ 64, odm_object_kind = odm_object_kind d mod 2 ^ 16,
      odm_producer_role = odm_producer_role d mod 2 ^ 8, odm_consumer_role = odm_consumer_role d mod 2 ^ 8,
      odm_session_id = odm_session_id d mod 2 ^ 32, odm_byte_size = odm_byte_size d mod 2 ^ 64,
      odm_compute_cost_units = odm_compute_cost_units d mod 2 ^ 32,
      odm_memory_location_hint = odm_memory_location_hint d mod 2 ^ 16,
      odm_ownership_hint = odm_ownership_hint d mod 2 ^ 16,
      odm_lifetime_hint_ms = odm_lifetime_hint_ms d mod 2 ^ 32,
      odm_metadata_bytes = odm_metadata_bytes d mod 2 ^ 32\<rparr>"

definition runtime_object_descriptor_from_ffi :: "ObjectDescriptorMetadata \<Rightarrow> ObjectDescriptorMetadata nres" where
  "runtime_object_descriptor_from_ffi d =
     plain (bind_res (known_member RuntimeObjectKind_of (odm_object_kind d)) (\<lambda>_.
       bind_res (known_member RuntimeRole_of (odm_producer_role d)) (\<lambda>_.
       bind_res (known_member RuntimeRole_of (odm_consumer_role d)) (\<lambda>_.
       bind_res (known_member MemoryLocationHint_of (odm_memory_location_hint d)) (\<lambda>_.
       bind_res (known_member OwnershipHint_of (odm_ownership_hint d)) (\<lambda>_. Inr d))))))"

definition object_descriptor_refresh_view ::
    "NativeStatus \<Rightarrow> ObjectDescriptorMetadata \<Rightarrow> NativeBufferView
      \<Rightarrow> (NativeObjectDescriptor, ObjectDescriptorMetadata \<times> NativeBufferView) native_method" where
  "object_descriptor_refresh_view status out_descriptor out_metadata b =
     (case ask_library (object_descriptor_ensure_open b) (ViewObject (nod_handle b)) status
         (bind_nat (runtime_object_descriptor_from_ffi out_descriptor) (\<lambda>d.
            bind_nat (NativeBufferView_init out_metadata) (\<lambda>v. Inr (d, v)))) b of
        (Inl err, calls, b) \<Rightarrow> (Inl err, calls, b)
      | (Inr (d, v), calls, b) \<Rightarrow> (Inr (d, v), calls, b\<lparr>nod_descriptor := d, nod_metadata_view := v\<rparr>))"

definition object_descriptor_create ::
    "ObjectDescriptorMetadata \<Rightarrow> bytes \<Rightarrow> NativeStatus \<Rightarrow> NativeHandle \<Rightarrow> NativeStatus
      \<Rightarrow> ObjectDescriptorMetadata \<Rightarrow> NativeBufferView \<Rightarrow> NativeObjectDescriptor nres \<times> library_call list" where
  "object_descriptor_create d metadata status out view_status out_descriptor out_metadata =
     (let create = (CreateObject (runtime_object_descriptor_to_ffi d) metadata, status)
      in case bind_nat (raise_for_native_status status) (\<lambda>_. typed_from_ffi KIND_OBJECT_DESCRIPTOR out) of
           Inl err \<Rightarrow> (Inl err, [create])
         | Inr h \<Rightarrow>
             (case object_descriptor_refresh_view view_status out_descriptor out_metadata
                 \<lparr>nod_handle = h, nod_descriptor = d, nod_metadata_view = NativeBufferView_empty,
                  nod_released = False\<rparr> of
                (r, calls, b) \<Rightarrow> (bind_nat r (\<lambda>_. Inr b), create # calls)))"

definition object_metadata_snapshot ::
    "NativeStatus \<Rightarrow> NativeHandle \<Rightarrow> NativeBufferView \<Rightarrow> (NativeObjectDescriptor, NativeOwnedBuffer) native_method" where
  "object_metadata_snapshot status out out_view b =
     ask_library (object_descriptor_ensure_open b) (SnapshotObject (nod_handle b)) status
       (bind_nat (typed_from_ffi KIND_BUFFER out) (\<lambda>h. bind_nat (NativeBufferView_init out_view) (\<lambda>view.
          Inr \<lparr>nob_family = ObjectMetadataBuffer, nob_handle = h, nob_view = view, nob_released = False,
               nob_borrow_count = 0\<rparr>))) b"

definition object_descriptor_close :: "NativeStatus \<Rightarrow> (NativeObjectDescriptor, unit) native_method" where
  "object_descriptor_close status b =
     end_handle (object_descriptor_ensure_open b) (ReleaseObject (nod_handle b)) status
       (\<lambda>b. b\<lparr>nod_released := True\<rparr>) b"

datatype descriptor_op =
    DescriptorRefresh NativeStatus ObjectDescriptorMetadata NativeBufferView
  | DescriptorSnapshot NativeStatus NativeHandle NativeBufferView
  | DescriptorClose NativeStatus

fun descriptor_step :: "descriptor_op \<Rightarrow> NativeObjectDescriptor \<Rightarrow> library_call list \<times> NativeObjectDescriptor" where
  "descriptor_step (DescriptorRefresh status d v) b = snd (object_descriptor_refresh_view status d v b)"
| "descriptor_step (DescriptorSnapshot status out v) b = snd (object_metadata_snapshot status out v b)"
| "descriptor_step (DescriptorClose status) b = snd (object_descriptor_close status b)"

lemma descriptor_refresh_calls:
  "object_descriptor_refresh_view status d v b = (r, calls, b') \<Longrightarrow>
    calls = (if nod_released b then [] else [(ViewObject (nod_handle b), status)]) \<and>
    nod_handle b' = nod_handle b \<and> nod_released b' = nod_released b"
  by (auto simp: object_descriptor_refresh_view_def ask_library_def object_descriptor_ensure_open_def
      invalid_state_def split: sum.splits prod.splits if_splits)

lemmas descriptor_defs = object_metadata_snapshot_def object_descriptor_close_def object_descriptor_ensure_open_def

interpretation descriptor: owned nod_handle "\<lambda>b. \<not> nod_released b" KIND_OBJECT_DESCRIPTOR descriptor_step "\<lambda>_. True"
proof
  fix b :: NativeObjectDescriptor and c
  assume b: "\<not> \<not> nod_released b"
  show "fst (descriptor_step c b) = [] \<and> \<not> \<not> nod_released (snd (descriptor_step c b))"
  proof (cases c)
    case (DescriptorRefresh status d v)
    obtain r calls b' where e: "object_descriptor_refresh_view status d v b = (r, calls, b')"
      by (cases "object_descriptor_refresh_view status d v b")
    then show ?thesis using b DescriptorRefresh descriptor_refresh_calls [OF e] by simp
  qed (use b in \<open>auto simp: descriptor_defs owner_simps\<close>)
next
  fix b b' :: NativeObjectDescriptor and c calls
  assume b: "\<not> nod_released b" "descriptor_step c b = (calls, b')"
  show "handle_respected (nod_handle b) calls \<and> (\<not> nod_released b' \<longleftrightarrow> \<not> given_back (nod_handle b) calls) \<and>
      (\<not> nod_released b' \<longrightarrow> nod_handle b' = nod_handle b)"
  proof (cases c)
    case (DescriptorRefresh status d v)
    then obtain r where e: "object_descriptor_refresh_view status d v b = (r, calls, b')"
      using b(2) by (cases "object_descriptor_refresh_view status d v b") simp
    show ?thesis using b(1) descriptor_refresh_calls [OF e] by (simp add: names_handle_def gives_back_def)
  qed (use b in \<open>auto simp: descriptor_defs owner_simps split: sum.splits if_splits\<close>)
qed

text \<open>A descriptor that the library has created, but whose view cannot be read, is never released.\<close>

lemma unreadable_descriptor_leaks:
  assumes "status_succeeded status" "typed_from_ffi KIND_OBJECT_DESCRIPTOR out = Inr out"
    "\<not> status_succeeded view_status"
  shows "object_descriptor_create d metadata status out view_status od ov =
    (Inl (status_exception view_status),
     [(CreateObject (runtime_object_descriptor_to_ffi d) metadata, status), (ViewObject out, view_status)])"
  using assms
  by (simp add: object_descriptor_create_def Let_def object_descriptor_refresh_view_def ask_library_def
      object_descriptor_ensure_open_def raise_for_native_status_def)

end
