(* ===== verification/Session_Opening.thy ===== *)
theory Session_Opening
  imports Native_Objects Client_Connection Runtime_Frames
begin

text \<open>
  The connection of a client over the native library: opening and resuming sessions, the objects it
  makes, its closing; the recovery ticket of a session, and what the recovery outcomes mean.

  \<open>_allocate_native_handle_id\<close> counts in a global variable under a lock; the id it gives is an
  argument here, and \<open>next_native_handle_id\<close> is the counter.
\<close>

section \<open>Recovery outcomes\<close>

record NativeSessionRecoveryOutcome =
  sro_outcome_code :: int
  sro_resume_window_ms :: int

definition NativeSessionRecoveryOutcome_init ::
    "NativeSessionRecoveryOutcome \<Rightarrow> NativeSessionRecoveryOutcome nres" where
  "NativeSessionRecoveryOutcome_init v =
     bind_nat (native_validate_u32 ''outcome_code'' (sro_outcome_code v)) (\<lambda>_.
     bind_nat (native_validate_u32 ''resume_window_ms'' (sro_resume_window_ms v)) (\<lambda>_. Inr v))"

definition outcome_name :: "NativeSessionRecoveryOutcome \<Rightarrow> string" where
  "outcome_name v =
     (if sro_outcome_code v = 0 then ''fresh''
      else if sro_outcome_code v = 1 then ''resume_enabled''
      else if sro_outcome_code v = 2 then ''resumed''
      else if sro_outcome_code v = 3 then ''resume_rejected''
      else ''unknown'')"

definition outcome_is_fresh :: "NativeSessionRecoveryOutcome \<Rightarrow> bool" where
  "outcome_is_fresh v \<longleftrightarrow> sro_outcome_code v = 0"

definition outcome_resume_enabled :: "NativeSessionRecoveryOutcome \<Rightarrow> bool" where
  "outcome_resume_enabled v \<longleftrightarrow> sro_outcome_code v = 1"

definition outcome_resumed :: "NativeSessionRecoveryOutcome \<Rightarrow> bool" where
  "outcome_resumed v \<longleftrightarrow> sro_outcome_code v = 2"

definition outcome_resume_rejected :: "NativeSessionRecoveryOutcome \<Rightarrow> bool" where
  "outcome_resume_rejected v \<longleftrightarrow> sro_outcome_code v = 3"

record SessionRecoveryReport =
  srr_outcome_code :: int
  srr_outcome_name :: string
  srr_resume_window_ms :: int

definition report_from_native :: "NativeSessionRecoveryOutcome \<Rightarrow> SessionRecoveryReport" where
  "report_from_native v =
     \<lparr>srr_outcome_code = sro_outcome_code v, srr_outcome_name = outcome_name v,
      srr_resume_window_ms = sro_resume_window_ms v\<rparr>"

definition report_is_fresh :: "SessionRecoveryReport \<Rightarrow> bool" where
  "report_is_fresh r \<longleftrightarrow> srr_outcome_name r = ''fresh''"

definition report_resume_enabled :: "SessionRecoveryReport \<Rightarrow> bool" where
  "report_resume_enabled r \<longleftrightarrow> srr_outcome_name r = ''resume_enabled''"

definition report_resumed :: "SessionRecoveryReport \<Rightarrow> bool" where
  "report_resumed r \<longleftrightarrow> srr_outcome_name r = ''resumed''"

definition report_resume_rejected :: "SessionRecoveryReport \<Rightarrow> bool" where
  "report_resume_rejected r \<longleftrightarrow> srr_outcome_name r = ''resume_rejected''"

text \<open>\<open>to_report\<close>: a dictionary from names to integers, strings and booleans.\<close>

datatype report_value = ReportInt int | ReportText string | ReportFlag bool

definition to_report :: "SessionRecoveryReport \<Rightarrow> (string \<times> report_value) list" where
  "to_report r =
     [(''outcome_code'', ReportInt (srr_outcome_code r)), (''outcome_name'', ReportText (srr_outcome_name r)),
      (''resume_window_ms'', ReportInt (srr_resume_window_ms r)), (''is_fresh'', ReportFlag (report_is_fresh r)),
      (''resume_enabled'', ReportFlag (report_resume_enabled r)), (''resumed'', ReportFlag (report_resumed r)),
      (''resume_rejected'', ReportFlag (report_resume_rejected r))]"

text \<open>A report says by names what the outcome says by codes, and at most one thing.\<close>

lemma report_agrees:
  "report_is_fresh (report_from_native v) = outcome_is_fresh v"
  "report_resume_enabled (report_from_native v) = outcome_resume_enabled v"
  "report_resumed (report_from_native v) = outcome_resumed v"
  "report_resume_rejected (report_from_native v) = outcome_resume_rejected v"
  by (auto simp: report_is_fresh_def report_resume_enabled_def report_resumed_def report_resume_rejected_def
      report_from_native_def outcome_name_def outcome_is_fresh_def outcome_resume_enabled_def
      outcome_resumed_def outcome_resume_rejected_def)

text \<open>\<open>NativeRecoveryCodec\<close>: each method asks the library once; what it asks is a parameter.\<close>

definition validate_session_recovery_request :: "(bytes \<Rightarrow> NativeStatus) \<Rightarrow> bytes \<Rightarrow> unit nres" where
  "validate_session_recovery_request lib session_open = raise_for_native_status (lib session_open)"

definition validate_session_recovery_ack ::
    "(bytes \<Rightarrow> bytes \<Rightarrow> NativeStatus \<times> NativeSessionRecoveryOutcome) \<Rightarrow> bytes \<Rightarrow> bytes
      \<Rightarrow> NativeSessionRecoveryOutcome nres" where
  "validate_session_recovery_ack lib session_open session_open_ack =
     (case lib session_open session_open_ack of
        (status, outcome) \<Rightarrow>
          bind_nat (raise_for_native_status status) (\<lambda>_. NativeSessionRecoveryOutcome_init outcome))"

definition recovery_report ::
    "(bytes \<Rightarrow> bytes \<Rightarrow> NativeStatus \<times> NativeSessionRecoveryOutcome) \<Rightarrow> bytes \<Rightarrow> bytes
      \<Rightarrow> SessionRecoveryReport nres" where
  "recovery_report lib session_open session_open_ack =
     bind_nat (validate_session_recovery_ack lib session_open session_open_ack) (\<lambda>v. Inr (report_from_native v))"

definition validate_migration_recovery :: "(bytes \<Rightarrow> bytes \<Rightarrow> NativeStatus) \<Rightarrow> bytes \<Rightarrow> bytes \<Rightarrow> unit nres" where
  "validate_migration_recovery lib session_migrate session_migrate_ack =
     raise_for_native_status (lib session_migrate session_migrate_ack)"

definition should_replay_frame_after_migration ::
    "(bytes \<Rightarrow> int \<Rightarrow> NativeStatus \<times> int) \<Rightarrow> bytes \<Rightarrow> int \<Rightarrow> bool nres" where
  "should_replay_frame_after_migration lib session_migrate_ack frame_id =
     bind_nat (native_validate_u64 ''frame_id'' frame_id) (\<lambda>_.
       case lib session_migrate_ack frame_id of
         (status, replay) \<Rightarrow> bind_nat (raise_for_native_status status) (\<lambda>_. Inr (replay \<noteq> 0)))"

section \<open>The connection\<close>

record NativeRuntimeConnection =
  nrc_handle :: NativeHandle
  nrc_closed :: bool

definition runtime_connection_ensure_open :: "NativeRuntimeConnection \<Rightarrow> unit nres" where
  "runtime_connection_ensure_open b = (if nrc_closed b then invalid_state else Inr ())"

definition next_native_handle_id :: "int \<Rightarrow> int \<times> int" where
  "next_native_handle_id next_id = (next_id, if next_id = 0xFFFFFFFFFFFFFFFF then 1 else next_id + 1)"

text \<open>The ids are counted from 1 and start again after the last one: none is zero, and none is given twice before.\<close>

lemma allocated_handle_id:
  "((\<lambda>n. snd (next_native_handle_id n)) ^^ k) 1 = int (k mod 0xFFFFFFFFFFFFFFFF) + 1"
proof (induction k)
  case (Suc k)
  have "((\<lambda>n. snd (next_native_handle_id n)) ^^ Suc k) 1 =
      snd (next_native_handle_id (int (k mod 0xFFFFFFFFFFFFFFFF) + 1))"
    by (simp only: funpow.simps comp_def Suc.IH)
  also have "\<dots> = int (Suc k mod 0xFFFFFFFFFFFFFFFF) + 1"
  proof (cases "Suc (k mod 0xFFFFFFFFFFFFFFFF) = 0xFFFFFFFFFFFFFFFF")
    case True
    then have "int (k mod 0xFFFFFFFFFFFFFFFF) + 1 = 0xFFFFFFFFFFFFFFFF" by linarith
    then show ?thesis using True by (simp add: next_native_handle_id_def mod_Suc)
  next
    case False
    then have "int (k mod 0xFFFFFFFFFFFFFFFF) + 1 \<noteq> 0xFFFFFFFFFFFFFFFF" by linarith
    then show ?thesis using False by (simp add: next_native_handle_id_def mod_Suc)
  qed
  finally show ?case .
qed simp

text \<open>\<open>NativeSessionPriorityClass(v)\<close>, for the code of the class.\<close>

definition native_priority_class :: "int \<Rightarrow> int nres" where
  "native_priority_class v =
     (if v \<in> {0, 1, 2} then Inr v else plain (ve ''not a valid NativeSessionPriorityClass''))"

definition session_request_of :: "NativeClientSessionOptions \<Rightarrow> int \<Rightarrow> session_open_request" where
  "session_request_of n session_handle_id =
     \<lparr>sor_requested_session_id = cso_requested_session_id n mod 2 ^ 32,
      sor_session_handle_id = session_handle_id, sor_generation = 1, sor_profile_id = cso_profile_id n mod 2 ^ 16,
      sor_priority_class = cso_priority_class n, sor_allow_resume = (if cso_allow_resume n then 1 else 0),
      sor_schema_id = cso_schema_id n mod 2 ^ 32, sor_schema_version = cso_schema_version n mod 2 ^ 32,
      sor_default_deadline_ms = cso_default_deadline_ms n mod 2 ^ 32,
      sor_max_in_flight_operations = cso_max_in_flight_operations n mod 2 ^ 16,
      sor_lease_ttl_hint_ms = cso_lease_ttl_hint_ms n mod 2 ^ 32,
      sor_resume_token_bytes = cso_resume_token_bytes n mod 2 ^ 32, sor_cache_hints = cso_cache_hints n\<rparr>"

definition open_session_allowed :: "NativeClientSessionOptions \<Rightarrow> NativeRuntimeConnection \<Rightarrow> unit nres" where
  "open_session_allowed n b =
     bind_nat (runtime_connection_ensure_open b) (\<lambda>_.
     bind_nat (native_priority_class (cso_priority_class n)) (\<lambda>_.
     bind_nat (native_u32_slice (cso_cache_hints n)) (\<lambda>_. Inr ())))"

text \<open>The keyword arguments of \<open>open_session\<close> and \<open>resume_session\<close> are session options; \<open>out\<close> is the new handle.\<close>

definition open_session ::
    "NativeClientSessionOptions \<Rightarrow> int \<Rightarrow> NativeStatus \<Rightarrow> NativeHandle
      \<Rightarrow> (NativeRuntimeConnection, NativeRuntimeSession) native_method" where
  "open_session n session_handle_id status out b =
     ask_library (open_session_allowed n b)
       (OpenSession (nrc_handle b) (session_request_of n session_handle_id)) status
       (bind_nat (typed_from_ffi KIND_SESSION out) (\<lambda>h. Inr (new_session h))) b"

definition resume_session ::
    "bytes \<Rightarrow> NativeClientSessionOptions \<Rightarrow> int \<Rightarrow> NativeStatus \<Rightarrow> NativeHandle \<Rightarrow> NativeSessionRecoveryOutcome
      \<Rightarrow> (NativeRuntimeConnection, NativeRuntimeSession \<times> NativeSessionRecoveryOutcome) native_method" where
  "resume_session recovery_ticket n session_handle_id status out outcome b =
     ask_library (open_session_allowed n b)
       (ResumeSession (nrc_handle b) ((session_request_of n session_handle_id)\<lparr>sor_allow_resume := 1\<rparr>)
          recovery_ticket) status
       (bind_nat (typed_from_ffi KIND_SESSION out) (\<lambda>h.
          bind_nat (NativeSessionRecoveryOutcome_init outcome) (\<lambda>v. Inr (new_session h, v)))) b"

definition connection_schema_registry ::
    "NativeStatus \<Rightarrow> NativeHandle \<Rightarrow> (NativeRuntimeConnection, NativeSchemaRegistry) native_method" where
  "connection_schema_registry status out b =
     (case runtime_connection_ensure_open b of
        Inl err \<Rightarrow> (Inl err, [], b)
      | Inr _ \<Rightarrow> (case schema_registry_create status out of (r, calls) \<Rightarrow> (r, calls, b)))"

definition connection_acquire_buffer ::
    "buffer_family \<Rightarrow> bytes \<Rightarrow> NativeStatus \<Rightarrow> NativeHandle \<Rightarrow> NativeBufferView
      \<Rightarrow> (NativeRuntimeConnection, NativeOwnedBuffer) native_method" where
  "connection_acquire_buffer family payload status out out_view b =
     (case runtime_connection_ensure_open b of
        Inl err \<Rightarrow> (Inl err, [], b)
      | Inr _ \<Rightarrow> (case buffer_acquire_copy family payload status out out_view of (r, calls) \<Rightarrow> (r, calls, b)))"

text \<open>\<open>acquire_object_patch_metadata_copy\<close> and \<open>acquire_object_delta_metadata_copy\<close>.\<close>

definition connection_acquire_object_change ::
    "bool \<Rightarrow> ObjectDeltaMetadata \<Rightarrow> bytes \<Rightarrow> bytes \<Rightarrow> NativeStatus \<Rightarrow> NativeHandle \<Rightarrow> NativeBufferView
      \<Rightarrow> (NativeRuntimeConnection, NativeOwnedBuffer) native_method" where
  "connection_acquire_object_change patch metadata metadata_tail delta status out out_view b =
     (case plain (if patch then patch_runtime_object metadata metadata_tail delta
                  else delta_runtime_object metadata metadata_tail delta) of
        Inl err \<Rightarrow> (Inl err, [], b)
      | Inr payload \<Rightarrow> connection_acquire_buffer ObjectMetadataBuffer payload status out out_view b)"

definition connection_create_object_descriptor ::
    "ObjectDescriptorMetadata \<Rightarrow> bytes \<Rightarrow> NativeStatus \<Rightarrow> NativeHandle \<Rightarrow> NativeStatus
      \<Rightarrow> ObjectDescriptorMetadata \<Rightarrow> NativeBufferView
      \<Rightarrow> (NativeRuntimeConnection, NativeObjectDescriptor) native_method" where
  "connection_create_object_descriptor d metadata status out view_status out_descriptor out_metadata b =
     (case runtime_connection_ensure_open b of
        Inl err \<Rightarrow> (Inl err, [], b)
      | Inr _ \<Rightarrow>
          (case object_descriptor_create d metadata status out view_status out_descriptor out_metadata of
             (r, calls) \<Rightarrow> (r, calls, b)))"

definition runtime_connection_close :: "NativeStatus \<Rightarrow> (NativeRuntimeConnection, unit) native_method" where
  "runtime_connection_close status b =
     end_handle (runtime_connection_ensure_open b) (CloseConnection (nrc_handle b)) status
       (\<lambda>b. b\<lparr>nrc_closed := True\<rparr>) b"

datatype connection_op =
    ConnectionOpen NativeClientSessionOptions int NativeStatus NativeHandle
  | ConnectionResume bytes NativeClientSessionOptions int NativeStatus NativeHandle NativeSessionRecoveryOutcome
  | ConnectionRegistry NativeStatus NativeHandle
  | ConnectionBuffer buffer_family bytes NativeStatus NativeHandle NativeBufferView
  | ConnectionObject ObjectDescriptorMetadata bytes NativeStatus NativeHandle NativeStatus
      ObjectDescriptorMetadata NativeBufferView
  | ConnectionClose NativeStatus

fun connection_step :: "connection_op \<Rightarrow> NativeRuntimeConnection \<Rightarrow> library_call list \<times> NativeRuntimeConnection" where
  "connection_step (ConnectionOpen n i status out) b = snd (open_session n i status out b)"
| "connection_step (ConnectionResume t n i status out outcome) b = snd (resume_session t n i status out outcome b)"
| "connection_step (ConnectionRegistry status out) b = snd (connection_schema_registry status out b)"
| "connection_step (ConnectionBuffer f payload status out v) b = snd (connection_acquire_buffer f payload status out v b)"
| "connection_step (ConnectionObject d m status out vst od ov) b =
     snd (connection_create_object_descriptor d m status out vst od ov b)"
| "connection_step (ConnectionClose status) b = snd (runtime_connection_close status b)"

lemma object_create_calls:
  assumes "snd (object_descriptor_create d m status out vst od ov) = calls" "nh_kind h \<noteq> KIND_OBJECT_DESCRIPTOR"
  shows "\<not> list_ex (names_handle h) calls"
proof (cases "bind_nat (raise_for_native_status status) (\<lambda>_. typed_from_ffi KIND_OBJECT_DESCRIPTOR out)")
  case (Inl err)
  then show ?thesis using assms(1) by (auto simp: object_descriptor_create_def Let_def names_handle_def)
next
  case (Inr h')
  then have kind: "nh_kind h' = KIND_OBJECT_DESCRIPTOR" by (auto simp: res_simps)
  let ?b = "\<lparr>nod_handle = h', nod_descriptor = d, nod_metadata_view = NativeBufferView_empty, nod_released = False\<rparr>"
  obtain r c b' where e: "object_descriptor_refresh_view vst od ov ?b = (r, c, b')"
    by (cases "object_descriptor_refresh_view vst od ov ?b")
  then have "calls = [(CreateObject (runtime_object_descriptor_to_ffi d) m, status), (ViewObject h', vst)]"
    using assms(1) Inr descriptor_refresh_calls [OF e] by (simp add: object_descriptor_create_def Let_def)
  then show ?thesis using kind assms(2) by (auto simp: names_handle_def)
qed

lemmas connection_defs = open_session_def resume_session_def connection_schema_registry_def
  connection_acquire_buffer_def runtime_connection_close_def open_session_allowed_def
  runtime_connection_ensure_open_def schema_registry_create_def buffer_acquire_copy_def

interpretation connection: owned nrc_handle "\<lambda>b. \<not> nrc_closed b" KIND_CONNECTION connection_step "\<lambda>_. True"
proof
  fix b :: NativeRuntimeConnection and c
  assume b: "\<not> \<not> nrc_closed b"
  show "fst (connection_step c b) = [] \<and> \<not> \<not> nrc_closed (snd (connection_step c b))"
    using b by (cases c) (simp_all add: connection_defs connection_create_object_descriptor_def owner_simps)
next
  fix b b' :: NativeRuntimeConnection and c calls
  assume b: "\<not> nrc_closed b" "nh_kind (nrc_handle b) = KIND_CONNECTION" "connection_step c b = (calls, b')"
  show "handle_respected (nrc_handle b) calls \<and> (\<not> nrc_closed b' \<longleftrightarrow> \<not> given_back (nrc_handle b) calls) \<and>
      (\<not> nrc_closed b' \<longrightarrow> nrc_handle b' = nrc_handle b)"
  proof (cases c)
    case (ConnectionObject d m status out vst od ov)
    obtain r cs where e: "object_descriptor_create d m status out vst od ov = (r, cs)"
      by (cases "object_descriptor_create d m status out vst od ov")
    have "calls = cs" "b' = b"
      using b(1,3) ConnectionObject e
      by (simp_all add: connection_create_object_descriptor_def runtime_connection_ensure_open_def)
    moreover have "\<not> list_ex (names_handle (nrc_handle b)) cs"
      using object_create_calls [of d m status out vst od ov cs "nrc_handle b"] b(2) e by simp
    ultimately show ?thesis using b(1) not_named by blast
  qed (use b in \<open>auto simp: connection_defs owner_simps split: sum.splits if_splits\<close>)
qed

section \<open>The recovery ticket of a session\<close>

record ticket_reply =
  tkr_status :: NativeStatus
  tkr_owner :: NativeHandle
  tkr_payload :: "bytes option"
  tkr_release :: NativeStatus

text \<open>A session that has no ticket answers with an invalid argument and the detail 104.\<close>

definition session_recovery_ticket ::
    "ticket_reply \<Rightarrow> NativeRuntimeSession \<Rightarrow> NativeSessionRecoveryTicket option nres \<times> library_call list" where
  "session_recovery_ticket reply s =
     (let read = (ReadRecoveryTicket (ns_handle s), tkr_status reply);
          release = (ReleaseBuffer RuntimeBuffer (tkr_owner reply), tkr_release reply)
      in case session_ensure_open s of
           Inl err \<Rightarrow> (Inl err, [])
         | Inr _ \<Rightarrow>
             if nst_status_code (tkr_status reply) = FFI_STATUS_INVALID_ARGUMENT \<and> nst_detail_code (tkr_status reply) = 104
             then (Inr None, [read])
             else case bind_nat (raise_for_native_status (tkr_status reply)) (\<lambda>_.
                 bind_nat (NativeHandle_init (tkr_owner reply)) (require_kind KIND_BUFFER)) of
               Inl err \<Rightarrow> (Inl err, [read])
             | Inr _ \<Rightarrow>
                 (bind_nat (raise_for_native_status (tkr_release reply)) (\<lambda>_.
                    bind_nat (copy_buffer_view (tkr_payload reply)) (\<lambda>encoded.
                    bind_nat (plain (recovery_ticket_from_bytes encoded)) (\<lambda>t. Inr (Some t)))),
                  [read, release]))"

section \<open>Sessions of a client connection\<close>

record client_sessions =
  csn_closed :: bool
  csn_connection :: NativeRuntimeConnection
  csn_session_defaults :: NativeClientSessionOptions
  csn_sessions :: "NativeRuntimeSession list"

definition client_connection_open :: "client_sessions \<Rightarrow> unit nres" where
  "client_connection_open c =
     (if csn_closed c then plain (Inl (RuntimeError ''native client connection is closed'')) else Inr ())"

definition resolved_options :: "NativeClientSessionOptions option \<Rightarrow> client_sessions \<Rightarrow> NativeClientSessionOptions" where
  "resolved_options options c = (case options of None \<Rightarrow> csn_session_defaults c | Some n \<Rightarrow> n)"

definition client_open_session ::
    "NativeClientSessionOptions option \<Rightarrow> int \<Rightarrow> NativeStatus \<Rightarrow> NativeHandle
      \<Rightarrow> (client_sessions, NativeRuntimeSession) native_method" where
  "client_open_session options session_handle_id status out c =
     (case client_connection_open c of
        Inl err \<Rightarrow> (Inl err, [], c)
      | Inr _ \<Rightarrow>
          (case open_session (resolved_options options c) session_handle_id status out (csn_connection c) of
             (Inl err, calls, b) \<Rightarrow> (Inl err, calls, c\<lparr>csn_connection := b\<rparr>)
           | (Inr session, calls, b) \<Rightarrow>
               (Inr session, calls, c\<lparr>csn_connection := b, csn_sessions := csn_sessions c @ [session]\<rparr>)))"

definition client_resume_session ::
    "NativeSessionRecoveryTicket \<Rightarrow> NativeClientSessionOptions option \<Rightarrow> int \<Rightarrow> NativeStatus \<Rightarrow> NativeHandle
      \<Rightarrow> NativeSessionRecoveryOutcome \<Rightarrow> (client_sessions, NativeRuntimeSession) native_method" where
  "client_resume_session t options session_handle_id status out outcome c =
     (case bind_nat (client_connection_open c) (\<lambda>_. plain (recovery_ticket_to_bytes t)) of
        Inl err \<Rightarrow> (Inl err, [], c)
      | Inr recovery_ticket \<Rightarrow>
          (let n = resolved_options options c
           in case resume_session recovery_ticket
                (n\<lparr>cso_requested_session_id := srtk_session_id t, cso_resume_token_bytes := resume_token_size t n\<rparr>)
                session_handle_id status out outcome (csn_connection c) of
             (Inl err, calls, b) \<Rightarrow> (Inl err, calls, c\<lparr>csn_connection := b\<rparr>)
           | (Inr (session, _), calls, b) \<Rightarrow>
               (Inr session, calls, c\<lparr>csn_connection := b, csn_sessions := csn_sessions c @ [session]\<rparr>)))"

text \<open>
  A client that kept the ticket of a session gives the library, when it resumes the session, exactly
  the bytes the library gave for it, with the session id and room for the token of that ticket.
\<close>

lemma ticket_given:
  assumes "session_recovery_ticket reply s = (Inr (Some t), calls)"
  shows "\<exists>encoded. tkr_payload reply = Some encoded \<and> recovery_ticket_from_bytes encoded = Inr t"
  using assms
  by (auto simp: session_recovery_ticket_def Let_def copy_buffer_view_def res_simps
      split: sum.splits if_splits option.splits)

lemma ticket_fits:
  assumes "recovery_ticket_create t = Inr t"
  shows "0 < srtk_session_id t" "srtk_session_id t < 2 ^ 32" "len (srtk_resume_token t) < 2 ^ 32"
  using assms by (auto simp: recovery_ticket_create_def split: if_splits)

lemma resumed_with_ticket:
  assumes "session_recovery_ticket reply s = (Inr (Some t), read)" "tkr_payload reply = Some encoded"
    "NativeClientSessionOptions_init (resolved_options options c) = Inr n"
    "\<not> csn_closed c" "\<not> nrc_closed (csn_connection c)" "cso_priority_class n \<in> {0, 1, 2}"
    "client_resume_session t options i status out outcome c = (r, calls, c')"
  shows "\<exists>request. calls = [(ResumeSession (nrc_handle (csn_connection c)) request encoded, status)] \<and>
      sor_requested_session_id request = srtk_session_id t \<and> sor_allow_resume request = 1 \<and>
      len (srtk_resume_token t) \<le> sor_resume_token_bytes request \<and>
      sor_profile_id request = cso_profile_id n \<and> sor_schema_id request = cso_schema_id n \<and>
      sor_schema_version request = cso_schema_version n"
    and "\<And>session. r = Inr session \<Longrightarrow> csn_sessions c' = csn_sessions c @ [session] \<and>
      session = new_session out \<and> nh_kind out = KIND_SESSION"
    and "\<And>err. r = Inl err \<Longrightarrow> csn_sessions c' = csn_sessions c"
proof -
  have read: "recovery_ticket_from_bytes encoded = Inr t"
    using ticket_given [OF assms(1)] assms(2) by simp
  have t: "recovery_ticket_create t = Inr t" "recovery_ticket_to_bytes t = Inr encoded"
    using ticket_canonical [OF read] by blast+
  have n: "resolved_options options c = n"
    using assms(3) by (auto simp: NativeClientSessionOptions_init_def split: if_splits)
  have fits: "0 \<le> cso_profile_id n" "cso_profile_id n < 2 ^ 16" "0 \<le> cso_schema_id n" "cso_schema_id n < 2 ^ 32"
    "0 \<le> cso_schema_version n" "cso_schema_version n < 2 ^ 32" "0 \<le> cso_resume_token_bytes n"
    "cso_resume_token_bytes n < 2 ^ 32"
    "\<not> list_ex (\<lambda>h. \<not> (0 \<le> h \<and> h \<le> 0xFFFFFFFF)) (cso_cache_hints n)"
    using assms(3) unfolding n by (auto simp: NativeClientSessionOptions_init_def split: if_splits)
  let ?n = "n\<lparr>cso_requested_session_id := srtk_session_id t, cso_resume_token_bytes := resume_token_size t n\<rparr>"
  let ?request = "(session_request_of ?n i)\<lparr>sor_allow_resume := 1\<rparr>"
  have allowed: "open_session_allowed ?n (csn_connection c) = Inr ()"
    using assms(5,6) fits(9)
    by (simp add: open_session_allowed_def runtime_connection_ensure_open_def native_priority_class_def native_u32_slice_def)
  let ?answer = "bind_nat (raise_for_native_status status) (\<lambda>_. bind_nat (typed_from_ffi KIND_SESSION out) (\<lambda>h.
          bind_nat (NativeSessionRecoveryOutcome_init outcome) (\<lambda>v. Inr (new_session h, v))))"
  have resumed: "resume_session encoded ?n i status out outcome (csn_connection c) =
      (?answer, [(ResumeSession (nrc_handle (csn_connection c)) ?request encoded, status)], csn_connection c)"
    by (simp add: resume_session_def ask_library_def allowed)
  have "client_connection_open c = Inr ()" using assms(4) by (simp add: client_connection_open_def)
  then have result: "(r, calls, c') = (map_sum id fst ?answer,
      [(ResumeSession (nrc_handle (csn_connection c)) ?request encoded, status)],
      case ?answer of Inl _ \<Rightarrow> c | Inr (session, _) \<Rightarrow> c\<lparr>csn_sessions := csn_sessions c @ [session]\<rparr>)"
    using assms(7) t(2) resumed
    by (auto simp: client_resume_session_def n Let_def split: sum.splits)
  have "0 \<le> resume_token_size t n" "resume_token_size t n < 2 ^ 32" "len (srtk_resume_token t) \<le> resume_token_size t n"
    using fits(7,8) ticket_fits(3) [OF t(1)] by (auto simp: resume_token_size_def)
  then show "\<exists>request. calls = [(ResumeSession (nrc_handle (csn_connection c)) request encoded, status)] \<and>
      sor_requested_session_id request = srtk_session_id t \<and> sor_allow_resume request = 1 \<and>
      len (srtk_resume_token t) \<le> sor_resume_token_bytes request \<and>
      sor_profile_id request = cso_profile_id n \<and> sor_schema_id request = cso_schema_id n \<and>
      sor_schema_version request = cso_schema_version n"
    using result fits ticket_fits [OF t(1)]
    by (intro exI [of _ ?request]) (simp add: session_request_of_def)
  show "csn_sessions c' = csn_sessions c @ [session] \<and> session = new_session out \<and> nh_kind out = KIND_SESSION"
    if given: "r = Inr session" for session
  proof (cases ?answer)
    case (Inl err)
    then show ?thesis using result given by simp
  next
    case (Inr a)
    then obtain v where v: "?answer = Inr (session, v)" using result given by (cases a) simp
    then have "session = new_session out \<and> nh_kind out = KIND_SESSION" by (auto simp: res_simps)
    then show ?thesis using result v by simp
  qed
  show "csn_sessions c' = csn_sessions c" if "r = Inl err" for err
    using result that by (auto split: sum.splits)
qed

end
