(* ===== verification/Transport_Opening.thy ===== *)
theory Transport_Opening
  imports Session_Opening Host_Routes
begin

text \<open>
  Opening connections and listeners: \<open>NativeTransportBinding\<close> with the security configuration it
  makes for each call, \<open>connect_native_client_connection\<close> and \<open>listen_native_server\<close>, and what they
  close when a later step fails.

  Decoding and parsing the endpoint a listener is bound to is a parameter; strings are sent as they are.
\<close>

section \<open>Bindings\<close>

record carrier_endpoint = NativeTransportEndpoint +
  cep_scheme :: string
  cep_transport_id :: TransportId
  cep_address :: string

record carrier_binding = NativeTransportBinding +
  cbd_role_entrypoints :: bool

definition native_ffi_endpoint_uri :: "carrier_endpoint \<Rightarrow> string" where
  "native_ffi_endpoint_uri e =
     (if nte_transport_name e = ''quic'' \<and> cep_scheme e = ''quic+tls''
      then ''quic://'' @ cep_address e else nte_uri e)"

definition opening_error :: "string \<Rightarrow> 'a nres" where
  "opening_error message = plain (Inl (RuntimeError message))"

lemma opening_error_not_Inr [simp]: "opening_error m \<noteq> Inr x"
  by (simp add: opening_error_def)

definition binding_require_available :: "carrier_binding \<Rightarrow> unit nres" where
  "binding_require_available b =
     (if \<not> ntb_local_available b then opening_error ''native transport provider is unavailable'' else Inr ())"

definition binding_endpoint :: "carrier_binding \<Rightarrow> carrier_endpoint \<Rightarrow> carrier_endpoint nres" where
  "binding_endpoint b e =
     (if Some (nte_transport_name e) \<noteq> transport_name (ntb_provider b)
      then opening_error ''native provider cannot open this endpoint'' else Inr e)"

definition open_request ::
    "carrier_endpoint \<Rightarrow> NativeHandle \<Rightarrow> int \<Rightarrow> int \<Rightarrow> transport_open_request nres" where
  "open_request e config max_packet_bytes timeout_ms =
     bind_nat (plain (require_bounded_integer ''max_packet_bytes'' max_packet_bytes 0xFFFFFFFFFFFFFFFF)) (\<lambda>_.
     bind_nat (plain (require_bounded_integer ''timeout_ms'' timeout_ms 0xFFFFFFFF)) (\<lambda>_.
       Inr \<lparr>tor_transport_id = cep_transport_id e, tor_endpoint = native_ffi_endpoint_uri e,
            tor_config = config, tor_max_packet_bytes = max_packet_bytes, tor_timeout_ms = timeout_ms\<rparr>))"

text \<open>
  The security material of a client is the server name and a certificate, that of a server a
  certificate and its key.
\<close>

definition security_config ::
    "bool \<Rightarrow> carrier_binding \<Rightarrow> (bytes \<times> bytes) option \<Rightarrow> NativeStatus \<times> NativeHandle
      \<Rightarrow> NativeHandle nres \<times> library_call list" where
  "security_config server b security reply =
     (case security of
        None \<Rightarrow> (Inr invalid_handle, [])
      | Some (first, second) \<Rightarrow>
          (bind_nat (raise_for_native_status (fst reply)) (\<lambda>_. NativeHandle_init (snd reply)),
           [(CreateSecurityConfig server (tpr_transport_id (ntb_provider b)) first second, fst reply)]))"

definition close_config :: "NativeHandle \<Rightarrow> NativeStatus \<Rightarrow> unit nres \<times> library_call list" where
  "close_config config status =
     (if handle_is_valid config then (raise_for_native_status status, [(CloseTransport config, status)])
      else (Inr (), []))"

text \<open>
  \<open>with_config\<close> is what \<open>_probe\<close>, \<open>_connect\<close> and \<open>_listen\<close> have in common: the checks, the security
  configuration, and its closing in a \<open>finally\<close>, whose error replaces any other.
\<close>

record config_reply =
  cfr_create :: "NativeStatus \<times> NativeHandle"
  cfr_close :: NativeStatus

definition with_config ::
    "bool \<Rightarrow> carrier_binding \<Rightarrow> carrier_endpoint \<Rightarrow> (bytes \<times> bytes) option \<Rightarrow> config_reply
      \<Rightarrow> (NativeHandle \<Rightarrow> 'a nres \<times> library_call list) \<Rightarrow> 'a nres \<times> library_call list" where
  "with_config server b e security reply body =
     (case bind_nat (binding_require_available b) (\<lambda>_. binding_endpoint b e) of
        Inl err \<Rightarrow> (Inl err, [])
      | Inr _ \<Rightarrow>
          (case security_config server b security (cfr_create reply) of
             (Inl err, calls) \<Rightarrow> (Inl err, calls)
           | (Inr config, calls) \<Rightarrow>
               (case body config of
                  (r, calls') \<Rightarrow>
                    (case close_config config (cfr_close reply) of
                       (closed, calls'') \<Rightarrow> (bind_nat closed (\<lambda>_. r), calls @ calls' @ calls'')))))"

definition binding_connect ::
    "carrier_binding \<Rightarrow> carrier_endpoint \<Rightarrow> (bytes \<times> bytes) option \<Rightarrow> int \<Rightarrow> int \<Rightarrow> config_reply
      \<Rightarrow> NativeStatus \<times> NativeHandle \<Rightarrow> NativeTransportConnection nres \<times> library_call list" where
  "binding_connect b e security max_packet_bytes timeout_ms config_reply opened =
     with_config False b e security config_reply (\<lambda>config.
       case open_request e config max_packet_bytes timeout_ms of
         Inl err \<Rightarrow> (Inl err, [])
       | Inr request \<Rightarrow>
           (bind_nat (raise_for_native_status (fst opened)) (\<lambda>_.
              bind_nat (NativeHandle_init (snd opened)) NativeTransportConnection_init),
            [(OpenTransport request, fst opened)]))"

definition binding_probe ::
    "carrier_binding \<Rightarrow> carrier_endpoint \<Rightarrow> (bytes \<times> bytes) option \<Rightarrow> int \<Rightarrow> int \<Rightarrow> int \<Rightarrow> int \<Rightarrow> config_reply
      \<Rightarrow> NativeStatus \<times> NativeTransportProbeMetrics \<Rightarrow> NativeTransportProbeMetrics nres \<times> library_call list" where
  "binding_probe b e security sample_count probe_payload_bytes max_packet_bytes timeout_ms config_reply measured =
     (case bind_nat (binding_require_available b) (\<lambda>_.
           bind_nat (plain (require_bounded_integer ''sample_count'' sample_count 0xFFFFFFFF)) (\<lambda>_.
             plain (require_bounded_integer ''probe_payload_bytes'' probe_payload_bytes 0xFFFFFFFF))) of
        Inl err \<Rightarrow> (Inl err, [])
      | Inr _ \<Rightarrow>
          with_config False b e security config_reply (\<lambda>config.
            case open_request e config max_packet_bytes timeout_ms of
              Inl err \<Rightarrow> (Inl err, [])
            | Inr request \<Rightarrow>
                (bind_nat (raise_for_native_status (fst measured)) (\<lambda>_.
                   plain (NativeTransportProbeMetrics_init (snd measured))),
                 [(ProbeTransport request sample_count probe_payload_bytes, fst measured)])))"

text \<open>The endpoint a listener is bound to comes in a buffer of the library.\<close>

record endpoint_reply =
  epr_status :: NativeStatus
  epr_owner :: NativeHandle
  epr_view :: "bytes option"
  epr_release :: NativeStatus

definition listener_endpoint ::
    "(bytes \<Rightarrow> carrier_endpoint nres) \<Rightarrow> carrier_binding \<Rightarrow> NativeHandle \<Rightarrow> endpoint_reply
      \<Rightarrow> carrier_endpoint nres \<times> library_call list" where
  "listener_endpoint parse b h reply =
     (let read = (ReadListenerEndpoint h, epr_status reply);
          release = (ReleaseBuffer RuntimeBuffer (epr_owner reply), epr_release reply);
          endpoint = bind_nat (copy_buffer_view (epr_view reply)) (\<lambda>text. bind_nat (parse text) (binding_endpoint b))
      in case bind_nat (raise_for_native_status (epr_status reply)) (\<lambda>_. NativeHandle_init (epr_owner reply)) of
           Inl err \<Rightarrow> (Inl err, [read])
         | Inr owner \<Rightarrow>
             if \<not> handle_is_valid owner then (endpoint, [read])
             else (case require_kind KIND_BUFFER owner of
                Inl err \<Rightarrow> (Inl err, [read])
              | Inr _ \<Rightarrow> (bind_nat (raise_for_native_status (epr_release reply)) (\<lambda>_. endpoint), [read, release])))"

definition binding_listen ::
    "(bytes \<Rightarrow> carrier_endpoint nres) \<Rightarrow> carrier_binding \<Rightarrow> carrier_endpoint \<Rightarrow> (bytes \<times> bytes) option
      \<Rightarrow> int \<Rightarrow> int \<Rightarrow> config_reply \<Rightarrow> NativeStatus \<times> NativeHandle \<Rightarrow> endpoint_reply \<Rightarrow> NativeStatus
      \<Rightarrow> (NativeTransportListener \<times> carrier_endpoint) nres \<times> library_call list" where
  "binding_listen parse b e security max_packet_bytes timeout_ms config_reply opened endpoint close =
     with_config True b e security config_reply (\<lambda>config.
       case open_request e config max_packet_bytes timeout_ms of
         Inl err \<Rightarrow> (Inl err, [])
       | Inr request \<Rightarrow>
           (let listen = (ListenTransport request, fst opened)
            in case bind_nat (raise_for_native_status (fst opened)) (\<lambda>_. NativeHandle_init (snd opened)) of
                 Inl err \<Rightarrow> (Inl err, [listen])
               | Inr h \<Rightarrow>
                   (case listener_endpoint parse b h endpoint of
                      (Inl err, calls) \<Rightarrow>
                        (bind_nat (raise_for_native_status close) (\<lambda>_. Inl err),
                         listen # calls @ [(CloseTransport h, close)])
                    | (Inr bound, calls) \<Rightarrow>
                        (bind_nat (NativeTransportListener_init h) (\<lambda>listener. Inr (listener, bound)),
                         listen # calls))))"

text \<open>\<open>adopt_client\<close> and \<open>adopt_server\<close> of a binding, for a carrier that the binding has opened.\<close>

definition binding_adopts :: "carrier_binding \<Rightarrow> unit nres" where
  "binding_adopts b =
     bind_nat (binding_require_available b) (\<lambda>_.
       if cbd_role_entrypoints b then Inr ()
       else opening_error ''native transport artifact does not expose role adoption entrypoints'')"

definition binding_adopt_client ::
    "carrier_binding \<Rightarrow> int \<Rightarrow> int \<Rightarrow> NativeStatus \<Rightarrow> NativeHandle \<Rightarrow> (NativeTransportConnection, NativeHandle) native_method" where
  "binding_adopt_client b connection_id generation status out carrier =
     (case binding_adopts b of
        Inl err \<Rightarrow> (Inl err, [], carrier)
      | Inr _ \<Rightarrow> transport_adopt_client_role connection_id generation status out carrier)"

definition binding_adopt_server ::
    "carrier_binding \<Rightarrow> server_role \<Rightarrow> server_adoption \<Rightarrow> (NativeTransportListener, NativeHandle \<times> bool) native_method" where
  "binding_adopt_server b r reply listener =
     (case binding_adopts b of
        Inl err \<Rightarrow> (Inl err, [], listener)
      | Inr _ \<Rightarrow> listener_adopt_server_role r reply listener)"

section \<open>Connecting\<close>

text \<open>
  \<open>connect_native_client_connection\<close> up to the connection it yields, for the route that was selected.
\<close>

definition connect_client ::
    "carrier_binding \<Rightarrow> carrier_endpoint \<Rightarrow> (bytes \<times> bytes) option \<Rightarrow> config_reply \<Rightarrow> NativeStatus \<times> NativeHandle
      \<Rightarrow> int \<Rightarrow> NativeStatus \<Rightarrow> NativeHandle \<Rightarrow> NativeStatus \<Rightarrow> NativeRuntimeConnection nres \<times> library_call list" where
  "connect_client b e security config_reply opened connection_id status out close =
     (case binding_connect b e security 0 0 config_reply opened of
        (Inl err, calls) \<Rightarrow> (Inl err, calls)
      | (Inr carrier, calls) \<Rightarrow>
          (case binding_adopt_client b connection_id 1 status out carrier of
             (Inr h, calls', _) \<Rightarrow> (Inr \<lparr>nrc_handle = h, nrc_closed = False\<rparr>, calls @ calls')
           | (Inl err, calls', carrier) \<Rightarrow>
               (case transport_close close carrier of
                  (closed, calls'', _) \<Rightarrow> (bind_nat closed (\<lambda>_. Inl err), calls @ calls' @ calls''))))"

lemma close_config_calls:
  "close_config config status = (closed, calls) \<Longrightarrow>
    calls = (if handle_is_valid config then [(CloseTransport config, status)] else []) \<and>
    (closed = Inr () \<longleftrightarrow> handle_is_valid config \<longrightarrow> status_succeeded status)"
  by (auto simp: close_config_def raise_for_native_status_def split: if_splits)

text \<open>A configuration that was made is closed at the end, and nothing but its own calls names it before.\<close>

lemma with_config_calls:
  assumes "with_config server b e security reply body = (r, calls)"
  shows "calls = [] \<or> (\<exists>create. calls = [create] \<and> request_handle (fst create) = None) \<or>
    (\<exists>config first closes. calls = first @ snd (body config) @ closes \<and>
       (\<forall>c \<in> set first. request_handle (fst c) = None) \<and>
       closes = (if handle_is_valid config then [(CloseTransport config, cfr_close reply)] else []) \<and>
       (config = invalid_handle \<or> config = snd (cfr_create reply)) \<and>
       (r = fst (body config) \<or> (\<exists>err. r = Inl err)))"
proof (cases "bind_nat (binding_require_available b) (\<lambda>_. binding_endpoint b e)")
  case (Inl err)
  then show ?thesis using assms by (simp add: with_config_def)
next
  case (Inr u)
  obtain c first where s: "security_config server b security (cfr_create reply) = (c, first)"
    by (cases "security_config server b security (cfr_create reply)")
  have first: "\<forall>x \<in> set first. request_handle (fst x) = None" "length first \<le> 1"
    using s by (auto simp: security_config_def split: option.splits prod.splits)
  show ?thesis
  proof (cases c)
    case (Inl err)
    then have "calls = first" using assms s Inr by (simp add: with_config_def)
    then show ?thesis using first by (cases first) auto
  next
    case config: (Inr config)
    have handle: "config = invalid_handle \<or> config = snd (cfr_create reply)"
    proof (cases security)
      case None
      then show ?thesis using s config by (simp add: security_config_def)
    next
      case (Some sec)
      then have "NativeHandle_init (snd (cfr_create reply)) = Inr config"
        using s config by (auto simp: security_config_def res_simps split: prod.splits)
      then show ?thesis by (auto simp: NativeHandle_init_def res_simps split: if_splits)
    qed
    obtain x y z w where "body config = (x, y)" "close_config config (cfr_close reply) = (z, w)"
      by (cases "body config"; cases "close_config config (cfr_close reply)")
    then have out: "r = bind_nat z (\<lambda>_. x)" "calls = first @ snd (body config) @ w" "x = fst (body config)"
      "w = (if handle_is_valid config then [(CloseTransport config, cfr_close reply)] else [])"
      using assms s config Inr close_config_calls by (auto simp: with_config_def)
    have "r = fst (body config) \<or> (\<exists>err. r = Inl err)" using out(1,3) by (cases z) auto
    then show ?thesis using out(2,4) first(1) handle by blast
  qed
qed

lemma with_config_result:
  assumes "with_config server b e security reply body = (Inr x, calls)"
  shows "\<exists>config. fst (body config) = Inr x"
proof -
  obtain config calls1 where s: "security_config server b security (cfr_create reply) = (Inr config, calls1)"
    using assms by (auto simp: with_config_def split: sum.splits prod.splits)
  then have "fst (body config) = Inr x"
    using assms by (cases "body config"; cases "close_config config (cfr_close reply)")
      (auto simp: with_config_def res_simps split: sum.splits)
  then show ?thesis by blast
qed

lemma not_named_created: "\<forall>c \<in> set cs. request_handle (fst c) = None \<Longrightarrow> \<not> list_ex (names_handle h) cs"
  by (auto simp: names_handle_def list_ex_iff)

lemma connect_calls:
  assumes "binding_connect b e security n t config_reply opened = (r, calls)"
    "handle_is_valid h" "h \<noteq> snd (cfr_create config_reply)"
  shows "\<not> list_ex (names_handle h) calls" "r = Inr carrier \<Longrightarrow> ntc_handle carrier = snd opened \<and> \<not> ntc_closed carrier \<and>
    nh_kind (ntc_handle carrier) = KIND_TRANSPORT_CONNECTION"
proof -
  let ?body = "\<lambda>config. case open_request e config n t of
         Inl err \<Rightarrow> (Inl err, [])
       | Inr request \<Rightarrow>
           (bind_nat (raise_for_native_status (fst opened)) (\<lambda>_.
              bind_nat (NativeHandle_init (snd opened)) NativeTransportConnection_init),
            [(OpenTransport request, fst opened)])"
  have wc: "with_config False b e security config_reply ?body = (r, calls)"
    using assms(1) by (simp add: binding_connect_def)
  have body: "\<not> list_ex (names_handle h) (snd (?body config))"
    "fst (?body config) = Inr carrier \<Longrightarrow> ntc_handle carrier = snd opened \<and> \<not> ntc_closed carrier \<and>
      nh_kind (ntc_handle carrier) = KIND_TRANSPORT_CONNECTION" for config
    by (auto simp: names_handle_def res_simps NativeTransportConnection_init_def require_kind_def NativeHandle_init_def
        split: sum.splits if_splits)
  have h: "h \<noteq> invalid_handle" using assms(2) by (auto simp: handle_is_valid_def invalid_handle_def)
  consider "calls = []" | create where "calls = [create]" "request_handle (fst create) = None"
    | config first closes where "calls = first @ snd (?body config) @ closes"
      "\<forall>c \<in> set first. request_handle (fst c) = None"
      "closes = (if handle_is_valid config then [(CloseTransport config, cfr_close config_reply)] else [])"
      "config = invalid_handle \<or> config = snd (cfr_create config_reply)"
    using with_config_calls [OF wc] by blast
  then show "\<not> list_ex (names_handle h) calls"
  proof cases
    case (2 create)
    then show ?thesis by (simp add: names_handle_def)
  next
    case c: (3 config first closes)
    have "\<not> list_ex (names_handle h) closes" using c(3,4) assms(3) h by (auto simp: names_handle_def)
    then show ?thesis using c(1) body(1) [of config] not_named_created [OF c(2)] by simp
  qed simp
  show "ntc_handle carrier = snd opened \<and> \<not> ntc_closed carrier \<and>
    nh_kind (ntc_handle carrier) = KIND_TRANSPORT_CONNECTION" if "r = Inr carrier"
    using with_config_result [of False b e security config_reply ?body carrier calls] wc that body(2) by blast
qed

text \<open>
  Once the connection is open, whatever happens next: its handle is used as long as it is owned and
  handed over or closed once; it is still there afterwards only if the library refuses to close it.
\<close>

lemma connect_client_calls:
  assumes "connect_client b e security config_reply opened i status out close = (r, calls)"
    "binding_connect b e security 0 0 config_reply opened = (Inr carrier, opening)"
    "snd opened \<noteq> snd (cfr_create config_reply)"
  shows "handle_respected (snd opened) calls"
    "(\<exists>c. r = Inr c) \<or> status_succeeded close \<Longrightarrow> given_back (snd opened) calls"
proof -
  have valid: "handle_is_valid (snd opened)"
  proof -
    obtain config where "fst (case open_request e config 0 0 of
         Inl err \<Rightarrow> (Inl err, [])
       | Inr request \<Rightarrow>
           (bind_nat (raise_for_native_status (fst opened)) (\<lambda>_.
              bind_nat (NativeHandle_init (snd opened)) NativeTransportConnection_init),
            [(OpenTransport request, fst opened)])) = Inr carrier"
      using with_config_result [OF assms(2) [unfolded binding_connect_def]] by blast
    then show ?thesis
      by (auto simp: res_simps NativeTransportConnection_init_def require_kind_def NativeHandle_init_def
          handle_is_valid_def split: sum.splits if_splits)
  qed
  have opened: "\<not> list_ex (names_handle (snd opened)) opening" "ntc_handle carrier = snd opened" "\<not> ntc_closed carrier"
    "nh_kind (ntc_handle carrier) = KIND_TRANSPORT_CONNECTION"
    using connect_calls(1) [OF assms(2) valid assms(3)] connect_calls(2) [OF assms(2) valid assms(3) refl] by auto
  obtain ops rest b' where run: "run_owner transport_step ops carrier = (rest, b')" "calls = opening @ rest"
    "(\<exists>c. r = Inr c) \<or> status_succeeded close \<Longrightarrow> ntc_closed b'"
  proof (cases "binding_adopts b")
    case (Inl err)
    obtain x y z where close: "transport_close close carrier = (x, y, z)" by (cases "transport_close close carrier")
    have run: "run_owner transport_step [TransportClose close] carrier = (y, z)" using close by simp
    have calls: "calls = opening @ y" "r = bind_nat x (\<lambda>_. Inl err)"
      using assms(1,2) Inl close by (simp_all add: connect_client_def binding_adopt_client_def)
    have "ntc_closed z" if "(\<exists>c. r = Inr c) \<or> status_succeeded close"
      using that close opened(3) calls(2)
      by (cases x) (auto simp: transport_close_def end_handle_def raise_for_native_status_def split: if_splits)
    then show ?thesis by (rule that [OF run calls(1)])
  next
    case (Inr u)
    obtain x y z where adopt: "transport_adopt_client_role i 1 status out carrier = (x, y, z)"
      by (cases "transport_adopt_client_role i 1 status out carrier")
    show ?thesis
    proof (cases x)
      case adopted: (Inr h)
      have run: "run_owner transport_step [TransportAdopt i 1 status out] carrier = (y, z)" using adopt by simp
      have calls: "calls = opening @ y"
        using assms(1,2) Inr adopt adopted by (simp add: connect_client_def binding_adopt_client_def)
      have "ntc_closed z"
        using adopt adopted by (auto simp: transport_adopt_client_role_def Let_def split: sum.splits)
      then show ?thesis by (rule that [OF run calls])
    next
      case failed: (Inl err)
      obtain x' y' z' where close: "transport_close close z = (x', y', z')" by (cases "transport_close close z")
      have run: "run_owner transport_step [TransportAdopt i 1 status out, TransportClose close] carrier = (y @ y', z')"
        using adopt close by simp
      have calls: "calls = opening @ (y @ y')" "r = bind_nat x' (\<lambda>_. Inl err)"
        using assms(1,2) Inr adopt failed close by (simp_all add: connect_client_def binding_adopt_client_def)
      have "ntc_closed z'" if "(\<exists>c. r = Inr c) \<or> status_succeeded close"
        using that close calls(2)
        by (cases x') (auto simp: transport_close_def end_handle_def raise_for_native_status_def split: if_splits)
      then show ?thesis by (rule that [OF run calls(1)])
    qed
  qed
  have "handle_respected (snd opened) rest" "ntc_closed b' \<longleftrightarrow> given_back (snd opened) rest"
    using transport.run_respects [of ops carrier rest b'] run(1) opened by (simp_all add: list_all_iff)
  then show "handle_respected (snd opened) calls"
    "(\<exists>c. r = Inr c) \<or> status_succeeded close \<Longrightarrow> given_back (snd opened) calls"
    using run(2,3) not_named [OF opened(1)] by (auto simp: handle_respected_append)
qed

text \<open>If the configuration cannot be closed, an open connection is lost: nobody closes it.\<close>

lemma unclosed_config_loses_connection:
  assumes "security_config False b security (cfr_create config_reply) = (Inr config, calls1)"
    "handle_is_valid config" "\<not> status_succeeded (cfr_close config_reply)" "h \<noteq> config"
    "binding_require_available b = Inr ()" "binding_endpoint b e = Inr e" "open_request e config 0 0 = Inr request"
    "\<not> list_ex (names_handle h) calls1"
  shows "connect_client b e security config_reply (native_status_ok, h) i status out close =
      (Inl (status_exception (cfr_close config_reply)),
       calls1 @ [(OpenTransport request, native_status_ok), (CloseTransport config, cfr_close config_reply)])"
    "\<not> given_back h (calls1 @ [(OpenTransport request, native_status_ok), (CloseTransport config, cfr_close config_reply)])"
  using assms not_named [OF assms(8)]
  by (simp_all add: connect_client_def binding_connect_def with_config_def close_config_def
      raise_for_native_status_def gives_back_def names_handle_def)

section \<open>Listening\<close>

record listen_route =
  lrt_binding :: carrier_binding
  lrt_endpoint :: carrier_endpoint
  lrt_security :: "(bytes \<times> bytes) option"

record listen_reply =
  lrp_config :: config_reply
  lrp_opened :: "NativeStatus \<times> NativeHandle"
  lrp_endpoint :: endpoint_reply
  lrp_close_unbound :: NativeStatus
  lrp_adoption :: server_adoption
  lrp_close :: NativeStatus

record adopted_server =
  ads_kind :: "string option"
  ads_server :: NativeRuntimeServer
  ads_endpoint :: carrier_endpoint

definition new_runtime_server :: "NativeHandle \<Rightarrow> NativeRuntimeServer" where
  "new_runtime_server h = \<lparr>nrs_handle = h, nrs_closed = False, nrs_ticket = None, nrs_session_handle_id = None,
     nrs_generation = None\<rparr>"

definition route_listener ::
    "(bytes \<Rightarrow> carrier_endpoint nres) \<Rightarrow> listen_route \<times> listen_reply
      \<Rightarrow> (NativeTransportListener \<times> carrier_endpoint) nres \<times> library_call list" where
  "route_listener parse = (\<lambda>(t, p).
     binding_listen parse (lrt_binding t) (lrt_endpoint t) (lrt_security t) 0 0 (lrp_config p) (lrp_opened p)
       (lrp_endpoint p) (lrp_close_unbound p))"

text \<open>
  The loop of \<open>listen_native_server\<close> over the routes: it ends with the first error, which closes the
  listener it is at; the servers adopted so far are the last component.
\<close>

fun listen_routes ::
    "(bytes \<Rightarrow> carrier_endpoint nres) \<Rightarrow> server_role \<Rightarrow> int \<Rightarrow> (listen_route \<times> listen_reply) list
      \<Rightarrow> unit nres \<times> library_call list \<times> adopted_server list" where
  "listen_routes parse role next_id [] = (Inr (), [], [])"
| "listen_routes parse role next_id ((t, p) # routes) =
     (case route_listener parse (t, p) of
        (Inl err, calls) \<Rightarrow> (Inl err, calls, [])
      | (Inr (listener, bound), calls) \<Rightarrow>
          (case next_native_handle_id next_id of
             (server_id, next_id) \<Rightarrow>
               (case binding_adopt_server (lrt_binding t)
                   (role\<lparr>svr_server_id := server_id, svr_generation := 1\<rparr>) (lrp_adoption p) listener of
                  (Inl err, calls', listener) \<Rightarrow>
                    (case listener_close (lrp_close p) listener of
                       (closed, calls'', _) \<Rightarrow> (bind_nat closed (\<lambda>_. Inl err), calls @ calls' @ calls'', []))
                | (Inr (h, policy), calls', _) \<Rightarrow>
                    (case listen_routes parse role next_id routes of
                       (r, rest, adopted) \<Rightarrow>
                         (r, calls @ calls' @ rest,
                          \<lparr>ads_kind = transport_name (ntb_provider (lrt_binding t)),
                           ads_server = new_runtime_server h, ads_endpoint = bound\<rparr> # adopted)))))"

text \<open>After an error the adopted servers are closed, the last one first, up to one whose closing raises.\<close>

fun close_adopted ::
    "server_library \<Rightarrow> NativeRuntimeServer list \<Rightarrow> unit nres \<times> NativeRuntimeServer list" where
  "close_adopted lib [] = (Inr (), [])"
| "close_adopted lib (v # vs) =
     (case (if nrs_closed v then (Inr (), v)
         else close_runtime_server (slb_release lib) (slb_close_connection lib)
           (slb_close_dispatcher lib (nrs_handle v)) v) of
        (Inl err, v) \<Rightarrow> (Inl err, v # vs)
      | (Inr _, v) \<Rightarrow> (case close_adopted lib vs of (r, vs) \<Rightarrow> (r, v # vs)))"

definition listen_server ::
    "(bytes \<Rightarrow> carrier_endpoint nres) \<Rightarrow> server_library \<Rightarrow> server_role \<Rightarrow> int \<Rightarrow> (listen_route \<times> listen_reply) list
      \<Rightarrow> adopted_server list nres \<times> library_call list \<times> NativeRuntimeServer list" where
  "listen_server parse lib role next_id routes =
     (case listen_routes parse role next_id routes of
        (Inr _, calls, adopted) \<Rightarrow> (Inr adopted, calls, map ads_server adopted)
      | (Inl err, calls, adopted) \<Rightarrow>
          (case close_adopted lib (rev (map ads_server adopted)) of
             (closed, servers) \<Rightarrow> (bind_nat closed (\<lambda>_. Inl err), calls, rev servers)))"

lemma route_listener_open:
  assumes "route_listener parse (t, p) = (Inr (listener, bound), calls)"
  shows "\<not> ntl_closed listener" "nh_kind (ntl_handle listener) = KIND_TRANSPORT_LISTENER"
proof -
  obtain config where "fst (case open_request (lrt_endpoint t) config 0 0 of
         Inl err \<Rightarrow> (Inl err, [])
       | Inr request \<Rightarrow>
           (let listen = (ListenTransport request, fst (lrp_opened p))
            in case bind_nat (raise_for_native_status (fst (lrp_opened p))) (\<lambda>_. NativeHandle_init (snd (lrp_opened p))) of
                 Inl err \<Rightarrow> (Inl err, [listen])
               | Inr h \<Rightarrow>
                   (case listener_endpoint parse (lrt_binding t) h (lrp_endpoint p) of
                      (Inl err, calls) \<Rightarrow>
                        (bind_nat (raise_for_native_status (lrp_close_unbound p)) (\<lambda>_. Inl err),
                         listen # calls @ [(CloseTransport h, lrp_close_unbound p)])
                    | (Inr bound, calls) \<Rightarrow>
                        (bind_nat (NativeTransportListener_init h) (\<lambda>listener. Inr (listener, bound)),
                         listen # calls)))) = Inr (listener, bound)"
    using with_config_result [OF assms [unfolded route_listener_def binding_listen_def prod.case]] by blast
  then have "\<not> ntl_closed listener \<and> nh_kind (ntl_handle listener) = KIND_TRANSPORT_LISTENER"
    by (auto simp: Let_def res_simps NativeTransportListener_init_def require_kind_def
        split: sum.splits prod.splits if_splits)
  then show "\<not> ntl_closed listener" "nh_kind (ntl_handle listener) = KIND_TRANSPORT_LISTENER" by blast+
qed

lemma adopt_server_closes:
  assumes "listener_adopt_server_role r reply b = (Inr x, calls, b')"
  shows "ntl_closed b'"
  using assms unfolding listener_adopt_server_role_def Let_def
  by (auto split: sum.splits prod.splits if_splits)

text \<open>The listener of a route is adopted or closed.\<close>

lemma route_ends_listener:
  assumes "\<not> ntl_closed l" "nh_kind (ntl_handle l) = KIND_TRANSPORT_LISTENER"
    "status_succeeded (fst (sad_bind reply)) \<longrightarrow> status_succeeded (sad_release reply)"
    "binding_adopt_server b r reply l = (x, calls, l')"
  shows "x = Inr y \<Longrightarrow> given_back (ntl_handle l) calls"
    "listener_close close l' = (closed, calls', l'') \<Longrightarrow> status_succeeded close \<Longrightarrow>
      given_back (ntl_handle l) (calls @ calls')"
proof -
  have run: "given_back (ntl_handle l) cs \<longleftrightarrow> ntl_closed l2"
    if "list_all listener_regular ops" "run_owner listener_step ops l = (cs, l2)" for ops cs l2
    using listener.run_respects [OF that(1) assms(1,2) that(2)] by blast
  have close: "ntl_closed l''" if "listener_close close l' = (closed, calls', l'')" "status_succeeded close"
    using that by (auto simp: listener_close_def end_handle_def raise_for_native_status_def split: if_splits)
  have "(x = Inr y \<longrightarrow> given_back (ntl_handle l) calls) \<and>
      (listener_close close l' = (closed, calls', l'') \<longrightarrow> status_succeeded close \<longrightarrow>
        given_back (ntl_handle l) (calls @ calls'))"
  proof (cases "binding_adopts b")
    case (Inl err)
    then have same: "x = Inl err" "calls = []" "l' = l" using assms(4) by (simp_all add: binding_adopt_server_def)
    have "given_back (ntl_handle l) calls'" if "listener_close close l' = (closed, calls', l'')" "status_succeeded close"
      using run [of "[ListenerClose close]" calls' l''] close [OF that] that same(3) by simp
    then show ?thesis using same by auto
  next
    case (Inr u)
    then have adopt: "listener_adopt_server_role r reply l = (x, calls, l')"
      using assms(4) by (simp add: binding_adopt_server_def)
    have "given_back (ntl_handle l) calls" if "x = Inr y"
      using run [of "[ListenerAdopt r reply]" calls l'] adopt adopt_server_closes [of r reply l y calls l'] that assms(3)
      by (simp add: Let_def)
    moreover have "given_back (ntl_handle l) (calls @ calls')"
      if "listener_close close l' = (closed, calls', l'')" "status_succeeded close"
      using run [of "[ListenerAdopt r reply, ListenerClose close]" "calls @ calls'" l''] adopt close [OF that] that assms(3)
      by simp
    ultimately show ?thesis by blast
  qed
  then show "x = Inr y \<Longrightarrow> given_back (ntl_handle l) calls"
    "listener_close close l' = (closed, calls', l'') \<Longrightarrow> status_succeeded close \<Longrightarrow>
      given_back (ntl_handle l) (calls @ calls')" by blast+
qed

definition route_regular :: "listen_route \<times> listen_reply \<Rightarrow> bool" where
  "route_regular = (\<lambda>(t, p). status_succeeded (lrp_close p) \<and>
     (status_succeeded (fst (sad_bind (lrp_adoption p))) \<longrightarrow> status_succeeded (sad_release (lrp_adoption p))))"

text \<open>
  Every listener that was opened, those of the adopted servers and the one of the route that failed,
  is given back: adopted by a server, or closed.
\<close>

lemma listen_routes_end_listeners:
  "list_all route_regular routes \<Longrightarrow> listen_routes parse role next_id routes = (r, calls, adopted) \<Longrightarrow>
    length adopted \<le> length routes \<and> (r = Inr () \<longrightarrow> length adopted = length routes) \<and>
    (\<forall>i < length routes. i \<le> length adopted \<longrightarrow>
      (\<forall>l bound c. route_listener parse (routes ! i) = (Inr (l, bound), c) \<longrightarrow> given_back (ntl_handle l) calls))"
proof (induction routes arbitrary: next_id r calls adopted)
  case (Cons tp routes)
  obtain t p where tp: "tp = (t, p)" by (cases tp)
  have regular: "status_succeeded (lrp_close p)"
    "status_succeeded (fst (sad_bind (lrp_adoption p))) \<longrightarrow> status_succeeded (sad_release (lrp_adoption p))"
    using Cons.prems(1) by (auto simp: route_regular_def tp)
  obtain x calls0 where listened: "route_listener parse (t, p) = (x, calls0)" by (cases "route_listener parse (t, p)")
  show ?case
  proof (cases x)
    case (Inl err)
    then have "r = Inl err" "adopted = []" using Cons.prems(2) listened by (simp_all add: tp)
    then show ?thesis using listened Inl by (simp add: tp)
  next
    case (Inr lb)
    obtain l bound where lb: "lb = (l, bound)" by (cases lb)
    obtain id next' where ids: "next_native_handle_id next_id = (id, next')" by (cases "next_native_handle_id next_id")
    let ?role = "role\<lparr>svr_server_id := id, svr_generation := 1\<rparr>"
    obtain y calls1 l' where adopt: "binding_adopt_server (lrt_binding t) ?role (lrp_adoption p) l = (y, calls1, l')"
      by (cases "binding_adopt_server (lrt_binding t) ?role (lrp_adoption p) l")
    note l_open = route_listener_open [OF listened [unfolded Inr lb]]
    note ends = route_ends_listener [OF l_open regular(2) adopt]
    show ?thesis
    proof (cases y)
      case failed: (Inl err)
      obtain closed calls2 l'' where close: "listener_close (lrp_close p) l' = (closed, calls2, l'')"
        by (cases "listener_close (lrp_close p) l'")
      have out: "calls = calls0 @ calls1 @ calls2" "adopted = []" "r \<noteq> Inr ()"
        using Cons.prems(2) listened Inr lb ids adopt failed close by (cases closed; auto simp: tp)+
      have "given_back (ntl_handle l) (calls1 @ calls2)" by (rule ends(2) [OF close regular(1)])
      then show ?thesis using out listened Inr lb by (auto simp: tp)
    next
      case ok: (Inr hp)
      obtain h policy where hp: "hp = (h, policy)" by (cases hp)
      obtain r' rest adopted' where rest: "listen_routes parse role next' routes = (r', rest, adopted')"
        by (cases "listen_routes parse role next' routes")
      have out: "calls = calls0 @ calls1 @ rest" "r = r'" "length adopted = Suc (length adopted')"
        using Cons.prems(2) listened Inr lb ids adopt ok hp rest by (auto simp: tp)
      have "given_back (ntl_handle l) calls1" by (rule ends(1) [OF ok])
      moreover have "length adopted' \<le> length routes \<and> (r' = Inr () \<longrightarrow> length adopted' = length routes) \<and>
        (\<forall>i < length routes. i \<le> length adopted' \<longrightarrow>
          (\<forall>l bound c. route_listener parse (routes ! i) = (Inr (l, bound), c) \<longrightarrow> given_back (ntl_handle l) rest))"
        using Cons.IH [OF _ rest] Cons.prems(1) by simp
      ultimately show ?thesis
        using listened Inr lb by (auto simp: out tp All_less_Suc2)
    qed
  qed
qed simp

text \<open>
  If closing the adopted servers succeeds, they are all closed after a failed start; the first that
  cannot be closed leaves the ones before it open.
\<close>

lemma close_adopted_all:
  "close_adopted lib vs = (Inr (), vs') \<Longrightarrow> length vs' = length vs \<and> list_all nrs_closed vs'"
proof (induction vs arbitrary: vs')
  case (Cons v vs)
  then show ?case
    by (auto simp: close_runtime_server_def runtime_server_ensure_open_def split: if_splits sum.splits prod.splits)
qed simp

lemma close_adopted_stops:
  assumes "\<not> nrs_closed v" "close_runtime_server (slb_release lib) (slb_close_connection lib)
      (slb_close_dispatcher lib (nrs_handle v)) v = (Inl err, v')"
  shows "close_adopted lib (v # vs) = (Inl err, v' # vs)"
  using assms by simp

end
