(* ===== verification/Migration_Trigger.thy ===== *)
theory Migration_Trigger
  imports Nnrp_Prelude
begin

text \<open>
  \<open>MigrationTriggerMonitor\<close> of \<open>client/transport.py\<close>: a window of the last health samples of a path,
  and when they say that the session should migrate.

  Python floats are values of a linear order \<open>'f\<close>, which excludes NaN; the two operations on them, the
  quotient of two integers and the mean of two floats, are arguments (\<open>float_ops\<close>), as is the integer
  that \<open>median\<close> and \<open>int\<close> make of two integers.
\<close>

section \<open>Samples and policies\<close>

record 'f float_ops =
  fop_quotient :: "int \<Rightarrow> int \<Rightarrow> 'f"
  fop_mean :: "'f \<Rightarrow> 'f \<Rightarrow> 'f"
  fop_int_mean :: "int \<Rightarrow> int \<Rightarrow> int"

record 'f PathHealthSample =
  phs_round_trip_us :: int
  phs_throughput :: 'f
  phs_timed_out :: bool

definition PathHealthSample_init :: "('f::{linorder,zero}) PathHealthSample \<Rightarrow> 'f PathHealthSample res" where
  "PathHealthSample_init v =
     (if phs_round_trip_us v < 0 then ve ''round_trip_us must be non-negative''
      else if phs_throughput v < 0 then ve ''effective_throughput_bytes_per_sec must be non-negative''
      else Inr v)"

record 'f MigrationTriggerPolicy =
  mtp_window_size :: int
  mtp_consecutive_degraded_windows :: int
  mtp_max_timeout_rate :: 'f
  mtp_min_throughput :: "'f option"
  mtp_max_round_trip_us :: "int option"
  mtp_max_jitter_us :: "int option"

definition MigrationTriggerPolicy_init ::
    "('f::{linorder,zero,one}) MigrationTriggerPolicy \<Rightarrow> 'f MigrationTriggerPolicy res" where
  "MigrationTriggerPolicy_init p =
     (if mtp_window_size p \<le> 0 then ve ''window_size must be greater than zero''
      else if mtp_consecutive_degraded_windows p \<le> 0
      then ve ''consecutive_degraded_windows must be greater than zero''
      else if \<not> (0 \<le> mtp_max_timeout_rate p \<and> mtp_max_timeout_rate p \<le> 1)
      then ve ''max_timeout_rate must be between 0.0 and 1.0''
      else if (case mtp_min_throughput p of None \<Rightarrow> False | Some v \<Rightarrow> v < 0)
      then ve ''min_median_throughput_bytes_per_sec must be non-negative''
      else if (case mtp_max_round_trip_us p of None \<Rightarrow> False | Some v \<Rightarrow> v < 0)
      then ve ''max_median_round_trip_us must be non-negative''
      else if (case mtp_max_jitter_us p of None \<Rightarrow> False | Some v \<Rightarrow> v < 0)
      then ve ''max_jitter_us must be non-negative''
      else Inr p)"

text \<open>\<open>statistics.median\<close> of a non-empty list: the middle value, or the mean of the two middle ones.\<close>

definition median_with :: "('a::linorder \<Rightarrow> 'a \<Rightarrow> 'a) \<Rightarrow> 'a list \<Rightarrow> 'a" where
  "median_with mean vals =
     (let s = sort vals; n = length s
      in if odd n then s ! (n div 2) else mean (s ! (n div 2 - 1)) (s ! (n div 2)))"

definition jitters :: "int list \<Rightarrow> int list" where
  "jitters vals = map (\<lambda>(previous, current). \<bar>current - previous\<bar>) (zip vals (tl vals))"

section \<open>The monitor\<close>

record 'f MigrationTriggerSnapshot =
  mts_sample_count :: int
  mts_median_round_trip_us :: "int option"
  mts_median_throughput :: "'f option"
  mts_jitter_us :: "int option"
  mts_timeout_rate :: 'f
  mts_degraded_reasons :: "string list"
  mts_consecutive_degraded_windows :: int
  mts_should_trigger :: bool

definition snapshot_is_degraded :: "'f MigrationTriggerSnapshot \<Rightarrow> bool" where
  "snapshot_is_degraded v \<longleftrightarrow> mts_degraded_reasons v \<noteq> []"

record 'f MigrationTriggerMonitor =
  mtm_policy :: "'f MigrationTriggerPolicy"
  mtm_samples :: "'f PathHealthSample list"
  mtm_consecutive :: int

definition new_monitor :: "'f MigrationTriggerPolicy \<Rightarrow> 'f MigrationTriggerMonitor" where
  "new_monitor p = \<lparr>mtm_policy = p, mtm_samples = [], mtm_consecutive = 0\<rparr>"

definition window_median_rtt :: "'f float_ops \<Rightarrow> 'f PathHealthSample list \<Rightarrow> int option" where
  "window_median_rtt ops samples =
     (let vals = map phs_round_trip_us (filter (\<lambda>v. \<not> phs_timed_out v) samples)
      in if vals = [] then None else Some (median_with (fop_int_mean ops) vals))"

definition window_median_throughput :: "('f::linorder) float_ops \<Rightarrow> 'f PathHealthSample list \<Rightarrow> 'f option" where
  "window_median_throughput ops samples =
     (let vals = map phs_throughput (filter (\<lambda>v. \<not> phs_timed_out v) samples)
      in if vals = [] then None else Some (median_with (fop_mean ops) vals))"

definition window_jitter :: "'f float_ops \<Rightarrow> 'f PathHealthSample list \<Rightarrow> int option" where
  "window_jitter ops samples =
     (let vals = map phs_round_trip_us (filter (\<lambda>v. \<not> phs_timed_out v) samples)
      in if length vals \<ge> 2 then Some (median_with (fop_int_mean ops) (jitters vals)) else None)"

definition window_timeout_rate :: "'f float_ops \<Rightarrow> 'f PathHealthSample list \<Rightarrow> 'f" where
  "window_timeout_rate ops samples =
     fop_quotient ops (int (length (filter phs_timed_out samples))) (int (length samples))"

definition degraded_reasons ::
    "('f::linorder) float_ops \<Rightarrow> 'f MigrationTriggerPolicy \<Rightarrow> 'f PathHealthSample list \<Rightarrow> string list" where
  "degraded_reasons ops p samples =
     (if window_timeout_rate ops samples > mtp_max_timeout_rate p then [''timeout_rate''] else []) @
     (case (mtp_min_throughput p, window_median_throughput ops samples) of
        (Some m, Some v) \<Rightarrow> if v < m then [''throughput''] else [] | _ \<Rightarrow> []) @
     (case (mtp_max_round_trip_us p, window_median_rtt ops samples) of
        (Some m, Some v) \<Rightarrow> if v > m then [''round_trip''] else [] | _ \<Rightarrow> []) @
     (case (mtp_max_jitter_us p, window_jitter ops samples) of
        (Some m, Some v) \<Rightarrow> if v > m then [''jitter''] else [] | _ \<Rightarrow> [])"

definition monitor_snapshot ::
    "('f::{linorder,zero}) float_ops \<Rightarrow> 'f MigrationTriggerMonitor
      \<Rightarrow> 'f MigrationTriggerSnapshot \<times> 'f MigrationTriggerMonitor" where
  "monitor_snapshot ops m =
     (let samples = mtm_samples m; p = mtm_policy m
      in if int (length samples) < mtp_window_size p
         then (\<lparr>mts_sample_count = int (length samples), mts_median_round_trip_us = None,
                mts_median_throughput = None, mts_jitter_us = None, mts_timeout_rate = 0,
                mts_degraded_reasons = [], mts_consecutive_degraded_windows = mtm_consecutive m,
                mts_should_trigger = False\<rparr>, m)
         else
           let reasons = degraded_reasons ops p samples;
               consecutive = (if reasons \<noteq> [] then mtm_consecutive m + 1 else 0)
           in (\<lparr>mts_sample_count = int (length samples),
                mts_median_round_trip_us = window_median_rtt ops samples,
                mts_median_throughput = window_median_throughput ops samples,
                mts_jitter_us = window_jitter ops samples, mts_timeout_rate = window_timeout_rate ops samples,
                mts_degraded_reasons = reasons, mts_consecutive_degraded_windows = consecutive,
                mts_should_trigger = (consecutive \<ge> mtp_consecutive_degraded_windows p)\<rparr>,
               m\<lparr>mtm_consecutive := consecutive\<rparr>))"

definition observe ::
    "('f::{linorder,zero}) float_ops \<Rightarrow> 'f PathHealthSample \<Rightarrow> 'f MigrationTriggerMonitor
      \<Rightarrow> 'f MigrationTriggerSnapshot \<times> 'f MigrationTriggerMonitor" where
  "observe ops sample m =
     (let samples = mtm_samples m @ [sample];
          samples = (if int (length samples) > mtp_window_size (mtm_policy m) then tl samples else samples)
      in monitor_snapshot ops (m\<lparr>mtm_samples := samples\<rparr>))"

fun observe_samples ::
    "('f::{linorder,zero}) float_ops \<Rightarrow> 'f PathHealthSample list \<Rightarrow> 'f MigrationTriggerMonitor
      \<Rightarrow> 'f MigrationTriggerSnapshot list \<times> 'f MigrationTriggerMonitor" where
  "observe_samples ops [] m = ([], m)"
| "observe_samples ops (v # vs) m =
     (case observe ops v m of (x, m) \<Rightarrow> (case observe_samples ops vs m of (xs, m) \<Rightarrow> (x # xs, m)))"

section \<open>When it triggers\<close>

text \<open>The last \<open>w\<close> samples, and whether the \<open>w\<close> samples that end at \<open>n\<close> are degraded.\<close>

definition last_window :: "int \<Rightarrow> 'a list \<Rightarrow> 'a list" where
  "last_window w xs = drop (length xs - nat w) xs"

definition window_degraded ::
    "('f::linorder) float_ops \<Rightarrow> 'f MigrationTriggerPolicy \<Rightarrow> 'f PathHealthSample list \<Rightarrow> bool" where
  "window_degraded ops p xs \<longleftrightarrow> mtp_window_size p \<le> int (length xs) \<and>
     degraded_reasons ops p (last_window (mtp_window_size p) xs) \<noteq> []"

fun streak_from ::
    "('f::linorder) float_ops \<Rightarrow> 'f MigrationTriggerPolicy \<Rightarrow> 'f PathHealthSample list \<Rightarrow> nat \<Rightarrow> nat" where
  "streak_from ops p xs 0 = 0"
| "streak_from ops p xs (Suc n) = (if window_degraded ops p (take (Suc n) xs) then Suc (streak_from ops p xs n) else 0)"

lemma streak_from_append: "n \<le> length xs \<Longrightarrow> streak_from ops p (xs @ ys) n = streak_from ops p xs n"
  by (induction n) auto

lemma streak_at_least:
  "n \<le> length xs \<Longrightarrow> k \<le> streak_from ops p xs n \<longleftrightarrow>
    k \<le> n \<and> (\<forall>j < k. window_degraded ops p (take (n - j) xs))"
proof (induction n arbitrary: k)
  case (Suc n)
  show ?case
  proof (cases k)
    case (Suc k')
    have "(\<forall>j < Suc k'. window_degraded ops p (take (Suc n - j) xs)) \<longleftrightarrow>
        window_degraded ops p (take (Suc n) xs) \<and> (\<forall>j < k'. window_degraded ops p (take (n - j) xs))"
      by (auto simp: less_Suc_eq_0_disj)
    then show ?thesis using Suc.IH [of k'] Suc.prems Suc by auto
  qed simp
qed auto

text \<open>The state of the monitor after the samples it has observed.\<close>

definition monitor_has ::
    "('f::{linorder,zero}) float_ops \<Rightarrow> 'f MigrationTriggerPolicy \<Rightarrow> 'f PathHealthSample list
      \<Rightarrow> 'f MigrationTriggerMonitor \<Rightarrow> bool" where
  "monitor_has ops p xs m \<longleftrightarrow> mtm_policy m = p \<and> mtm_samples m = last_window (mtp_window_size p) xs \<and>
     mtm_consecutive m = int (streak_from ops p xs (length xs))"

lemma last_window_snoc:
  assumes "0 < w"
  shows "(let s = last_window w xs @ [v] in if int (length s) > w then tl s else s) = last_window w (xs @ [v])"
proof (cases "nat w \<le> length xs")
  case True
  then have "length (last_window w xs) = nat w" by (simp add: last_window_def)
  moreover have "last_window w xs \<noteq> []" using True assms by (simp add: last_window_def)
  moreover have "tl (last_window w xs) = drop (Suc (length xs - nat w)) xs"
    by (simp add: last_window_def drop_Suc tl_drop)
  ultimately show ?thesis
    using True assms by (simp add: Let_def last_window_def Suc_diff_le)
next
  case False
  then show ?thesis using assms by (auto simp: Let_def last_window_def)
qed

lemma length_last_window: "0 < w \<Longrightarrow> int (length (last_window w xs)) = min w (int (length xs))"
  by (auto simp: last_window_def min_def)

lemma observe_snapshot:
  assumes "MigrationTriggerPolicy_init p = Inr p" "monitor_has ops p xs m" "observe ops v m = (x, m')"
  shows "monitor_has ops p (xs @ [v]) m'"
    "mts_should_trigger x \<longleftrightarrow>
       mtp_consecutive_degraded_windows p \<le> int (streak_from ops p (xs @ [v]) (Suc (length xs)))"
    "mts_sample_count x = min (mtp_window_size p) (int (Suc (length xs)))"
    "snapshot_is_degraded x \<longleftrightarrow> window_degraded ops p (xs @ [v])"
proof -
  let ?w = "mtp_window_size p" and ?xs = "xs @ [v]"
  have w: "0 < ?w" "0 < mtp_consecutive_degraded_windows p"
    using assms(1) by (auto simp: MigrationTriggerPolicy_init_def split: if_splits)
  have m: "mtm_policy m = p" "mtm_samples m = last_window ?w xs"
    "mtm_consecutive m = int (streak_from ops p xs (length xs))"
    using assms(2) by (auto simp: monitor_has_def)
  have streak: "streak_from ops p ?xs (length xs) = streak_from ops p xs (length xs)"
    by (rule streak_from_append) simp
  have snap: "(x, m') = monitor_snapshot ops (m\<lparr>mtm_samples := last_window ?w ?xs\<rparr>)"
    using assms(3) last_window_snoc [OF w(1), of xs v] by (simp add: observe_def m Let_def)
  have len: "int (length (last_window ?w ?xs)) = min ?w (int (Suc (length xs)))"
    using length_last_window [OF w(1), of ?xs] by simp
  have "monitor_has ops p ?xs m' \<and> (mts_should_trigger x \<longleftrightarrow>
        mtp_consecutive_degraded_windows p \<le> int (streak_from ops p ?xs (Suc (length xs)))) \<and>
        mts_sample_count x = min ?w (int (Suc (length xs))) \<and>
        (snapshot_is_degraded x \<longleftrightarrow> window_degraded ops p ?xs)"
  proof (cases "int (Suc (length xs)) < ?w")
    case True
    then have "int (length (last_window ?w ?xs)) < ?w" using len by simp
    then have "x = \<lparr>mts_sample_count = int (length (last_window ?w ?xs)), mts_median_round_trip_us = None,
                mts_median_throughput = None, mts_jitter_us = None, mts_timeout_rate = 0,
                mts_degraded_reasons = [], mts_consecutive_degraded_windows = mtm_consecutive m,
                mts_should_trigger = False\<rparr>" "m' = m\<lparr>mtm_samples := last_window ?w ?xs\<rparr>"
      using snap by (simp_all add: monitor_snapshot_def m Let_def)
    moreover have "\<not> window_degraded ops p ?xs" using True by (simp add: window_degraded_def)
    moreover have "streak_from ops p xs (length xs) = 0"
      using True by (cases xs) (simp_all add: window_degraded_def)
    ultimately show ?thesis
      using m w True len streak by (simp add: monitor_has_def snapshot_is_degraded_def)
  next
    case False
    then have full: "\<not> int (length (last_window ?w ?xs)) < ?w" using len by simp
    have deg: "window_degraded ops p ?xs \<longleftrightarrow> degraded_reasons ops p (last_window ?w ?xs) \<noteq> []"
      using False by (simp add: window_degraded_def)
    show ?thesis
      using snap full m streak deg len
      by (simp add: monitor_snapshot_def Let_def monitor_has_def snapshot_is_degraded_def add.commute)
  qed
  then show "monitor_has ops p ?xs m'" "mts_should_trigger x \<longleftrightarrow>
       mtp_consecutive_degraded_windows p \<le> int (streak_from ops p ?xs (Suc (length xs)))"
    "mts_sample_count x = min ?w (int (Suc (length xs)))"
    "snapshot_is_degraded x \<longleftrightarrow> window_degraded ops p ?xs"
    by blast+
qed

lemma observe_samples_snoc:
  "observe_samples ops (xs @ [v]) m =
    (case observe_samples ops xs m of (snaps, m1) \<Rightarrow> (case observe ops v m1 of (x, m2) \<Rightarrow> (snaps @ [x], m2)))"
  by (induction xs arbitrary: m) (simp_all split: prod.split)

lemma monitor_state:
  assumes "MigrationTriggerPolicy_init p = Inr p"
  shows "monitor_has ops p xs (snd (observe_samples ops xs (new_monitor p)))"
proof (induction xs rule: rev_induct)
  case Nil
  then show ?case by (simp add: monitor_has_def new_monitor_def last_window_def)
next
  case (snoc v xs)
  then show ?case
    using observe_snapshot(1) [OF assms, of ops xs]
    by (simp add: observe_samples_snoc split: prod.split)
qed

text \<open>
  The monitor asks for a migration exactly when the windows that ended at the last samples, as many as
  the policy asks for, were all degraded.
\<close>

lemma triggers_iff:
  assumes "MigrationTriggerPolicy_init p = Inr p" "xs \<noteq> []"
  shows "mts_should_trigger (last (fst (observe_samples ops xs (new_monitor p)))) \<longleftrightarrow>
    nat (mtp_consecutive_degraded_windows p) \<le> length xs \<and>
    (\<forall>j < nat (mtp_consecutive_degraded_windows p). window_degraded ops p (take (length xs - j) xs))"
proof -
  obtain ys v where xs: "xs = ys @ [v]" using assms(2) by (cases xs rule: rev_cases) auto
  obtain snaps m where ys: "observe_samples ops ys (new_monitor p) = (snaps, m)" by (cases "observe_samples ops ys (new_monitor p)")
  obtain x m' where x: "observe ops v m = (x, m')" by (cases "observe ops v m")
  have "monitor_has ops p ys m" using monitor_state [OF assms(1), of ops ys] ys by simp
  from observe_snapshot(2) [OF assms(1) this x]
  have "mts_should_trigger x \<longleftrightarrow> nat (mtp_consecutive_degraded_windows p) \<le> streak_from ops p xs (length xs)"
    by (simp add: xs nat_le_iff)
  moreover have "last (fst (observe_samples ops xs (new_monitor p))) = x"
    by (simp add: xs observe_samples_snoc ys x)
  ultimately show ?thesis
    using streak_at_least [of "length xs" xs "nat (mtp_consecutive_degraded_windows p)" ops p] by simp
qed

end
