(* ===== verification/Submit_Waits.thy ===== *)
theory Submit_Waits
  imports Submit_Races
begin

text \<open>
  \<open>async_submit_and_poll_result\<close> after the submit: a thread polls for the result, the caller waits for
  the thread and may be cancelled.  The caller tells the thread by an event, which the thread looks at
  between its calls; the thread then cancels the operation.
\<close>

section \<open>The two sides\<close>

text \<open>
  \<open>WaitPolls\<close>: before a poll; \<open>WaitCalls\<close>: in \<open>poll_result\<close>; \<open>WaitPolled\<close>: back from it, before the event is
  looked at; \<open>WaitRaising\<close>: an exception on its way to the handler of \<open>poll_until_complete\<close>.
\<close>

datatype poll_outcome = PolledResult | PolledBlocked | PolledError

datatype wait_outcome = WaitGaveResult | WaitGaveCancelled | WaitGaveError

datatype wait_thread = WaitPolls | WaitCalls | WaitPolled poll_outcome | WaitRaising | WaitEnded wait_outcome

text \<open>\<open>AwaitsPoll\<close>: the first \<open>await\<close>; \<open>AwaitsEnd\<close>: the one in the handler of the cancellation.\<close>

datatype wait_caller = AwaitsPoll | AwaitsEnd | WaiterReturned | WaiterCancelled | WaiterRaised

record async_wait =
  asw_requested :: bool
  asw_thread :: wait_thread
  asw_caller :: wait_caller
  asw_cancellations :: nat
  asw_cancel_calls :: nat

definition async_wait_start :: async_wait where
  "async_wait_start = \<lparr>asw_requested = False, asw_thread = WaitPolls, asw_caller = AwaitsPoll,
     asw_cancellations = 0, asw_cancel_calls = 0\<rparr>"

text \<open>\<open>finish_cancellation\<close>; what \<open>cancel\<close> may raise is replaced.\<close>

definition finish_cancellation :: "async_wait \<Rightarrow> async_wait" where
  "finish_cancellation w =
     w\<lparr>asw_cancel_calls := asw_cancel_calls w + 1, asw_thread := WaitEnded WaitGaveCancelled\<rparr>"

definition wait_poll :: "async_wait \<Rightarrow> async_wait" where
  "wait_poll w = (if asw_requested w then finish_cancellation w else w\<lparr>asw_thread := WaitCalls\<rparr>)"

text \<open>What a blocked poll does: go on, raise, or cancel the operation and raise a timeout.\<close>

datatype blocked_choice = BlockedAgain | BlockedRaises | BlockedTimeout

definition wait_polled :: "blocked_choice \<Rightarrow> poll_outcome \<Rightarrow> async_wait \<Rightarrow> async_wait" where
  "wait_polled choice out w =
     (case out of
        PolledResult \<Rightarrow>
          if asw_requested w then finish_cancellation w else w\<lparr>asw_thread := WaitEnded WaitGaveResult\<rparr>
      | PolledError \<Rightarrow> w\<lparr>asw_thread := WaitRaising\<rparr>
      | PolledBlocked \<Rightarrow>
          if asw_requested w then finish_cancellation w
          else (case choice of
             BlockedAgain \<Rightarrow> w\<lparr>asw_thread := WaitPolls\<rparr>
           | BlockedRaises \<Rightarrow> w\<lparr>asw_thread := WaitRaising\<rparr>
           | BlockedTimeout \<Rightarrow> w\<lparr>asw_cancel_calls := asw_cancel_calls w + 1, asw_thread := WaitRaising\<rparr>))"

definition wait_raised :: "async_wait \<Rightarrow> async_wait" where
  "wait_raised w =
     (if asw_requested w then finish_cancellation w else w\<lparr>asw_thread := WaitEnded WaitGaveError\<rparr>)"

text \<open>The caller is cancelled while it waits: it sets the event and waits on, or gives up the second time.\<close>

definition cancel_waiter :: "async_wait \<Rightarrow> async_wait" where
  "cancel_waiter w =
     (let w = w\<lparr>asw_cancellations := asw_cancellations w + 1\<rparr>
      in if asw_caller w = AwaitsPoll then w\<lparr>asw_requested := True, asw_caller := AwaitsEnd\<rparr>
         else w\<lparr>asw_caller := WaiterCancelled\<rparr>)"

text \<open>The caller goes on when the thread has ended.\<close>

definition resume_waiter :: "wait_outcome \<Rightarrow> async_wait \<Rightarrow> async_wait" where
  "resume_waiter out w =
     (case (asw_caller w, out) of
        (AwaitsPoll, WaitGaveResult) \<Rightarrow> w\<lparr>asw_caller := WaiterReturned\<rparr>
      | (AwaitsPoll, _) \<Rightarrow> w\<lparr>asw_caller := WaiterRaised\<rparr>
      | (AwaitsEnd, WaitGaveError) \<Rightarrow> w\<lparr>asw_caller := WaiterRaised\<rparr>
      | (AwaitsEnd, _) \<Rightarrow> w\<lparr>asw_caller := WaiterCancelled\<rparr>
      | _ \<Rightarrow> w)"

inductive wait_step :: "async_wait \<Rightarrow> async_wait \<Rightarrow> bool" where
  polls: "asw_thread w = WaitPolls \<Longrightarrow> wait_step w (wait_poll w)"
| answers: "asw_thread w = WaitCalls \<Longrightarrow> wait_step w (w\<lparr>asw_thread := WaitPolled out\<rparr>)"
| looks: "asw_thread w = WaitPolled out \<Longrightarrow> wait_step w (wait_polled choice out w)"
| handles: "asw_thread w = WaitRaising \<Longrightarrow> wait_step w (wait_raised w)"
| cancels: "asw_caller w \<in> {AwaitsPoll, AwaitsEnd} \<Longrightarrow> wait_step w (cancel_waiter w)"
| resumes: "asw_thread w = WaitEnded out \<Longrightarrow> wait_step w (resume_waiter out w)"

definition wait_reachable :: "async_wait \<Rightarrow> bool" where
  "wait_reachable = wait_step\<^sup>*\<^sup>* async_wait_start"

section \<open>A cancellation is carried out\<close>

text \<open>A cancellation that came while the thread was at work.\<close>

definition wait_ended :: "async_wait \<Rightarrow> bool" where
  "wait_ended w \<longleftrightarrow> (\<exists>out. asw_thread w = WaitEnded out)"

definition cancelling :: "async_wait \<Rightarrow> bool" where
  "cancelling w \<longleftrightarrow> asw_requested w \<and>
     (\<forall>out. asw_thread w = WaitEnded out \<longrightarrow> out = WaitGaveCancelled \<and> 1 \<le> asw_cancel_calls w)"

lemmas wait_defs = wait_poll_def wait_polled_def wait_raised_def cancel_waiter_def resume_waiter_def
  finish_cancellation_def

lemma cancelling_step:
  assumes "wait_step w w'" "cancelling w"
  shows "cancelling w'"
  using assms
proof cases
  case (looks out choice)
  then show ?thesis using assms(2) by (cases out) (simp_all add: cancelling_def wait_defs)
next
  case (resumes out)
  then show ?thesis
    using assms(2) by (cases "asw_caller w"; cases out) (simp_all add: cancelling_def wait_defs)
qed (use assms(2) in \<open>auto simp: cancelling_def wait_defs Let_def\<close>)

lemma cancellation_carried_out:
  assumes "wait_step\<^sup>*\<^sup>* w w'" "asw_requested w" "\<not> wait_ended w" "asw_thread w' = WaitEnded out"
  shows "out = WaitGaveCancelled" "1 \<le> asw_cancel_calls w'"
proof -
  have "cancelling w" using assms(2,3) by (auto simp: cancelling_def wait_ended_def)
  then have "cancelling w'"
    using assms(1) by (induction rule: rtranclp_induct [consumes 1, OF assms(1)]) (auto intro: cancelling_step)
  then show "out = WaitGaveCancelled" "1 \<le> asw_cancel_calls w'" using assms(4) by (auto simp: cancelling_def)
qed

text \<open>The thread ends after at most three more steps of its own, if the call it is in returns.\<close>

definition thread_distance :: "async_wait \<Rightarrow> nat" where
  "thread_distance w = (case asw_thread w of
     WaitPolls \<Rightarrow> 1 | WaitCalls \<Rightarrow> 3 | WaitPolled out \<Rightarrow> 2 | WaitRaising \<Rightarrow> 1 | WaitEnded out \<Rightarrow> 0)"

inductive thread_step :: "async_wait \<Rightarrow> async_wait \<Rightarrow> bool" where
  "asw_thread w = WaitPolls \<Longrightarrow> thread_step w (wait_poll w)"
| "asw_thread w = WaitCalls \<Longrightarrow> thread_step w (w\<lparr>asw_thread := WaitPolled out\<rparr>)"
| "asw_thread w = WaitPolled out \<Longrightarrow> thread_step w (wait_polled choice out w)"
| "asw_thread w = WaitRaising \<Longrightarrow> thread_step w (wait_raised w)"

lemma thread_step_nearer:
  "thread_step w w' \<Longrightarrow> asw_requested w \<Longrightarrow> thread_distance w' < thread_distance w"
  by (induction rule: thread_step.induct) (auto simp: thread_distance_def wait_defs split: poll_outcome.split)

text \<open>What the caller was told.\<close>

definition wait_inv :: "async_wait \<Rightarrow> bool" where
  "wait_inv w \<longleftrightarrow>
     (asw_caller w = AwaitsPoll \<longrightarrow> \<not> asw_requested w \<and> asw_cancellations w = 0) \<and>
     (asw_caller w = AwaitsEnd \<longrightarrow> asw_requested w \<and> asw_cancellations w = 1) \<and>
     (asw_caller w = WaiterReturned \<longrightarrow> asw_thread w = WaitEnded WaitGaveResult \<and> asw_cancellations w = 0) \<and>
     (asw_caller w = WaiterRaised \<longrightarrow> asw_thread w = WaitEnded WaitGaveError) \<and>
     (asw_caller w = WaiterCancelled \<longrightarrow> asw_requested w \<and>
        (2 \<le> asw_cancellations w \<or> asw_thread w \<in> {WaitEnded WaitGaveResult, WaitEnded WaitGaveCancelled})) \<and>
     (asw_thread w = WaitEnded WaitGaveCancelled \<longrightarrow> asw_requested w \<and> 1 \<le> asw_cancel_calls w)"

lemma wait_inv_step:
  assumes "wait_step w w'" "wait_inv w"
  shows "wait_inv w'"
  using assms
proof cases
  case polls
  then show ?thesis using assms(2)
    by (cases "asw_requested w"; cases "asw_caller w"; simp add: wait_inv_def wait_defs)
next
  case (answers out)
  then show ?thesis using assms(2) by (cases "asw_caller w"; simp add: wait_inv_def)
next
  case (looks out choice)
  then show ?thesis using assms(2)
    by (cases out; cases choice; cases "asw_requested w"; cases "asw_caller w"; simp add: wait_inv_def wait_defs)
next
  case handles
  then show ?thesis using assms(2)
    by (cases "asw_requested w"; cases "asw_caller w"; simp add: wait_inv_def wait_defs)
next
  case cancels
  then show ?thesis using assms(2)
    by (cases "asw_caller w"; simp add: wait_inv_def wait_defs Let_def)
next
  case (resumes out)
  then show ?thesis using assms(2)
    by (cases "asw_caller w"; cases out; simp add: wait_inv_def wait_defs)
qed

lemma wait_reachable_inv: "wait_reachable w \<Longrightarrow> wait_inv w"
  unfolding wait_reachable_def
proof (induction rule: rtranclp_induct)
  case base
  then show ?case by (simp add: wait_inv_def async_wait_start_def)
next
  case (step w w')
  then show ?case by (blast intro: wait_inv_step)
qed

text \<open>
  A caller that was cancelled once learns of it only when the operation has ended with a result or
  was cancelled.
\<close>

lemma cancelled_waiter:
  assumes "wait_reachable w" "asw_caller w = WaiterCancelled" "asw_cancellations w \<le> 1"
  shows "asw_thread w = WaitEnded WaitGaveResult \<or> asw_thread w = WaitEnded WaitGaveCancelled \<and> 1 \<le> asw_cancel_calls w"
  using wait_reachable_inv [OF assms(1)] assms(2,3) by (auto simp: wait_inv_def)

end
