(* ===== verification/Object_Samples.thy ===== *)
theory Object_Samples
  imports Native_Samples Transport_Opening Migration_Trigger Submit_Waits
begin

text \<open>
  Small values for the witnesses about the objects that own a handle: a policy, a carrier with its
  binding and the replies to its opening, a server role, a ticket as the library gives it.
\<close>

definition accept_policy :: application_policy where
  "accept_policy = (\<lambda>_. Some (True, 0, None))"

definition closed_dispatcher :: policy_dispatcher where
  "closed_dispatcher =
     policy_close_end [] (policy_close_begin (policy_on_complete 0
       (evaluate_and_complete accept_policy native_status_ok 0 (add_done_callback 0
         (snd (policy_begin 7 (Some []) True new_policy_dispatcher))))))"

definition sample_decision :: policy_decision where
  "sample_decision = \<lparr>pdc_accepted = False, pdc_session_error_code = SESSION_ERROR_LIMIT_REACHED,
     pdc_diagnostic = map (of_char :: char \<Rightarrow> 8 word) ''application policy evaluation failed''\<rparr>"

lemma sample_decision: "evaluate_policy accept_policy [] = Inr sample_decision"
  by code_simp

lemma closed_dispatcher_reachable:
  "policy_reachable accept_policy closed_dispatcher" "pds_close closed_dispatcher = CloseReturned (Inr ())"
  "length (pds_completions closed_dispatcher) = 1"
proof -
  let ?s1 = "snd (policy_begin 7 (Some []) True new_policy_dispatcher)"
  let ?s2 = "add_done_callback 0 ?s1"
  let ?s3 = "evaluate_and_complete accept_policy native_status_ok 0 ?s2"
  let ?s4 = "policy_on_complete 0 ?s3"
  let ?s5 = "policy_close_begin ?s4"
  let ?t = "\<lambda>b. \<lparr>ptk_request = 7, ptk_metadata = [], ptk_result = Some (Inr ()), ptk_callback = True, ptk_noted = b\<rparr>"
  note defs = policy_begin_def new_policy_dispatcher_def add_done_callback_def set_task_def evaluate_and_complete_def
    sample_decision raise_for_native_status_def policy_on_complete_def error_of_def either_error_def
    policy_close_begin_def policy_close_end_def
  have ok: "status_succeeded native_status_ok" by (simp add: status_succeeded_def native_status_ok_def status_of_def)
  have s1: "?s1 = new_policy_dispatcher\<lparr>pds_tasks := [\<lparr>ptk_request = 7, ptk_metadata = [], ptk_result = None,
      ptk_callback = False, ptk_noted = False\<rparr>]\<rparr>"
    by (simp add: defs)
  then have s2: "?s2 = new_policy_dispatcher\<lparr>pds_tasks := [\<lparr>ptk_request = 7, ptk_metadata = [], ptk_result = None,
      ptk_callback = True, ptk_noted = False\<rparr>]\<rparr>"
    by (simp add: defs)
  then have s3: "?s3 = new_policy_dispatcher\<lparr>pds_tasks := [?t False],
      pds_completions := [(7, sample_decision, native_status_ok)]\<rparr>"
    using ok by (simp add: defs)
  then have s4: "?s4 = new_policy_dispatcher\<lparr>pds_tasks := [?t True],
      pds_completions := [(7, sample_decision, native_status_ok)]\<rparr>"
    by (simp add: defs)
  then have s5: "?s5 = new_policy_dispatcher\<lparr>pds_tasks := [?t True], pds_close := Closing [],
      pds_completions := [(7, sample_decision, native_status_ok)]\<rparr>"
    by (simp add: defs)
  have "policy_step accept_policy new_policy_dispatcher ?s1" by (rule policy_step.begins)
  moreover have "policy_step accept_policy ?s1 ?s2" by (rule policy_step.adds) (simp add: s1)
  moreover have "policy_step accept_policy ?s2 ?s3" by (rule policy_step.evaluates) (simp_all add: s2)
  moreover have "policy_step accept_policy ?s3 ?s4" by (rule policy_step.marks) (simp_all add: s3)
  moreover have "policy_step accept_policy ?s4 ?s5" by (rule policy_step.closes)
  moreover have "policy_step accept_policy ?s5 closed_dispatcher"
    unfolding closed_dispatcher_def by (rule policy_step.returns [of _ "[]"]) (simp_all add: s5)
  ultimately show "policy_reachable accept_policy closed_dispatcher"
    unfolding policy_reachable_def by (meson rtranclp.rtrancl_into_rtrancl rtranclp.rtrancl_refl)
  show "pds_close closed_dispatcher = CloseReturned (Inr ())" "length (pds_completions closed_dispatcher) = 1"
    unfolding closed_dispatcher_def using s5 by (simp_all add: policy_close_end_def either_error_def new_policy_dispatcher_def)
qed

definition tcp_carrier :: carrier_endpoint where
  "tcp_carrier = \<lparr>nte_uri = ''tcp://h:4433'', nte_transport_name = ''tcp'', nte_secure = False,
     cep_scheme = ''tcp'', cep_transport_id = TI_TCP, cep_address = ''h:4433''\<rparr>"

definition tcp_binding :: carrier_binding where
  "tcp_binding = \<lparr>ntb_provider = example_tcp, ntb_local_available = True, ntb_diagnostic = None,
     cbd_role_entrypoints = True\<rparr>"

definition tls_config :: config_reply where
  "tls_config = \<lparr>cfr_create = (native_status_ok, native_handle 12 3), cfr_close = native_status_ok\<rparr>"

definition sample_role :: server_role where
  "sample_role = \<lparr>svr_server_id = 1, svr_generation = 1, svr_supported_profiles = [1], svr_supported_cache_objects = [],
     svr_max_cache_objects = 0, svr_max_cache_object_bytes = 0, svr_resume_token_bytes = 16,
     svr_max_in_flight_operations = 4, svr_granted_operation_credit = 4, svr_lease_ttl_ms = 1000,
     svr_resume_window_ms = 1000, svr_schema_descriptors = [], svr_policy = False\<rparr>"

definition bound_adoption :: server_adoption where
  "bound_adoption = \<lparr>sad_create = (native_status_ok, native_handle KIND_SCHEMA_REGISTRY 20),
     sad_installs = (\<lambda>_. (native_status_ok, 0)), sad_bind = (native_status_ok, native_handle KIND_CONNECTION 21),
     sad_release = native_status_ok, sad_dispatcher = Inr ()\<rparr>"

definition sample_listen_route :: listen_route where
  "sample_listen_route = \<lparr>lrt_binding = tcp_binding, lrt_endpoint = tcp_carrier, lrt_security = None\<rparr>"

definition listen_answers :: "int \<Rightarrow> server_adoption \<Rightarrow> listen_reply" where
  "listen_answers i adoption =
     \<lparr>lrp_config = tls_config, lrp_opened = (native_status_ok, native_handle KIND_TRANSPORT_LISTENER i),
      lrp_endpoint = \<lparr>epr_status = native_status_ok, epr_owner = native_handle KIND_BUFFER 9, epr_view = Some [],
        epr_release = native_status_ok\<rparr>,
      lrp_close_unbound = native_status_ok, lrp_adoption = adoption, lrp_close = native_status_ok\<rparr>"

definition sample_session_options :: NativeClientSessionOptions where
  "sample_session_options = \<lparr>cso_requested_session_id = 0, cso_profile_id = 1, cso_schema_id = 2,
     cso_schema_version = 3, cso_priority_class = 1, cso_default_deadline_ms = 500,
     cso_max_in_flight_operations = 4, cso_lease_ttl_hint_ms = 30000, cso_allow_resume = True,
     cso_resume_token_bytes = 0, cso_cache_hints = []\<rparr>"

definition sample_client_sessions :: client_sessions where
  "sample_client_sessions = \<lparr>csn_closed = False,
     csn_connection = \<lparr>nrc_handle = native_handle KIND_CONNECTION 4, nrc_closed = False\<rparr>,
     csn_session_defaults = sample_session_options, csn_sessions = []\<rparr>"

definition sample_ticket_reply :: ticket_reply where
  "sample_ticket_reply = \<lparr>tkr_status = native_status_ok, tkr_owner = native_handle KIND_BUFFER 9,
     tkr_payload = (case recovery_ticket_to_bytes sample_ticket of Inr encoded \<Rightarrow> Some encoded | Inl _ \<Rightarrow> None),
     tkr_release = native_status_ok\<rparr>"

definition integer_floats :: "int float_ops" where
  "integer_floats = \<lparr>fop_quotient = (\<lambda>a b. a div b), fop_mean = (\<lambda>a b. (a + b) div 2),
     fop_int_mean = (\<lambda>a b. (a + b) div 2)\<rparr>"

definition strict_trigger :: "int MigrationTriggerPolicy" where
  "strict_trigger = \<lparr>mtp_window_size = 2, mtp_consecutive_degraded_windows = 2, mtp_max_timeout_rate = 0,
     mtp_min_throughput = None, mtp_max_round_trip_us = None, mtp_max_jitter_us = Some 10\<rparr>"

definition lost_sample :: "int PathHealthSample" where
  "lost_sample = \<lparr>phs_round_trip_us = 0, phs_throughput = 0, phs_timed_out = True\<rparr>"

end
