(* ===== verification/Cache_Backend.thy ===== *)
theory Cache_Backend
  imports Owned_Handles Cache_Values
begin

text \<open>
  \<open>NativeCacheLeaseBackend\<close>: the cache calls of the native library.  The object keeps the handle of
  the lease of each identity, which it needs to release it.  A method takes what the library
  answers, and returns its result, the requests and the object.
\<close>

section \<open>Requests and results\<close>

abbreviation (input) KIND_CACHE_LEASE :: int where "KIND_CACHE_LEASE \<equiv> 7"

type_synonym lease_key = "int \<times> int \<times> int \<times> int"

record cache_lease_request =
  cra_owner :: NativeHandle
  cra_object_id :: CacheObjectIdentity
  cra_expected_version :: int
  cra_now_ms :: int
  cra_ttl_ms :: int

datatype cache_request =
    QueryLease cache_lease_request
  | TouchLease cache_lease_request
  | PrefetchLeases NativeHandle "CacheObjectIdentity list" int int
  | ReleaseLease NativeHandle

record ffi_lease =
  ffl_outcome_code :: int
  ffl_lease_handle :: NativeHandle
  ffl_object_id :: CacheObjectIdentity
  ffl_object_version :: int
  ffl_lease_id :: int
  ffl_owner_scope :: int
  ffl_ttl_ms :: int
  ffl_owner_id :: int
  ffl_granted_at_ms :: int

definition cache_identity_to_ffi :: "CacheObjectIdentity \<Rightarrow> CacheObjectIdentity" where
  "cache_identity_to_ffi i =
     \<lparr>coi_cache_namespace = coi_cache_namespace i mod 2 ^ 32, coi_object_kind = coi_object_kind i mod 2 ^ 32,
      coi_cache_key_hi = coi_cache_key_hi i mod 2 ^ 64, coi_cache_key_lo = coi_cache_key_lo i mod 2 ^ 64\<rparr>"

definition cache_identity_key :: "CacheObjectIdentity \<Rightarrow> lease_key" where
  "cache_identity_key i =
     (coi_cache_namespace i, coi_cache_key_hi i, coi_cache_key_lo i, coi_object_kind i)"

definition cache_identity_from_ffi :: "CacheObjectIdentity \<Rightarrow> CacheObjectIdentity nres" where
  "cache_identity_from_ffi i = plain (CacheObjectIdentity_init i)"

definition cache_lease_outcome_by_code :: "int \<Rightarrow> CacheLeaseOutcome option" where
  "cache_lease_outcome_by_code code =
     (if code = 0 then Some CLO_VALID else if code = 1 then Some CLO_MISSING
      else if code = 2 then Some CLO_EXPIRED else if code = 3 then Some CLO_RELEASED else None)"

definition cache_lease_result_from_ffi :: "ffi_lease \<Rightarrow> CacheLeaseResult nres" where
  "cache_lease_result_from_ffi v =
     bind_nat (cache_identity_from_ffi (ffl_object_id v)) (\<lambda>identity.
       case cache_lease_outcome_by_code (ffl_outcome_code v) of
         None \<Rightarrow> Inl (HandleError ''unknown native cache lease outcome'')
       | Some outcome \<Rightarrow>
           bind_nat (if nh_kind (ffl_lease_handle v) \<noteq> KIND_CACHE_LEASE then Inr None
             else bind_nat (plain (CacheLeaseDescriptor_init identity (ffl_object_version v) (ffl_lease_id v)
                 (ffl_owner_scope v) (ffl_owner_id v) (ffl_granted_at_ms v) (ffl_ttl_ms v)))
               (\<lambda>l. Inr (Some l))) (\<lambda>lease.
           bind_nat (if ffl_object_version v = 0 then Inr None
             else bind_nat (plain (CacheObjectVersion_init
                 \<lparr>cov_identity = identity, cov_object_version = ffl_object_version v, cov_schema_id = 0,
                  cov_schema_version = 0\<rparr>)) (\<lambda>ov. Inr (Some ov))) (\<lambda>object_version.
             plain (CacheLeaseResult_init
               \<lparr>clr_identity = identity, clr_outcome = outcome, clr_lease = lease,
                clr_object_version = object_version, clr_diagnostic = None\<rparr>))))"

section \<open>The backend\<close>

record NativeCacheLeaseBackend =
  ncb_owner :: NativeHandle
  ncb_now_ms :: int
  ncb_ttl_ms :: int
  ncb_expected_version :: int
  ncb_lease_handles :: "lease_key \<rightharpoonup> NativeHandle"

definition NativeCacheLeaseBackend_init :: "NativeHandle \<Rightarrow> int \<Rightarrow> int \<Rightarrow> int \<Rightarrow> NativeCacheLeaseBackend nres" where
  "NativeCacheLeaseBackend_init owner now_ms ttl_ms expected_version =
     bind_nat (native_validate_u64 ''now_ms'' now_ms) (\<lambda>_.
     bind_nat (native_validate_u32 ''ttl_ms'' ttl_ms) (\<lambda>_.
     bind_nat (native_validate_u64 ''expected_version'' expected_version) (\<lambda>_.
       Inr \<lparr>ncb_owner = owner, ncb_now_ms = now_ms, ncb_ttl_ms = ttl_ms,
            ncb_expected_version = expected_version, ncb_lease_handles = Map.empty\<rparr>)))"

definition cache_result_from_ffi ::
    "ffi_lease \<Rightarrow> NativeCacheLeaseBackend \<Rightarrow> CacheLeaseResult nres \<times> NativeCacheLeaseBackend" where
  "cache_result_from_ffi v b =
     (case cache_lease_result_from_ffi v of
        Inl err \<Rightarrow> (Inl err, b)
      | Inr converted \<Rightarrow>
          if nh_kind (ffl_lease_handle v) \<noteq> KIND_CACHE_LEASE then (Inr converted, b)
          else (case typed_from_ffi KIND_CACHE_LEASE (ffl_lease_handle v) of
             Inl err \<Rightarrow> (Inl err, b)
           | Inr h \<Rightarrow>
               (Inr converted, b\<lparr>ncb_lease_handles :=
                  (ncb_lease_handles b)(cache_identity_key (clr_identity converted) \<mapsto> h)\<rparr>)))"

text \<open>A protocol error whose outcome is a miss or an expiry is a result.\<close>

definition finish_cache_status ::
    "NativeStatus \<Rightarrow> ffi_lease \<Rightarrow> NativeCacheLeaseBackend \<Rightarrow> CacheLeaseResult nres \<times> NativeCacheLeaseBackend" where
  "finish_cache_status status v b =
     (case raise_for_native_status status of
        Inr _ \<Rightarrow> cache_result_from_ffi v b
      | Inl err \<Rightarrow>
          if is_protocol_error status \<and> ffl_outcome_code v \<in> {1, 2} then cache_result_from_ffi v b
          else (Inl err, b))"

definition cache_request_for :: "CacheObjectIdentity \<Rightarrow> int \<Rightarrow> NativeCacheLeaseBackend \<Rightarrow> cache_lease_request" where
  "cache_request_for identity ttl_ms b =
     \<lparr>cra_owner = ncb_owner b, cra_object_id = cache_identity_to_ffi identity,
      cra_expected_version = ncb_expected_version b, cra_now_ms = ncb_now_ms b, cra_ttl_ms = ttl_ms\<rparr>"

definition backend_query ::
    "CacheObjectIdentity \<Rightarrow> NativeStatus \<Rightarrow> ffi_lease \<Rightarrow> NativeCacheLeaseBackend
      \<Rightarrow> CacheLeaseResult nres \<times> cache_request list \<times> NativeCacheLeaseBackend" where
  "backend_query identity status v b =
     (case finish_cache_status status v b of
        (r, b') \<Rightarrow> (r, [QueryLease (cache_request_for identity 0 b)], b'))"

definition backend_touch ::
    "CacheObjectIdentity \<Rightarrow> int option \<Rightarrow> NativeStatus \<Rightarrow> ffi_lease \<Rightarrow> NativeCacheLeaseBackend
      \<Rightarrow> CacheLeaseResult nres \<times> cache_request list \<times> NativeCacheLeaseBackend" where
  "backend_touch identity ttl_ms status v b =
     (let selected_ttl_ms = (case ttl_ms of None \<Rightarrow> ncb_ttl_ms b | Some t \<Rightarrow> t)
      in case native_validate_u32 ''ttl_ms'' selected_ttl_ms of
           Inl err \<Rightarrow> (Inl err, [], b)
         | Inr _ \<Rightarrow>
             (case finish_cache_status status v b of
                (r, b') \<Rightarrow> (r, [TouchLease (cache_request_for identity selected_ttl_ms b)], b')))"

text \<open>The results in turn; the handles read before one that raises are kept.\<close>

fun convert_leases ::
    "ffi_lease list \<Rightarrow> NativeCacheLeaseBackend \<Rightarrow> CacheLeaseResult list nres \<times> NativeCacheLeaseBackend" where
  "convert_leases [] b = (Inr [], b)"
| "convert_leases (v # vs) b =
     (case cache_result_from_ffi v b of
        (Inl err, b) \<Rightarrow> (Inl err, b)
      | (Inr converted, b) \<Rightarrow>
          (case convert_leases vs b of (r, b) \<Rightarrow> (bind_nat r (\<lambda>rest. Inr (converted # rest)), b)))"

definition backend_prefetch ::
    "CacheObjectIdentity list \<Rightarrow> NativeStatus \<Rightarrow> (nat \<Rightarrow> ffi_lease) \<Rightarrow> NativeCacheLeaseBackend
      \<Rightarrow> CacheLeaseResult list nres \<times> cache_request list \<times> NativeCacheLeaseBackend" where
  "backend_prefetch identities status out b =
     (if identities = [] then (Inr [], [], b)
      else let call = PrefetchLeases (ncb_owner b) (map cache_identity_to_ffi identities) (ncb_now_ms b) (ncb_ttl_ms b)
        in case raise_for_native_status status of
             Inl err \<Rightarrow> (Inl err, [call], b)
           | Inr _ \<Rightarrow>
               (case convert_leases (map out [0..<length identities]) b of (r, b) \<Rightarrow> (r, [call], b)))"

definition backend_release ::
    "CacheObjectIdentity \<Rightarrow> NativeStatus \<Rightarrow> ffi_lease \<Rightarrow> NativeCacheLeaseBackend
      \<Rightarrow> CacheLeaseResult nres \<times> cache_request list \<times> NativeCacheLeaseBackend" where
  "backend_release identity status v b =
     (case ncb_lease_handles b (cache_identity_key identity) of
        None \<Rightarrow>
          (plain (CacheLeaseResult_init \<lparr>clr_identity = identity, clr_outcome = CLO_MISSING, clr_lease = None,
             clr_object_version = None, clr_diagnostic = None\<rparr>), [], b)
      | Some lease \<Rightarrow>
          (case finish_cache_status status v b of
             (Inl err, b) \<Rightarrow> (Inl err, [ReleaseLease lease], b)
           | (Inr converted, b) \<Rightarrow>
               (Inr converted, [ReleaseLease lease],
                b\<lparr>ncb_lease_handles := (ncb_lease_handles b)(cache_identity_key identity := None)\<rparr>)))"

section \<open>The handles of leases\<close>

text \<open>Every kept handle is one the library gave with a lease of that identity.\<close>

datatype backend_call =
    BackendQuery CacheObjectIdentity NativeStatus ffi_lease
  | BackendTouch CacheObjectIdentity "int option" NativeStatus ffi_lease
  | BackendPrefetch "CacheObjectIdentity list" NativeStatus "nat \<Rightarrow> ffi_lease"
  | BackendRelease CacheObjectIdentity NativeStatus ffi_lease

fun backend_step ::
    "backend_call \<Rightarrow> NativeCacheLeaseBackend \<Rightarrow> cache_request list \<times> NativeCacheLeaseBackend" where
  "backend_step (BackendQuery i status v) b = snd (backend_query i status v b)"
| "backend_step (BackendTouch i ttl_ms status v) b = snd (backend_touch i ttl_ms status v b)"
| "backend_step (BackendPrefetch is status out) b = snd (backend_prefetch is status out b)"
| "backend_step (BackendRelease i status v) b = snd (backend_release i status v b)"

text \<open>The leases the library gave with a call.\<close>

definition lease_of :: "ffi_lease \<Rightarrow> (lease_key \<times> NativeHandle) list" where
  "lease_of v = (if nh_kind (ffl_lease_handle v) = KIND_CACHE_LEASE
     then [(cache_identity_key (ffl_object_id v), ffl_lease_handle v)] else [])"

fun leases_given :: "backend_call \<Rightarrow> (lease_key \<times> NativeHandle) list" where
  "leases_given (BackendQuery i status v) = lease_of v"
| "leases_given (BackendTouch i ttl_ms status v) = lease_of v"
| "leases_given (BackendPrefetch is status out) = concat (map (lease_of \<circ> out) [0..<length is])"
| "leases_given (BackendRelease i status v) = lease_of v"

definition kept_from :: "(lease_key \<times> NativeHandle) set \<Rightarrow> NativeCacheLeaseBackend \<Rightarrow> bool" where
  "kept_from given b \<longleftrightarrow> (\<forall>k h. ncb_lease_handles b k = Some h \<longrightarrow> (k, h) \<in> given)"

lemma result_identity:
  "cache_lease_result_from_ffi v = Inr r \<Longrightarrow> clr_identity r = ffl_object_id v"
  by (auto simp: cache_lease_result_from_ffi_def cache_identity_from_ffi_def CacheObjectIdentity_init_def
      CacheLeaseResult_init_def res_simps split: option.splits if_splits)

lemma kept_from_mono: "kept_from G b \<Longrightarrow> G \<subseteq> H \<Longrightarrow> kept_from H b"
  by (auto simp: kept_from_def)

lemma kept_from_remove:
  "kept_from G b \<Longrightarrow> kept_from G (b\<lparr>ncb_lease_handles := (ncb_lease_handles b)(k := None)\<rparr>)"
  by (simp add: kept_from_def)

lemma result_kept:
  assumes "kept_from G b"
  shows "kept_from (G \<union> set (lease_of v)) (snd (cache_result_from_ffi v b))"
proof (cases "cache_lease_result_from_ffi v")
  case (Inl err)
  then show ?thesis using assms by (auto simp: cache_result_from_ffi_def intro: kept_from_mono)
next
  case (Inr r)
  show ?thesis
  proof (cases "typed_from_ffi KIND_CACHE_LEASE (ffl_lease_handle v)")
    case (Inl err)
    then show ?thesis using assms Inr by (auto simp: cache_result_from_ffi_def intro: kept_from_mono)
  next
    case typed: (Inr h)
    then have "h = ffl_lease_handle v" by (simp add: typed_from_ffi_Inr)
    then show ?thesis
      using assms result_identity [OF Inr] Inr typed
      by (auto simp: cache_result_from_ffi_def kept_from_def lease_of_def)
  qed
qed

lemma finish_kept:
  assumes "kept_from G b"
  shows "kept_from (G \<union> set (lease_of v)) (snd (finish_cache_status status v b))"
  using result_kept [OF assms, of v] kept_from_mono [OF assms]
  by (auto simp: finish_cache_status_def split: sum.split)

lemma convert_kept:
  "kept_from G b \<Longrightarrow> kept_from (G \<union> set (concat (map lease_of vs))) (snd (convert_leases vs b))"
proof (induction vs arbitrary: G b)
  case (Cons v vs)
  obtain r b1 where e: "cache_result_from_ffi v b = (r, b1)" by (cases "cache_result_from_ffi v b")
  have 1: "kept_from (G \<union> set (lease_of v)) b1" using result_kept [OF Cons.prems, of v] e by simp
  have "kept_from (G \<union> set (lease_of v) \<union> set (concat (map lease_of vs))) (snd (convert_leases vs b1))"
    by (rule Cons.IH [OF 1])
  then show ?case
    using e kept_from_mono [OF 1] by (auto simp: Un_assoc split: sum.split prod.split)
qed simp

lemma step_kept:
  assumes "kept_from G b"
  shows "kept_from (G \<union> set (leases_given c)) (snd (backend_step c b))"
proof (cases c)
  case (BackendQuery i status v)
  then show ?thesis
    using finish_kept [OF assms, of v status] by (simp add: backend_query_def split_beta)
next
  case (BackendTouch i ttl_ms status v)
  then show ?thesis
    using finish_kept [OF assms, of v status] kept_from_mono [OF assms]
    by (auto simp: backend_touch_def Let_def split: prod.split sum.split)
next
  case (BackendPrefetch "is" status out)
  then show ?thesis
    using convert_kept [OF assms, of "map out [0..<length is]"] kept_from_mono [OF assms]
    by (auto simp: backend_prefetch_def Let_def split: prod.split sum.split)
next
  case (BackendRelease i status v)
  have "kept_from (G \<union> set (lease_of v)) (snd (finish_cache_status status v b))"
    by (rule finish_kept [OF assms])
  then show ?thesis
    using BackendRelease kept_from_mono [OF assms]
    by (auto simp: backend_release_def split: option.split prod.split sum.split intro: kept_from_remove)
qed

text \<open>What a release asks of the library, and what it forgets.\<close>

lemma release_asks:
  "fst (snd (backend_release identity status v b)) =
    (case ncb_lease_handles b (cache_identity_key identity) of None \<Rightarrow> [] | Some h \<Rightarrow> [ReleaseLease h])"
  by (simp add: backend_release_def split: option.split prod.split sum.split)

lemma release_forgets:
  assumes "backend_release identity status v b = (Inr r, calls, b')"
  shows "ncb_lease_handles b' (cache_identity_key identity) = None"
  using assms by (auto simp: backend_release_def split: option.splits prod.splits sum.splits)

lemma release_failure_keeps:
  assumes "\<not> status_succeeded status" "\<not> (is_protocol_error status \<and> ffl_outcome_code v \<in> {1, 2})"
  shows "snd (snd (backend_release identity status v b)) = b"
  using assms
  by (auto simp: backend_release_def finish_cache_status_def raise_for_native_status_def split: option.split)

fun run_backend :: "backend_call list \<Rightarrow> NativeCacheLeaseBackend \<Rightarrow> cache_request list \<times> NativeCacheLeaseBackend" where
  "run_backend [] b = ([], b)"
| "run_backend (c # cs) b =
     (case backend_step c b of (calls, b) \<Rightarrow> (case run_backend cs b of (calls', b) \<Rightarrow> (calls @ calls', b)))"

lemma run_kept: "kept_from G b \<Longrightarrow> kept_from (G \<union> set (concat (map leases_given cs))) (snd (run_backend cs b))"
proof (induction cs arbitrary: G b)
  case (Cons c cs)
  obtain calls b1 where e: "backend_step c b = (calls, b1)" by (cases "backend_step c b")
  have "kept_from (G \<union> set (leases_given c)) b1" using step_kept [OF Cons.prems, of c] e by simp
  from Cons.IH [OF this] show ?case using e by (simp add: Un_assoc split_beta)
qed simp

text \<open>After any calls, a release of an identity gives back a handle the library gave for that identity.\<close>

lemma released_was_given:
  assumes "NativeCacheLeaseBackend_init owner now_ms ttl_ms expected_version = Inr b"
    "run_backend cs b = (calls, b')" "backend_release identity status v b' = (r, [ReleaseLease h], b'')"
  shows "(cache_identity_key identity, h) \<in> set (concat (map leases_given cs))"
proof -
  have "kept_from {} b" using assms(1) by (auto simp: NativeCacheLeaseBackend_init_def kept_from_def res_simps)
  from run_kept [OF this, of cs] have "kept_from (set (concat (map leases_given cs))) b'"
    using assms(2) by simp
  moreover have "ncb_lease_handles b' (cache_identity_key identity) = Some h"
    using release_asks [of identity status v b'] assms(3) by (simp split: option.splits)
  ultimately show ?thesis unfolding kept_from_def by blast
qed

end
