(* ===== verification/Spec2Isabelle.thy ===== *)
theory Spec2Isabelle
  imports Samples Session_Samples Result_Waiters Schema_Catalog Tcp_Connection Quic_Connection Server_Session Session_Exchange Result_Router Runtime_Control Lifecycle Cache_Values Selection_Correctness Server_Replies Submit_Races Route_Correctness Native_Accept Client_Connection Native_Samples Object_Samples Cache_Backend
begin

text \<open>
  The NNRP Python SDK (\<open>src/src/nnrp\<close>): wire format, packet layer, packet builders, sessions,
  stream connections and transport selection.

  The program.  NNRP is a real-time AI application protocol; the SDK reads and writes its packets
  and runs its reference client and server.  A packet is a 40-byte header (\<open>core/header.py\<close>),
  fixed-width metadata for its message type (\<open>core/messages/data.py\<close>, \<open>core/messages/control.py\<close>,
  \<open>schema.py\<close>, \<open>runtime/types.py\<close>) and a body.  The body of a FRAME_SUBMIT or a RESULT_PUSH has a
  prelude and six regions (\<open>core/packet.py\<close>): inline objects (camera, tile index, tensor section
  table), object references, typed payload descriptors and frames, extension descriptors and
  payloads.  Builders make packets, validators check bodies against metadata on receipt.  Above
  them are the client and server sessions (\<open>client/transport.py\<close>, \<open>server/transport.py\<close>), the
  TCP and QUIC connections (\<open>adapters\<close>), the buffer that puts results in frame order
  (\<open>tools/ordered_buffer.py\<close>), runtime control frames (\<open>runtime/__init__.py\<close>) and the choice of a
  transport provider (\<open>native.py\<close>).  The second half of the package runs the protocol in a packaged
  library: \<open>native.py\<close> holds the objects over its handles (sessions, operations, servers, events,
  replies), \<open>client/native.py\<close> and \<open>server/native.py\<close> the connections and servers an application
  uses, \<open>_native_routes.py\<close> the routes they may take.

  Modelling.  A function that may raise is a function into \<open>exn + 'a\<close>; a raise is \<open>Inl\<close>, with the
  kind of exception and its message without the interpolated values.  Bytes are lists of \<open>8 word\<close>,
  Python integers are \<open>int\<close>, \<open>IntEnum\<close> classes are datatypes with their value maps, \<open>IntFlag\<close>
  values are integers (\<open>int_flag\<close> is the constructor call with the KEEP boundary), dataclasses are
  records, \<open>__post_init__\<close> is a function on them.  Slices clamp as Python's do (\<open>py_slice\<close>).
  Keyword arguments of a builder are a record.  The \<open>struct\<close> module is modelled in \<open>Wire_Struct\<close>
  for the little-endian formats the code uses.  Argument types are taken as annotated: a
  \<open>TypeError\<close> for a wrongly typed argument is not modelled.  A method that changes its object
  returns the new record.  Code that waits (asyncio) is a state with steps: one pass of a
  coroutine between two points where it may be suspended is one step.  What a connection sends or
  a backend answers is a parameter, a function of the call.

  The native library is not part of the repository.  A method that reads from it takes the list
  of the library's replies and returns those it has not used, \<open>None\<close> when it waits for one that is
  not there; a method that makes one call takes that call as a function and returns the requests it
  made.  Nothing is assumed of the replies, except where a property says so.  A method that runs
  under a lock is one step; where the code leaves the lock between two of its actions the model has
  two steps.

  Theories, in the order of the code:
  \<^item> \<open>Nnrp_Prelude\<close>: results, slices, flag calls; \<open>Wire_Struct\<close>: struct packing, and the interfaces
    \<open>wire_codec\<close>, \<open>exact_codec\<close>, \<open>fixed_codec\<close>, \<open>canonical_codec\<close>.  Every codec below is an
    interpretation of one of them, so its laws (unpack after pack, pack after unpack, injectivity,
    sizes, tables of entries) are proved once.
  \<^item> \<open>Enums\<close> (interpretations of \<open>int_enum\<close>), \<open>Header\<close>, \<open>Data_Messages\<close>, \<open>Schema_Descriptors\<close>,
    \<open>Control_Messages\<close>, \<open>Runtime_Metadata\<close>: the fixed-width structures, one record, \<open>_post_init\<close>,
    \<open>_validate\<close> or \<open>_check\<close>, \<open>_pack\<close>, \<open>_from_tuple\<close>, \<open>_unpack\<close> per class.
    \<open>Control_Extensions\<close>: the extension blocks of the hello messages.  \<open>Schema_Catalog\<close>: the schema
    registry, with its catalog as a map from keys to descriptors.
  \<^item> \<open>Alignment\<close>, \<open>Tile_Index\<close>, \<open>Object_Blocks\<close>, \<open>Payload_Frames\<close>, \<open>Tensor_Sections\<close>, \<open>Packet\<close>,
    \<open>Body\<close>: the parts of a packet.  \<open>Payload_Frames\<close> proves the descriptor-and-payload round trip
    once in the locale \<open>described_frames\<close>, interpreted for typed and for extension frames.
  \<^item> \<open>Body_Contract\<close>: the receiver's checks and the specifications they decide.
  \<^item> \<open>Packet_Builders\<close> and \<open>Builder_Correctness\<close>: the builders, and what the receiver reads of the
    packets they return.
  \<^item> \<open>Packet_Stream\<close>, \<open>Tcp_Connection\<close>, \<open>Quic_Connection\<close>: the packet reader over a stream that
    comes in chunks, and the two connections as records with their queues, stream ids and terminal
    error.
  \<^item> \<open>Client_Dial\<close>, \<open>Server_Accept\<close>: dial policy, hello, acceptance and acknowledgement.
    \<open>Client_Session\<close>, \<open>Server_Session\<close>: submits, results, drops, flow updates, migration.
    \<open>Session_Exchange\<close>: what one side makes of the other's packets.  \<open>Result_Router\<close>: results
    handed to the receiver of their frame.
  \<^item> \<open>Ordered_Buffer\<close>: the result buffer as an implementation (locale \<open>ordered_store\<close>) of a finite map
    that hands out its least key.  \<open>Result_Waiters\<close>: the coroutines that wait on it.
  \<^item> \<open>Runtime_Frames\<close>, \<open>Runtime_Control\<close>: runtime metadata over the two registries, WebSocket
    frames and batches, the control packets a server session sends, event values.
  \<^item> \<open>Lifecycle\<close>, \<open>Cache_Values\<close>: value classes with their checks and what follows from them.
  \<^item> \<open>Transport_Evidence\<close>, \<open>Transport_Selection\<close>, \<open>Selection_Correctness\<close>: providers, probe samples,
    the selection with its candidate records, and its specification over providers only.
  \<^item> \<open>Native_Values\<close>, \<open>Native_Events\<close>, \<open>Native_Results\<close>: status, handles and buffers; how an event of the
    library becomes a runtime frame or a lifecycle event, whose operation it is and whether it
    ends it.
  \<^item> \<open>Event_Delivery\<close>: what conserving events means, and the locale \<open>lossless\<close>, which lifts it from
    the calls of an object to all sequences of calls.  \<open>Native_Session\<close> is the client session,
    \<open>Session_Polling\<close> interprets \<open>lossless\<close> on it; \<open>Native_Server\<close> is the server session,
    \<open>Server_Polling\<close> interprets \<open>lossless\<close> on that.
  \<^item> \<open>Native_Operations\<close>, \<open>Operation_Correctness\<close>: submits, control requests and frames of the client
    session; the locale \<open>frame_sender\<close> (one call for each frame, fresh automatic frame ids) with an
    interpretation for each side.  \<open>Submit_Races\<close>: the submit in a thread, and its cancellation.
    \<open>Server_Replies\<close>: the replies to an operation as steps of coroutines and worker threads.
  \<^item> \<open>Client_Connection\<close>: recovery tickets, session options, suppressed results, operation scopes,
    closing.  \<open>Native_Accept\<close>: accept tickets and the accept loop over several servers.
    \<open>Submit_Waits\<close>: the wait for a result in a thread, and its cancellation.
  \<^item> \<open>Owned_Handles\<close>: the requests to the library and the locale \<open>owned\<close> (a handle is given back once and
    not used after), interpreted for the transport connection and listener here, for schema
    registries, lent buffers and object descriptors in \<open>Native_Objects\<close>, for the client's connection
    in \<open>Session_Opening\<close>, which also has the opening and resuming of sessions and the recovery
    outcomes.  \<open>Transport_Opening\<close>: bindings, connecting a client, starting a server.
    \<open>Policy_Dispatcher\<close>: requests for a policy decision as steps of threads.  \<open>Cache_Backend\<close>: cache
    leases.
  \<^item> \<open>Migration_Trigger\<close>: the monitor of \<open>client/transport.py\<close> that says when to migrate.
  \<^item> \<open>Host_Routes\<close>, \<open>Route_Correctness\<close>: routes of clients and servers, and what the choice promises.
  \<^item> \<open>Samples\<close>, \<open>Session_Samples\<close>, \<open>Native_Samples\<close>, \<open>Object_Samples\<close>: small inputs that the witnesses evaluate.

  What the properties show.  C1 to C3: every packet a builder returns is read back as what was
  given (tile ids, tensor sections, typed frames); C4 and C5 the exact condition under which the
  receiver accepts it.  C6 to C10: what client and server sessions make of each other's packets,
  from the hello to results and migration.  C11 to C16: sequences of calls and arrivals (result
  buffer and its waiters, router, stream reader, extension parser).  C17 to C25: sessions of the
  native runtime; no event is lost or reordered by any sequence of calls, waits end, frame ids are
  fresh, a reply is terminal once, cancellation, accept tickets, and an order of events in which
  something is lost.  C26 to C32: the objects of the native runtime; handles are given back once,
  also when connecting or starting fails, policy requests are answered, no view outlives its buffer,
  a session is resumed with the ticket it gave, a cancelled wait.  C33 to C37: the choice of
  transports and routes, and when to migrate.  C38 and C39: framing and metadata are exact in both
  directions.  C40: input a builder lets through although the receiver cannot use it.  Theorems
  without a number are further facts of the same kind.

  Recursion.  All loops are structural except those with a measure: bytes left for the splitting of
  an inline region, \<open>extension_loop\<close>, \<open>unpack_packets\<close> and \<open>decode_batch_loop\<close>, items left for
  \<open>decode_packet_batch_loop\<close> and replies left for \<open>poll_all_loop\<close>.  The loops that wait are structural
  in the list of the library's replies or in the list of clock readings they take.
  \<open>extension_loop_fuel\<close>
  is used only to state a bound on the passes of its loop; its fuel is one more than an eighth of
  the input, since every pass reads at least a header of eight bytes.  \<open>list.sort\<close> with a
  comparison function is insertion from the left (\<open>cmp_sort\<close>): for a transitive comparison the result
  of a stable sort is determined; for up to three entries CPython decides by the same comparisons
  also if it is not transitive.

  Not modelled: the protocol state machines, which live in the native library; the \<open>ctypes\<close>
  structures, the loading of the library and the discovery of its artifacts in \<open>native.py\<close>; the
  parsing of URIs, whose result is an argument of the routes.  Sockets, TLS and the QUIC
  implementation (aioquic) are outside the connections that are modelled.  Replay files,
  conformance, smoke and benchmark drivers and the repository scripts are input and output around
  the modelled parts.
\<close>

section \<open>Delivery: what is built is what is read\<close>

text \<open>
  C1.  Delivery of an inline tensor FRAME_SUBMIT (\<open>build_frame_submit_packet\<close>).  Whatever packet the
  builder returns for a bitmap with the tensor bit, the receiver unpacks its metadata, accepts its
  body, and reads back the tile ids and, section by section, the tile payloads, codecs and
  descriptor fields that were given to the builder.
\<close>

theorem frame_submit_delivery:
  assumes "build_frame_submit_packet a = Inr p"
    and "truthy (fsa_payload_kind_bitmap a AND PK_TENSOR)" "fsa_submit_mode a = SM_INLINE"
  shows "\<exists>m v tb. FrameSubmitMetadata_unpack (pkt_metadata p) = Inr m \<and>
    validate_frame_submit_body m (pkt_body p) = Inr v \<and>
    unpack_current_tensor_body v (fsm_section_count m) (fsm_tile_count m) = Inr tb \<and>
    list_all2 describes (tbv_sections tb) (fsa_sections a) \<and>
    unpack_tile_index_block (tbv_tile_index_block tb) (fsm_tile_index_mode m) (fsm_tile_count m)
      (fsm_tile_base_id m) = Inr (fsa_tile_ids a)"
  using assms by (rule build_frame_submit_packet_view)

theorem frame_submit_delivery_witness:
  "\<exists>p m v tb. build_frame_submit_packet sample_submit = Inr p \<and>
    FrameSubmitMetadata_unpack (pkt_metadata p) = Inr m \<and>
    validate_frame_submit_body m (pkt_body p) = Inr v \<and>
    unpack_current_tensor_body v (fsm_section_count m) (fsm_tile_count m) = Inr tb \<and>
    unpack_tile_index_block (tbv_tile_index_block tb) (fsm_tile_index_mode m) (fsm_tile_count m)
      (fsm_tile_base_id m) = Inr [3, 9]"
proof -
  obtain p where p: "build_frame_submit_packet sample_submit = Inr p"
    using acceptedD [OF sample_submit_builds] by blast
  have "truthy (fsa_payload_kind_bitmap sample_submit AND PK_TENSOR)"
    "fsa_submit_mode sample_submit = SM_INLINE" "fsa_tile_ids sample_submit = [3, 9]"
    by (simp_all add: sample_submit_def)
  then show ?thesis
    using frame_submit_delivery [OF p] p by auto
qed

text \<open>
  C2.  Delivery of a tensor RESULT_PUSH (\<open>build_result_push_packet\<close>): the packet the builder returns is
  accepted by the receiver and decodes to the tile ids and the tensor sections it was given.
\<close>

theorem result_push_delivery:
  assumes "build_result_push_packet a = Inr p"
    and "truthy (rpa_payload_kind_bitmap a AND PK_TENSOR)"
  shows "\<exists>m v tb. ResultPushMetadata_unpack (pkt_metadata p) = Inr m \<and>
    validate_result_push_body m (pkt_body p) = Inr v \<and>
    unpack_current_tensor_body v (rpm_section_count m) (rpm_tile_count m) = Inr tb \<and>
    list_all2 describes (tbv_sections tb) (rpa_sections a) \<and>
    unpack_tile_index_block (tbv_tile_index_block tb) (rpa_tile_index_mode a) (rpm_tile_count m)
      (rpm_tile_base_id m) = Inr (rpa_tile_ids a)"
  using assms by (rule build_result_push_packet_view)

theorem result_push_delivery_witness:
  "\<exists>p m v tb. build_result_push_packet sample_result = Inr p \<and>
    ResultPushMetadata_unpack (pkt_metadata p) = Inr m \<and>
    validate_result_push_body m (pkt_body p) = Inr v \<and>
    unpack_current_tensor_body v (rpm_section_count m) (rpm_tile_count m) = Inr tb \<and>
    unpack_tile_index_block (tbv_tile_index_block tb) TIM_RAW_U16 (rpm_tile_count m)
      (rpm_tile_base_id m) = Inr [3, 9]"
proof -
  obtain p where p: "build_result_push_packet sample_result = Inr p"
    using acceptedD [OF sample_result_builds] by blast
  have "truthy (rpa_payload_kind_bitmap sample_result AND PK_TENSOR)"
    "rpa_tile_index_mode sample_result = TIM_RAW_U16" "rpa_tile_ids sample_result = [3, 9]"
    by (simp_all add: sample_result_def)
  then show ?thesis
    using result_push_delivery [OF p] p by auto
qed

text \<open>
  C3.  Delivery of a FRAME_SUBMIT with tensors and typed frames (\<open>build_frame_submit_mixed_packet\<close>): the
  body unpacks, the frames are read back normalized, the tensor view has the ids and sections
  given, and the receiver's checks pass exactly when no frame has the tensor profile id.  The
  builder does not check the profile id, so this last condition is the caller's.
\<close>

theorem frame_submit_mixed_delivery:
  assumes "build_frame_submit_mixed_packet a frames = Inr p"
  shows "\<exists>m v ns tb. FrameSubmitMetadata_unpack (pkt_metadata p) = Inr m \<and>
    unpack_body (pkt_body p) = Inr v \<and> map_res build_typed_payload_frame frames = Inr ns \<and>
    unpack_typed_payload_frames (reg_typed_payload_descriptor (bv_regions v))
      (reg_typed_payload_frame (bv_regions v)) (fsm_payload_kind_bitmap m) = Inr ns \<and>
    unpack_current_tensor_body v (fsm_section_count m) (fsm_tile_count m) = Inr tb \<and>
    list_all2 describes (tbv_sections tb) (fsa_sections a) \<and>
    unpack_tile_index_block (tbv_tile_index_block tb) (fsm_tile_index_mode m) (fsm_tile_count m)
      (fsm_tile_base_id m) = Inr (fsa_tile_ids a) \<and>
    (validate_frame_submit_body m (pkt_body p) = Inr v \<longleftrightarrow> (\<forall>f \<in> set frames. tfr_profile_id f \<noteq> 1))"
  using assms by (rule build_frame_submit_mixed_view)

theorem frame_submit_mixed_delivery_witness:
  "\<exists>p m v. build_frame_submit_mixed_packet sample_submit sample_frames = Inr p \<and>
    FrameSubmitMetadata_unpack (pkt_metadata p) = Inr m \<and>
    validate_frame_submit_body m (pkt_body p) = Inr v"
proof -
  obtain p where p: "build_frame_submit_mixed_packet sample_submit sample_frames = Inr p"
    using acceptedD [OF sample_submit_mixed_builds] by blast
  have "\<forall>f \<in> set sample_frames. tfr_profile_id f \<noteq> 1"
    by (simp add: sample_frames_def sample_frame_def)
  then show ?thesis
    using frame_submit_mixed_delivery [OF p] p by blast
qed

text \<open>
  Delivery of a RESULT_PUSH with tensors and typed frames (\<open>build_result_push_mixed_packet\<close>), in the
  same way.
\<close>

theorem result_push_mixed_delivery:
  assumes "build_result_push_mixed_packet a frames = Inr p"
  shows "\<exists>m v ns tb. ResultPushMetadata_unpack (pkt_metadata p) = Inr m \<and>
    unpack_body (pkt_body p) = Inr v \<and> map_res build_typed_payload_frame frames = Inr ns \<and>
    unpack_typed_payload_frames (reg_typed_payload_descriptor (bv_regions v))
      (reg_typed_payload_frame (bv_regions v)) (rpm_payload_kind_bitmap m) = Inr ns \<and>
    unpack_current_tensor_body v (rpm_section_count m) (rpm_tile_count m) = Inr tb \<and>
    list_all2 describes (tbv_sections tb) (rpa_sections a) \<and>
    unpack_tile_index_block (tbv_tile_index_block tb) (rpa_tile_index_mode a) (rpm_tile_count m)
      (rpm_tile_base_id m) = Inr (rpa_tile_ids a) \<and>
    (validate_result_push_body m (pkt_body p) = Inr v \<longleftrightarrow> (\<forall>f \<in> set frames. tfr_profile_id f \<noteq> 1))"
  using assms by (rule build_result_push_mixed_view)

theorem result_push_mixed_delivery_witness:
  "\<exists>p m v. build_result_push_mixed_packet sample_result sample_frames = Inr p \<and>
    ResultPushMetadata_unpack (pkt_metadata p) = Inr m \<and>
    validate_result_push_body m (pkt_body p) = Inr v"
proof -
  obtain p where p: "build_result_push_mixed_packet sample_result sample_frames = Inr p"
    using acceptedD [OF sample_result_mixed_builds] by blast
  have "\<forall>f \<in> set sample_frames. tfr_profile_id f \<noteq> 1"
    by (simp add: sample_frames_def sample_frame_def)
  then show ?thesis
    using result_push_mixed_delivery [OF p] p by blast
qed

text \<open>
  Delivery of a FRAME_SUBMIT with typed frames only (\<open>build_frame_submit_typed_payload_packet\<close>).
\<close>

theorem frame_submit_typed_delivery:
  assumes "build_frame_submit_typed_payload_packet a frames = Inr p"
  shows "\<exists>m v ns. FrameSubmitMetadata_unpack (pkt_metadata p) = Inr m \<and>
    unpack_body (pkt_body p) = Inr v \<and> map_res build_typed_payload_frame frames = Inr ns \<and>
    unpack_typed_payload_frames (reg_typed_payload_descriptor (bv_regions v))
      (reg_typed_payload_frame (bv_regions v)) (fsm_payload_kind_bitmap m) = Inr ns \<and>
    (validate_frame_submit_body m (pkt_body p) = Inr v \<longleftrightarrow> (\<forall>f \<in> set frames. tfr_profile_id f \<noteq> 1))"
  using assms by (rule build_frame_submit_typed_payload_view)

theorem frame_submit_typed_delivery_witness:
  "\<exists>p m v. build_frame_submit_typed_payload_packet sample_submit sample_frames = Inr p \<and>
    FrameSubmitMetadata_unpack (pkt_metadata p) = Inr m \<and>
    validate_frame_submit_body m (pkt_body p) = Inr v"
proof -
  obtain p where p: "build_frame_submit_typed_payload_packet sample_submit sample_frames = Inr p"
    using acceptedD [OF sample_submit_typed_builds] by blast
  have "\<forall>f \<in> set sample_frames. tfr_profile_id f \<noteq> 1"
    by (simp add: sample_frames_def sample_frame_def)
  then show ?thesis
    using frame_submit_typed_delivery [OF p] p by blast
qed

text \<open>
  Delivery of a RESULT_PUSH with typed frames only (\<open>build_result_push_typed_payload_packet\<close>).
\<close>

theorem result_push_typed_delivery:
  assumes "build_result_push_typed_payload_packet a frames = Inr p"
  shows "\<exists>m v ns. ResultPushMetadata_unpack (pkt_metadata p) = Inr m \<and>
    unpack_body (pkt_body p) = Inr v \<and> map_res build_typed_payload_frame frames = Inr ns \<and>
    unpack_typed_payload_frames (reg_typed_payload_descriptor (bv_regions v))
      (reg_typed_payload_frame (bv_regions v)) (rpm_payload_kind_bitmap m) = Inr ns \<and>
    (validate_result_push_body m (pkt_body p) = Inr v \<longleftrightarrow> (\<forall>f \<in> set frames. tfr_profile_id f \<noteq> 1))"
  using assms by (rule build_result_push_typed_payload_view)

theorem result_push_typed_delivery_witness:
  "\<exists>p m v. build_result_push_typed_payload_packet sample_result sample_frames = Inr p \<and>
    ResultPushMetadata_unpack (pkt_metadata p) = Inr m \<and>
    validate_result_push_body m (pkt_body p) = Inr v"
proof -
  obtain p where p: "build_result_push_typed_payload_packet sample_result sample_frames = Inr p"
    using acceptedD [OF sample_result_typed_builds] by blast
  have "\<forall>f \<in> set sample_frames. tfr_profile_id f \<noteq> 1"
    by (simp add: sample_frames_def sample_frame_def)
  then show ?thesis
    using result_push_typed_delivery [OF p] p by blast
qed

section \<open>What a receiver accepts\<close>

text \<open>
  C4.  Acceptance of a FRAME_SUBMIT body (\<open>validate_frame_submit_body\<close>).  The chain of checks accepts a
  body exactly when the body unpacks, the typed payload table has the announced number of
  non-tensor entries whose kinds are the announced ones (\<open>typed_payload_spec\<close>), and the objects
  satisfy \<open>submit_objects_spec\<close>: references are the kinds of the mask in slot order, no kind is
  duplicated or both inline and referenced, the submit mode is respected, and camera, tile index
  and tensor sections have the announced sizes and counts and decode.
\<close>

theorem frame_submit_acceptance:
  "validate_frame_submit_body m body = Inr v \<longleftrightarrow>
     unpack_body body = Inr v \<and>
     typed_payload_spec (fsm_payload_kind_bitmap m) (fsm_payload_frame_count m) (bv_regions v) \<and>
     (\<exists>inline refs. unpack_inline_object_blocks (reg_inline_object (bv_regions v)) = Inr inline \<and>
        unpack_object_reference_blocks (reg_object_reference (bv_regions v)) = Inr refs \<and>
        submit_objects_spec m inline refs)"
  by (rule validate_frame_submit_body_iff)

text \<open>
  C5.  Acceptance of a RESULT_PUSH body (\<open>validate_result_push_body\<close>): the body unpacks, the coverage
  counts of the metadata add up, the typed payload table agrees with the metadata, the references
  are strictly ordered by kind, namespace and key, and tile index and sections are present once,
  inline or by reference but not both, and decode to the announced counts
  (\<open>result_objects_spec\<close>).
\<close>

theorem result_push_acceptance:
  "validate_result_push_body m body = Inr v \<longleftrightarrow>
     unpack_body body = Inr v \<and>
     validate_result_push_tensor_coverage m = Inr () \<and>
     typed_payload_spec (rpm_payload_kind_bitmap m) (rpm_payload_frame_count m) (bv_regions v) \<and>
     (\<exists>inline refs. unpack_inline_object_blocks (reg_inline_object (bv_regions v)) = Inr inline \<and>
        unpack_object_reference_blocks (reg_object_reference (bv_regions v)) = Inr refs \<and>
        result_objects_spec m inline refs)"
  by (rule validate_result_push_body_iff)

section \<open>Sessions: what client and server make of each other\<close>



text \<open>
  C7.  A result from server to client (\<open>ServerSession.send_result\<close>, \<open>ClientSession.receive_result\<close>,
  \<open>Result.tile_ids\<close>).  The client reads the tile ids, the sections and the typed payloads the
  server gave, if no typed payload has the tensor profile (a typed payload that has it makes the
  client reject the packet).
\<close>

theorem result_exchange_delivery:
  assumes "send_result_packet session_id a payloads = Inr p"
    and "\<forall>f \<in> set payloads. tfr_profile_id f \<noteq> StandardProfile_int PROFILE_TENSOR"
    and "truthy (rpa_payload_kind_bitmap a AND PK_TENSOR)"
  shows "\<exists>r. receive_result p = Inr r \<and> Result_tile_ids r = Inr (rpa_tile_ids a) \<and>
    list_all2 describes (Result_sections r) (rpa_sections a) \<and>
    map_res build_typed_payload_frame payloads = Inr (res_typed_payloads r)"
  using assms by (rule result_exchange)

theorem result_exchange_delivery_witness:
  "\<exists>p r. send_result_packet 9 sample_result sample_frames = Inr p \<and> receive_result p = Inr r \<and>
    Result_tile_ids r = Inr [3, 9]"
proof -
  obtain p where p: "send_result_packet 9 sample_result sample_frames = Inr p"
    using acceptedD [OF sample_result_sends] by blast
  have "\<forall>f \<in> set sample_frames. tfr_profile_id f \<noteq> StandardProfile_int PROFILE_TENSOR"
    "truthy (rpa_payload_kind_bitmap sample_result AND PK_TENSOR)" "rpa_tile_ids sample_result = [3, 9]"
    by (simp_all add: sample_frames_def sample_frame_def sample_result_def)
  then show ?thesis
    using result_exchange_delivery [OF p] p by auto
qed

text \<open>
  C8.  The type of what \<open>receive_result\<close> returns, whoever sent the packet: \<open>Result.tile_ids\<close> does not
  raise and has the announced number of ids, the typed payloads are as many as announced, and
  none of them is a tensor.
\<close>

theorem received_result_type:
  assumes "receive_result p = Inr r"
  shows "(\<exists>ids. Result_tile_ids r = Inr ids \<and>
      len ids = (case res_metadata r of Some m \<Rightarrow> if res_tensor_body r = None then 0 else rpm_tile_count m
                                      | None \<Rightarrow> 0)) \<and>
    len (res_typed_payloads r) = Result_payload_frame_count r \<and>
    (\<forall>f \<in> set (res_typed_payloads r). tfr_payload_kind f \<noteq> PK_TENSOR)"
  using assms by (rule received_result_readable)

theorem received_result_type_witness:
  "\<exists>p r ids. receive_result p = Inr r \<and> Result_tile_ids r = Inr ids"
proof -
  have "accepted (bind_res (send_result_packet 9 sample_result []) receive_result)"
    by code_simp
  then obtain p r where r: "receive_result p = Inr r"
    by (auto dest!: acceptedD simp: res_simps)
  show ?thesis
    using received_result_type [OF r] r by blast
qed



text \<open>
  C10.  The handshake (\<open>bootstrap_client_transport\<close>, \<open>accept_server_connection\<close>,
  \<open>_bootstrap_connected_client\<close>).  The server accepts every hello the client makes, sends one
  acknowledgement and keeps the connection open; it sees the resolved auth block and the
  client's own extensions after those of the SDK.  The client accepts the acknowledgement and
  both ends have the requested session id; the acknowledgement answers the policy that follows
  from the selected and the forced transport.
\<close>

theorem hello_handshake:
  assumes "bootstrap_client_transport r probe = Inr b"
    and "pack_control_extension_block es = Inr (hr_control_extensions r)"
    and "\<forall>e \<in> set es. ext_type e \<noteq> CLIENT_HELLO_TRANSPORT_POLICY_EXTENSION"
    and "server_profile_fits profile"
  shows "\<exists>session ack ctl hs e.
    accept_server_connection is_quic (\<lambda>_. Inr ()) (ctb_hello_packet b) None model (Some profile) None
      = (Inr session, \<lparr>ac_sent = [ack], ac_closed = False\<rparr>) \<and>
    resolve_client_auth_block (hr_auth_block r) (hr_requested_model r)
      = Inr (chc_auth_block (ss_hello session)) \<and>
    chc_control_extensions (ss_hello session) = hs @ es \<and>
    bootstrap_connected_client t b ack = Inr ctl \<and>
    ss_session_id session = hr_requested_session_id r \<and>
    sham_session_id (ccs_ack_metadata ctl) = hr_requested_session_id r \<and>
    unpack_control_extension_block None (pkt_body ack) = Inr [e] \<and>
    parse_server_hello_ack_transport_policy_extension e
      = Inr (let policy = dial_policy (settled_transport r probe) (hr_forced_transport_id r)
             in \<lparr>shtp_transport_policy = policy, shtp_accepted_transport_policy = policy,
                 shtp_active_transport_id = transport_id_for_connection is_quic\<rparr>)"
  using assms by (rule handshake)

theorem hello_handshake_witness:
  "\<exists>b session sent. bootstrap_client_transport default_hello_request (Some TI_TCP) = Inr b \<and>
    accept_server_connection False (\<lambda>_. Inr ()) (ctb_hello_packet b) None [] (Some default_server_profile) None
      = (Inr session, sent) \<and> ss_session_id session = 1"
proof -
  have "accepted (bootstrap_client_transport default_hello_request (Some TI_TCP))"
    by code_simp
  then obtain b where b: "bootstrap_client_transport default_hello_request (Some TI_TCP) = Inr b"
    by (auto dest!: acceptedD)
  have ext: "pack_control_extension_block [] = Inr (hr_control_extensions default_hello_request)"
    "hr_requested_session_id default_hello_request = 1" "server_profile_fits default_server_profile"
    by code_simp+
  obtain session ack where
    "accept_server_connection False (\<lambda>_. Inr ()) (ctb_hello_packet b) None [] (Some default_server_profile) None
       = (Inr session, \<lparr>ac_sent = [ack], ac_closed = False\<rparr>)"
    "ss_session_id session = hr_requested_session_id default_hello_request"
    using hello_handshake [OF b ext(1) _ ext(3), of False "[]" TI_TCP] by auto
  with b ext(2) show ?thesis by auto
qed

section \<open>Sequences of calls and arrivals\<close>

text \<open>
  C11.  The reordering buffer (\<open>FrameResultBuffer\<close>).  Its heap with stale entries and its dictionary
  answer every sequence of calls as a finite map from frame ids to packets would, whose next
  packet is the one with the least frame id.
\<close>

theorem buffer_answers:
  "answers frame_buffer_call calls empty_buffer = answers spec_call calls Map.empty"
  by (simp add: result_buffer.answers_refine buffer_ok_empty)

text \<open>
  C12.  No lost wakeups (\<open>wait_for_frame\<close>, \<open>add\<close>, \<open>_wait_ready\<close>).  In every state that calls, arrivals and
  task steps can reach, a task that waits for a frame which is there is scheduled to run.
  Whatever the other tasks do, once it has run it has returned a packet, if nobody else takes
  that frame and its own timeout does not fire first.
\<close>

theorem waiter_served:
  assumes "reachable False s" "sole_waiter i f s" "contents (buf s) f \<noteq> None"
    and "\<forall>r. phase (tasks s ! i) \<noteq> Finished r"
  shows "phase (tasks s ! i) \<in> {Start, Woken} \<and>
    (\<forall>es s' expired. loop_path False s es s' \<longrightarrow> Run i expired \<in> set es \<longrightarrow>
      \<not> list_ex (takes f) es \<longrightarrow> Expire i \<notin> set es \<longrightarrow> served i s')"
proof -
  have ok: "loop_ok s" by (rule loop_ok_reachable [OF assms(1)])
  moreover have "pending i f s" using assms(2-4) by (simp add: pending_def)
  moreover have "i < length (tasks s)" "want (tasks s ! i) = AwaitFrame f"
    using assms(2) by (simp_all add: sole_waiter_def)
  ultimately show ?thesis
    using waiter_scheduled [OF ok, of i] delivery [of s _ _ i f] assms(3,4) by auto
qed

theorem waiter_served_witness:
  "\<exists>s s'. reachable False s \<and> loop_step False s (Run 0 False) s' \<and> served 0 (s' :: int event_loop)"
proof -
  let ?t = "\<lparr>want = AwaitFrame 7, timed = False, phase = Start\<rparr> :: int task"
  let ?s1 = "initial_loop\<lparr>tasks := [?t]\<rparr>"
  let ?s2 = "run_task False 0 False ?s1"
  let ?s3 = "arrive 7 1 5 ?s2"
  have s2: "?s2 = \<lparr>buf = empty_buffer, tasks = [?t\<lparr>phase := Blocked\<rparr>]\<rparr>"
    by (simp add: run_task_def initial_loop_def pop_frame_def empty_buffer_def set_phase_def
        wait_ready_def Let_def)
  have s3: "?s3 = \<lparr>buf = buffer_add 7 1 5 empty_buffer, tasks = [?t\<lparr>phase := Woken\<rparr>]\<rparr>"
    by (simp add: s2 arrive_def empty_buffer_def wake_def)
  have steps: "loop_step False initial_loop (Open (AwaitFrame 7) False) ?s1"
    "loop_step False ?s1 (Run 0 False) ?s2" "loop_step False ?s2 (Arrive 7 1 5) ?s3"
    using step_open [of False initial_loop] step_run [of 0 ?s1 False False] step_arrive
    by (simp_all add: initial_loop_def)
  have r: "reachable False ?s3"
    by (intro reachable_step [OF _ steps(3)] reachable_step [OF _ steps(2)]
        reachable_step [OF _ steps(1)] reachable_initial)
  have last: "loop_step False ?s3 (Run 0 False) (run_task False 0 False ?s3)"
    by (rule step_run) (simp_all add: s3)
  have "loop_path False ?s3 [Run 0 False] (run_task False 0 False ?s3)"
    by (rule path_cons [OF last path_nil])
  moreover have "sole_waiter 0 7 ?s3" "contents (buf ?s3) 7 \<noteq> None"
    "\<forall>r. phase (tasks ?s3 ! 0) \<noteq> Finished r"
    unfolding s3 by (simp_all add: sole_waiter_def)
  ultimately have "served 0 (run_task False 0 False ?s3)"
    using waiter_served [OF r, of 0 7] by fastforce
  with r last show ?thesis by blast
qed




text \<open>
  C15.  \<open>NnrpTcpConnection\<close>.  If the bytes a connection wrote reach the peer in any non-empty chunks, the
  peer's control, submit and result queues hold exactly the packets sent, in their order, no
  error is recorded, no bytes are left over, and both ends agree on the next stream ids.
\<close>

theorem tcp_stream_delivery:
  assumes "tcp_send_all ps tcp_connection_init = (Inr (), sender)"
    and "concat chunks = tcp_written sender" "[] \<notin> set chunks"
  shows "\<exists>receiver. receiver = fold tcp_read_chunk chunks tcp_connection_init \<and>
    tcp_incoming_control receiver = filter (\<lambda>p. \<not> is_submit_packet p \<and> \<not> is_result_packet p) ps \<and>
    tcp_incoming_submit receiver = filter is_submit_packet ps \<and>
    tcp_incoming_result receiver = filter is_result_packet ps \<and>
    tcp_terminal_error receiver = None \<and> tcp_reader receiver = Some [] \<and>
    tcp_next_incoming_submit receiver = tcp_next_outgoing_submit sender \<and>
    tcp_next_incoming_result receiver = tcp_next_outgoing_result sender"
  using tcp_delivery [OF assms] by blast

theorem tcp_stream_delivery_witness:
  "\<exists>sender. tcp_send_all [sample_packet MT_PING []] tcp_connection_init = (Inr (), sender) \<and>
    tcp_incoming_control (fold tcp_read_chunk [take 9 (tcp_written sender), drop 9 (tcp_written sender)]
      tcp_connection_init) = [sample_packet MT_PING []]"
proof -
  have "accepted (fst (tcp_send_all [sample_packet MT_PING []] tcp_connection_init)) \<and>
    9 < length (tcp_written (snd (tcp_send_all [sample_packet MT_PING []] tcp_connection_init)))"
    by code_simp
  then obtain sender where s: "tcp_send_all [sample_packet MT_PING []] tcp_connection_init = (Inr (), sender)"
    "9 < length (tcp_written sender)"
    by (cases "tcp_send_all [sample_packet MT_PING []] tcp_connection_init") (auto dest!: acceptedD)
  have kind: "\<not> is_submit_packet (sample_packet MT_PING [])" "\<not> is_result_packet (sample_packet MT_PING [])"
    by code_simp+
  have c: "concat [take 9 (tcp_written sender), drop 9 (tcp_written sender)] = tcp_written sender"
    "[] \<notin> set [take 9 (tcp_written sender), drop 9 (tcp_written sender)]"
    using s(2) by auto
  have "tcp_incoming_control (fold tcp_read_chunk [take 9 (tcp_written sender), drop 9 (tcp_written sender)]
      tcp_connection_init) = [sample_packet MT_PING []]"
    using tcp_stream_delivery [OF s(1) c] by (elim exE conjE) (simp only: kind filter.simps simp_thms if_True)
  with s(1) show ?thesis by blast
qed

text \<open>
  C16.  \<open>unpack_control_extension_block\<close>.  Its \<open>while\<close> loop ends on every input: cut off after
  \<open>len(payload) // 8 + 1\<close> passes it has already given the result or the error of the function.
\<close>

theorem extension_parsing_terminates:
  "extension_loop_fuel (Suc (length payload div 8)) known payload (0, [])
    = Some (unpack_control_extension_block known payload)"
  by (rule unpack_control_extension_block_terminates)

section \<open>The native runtime: events, submits and replies\<close>





text \<open>
  C19.  Waiting for the result of a submit (\<open>_poll_submitted_result_until_deadline\<close>).  The result is
  made of a result event of the operation; nothing was cancelled; and every other event the
  library delivered during the wait is kept, class by class in order.  \<open>clean_script\<close> excludes a
  library that answers \<open>WOULD_BLOCK\<close> to the release of an event.
\<close>

theorem waited_result:
  assumes "poll_submitted_result lib operation max_events deadline turns s script =
      Some (Inr r, calls, s', script')" "clean_script script"
  shows "calls = [] \<and> (\<exists>e replies delivered. result_of_operation operation e = Inr True \<and>
    result_from_polled_event e (nro_operation_id operation) = Inr r \<and>
    script = replies @ script' \<and> map_nat reply_events replies = Inr delivered \<and>
    (\<forall>c. of_event_class c (e # ns_pending s') =
       of_event_class c (ns_pending s @ concat delivered)))"
proof -
  obtain e where e: "calls = []" "client_conserves s script [e] s' script'"
    "result_of_operation operation e = Inr True"
    "result_from_polled_event e (nro_operation_id operation) = Inr r"
    using wait_result [OF assms] by blast
  obtain replies delivered where "script = replies @ script'" "map_nat reply_events replies = Inr delivered"
    "\<And>c. of_event_class c ([e] @ ns_pending s') = of_event_class c (ns_pending s @ concat delivered)"
    using e(2) unfolding conserves_def filter_append by blast
  then show ?thesis using e(1,3,4) unfolding append_Cons append_Nil by blast
qed

theorem waited_result_witness:
  "\<exists>r s' script'. poll_submitted_result (\<lambda>_. native_status_ok) sample_operation None True
      [patient_turn, patient_turn] sample_native_session [busy_reply, sample_reply] =
      Some (Inr r, [], s', script') \<and> nrr_operation_id r = 7"
proof -
  let ?r = "poll_submitted_result (\<lambda>_. native_status_ok) sample_operation None True
      [patient_turn, patient_turn] sample_native_session [busy_reply, sample_reply]"
  have "(case ?r of Some (Inr r, calls, s', script') \<Rightarrow> nrr_operation_id r = 7 | _ \<Rightarrow> False)"
    by code_simp
  then obtain r calls s' script' where r: "?r = Some (Inr r, calls, s', script')" "nrr_operation_id r = 7"
    by (auto split: option.splits prod.splits sum.splits)
  have "clean_script [busy_reply, sample_reply]"
    by (simp add: clean_script_def busy_reply_def sample_reply_def release_blocks_def sample_event_def)
  from waited_result [OF r(1) this] r show ?thesis by auto
qed





text \<open>
  C22.  One terminal reply (\<open>_send_terminal_reply\<close>, \<open>_begin_reply\<close>).  In every state that coroutines,
  worker threads, cancellations and closes can reach, the library has accepted at most one terminal
  reply to the operation, and once it has, \<open>_begin_reply\<close> refuses every further reply.
\<close>

theorem terminal_reply_once:
  assumes "reply_reachable s"
  shows "length (terminal_replies s) \<le> 1 \<and>
    (terminal_replies s \<noteq> [] \<longrightarrow> begin_reply terminal s = (invalid_state, s))"
  using assms by (rule one_terminal_reply)

theorem terminal_reply_once_witness:
  "reply_reachable late_increment \<and> terminal_replies late_increment = [1] \<and>
    begin_reply True late_increment = (invalid_state, late_increment)"
proof -
  have "terminal_replies late_increment = [1]"
    by (simp add: terminal_replies_def late_increment_def)
  then show ?thesis
    using terminal_reply_once [OF late_increment_reachable, of True] late_increment_reachable by simp
qed

text \<open>
  C23.  Cancelling \<open>async_submit_operation\<close>.  If the caller ends as cancelled after one cancellation,
  the thread has not called the library and will decline to, or the operation was submitted and
  was cancelled once.
\<close>

theorem submit_cancellation:
  assumes "submit_reachable s" "asb_caller s = CallerCancelled" "asb_cancellations s \<le> 1"
  shows "asb_thread s \<in> {NotStarted, Declined} \<and> asb_thread (dispatch s) = Declined \<or>
    asb_thread s = SubmittedOk \<and> asb_cancel_calls s = 1"
  using assms by (rule cancelled_submit)

theorem submit_cancellation_witness:
  "asb_thread (dispatch (cancel_caller async_submit_start)) = Declined"
proof -
  have "submit_step async_submit_start (cancel_caller async_submit_start)"
    by (rule submit_step.cancelled) (simp add: async_submit_start_def)
  then have "submit_reachable (cancel_caller async_submit_start)"
    by (simp add: submit_reachable_def r_into_rtranclp)
  then show ?thesis
    using submit_cancellation [of "cancel_caller async_submit_start"]
    by (simp add: async_submit_start_def cancel_caller_def dispatch_def)
qed

text \<open>
  Cancelled results are suppressed (\<open>NativeClientConnection.cancel_operation\<close>, \<open>poll_result\<close>).
  After a cancel that did not raise, polling the operation raises WOULD_BLOCK without reading the
  library, also after up to 4095 other operations of the session were cancelled.
\<close>

theorem cancelled_result_suppressed:
  assumes "connection_cancel_operation lib operation c s = (Inr (), calls, c', s')"
    and "nro_session operation = ns_handle s"
    and "length (ncc_cancelled_operations c (nh_id (ns_handle s))) \<le> MAX_SUPPRESSIONS"
    and "nro_operation_id operation \<notin> set (ncc_cancelled_operations c (nh_id (ns_handle s)))"
    and "length ws < MAX_SUPPRESSIONS"
  shows "connection_poll_result (fold (remember_cancelled_operation (nh_id (ns_handle s))) ws c') operation
    max_events timeout_ms s' script = Some (Inl would_block, s', script)"
  using assms by (rule cancel_operation_suppressed_long)

theorem cancelled_result_suppressed_witness:
  "\<exists>c' s'. snd (snd (connection_cancel_operation (\<lambda>_. native_status_ok) sample_operation new_client_connection
      sample_native_session)) = (c', s') \<and>
    connection_poll_result (remember_cancelled_operation 5 9 (remember_cancelled_operation 5 8 c'))
      sample_operation None 0 s' [sample_reply] = Some (Inl would_block, s', [sample_reply])"
proof -
  let ?r = "connection_cancel_operation (\<lambda>_. native_status_ok) sample_operation new_client_connection
      sample_native_session"
  have "(case fst ?r of Inr _ \<Rightarrow> True | Inl _ \<Rightarrow> False)" by code_simp
  then obtain calls c' s' where r: "?r = (Inr (), calls, c', s')"
    by (cases ?r) (auto split: sum.splits)
  have "nro_session sample_operation = ns_handle sample_native_session"
    "length (ncc_cancelled_operations new_client_connection (nh_id (ns_handle sample_native_session))) \<le> MAX_SUPPRESSIONS"
    "nro_operation_id sample_operation \<notin> set (ncc_cancelled_operations new_client_connection (nh_id (ns_handle sample_native_session)))"
    "length [8, 9 :: int] < MAX_SUPPRESSIONS" "nh_id (ns_handle sample_native_session) = 5"
    by (simp_all add: sample_operation_def sample_native_session_def new_session_def new_client_connection_def
        MAX_SUPPRESSIONS_def native_handle_def)
  from cancelled_result_suppressed [OF r this(1-4), of None 0 "[sample_reply]"] this(5) r
  show ?thesis by simp
qed

text \<open>
  C24.  Accept tickets (\<open>NativeServer.accept\<close>, \<open>NativeRuntimeServer.accept_session\<close>).  After any
  sequence of accepts of a new server, with any answers of the library, a ticket that waits in an
  open server belongs to the session handle id that the next round passes for it, so that the
  next call uses it and does not raise.
\<close>

theorem accept_tickets_match:
  assumes "accept_all lib (turns # calls) (new_server servers next_id) = Some n'"
    and "list_all (\<lambda>v. nrs_ticket v = None \<and> nrs_session_handle_id v = None \<and> nrs_generation v = None) servers"
    and "1 \<le> next_id" "next_id \<le> 0xFFFFFFFFFFFFFFFF"
    and "\<not> nsv_closed n'" "i < length (nsv_servers n')" "nrs_ticket (nsv_servers n' ! i) = Some ticket"
  shows "\<exists>sid. accept_id i n' = (sid, n') \<and>
    accept_ticket reply sid 1 (nsv_servers n' ! i) = (Inr ticket, nsv_servers n' ! i)"
  using assms by (rule accept_all_ticket)

theorem accept_tickets_match_witness:
  "\<exists>n' ticket. accept_all quiet_library
      [[(\<lambda>i. if i = 0 then waiting_accept else waiting_accept\<lparr>acr_wait := native_status_ok\<rparr>, False)]]
      (new_server [sample_runtime_server, sample_runtime_server] 1) = Some n' \<and>
    accept_ticket waiting_accept 1 1 (nsv_servers n' ! 0) = (Inr ticket, nsv_servers n' ! 0)"
proof -
  let ?turns = "[(\<lambda>i. if i = 0 then waiting_accept else waiting_accept\<lparr>acr_wait := native_status_ok\<rparr>, False)]"
  let ?servers = "[sample_runtime_server, sample_runtime_server]"
  let ?r = "accept_all quiet_library [?turns] (new_server ?servers 1)"
  have r: "(case ?r of Some n \<Rightarrow> \<not> nsv_closed n \<and> 0 < length (nsv_servers n) \<and>
      nrs_ticket (nsv_servers n ! 0) \<noteq> None \<and> fst (accept_id 0 n) = 1 | None \<Rightarrow> False)"
    by code_simp
  then obtain n' ticket where n': "?r = Some n'" "\<not> nsv_closed n'" "0 < length (nsv_servers n')"
    "nrs_ticket (nsv_servers n' ! 0) = Some ticket" "fst (accept_id 0 n') = 1"
    by (auto split: option.splits)
  have "list_all (\<lambda>v. nrs_ticket v = None \<and> nrs_session_handle_id v = None \<and> nrs_generation v = None) ?servers"
    by (simp add: sample_runtime_server_def)
  from accept_tickets_match [OF n'(1) this _ _ n'(2-4), of waiting_accept] n'(1,5) show ?thesis by auto
qed

text \<open>
  Recovery tickets (\<open>to_bytes\<close>, \<open>from_bytes\<close>): every valid ticket is read back from its bytes, and
  only the bytes of a valid ticket are read.
\<close>

theorem recovery_ticket_codec:
  "recovery_ticket_from_bytes bs = Inr t \<longleftrightarrow> recovery_ticket_create t = Inr t \<and> recovery_ticket_to_bytes t = Inr bs"
  using ticket_round_trip [of t] ticket_canonical [of bs t] by auto

text \<open>
  C25.  What conservation does not cover: \<open>poll_events\<close> takes the kept events off their list before it
  asks the library; when the library then reports an error, they are neither returned nor kept.
\<close>

theorem poll_error_drops_events:
  assumes "\<not> ns_closed s" "0 < n" "n \<le> 0xFFFFFFFF" "0 \<le> timeout_ms" "timeout_ms \<le> 0xFFFFFFFF"
    and "len (ns_pending s) < n"
    and "\<not> status_succeeded (pl_status reply)" "nst_status_code (pl_status reply) \<noteq> FFI_STATUS_WOULD_BLOCK"
  shows "poll_events (Some n) None timeout_ms s (reply # script) =
    Some (Inl (status_exception (pl_status reply)), s\<lparr>ns_pending := []\<rparr>, script)"
proof -
  have "split_events (kind_selected None) (Some n) k es = (es, [])" if "k + len es \<le> n" for k es
    using that by (induction es arbitrary: k) (auto simp: kind_selected_def below_def)
  from this [of 0 "ns_pending s"] show ?thesis
    using poll_events_batch_error [OF assms(1-5), of "ns_pending s" "[]" reply script] assms(6-8)
    by (simp add: poll_events_def)
qed

theorem poll_error_drops_events_witness:
  "\<forall>e. poll_events (Some 2) None 0 (sample_native_session\<lparr>ns_pending := [LifecycleE e]\<rparr>)
     [\<lparr>pl_status = status_of FFI_STATUS_PROTOCOL_ERROR, pl_events = []\<rparr>] =
   Some (Inl (ProtocolError (status_of FFI_STATUS_PROTOCOL_ERROR)), sample_native_session, [])"
proof
  fix e
  show "poll_events (Some 2) None 0 (sample_native_session\<lparr>ns_pending := [LifecycleE e]\<rparr>)
     [\<lparr>pl_status = status_of FFI_STATUS_PROTOCOL_ERROR, pl_events = []\<rparr>] =
    Some (Inl (ProtocolError (status_of FFI_STATUS_PROTOCOL_ERROR)), sample_native_session, [])"
    using poll_error_drops_events [of "sample_native_session\<lparr>ns_pending := [LifecycleE e]\<rparr>" 2 0
      "\<lparr>pl_status = status_of FFI_STATUS_PROTOCOL_ERROR, pl_events = []\<rparr>" "[]"]
    by (simp add: sample_native_session_def new_session_def status_succeeded_def status_of_def status_exception_def)
qed

text \<open>
  The order of the two steps of \<open>submit_operation\<close> (call of the library, \<open>_remember_operation_frame\<close>):
  an event that ends the operation and is read by another thread between the two is recorded too
  early, and the frame of the ended operation is never forgotten.
\<close>

theorem submit_end_before_record:
  assumes "ends_operation (ns_handle s) (nro_operation_id operation) e"
  shows "ns_operation_frames (snd (observe_polled_event e (submit_finish operation s)))
      (nro_operation_id operation) = None \<and>
    ns_operation_frames (submit_finish operation (snd (observe_polled_event e s)))
      (nro_operation_id operation) = Some (nro_frame_id operation)"
  using assms by (rule submit_order)

theorem submit_end_before_record_witness:
  "\<exists>e. native_event_from_ffi (sample_event 6 7) = Inr e \<and>
    ns_operation_frames (submit_finish sample_operation (snd (observe_polled_event e sample_native_session))) 7 = Some 4"
proof -
  obtain e where e: "native_event_from_ffi (sample_event 6 7) = Inr e" "e = LifecycleE
     \<lparr>nle_kind = 6, nle_connection = invalid_handle, nle_session = native_handle KIND_SESSION 5,
       nle_operation = invalid_handle, nle_payload = [],
       nle_diagnostic = diagnostic_ok\<lparr>nrd_related_operation_id := 7\<rparr>\<rparr>"
    by (simp add: native_event_from_ffi_def sample_event_def copy_owned_event_payload_def)
  have "ends_operation (ns_handle sample_native_session) (nro_operation_id sample_operation) e"
    by (simp add: e(2) ends_operation_def sample_operation_def sample_native_session_def new_session_def)
  from submit_end_before_record [OF this] e(1) show ?thesis
    by (simp add: sample_operation_def)
qed

section \<open>Objects of the native library\<close>







text \<open>
  C29.  Requests for a policy decision (\<open>_NativeServerPolicyDispatcher\<close>).  However the callback, the
  workers and \<open>close\<close> interleave: when \<open>close\<close> has returned, the library was told the decision of
  every request that was taken whose diagnostic can be encoded, once each and no others; \<open>close\<close>
  returned without an error exactly if all could be encoded and the library accepted all; and the
  callback rejects every request from then on.
\<close>

theorem policy_requests_answered:
  assumes "policy_reachable policy s" "pds_close s = CloseReturned r"
  shows "mset (map (\<lambda>(q, d, st). (q, d)) (pds_completions s)) =
      sum_list (map (policy_answer policy) (pds_tasks s)) \<and>
    (r = Inr () \<longleftrightarrow>
      (\<forall>t \<in> set (pds_tasks s). \<exists>d. evaluate_policy policy (ptk_metadata t) = Inr d) \<and>
      (\<forall>(q, d, st) \<in> set (pds_completions s). status_succeeded st)) \<and>
    policy_begin request_id metadata submits s = (FFI_STATUS_CALLBACK_REJECTED, s)"
  using closed_requests_answered [OF assms] by blast

theorem policy_requests_answered_witness:
  "policy_begin 8 (Some []) True closed_dispatcher = (FFI_STATUS_CALLBACK_REJECTED, closed_dispatcher) \<and>
    length (pds_completions closed_dispatcher) = 1 \<and>
    mset (map (\<lambda>(q, d, st). (q, d)) (pds_completions closed_dispatcher)) =
      sum_list (map (policy_answer accept_policy) (pds_tasks closed_dispatcher))"
  using policy_requests_answered [OF closed_dispatcher_reachable(1,2)] closed_dispatcher_reachable(3) by blast

text \<open>
  C30.  Borrowed views (\<open>NativeOwnedBuffer\<close>, \<open>NativeObjectMetadataBuffer\<close>, \<open>NativeBorrowedBufferView\<close>).
  However a program borrows, enters and leaves views, reads and closes a buffer: while a view is
  active the buffer was not given back to the library, and after it was given back it is not used.
\<close>

theorem buffer_views_safe:
  assumes "buffer_acquire_copy family payload status out out_view = (Inr b, acquired)"
    "run_owner lent_step ops (lend b) = (calls, l)"
  shows "handle_respected out calls \<and> (list_ex nbw_active (lnb_views l) \<longrightarrow> \<not> given_back out calls)"
  using no_view_of_released_buffer [OF assms] by blast

theorem buffer_views_safe_witness:
  "\<exists>b acquired calls l. buffer_acquire_copy RuntimeBuffer [1, 2] native_status_ok (native_handle KIND_BUFFER 9)
      \<lparr>nbv_ptr = 64, nbv_length = 2\<rparr> = (Inr b, acquired) \<and>
    run_owner lent_step [LentBorrow native_status_ok \<lparr>nbv_ptr = 64, nbv_length = 2\<rparr>, LentEnter 0 (Inr ()),
      LentClose native_status_ok] (lend b) = (calls, l) \<and>
    list_ex nbw_active (lnb_views l) \<and> \<not> given_back (native_handle KIND_BUFFER 9) calls"
proof -
  let ?v = "\<lparr>nbv_ptr = 64, nbv_length = 2\<rparr>"
  let ?a = "buffer_acquire_copy RuntimeBuffer [1, 2] native_status_ok (native_handle KIND_BUFFER 9) ?v"
  let ?ops = "[LentBorrow native_status_ok ?v, LentEnter 0 (Inr ()), LentClose native_status_ok]"
  have a: "(case ?a of (Inr b, acquired) \<Rightarrow>
      (case run_owner lent_step ?ops (lend b) of (calls, l) \<Rightarrow> list_ex nbw_active (lnb_views l)) | _ \<Rightarrow> False)"
    by code_simp
  then obtain b acquired where b: "?a = (Inr b, acquired)" by (cases ?a) (auto split: sum.splits)
  obtain calls l where l: "run_owner lent_step ?ops (lend b) = (calls, l)"
    by (cases "run_owner lent_step ?ops (lend b)")
  have "list_ex nbw_active (lnb_views l)" using a unfolding b by (simp only: prod.case sum.case l)
  with buffer_views_safe [OF b l] b l show ?thesis by blast
qed

text \<open>
  C31.  Resuming (\<open>recovery_ticket\<close> of a session, \<open>resume_session\<close> of a client connection).  The one
  request that is made holds the bytes the library gave as the ticket, its session id, a token size
  at least that of its token, and profile and schema of the options; the new session is recorded
  exactly if the call succeeds.
\<close>

theorem session_resumed_with_ticket:
  assumes "session_recovery_ticket reply s = (Inr (Some t), read)" "tkr_payload reply = Some encoded"
    "NativeClientSessionOptions_init (resolved_options options c) = Inr n"
    "\<not> csn_closed c" "\<not> nrc_closed (csn_connection c)" "cso_priority_class n \<in> {0, 1, 2}"
    "client_resume_session t options i status out outcome c = (r, calls, c')"
  shows "(\<exists>request. calls = [(ResumeSession (nrc_handle (csn_connection c)) request encoded, status)] \<and>
      sor_requested_session_id request = srtk_session_id t \<and> sor_allow_resume request = 1 \<and>
      len (srtk_resume_token t) \<le> sor_resume_token_bytes request \<and>
      sor_profile_id request = cso_profile_id n \<and> sor_schema_id request = cso_schema_id n \<and>
      sor_schema_version request = cso_schema_version n) \<and>
    (case r of
       Inl err \<Rightarrow> csn_sessions c' = csn_sessions c
     | Inr session \<Rightarrow> csn_sessions c' = csn_sessions c @ [session] \<and> session = new_session out \<and>
         nh_kind out = KIND_SESSION)"
  using resumed_with_ticket [OF assms] by (simp split: sum.split)

theorem session_resumed_with_ticket_witness:
  "\<exists>session calls c'. client_resume_session sample_ticket None 6 native_status_ok (native_handle KIND_SESSION 6)
      \<lparr>sro_outcome_code = 2, sro_resume_window_ms = 100\<rparr> sample_client_sessions = (Inr session, calls, c') \<and>
    csn_sessions c' = [session] \<and>
    (\<exists>request. calls = [(ResumeSession (native_handle KIND_CONNECTION 4) request
        (the (tkr_payload sample_ticket_reply)), native_status_ok)] \<and>
       sor_requested_session_id request = 9 \<and> 3 \<le> sor_resume_token_bytes request)"
proof -
  let ?r = "client_resume_session sample_ticket None 6 native_status_ok (native_handle KIND_SESSION 6)
      \<lparr>sro_outcome_code = 2, sro_resume_window_ms = 100\<rparr> sample_client_sessions"
  have "(case ?r of (Inr session, calls, c') \<Rightarrow> True | _ \<Rightarrow> False)" by code_simp
  then obtain session calls c' where r: "?r = (Inr session, calls, c')"
    by (cases ?r) (auto split: sum.splits)
  have "(case session_recovery_ticket sample_ticket_reply sample_native_session of
      (Inr (Some t), read) \<Rightarrow> t = sample_ticket | _ \<Rightarrow> False)" by code_simp
  then obtain read where t: "session_recovery_ticket sample_ticket_reply sample_native_session = (Inr (Some sample_ticket), read)"
    by (cases "session_recovery_ticket sample_ticket_reply sample_native_session") (auto split: sum.splits option.splits)
  have at: "tkr_payload sample_ticket_reply = Some (the (tkr_payload sample_ticket_reply))"
    "NativeClientSessionOptions_init (resolved_options None sample_client_sessions) = Inr sample_session_options"
    by code_simp+
  have c: "\<not> csn_closed sample_client_sessions" "\<not> nrc_closed (csn_connection sample_client_sessions)"
    "cso_priority_class sample_session_options \<in> {0, 1, 2}" "csn_sessions sample_client_sessions = []"
    "nrc_handle (csn_connection sample_client_sessions) = native_handle KIND_CONNECTION 4"
    "srtk_session_id sample_ticket = 9" "len (srtk_resume_token sample_ticket) = 3"
    by (simp_all add: sample_client_sessions_def sample_session_options_def sample_ticket_def)
  note resumed = session_resumed_with_ticket [OF t at c(1-3) r]
  have "csn_sessions c' = [session]" using resumed by (simp add: c(4))
  moreover from resumed obtain request where
    "calls = [(ResumeSession (native_handle KIND_CONNECTION 4) request
        (the (tkr_payload sample_ticket_reply)), native_status_ok)]"
    "sor_requested_session_id request = 9" "3 \<le> sor_resume_token_bytes request"
    unfolding c(5-7) by blast
  ultimately show ?thesis using r by blast
qed



section \<open>Selection of a transport\<close>



text \<open>
  C34.  With one cost model for all providers, the selected provider is eligible, no eligible provider
  whose probe succeeded compares better, and any other order of the registry selects the same.
\<close>

theorem selection_independent_of_order:
  assumes "valid_inputs ps options" "\<forall>p \<in> set ps. cost_model p = model"
    and "select_from_providers ps options av dg = Inr s"
  shows "eligible options av (tsel_selected_provider s) \<and>
    (\<forall>q \<in> set (contenders options av ps). compare_providers options (tsel_selected_provider s) q \<le> 0) \<and>
    (\<forall>ps'. mset ps = mset ps' \<longrightarrow> (\<exists>s'. select_from_providers ps' options av dg = Inr s' \<and>
       tsel_selected_provider s' = tsel_selected_provider s))"
  using selection_best [OF assms(1,3)] selection_order_independent [OF assms(1) _ _ assms(3)] assms(2)
  by blast

theorem selection_independent_of_order_witness:
  "\<exists>s. select_from_providers [example_ipc, example_tcp] (example_options [example_tcp, example_ipc])
      (\<lambda>_. None) (\<lambda>_. None) = Inr s \<and>
    eligible (example_options [example_tcp, example_ipc]) (\<lambda>_. None) (tsel_selected_provider s)"
proof -
  have v: "valid_inputs [example_ipc, example_tcp] (example_options [example_tcp, example_ipc])"
    by code_simp
  have "accepted (map_sum (\<lambda>_. StructError) id (select_from_providers [example_ipc, example_tcp]
      (example_options [example_tcp, example_ipc]) (\<lambda>_. None) (\<lambda>_. None)))"
    by code_simp
  then obtain s where s: "select_from_providers [example_ipc, example_tcp]
      (example_options [example_tcp, example_ipc]) (\<lambda>_. None) (\<lambda>_. None) = Inr s"
    by (cases "select_from_providers [example_ipc, example_tcp]
      (example_options [example_tcp, example_ipc]) (\<lambda>_. None) (\<lambda>_. None)") auto
  have "\<forall>p \<in> set [example_ipc, example_tcp]. cost_model p = 1"
    by (simp add: example_defs)
  then show ?thesis
    using selection_independent_of_order [OF v _ s] s by blast
qed

text \<open>
  The comparison of providers is not transitive when some pairs share a cost model and others do
  not: TCP beats IPC, IPC beats QUIC and QUIC beats TCP.  The registry order then decides.
\<close>

theorem selection_dependent_on_order:
  "\<exists>options ps ps' s s'.
    valid_inputs ps options \<and> mset ps = mset ps' \<and>
    select_from_providers ps options (\<lambda>_. None) (\<lambda>_. None) = Inr s \<and>
    select_from_providers ps' options (\<lambda>_. None) (\<lambda>_. None) = Inr s' \<and>
    tsel_selected_provider s = example_tcp \<and> tsel_selected_provider s' = example_ipc \<and>
    compare_providers options example_tcp example_ipc < 0 \<and>
    compare_providers options example_ipc example_quic < 0 \<and>
    compare_providers options example_quic example_tcp < 0"
proof -
  let ?ps = "[example_tcp, example_ipc, example_quic]"
  let ?ps' = "[example_ipc, example_quic, example_tcp]"
  let ?o = "example_options ?ps"
  have "valid_inputs ?ps ?o" by code_simp
  moreover have "mset ?ps = mset ?ps'" by simp
  moreover obtain s s' where "select_from_providers ?ps ?o (\<lambda>_. None) (\<lambda>_. None) = Inr s"
    "tsel_selected_provider s = example_tcp"
    "select_from_providers ?ps' ?o (\<lambda>_. None) (\<lambda>_. None) = Inr s'"
    "tsel_selected_provider s' = example_ipc"
    using selection_order_dependent
    by (cases "select_from_providers ?ps ?o (\<lambda>_. None) (\<lambda>_. None)";
        cases "select_from_providers ?ps' ?o (\<lambda>_. None) (\<lambda>_. None)") auto
  ultimately show ?thesis using comparison_cycle by blast
qed

section \<open>Routes of hosts\<close>

text \<open>
  C35.  Choice of the client (\<open>_select_client_transport\<close>).  The binding it connects with is one of those
  given, locally available, allowed by the policy and the one the selection names; its route is
  resolved and satisfies \<open>secure_route\<close>: a secure endpoint, a QUIC route and a secure WebSocket
  have security material, and a secure endpoint uses neither IPC nor a plain WebSocket.
\<close>

theorem client_route_selection:
  assumes "\<forall>b \<in> set transports. NativeTransportProvider_init (ntb_provider b) = Inr (ntb_provider b)"
    and "select_client_transport windows carrier probe endpoint policy transports routes names =
      Inr (selection, route, b)"
  shows "b \<in> set transports \<and> ntb_provider b = tsel_selected_provider selection \<and> ntb_local_available b \<and>
    policy_allows policy (binding_kind b) \<and> route = provider_route_of carrier endpoint routes (ntb_provider b) \<and>
    (\<exists>e. crt_endpoint route = Some e \<and>
      secure_route endpoint (the (binding_kind b)) e (crt_security route))"
  using client_selection_safe [OF _ assms(2)] assms(1) by blast

theorem client_route_selection_witness:
  "\<exists>selection route. select_client_transport False sample_carrier (\<lambda>_ _ _. Inl []) sample_endpoint TP_AUTO
      [sample_binding] sample_routes [''tcp'', ''quic''] = Inr (selection, route, sample_binding) \<and>
    crt_security route = Some ()"
proof -
  let ?r = "select_client_transport False sample_carrier (\<lambda>_ _ _. Inl []) sample_endpoint TP_AUTO
      [sample_binding] sample_routes [''tcp'', ''quic'']"
  have "(case ?r of Inr _ \<Rightarrow> True | Inl _ \<Rightarrow> False)" by code_simp
  then obtain selection route b where r: "?r = Inr (selection, route, b)"
    by (auto split: sum.splits)
  have "\<forall>b \<in> set [sample_binding]. NativeTransportProvider_init (ntb_provider b) = Inr (ntb_provider b)"
    by code_simp
  note safe = client_route_selection [OF this r]
  then have "b = sample_binding" "crt_security route \<noteq> None"
    by (auto simp: secure_route_def sample_endpoint_def)
  then show ?thesis using r by auto
qed

text \<open>
  C36.  Routes of the server (\<open>_resolve_server_routes\<close>).  The loop over a set of transport names gives
  the same routes in the same order for every iteration order; every route is over an available
  binding the policy allows and satisfies \<open>secure_route\<close>.
\<close>

theorem server_route_resolution:
  assumes "server_inputs policy bindings routes names" "server_inputs policy bindings routes names'"
    and "resolve_server_routes windows carrier endpoint policy bindings routes names = Inr rs"
  shows "resolve_server_routes windows carrier endpoint policy bindings routes names' = Inr rs \<and>
    (\<forall>r \<in> set rs. srt_binding r \<in> set bindings \<and> ntb_local_available (srt_binding r) \<and>
       policy_allows policy (binding_kind (srt_binding r)) \<and>
       secure_route endpoint (the (binding_kind (srt_binding r))) (srt_endpoint r) (srt_security r))"
  using server_routes_deterministic [OF assms] server_routes_safe [OF assms(3,1)] by blast

theorem server_route_resolution_witness:
  "\<exists>rs. resolve_server_routes False sample_carrier sample_endpoint TP_AUTO [sample_binding] sample_routes
      [''tcp''] = Inr rs \<and> (\<forall>r \<in> set rs. srt_security r = Some ())"
proof -
  have inputs: "server_inputs TP_AUTO [sample_binding] sample_routes [''tcp'']"
    by code_simp
  have "(case resolve_server_routes False sample_carrier sample_endpoint TP_AUTO [sample_binding]
      sample_routes [''tcp''] of Inr rs \<Rightarrow> length rs = 1 | Inl _ \<Rightarrow> False)"
    by code_simp
  then obtain rs where rs: "resolve_server_routes False sample_carrier sample_endpoint TP_AUTO
      [sample_binding] sample_routes [''tcp''] = Inr rs"
    by (auto split: sum.splits)
  from server_route_resolution [OF inputs inputs rs] have "\<forall>r \<in> set rs. srt_security r \<noteq> None"
    by (auto simp: secure_route_def sample_endpoint_def)
  then show ?thesis using rs by auto
qed

section \<open>When to migrate\<close>

text \<open>
  C37.  The trigger of a migration (\<open>MigrationTriggerMonitor.observe\<close>).  Its counter and its queue of samples
  are equivalent to a reference definition on the whole history: the last observation asks for a
  migration exactly if each of the windows that ended at the last samples, as many as
  \<open>consecutive_degraded_windows\<close>, was full and degraded.
\<close>

theorem migration_trigger:
  assumes "MigrationTriggerPolicy_init p = Inr p" "xs \<noteq> []"
  shows "mts_should_trigger (last (fst (observe_samples ops xs (new_monitor p)))) \<longleftrightarrow>
    nat (mtp_consecutive_degraded_windows p) \<le> length xs \<and>
    (\<forall>j < nat (mtp_consecutive_degraded_windows p). window_degraded ops p (take (length xs - j) xs))"
  by (rule triggers_iff [OF assms])

theorem migration_trigger_witness:
  "mts_should_trigger (last (fst (observe_samples integer_floats [lost_sample, lost_sample, lost_sample]
      (new_monitor strict_trigger)))) \<and>
   \<not> mts_should_trigger (last (fst (observe_samples integer_floats [lost_sample, lost_sample]
      (new_monitor strict_trigger))))"
proof -
  have p: "MigrationTriggerPolicy_init strict_trigger = Inr strict_trigger" by code_simp
  have d: "list_all (\<lambda>j. window_degraded integer_floats strict_trigger
      (take (3 - j) [lost_sample, lost_sample, lost_sample])) [0..<2]"
    "\<not> window_degraded integer_floats strict_trigger (take (2 - 1) [lost_sample, lost_sample])"
    by code_simp+
  have k: "nat (mtp_consecutive_degraded_windows strict_trigger) = 2" by code_simp
  show ?thesis
    using migration_trigger [OF p, of "[lost_sample, lost_sample, lost_sample]" integer_floats]
      migration_trigger [OF p, of "[lost_sample, lost_sample]" integer_floats] d
    by (auto simp: k list_all_iff numeral_2_eq_2 All_less_Suc)
qed

section \<open>Framing\<close>

text \<open>
  Framing of bodies (\<open>pack_body\<close>, \<open>unpack_body\<close>): a byte string unpacks to a view exactly when it is
  what \<open>pack_body\<close> makes of the view's regions, the prelude of the view states the region sizes,
  and each region passes the checks of \<open>unpack_body\<close> (\<open>body_regions_ok\<close>).
\<close>

theorem body_framing:
  "unpack_body bs = Inr v \<longleftrightarrow>
     bv_prelude v = prelude_of (bv_regions v) \<and> body_regions_ok (bv_regions v) \<and>
     pack_body (bv_regions v) = Inr bs"
  using body.unpack_iff_pack [of bs v] by (simp add: pack_body_view_def)

text \<open>
  C38.  Framing of packets (\<open>NnrpPacket.pack\<close>, \<open>NnrpPacket.unpack\<close>): a byte string unpacks to a packet
  exactly when that packet packs to it.  So no packet is lost or changed on the way, and no two
  byte strings are read as the same packet.
\<close>

theorem packet_framing: "NnrpPacket_unpack bs = Inr p \<longleftrightarrow> NnrpPacket_pack p = Inr bs"
  by (simp add: pkt.unpack_iff_pack)

text \<open>
  The common header (\<open>NnrpHeader.pack\<close>, \<open>NnrpHeader.unpack\<close>): a byte string is read as a header
  exactly when the header packs to it and, when the caller expects a wire format, has that wire
  format.  Wrong length, magic, header length, wire format or message type are all rejected.
\<close>

theorem header_codec:
  "NnrpHeader_unpack expected bs = Inr h \<longleftrightarrow>
     NnrpHeader_pack h = Inr bs \<and> expected \<in> {None, Some (hdr_wire_format h)}"
  by (cases expected) (auto simp: NnrpHeader_unpack_expected hdr.unpack_iff_pack res_simps)

section \<open>Metadata\<close>

text \<open>
  FRAME_SUBMIT metadata (\<open>FrameSubmitMetadata.pack\<close>, \<open>unpack\<close>): 72 bytes are read as a value exactly
  when the value passes the checks of the constructor (policies and bitmap known, operation id
  not zero, no tensor fields without the tensor bit) and packs to these bytes.
\<close>

theorem frame_submit_metadata_codec:
  "FrameSubmitMetadata_unpack bs = Inr m \<longleftrightarrow>
     FrameSubmitMetadata_post_init m = Inr m \<and> FrameSubmitMetadata_pack m = Inr bs"
  by (simp add: fsm.unpack_iff_pack FrameSubmitMetadata_wf_def)

text \<open>
  RESULT_PUSH metadata (\<open>ResultPushMetadata.pack\<close>, \<open>unpack\<close>), in the same way.
\<close>

theorem result_push_metadata_codec:
  "ResultPushMetadata_unpack bs = Inr m \<longleftrightarrow>
     ResultPushMetadata_post_init m = Inr m \<and> ResultPushMetadata_pack m = Inr bs"
  by (simp add: rpm.unpack_iff_pack ResultPushMetadata_wf_def)

text \<open>
  Coverage of a RESULT_PUSH: in metadata that came off the wire with the tensor bit set, the covered
  and the dropped tiles are non-negative and add up to the tile count, and a partial result drops
  at least one tile.
\<close>

theorem result_push_coverage:
  assumes "ResultPushMetadata_unpack bs = Inr m" "truthy (rpm_payload_kind_bitmap m AND PK_TENSOR)"
  shows "0 \<le> rpm_covered_tile_count m \<and> 0 \<le> rpm_dropped_tile_count m \<and>
    rpm_covered_tile_count m + rpm_dropped_tile_count m = rpm_tile_count m \<and>
    (rpm_result_class m = RC_PARTIAL \<longrightarrow> 0 < rpm_dropped_tile_count m)"
  using ResultPushMetadata_unpack_coverage [OF assms(1)] assms(2)
  by (auto simp: validate_result_push_tensor_coverage_def split: if_splits)

theorem result_push_coverage_witness:
  "\<exists>bs. ResultPushMetadata_unpack bs = Inr sample_partial \<and>
    rpm_covered_tile_count sample_partial + rpm_dropped_tile_count sample_partial = rpm_tile_count sample_partial"
proof -
  obtain bs where bs: "ResultPushMetadata_unpack bs = Inr sample_partial"
    using sample_partial_unpacks by blast
  have "truthy (rpm_payload_kind_bitmap sample_partial AND PK_TENSOR)"
    by (simp add: sample_partial_def)
  then show ?thesis
    using result_push_coverage [OF bs] bs by blast
qed

text \<open>
  Handshake and session metadata (\<open>CLIENT_HELLO\<close>, \<open>SERVER_HELLO_ACK\<close>, \<open>SESSION_OPEN\<close>,
  \<open>SESSION_PATCH\<close>, \<open>SESSION_PATCH_ACK\<close>): unpacking accepts exactly the byte strings that packing
  writes, and returns the value that was packed; \<open>pack\<close> and \<open>unpack\<close> apply the same validation.
\<close>

theorem session_metadata_codecs:
  "(ClientHelloMetadata_unpack bs = Inr m1 \<longleftrightarrow> ClientHelloMetadata_pack m1 = Inr bs) \<and>
   (ServerHelloAckMetadata_unpack bs = Inr m2 \<longleftrightarrow> ServerHelloAckMetadata_pack m2 = Inr bs) \<and>
   (SessionOpenMetadata_unpack bs = Inr m3 \<longleftrightarrow> SessionOpenMetadata_pack m3 = Inr bs) \<and>
   (SessionPatchMetadata_unpack bs = Inr m4 \<longleftrightarrow> SessionPatchMetadata_pack m4 = Inr bs) \<and>
   (SessionPatchAckMetadata_unpack bs = Inr m5 \<longleftrightarrow> SessionPatchAckMetadata_pack m5 = Inr bs)"
  by (simp add: chm.unpack_iff_pack sham.unpack_iff_pack som.unpack_iff_pack spm.unpack_iff_pack
      spam.unpack_iff_pack)

text \<open>
  Hints, transport probes, migration and errors: the same for \<open>RESULT_HINT\<close>, \<open>TRANSPORT_PROBE\<close> and its
  ack, \<open>SESSION_MIGRATE\<close> and its ack, and \<open>ERROR\<close>.
\<close>

theorem transport_metadata_codecs:
  "(ResultHintMetadata_unpack bs = Inr m1 \<longleftrightarrow> ResultHintMetadata_pack m1 = Inr bs) \<and>
   (TransportProbeMetadata_unpack bs = Inr m2 \<longleftrightarrow> TransportProbeMetadata_pack m2 = Inr bs) \<and>
   (TransportProbeAckMetadata_unpack bs = Inr m3 \<longleftrightarrow> TransportProbeAckMetadata_pack m3 = Inr bs) \<and>
   (SessionMigrateMetadata_unpack bs = Inr m4 \<longleftrightarrow> SessionMigrateMetadata_pack m4 = Inr bs) \<and>
   (SessionMigrateAckMetadata_unpack bs = Inr m5 \<longleftrightarrow> SessionMigrateAckMetadata_pack m5 = Inr bs) \<and>
   (ErrorMetadata_unpack bs = Inr m6 \<longleftrightarrow> ErrorMetadata_pack m6 = Inr bs)"
  by (simp add: rhm.unpack_iff_pack tpm.unpack_iff_pack tpam.unpack_iff_pack smm.unpack_iff_pack
      smam.unpack_iff_pack err.unpack_iff_pack)

text \<open>
  Cache and schema metadata (\<open>CACHE_PUT\<close>, \<open>CACHE_ACK\<close>, \<open>CACHE_INVALIDATE\<close>, the schema descriptor
  header and the typed payload descriptor): a byte string is read as a value exactly when the
  constructor accepts the value and it packs to that byte string.
\<close>

theorem cache_and_schema_codecs:
  "(CachePutMetadata_unpack bs = Inr m1 \<longleftrightarrow>
      CachePutMetadata_post_init m1 = Inr m1 \<and> CachePutMetadata_pack m1 = Inr bs) \<and>
   (CacheAckMetadata_unpack bs = Inr m2 \<longleftrightarrow> CacheAckMetadata_pack m2 = Inr bs) \<and>
   (CacheInvalidateMetadata_unpack bs = Inr m3 \<longleftrightarrow>
      CacheInvalidateMetadata_post_init m3 = Inr m3 \<and> CacheInvalidateMetadata_pack m3 = Inr bs) \<and>
   (SchemaDescriptorHeader_unpack bs = Inr m4 \<longleftrightarrow>
      SchemaDescriptorHeader_post_init m4 = Inr m4 \<and> SchemaDescriptorHeader_pack m4 = Inr bs) \<and>
   (TypedPayloadDescriptor_unpack bs = Inr m5 \<longleftrightarrow>
      TypedPayloadDescriptor_post_init m5 = Inr m5 \<and> TypedPayloadDescriptor_pack m5 = Inr bs)"
  by (simp add: cpm.unpack_iff_pack cam.unpack_iff_pack cim.unpack_iff_pack sdh.unpack_iff_pack
      tpd.unpack_iff_pack CachePutMetadata_wf_def CacheInvalidateMetadata_wf_def
      SchemaDescriptorHeader_wf_def TypedPayloadDescriptor_wf_def)

text \<open>
  Session patch bodies (\<open>pack_session_patch_body\<close>, \<open>unpack_session_patch_body\<close> and the ack versions):
  a body is read as an optional profile block exactly when it is what packing the block gives and
  the announced byte count is its length.
\<close>

theorem session_patch_bodies:
  "(unpack_session_patch_body bs n = Inr b \<longleftrightarrow> pack_session_patch_body b = Inr bs \<and> n = len bs) \<and>
   (unpack_session_patch_ack_body bs n = Inr k \<longleftrightarrow> pack_session_patch_ack_body k = Inr bs \<and> n = len bs)"
proof -
  have "TensorProfilePatchBlock_pack x = Inr bs \<Longrightarrow> length bs = 16"
    "TensorProfilePatchAckBlock_pack y = Inr bs \<Longrightarrow> length bs = 16" for x y
    using tppb.pack_size [of x bs] tppab.pack_size [of y bs] by simp_all
  then show ?thesis
    by (cases b; cases k)
      (auto simp: unpack_session_patch_body_def pack_session_patch_body_def
        unpack_session_patch_ack_body_def pack_session_patch_ack_body_def
        res_simps tppb.unpack_iff_pack tppab.unpack_iff_pack)
qed

text \<open>
  FLOW_UPDATE (\<open>build_flow_update_packet\<close>): in a packet that is built, the metadata is read back as
  given, the session id is zero exactly for connection scope, frame and view are zero, and only
  the credit of the scope can be non-zero.
\<close>

theorem flow_update_scope:
  assumes "build_flow_update_packet m r = Inr p"
  shows "FlowUpdateMetadata_unpack (pkt_metadata p) = Inr m \<and>
    (hdr_session_id (pkt_header p) = 0 \<longleftrightarrow> fum_scope_kind m = FUS_CONNECTION) \<and>
    hdr_frame_id (pkt_header p) = 0 \<and> hdr_view_id (pkt_header p) = 0 \<and>
    (fum_connection_credit m \<noteq> 0 \<longrightarrow> fum_scope_kind m = FUS_CONNECTION) \<and>
    (fum_session_credit m \<noteq> 0 \<longrightarrow> fum_scope_kind m = FUS_SESSION) \<and>
    (fum_operation_credit m \<noteq> 0 \<longrightarrow> fum_scope_kind m = FUS_OPERATION \<and> fum_operation_id m \<noteq> 0)"
proof -
  obtain bs where bs: "FlowUpdateMetadata_pack m = Inr bs"
    and p: "p = NnrpPacket_build 1 WF_CURRENT MT_FLOW_UPDATE (r\<lparr>pr_frame_id := 0, pr_view_id := 0\<rparr>) bs []"
    and scope: "pr_session_id r = 0 \<longleftrightarrow> fum_scope_kind m = FUS_CONNECTION"
    using assms by (cases "fum_scope_kind m") (auto simp: build_flow_update_packet_def res_simps split: if_splits)
  have "FlowUpdateMetadata_validate m = Inr ()"
    using bs by (auto simp: FlowUpdateMetadata_pack_def fixed_width_pack_def res_simps)
  then have "(fum_connection_credit m \<noteq> 0 \<longrightarrow> fum_scope_kind m = FUS_CONNECTION) \<and>
    (fum_session_credit m \<noteq> 0 \<longrightarrow> fum_scope_kind m = FUS_SESSION) \<and>
    (fum_operation_credit m \<noteq> 0 \<longrightarrow> fum_scope_kind m = FUS_OPERATION \<and> fum_operation_id m \<noteq> 0)"
    by (cases "fum_scope_kind m") (auto simp: FlowUpdateMetadata_validate_def split: if_splits)
  moreover have "hdr_view_id (pkt_header p) = 0"
    by (simp add: p NnrpPacket_build_def)
  ultimately show ?thesis
    using fum.unpack_pack [OF TrueI bs] scope p by simp
qed

theorem flow_update_scope_witness:
  "\<exists>p. build_flow_update_packet sample_flow (no_route\<lparr>pr_session_id := 5\<rparr>) = Inr p \<and>
    FlowUpdateMetadata_unpack (pkt_metadata p) = Inr sample_flow \<and> hdr_session_id (pkt_header p) \<noteq> 0"
proof -
  obtain p where p: "build_flow_update_packet sample_flow (no_route\<lparr>pr_session_id := 5\<rparr>) = Inr p"
    using acceptedD [OF sample_flow_builds] by blast
  show ?thesis
    using flow_update_scope [OF p] p by (auto simp: sample_flow_def)
qed

section \<open>Runtime frames\<close>



text \<open>
  \<open>decode_websocket_binary_frame_batch\<close> returns frames exactly when the packet loop of the stream
  adapters consumes the whole batch, and the frames are those packets; the limit, if positive,
  bounds their number.
\<close>

theorem websocket_batch_reader:
  "decode_websocket_binary_frame_batch batch limit = Inr fs \<longleftrightarrow>
    0 \<le> limit \<and> (limit = 0 \<or> len fs \<le> limit) \<and>
    (\<exists>ps. unpack_packets batch = (ps, Inr []) \<and> fs = map packet_frame ps)"
  by (rule websocket_batch_packets)

section \<open>Body regions\<close>

text \<open>
  Tile index blocks (\<open>pack_tile_index_block\<close>, \<open>unpack_tile_index_block\<close>): in each of the four
  modes, a block that packs is decoded to the ids it was packed from.
\<close>

theorem tile_index_round_trip:
  assumes "pack_tile_index_block ids mode base = Inr bs"
  shows "unpack_tile_index_block bs mode (len ids) base = Inr ids"
  using assms by (rule tix.unpack_pack [rotated]) simp

theorem tile_index_round_trip_witness:
  "pack_tile_index_block [1, 9, 10] TIM_BITSET 0 = Inr [2, 6] \<and>
   unpack_tile_index_block [2, 6] TIM_BITSET (len [1 :: int, 9, 10]) 0 = Inr [1, 9, 10]"
proof -
  have p: "pack_tile_index_block [1, 9, 10] TIM_BITSET 0 = Inr [2, 6]"
    by code_simp
  show ?thesis
    using p tile_index_round_trip [OF p] by simp
qed

text \<open>
  Size and contents of a tile index block: ids that pack are 16-bit values, strictly increasing in
  the delta and bitset modes, and the block has no bytes for a dense range, two bytes per id for
  the raw and delta modes, and one byte per eight ids up to the last for a bitset.
\<close>

theorem tile_index_size:
  assumes "pack_tile_index_block ids mode base = Inr bs"
  shows "(\<forall>t \<in> set ids. 0 \<le> t \<and> t < 2 ^ 16) \<and>
    (mode \<in> {TIM_DELTA_U16, TIM_BITSET} \<longrightarrow> sorted_wrt (<) ids) \<and>
    len bs = (case mode of TIM_DENSE_RANGE \<Rightarrow> 0 | TIM_RAW_U16 \<Rightarrow> 2 * len ids
      | TIM_DELTA_U16 \<Rightarrow> 2 * len ids | TIM_BITSET \<Rightarrow> if ids = [] then 0 else last ids div 8 + 1)"
  using pack_tile_index_block_ids [OF assms] pack_tile_index_block_length [OF assms] by auto

theorem tile_index_size_witness:
  "len [3 :: 8 word, 0, 6, 0] = 2 * len [3 :: int, 9] \<and>
   pack_tile_index_block [3, 9] TIM_DELTA_U16 0 = Inr [3, 0, 6, 0]"
proof -
  have p: "pack_tile_index_block [3, 9] TIM_DELTA_U16 0 = Inr [3, 0, 6, 0]"
    by code_simp
  show ?thesis
    using p tile_index_size [OF p] by simp
qed

text \<open>
  Tensor sections (\<open>pack_tensor_section_data\<close>, \<open>parse_tensor_section\<close>): a packed section in front of
  any other bytes is parsed to a view that describes it -- the same tile payloads, with or without
  a fixed stride, the same codec for every tile and the same descriptor fields -- and the parser
  consumes exactly the bytes of the section.
\<close>

theorem tensor_section_round_trip:
  assumes "pack_tensor_section_data s = Inr bs"
  shows "\<exists>v. parse_tensor_section (bs @ rest) = Inr (v, len bs) \<and> describes v s"
  using assms by (rule pack_tensor_section_data_parse)

theorem tensor_section_round_trip_witness:
  "\<exists>bs v. pack_tensor_section_data sample_section = Inr bs \<and>
    parse_tensor_section (bs @ [7]) = Inr (v, len bs) \<and> payload_slices v = Inr [[1, 2], [3]]"
proof -
  have "accepted (pack_tensor_section_data sample_section)"
    by code_simp
  then obtain bs where bs: "pack_tensor_section_data sample_section = Inr bs"
    using acceptedD by blast
  show ?thesis
    using tensor_section_round_trip [OF bs, of "[7]"] bs
    by (auto simp: describes_def sample_section_def)
qed

text \<open>
  Tables of tensor sections (\<open>_pack_section_sequence\<close>, \<open>_pack_tensor_section_region\<close>,
  \<open>unpack_tensor_body\<close>): the aligned, zero-padded table of the packed sections is unpacked to views
  that describe the same sections, in order, with nothing left over.
\<close>

theorem tensor_table_round_trip:
  assumes "pack_section_sequence ss n = Inr ps" "pack_tensor_section_region ps = Inr region"
  shows "\<exists>vs. unpack_tensor_body region 0 (len ss) (Some n) =
      Inr \<lparr>tbv_tile_index_block = [], tbv_sections = vs\<rparr> \<and> list_all2 describes vs ss"
  using assms by (rule unpack_tensor_body_pack)

theorem tensor_table_round_trip_witness:
  "\<exists>ps region vs. pack_section_sequence [sample_section, sample_section\<lparr>tdat_role_id := 4\<rparr>] 2 = Inr ps \<and>
    pack_tensor_section_region ps = Inr region \<and>
    unpack_tensor_body region 0 2 (Some 2) = Inr \<lparr>tbv_tile_index_block = [], tbv_sections = vs\<rparr> \<and> length vs = 2"
proof -
  have "accepted (bind_res (pack_section_sequence [sample_section, sample_section\<lparr>tdat_role_id := 4\<rparr>] 2)
      (\<lambda>ps. bind_res (pack_tensor_section_region ps) (\<lambda>r. Inr (ps, r))))"
    by code_simp
  then obtain ps region where p: "pack_section_sequence [sample_section, sample_section\<lparr>tdat_role_id := 4\<rparr>] 2 = Inr ps"
    "pack_tensor_section_region ps = Inr region"
    by (auto dest!: acceptedD simp: res_simps)
  show ?thesis
    using tensor_table_round_trip [OF p] p by (auto dest: list_all2_lengthD)
qed

text \<open>
  Inline object regions (\<open>pack_inline_object_block\<close>, \<open>unpack_inline_object_blocks\<close>): a region is split
  into blocks exactly when it is the concatenation of the packed blocks, each with a header the
  constructor accepts, its payload and zero padding.  The splitting loop returns on every region.
\<close>

theorem inline_object_framing:
  "unpack_inline_object_blocks region = Inr vs \<longleftrightarrow>
     list_all (\<lambda>v. InlineObjectBlockHeader_post_init (iov_header v) = Inr (iov_header v)) vs \<and>
     pack_table (\<lambda>v. pack_inline_object_block (iov_header v) (iov_payload v)) vs = Inr region"
  using iovs.unpack_iff_pack [of region vs]
  by (simp add: pack_inline_object_blocks_def InlineObjectBlockHeader_wf_def [abs_def])

text \<open>
  Tables of fixed-size entries (object references, typed payload descriptors, extension frame
  descriptors): a region is read as a table exactly when every entry is one the constructor accepts
  and the entries pack to the region.
\<close>

theorem descriptor_tables:
  "(unpack_object_reference_blocks bs = Inr rs \<longleftrightarrow>
      list_all (\<lambda>r. ObjectReferenceBlock_post_init r = Inr r) rs \<and> pack_object_reference_blocks rs = Inr bs) \<and>
   (unpack_typed_payload_descriptors bs = Inr ds \<longleftrightarrow>
      list_all (\<lambda>d. TypedPayloadDescriptor_post_init d = Inr d) ds \<and> pack_typed_payload_descriptors ds = Inr bs) \<and>
   (unpack_extension_frame_descriptors bs = Inr es \<longleftrightarrow>
      list_all (\<lambda>d. ExtensionFrameDescriptor_post_init d = Inr d) es \<and> pack_extension_frame_descriptors es = Inr bs)"
  using orbs.unpack_iff_pack [of bs rs] tpds.unpack_iff_pack [of bs ds] efds.unpack_iff_pack [of bs es]
  by (simp add: ObjectReferenceBlock_wf_def [abs_def] TypedPayloadDescriptor_wf_def [abs_def]
      ExtensionFrameDescriptor_wf_def [abs_def])

text \<open>
  Typed payload frames (\<open>pack_typed_payload_frames\<close>, \<open>unpack_typed_payload_frames\<close>): frames that pack
  are read back in normal form, in order, by every bitmap whose non-tensor bits are the union of
  their kinds.
\<close>

theorem typed_frames_round_trip:
  assumes "pack_typed_payload_frames frames = Inr (table, region)"
    and "map_res build_typed_payload_frame frames = Inr ns"
    and "PayloadKind_call bitmap AND 126 = frame_kind_union ns"
  shows "unpack_typed_payload_frames table region bitmap = Inr ns"
  using assms by (rule unpack_typed_payload_frames_pack)

theorem typed_frames_round_trip_witness:
  "\<exists>table region. pack_typed_payload_frames sample_frames = Inr (table, region) \<and>
    unpack_typed_payload_frames table region 7 = Inr sample_frames"
proof -
  have "accepted (pack_typed_payload_frames sample_frames)"
    by code_simp
  then obtain table region where p: "pack_typed_payload_frames sample_frames = Inr (table, region)"
    by (auto dest!: acceptedD)
  have n: "map_res build_typed_payload_frame sample_frames = Inr sample_frames"
    "PayloadKind_call 7 AND 126 = frame_kind_union sample_frames"
    by code_simp+
  show ?thesis
    using typed_frames_round_trip [OF p n] p by blast
qed

text \<open>
  Layout of received typed payloads (\<open>unpack_typed_payload_frames\<close>), for any bytes: the frames are the
  slices the descriptors name, every slice lies inside the region, slices follow each other without
  overlap, and the union of the kinds is the non-tensor part of the bitmap.
\<close>

theorem typed_frames_layout:
  assumes "unpack_typed_payload_frames table region bitmap = Inr frames"
  shows "\<exists>ds. unpack_typed_payload_descriptors table = Inr ds \<and>
    frames = map (typed_frame_of_descriptor region) ds \<and>
    (\<forall>d \<in> set ds. 0 \<le> tpd_offset d \<and> 0 \<le> tpd_length d \<and> tpd_offset d + tpd_length d \<le> len region) \<and>
    sorted_wrt (\<lambda>d e. tpd_offset d + tpd_length d \<le> tpd_offset e) ds \<and>
    frame_kind_union frames = PayloadKind_call bitmap AND 126"
  using assms by (rule unpack_typed_payload_frames_layout)

theorem typed_frames_layout_witness:
  "\<exists>table region frames. unpack_typed_payload_frames table region 7 = Inr frames \<and>
    frame_kind_union frames = PayloadKind_call 7 AND 126"
proof -
  have "accepted (bind_res (pack_typed_payload_frames sample_frames)
      (\<lambda>(t, r). unpack_typed_payload_frames t r 7))"
    by code_simp
  then obtain table region frames where u: "unpack_typed_payload_frames table region 7 = Inr frames"
    by (auto dest!: acceptedD simp: res_simps)
  show ?thesis
    using typed_frames_layout [OF u] u by blast
qed

text \<open>
  Extension frames (\<open>pack_extension_frames\<close>, \<open>unpack_extension_frames\<close>): frames that pack are read
  back unchanged, except that a receiver with a set of known kinds skips unknown frames, and
  rejects the whole region when an unknown frame is critical.
\<close>

theorem extension_frames_round_trip:
  assumes "pack_extension_frames frames = Inr (table, region)"
  shows "unpack_extension_frames table region known =
    (if list_ex (\<lambda>f. extension_unknown known f \<and> extension_critical f) frames
     then ve ''unknown critical extension frame kind''
     else Inr (filter (\<lambda>f. \<not> extension_unknown known f) frames))"
  using assms by (rule unpack_extension_frames_pack)

theorem extension_frames_round_trip_witness:
  "\<exists>table region. pack_extension_frames
      [\<lparr>xfr_extension_kind = 9, xfr_payload = [1], xfr_profile_id = 0, xfr_extension_flags = 0\<rparr>] = Inr (table, region) \<and>
    unpack_extension_frames table region (Some {}) = Inr []"
proof -
  have "accepted (pack_extension_frames
      [\<lparr>xfr_extension_kind = 9, xfr_payload = [1], xfr_profile_id = 0, xfr_extension_flags = 0\<rparr>])"
    by code_simp
  then obtain table region where p: "pack_extension_frames
      [\<lparr>xfr_extension_kind = 9, xfr_payload = [1], xfr_profile_id = 0, xfr_extension_flags = 0\<rparr>] = Inr (table, region)"
    by (auto dest!: acceptedD)
  show ?thesis
    using extension_frames_round_trip [OF p, of "Some {}"] p
    by (simp add: extension_unknown_def extension_critical_def)
qed

section \<open>What the builders do not check\<close>

text \<open>
  C40.  A FRAME_SUBMIT built by \<open>build_frame_submit_packet\<close> without the tensor bit has an empty body, and
  the builder does not run the receiver's checks on it.  The receiver accepts it exactly when the
  bitmap is empty: a packet that announces, say, token chunks is built but always rejected.
\<close>

theorem plain_submit_acceptance:
  assumes "build_frame_submit_packet a = Inr p"
    and "\<not> truthy (fsa_payload_kind_bitmap a AND PK_TENSOR)"
  shows "\<exists>m. FrameSubmitMetadata_unpack (pkt_metadata p) = Inr m \<and>
    fsm_payload_kind_bitmap m = fsa_payload_kind_bitmap a \<and>
    ((\<exists>v. validate_frame_submit_body m (pkt_body p) = Inr v) \<longleftrightarrow> fsa_payload_kind_bitmap a = 0)"
  using assms by (rule build_frame_submit_plain_view)

theorem plain_submit_acceptance_witness:
  "\<exists>p m. build_frame_submit_packet sample_bare_submit = Inr p \<and>
    FrameSubmitMetadata_unpack (pkt_metadata p) = Inr m \<and>
    (\<nexists>v. validate_frame_submit_body m (pkt_body p) = Inr v)"
proof -
  obtain p where p: "build_frame_submit_packet sample_bare_submit = Inr p"
    using acceptedD [OF sample_bare_submit_builds] by blast
  have "\<not> truthy (fsa_payload_kind_bitmap sample_bare_submit AND PK_TENSOR)"
    "fsa_payload_kind_bitmap sample_bare_submit \<noteq> 0"
    by (simp_all add: sample_bare_submit_def)
  then show ?thesis
    using plain_submit_acceptance [OF p] p by blast
qed

text \<open>
  A typed frame whose kind is a single bit above the known ones passes the frame builder and packs,
  but the receiver reads the table under no bitmap at all.
\<close>

theorem unknown_kind_never_read:
  assumes "pack_typed_payload_frames frames = Inr (table, region)"
    and "f \<in> set frames" "126 < tfr_payload_kind f"
  shows "unpack_typed_payload_frames table region bitmap \<noteq> Inr ns"
  using assms by (rule unknown_kind_unreadable)

theorem unknown_kind_never_read_witness:
  "\<exists>table region. pack_typed_payload_frames [sample_frame 128 2 [5]] = Inr (table, region) \<and>
    (\<nexists>ns. unpack_typed_payload_frames table region 128 = Inr ns)"
proof -
  have "accepted (pack_typed_payload_frames [sample_frame 128 2 [5]])"
    by code_simp
  then obtain table region where p: "pack_typed_payload_frames [sample_frame 128 2 [5]] = Inr (table, region)"
    by (auto dest!: acceptedD)
  have "126 < tfr_payload_kind (sample_frame 128 2 [5])"
    by (simp add: sample_frame_def)
  then show ?thesis
    using unknown_kind_never_read [OF p, of "sample_frame 128 2 [5]" 128] p by auto
qed

text \<open>
  Unlike the other metadata, FLOW_UPDATE is not a canonical encoding: its two reserved fields are
  written as zero but not checked when decoding, so two different byte strings are read as the
  same value.
\<close>

theorem flow_update_reserved_ignored:
  "\<exists>bs bs' m. bs \<noteq> bs' \<and> FlowUpdateMetadata_unpack bs = Inr m \<and> FlowUpdateMetadata_unpack bs' = Inr m \<and>
     FlowUpdateMetadata_pack m = Inr bs"
proof -
  define bs where "bs = (case FlowUpdateMetadata_pack sample_flow of Inr b \<Rightarrow> b | Inl e \<Rightarrow> [])"
  have "FlowUpdateMetadata_pack sample_flow = Inr bs" "FlowUpdateMetadata_unpack bs = Inr sample_flow"
    "FlowUpdateMetadata_unpack (bs[3 := 1]) = Inr sample_flow" "bs \<noteq> bs[3 := 1]"
    unfolding bs_def by code_simp+
  then show ?thesis by blast
qed

end
